(* ===== verification/Prelude.thy ===== *)
theory Prelude
  imports Main "HOL-Library.List_Lexorder" "HOL-Library.Char_ord" "HOL-Library.Sublist"
begin

text \<open>
  Shared vocabulary of the development: the exceptions the Python code raises, results as sums,
  the text helpers the source uses (\<open>str.strip\<close>, \<open>str.casefold\<close>, substring tests, decimal
  formatting), Python dictionaries as association lists in insertion order, and the generic list
  lemmas several components use. Text is modelled as its UTF-8 bytes (\<open>string\<close> is a list of
  8-bit characters); case folding and white space are those of the ASCII range.
\<close>

section \<open>Collections of facts\<close>

named_theorems exec_simps \<open>equations that run a definition on concrete arguments\<close>
named_theorems frame_simps \<open>what an operation leaves unchanged\<close>

section \<open>Exceptions and results\<close>

text \<open>The exception classes that the modelled code raises or catches. The text of an internal
  exception never leaves the server, so only its class is kept; the public error of
  \<open>OdooMcpError\<close> is a value of its own in the theory of error codes.\<close>

datatype py_exc =
    ValueError
  | TypeError
  | RuntimeError
  | IntegrityError                 \<comment> \<open>a constraint or trigger of the schema\<close>
  | OperationalError               \<comment> \<open>the database cannot begin or commit\<close>
  | AuditIntegrityError
  | ProposalTransitionError
  | IdempotencyPayloadMismatch
  | IdempotencyTransitionError
  | ConnectionDecryptionError
  | StorageCorruptionError
  | RegistrationError string
  | AuthorizeError string
  | TokenError string

type_synonym 'a res = "py_exc + 'a"

definition ebind :: "'e + 'a \<Rightarrow> ('a \<Rightarrow> 'e + 'b) \<Rightarrow> 'e + 'b" where
  "ebind m f = (case m of Inl e \<Rightarrow> Inl e | Inr x \<Rightarrow> f x)"

lemma ebind_simps [simp]:
  "ebind (Inl e) f = Inl e"
  "ebind (Inr x) f = f x"
  by (simp_all add: ebind_def)

lemma ebind_eq_Inr [simp]: "ebind m f = Inr y \<longleftrightarrow> (\<exists>x. m = Inr x \<and> f x = Inr y)"
  by (cases m) auto

lemma ebind_eq_Inl: "ebind m f = Inl e \<longleftrightarrow> m = Inl e \<or> (\<exists>x. m = Inr x \<and> f x = Inl e)"
  by (cases m) auto

text \<open>\<open>guard_ok c e\<close> is the statement \<open>if not c: raise e\<close>.\<close>

definition guard_ok :: "bool \<Rightarrow> 'e \<Rightarrow> 'e + unit" where
  "guard_ok c e = (if c then Inr () else Inl e)"

lemma guard_ok_simps [simp]:
  "guard_ok True e = Inr ()"
  "guard_ok False e = Inl e"
  "guard_ok c e = Inr u \<longleftrightarrow> c"
  "guard_ok c e = Inl e' \<longleftrightarrow> \<not> c \<and> e' = e"
  by (auto simp: guard_ok_def)

text \<open>A loop that stops at the first exception.\<close>

fun each_ok :: "('a \<Rightarrow> 'e + unit) \<Rightarrow> 'a list \<Rightarrow> 'e + unit" where
  "each_ok f [] = Inr ()"
| "each_ok f (x # xs) = ebind (f x) (\<lambda>_. each_ok f xs)"

lemma each_ok_Inr [simp]: "each_ok f xs = Inr u \<longleftrightarrow> (\<forall>x \<in> set xs. f x = Inr ())"
  by (induction xs) auto

fun emap :: "('a \<Rightarrow> 'e + 'b) \<Rightarrow> 'a list \<Rightarrow> 'e + 'b list" where
  "emap f [] = Inr []"
| "emap f (x # xs) = ebind (f x) (\<lambda>y. ebind (emap f xs) (\<lambda>ys. Inr (y # ys)))"

lemma emap_Inr: "emap f xs = Inr ys \<longleftrightarrow> list_all2 (\<lambda>x y. f x = Inr y) xs ys"
  by (induction xs arbitrary: ys) (auto simp: list_all2_Cons1)

lemma emap_length: "emap f xs = Inr ys \<Longrightarrow> length ys = length xs"
  by (metis emap_Inr list_all2_lengthD)

lemma emap_total: "(\<And>x. x \<in> set xs \<Longrightarrow> f x = Inr (g x)) \<Longrightarrow> emap f xs = Inr (map g xs)"
  by (induction xs) auto

section \<open>Text\<close>

definition is_space :: "char \<Rightarrow> bool" where
  "is_space c \<longleftrightarrow>
     (let n = (of_char c :: nat) in (9 \<le> n \<and> n \<le> 13) \<or> (28 \<le> n \<and> n \<le> 32))"

text \<open>\<open>blank s\<close> is \<open>not s.strip()\<close>.\<close>

definition blank :: "string \<Rightarrow> bool" where
  "blank s \<longleftrightarrow> list_all is_space s"

definition py_strip :: "string \<Rightarrow> string" where
  "py_strip s = rev (dropWhile is_space (rev (dropWhile is_space s)))"

lemma dropWhile_all_Nil: "dropWhile P xs = [] \<longleftrightarrow> list_all P xs"
  by (induction xs) auto

lemma blank_strip: "blank s \<longleftrightarrow> py_strip s = []"
proof -
  have "list_all is_space (dropWhile is_space s) \<longleftrightarrow> list_all is_space s"
    by (induction s) auto
  then show ?thesis by (simp add: blank_def py_strip_def list_all_iff)
qed

definition lower_char :: "char \<Rightarrow> char" where
  "lower_char c =
     (let n = (of_char c :: nat) in if 65 \<le> n \<and> n \<le> 90 then char_of (n + 32) else c)"

definition casefold :: "string \<Rightarrow> string" where
  "casefold s = map lower_char s"

lemma of_char_less_256: "(of_char c :: nat) < 256"
proof -
  have "(of_char c :: nat) \<in> range of_char" by blast
  then show ?thesis by (simp add: range_nat_of_char)
qed

lemma lower_char_idem [simp]: "lower_char (lower_char c) = lower_char c"
proof (cases "65 \<le> (of_char c :: nat) \<and> (of_char c :: nat) \<le> 90")
  case True
  then have "(of_char (char_of ((of_char c :: nat) + 32) :: char) :: nat) = of_char c + 32"
    by (simp add: of_char_of)
  with True show ?thesis by (simp add: lower_char_def Let_def)
next
  case False
  then have "lower_char c = c" by (auto simp: lower_char_def Let_def)
  then show ?thesis by simp
qed

lemma casefold_idem [simp]: "casefold (casefold s) = casefold s"
  by (simp add: casefold_def)

text \<open>\<open>contains part s\<close> is \<open>part in s\<close>.\<close>

fun contains :: "string \<Rightarrow> string \<Rightarrow> bool" where
  "contains part [] = (part = [])"
| "contains part (c # cs) = (prefix part (c # cs) \<or> contains part cs)"

lemma contains_sublist: "contains part s \<longleftrightarrow> (\<exists>u v. s = u @ part @ v)"
proof (induction s)
  case (Cons c cs)
  have "(\<exists>u v. c # cs = u @ part @ v) \<longleftrightarrow>
      prefix part (c # cs) \<or> (\<exists>u v. cs = u @ part @ v)"
    by (auto simp: prefix_def Cons_eq_append_conv)
  with Cons show ?case by simp
qed auto

fun join :: "string \<Rightarrow> string list \<Rightarrow> string" where
  "join sep [] = []"
| "join sep [x] = x"
| "join sep (x # y # zs) = x @ sep @ join sep (y # zs)"

text \<open>\<open>str.split()\<close>.\<close>

fun split_words :: "string \<Rightarrow> string \<Rightarrow> string list" where
  "split_words acc [] = (if acc = [] then [] else [acc])"
| "split_words acc (c # cs) =
    (if is_space c then (if acc = [] then split_words [] cs else acc # split_words [] cs)
     else split_words (acc @ [c]) cs)"

definition py_split :: "string \<Rightarrow> string list" where
  "py_split s = split_words [] s"

subsection \<open>Decimal numerals\<close>

definition digit_char :: "nat \<Rightarrow> char" where
  "digit_char d = char_of (48 + d)"

definition is_digit :: "char \<Rightarrow> bool" where
  "is_digit c \<longleftrightarrow> (let n = (of_char c :: nat) in 48 \<le> n \<and> n \<le> 57)"

definition digit_val :: "char \<Rightarrow> nat" where
  "digit_val c = of_char c - 48"

fun nat_text :: "nat \<Rightarrow> string" where
  "nat_text n = (if n < 10 then [digit_char n] else nat_text (n div 10) @ [digit_char (n mod 10)])"

declare nat_text.simps [simp del]

definition int_text :: "int \<Rightarrow> string" where
  "int_text i = (if i < 0 then CHR ''-'' # nat_text (nat (- i)) else nat_text (nat i))"

text \<open>Reading a run of digits: the value and what follows.\<close>

fun digits_val :: "nat \<Rightarrow> string \<Rightarrow> nat" where
  "digits_val acc [] = acc"
| "digits_val acc (c # cs) = digits_val (10 * acc + digit_val c) cs"

lemma digit_char_props [simp]:
  assumes "d < 10"
  shows "is_digit (digit_char d)" and "digit_val (digit_char d) = d"
proof -
  have "(of_char (char_of (48 + d) :: char) :: nat) = 48 + d"
    using assms by (simp add: of_char_of)
  with assms show "is_digit (digit_char d)" "digit_val (digit_char d) = d"
    by (simp_all add: is_digit_def digit_val_def digit_char_def Let_def)
qed

lemma digits_val_append: "digits_val acc (xs @ ys) = digits_val (digits_val acc xs) ys"
  by (induction xs arbitrary: acc) auto

lemma nat_text_digits: "list_all is_digit (nat_text n)"
proof (induction n rule: nat_text.induct)
  case (1 n)
  then show ?case by (subst nat_text.simps) auto
qed

lemma nat_text_val: "digits_val 0 (nat_text n) = n"
proof (induction n rule: nat_text.induct)
  case (1 n)
  show ?case
  proof (cases "n < 10")
    case True
    then show ?thesis by (subst nat_text.simps) simp
  next
    case False
    with 1 have "digits_val 0 (nat_text (n div 10)) = n div 10" by simp
    moreover have "n mod 10 < 10" by simp
    ultimately show ?thesis using False
      by (subst nat_text.simps) (simp add: digits_val_append)
  qed
qed

lemma nat_text_not_Nil [simp]: "nat_text n \<noteq> []"
  by (subst nat_text.simps) simp

lemma nat_text_inject: "nat_text m = nat_text n \<longleftrightarrow> m = n"
  by (metis nat_text_val)

text \<open>Zero-padded numerals, \<open>f"{n:0wd}"\<close>.\<close>

definition padded :: "nat \<Rightarrow> nat \<Rightarrow> string" where
  "padded w n = replicate (w - length (nat_text n)) (CHR ''0'') @ nat_text n"

section \<open>Dictionaries\<close>

text \<open>A Python dictionary is an association list with distinct keys, in insertion order.
  \<open>dict_put\<close> is \<open>d[k] = v\<close>: an existing key keeps its place.\<close>

fun dict_put :: "'k \<Rightarrow> 'v \<Rightarrow> ('k \<times> 'v) list \<Rightarrow> ('k \<times> 'v) list" where
  "dict_put k v [] = [(k, v)]"
| "dict_put k v (p # ps) = (if fst p = k then (k, v) # ps else p # dict_put k v ps)"

fun dict_update :: "('k \<times> 'v) list \<Rightarrow> ('k \<times> 'v) list \<Rightarrow> ('k \<times> 'v) list" where
  "dict_update d [] = d"
| "dict_update d ((k, v) # ps) = dict_update (dict_put k v d) ps"

definition keys :: "('k \<times> 'v) list \<Rightarrow> 'k list" where
  "keys d = map fst d"

lemma map_of_dict_put [simp]: "map_of (dict_put k v d) = (map_of d)(k \<mapsto> v)"
  by (induction d) auto

lemma keys_dict_put: "set (keys (dict_put k v d)) = insert k (set (keys d))"
  by (induction d) (auto simp: keys_def)

lemma distinct_dict_put: "distinct (keys d) \<Longrightarrow> distinct (keys (dict_put k v d))"
proof (induction d)
  case (Cons p ps)
  then show ?case using keys_dict_put [of k v ps] by (auto simp: keys_def)
qed (simp add: keys_def)

lemma distinct_dict_update: "distinct (keys d) \<Longrightarrow> distinct (keys (dict_update d ps))"
  by (induction d ps rule: dict_update.induct) (auto simp: distinct_dict_put)

lemma map_of_dict_update: "map_of (dict_update d ps) = map_of d ++ map_of (rev ps)"
  by (induction d ps rule: dict_update.induct) (auto simp: map_add_def fun_eq_iff split: option.splits)

lemma dict_put_new: "k \<notin> set (keys d) \<Longrightarrow> dict_put k v d = d @ [(k, v)]"
  by (induction d) (auto simp: keys_def)

lemma dict_update_new:
  "distinct (keys ps) \<Longrightarrow> set (keys d) \<inter> set (keys ps) = {} \<Longrightarrow> dict_update d ps = d @ ps"
proof (induction d ps rule: dict_update.induct)
  case (2 d k v ps)
  then have "dict_put k v d = d @ [(k, v)]" by (intro dict_put_new) (auto simp: keys_def)
  with 2 show ?case by (auto simp: keys_def)
qed simp

lemma set_dict_put: "set (dict_put k v d) \<subseteq> insert (k, v) (set d)"
  by (induction d) auto

lemma set_dict_update: "set (dict_update d ps) \<subseteq> set d \<union> set ps"
proof (induction d ps rule: dict_update.induct)
  case (2 d k v ps)
  then show ?case using set_dict_put [of k v d] by auto
qed simp

section \<open>Lists of rows\<close>

text \<open>\<open>SELECT ... LIMIT 1\<close> over a table, in row order.\<close>

fun find_row :: "('r \<Rightarrow> bool) \<Rightarrow> 'r list \<Rightarrow> 'r option" where
  "find_row P [] = None"
| "find_row P (r # rs) = (if P r then Some r else find_row P rs)"

lemma find_row_Some: "find_row P rs = Some r \<Longrightarrow> r \<in> set rs \<and> P r"
  by (induction rs) (auto split: if_splits)

lemma find_row_None: "find_row P rs = None \<longleftrightarrow> (\<forall>r \<in> set rs. \<not> P r)"
  by (induction rs) auto

lemma find_row_append:
  "find_row P (xs @ ys) = (case find_row P xs of Some r \<Rightarrow> Some r | None \<Rightarrow> find_row P ys)"
  by (induction xs) auto

text \<open>\<open>UPDATE ... WHERE\<close>: the updated rows and the row count.\<close>

definition update_rows :: "('r \<Rightarrow> bool) \<Rightarrow> ('r \<Rightarrow> 'r) \<Rightarrow> 'r list \<Rightarrow> 'r list" where
  "update_rows P f rs = map (\<lambda>r. if P r then f r else r) rs"

definition count_rows :: "('r \<Rightarrow> bool) \<Rightarrow> 'r list \<Rightarrow> nat" where
  "count_rows P rs = length (filter P rs)"

lemma count_rows_0: "count_rows P rs = 0 \<longleftrightarrow> (\<forall>r \<in> set rs. \<not> P r)"
  by (auto simp: count_rows_def filter_empty_conv)

lemma update_rows_none: "\<forall>r \<in> set rs. \<not> P r \<Longrightarrow> update_rows P f rs = rs"
  unfolding update_rows_def by (induction rs) auto

lemma set_update_rows:
  "r \<in> set (update_rows P f rs) \<longleftrightarrow> (\<exists>r0 \<in> set rs. r = (if P r0 then f r0 else r0))"
  by (auto simp: update_rows_def)

lemma find_row_update_rows:
  assumes "\<And>r. Q (f r) = Q r"
  shows "find_row Q (update_rows P f rs) =
    map_option (\<lambda>r. if P r then f r else r) (find_row Q rs)"
  by (induction rs) (auto simp: update_rows_def assms)

text \<open>\<open>SELECT MAX(id)\<close>-style choice of the newest row.\<close>

definition last_row :: "('r \<Rightarrow> bool) \<Rightarrow> 'r list \<Rightarrow> 'r option" where
  "last_row P rs = (case rev (filter P rs) of [] \<Rightarrow> None | r # _ \<Rightarrow> Some r)"

lemma last_row_snoc: "last_row P (rs @ [r]) = (if P r then Some r else last_row P rs)"
  by (simp add: last_row_def)

lemma last_row_filter:
  "last_row P rs = (if filter P rs = [] then None else Some (last (filter P rs)))"
  by (cases "filter P rs" rule: rev_cases) (auto simp: last_row_def)

lemma sort_key_map: "sort_key f (map g xs) = map g (sort_key (\<lambda>x. f (g x)) xs)"
proof -
  have ins: "insort_key f (g x) (map g ys) = map g (insort_key (\<lambda>x. f (g x)) x ys)" for x ys
    by (induction ys) auto
  show ?thesis by (induction xs) (auto simp: ins)
qed

end
