(* ===== verification/Json.thy ===== *)
theory Json
  imports Prelude "HOL-Library.Multiset"
begin

text \<open>
  The persisted JSON of \<open>storage/json_support.py\<close>: the Python values that payloads hold,
  \<open>canonical_json\<close> (compact separators, sorted keys, \<open>ensure_ascii=False\<close>), the reader
  \<open>json.loads\<close> behind \<open>parse_mapping\<close> and \<open>parse_string_tuple\<close>, and
  \<open>redact_sensitive\<close>. The main facts: reading a canonical text gives the value back (up to key
  order and tuples read as lists), so the canonical text is injective; redaction is idempotent,
  commutes with the round trip and leaves no value under a sensitive key. Floating point numbers
  are not modelled: amounts are persisted as strings.
\<close>

section \<open>Values\<close>

text \<open>\<open>PObj\<close> is any other Python object; \<open>json.dumps\<close> raises TypeError on it.\<close>

datatype pyval =
    PNone
  | PBool bool
  | PInt int
  | PStr string
  | PList "pyval list"
  | PTuple "pyval list"
  | PDict "(string \<times> pyval) list"
  | PObj nat

type_synonym pymap = "(string \<times> pyval) list"

lemma pyval_nested_induct [case_names PNone PBool PInt PStr PList PTuple PDict PObj]:
  assumes "P PNone" "\<And>b. P (PBool b)" "\<And>i. P (PInt i)" "\<And>s. P (PStr s)"
    "\<And>xs. (\<And>x. x \<in> set xs \<Longrightarrow> P x) \<Longrightarrow> P (PList xs)"
    "\<And>xs. (\<And>x. x \<in> set xs \<Longrightarrow> P x) \<Longrightarrow> P (PTuple xs)"
    "\<And>kvs. (\<And>k x. (k, x) \<in> set kvs \<Longrightarrow> P x) \<Longrightarrow> P (PDict kvs)"
    "\<And>n. P (PObj n)"
  shows "P v"
proof (induction v)
  case (PDict kvs)
  have "P x" if "(k, x) \<in> set kvs" for k x
    using PDict [of "(k, x)" x] that by simp
  then show ?case by (rule assms(7))
qed (use assms in auto)

fun serialisable :: "pyval \<Rightarrow> bool" where
  "serialisable (PList xs) = list_all serialisable xs"
| "serialisable (PTuple xs) = list_all serialisable xs"
| "serialisable (PDict kvs) = list_all (\<lambda>(k, v). serialisable v) kvs"
| "serialisable (PObj n) = False"
| "serialisable v = True"

text \<open>What Python guarantees of a dictionary: its keys are distinct.\<close>

fun wf_val :: "pyval \<Rightarrow> bool" where
  "wf_val (PList xs) = list_all wf_val xs"
| "wf_val (PTuple xs) = list_all wf_val xs"
| "wf_val (PDict kvs) = (distinct (keys kvs) \<and> list_all (\<lambda>(k, v). wf_val v) kvs)"
| "wf_val v = True"

definition sort_dict :: "(string \<times> 'v) list \<Rightarrow> (string \<times> 'v) list" where
  "sort_dict kvs = sort_key fst kvs"

section \<open>Writing: json.dumps\<close>

definition hex_digit :: "nat \<Rightarrow> char" where
  "hex_digit d = (if d < 10 then char_of (48 + d) else char_of (87 + d))"

definition esc_char :: "char \<Rightarrow> string" where
  "esc_char c =
    (let n = (of_char c :: nat) in
     if n = 34 then [CHR 0x5C, CHR 0x22]
     else if n = 92 then [CHR 0x5C, CHR 0x5C]
     else if n = 10 then [CHR 0x5C, CHR ''n'']
     else if n = 13 then [CHR 0x5C, CHR ''r'']
     else if n = 9 then [CHR 0x5C, CHR ''t'']
     else if n = 12 then [CHR 0x5C, CHR ''f'']
     else if n = 8 then [CHR 0x5C, CHR ''b'']
     else if n < 32 then [CHR 0x5C, CHR ''u'', CHR ''0'', CHR ''0'',
                          hex_digit (n div 16), hex_digit (n mod 16)]
     else [c])"

definition quoted :: "string \<Rightarrow> string" where
  "quoted s = CHR 0x22 # concat (map esc_char s) @ [CHR 0x22]"

fun json_text :: "pyval \<Rightarrow> string" where
  "json_text PNone = ''null''"
| "json_text (PBool b) = (if b then ''true'' else ''false'')"
| "json_text (PInt i) = int_text i"
| "json_text (PStr s) = quoted s"
| "json_text (PList xs) = ''['' @ join '','' (map json_text xs) @ '']''"
| "json_text (PTuple xs) = ''['' @ join '','' (map json_text xs) @ '']''"
| "json_text (PDict kvs) =
     ''{'' @ join '','' (map (\<lambda>(k, t). quoted k @ '':'' @ t)
                         (sort_dict (map (\<lambda>(k, v). (k, json_text v)) kvs))) @ ''}''"
| "json_text (PObj n) = []"

definition canonical_json :: "pyval \<Rightarrow> string res" where
  "canonical_json v = (if serialisable v then Inr (json_text v) else Inl TypeError)"

section \<open>Reading: json.loads\<close>

fun skip_ws :: "string \<Rightarrow> string" where
  "skip_ws [] = []"
| "skip_ws (c # cs) =
    (if c = CHR '' '' \<or> c = CHR 0x09 \<or> c = CHR 0x0A \<or> c = CHR 0x0D then skip_ws cs else c # cs)"

definition hex_val :: "char \<Rightarrow> nat option" where
  "hex_val c =
    (let n = (of_char c :: nat) in
     if 48 \<le> n \<and> n \<le> 57 then Some (n - 48)
     else if 97 \<le> n \<and> n \<le> 102 then Some (n - 87)
     else if 65 \<le> n \<and> n \<le> 70 then Some (n - 55)
     else None)"

text \<open>The UTF-8 bytes of one escaped code unit; surrogate pairs are not joined.\<close>

definition utf8 :: "nat \<Rightarrow> string" where
  "utf8 n =
    (if n < 128 then [char_of n]
     else if n < 2048 then [char_of (192 + n div 64), char_of (128 + n mod 64)]
     else [char_of (224 + n div 4096), char_of (128 + n div 64 mod 64), char_of (128 + n mod 64)])"

definition unescape :: "char \<Rightarrow> char option" where
  "unescape c =
    (if c = CHR 0x22 \<or> c = CHR 0x5C \<or> c = CHR ''/'' then Some c
     else if c = CHR ''n'' then Some (CHR 0x0A)
     else if c = CHR ''r'' then Some (CHR 0x0D)
     else if c = CHR ''t'' then Some (CHR 0x09)
     else if c = CHR ''f'' then Some (CHR 0x0C)
     else if c = CHR ''b'' then Some (CHR 0x08)
     else None)"

datatype str_mode = Plain | Escaped | Hex nat nat

definition put_front :: "string \<Rightarrow> (string \<times> string) option \<Rightarrow> (string \<times> string) option" where
  "put_front u r = map_option (\<lambda>(t, rest). (u @ t, rest)) r"

fun str_run :: "str_mode \<Rightarrow> string \<Rightarrow> (string \<times> string) option" where
  "str_run m [] = None"
| "str_run Plain (c # cs) =
    (if c = CHR 0x22 then Some ([], cs)
     else if c = CHR 0x5C then str_run Escaped cs
     else if (of_char c :: nat) < 32 then None
     else put_front [c] (str_run Plain cs))"
| "str_run Escaped (c # cs) =
    (if c = CHR ''u'' then str_run (Hex 0 0) cs
     else (case unescape c of None \<Rightarrow> None | Some d \<Rightarrow> put_front [d] (str_run Plain cs)))"
| "str_run (Hex k v) (c # cs) =
    (case hex_val c of None \<Rightarrow> None
     | Some d \<Rightarrow>
        if k = 3 then put_front (utf8 (16 * v + d)) (str_run Plain cs)
        else str_run (Hex (Suc k) (16 * v + d)) cs)"

definition parse_nat :: "string \<Rightarrow> (nat \<times> string) option" where
  "parse_nat s =
    (let ds = takeWhile is_digit s; rest = dropWhile is_digit s in
     if ds = [] \<or> (hd ds = CHR ''0'' \<and> tl ds \<noteq> []) then None
     else if rest \<noteq> [] \<and> hd rest \<in> {CHR ''.'', CHR ''e'', CHR ''E''} then None
     else Some (digits_val 0 ds, rest))"

definition parse_int :: "string \<Rightarrow> (int \<times> string) option" where
  "parse_int s =
    (case s of [] \<Rightarrow> None
     | c # cs \<Rightarrow>
        if c = CHR ''-'' then map_option (\<lambda>(n, r). (- int n, r)) (parse_nat cs)
        else map_option (\<lambda>(n, r). (int n, r)) (parse_nat s))"

fun expect :: "string \<Rightarrow> string \<Rightarrow> string option" where
  "expect [] s = Some s"
| "expect (p # ps) [] = None"
| "expect (p # ps) (c # cs) = (if p = c then expect ps cs else None)"

fun parse_val :: "nat \<Rightarrow> string \<Rightarrow> (pyval \<times> string) option"
  and parse_elems :: "nat \<Rightarrow> string \<Rightarrow> (pyval list \<times> string) option"
  and parse_members :: "nat \<Rightarrow> string \<Rightarrow> (pymap \<times> string) option" where
  "parse_val 0 s = None"
| "parse_val (Suc n) s =
    (case skip_ws s of [] \<Rightarrow> None
     | c # cs \<Rightarrow>
        if c = CHR 0x22 then map_option (\<lambda>(t, r). (PStr t, r)) (str_run Plain cs)
        else if c = CHR ''['' then
          (case expect '']'' (skip_ws cs) of Some r \<Rightarrow> Some (PList [], r)
           | None \<Rightarrow> map_option (\<lambda>(xs, r). (PList xs, r)) (parse_elems n cs))
        else if c = CHR ''{'' then
          (case expect ''}'' (skip_ws cs) of Some r \<Rightarrow> Some (PDict [], r)
           | None \<Rightarrow> map_option (\<lambda>(kvs, r). (PDict (dict_update [] kvs), r)) (parse_members n cs))
        else if c = CHR ''n'' then map_option (Pair PNone) (expect ''ull'' cs)
        else if c = CHR ''t'' then map_option (Pair (PBool True)) (expect ''rue'' cs)
        else if c = CHR ''f'' then map_option (Pair (PBool False)) (expect ''alse'' cs)
        else map_option (\<lambda>(i, r). (PInt i, r)) (parse_int (c # cs)))"
| "parse_elems 0 s = None"
| "parse_elems (Suc n) s =
    (case parse_val n s of None \<Rightarrow> None
     | Some (v, r) \<Rightarrow>
        (case expect '','' (skip_ws r) of
           Some r' \<Rightarrow> map_option (\<lambda>(vs, r''). (v # vs, r'')) (parse_elems n r')
         | None \<Rightarrow> map_option (Pair [v]) (expect '']'' (skip_ws r))))"
| "parse_members 0 s = None"
| "parse_members (Suc n) s =
    (case expect [CHR 0x22] (skip_ws s) of None \<Rightarrow> None
     | Some r0 \<Rightarrow>
      (case str_run Plain r0 of None \<Rightarrow> None
       | Some (k, r1) \<Rightarrow>
        (case expect '':'' (skip_ws r1) of None \<Rightarrow> None
         | Some r2 \<Rightarrow>
          (case parse_val n r2 of None \<Rightarrow> None
           | Some (v, r3) \<Rightarrow>
              (case expect '','' (skip_ws r3) of
                 Some r4 \<Rightarrow> map_option (\<lambda>(kvs, r5). ((k, v) # kvs, r5)) (parse_members n r4)
               | None \<Rightarrow> map_option (Pair [(k, v)]) (expect ''}'' (skip_ws r3)))))))"

definition json_loads :: "string \<Rightarrow> pyval res" where
  "json_loads s =
    (case parse_val (Suc (length s)) s of None \<Rightarrow> Inl ValueError
     | Some (v, r) \<Rightarrow> if skip_ws r = [] then Inr v else Inl ValueError)"

definition parse_mapping :: "string \<Rightarrow> pymap res" where
  "parse_mapping s =
    ebind (json_loads s) (\<lambda>v. case v of PDict kvs \<Rightarrow> Inr kvs | _ \<Rightarrow> Inl ValueError)"

definition str_item :: "pyval \<Rightarrow> string res" where
  "str_item v = (case v of PStr s \<Rightarrow> Inr s | _ \<Rightarrow> Inl ValueError)"

definition parse_string_tuple :: "string \<Rightarrow> string list res" where
  "parse_string_tuple s =
    ebind (json_loads s) (\<lambda>v. case v of PList xs \<Rightarrow> emap str_item xs | _ \<Rightarrow> Inl ValueError)"

section \<open>What reading a written text gives\<close>

text \<open>Tuples come back as lists and dictionaries with their keys in sorted order: as Python values
  these are equal up to the tuple/list distinction.\<close>

fun norm_val :: "pyval \<Rightarrow> pyval" where
  "norm_val (PList xs) = PList (map norm_val xs)"
| "norm_val (PTuple xs) = PList (map norm_val xs)"
| "norm_val (PDict kvs) = PDict (sort_dict (map (\<lambda>(k, v). (k, norm_val v)) kvs))"
| "norm_val v = v"

lemma sort_dict_map_snd: "sort_dict (map (\<lambda>(k, v). (k, f v)) kvs) = map (\<lambda>(k, v). (k, f v)) (sort_dict kvs)"
proof -
  have eq: "(\<lambda>x. fst (case x of (k, v) \<Rightarrow> (k, f v))) = fst" by (auto simp: fun_eq_iff)
  show ?thesis
    using sort_key_map [of fst "\<lambda>(k, v). (k, f v)" kvs] by (simp only: eq sort_dict_def)
qed

lemma set_sort_dict [simp]: "set (sort_dict kvs) = set kvs"
  by (simp add: sort_dict_def)

lemma mset_sort_dict [simp]: "mset (sort_dict kvs) = mset kvs"
  by (simp add: sort_dict_def)

lemma sort_dict_Nil [simp]: "sort_dict [] = []"
  by (simp add: sort_dict_def)

lemma keys_sort_dict: "mset (keys (sort_dict kvs)) = mset (keys kvs)"
  unfolding keys_def by (metis mset_map mset_sort_dict)

lemma distinct_keys_sort_dict [simp]: "distinct (keys (sort_dict kvs)) = distinct (keys kvs)"
  using keys_sort_dict [of kvs] by (metis mset_eq_imp_distinct_iff)

lemma keys_map_snd [simp]: "keys (map (\<lambda>(k, v). (k, f v)) kvs) = keys kvs"
  by (auto simp: keys_def)

lemma sort_dict_idem [simp]: "sort_dict (sort_dict kvs) = sort_dict kvs"
  unfolding sort_dict_def by (rule sort_key_id_if_sorted) simp

lemma map_of_sort_dict: "distinct (keys kvs) \<Longrightarrow> map_of (sort_dict kvs) = map_of kvs"
  by (rule map_of_inject_set [THEN iffD2]) (simp_all add: keys_def [symmetric])

subsection \<open>Strings\<close>

lemma hex_val_hex_digit: "d < 16 \<Longrightarrow> hex_val (hex_digit d) = Some d"
  by (auto simp: hex_digit_def hex_val_def Let_def of_char_of)

lemma put_front_simps [simp]:
  "put_front u None = None"
  "put_front u (Some (t, r)) = Some (u @ t, r)"
  by (simp_all add: put_front_def)

lemma str_run_esc_char: "str_run Plain (esc_char c @ rest) = put_front [c] (str_run Plain rest)"
proof -
  let ?n = "of_char c :: nat"
  consider "?n \<in> {34, 92, 10, 13, 9, 12, 8}" | "?n \<notin> {34, 92, 10, 13, 9, 12, 8}" "?n < 32"
    | "?n \<notin> {34, 92, 10, 13, 9, 12, 8}" "32 \<le> ?n" by force
  then show ?thesis
  proof cases
    case 1
    then have "c \<in> {CHR 0x22, CHR 0x5C, CHR 0x0A, CHR 0x0D, CHR 0x09, CHR 0x0C, CHR 0x08}"
      using of_char_eq_iff [of c "CHR 0x22"] of_char_eq_iff [of c "CHR 0x5C"]
        of_char_eq_iff [of c "CHR 0x0A"] of_char_eq_iff [of c "CHR 0x0D"]
        of_char_eq_iff [of c "CHR 0x09"] of_char_eq_iff [of c "CHR 0x0C"]
        of_char_eq_iff [of c "CHR 0x08"] by auto
    then show ?thesis by (auto simp: esc_char_def unescape_def Let_def)
  next
    case 2
    then have esc: "esc_char c = [CHR 0x5C, CHR ''u'', CHR ''0'', CHR ''0'',
        hex_digit (?n div 16), hex_digit (?n mod 16)]"
      by (simp add: esc_char_def Let_def)
    have "?n div 16 < 16" using 2 by simp
    then have h1: "hex_val (hex_digit (?n div 16)) = Some (?n div 16)" by (rule hex_val_hex_digit)
    have h2: "hex_val (hex_digit (?n mod 16)) = Some (?n mod 16)" by (rule hex_val_hex_digit) simp
    have h0: "hex_val (CHR ''0'') = Some 0" by (simp add: hex_val_def)
    have "utf8 (16 * (?n div 16) + ?n mod 16) = [c]" using 2 by (simp add: utf8_def)
    with esc h0 h1 h2 show ?thesis by (simp add: numeral_3_eq_3)
  next
    case 3
    then have "c \<noteq> CHR 0x22" "c \<noteq> CHR 0x5C" by auto
    with 3 show ?thesis by (simp add: esc_char_def Let_def)
  qed
qed

lemma str_run_quoted: "str_run Plain (concat (map esc_char s) @ CHR 0x22 # rest) = Some (s, rest)"
  by (induction s) (simp_all add: str_run_esc_char)

subsection \<open>Numbers\<close>

lemma nat_text_no_leading_zero: "hd (nat_text n) = CHR ''0'' \<Longrightarrow> tl (nat_text n) = []"
proof (induction n rule: nat_text.induct)
  case (1 n)
  show ?case
  proof (cases "n < 10")
    case True
    then show ?thesis by (subst nat_text.simps) simp
  next
    case False
    then have eq: "nat_text n = nat_text (n div 10) @ [digit_char (n mod 10)]"
      by (subst nat_text.simps) simp
    with "1.prems" have hd0: "hd (nat_text (n div 10)) = CHR ''0''" by simp
    with "1.IH" False have "tl (nat_text (n div 10)) = []" by simp
    with hd0 have "nat_text (n div 10) = [CHR ''0'']"
      by (metis list.collapse nat_text_not_Nil)
    then have "digits_val 0 (nat_text (n div 10)) = 0" by (simp add: digit_val_def)
    then have "n div 10 = 0" by (simp add: nat_text_val)
    with False show ?thesis by simp
  qed
qed

definition delim :: "string \<Rightarrow> bool" where
  "delim rest \<longleftrightarrow> rest = [] \<or> hd rest \<in> {CHR '','', CHR '']'', CHR ''}''}"

lemma delim_simps [simp]:
  "delim []" "delim (CHR '','' # r)" "delim (CHR '']'' # r)" "delim (CHR ''}'' # r)"
  by (simp_all add: delim_def)

lemma delim_not_digit: "delim (c # r) \<Longrightarrow> \<not> is_digit c"
  by (auto simp: delim_def is_digit_def)

lemma parse_nat_text: "delim rest \<Longrightarrow> parse_nat (nat_text n @ rest) = Some (n, rest)"
proof -
  assume d: "delim rest"
  have digits: "\<And>c. c \<in> set (nat_text n) \<Longrightarrow> is_digit c"
    using nat_text_digits [of n] by (simp add: list_all_iff)
  have tw: "takeWhile is_digit (nat_text n @ rest) = nat_text n"
    and dw: "dropWhile is_digit (nat_text n @ rest) = rest"
    using digits d by (cases rest; force simp: delim_not_digit takeWhile_append dropWhile_append)+
  have "\<not> (rest \<noteq> [] \<and> hd rest \<in> {CHR ''.'', CHR ''e'', CHR ''E''})"
    using d by (auto simp: delim_def)
  with nat_text_no_leading_zero [of n] show ?thesis
    by (auto simp: parse_nat_def tw dw nat_text_val Let_def)
qed

lemma hd_nat_text_digit: "is_digit (hd (nat_text n))"
  using nat_text_digits [of n] by (cases "nat_text n") auto

lemma parse_int_text: "delim rest \<Longrightarrow> parse_int (int_text i @ rest) = Some (i, rest)"
proof (cases "i < 0")
  case True
  assume "delim rest"
  with True show ?thesis by (simp add: int_text_def parse_int_def parse_nat_text)
next
  case False
  assume d: "delim rest"
  obtain c cs where eq: "nat_text (nat i) = c # cs" by (cases "nat_text (nat i)") auto
  with hd_nat_text_digit [of "nat i"] have "c \<noteq> CHR ''-''" by (auto simp: is_digit_def)
  with False d parse_nat_text [OF d, of "nat i"] eq show ?thesis
    by (simp add: int_text_def parse_int_def)
qed

subsection \<open>Whole values\<close>

definition start_char :: "char \<Rightarrow> bool" where
  "start_char c \<longleftrightarrow> is_digit c \<or> c \<in> {CHR 0x22, CHR ''['', CHR ''{'', CHR ''n'', CHR ''t'', CHR ''f'', CHR ''-''}"

lemma start_char_neq:
  assumes "start_char c"
  shows "c \<noteq> CHR '' ''" "c \<noteq> CHR 0x09" "c \<noteq> CHR 0x0A" "c \<noteq> CHR 0x0D"
    "c \<noteq> CHR '']''" "c \<noteq> CHR ''}''"
  using assms by (auto simp: start_char_def is_digit_def)

lemma skip_ws_start: "start_char c \<Longrightarrow> skip_ws (c # cs) = c # cs"
  by (simp add: start_char_neq)

lemma int_text_start: "\<exists>c cs. int_text i = c # cs \<and> start_char c
    \<and> c \<notin> {CHR 0x22, CHR ''['', CHR ''{'', CHR ''n'', CHR ''t'', CHR ''f''}"
proof (cases "i < 0")
  case False
  obtain c cs where eq: "nat_text (nat i) = c # cs" by (cases "nat_text (nat i)") auto
  with hd_nat_text_digit [of "nat i"] have d: "is_digit c" by simp
  then have "c \<notin> {CHR 0x22, CHR ''['', CHR ''{'', CHR ''n'', CHR ''t'', CHR ''f''}"
    by (auto simp: is_digit_def)
  with False eq d show ?thesis by (auto simp: int_text_def start_char_def)
qed (simp add: int_text_def start_char_def)

lemma json_text_start: "serialisable v \<Longrightarrow> \<exists>c cs. json_text v = c # cs \<and> start_char c"
proof (cases v)
  case (PInt i)
  with int_text_start [of i] show ?thesis by auto
qed (simp_all add: quoted_def start_char_def)

text \<open>The property each part of a value has: it is read back from its text, whatever follows.\<close>

definition reads_back :: "pyval \<Rightarrow> bool" where
  "reads_back v \<longleftrightarrow> (\<forall>n rest. delim rest \<longrightarrow> length (json_text v) \<le> n \<longrightarrow>
     parse_val n (json_text v @ rest) = Some (norm_val v, rest))"

lemma reads_backD:
  "reads_back v \<Longrightarrow> delim rest \<Longrightarrow> length (json_text v) \<le> n \<Longrightarrow>
    parse_val n (json_text v @ rest) = Some (norm_val v, rest)"
  by (simp add: reads_back_def)

lemma parse_elems_text:
  assumes "\<And>x. x \<in> set xs \<Longrightarrow> reads_back x" "xs \<noteq> []"
    and "length (join '','' (map json_text xs)) < n"
  shows "parse_elems n (join '','' (map json_text xs) @ CHR '']'' # rest) = Some (map norm_val xs, rest)"
  using assms
proof (induction xs arbitrary: n)
  case (Cons x xs)
  obtain m where n: "n = Suc m" using Cons.prems(3) by (cases n) auto
  show ?case
  proof (cases xs)
    case Nil
    then have "parse_val m (json_text x @ CHR '']'' # rest) = Some (norm_val x, CHR '']'' # rest)"
      using Cons.prems n by (intro reads_backD) auto
    with Nil n show ?thesis by simp
  next
    case (Cons y ys)
    let ?t = "join '','' (map json_text xs)"
    have whole: "join '','' (map json_text (x # xs)) = json_text x @ CHR '','' # ?t"
      using Cons by simp
    have "parse_val m (json_text x @ CHR '','' # ?t @ CHR '']'' # rest)
        = Some (norm_val x, CHR '','' # ?t @ CHR '']'' # rest)"
      using Cons.prems n whole by (intro reads_backD) auto
    moreover have "parse_elems m (?t @ CHR '']'' # rest) = Some (map norm_val xs, rest)"
      using Cons.prems n whole Cons by (intro Cons.IH) auto
    ultimately show ?thesis using n whole by simp
  qed
qed simp

lemma parse_members_text:
  assumes "\<And>k x. (k, x) \<in> set kvs \<Longrightarrow> reads_back x" "kvs \<noteq> []"
    and "length (join '','' (map (\<lambda>(k, v). quoted k @ '':'' @ json_text v) kvs)) < n"
  shows "parse_members n (join '','' (map (\<lambda>(k, v). quoted k @ '':'' @ json_text v) kvs) @ CHR ''}'' # rest)
    = Some (map (\<lambda>(k, v). (k, norm_val v)) kvs, rest)"
  using assms
proof (induction kvs arbitrary: n)
  case (Cons p kvs)
  obtain k x where p: "p = (k, x)" by (cases p)
  obtain m where n: "n = Suc m" using Cons.prems(3) by (cases n) auto
  have key: "quoted k @ '':'' @ u
      = CHR 0x22 # concat (map esc_char k) @ CHR 0x22 # CHR '':'' # u" for u
    by (simp add: quoted_def)
  show ?case
  proof (cases kvs)
    case Nil
    then have "parse_val m (json_text x @ CHR ''}'' # rest) = Some (norm_val x, CHR ''}'' # rest)"
      using Cons.prems n p by (intro reads_backD) (auto simp: quoted_def)
    moreover have "join '','' (map (\<lambda>(k, v). quoted k @ '':'' @ json_text v) (p # kvs))
        = quoted k @ '':'' @ json_text x"
      using Nil p by simp
    ultimately show ?thesis
      unfolding n append_assoc key by (simp add: Nil p key str_run_quoted)
  next
    case (Cons q qs)
    let ?t = "join '','' (map (\<lambda>(k, v). quoted k @ '':'' @ json_text v) kvs)"
    have whole: "join '','' (map (\<lambda>(k, v). quoted k @ '':'' @ json_text v) (p # kvs))
        = quoted k @ '':'' @ json_text x @ CHR '','' # ?t"
      using Cons p by simp
    have len: "length (json_text x) \<le> m" "length ?t < m"
      using Cons.prems(3) unfolding whole n by simp_all
    have "parse_val m (json_text x @ CHR '','' # ?t @ CHR ''}'' # rest)
        = Some (norm_val x, CHR '','' # ?t @ CHR ''}'' # rest)"
      using Cons.prems(1) p len by (intro reads_backD) auto
    moreover have "parse_members m (?t @ CHR ''}'' # rest)
        = Some (map (\<lambda>(k, v). (k, norm_val v)) kvs, rest)"
      using Cons.prems(1) len Cons by (intro Cons.IH) auto
    ultimately show ?thesis
      unfolding whole append_assoc key n by (simp add: str_run_quoted p)
  qed
qed simp

lemma body_not_close:
  assumes "start_char c" "d \<in> {CHR '']'', CHR ''}''}"
  shows "expect [d] (skip_ws (c # cs)) = None"
  using assms by (auto simp: skip_ws_start dest: start_char_neq)

lemma join_start:
  assumes "xs \<noteq> []" "hd xs = c # cs"
  shows "\<exists>ds. join sep xs = c # ds"
proof (cases xs)
  case (Cons y ys)
  with assms show ?thesis by (cases ys) auto
qed (use assms in simp)

lemma reads_back_list:
  assumes "\<And>x. x \<in> set xs \<Longrightarrow> reads_back x" "\<And>x. x \<in> set xs \<Longrightarrow> serialisable x"
  shows "reads_back (PList xs)"
  unfolding reads_back_def
proof (intro allI impI)
  fix n rest
  assume d: "delim rest" and len: "length (json_text (PList xs)) \<le> n"
  then obtain m where n: "n = Suc m" by (cases n) auto
  show "parse_val n (json_text (PList xs) @ rest) = Some (norm_val (PList xs), rest)"
  proof (cases xs)
    case Nil
    then show ?thesis by (simp add: n)
  next
    case (Cons y ys)
    let ?body = "join '','' (map json_text xs) @ CHR '']'' # rest"
    obtain c cs where start: "?body = c # cs" "start_char c"
      using json_text_start [OF assms(2) [of y]] Cons
        join_start [of "map json_text xs" _ _ "'',''"] by fastforce
    have "parse_elems m ?body = Some (map norm_val xs, rest)"
      using assms(1) Cons len n by (intro parse_elems_text) auto
    moreover have "parse_val (Suc m) (CHR ''['' # ?body)
        = map_option (\<lambda>(xs, r). (PList xs, r)) (parse_elems m ?body)"
      unfolding start(1) using start(2) start_char_neq [OF start(2)]
      by (simp add: body_not_close)
    ultimately show ?thesis by (simp add: n)
  qed
qed

lemma reads_back_dict:
  assumes "\<And>k x. (k, x) \<in> set kvs \<Longrightarrow> reads_back x" "distinct (keys kvs)"
  shows "reads_back (PDict kvs)"
  unfolding reads_back_def
proof (intro allI impI)
  fix n rest
  assume d: "delim rest" and len: "length (json_text (PDict kvs)) \<le> n"
  then obtain m where n: "n = Suc m" by (cases n) auto
  let ?ms = "map (\<lambda>(k, v). quoted k @ '':'' @ json_text v) (sort_dict kvs)"
  have whole: "json_text (PDict kvs) = CHR ''{'' # join '','' ?ms @ ''}''"
  proof -
    have "map (\<lambda>(k, t). quoted k @ '':'' @ t) (sort_dict (map (\<lambda>(k, v). (k, json_text v)) kvs)) = ?ms"
      unfolding sort_dict_map_snd by auto
    then show ?thesis by (simp only: json_text.simps) simp
  qed
  have norm: "norm_val (PDict kvs) = PDict (map (\<lambda>(k, v). (k, norm_val v)) (sort_dict kvs))"
    by (simp add: sort_dict_map_snd)
  show "parse_val n (json_text (PDict kvs) @ rest) = Some (norm_val (PDict kvs), rest)"
  proof (cases "sort_dict kvs")
    case Nil
    then show ?thesis unfolding whole norm by (simp add: n)
  next
    case (Cons p ps)
    let ?body = "join '','' ?ms @ CHR ''}'' # rest"
    obtain k x where "p = (k, x)" by (cases p)
    then have "hd ?ms = CHR 0x22 # (concat (map esc_char k) @ [CHR 0x22]) @ '':'' @ json_text x"
      using Cons by (simp add: quoted_def)
    then obtain cs where start: "?body = CHR 0x22 # cs"
      using join_start [of ?ms "CHR 0x22" _ "'',''"] Cons by fastforce
    have "parse_members m ?body = Some (map (\<lambda>(k, v). (k, norm_val v)) (sort_dict kvs), rest)"
    proof (rule parse_members_text)
      show "\<And>k x. (k, x) \<in> set (sort_dict kvs) \<Longrightarrow> reads_back x" using assms(1) by simp
      show "length (join '','' ?ms) < m" using len unfolding whole n by simp
    qed (use Cons in simp)
    moreover have "parse_val (Suc m) (CHR ''{'' # ?body)
        = map_option (\<lambda>(kvs, r). (PDict (dict_update [] kvs), r)) (parse_members m ?body)"
      unfolding start by simp
    moreover have "dict_update [] (map (\<lambda>(k, v). (k, norm_val v)) (sort_dict kvs))
        = map (\<lambda>(k, v). (k, norm_val v)) (sort_dict kvs)"
      using dict_update_new [of "map (\<lambda>(k, v). (k, norm_val v)) (sort_dict kvs)" "[]"] assms(2)
      by (simp add: keys_def [of "[]"])
    ultimately show ?thesis unfolding whole norm by (simp add: n)
  qed
qed

lemma serialisable_reads_back:
  "serialisable v \<Longrightarrow> wf_val v \<Longrightarrow> reads_back v"
proof (induction v rule: pyval_nested_induct)
  case PNone
  have "parse_val n (''null'' @ rest) = Some (PNone, rest)" if "4 \<le> n" for n rest
    using that by (cases n) auto
  then show ?case by (simp add: reads_back_def)
next
  case (PBool b)
  have "parse_val n (json_text (PBool b) @ rest) = Some (PBool b, rest)" if "4 \<le> n" for n rest
    using that by (cases n) auto
  then show ?case by (auto simp: reads_back_def)
next
  case (PInt i)
  obtain c cs where eq: "int_text i = c # cs" and c: "start_char c"
    "c \<notin> {CHR 0x22, CHR ''['', CHR ''{'', CHR ''n'', CHR ''t'', CHR ''f''}"
    using int_text_start by blast
  have "parse_val n (int_text i @ rest) = Some (PInt i, rest)"
    if d: "delim rest" and l: "length (int_text i) \<le> n" for n rest
  proof -
    obtain m where n: "n = Suc m" using l eq by (cases n) auto
    have "parse_int (c # cs @ rest) = Some (i, rest)"
      using parse_int_text [OF d, of i] eq by simp
    then show ?thesis using c by (simp add: n eq start_char_neq [OF c(1)])
  qed
  then show ?case by (simp add: reads_back_def)
next
  case (PStr s)
  have "parse_val n (quoted s @ rest) = Some (PStr s, rest)" if l: "length (quoted s) \<le> n" for n rest
  proof -
    obtain m where n: "n = Suc m" using l by (cases n) (auto simp: quoted_def)
    show ?thesis by (simp add: n quoted_def str_run_quoted)
  qed
  then show ?case by (simp add: reads_back_def)
next
  case (PList xs)
  then show ?case by (intro reads_back_list) (auto simp: list_all_iff)
next
  case (PTuple xs)
  then have "reads_back (PList xs)" by (intro reads_back_list) (auto simp: list_all_iff)
  then show ?case by (simp add: reads_back_def)
next
  case (PDict kvs)
  then show ?case by (intro reads_back_dict) (force simp: list_all_iff)+
qed simp

text \<open>Reading back a canonical text, and what follows from it.\<close>

lemma canonical_json_Inr [simp]: "canonical_json v = Inr t \<longleftrightarrow> serialisable v \<and> t = json_text v"
  by (auto simp: canonical_json_def)

lemma json_loads_text: "serialisable v \<Longrightarrow> wf_val v \<Longrightarrow> json_loads (json_text v) = Inr (norm_val v)"
  using reads_backD [OF serialisable_reads_back, of v "[]" "Suc (length (json_text v))"]
  by (simp add: json_loads_def)

lemma json_text_inject:
  assumes "serialisable v" "wf_val v" "serialisable w" "wf_val w" "json_text v = json_text w"
  shows "norm_val v = norm_val w"
  using json_loads_text [of v] json_loads_text [of w] assms by simp

lemma norm_val_idem [simp]: "norm_val (norm_val v) = norm_val v"
proof (induction v rule: pyval_nested_induct)
  case (PDict kvs)
  have "map (\<lambda>(k, v). (k, norm_val v)) (map (\<lambda>(k, v). (k, norm_val v)) kvs)
      = map (\<lambda>(k, v). (k, norm_val v)) kvs"
    using PDict by (auto split: prod.splits)
  then show ?case by (simp add: sort_dict_map_snd [symmetric] del: map_map)
qed auto

lemma serialisable_norm [simp]: "serialisable (norm_val v) = serialisable v"
  by (induction v rule: pyval_nested_induct) (auto simp: list_all_iff split_def)

lemma wf_val_norm: "wf_val v \<Longrightarrow> wf_val (norm_val v)"
proof (induction v rule: pyval_nested_induct)
  case (PDict kvs)
  then have "list_all (\<lambda>(k, v). wf_val v) (map (\<lambda>(k, v). (k, norm_val v)) kvs)"
    by (fastforce simp: list_all_iff)
  with PDict show ?case by (simp add: list_all_iff)
qed (auto simp: list_all_iff)

lemma json_text_norm [simp]: "json_text (norm_val v) = json_text v"
proof (induction v rule: pyval_nested_induct)
  case (PList xs)
  then have "map json_text (map norm_val xs) = map json_text xs" by simp
  then show ?case by (simp del: map_map)
next
  case (PTuple xs)
  then have "map json_text (map norm_val xs) = map json_text xs" by simp
  then show ?case by (simp del: map_map)
next
  case (PDict kvs)
  have "map (\<lambda>(k, v). (k, json_text v)) (map (\<lambda>(k, v). (k, norm_val v)) kvs)
      = map (\<lambda>(k, v). (k, json_text v)) kvs"
    using PDict by auto
  then show ?case by (simp add: sort_dict_map_snd [symmetric] del: map_map)
qed simp_all

lemma norm_eq_iff_text_eq:
  assumes "serialisable v" "wf_val v" "serialisable w" "wf_val w"
  shows "json_text v = json_text w \<longleftrightarrow> norm_val v = norm_val w"
  using json_text_inject [OF assms] json_text_norm by metis

lemma parse_mapping_text:
  assumes "serialisable (PDict kvs)" "wf_val (PDict kvs)"
  shows "parse_mapping (json_text (PDict kvs)) = Inr (sort_dict (map (\<lambda>(k, v). (k, norm_val v)) kvs))"
  using json_loads_text [OF assms] by (simp add: parse_mapping_def)

lemma emap_str_item: "emap str_item (map PStr ss) = Inr ss"
  by (induction ss) (simp_all add: str_item_def)

lemma parse_string_tuple_text:
  "parse_string_tuple (json_text (PTuple (map PStr ss))) = Inr ss"
  "parse_string_tuple (json_text (PList (map PStr ss))) = Inr ss"
proof -
  have ser: "serialisable (PTuple (map PStr ss))" "wf_val (PTuple (map PStr ss))"
    "serialisable (PList (map PStr ss))" "wf_val (PList (map PStr ss))"
    by (simp_all add: list_all_iff)
  have norm: "map norm_val (map PStr ss) = map PStr ss" by (induction ss) auto
  show "parse_string_tuple (json_text (PTuple (map PStr ss))) = Inr ss"
    using json_loads_text [OF ser(1,2)] norm
    by (simp add: parse_string_tuple_def emap_str_item del: json_text.simps map_map)
  show "parse_string_tuple (json_text (PList (map PStr ss))) = Inr ss"
    using json_loads_text [OF ser(3,4)] norm
    by (simp add: parse_string_tuple_def emap_str_item del: json_text.simps map_map)
qed

text \<open>Whatever text is read, the value is a JSON value with distinct keys.\<close>

lemma parsed_dict_wf:
  assumes "list_all (\<lambda>(k, v). serialisable v \<and> wf_val v) kvs"
  shows "serialisable (PDict (dict_update [] kvs)) \<and> wf_val (PDict (dict_update [] kvs))"
  using assms set_dict_update [of "[]" kvs] distinct_dict_update [of "[]" kvs]
  by (fastforce simp: list_all_iff keys_def)

lemma parsed_wf:
  "parse_val n s = Some (v, r) \<Longrightarrow> serialisable v \<and> wf_val v"
  "parse_elems n s = Some (vs, r) \<Longrightarrow> list_all (\<lambda>v. serialisable v \<and> wf_val v) vs"
  "parse_members n s = Some (kvs, r) \<Longrightarrow> list_all (\<lambda>(k, v). serialisable v \<and> wf_val v) kvs"
proof (induction n s and n s and n s arbitrary: v r and vs r and kvs r
    rule: parse_val_parse_elems_parse_members.induct)
  case (2 n s)
  obtain c cs where sk: "skip_ws s = c # cs"
    using "2.prems" by (cases "skip_ws s") auto
  consider (str) "c = CHR 0x22" | (lst) "c = CHR ''[''" | (dict) "c = CHR ''{''"
    | (other) "c \<noteq> CHR 0x22" "c \<noteq> CHR ''[''" "c \<noteq> CHR ''{''" by blast
  then show ?case
  proof cases
    case str
    with "2.prems" sk show ?thesis by auto
  next
    case lst
    show ?thesis
    proof (cases "expect '']'' (skip_ws cs)")
      case None
      with "2.prems" sk lst obtain vs where "parse_elems n cs = Some (vs, r)" "v = PList vs" by auto
      with "2.IH"(1) [OF sk _ _ None] lst show ?thesis by (auto simp: list_all_iff)
    qed (use "2.prems" sk lst in auto)
  next
    case dict
    show ?thesis
    proof (cases "expect ''}'' (skip_ws cs)")
      case None
      with "2.prems" sk dict obtain kvs where "parse_members n cs = Some (kvs, r)"
        "v = PDict (dict_update [] kvs)" by auto
      with "2.IH"(2) [OF sk _ _ _ None] dict parsed_dict_wf show ?thesis by auto
    qed (use "2.prems" sk dict in \<open>auto simp: keys_def\<close>)
  next
    case other
    with "2.prems" sk show ?thesis by (auto split: if_splits)
  qed
next
  case (4 n s)
  obtain v0 r0 where p: "parse_val n s = Some (v0, r0)"
    using "4.prems" by (auto split: option.splits)
  show ?case
  proof (cases "expect '','' (skip_ws r0)")
    case None
    with "4.prems" p "4.IH"(1) [OF p] show ?thesis by auto
  next
    case (Some r1)
    with "4.prems" p "4.IH"(1) [OF p] "4.IH"(2) [OF p refl Some] show ?thesis by auto
  qed
next
  case (6 n s)
  obtain r0 k r1 r2 v0 r3 where p: "expect [CHR 0x22] (skip_ws s) = Some r0"
    "str_run Plain r0 = Some (k, r1)" "expect '':'' (skip_ws r1) = Some r2"
    "parse_val n r2 = Some (v0, r3)"
    using "6.prems" by (auto split: option.splits)
  note ih = "6.IH"(1) [OF p(1,2) refl p(3,4)]
  show ?case
  proof (cases "expect '','' (skip_ws r3)")
    case None
    with "6.prems" p ih show ?thesis by auto
  next
    case (Some r4)
    with "6.prems" p ih "6.IH"(2) [OF p(1,2) refl p(3,4) refl Some] show ?thesis by auto
  qed
qed simp_all

lemma json_loads_wf: "json_loads s = Inr v \<Longrightarrow> serialisable v \<and> wf_val v"
  using parsed_wf(1) by (simp add: json_loads_def del: parse_val.simps split: option.splits prod.splits if_splits)

lemma parse_mapping_wf: "parse_mapping s = Inr kvs \<Longrightarrow> serialisable (PDict kvs) \<and> wf_val (PDict kvs)"
  unfolding parse_mapping_def ebind_eq_Inr
  by (elim exE conjE) (drule json_loads_wf, simp split: pyval.splits)

section \<open>Redaction\<close>

definition sensitive_parts :: "string list" where
  "sensitive_parts = [''api_key'', ''apikey'', ''authorization'', ''credential'', ''password'',
     ''private_key'', ''secret'', ''token'']"

definition sensitive :: "string \<Rightarrow> bool" where
  "sensitive k \<longleftrightarrow> list_ex (\<lambda>part. contains part (casefold k)) sensitive_parts"

definition redacted_text :: string where
  "redacted_text = ''[REDACTED]''"

fun redact_sensitive :: "pyval \<Rightarrow> pyval" where
  "redact_sensitive (PDict kvs) =
     PDict (map (\<lambda>(k, v). (k, if sensitive k then PStr redacted_text else redact_sensitive v)) kvs)"
| "redact_sensitive (PList xs) = PList (map redact_sensitive xs)"
| "redact_sensitive (PTuple xs) = PList (map redact_sensitive xs)"
| "redact_sensitive v = v"

text \<open>What redaction promises: below a sensitive key, at any depth, only the marker remains.\<close>

fun no_secret :: "pyval \<Rightarrow> bool" where
  "no_secret (PDict kvs) =
     list_all (\<lambda>(k, v). (\<not> sensitive k \<or> v = PStr redacted_text) \<and> no_secret v) kvs"
| "no_secret (PList xs) = list_all no_secret xs"
| "no_secret (PTuple xs) = list_all no_secret xs"
| "no_secret v = True"

text \<open>The value at a path of dictionary keys.\<close>

fun at_path :: "pyval \<Rightarrow> string list \<Rightarrow> pyval option" where
  "at_path v [] = Some v"
| "at_path (PDict kvs) (k # ks) =
     (case map_of kvs k of None \<Rightarrow> None | Some v \<Rightarrow> at_path v ks)"
| "at_path _ (k # ks) = None"

lemma no_secret_redact: "no_secret (redact_sensitive v)"
  by (induction v rule: pyval_nested_induct) (force simp: list_all_iff)+

lemma redact_idem [simp]: "redact_sensitive (redact_sensitive v) = redact_sensitive v"
  by (induction v rule: pyval_nested_induct) auto

lemma serialisable_redact: "serialisable v \<Longrightarrow> serialisable (redact_sensitive v)"
  by (induction v rule: pyval_nested_induct) (force simp: list_all_iff)+

lemma wf_val_redact: "wf_val v \<Longrightarrow> wf_val (redact_sensitive v)"
proof (induction v rule: pyval_nested_induct)
  case (PDict kvs)
  let ?f = "\<lambda>(k, v). (k, if sensitive k then PStr redacted_text else redact_sensitive v)"
  have "keys (map ?f kvs) = keys kvs" by (auto simp: keys_def)
  moreover have "list_all (\<lambda>(k, v). wf_val v) (map ?f kvs)"
    using PDict by (force simp: list_all_iff)
  ultimately show ?case using PDict.prems by simp
qed (auto simp: list_all_iff)

lemma norm_redact: "norm_val (redact_sensitive v) = redact_sensitive (norm_val v)"
proof (induction v rule: pyval_nested_induct)
  case (PDict kvs)
  let ?f = "\<lambda>(k, v). (k, if sensitive k then PStr redacted_text else redact_sensitive v)"
  let ?n = "\<lambda>(k, v). (k, norm_val v)"
  have "map ?n (map ?f kvs) = map ?f (map ?n kvs)" using PDict by auto
  moreover have "sort_dict (map ?f kvs') = map ?f (sort_dict kvs')" for kvs'
  proof -
    have "(\<lambda>x. fst (?f x)) = fst" by (auto simp: fun_eq_iff)
    then show ?thesis using sort_key_map [of fst ?f kvs'] by (simp only: sort_dict_def)
  qed
  ultimately show ?case by (simp del: map_map)
qed auto

lemma at_path_redact:
  "list_all (\<lambda>k. \<not> sensitive k) ks \<Longrightarrow>
    at_path (redact_sensitive v) ks = map_option redact_sensitive (at_path v ks)"
proof (induction v ks rule: at_path.induct)
  case (2 kvs k ks)
  let ?f = "\<lambda>(k, v). (k, if sensitive k then PStr redacted_text else redact_sensitive v)"
  have "map_of (map ?f kvs) k =
      map_option (\<lambda>v. if sensitive k then PStr redacted_text else redact_sensitive v) (map_of kvs k)"
    by (induction kvs) auto
  with 2 show ?case by (simp split: option.split)
qed auto

text \<open>Redaction applied to what was persisted: re-reading and redacting again changes nothing.\<close>

lemma redact_persisted:
  "redact_sensitive (norm_val (redact_sensitive v)) = norm_val (redact_sensitive v)"
  by (simp add: norm_redact)

section \<open>Properties\<close>

text \<open>C13 (persisted JSON is canonical and reads back). The text \<open>canonical_json\<close> writes for a value is
  read back by \<open>json.loads\<close> as the value itself, with tuples as lists and keys in sorted order; and two
  values get the same text exactly when they agree in that normal form. So equal requests hash alike
  whatever the order of their keys, and different ones never share a text.\<close>

theorem canonical_json_round_trip:
  assumes "canonical_json v = Inr t" "wf_val v" "canonical_json u = Inr t'" "wf_val u"
  shows "json_loads t = Inr (norm_val v) \<and> (t = t' \<longleftrightarrow> norm_val v = norm_val u)"
proof -
  have "serialisable v" "t = json_text v" "serialisable u" "t' = json_text u" using assms by simp_all
  then show ?thesis
    using json_loads_text [of v] norm_eq_iff_text_eq [of v u] assms by simp
qed

theorem canonical_json_round_trip_witness:
  "json_text (PDict [(''b'', PInt 1), (''a'', PTuple [PNone])]) = json_text (PDict [(''a'', PList [PNone]), (''b'', PInt 1)])"
proof -
  let ?v = "PDict [(''b'', PInt 1), (''a'', PTuple [PNone])]"
  let ?u = "PDict [(''a'', PList [PNone]), (''b'', PInt 1)]"
  have "canonical_json ?v = Inr (json_text ?v)" "canonical_json ?u = Inr (json_text ?u)" "wf_val ?v" "wf_val ?u"
    by (simp_all add: keys_def del: json_text.simps)
  moreover have "norm_val ?v = norm_val ?u" by code_simp
  ultimately show ?thesis using canonical_json_round_trip by blast
qed

text \<open>Redaction removes secrets and nothing else. After \<open>redact_sensitive\<close> every value below a
  sensitive key, at any depth, is the marker; a value reached by a path of harmless keys is the redacted
  value that was there; redacting twice changes nothing.\<close>

theorem redaction_is_exact:
  "no_secret (redact_sensitive v)
    \<and> (list_all (\<lambda>k. \<not> sensitive k) ks \<longrightarrow>
        at_path (redact_sensitive v) ks = map_option redact_sensitive (at_path v ks))
    \<and> redact_sensitive (redact_sensitive v) = redact_sensitive v"
  by (simp add: no_secret_redact at_path_redact)

theorem redaction_is_exact_witness:
  "at_path (redact_sensitive (PDict [(''user'', PDict [(''API_Key'', PStr ''x''), (''name'', PInt 3)])])) [''user'', ''name'']
    = Some (PInt 3)"
proof -
  have "list_all (\<lambda>k. \<not> sensitive k) [''user'', ''name'']" by code_simp
  with redaction_is_exact show ?thesis by simp
qed

end
