(* ===== verification/ErrorCodes.thy ===== *)
theory ErrorCodes
  imports Json
begin

text \<open>
  The public errors of \<open>mcp/error_codes.py\<close>: the error codes and their texts, the
  exception \<open>OdooMcpError\<close> as a record, and the structured response built from it. Every code
  is recovered from its text, so the text persisted in the audit log identifies the code.
\<close>

section \<open>Codes\<close>

datatype error_code =
    ODOO_AUTH_FAILED
  | ODOO_API_ERROR
  | ODOO_VERSION_UNSUPPORTED
  | ODOO_TRANSPORT_NEGOTIATION_FAILED
  | ODOO_PERMISSION_DENIED
  | COMPANY_NOT_FOUND
  | CAPABILITY_NOT_AVAILABLE
  | EXECUTION_NOT_EXPLICIT
  | ODOO_STATE_CONFLICT
  | CONCURRENT_OPERATION_IN_PROGRESS
  | IDEMPOTENCY_KEY_PAYLOAD_MISMATCH
  | JOURNAL_NOT_FOUND
  | STATEMENT_LINE_NOT_FOUND
  | ACCOUNT_NOT_FOUND
  | JOURNAL_ENTRY_NOT_DRAFT
  | JOURNAL_ENTRY_UNBALANCED
  | PAYROLL_PERIOD_NOT_FOUND
  | INSUFFICIENT_COMPARISON_DATA
  | PAYROLL_BATCH_NOT_FOUND
  | PAYSLIP_NOT_FOUND
  | PAYROLL_STRUCTURE_NOT_FOUND
  | CONTRACT_DATA_MISSING
  | EMPLOYEE_NOT_FOUND
  | PAYROLL_SOURCE_INCONSISTENT
  | PAYROLL_RESULT_TOO_LARGE
  | PAYROLL_INPUT_NOT_FOUND
  | PAYROLL_INPUT_TYPE_NOT_ALLOWED
  | PAYROLL_STATE_NOT_EDITABLE
  | PAYROLL_RECALCULATION_FAILED
  | INVALID_INPUT
  | MODEL_NOT_ALLOWED
  | FIELD_DENIED
  | UNKNOWN_ERROR

fun code_text :: "error_code \<Rightarrow> string" where
  "code_text ODOO_AUTH_FAILED = ''ODOO_AUTH_FAILED''"
| "code_text ODOO_API_ERROR = ''ODOO_API_ERROR''"
| "code_text ODOO_VERSION_UNSUPPORTED = ''ODOO_VERSION_UNSUPPORTED''"
| "code_text ODOO_TRANSPORT_NEGOTIATION_FAILED = ''ODOO_TRANSPORT_NEGOTIATION_FAILED''"
| "code_text ODOO_PERMISSION_DENIED = ''ODOO_PERMISSION_DENIED''"
| "code_text COMPANY_NOT_FOUND = ''COMPANY_NOT_FOUND''"
| "code_text CAPABILITY_NOT_AVAILABLE = ''CAPABILITY_NOT_AVAILABLE''"
| "code_text EXECUTION_NOT_EXPLICIT = ''EXECUTION_NOT_EXPLICIT''"
| "code_text ODOO_STATE_CONFLICT = ''ODOO_STATE_CONFLICT''"
| "code_text CONCURRENT_OPERATION_IN_PROGRESS = ''CONCURRENT_OPERATION_IN_PROGRESS''"
| "code_text IDEMPOTENCY_KEY_PAYLOAD_MISMATCH = ''IDEMPOTENCY_KEY_PAYLOAD_MISMATCH''"
| "code_text JOURNAL_NOT_FOUND = ''JOURNAL_NOT_FOUND''"
| "code_text STATEMENT_LINE_NOT_FOUND = ''STATEMENT_LINE_NOT_FOUND''"
| "code_text ACCOUNT_NOT_FOUND = ''ACCOUNT_NOT_FOUND''"
| "code_text JOURNAL_ENTRY_NOT_DRAFT = ''JOURNAL_ENTRY_NOT_DRAFT''"
| "code_text JOURNAL_ENTRY_UNBALANCED = ''JOURNAL_ENTRY_UNBALANCED''"
| "code_text PAYROLL_PERIOD_NOT_FOUND = ''PAYROLL_PERIOD_NOT_FOUND''"
| "code_text INSUFFICIENT_COMPARISON_DATA = ''INSUFFICIENT_COMPARISON_DATA''"
| "code_text PAYROLL_BATCH_NOT_FOUND = ''PAYROLL_BATCH_NOT_FOUND''"
| "code_text PAYSLIP_NOT_FOUND = ''PAYSLIP_NOT_FOUND''"
| "code_text PAYROLL_STRUCTURE_NOT_FOUND = ''PAYROLL_STRUCTURE_NOT_FOUND''"
| "code_text CONTRACT_DATA_MISSING = ''CONTRACT_DATA_MISSING''"
| "code_text EMPLOYEE_NOT_FOUND = ''EMPLOYEE_NOT_FOUND''"
| "code_text PAYROLL_SOURCE_INCONSISTENT = ''PAYROLL_SOURCE_INCONSISTENT''"
| "code_text PAYROLL_RESULT_TOO_LARGE = ''PAYROLL_RESULT_TOO_LARGE''"
| "code_text PAYROLL_INPUT_NOT_FOUND = ''PAYROLL_INPUT_NOT_FOUND''"
| "code_text PAYROLL_INPUT_TYPE_NOT_ALLOWED = ''PAYROLL_INPUT_TYPE_NOT_ALLOWED''"
| "code_text PAYROLL_STATE_NOT_EDITABLE = ''PAYROLL_STATE_NOT_EDITABLE''"
| "code_text PAYROLL_RECALCULATION_FAILED = ''PAYROLL_RECALCULATION_FAILED''"
| "code_text INVALID_INPUT = ''INVALID_INPUT''"
| "code_text MODEL_NOT_ALLOWED = ''MODEL_NOT_ALLOWED''"
| "code_text FIELD_DENIED = ''FIELD_DENIED''"
| "code_text UNKNOWN_ERROR = ''UNKNOWN_ERROR''"

definition all_codes :: "error_code list" where
  "all_codes = [ODOO_AUTH_FAILED, ODOO_API_ERROR, ODOO_VERSION_UNSUPPORTED,
     ODOO_TRANSPORT_NEGOTIATION_FAILED, ODOO_PERMISSION_DENIED, COMPANY_NOT_FOUND,
     CAPABILITY_NOT_AVAILABLE, EXECUTION_NOT_EXPLICIT, ODOO_STATE_CONFLICT,
     CONCURRENT_OPERATION_IN_PROGRESS, IDEMPOTENCY_KEY_PAYLOAD_MISMATCH, JOURNAL_NOT_FOUND,
     STATEMENT_LINE_NOT_FOUND, ACCOUNT_NOT_FOUND, JOURNAL_ENTRY_NOT_DRAFT,
     JOURNAL_ENTRY_UNBALANCED, PAYROLL_PERIOD_NOT_FOUND, INSUFFICIENT_COMPARISON_DATA,
     PAYROLL_BATCH_NOT_FOUND, PAYSLIP_NOT_FOUND, PAYROLL_STRUCTURE_NOT_FOUND,
     CONTRACT_DATA_MISSING, EMPLOYEE_NOT_FOUND, PAYROLL_SOURCE_INCONSISTENT,
     PAYROLL_RESULT_TOO_LARGE, PAYROLL_INPUT_NOT_FOUND, PAYROLL_INPUT_TYPE_NOT_ALLOWED,
     PAYROLL_STATE_NOT_EDITABLE, PAYROLL_RECALCULATION_FAILED, INVALID_INPUT,
     MODEL_NOT_ALLOWED, FIELD_DENIED, UNKNOWN_ERROR]"

text \<open>\<open>ErrorCode(text)\<close>: the enumeration member with that value, or ValueError.\<close>

definition error_code_of :: "string \<Rightarrow> error_code res" where
  "error_code_of t =
     (case find_row (\<lambda>c. code_text c = t) all_codes of Some c \<Rightarrow> Inr c | None \<Rightarrow> Inl ValueError)"

lemma all_codes_complete [simp]: "c \<in> set all_codes"
  by (cases c) (simp_all add: all_codes_def)

lemma code_texts_distinct: "distinct (map code_text all_codes)"
  by code_simp

lemma code_text_inject: "code_text c = code_text d \<Longrightarrow> c = d"
proof -
  assume eq: "code_text c = code_text d"
  have "inj_on code_text (set all_codes)"
    using code_texts_distinct unfolding distinct_map by blast
  from inj_onD [OF this eq] show "c = d" by simp
qed

lemma find_code_text: "find_row (\<lambda>d. code_text d = code_text c) all_codes = Some c"
proof (cases "find_row (\<lambda>d. code_text d = code_text c) all_codes")
  case None
  then have "\<forall>d \<in> set all_codes. code_text d \<noteq> code_text c" unfolding find_row_None .
  then show ?thesis using all_codes_complete by blast
next
  case (Some d)
  then have "code_text d = code_text c" using find_row_Some by fast
  then have "d = c" by (rule code_text_inject)
  with Some show ?thesis by simp
qed

lemma error_code_of_text [simp]: "error_code_of (code_text c) = Inr c"
  by (simp only: error_code_of_def find_code_text option.case)

lemma error_code_of_Inr: "error_code_of t = Inr c \<Longrightarrow> t = code_text c"
  by (auto simp: error_code_of_def split: option.splits dest!: find_row_Some)

section \<open>Errors\<close>

record odoo_error =
  oe_code :: error_code
  oe_message :: string
  oe_hint :: string

definition mk_error :: "error_code \<Rightarrow> string \<Rightarrow> string \<Rightarrow> odoo_error" where
  "mk_error c m h = \<lparr>oe_code = c, oe_message = m, oe_hint = h\<rparr>"

lemma mk_error_sel [simp]:
  "oe_code (mk_error c m h) = c" "oe_message (mk_error c m h) = m" "oe_hint (mk_error c m h) = h"
  by (simp_all add: mk_error_def)

type_synonym 'a odoo = "odoo_error + 'a"

record error_response =
  er_status :: string
  er_error_code :: error_code
  er_error_message :: string
  er_remediation_hint :: string
  er_request_id :: string

text \<open>\<open>as_response\<close>: \<open>fresh\<close> is the identifier \<open>new_request_id\<close> would make, used when the
  caller gives none or an empty one.\<close>

definition as_response :: "string \<Rightarrow> odoo_error \<Rightarrow> string option \<Rightarrow> error_response" where
  "as_response fresh e rid =
     \<lparr>er_status = ''failed'', er_error_code = oe_code e, er_error_message = oe_message e,
      er_remediation_hint = oe_hint e,
      er_request_id = (case rid of Some r \<Rightarrow> if r = [] then fresh else r | None \<Rightarrow> fresh)\<rparr>"

end
