(* ===== verification/Registry.thy ===== *)
theory Registry
  imports ErrorCodes
begin

text \<open>
  The tool registry of \<open>mcp/registry.py\<close>: the metadata of every registered tool, the contract
  that \<open>ToolDefinition.__post_init__\<close> enforces between the declared risk level and the protocol
  annotations, the stricter contract \<open>validate_write_tool_definition\<close> of
  \<open>policy/write_safety.py\<close>, the lookup by name, and tool availability of
  \<open>workflows/core/capabilities.py\<close>.
\<close>

section \<open>Definitions and their contract\<close>

datatype risk_level = Read | Propose | Draft_write | Confirm_write

fun risk_text :: "risk_level \<Rightarrow> string" where
  "risk_text Read = ''read''"
| "risk_text Propose = ''propose''"
| "risk_text Draft_write = ''draft_write''"
| "risk_text Confirm_write = ''confirm_write''"

record annotations =
  read_only_hint :: "bool option"
  destructive_hint :: "bool option"
  idempotent_hint :: "bool option"
  open_world_hint :: "bool option"

record tool_definition =
  td_name :: string
  td_version :: string
  td_title :: string
  td_description :: string
  td_risk_level :: risk_level
  td_required_permission :: string
  td_required_capability :: "string option"
  td_annotations :: annotations

definition permission_groups :: "string list" where
  "permission_groups = [''core_read'', ''accounting_read'', ''accounting_propose'', ''payroll_read'',
     ''payroll_draft_write'']"

definition destructive_is_valid :: "risk_level \<Rightarrow> bool option \<Rightarrow> bool" where
  "destructive_is_valid risk hint =
    (if risk = Draft_write then hint \<noteq> None else hint = Some (risk = Confirm_write))"

text \<open>\<open>ToolDefinition.__post_init__\<close>\<close>

definition tool_post_init :: "tool_definition \<Rightarrow> tool_definition res" where
  "tool_post_init d =
    (let a = td_annotations d;
         valid =
           (if td_risk_level d = Read then
              read_only_hint a = Some True \<and> destructive_hint a = Some False
                \<and> idempotent_hint a = Some True
            else
              read_only_hint a = Some False \<and> destructive_is_valid (td_risk_level d) (destructive_hint a)
                \<and> idempotent_hint a = Some True \<and> open_world_hint a = Some True)
     in if valid then Inr d else Inl ValueError)"

text \<open>\<open>validate_write_tool_definition\<close>\<close>

definition validate_write_tool_definition :: "tool_definition \<Rightarrow> unit res" where
  "validate_write_tool_definition d =
    (let a = td_annotations d in
     if td_risk_level d = Read then Inl ValueError
     else if read_only_hint a \<noteq> Some False
        \<or> \<not> destructive_is_valid (td_risk_level d) (destructive_hint a)
        \<or> idempotent_hint a \<noteq> Some True
        \<or> open_world_hint a \<noteq> Some True then Inl ValueError
     else Inr ())"

definition protocol_meta :: "tool_definition \<Rightarrow> (string \<times> string option) list" where
  "protocol_meta d =
    [(''toolVersion'', Some (td_version d)),
     (''riskLevel'', Some (risk_text (td_risk_level d))),
     (''requiredPermission'', Some (td_required_permission d)),
     (''requiredCapability'', td_required_capability d)]"

definition mk_tool ::
  "string \<Rightarrow> string \<Rightarrow> string \<Rightarrow> string \<Rightarrow> risk_level \<Rightarrow> string \<Rightarrow> string option \<Rightarrow>
   bool option \<Rightarrow> bool option \<Rightarrow> bool option \<Rightarrow> bool option \<Rightarrow> tool_definition" where
  "mk_tool nm ver ti de risk perm cap ro des idem ow =
    \<lparr>td_name = nm, td_version = ver, td_title = ti, td_description = de, td_risk_level = risk,
     td_required_permission = perm, td_required_capability = cap,
     td_annotations = \<lparr>read_only_hint = ro, destructive_hint = des, idempotent_hint = idem,
       open_world_hint = ow\<rparr>\<rparr>"

section \<open>The registered tools\<close>

text \<open>The titles and descriptions shown to clients.\<close>

definition title_get_erp_capabilities :: string where
  "title_get_erp_capabilities = ''Get ERP capabilities''"

definition about_get_erp_capabilities :: string where
  "about_get_erp_capabilities =
     ''Discover the connected Odoo edition, version, installed module capabilities, available tools, and authorized companies.''"

definition title_get_currency_rate_history :: string where
  "title_get_currency_rate_history = ''Get currency rate history''"

definition about_get_currency_rate_history :: string where
  "about_get_currency_rate_history =
     ''Return company-scoped Odoo currency-rate history for an exact currency and inclusive period.''"

definition title_get_trial_balance :: string where
  "title_get_trial_balance = ''Get trial balance''"

definition about_get_trial_balance :: string where
  "about_get_trial_balance =
     ''Return opening balances, posted period movements, closing balances, company-currency totals, and a Markdown artifact.''"

definition title_get_profit_and_loss :: string where
  "title_get_profit_and_loss = ''Get profit and loss''"

definition about_get_profit_and_loss :: string where
  "about_get_profit_and_loss =
     ''Return posted income and expense balances for an inclusive period, group totals, net profit or loss, and a Markdown artifact.''"

definition title_get_balance_sheet :: string where
  "title_get_balance_sheet = ''Get balance sheet''"

definition about_get_balance_sheet :: string where
  "about_get_balance_sheet =
     ''Return posted asset, liability, equity, and unclosed earnings balances through an inclusive date with a balancing check and Markdown artifact.''"

definition title_get_aged_receivables :: string where
  "title_get_aged_receivables = ''Get aged receivables''"

definition about_get_aged_receivables :: string where
  "about_get_aged_receivables =
     ''Return posted receivable residuals by partner and due-date bucket as of a date.''"

definition title_get_aged_payables :: string where
  "title_get_aged_payables = ''Get aged payables''"

definition about_get_aged_payables :: string where
  "about_get_aged_payables =
     ''Return posted payable residuals by partner and due-date bucket as of a date.''"

definition title_get_cashbook :: string where
  "title_get_cashbook = ''Get cashbook''"

definition about_get_cashbook :: string where
  "about_get_cashbook =
     ''Return posted cash and bank transactions, opening and closing balances, period totals, and a Markdown artifact.''"

definition title_flag_unmatched_statement_lines :: string where
  "title_flag_unmatched_statement_lines = ''Flag unmatched bank statement lines''"

definition about_flag_unmatched_statement_lines :: string where
  "about_flag_unmatched_statement_lines =
     ''Identify unreconciled bank statement lines without a unique candidate at or above the requested confidence threshold.''"

definition title_reconcile_bank_statement_lines :: string where
  "title_reconcile_bank_statement_lines = ''Propose bank statement reconciliation''"

definition about_reconcile_bank_statement_lines :: string where
  "about_reconcile_bank_statement_lines =
     ''Preview or persist deterministic reconciliation proposals without changing final reconciliation state in Odoo.''"

definition title_list_open_invoices :: string where
  "title_list_open_invoices = ''List open customer invoices''"

definition about_list_open_invoices :: string where
  "about_list_open_invoices =
     ''Return posted customer invoices with residual amounts as of a date.''"

definition title_list_open_bills :: string where
  "title_list_open_bills = ''List open supplier bills''"

definition about_list_open_bills :: string where
  "about_list_open_bills =
     ''Return posted supplier bills with residual amounts as of a date.''"

definition title_create_customer_invoice :: string where
  "title_create_customer_invoice = ''Create customer invoice draft''"

definition about_create_customer_invoice :: string where
  "about_create_customer_invoice =
     ''Preview inputs or explicitly create one unposted customer invoice draft.''"

definition title_create_supplier_bill :: string where
  "title_create_supplier_bill = ''Create supplier bill draft''"

definition about_create_supplier_bill :: string where
  "about_create_supplier_bill =
     ''Preview inputs or explicitly create one unposted supplier bill draft.''"

definition title_create_credit_note :: string where
  "title_create_credit_note = ''Create linked credit-note draft''"

definition about_create_credit_note :: string where
  "about_create_credit_note =
     ''Preview or explicitly create one linked, unposted full credit note.''"

definition title_validate_invoice :: string where
  "title_validate_invoice = ''Post an existing invoice draft''"

definition about_validate_invoice :: string where
  "about_validate_invoice =
     ''Preview or explicitly post one eligible existing draft document.''"

definition title_register_payment :: string where
  "title_register_payment = ''Register invoice payment''"

definition about_register_payment :: string where
  "about_register_payment =
     (''Preview or execute Odoo'' @ [CHR 0x27] @ ''s configured standard payment workflow.'')"

definition title_list_journal_entries :: string where
  "title_list_journal_entries = ''List journal entries''"

definition about_list_journal_entries :: string where
  "about_list_journal_entries =
     ''List filtered manual journal entries with bounded compact lines.''"

definition title_create_journal_entry :: string where
  "title_create_journal_entry = ''Create manual journal entry draft''"

definition about_create_journal_entry :: string where
  "about_create_journal_entry =
     ''Preview or explicitly create one balanced unposted manual journal entry.''"

definition title_post_journal_entry :: string where
  "title_post_journal_entry = ''Post existing manual journal entry''"

definition about_post_journal_entry :: string where
  "about_post_journal_entry =
     ''Preview or explicitly post one existing balanced draft manual entry.''"

definition title_list_payroll_periods :: string where
  "title_list_payroll_periods = ''List payroll periods''"

definition about_list_payroll_periods :: string where
  "about_list_payroll_periods =
     ''List bounded exact periods observed in authorized Odoo payslips.''"

definition title_get_payroll_batch :: string where
  "title_get_payroll_batch = ''Get payroll batch''"

definition about_get_payroll_batch :: string where
  "about_get_payroll_batch =
     ''Return one exact payroll batch with compact payslips and complete observed totals.''"

definition title_list_payslips :: string where
  "title_list_payslips = ''List payslips''"

definition about_list_payslips :: string where
  "about_list_payslips =
     ''List compact payslips for an exact batch, exact period, or both.''"

definition title_get_payslip :: string where
  "title_get_payslip = ''Get payslip''"

definition about_get_payslip :: string where
  "about_get_payslip =
     ''Return one exact payslip with bounded calculated lines, worked days, and inputs.''"

definition title_get_employee_payroll_context :: string where
  "title_get_employee_payroll_context = ''Get employee payroll context''"

definition about_get_employee_payroll_context :: string where
  "about_get_employee_payroll_context =
     (''Return one employee'' @ [CHR 0x27] @ ''s bounded contract evidence for an exact payroll period.'')"

definition title_list_salary_rules :: string where
  "title_list_salary_rules = ''List observed salary rules''"

definition about_list_salary_rules :: string where
  "about_list_salary_rules =
     ''List salary-rule snapshots observed on eligible company-scoped payslip lines.''"

definition title_get_attendance_summary :: string where
  "title_get_attendance_summary = ''Get payroll work-entry summary''"

definition about_get_attendance_summary :: string where
  "about_get_attendance_summary =
     ''Summarize bounded Odoo payroll work-entry evidence without claiming attendance.''"

definition title_compare_payroll_periods :: string where
  "title_compare_payroll_periods = ''Compare payroll periods''"

definition about_compare_payroll_periods :: string where
  "about_compare_payroll_periods =
     ''Compare two exact payroll periods using current, source-linked Odoo evidence.''"

definition title_analyze_employee_payroll_change :: string where
  "title_analyze_employee_payroll_change = ''Analyze employee payroll change''"

definition about_analyze_employee_payroll_change :: string where
  "about_analyze_employee_payroll_change =
     (''Analyze one employee'' @ [CHR 0x27] @ ''s exact line, contract, and work-entry changes across periods.'')"

definition title_detect_payroll_anomalies :: string where
  "title_detect_payroll_anomalies = ''Detect payroll anomalies''"

definition about_detect_payroll_anomalies :: string where
  "about_detect_payroll_anomalies =
     ''Apply fixed, explainable thresholds and optional request-time history to payroll evidence.''"

definition title_explain_payslip :: string where
  "title_explain_payslip = ''Explain payslip evidence''"

definition about_explain_payslip :: string where
  "about_explain_payslip =
     (''Organize one exact payslip'' @ [CHR 0x27] @ ''s Odoo-returned lines and context without recalculating it.'')"

definition title_prepare_payroll_approval_pack :: string where
  "title_prepare_payroll_approval_pack = ''Prepare payroll approval pack''"

definition about_prepare_payroll_approval_pack :: string where
  "about_prepare_payroll_approval_pack =
     ''Prepare an inline, source-linked payroll review pack without approving payroll.''"

definition title_set_draft_payroll_input :: string where
  "title_set_draft_payroll_input = ''Set draft payroll input''"

definition about_set_draft_payroll_input :: string where
  "about_set_draft_payroll_input =
     ''Preview or explicitly create or update one eligible input on one editable payslip.''"

definition title_remove_draft_payroll_input :: string where
  "title_remove_draft_payroll_input = ''Remove draft payroll input''"

definition about_remove_draft_payroll_input :: string where
  "about_remove_draft_payroll_input =
     ''Preview or explicitly remove one eligible input from one editable payslip.''"

definition title_recalculate_draft_payslip :: string where
  "title_recalculate_draft_payslip = ''Recalculate draft payslip''"

definition about_recalculate_draft_payslip :: string where
  "about_recalculate_draft_payslip =
     (''Preview or explicitly invoke Odoo'' @ [CHR 0x27] @ ''s standard calculation on one editable payslip.'')"

definition tool_registry_1 :: "tool_definition list" where
  "tool_registry_1 = [
    mk_tool ''get_erp_capabilities'' ''1.0.0'' title_get_erp_capabilities about_get_erp_capabilities
      Read ''core_read'' None (Some True) (Some False) (Some True) (Some True),
    mk_tool ''get_currency_rate_history'' ''1.0.0'' title_get_currency_rate_history about_get_currency_rate_history
      Read ''accounting_read'' (Some ''account'') (Some True) (Some False) (Some True) (Some True),
    mk_tool ''get_trial_balance'' ''1.0.0'' title_get_trial_balance about_get_trial_balance
      Read ''accounting_read'' (Some ''account'') (Some True) (Some False) (Some True) (Some True),
    mk_tool ''get_profit_and_loss'' ''1.0.0'' title_get_profit_and_loss about_get_profit_and_loss
      Read ''accounting_read'' (Some ''account'') (Some True) (Some False) (Some True) (Some True),
    mk_tool ''get_balance_sheet'' ''1.0.0'' title_get_balance_sheet about_get_balance_sheet
      Read ''accounting_read'' (Some ''account'') (Some True) (Some False) (Some True) (Some True),
    mk_tool ''get_aged_receivables'' ''1.0.0'' title_get_aged_receivables about_get_aged_receivables
      Read ''accounting_read'' (Some ''account'') (Some True) (Some False) (Some True) (Some True),
    mk_tool ''get_aged_payables'' ''1.0.0'' title_get_aged_payables about_get_aged_payables
      Read ''accounting_read'' (Some ''account'') (Some True) (Some False) (Some True) (Some True)]"

definition tool_registry_2 :: "tool_definition list" where
  "tool_registry_2 = [
    mk_tool ''get_cashbook'' ''1.0.0'' title_get_cashbook about_get_cashbook
      Read ''accounting_read'' (Some ''account'') (Some True) (Some False) (Some True) (Some True),
    mk_tool ''flag_unmatched_statement_lines'' ''1.0.0'' title_flag_unmatched_statement_lines about_flag_unmatched_statement_lines
      Read ''accounting_read'' (Some ''account_accountant'') (Some True) (Some False) (Some True) (Some True),
    mk_tool ''reconcile_bank_statement_lines'' ''1.0.0'' title_reconcile_bank_statement_lines about_reconcile_bank_statement_lines
      Propose ''accounting_propose'' (Some ''account_accountant'') (Some False) (Some False) (Some True) (Some True),
    mk_tool ''list_open_invoices'' ''1.0.0'' title_list_open_invoices about_list_open_invoices
      Read ''accounting_read'' (Some ''account'') (Some True) (Some False) (Some True) (Some True),
    mk_tool ''list_open_bills'' ''1.0.0'' title_list_open_bills about_list_open_bills
      Read ''accounting_read'' (Some ''account'') (Some True) (Some False) (Some True) (Some True),
    mk_tool ''create_customer_invoice'' ''1.0.0'' title_create_customer_invoice about_create_customer_invoice
      Draft_write ''accounting_propose'' (Some ''account'') (Some False) (Some False) (Some True) (Some True),
    mk_tool ''create_supplier_bill'' ''1.0.0'' title_create_supplier_bill about_create_supplier_bill
      Draft_write ''accounting_propose'' (Some ''account'') (Some False) (Some False) (Some True) (Some True),
    mk_tool ''create_credit_note'' ''1.0.0'' title_create_credit_note about_create_credit_note
      Draft_write ''accounting_propose'' (Some ''account'') (Some False) (Some False) (Some True) (Some True)]"

definition tool_registry_3 :: "tool_definition list" where
  "tool_registry_3 = [
    mk_tool ''validate_invoice'' ''1.0.0'' title_validate_invoice about_validate_invoice
      Confirm_write ''accounting_propose'' (Some ''account'') (Some False) (Some True) (Some True) (Some True),
    mk_tool ''register_payment'' ''1.0.0'' title_register_payment about_register_payment
      Confirm_write ''accounting_propose'' (Some ''account'') (Some False) (Some True) (Some True) (Some True),
    mk_tool ''list_journal_entries'' ''1.0.0'' title_list_journal_entries about_list_journal_entries
      Read ''accounting_read'' (Some ''account'') (Some True) (Some False) (Some True) (Some True),
    mk_tool ''create_journal_entry'' ''1.0.0'' title_create_journal_entry about_create_journal_entry
      Draft_write ''accounting_propose'' (Some ''account'') (Some False) (Some False) (Some True) (Some True),
    mk_tool ''post_journal_entry'' ''1.0.0'' title_post_journal_entry about_post_journal_entry
      Confirm_write ''accounting_propose'' (Some ''account'') (Some False) (Some True) (Some True) (Some True),
    mk_tool ''list_payroll_periods'' ''1.0.0'' title_list_payroll_periods about_list_payroll_periods
      Read ''payroll_read'' (Some ''hr_payroll'') (Some True) (Some False) (Some True) (Some True),
    mk_tool ''get_payroll_batch'' ''1.0.0'' title_get_payroll_batch about_get_payroll_batch
      Read ''payroll_read'' (Some ''hr_payroll'') (Some True) (Some False) (Some True) (Some True),
    mk_tool ''list_payslips'' ''1.0.0'' title_list_payslips about_list_payslips
      Read ''payroll_read'' (Some ''hr_payroll'') (Some True) (Some False) (Some True) (Some True),
    mk_tool ''get_payslip'' ''1.0.0'' title_get_payslip about_get_payslip
      Read ''payroll_read'' (Some ''hr_payroll'') (Some True) (Some False) (Some True) (Some True)]"

definition tool_registry_4 :: "tool_definition list" where
  "tool_registry_4 = [
    mk_tool ''get_employee_payroll_context'' ''1.0.0'' title_get_employee_payroll_context about_get_employee_payroll_context
      Read ''payroll_read'' (Some ''hr_payroll'') (Some True) (Some False) (Some True) (Some True),
    mk_tool ''list_salary_rules'' ''1.0.0'' title_list_salary_rules about_list_salary_rules
      Read ''payroll_read'' (Some ''hr_payroll'') (Some True) (Some False) (Some True) (Some True),
    mk_tool ''get_attendance_summary'' ''1.0.0'' title_get_attendance_summary about_get_attendance_summary
      Read ''payroll_read'' (Some ''hr_payroll'') (Some True) (Some False) (Some True) (Some True),
    mk_tool ''compare_payroll_periods'' ''1.0.0'' title_compare_payroll_periods about_compare_payroll_periods
      Read ''payroll_read'' (Some ''hr_payroll'') (Some True) (Some False) (Some True) (Some True),
    mk_tool ''analyze_employee_payroll_change'' ''1.0.0'' title_analyze_employee_payroll_change about_analyze_employee_payroll_change
      Read ''payroll_read'' (Some ''hr_payroll'') (Some True) (Some False) (Some True) (Some True),
    mk_tool ''detect_payroll_anomalies'' ''1.0.0'' title_detect_payroll_anomalies about_detect_payroll_anomalies
      Read ''payroll_read'' (Some ''hr_payroll'') (Some True) (Some False) (Some True) (Some True),
    mk_tool ''explain_payslip'' ''1.0.0'' title_explain_payslip about_explain_payslip
      Read ''payroll_read'' (Some ''hr_payroll'') (Some True) (Some False) (Some True) (Some True),
    mk_tool ''prepare_payroll_approval_pack'' ''1.0.0'' title_prepare_payroll_approval_pack about_prepare_payroll_approval_pack
      Read ''payroll_read'' (Some ''hr_payroll'') (Some True) (Some False) (Some True) (Some True)]"

definition tool_registry_5 :: "tool_definition list" where
  "tool_registry_5 = [
    mk_tool ''set_draft_payroll_input'' ''1.0.0'' title_set_draft_payroll_input about_set_draft_payroll_input
      Draft_write ''payroll_draft_write'' (Some ''hr_payroll'') (Some False) (Some False) (Some True) (Some True),
    mk_tool ''remove_draft_payroll_input'' ''1.0.0'' title_remove_draft_payroll_input about_remove_draft_payroll_input
      Draft_write ''payroll_draft_write'' (Some ''hr_payroll'') (Some False) (Some True) (Some True) (Some True),
    mk_tool ''recalculate_draft_payslip'' ''1.0.0'' title_recalculate_draft_payslip about_recalculate_draft_payslip
      Draft_write ''payroll_draft_write'' (Some ''hr_payroll'') (Some False) (Some True) (Some True) (Some True)]"

definition tool_registry :: "tool_definition list" where
  "tool_registry = tool_registry_1 @ tool_registry_2 @ tool_registry_3 @ tool_registry_4 @ tool_registry_5"

text \<open>\<open>next(...)\<close> without a default: an unknown name raises StopIteration, here None.\<close>

definition get_tool_definition :: "string \<Rightarrow> tool_definition option" where
  "get_tool_definition nm = find_row (\<lambda>d. td_name d = nm) tool_registry"

definition valid_scopes :: "string list" where
  "valid_scopes = remdups (map td_required_permission tool_registry)"

text \<open>The tools an identity may call, sorted by name: \<open>available_tools\<close> of
  \<open>get_erp_capabilities\<close>.\<close>

definition tool_is_available :: "string list \<Rightarrow> (string \<times> bool) list \<Rightarrow> tool_definition \<Rightarrow> bool" where
  "tool_is_available permissions modules d \<longleftrightarrow>
     td_required_permission d \<in> set permissions \<and>
     (case td_required_capability d of None \<Rightarrow> True | Some c \<Rightarrow> map_of modules c = Some True)"

definition available_tools :: "string list \<Rightarrow> (string \<times> bool) list \<Rightarrow> tool_definition list \<Rightarrow> string list" where
  "available_tools permissions modules tools =
     sort (map td_name (filter (tool_is_available permissions modules) tools))"

section \<open>Facts about the registry\<close>

lemmas registry_defs = tool_registry_def tool_registry_1_def tool_registry_2_def tool_registry_3_def
  tool_registry_4_def tool_registry_5_def

lemmas tool_contract_defs = tool_post_init_def validate_write_tool_definition_def
  destructive_is_valid_def Let_def

text \<open>Past construction, a tool is write-capable for the policy exactly when it is not read-only.\<close>

lemma write_definition_iff:
  "tool_post_init d = Inr d' \<Longrightarrow>
    validate_write_tool_definition d = Inr () \<longleftrightarrow> td_risk_level d \<noteq> Read"
  by (auto simp: tool_contract_defs split: if_splits)

lemma validate_write_Inr:
  "validate_write_tool_definition d = Inr u \<Longrightarrow>
    td_risk_level d \<noteq> Read \<and> read_only_hint (td_annotations d) = Some False"
  by (auto simp: tool_contract_defs split: if_splits)

lemma mk_tool_sel [simp]:
  "td_name (mk_tool nm ver ti de risk perm cap ro des idem ow) = nm"
  "td_version (mk_tool nm ver ti de risk perm cap ro des idem ow) = ver"
  "td_risk_level (mk_tool nm ver ti de risk perm cap ro des idem ow) = risk"
  "td_required_permission (mk_tool nm ver ti de risk perm cap ro des idem ow) = perm"
  "td_required_capability (mk_tool nm ver ti de risk perm cap ro des idem ow) = cap"
  "read_only_hint (td_annotations (mk_tool nm ver ti de risk perm cap ro des idem ow)) = ro"
  "destructive_hint (td_annotations (mk_tool nm ver ti de risk perm cap ro des idem ow)) = des"
  "idempotent_hint (td_annotations (mk_tool nm ver ti de risk perm cap ro des idem ow)) = idem"
  "open_world_hint (td_annotations (mk_tool nm ver ti de risk perm cap ro des idem ow)) = ow"
  by (simp_all add: mk_tool_def)

lemma registry_contract: "\<forall>d \<in> set tool_registry. tool_post_init d = Inr d"
  unfolding registry_defs
  by (simp add: tool_post_init_def destructive_is_valid_def del: not_None_eq)

lemma registry_names_distinct: "distinct (map td_name tool_registry)"
  unfolding registry_defs by simp

lemma registry_write_permission:
  "\<forall>d \<in> set tool_registry. td_risk_level d \<in> {Draft_write, Confirm_write} \<longrightarrow>
     td_required_permission d \<in> {''accounting_propose'', ''payroll_draft_write''}"
  unfolding registry_defs by simp

lemma registry_permission_groups:
  "\<forall>d \<in> set tool_registry. td_required_permission d \<in> set permission_groups"
  unfolding registry_defs permission_groups_def by simp

lemma get_tool_definition_registered:
  assumes "d \<in> set tool_registry"
  shows "get_tool_definition (td_name d) = Some d"
proof -
  have unique: "e = d" if "e \<in> set tool_registry" "td_name e = td_name d" for e
    using registry_names_distinct assms that by (auto simp: distinct_map dest: inj_onD)
  show ?thesis
  proof (cases "get_tool_definition (td_name d)")
    case None
    with assms show ?thesis unfolding get_tool_definition_def find_row_None by blast
  next
    case (Some e)
    with unique show ?thesis by (auto simp: get_tool_definition_def dest: find_row_Some)
  qed
qed

lemma available_tools_sound:
  "nm \<in> set (available_tools permissions modules tools) \<longleftrightarrow>
    (\<exists>d \<in> set tools. td_name d = nm \<and> tool_is_available permissions modules d)"
  by (auto simp: available_tools_def)

section \<open>Properties\<close>

text \<open>The registry is coherent. Every registered tool satisfies the contract between its risk level
  and its protocol annotations; names are unique, so the lookup of a registered name returns that very
  tool; every required permission is one of the permission groups; a tool that writes asks for a write
  group; and the write-safety boundary accepts a registered tool exactly when it is not a read tool.\<close>

theorem registry_is_coherent:
  "(\<forall>d \<in> set tool_registry. tool_post_init d = Inr d \<and> get_tool_definition (td_name d) = Some d
      \<and> td_required_permission d \<in> set permission_groups
      \<and> (td_risk_level d \<in> {Draft_write, Confirm_write} \<longrightarrow>
           td_required_permission d \<in> {''accounting_propose'', ''payroll_draft_write''})
      \<and> (validate_write_tool_definition d = Inr () \<longleftrightarrow> td_risk_level d \<noteq> Read))
    \<and> distinct (map td_name tool_registry)"
  using registry_contract registry_names_distinct registry_write_permission registry_permission_groups
    get_tool_definition_registered write_definition_iff by blast

theorem registry_is_coherent_witness:
  "\<exists>d. hd tool_registry = d \<and> get_tool_definition (td_name d) = Some d"
proof -
  have "hd tool_registry \<in> set tool_registry" by (simp add: tool_registry_def tool_registry_1_def)
  with registry_is_coherent show ?thesis by blast
qed

text \<open>A tool is offered exactly when it is permitted and installed. \<open>get_erp_capabilities\<close> lists
  a tool's name exactly when some tool of that name has its permission granted and its capability, if it
  needs one, detected as available; the list is sorted.\<close>

theorem available_tools_exact:
  "(nm \<in> set (available_tools permissions modules tools) \<longleftrightarrow>
    (\<exists>d \<in> set tools. td_name d = nm \<and> td_required_permission d \<in> set permissions
      \<and> (\<forall>c. td_required_capability d = Some c \<longrightarrow> map_of modules c = Some True)))
    \<and> sorted (available_tools permissions modules tools)"
  by (auto simp: available_tools_def tool_is_available_def split: option.splits)

theorem available_tools_exact_witness:
  "available_tools [''p''] [] [mk_tool ''n'' ''1'' [] [] Read ''p'' None None None None None] = [''n'']
    \<and> ''m'' \<notin> set (available_tools [''p''] [] [mk_tool ''n'' ''1'' [] [] Read ''p'' None None None None None])"
  using available_tools_exact [of "''m''" "[''p'']" "[]" "[mk_tool ''n'' ''1'' [] [] Read ''p'' None None None None None]"]
  by (simp add: available_tools_def tool_is_available_def)

end
