(* ===== verification/Policy.thy ===== *)
theory Policy
  imports ErrorCodes
begin

text \<open>
  The fail-closed adapter policy of \<open>adapters/odoo/policy.py\<close> and the capability probes of
  \<open>adapters/odoo/capabilities.py\<close>: which Odoo models may be read, which actions may be
  executed, and the removal of denied fields from every value Odoo returns. Sets of names are
  lists; a missing key of a dictionary of sets is the empty set, as in the source.
\<close>

section \<open>Allow lists\<close>

definition core_model_read_allowlist :: "string list" where
  "core_model_read_allowlist = [''res.company'']"

definition module_model_read_allowlist :: "(string \<times> string list) list" where
  "module_model_read_allowlist =
    [(''accounting'',
      [''account.move'', ''account.move.line'', ''account.journal'', ''account.bank.statement.line'',
       ''account.payment'', ''account.payment.term'', ''account.account'',
       ''account.partial.reconcile'', ''account.analytic.account'', ''res.currency'',
       ''res.currency.rate'', ''res.partner'', ''product.product''])]"

definition accounting_model_action_allowlist :: "(string \<times> string list) list" where
  "accounting_model_action_allowlist =
    [(''account.move'', [''create_draft'', ''post_existing_draft'', ''reverse_existing_move'']),
     (''account.move.reversal'', [''create_transient'', ''execute_standard_workflow'']),
     (''account.payment.register'',
      [''create_preview_transient'', ''read_preview_transient'', ''create_execution_transient'',
       ''execute_standard_workflow''])]"

definition payroll_model_read_allowlist_by_version :: "(int \<times> string list) list" where
  "payroll_model_read_allowlist_by_version =
    [(18, [''hr.payslip'', ''hr.payslip.run'', ''hr.payslip.line'', ''hr.payslip.worked_days'',
           ''hr.payslip.input'', ''hr.payslip.input.type'', ''hr.payroll.structure'',
           ''hr.employee'', ''hr.contract'', ''hr.work.entry'']),
     (19, [''hr.payslip'', ''hr.payslip.run'', ''hr.payslip.line'', ''hr.payslip.worked_days'',
           ''hr.payslip.input'', ''hr.payslip.input.type'', ''hr.payroll.structure'',
           ''hr.employee'', ''hr.version'', ''hr.work.entry''])]"

definition payroll_model_action_allowlist_by_version :: "(int \<times> (string \<times> string list) list) list" where
  "payroll_model_action_allowlist_by_version =
    map (\<lambda>version. (version,
      [(''hr.payslip.input'', [''create_draft_input'', ''update_draft_input'', ''delete_draft_input'']),
       (''hr.payslip'', [''compute_sheet_on_editable_payslip''])])) [18, 19]"

definition field_denylist :: "string list" where
  "field_denylist = [''password'', ''password_crypt'', ''api_key'', ''bank_account_number'', ''acc_number'']"

definition capability_probes :: "(string \<times> string) list" where
  "capability_probes =
    [(''base'', ''res.company''), (''account'', ''account.move''),
     (''account_accountant'', ''account.bank.statement.line''), (''hr_payroll'', ''hr.payslip'')]"

text \<open>\<open>d.get(key, default)\<close>\<close>

definition get_or :: "('k \<times> 'v) list \<Rightarrow> 'k \<Rightarrow> 'v \<Rightarrow> 'v" where
  "get_or d k dflt = (case map_of d k of Some v \<Rightarrow> v | None \<Rightarrow> dflt)"

section \<open>Guards\<close>

definition model_denied :: odoo_error where
  "model_denied = mk_error MODEL_NOT_ALLOWED
     ''The requested Odoo model or action is not allowed.''
     ''Use a supported workflow operation.''"

definition ensure_model_read_allowed :: "string \<Rightarrow> string option \<Rightarrow> unit odoo" where
  "ensure_model_read_allowed model module =
    (let allowed =
       (case module of None \<Rightarrow> Some core_model_read_allowlist
        | Some m \<Rightarrow> map_of module_model_read_allowlist m)
     in case allowed of None \<Rightarrow> Inl model_denied
        | Some ms \<Rightarrow> if model \<notin> set ms then Inl model_denied else Inr ())"

definition ensure_accounting_action_allowed :: "string \<Rightarrow> string \<Rightarrow> unit odoo" where
  "ensure_accounting_action_allowed model action =
    (if action = ''unlink'' \<or> action \<notin> set (get_or accounting_model_action_allowlist model [])
     then Inl model_denied else Inr ())"

definition ensure_payroll_model_read_allowed :: "int \<Rightarrow> string \<Rightarrow> unit odoo" where
  "ensure_payroll_model_read_allowed version model =
    (if model \<notin> set (get_or payroll_model_read_allowlist_by_version version [])
     then Inl model_denied else Inr ())"

definition ensure_payroll_action_allowed :: "int \<Rightarrow> string \<Rightarrow> string \<Rightarrow> unit odoo" where
  "ensure_payroll_action_allowed version model action =
    (let allowed = get_or (get_or payroll_model_action_allowlist_by_version version []) model [] in
     if action \<in> {''create'', ''write'', ''unlink''} \<or> action \<notin> set allowed
     then Inl model_denied else Inr ())"

definition ensure_probe_allowed :: "string \<Rightarrow> string \<Rightarrow> unit odoo" where
  "ensure_probe_allowed capability model =
    (let read_allowed =
       model \<in> set core_model_read_allowlist
       \<or> list_ex (\<lambda>(_, ms). model \<in> set ms) module_model_read_allowlist
       \<or> list_ex (\<lambda>(_, ms). model \<in> set ms) payroll_model_read_allowlist_by_version
     in if map_of capability_probes capability \<noteq> Some model \<or> \<not> read_allowed
        then Inl model_denied else Inr ())"

section \<open>Denied fields\<close>

definition field_denied :: "string \<Rightarrow> bool" where
  "field_denied k \<longleftrightarrow> casefold k \<in> set field_denylist"

fun strip_denied_fields :: "pyval \<Rightarrow> pyval" where
  "strip_denied_fields (PDict kvs) =
     PDict (map (\<lambda>(k, v). (k, strip_denied_fields v)) (filter (\<lambda>(k, v). \<not> field_denied k) kvs))"
| "strip_denied_fields (PList xs) = PList (map strip_denied_fields xs)"
| "strip_denied_fields (PTuple xs) = PTuple (map strip_denied_fields xs)"
| "strip_denied_fields v = v"

text \<open>No dictionary at any depth has a denied key.\<close>

fun no_denied :: "pyval \<Rightarrow> bool" where
  "no_denied (PDict kvs) = list_all (\<lambda>(k, v). \<not> field_denied k \<and> no_denied v) kvs"
| "no_denied (PList xs) = list_all no_denied xs"
| "no_denied (PTuple xs) = list_all no_denied xs"
| "no_denied v = True"

section \<open>Capability detection\<close>

text \<open>\<open>probe\<close> is the transport's \<open>probe_model\<close> for the validated companies.\<close>

fun detect_loop :: "(string \<Rightarrow> bool odoo) \<Rightarrow> (string \<times> string) list \<Rightarrow> (string \<times> bool) list \<Rightarrow>
    (string \<times> bool) list odoo" where
  "detect_loop probe [] detected = Inr detected"
| "detect_loop probe ((capability, model) # rest) detected =
     ebind (ensure_probe_allowed capability model) (\<lambda>_.
     ebind (probe model) (\<lambda>available.
       detect_loop probe rest (dict_put capability available detected)))"

definition detect_capabilities :: "(string \<Rightarrow> bool odoo) \<Rightarrow> (string \<times> bool) list odoo" where
  "detect_capabilities probe = detect_loop probe capability_probes []"

section \<open>What the policy guarantees\<close>

lemma accounting_action_cases:
  assumes "ensure_accounting_action_allowed model action = Inr ()"
  shows "(model, action) \<in> {(m, a). \<exists>as. (m, as) \<in> set accounting_model_action_allowlist \<and> a \<in> set as}"
  using assms
  by (cases "map_of accounting_model_action_allowlist model")
    (auto simp: ensure_accounting_action_allowed_def get_or_def split: if_splits dest: map_of_SomeD)

lemma payroll_read_supported:
  "ensure_payroll_model_read_allowed version model = Inr () \<Longrightarrow> version \<in> {18, 19}"
  by (auto simp: ensure_payroll_model_read_allowed_def get_or_def
      payroll_model_read_allowlist_by_version_def split: if_splits)

lemma payroll_action_supported:
  assumes "ensure_payroll_action_allowed version model action = Inr ()"
  shows "version \<in> {18, 19} \<and>
    (model = ''hr.payslip.input'' \<and>
       action \<in> {''create_draft_input'', ''update_draft_input'', ''delete_draft_input''}
     \<or> model = ''hr.payslip'' \<and> action = ''compute_sheet_on_editable_payslip'')"
  using assms
  by (auto simp: ensure_payroll_action_allowed_def get_or_def
      payroll_model_action_allowlist_by_version_def split: if_splits)

lemma no_denied_strip: "no_denied (strip_denied_fields v)"
  by (induction v rule: pyval_nested_induct) (force simp: list_all_iff)+

lemma strip_no_denied_id: "no_denied v \<Longrightarrow> strip_denied_fields v = v"
proof (induction v rule: pyval_nested_induct)
  case (PDict kvs)
  then have "filter (\<lambda>(k, v). \<not> field_denied k) kvs = kvs" by (force simp: list_all_iff filter_id_conv)
  moreover have "map (\<lambda>(k, v). (k, strip_denied_fields v)) kvs = kvs"
    using PDict by (intro map_idI) (force simp: list_all_iff)
  ultimately show ?case by simp
qed (auto simp: list_all_iff map_idI)

lemma map_of_filter_keys:
  "map_of (filter (\<lambda>(k, v). P k) kvs) k = (if P k then map_of kvs k else None)"
  by (induction kvs) auto

lemma at_path_strip:
  "list_all (\<lambda>k. \<not> field_denied k) ks \<Longrightarrow>
    at_path (strip_denied_fields v) ks = map_option strip_denied_fields (at_path v ks)"
proof (induction v ks rule: at_path.induct)
  case (2 kvs k ks)
  have "map_of (map (\<lambda>(k, v). (k, strip_denied_fields v)) kvs') k
      = map_option strip_denied_fields (map_of kvs' k)" for kvs'
    by (induction kvs') auto
  with 2 show ?case by (simp add: map_of_filter_keys split: option.split)
qed auto

lemma probes_allowed: "(c, m) \<in> set capability_probes \<Longrightarrow> ensure_probe_allowed c m = Inr ()"
  by (auto simp: capability_probes_def ensure_probe_allowed_def core_model_read_allowlist_def
      module_model_read_allowlist_def payroll_model_read_allowlist_by_version_def)

lemma detect_loop_total:
  assumes "\<And>c m. (c, m) \<in> set probes \<Longrightarrow> ensure_probe_allowed c m = Inr ()"
    and "\<And>m. probe m = Inr (avail m)"
  shows "detect_loop probe probes detected
    = Inr (dict_update detected (map (\<lambda>(c, m). (c, avail m)) probes))"
  using assms(1)
proof (induction probes arbitrary: detected)
  case (Cons p ps)
  obtain c m where p: "p = (c, m)" by (cases p)
  from Cons.prems have "ensure_probe_allowed c m = Inr ()" by (simp add: p)
  with Cons show ?case by (simp add: p assms(2))
qed simp

section \<open>Properties\<close>

text \<open>Only listed actions pass. The accounting guard lets an action through exactly when the
  allow-list names it for the model, and never \<open>unlink\<close>; the payroll guard lets through only the three
  draft-input operations and the recalculation of an editable payslip, on versions 18 and 19, and never
  a raw create, write or unlink. A refusal is always the one public error \<open>MODEL_NOT_ALLOWED\<close>.\<close>

theorem only_listed_actions_pass:
  "(ensure_accounting_action_allowed model action = Inr () \<longleftrightarrow>
      action \<noteq> ''unlink'' \<and> (\<exists>as. map_of accounting_model_action_allowlist model = Some as \<and> action \<in> set as))
    \<and> (ensure_payroll_action_allowed version model action = Inr () \<longrightarrow>
        version \<in> {18, 19} \<and> action \<notin> {''create'', ''write'', ''unlink''} \<and>
        (model = ''hr.payslip.input'' \<and>
           action \<in> {''create_draft_input'', ''update_draft_input'', ''delete_draft_input''}
         \<or> model = ''hr.payslip'' \<and> action = ''compute_sheet_on_editable_payslip''))
    \<and> (ensure_accounting_action_allowed model action = Inr ()
       \<or> ensure_accounting_action_allowed model action = Inl model_denied)
    \<and> (ensure_payroll_action_allowed version model action = Inr ()
       \<or> ensure_payroll_action_allowed version model action = Inl model_denied)"
proof -
  have a: "ensure_accounting_action_allowed model action = Inr () \<longleftrightarrow>
      action \<noteq> ''unlink'' \<and> (\<exists>as. map_of accounting_model_action_allowlist model = Some as \<and> action \<in> set as)"
    by (cases "map_of accounting_model_action_allowlist model")
      (auto simp: ensure_accounting_action_allowed_def get_or_def)
  have b: "version \<in> {18, 19} \<and> action \<notin> {''create'', ''write'', ''unlink''} \<and>
        (model = ''hr.payslip.input'' \<and>
           action \<in> {''create_draft_input'', ''update_draft_input'', ''delete_draft_input''}
         \<or> model = ''hr.payslip'' \<and> action = ''compute_sheet_on_editable_payslip'')"
    if p: "ensure_payroll_action_allowed version model action = Inr ()"
  proof -
    have "action \<notin> {''create'', ''write'', ''unlink''}"
      using p by (auto simp: ensure_payroll_action_allowed_def Let_def split: if_splits)
    with payroll_action_supported [OF p] show ?thesis by (simp only: simp_thms)
  qed
  have cd: "ensure_accounting_action_allowed model action = Inr ()
       \<or> ensure_accounting_action_allowed model action = Inl model_denied"
    "ensure_payroll_action_allowed version model action = Inr ()
       \<or> ensure_payroll_action_allowed version model action = Inl model_denied"
    by (simp_all only: ensure_accounting_action_allowed_def ensure_payroll_action_allowed_def Let_def split: if_split) simp_all
  show ?thesis by (rule conjI [OF a conjI [OF impI conjI [OF cd]]]) (erule b)
qed

theorem only_listed_actions_pass_witness:
  "ensure_payroll_action_allowed 19 ''hr.payslip.input'' ''update_draft_input'' = Inr ()
    \<and> ensure_payroll_action_allowed 17 ''hr.payslip.input'' ''update_draft_input'' \<noteq> Inr ()"
proof -
  have "(17 :: int) \<notin> {18, 19}" by simp
  then have "ensure_payroll_action_allowed 17 ''hr.payslip.input'' ''update_draft_input'' \<noteq> Inr ()"
    using only_listed_actions_pass [where version = 17 and model = "''hr.payslip.input''" and action = "''update_draft_input''"]
    by (elim conjE) (rule notI, drule (1) mp, elim conjE, erule (1) notE)
  moreover have "ensure_payroll_action_allowed 19 ''hr.payslip.input'' ''update_draft_input'' = Inr ()"
    by (simp add: ensure_payroll_action_allowed_def get_or_def payroll_model_action_allowlist_by_version_def)
  ultimately show ?thesis by (rule conjI [rotated])
qed

text \<open>Denied fields never leave. \<open>strip_denied_fields\<close> leaves no denied key at any depth, keeps the
  value at every path of other keys (itself stripped), and changes nothing that has no denied key.\<close>

theorem strip_is_exact:
  "no_denied (strip_denied_fields v)
    \<and> (list_all (\<lambda>k. \<not> field_denied k) ks \<longrightarrow>
        at_path (strip_denied_fields v) ks = map_option strip_denied_fields (at_path v ks))
    \<and> (no_denied v \<longrightarrow> strip_denied_fields v = v)"
  by (simp add: no_denied_strip at_path_strip strip_no_denied_id)

theorem strip_is_exact_witness:
  "strip_denied_fields (PDict [(''name'', PInt 3)]) = PDict [(''name'', PInt 3)]"
proof -
  have "no_denied (PDict [(''name'', PInt 3)])" by code_simp
  with strip_is_exact show ?thesis by blast
qed

text \<open>Capability detection asks about every capability once. With a transport that answers every
  probe, detection returns the answer for each capability of the probe table and nothing else; every
  probe it makes is on the allow-list; if the transport fails, so does detection, with its error.\<close>

theorem detection_is_complete:
  assumes "\<And>m. probe m = Inr (avail m)"
  shows "detect_capabilities probe = Inr (map (\<lambda>(c, m). (c, avail m)) capability_probes)
    \<and> (\<forall>(c, m) \<in> set capability_probes. ensure_probe_allowed c m = Inr ())"
proof -
  have d: "distinct (map fst capability_probes)" unfolding capability_probes_def by code_simp
  then have "distinct (keys (map (\<lambda>(c, m). (c, avail m)) capability_probes))"
    by (simp only: keys_map_snd) (simp only: keys_def)
  from dict_update_new [OF this, of "[]"]
  have "dict_update [] (map (\<lambda>(c, m). (c, avail m)) capability_probes)
      = map (\<lambda>(c, m). (c, avail m)) capability_probes" by (simp add: keys_def)
  then show ?thesis
    using detect_loop_total [of capability_probes probe avail "[]", OF probes_allowed assms] probes_allowed
    by (auto simp: detect_capabilities_def)
qed

theorem detection_is_complete_witness:
  "detect_capabilities (\<lambda>m. Inr (m = ''account.move'')) =
    Inr (map (\<lambda>(c, m). (c, m = ''account.move'')) capability_probes)"
  using detection_is_complete [of "\<lambda>m. Inr (m = ''account.move'')" "\<lambda>m. m = ''account.move''"] by simp

end
