(* ===== verification/Clock.thy ===== *)
theory Clock
  imports Prelude
begin

text \<open>
  Instants and their persisted text. An instant is the number of microseconds since
  1970-01-01T00:00:00Z. \<open>timestamp\<close> of \<open>storage/json_support.py\<close> writes an instant in the
  proleptic Gregorian calendar with six decimals and a trailing Z. Columns that hold a timestamp
  hold the instant itself in the tables of this development; the text occurs where the code hashes
  it.
\<close>

section \<open>The calendar\<close>

text \<open>Year, month and day of a day number (day 0 is 1970-01-01), by 400-year eras that start on
  1 March.\<close>

definition civil_from_days :: "int \<Rightarrow> int \<times> int \<times> int" where
  "civil_from_days z0 =
    (let z = z0 + 719468;
         era = z div 146097;
         doe = z mod 146097;
         yoe = (doe - doe div 1460 + doe div 36524 - doe div 146096) div 365;
         doy = doe - (365 * yoe + yoe div 4 - yoe div 100);
         mp = (5 * doy + 2) div 153;
         d = doy - (153 * mp + 2) div 5 + 1;
         m = (if mp < 10 then mp + 3 else mp - 9);
         y = yoe + era * 400 + (if m \<le> 2 then 1 else 0)
     in (y, m, d))"

definition micros_per_day :: int where
  "micros_per_day = 86400000000"

definition hours :: "int \<Rightarrow> int" where "hours n = n * 3600000000"
definition minutes :: "int \<Rightarrow> int" where "minutes n = n * 60000000"
definition days :: "int \<Rightarrow> int" where "days n = n * micros_per_day"

section \<open>Timestamps\<close>

definition timestamp :: "int \<Rightarrow> string" where
  "timestamp t =
    (let (y, m, d) = civil_from_days (t div micros_per_day);
         us = t mod micros_per_day;
         sec = us div 1000000;
         two = (\<lambda>n. padded 2 (nat n))
     in padded 4 (nat y) @ ''-'' @ two m @ ''-'' @ two d @ ''T''
        @ two (sec div 3600) @ '':'' @ two (sec div 60 mod 60) @ '':'' @ two (sec mod 60)
        @ ''.'' @ padded 6 (nat (us mod 1000000)) @ ''Z'')"

lemma timestamp_epoch: "timestamp 0 = ''1970-01-01T00:00:00.000000Z''"
  by code_simp

lemma timestamp_example: "timestamp 1709210096000007 = ''2024-02-29T12:34:56.000007Z''"
  by code_simp

end
