(* ===== verification/Database.thy ===== *)
theory Database
  imports Json Clock
begin

text \<open>
  The relational state: one record per table row (\<open>storage/migrations.py\<close> after all four
  migrations), the database as a record of tables, the transaction boundary of
  \<open>storage/database.py\<close>, and one insert or update primitive per table that enforces the
  constraints and triggers of the schema: a violated one is \<open>IntegrityError\<close> and leaves the tables
  as they were. JSON columns hold text, timestamp columns hold instants. Rows are kept in insertion
  order, which for AUTOINCREMENT keys is the order of ids.
\<close>

section \<open>Rows\<close>

record audit_row =
  al_id :: nat
  al_request_id :: string
  al_tenant_id :: string
  al_company_id :: "int option"
  al_tool_name :: string
  al_tool_version :: string
  al_module :: string
  al_authenticated_subject :: string
  al_mcp_client :: string
  al_odoo_db_name :: "string option"
  al_odoo_user :: "string option"
  al_odoo_version :: "string option"
  al_odoo_transport :: "string option"
  al_input_payload :: string
  al_dry_run :: bool
  al_proposed_action :: "string option"
  al_actual_result :: "string option"
  al_affected_odoo_records :: string
  al_error_code :: "string option"
  al_error_message :: "string option"
  al_final_status :: string
  al_previous_hash :: string
  al_entry_hash :: string
  al_created_at :: int

datatype proposal_state = PS_proposed | PS_executing | PS_executed | PS_failed | PS_unknown | PS_expired

record proposal_row =
  pr_id :: nat
  pr_request_id :: string
  pr_tenant_id :: string
  pr_company_id :: int
  pr_tool_name :: string
  pr_module :: string
  pr_proposal_type :: string
  pr_payload_json :: string
  pr_status :: proposal_state
  pr_executed_at :: "int option"
  pr_erp_record_refs :: string
  pr_created_at :: int

record artifact_row =
  at_id :: nat
  at_request_id :: string
  at_tenant_id :: string
  at_company_id :: int
  at_tool_name :: string
  at_module :: string
  at_artifact_type :: string
  at_artifact_format :: string
  at_content :: string
  at_created_at :: int

datatype idempotency_state = IS_in_progress | IS_succeeded | IS_failed | IS_unknown

record idempotency_row =
  ik_id :: nat
  ik_tenant_id :: string
  ik_company_id :: int
  ik_tool_name :: string
  ik_idempotency_key :: string
  ik_request_hash :: string
  ik_state :: idempotency_state
  ik_owner_request_id :: string
  ik_response_json :: "string option"
  ik_expires_at :: int
  ik_created_at :: int
  ik_updated_at :: int

record capability_row =
  cc_tenant_id :: string
  cc_connection_id :: string
  cc_odoo_version :: string
  cc_capabilities_json :: string
  cc_probed_at :: int

datatype connector_status = CS_pending | CS_active | CS_revoked | CS_expired

record connection_row =
  cn_id :: string
  cn_tenant_id :: string
  cn_connection_label :: string
  cn_odoo_url :: string
  cn_database_name :: string
  cn_username :: string
  cn_encrypted_api_key :: string
  cn_discovered_company_ids_json :: string
  cn_allowed_company_ids_json :: "string option"
  cn_default_company_id :: "int option"
  cn_detected_version :: "string option"
  cn_selected_transport :: "string option"
  cn_key_version :: int
  cn_status :: connector_status
  cn_enrollment_handle_hash :: "string option"
  cn_consumed_enrollment_handle_hash :: "string option"
  cn_enrollment_expires_at :: "int option"
  cn_activated_at :: "int option"
  cn_revoked_at :: "int option"
  cn_created_at :: int
  cn_updated_at :: int

datatype registration_method = Dcr | Cimd

record client_row =
  cl_client_id :: string
  cl_registration_method :: registration_method
  cl_metadata_json :: string
  cl_client_secret_hash :: "string option"
  cl_metadata_expires_at :: "int option"
  cl_created_at :: int
  cl_updated_at :: int

datatype session_status = SS_pending | SS_authorized | SS_consumed | SS_expired | SS_denied

record session_row =
  se_state_hash :: string
  se_client_id :: string
  se_connector_id :: "string option"
  se_superseded_connector_id :: "string option"
  se_redirect_uri :: string
  se_resource :: string
  se_scopes_json :: string
  se_code_challenge :: string
  se_client_state :: "string option"
  se_authorization_code_hash :: "string option"
  se_status :: session_status
  se_expires_at :: int
  se_consumed_at :: "int option"
  se_created_at :: int

datatype grant_status = GS_active | GS_revoked

record grant_row =
  gr_id :: string
  gr_connector_id :: string
  gr_tenant_id :: string
  gr_client_id :: string
  gr_resource :: string
  gr_scopes_json :: string
  gr_status :: grant_status
  gr_created_at :: int
  gr_revoked_at :: "int option"

datatype token_type = Access | Refresh

record token_row =
  tk_token_hash :: string
  tk_grant_id :: string
  tk_token_type :: token_type
  tk_scopes_json :: string
  tk_expires_at :: int
  tk_rotated_at :: "int option"
  tk_revoked_at :: "int option"
  tk_created_at :: int

section \<open>The database\<close>

record db =
  audit_log :: "audit_row list"
  audit_seq :: nat
  proposals :: "proposal_row list"
  proposal_seq :: nat
  artifacts :: "artifact_row list"
  artifact_seq :: nat
  idempotency_keys :: "idempotency_row list"
  idempotency_seq :: nat
  capabilities_cache :: "capability_row list"
  erp_connections :: "connection_row list"
  oauth_clients :: "client_row list"
  oauth_sessions :: "session_row list"
  oauth_grants :: "grant_row list"
  oauth_tokens :: "token_row list"

definition empty_db :: db where
  "empty_db = \<lparr>audit_log = [], audit_seq = 0, proposals = [], proposal_seq = 0, artifacts = [],
     artifact_seq = 0, idempotency_keys = [], idempotency_seq = 0, capabilities_cache = [],
     erp_connections = [], oauth_clients = [], oauth_sessions = [], oauth_grants = [],
     oauth_tokens = []\<rparr>"

text \<open>A statement sequence inside one transaction.\<close>

type_synonym 'a tx = "db \<Rightarrow> ('a \<times> db) res"

definition tbind :: "'a tx \<Rightarrow> ('a \<Rightarrow> 'b tx) \<Rightarrow> 'b tx" where
  "tbind m f d = (case m d of Inl e \<Rightarrow> Inl e | Inr (x, d') \<Rightarrow> f x d')"

definition treturn :: "'a \<Rightarrow> 'a tx" where
  "treturn x d = Inr (x, d)"

definition tlift :: "'a res \<Rightarrow> 'a tx" where
  "tlift r d = (case r of Inl e \<Rightarrow> Inl e | Inr x \<Rightarrow> Inr (x, d))"

lemma tx_simps [simp]:
  "tbind m f d = Inr (y, d2) \<longleftrightarrow> (\<exists>x d1. m d = Inr (x, d1) \<and> f x d1 = Inr (y, d2))"
  "treturn x d = Inr (y, d2) \<longleftrightarrow> y = x \<and> d2 = d"
  "tlift r d = Inr (x, d2) \<longleftrightarrow> r = Inr x \<and> d2 = d"
  by (auto simp: tbind_def treturn_def tlift_def split: sum.splits)

text \<open>What the database does with a transaction: it runs and commits; it cannot begin or commit and
  nothing is stored; or the commit is stored but the acknowledgement is lost, so the caller sees an
  exception all the same.\<close>

datatype db_fault = Commits | Rolls_back | Commit_unacknowledged

definition transaction :: "db_fault \<Rightarrow> 'a tx \<Rightarrow> db \<Rightarrow> 'a res \<times> db" where
  "transaction f body d =
    (case f of
       Rolls_back \<Rightarrow> (Inl OperationalError, d)
     | Commits \<Rightarrow> (case body d of Inl e \<Rightarrow> (Inl e, d) | Inr (x, d') \<Rightarrow> (Inr x, d'))
     | Commit_unacknowledged \<Rightarrow>
         (case body d of Inl e \<Rightarrow> (Inl e, d) | Inr (x, d') \<Rightarrow> (Inl OperationalError, d')))"

lemma transaction_Inr:
  "transaction f body d = (Inr x, d') \<longleftrightarrow> f = Commits \<and> body d = Inr (x, d')"
  by (auto simp: transaction_def split: db_fault.splits sum.splits)

lemma transaction_db:
  "transaction f body d = (r, d') \<Longrightarrow> d' = d \<or> (\<exists>x. body d = Inr (x, d'))"
  by (auto simp: transaction_def split: db_fault.splits sum.splits)

text \<open>An invariant that the body keeps is kept by the transaction, whatever happens to it.\<close>

lemma transaction_invariant:
  assumes "\<And>x d'. body d = Inr (x, d') \<Longrightarrow> P d'" "P d"
  shows "P (snd (transaction f body d))"
  using assms by (auto simp: transaction_def split: db_fault.splits sum.splits)

section \<open>Inserts with the constraints of the schema\<close>

text \<open>\<open>audit_log\<close>: the key is assigned, (tenant, entry hash) is unique. Updates and deletes are
  refused by triggers, so the model has none.\<close>

definition insert_audit :: "audit_row \<Rightarrow> audit_row tx" where
  "insert_audit r d =
    (if \<exists>q \<in> set (audit_log d). al_tenant_id q = al_tenant_id r \<and> al_entry_hash q = al_entry_hash r
     then Inl IntegrityError
     else let r' = r\<lparr>al_id := Suc (audit_seq d)\<rparr>
          in Inr (r', d\<lparr>audit_log := audit_log d @ [r'], audit_seq := Suc (audit_seq d)\<rparr>))"

definition insert_proposal :: "proposal_row \<Rightarrow> proposal_row tx" where
  "insert_proposal r d =
    (if pr_company_id r \<le> 0 then Inl IntegrityError
     else let r' = r\<lparr>pr_id := Suc (proposal_seq d)\<rparr>
          in Inr (r', d\<lparr>proposals := proposals d @ [r'], proposal_seq := Suc (proposal_seq d)\<rparr>))"

definition insert_artifact :: "artifact_row \<Rightarrow> artifact_row tx" where
  "insert_artifact r d =
    (if at_company_id r \<le> 0 then Inl IntegrityError
     else let r' = r\<lparr>at_id := Suc (artifact_seq d)\<rparr>
          in Inr (r', d\<lparr>artifacts := artifacts d @ [r'], artifact_seq := Suc (artifact_seq d)\<rparr>))"

text \<open>\<open>idempotency_keys\<close>: the slot is unique, the company is positive, and a response is stored
  exactly when the state is final (the triggers of migration 0002).\<close>

definition response_invariant :: "idempotency_row \<Rightarrow> bool" where
  "response_invariant r \<longleftrightarrow> (ik_state r = IS_in_progress) = (ik_response_json r = None)"

definition same_slot :: "string \<Rightarrow> string \<Rightarrow> string \<Rightarrow> idempotency_row \<Rightarrow> bool" where
  "same_slot tenant tool key r \<longleftrightarrow>
     ik_tenant_id r = tenant \<and> ik_tool_name r = tool \<and> ik_idempotency_key r = key"

definition insert_idempotency :: "idempotency_row \<Rightarrow> idempotency_row tx" where
  "insert_idempotency r d =
    (if (\<exists>q \<in> set (idempotency_keys d).
          same_slot (ik_tenant_id r) (ik_tool_name r) (ik_idempotency_key r) q)
        \<or> ik_company_id r \<le> 0 \<or> \<not> response_invariant r
     then Inl IntegrityError
     else let r' = r\<lparr>ik_id := Suc (idempotency_seq d)\<rparr>
          in Inr (r', d\<lparr>idempotency_keys := idempotency_keys d @ [r'],
                       idempotency_seq := Suc (idempotency_seq d)\<rparr>))"

definition delete_idempotency :: "nat \<Rightarrow> unit tx" where
  "delete_idempotency i d =
    Inr ((), d\<lparr>idempotency_keys := filter (\<lambda>r. ik_id r \<noteq> i) (idempotency_keys d)\<rparr>)"

definition update_idempotency ::
    "(idempotency_row \<Rightarrow> bool) \<Rightarrow> (idempotency_row \<Rightarrow> idempotency_row) \<Rightarrow> nat tx" where
  "update_idempotency P f d =
    (if \<exists>r \<in> set (idempotency_keys d). P r \<and> \<not> response_invariant (f r) then Inl IntegrityError
     else Inr (count_rows P (idempotency_keys d),
               d\<lparr>idempotency_keys := update_rows P f (idempotency_keys d)\<rparr>))"

definition update_proposals :: "(proposal_row \<Rightarrow> bool) \<Rightarrow> (proposal_row \<Rightarrow> proposal_row) \<Rightarrow> nat tx" where
  "update_proposals P f d =
    Inr (count_rows P (proposals d), d\<lparr>proposals := update_rows P f (proposals d)\<rparr>)"

text \<open>\<open>capabilities_cache\<close>: insert, or on conflict of (tenant, connection, version) update the two
  payload columns.\<close>

definition upsert_capability :: "capability_row \<Rightarrow> unit tx" where
  "upsert_capability r d =
    (let same = (\<lambda>q. cc_tenant_id q = cc_tenant_id r \<and> cc_connection_id q = cc_connection_id r
                     \<and> cc_odoo_version q = cc_odoo_version r)
     in Inr ((), d\<lparr>capabilities_cache :=
          (if \<exists>q \<in> set (capabilities_cache d). same q
           then update_rows same (\<lambda>q. q\<lparr>cc_capabilities_json := cc_capabilities_json r,
                                      cc_probed_at := cc_probed_at r\<rparr>) (capabilities_cache d)
           else capabilities_cache d @ [r])\<rparr>))"

end
