(* ===== verification/AuditLog.thy ===== *)
theory AuditLog
  imports Database ErrorCodes
begin

text \<open>
  The append-only, tenant-scoped audit log of \<open>storage/audit.py\<close>. An event is normalised (its error
  text replaced by the public one, its payloads redacted), hashed together with the hash of the
  tenant's previous entry, and inserted. Verification reads a tenant's entries back and recomputes
  the chain. The hash function is a parameter \<open>H\<close> from text to text; nothing is assumed of it, so
  the tamper-evidence theorem names the collision that an undetected change would exhibit.
\<close>

section \<open>Events and records\<close>

record audit_event =
  ev_request_id :: string
  ev_tenant_id :: string
  ev_company_id :: "int option"
  ev_tool_name :: string
  ev_tool_version :: string
  ev_module :: string
  ev_authenticated_subject :: string
  ev_mcp_client :: string
  ev_odoo_db_name :: "string option"
  ev_odoo_user :: "string option"
  ev_odoo_version :: "string option"
  ev_odoo_transport :: "string option"
  ev_input_payload :: pymap
  ev_dry_run :: bool
  ev_proposed_action :: "pymap option"
  ev_actual_result :: "pymap option"
  ev_affected_odoo_records :: "string list"
  ev_error_code :: "string option"
  ev_error_message :: "string option"
  ev_final_status :: string
  ev_created_at :: "int option"

record audit_record = audit_event +
  ar_id :: nat
  ar_previous_hash :: string
  ar_entry_hash :: string

record audit_verification =
  av_tenant_id :: string
  av_entry_count :: nat
  av_last_hash :: string

definition GENESIS_HASH :: string where
  "GENESIS_HASH = replicate 64 (CHR ''0'')"

definition opt_str :: "string option \<Rightarrow> pyval" where
  "opt_str s = (case s of None \<Rightarrow> PNone | Some t \<Rightarrow> PStr t)"

definition opt_int :: "int option \<Rightarrow> pyval" where
  "opt_int i = (case i of None \<Rightarrow> PNone | Some n \<Rightarrow> PInt n)"

definition opt_map :: "pymap option \<Rightarrow> pyval" where
  "opt_map m = (case m of None \<Rightarrow> PNone | Some kvs \<Rightarrow> PDict kvs)"

section \<open>Normalisation and hashing\<close>

definition safe_error_text :: "error_code \<Rightarrow> string" where
  "safe_error_text c = ''Operation failed with '' @ code_text c @ ''.''"

definition safe_error_fields :: "string option \<Rightarrow> string option \<Rightarrow> string option \<times> string option" where
  "safe_error_fields code message =
    (if code = None \<and> message = None then (None, None)
     else let safe = (case code of
                        None \<Rightarrow> UNKNOWN_ERROR
                      | Some t \<Rightarrow> (case error_code_of t of Inr c \<Rightarrow> c | Inl _ \<Rightarrow> UNKNOWN_ERROR))
          in (Some (code_text safe), Some (safe_error_text safe)))"

text \<open>The values that are hashed. \<open>at\<close> is the timestamp text.\<close>

definition event_values :: "bool \<Rightarrow> 'a audit_event_scheme \<Rightarrow> string \<Rightarrow> string \<Rightarrow> pymap" where
  "event_values normalize_error ev previous at =
    (let (code, message) =
           (if normalize_error then safe_error_fields (ev_error_code ev) (ev_error_message ev)
            else (ev_error_code ev, ev_error_message ev))
     in [(''request_id'', PStr (ev_request_id ev)),
         (''tenant_id'', PStr (ev_tenant_id ev)),
         (''company_id'', opt_int (ev_company_id ev)),
         (''tool_name'', PStr (ev_tool_name ev)),
         (''tool_version'', PStr (ev_tool_version ev)),
         (''module'', PStr (ev_module ev)),
         (''authenticated_subject'', PStr (ev_authenticated_subject ev)),
         (''mcp_client'', PStr (ev_mcp_client ev)),
         (''odoo_db_name'', opt_str (ev_odoo_db_name ev)),
         (''odoo_user'', opt_str (ev_odoo_user ev)),
         (''odoo_version'', opt_str (ev_odoo_version ev)),
         (''odoo_transport'', opt_str (ev_odoo_transport ev)),
         (''input_payload'', redact_sensitive (PDict (ev_input_payload ev))),
         (''dry_run'', PBool (ev_dry_run ev)),
         (''proposed_action'', redact_sensitive (opt_map (ev_proposed_action ev))),
         (''actual_result'', redact_sensitive (opt_map (ev_actual_result ev))),
         (''affected_odoo_records'', PList (map PStr (ev_affected_odoo_records ev))),
         (''error_code'', opt_str code),
         (''error_message'', opt_str message),
         (''final_status'', PStr (ev_final_status ev)),
         (''previous_hash'', PStr previous),
         (''created_at'', PStr at)])"

definition hash_payload :: "(string \<Rightarrow> string) \<Rightarrow> pymap \<Rightarrow> string res" where
  "hash_payload H values = ebind (canonical_json (PDict values)) (\<lambda>t. Inr (H t))"

text \<open>A nullable JSON column.\<close>

definition opt_json :: "pyval \<Rightarrow> string option res" where
  "opt_json v = (if v = PNone then Inr None else ebind (canonical_json v) (\<lambda>t. Inr (Some t)))"

definition parse_opt_mapping :: "string option \<Rightarrow> pymap option res" where
  "parse_opt_mapping t =
    (case t of None \<Rightarrow> Inr None | Some s \<Rightarrow> ebind (parse_mapping s) (\<lambda>m. Inr (Some m)))"

definition row_to_record :: "audit_row \<Rightarrow> audit_record res" where
  "row_to_record r =
    ebind (parse_opt_mapping (al_proposed_action r)) (\<lambda>proposed.
    ebind (parse_opt_mapping (al_actual_result r)) (\<lambda>actual.
    ebind (parse_mapping (al_input_payload r)) (\<lambda>payload.
    ebind (parse_string_tuple (al_affected_odoo_records r)) (\<lambda>affected.
    Inr \<lparr>ev_request_id = al_request_id r, ev_tenant_id = al_tenant_id r,
         ev_company_id = al_company_id r, ev_tool_name = al_tool_name r,
         ev_tool_version = al_tool_version r, ev_module = al_module r,
         ev_authenticated_subject = al_authenticated_subject r, ev_mcp_client = al_mcp_client r,
         ev_odoo_db_name = al_odoo_db_name r, ev_odoo_user = al_odoo_user r,
         ev_odoo_version = al_odoo_version r, ev_odoo_transport = al_odoo_transport r,
         ev_input_payload = payload, ev_dry_run = al_dry_run r,
         ev_proposed_action = proposed, ev_actual_result = actual,
         ev_affected_odoo_records = affected, ev_error_code = al_error_code r,
         ev_error_message = al_error_message r, ev_final_status = al_final_status r,
         ev_created_at = Some (al_created_at r), ar_id = al_id r,
         ar_previous_hash = al_previous_hash r, ar_entry_hash = al_entry_hash r\<rparr>))))"

section \<open>The repository\<close>

definition tenant_rows :: "string \<Rightarrow> db \<Rightarrow> audit_row list" where
  "tenant_rows t d = filter (\<lambda>r. al_tenant_id r = t) (audit_log d)"

definition required_values :: "'a audit_event_scheme \<Rightarrow> string list" where
  "required_values ev =
     [ev_request_id ev, ev_tenant_id ev, ev_tool_name ev, ev_tool_version ev, ev_module ev,
      ev_authenticated_subject ev, ev_mcp_client ev, ev_final_status ev]"

text \<open>The guards of \<open>append_in_transaction\<close>; then the row it inserts behind the given hash.\<close>

definition append_guard :: "'a audit_event_scheme \<Rightarrow> unit res" where
  "append_guard ev =
    (if list_ex blank (required_values ev) then Inl ValueError
     else if (case ev_company_id ev of None \<Rightarrow> False | Some c \<Rightarrow> c \<le> 0) then Inl ValueError
     else Inr ())"

definition event_row :: "(string \<Rightarrow> string) \<Rightarrow> int \<Rightarrow> 'a audit_event_scheme \<Rightarrow> string \<Rightarrow> audit_row res" where
  "event_row H now ev previous =
    (let at = (case ev_created_at ev of None \<Rightarrow> now | Some t \<Rightarrow> t);
         (code, message) = safe_error_fields (ev_error_code ev) (ev_error_message ev)
     in ebind (hash_payload H (event_values True ev previous (timestamp at))) (\<lambda>entry.
        ebind (canonical_json (redact_sensitive (PDict (ev_input_payload ev)))) (\<lambda>payload.
        ebind (opt_json (redact_sensitive (opt_map (ev_proposed_action ev)))) (\<lambda>proposed.
        ebind (opt_json (redact_sensitive (opt_map (ev_actual_result ev)))) (\<lambda>actual.
        ebind (canonical_json (PList (map PStr (ev_affected_odoo_records ev)))) (\<lambda>affected.
        Inr \<lparr>al_id = 0, al_request_id = ev_request_id ev, al_tenant_id = ev_tenant_id ev,
             al_company_id = ev_company_id ev, al_tool_name = ev_tool_name ev,
             al_tool_version = ev_tool_version ev, al_module = ev_module ev,
             al_authenticated_subject = ev_authenticated_subject ev,
             al_mcp_client = ev_mcp_client ev, al_odoo_db_name = ev_odoo_db_name ev,
             al_odoo_user = ev_odoo_user ev, al_odoo_version = ev_odoo_version ev,
             al_odoo_transport = ev_odoo_transport ev, al_input_payload = payload,
             al_dry_run = ev_dry_run ev, al_proposed_action = proposed, al_actual_result = actual,
             al_affected_odoo_records = affected, al_error_code = code, al_error_message = message,
             al_final_status = ev_final_status ev, al_previous_hash = previous,
             al_entry_hash = entry, al_created_at = at\<rparr>))))))"

definition last_hash :: "string \<Rightarrow> db \<Rightarrow> string" where
  "last_hash t d =
    (case last_row (\<lambda>r. al_tenant_id r = t) (audit_log d) of
       None \<Rightarrow> GENESIS_HASH | Some r \<Rightarrow> al_entry_hash r)"

definition append_in_transaction ::
    "(string \<Rightarrow> string) \<Rightarrow> int \<Rightarrow> 'a audit_event_scheme \<Rightarrow> audit_record tx" where
  "append_in_transaction H now ev =
    tbind (tlift (append_guard ev)) (\<lambda>_ d.
    tbind (tlift (event_row H now ev (last_hash (ev_tenant_id ev) d))) (\<lambda>row.
    tbind (insert_audit row) (\<lambda>r d'.
      case find_row (\<lambda>q. al_id q = al_id r) (audit_log d') of
        None \<Rightarrow> Inl AuditIntegrityError
      | Some q \<Rightarrow> tlift (row_to_record q) d')) d)"

definition append_audit ::
    "(string \<Rightarrow> string) \<Rightarrow> db_fault \<Rightarrow> int \<Rightarrow> 'a audit_event_scheme \<Rightarrow> db \<Rightarrow> audit_record res \<times> db" where
  "append_audit H f now ev = transaction f (append_in_transaction H now ev)"

definition list_for_tenant :: "string \<Rightarrow> db \<Rightarrow> audit_record list res" where
  "list_for_tenant t d =
    (if blank t then Inl ValueError else emap row_to_record (tenant_rows t d))"

definition tenant_ids :: "db \<Rightarrow> string list" where
  "tenant_ids d = sort (remdups (map al_tenant_id (audit_log d)))"

text \<open>The loop of \<open>verify_chain\<close>, from the expected previous hash to the last hash.\<close>

fun chain_loop :: "(string \<Rightarrow> string) \<Rightarrow> string \<Rightarrow> audit_record list \<Rightarrow> string res" where
  "chain_loop H expected [] = Inr expected"
| "chain_loop H expected (r # rs) =
    ebind (if ar_previous_hash r \<noteq> expected then Inl AuditIntegrityError
           else ebind (hash_payload H (event_values False r (ar_previous_hash r)
                         (timestamp (the (ev_created_at r)))))
             (\<lambda>h. if h \<noteq> ar_entry_hash r then Inl AuditIntegrityError else Inr ()))
      (\<lambda>_. chain_loop H (ar_entry_hash r) rs)"

definition verify_chain :: "(string \<Rightarrow> string) \<Rightarrow> string \<Rightarrow> db \<Rightarrow> audit_verification res" where
  "verify_chain H t d =
    (if blank t then Inl ValueError
     else ebind (list_for_tenant t d) (\<lambda>records.
          ebind (chain_loop H GENESIS_HASH records) (\<lambda>last.
          Inr \<lparr>av_tenant_id = t, av_entry_count = length records, av_last_hash = last\<rparr>)))"


section \<open>Stored rows verify\<close>

text \<open>What Python guarantees of an event: its payload dictionaries have distinct keys.\<close>

definition event_wf :: "'a audit_event_scheme \<Rightarrow> bool" where
  "event_wf ev \<longleftrightarrow> wf_val (PDict (ev_input_payload ev)) \<and> wf_val (opt_map (ev_proposed_action ev))
     \<and> wf_val (opt_map (ev_actual_result ev))"

lemma opt_map_simps [simp]: "opt_map None = PNone" "opt_map (Some kvs) = PDict kvs"
  "opt_map m = PNone \<longleftrightarrow> m = None"
  by (auto simp: opt_map_def split: option.splits)

lemma redact_is_PNone [simp]: "redact_sensitive (opt_map m) = PNone \<longleftrightarrow> m = None"
  by (cases m) auto

lemma parse_redacted:
  assumes "canonical_json (redact_sensitive (PDict p)) = Inr t" "wf_val (PDict p)"
  shows "\<exists>q. parse_mapping t = Inr q \<and> PDict q = norm_val (redact_sensitive (PDict p))"
proof -
  obtain p' where p': "redact_sensitive (PDict p) = PDict p'" by simp
  have "serialisable (PDict p')" "wf_val (PDict p')" "t = json_text (PDict p')"
    using assms wf_val_redact [of "PDict p"] p' by (auto simp del: json_text.simps)
  then show ?thesis using parse_mapping_text [of p'] p' by simp
qed

lemma parse_opt_redacted:
  assumes "opt_json (redact_sensitive (opt_map m)) = Inr t" "wf_val (opt_map m)"
  shows "\<exists>q. parse_opt_mapping t = Inr q \<and> opt_map q = norm_val (redact_sensitive (opt_map m))"
proof (cases m)
  case None
  with assms have "t = None" by (simp add: opt_json_def)
  with None show ?thesis by (auto simp: parse_opt_mapping_def opt_map_def split: option.splits)
next
  case (Some p)
  with assms(1) obtain t' where t': "canonical_json (redact_sensitive (PDict p)) = Inr t'" "t = Some t'"
    by (auto simp: opt_json_def simp del: canonical_json_Inr)
  from parse_redacted [OF t'(1)] assms(2) Some obtain q where
    "parse_mapping t' = Inr q" "PDict q = norm_val (redact_sensitive (PDict p))" by auto
  with t' Some show ?thesis
    by (intro exI [of _ "Some q"]) (simp add: parse_opt_mapping_def)
qed

lemma parse_affected:
  assumes "canonical_json (PList (map PStr ss)) = Inr t"
  shows "parse_string_tuple t = Inr ss"
  using assms parse_string_tuple_text(2) [of ss] by (simp del: json_text.simps)

lemma canonical_json_norm: "canonical_json (norm_val v) = canonical_json v"
  by (simp only: canonical_json_def json_text_norm serialisable_norm)

lemma hash_payload_cong:
  "norm_val (PDict v) = norm_val (PDict w) \<Longrightarrow> hash_payload H v = hash_payload H w"
  unfolding hash_payload_def
  by (simp only: canonical_json_norm [of "PDict v", symmetric] canonical_json_norm [of "PDict w", symmetric])

text \<open>The values of a stored record are the values of the event as JSON reads them back, so the text
  that is hashed is the same.\<close>

lemma stored_values:
  assumes row: "event_row H now ev previous = Inr row" and wf: "event_wf ev"
  shows "\<exists>rec. row_to_record (row\<lparr>al_id := i\<rparr>) = Inr rec \<and> ar_previous_hash rec = previous
    \<and> ar_entry_hash rec = al_entry_hash row \<and> al_tenant_id row = ev_tenant_id ev
    \<and> hash_payload H (event_values False rec previous (timestamp (the (ev_created_at rec))))
      = Inr (al_entry_hash row)
    \<and> PDict (ev_input_payload rec) = norm_val (redact_sensitive (PDict (ev_input_payload ev)))
    \<and> opt_map (ev_proposed_action rec) = norm_val (redact_sensitive (opt_map (ev_proposed_action ev)))
    \<and> opt_map (ev_actual_result rec) = norm_val (redact_sensitive (opt_map (ev_actual_result ev)))
    \<and> (al_error_code row, al_error_message row) = safe_error_fields (ev_error_code ev) (ev_error_message ev)"
proof -
  define at where "at = (case ev_created_at ev of None \<Rightarrow> now | Some t \<Rightarrow> t)"
  obtain code message where cm: "safe_error_fields (ev_error_code ev) (ev_error_message ev) = (code, message)"
    by (cases "safe_error_fields (ev_error_code ev) (ev_error_message ev)")
  define V where "V = event_values True ev previous (timestamp at)"
  from row obtain payload proposed actual affected where
    h: "hash_payload H V = Inr (al_entry_hash row)"
    and pl: "canonical_json (redact_sensitive (PDict (ev_input_payload ev))) = Inr payload"
    and pr: "opt_json (redact_sensitive (opt_map (ev_proposed_action ev))) = Inr proposed"
    and ac: "opt_json (redact_sensitive (opt_map (ev_actual_result ev))) = Inr actual"
    and af: "canonical_json (PList (map PStr (ev_affected_odoo_records ev))) = Inr affected"
    and cols: "al_input_payload row = payload" "al_proposed_action row = proposed"
      "al_actual_result row = actual" "al_affected_odoo_records row = affected"
      "al_request_id row = ev_request_id ev" "al_tenant_id row = ev_tenant_id ev"
      "al_company_id row = ev_company_id ev" "al_tool_name row = ev_tool_name ev"
      "al_tool_version row = ev_tool_version ev" "al_module row = ev_module ev"
      "al_authenticated_subject row = ev_authenticated_subject ev"
      "al_mcp_client row = ev_mcp_client ev" "al_odoo_db_name row = ev_odoo_db_name ev"
      "al_odoo_user row = ev_odoo_user ev" "al_odoo_version row = ev_odoo_version ev"
      "al_odoo_transport row = ev_odoo_transport ev" "al_dry_run row = ev_dry_run ev"
      "al_error_code row = code" "al_error_message row = message"
      "al_final_status row = ev_final_status ev" "al_previous_hash row = previous"
      "al_created_at row = at"
    unfolding event_row_def at_def [symmetric] Let_def cm case_prod_conv V_def ebind_eq_Inr
    by (auto simp del: canonical_json_Inr)
  from wf have wfs: "wf_val (PDict (ev_input_payload ev))" "wf_val (opt_map (ev_proposed_action ev))"
    "wf_val (opt_map (ev_actual_result ev))" by (simp_all only: event_wf_def)
  from parse_redacted [OF pl wfs(1)] obtain q where
    q: "parse_mapping payload = Inr q" "PDict q = norm_val (redact_sensitive (PDict (ev_input_payload ev)))"
    by blast
  from parse_opt_redacted [OF pr wfs(2)] obtain qp where
    qp: "parse_opt_mapping proposed = Inr qp"
      "opt_map qp = norm_val (redact_sensitive (opt_map (ev_proposed_action ev)))" by blast
  from parse_opt_redacted [OF ac wfs(3)] obtain qa where
    qa: "parse_opt_mapping actual = Inr qa"
      "opt_map qa = norm_val (redact_sensitive (opt_map (ev_actual_result ev)))" by blast
  from parse_affected [OF af] have aff: "parse_string_tuple affected = Inr (ev_affected_odoo_records ev)" .
  obtain rec where rec: "row_to_record (row\<lparr>al_id := i\<rparr>) = Inr rec"
    and flds: "ev_input_payload rec = q" "ev_proposed_action rec = qp" "ev_actual_result rec = qa"
      "ev_affected_odoo_records rec = ev_affected_odoo_records ev"
      "ev_request_id rec = ev_request_id ev" "ev_tenant_id rec = ev_tenant_id ev"
      "ev_company_id rec = ev_company_id ev" "ev_tool_name rec = ev_tool_name ev"
      "ev_tool_version rec = ev_tool_version ev" "ev_module rec = ev_module ev"
      "ev_authenticated_subject rec = ev_authenticated_subject ev"
      "ev_mcp_client rec = ev_mcp_client ev" "ev_odoo_db_name rec = ev_odoo_db_name ev"
      "ev_odoo_user rec = ev_odoo_user ev" "ev_odoo_version rec = ev_odoo_version ev"
      "ev_odoo_transport rec = ev_odoo_transport ev" "ev_dry_run rec = ev_dry_run ev"
      "ev_error_code rec = code" "ev_error_message rec = message"
      "ev_final_status rec = ev_final_status ev" "ev_created_at rec = Some at"
      "ar_previous_hash rec = previous" "ar_entry_hash rec = al_entry_hash row"
    by (simp add: row_to_record_def cols q qp qa aff)
  let ?R = "event_values False rec previous (timestamp at)"
  have again: "redact_sensitive (norm_val (redact_sensitive v)) = norm_val (redact_sensitive v)" for v
    by (rule redact_persisted)
  have "map (\<lambda>(k, v). (k, norm_val v)) ?R = map (\<lambda>(k, v). (k, norm_val v)) V"
    unfolding V_def event_values_def Let_def cm flds q(2) qp(2) qa(2) again
    by (simp del: redact_sensitive.simps norm_val.simps(1,2,3))
  then have "norm_val (PDict ?R) = norm_val (PDict V)" by (simp only: norm_val.simps)
  then have "hash_payload H ?R = hash_payload H V" by (rule hash_payload_cong)
  with h rec flds cols cm q(2) qp(2) qa(2) show ?thesis
    by (intro exI [of _ rec]) (simp del: redact_sensitive.simps norm_val.simps)
qed

section \<open>Appending keeps every chain\<close>

lemma row_to_record_hash:
  "row_to_record r = Inr rec \<Longrightarrow> ar_entry_hash rec = al_entry_hash r \<and> ar_previous_hash rec = al_previous_hash r
    \<and> ev_created_at rec = Some (al_created_at r) \<and> ev_tenant_id rec = al_tenant_id r"
  by (auto simp: row_to_record_def)

lemma chain_loop_snoc:
  "chain_loop H e (rs @ [r]) = ebind (chain_loop H e rs) (\<lambda>l. chain_loop H l [r])"
  by (induction rs arbitrary: e) (simp_all add: ebind_def split: sum.splits)

lemma chain_loop_end:
  "chain_loop H e rs = Inr l \<Longrightarrow> l = (if rs = [] then e else ar_entry_hash (last rs))"
  by (cases rs rule: rev_cases) (auto simp: chain_loop_snoc)

lemma emap_snoc: "emap f xs = Inr ys \<Longrightarrow> f x = Inr y \<Longrightarrow> emap f (xs @ [x]) = Inr (ys @ [y])"
  by (simp add: emap_Inr list_all2_appendI)

lemma verify_chain_Inr:
  "verify_chain H t d = Inr v \<longleftrightarrow> \<not> blank t \<and> (\<exists>recs l. emap row_to_record (tenant_rows t d) = Inr recs
     \<and> chain_loop H GENESIS_HASH recs = Inr l
     \<and> v = \<lparr>av_tenant_id = t, av_entry_count = length (tenant_rows t d), av_last_hash = l\<rparr>)"
  by (auto simp: verify_chain_def list_for_tenant_def emap_length)

lemma last_hash_chain_end:
  assumes "emap row_to_record (tenant_rows t d) = Inr recs" "chain_loop H GENESIS_HASH recs = Inr l"
  shows "last_hash t d = l"
proof (cases "tenant_rows t d" rule: rev_cases)
  case Nil
  with assms show ?thesis
    by (auto simp: last_hash_def last_row_filter tenant_rows_def emap_Inr)
next
  case (snoc rows r)
  with assms(1) obtain recs' rec where recs: "recs = recs' @ [rec]" "row_to_record r = Inr rec"
    by (auto simp: emap_Inr list_all2_append1 list_all2_Cons1)
  have "last_hash t d = al_entry_hash r"
    using snoc unfolding tenant_rows_def by (simp add: last_hash_def last_row_filter)
  with recs row_to_record_hash chain_loop_end [OF assms(2)] show ?thesis by auto
qed

text \<open>The effect of an append: one row behind the tenant's last hash.\<close>

lemma append_effect:
  assumes "append_in_transaction H now ev d = Inr (rec, d')"
  shows "\<exists>row. event_row H now ev (last_hash (ev_tenant_id ev) d) = Inr row \<and> append_guard ev = Inr ()
    \<and> d' = d\<lparr>audit_log := audit_log d @ [row\<lparr>al_id := Suc (audit_seq d)\<rparr>], audit_seq := Suc (audit_seq d)\<rparr>"
proof -
  from assms obtain row r where "event_row H now ev (last_hash (ev_tenant_id ev) d) = Inr row"
    "append_guard ev = Inr ()" and ins: "insert_audit row d = Inr (r, d')"
    unfolding append_in_transaction_def
    by (auto split: option.splits)
  moreover from ins have "d' = d\<lparr>audit_log := audit_log d @ [row\<lparr>al_id := Suc (audit_seq d)\<rparr>],
      audit_seq := Suc (audit_seq d)\<rparr>"
    by (auto simp: insert_audit_def Let_def split: if_splits)
  ultimately show ?thesis by blast
qed

lemma append_frame:
  assumes "append_in_transaction H now ev d = Inr (rec, d')"
  shows "proposals d' = proposals d" "artifacts d' = artifacts d"
    "idempotency_keys d' = idempotency_keys d" "erp_connections d' = erp_connections d"
    "proposal_seq d' = proposal_seq d" "artifact_seq d' = artifact_seq d"
    "idempotency_seq d' = idempotency_seq d" "capabilities_cache d' = capabilities_cache d"
    "oauth_clients d' = oauth_clients d" "oauth_sessions d' = oauth_sessions d"
    "oauth_grants d' = oauth_grants d" "oauth_tokens d' = oauth_tokens d"
  using append_effect [OF assms] by auto

lemma append_tenant_rows:
  assumes "append_in_transaction H now ev d = Inr (rec, d')"
    and "event_row H now ev (last_hash (ev_tenant_id ev) d) = Inr row" "event_wf ev"
  shows "tenant_rows t d' = tenant_rows t d @
    (if t = ev_tenant_id ev then [row\<lparr>al_id := Suc (audit_seq d)\<rparr>] else [])"
  using append_effect [OF assms(1)] stored_values [OF assms(2,3)] assms(2)
  by (auto simp: tenant_rows_def)

lemma append_verifies:
  assumes app: "append_in_transaction H now ev d = Inr (rec, d')" and wf: "event_wf ev"
    and ver: "verify_chain H t d = Inr v"
  shows "\<exists>v'. verify_chain H t d' = Inr v' \<and>
    (if t = ev_tenant_id ev then av_entry_count v' = Suc (av_entry_count v) else v' = v)"
proof -
  from append_effect [OF app] obtain row where
    row: "event_row H now ev (last_hash (ev_tenant_id ev) d) = Inr row" by blast
  note rows = append_tenant_rows [OF app row wf, of t]
  from ver obtain recs l where v: "\<not> blank t" "emap row_to_record (tenant_rows t d) = Inr recs"
    "chain_loop H GENESIS_HASH recs = Inr l"
    "v = \<lparr>av_tenant_id = t, av_entry_count = length (tenant_rows t d), av_last_hash = l\<rparr>"
    unfolding verify_chain_Inr by blast
  show ?thesis
  proof (cases "t = ev_tenant_id ev")
    case False
    with rows have "tenant_rows t d' = tenant_rows t d" by simp
    with v False show ?thesis by (auto simp: verify_chain_Inr)
  next
    case True
    from stored_values [OF row wf, of "Suc (audit_seq d)"] obtain q where
      q: "row_to_record (row\<lparr>al_id := Suc (audit_seq d)\<rparr>) = Inr q" "ar_previous_hash q = last_hash t d"
        "ar_entry_hash q = al_entry_hash row"
        "hash_payload H (event_values False q (last_hash t d) (timestamp (the (ev_created_at q))))
          = Inr (al_entry_hash row)" using True by blast
    have l: "last_hash t d = l" by (rule last_hash_chain_end [OF v(2,3)])
    have "chain_loop H l [q] = Inr (al_entry_hash row)" using q l by simp
    then have "chain_loop H GENESIS_HASH (recs @ [q]) = Inr (al_entry_hash row)"
      by (simp add: chain_loop_snoc v(3) del: chain_loop.simps)
    moreover have "emap row_to_record (tenant_rows t d') = Inr (recs @ [q])"
      using rows True emap_snoc [OF v(2) q(1)] by simp
    ultimately show ?thesis using v(1,4) True rows by (auto simp: verify_chain_Inr)
  qed
qed

text \<open>When an append returns: the guards hold, the payloads are JSON values, and the hash of the new
  entry is new for the tenant.\<close>

definition event_serialisable :: "'a audit_event_scheme \<Rightarrow> bool" where
  "event_serialisable ev \<longleftrightarrow> serialisable (PDict (ev_input_payload ev))
     \<and> serialisable (opt_map (ev_proposed_action ev)) \<and> serialisable (opt_map (ev_actual_result ev))"

definition audit_ids_ok :: "db \<Rightarrow> bool" where
  "audit_ids_ok d \<longleftrightarrow> (\<forall>r \<in> set (audit_log d). al_id r \<le> audit_seq d)"

lemma serialisable_values: "serialisable (PDict (event_values b ev p at))" if "event_serialisable ev"
proof -
  have w: "serialisable (redact_sensitive (PDict (ev_input_payload ev)))"
    "serialisable (redact_sensitive (opt_map (ev_proposed_action ev)))"
    "serialisable (redact_sensitive (opt_map (ev_actual_result ev)))"
    using that unfolding event_serialisable_def by (blast intro: serialisable_redact)+
  have o: "serialisable (opt_str s)" "serialisable (opt_int i)" for s i
    by (auto simp: opt_str_def opt_int_def split: option.splits)
  show ?thesis
    using w o by (cases b; cases "safe_error_fields (ev_error_code ev) (ev_error_message ev)")
      (simp_all add: event_values_def list_all_iff del: redact_sensitive.simps)
qed

lemma event_row_total:
  assumes "event_serialisable ev"
  shows "\<exists>row. event_row H now ev previous = Inr row \<and> al_tenant_id row = ev_tenant_id ev"
proof -
  have w: "serialisable (redact_sensitive (PDict (ev_input_payload ev)))"
    "serialisable (redact_sensitive (opt_map (ev_proposed_action ev)))"
    "serialisable (redact_sensitive (opt_map (ev_actual_result ev)))"
    using assms unfolding event_serialisable_def by (blast intro: serialisable_redact)+
  obtain code message where cm: "safe_error_fields (ev_error_code ev) (ev_error_message ev) = (code, message)"
    by (cases "safe_error_fields (ev_error_code ev) (ev_error_message ev)")
  show ?thesis
    using w serialisable_values [OF assms]
    by (simp add: event_row_def cm Let_def hash_payload_def canonical_json_def opt_json_def list_all_iff
        del: redact_sensitive.simps json_text.simps)
qed

lemma append_total:
  assumes "append_guard ev = Inr ()" "event_serialisable ev" "event_wf ev" "audit_ids_ok d"
    and "\<And>row. event_row H now ev (last_hash (ev_tenant_id ev) d) = Inr row \<Longrightarrow>
      al_entry_hash row \<notin> al_entry_hash ` set (tenant_rows (ev_tenant_id ev) d)"
  shows "\<exists>rec d'. append_in_transaction H now ev d = Inr (rec, d') \<and> audit_ids_ok d'"
proof -
  from event_row_total [OF assms(2)] obtain row where
    row: "event_row H now ev (last_hash (ev_tenant_id ev) d) = Inr row" "al_tenant_id row = ev_tenant_id ev"
    by blast
  let ?r = "row\<lparr>al_id := Suc (audit_seq d)\<rparr>"
  let ?d = "d\<lparr>audit_log := audit_log d @ [?r], audit_seq := Suc (audit_seq d)\<rparr>"
  have "insert_audit row d = Inr (?r, ?d)"
    using assms(5) [OF row(1)] row(2)
    by (auto simp: insert_audit_def Let_def tenant_rows_def image_iff)
  moreover have "find_row (\<lambda>q. al_id q = Suc (audit_seq d)) (audit_log d) = None"
    using assms(4) by (auto simp: find_row_None audit_ids_ok_def)
  then have "find_row (\<lambda>q. al_id q = al_id ?r) (audit_log ?d) = Some ?r"
    by (simp add: find_row_append)
  moreover obtain q where "row_to_record ?r = Inr q"
    using stored_values [OF row(1) assms(3)] by blast
  moreover have "audit_ids_ok ?d" using assms(4) by (auto simp: audit_ids_ok_def)
  ultimately have "append_in_transaction H now ev d = Inr (q, ?d) \<and> audit_ids_ok ?d"
    using assms(1) row(1) by (simp add: append_in_transaction_def)
  then show ?thesis by blast
qed

section \<open>Tamper evidence\<close>

text \<open>Entries linked by the hash of their predecessor's text, for any entries, text and hash.\<close>

fun linked :: "(string \<Rightarrow> string) \<Rightarrow> ('v \<Rightarrow> string) \<Rightarrow> ('v \<Rightarrow> string) \<Rightarrow> string \<Rightarrow> 'v list \<Rightarrow> bool" where
  "linked H text_of prev e [] = True"
| "linked H text_of prev e (v # vs) = (prev v = e \<and> linked H text_of prev (H (text_of v)) vs)"

definition chain_end :: "(string \<Rightarrow> string) \<Rightarrow> ('v \<Rightarrow> string) \<Rightarrow> string \<Rightarrow> 'v list \<Rightarrow> string" where
  "chain_end H text_of e vs = (if vs = [] then e else H (text_of (last vs)))"

lemma linked_snoc:
  "linked H text_of prev e (vs @ [v]) \<longleftrightarrow> linked H text_of prev e vs \<and> prev v = chain_end H text_of e vs"
  by (induction vs arbitrary: e) (auto simp: chain_end_def)

text \<open>What a hash function must avoid for a change to be noticed.\<close>

definition collision :: "(string \<Rightarrow> string) \<Rightarrow> string set \<Rightarrow> bool" where
  "collision H T \<longleftrightarrow> (\<exists>s \<in> T. \<exists>t \<in> T. s \<noteq> t \<and> H s = H t)"

locale hashed_entries =
  fixes H :: "string \<Rightarrow> string" and text_of :: "'v \<Rightarrow> string" and prev :: "'v \<Rightarrow> string"
    and ok :: "'v \<Rightarrow> bool"
  assumes text_prev: "ok v \<Longrightarrow> ok w \<Longrightarrow> text_of v = text_of w \<Longrightarrow> prev v = prev w"
begin

lemma same_end_same_texts:
  assumes "linked H text_of prev e vs" "linked H text_of prev e ws"
    and "chain_end H text_of e vs = chain_end H text_of e ws"
    and "list_all ok vs" "list_all ok ws"
  shows "map text_of vs = map text_of ws
    \<or> collision H (text_of ` (set vs \<union> set ws)) \<or> e \<in> H ` text_of ` (set vs \<union> set ws)"
  using assms
proof (induction vs arbitrary: ws rule: rev_induct)
  case Nil
  then show ?case by (cases ws rule: rev_cases) (auto simp: chain_end_def)
next
  case (snoc v vs)
  show ?case
  proof (cases ws rule: rev_cases)
    case Nil
    with snoc.prems show ?thesis by (auto simp: chain_end_def)
  next
    case (snoc ws' w)
    note ws = this
    show ?thesis
    proof (cases "text_of v = text_of w")
      case False
      moreover have "H (text_of v) = H (text_of w)" using snoc.prems ws by (simp add: chain_end_def)
      ultimately show ?thesis using ws by (fastforce simp: collision_def)
    next
      case True
      with snoc.prems ws have "prev v = prev w" by (intro text_prev) auto
      with snoc.prems ws have "chain_end H text_of e vs = chain_end H text_of e ws'"
        by (simp add: linked_snoc)
      with snoc.IH [of ws'] snoc.prems ws True show ?thesis
        by (fastforce simp: linked_snoc collision_def)
    qed
  qed
qed

end

text \<open>The entries of the audit chain are the value dictionaries that the code hashes.\<close>

definition values_text :: "pymap \<Rightarrow> string" where
  "values_text m = json_text (PDict m)"

definition values_prev :: "pymap \<Rightarrow> string" where
  "values_prev m = (case map_of m ''previous_hash'' of Some (PStr s) \<Rightarrow> s | _ \<Rightarrow> [])"

definition values_ok :: "pymap \<Rightarrow> bool" where
  "values_ok m \<longleftrightarrow> serialisable (PDict m) \<and> wf_val (PDict m)"

lemma map_of_norm:
  assumes "wf_val (PDict kvs)"
  shows "map_of (sort_dict (map (\<lambda>(k, v). (k, norm_val v)) kvs)) k = map_option norm_val (map_of kvs k)"
proof -
  have "map_of (sort_dict (map (\<lambda>(k, v). (k, norm_val v)) kvs))
      = map_of (map (\<lambda>(k, v). (k, norm_val v)) kvs)"
    using assms by (intro map_of_sort_dict) (simp only: wf_val.simps keys_map_snd)
  moreover have "map_of (map (\<lambda>(k, v). (k, norm_val v)) kvs) k = map_option norm_val (map_of kvs k)"
    by (induction kvs) auto
  ultimately show ?thesis by simp
qed

lemma map_of_norm_eq:
  assumes "norm_val (PDict v) = norm_val (PDict w)" "wf_val (PDict v)" "wf_val (PDict w)"
  shows "map_option norm_val (map_of v k) = map_option norm_val (map_of w k)"
proof -
  from assms(1) have "sort_dict (map (\<lambda>(k, v). (k, norm_val v)) v)
      = sort_dict (map (\<lambda>(k, v). (k, norm_val v)) w)" by (simp only: norm_val.simps pyval.inject)
  then show ?thesis
    by (simp only: map_of_norm [OF assms(2), symmetric] map_of_norm [OF assms(3), symmetric])
qed

interpretation audit_chain: hashed_entries H values_text values_prev values_ok for H
proof
  fix v w
  assume ok: "values_ok v" "values_ok w" "values_text v = values_text w"
  then have "norm_val (PDict v) = norm_val (PDict w)"
    unfolding values_ok_def values_text_def by (intro json_text_inject) blast+
  then have "map_option norm_val (map_of v k) = map_option norm_val (map_of w k)" for k
    using ok by (intro map_of_norm_eq) (simp_all only: values_ok_def)
  from this [of "''previous_hash''"]
  show "values_prev v = values_prev w"
    unfolding values_prev_def
    by (cases "map_of v ''previous_hash''"; cases "map_of w ''previous_hash''")
      (auto split: pyval.splits)
qed

definition record_values :: "audit_record \<Rightarrow> pymap" where
  "record_values r = event_values False r (ar_previous_hash r) (timestamp (the (ev_created_at r)))"

definition value_keys :: "string list" where
  "value_keys = [''request_id'', ''tenant_id'', ''company_id'', ''tool_name'', ''tool_version'',
      ''module'', ''authenticated_subject'', ''mcp_client'', ''odoo_db_name'', ''odoo_user'',
      ''odoo_version'', ''odoo_transport'', ''input_payload'', ''dry_run'', ''proposed_action'',
      ''actual_result'', ''affected_odoo_records'', ''error_code'', ''error_message'',
      ''final_status'', ''previous_hash'', ''created_at'']"

lemma keys_event_values: "keys (event_values b ev p at) = value_keys"
  by (cases b; cases "safe_error_fields (ev_error_code ev) (ev_error_message ev)")
    (simp_all only: event_values_def keys_def value_keys_def Let_def if_True if_False
      case_prod_conv list.map fst_conv)

lemma distinct_event_values: "distinct (keys (event_values b ev p at))"
  unfolding keys_event_values by code_simp

text \<open>Two dictionaries with the same keys in the same order and the same normal form have the same
  normal values, position by position.\<close>

lemma same_keys_norm:
  assumes "keys v = keys w" "distinct (keys v)" "norm_val (PDict v) = norm_val (PDict w)"
  shows "map (norm_val \<circ> snd) v = map (norm_val \<circ> snd) w"
proof -
  let ?n = "\<lambda>(k, v). (k, norm_val v)"
  have look: "map snd kvs = map (\<lambda>k. the (map_of kvs k)) (keys kvs)" if "distinct (keys kvs)"
    for kvs :: pymap
    using that by (auto simp: keys_def intro!: map_cong)
  have d: "distinct (keys (map ?n v))" "distinct (keys (map ?n w))" using assms by simp_all
  from assms(3) have "sort_dict (map ?n v) = sort_dict (map ?n w)" by simp
  then have "map_of (map ?n v) = map_of (map ?n w)"
    using map_of_sort_dict [OF d(1)] map_of_sort_dict [OF d(2)] by simp
  then have "map snd (map ?n v) = map snd (map ?n w)"
    using look [OF d(1)] look [OF d(2)] assms(1) by simp
  then show ?thesis by (simp add: comp_def case_prod_beta)
qed

text \<open>Two records agree on everything the chain protects: all columns, the payloads after redaction
  and as JSON reads them.\<close>

definition same_event :: "audit_record \<Rightarrow> audit_record \<Rightarrow> bool" where
  "same_event r q \<longleftrightarrow>
     ev_request_id r = ev_request_id q \<and> ev_tenant_id r = ev_tenant_id q
   \<and> ev_company_id r = ev_company_id q \<and> ev_tool_name r = ev_tool_name q
   \<and> ev_tool_version r = ev_tool_version q \<and> ev_module r = ev_module q
   \<and> ev_authenticated_subject r = ev_authenticated_subject q \<and> ev_mcp_client r = ev_mcp_client q
   \<and> ev_odoo_db_name r = ev_odoo_db_name q \<and> ev_odoo_user r = ev_odoo_user q
   \<and> ev_odoo_version r = ev_odoo_version q \<and> ev_odoo_transport r = ev_odoo_transport q
   \<and> norm_val (redact_sensitive (PDict (ev_input_payload r)))
       = norm_val (redact_sensitive (PDict (ev_input_payload q)))
   \<and> ev_dry_run r = ev_dry_run q
   \<and> norm_val (redact_sensitive (opt_map (ev_proposed_action r)))
       = norm_val (redact_sensitive (opt_map (ev_proposed_action q)))
   \<and> norm_val (redact_sensitive (opt_map (ev_actual_result r)))
       = norm_val (redact_sensitive (opt_map (ev_actual_result q)))
   \<and> ev_affected_odoo_records r = ev_affected_odoo_records q
   \<and> ev_error_code r = ev_error_code q \<and> ev_error_message r = ev_error_message q
   \<and> ev_final_status r = ev_final_status q
   \<and> ar_previous_hash r = ar_previous_hash q
   \<and> timestamp (the (ev_created_at r)) = timestamp (the (ev_created_at q))"

lemma opt_norm [simp]:
  "norm_val (opt_str s) = opt_str s" "norm_val (opt_int i) = opt_int i"
  "opt_str s = opt_str s' \<longleftrightarrow> s = s'" "opt_int i = opt_int i' \<longleftrightarrow> i = i'"
  by (auto simp: opt_str_def opt_int_def split: option.splits)

lemma map_PStr_inject: "map PStr xs = map PStr ys \<longleftrightarrow> xs = ys"
  by (rule inj_map_eq_map) (simp add: inj_def)

lemma same_event_if_norm:
  assumes "norm_val (PDict (record_values r)) = norm_val (PDict (record_values q))"
  shows "same_event r q"
proof -
  have "map (norm_val \<circ> snd) (record_values r) = map (norm_val \<circ> snd) (record_values q)"
    by (rule same_keys_norm [OF _ _ assms]) (simp_all only: record_values_def keys_event_values
        distinct_event_values [unfolded keys_event_values])
  then show ?thesis
    unfolding record_values_def event_values_def Let_def if_False case_prod_conv same_event_def
    by (simp del: redact_sensitive.simps norm_val.simps(3) add: comp_def map_PStr_inject)
qed

lemma serialisable_values_wf: "wf_val (PDict (event_values b ev p at))" if "event_wf ev"
proof -
  have w: "wf_val (redact_sensitive (PDict (ev_input_payload ev)))"
    "wf_val (redact_sensitive (opt_map (ev_proposed_action ev)))"
    "wf_val (redact_sensitive (opt_map (ev_actual_result ev)))"
    using that unfolding event_wf_def by (blast intro: wf_val_redact)+
  have o: "wf_val (opt_str s)" "wf_val (opt_int i)" for s i
    by (auto simp: opt_str_def opt_int_def split: option.splits)
  have "list_all (\<lambda>(k, v). wf_val v) (event_values b ev p at)"
    using w o by (cases b; cases "safe_error_fields (ev_error_code ev) (ev_error_message ev)")
      (simp_all add: event_values_def list_all_iff del: redact_sensitive.simps)
  with distinct_event_values show ?thesis by simp
qed

lemma row_to_record_wf: "row_to_record r = Inr rec \<Longrightarrow> event_wf rec"
  unfolding row_to_record_def event_wf_def
  by (auto simp: parse_opt_mapping_def opt_map_def split: option.splits
      dest!: parse_mapping_wf simp del: wf_val.simps(3) serialisable.simps)

lemma chain_loop_linked:
  assumes "chain_loop H e recs = Inr l" "\<forall>r \<in> set recs. event_wf r"
  shows "linked H values_text values_prev e (map record_values recs)
    \<and> l = chain_end H values_text e (map record_values recs)
    \<and> list_all values_ok (map record_values recs)"
  using assms
proof (induction recs arbitrary: e)
  case (Cons r rs)
  have prev: "values_prev (record_values r) = ar_previous_hash r"
    by (simp add: values_prev_def record_values_def event_values_def)
  have h: "serialisable (PDict (record_values r))" "ar_entry_hash r = H (values_text (record_values r))"
    using Cons.prems(1)
    by (auto simp: hash_payload_def record_values_def values_text_def
        simp del: serialisable.simps json_text.simps split: if_splits)
  have ok: "values_ok (record_values r)"
    using h serialisable_values_wf [of r] Cons.prems(2) by (simp add: values_ok_def record_values_def)
  have "chain_loop H (ar_entry_hash r) rs = Inr l" "ar_previous_hash r = e"
    using Cons.prems(1) by (auto split: if_splits)
  with Cons.IH Cons.prems(2) h prev ok show ?case by (auto simp: chain_end_def)
qed (simp add: chain_end_def)

text \<open>The texts whose hashes make up a tenant's chain.\<close>

definition chain_texts :: "string \<Rightarrow> db \<Rightarrow> string list" where
  "chain_texts t d =
    (case list_for_tenant t d of Inl _ \<Rightarrow> [] | Inr recs \<Rightarrow> map (values_text \<circ> record_values) recs)"

section \<open>Properties\<close>

text \<open>C7 (audit chains stay verifiable). Whatever an append does, and whatever the database does
  with its transaction, every tenant's chain that verified before still verifies: the chain of
  another tenant is unchanged, the chain of the event's tenant has one entry more if the append
  returned, and at most one more if it raised.\<close>

theorem append_keeps_chain:
  assumes "append_audit H f now ev d = (r, d')" "event_wf ev" "verify_chain H t d = Inr v"
  shows "\<exists>v'. verify_chain H t d' = Inr v' \<and> (t \<noteq> ev_tenant_id ev \<longrightarrow> v' = v)
    \<and> (\<forall>rec. r = Inr rec \<longrightarrow> t = ev_tenant_id ev \<longrightarrow> av_entry_count v' = Suc (av_entry_count v))
    \<and> av_entry_count v' \<in> {av_entry_count v, Suc (av_entry_count v)}"
proof (cases "\<exists>rec. append_in_transaction H now ev d = Inr (rec, d')")
  case True
  then obtain rec where "append_in_transaction H now ev d = Inr (rec, d')" by blast
  from append_verifies [OF this assms(2,3)] show ?thesis by (auto split: if_splits)
next
  case False
  with assms(1) have "d' = d \<and> (\<forall>rec. r \<noteq> Inr rec)"
    by (auto simp: append_audit_def transaction_def split: db_fault.splits sum.splits)
  with assms(3) show ?thesis by auto
qed

definition demo_event :: audit_event where
  "demo_event = \<lparr>ev_request_id = ''r1'', ev_tenant_id = ''acme'', ev_company_id = Some 1,
     ev_tool_name = ''t'', ev_tool_version = ''1'', ev_module = ''m'',
     ev_authenticated_subject = ''s'', ev_mcp_client = ''c'', ev_odoo_db_name = None,
     ev_odoo_user = None, ev_odoo_version = None, ev_odoo_transport = None,
     ev_input_payload = [(''Password'', PStr ''x'')], ev_dry_run = False,
     ev_proposed_action = None, ev_actual_result = None, ev_affected_odoo_records = [],
     ev_error_code = Some ''bad'', ev_error_message = Some ''secret detail'', ev_final_status = ''failed'',
     ev_created_at = Some 0\<rparr>"

definition demo_hash :: "string \<Rightarrow> string" where
  "demo_hash s = s"

definition demo_result :: "audit_record res \<times> db" where
  "demo_result = append_audit demo_hash Commits 0 demo_event empty_db"

lemma demo_event_tenant: "ev_tenant_id demo_event = ''acme''"
  by (simp add: demo_event_def)

lemma demo_event_wf: "event_wf demo_event"
  by code_simp

lemma demo_event_ok: "append_guard demo_event = Inr ()" "event_serialisable demo_event"
  by code_simp+

lemma demo_result_ok: "isl (fst demo_result) = False"
  using append_total [OF demo_event_ok demo_event_wf, of empty_db demo_hash 0]
  by (auto simp: demo_result_def append_audit_def transaction_def audit_ids_ok_def tenant_rows_def
      empty_db_def)

lemma demo_verify_empty: "verify_chain demo_hash ''acme'' empty_db =
    Inr \<lparr>av_tenant_id = ''acme'', av_entry_count = 0, av_last_hash = GENESIS_HASH\<rparr>"
  by (simp add: verify_chain_def list_for_tenant_def tenant_rows_def empty_db_def blank_def is_space_def)

theorem append_keeps_chain_witness:
  "\<exists>v'. verify_chain demo_hash ''acme'' (snd demo_result) = Inr v' \<and> av_entry_count v' = 1"
  using append_keeps_chain [of demo_hash Commits 0 demo_event empty_db "fst demo_result"
      "snd demo_result" "''acme''", OF _ demo_event_wf demo_verify_empty] demo_result_ok(1)
  by (cases "fst demo_result") (auto simp: demo_result_def demo_event_tenant)

text \<open>C11 (what an audit row may hold). An append adds exactly one row, behind the tenant's last
  hash, and leaves every existing row as it is. The row holds no value under a sensitive key at any
  depth of its payloads, and its error text is the public one of a known error code: the message
  the caller passed never reaches the log.\<close>

theorem append_redacts:
  assumes "append_in_transaction H now ev d = Inr (rec, d')" "event_wf ev"
  shows "\<exists>row q. audit_log d' = audit_log d @ [row] \<and> row_to_record row = Inr q
    \<and> al_tenant_id row = ev_tenant_id ev \<and> al_previous_hash row = last_hash (ev_tenant_id ev) d
    \<and> PDict (ev_input_payload q) = norm_val (redact_sensitive (PDict (ev_input_payload ev)))
    \<and> no_secret (PDict (ev_input_payload q)) \<and> no_secret (opt_map (ev_proposed_action q))
    \<and> no_secret (opt_map (ev_actual_result q))
    \<and> (al_error_code row, al_error_message row) \<in>
        insert (None, None) (range (\<lambda>c. (Some (code_text c), Some (safe_error_text c))))"
proof -
  from append_effect [OF assms(1)] obtain row where
    row: "event_row H now ev (last_hash (ev_tenant_id ev) d) = Inr row"
    "audit_log d' = audit_log d @ [row\<lparr>al_id := Suc (audit_seq d)\<rparr>]" by auto
  have clean: "no_secret (norm_val (redact_sensitive x))" for x
    by (simp only: norm_redact no_secret_redact)
  have err: "safe_error_fields c m \<in> insert (None, None)
      (range (\<lambda>c. (Some (code_text c), Some (safe_error_text c))))" for c m
    by (auto simp: safe_error_fields_def Let_def)
  from stored_values [OF row(1) assms(2), of "Suc (audit_seq d)"] obtain q where q:
    "row_to_record (row\<lparr>al_id := Suc (audit_seq d)\<rparr>) = Inr q" "ar_previous_hash q = last_hash (ev_tenant_id ev) d"
    "al_tenant_id row = ev_tenant_id ev"
    "PDict (ev_input_payload q) = norm_val (redact_sensitive (PDict (ev_input_payload ev)))"
    "opt_map (ev_proposed_action q) = norm_val (redact_sensitive (opt_map (ev_proposed_action ev)))"
    "opt_map (ev_actual_result q) = norm_val (redact_sensitive (opt_map (ev_actual_result ev)))"
    "(al_error_code row, al_error_message row) = safe_error_fields (ev_error_code ev) (ev_error_message ev)"
    by blast
  have prev: "al_previous_hash row = last_hash (ev_tenant_id ev) d"
    using row_to_record_hash [OF q(1)] q(2) by simp
  show ?thesis
    unfolding row(2)
    by (rule exI [of _ "row\<lparr>al_id := Suc (audit_seq d)\<rparr>"], rule exI [of _ q])
      (use q prev clean err in \<open>simp del: redact_sensitive.simps norm_val.simps insert_iff\<close>)
qed

theorem append_redacts_witness:
  "\<exists>row. audit_log (snd demo_result) = [row] \<and> al_previous_hash row = GENESIS_HASH
    \<and> al_error_message row \<noteq> Some ''secret detail''"
proof -
  obtain rec where "append_in_transaction demo_hash 0 demo_event empty_db = Inr (rec, snd demo_result)"
    using demo_result_ok(1)
    by (auto simp: demo_result_def append_audit_def transaction_def split: sum.splits)
  from append_redacts [OF this demo_event_wf]
  show ?thesis
    by (auto simp: empty_db_def last_hash_def last_row_def safe_error_text_def)
qed

text \<open>C6 (the log is tamper evident). If a tenant's chain verifies in two databases with the same last
  hash, the two lists of entries agree in everything the chain covers, or the hash function has a
  collision among the texts that were hashed, or one of these texts hashes to the genesis value. So
  an edited, dropped, inserted or reordered entry is noticed as long as the hash is sound and the
  last hash is known. (What an entry holds under a sensitive key is not covered: verification
  redacts before it hashes.)\<close>

theorem tamper_evident:
  assumes "verify_chain H t d = Inr v" "verify_chain H t d' = Inr w" "av_last_hash v = av_last_hash w"
  shows "(\<exists>recs recs'. list_for_tenant t d = Inr recs \<and> list_for_tenant t d' = Inr recs'
        \<and> list_all2 same_event recs recs')
    \<or> collision H (set (chain_texts t d) \<union> set (chain_texts t d'))
    \<or> GENESIS_HASH \<in> H ` (set (chain_texts t d) \<union> set (chain_texts t d'))"
proof -
  from assms(1) obtain recs l where a: "list_for_tenant t d = Inr recs" "chain_loop H GENESIS_HASH recs = Inr l"
    "av_last_hash v = l" "\<forall>r \<in> set recs. event_wf r"
    by (fastforce simp: verify_chain_Inr list_for_tenant_def emap_Inr list_all2_conv_all_nth in_set_conv_nth
        intro: row_to_record_wf)
  from assms(2) obtain recs' l' where b: "list_for_tenant t d' = Inr recs'" "chain_loop H GENESIS_HASH recs' = Inr l'"
    "av_last_hash w = l'" "\<forall>r \<in> set recs'. event_wf r"
    by (fastforce simp: verify_chain_Inr list_for_tenant_def emap_Inr list_all2_conv_all_nth in_set_conv_nth
        intro: row_to_record_wf)
  let ?vs = "map record_values recs" and ?ws = "map record_values recs'"
  note la = chain_loop_linked [OF a(2,4)] and lb = chain_loop_linked [OF b(2,4)]
  have texts: "set (chain_texts t d) \<union> set (chain_texts t d') = values_text ` (set ?vs \<union> set ?ws)"
    using a(1) b(1) by (auto simp: chain_texts_def)
  have same: "list_all2 same_event recs recs'" if eq: "map values_text ?vs = map values_text ?ws"
  proof (rule list_all2_all_nthI)
    show len: "length recs = length recs'" using eq by (metis length_map)
    fix i assume i: "i < length recs"
    then have "values_text (record_values (recs ! i)) = values_text (record_values (recs' ! i))"
      using arg_cong [OF eq, of "\<lambda>l. l ! i"] len by simp
    moreover have "values_ok (record_values (recs ! i))" "values_ok (record_values (recs' ! i))"
      using la lb i len by (simp_all add: list_all_iff)
    ultimately show "same_event (recs ! i) (recs' ! i)"
      by (intro same_event_if_norm json_text_inject) (simp_all only: values_ok_def values_text_def)
  qed
  have "map values_text ?vs = map values_text ?ws
    \<or> collision H (values_text ` (set ?vs \<union> set ?ws)) \<or> GENESIS_HASH \<in> H ` values_text ` (set ?vs \<union> set ?ws)"
    by (rule audit_chain.same_end_same_texts) (use la lb a(3) b(3) assms(3) in auto)
  then show ?thesis unfolding texts using same a(1) b(1) by blast
qed

lemma demo_verifies: "\<exists>v. verify_chain demo_hash ''acme'' (snd demo_result) = Inr v"
proof -
  obtain rec where "append_in_transaction demo_hash 0 demo_event empty_db = Inr (rec, snd demo_result)"
    using demo_result_ok
    by (auto simp: demo_result_def append_audit_def transaction_def split: sum.splits)
  from append_verifies [OF this demo_event_wf demo_verify_empty] show ?thesis by blast
qed

theorem tamper_evident_witness:
  "\<exists>v. verify_chain demo_hash ''acme'' (snd demo_result) = Inr v
    \<and> ((\<exists>recs. list_for_tenant ''acme'' (snd demo_result) = Inr recs \<and> list_all2 same_event recs recs)
      \<or> GENESIS_HASH \<in> demo_hash ` set (chain_texts ''acme'' (snd demo_result)))"
proof -
  from demo_verifies obtain v where v: "verify_chain demo_hash ''acme'' (snd demo_result) = Inr v" by blast
  have "\<not> collision demo_hash T" for T by (auto simp: collision_def demo_hash_def)
  with tamper_evident [OF v v refl] v show ?thesis by auto
qed

end
