(* ===== verification/Repositories.thy ===== *)
theory Repositories
  imports AuditLog
begin

text \<open>
  The tenant-scoped repositories of \<open>storage/repositories.py\<close>: proposals and their state machine,
  artifacts, the capability cache, and the idempotency keys whose reservation protocol decides
  whether a write runs, waits or is replayed. Every operation is a statement sequence inside a
  transaction; \<open>now\<close> is the reading of the clock it takes, \<open>H\<close> the hash of the request text.
\<close>

section \<open>Guards\<close>

definition required :: "string \<Rightarrow> unit res" where
  "required value = guard_ok (\<not> blank value) ValueError"

definition company_ok :: "int \<Rightarrow> unit res" where
  "company_ok company = guard_ok (0 < company) ValueError"

section \<open>State machines\<close>

text \<open>A state machine whose allowed transitions climb a rank: no state is entered twice.\<close>

locale ranked_states =
  fixes allowed :: "'s \<Rightarrow> 's \<Rightarrow> bool" and rank :: "'s \<Rightarrow> nat"
  assumes climbs: "allowed s t \<Longrightarrow> rank s < rank t"
begin

lemma path_climbs: "allowed\<^sup>+\<^sup>+ s t \<Longrightarrow> rank s < rank t"
  by (induction rule: tranclp_induct) (auto dest: climbs)

lemma never_again: "allowed\<^sup>+\<^sup>+ s t \<Longrightarrow> \<not> allowed\<^sup>*\<^sup>* t s"
  using path_climbs by (metis less_irrefl rtranclpD tranclp_trans)

end

section \<open>Proposals\<close>

record proposal_record =
  pp_id :: nat
  pp_request_id :: string
  pp_tenant_id :: string
  pp_company_id :: int
  pp_tool_name :: string
  pp_module :: string
  pp_proposal_type :: string
  pp_payload :: pymap
  pp_status :: proposal_state
  pp_executed_at :: "int option"
  pp_erp_record_refs :: "string list"
  pp_created_at :: int

fun proposal_transitions :: "proposal_state \<Rightarrow> proposal_state list" where
  "proposal_transitions PS_proposed = [PS_executing, PS_expired]"
| "proposal_transitions PS_executing = [PS_executed, PS_failed, PS_unknown]"
| "proposal_transitions _ = []"

definition proposal_of_row :: "proposal_row \<Rightarrow> proposal_record res" where
  "proposal_of_row r =
    ebind (parse_mapping (pr_payload_json r)) (\<lambda>payload.
    ebind (parse_string_tuple (pr_erp_record_refs r)) (\<lambda>refs.
    Inr \<lparr>pp_id = pr_id r, pp_request_id = pr_request_id r, pp_tenant_id = pr_tenant_id r,
         pp_company_id = pr_company_id r, pp_tool_name = pr_tool_name r, pp_module = pr_module r,
         pp_proposal_type = pr_proposal_type r, pp_payload = payload, pp_status = pr_status r,
         pp_executed_at = pr_executed_at r, pp_erp_record_refs = refs,
         pp_created_at = pr_created_at r\<rparr>))"

definition proposal_guard ::
    "string \<Rightarrow> string \<Rightarrow> int \<Rightarrow> string \<Rightarrow> string \<Rightarrow> string \<Rightarrow> unit res" where
  "proposal_guard request_id tenant_id company_id tool_name module proposal_type =
    ebind (required request_id) (\<lambda>_.
    ebind (required tenant_id) (\<lambda>_.
    ebind (company_ok company_id) (\<lambda>_.
    ebind (required tool_name) (\<lambda>_.
    ebind (required module) (\<lambda>_.
    required proposal_type)))))"

definition find_proposal :: "string \<Rightarrow> nat \<Rightarrow> db \<Rightarrow> proposal_row option" where
  "find_proposal tenant_id i d = find_row (\<lambda>r. pr_tenant_id r = tenant_id \<and> pr_id r = i) (proposals d)"

definition create_proposal_in_transaction ::
    "int \<Rightarrow> string \<Rightarrow> string \<Rightarrow> int \<Rightarrow> string \<Rightarrow> string \<Rightarrow> string \<Rightarrow> pymap \<Rightarrow> proposal_record tx" where
  "create_proposal_in_transaction now request_id tenant_id company_id tool_name module proposal_type payload =
    tbind (tlift (proposal_guard request_id tenant_id company_id tool_name module proposal_type)) (\<lambda>_.
    tbind (tlift (canonical_json (PDict payload))) (\<lambda>payload_json.
    tbind (insert_proposal
      \<lparr>pr_id = 0, pr_request_id = request_id, pr_tenant_id = tenant_id, pr_company_id = company_id,
       pr_tool_name = tool_name, pr_module = module, pr_proposal_type = proposal_type,
       pr_payload_json = payload_json, pr_status = PS_proposed, pr_executed_at = None,
       pr_erp_record_refs = ''[]'', pr_created_at = now\<rparr>) (\<lambda>inserted d.
      case find_proposal tenant_id (pr_id inserted) d of
        None \<Rightarrow> Inl ProposalTransitionError
      | Some r \<Rightarrow> tlift (proposal_of_row r) d)))"

definition create_proposal ::
    "db_fault \<Rightarrow> int \<Rightarrow> string \<Rightarrow> string \<Rightarrow> int \<Rightarrow> string \<Rightarrow> string \<Rightarrow> string \<Rightarrow> pymap \<Rightarrow> db \<Rightarrow>
      proposal_record res \<times> db" where
  "create_proposal f now request_id tenant_id company_id tool_name module proposal_type payload d =
    (case proposal_guard request_id tenant_id company_id tool_name module proposal_type of
       Inl e \<Rightarrow> (Inl e, d)
     | Inr _ \<Rightarrow> transaction f (create_proposal_in_transaction now request_id tenant_id company_id
                  tool_name module proposal_type payload) d)"

definition get_proposal :: "string \<Rightarrow> nat \<Rightarrow> db \<Rightarrow> proposal_record option res" where
  "get_proposal tenant_id i d =
    ebind (required tenant_id) (\<lambda>_.
      case find_proposal tenant_id i d of
        None \<Rightarrow> Inr None
      | Some r \<Rightarrow> ebind (proposal_of_row r) (\<lambda>p. Inr (Some p)))"

text \<open>\<open>transition\<close>: the row is updated only from the expected state; the row is read back inside the
  transaction and decoded after it.\<close>

definition transition_body ::
    "int \<Rightarrow> string \<Rightarrow> nat \<Rightarrow> proposal_state \<Rightarrow> proposal_state \<Rightarrow> string list \<Rightarrow> proposal_row option tx" where
  "transition_body now tenant_id i expected target refs =
    tbind (tlift (canonical_json (PTuple (map PStr refs)))) (\<lambda>refs_json.
    tbind (update_proposals
        (\<lambda>r. pr_tenant_id r = tenant_id \<and> pr_id r = i \<and> pr_status r = expected)
        (\<lambda>r. r\<lparr>pr_status := target,
               pr_executed_at := (if target = PS_executed then Some now else None),
               pr_erp_record_refs := refs_json\<rparr>)) (\<lambda>rowcount d.
      if rowcount \<noteq> 1 then Inl ProposalTransitionError
      else Inr (find_proposal tenant_id i d, d)))"

definition transition ::
    "db_fault \<Rightarrow> int \<Rightarrow> string \<Rightarrow> nat \<Rightarrow> proposal_state \<Rightarrow> proposal_state \<Rightarrow> string list \<Rightarrow> db \<Rightarrow>
      proposal_record res \<times> db" where
  "transition f now tenant_id i expected target refs d =
    (case required tenant_id of Inl e \<Rightarrow> (Inl e, d)
     | Inr _ \<Rightarrow>
        if target \<notin> set (proposal_transitions expected) then (Inl ProposalTransitionError, d)
        else (case transaction f (transition_body now tenant_id i expected target refs) d of
                (Inl e, d') \<Rightarrow> (Inl e, d')
              | (Inr None, d') \<Rightarrow> (Inl ProposalTransitionError, d')
              | (Inr (Some r), d') \<Rightarrow> (proposal_of_row r, d')))"

section \<open>Artifacts\<close>

record artifact_record =
  af_id :: nat
  af_request_id :: string
  af_tenant_id :: string
  af_company_id :: int
  af_tool_name :: string
  af_module :: string
  af_artifact_type :: string
  af_artifact_format :: string
  af_content :: string
  af_created_at :: int

definition artifact_of_row :: "artifact_row \<Rightarrow> artifact_record" where
  "artifact_of_row r =
    \<lparr>af_id = at_id r, af_request_id = at_request_id r, af_tenant_id = at_tenant_id r,
     af_company_id = at_company_id r, af_tool_name = at_tool_name r, af_module = at_module r,
     af_artifact_type = at_artifact_type r, af_artifact_format = at_artifact_format r,
     af_content = at_content r, af_created_at = at_created_at r\<rparr>"

definition find_artifact :: "string \<Rightarrow> nat \<Rightarrow> db \<Rightarrow> artifact_row option" where
  "find_artifact tenant_id i d = find_row (\<lambda>r. at_tenant_id r = tenant_id \<and> at_id r = i) (artifacts d)"

definition create_artifact_in_transaction ::
    "int \<Rightarrow> string \<Rightarrow> string \<Rightarrow> int \<Rightarrow> string \<Rightarrow> string \<Rightarrow> string \<Rightarrow> string \<Rightarrow> string \<Rightarrow> artifact_record tx" where
  "create_artifact_in_transaction now request_id tenant_id company_id tool_name module artifact_type
      artifact_format content =
    tbind (tlift (proposal_guard request_id tenant_id company_id tool_name module artifact_type)) (\<lambda>_.
    tbind (tlift (required artifact_format)) (\<lambda>_.
    tbind (insert_artifact
      \<lparr>at_id = 0, at_request_id = request_id, at_tenant_id = tenant_id, at_company_id = company_id,
       at_tool_name = tool_name, at_module = module, at_artifact_type = artifact_type,
       at_artifact_format = artifact_format, at_content = content, at_created_at = now\<rparr>) (\<lambda>inserted d.
      case find_artifact tenant_id (at_id inserted) d of
        None \<Rightarrow> Inl RuntimeError
      | Some r \<Rightarrow> Inr (artifact_of_row r, d))))"

definition create_artifact ::
    "db_fault \<Rightarrow> int \<Rightarrow> string \<Rightarrow> string \<Rightarrow> int \<Rightarrow> string \<Rightarrow> string \<Rightarrow> string \<Rightarrow> string \<Rightarrow> string \<Rightarrow> db \<Rightarrow>
      artifact_record res \<times> db" where
  "create_artifact f now request_id tenant_id company_id tool_name module artifact_type
      artifact_format content =
    transaction f (create_artifact_in_transaction now request_id tenant_id company_id tool_name
      module artifact_type artifact_format content)"

definition get_artifact :: "string \<Rightarrow> nat \<Rightarrow> db \<Rightarrow> artifact_record option res" where
  "get_artifact tenant_id i d =
    ebind (required tenant_id) (\<lambda>_. Inr (map_option artifact_of_row (find_artifact tenant_id i d)))"

section \<open>Capability cache\<close>

definition is_bool :: "pyval \<Rightarrow> bool" where
  "is_bool v = (case v of PBool b \<Rightarrow> True | _ \<Rightarrow> False)"

definition bool_of :: "pyval \<Rightarrow> bool" where
  "bool_of v = (case v of PBool b \<Rightarrow> b | _ \<Rightarrow> False)"

definition capability_guard :: "string \<Rightarrow> string \<Rightarrow> string \<Rightarrow> unit res" where
  "capability_guard tenant_id connection_id odoo_version =
    ebind (required tenant_id) (\<lambda>_. ebind (required connection_id) (\<lambda>_. required odoo_version))"

definition put_capabilities ::
    "db_fault \<Rightarrow> int \<Rightarrow> string \<Rightarrow> string \<Rightarrow> string \<Rightarrow> pymap \<Rightarrow> db \<Rightarrow> unit res \<times> db" where
  "put_capabilities f now tenant_id connection_id odoo_version capabilities d =
    (case capability_guard tenant_id connection_id odoo_version of
       Inl e \<Rightarrow> (Inl e, d)
     | Inr _ \<Rightarrow>
        if \<not> list_all (\<lambda>(k, v). is_bool v) capabilities then (Inl ValueError, d)
        else transaction f
          (tbind (tlift (canonical_json (PDict capabilities))) (\<lambda>text_json.
            upsert_capability \<lparr>cc_tenant_id = tenant_id, cc_connection_id = connection_id,
              cc_odoo_version = odoo_version, cc_capabilities_json = text_json, cc_probed_at = now\<rparr>)) d)"

definition find_capability :: "string \<Rightarrow> string \<Rightarrow> string \<Rightarrow> db \<Rightarrow> capability_row option" where
  "find_capability tenant_id connection_id odoo_version d =
    find_row (\<lambda>q. cc_tenant_id q = tenant_id \<and> cc_connection_id q = connection_id
                  \<and> cc_odoo_version q = odoo_version) (capabilities_cache d)"

definition get_capabilities ::
    "string \<Rightarrow> string \<Rightarrow> string \<Rightarrow> db \<Rightarrow> (string \<times> bool) list option res" where
  "get_capabilities tenant_id connection_id odoo_version d =
    ebind (capability_guard tenant_id connection_id odoo_version) (\<lambda>_.
      case find_capability tenant_id connection_id odoo_version d of
        None \<Rightarrow> Inr None
      | Some r \<Rightarrow>
          ebind (parse_mapping (cc_capabilities_json r)) (\<lambda>parsed.
          ebind (guard_ok (list_all (\<lambda>(k, v). is_bool v) parsed) ValueError) (\<lambda>_.
          Inr (Some (map (\<lambda>(k, v). (k, bool_of v)) parsed)))))"

section \<open>Idempotency keys\<close>

datatype disposition = Reserved | In_progress | Replay

record idempotency_decision =
  dc_disposition :: disposition
  dc_state :: idempotency_state
  dc_owner_request_id :: string
  dc_response :: "pymap option"
  dc_expires_at :: int

definition idempotency_ttl :: int where
  "idempotency_ttl = hours 24"

definition request_hash :: "(string \<Rightarrow> string) \<Rightarrow> int \<Rightarrow> pymap \<Rightarrow> string res" where
  "request_hash H company_id payload =
    ebind (canonical_json (PDict [(''company_id'', PInt company_id), (''payload'', PDict payload)]))
      (\<lambda>t. Inr (H t))"

definition slot_row :: "string \<Rightarrow> string \<Rightarrow> string \<Rightarrow> db \<Rightarrow> idempotency_row option" where
  "slot_row tenant_id tool_name key d = find_row (same_slot tenant_id tool_name key) (idempotency_keys d)"

definition reservation_guard :: "string \<Rightarrow> int \<Rightarrow> string \<Rightarrow> string \<Rightarrow> string \<Rightarrow> unit res" where
  "reservation_guard tenant_id company_id tool_name key owner =
    ebind (required tenant_id) (\<lambda>_.
    ebind (company_ok company_id) (\<lambda>_.
    ebind (required tool_name) (\<lambda>_.
    ebind (required key) (\<lambda>_.
    required owner))))"

text \<open>A stored reservation: its response if it has one, or the exception for an inconsistent row.\<close>

definition stored_response :: "idempotency_row \<Rightarrow> pymap option res" where
  "stored_response r =
    ebind (parse_opt_mapping (ik_response_json r)) (\<lambda>response.
    ebind (guard_ok ((ik_state r = IS_in_progress) = (response = None)) IdempotencyTransitionError) (\<lambda>_.
    Inr response))"

definition expired_final :: "int \<Rightarrow> idempotency_row \<Rightarrow> bool" where
  "expired_final now r \<longleftrightarrow> ik_expires_at r \<le> now \<and> ik_state r \<in> {IS_succeeded, IS_failed}"

definition fresh_reservation ::
    "int \<Rightarrow> string \<Rightarrow> int \<Rightarrow> string \<Rightarrow> string \<Rightarrow> string \<Rightarrow> string \<Rightarrow> idempotency_decision tx" where
  "fresh_reservation now tenant_id company_id tool_name key h owner =
    tbind (insert_idempotency
      \<lparr>ik_id = 0, ik_tenant_id = tenant_id, ik_company_id = company_id, ik_tool_name = tool_name,
       ik_idempotency_key = key, ik_request_hash = h, ik_state = IS_in_progress,
       ik_owner_request_id = owner, ik_response_json = None, ik_expires_at = now + idempotency_ttl,
       ik_created_at = now, ik_updated_at = now\<rparr>) (\<lambda>_.
    treturn \<lparr>dc_disposition = Reserved, dc_state = IS_in_progress, dc_owner_request_id = owner,
             dc_response = None, dc_expires_at = now + idempotency_ttl\<rparr>)"

definition existing_decision :: "string \<Rightarrow> idempotency_row \<Rightarrow> pymap option \<Rightarrow> idempotency_decision res" where
  "existing_decision h r response =
    (if ik_request_hash r \<noteq> h then Inl IdempotencyPayloadMismatch
     else Inr \<lparr>dc_disposition = (if ik_state r = IS_in_progress then In_progress else Replay),
               dc_state = ik_state r, dc_owner_request_id = ik_owner_request_id r,
               dc_response = response, dc_expires_at = ik_expires_at r\<rparr>)"

definition reserve_in_transaction ::
    "(string \<Rightarrow> string) \<Rightarrow> int \<Rightarrow> string \<Rightarrow> int \<Rightarrow> string \<Rightarrow> string \<Rightarrow> pymap \<Rightarrow> string \<Rightarrow>
      idempotency_decision tx" where
  "reserve_in_transaction H now tenant_id company_id tool_name key payload owner =
    tbind (tlift (reservation_guard tenant_id company_id tool_name key owner)) (\<lambda>_.
    tbind (tlift (request_hash H company_id payload)) (\<lambda>h d.
      case slot_row tenant_id tool_name key d of
        None \<Rightarrow> fresh_reservation now tenant_id company_id tool_name key h owner d
      | Some r \<Rightarrow>
          tbind (tlift (stored_response r)) (\<lambda>response.
            if expired_final now r
            then tbind (delete_idempotency (ik_id r)) (\<lambda>_.
                   fresh_reservation now tenant_id company_id tool_name key h owner)
            else tlift (existing_decision h r response)) d))"

definition reserve ::
    "(string \<Rightarrow> string) \<Rightarrow> db_fault \<Rightarrow> int \<Rightarrow> string \<Rightarrow> int \<Rightarrow> string \<Rightarrow> string \<Rightarrow> pymap \<Rightarrow> string \<Rightarrow>
      db \<Rightarrow> idempotency_decision res \<times> db" where
  "reserve H f now tenant_id company_id tool_name key payload owner =
    transaction f (reserve_in_transaction H now tenant_id company_id tool_name key payload owner)"

definition finish_in_transaction ::
    "int \<Rightarrow> string \<Rightarrow> int \<Rightarrow> string \<Rightarrow> string \<Rightarrow> string \<Rightarrow> idempotency_state \<Rightarrow> pymap option \<Rightarrow> unit tx" where
  "finish_in_transaction now tenant_id company_id tool_name key owner state response =
    tbind (tlift (reservation_guard tenant_id company_id tool_name key owner)) (\<lambda>_.
      if state = IS_in_progress then tlift (Inl IdempotencyTransitionError)
      else case response of
        None \<Rightarrow> tlift (Inl IdempotencyTransitionError)
      | Some m \<Rightarrow>
          tbind (tlift (canonical_json (PDict m))) (\<lambda>response_json.
          tbind (update_idempotency
            (\<lambda>r. same_slot tenant_id tool_name key r \<and> ik_company_id r = company_id
                 \<and> ik_owner_request_id r = owner \<and> ik_state r = IS_in_progress)
            (\<lambda>r. r\<lparr>ik_state := state, ik_response_json := Some response_json,
                   ik_updated_at := now\<rparr>)) (\<lambda>rowcount.
          if rowcount \<noteq> 1 then tlift (Inl IdempotencyTransitionError) else treturn ())))"

definition finish ::
    "db_fault \<Rightarrow> int \<Rightarrow> string \<Rightarrow> int \<Rightarrow> string \<Rightarrow> string \<Rightarrow> string \<Rightarrow> idempotency_state \<Rightarrow> pymap option \<Rightarrow>
      db \<Rightarrow> unit res \<times> db" where
  "finish f now tenant_id company_id tool_name key owner state response =
    transaction f (finish_in_transaction now tenant_id company_id tool_name key owner state response)"

section \<open>The invariant of the idempotency table\<close>

definition slot_of :: "idempotency_row \<Rightarrow> string \<times> string \<times> string" where
  "slot_of r = (ik_tenant_id r, ik_tool_name r, ik_idempotency_key r)"

definition idempotency_ok :: "db \<Rightarrow> bool" where
  "idempotency_ok d \<longleftrightarrow> distinct (map slot_of (idempotency_keys d))
     \<and> distinct (map ik_id (idempotency_keys d))
     \<and> (\<forall>r \<in> set (idempotency_keys d). ik_id r \<le> idempotency_seq d \<and> response_invariant r
          \<and> 0 < ik_company_id r)"

lemma same_slot_iff: "same_slot t n k r \<longleftrightarrow> slot_of r = (t, n, k)"
  by (auto simp: same_slot_def slot_of_def)

lemma idempotency_ok_empty: "idempotency_ok empty_db"
  by (simp add: idempotency_ok_def empty_db_def)

lemma slot_row_Some:
  "idempotency_ok d \<Longrightarrow> slot_row t n k d = Some r \<longleftrightarrow> r \<in> set (idempotency_keys d) \<and> slot_of r = (t, n, k)"
proof
  assume ok: "idempotency_ok d" and r: "r \<in> set (idempotency_keys d) \<and> slot_of r = (t, n, k)"
  then obtain q where q: "slot_row t n k d = Some q"
    by (cases "slot_row t n k d") (auto simp: slot_row_def find_row_None same_slot_iff)
  then have "q \<in> set (idempotency_keys d)" "slot_of q = (t, n, k)"
    using find_row_Some by (fastforce simp: slot_row_def same_slot_iff)+
  moreover from ok have "inj_on slot_of (set (idempotency_keys d))"
    by (simp add: idempotency_ok_def distinct_map)
  ultimately have "q = r" using r inj_onD by metis
  with q show "slot_row t n k d = Some r" by simp
qed (auto simp: slot_row_def same_slot_iff dest: find_row_Some)

lemma slot_row_None: "slot_row t n k d = None \<longleftrightarrow> (\<forall>r \<in> set (idempotency_keys d). slot_of r \<noteq> (t, n, k))"
  by (simp add: slot_row_def find_row_None same_slot_iff)

lemma slot_row_cong: "idempotency_keys d' = idempotency_keys d \<Longrightarrow> slot_row t n k d' = slot_row t n k d"
  by (simp add: slot_row_def)

lemma idempotency_ok_cong:
  "idempotency_keys d' = idempotency_keys d \<Longrightarrow> idempotency_seq d' = idempotency_seq d \<Longrightarrow>
    idempotency_ok d' = idempotency_ok d"
  by (simp add: idempotency_ok_def)

lemma insert_idempotency_ok:
  assumes "insert_idempotency r d = Inr (r', d')" "idempotency_ok d"
  shows "idempotency_ok d' \<and> slot_row t n k d' =
    (if slot_of r = (t, n, k) then Some (r\<lparr>ik_id := Suc (idempotency_seq d)\<rparr>) else slot_row t n k d)"
proof -
  let ?r = "r\<lparr>ik_id := Suc (idempotency_seq d)\<rparr>"
  from assms(1) have d': "d' = d\<lparr>idempotency_keys := idempotency_keys d @ [?r],
      idempotency_seq := Suc (idempotency_seq d)\<rparr>"
    and new: "slot_of r \<notin> slot_of ` set (idempotency_keys d)" "0 < ik_company_id r" "response_invariant r"
    by (auto simp: insert_idempotency_def Let_def same_slot_iff slot_of_def split: if_splits)
  have "slot_of ?r = slot_of r" "response_invariant ?r = response_invariant r"
    by (simp_all add: slot_of_def response_invariant_def)
  with assms(2) new d' have "idempotency_ok d'"
    by (fastforce simp: idempotency_ok_def)
  moreover have "slot_row t n k d' =
      (if slot_of r = (t, n, k) then Some ?r else slot_row t n k d)"
    using new d' \<open>slot_of ?r = slot_of r\<close> slot_row_None [of t n k d]
    by (auto simp: slot_row_def find_row_append same_slot_iff image_iff split: option.split)
  ultimately show ?thesis by blast
qed

lemma delete_idempotency_ok:
  assumes "delete_idempotency i d = Inr (u, d')" "idempotency_ok d"
  shows "idempotency_ok d' \<and> slot_row t n k d' =
    (case slot_row t n k d of None \<Rightarrow> None | Some r \<Rightarrow> if ik_id r = i then None else Some r)"
proof -
  from assms(1) have keys: "idempotency_keys d' = filter (\<lambda>r. ik_id r \<noteq> i) (idempotency_keys d)"
    "idempotency_seq d' = idempotency_seq d" by (auto simp: delete_idempotency_def)
  with assms(2) have ok: "idempotency_ok d'"
    by (auto simp: idempotency_ok_def distinct_map_filter)
  moreover have "slot_row t n k d' =
      (case slot_row t n k d of None \<Rightarrow> None | Some r \<Rightarrow> if ik_id r = i then None else Some r)"
  proof (cases "slot_row t n k d")
    case None
    then have "slot_row t n k d' = None" using keys by (simp add: slot_row_None)
    with None show ?thesis by simp
  next
    case (Some r)
    have uniq: "q = r" if "q \<in> set (idempotency_keys d)" "slot_of q = (t, n, k)" for q
      using that Some slot_row_Some [OF assms(2), of t n k q] by simp
    from Some have r: "r \<in> set (idempotency_keys d)" "slot_of r = (t, n, k)"
      using slot_row_Some [OF assms(2)] by auto
    show ?thesis
    proof (cases "ik_id r = i")
      case True
      then have "slot_row t n k d' = None"
        unfolding slot_row_None keys by (auto dest: uniq)
      with Some True show ?thesis by simp
    next
      case False
      then have "slot_row t n k d' = Some r"
        using slot_row_Some [OF ok] keys r by auto
      with Some False show ?thesis by simp
    qed
  qed
  ultimately show ?thesis by blast
qed

lemma update_idempotency_ok:
  assumes "update_idempotency P f d = Inr (m, d')" "idempotency_ok d"
    and "\<And>r. slot_of (f r) = slot_of r" "\<And>r. ik_id (f r) = ik_id r" "\<And>r. ik_company_id (f r) = ik_company_id r"
  shows "idempotency_ok d' \<and> slot_row t n k d' = map_option (\<lambda>r. if P r then f r else r) (slot_row t n k d)
    \<and> m = count_rows P (idempotency_keys d)"
proof -
  from assms(1) have keys: "idempotency_keys d' = update_rows P f (idempotency_keys d)"
    "idempotency_seq d' = idempotency_seq d" "m = count_rows P (idempotency_keys d)"
    and inv: "\<And>r. r \<in> set (idempotency_keys d) \<Longrightarrow> P r \<Longrightarrow> response_invariant (f r)"
    by (auto simp: update_idempotency_def split: if_splits)
  have "map slot_of (update_rows P f rs) = map slot_of rs" "map ik_id (update_rows P f rs) = map ik_id rs" for rs
    using assms(3,4) by (auto simp: update_rows_def)
  with keys assms(2,4,5) inv have "idempotency_ok d'"
    by (auto simp: idempotency_ok_def set_update_rows)
  with keys assms(3) show ?thesis
    by (auto simp: slot_row_def intro!: find_row_update_rows simp: same_slot_iff)
qed

section \<open>What reserving and finishing do to a slot\<close>

text \<open>A reservation is granted only on a free slot or on one whose final, certain outcome has
  expired; it then holds the slot. Any other answer leaves the database as it is.\<close>

lemma fresh_reservation_effect:
  assumes "fresh_reservation now t c n k h owner d = Inr (dec, d')" "idempotency_ok d"
  shows "idempotency_ok d' \<and> dc_disposition dec = Reserved \<and> dc_state dec = IS_in_progress
    \<and> (\<exists>r. slot_row t n k d' = Some r \<and> ik_state r = IS_in_progress \<and> ik_owner_request_id r = owner
        \<and> ik_company_id r = c \<and> ik_request_hash r = h)
    \<and> (\<forall>t' n' k'. (t', n', k') \<noteq> (t, n, k) \<longrightarrow> slot_row t' n' k' d' = slot_row t' n' k' d)"
proof -
  from assms(1) obtain r' where ins: "insert_idempotency
      \<lparr>ik_id = 0, ik_tenant_id = t, ik_company_id = c, ik_tool_name = n,
       ik_idempotency_key = k, ik_request_hash = h, ik_state = IS_in_progress,
       ik_owner_request_id = owner, ik_response_json = None, ik_expires_at = now + idempotency_ttl,
       ik_created_at = now, ik_updated_at = now\<rparr> d = Inr (r', d')"
    and dec: "dc_disposition dec = Reserved" "dc_state dec = IS_in_progress"
    by (auto simp: fresh_reservation_def)
  from insert_idempotency_ok [OF ins assms(2)] dec show ?thesis by (auto simp: slot_of_def)
qed

lemma insert_idempotency_frame:
  "insert_idempotency r d = Inr (r', d') \<Longrightarrow> audit_log d' = audit_log d \<and> audit_seq d' = audit_seq d"
  by (auto simp: insert_idempotency_def Let_def split: if_splits)

lemma reserve_frame:
  assumes "reserve_in_transaction H now t c n k payload owner d = Inr (dec, d')"
  shows "audit_log d' = audit_log d \<and> audit_seq d' = audit_seq d"
  using assms
  by (auto simp: reserve_in_transaction_def fresh_reservation_def delete_idempotency_def
      dest!: insert_idempotency_frame split: option.splits if_splits)

lemma reserve_cases:
  assumes "reserve_in_transaction H now t c n k payload owner d = Inr (dec, d')" "idempotency_ok d"
  obtains (reserved) h r where "dc_disposition dec = Reserved" "idempotency_ok d'"
      "request_hash H c payload = Inr h"
      "slot_row t n k d' = Some r" "ik_state r = IS_in_progress" "ik_owner_request_id r = owner"
      "ik_company_id r = c" "ik_request_hash r = h"
      "case slot_row t n k d of None \<Rightarrow> True | Some r0 \<Rightarrow> expired_final now r0"
      "\<And>t' n' k'. (t', n', k') \<noteq> (t, n, k) \<Longrightarrow> slot_row t' n' k' d' = slot_row t' n' k' d"
  | (existing) h r where "d' = d" "request_hash H c payload = Inr h" "slot_row t n k d = Some r"
      "ik_request_hash r = h" "\<not> expired_final now r"
      "dc_disposition dec = (if ik_state r = IS_in_progress then In_progress else Replay)"
      "dc_state dec = ik_state r" "dc_owner_request_id dec = ik_owner_request_id r"
      "stored_response r = Inr (dc_response dec)"
proof -
  from assms(1) obtain h where h: "request_hash H c payload = Inr h"
    and body: "(case slot_row t n k d of
        None \<Rightarrow> fresh_reservation now t c n k h owner d
      | Some r \<Rightarrow>
          tbind (tlift (stored_response r)) (\<lambda>response.
            if expired_final now r
            then tbind (delete_idempotency (ik_id r)) (\<lambda>_. fresh_reservation now t c n k h owner)
            else tlift (existing_decision h r response)) d) = Inr (dec, d')"
    by (auto simp: reserve_in_transaction_def)
  show thesis
  proof (cases "slot_row t n k d")
    case None
    with body have "fresh_reservation now t c n k h owner d = Inr (dec, d')" by simp
    from fresh_reservation_effect [OF this assms(2)] None h show thesis
      by (elim conjE exE) (rule reserved, auto)
  next
    case (Some r)
    show thesis
    proof (cases "expired_final now r")
      case True
      with body Some obtain d1 where del: "delete_idempotency (ik_id r) d = Inr ((), d1)"
        and fr: "fresh_reservation now t c n k h owner d1 = Inr (dec, d')" by auto
      have ok1: "idempotency_ok d1" using delete_idempotency_ok [OF del assms(2)] by blast
      have other: "slot_row t' n' k' d1 = slot_row t' n' k' d" if "(t', n', k') \<noteq> (t, n, k)" for t' n' k'
      proof -
        have "ik_id q \<noteq> ik_id r" if q: "slot_row t' n' k' d = Some q" for q
        proof
          assume "ik_id q = ik_id r"
          moreover have "q \<in> set (idempotency_keys d)" "r \<in> set (idempotency_keys d)"
            "slot_of q = (t', n', k')" "slot_of r = (t, n, k)"
            using q Some slot_row_Some [OF assms(2)] by auto
          moreover have "inj_on ik_id (set (idempotency_keys d))"
            using assms(2) by (simp add: idempotency_ok_def distinct_map)
          ultimately have "q = r" using inj_onD by metis
          with \<open>slot_of q = _\<close> \<open>slot_of r = _\<close> \<open>(t', n', k') \<noteq> (t, n, k)\<close> show False by simp
        qed
        then show ?thesis
          using delete_idempotency_ok [OF del assms(2), of t' n' k'] by (auto split: option.splits)
      qed
      from fresh_reservation_effect [OF fr ok1] Some True h other show thesis
        by (elim conjE exE) (rule reserved, auto)
    next
      case False
      with body Some obtain response where "stored_response r = Inr response" "d' = d"
        "existing_decision h r response = Inr dec" by auto
      with Some False h show thesis
        by (intro existing) (auto simp: existing_decision_def split: if_splits)
    qed
  qed
qed

lemma reserve_ok:
  "reserve_in_transaction H now t c n k payload owner d = Inr (dec, d') \<Longrightarrow> idempotency_ok d \<Longrightarrow>
    idempotency_ok d' \<and> (dc_disposition dec \<noteq> Reserved \<longrightarrow> d' = d)"
  by (erule (1) reserve_cases) (auto split: if_splits)

text \<open>Finishing needs a slot that is in progress for the same owner and company; it makes the outcome
  final together with its response.\<close>

lemma finish_effect:
  assumes "finish_in_transaction now t c n k owner state response d = Inr (u, d')" "idempotency_ok d"
  shows "idempotency_ok d' \<and> state \<noteq> IS_in_progress
    \<and> (\<exists>r m. slot_row t n k d = Some r \<and> ik_state r = IS_in_progress \<and> ik_owner_request_id r = owner
        \<and> ik_company_id r = c \<and> response = Some m \<and> serialisable (PDict m)
        \<and> slot_row t n k d' = Some (r\<lparr>ik_state := state, ik_response_json := Some (json_text (PDict m)),
              ik_updated_at := now\<rparr>))
    \<and> (\<forall>t' n' k'. (t', n', k') \<noteq> (t, n, k) \<longrightarrow> slot_row t' n' k' d' = slot_row t' n' k' d)
    \<and> audit_log d' = audit_log d \<and> audit_seq d' = audit_seq d"
proof -
  let ?P = "\<lambda>r. same_slot t n k r \<and> ik_company_id r = c \<and> ik_owner_request_id r = owner \<and> ik_state r = IS_in_progress"
  from assms(1) obtain m where m: "state \<noteq> IS_in_progress" "response = Some m" "serialisable (PDict m)"
    and upd: "update_idempotency ?P (\<lambda>r. r\<lparr>ik_state := state, ik_response_json := Some (json_text (PDict m)),
        ik_updated_at := now\<rparr>) d = Inr (1, d')"
    by (auto simp: finish_in_transaction_def simp del: json_text.simps serialisable.simps
        split: if_splits option.splits)
  have frame: "audit_log d' = audit_log d" "audit_seq d' = audit_seq d"
    using upd by (auto simp: update_idempotency_def split: if_splits)
  note eff = update_idempotency_ok [OF upd assms(2)]
  have "count_rows ?P (idempotency_keys d) = 1" using eff by (simp add: slot_of_def)
  then have "count_rows ?P (idempotency_keys d) \<noteq> 0" by (simp only: one_neq_zero not_False_eq_True)
  then have "\<not> (\<forall>r \<in> set (idempotency_keys d). \<not> ?P r)" unfolding count_rows_0 .
  then obtain r where r: "r \<in> set (idempotency_keys d)" "?P r" by blast
  then have slot: "slot_row t n k d = Some r" using slot_row_Some [OF assms(2)] by (simp add: same_slot_iff)
  have other: "slot_row t' n' k' d' = slot_row t' n' k' d" if "(t', n', k') \<noteq> (t, n, k)" for t' n' k'
  proof (cases "slot_row t' n' k' d")
    case (Some q)
    then have "\<not> same_slot t n k q" using slot_row_Some [OF assms(2)] that by (auto simp: same_slot_iff)
    with Some eff [of t' n' k'] show ?thesis by (simp add: slot_of_def)
  qed (use eff [of t' n' k'] in \<open>simp add: slot_of_def\<close>)
  from eff [of t n k] slot r(2) have "idempotency_ok d'" "slot_row t n k d' =
      Some (r\<lparr>ik_state := state, ik_response_json := Some (json_text (PDict m)), ik_updated_at := now\<rparr>)"
    by (simp_all add: slot_of_def del: json_text.simps)
  with m slot r(2) other frame show ?thesis by blast
qed

section \<open>Proposals and the capability cache\<close>

definition proposal_rank :: "proposal_state \<Rightarrow> nat" where
  "proposal_rank s = (case s of PS_proposed \<Rightarrow> 0 | PS_executing \<Rightarrow> 1 | _ \<Rightarrow> 2)"

interpretation proposal_states: ranked_states "\<lambda>s t. t \<in> set (proposal_transitions s)" proposal_rank
proof
  fix s t
  show "t \<in> set (proposal_transitions s) \<Longrightarrow> proposal_rank s < proposal_rank t"
    by (cases s) (auto simp: proposal_rank_def)
qed

definition proposals_ok :: "db \<Rightarrow> bool" where
  "proposals_ok d \<longleftrightarrow> distinct (map pr_id (proposals d)) \<and> (\<forall>r \<in> set (proposals d). pr_id r \<le> proposal_seq d)"

lemma insert_proposal_find:
  assumes "insert_proposal r d = Inr (r', d')" "proposals_ok d"
  shows "proposals_ok d' \<and> r' = r\<lparr>pr_id := Suc (proposal_seq d)\<rparr> \<and>
    find_proposal t i d' = (if i = Suc (proposal_seq d)
      then (if t = pr_tenant_id r then Some r' else None) else find_proposal t i d)"
proof -
  from assms(1) have e: "r' = r\<lparr>pr_id := Suc (proposal_seq d)\<rparr>"
    "d' = d\<lparr>proposals := proposals d @ [r'], proposal_seq := Suc (proposal_seq d)\<rparr>"
    by (auto simp: insert_proposal_def Let_def split: if_splits)
  have new: "pr_id q \<noteq> Suc (proposal_seq d)" if "q \<in> set (proposals d)" for q
    using assms(2) that by (auto simp: proposals_ok_def)
  have "find_row (\<lambda>q. pr_tenant_id q = t \<and> pr_id q = Suc (proposal_seq d)) (proposals d) = None"
    using new by (auto simp: find_row_None)
  moreover have "proposals_ok d'" using assms(2) new e by (fastforce simp: proposals_ok_def)
  ultimately show ?thesis
    using e by (auto simp: find_proposal_def find_row_append split: option.split)
qed

lemma update_proposals_pointwise:
  assumes "update_proposals P f d = Inr (m, d')"
  shows "list_all2 (\<lambda>r r'. if P r then r' = f r else r' = r) (proposals d) (proposals d')"
  using assms by (auto simp: update_proposals_def update_rows_def list_all2_map2 list_all2_same)

lemma find_proposal_update:
  assumes "update_proposals P f d = Inr (m, d')"
    and "\<And>r. pr_tenant_id (f r) = pr_tenant_id r" "\<And>r. pr_id (f r) = pr_id r"
  shows "find_proposal t i d' = map_option (\<lambda>r. if P r then f r else r) (find_proposal t i d)"
  using assms by (auto simp: update_proposals_def find_proposal_def intro!: find_row_update_rows)

lemma upsert_capability_find:
  assumes "upsert_capability r d = Inr (u, d')"
  shows "map_option cc_capabilities_json (find_capability t c v d') =
    (if (t, c, v) = (cc_tenant_id r, cc_connection_id r, cc_odoo_version r)
     then Some (cc_capabilities_json r) else map_option cc_capabilities_json (find_capability t c v d))"
proof -
  define same where "same = (\<lambda>q :: capability_row. cc_tenant_id q = cc_tenant_id r \<and> cc_connection_id q = cc_connection_id r
                     \<and> cc_odoo_version q = cc_odoo_version r)"
  define upd where "upd = (\<lambda>q :: capability_row. q\<lparr>cc_capabilities_json := cc_capabilities_json r, cc_probed_at := cc_probed_at r\<rparr>)"
  let ?Q = "\<lambda>q. cc_tenant_id q = t \<and> cc_connection_id q = c \<and> cc_odoo_version q = v"
  have d': "capabilities_cache d' = (if \<exists>q \<in> set (capabilities_cache d). same q
      then update_rows same upd (capabilities_cache d) else capabilities_cache d @ [r])"
    using assms by (auto simp: upsert_capability_def Let_def same_def upd_def)
  have upd: "find_row ?Q (update_rows same upd (capabilities_cache d))
      = map_option (\<lambda>q. if same q then upd q else q) (find_row ?Q (capabilities_cache d))"
    by (rule find_row_update_rows) (simp add: upd_def)
  show ?thesis
  proof (cases "find_row ?Q (capabilities_cache d)")
    case None
    then have "\<forall>q \<in> set (capabilities_cache d). \<not> ?Q q" by (simp add: find_row_None)
    with None show ?thesis
      using upd d' by (auto simp: find_capability_def find_row_append same_def)
  next
    case (Some q)
    then have "q \<in> set (capabilities_cache d)" "?Q q" using find_row_Some by fast+
    with Some show ?thesis
      using upd d' by (auto simp: find_capability_def find_row_append same_def upd_def)
  qed
qed

lemma finished_replays:
  assumes "finish_in_transaction now t c n k owner state (Some m) d = Inr (u, d')" "idempotency_ok d"
    and "slot_row t n k d = Some r" "wf_val (PDict m)"
    and "reservation_guard t c' n k owner' = Inr ()" "request_hash H c' payload = Inr h"
    and "state = IS_unknown \<or> now' < ik_expires_at r"
  shows "if h = ik_request_hash r
    then \<exists>dec resp. reserve_in_transaction H now' t c' n k payload owner' d' = Inr (dec, d')
      \<and> dc_disposition dec = Replay \<and> dc_state dec = state \<and> dc_owner_request_id dec = owner
      \<and> dc_response dec = Some resp \<and> PDict resp = norm_val (PDict m)
    else reserve_in_transaction H now' t c' n k payload owner' d' = Inl IdempotencyPayloadMismatch"
proof -
  let ?r = "r\<lparr>ik_state := state, ik_response_json := Some (json_text (PDict m)), ik_updated_at := now\<rparr>"
  from finish_effect [OF assms(1,2)] assms(3) have s: "slot_row t n k d' = Some ?r" "state \<noteq> IS_in_progress"
    "ik_owner_request_id r = owner" "serialisable (PDict m)" by auto
  let ?resp = "sort_dict (map (\<lambda>(k, v). (k, norm_val v)) m)"
  have st: "stored_response ?r = Inr (Some ?resp)"
    using parse_mapping_text [OF s(4) assms(4)] s(2)
    by (simp add: stored_response_def parse_opt_mapping_def del: json_text.simps)
  have ex: "\<not> expired_final now' ?r" using assms(7) by (auto simp: expired_final_def)
  have "reserve_in_transaction H now' t c' n k payload owner' d' =
      tlift (existing_decision h ?r (Some ?resp)) d'"
    using assms(5,6) s(1) st ex
    by (simp add: reserve_in_transaction_def tbind_def tlift_def del: json_text.simps)
  then show ?thesis
    using s(2,3) by (auto simp: existing_decision_def tlift_def)
qed

text \<open>A finished row answers with its response, whoever asks.\<close>

lemma stored_key_replays:
  assumes "slot_row t n k d = Some row" "ik_state row \<noteq> IS_in_progress"
    and "ik_response_json row = Some (json_text (PDict m))" "serialisable (PDict m)" "wf_val (PDict m)"
    and "reservation_guard t c n k owner = Inr ()" "request_hash H c payload = Inr (ik_request_hash row)"
    and "\<not> expired_final now row"
  shows "reserve_in_transaction H now t c n k payload owner d =
    Inr (\<lparr>dc_disposition = Replay, dc_state = ik_state row, dc_owner_request_id = ik_owner_request_id row,
          dc_response = Some (sort_dict (map (\<lambda>(k, v). (k, norm_val v)) m)), dc_expires_at = ik_expires_at row\<rparr>, d)"
proof -
  have "stored_response row = Inr (Some (sort_dict (map (\<lambda>(k, v). (k, norm_val v)) m)))"
    using parse_mapping_text [OF assms(4,5)] assms(2,3)
    by (simp add: stored_response_def parse_opt_mapping_def del: json_text.simps)
  then show ?thesis
    using assms
    by (simp add: reserve_in_transaction_def tbind_def tlift_def existing_decision_def del: json_text.simps)
qed

text \<open>Finishing the slot one holds always succeeds.\<close>

lemma finish_total:
  assumes "idempotency_ok d" "slot_row t n k d = Some row" "ik_state row = IS_in_progress"
    and "ik_owner_request_id row = owner" "ik_company_id row = c" "state \<noteq> IS_in_progress"
    and "serialisable (PDict m)" "reservation_guard t c n k owner = Inr ()"
  shows "\<exists>d'. finish_in_transaction now t c n k owner state (Some m) d = Inr ((), d')"
proof -
  let ?P = "\<lambda>r. same_slot t n k r \<and> ik_company_id r = c \<and> ik_owner_request_id r = owner \<and> ik_state r = IS_in_progress"
  let ?f = "\<lambda>r. r\<lparr>ik_state := state, ik_response_json := Some (json_text (PDict m)), ik_updated_at := now\<rparr>"
  have row: "row \<in> set (idempotency_keys d)" "slot_of row = (t, n, k)"
    using slot_row_Some [OF assms(1)] assms(2) by auto
  have "distinct (map slot_of (idempotency_keys d))" using assms(1) by (simp add: idempotency_ok_def)
  then have inj: "inj_on slot_of (set (idempotency_keys d))" and dist: "distinct (idempotency_keys d)"
    by (simp_all add: distinct_map)
  have "set (filter ?P (idempotency_keys d)) = {row}"
  proof (intro set_eqI iffI)
    fix q assume "q \<in> set (filter ?P (idempotency_keys d))"
    then have "q \<in> set (idempotency_keys d)" "slot_of q = (t, n, k)" by (simp_all add: same_slot_iff)
    with row inj inj_onD [of slot_of _ q row] show "q \<in> {row}" by simp
  qed (use row assms in \<open>auto simp: same_slot_iff\<close>)
  then have "length (filter ?P (idempotency_keys d)) = 1"
    using distinct_card [of "filter ?P (idempotency_keys d)"] dist by simp
  then have "update_idempotency ?P ?f d = Inr (1, d\<lparr>idempotency_keys := update_rows ?P ?f (idempotency_keys d)\<rparr>)"
    using assms(6) by (simp add: update_idempotency_def count_rows_def response_invariant_def del: json_text.simps)
  then show ?thesis
    using assms(6,7,8)
    by (auto simp: finish_in_transaction_def tbind_def tlift_def treturn_def canonical_json_def
        simp del: json_text.simps serialisable.simps)
qed

section \<open>Properties\<close>

text \<open>C12 (proposals follow their state machine). Whatever \<open>transition\<close> does, every proposal row stays as it
  was, except the one row of this tenant with this id, which moves from the expected state to the
  target, and only if that transition is one the table allows; the execution time is set exactly when
  the target is \<open>executed\<close>. A call that raises before the commit changes nothing.\<close>

theorem transition_follows_machine:
  assumes "transition f now t i expected target refs d = (r, d')"
  shows "list_all2 (\<lambda>p p'. p' = p \<or>
      (pr_tenant_id p = t \<and> pr_id p = i \<and> pr_status p = expected \<and> pr_status p' = target
       \<and> target \<in> set (proposal_transitions expected)
       \<and> (pr_executed_at p' \<noteq> None \<longleftrightarrow> target = PS_executed)
       \<and> p' = p\<lparr>pr_status := target, pr_executed_at := pr_executed_at p',
                pr_erp_record_refs := pr_erp_record_refs p'\<rparr>))
    (proposals d) (proposals d')"
proof (cases "d' = d")
  case True
  then show ?thesis by (simp add: list_all2_same)
next
  case False
  let ?P = "\<lambda>r. pr_tenant_id r = t \<and> pr_id r = i \<and> pr_status r = expected"
  from assms False have allowed: "target \<in> set (proposal_transitions expected)"
    and "\<exists>x. transition_body now t i expected target refs d = Inr (x, d')"
    by (auto simp: transition_def transaction_def
        split: sum.splits if_splits option.splits prod.splits db_fault.splits)
  then obtain refs_json m where "update_proposals ?P
        (\<lambda>r. r\<lparr>pr_status := target, pr_executed_at := (if target = PS_executed then Some now else None),
               pr_erp_record_refs := refs_json\<rparr>) d = Inr (m, d')"
    by (auto simp: transition_body_def simp del: json_text.simps canonical_json_Inr split: if_splits)
  from update_proposals_pointwise [OF this] allowed show ?thesis
    by (auto elim!: list_all2_mono split: if_splits)
qed

definition demo_proposal :: proposal_row where
  "demo_proposal = \<lparr>pr_id = 1, pr_request_id = ''r'', pr_tenant_id = ''t'', pr_company_id = 1,
     pr_tool_name = ''n'', pr_module = ''m'', pr_proposal_type = ''x'', pr_payload_json = ''{}'',
     pr_status = PS_proposed, pr_executed_at = None, pr_erp_record_refs = ''[]'', pr_created_at = 0\<rparr>"

definition demo_transition :: "proposal_record res \<times> db" where
  "demo_transition = transition Commits 5 ''t'' 1 PS_proposed PS_executing []
     (empty_db\<lparr>proposals := [demo_proposal], proposal_seq := 1\<rparr>)"

lemma demo_transition_status: "map pr_status (proposals (snd demo_transition)) = [PS_executing]"
  by code_simp

theorem transition_follows_machine_witness:
  "map pr_status (proposals (snd demo_transition)) = [PS_executing]
    \<and> list_all2 (\<lambda>p p'. p' = p \<or> pr_status p = PS_proposed \<and> pr_executed_at p' = None)
        [demo_proposal] (proposals (snd demo_transition))"
  using transition_follows_machine [of Commits 5 "''t''" 1 PS_proposed PS_executing "[]"
      "empty_db\<lparr>proposals := [demo_proposal], proposal_seq := 1\<rparr>" "fst demo_transition" "snd demo_transition"]
    demo_transition_status
  by (auto simp: demo_transition_def elim!: list_all2_mono)

text \<open>A created proposal is found by its tenant only. A proposal that \<open>create\<close> returns is what
  \<open>get\<close> returns for its tenant and id, in status \<open>proposed\<close> and with the payload as JSON reads it;
  another tenant's \<open>get\<close> of the same id returns nothing, and every other proposal is found as
  before.\<close>

theorem created_proposal_found:
  assumes "create_proposal f now rid t c n m ty payload d = (Inr p, d')"
    and "proposals_ok d" "wf_val (PDict payload)"
  shows "get_proposal t (pp_id p) d' = Inr (Some p) \<and> pp_status p = PS_proposed \<and> pp_company_id p = c
    \<and> PDict (pp_payload p) = norm_val (PDict payload) \<and> proposals_ok d'
    \<and> (\<not> blank t' \<and> t' \<noteq> t \<longrightarrow> get_proposal t' (pp_id p) d' = Inr None)
    \<and> (i \<noteq> pp_id p \<longrightarrow> get_proposal t'' i d' = get_proposal t'' i d)"
proof -
  from assms(1) have g: "proposal_guard rid t c n m ty = Inr ()"
    and body: "create_proposal_in_transaction now rid t c n m ty payload d = Inr (p, d')"
    by (auto simp: create_proposal_def transaction_Inr split: sum.splits)
  define row where "row = \<lparr>pr_id = 0, pr_request_id = rid, pr_tenant_id = t, pr_company_id = c,
       pr_tool_name = n, pr_module = m, pr_proposal_type = ty, pr_payload_json = json_text (PDict payload),
       pr_status = PS_proposed, pr_executed_at = None, pr_erp_record_refs = ''[]'', pr_created_at = now\<rparr>"
  from body obtain q r where ser: "serialisable (PDict payload)" and ins: "insert_proposal row d = Inr (q, d')"
    and fp: "find_proposal t (pr_id q) d' = Some r" and p: "proposal_of_row r = Inr p"
    by (auto simp: create_proposal_in_transaction_def row_def
        simp del: json_text.simps serialisable.simps split: option.splits)
  note eff = insert_proposal_find [OF ins assms(2)]
  have q: "pr_id q = Suc (proposal_seq d)" using eff by (simp only: eff) simp
  have rq: "r = row\<lparr>pr_id := Suc (proposal_seq d)\<rparr>" using fp eff q by (auto simp: row_def)
  have pid: "pp_id p = Suc (proposal_seq d)" using p rq by (auto simp: proposal_of_row_def)
  have pay: "PDict (pp_payload p) = norm_val (PDict payload)" "pp_status p = PS_proposed" "pp_company_id p = c"
    using p rq parse_mapping_text [OF ser assms(3)]
    by (auto simp: proposal_of_row_def row_def simp del: json_text.simps)
  have "get_proposal t (pp_id p) d' = Inr (Some p)"
    using g fp q pid p by (auto simp: get_proposal_def proposal_guard_def)
  moreover have "get_proposal t' (pp_id p) d' = Inr None" if "\<not> blank t'" "t' \<noteq> t"
    using eff that pid by (auto simp: get_proposal_def required_def row_def)
  moreover have "get_proposal t'' i d' = get_proposal t'' i d" if "i \<noteq> pp_id p"
    using eff that pid by (simp add: get_proposal_def)
  ultimately show ?thesis using pay eff by blast
qed

definition demo_create :: "proposal_record res \<times> db" where
  "demo_create = create_proposal Commits 7 ''r'' ''t'' 1 ''n'' ''m'' ''x'' [(''a'', PInt 1)] empty_db"

lemma demo_create_ok: "\<exists>p. fst demo_create = Inr p"
proof -
  have "\<not> isl (fst demo_create)" by code_simp
  then show ?thesis by (cases "fst demo_create") auto
qed

theorem created_proposal_found_witness:
  "\<exists>p. fst demo_create = Inr p \<and> get_proposal ''t'' (pp_id p) (snd demo_create) = Inr (Some p)
    \<and> get_proposal ''u'' (pp_id p) (snd demo_create) = Inr None"
proof -
  from demo_create_ok obtain p where p: "fst demo_create = Inr p" by blast
  have "create_proposal Commits 7 ''r'' ''t'' 1 ''n'' ''m'' ''x'' [(''a'', PInt 1)] empty_db = (Inr p, snd demo_create)"
    using p by (auto simp: demo_create_def prod_eq_iff)
  from created_proposal_found [OF this, where t' = "''u''" and i = 0 and t'' = "''t''"] p
  show ?thesis by (auto simp: proposals_ok_def empty_db_def keys_def blank_def is_space_def)
qed

text \<open>The capability cache returns what was put. After a successful \<open>put\<close>, \<open>get\<close> of the same
  tenant, connection and version returns exactly the flags that were put, in key order, and every
  other entry reads as before.\<close>

theorem capabilities_round_trip:
  assumes "put_capabilities f now t c v (map (\<lambda>(k, b). (k, PBool b)) caps) d = (Inr (), d')"
    and "distinct (map fst caps)"
  shows "get_capabilities t c v d' = Inr (Some (sort_dict caps))
    \<and> ((t', c', v') \<noteq> (t, c, v) \<longrightarrow> get_capabilities t' c' v' d' = get_capabilities t' c' v' d)"
proof -
  let ?kvs = "map (\<lambda>(k, b). (k, PBool b)) caps"
  let ?r = "\<lparr>cc_tenant_id = t, cc_connection_id = c, cc_odoo_version = v,
      cc_capabilities_json = json_text (PDict ?kvs), cc_probed_at = now\<rparr>"
  from assms(1) have g: "capability_guard t c v = Inr ()" and up: "upsert_capability ?r d = Inr ((), d')"
    by (auto simp: put_capabilities_def transaction_Inr simp del: json_text.simps
        split: sum.splits if_splits)
  have ser: "serialisable (PDict ?kvs)" by (auto simp: list_all_iff)
  have wf: "wf_val (PDict ?kvs)" using assms(2) by (auto simp: list_all_iff keys_def comp_def case_prod_beta)
  have "map (\<lambda>(k, v). (k, norm_val v)) ?kvs = ?kvs" by auto
  then have parsed: "parse_mapping (json_text (PDict ?kvs)) = Inr (sort_dict ?kvs)"
    using parse_mapping_text [OF ser wf] by (simp only:)
  have sorted: "sort_dict ?kvs = map (\<lambda>(k, b). (k, PBool b)) (sort_dict caps)"
    by (rule sort_dict_map_snd)
  have get_eq: "get_capabilities a b e x = ebind (capability_guard a b e) (\<lambda>_.
      case map_option cc_capabilities_json (find_capability a b e x) of None \<Rightarrow> Inr None
      | Some j \<Rightarrow> ebind (parse_mapping j) (\<lambda>parsed.
          ebind (guard_ok (list_all (\<lambda>(k, v). is_bool v) parsed) ValueError) (\<lambda>_.
          Inr (Some (map (\<lambda>(k, v). (k, bool_of v)) parsed)))))" for a b e x
    by (cases "find_capability a b e x") (simp_all add: get_capabilities_def)
  have unwrap: "map (\<lambda>(k, v). (k, bool_of v)) (map (\<lambda>(k, b). (k, PBool b)) xs) = xs" for xs :: "(string \<times> bool) list"
    by (induction xs) (auto simp: bool_of_def)
  have "list_all (\<lambda>(k, v). is_bool v) (sort_dict ?kvs)"
    unfolding sorted by (auto simp: list_all_iff is_bool_def)
  moreover have "map (\<lambda>(k, v). (k, bool_of v)) (sort_dict ?kvs) = sort_dict caps"
    unfolding sorted by (rule unwrap)
  ultimately show ?thesis
    unfolding get_eq upsert_capability_find [OF up] using g parsed
    by (auto simp del: json_text.simps)
qed

definition demo_put :: "unit res \<times> db" where
  "demo_put = put_capabilities Commits 7 ''t'' ''c'' ''19'' [(''b'', PBool True), (''a'', PBool False)] empty_db"

lemma demo_put_ok: "fst demo_put = Inr ()"
  by code_simp

theorem capabilities_round_trip_witness:
  "get_capabilities ''t'' ''c'' ''19'' (snd demo_put) = Inr (Some (sort_dict [(''b'', True), (''a'', False)]))"
  using capabilities_round_trip [of Commits 7 "''t''" "''c''" "''19''" "[(''b'', True), (''a'', False)]"
      empty_db "snd demo_put"] demo_put_ok
  by (auto simp: demo_put_def prod_eq_iff)

text \<open>A finished key replays its response. Once a reservation is finished, any later request for
  the same tenant, tool and key with the same request hash is answered with the stored outcome and
  the response as JSON reads it, and changes nothing. This holds until the reservation expires if the
  outcome is certain, and at any time if it is unknown. A request with another hash is refused.\<close>

theorem finished_key_replays:
  assumes "finish_in_transaction now t c n k owner state (Some m) d = Inr (u, d')" "idempotency_ok d"
    and "slot_row t n k d = Some r" "wf_val (PDict m)"
    and "reservation_guard t c' n k owner' = Inr ()" "request_hash H c' payload = Inr h"
    and "state = IS_unknown \<or> now' < ik_expires_at r"
  shows "if h = ik_request_hash r
    then \<exists>dec resp. reserve_in_transaction H now' t c' n k payload owner' d' = Inr (dec, d')
      \<and> dc_disposition dec = Replay \<and> dc_state dec = state \<and> dc_owner_request_id dec = owner
      \<and> dc_response dec = Some resp \<and> PDict resp = norm_val (PDict m)
    else reserve_in_transaction H now' t c' n k payload owner' d' = Inl IdempotencyPayloadMismatch"
  using assms by (rule finished_replays)

definition demo_reserved :: db where
  "demo_reserved = empty_db\<lparr>idempotency_keys := [\<lparr>ik_id = 1, ik_tenant_id = ''t'', ik_company_id = 1,
     ik_tool_name = ''n'', ik_idempotency_key = ''k'', ik_request_hash = ''h'', ik_state = IS_in_progress,
     ik_owner_request_id = ''r1'', ik_response_json = None, ik_expires_at = 100, ik_created_at = 0,
     ik_updated_at = 0\<rparr>], idempotency_seq := 1\<rparr>"

definition demo_finished :: "(unit \<times> db) res" where
  "demo_finished = finish_in_transaction 1 ''t'' 1 ''n'' ''k'' ''r1'' IS_unknown (Some [(''a'', PInt 1)]) demo_reserved"

lemma demo_finished_ok: "\<exists>d'. demo_finished = Inr ((), d')"
proof -
  have "\<not> isl demo_finished" by code_simp
  then have "demo_finished = Inr (projr demo_finished)" by simp
  then show ?thesis by (cases "projr demo_finished") auto
qed

lemma demo_reserved_ok: "idempotency_ok demo_reserved"
  by (simp add: idempotency_ok_def demo_reserved_def response_invariant_def)

theorem finished_key_replays_witness:
  "\<exists>d' dec resp. demo_finished = Inr ((), d')
    \<and> reserve_in_transaction (\<lambda>s. ''h'') 1000 ''t'' 1 ''n'' ''k'' [] ''r2'' d' = Inr (dec, d')
    \<and> dc_disposition dec = Replay \<and> dc_response dec = Some resp \<and> PDict resp = norm_val (PDict [(''a'', PInt 1)])"
proof -
  from demo_finished_ok obtain d' where d': "demo_finished = Inr ((), d')" by blast
  obtain r where r: "slot_row ''t'' ''n'' ''k'' demo_reserved = Some r" "ik_request_hash r = ''h''"
    by (auto simp: slot_row_def demo_reserved_def same_slot_def)
  have h: "request_hash (\<lambda>s. ''h'') 1 [] = Inr ''h''"
    by (simp add: request_hash_def canonical_json_def)
  have g: "reservation_guard ''t'' 1 ''n'' ''k'' ''r2'' = Inr ()" by code_simp
  have wf: "wf_val (PDict [(''a'', PInt 1)])" by (simp add: keys_def)
  note fin = d' [unfolded demo_finished_def]
  from finished_key_replays [OF fin demo_reserved_ok r(1) wf g h, of 1000] r(2) d'
  show ?thesis by auto
qed

end
