(* ===== verification/Execution.thy ===== *)
theory Execution
  imports Repositories
begin

text \<open>
  The atomic journals: \<open>storage/execution.py\<close> (an idempotency reservation or outcome together with
  its audit event), \<open>storage/proposals.py\<close> (a proposal with its artifact) and \<open>storage/reporting.py\<close>
  (a report artifact with its audit event). The locale \<open>slot_protocol\<close> states what a client of the
  execution journal relies on; it is interpreted on the model, and the exclusion and
  no-second-execution theorems follow from it.
\<close>

section \<open>Journals\<close>

definition begin_in_transaction ::
    "(string \<Rightarrow> string) \<Rightarrow> int \<Rightarrow> int \<Rightarrow> audit_event \<Rightarrow> int \<Rightarrow> string \<Rightarrow> pymap \<Rightarrow> idempotency_decision tx" where
  "begin_in_transaction H now now' ev company key payload =
    tbind (reserve_in_transaction H now (ev_tenant_id ev) company (ev_tool_name ev) key payload
             (ev_request_id ev)) (\<lambda>decision.
      if dc_disposition decision = Reserved
      then tbind (append_in_transaction H now' ev) (\<lambda>_. treturn decision)
      else treturn decision)"

definition journal_begin ::
    "(string \<Rightarrow> string) \<Rightarrow> db_fault \<Rightarrow> int \<Rightarrow> int \<Rightarrow> audit_event \<Rightarrow> string \<Rightarrow> pymap \<Rightarrow> db \<Rightarrow>
      idempotency_decision res \<times> db" where
  "journal_begin H f now now' ev key payload d =
    (case ev_company_id ev of
       None \<Rightarrow> (Inl ValueError, d)
     | Some company \<Rightarrow> transaction f (begin_in_transaction H now now' ev company key payload) d)"

definition finish_and_append ::
    "(string \<Rightarrow> string) \<Rightarrow> int \<Rightarrow> int \<Rightarrow> audit_event \<Rightarrow> int \<Rightarrow> string \<Rightarrow> idempotency_state \<Rightarrow>
      pymap option \<Rightarrow> unit tx" where
  "finish_and_append H now now' ev company key state response =
    tbind (finish_in_transaction now (ev_tenant_id ev) company (ev_tool_name ev) key
             (ev_request_id ev) state response) (\<lambda>_.
    tbind (append_in_transaction H now' ev) (\<lambda>_. treturn ()))"

definition journal_finish ::
    "(string \<Rightarrow> string) \<Rightarrow> db_fault \<Rightarrow> int \<Rightarrow> int \<Rightarrow> audit_event \<Rightarrow> string \<Rightarrow> idempotency_state \<Rightarrow>
      pymap option \<Rightarrow> db \<Rightarrow> unit res \<times> db" where
  "journal_finish H f now now' ev key state response d =
    (case ev_company_id ev of
       None \<Rightarrow> (Inl ValueError, d)
     | Some company \<Rightarrow> transaction f (finish_and_append H now now' ev company key state response) d)"

definition record_proposal_body ::
    "int \<Rightarrow> int \<Rightarrow> string \<Rightarrow> string \<Rightarrow> int \<Rightarrow> string \<Rightarrow> string \<Rightarrow> string \<Rightarrow> pymap \<Rightarrow> string \<Rightarrow> proposal_record tx" where
  "record_proposal_body now now' request_id tenant_id company_id tool_name module proposal_type payload markdown =
    tbind (create_proposal_in_transaction now request_id tenant_id company_id tool_name module
             proposal_type payload) (\<lambda>proposal.
    tbind (create_artifact_in_transaction now' request_id tenant_id company_id tool_name module
             proposal_type ''markdown'' markdown) (\<lambda>_.
    treturn proposal))"

definition record_proposal ::
    "db_fault \<Rightarrow> int \<Rightarrow> int \<Rightarrow> string \<Rightarrow> string \<Rightarrow> int \<Rightarrow> string \<Rightarrow> string \<Rightarrow> string \<Rightarrow> pymap \<Rightarrow> string \<Rightarrow> db \<Rightarrow>
      proposal_record res \<times> db" where
  "record_proposal f now now' request_id tenant_id company_id tool_name module proposal_type payload markdown =
    transaction f (record_proposal_body now now' request_id tenant_id company_id tool_name module
      proposal_type payload markdown)"

definition record_success ::
    "(string \<Rightarrow> string) \<Rightarrow> db_fault \<Rightarrow> int \<Rightarrow> int \<Rightarrow> audit_event \<Rightarrow> string \<Rightarrow> string \<Rightarrow> db \<Rightarrow>
      artifact_record res \<times> db" where
  "record_success H f now now' ev artifact_type content d =
    (case ev_company_id ev of
       None \<Rightarrow> (Inl ValueError, d)
     | Some company \<Rightarrow> transaction f
        (tbind (create_artifact_in_transaction now (ev_request_id ev) (ev_tenant_id ev) company
                  (ev_tool_name ev) (ev_module ev) artifact_type ''markdown'' content) (\<lambda>artifact.
         tbind (append_in_transaction H now' ev) (\<lambda>_. treturn artifact))) d)"

section \<open>The contract of the execution journal\<close>

text \<open>Operations act on a store; some of them grant the right to execute. A slot is held by one owner,
  or stuck, or neither. What the provider promises: a grant needs a slot that is neither held nor
  stuck and makes the granted owner its holder; only the holder's own finishing operation releases
  it; a stuck slot stays stuck.\<close>

locale slot_protocol =
  fixes step :: "'op \<Rightarrow> 'd \<Rightarrow> 'd" and grants :: "'op \<Rightarrow> 'd \<Rightarrow> bool" and finishes :: "'op \<Rightarrow> bool"
    and target :: "'op \<Rightarrow> 'k" and owner :: "'op \<Rightarrow> 'o"
    and holder :: "'d \<Rightarrow> 'k \<Rightarrow> 'o option" and stuck :: "'d \<Rightarrow> 'k \<Rightarrow> bool" and ok :: "'d \<Rightarrow> bool"
  assumes step_ok: "ok d \<Longrightarrow> ok (step op d)"
    and grant_free: "ok d \<Longrightarrow> grants op d \<Longrightarrow> holder d (target op) = None \<and> \<not> stuck d (target op)"
    and grant_holds: "ok d \<Longrightarrow> grants op d \<Longrightarrow> holder (step op d) (target op) = Some (owner op)"
    and holder_kept: "ok d \<Longrightarrow> holder d k = Some w \<Longrightarrow> \<not> (finishes op \<and> target op = k \<and> owner op = w) \<Longrightarrow>
      holder (step op d) k = Some w"
    and stuck_kept: "ok d \<Longrightarrow> stuck d k \<Longrightarrow> stuck (step op d) k"
begin

lemma run_ok: "ok d \<Longrightarrow> ok (fold step ops d)"
  by (induction ops arbitrary: d) (auto intro: step_ok)

lemma run_stuck: "ok d \<Longrightarrow> stuck d k \<Longrightarrow> stuck (fold step ops d) k"
  by (induction ops arbitrary: d) (auto intro: step_ok stuck_kept)

lemma run_holder:
  "ok d \<Longrightarrow> holder d k = Some w \<Longrightarrow> \<forall>op \<in> set ops. \<not> (finishes op \<and> target op = k \<and> owner op = w) \<Longrightarrow>
    holder (fold step ops d) k = Some w"
  by (induction ops arbitrary: d) (auto intro: step_ok holder_kept)

lemma exclusive:
  assumes "ok d" "grants op d"
    and "\<forall>o' \<in> set ops. \<not> (finishes o' \<and> target o' = target op \<and> owner o' = owner op)"
    and "grants op' (fold step ops (step op d))"
  shows "target op' \<noteq> target op"
proof
  assume same: "target op' = target op"
  have "holder (fold step ops (step op d)) (target op) = Some (owner op)"
    using assms by (intro run_holder step_ok grant_holds)
  moreover have "holder (fold step ops (step op d)) (target op') = None"
    using grant_free [OF run_ok [OF step_ok [OF assms(1)]] assms(4)] by blast
  ultimately show False using same by simp
qed

lemma stuck_blocks:
  assumes "ok d" "stuck d k" "grants op (fold step ops d)"
  shows "target op \<noteq> k"
  using run_stuck [OF assms(1,2)] grant_free [OF run_ok [OF assms(1)] assms(3)] by blast

end

section \<open>The journal of the model keeps the contract\<close>

text \<open>What the coordinator does to the store: begin, finish, and plain audit appends, each with its
  clock readings and whatever happens to its transaction.\<close>

datatype journal_op =
    Begin int int audit_event string pymap db_fault
  | Finish int int audit_event string idempotency_state "pymap option" db_fault
  | Append int audit_event db_fault

fun run_op :: "(string \<Rightarrow> string) \<Rightarrow> journal_op \<Rightarrow> db \<Rightarrow> db" where
  "run_op H (Begin now now' ev key payload f) d = snd (journal_begin H f now now' ev key payload d)"
| "run_op H (Finish now now' ev key state response f) d =
     snd (journal_finish H f now now' ev key state response d)"
| "run_op H (Append now ev f) d = snd (append_audit H f now ev d)"

fun grants_op :: "(string \<Rightarrow> string) \<Rightarrow> journal_op \<Rightarrow> db \<Rightarrow> bool" where
  "grants_op H (Begin now now' ev key payload f) d =
     (case fst (journal_begin H f now now' ev key payload d) of
        Inr decision \<Rightarrow> dc_disposition decision = Reserved | Inl _ \<Rightarrow> False)"
| "grants_op H _ d = False"

fun is_finish :: "journal_op \<Rightarrow> bool" where
  "is_finish (Finish now now' ev key state response f) = True"
| "is_finish _ = False"

fun op_slot :: "journal_op \<Rightarrow> string \<times> string \<times> string" where
  "op_slot (Begin now now' ev key payload f) = (ev_tenant_id ev, ev_tool_name ev, key)"
| "op_slot (Finish now now' ev key state response f) = (ev_tenant_id ev, ev_tool_name ev, key)"
| "op_slot (Append now ev f) = (ev_tenant_id ev, ev_tool_name ev, [])"

fun op_owner :: "journal_op \<Rightarrow> string" where
  "op_owner (Begin now now' ev key payload f) = ev_request_id ev"
| "op_owner (Finish now now' ev key state response f) = ev_request_id ev"
| "op_owner (Append now ev f) = ev_request_id ev"

definition slot_holder :: "db \<Rightarrow> string \<times> string \<times> string \<Rightarrow> string option" where
  "slot_holder d s =
    (case slot_row (fst s) (fst (snd s)) (snd (snd s)) d of
       None \<Rightarrow> None
     | Some r \<Rightarrow> if ik_state r = IS_in_progress then Some (ik_owner_request_id r) else None)"

definition slot_unknown :: "db \<Rightarrow> string \<times> string \<times> string \<Rightarrow> bool" where
  "slot_unknown d s =
    (case slot_row (fst s) (fst (snd s)) (snd (snd s)) d of
       None \<Rightarrow> False | Some r \<Rightarrow> ik_state r = IS_unknown)"

text \<open>What a transaction that may commit does to the table, in the shape the laws need.\<close>

lemma append_keeps_slots:
  assumes "append_in_transaction H now ev d = Inr (rec, d')"
  shows "idempotency_ok d' = idempotency_ok d" "slot_row t n k d' = slot_row t n k d"
  using append_frame [OF assms] by (auto intro!: idempotency_ok_cong slot_row_cong)

lemma begin_cases:
  assumes "begin_in_transaction H now now' ev c key payload d = Inr (dec, d')" "idempotency_ok d"
  obtains (reserved) d1 rec where "dc_disposition dec = Reserved"
      "reserve_in_transaction H now (ev_tenant_id ev) c (ev_tool_name ev) key payload (ev_request_id ev) d
        = Inr (dec, d1)"
      "append_in_transaction H now' ev d1 = Inr (rec, d')" "idempotency_ok d1"
  | (kept) "dc_disposition dec \<noteq> Reserved" "d' = d"
proof -
  from assms(1) obtain d1 where res: "reserve_in_transaction H now (ev_tenant_id ev) c (ev_tool_name ev)
      key payload (ev_request_id ev) d = Inr (dec, d1)"
    and rest: "(if dc_disposition dec = Reserved
      then tbind (append_in_transaction H now' ev) (\<lambda>_. treturn dec) else treturn dec) d1 = Inr (dec, d')"
    by (auto simp: begin_in_transaction_def split: if_splits)
  show thesis
  proof (cases "dc_disposition dec = Reserved")
    case True
    with rest obtain rec where "append_in_transaction H now' ev d1 = Inr (rec, d')" by auto
    moreover have "idempotency_ok d1" using reserve_ok [OF res assms(2)] by blast
    ultimately show thesis using reserved True res by blast
  next
    case False
    with rest have "d' = d1" by simp
    moreover have "d1 = d" using reserve_ok [OF res assms(2)] False by blast
    ultimately show thesis using kept False by blast
  qed
qed

lemma journal_begin_db:
  assumes "journal_begin H f now now' ev key payload d = (r, d')"
  shows "d' = d \<and> \<not> (\<exists>dec. r = Inr dec \<and> dc_disposition dec = Reserved) \<or>
    (\<exists>c dec. ev_company_id ev = Some c \<and> (r = Inr dec \<or> r = Inl OperationalError) \<and>
       begin_in_transaction H now now' ev c key payload d = Inr (dec, d'))"
  using assms
  by (auto simp: journal_begin_def transaction_def split: option.splits db_fault.splits sum.splits)

lemma journal_finish_db:
  assumes "journal_finish H f now now' ev key state response d = (r, d')"
  shows "d' = d \<or> (\<exists>c. ev_company_id ev = Some c \<and>
    finish_and_append H now now' ev c key state response d = Inr ((), d'))"
  using assms
  by (auto simp: journal_finish_def transaction_def split: option.splits db_fault.splits sum.splits)

lemma begin_slot:
  assumes "journal_begin H f now now' ev key payload d = (r, d')" "idempotency_ok d"
  shows "idempotency_ok d' \<and>
    (slot_row t n k d' = slot_row t n k d \<or>
      (t, n, k) = (ev_tenant_id ev, ev_tool_name ev, key) \<and> slot_holder d (t, n, k) = None
      \<and> \<not> slot_unknown d (t, n, k) \<and> slot_holder d' (t, n, k) = Some (ev_request_id ev))"
  using journal_begin_db [OF assms(1)]
proof
  assume "\<exists>c dec. ev_company_id ev = Some c \<and> (r = Inr dec \<or> r = Inl OperationalError) \<and>
       begin_in_transaction H now now' ev c key payload d = Inr (dec, d')"
  then obtain c dec where "begin_in_transaction H now now' ev c key payload d = Inr (dec, d')" by blast
  then show ?thesis using assms(2)
  proof (cases rule: begin_cases)
    case (reserved d1 rec)
    note app = append_keeps_slots [OF reserved(3)]
    have ok: "idempotency_ok d'" using app(1) reserved(4) by simp
    show ?thesis
      using reserved(2) assms(2)
    proof (cases rule: reserve_cases)
      case (reserved h q)
      with app(2) ok show ?thesis
        by (cases "(t, n, k) = (ev_tenant_id ev, ev_tool_name ev, key)")
          (auto simp: slot_holder_def slot_unknown_def expired_final_def split: option.splits)
    next
      case (existing h q)
      with app(2) ok show ?thesis by simp
    qed
  qed (use assms(2) in simp)
qed (use assms(2) in simp)

lemma finish_slot:
  assumes "journal_finish H f now now' ev key state response d = (r, d')" "idempotency_ok d"
  shows "idempotency_ok d' \<and>
    (slot_row t n k d' = slot_row t n k d \<or>
      (t, n, k) = (ev_tenant_id ev, ev_tool_name ev, key)
      \<and> slot_holder d (t, n, k) = Some (ev_request_id ev))"
  using journal_finish_db [OF assms(1)]
proof
  assume "\<exists>c. ev_company_id ev = Some c \<and>
    finish_and_append H now now' ev c key state response d = Inr ((), d')"
  then obtain c d1 rec where
    fin: "finish_in_transaction now (ev_tenant_id ev) c (ev_tool_name ev) key (ev_request_id ev) state response d
      = Inr ((), d1)" and app: "append_in_transaction H now' ev d1 = Inr (rec, d')"
    by (auto simp: finish_and_append_def)
  from finish_effect [OF fin assms(2)] append_keeps_slots [OF app] show ?thesis
    by (cases "(t, n, k) = (ev_tenant_id ev, ev_tool_name ev, key)") (auto simp: slot_holder_def)
qed (use assms(2) in simp)

lemma append_slot:
  "append_audit H f now ev d = (r, d') \<Longrightarrow>
    idempotency_ok d' = idempotency_ok d \<and> slot_row t n k d' = slot_row t n k d"
  by (auto simp: append_audit_def transaction_def append_keeps_slots
      split: db_fault.splits sum.splits)

lemma holder_cong: "slot_row (fst s) (fst (snd s)) (snd (snd s)) d' = slot_row (fst s) (fst (snd s)) (snd (snd s)) d \<Longrightarrow>
    slot_holder d' s = slot_holder d s \<and> slot_unknown d' s = slot_unknown d s"
  by (simp add: slot_holder_def slot_unknown_def)

lemma holder_not_unknown: "slot_unknown d s \<Longrightarrow> slot_holder d s = None"
  by (auto simp: slot_holder_def slot_unknown_def split: option.splits)

text \<open>One step of any of the three operations, for every slot.\<close>

lemma run_op_slot:
  assumes "idempotency_ok d"
  shows "idempotency_ok (run_op H op d) \<and>
    (slot_holder (run_op H op d) s = slot_holder d s \<and> slot_unknown (run_op H op d) s = slot_unknown d s
     \<or> s = op_slot op \<and> \<not> is_finish op \<and> slot_holder d s = None \<and> \<not> slot_unknown d s
        \<and> slot_holder (run_op H op d) s = Some (op_owner op)
     \<or> s = op_slot op \<and> is_finish op \<and> slot_holder d s = Some (op_owner op))"
proof -
  obtain t n k where s: "s = (t, n, k)" by (cases s)
  show ?thesis
  proof (cases op)
    case (Begin now now' ev key payload f)
    obtain r d' where e: "journal_begin H f now now' ev key payload d = (r, d')" by (rule prod.exhaust)
    from begin_slot [OF e assms, of t n k] Begin e s holder_cong [of s d' d] show ?thesis by auto
  next
    case (Finish now now' ev key state response f)
    obtain r d' where e: "journal_finish H f now now' ev key state response d = (r, d')" by (rule prod.exhaust)
    from finish_slot [OF e assms, of t n k] Finish e s holder_cong [of s d' d] show ?thesis by auto
  next
    case (Append now ev f)
    obtain r d' where e: "append_audit H f now ev d = (r, d')" by (rule prod.exhaust)
    from append_slot [OF e, of t n k] Append e s assms holder_cong [of s d' d] show ?thesis by auto
  qed
qed

lemma grant_effect:
  assumes "idempotency_ok d" "grants_op H op d"
  shows "slot_holder d (op_slot op) = None \<and> \<not> slot_unknown d (op_slot op)
    \<and> slot_holder (run_op H op d) (op_slot op) = Some (op_owner op)"
proof -
  from assms(2) obtain now now' ev key payload f where op: "op = Begin now now' ev key payload f"
    by (cases op) auto
  obtain r d' where e: "journal_begin H f now now' ev key payload d = (r, d')" by (rule prod.exhaust)
  with assms(2) op obtain dec where r: "r = Inr dec" "dc_disposition dec = Reserved"
    by (auto split: sum.splits)
  with journal_begin_db [OF e] obtain c where
    "begin_in_transaction H now now' ev c key payload d = Inr (dec, d')" by auto
  then show ?thesis using assms(1)
  proof (cases rule: begin_cases)
    case (reserved d1 rec)
    note app = append_keeps_slots [OF reserved(3)]
    show ?thesis
      using reserved(2) assms(1)
    proof (cases rule: reserve_cases)
      case (reserved h q)
      with app(2) op e show ?thesis
        by (auto simp: slot_holder_def slot_unknown_def expired_final_def split: option.splits)
    qed (use r in \<open>auto split: if_splits\<close>)
  qed (use r in simp)
qed

interpretation journal: slot_protocol "run_op H" "grants_op H" is_finish op_slot op_owner slot_holder
    slot_unknown idempotency_ok for H
proof
  fix d :: db and op k w
  assume ok: "idempotency_ok d"
  show "idempotency_ok (run_op H op d)" using run_op_slot [OF ok] by blast
  show "grants_op H op d \<Longrightarrow> slot_holder d (op_slot op) = None \<and> \<not> slot_unknown d (op_slot op)"
    using grant_effect [OF ok] by blast
  show "grants_op H op d \<Longrightarrow> slot_holder (run_op H op d) (op_slot op) = Some (op_owner op)"
    using grant_effect [OF ok] by blast
  show "slot_holder d k = Some w \<Longrightarrow> \<not> (is_finish op \<and> op_slot op = k \<and> op_owner op = w) \<Longrightarrow>
      slot_holder (run_op H op d) k = Some w"
    using run_op_slot [OF ok, of H op k] by auto
  show "slot_unknown d k \<Longrightarrow> slot_unknown (run_op H op d) k"
    using run_op_slot [OF ok, of H op k] holder_not_unknown [of d k] by auto
qed

section \<open>Properties\<close>

text \<open>C4 (at most one request may execute a slot). After a request was granted a slot (tenant, tool and
  key), no other request is granted the same slot, through any sequence of journal operations by any
  requests at any times and with any database failures, until the granted request itself finishes
  it.\<close>

theorem granted_slot_is_exclusive:
  assumes "idempotency_ok d" "grants_op H op d"
    and "\<forall>o' \<in> set ops. \<not> (is_finish o' \<and> op_slot o' = op_slot op \<and> op_owner o' = op_owner op)"
    and "op_slot op' = op_slot op"
  shows "\<not> grants_op H op' (fold (run_op H) ops (run_op H op d))"
  using journal.exclusive [OF assms(1,2,3)] assms(4) by blast

definition demo_begin :: "string \<Rightarrow> journal_op" where
  "demo_begin request = Begin 0 0 (demo_event\<lparr>ev_request_id := request\<rparr>) ''key'' [(''a'', PInt 1)] Commits"

lemma demo_begin_shape: "op_slot (demo_begin r) = (''acme'', ''t'', ''key'')" "op_owner (demo_begin r) = r"
  "is_finish (demo_begin r) = False"
  by (simp_all add: demo_begin_def demo_event_def)

lemma demo_begin_grants: "grants_op demo_hash (demo_begin ''r1'') empty_db"
proof -
  let ?ev = "demo_event\<lparr>ev_request_id := ''r1''\<rparr>"
  have same: "?ev = demo_event" by (simp add: demo_event_def)
  have "\<not> isl (reserve_in_transaction demo_hash 0 ''acme'' 1 ''t'' ''key'' [(''a'', PInt 1)] ''r1'' empty_db)"
    by code_simp
  then obtain dec d1 where res: "reserve_in_transaction demo_hash 0 ''acme'' 1 ''t'' ''key''
      [(''a'', PInt 1)] ''r1'' empty_db = Inr (dec, d1)"
    by (cases "reserve_in_transaction demo_hash 0 ''acme'' 1 ''t'' ''key'' [(''a'', PInt 1)] ''r1'' empty_db") auto
  have dec: "dc_disposition dec = Reserved" using res idempotency_ok_empty
    by (cases rule: reserve_cases) (auto simp: slot_row_def empty_db_def)
  have log: "audit_log d1 = []" "audit_seq d1 = 0"
    using reserve_frame [OF res] by (simp_all add: empty_db_def)
  from append_total [OF demo_event_ok demo_event_wf, of d1 demo_hash 0] log
  obtain rec d2 where "append_in_transaction demo_hash 0 demo_event d1 = Inr (rec, d2)"
    by (auto simp: audit_ids_ok_def tenant_rows_def)
  then have "begin_in_transaction demo_hash 0 0 demo_event 1 ''key'' [(''a'', PInt 1)] empty_db = Inr (dec, d2)"
    using res dec by (simp add: begin_in_transaction_def demo_event_def)
  then have "journal_begin demo_hash Commits 0 0 demo_event ''key'' [(''a'', PInt 1)] empty_db = (Inr dec, d2)"
    by (simp add: journal_begin_def transaction_def demo_event_def)
  with dec same show ?thesis by (simp add: demo_begin_def)
qed

theorem granted_slot_is_exclusive_witness:
  "grants_op demo_hash (demo_begin ''r1'') empty_db \<and>
    \<not> grants_op demo_hash (demo_begin ''r2'')
        (fold (run_op demo_hash) [demo_begin ''r3''] (run_op demo_hash (demo_begin ''r1'') empty_db))"
  using granted_slot_is_exclusive [OF idempotency_ok_empty demo_begin_grants, of "[demo_begin ''r3'']"
      "demo_begin ''r2''"] demo_begin_grants
  by (simp add: demo_begin_shape)

text \<open>C9 (an unknown outcome blocks its key for ever). A slot whose outcome was recorded as unknown
  stays unknown, and no request is ever granted it again, through any sequence of journal operations:
  the server never executes a second time what may have been executed already. Expiry does not lift
  this.\<close>

theorem unknown_slot_blocks:
  assumes "idempotency_ok d" "slot_unknown d s"
  shows "slot_unknown (fold (run_op H) ops d) s \<and>
    (op_slot op = s \<longrightarrow> \<not> grants_op H op (fold (run_op H) ops d))"
  using journal.run_stuck [OF assms] journal.stuck_blocks [OF assms] by blast

lemma demo_unknown: "\<exists>d'. demo_finished = Inr ((), d') \<and> idempotency_ok d' \<and> slot_unknown d' (''t'', ''n'', ''k'')"
proof -
  from demo_finished_ok obtain d' where d': "demo_finished = Inr ((), d')" by blast
  from finish_effect [OF d' [unfolded demo_finished_def] demo_reserved_ok] d'
  show ?thesis by (auto simp: slot_unknown_def)
qed

theorem unknown_slot_blocks_witness:
  "\<exists>d'. demo_finished = Inr ((), d') \<and>
    slot_unknown (fold (run_op demo_hash) [demo_begin ''r1'', demo_begin ''r2''] d') (''t'', ''n'', ''k'')"
proof -
  from demo_unknown obtain d' where d': "demo_finished = Inr ((), d')" "idempotency_ok d'"
    "slot_unknown d' (''t'', ''n'', ''k'')" by blast
  from unknown_slot_blocks [OF d'(2,3)] d'(1) show ?thesis by blast
qed

text \<open>The row an append adds carries the tenant and the status of the event.\<close>

lemma append_row:
  assumes "append_in_transaction H now ev d = Inr (rec, d')"
  shows "\<exists>row. audit_log d' = audit_log d @ [row] \<and> al_tenant_id row = ev_tenant_id ev
    \<and> al_request_id row = ev_request_id ev \<and> al_final_status row = ev_final_status ev"
proof -
  from append_effect [OF assms] obtain row where
    row: "event_row H now ev (last_hash (ev_tenant_id ev) d) = Inr row"
    and d': "audit_log d' = audit_log d @ [row\<lparr>al_id := Suc (audit_seq d)\<rparr>]" by auto
  from row have "al_tenant_id row = ev_tenant_id ev \<and> al_request_id row = ev_request_id ev
      \<and> al_final_status row = ev_final_status ev"
    by (auto simp: event_row_def Let_def simp del: canonical_json_Inr split: prod.splits)
  with d' show ?thesis by auto
qed

lemma begin_atomic:
  assumes "journal_begin H f now now' ev key payload d = (r, d')" "idempotency_ok d"
  shows "d' = d \<and> \<not> (\<exists>dec. r = Inr dec \<and> dc_disposition dec = Reserved) \<or>
       (\<exists>row. audit_log d' = audit_log d @ [row] \<and> al_tenant_id row = ev_tenant_id ev
          \<and> al_request_id row = ev_request_id ev \<and> al_final_status row = ev_final_status ev
          \<and> slot_holder d' (ev_tenant_id ev, ev_tool_name ev, key) = Some (ev_request_id ev))"
  using journal_begin_db [OF assms(1)]
proof
  assume "\<exists>c dec. ev_company_id ev = Some c \<and> (r = Inr dec \<or> r = Inl OperationalError) \<and>
       begin_in_transaction H now now' ev c key payload d = Inr (dec, d')"
  then obtain c dec where r: "r = Inr dec \<or> r = Inl OperationalError"
    and "begin_in_transaction H now now' ev c key payload d = Inr (dec, d')" by blast
  from this(2) assms(2) show ?thesis
  proof (cases rule: begin_cases)
    case (reserved d1 rec)
    have "slot_holder d1 (ev_tenant_id ev, ev_tool_name ev, key) = Some (ev_request_id ev)"
      using reserved(2) assms(2)
    proof (cases rule: reserve_cases)
      case (existing h q)
      with reserved(1) show ?thesis by (auto split: if_splits)
    qed (simp add: slot_holder_def)
    moreover have "slot_holder d' s = slot_holder d1 s" for s
      using append_keeps_slots(2) [OF reserved(3)] by (simp add: slot_holder_def)
    ultimately show ?thesis
      using append_row [OF reserved(3)] reserve_frame [OF reserved(2)] by auto
  qed (use r in auto)
qed blast

lemma finish_atomic:
  assumes "journal_finish H f now now' ev key state response d = (r, d')" "idempotency_ok d"
  shows "d' = d \<and> r \<noteq> Inr () \<or>
       (\<exists>row q m. audit_log d' = audit_log d @ [row] \<and> al_tenant_id row = ev_tenant_id ev
          \<and> al_request_id row = ev_request_id ev \<and> al_final_status row = ev_final_status ev \<and> response = Some m
          \<and> slot_holder d (ev_tenant_id ev, ev_tool_name ev, key) = Some (ev_request_id ev)
          \<and> slot_row (ev_tenant_id ev) (ev_tool_name ev) key d' = Some q \<and> ik_state q = state
          \<and> state \<noteq> IS_in_progress \<and> ik_response_json q = Some (json_text (PDict m)))"
proof (cases "\<exists>c. ev_company_id ev = Some c \<and>
    finish_and_append H now now' ev c key state response d = Inr ((), d')")
  case False
  then have "d' = d \<and> r \<noteq> Inr ()" using assms(1) journal_finish_db [OF assms(1)]
    by (auto simp: journal_finish_def transaction_Inr split: option.splits)
  then show ?thesis by blast
next
  case True
  then obtain c d1 rec where
    fin: "finish_in_transaction now (ev_tenant_id ev) c (ev_tool_name ev) key (ev_request_id ev) state response d
      = Inr ((), d1)" and app: "append_in_transaction H now' ev d1 = Inr (rec, d')"
    by (auto simp: finish_and_append_def)
  from finish_effect [OF fin assms(2)] append_row [OF app] append_keeps_slots(2) [OF app]
  show ?thesis by (auto simp: slot_holder_def simp del: json_text.simps)
qed

text \<open>C10 (reservation and audit are atomic). Whatever happens to its transaction, \<open>begin\<close> either leaves
  the database as it was, or it both reserved the slot for its request and appended exactly one audit
  row of the tenant; and it reports a reservation only in the second case. \<open>finish\<close> either leaves the
  database as it was and raises, or the slot its request held is final with the given response and one
  audit row with the event's final status was appended.\<close>

theorem journal_is_atomic:
  assumes "idempotency_ok d"
  shows "(let (r, d') = journal_begin H f now now' ev key payload d in
       d' = d \<and> \<not> (\<exists>dec. r = Inr dec \<and> dc_disposition dec = Reserved) \<or>
       (\<exists>row. audit_log d' = audit_log d @ [row] \<and> al_tenant_id row = ev_tenant_id ev
          \<and> al_request_id row = ev_request_id ev \<and> al_final_status row = ev_final_status ev
          \<and> slot_holder d' (ev_tenant_id ev, ev_tool_name ev, key) = Some (ev_request_id ev)))
    \<and> (let (r, d') = journal_finish H f now now' ev key state response d in
       d' = d \<and> r \<noteq> Inr () \<or>
       (\<exists>row q m. audit_log d' = audit_log d @ [row] \<and> al_tenant_id row = ev_tenant_id ev
          \<and> al_request_id row = ev_request_id ev \<and> al_final_status row = ev_final_status ev \<and> response = Some m
          \<and> slot_holder d (ev_tenant_id ev, ev_tool_name ev, key) = Some (ev_request_id ev)
          \<and> slot_row (ev_tenant_id ev) (ev_tool_name ev) key d' = Some q \<and> ik_state q = state
          \<and> state \<noteq> IS_in_progress \<and> ik_response_json q = Some (json_text (PDict m))))"
  using begin_atomic [OF _ assms] finish_atomic [OF _ assms]
  by (cases "journal_begin H f now now' ev key payload d";
      cases "journal_finish H f now now' ev key state response d") (simp del: json_text.simps)

theorem journal_is_atomic_witness:
  "\<exists>row. audit_log (run_op demo_hash (demo_begin ''r1'') empty_db) = [row] \<and> al_tenant_id row = ''acme''
    \<and> al_final_status row = ''failed''"
  using journal_is_atomic [OF idempotency_ok_empty, of demo_hash Commits 0 0
      "demo_event\<lparr>ev_request_id := ''r1''\<rparr>" "''key''" "[(''a'', PInt 1)]"] demo_begin_grants
  by (cases "journal_begin demo_hash Commits 0 0 (demo_event\<lparr>ev_request_id := ''r1''\<rparr>) ''key''
        [(''a'', PInt 1)] empty_db")
    (auto simp: demo_begin_def demo_event_def empty_db_def split: sum.splits)

end
