(* ===== verification/WriteModel.thy ===== *)
theory WriteModel
  imports Registry Policy Execution
begin

text \<open>
  The data of the write-safety boundary, \<open>policy/write_safety.py\<close>: the command and its preparation,
  the response with the shape \<open>validate_shape\<close> enforces, the policy gate, what of a response is
  persisted (all of it, the retained keys, or the compact projection) and how a persisted response is
  restored, and the audit event of each phase. Callback results are kept with the faults the code
  checks for: a preparation may be of the wrong type in every field it tests.
\<close>

section \<open>Data\<close>

record binding =
  bd_tenant_id :: string
  bd_authenticated_subject :: string
  bd_mcp_client :: string
  bd_permissions :: "string list"
  bd_database :: string
  bd_username :: string
  bd_allowed_company_ids :: "int list"

record snapshot =
  sn_version :: int
  sn_transport :: string
  sn_modules :: "(string \<times> bool) list"

record write_command =
  wc_company_id :: int
  wc_request_payload :: pymap
  wc_dry_run :: bool
  wc_idempotency_key :: "string option"
  wc_audit_payload :: "pymap option"
  wc_retained_proposed_action_keys :: "string list option"
  wc_retained_material_effect_keys :: "string list option"
  wc_compact_persistence :: bool

record prepared_write =
  pw_proposed_action :: pymap
  pw_material_effects :: pymap
  pw_artifact_markdown :: "string option"
  pw_needs_input :: bool

record applied_write =
  aw_material_effects :: pymap
  aw_record_refs :: "string list"
  aw_artifact_markdown :: "string option"

text \<open>What a prepare callback hands back, before it is checked: any object, or a \<open>PreparedWrite\<close> whose
  fields may hold values of other types. A mapping is given by its items, \<open>None\<close> if it is not one.\<close>

record raw_prepared =
  rp_proposed_action :: "(pyval \<times> pyval) list option"
  rp_material_effects :: "(pyval \<times> pyval) list option"
  rp_artifact_markdown :: pyval
  rp_needs_input :: pyval

datatype write_status = Preview | Succeeded | Needs_input | Failed
datatype write_outcome = Not_attempted | Known | Unknown

fun status_text :: "write_status \<Rightarrow> string" where
  "status_text Preview = ''preview''"
| "status_text Succeeded = ''succeeded''"
| "status_text Needs_input = ''needs_input''"
| "status_text Failed = ''failed''"

fun outcome_text :: "write_outcome \<Rightarrow> string" where
  "outcome_text Not_attempted = ''not_attempted''"
| "outcome_text Known = ''known''"
| "outcome_text Unknown = ''unknown''"

definition status_of :: "string \<Rightarrow> write_status res" where
  "status_of t = (case find_row (\<lambda>s. status_text s = t) [Preview, Succeeded, Needs_input, Failed] of
     Some s \<Rightarrow> Inr s | None \<Rightarrow> Inl ValueError)"

definition outcome_of :: "string \<Rightarrow> write_outcome res" where
  "outcome_of t = (case find_row (\<lambda>s. outcome_text s = t) [Not_attempted, Known, Unknown] of
     Some s \<Rightarrow> Inr s | None \<Rightarrow> Inl ValueError)"

record response =
  rs_status :: write_status
  rs_outcome :: write_outcome
  rs_request_id :: string
  rs_company_id :: int
  rs_proposed_action :: "pymap option"
  rs_material_effects :: pymap
  rs_record_refs :: "string list"
  rs_artifact_markdown :: "string option"
  rs_error_code :: "error_code option"
  rs_error_message :: "string option"
  rs_remediation_hint :: "string option"

text \<open>The validator every construction of a response runs.\<close>

definition validate_shape :: "response \<Rightarrow> response res" where
  "validate_shape r =
    (let missing = [rs_error_code r = None, rs_error_message r = None, rs_remediation_hint r = None] in
     if rs_status r = Failed \<and> list_ex (\<lambda>b. b) missing then Inl ValueError
     else if rs_status r \<noteq> Failed \<and> list_ex (\<lambda>b. \<not> b) missing then Inl ValueError
     else if rs_outcome r = Unknown \<and> rs_status r \<noteq> Failed then Inl ValueError
     else Inr r)"

section \<open>Checking what prepare returned\<close>

definition str_key :: "pyval \<times> pyval \<Rightarrow> (string \<times> pyval) res" where
  "str_key p = (case fst p of PStr k \<Rightarrow> Inr (k, snd p) | _ \<Rightarrow> Inl TypeError)"

definition mapping_items :: "(pyval \<times> pyval) list option \<Rightarrow> (pyval \<times> pyval) list res" where
  "mapping_items m = (case m of None \<Rightarrow> Inl TypeError | Some items \<Rightarrow> Inr items)"

definition normalize_prepared :: "raw_prepared option \<Rightarrow> prepared_write res" where
  "normalize_prepared value =
    (case value of
       None \<Rightarrow> Inl TypeError
     | Some v \<Rightarrow>
        if \<not> is_bool (rp_needs_input v) then Inl TypeError
        else ebind (case rp_artifact_markdown v of
                      PNone \<Rightarrow> Inr None | PStr s \<Rightarrow> Inr (Some s) | _ \<Rightarrow> Inl TypeError) (\<lambda>artifact.
             ebind (mapping_items (rp_proposed_action v)) (\<lambda>action.
             ebind (mapping_items (rp_material_effects v)) (\<lambda>effects.
             ebind (emap str_key action) (\<lambda>proposed_action.
             ebind (emap str_key effects) (\<lambda>material_effects.
             Inr \<lparr>pw_proposed_action = proposed_action, pw_material_effects = material_effects,
                  pw_artifact_markdown = artifact, pw_needs_input = bool_of (rp_needs_input v)\<rparr>))))))"

definition prepared_response :: "prepared_write \<Rightarrow> string \<Rightarrow> int \<Rightarrow> response" where
  "prepared_response p request_id company_id =
    \<lparr>rs_status = (if pw_needs_input p then Needs_input else Preview), rs_outcome = Not_attempted,
     rs_request_id = request_id, rs_company_id = company_id,
     rs_proposed_action = Some (pw_proposed_action p), rs_material_effects = pw_material_effects p,
     rs_record_refs = [], rs_artifact_markdown = pw_artifact_markdown p,
     rs_error_code = None, rs_error_message = None, rs_remediation_hint = None\<rparr>"

definition failure :: "odoo_error \<Rightarrow> string \<Rightarrow> int \<Rightarrow> write_outcome \<Rightarrow> prepared_write option \<Rightarrow> response" where
  "failure e request_id company_id outcome prepared =
    \<lparr>rs_status = Failed, rs_outcome = outcome, rs_request_id = request_id, rs_company_id = company_id,
     rs_proposed_action = map_option pw_proposed_action prepared,
     rs_material_effects = (case prepared of None \<Rightarrow> [] | Some p \<Rightarrow> pw_material_effects p),
     rs_record_refs = [],
     rs_artifact_markdown = (case prepared of None \<Rightarrow> None | Some p \<Rightarrow> pw_artifact_markdown p),
     rs_error_code = Some (oe_code e), rs_error_message = Some (oe_message e),
     rs_remediation_hint = Some (oe_hint e)\<rparr>"

text \<open>The response to a completed mutation. An empty artifact counts as none.\<close>

definition applied_response :: "prepared_write \<Rightarrow> applied_write \<Rightarrow> string \<Rightarrow> int \<Rightarrow> response" where
  "applied_response p a request_id company_id =
    \<lparr>rs_status = Succeeded, rs_outcome = Known, rs_request_id = request_id, rs_company_id = company_id,
     rs_proposed_action = Some (pw_proposed_action p), rs_material_effects = aw_material_effects a,
     rs_record_refs = aw_record_refs a,
     rs_artifact_markdown = (case aw_artifact_markdown a of
        Some t \<Rightarrow> if t = [] then pw_artifact_markdown p else Some t
      | None \<Rightarrow> pw_artifact_markdown p),
     rs_error_code = None, rs_error_message = None, rs_remediation_hint = None\<rparr>"

section \<open>Errors of the boundary\<close>

definition unexpected_pre_write_error :: odoo_error where
  "unexpected_pre_write_error = mk_error UNKNOWN_ERROR
     ''The write request failed before Odoo was changed.''
     ''Correct the request or contact the service operator before retrying.''"

definition cancelled_pre_write_error :: odoo_error where
  "cancelled_pre_write_error = mk_error UNKNOWN_ERROR
     ''The write request was cancelled before Odoo was changed.''
     ''Submit a new request with a new idempotency key if execution is still required.''"

definition unknown_outcome_error :: odoo_error where
  "unknown_outcome_error = mk_error UNKNOWN_ERROR
     ''The operation outcome is unknown and requires recovery.''
     ''Do not retry with a new key; inspect the target system and recover this request.''"

definition missing_key_error :: odoo_error where
  "missing_key_error = mk_error EXECUTION_NOT_EXPLICIT
     ''Execution requires an explicit non-empty idempotency key.''
     ''Submit dry_run false with a stable idempotency key.''"

definition mismatch_error :: odoo_error where
  "mismatch_error = mk_error IDEMPOTENCY_KEY_PAYLOAD_MISMATCH
     ''The idempotency key was already used for a different request.''
     ''Use the original payload or submit a new idempotency key.''"

definition in_progress_error :: odoo_error where
  "in_progress_error = mk_error CONCURRENT_OPERATION_IN_PROGRESS
     ''An identical write operation is already in progress.''
     ''Wait for recovery or replay the same request later.''"

section \<open>The policy gate\<close>

definition reserved_write_keys :: "string list" where
  "reserved_write_keys = [''company_id'', ''dry_run'', ''idempotency_key'']"

definition gate_error :: "binding \<Rightarrow> tool_definition \<Rightarrow> snapshot \<Rightarrow> write_command \<Rightarrow> odoo_error option" where
  "gate_error b td sn cmd =
    (if list_ex (\<lambda>k. k \<in> set (keys (wc_request_payload cmd))) reserved_write_keys then
       Some (mk_error INVALID_INPUT ''The business payload contains a reserved write-control field.''
         ''Remove company_id, dry_run, and idempotency_key from the business payload.'')
     else if wc_company_id cmd \<le> 0 then
       Some (mk_error INVALID_INPUT ''The write request company ID is invalid.''
         ''Use a positive authorized company ID.'')
     else if td_required_permission td \<notin> set (bd_permissions b) then
       Some (mk_error ODOO_AUTH_FAILED ''The resolved MCP identity is not authorized for this write.''
         ''Reconnect with the required write permission and retry.'')
     else if wc_company_id cmd \<notin> set (bd_allowed_company_ids b) then
       Some (mk_error COMPANY_NOT_FOUND ''The requested company is not authorized for this connection.''
         ''Use an authorized company ID and retry.'')
     else (case td_required_capability td of
         None \<Rightarrow> None
       | Some capability \<Rightarrow>
          if \<not> get_or (sn_modules sn) capability False then
            Some (mk_error CAPABILITY_NOT_AVAILABLE ''The required Odoo capability is unavailable.''
              ''Enable the required module access or use an available tool.'')
          else None))"

section \<open>Persisting and restoring a response\<close>

text \<open>\<open>model_dump(mode="json")\<close>: tuples become lists; a value that JSON cannot hold is refused.\<close>

fun jsonable :: "pyval \<Rightarrow> pyval" where
  "jsonable (PList xs) = PList (map jsonable xs)"
| "jsonable (PTuple xs) = PList (map jsonable xs)"
| "jsonable (PDict kvs) = PDict (map (\<lambda>(k, v). (k, jsonable v)) kvs)"
| "jsonable v = v"

definition response_values :: "response \<Rightarrow> pymap" where
  "response_values r =
    [(''status'', PStr (status_text (rs_status r))),
     (''outcome'', PStr (outcome_text (rs_outcome r))),
     (''request_id'', PStr (rs_request_id r)),
     (''company_id'', PInt (rs_company_id r)),
     (''proposed_action'', jsonable (opt_map (rs_proposed_action r))),
     (''material_effects'', jsonable (PDict (rs_material_effects r))),
     (''record_refs'', PList (map PStr (rs_record_refs r))),
     (''artifact_markdown'', opt_str (rs_artifact_markdown r)),
     (''error_code'', opt_str (map_option code_text (rs_error_code r))),
     (''error_message'', opt_str (rs_error_message r)),
     (''remediation_hint'', opt_str (rs_remediation_hint r))]"

definition model_dump :: "response \<Rightarrow> pymap res" where
  "model_dump r =
    (if serialisable (PDict (response_values r)) then Inr (response_values r) else Inl ValueError)"

definition filtered_mapping :: "pymap option \<Rightarrow> string list option \<Rightarrow> pymap option" where
  "filtered_mapping value retained =
    (case value of None \<Rightarrow> None
     | Some m \<Rightarrow> (case retained of None \<Rightarrow> Some m | Some ks \<Rightarrow> Some (filter (\<lambda>(k, v). k \<in> set ks) m)))"

definition response_for_persistence :: "write_command \<Rightarrow> response \<Rightarrow> response" where
  "response_for_persistence cmd r =
    (if wc_retained_proposed_action_keys cmd = None \<and> wc_retained_material_effect_keys cmd = None then r
     else \<lparr>rs_status = rs_status r, rs_outcome = rs_outcome r, rs_request_id = rs_request_id r,
           rs_company_id = rs_company_id r,
           rs_proposed_action = filtered_mapping (rs_proposed_action r) (wc_retained_proposed_action_keys cmd),
           rs_material_effects =
             (case filtered_mapping (Some (rs_material_effects r)) (wc_retained_material_effect_keys cmd) of
                None \<Rightarrow> [] | Some m \<Rightarrow> m),
           rs_record_refs = rs_record_refs r, rs_artifact_markdown = None,
           rs_error_code = rs_error_code r, rs_error_message = rs_error_message r,
           rs_remediation_hint = rs_remediation_hint r\<rparr>)"

definition compact_mapping :: "write_command \<Rightarrow> response \<Rightarrow> pymap" where
  "compact_mapping cmd retained =
    (let action = (case rs_proposed_action retained of None \<Rightarrow> [] | Some m \<Rightarrow> m);
         effects = rs_material_effects retained;
         audit_payload = (case wc_audit_payload cmd of None \<Rightarrow> [] | Some m \<Rightarrow> m);
         selected = (\<lambda>key. get_or effects key (get_or action key (get_or audit_payload key PNone)));
         base =
          [(''status'', PStr (status_text (rs_status retained))),
           (''outcome'', PStr (outcome_text (rs_outcome retained))),
           (''request_id'', PStr (rs_request_id retained)),
           (''company_id'', PInt (rs_company_id retained)),
           (''operation'', selected ''operation''),
           (''payslip_id'', selected ''payslip_id''),
           (''input_id'', selected ''input_id''),
           (''result_input_id'', selected ''result_input_id''),
           (''before_source_state'', selected ''before_source_state''),
           (''after_source_state'', selected ''after_source_state'')];
         errors = (case rs_error_code retained of None \<Rightarrow> []
           | Some c \<Rightarrow> [(''error_code'', PStr (code_text c)),
                        (''error_message'', opt_str (rs_error_message retained)),
                        (''remediation_hint'', opt_str (rs_remediation_hint retained))])
     in filter (\<lambda>(k, v). v \<noteq> PNone) (base @ errors))"

definition response_mapping_for_persistence :: "write_command \<Rightarrow> response \<Rightarrow> pymap res" where
  "response_mapping_for_persistence cmd r =
    (let retained = response_for_persistence cmd r
     in if \<not> wc_compact_persistence cmd then model_dump retained
        else Inr (compact_mapping cmd retained))"

text \<open>\<open>model_validate\<close>: unknown keys are refused, the first four fields are required, the others have
  defaults, and a value of another type is refused.\<close>

definition response_fields :: "string list" where
  "response_fields = [''status'', ''outcome'', ''request_id'', ''company_id'', ''proposed_action'',
     ''material_effects'', ''record_refs'', ''artifact_markdown'', ''error_code'', ''error_message'',
     ''remediation_hint'']"

definition required_field :: "pymap \<Rightarrow> string \<Rightarrow> (pyval \<Rightarrow> 'a res) \<Rightarrow> 'a res" where
  "required_field d k decode = (case map_of d k of None \<Rightarrow> Inl ValueError | Some v \<Rightarrow> decode v)"

definition default_field :: "pymap \<Rightarrow> string \<Rightarrow> 'a \<Rightarrow> (pyval \<Rightarrow> 'a res) \<Rightarrow> 'a res" where
  "default_field d k default_value decode =
    (case map_of d k of None \<Rightarrow> Inr default_value | Some v \<Rightarrow> decode v)"

definition as_string :: "pyval \<Rightarrow> string res" where
  "as_string v = (case v of PStr s \<Rightarrow> Inr s | _ \<Rightarrow> Inl ValueError)"

definition as_int :: "pyval \<Rightarrow> int res" where
  "as_int v = (case v of PInt i \<Rightarrow> Inr i | _ \<Rightarrow> Inl ValueError)"

definition as_dict :: "pyval \<Rightarrow> pymap res" where
  "as_dict v = (case v of PDict m \<Rightarrow> Inr m | _ \<Rightarrow> Inl ValueError)"

definition as_string_list :: "pyval \<Rightarrow> string list res" where
  "as_string_list v = (case v of PList xs \<Rightarrow> emap as_string xs | PTuple xs \<Rightarrow> emap as_string xs
     | _ \<Rightarrow> Inl ValueError)"

definition optional :: "(pyval \<Rightarrow> 'a res) \<Rightarrow> pyval \<Rightarrow> 'a option res" where
  "optional decode v = (if v = PNone then Inr None else ebind (decode v) (\<lambda>x. Inr (Some x)))"

definition model_validate :: "pymap option \<Rightarrow> response res" where
  "model_validate payload =
    (case payload of None \<Rightarrow> Inl ValueError | Some d \<Rightarrow>
     ebind (guard_ok (list_all (\<lambda>k. k \<in> set response_fields) (keys d)) ValueError) (\<lambda>_.
     ebind (required_field d ''status'' (\<lambda>v. ebind (as_string v) status_of)) (\<lambda>status.
     ebind (required_field d ''outcome'' (\<lambda>v. ebind (as_string v) outcome_of)) (\<lambda>outcome.
     ebind (required_field d ''request_id'' as_string) (\<lambda>request_id.
     ebind (required_field d ''company_id'' as_int) (\<lambda>company_id.
     ebind (default_field d ''proposed_action'' None (optional as_dict)) (\<lambda>proposed_action.
     ebind (default_field d ''material_effects'' [] as_dict) (\<lambda>material_effects.
     ebind (default_field d ''record_refs'' [] as_string_list) (\<lambda>record_refs.
     ebind (default_field d ''artifact_markdown'' None (optional as_string)) (\<lambda>artifact.
     ebind (default_field d ''error_code'' None
              (optional (\<lambda>v. ebind (as_string v) error_code_of))) (\<lambda>code.
     ebind (default_field d ''error_message'' None (optional as_string)) (\<lambda>message.
     ebind (default_field d ''remediation_hint'' None (optional as_string)) (\<lambda>hint.
     validate_shape \<lparr>rs_status = status, rs_outcome = outcome, rs_request_id = request_id,
       rs_company_id = company_id, rs_proposed_action = proposed_action,
       rs_material_effects = material_effects, rs_record_refs = record_refs,
       rs_artifact_markdown = artifact, rs_error_code = code, rs_error_message = message,
       rs_remediation_hint = hint\<rparr>)))))))))))))"

definition restore_persisted_response :: "write_command \<Rightarrow> pymap option \<Rightarrow> response res" where
  "restore_persisted_response cmd payload =
    (if \<not> wc_compact_persistence cmd then model_validate payload
     else case payload of None \<Rightarrow> Inl ValueError
     | Some d \<Rightarrow>
        (let get = (\<lambda>k. get_or d k PNone);
             present = filter (\<lambda>(k :: string, v). v \<noteq> PNone);
             action = present [(''operation'', get ''operation''), (''payslip_id'', get ''payslip_id''),
               (''input_id'', get ''input_id''), (''before_source_state'', get ''before_source_state'')];
             effects = present [(''operation'', get ''operation''), (''payslip_id'', get ''payslip_id''),
               (''input_id'', get ''input_id''), (''result_input_id'', get ''result_input_id''),
               (''before_source_state'', get ''before_source_state''),
               (''after_source_state'', get ''after_source_state'')]
         in model_validate (Some
              [(''status'', get ''status''), (''outcome'', get ''outcome''),
               (''request_id'', get ''request_id''), (''company_id'', get ''company_id''),
               (''proposed_action'', if action = [] then PNone else PDict action),
               (''material_effects'', PDict effects),
               (''error_code'', get ''error_code''), (''error_message'', get ''error_message''),
               (''remediation_hint'', get ''remediation_hint'')])))"

section \<open>The audit event of a phase\<close>

text \<open>The constants of one request.\<close>

record write_context =
  cx_binding :: binding
  cx_definition :: tool_definition
  cx_module :: string
  cx_snapshot :: snapshot
  cx_command :: write_command
  cx_given_request_id :: "string option"
  cx_fresh_request_id :: string
  cx_preflight_error :: "odoo_error option"

definition request_id_of :: "write_context \<Rightarrow> string" where
  "request_id_of c =
    (case cx_given_request_id c of
       Some r \<Rightarrow> if r = [] then cx_fresh_request_id c else r | None \<Rightarrow> cx_fresh_request_id c)"

definition event_input_payload :: "write_command \<Rightarrow> string \<Rightarrow> response option \<Rightarrow> pymap" where
  "event_input_payload cmd final_status retained =
    (case wc_audit_payload cmd of
       None \<Rightarrow> dict_update (wc_request_payload cmd)
         [(''company_id'', PInt (wc_company_id cmd)), (''dry_run'', PBool (wc_dry_run cmd)),
          (''idempotency_key'', opt_str (wc_idempotency_key cmd))]
     | Some audit \<Rightarrow>
         (let idempotency_state =
            (if final_status = ''attempted'' then ''in_progress''
             else if final_status \<in> {''rejected'', ''conflicted'', ''previewed''} then ''not_reserved''
             else case retained of None \<Rightarrow> ''not_reserved''
               | Some r \<Rightarrow>
                   if rs_outcome r = Unknown then ''unknown''
                   else if rs_status r = Succeeded then ''succeeded''
                   else if \<not> wc_dry_run cmd \<and> wc_idempotency_key cmd \<notin> {None, Some []} then ''failed''
                   else ''not_reserved'')
          in dict_update audit
               [(''company_id'', PInt (wc_company_id cmd)), (''dry_run'', PBool (wc_dry_run cmd)),
                (''idempotency_state'', PStr idempotency_state)]))"

definition write_event ::
    "write_context \<Rightarrow> string \<Rightarrow> response option \<Rightarrow> pymap option \<Rightarrow> string list \<Rightarrow> audit_event res" where
  "write_event c final_status resp proposed_action affected_records =
    (let cmd = cx_command c; b = cx_binding c; td = cx_definition c;
         error = (case resp of None \<Rightarrow> None | Some r \<Rightarrow> if rs_status r = Failed then Some r else None);
         retained = map_option (response_for_persistence cmd) resp
     in ebind (case resp of None \<Rightarrow> Inr None
               | Some r \<Rightarrow> ebind (response_mapping_for_persistence cmd r) (\<lambda>m. Inr (Some m))) (\<lambda>actual_result.
        Inr \<lparr>ev_request_id = request_id_of c, ev_tenant_id = bd_tenant_id b,
             ev_company_id = (if wc_company_id cmd > 0 then Some (wc_company_id cmd) else None),
             ev_tool_name = td_name td, ev_tool_version = td_version td, ev_module = cx_module c,
             ev_authenticated_subject = bd_authenticated_subject b, ev_mcp_client = bd_mcp_client b,
             ev_odoo_db_name = Some (bd_database b), ev_odoo_user = Some (bd_username b),
             ev_odoo_version = Some (int_text (sn_version (cx_snapshot c))),
             ev_odoo_transport = Some (sn_transport (cx_snapshot c)),
             ev_input_payload = event_input_payload cmd final_status retained,
             ev_dry_run = wc_dry_run cmd,
             ev_proposed_action = filtered_mapping proposed_action (wc_retained_proposed_action_keys cmd),
             ev_actual_result = actual_result, ev_affected_odoo_records = affected_records,
             ev_error_code = (case error of None \<Rightarrow> None | Some r \<Rightarrow> map_option code_text (rs_error_code r)),
             ev_error_message = (case error of None \<Rightarrow> None | Some r \<Rightarrow> rs_error_message r),
             ev_final_status = final_status, ev_created_at = None\<rparr>))"

section \<open>Shapes\<close>

lemma shape_failure [simp]: "validate_shape (failure e rid c oc p) = Inr (failure e rid c oc p)"
  by (simp add: validate_shape_def failure_def)

lemma shape_prepared [simp]: "validate_shape (prepared_response p rid c) = Inr (prepared_response p rid c)"
  by (simp add: validate_shape_def prepared_response_def)

lemma shape_applied [simp]: "validate_shape (applied_response p a rid c) = Inr (applied_response p a rid c)"
  by (simp add: validate_shape_def applied_response_def)

lemma validate_shape_id: "validate_shape r = Inr r' \<Longrightarrow> r' = r"
  by (auto simp: validate_shape_def Let_def split: if_splits)

lemma shape_iff:
  "validate_shape r = Inr r \<longleftrightarrow>
    (if rs_status r = Failed
     then rs_error_code r \<noteq> None \<and> rs_error_message r \<noteq> None \<and> rs_remediation_hint r \<noteq> None
     else rs_error_code r = None \<and> rs_error_message r = None \<and> rs_remediation_hint r = None
       \<and> rs_outcome r \<noteq> Unknown)"
  by (auto simp: validate_shape_def Let_def)

lemma shape_retained:
  "validate_shape r = Inr r \<Longrightarrow>
    validate_shape (response_for_persistence cmd r) = Inr (response_for_persistence cmd r)"
  by (auto simp: shape_iff response_for_persistence_def split: if_splits)

lemma model_validate_shape: "model_validate p = Inr r \<Longrightarrow> validate_shape r = Inr r"
  unfolding model_validate_def
  by (auto split: option.splits dest: validate_shape_id)

lemma restore_shape: "restore_persisted_response cmd p = Inr r \<Longrightarrow> validate_shape r = Inr r"
  by (auto simp: restore_persisted_response_def Let_def
      split: if_splits option.splits intro: model_validate_shape)

section \<open>A persisted response is restored\<close>

lemma status_of_text [simp]: "status_of (status_text s) = Inr s"
  by (cases s) (simp_all add: status_of_def)

lemma outcome_of_text [simp]: "outcome_of (outcome_text s) = Inr s"
  by (cases s) (simp_all add: outcome_of_def)

lemma norm_jsonable [simp]: "norm_val (jsonable v) = norm_val v"
proof (induction v rule: pyval_nested_induct)
  case (PDict kvs)
  then have "map (\<lambda>(k, v). (k, norm_val v)) (map (\<lambda>(k, v). (k, jsonable v)) kvs)
      = map (\<lambda>(k, v). (k, norm_val v)) kvs" by auto
  then show ?case by (simp del: map_map)
qed auto

definition norm_map :: "pymap \<Rightarrow> pymap" where
  "norm_map m = sort_dict (map (\<lambda>(k, v). (k, norm_val v)) m)"

lemma norm_val_PDict: "norm_val (PDict m) = PDict (norm_map m)"
  by (simp add: norm_map_def)

definition norm_response :: "response \<Rightarrow> response" where
  "norm_response r = r\<lparr>rs_proposed_action := map_option norm_map (rs_proposed_action r),
     rs_material_effects := norm_map (rs_material_effects r)\<rparr>"

lemma decode_simps [simp]:
  "as_string (PStr s) = Inr s" "as_int (PInt i) = Inr i" "as_dict (PDict m) = Inr m"
  "optional f PNone = Inr None"
  by (simp_all add: as_string_def as_int_def as_dict_def optional_def)

lemma optional_opt_str: "(\<And>s. x = Some s \<Longrightarrow> f (PStr s) = Inr (g s)) \<Longrightarrow> optional f (opt_str x) = Inr (map_option g x)"
  by (cases x) (simp_all add: optional_def opt_str_def)

lemma optional_opt_map: "optional as_dict (norm_val (opt_map m)) = Inr (map_option norm_map m)"
  by (cases m) (simp_all add: optional_def norm_val_PDict del: norm_val.simps(3))

lemma as_string_list_map [simp]: "as_string_list (PList (map PStr ss)) = Inr ss"
proof -
  have "emap as_string (map PStr ss) = Inr ss" by (induction ss) auto
  then show ?thesis by (simp add: as_string_list_def)
qed

lemma keys_response_values: "keys (response_values r) = response_fields"
  by (simp add: response_values_def response_fields_def keys_def)

lemma distinct_response_fields: "distinct response_fields"
  unfolding response_fields_def by code_simp

lemma keys_norm: "set (keys (norm_map m)) = set (keys m)"
proof -
  have "mset (keys (norm_map m)) = mset (keys m)" by (simp add: norm_map_def keys_sort_dict)
  then show ?thesis by (metis set_mset_mset)
qed

lemma map_of_norm_map: "distinct (keys m) \<Longrightarrow> map_of (norm_map m) k = map_option norm_val (map_of m k)"
proof -
  assume "distinct (keys m)"
  then have "map_of (norm_map m) = map_of (map (\<lambda>(k, v). (k, norm_val v)) m)"
    unfolding norm_map_def by (intro map_of_sort_dict) simp
  moreover have "map_of (map (\<lambda>(k, v). (k, norm_val v)) m) k = map_option norm_val (map_of m k)"
    by (induction m) auto
  ultimately show ?thesis by simp
qed

lemma map_of_response_values:
  "map_of (response_values r) ''status'' = Some (PStr (status_text (rs_status r)))"
  "map_of (response_values r) ''outcome'' = Some (PStr (outcome_text (rs_outcome r)))"
  "map_of (response_values r) ''request_id'' = Some (PStr (rs_request_id r))"
  "map_of (response_values r) ''company_id'' = Some (PInt (rs_company_id r))"
  "map_of (response_values r) ''proposed_action'' = Some (jsonable (opt_map (rs_proposed_action r)))"
  "map_of (response_values r) ''material_effects'' = Some (jsonable (PDict (rs_material_effects r)))"
  "map_of (response_values r) ''record_refs'' = Some (PList (map PStr (rs_record_refs r)))"
  "map_of (response_values r) ''artifact_markdown'' = Some (opt_str (rs_artifact_markdown r))"
  "map_of (response_values r) ''error_code'' = Some (opt_str (map_option code_text (rs_error_code r)))"
  "map_of (response_values r) ''error_message'' = Some (opt_str (rs_error_message r))"
  "map_of (response_values r) ''remediation_hint'' = Some (opt_str (rs_remediation_hint r))"
  by (simp_all add: response_values_def del: jsonable.simps)

lemma validate_dumped:
  assumes "validate_shape r = Inr r"
  shows "model_validate (Some (norm_map (response_values r))) = Inr (norm_response r)"
proof -
  have d: "distinct (keys (response_values r))" by (simp only: keys_response_values distinct_response_fields)
  note look = map_of_norm_map [OF d] map_of_response_values
  have fields: "list_all (\<lambda>k. k \<in> set response_fields) (keys (norm_map (response_values r)))"
    by (simp add: list_all_iff keys_norm keys_response_values)
  have code: "optional (\<lambda>v. ebind (as_string v) error_code_of) (opt_str (map_option code_text c)) = Inr c" for c
    by (cases c) (simp_all add: optional_def opt_str_def)
  have str: "optional as_string (opt_str x) = Inr x" for x
    by (cases x) (simp_all add: optional_def opt_str_def)
  have "map norm_val (map PStr xs) = map PStr xs" for xs by (induction xs) auto
  then have refs: "norm_val (PList (map PStr xs)) = PList (map PStr xs)" for xs by simp
  have "validate_shape (norm_response r) = Inr (norm_response r)"
    using assms by (simp add: shape_iff norm_response_def)
  moreover have "norm_response r = \<lparr>rs_status = rs_status r, rs_outcome = rs_outcome r,
      rs_request_id = rs_request_id r, rs_company_id = rs_company_id r,
      rs_proposed_action = map_option norm_map (rs_proposed_action r),
      rs_material_effects = norm_map (rs_material_effects r), rs_record_refs = rs_record_refs r,
      rs_artifact_markdown = rs_artifact_markdown r, rs_error_code = rs_error_code r,
      rs_error_message = rs_error_message r, rs_remediation_hint = rs_remediation_hint r\<rparr>"
    by (simp add: norm_response_def)
  ultimately show ?thesis
    using fields
    by (simp add: model_validate_def required_field_def default_field_def look refs code str
        optional_opt_map norm_val_PDict del: jsonable.simps norm_val.simps(1,3))
qed

lemma map_of_present:
  "distinct (keys m) \<Longrightarrow> map_of (filter (\<lambda>(k, v). v \<noteq> PNone) m) k =
    (case map_of m k of None \<Rightarrow> None | Some v \<Rightarrow> if v = PNone then None else Some v)"
proof (induction m)
  case (Cons p m)
  obtain k' v where p: "p = (k', v)" by (cases p)
  have "map_of m k' = None" using Cons.prems p by (simp add: keys_def map_of_eq_None_iff)
  with Cons p show ?case by (auto simp: keys_def)
qed simp

lemma get_or_present:
  "distinct (keys m) \<Longrightarrow> get_or (filter (\<lambda>(k, v). v \<noteq> PNone) m) k PNone = get_or m k PNone"
  by (simp add: get_or_def map_of_present split: option.split)

lemma distinct_keys_filter: "distinct (keys m) \<Longrightarrow> distinct (keys (filter P m))"
  by (simp add: keys_def distinct_map_filter)

lemma get_or_norm:
  "distinct (keys m) \<Longrightarrow> get_or (norm_map m) k PNone = norm_val (get_or m k PNone)"
  by (simp add: get_or_def map_of_norm_map split: option.split)

text \<open>The compact projection before absent values are dropped.\<close>

definition compact_full :: "write_command \<Rightarrow> response \<Rightarrow> pymap" where
  "compact_full cmd r =
    (let action = (case rs_proposed_action r of None \<Rightarrow> [] | Some m \<Rightarrow> m);
         audit_payload = (case wc_audit_payload cmd of None \<Rightarrow> [] | Some m \<Rightarrow> m);
         selected = (\<lambda>key. get_or (rs_material_effects r) key (get_or action key (get_or audit_payload key PNone)))
     in [(''status'', PStr (status_text (rs_status r))), (''outcome'', PStr (outcome_text (rs_outcome r))),
         (''request_id'', PStr (rs_request_id r)), (''company_id'', PInt (rs_company_id r)),
         (''operation'', selected ''operation''), (''payslip_id'', selected ''payslip_id''),
         (''input_id'', selected ''input_id''), (''result_input_id'', selected ''result_input_id''),
         (''before_source_state'', selected ''before_source_state''),
         (''after_source_state'', selected ''after_source_state'')]
      @ (case rs_error_code r of None \<Rightarrow> []
         | Some c \<Rightarrow> [(''error_code'', PStr (code_text c)), (''error_message'', opt_str (rs_error_message r)),
                      (''remediation_hint'', opt_str (rs_remediation_hint r))]))"

lemma compact_mapping_full: "compact_mapping cmd r = filter (\<lambda>(k, v). v \<noteq> PNone) (compact_full cmd r)"
  by (simp add: compact_mapping_def compact_full_def Let_def)

lemma distinct_compact_full: "distinct (keys (compact_full cmd r))"
  by (cases "rs_error_code r") (simp_all add: compact_full_def keys_def Let_def)

lemma get_compact:
  "get_or (compact_full cmd r) ''status'' PNone = PStr (status_text (rs_status r))"
  "get_or (compact_full cmd r) ''outcome'' PNone = PStr (outcome_text (rs_outcome r))"
  "get_or (compact_full cmd r) ''request_id'' PNone = PStr (rs_request_id r)"
  "get_or (compact_full cmd r) ''company_id'' PNone = PInt (rs_company_id r)"
  "rs_error_code r \<noteq> None \<or> rs_error_message r = None \<and> rs_remediation_hint r = None \<Longrightarrow>
    get_or (compact_full cmd r) ''error_code'' PNone = opt_str (map_option code_text (rs_error_code r))
    \<and> get_or (compact_full cmd r) ''error_message'' PNone = opt_str (rs_error_message r)
    \<and> get_or (compact_full cmd r) ''remediation_hint'' PNone = opt_str (rs_remediation_hint r)"
  by (cases "rs_error_code r"; auto simp add: compact_full_def get_or_def Let_def opt_str_def)+

lemma restore_compact:
  assumes "validate_shape r = Inr r" "wc_compact_persistence cmd"
  shows "\<exists>r'. restore_persisted_response cmd (Some (norm_map (compact_mapping cmd r))) = Inr r'
    \<and> rs_status r' = rs_status r \<and> rs_outcome r' = rs_outcome r \<and> rs_request_id r' = rs_request_id r
    \<and> rs_company_id r' = rs_company_id r \<and> rs_error_code r' = rs_error_code r
    \<and> rs_error_message r' = rs_error_message r \<and> rs_remediation_hint r' = rs_remediation_hint r"
proof -
  have d: "distinct (keys (compact_mapping cmd r))"
    unfolding compact_mapping_full by (intro distinct_keys_filter distinct_compact_full)
  have get: "get_or (norm_map (compact_mapping cmd r)) k PNone = norm_val (get_or (compact_full cmd r) k PNone)" for k
    unfolding get_or_norm [OF d] by (simp only: compact_mapping_full get_or_present [OF distinct_compact_full])
  have errs: "rs_error_code r \<noteq> None \<or> rs_error_message r = None \<and> rs_remediation_hint r = None"
    using assms(1) by (auto simp: shape_iff split: if_splits)
  have code: "optional (\<lambda>v. ebind (as_string v) error_code_of) (opt_str (map_option code_text c)) = Inr c" for c
    by (cases c) (simp_all add: optional_def opt_str_def)
  have str: "optional as_string (opt_str x) = Inr x" for x
    by (cases x) (simp_all add: optional_def opt_str_def)
  define action where "action = filter (\<lambda>(k :: string, v). v \<noteq> PNone)
      [(''operation'', norm_val (get_or (compact_full cmd r) ''operation'' PNone)),
       (''payslip_id'', norm_val (get_or (compact_full cmd r) ''payslip_id'' PNone)),
       (''input_id'', norm_val (get_or (compact_full cmd r) ''input_id'' PNone)),
       (''before_source_state'', norm_val (get_or (compact_full cmd r) ''before_source_state'' PNone))]"
  define effects where "effects = filter (\<lambda>(k :: string, v). v \<noteq> PNone)
      [(''operation'', norm_val (get_or (compact_full cmd r) ''operation'' PNone)),
       (''payslip_id'', norm_val (get_or (compact_full cmd r) ''payslip_id'' PNone)),
       (''input_id'', norm_val (get_or (compact_full cmd r) ''input_id'' PNone)),
       (''result_input_id'', norm_val (get_or (compact_full cmd r) ''result_input_id'' PNone)),
       (''before_source_state'', norm_val (get_or (compact_full cmd r) ''before_source_state'' PNone)),
       (''after_source_state'', norm_val (get_or (compact_full cmd r) ''after_source_state'' PNone))]"
  have act: "optional as_dict (if action = [] then PNone else PDict action) =
      Inr (if action = [] then None else Some action)"
    by (simp add: optional_def)
  let ?r' = "\<lparr>rs_status = rs_status r, rs_outcome = rs_outcome r, rs_request_id = rs_request_id r,
      rs_company_id = rs_company_id r, rs_proposed_action = (if action = [] then None else Some action),
      rs_material_effects = effects, rs_record_refs = [], rs_artifact_markdown = None,
      rs_error_code = rs_error_code r, rs_error_message = rs_error_message r,
      rs_remediation_hint = rs_remediation_hint r\<rparr>"
  have shape: "validate_shape ?r' = Inr ?r'" using assms(1) by (simp add: shape_iff)
  have restore: "restore_persisted_response cmd (Some (norm_map (compact_mapping cmd r))) = model_validate (Some
              [(''status'', PStr (status_text (rs_status r))), (''outcome'', PStr (outcome_text (rs_outcome r))),
               (''request_id'', PStr (rs_request_id r)), (''company_id'', PInt (rs_company_id r)),
               (''proposed_action'', if action = [] then PNone else PDict action),
               (''material_effects'', PDict effects),
               (''error_code'', opt_str (map_option code_text (rs_error_code r))),
               (''error_message'', opt_str (rs_error_message r)),
               (''remediation_hint'', opt_str (rs_remediation_hint r))])"
    using assms(2)
    by (simp only: restore_persisted_response_def get Let_def get_compact(1,2,3,4)
        get_compact(5) [OF errs] norm_val.simps opt_norm action_def [symmetric] effects_def [symmetric]
        not_True_eq_False if_False option.case)
  have "restore_persisted_response cmd (Some (norm_map (compact_mapping cmd r))) = Inr ?r'"
    unfolding restore using shape
    by (simp add: model_validate_def required_field_def default_field_def code str act
        response_fields_def keys_def del: if_split)
  then show ?thesis by (rule exI [of _ ?r', OF conjI]) simp_all
qed

lemma persistence_keeps_status [simp]:
  "rs_status (response_for_persistence cmd r) = rs_status r"
  "rs_outcome (response_for_persistence cmd r) = rs_outcome r"
  "rs_request_id (response_for_persistence cmd r) = rs_request_id r"
  "rs_company_id (response_for_persistence cmd r) = rs_company_id r"
  "rs_error_code (response_for_persistence cmd r) = rs_error_code r"
  "rs_error_message (response_for_persistence cmd r) = rs_error_message r"
  "rs_remediation_hint (response_for_persistence cmd r) = rs_remediation_hint r"
  by (simp_all add: response_for_persistence_def)

lemma restore_persisted:
  assumes "validate_shape r = Inr r" "response_mapping_for_persistence cmd r = Inr m"
  shows "\<exists>r'. restore_persisted_response cmd (Some (norm_map m)) = Inr r'
    \<and> rs_status r' = rs_status r \<and> rs_outcome r' = rs_outcome r \<and> rs_request_id r' = rs_request_id r
    \<and> rs_company_id r' = rs_company_id r \<and> rs_error_code r' = rs_error_code r
    \<and> rs_error_message r' = rs_error_message r \<and> rs_remediation_hint r' = rs_remediation_hint r
    \<and> (\<not> wc_compact_persistence cmd \<longrightarrow> r' = norm_response (response_for_persistence cmd r))"
proof -
  let ?q = "response_for_persistence cmd r"
  have shape: "validate_shape ?q = Inr ?q" by (rule shape_retained [OF assms(1)])
  show ?thesis
  proof (cases "wc_compact_persistence cmd")
    case True
    with assms(2) have "m = compact_mapping cmd ?q"
      by (simp add: response_mapping_for_persistence_def Let_def)
    with restore_compact [OF shape True] True show ?thesis by auto
  next
    case False
    with assms(2) have "m = response_values ?q"
      by (auto simp: response_mapping_for_persistence_def Let_def model_dump_def split: if_splits)
    with validate_dumped [OF shape] False show ?thesis
      by (simp add: restore_persisted_response_def norm_response_def)
  qed
qed

section \<open>Properties\<close>

text \<open>A persisted response is restored. The text that is stored for a response with a valid
  shape reads back to a response with the same status, outcome, request, company and error. Without
  the compact projection it is the whole retained response, its two payloads in JSON normal
  form.\<close>

theorem persisted_response_restores:
  assumes "validate_shape r = Inr r" "response_mapping_for_persistence cmd r = Inr m"
    and "canonical_json (PDict m) = Inr t" "wf_val (PDict m)"
  shows "\<exists>d r'. parse_mapping t = Inr d \<and> restore_persisted_response cmd (Some d) = Inr r'
    \<and> rs_status r' = rs_status r \<and> rs_outcome r' = rs_outcome r \<and> rs_request_id r' = rs_request_id r
    \<and> rs_company_id r' = rs_company_id r \<and> rs_error_code r' = rs_error_code r
    \<and> rs_error_message r' = rs_error_message r \<and> rs_remediation_hint r' = rs_remediation_hint r
    \<and> (\<not> wc_compact_persistence cmd \<longrightarrow> r' = norm_response (response_for_persistence cmd r))"
proof -
  from assms(3) have t: "serialisable (PDict m)" "t = json_text (PDict m)"
    by (simp_all del: json_text.simps serialisable.simps)
  have "parse_mapping t = Inr (norm_map m)"
    unfolding t(2) norm_map_def by (rule parse_mapping_text [OF t(1) assms(4)])
  with restore_persisted [OF assms(1,2)] show ?thesis by blast
qed

definition demo_command :: write_command where
  "demo_command = \<lparr>wc_company_id = 1, wc_request_payload = [(''amount'', PStr ''5'')], wc_dry_run = False,
     wc_idempotency_key = Some ''key'', wc_audit_payload = None, wc_retained_proposed_action_keys = None,
     wc_retained_material_effect_keys = None, wc_compact_persistence = False\<rparr>"

definition demo_response :: response where
  "demo_response = applied_response
     \<lparr>pw_proposed_action = [(''b'', PInt 1), (''a'', PTuple [])], pw_material_effects = [],
      pw_artifact_markdown = Some ''x'', pw_needs_input = False\<rparr>
     \<lparr>aw_material_effects = [], aw_record_refs = [''account.move:7''], aw_artifact_markdown = None\<rparr> ''r1'' 1"

theorem persisted_response_restores_witness:
  "\<exists>d. restore_persisted_response demo_command (Some d) = Inr (norm_response demo_response)"
proof -
  have r: "response_for_persistence demo_command demo_response = demo_response"
    by (simp add: response_for_persistence_def demo_command_def)
  have s: "serialisable (PDict (response_values demo_response))" "wf_val (PDict (response_values demo_response))"
    by code_simp+
  then have m: "response_mapping_for_persistence demo_command demo_response = Inr (response_values demo_response)"
    using r by (simp add: response_mapping_for_persistence_def model_dump_def demo_command_def
        del: serialisable.simps)
  have "canonical_json (PDict (response_values demo_response)) = Inr (json_text (PDict (response_values demo_response)))"
    using s by (simp del: json_text.simps serialisable.simps)
  from persisted_response_restores [OF _ m this s(2)] r show ?thesis
    by (auto simp: demo_response_def demo_command_def)
qed

end
