(* ===== verification/WriteSafety.thy ===== *)
theory WriteSafety
  imports WriteModel
begin

text \<open>
  \<open>WriteSafetyCoordinator.run\<close> of \<open>policy/write_safety.py\<close>. The coroutine is cut at its awaits: one
  definition per stretch of code between two of them, from a stage to the next stage. \<open>run\<close> composes
  the stretches; at every await the other requests of the process may perform any journal
  operations. What the callbacks give back, the clock and the fate of every database transaction are
  part of the environment.
\<close>

section \<open>Environment and stages\<close>

datatype 'a callback =
    Gives 'a
  | Cancels                 \<comment> \<open>\<open>asyncio.CancelledError\<close>\<close>
  | Fails_odoo odoo_error   \<comment> \<open>\<open>OdooMcpError\<close>\<close>
  | Fails_known odoo_error  \<comment> \<open>\<open>KnownWriteFailure\<close>\<close>
  | Fails                   \<comment> \<open>any other exception\<close>

record env =
  e_hash :: "string \<Rightarrow> string"
  e_clock :: "nat \<Rightarrow> int"
  e_fault :: "nat \<Rightarrow> db_fault"

record world =
  w_db :: db
  w_tick :: nat

datatype run_result = Returned response | Cancelled | Raised py_exc

datatype stage =
    Previewing                     \<comment> \<open>awaits \<open>prepare()\<close> of a dry run\<close>
  | Preparing                      \<comment> \<open>awaits \<open>prepare()\<close>, the slot is reserved\<close>
  | Validating prepared_write      \<comment> \<open>awaits \<open>validate_current_state()\<close>\<close>
  | Executing prepared_write       \<comment> \<open>awaits \<open>execute()\<close>\<close>
  | Done run_result

text \<open>The calls of the storage service. Each takes its own clock readings and meets its own fate.\<close>

definition do_begin :: "env \<Rightarrow> audit_event \<Rightarrow> string \<Rightarrow> pymap \<Rightarrow> world \<Rightarrow> idempotency_decision res \<times> world" where
  "do_begin e ev key payload w =
    (let t = w_tick w;
         (r, d) = journal_begin (e_hash e) (e_fault e t) (e_clock e (2 * t)) (e_clock e (2 * t + 1)) ev key
                    payload (w_db w)
     in (r, \<lparr>w_db = d, w_tick = Suc t\<rparr>))"

definition do_finish ::
    "env \<Rightarrow> audit_event \<Rightarrow> string \<Rightarrow> idempotency_state \<Rightarrow> pymap option \<Rightarrow> world \<Rightarrow> unit res \<times> world" where
  "do_finish e ev key state resp w =
    (let t = w_tick w;
         (r, d) = journal_finish (e_hash e) (e_fault e t) (e_clock e (2 * t)) (e_clock e (2 * t + 1)) ev key
                    state resp (w_db w)
     in (r, \<lparr>w_db = d, w_tick = Suc t\<rparr>))"

definition do_append :: "env \<Rightarrow> audit_event \<Rightarrow> world \<Rightarrow> audit_record res \<times> world" where
  "do_append e ev w =
    (let t = w_tick w;
         (r, d) = append_audit (e_hash e) (e_fault e t) (e_clock e (2 * t)) ev (w_db w)
     in (r, \<lparr>w_db = d, w_tick = Suc t\<rparr>))"

section \<open>Recording outcomes\<close>

definition fail_with :: "write_context \<Rightarrow> odoo_error \<Rightarrow> response" where
  "fail_with c err = failure err (request_id_of c) (wc_company_id (cx_command c)) Not_attempted None"

text \<open>The event is built before the \<open>try\<close> of \<open>_append_or_fail\<close>, so its exception would leave \<open>run\<close>.\<close>

definition append_or_fail :: "env \<Rightarrow> audit_event res \<Rightarrow> response \<Rightarrow> world \<Rightarrow> stage \<times> world" where
  "append_or_fail e event response w =
    (case event of Inl ex \<Rightarrow> (Done (Raised ex), w)
     | Inr ev \<Rightarrow>
        (case do_append e ev w of
           (Inl _, w') \<Rightarrow> (Done (Returned (failure unexpected_pre_write_error (rs_request_id response)
                             (rs_company_id response) Not_attempted None)), w')
         | (Inr _, w') \<Rightarrow> (Done (Returned response), w')))"

text \<open>A failure response together with its audit event: the rejections, the conflicts and
  \<open>_record_pre_write_failure\<close>.\<close>

definition reject :: "env \<Rightarrow> write_context \<Rightarrow> string \<Rightarrow> odoo_error \<Rightarrow> world \<Rightarrow> stage \<times> world" where
  "reject e c final_status err w =
    append_or_fail e (write_event c final_status (Some (fail_with c err)) None []) (fail_with c err) w"

definition record_pre_write_failure :: "env \<Rightarrow> write_context \<Rightarrow> odoo_error \<Rightarrow> world \<Rightarrow> stage \<times> world" where
  "record_pre_write_failure e c err w = reject e c ''failed'' err w"

definition finish_after_attempt ::
    "env \<Rightarrow> write_context \<Rightarrow> string \<Rightarrow> idempotency_state \<Rightarrow> string \<Rightarrow> response \<Rightarrow> prepared_write option \<Rightarrow>
      world \<Rightarrow> unit res \<times> world" where
  "finish_after_attempt e c key state final_status response prepared w =
    (case write_event c final_status (Some response) (map_option pw_proposed_action prepared) [] of
       Inl ex \<Rightarrow> (Inl ex, w)
     | Inr ev \<Rightarrow>
        (case response_mapping_for_persistence (cx_command c) response of
           Inl ex \<Rightarrow> (Inl ex, w)
         | Inr m \<Rightarrow> do_finish e ev key state (Some m) w))"

text \<open>The three callers catch every exception of the persistence and return their response.\<close>

definition finish_and_return ::
    "env \<Rightarrow> write_context \<Rightarrow> string \<Rightarrow> idempotency_state \<Rightarrow> string \<Rightarrow> response \<Rightarrow> prepared_write option \<Rightarrow>
      world \<Rightarrow> stage \<times> world" where
  "finish_and_return e c key state final_status response prepared w =
    (Done (Returned response),
     snd (finish_after_attempt e c key state final_status response prepared w))"

definition finish_pre_write_failure ::
    "env \<Rightarrow> write_context \<Rightarrow> string \<Rightarrow> odoo_error \<Rightarrow> prepared_write option \<Rightarrow> world \<Rightarrow> stage \<times> world" where
  "finish_pre_write_failure e c key err prepared w =
    finish_and_return e c key IS_failed ''failed''
      (failure err (request_id_of c) (wc_company_id (cx_command c)) Not_attempted prepared) prepared w"

definition finish_known_write_failure ::
    "env \<Rightarrow> write_context \<Rightarrow> string \<Rightarrow> odoo_error \<Rightarrow> prepared_write \<Rightarrow> world \<Rightarrow> stage \<times> world" where
  "finish_known_write_failure e c key err prepared w =
    finish_and_return e c key IS_failed ''failed''
      (failure err (request_id_of c) (wc_company_id (cx_command c)) Known (Some prepared)) (Some prepared) w"

definition unknown_response :: "write_context \<Rightarrow> prepared_write \<Rightarrow> response" where
  "unknown_response c prepared =
    failure unknown_outcome_error (request_id_of c) (wc_company_id (cx_command c)) Unknown (Some prepared)"

definition finalize_unknown :: "env \<Rightarrow> write_context \<Rightarrow> string \<Rightarrow> prepared_write \<Rightarrow> world \<Rightarrow> stage \<times> world" where
  "finalize_unknown e c key prepared w =
    finish_and_return e c key IS_unknown ''unknown'' (unknown_response c prepared) (Some prepared) w"

text \<open>An \<open>except asyncio.CancelledError\<close> branch: record, then raise again.\<close>

definition then_cancel :: "stage \<times> world \<Rightarrow> stage \<times> world" where
  "then_cancel sw = (case sw of (Done (Raised ex), w) \<Rightarrow> (Done (Raised ex), w) | (_, w) \<Rightarrow> (Done Cancelled, w))"

section \<open>The stretches of run\<close>

definition key_of :: "write_context \<Rightarrow> string" where
  "key_of c = (case wc_idempotency_key (cx_command c) of None \<Rightarrow> [] | Some k \<Rightarrow> k)"

text \<open>From the reservation to the first await of an execution.\<close>

definition begin_step :: "env \<Rightarrow> write_context \<Rightarrow> string \<Rightarrow> world \<Rightarrow> stage \<times> world" where
  "begin_step e c key w =
    (case write_event c ''attempted'' None
            (Some [(''tool'', PStr (td_name (cx_definition c))),
                   (''risk_level'', PStr (risk_text (td_risk_level (cx_definition c))))]) [] of
       Inl ex \<Rightarrow> (Done (Raised ex), w)
     | Inr attempt \<Rightarrow>
        (case do_begin e attempt key (wc_request_payload (cx_command c)) w of
           (Inl ex, w') \<Rightarrow>
             if ex = IdempotencyPayloadMismatch then reject e c ''conflicted'' mismatch_error w'
             else (Done (Returned (fail_with c unexpected_pre_write_error)), w')
         | (Inr decision, w') \<Rightarrow>
             (case dc_disposition decision of
                In_progress \<Rightarrow> reject e c ''conflicted'' in_progress_error w'
              | Replay \<Rightarrow>
                  (case restore_persisted_response (cx_command c) (dc_response decision) of
                     Inl _ \<Rightarrow> (Done (Returned (fail_with c unexpected_pre_write_error)), w')
                   | Inr r \<Rightarrow> append_or_fail e (write_event c ''replayed'' (Some r) None []) r w')
              | Reserved \<Rightarrow> (Preparing, w'))))"

text \<open>From the call to the first await.\<close>

definition start_step :: "env \<Rightarrow> write_context \<Rightarrow> world \<Rightarrow> stage \<times> world" where
  "start_step e c w =
    (let cmd = cx_command c in
     case validate_write_tool_definition (cx_definition c) of
       Inl ex \<Rightarrow> (Done (Raised ex), w)
     | Inr _ \<Rightarrow>
        (case (case cx_preflight_error c of Some err \<Rightarrow> Some err
               | None \<Rightarrow> gate_error (cx_binding c) (cx_definition c) (cx_snapshot c) cmd) of
           Some err \<Rightarrow> reject e c ''rejected'' err w
         | None \<Rightarrow>
            if wc_dry_run cmd then (Previewing, w)
            else (case wc_idempotency_key cmd of
                None \<Rightarrow> reject e c ''rejected'' missing_key_error w
              | Some key \<Rightarrow>
                  if blank key then reject e c ''rejected'' missing_key_error w
                  else begin_step e c key w)))"

text \<open>After \<open>prepare\<close> of a dry run.\<close>

definition preview_step ::
    "env \<Rightarrow> write_context \<Rightarrow> raw_prepared option callback \<Rightarrow> world \<Rightarrow> stage \<times> world" where
  "preview_step e c cb w =
    (case cb of
       Cancels \<Rightarrow> then_cancel (record_pre_write_failure e c cancelled_pre_write_error w)
     | Fails_odoo err \<Rightarrow> record_pre_write_failure e c err w
     | Fails_known _ \<Rightarrow> record_pre_write_failure e c unexpected_pre_write_error w
     | Fails \<Rightarrow> record_pre_write_failure e c unexpected_pre_write_error w
     | Gives raw \<Rightarrow>
        (case normalize_prepared raw of
           Inl _ \<Rightarrow> record_pre_write_failure e c unexpected_pre_write_error w
         | Inr prepared \<Rightarrow>
            (let r = prepared_response prepared (request_id_of c) (wc_company_id (cx_command c)) in
             case model_dump r of
               Inl _ \<Rightarrow> record_pre_write_failure e c unexpected_pre_write_error w
             | Inr _ \<Rightarrow> append_or_fail e
                 (write_event c (if pw_needs_input prepared then ''needs_input'' else ''previewed'')
                    (Some r) None []) r w)))"

text \<open>After \<open>prepare\<close> of an execution.\<close>

definition prepare_step ::
    "env \<Rightarrow> write_context \<Rightarrow> raw_prepared option callback \<Rightarrow> world \<Rightarrow> stage \<times> world" where
  "prepare_step e c cb w =
    (let key = key_of c in
     case cb of
       Cancels \<Rightarrow> then_cancel (finish_pre_write_failure e c key cancelled_pre_write_error None w)
     | Fails_odoo err \<Rightarrow> finish_pre_write_failure e c key err None w
     | Fails_known _ \<Rightarrow> finish_pre_write_failure e c key unexpected_pre_write_error None w
     | Fails \<Rightarrow> finish_pre_write_failure e c key unexpected_pre_write_error None w
     | Gives raw \<Rightarrow>
        (case normalize_prepared raw of
           Inl _ \<Rightarrow> finish_pre_write_failure e c key unexpected_pre_write_error None w
         | Inr prepared \<Rightarrow>
            (let r = prepared_response prepared (request_id_of c) (wc_company_id (cx_command c)) in
             case model_dump r of
               Inl _ \<Rightarrow> finish_pre_write_failure e c key unexpected_pre_write_error None w
             | Inr _ \<Rightarrow>
                if pw_needs_input prepared
                then finish_and_return e c key IS_failed ''needs_input'' r (Some prepared) w
                else (Validating prepared, w))))"

text \<open>After \<open>validate_current_state\<close>.\<close>

definition validate_step ::
    "env \<Rightarrow> write_context \<Rightarrow> prepared_write \<Rightarrow> unit callback \<Rightarrow> world \<Rightarrow> stage \<times> world" where
  "validate_step e c prepared cb w =
    (let key = key_of c in
     case cb of
       Cancels \<Rightarrow> then_cancel (finish_pre_write_failure e c key cancelled_pre_write_error (Some prepared) w)
     | Fails_odoo err \<Rightarrow> finish_pre_write_failure e c key err (Some prepared) w
     | Fails_known _ \<Rightarrow> finish_pre_write_failure e c key unexpected_pre_write_error (Some prepared) w
     | Fails \<Rightarrow> finish_pre_write_failure e c key unexpected_pre_write_error (Some prepared) w
     | Gives _ \<Rightarrow> (Executing prepared, w))"

text \<open>After \<open>execute\<close>: a completed mutation is persisted before it is reported.\<close>

definition finish_success ::
    "env \<Rightarrow> write_context \<Rightarrow> string \<Rightarrow> prepared_write \<Rightarrow> applied_write \<Rightarrow> response \<Rightarrow> world \<Rightarrow> unit res \<times> world" where
  "finish_success e c key prepared applied r w =
    (case write_event c ''succeeded'' (Some r) (Some (pw_proposed_action prepared)) (aw_record_refs applied) of
       Inl ex \<Rightarrow> (Inl ex, w)
     | Inr ev \<Rightarrow>
        (case response_mapping_for_persistence (cx_command c) r of
           Inl ex \<Rightarrow> (Inl ex, w)
         | Inr m \<Rightarrow> do_finish e ev key IS_succeeded (Some m) w))"

definition execute_step ::
    "env \<Rightarrow> write_context \<Rightarrow> prepared_write \<Rightarrow> applied_write option callback \<Rightarrow> world \<Rightarrow> stage \<times> world" where
  "execute_step e c prepared cb w =
    (let key = key_of c in
     case cb of
       Cancels \<Rightarrow> then_cancel (finalize_unknown e c key prepared w)
     | Fails_known err \<Rightarrow> finish_known_write_failure e c key err prepared w
     | Fails_odoo _ \<Rightarrow> finalize_unknown e c key prepared w
     | Fails \<Rightarrow> finalize_unknown e c key prepared w
     | Gives None \<Rightarrow> finalize_unknown e c key prepared w
     | Gives (Some applied) \<Rightarrow>
        (let r = applied_response prepared applied (request_id_of c) (wc_company_id (cx_command c)) in
         case finish_success e c key prepared applied r w of
           (Inl _, w') \<Rightarrow> (Done (Returned (unknown_response c prepared)), w')
         | (Inr _, w') \<Rightarrow> (Done (Returned r), w')))"

section \<open>The whole call\<close>

record callbacks =
  cb_prepare :: "raw_prepared option callback"
  cb_validate :: "unit callback"
  cb_execute :: "applied_write option callback"
  cb_others :: "nat \<Rightarrow> journal_op list"   \<comment> \<open>what other requests do during the n-th await\<close>

definition await :: "env \<Rightarrow> journal_op list \<Rightarrow> world \<Rightarrow> world" where
  "await e ops w = w\<lparr>w_db := fold (run_op (e_hash e)) ops (w_db w)\<rparr>"

fun advance :: "env \<Rightarrow> write_context \<Rightarrow> callbacks \<Rightarrow> stage \<times> world \<Rightarrow> stage \<times> world" where
  "advance e c cbs (Previewing, w) = preview_step e c (cb_prepare cbs) (await e (cb_others cbs 0) w)"
| "advance e c cbs (Preparing, w) = prepare_step e c (cb_prepare cbs) (await e (cb_others cbs 0) w)"
| "advance e c cbs (Validating p, w) = validate_step e c p (cb_validate cbs) (await e (cb_others cbs 1) w)"
| "advance e c cbs (Executing p, w) = execute_step e c p (cb_execute cbs) (await e (cb_others cbs 2) w)"
| "advance e c cbs (Done r, w) = (Done r, w)"

definition run :: "env \<Rightarrow> write_context \<Rightarrow> callbacks \<Rightarrow> world \<Rightarrow> stage \<times> world" where
  "run e c cbs w = advance e c cbs (advance e c cbs (advance e c cbs (start_step e c w)))"

section \<open>A stretch performs journal operations of its own request\<close>

definition slot_of_request :: "write_context \<Rightarrow> string \<times> string \<times> string" where
  "slot_of_request c = (bd_tenant_id (cx_binding c), td_name (cx_definition c), key_of c)"

definition own_ops :: "env \<Rightarrow> write_context \<Rightarrow> bool \<Rightarrow> world \<Rightarrow> world \<Rightarrow> bool" where
  "own_ops e c finishing w w' \<longleftrightarrow>
     (\<exists>ops. w_db w' = fold (run_op (e_hash e)) ops (w_db w)
       \<and> (\<forall>op \<in> set ops. op_owner op = request_id_of c \<and> (is_finish op \<longrightarrow> finishing)))"

lemma own_ops_refl [intro, simp]: "own_ops e c b w w"
  unfolding own_ops_def by (rule exI [of _ "[]"]) simp

lemma own_ops_trans [trans]: "own_ops e c b w w1 \<Longrightarrow> own_ops e c b w1 w2 \<Longrightarrow> own_ops e c b w w2"
  unfolding own_ops_def
proof (elim exE conjE)
  fix ops ops'
  assume "w_db w1 = fold (run_op (e_hash e)) ops (w_db w)" "w_db w2 = fold (run_op (e_hash e)) ops' (w_db w1)"
    "\<forall>op \<in> set ops. op_owner op = request_id_of c \<and> (is_finish op \<longrightarrow> b)"
    "\<forall>op \<in> set ops'. op_owner op = request_id_of c \<and> (is_finish op \<longrightarrow> b)"
  then show "\<exists>ops. w_db w2 = fold (run_op (e_hash e)) ops (w_db w)
       \<and> (\<forall>op \<in> set ops. op_owner op = request_id_of c \<and> (is_finish op \<longrightarrow> b))"
    by (intro exI [of _ "ops @ ops'"]) auto
qed

lemma own_ops_weaken: "own_ops e c False w w' \<Longrightarrow> own_ops e c b w w'"
  by (auto simp: own_ops_def)

lemma write_event_ids:
  assumes "write_event c st r pa ar = Inr ev"
  shows "ev_request_id ev = request_id_of c" "ev_tenant_id ev = bd_tenant_id (cx_binding c)"
    "ev_tool_name ev = td_name (cx_definition c)" "ev_final_status ev = st"
    "ev_company_id ev = (if wc_company_id (cx_command c) > 0 then Some (wc_company_id (cx_command c)) else None)"
    "ev_dry_run ev = wc_dry_run (cx_command c)"
  using assms by (auto simp: write_event_def Let_def)

lemma do_append_own:
  "do_append e ev w = (r, w') \<Longrightarrow> ev_request_id ev = request_id_of c \<Longrightarrow> own_ops e c b w w'"
  unfolding own_ops_def do_append_def Let_def
  by (rule exI [of _ "[Append (e_clock e (2 * w_tick w)) ev (e_fault e (w_tick w))]"])
    (auto split: prod.splits)

lemma do_begin_own:
  "do_begin e ev key payload w = (r, w') \<Longrightarrow> ev_request_id ev = request_id_of c \<Longrightarrow> own_ops e c b w w'"
  unfolding own_ops_def do_begin_def Let_def
  by (rule exI [of _ "[Begin (e_clock e (2 * w_tick w)) (e_clock e (2 * w_tick w + 1)) ev key payload
        (e_fault e (w_tick w))]"]) (auto split: prod.splits)

lemma do_finish_own:
  "do_finish e ev key st m w = (r, w') \<Longrightarrow> ev_request_id ev = request_id_of c \<Longrightarrow> own_ops e c True w w'"
  unfolding own_ops_def do_finish_def Let_def
  by (rule exI [of _ "[Finish (e_clock e (2 * w_tick w)) (e_clock e (2 * w_tick w + 1)) ev key st m
        (e_fault e (w_tick w))]"]) (auto split: prod.splits)

lemma append_or_fail_own:
  assumes "append_or_fail e event r w = (s, w')" "\<And>ev. event = Inr ev \<Longrightarrow> ev_request_id ev = request_id_of c"
  shows "own_ops e c b w w' \<and> (\<exists>res. s = Done res)"
proof (cases event)
  case (Inr ev)
  obtain q w1 where a: "do_append e ev w = (q, w1)" by (rule prod.exhaust)
  with assms(1) Inr have "w' = w1" "\<exists>res. s = Done res"
    by (auto simp: append_or_fail_def split: sum.splits)
  with do_append_own [OF a assms(2) [OF Inr]] show ?thesis by simp
qed (use assms in \<open>auto simp: append_or_fail_def\<close>)

lemma reject_own: "reject e c st err w = (s, w') \<Longrightarrow> own_ops e c b w w' \<and> (\<exists>res. s = Done res)"
  unfolding reject_def by (erule append_or_fail_own) (rule write_event_ids)

lemma finish_after_attempt_own:
  assumes "finish_after_attempt e c key state st r p w = (q, w')"
  shows "own_ops e c True w w'"
  using assms
  by (auto simp: finish_after_attempt_def split: sum.splits intro: do_finish_own dest: write_event_ids)

lemma finish_and_return_own:
  "finish_and_return e c key state st r p w = (s, w') \<Longrightarrow> own_ops e c True w w' \<and> s = Done (Returned r)"
  unfolding finish_and_return_def
  by (cases "finish_after_attempt e c key state st r p w") (auto dest: finish_after_attempt_own)

lemma finish_success_own:
  "finish_success e c key p a r w = (q, w') \<Longrightarrow> own_ops e c True w w'"
  by (auto simp: finish_success_def split: sum.splits intro: do_finish_own dest: write_event_ids)

lemma then_cancel_own: "then_cancel (s, w) = (s', w') \<Longrightarrow> w' = w \<and> (\<exists>res. s' = Done res)"
  by (cases s) (auto simp: then_cancel_def split: run_result.splits)

lemmas outcome_defs = record_pre_write_failure_def finish_pre_write_failure_def
  finish_known_write_failure_def finalize_unknown_def

lemma begin_step_own:
  assumes "begin_step e c key w = (s, w')"
  shows "own_ops e c False w w' \<and> (s = Preparing \<or> (\<exists>res. s = Done res))"
proof (cases "write_event c ''attempted'' None
            (Some [(''tool'', PStr (td_name (cx_definition c))),
                   (''risk_level'', PStr (risk_text (td_risk_level (cx_definition c))))]) []")
  case (Inl ex)
  with assms show ?thesis by (auto simp: begin_step_def)
next
  case (Inr ev)
  obtain r w1 where b: "do_begin e ev key (wc_request_payload (cx_command c)) w = (r, w1)" by (rule prod.exhaust)
  have w1: "own_ops e c False w w1" by (rule do_begin_own [OF b write_event_ids(1) [OF Inr]])
  have rej: "own_ops e c False w w' \<and> (\<exists>res. s = Done res)" if "reject e c st err w1 = (s, w')" for st err
    using reject_own [OF that, of False] own_ops_trans [OF w1] by blast
  have app: "own_ops e c False w w' \<and> (\<exists>res. s = Done res)"
    if "append_or_fail e (write_event c ''replayed'' (Some q) None []) q w1 = (s, w')" for q
    using append_or_fail_own [OF that, of c False] write_event_ids(1) own_ops_trans [OF w1] by blast
  show ?thesis
    using assms Inr b w1 rej app
    by (auto simp: begin_step_def split: sum.splits if_splits disposition.splits)
qed

lemma start_step_own:
  assumes "start_step e c w = (s, w')"
  shows "own_ops e c False w w' \<and> (s \<in> {Previewing, Preparing} \<or> (\<exists>res. s = Done res))"
  using assms unfolding start_step_def Let_def
  by (auto split: sum.splits option.splits if_splits dest: reject_own [where b = False] begin_step_own)

lemma preview_step_own:
  assumes "preview_step e c cb w = (s, w')"
  shows "own_ops e c False w w' \<and> (\<exists>res. s = Done res)"
proof -
  have rec: "own_ops e c False w w' \<and> (\<exists>res. s = Done res)" if "record_pre_write_failure e c err w = (s, w')" for err
    using that unfolding record_pre_write_failure_def by (rule reject_own)
  have can: "own_ops e c False w w' \<and> (\<exists>res. s = Done res)"
    if "then_cancel (record_pre_write_failure e c err w) = (s, w')" for err
  proof -
    obtain s1 w1 where r: "record_pre_write_failure e c err w = (s1, w1)" by (rule prod.exhaust)
    with that then_cancel_own have "w' = w1" "\<exists>res. s = Done res" by auto
    with reject_own [OF r [unfolded record_pre_write_failure_def]] show ?thesis by simp
  qed
  have app: "own_ops e c False w w' \<and> (\<exists>res. s = Done res)"
    if "append_or_fail e (write_event c st r pa ar) q w = (s, w')" for st r pa ar q
    using that by (rule append_or_fail_own) (rule write_event_ids)
  show ?thesis
    using assms rec can app unfolding preview_step_def Let_def
    by (auto split: callback.splits sum.splits)
qed

lemma then_cancel_finish_own:
  assumes "then_cancel (finish_and_return e c key state st r p w) = (s, w')"
  shows "own_ops e c True w w' \<and> s = Done Cancelled"
proof -
  obtain s1 w1 where f: "finish_and_return e c key state st r p w = (s1, w1)" by (rule prod.exhaust)
  from finish_and_return_own [OF f] assms f show ?thesis by (auto simp: then_cancel_def)
qed

lemma prepare_step_own:
  assumes "prepare_step e c cb w = (s, w')"
  shows "own_ops e c True w w' \<and> ((\<exists>p. s = Validating p) \<and> w' = w \<or> (\<exists>res. s = Done res))"
  using assms unfolding prepare_step_def Let_def outcome_defs
  by (auto split: callback.splits sum.splits if_splits
      dest: finish_and_return_own then_cancel_finish_own)

lemma validate_step_own:
  assumes "validate_step e c p cb w = (s, w')"
  shows "own_ops e c True w w' \<and> (s = Executing p \<and> w' = w \<and> (\<exists>u. cb = Gives u) \<or> (\<exists>res. s = Done res))"
  using assms unfolding validate_step_def Let_def outcome_defs
  by (auto split: callback.splits dest: finish_and_return_own then_cancel_finish_own)

lemma execute_step_own:
  assumes "execute_step e c p cb w = (s, w')"
  shows "own_ops e c True w w' \<and> (\<exists>res. s = Done res)"
  using assms unfolding execute_step_def Let_def outcome_defs
  by (auto split: callback.splits sum.splits option.splits prod.splits
      dest: finish_and_return_own then_cancel_finish_own finish_success_own)

section \<open>The slot during a call\<close>

lemma do_begin_journal:
  assumes "do_begin e ev key payload w = (r, w')"
  shows "\<exists>f now now'. journal_begin (e_hash e) f now now' ev key payload (w_db w) = (r, w_db w')"
  using assms unfolding do_begin_def Let_def by (auto split: prod.splits) blast

lemma own_ops_ok: "own_ops e c b w w' \<Longrightarrow> idempotency_ok (w_db w) \<Longrightarrow> idempotency_ok (w_db w')"
  unfolding own_ops_def by (auto intro: journal.run_ok)

lemma begin_step_preparing:
  assumes "begin_step e c key w = (Preparing, w')" "idempotency_ok (w_db w)"
  shows "slot_holder (w_db w) (bd_tenant_id (cx_binding c), td_name (cx_definition c), key) = None
    \<and> \<not> slot_unknown (w_db w) (bd_tenant_id (cx_binding c), td_name (cx_definition c), key)
    \<and> slot_holder (w_db w') (bd_tenant_id (cx_binding c), td_name (cx_definition c), key) = Some (request_id_of c)
    \<and> (\<exists>row. audit_log (w_db w') = audit_log (w_db w) @ [row] \<and> al_request_id row = request_id_of c
        \<and> al_tenant_id row = bd_tenant_id (cx_binding c) \<and> al_final_status row = ''attempted'')"
proof -
  let ?s = "(bd_tenant_id (cx_binding c), td_name (cx_definition c), key)"
  from assms(1) obtain ev dec where ev: "write_event c ''attempted'' None
            (Some [(''tool'', PStr (td_name (cx_definition c))),
                   (''risk_level'', PStr (risk_text (td_risk_level (cx_definition c))))]) [] = Inr ev"
    and b: "do_begin e ev key (wc_request_payload (cx_command c)) w = (Inr dec, w')"
    and dec: "dc_disposition dec = Reserved"
    by (auto simp: begin_step_def split: sum.splits prod.splits disposition.splits if_splits
        dest!: reject_own append_or_fail_own [OF _ write_event_ids(1)])
  note ids = write_event_ids [OF ev]
  from do_begin_journal [OF b] obtain f now now' where
    j: "journal_begin (e_hash e) f now now' ev key (wc_request_payload (cx_command c)) (w_db w) = (Inr dec, w_db w')"
    by blast
  let ?op = "Begin now now' ev key (wc_request_payload (cx_command c)) f"
  have grant: "grants_op (e_hash e) ?op (w_db w)" using j dec by simp
  have "run_op (e_hash e) ?op (w_db w) = w_db w'" "op_slot ?op = ?s" "op_owner ?op = request_id_of c"
    using j ids by simp_all
  with grant_effect [OF assms(2) grant] have "slot_holder (w_db w) ?s = None" "\<not> slot_unknown (w_db w) ?s"
    "slot_holder (w_db w') ?s = Some (request_id_of c)" by simp_all
  moreover have "w_db w' \<noteq> w_db w \<or> dc_disposition dec \<noteq> Reserved"
    using calculation by auto
  ultimately show ?thesis
    using begin_atomic [OF j assms(2)] dec ids by auto
qed

lemma start_step_preparing:
  assumes "start_step e c w = (Preparing, w')"
  shows "validate_write_tool_definition (cx_definition c) = Inr () \<and> cx_preflight_error c = None
    \<and> gate_error (cx_binding c) (cx_definition c) (cx_snapshot c) (cx_command c) = None
    \<and> \<not> wc_dry_run (cx_command c) \<and> wc_idempotency_key (cx_command c) = Some (key_of c)
    \<and> \<not> blank (key_of c) \<and> begin_step e c (key_of c) w = (Preparing, w')"
  using assms unfolding start_step_def Let_def key_of_def
  by (auto split: sum.splits option.splits if_splits dest!: reject_own)

lemma gate_open:
  assumes "gate_error b td sn cmd = None"
  shows "0 < wc_company_id cmd \<and> td_required_permission td \<in> set (bd_permissions b)
    \<and> wc_company_id cmd \<in> set (bd_allowed_company_ids b)
    \<and> (\<forall>cap. td_required_capability td = Some cap \<longrightarrow> map_of (sn_modules sn) cap = Some True)
    \<and> set (keys (wc_request_payload cmd)) \<inter> set reserved_write_keys = {}"
  using assms
  by (auto simp: gate_error_def list_ex_iff get_or_def split: if_splits option.splits)

text \<open>The audit log only grows.\<close>

lemma append_prefix: "append_in_transaction H now ev d = Inr (rec, d') \<Longrightarrow> prefix (audit_log d) (audit_log d')"
  using append_row by fastforce

lemma run_op_audit: "prefix (audit_log d) (audit_log (run_op H op d))" if "idempotency_ok d"
proof (cases op)
  case (Begin now now' ev key payload f)
  obtain r d' where "journal_begin H f now now' ev key payload d = (r, d')" by (rule prod.exhaust)
  with begin_atomic [OF this that] Begin show ?thesis by auto
next
  case (Finish now now' ev key state response f)
  obtain r d' where "journal_finish H f now now' ev key state response d = (r, d')" by (rule prod.exhaust)
  with finish_atomic [OF this that] Finish show ?thesis by auto
next
  case (Append now ev f)
  then show ?thesis
    by (auto simp: append_audit_def transaction_def dest: append_prefix split: db_fault.splits sum.splits)
qed

lemma run_ops_audit: "idempotency_ok d \<Longrightarrow> prefix (audit_log d) (audit_log (fold (run_op H) ops d))"
proof (induction ops arbitrary: d)
  case (Cons op ops)
  have "prefix (audit_log (run_op H op d)) (audit_log (fold (run_op H) ops (run_op H op d)))"
    by (intro Cons.IH journal.step_ok Cons.prems)
  with run_op_audit [OF Cons.prems, of H op] show ?case by (simp add: prefix_order.order_trans)
qed simp

text \<open>What other requests do never takes the slot away: request identifiers are unique.\<close>

definition others_distinct :: "write_context \<Rightarrow> callbacks \<Rightarrow> bool" where
  "others_distinct c cbs \<longleftrightarrow> (\<forall>n. \<forall>op \<in> set (cb_others cbs n). op_owner op \<noteq> request_id_of c)"

lemma await_ok: "idempotency_ok (w_db w) \<Longrightarrow> idempotency_ok (w_db (await e ops w))"
  by (simp add: await_def journal.run_ok)

lemma await_holder:
  assumes "idempotency_ok (w_db w)" "slot_holder (w_db w) s = Some (request_id_of c)" "others_distinct c cbs"
  shows "slot_holder (w_db (await e (cb_others cbs n) w)) s = Some (request_id_of c)"
  using assms(3) journal.run_holder [OF assms(1,2), of "cb_others cbs n"]
  by (auto simp: await_def others_distinct_def)

lemma await_audit: "idempotency_ok (w_db w) \<Longrightarrow> prefix (audit_log (w_db w)) (audit_log (w_db (await e ops w)))"
  by (simp add: await_def run_ops_audit)

lemma prepare_step_validating:
  "prepare_step e c cb w = (Validating p, w') \<Longrightarrow>
    w' = w \<and> \<not> pw_needs_input p \<and> (\<exists>raw. cb = Gives raw \<and> normalize_prepared raw = Inr p)"
  unfolding prepare_step_def Let_def outcome_defs
  by (auto split: callback.splits sum.splits if_splits
      dest!: finish_and_return_own then_cancel_finish_own)

lemma preview_not_validating: "preview_step e c cb w = (s, w') \<Longrightarrow> \<exists>res. s = Done res"
  using preview_step_own by blast

text \<open>The call up to the moment \<open>execute\<close> is invoked.\<close>

lemma reaches_execute:
  assumes "advance e c cbs (advance e c cbs (start_step e c w)) = (Executing p, w')"
  obtains w1 where "start_step e c w = (Preparing, w1)"
    and "prepare_step e c (cb_prepare cbs) (await e (cb_others cbs 0) w1) = (Validating p, await e (cb_others cbs 0) w1)"
    and "cb_validate cbs = Gives ()" "w' = await e (cb_others cbs 1) (await e (cb_others cbs 0) w1)"
proof -
  obtain s1 w1 where s1: "start_step e c w = (s1, w1)" by (rule prod.exhaust)
  from start_step_own [OF s1] consider "s1 = Previewing" | "s1 = Preparing" | res where "s1 = Done res" by blast
  then show thesis
  proof cases
    case 1
    obtain s2 w2 where s2: "preview_step e c (cb_prepare cbs) (await e (cb_others cbs 0) w1) = (s2, w2)"
      by (rule prod.exhaust)
    with preview_not_validating [OF s2] assms s1 1 show thesis by auto
  next
    case 2
    obtain s2 w2 where s2: "prepare_step e c (cb_prepare cbs) (await e (cb_others cbs 0) w1) = (s2, w2)"
      by (rule prod.exhaust)
    from prepare_step_own [OF s2] show thesis
    proof (elim conjE disjE exE)
      fix q assume q: "s2 = Validating q" "w2 = await e (cb_others cbs 0) w1"
      obtain s3 w3 where s3: "validate_step e c q (cb_validate cbs) (await e (cb_others cbs 1) w2) = (s3, w3)"
        by (rule prod.exhaust)
      with assms s1 2 s2 q have "s3 = Executing p" "w3 = w'" by auto
      with validate_step_own [OF s3] have "q = p" "cb_validate cbs = Gives ()" "w' = await e (cb_others cbs 1) w2"
        by auto
      with s1 2 s2 q show thesis by (intro that) auto
    qed (use assms s1 2 s2 in auto)
  next
    case 3
    with assms s1 show thesis by simp
  qed
qed

section \<open>Outcomes\<close>

lemma do_finish_journal:
  assumes "do_finish e ev key st m w = (r, w')"
  shows "\<exists>f now now'. journal_finish (e_hash e) f now now' ev key st m (w_db w) = (r, w_db w')"
  using assms unfolding do_finish_def Let_def by (auto split: prod.splits) blast

text \<open>What a finishing call leaves in the slot its request held, whether or not it raised.\<close>

lemma do_finish_slot:
  assumes "do_finish e ev (key_of c) st (Some m) w = (r, w')" "idempotency_ok (w_db w)"
    and "ev_request_id ev = request_id_of c" "ev_tenant_id ev = bd_tenant_id (cx_binding c)"
    "ev_tool_name ev = td_name (cx_definition c)"
    and "slot_holder (w_db w) (slot_of_request c) = Some (request_id_of c)"
  shows "w_db w' = w_db w \<and> r \<noteq> Inr () \<or>
    (\<exists>q. slot_row (bd_tenant_id (cx_binding c)) (td_name (cx_definition c)) (key_of c) (w_db w') = Some q
      \<and> ik_state q = st \<and> st \<noteq> IS_in_progress \<and> ik_response_json q = Some (json_text (PDict m)))"
proof -
  from do_finish_journal [OF assms(1)] obtain f now now' where
    j: "journal_finish (e_hash e) f now now' ev (key_of c) st (Some m) (w_db w) = (r, w_db w')" by blast
  from finish_atomic [OF j assms(2)] assms(3,4,5) show ?thesis by (auto simp del: json_text.simps)
qed

lemma finish_after_attempt_slot:
  assumes "finish_after_attempt e c (key_of c) st final r p w = (q, w')" "idempotency_ok (w_db w)"
    and "slot_holder (w_db w) (slot_of_request c) = Some (request_id_of c)"
  shows "w_db w' = w_db w \<or>
    (\<exists>row. slot_row (bd_tenant_id (cx_binding c)) (td_name (cx_definition c)) (key_of c) (w_db w') = Some row
      \<and> ik_state row = st)"
proof -
  consider "w' = w" | ev m where "write_event c final (Some r) (map_option pw_proposed_action p) [] = Inr ev"
      "do_finish e ev (key_of c) st (Some m) w = (q, w')"
    using assms(1) by (auto simp: finish_after_attempt_def split: sum.splits)
  then show ?thesis
  proof cases
    case 2
    from do_finish_slot [OF 2(2) assms(2) write_event_ids(1,2,3) [OF 2(1)] assms(3)]
    show ?thesis by auto
  qed simp
qed

lemma finish_success_slot:
  assumes "finish_success e c (key_of c) p a r w = (q, w')" "idempotency_ok (w_db w)"
    and "slot_holder (w_db w) (slot_of_request c) = Some (request_id_of c)"
  shows "w_db w' = w_db w \<and> q \<noteq> Inr () \<or>
    (\<exists>row m. slot_row (bd_tenant_id (cx_binding c)) (td_name (cx_definition c)) (key_of c) (w_db w') = Some row
      \<and> ik_state row = IS_succeeded \<and> response_mapping_for_persistence (cx_command c) r = Inr m
      \<and> ik_response_json row = Some (json_text (PDict m)))"
proof -
  consider "w' = w" "q \<noteq> Inr ()" | ev m where
      "write_event c ''succeeded'' (Some r) (Some (pw_proposed_action p)) (aw_record_refs a) = Inr ev"
      "response_mapping_for_persistence (cx_command c) r = Inr m"
      "do_finish e ev (key_of c) IS_succeeded (Some m) w = (q, w')"
    using assms(1) by (auto simp: finish_success_def split: sum.splits)
  then show ?thesis
  proof cases
    case 2
    from do_finish_slot [OF 2(3) assms(2) write_event_ids(1,2,3) [OF 2(1)] assms(3)] 2(2)
    show ?thesis by (auto simp del: json_text.simps)
  qed simp
qed

text \<open>The state of a request's slot after its mutation was attempted without a certain outcome: still
  held, or recorded as unknown.\<close>

definition slot_blocked :: "db \<Rightarrow> write_context \<Rightarrow> bool" where
  "slot_blocked d c \<longleftrightarrow> slot_holder d (slot_of_request c) = Some (request_id_of c)
     \<or> slot_unknown d (slot_of_request c)"

definition slot_succeeded :: "db \<Rightarrow> write_context \<Rightarrow> bool" where
  "slot_succeeded d c \<longleftrightarrow>
    (case slot_row (bd_tenant_id (cx_binding c)) (td_name (cx_definition c)) (key_of c) d of
       None \<Rightarrow> False | Some row \<Rightarrow> ik_state row = IS_succeeded)"

lemma blocked_stays:
  assumes "idempotency_ok d" "slot_blocked d c" "\<forall>op \<in> set ops. op_owner op \<noteq> request_id_of c"
  shows "slot_blocked (fold (run_op H) ops d) c"
  using assms journal.run_holder [OF assms(1), of "slot_of_request c" "request_id_of c" ops]
    journal.run_stuck [OF assms(1), of "slot_of_request c" H ops]
  by (auto simp: slot_blocked_def)

lemma blocked_never_granted:
  assumes "idempotency_ok d" "slot_blocked d c" "grants_op H op d"
  shows "op_slot op \<noteq> slot_of_request c"
  using grant_effect [OF assms(1,3)] assms(2) by (auto simp: slot_blocked_def)

lemma finalize_unknown_blocked:
  assumes "finalize_unknown e c (key_of c) p w = (s, w')" "idempotency_ok (w_db w)"
    and "slot_holder (w_db w) (slot_of_request c) = Some (request_id_of c)"
  shows "slot_blocked (w_db w') c \<and> s = Done (Returned (unknown_response c p))"
proof -
  obtain q w1 where f: "finish_after_attempt e c (key_of c) IS_unknown ''unknown'' (unknown_response c p) (Some p) w = (q, w1)"
    by (rule prod.exhaust)
  with assms(1) have "w' = w1" "s = Done (Returned (unknown_response c p))"
    by (simp_all add: finalize_unknown_def finish_and_return_def)
  with finish_after_attempt_slot [OF f assms(2,3)] assms(3) show ?thesis
    by (auto simp: slot_blocked_def slot_unknown_def slot_of_request_def)
qed

text \<open>Every way \<open>execute\<close> may end.\<close>

lemma execute_step_cases:
  assumes "execute_step e c p cb w = (s, w')" "idempotency_ok (w_db w)"
    and "slot_holder (w_db w) (slot_of_request c) = Some (request_id_of c)"
  shows "(\<exists>a r. cb = Gives (Some a) \<and> s = Done (Returned r)
        \<and> r = applied_response p a (request_id_of c) (wc_company_id (cx_command c)) \<and> slot_succeeded (w_db w') c)
    \<or> (\<exists>a. cb = Gives (Some a) \<and> s = Done (Returned (unknown_response c p))
        \<and> (slot_blocked (w_db w') c \<or> slot_succeeded (w_db w') c))
    \<or> (\<exists>err. cb = Fails_known err \<and> s = Done (Returned (failure err (request_id_of c)
        (wc_company_id (cx_command c)) Known (Some p))))
    \<or> (cb = Cancels \<and> s = Done Cancelled \<and> slot_blocked (w_db w') c)
    \<or> (cb \<in> {Gives None, Fails} \<union> range Fails_odoo \<and> s = Done (Returned (unknown_response c p))
        \<and> slot_blocked (w_db w') c)"
proof -
  have unk: "slot_blocked (w_db w') c \<and> s = Done (Returned (unknown_response c p))"
    if "finalize_unknown e c (key_of c) p w = (s, w')"
    using finalize_unknown_blocked [OF that assms(2,3)] .
  show ?thesis
  proof (cases cb)
    case (Gives x)
    show ?thesis
    proof (cases x)
      case None
      with Gives assms(1) unk show ?thesis by (simp add: execute_step_def)
    next
      case (Some a)
      let ?r = "applied_response p a (request_id_of c) (wc_company_id (cx_command c))"
      obtain q w1 where f: "finish_success e c (key_of c) p a ?r w = (q, w1)" by (rule prod.exhaust)
      from finish_success_slot [OF f assms(2,3)]
      have sl: "w_db w1 = w_db w \<and> q \<noteq> Inr () \<or> slot_succeeded (w_db w1) c"
        by (auto simp: slot_succeeded_def)
      from Gives Some f assms(1) have
        "w' = w1 \<and> s = Done (Returned (if q = Inr () then ?r else unknown_response c p))"
        by (auto simp: execute_step_def Let_def split: sum.splits)
      with sl Gives Some assms(3) show ?thesis
        by (cases "q = Inr ()") (auto simp: slot_blocked_def)
    qed
  next
    case Cancels
    obtain s1 w1 where f: "finalize_unknown e c (key_of c) p w = (s1, w1)" by (rule prod.exhaust)
    from finalize_unknown_blocked [OF f assms(2,3)] Cancels f assms(1) show ?thesis
      by (auto simp: execute_step_def then_cancel_def)
  next
    case (Fails_known err)
    with assms(1) show ?thesis
      by (auto simp: execute_step_def finish_known_write_failure_def finish_and_return_def)
  next
    case (Fails_odoo err)
    with assms(1) unk show ?thesis by (simp add: execute_step_def)
  next
    case Fails
    with assms(1) unk show ?thesis by (simp add: execute_step_def)
  qed
qed

section \<open>When a request is granted its slot\<close>

text \<open>The identity of a request, as its binding, registry and payload validation guarantee it.\<close>

definition context_ok :: "write_context \<Rightarrow> bool" where
  "context_ok c \<longleftrightarrow>
     list_all (\<lambda>s. \<not> blank s) [request_id_of c, bd_tenant_id (cx_binding c), td_name (cx_definition c),
       td_version (cx_definition c), cx_module c, bd_authenticated_subject (cx_binding c),
       bd_mcp_client (cx_binding c)]
   \<and> serialisable (PDict (wc_request_payload (cx_command c))) \<and> wf_val (PDict (wc_request_payload (cx_command c)))
   \<and> (\<forall>m. wc_audit_payload (cx_command c) = Some m \<longrightarrow> serialisable (PDict m) \<and> wf_val (PDict m))"

lemma dict_update_ok:
  assumes "serialisable (PDict m)" "wf_val (PDict m)" "\<forall>(k, v) \<in> set kvs. serialisable v \<and> wf_val v"
  shows "serialisable (PDict (dict_update m kvs)) \<and> wf_val (PDict (dict_update m kvs))"
proof -
  have "distinct (keys (dict_update m kvs))" using assms(2) by (simp add: distinct_dict_update)
  moreover have "\<forall>(k, v) \<in> set (dict_update m kvs). serialisable v \<and> wf_val v"
    using assms set_dict_update [of m kvs] by (fastforce simp: list_all_iff)
  ultimately show ?thesis by (auto simp: list_all_iff)
qed

lemma event_input_ok:
  assumes "context_ok c"
  shows "serialisable (PDict (event_input_payload (cx_command c) st r))
    \<and> wf_val (PDict (event_input_payload (cx_command c) st r))"
proof (cases "wc_audit_payload (cx_command c)")
  case None
  have "\<forall>(k, v) \<in> set [(''company_id'', PInt (wc_company_id (cx_command c))),
      (''dry_run'', PBool (wc_dry_run (cx_command c))),
      (''idempotency_key'', opt_str (wc_idempotency_key (cx_command c)))]. serialisable v \<and> wf_val v"
    by (simp add: opt_str_def split: option.split)
  then show ?thesis
    using assms None unfolding event_input_payload_def context_ok_def
    by (simp only: option.case) (rule dict_update_ok, blast+)
next
  case (Some m)
  then show ?thesis
    using assms unfolding event_input_payload_def context_ok_def Let_def
    by (simp only: option.case) (rule dict_update_ok, auto simp del: serialisable.simps(3) wf_val.simps(3))
qed

definition attempt_action :: "write_context \<Rightarrow> pymap" where
  "attempt_action c = [(''tool'', PStr (td_name (cx_definition c))),
     (''risk_level'', PStr (risk_text (td_risk_level (cx_definition c))))]"

lemma attempted_event:
  assumes "context_ok c" "0 < wc_company_id (cx_command c)"
  shows "\<exists>ev. write_event c ''attempted'' None (Some (attempt_action c)) [] = Inr ev
    \<and> append_guard ev = Inr () \<and> event_serialisable ev \<and> event_wf ev
    \<and> ev_company_id ev = Some (wc_company_id (cx_command c))"
proof -
  obtain ev where ev: "write_event c ''attempted'' None (Some (attempt_action c)) [] = Inr ev"
    by (simp add: write_event_def Let_def)
  obtain k where k: "filtered_mapping (Some (attempt_action c)) (wc_retained_proposed_action_keys (cx_command c)) = Some k"
    "set k \<subseteq> set (attempt_action c)" "distinct (keys k)"
    by (cases "wc_retained_proposed_action_keys (cx_command c)")
      (auto simp: filtered_mapping_def attempt_action_def keys_def)
  have act: "ev_proposed_action ev = Some k" "ev_actual_result ev = None"
    "ev_input_payload ev = event_input_payload (cx_command c) ''attempted'' None"
    "required_values ev = [request_id_of c, bd_tenant_id (cx_binding c), td_name (cx_definition c),
       td_version (cx_definition c), cx_module c, bd_authenticated_subject (cx_binding c),
       bd_mcp_client (cx_binding c), ''attempted'']"
    using ev k(1) by (auto simp: write_event_def Let_def required_values_def)
  have "serialisable (PDict k)" "wf_val (PDict k)"
    using k(2,3) by (auto simp: list_all_iff attempt_action_def)
  moreover have "\<not> blank ''attempted''" by (simp add: blank_def is_space_def)
  moreover have "ev_company_id ev = Some (wc_company_id (cx_command c))"
    using write_event_ids(5) [OF ev] assms(2) by simp
  ultimately show ?thesis
    using ev act assms event_input_ok [OF assms(1), of "''attempted''" None]
    by (simp add: append_guard_def event_serialisable_def event_wf_def context_ok_def)
qed

text \<open>A request that may write, on a free slot, with a database that commits, is granted the slot.\<close>

lemma start_step_grants:
  assumes ok: "context_ok c" "idempotency_ok (w_db w)" "audit_ids_ok (w_db w)"
    and gate: "validate_write_tool_definition (cx_definition c) = Inr ()" "cx_preflight_error c = None"
      "gate_error (cx_binding c) (cx_definition c) (cx_snapshot c) (cx_command c) = None"
    and cmd: "\<not> wc_dry_run (cx_command c)" "wc_idempotency_key (cx_command c) = Some key" "\<not> blank key"
    and free: "slot_row (bd_tenant_id (cx_binding c)) (td_name (cx_definition c)) key (w_db w) = None"
    and commits: "e_fault e (w_tick w) = Commits"
    and fresh: "\<And>now (ev :: audit_event) row.
      event_row (e_hash e) now ev (last_hash (bd_tenant_id (cx_binding c)) (w_db w)) = Inr row \<Longrightarrow>
      al_entry_hash row \<notin> al_entry_hash ` set (tenant_rows (bd_tenant_id (cx_binding c)) (w_db w))"
  shows "\<exists>w'. start_step e c w = (Preparing, w')"
proof -
  note opened = gate_open [OF gate(3)]
  let ?t = "bd_tenant_id (cx_binding c)" and ?n = "td_name (cx_definition c)"
  let ?c = "wc_company_id (cx_command c)" and ?p = "wc_request_payload (cx_command c)"
  let ?now = "e_clock e (2 * w_tick w)" and ?now' = "e_clock e (2 * w_tick w + 1)"
  from attempted_event [OF ok(1)] opened obtain ev where ev:
    "write_event c ''attempted'' None (Some (attempt_action c)) [] = Inr ev" "append_guard ev = Inr ()"
    "event_serialisable ev" "event_wf ev" "ev_company_id ev = Some ?c" by blast
  note ids = write_event_ids [OF ev(1)]
  have guard: "reservation_guard ?t ?c ?n key (request_id_of c) = Inr ()"
    using ok(1) cmd(3) opened by (simp add: reservation_guard_def required_def company_ok_def context_ok_def)
  have "serialisable (PDict [(''company_id'', PInt ?c), (''payload'', PDict ?p)])"
    using ok(1) by (simp add: context_ok_def)
  then obtain h where h: "request_hash (e_hash e) ?c ?p = Inr h"
    by (simp add: request_hash_def canonical_json_def del: json_text.simps)
  define row where "row = \<lparr>ik_id = 0, ik_tenant_id = ?t, ik_company_id = ?c, ik_tool_name = ?n,
       ik_idempotency_key = key, ik_request_hash = h, ik_state = IS_in_progress,
       ik_owner_request_id = request_id_of c, ik_response_json = None, ik_expires_at = ?now + idempotency_ttl,
       ik_created_at = ?now, ik_updated_at = ?now\<rparr>"
  have none: "\<forall>q \<in> set (idempotency_keys (w_db w)). \<not> same_slot ?t ?n key q"
    using free unfolding slot_row_None by (auto simp: same_slot_iff)
  obtain r d1 where ins: "insert_idempotency row (w_db w) = Inr (r, d1)"
    using none opened by (simp add: insert_idempotency_def row_def response_invariant_def Let_def)
  have "\<exists>dec. reserve_in_transaction (e_hash e) ?now ?t ?c ?n key ?p (request_id_of c) (w_db w) = Inr (dec, d1)
      \<and> dc_disposition dec = Reserved"
    using guard h free ins
    by (auto simp: reserve_in_transaction_def fresh_reservation_def row_def tbind_def tlift_def treturn_def)
  then obtain dec where res: "reserve_in_transaction (e_hash e) ?now ?t ?c ?n key ?p (request_id_of c) (w_db w)
      = Inr (dec, d1)" "dc_disposition dec = Reserved" by blast
  have d1: "audit_log d1 = audit_log (w_db w)" "audit_seq d1 = audit_seq (w_db w)"
    using reserve_frame [OF res(1)] by auto
  have ids1: "audit_ids_ok d1" using ok(3) d1 by (simp add: audit_ids_ok_def)
  have "last_hash ?t d1 = last_hash ?t (w_db w)" "tenant_rows ?t d1 = tenant_rows ?t (w_db w)"
    using d1 by (simp_all add: last_hash_def tenant_rows_def)
  then have fr: "event_row (e_hash e) ?now' ev (last_hash (ev_tenant_id ev) d1) = Inr row \<Longrightarrow>
      al_entry_hash row \<notin> al_entry_hash ` set (tenant_rows (ev_tenant_id ev) d1)" for row
    using fresh [of ?now' ev row] ids(2) by simp
  from append_total [OF ev(2,3,4) ids1 fr] obtain rec d2 where
    "append_in_transaction (e_hash e) ?now' ev d1 = Inr (rec, d2)" by blast
  then have "begin_in_transaction (e_hash e) ?now ?now' ev ?c key ?p (w_db w) = Inr (dec, d2)"
    using res ids by (simp add: begin_in_transaction_def)
  then have "do_begin e ev key ?p w = (Inr dec, \<lparr>w_db = d2, w_tick = Suc (w_tick w)\<rparr>)"
    using ev(5) commits by (simp add: do_begin_def journal_begin_def transaction_def)
  then have "begin_step e c key w = (Preparing, \<lparr>w_db = d2, w_tick = Suc (w_tick w)\<rparr>)"
    using ev(1) res(2) by (simp add: begin_step_def attempt_action_def)
  then show ?thesis using gate cmd by (simp add: start_step_def)
qed

section \<open>Dry runs and reports\<close>

lemma do_append_keys: "do_append e ev w = (r, w') \<Longrightarrow> idempotency_keys (w_db w') = idempotency_keys (w_db w)"
  by (auto simp: do_append_def Let_def append_audit_def transaction_def append_frame
      split: prod.splits db_fault.splits sum.splits)

lemma append_or_fail_keys:
  "append_or_fail e event r w = (s, w') \<Longrightarrow> idempotency_keys (w_db w') = idempotency_keys (w_db w)"
  by (auto simp: append_or_fail_def dest: do_append_keys split: sum.splits prod.splits)

lemma reject_keys: "reject e c st err w = (s, w') \<Longrightarrow> idempotency_keys (w_db w') = idempotency_keys (w_db w)"
  unfolding reject_def by (rule append_or_fail_keys)

lemma preview_step_keys:
  assumes "preview_step e c cb w = (s, w')"
  shows "idempotency_keys (w_db w') = idempotency_keys (w_db w)"
proof -
  have can: "idempotency_keys (w_db w') = idempotency_keys (w_db w)"
    if "then_cancel (reject e c st err w) = (s, w')" for st err
  proof -
    obtain s1 w1 where r: "reject e c st err w = (s1, w1)" by (rule prod.exhaust)
    with that then_cancel_own have "w' = w1" by auto
    with reject_keys [OF r] show ?thesis by simp
  qed
  show ?thesis
    using assms unfolding preview_step_def Let_def record_pre_write_failure_def
    by (auto split: callback.splits sum.splits dest: reject_keys can append_or_fail_keys)
qed

lemma append_or_fail_outcome:
  "append_or_fail e event q w = (Done (Returned r), w') \<Longrightarrow> r = q \<or> rs_outcome r = Not_attempted"
  by (auto simp: append_or_fail_def failure_def split: sum.splits prod.splits)

lemma reject_outcome: "reject e c st err w = (Done (Returned r), w') \<Longrightarrow> rs_outcome r = Not_attempted"
  unfolding reject_def by (drule append_or_fail_outcome) (auto simp: fail_with_def failure_def)

lemma then_cancel_not_returned [simp]: "then_cancel sw \<noteq> (Done (Returned r), w')"
  by (auto simp: then_cancel_def split: prod.splits stage.splits run_result.splits)

lemma preview_step_outcome:
  "preview_step e c cb w = (Done (Returned r), w') \<Longrightarrow> rs_outcome r = Not_attempted"
  unfolding preview_step_def Let_def record_pre_write_failure_def
  by (auto split: callback.splits sum.splits dest!: reject_outcome append_or_fail_outcome
      simp: prepared_response_def)

lemma prepare_step_outcome:
  "prepare_step e c cb w = (Done (Returned r), w') \<Longrightarrow> rs_outcome r = Not_attempted"
  unfolding prepare_step_def Let_def finish_pre_write_failure_def finish_and_return_def
  by (auto split: callback.splits sum.splits if_splits simp: prepared_response_def failure_def)

lemma validate_step_outcome:
  "validate_step e c p cb w = (Done (Returned r), w') \<Longrightarrow> rs_outcome r = Not_attempted"
  unfolding validate_step_def Let_def finish_pre_write_failure_def finish_and_return_def
  by (auto split: callback.splits simp: failure_def)

text \<open>A response that was restored from a finished row of the slot.\<close>

definition replayed_from :: "write_context \<Rightarrow> db \<Rightarrow> response \<Rightarrow> bool" where
  "replayed_from c d r \<longleftrightarrow>
     (\<exists>row stored. slot_row (bd_tenant_id (cx_binding c)) (td_name (cx_definition c)) (key_of c) d = Some row
        \<and> ik_state row \<noteq> IS_in_progress \<and> stored_response row = Inr stored
        \<and> restore_persisted_response (cx_command c) stored = Inr r)"

lemma begin_step_outcome:
  assumes "begin_step e c (key_of c) w = (Done (Returned r), w')" "idempotency_ok (w_db w)"
  shows "rs_outcome r = Not_attempted \<or> replayed_from c (w_db w) r"
proof -
  let ?ev = "write_event c ''attempted'' None
            (Some [(''tool'', PStr (td_name (cx_definition c))),
                   (''risk_level'', PStr (risk_text (td_risk_level (cx_definition c))))]) []"
  show ?thesis
  proof (cases ?ev)
    case (Inl ex)
    with assms(1) show ?thesis by (simp add: begin_step_def)
  next
    case (Inr ev)
    obtain q w1 where b: "do_begin e ev (key_of c) (wc_request_payload (cx_command c)) w = (q, w1)" by (rule prod.exhaust)
    show ?thesis
    proof (cases q)
      case (Inl ex)
      with assms(1) Inr b show ?thesis
        by (auto simp: begin_step_def fail_with_def failure_def split: if_splits dest: reject_outcome)
    next
      case (Inr dec)
      note q = this
      show ?thesis
      proof (cases "dc_disposition dec")
        case Replay
        have rest: "(case restore_persisted_response (cx_command c) (dc_response dec) of
              Inl _ \<Rightarrow> (Done (Returned (fail_with c unexpected_pre_write_error)), w1)
            | Inr r \<Rightarrow> append_or_fail e (write_event c ''replayed'' (Some r) None []) r w1) = (Done (Returned r), w')"
          using assms(1) \<open>?ev = Inr ev\<close> b q Replay by (simp add: begin_step_def)
        from do_begin_journal [OF b] q obtain f now now' where
          j: "journal_begin (e_hash e) f now now' ev (key_of c) (wc_request_payload (cx_command c)) (w_db w)
            = (Inr dec, w_db w1)" by blast
        then obtain co d' where "begin_in_transaction (e_hash e) now now' ev co (key_of c)
            (wc_request_payload (cx_command c)) (w_db w) = Inr (dec, d')"
          by (auto simp: journal_begin_def transaction_Inr split: option.splits)
        then obtain d2 where res: "reserve_in_transaction (e_hash e) now (ev_tenant_id ev) co (ev_tool_name ev) (key_of c)
            (wc_request_payload (cx_command c)) (ev_request_id ev) (w_db w) = Inr (dec, d2)"
          by (auto simp: begin_in_transaction_def split: if_splits)
        from res assms(2) show ?thesis
        proof (cases rule: reserve_cases)
          case (existing h row)
          have "restore_persisted_response (cx_command c) (dc_response dec) = Inr r \<or> rs_outcome r = Not_attempted"
            using rest by (auto simp: fail_with_def failure_def split: sum.splits dest: append_or_fail_outcome)
          with existing Replay write_event_ids(2,3) [OF \<open>?ev = Inr ev\<close>] show ?thesis
            by (auto simp: replayed_from_def split: if_splits)
        qed (use Replay in simp)
      qed (use assms(1) \<open>?ev = Inr ev\<close> b q in \<open>auto simp: begin_step_def dest: reject_outcome\<close>)
    qed
  qed
qed

lemma start_step_outcome:
  assumes "start_step e c w = (Done (Returned r), w')" "idempotency_ok (w_db w)"
  shows "rs_outcome r = Not_attempted \<or> replayed_from c (w_db w) r"
proof -
  have key: "wc_idempotency_key (cx_command c) = Some k \<Longrightarrow> key_of c = k" for k by (simp add: key_of_def)
  show ?thesis
    using assms unfolding start_step_def Let_def
    by (auto split: sum.splits option.splits if_splits dest: reject_outcome begin_step_outcome key)
qed

section \<open>A completed write is replayed\<close>

lemma serialisable_jsonable [simp]: "serialisable (jsonable v) = serialisable v"
  by (induction v rule: pyval_nested_induct) (force simp: list_all_iff)+

lemma serialisable_response:
  "serialisable (PDict (response_values r)) \<longleftrightarrow>
    serialisable (opt_map (rs_proposed_action r)) \<and> serialisable (PDict (rs_material_effects r))"
proof -
  have o: "serialisable (opt_str s)" for s by (simp add: opt_str_def split: option.split)
  have s: "serialisable (PList (map PStr xs))" for xs by (simp add: list_all_iff)
  have "serialisable (PDict kvs) \<longleftrightarrow> list_all serialisable (map snd kvs)" for kvs
    by (auto simp: list_all_iff)
  then have "serialisable (PDict (response_values r)) \<longleftrightarrow> list_all serialisable (map snd (response_values r))" .
  also have "\<dots> \<longleftrightarrow> serialisable (opt_map (rs_proposed_action r)) \<and> serialisable (PDict (rs_material_effects r))"
    using o s by (simp add: response_values_def del: jsonable.simps serialisable.simps(1,3))
  finally show ?thesis .
qed

lemma serialisable_opt_map [simp]:
  "serialisable (opt_map m) \<longleftrightarrow> (\<forall>kvs. m = Some kvs \<longrightarrow> (\<forall>(k, v) \<in> set kvs. serialisable v))"
  by (cases m) (auto simp: list_all_iff)

lemma set_norm_map: "(k, v) \<in> set (norm_map m) \<Longrightarrow> \<exists>u. (k, u) \<in> set m \<and> v = norm_val u"
  by (auto simp: norm_map_def)

lemma filtered_mapping_subset:
  "filtered_mapping (Some m) ks = Some m' \<Longrightarrow> set m' \<subseteq> set m"
  by (auto simp: filtered_mapping_def split: option.splits)

lemma filtered_mapping_Some: "\<exists>m'. filtered_mapping (Some m) ks = Some m'"
  by (simp add: filtered_mapping_def split: option.split)

lemma persistence_parts:
  "rs_proposed_action (response_for_persistence cmd r) =
    filtered_mapping (rs_proposed_action r) (wc_retained_proposed_action_keys cmd)"
  "Some (rs_material_effects (response_for_persistence cmd r)) =
    filtered_mapping (Some (rs_material_effects r)) (wc_retained_material_effect_keys cmd)"
  by (auto simp: response_for_persistence_def filtered_mapping_def split: option.splits)

text \<open>What was persisted once can be persisted again after it was restored.\<close>

lemma dump_restored:
  assumes "response_mapping_for_persistence cmd r = Inr m" "\<not> wc_compact_persistence cmd"
  shows "\<exists>m'. response_mapping_for_persistence cmd (norm_response (response_for_persistence cmd r)) = Inr m'"
proof -
  let ?q = "response_for_persistence cmd r"
  let ?z = "response_for_persistence cmd (norm_response ?q)"
  from assms have q: "serialisable (PDict (response_values ?q))"
    by (auto simp: response_mapping_for_persistence_def Let_def model_dump_def split: if_splits)
  have "\<forall>(k, v) \<in> set kvs. serialisable v" if "rs_proposed_action ?z = Some kvs" for kvs
  proof -
    from that obtain ks where ks: "rs_proposed_action ?q = Some ks"
      by (auto simp: persistence_parts norm_response_def filtered_mapping_def split: option.splits)
    with that have "set kvs \<subseteq> set (norm_map ks)"
      using filtered_mapping_subset by (fastforce simp: persistence_parts(1) norm_response_def)
    moreover have "\<forall>(k, v) \<in> set ks. serialisable v"
      using q [unfolded serialisable_response] ks by (simp add: list_all_iff)
    ultimately show ?thesis by (fastforce dest: set_norm_map)
  qed
  moreover have "set (rs_material_effects ?z) \<subseteq> set (norm_map (rs_material_effects ?q))"
    using filtered_mapping_subset [OF persistence_parts(2) [of cmd "norm_response ?q", symmetric]]
    by (simp add: norm_response_def)
  then have "\<forall>(k, v) \<in> set (rs_material_effects ?z). serialisable v"
    using q [unfolded serialisable_response] by (fastforce simp: list_all_iff dest: set_norm_map)
  ultimately have "serialisable (PDict (response_values ?z))"
    unfolding serialisable_response by (auto simp: list_all_iff)
  then show ?thesis using assms(2)
    by (simp add: response_mapping_for_persistence_def model_dump_def Let_def del: serialisable.simps)
qed

lemma finish_success_row:
  assumes "finish_success e c (key_of c) p a r w = (Inr (), w')" "idempotency_ok (w_db w)"
    and "slot_row (bd_tenant_id (cx_binding c)) (td_name (cx_definition c)) (key_of c) (w_db w) = Some row0"
  shows "\<exists>row m. slot_row (bd_tenant_id (cx_binding c)) (td_name (cx_definition c)) (key_of c) (w_db w') = Some row
    \<and> ik_state row = IS_succeeded \<and> response_mapping_for_persistence (cx_command c) r = Inr m
    \<and> ik_response_json row = Some (json_text (PDict m)) \<and> serialisable (PDict m)
    \<and> ik_request_hash row = ik_request_hash row0 \<and> ik_expires_at row = ik_expires_at row0
    \<and> idempotency_ok (w_db w')"
proof -
  from assms(1) obtain ev m where ev: "write_event c ''succeeded'' (Some r) (Some (pw_proposed_action p)) (aw_record_refs a) = Inr ev"
    and m: "response_mapping_for_persistence (cx_command c) r = Inr m"
    and f: "do_finish e ev (key_of c) IS_succeeded (Some m) w = (Inr (), w')"
    by (auto simp: finish_success_def split: sum.splits)
  note ids = write_event_ids [OF ev]
  from do_finish_journal [OF f] obtain ft now now' where
    "journal_finish (e_hash e) ft now now' ev (key_of c) IS_succeeded (Some m) (w_db w) = (Inr (), w_db w')" by blast
  then obtain co d1 rec where
    fin: "finish_in_transaction now (ev_tenant_id ev) co (ev_tool_name ev) (key_of c) (ev_request_id ev)
        IS_succeeded (Some m) (w_db w) = Inr ((), d1)"
    and app: "append_in_transaction (e_hash e) now' ev d1 = Inr (rec, w_db w')"
    by (auto simp: journal_finish_def transaction_Inr finish_and_append_def split: option.splits)
  from finish_effect [OF fin assms(2)] append_keeps_slots [OF app] ids assms(3) m
  show ?thesis by (auto simp del: json_text.simps serialisable.simps)
qed

text \<open>A success is recorded when the database commits and the result can be stored.\<close>

lemma finish_success_total:
  assumes ok: "context_ok c" "idempotency_ok (w_db w)" "audit_ids_ok (w_db w)" "\<not> blank (key_of c)"
    "0 < wc_company_id (cx_command c)"
    and slot: "slot_row (bd_tenant_id (cx_binding c)) (td_name (cx_definition c)) (key_of c) (w_db w) = Some row0"
      "ik_state row0 = IS_in_progress" "ik_owner_request_id row0 = request_id_of c"
      "ik_company_id row0 = wc_company_id (cx_command c)"
    and resp: "response_mapping_for_persistence (cx_command c) r = Inr m" "serialisable (PDict m)"
      "wf_val (PDict m)" "rs_status r \<noteq> Failed"
    and prep: "serialisable (PDict (pw_proposed_action p))" "wf_val (PDict (pw_proposed_action p))"
    and commits: "e_fault e (w_tick w) = Commits"
    and fresh: "\<And>now (ev :: audit_event) row.
      event_row (e_hash e) now ev (last_hash (bd_tenant_id (cx_binding c)) (w_db w)) = Inr row \<Longrightarrow>
      al_entry_hash row \<notin> al_entry_hash ` set (tenant_rows (bd_tenant_id (cx_binding c)) (w_db w))"
  shows "\<exists>w'. finish_success e c (key_of c) p a r w = (Inr (), w')"
proof -
  obtain ev where ev: "write_event c ''succeeded'' (Some r) (Some (pw_proposed_action p)) (aw_record_refs a) = Inr ev"
    using resp(1) by (simp add: write_event_def Let_def)
  note ids = write_event_ids [OF ev]
  obtain k where k: "filtered_mapping (Some (pw_proposed_action p)) (wc_retained_proposed_action_keys (cx_command c)) = Some k"
    using filtered_mapping_Some by blast
  have "distinct (keys k)" "set k \<subseteq> set (pw_proposed_action p)"
    using k prep(2) filtered_mapping_subset [OF k] distinct_keys_filter
    by (auto simp: filtered_mapping_def split: option.splits)
  then have kok: "serialisable (PDict k)" "wf_val (PDict k)" using prep by (auto simp: list_all_iff)
  have flds: "ev_proposed_action ev = Some k" "ev_actual_result ev = Some m"
    "ev_input_payload ev = event_input_payload (cx_command c) ''succeeded'' (Some (response_for_persistence (cx_command c) r))"
    "required_values ev = [request_id_of c, bd_tenant_id (cx_binding c), td_name (cx_definition c),
       td_version (cx_definition c), cx_module c, bd_authenticated_subject (cx_binding c),
       bd_mcp_client (cx_binding c), ''succeeded'']"
    using ev k resp(1) by (auto simp: write_event_def Let_def required_values_def)
  have "\<not> blank ''succeeded''" by (simp add: blank_def is_space_def)
  then have g: "append_guard ev = Inr ()" "event_serialisable ev" "event_wf ev"
    using ids flds ok kok resp event_input_ok [OF ok(1)]
    by (simp_all add: append_guard_def event_serialisable_def event_wf_def context_ok_def
        del: serialisable.simps wf_val.simps serialisable_opt_map)
  have guard: "reservation_guard (bd_tenant_id (cx_binding c)) (wc_company_id (cx_command c))
      (td_name (cx_definition c)) (key_of c) (request_id_of c) = Inr ()"
    using ok by (simp add: reservation_guard_def required_def company_ok_def context_ok_def)
  let ?now = "e_clock e (2 * w_tick w)" and ?now' = "e_clock e (2 * w_tick w + 1)"
  from finish_total [OF ok(2) slot(1,2,3,4) _ resp(2) guard, of IS_succeeded ?now] obtain d1 where
    fin: "finish_in_transaction ?now (bd_tenant_id (cx_binding c)) (wc_company_id (cx_command c))
      (td_name (cx_definition c)) (key_of c) (request_id_of c) IS_succeeded (Some m) (w_db w) = Inr ((), d1)" by auto
  from finish_effect [OF fin ok(2)] have d1: "audit_log d1 = audit_log (w_db w)" "audit_seq d1 = audit_seq (w_db w)"
    by blast+
  have ids1: "audit_ids_ok d1" using ok(3) d1 by (simp add: audit_ids_ok_def)
  have "last_hash t d1 = last_hash t (w_db w)" "tenant_rows t d1 = tenant_rows t (w_db w)" for t
    using d1 by (simp_all add: last_hash_def tenant_rows_def)
  then have fr: "event_row (e_hash e) ?now' ev (last_hash (ev_tenant_id ev) d1) = Inr row \<Longrightarrow>
      al_entry_hash row \<notin> al_entry_hash ` set (tenant_rows (ev_tenant_id ev) d1)" for row
    using fresh [of ?now' ev row] ids(2) by simp
  from append_total [OF g ids1 fr] obtain rec d2 where
    "append_in_transaction (e_hash e) ?now' ev d1 = Inr (rec, d2)" by blast
  then have "finish_and_append (e_hash e) ?now ?now' ev (wc_company_id (cx_command c)) (key_of c) IS_succeeded (Some m)
      (w_db w) = Inr ((), d2)"
    using fin ids by (simp add: finish_and_append_def)
  then have "do_finish e ev (key_of c) IS_succeeded (Some m) w = (Inr (), \<lparr>w_db = d2, w_tick = Suc (w_tick w)\<rparr>)"
    using ids(5) ok(5) commits by (simp add: do_finish_def journal_finish_def transaction_def)
  then show ?thesis using ev resp(1) by (simp add: finish_success_def)
qed

lemma begin_replays:
  assumes slot: "slot_row (bd_tenant_id (cx_binding c)) (td_name (cx_definition c)) (key_of c) (w_db w) = Some row"
    and row: "ik_state row \<noteq> IS_in_progress" "ik_response_json row = Some (json_text (PDict m))"
      "serialisable (PDict m)" "wf_val (PDict m)"
    and hash: "request_hash (e_hash e) (wc_company_id (cx_command c)) (wc_request_payload (cx_command c))
      = Inr (ik_request_hash row)"
    and time: "\<not> expired_final (e_clock e (2 * w_tick w)) row" and commits: "e_fault e (w_tick w) = Commits"
    and ids: "list_all (\<lambda>s. \<not> blank s) [request_id_of c, bd_tenant_id (cx_binding c), td_name (cx_definition c), key_of c]"
      "0 < wc_company_id (cx_command c)"
    and restore: "restore_persisted_response (cx_command c) (Some (norm_map m)) = Inr r"
  shows "begin_step e c (key_of c) w =
    append_or_fail e (write_event c ''replayed'' (Some r) None []) r (w\<lparr>w_tick := Suc (w_tick w)\<rparr>)"
proof -
  obtain ev where ev: "write_event c ''attempted'' None (Some (attempt_action c)) [] = Inr ev"
    by (simp add: write_event_def Let_def)
  note eids = write_event_ids [OF ev]
  let ?dec = "\<lparr>dc_disposition = Replay, dc_state = ik_state row, dc_owner_request_id = ik_owner_request_id row,
      dc_response = Some (norm_map m), dc_expires_at = ik_expires_at row\<rparr>"
  have guard: "reservation_guard (bd_tenant_id (cx_binding c)) (wc_company_id (cx_command c))
      (td_name (cx_definition c)) (key_of c) (request_id_of c) = Inr ()"
    using ids by (simp add: reservation_guard_def required_def company_ok_def)
  have "reserve_in_transaction (e_hash e) (e_clock e (2 * w_tick w)) (bd_tenant_id (cx_binding c))
      (wc_company_id (cx_command c)) (td_name (cx_definition c)) (key_of c) (wc_request_payload (cx_command c))
      (request_id_of c) (w_db w) = Inr (?dec, w_db w)"
    unfolding norm_map_def by (rule stored_key_replays [OF slot row guard hash time])
  then have "begin_in_transaction (e_hash e) (e_clock e (2 * w_tick w)) (e_clock e (2 * w_tick w + 1)) ev
      (wc_company_id (cx_command c)) (key_of c) (wc_request_payload (cx_command c)) (w_db w) = Inr (?dec, w_db w)"
    using eids by (simp add: begin_in_transaction_def tbind_def treturn_def)
  then have "do_begin e ev (key_of c) (wc_request_payload (cx_command c)) w
      = (Inr ?dec, w\<lparr>w_tick := Suc (w_tick w)\<rparr>)"
    using eids(5) ids(2) commits by (simp add: do_begin_def journal_begin_def transaction_def)
  with ev restore show ?thesis by (simp add: begin_step_def attempt_action_def)
qed

section \<open>A concrete request\<close>

definition demo_tool :: tool_definition where
  "demo_tool = mk_tool ''post'' ''1'' ''Post'' ''Post it'' Draft_write ''write'' (Some ''account'')
     (Some False) (Some True) (Some True) (Some True)"

definition demo_context :: "string \<Rightarrow> write_context" where
  "demo_context rid = \<lparr>cx_binding = \<lparr>bd_tenant_id = ''acme'', bd_authenticated_subject = ''s'', bd_mcp_client = ''c'',
       bd_permissions = [''write''], bd_database = ''db'', bd_username = ''u'', bd_allowed_company_ids = [1]\<rparr>,
     cx_definition = demo_tool, cx_module = ''m'',
     cx_snapshot = \<lparr>sn_version = 19, sn_transport = ''json2'', sn_modules = [(''account'', True)]\<rparr>,
     cx_command = demo_command, cx_given_request_id = Some rid, cx_fresh_request_id = ''f'',
     cx_preflight_error = None\<rparr>"

definition demo_env :: env where
  "demo_env = \<lparr>e_hash = demo_hash, e_clock = (\<lambda>n. int n), e_fault = (\<lambda>n. Commits)\<rparr>"

definition demo_callbacks :: callbacks where
  "demo_callbacks = \<lparr>cb_prepare = Gives (Some \<lparr>rp_proposed_action = Some [], rp_material_effects = Some [],
       rp_artifact_markdown = PNone, rp_needs_input = PBool False\<rparr>),
     cb_validate = Gives (), cb_execute = Gives (Some \<lparr>aw_material_effects = [], aw_record_refs = [],
       aw_artifact_markdown = None\<rparr>), cb_others = (\<lambda>n. [])\<rparr>"

definition demo_prepared :: prepared_write where
  "demo_prepared = \<lparr>pw_proposed_action = [], pw_material_effects = [], pw_artifact_markdown = None,
     pw_needs_input = False\<rparr>"

lemma demo_context_sel [simp]:
  "request_id_of (demo_context ''r1'') = ''r1''" "key_of (demo_context rid) = ''key''"
  "cx_command (demo_context rid) = demo_command" "cx_definition (demo_context rid) = demo_tool"
  "bd_tenant_id (cx_binding (demo_context rid)) = ''acme''" "td_name demo_tool = ''post''"
  by (simp_all add: request_id_of_def key_of_def demo_context_def demo_command_def demo_tool_def mk_tool_def)

lemma demo_gate: "validate_write_tool_definition demo_tool = Inr ()"
  "gate_error (cx_binding (demo_context rid)) demo_tool (cx_snapshot (demo_context rid)) demo_command = None"
  "cx_preflight_error (demo_context rid) = None"
  by (simp_all add: validate_write_tool_definition_def gate_error_def demo_tool_def mk_tool_def
      demo_context_def demo_command_def destructive_is_valid_def get_or_def reserved_write_keys_def keys_def)

lemma demo_starts: "\<exists>w'. start_step demo_env (demo_context ''r1'') \<lparr>w_db = empty_db, w_tick = 0\<rparr> = (Preparing, w')"
proof -
  have ok: "context_ok (demo_context ''r1'')"
    by (simp add: context_ok_def demo_context_def demo_command_def demo_tool_def mk_tool_def blank_def
        is_space_def request_id_of_def keys_def)
  have "audit_ids_ok empty_db" by (simp add: audit_ids_ok_def empty_db_def)
  with idempotency_ok_empty have db: "idempotency_ok empty_db" "audit_ids_ok empty_db" .
  have "\<not> blank ''key''" by (simp add: blank_def is_space_def)
  moreover have "slot_row ''acme'' ''post'' ''key'' empty_db = None" "tenant_rows ''acme'' empty_db = []"
    by (simp_all add: slot_row_def tenant_rows_def empty_db_def)
  moreover have "\<not> wc_dry_run demo_command" "wc_idempotency_key demo_command = Some ''key''"
    by (simp_all add: demo_command_def)
  ultimately show ?thesis
    using ok db demo_gate
    by (intro start_step_grants [where key = "''key''"]) (simp_all add: demo_env_def)
qed

lemma demo_executes:
  "\<exists>w'. advance demo_env (demo_context ''r1'') demo_callbacks (advance demo_env (demo_context ''r1'') demo_callbacks
      (start_step demo_env (demo_context ''r1'') \<lparr>w_db = empty_db, w_tick = 0\<rparr>)) = (Executing demo_prepared, w')"
proof -
  from demo_starts obtain w' where
    w': "start_step demo_env (demo_context ''r1'') \<lparr>w_db = empty_db, w_tick = 0\<rparr> = (Preparing, w')" by blast
  have norm: "normalize_prepared (Some \<lparr>rp_proposed_action = Some [], rp_material_effects = Some [],
       rp_artifact_markdown = PNone, rp_needs_input = PBool False\<rparr>) = Inr demo_prepared"
    by (simp add: normalize_prepared_def is_bool_def bool_of_def mapping_items_def demo_prepared_def)
  have "serialisable (PDict (response_values (prepared_response demo_prepared rid co)))" for rid co
    unfolding serialisable_response by (simp add: prepared_response_def demo_prepared_def)
  then have "prepare_step demo_env (demo_context ''r1'') (cb_prepare demo_callbacks) w1 = (Validating demo_prepared, w1)" for w1
    using norm by (simp add: prepare_step_def demo_callbacks_def model_dump_def demo_prepared_def Let_def
        del: serialisable.simps)
  with w' show ?thesis
    by (simp add: validate_step_def demo_callbacks_def)
qed

section \<open>Properties\<close>

text \<open>C1 (a mutation is executed only behind every guard). When \<open>run\<close> invokes the execute callback, the
  tool is a write tool with a matching contract, the identity holds the tool's permission, the company
  is authorized and positive, the required capability is available, the payload smuggles in no control
  field, the call is no dry run and has a non-blank key; prepare returned a well-typed preparation that
  needs no input and the state check passed; the slot is held by this request at this moment, and the
  attempt is already in the audit log. Other requests may have done anything to the journal during the
  awaits.\<close>

theorem execute_is_guarded:
  assumes "advance e c cbs (advance e c cbs (start_step e c w)) = (Executing p, w')"
    and "idempotency_ok (w_db w)" "others_distinct c cbs"
  shows "td_risk_level (cx_definition c) \<noteq> Read \<and> validate_write_tool_definition (cx_definition c) = Inr ()
    \<and> cx_preflight_error c = None
    \<and> td_required_permission (cx_definition c) \<in> set (bd_permissions (cx_binding c))
    \<and> 0 < wc_company_id (cx_command c)
    \<and> wc_company_id (cx_command c) \<in> set (bd_allowed_company_ids (cx_binding c))
    \<and> (\<forall>cap. td_required_capability (cx_definition c) = Some cap \<longrightarrow>
         map_of (sn_modules (cx_snapshot c)) cap = Some True)
    \<and> set (keys (wc_request_payload (cx_command c))) \<inter> set reserved_write_keys = {}
    \<and> \<not> wc_dry_run (cx_command c) \<and> wc_idempotency_key (cx_command c) = Some (key_of c) \<and> \<not> blank (key_of c)
    \<and> (\<exists>raw. cb_prepare cbs = Gives raw \<and> normalize_prepared raw = Inr p) \<and> \<not> pw_needs_input p
    \<and> cb_validate cbs = Gives ()
    \<and> slot_holder (w_db w') (slot_of_request c) = Some (request_id_of c)
    \<and> (\<exists>row \<in> set (audit_log (w_db w')). al_request_id row = request_id_of c
         \<and> al_tenant_id row = bd_tenant_id (cx_binding c) \<and> al_final_status row = ''attempted'')"
proof -
  from assms(1) obtain w1 where start: "start_step e c w = (Preparing, w1)"
    and prep: "prepare_step e c (cb_prepare cbs) (await e (cb_others cbs 0) w1)
        = (Validating p, await e (cb_others cbs 0) w1)"
    and val: "cb_validate cbs = Gives ()" "w' = await e (cb_others cbs 1) (await e (cb_others cbs 0) w1)"
    by (rule reaches_execute)
  note g = start_step_preparing [OF start]
  then have bs: "begin_step e c (key_of c) w = (Preparing, w1)" by blast
  note b = begin_step_preparing [OF bs assms(2)]
  have ok1: "idempotency_ok (w_db w1)" using own_ops_ok start_step_own [OF start] assms(2) by blast
  note ok2 = await_ok [OF ok1, of e "cb_others cbs 0"]
  have "slot_holder (w_db w1) (slot_of_request c) = Some (request_id_of c)"
    using b by (simp add: slot_of_request_def)
  then have hold: "slot_holder (w_db w') (slot_of_request c) = Some (request_id_of c)"
    unfolding val(2) by (intro await_holder await_ok ok1 assms(3))
  have "prefix (audit_log (w_db w1)) (audit_log (w_db w'))"
    unfolding val(2) using await_audit [OF ok1] await_audit [OF ok2] by (blast intro: prefix_order.order_trans)
  then have log: "\<exists>row \<in> set (audit_log (w_db w')). al_request_id row = request_id_of c
         \<and> al_tenant_id row = bd_tenant_id (cx_binding c) \<and> al_final_status row = ''attempted''"
    using b by (auto simp: prefix_def)
  have "td_risk_level (cx_definition c) \<noteq> Read"
    using g by (auto simp: validate_write_tool_definition_def)
  with g gate_open [of "cx_binding c" "cx_definition c" "cx_snapshot c" "cx_command c"]
    prepare_step_validating [OF prep] val(1) hold log
  show ?thesis by blast
qed

theorem execute_is_guarded_witness:
  "\<exists>w'. advance demo_env (demo_context ''r1'') demo_callbacks (advance demo_env (demo_context ''r1'') demo_callbacks
      (start_step demo_env (demo_context ''r1'') \<lparr>w_db = empty_db, w_tick = 0\<rparr>)) = (Executing demo_prepared, w')
    \<and> slot_holder (w_db w') (''acme'', ''post'', ''key'') = Some ''r1''"
proof -
  from demo_executes obtain w' where w': "advance demo_env (demo_context ''r1'') demo_callbacks
      (advance demo_env (demo_context ''r1'') demo_callbacks
      (start_step demo_env (demo_context ''r1'') \<lparr>w_db = empty_db, w_tick = 0\<rparr>)) = (Executing demo_prepared, w')"
    by blast
  have "others_distinct (demo_context ''r1'') demo_callbacks"
    by (simp add: others_distinct_def demo_callbacks_def)
  with execute_is_guarded [OF w'] w' show ?thesis
    by (auto simp: idempotency_ok_empty slot_of_request_def)
qed

text \<open>A dry run is inert. A dry run ends after at most one callback, never reaches execute, and
  leaves the idempotency table as it is: it reserves nothing and finishes nothing.\<close>

theorem dry_run_is_inert:
  assumes "wc_dry_run (cx_command c)" "run e c cbs w = (s, w')" "cb_others cbs 0 = []"
  shows "(\<exists>res. s = Done res) \<and> idempotency_keys (w_db w') = idempotency_keys (w_db w)
    \<and> (\<forall>p w2. advance e c cbs (advance e c cbs (start_step e c w)) \<noteq> (Executing p, w2))"
proof -
  obtain s1 w1 where s1: "start_step e c w = (s1, w1)" by (rule prod.exhaust)
  have "s1 \<noteq> Preparing" using s1 assms(1) by (auto dest: start_step_preparing)
  with start_step_own [OF s1] consider "s1 = Previewing" | res where "s1 = Done res" by blast
  then show ?thesis
  proof cases
    case 1
    then have "w1 = w" using s1 assms(1) unfolding start_step_def Let_def
      by (auto split: sum.splits option.splits if_splits dest!: reject_own)
    moreover obtain s2 w2 where s2: "preview_step e c (cb_prepare cbs) (await e [] w1) = (s2, w2)"
      by (rule prod.exhaust)
    moreover obtain res where "s2 = Done res" using preview_step_own [OF s2] by blast
    ultimately show ?thesis
      using assms(2,3) s1 1 preview_step_keys [OF s2] by (auto simp: run_def await_def)
  next
    case 2
    then have "idempotency_keys (w_db w1) = idempotency_keys (w_db w)"
      using s1 assms(1) unfolding start_step_def Let_def
      by (auto split: sum.splits option.splits if_splits dest: reject_keys)
    with 2 s1 assms(2) show ?thesis by (auto simp: run_def)
  qed
qed

definition demo_dry_context :: write_context where
  "demo_dry_context = (demo_context ''r1'')\<lparr>cx_command := demo_command\<lparr>wc_dry_run := True\<rparr>\<rparr>"

theorem dry_run_is_inert_witness:
  "idempotency_keys (w_db (snd (run demo_env demo_dry_context demo_callbacks \<lparr>w_db = empty_db, w_tick = 0\<rparr>))) = []"
  using dry_run_is_inert [of demo_dry_context demo_env demo_callbacks "\<lparr>w_db = empty_db, w_tick = 0\<rparr>"
      "fst (run demo_env demo_dry_context demo_callbacks \<lparr>w_db = empty_db, w_tick = 0\<rparr>)"
      "snd (run demo_env demo_dry_context demo_callbacks \<lparr>w_db = empty_db, w_tick = 0\<rparr>)"]
  by (simp add: demo_dry_context_def demo_callbacks_def empty_db_def)

lemma run_unfold:
  assumes "start_step e c w = (s1, w1)" "advance e c cbs (s1, w1) = (s2, w2)" "advance e c cbs (s2, w2) = (s3, w3)"
  shows "run e c cbs w = advance e c cbs (s3, w3)"
  using assms by (simp add: run_def)

text \<open>The stages a call passes, and what it reports when execute is never invoked.\<close>

lemma run_without_execute:
  assumes "run e c cbs w = (s, w')" "idempotency_ok (w_db w)"
    and "\<nexists>p w2. advance e c cbs (advance e c cbs (start_step e c w)) = (Executing p, w2)"
  shows "\<exists>res. s = Done res \<and>
    (\<forall>r. res = Returned r \<longrightarrow> rs_outcome r = Not_attempted \<or> replayed_from c (w_db w) r)"
proof -
  obtain s1 w1 where s1: "start_step e c w = (s1, w1)" by (rule prod.exhaust)
  from start_step_own [OF s1] consider "s1 = Previewing" | "s1 = Preparing" | res where "s1 = Done res" by blast
  then show ?thesis
  proof cases
    case 1
    obtain s2 w2 where s2: "preview_step e c (cb_prepare cbs) (await e (cb_others cbs 0) w1) = (s2, w2)"
      by (rule prod.exhaust)
    with preview_step_own [OF s2] assms(1) s1 1 obtain res where "s2 = Done res" "s = Done res"
      by (auto simp: run_def)
    with s2 preview_step_outcome show ?thesis by auto
  next
    case 2
    obtain s2 w2 where s2: "prepare_step e c (cb_prepare cbs) (await e (cb_others cbs 0) w1) = (s2, w2)"
      by (rule prod.exhaust)
    from prepare_step_own [OF s2] consider q where "s2 = Validating q" | res where "s2 = Done res" by blast
    then show ?thesis
    proof cases
      case q: 1
      obtain s3 w3 where s3: "validate_step e c q (cb_validate cbs) (await e (cb_others cbs 1) w2) = (s3, w3)"
        by (rule prod.exhaust)
      with assms(3) s1 2 s2 q have "s3 \<noteq> Executing q" by auto
      with validate_step_own [OF s3] obtain res where "s3 = Done res" by blast
      with assms(1) s1 2 s2 q s3 validate_step_outcome show ?thesis by (auto simp: run_def)
    next
      case d: 2
      with assms(1) s1 2 s2 prepare_step_outcome show ?thesis by (auto simp: run_def)
    qed
  next
    case 3
    then have "s = Done res" using assms(1) s1 by (simp add: run_def)
    moreover have "rs_outcome r = Not_attempted \<or> replayed_from c (w_db w) r" if "res = Returned r" for r
      using start_step_outcome [of e c w r w1] s1 3 that assms(2) by simp
    ultimately show ?thesis by simp
  qed
qed

text \<open>What the slot and the report look like after execute was invoked.\<close>

lemma run_with_execute:
  assumes "run e c cbs w = (s, w')" "idempotency_ok (w_db w)" "others_distinct c cbs"
    and "advance e c cbs (advance e c cbs (start_step e c w)) = (Executing p, w2)"
  defines "w3 \<equiv> await e (cb_others cbs 2) w2"
  shows "execute_step e c p (cb_execute cbs) w3 = (s, w')" "idempotency_ok (w_db w3)"
    "slot_holder (w_db w3) (slot_of_request c) = Some (request_id_of c)"
    "\<not> blank (key_of c)" "0 < wc_company_id (cx_command c)"
proof -
  from assms(4) obtain w1 where start: "start_step e c w = (Preparing, w1)"
    and w2: "w2 = await e (cb_others cbs 1) (await e (cb_others cbs 0) w1)"
    by (rule reaches_execute)
  note g = start_step_preparing [OF start]
  then have "begin_step e c (key_of c) w = (Preparing, w1)" by blast
  from begin_step_preparing [OF this assms(2)] have hold: "slot_holder (w_db w1) (slot_of_request c) = Some (request_id_of c)"
    by (simp add: slot_of_request_def)
  have ok: "idempotency_ok (w_db w1)" using own_ops_ok start_step_own [OF start] assms(2) by blast
  show "idempotency_ok (w_db w3)" "slot_holder (w_db w3) (slot_of_request c) = Some (request_id_of c)"
    unfolding w3_def w2 by (intro await_ok await_holder assms(3) ok hold)+
  show "execute_step e c p (cb_execute cbs) w3 = (s, w')" using assms(1,4) by (simp add: run_def w3_def)
  show "\<not> blank (key_of c)" "0 < wc_company_id (cx_command c)"
    using g gate_open [of "cx_binding c" "cx_definition c" "cx_snapshot c" "cx_command c"] by blast+
qed

text \<open>The answer to a completed mutation, whether recording it returned, and what is enough for that: a
  result that can be stored, a slot row of the company, a fresh link of the audit chain and a database that
  commits.\<close>

definition success_answer :: "write_context \<Rightarrow> prepared_write \<Rightarrow> applied_write \<Rightarrow> response" where
  "success_answer c p a = applied_response p a (request_id_of c) (wc_company_id (cx_command c))"

definition records_success :: "env \<Rightarrow> write_context \<Rightarrow> prepared_write \<Rightarrow> applied_write \<Rightarrow> world \<Rightarrow> bool" where
  "records_success e c p a w \<longleftrightarrow> fst (finish_success e c (key_of c) p a (success_answer c p a) w) = Inr ()"

definition recordable :: "env \<Rightarrow> write_context \<Rightarrow> prepared_write \<Rightarrow> applied_write \<Rightarrow> world \<Rightarrow> bool" where
  "recordable e c p a w \<longleftrightarrow> context_ok c \<and> audit_ids_ok (w_db w)
    \<and> (\<exists>row. slot_row (bd_tenant_id (cx_binding c)) (td_name (cx_definition c)) (key_of c) (w_db w) = Some row
         \<and> ik_company_id row = wc_company_id (cx_command c))
    \<and> (\<exists>m. response_mapping_for_persistence (cx_command c) (success_answer c p a) = Inr m
         \<and> serialisable (PDict m) \<and> wf_val (PDict m))
    \<and> serialisable (PDict (pw_proposed_action p)) \<and> wf_val (PDict (pw_proposed_action p))
    \<and> e_fault e (w_tick w) = Commits
    \<and> (\<forall>now (ev :: audit_event) row.
         event_row (e_hash e) now ev (last_hash (bd_tenant_id (cx_binding c)) (w_db w)) = Inr row \<longrightarrow>
         al_entry_hash row \<notin> al_entry_hash ` set (tenant_rows (bd_tenant_id (cx_binding c)) (w_db w)))"

lemma execute_step_answer:
  "execute_step e c p (Gives (Some a)) w = (s, w') \<Longrightarrow>
    s = Done (Returned (if records_success e c p a w then success_answer c p a else unknown_response c p))"
  by (auto simp: execute_step_def records_success_def success_answer_def Let_def split: prod.splits sum.splits)

lemma slot_holder_row:
  "slot_holder d (slot_of_request c) = Some rid \<longleftrightarrow>
    (\<exists>row. slot_row (bd_tenant_id (cx_binding c)) (td_name (cx_definition c)) (key_of c) d = Some row
      \<and> ik_state row = IS_in_progress \<and> ik_owner_request_id row = rid)"
  by (auto simp: slot_holder_def slot_of_request_def split: option.splits)

lemma recordable_records:
  assumes "recordable e c p a w" "idempotency_ok (w_db w)" "\<not> blank (key_of c)" "0 < wc_company_id (cx_command c)"
    "slot_holder (w_db w) (slot_of_request c) = Some (request_id_of c)"
  shows "records_success e c p a w"
proof -
  from assms(5) obtain row where row: "slot_row (bd_tenant_id (cx_binding c)) (td_name (cx_definition c)) (key_of c) (w_db w) = Some row"
    "ik_state row = IS_in_progress" "ik_owner_request_id row = request_id_of c" unfolding slot_holder_row by blast
  from assms(1) obtain m where m: "response_mapping_for_persistence (cx_command c) (success_answer c p a) = Inr m"
    "serialisable (PDict m)" "wf_val (PDict m)" unfolding recordable_def by blast
  have st: "rs_status (success_answer c p a) \<noteq> Failed" by (simp add: success_answer_def applied_response_def)
  have "\<exists>w'. finish_success e c (key_of c) p a (success_answer c p a) w = (Inr (), w')"
    by (rule finish_success_total [OF _ assms(2) _ assms(3,4) row _ m st])
      (use assms(1) row(1) in \<open>auto simp: recordable_def simp del: serialisable.simps wf_val.simps\<close>)
  then show ?thesis unfolding records_success_def by fastforce
qed

text \<open>C2 (the report is honest). Every call ends. When execute was invoked, the call is cancelled exactly when
  execute was; it never reports that nothing was attempted; it reports success exactly when execute returned a
  result and recording it returned, and then with that result and a slot that holds the success; and it
  reports the outcome unknown exactly when execute returned nothing usable or raised an error that is no known
  failure, or when recording its result raised. If the result can be recorded and the database commits, success
  is reported. When execute was never invoked, the outcome is not-attempted or the response was restored from a
  finished slot.\<close>

theorem run_reports_truth:
  assumes "run e c cbs w = (s, w')" "idempotency_ok (w_db w)" "others_distinct c cbs"
  shows "\<exists>res. s = Done res \<and>
    (case advance e c cbs (advance e c cbs (start_step e c w)) of
       (Executing p, w2) \<Rightarrow>
         (let cb = cb_execute cbs; w3 = await e (cb_others cbs 2) w2 in
            (res = Cancelled \<longleftrightarrow> cb = Cancels) \<and> (res = Cancelled \<longrightarrow> slot_blocked (w_db w') c)
          \<and> (\<forall>ex. res \<noteq> Raised ex)
          \<and> (\<forall>r. res = Returned r \<longrightarrow> rs_outcome r \<noteq> Not_attempted
             \<and> (rs_outcome r = Unknown \<longleftrightarrow> cb \<in> {Gives None, Fails} \<union> range Fails_odoo
                  \<or> (\<exists>a. cb = Gives (Some a) \<and> \<not> records_success e c p a w3))
             \<and> (rs_outcome r = Unknown \<longrightarrow> rs_status r = Failed
                  \<and> (slot_blocked (w_db w') c \<or> (slot_succeeded (w_db w') c \<and> (\<exists>a. cb = Gives (Some a)))))
             \<and> (rs_status r = Succeeded \<longleftrightarrow> (\<exists>a. cb = Gives (Some a) \<and> records_success e c p a w3))
             \<and> (rs_status r = Succeeded \<longrightarrow> slot_succeeded (w_db w') c
                  \<and> (\<exists>a. cb = Gives (Some a) \<and> r = success_answer c p a))
             \<and> (\<forall>err. cb = Fails_known err \<longrightarrow> rs_outcome r = Known \<and> rs_status r = Failed
                  \<and> rs_error_code r = Some (oe_code err)))
          \<and> (\<forall>a. cb = Gives (Some a) \<and> recordable e c p a w3 \<longrightarrow> res = Returned (success_answer c p a)))
     | _ \<Rightarrow> \<forall>r. res = Returned r \<longrightarrow> rs_outcome r = Not_attempted \<or> replayed_from c (w_db w) r)"
proof (cases "\<exists>p w2. advance e c cbs (advance e c cbs (start_step e c w)) = (Executing p, w2)")
  case True
  then obtain p w2 where reach: "advance e c cbs (advance e c cbs (start_step e c w)) = (Executing p, w2)" by blast
  note x = run_with_execute [OF assms reach]
  note ends = execute_step_cases [OF x(1-3)]
  show ?thesis
  proof (cases "\<exists>a. cb_execute cbs = Gives (Some a)")
    case True
    then obtain a where a: "cb_execute cbs = Gives (Some a)" ..
    note answer = execute_step_answer [OF x(1) [unfolded a]] and rec = recordable_records [where p = p and a = a, OF _ x(2,4,5,3)]
    from ends a answer rec show ?thesis
      by (auto simp: reach success_answer_def applied_response_def unknown_response_def failure_def split: if_splits)
  next
    case False
    with ends show ?thesis
      by (auto simp: reach unknown_response_def failure_def)
  qed
next
  case False
  from run_without_execute [OF assms(1,2) False] obtain res where "s = Done res"
    "\<forall>r. res = Returned r \<longrightarrow> rs_outcome r = Not_attempted \<or> replayed_from c (w_db w) r" by blast
  with False show ?thesis by (auto split: prod.split stage.split)
qed

theorem run_reports_truth_witness:
  "\<exists>res. fst (run demo_env (demo_context ''r1'') demo_callbacks \<lparr>w_db = empty_db, w_tick = 0\<rparr>) = Done res
    \<and> res \<noteq> Cancelled \<and> (\<forall>r. res = Returned r \<longrightarrow> rs_outcome r \<noteq> Not_attempted)"
proof -
  let ?w = "\<lparr>w_db = empty_db, w_tick = 0\<rparr>"
  have "others_distinct (demo_context ''r1'') demo_callbacks"
    by (simp add: others_distinct_def demo_callbacks_def)
  from run_reports_truth [where e = demo_env and w = ?w, OF prod.collapse [symmetric] _ this] demo_executes show ?thesis
    by (auto simp: idempotency_ok_empty Let_def demo_callbacks_def)
qed

text \<open>C3 (an uncertain mutation is never repeated). If execute was invoked and the call was cancelled or
  reports the outcome unknown, then either the success is recorded in the slot for replay, and execute
  had returned a result, or no request is ever granted the slot again, whatever journal operations the
  other requests perform from then on.\<close>

theorem uncertain_write_never_repeated:
  assumes "execute_step e c p cb w = (Done res, w')" "idempotency_ok (w_db w)"
    and "slot_holder (w_db w) (slot_of_request c) = Some (request_id_of c)"
    and "res = Cancelled \<or> (\<exists>r. res = Returned r \<and> rs_outcome r = Unknown)"
    and "\<forall>op \<in> set ops. op_owner op \<noteq> request_id_of c"
  shows "(slot_succeeded (w_db w') c \<and> (\<exists>a. cb = Gives (Some a)))
    \<or> (\<forall>op. op_slot op = slot_of_request c \<longrightarrow> \<not> grants_op H op (fold (run_op H) ops (w_db w')))"
proof -
  have ok: "idempotency_ok (w_db w')" using own_ops_ok execute_step_own [OF assms(1)] assms(2) by blast
  have "slot_blocked (w_db w') c \<or> slot_succeeded (w_db w') c \<and> (\<exists>a. cb = Gives (Some a))"
    using execute_step_cases [OF assms(1,2,3)] assms(4)
    by (auto simp: applied_response_def failure_def)
  then show ?thesis
    using blocked_stays [OF ok _ assms(5)] blocked_never_granted [OF journal.run_ok [OF ok]] by blast
qed

lemma demo_executing_world:
  "\<exists>w :: world. idempotency_ok (w_db w) \<and> slot_holder (w_db w) (slot_of_request (demo_context ''r1'')) = Some ''r1''"
proof -
  from demo_starts obtain w' where
    w': "start_step demo_env (demo_context ''r1'') \<lparr>w_db = empty_db, w_tick = 0\<rparr> = (Preparing, w')" by blast
  from start_step_preparing [OF this] have b: "begin_step demo_env (demo_context ''r1'') ''key''
      \<lparr>w_db = empty_db, w_tick = 0\<rparr> = (Preparing, w')" by simp
  from begin_step_preparing [OF b] idempotency_ok_empty
    own_ops_ok [OF conjunct1 [OF start_step_own [OF w']]] show ?thesis
    by (intro exI [of _ w']) (simp add: slot_of_request_def)
qed

theorem uncertain_write_never_repeated_witness:
  "\<exists>w. \<not> grants_op demo_hash (Begin 0 0 (demo_event\<lparr>ev_tool_name := ''post'', ev_request_id := ''r2''\<rparr>) ''key'' [] Commits)
    (w_db (snd (execute_step demo_env (demo_context ''r1'') demo_prepared Cancels w)))"
proof -
  from demo_executing_world obtain w :: world where w: "idempotency_ok (w_db w)"
    "slot_holder (w_db w) (slot_of_request (demo_context ''r1'')) = Some ''r1''" by blast
  obtain s w' where x: "execute_step demo_env (demo_context ''r1'') demo_prepared Cancels w = (s, w')"
    by (rule prod.exhaust)
  then have s: "s = Done Cancelled"
    by (auto simp: execute_step_def finalize_unknown_def finish_and_return_def then_cancel_def)
  from uncertain_write_never_repeated [of demo_env "demo_context ''r1''" demo_prepared Cancels w Cancelled w' "[]" demo_hash]
    x s w have "op_slot op = (''acme'', ''post'', ''key'') \<Longrightarrow> \<not> grants_op demo_hash op (w_db w')" for op
    by (simp add: slot_of_request_def)
  moreover have "op_slot (Begin 0 0 (demo_event\<lparr>ev_tool_name := ''post'', ev_request_id := ''r2''\<rparr>) ''key'' [] Commits)
      = (''acme'', ''post'', ''key'')" by (simp add: demo_event_def)
  ultimately show ?thesis using x by (intro exI [of _ w]) (simp del: grants_op.simps)
qed

text \<open>Appending a row leaves one row more, or raises.\<close>

lemma event_row_status: "event_row H now ev previous = Inr row \<Longrightarrow> al_final_status row = ev_final_status ev"
  by (auto simp: event_row_def Let_def split: prod.splits)

lemma do_append_log:
  "do_append e ev w = (Inr rec, w') \<Longrightarrow> \<exists>row. audit_log (w_db w') = audit_log (w_db w) @ [row] \<and> al_final_status row = ev_final_status ev"
  by (auto simp: do_append_def append_audit_def transaction_Inr Let_def split: prod.splits dest!: append_effect dest: event_row_status)

text \<open>C8 (a completed write is replayed, not repeated). After execute returned and its success was
  reported, a later call with the same tenant, tool and command, under any request identifier, before
  the reservation expires, on the database the first call left and with a transaction that commits, whatever its
  callbacks are: it invokes none of them and leaves the reservations as they are. It tries to append one row of
  status \<open>replayed\<close> to the audit log. If that returns, the row is the only change and the answer is the first
  call's response (its payloads as JSON reads them, reduced to what the command retains); if it raises, the
  answer is a failure that reports nothing attempted. The command is one that persists its whole response, not
  the compact projection, and there is no preflight error.\<close>

theorem success_is_replayed:
  assumes first: "execute_step e c p (Gives (Some a)) w = (Done (Returned r), w1)" "rs_outcome r = Known"
      "idempotency_ok (w_db w)"
      "slot_holder (w_db w) (slot_of_request c) = Some (request_id_of c)"
      "slot_row (bd_tenant_id (cx_binding c)) (td_name (cx_definition c)) (key_of c) (w_db w) = Some row0"
      "request_hash (e_hash e') (wc_company_id (cx_command c)) (wc_request_payload (cx_command c))
        = Inr (ik_request_hash row0)"
      "\<And>m. response_mapping_for_persistence (cx_command c) r = Inr m \<Longrightarrow> wf_val (PDict m)"
    and same: "cx_binding c' = cx_binding c" "cx_definition c' = cx_definition c" "cx_command c' = cx_command c"
      "cx_snapshot c' = cx_snapshot c" "cx_preflight_error c' = None"
    and allowed: "validate_write_tool_definition (cx_definition c) = Inr ()"
      "gate_error (cx_binding c) (cx_definition c) (cx_snapshot c) (cx_command c) = None"
      "\<not> wc_dry_run (cx_command c)" "wc_idempotency_key (cx_command c) = Some (key_of c)"
      "\<not> wc_compact_persistence (cx_command c)"
      "list_all (\<lambda>s. \<not> blank s) [request_id_of c', bd_tenant_id (cx_binding c), td_name (cx_definition c), key_of c]"
    and db: "w_db w2 = w_db w1" "e_fault e' (w_tick w2) = Commits"
      "e_clock e' (2 * w_tick w2) < ik_expires_at row0"
  shows "\<exists>ev res w3. ev_final_status ev = ''replayed'' \<and> (\<forall>cbs. run e' c' cbs w2 = (Done (Returned res), w3))
    \<and> idempotency_keys (w_db w3) = idempotency_keys (w_db w1)
    \<and> (case do_append e' ev (w2\<lparr>w_tick := Suc (w_tick w2)\<rparr>) of
         (Inr _, w4) \<Rightarrow> w3 = w4 \<and> res = norm_response (response_for_persistence (cx_command c) r)
           \<and> (\<exists>row. audit_log (w_db w3) = audit_log (w_db w1) @ [row] \<and> al_final_status row = ''replayed'')
       | (Inl _, w4) \<Rightarrow> w3 = w4 \<and> rs_outcome res = Not_attempted \<and> rs_status res = Failed)"
proof -
  let ?r' = "norm_response (response_for_persistence (cx_command c) r)"
  have r: "r = applied_response p a (request_id_of c) (wc_company_id (cx_command c))"
    using execute_step_cases [OF first(1,3,4)] first(2) by (auto simp: unknown_response_def failure_def)
  then have shape: "validate_shape r = Inr r" by simp
  obtain q wx where fs: "finish_success e c (key_of c) p a r w = (q, wx)" by (rule prod.exhaust)
  with first(1,2) r have "q = Inr ()" "wx = w1"
    by (auto simp: execute_step_def Let_def unknown_response_def failure_def applied_response_def
        split: sum.splits)
  with finish_success_row [OF _ first(3,5)] fs obtain row m where
    row: "slot_row (bd_tenant_id (cx_binding c)) (td_name (cx_definition c)) (key_of c) (w_db w1) = Some row"
      "ik_state row = IS_succeeded" "ik_response_json row = Some (json_text (PDict m))" "serialisable (PDict m)"
      "ik_request_hash row = ik_request_hash row0" "ik_expires_at row = ik_expires_at row0"
    and m: "response_mapping_for_persistence (cx_command c) r = Inr m" by blast
  have restore: "restore_persisted_response (cx_command c) (Some (norm_map m)) = Inr ?r'"
    using restore_persisted [OF shape m] allowed(5) by auto
  have key: "key_of c' = key_of c" by (simp add: key_of_def same)
  have slot': "slot_row (bd_tenant_id (cx_binding c')) (td_name (cx_definition c')) (key_of c') (w_db w2) = Some row"
    using row(1) by (simp only: same key db(1))
  have hash': "request_hash (e_hash e') (wc_company_id (cx_command c')) (wc_request_payload (cx_command c'))
      = Inr (ik_request_hash row)" using first(6) row(5) by (simp only: same)
  have "begin_step e' c' (key_of c') w2 = append_or_fail e' (write_event c' ''replayed'' (Some ?r') None []) ?r'
      (w2\<lparr>w_tick := Suc (w_tick w2)\<rparr>)"
    by (rule begin_replays [OF slot' _ row(3,4) first(7) [OF m] hash'])
      (use row(2,6) db(2,3) allowed gate_open [OF allowed(2)] restore in \<open>simp_all add: expired_final_def same key\<close>)
  moreover have "start_step e' c' w2 = begin_step e' c' (key_of c') w2"
    using allowed same key by (simp add: start_step_def)
  moreover obtain ev where "write_event c' ''replayed'' (Some ?r') None [] = Inr ev"
    using dump_restored [OF m allowed(5)] same(3) by (auto simp: write_event_def Let_def)
  ultimately obtain ev where ev: "start_step e' c' w2 = append_or_fail e' (Inr ev) ?r' (w2\<lparr>w_tick := Suc (w_tick w2)\<rparr>)"
    "ev_final_status ev = ''replayed''" using write_event_ids(4) by (metis (no_types))
  obtain q w4 where app: "do_append e' ev (w2\<lparr>w_tick := Suc (w_tick w2)\<rparr>) = (q, w4)" by (rule prod.exhaust)
  have keys: "idempotency_keys (w_db w4) = idempotency_keys (w_db w1)" using do_append_keys [OF app] db(1) by simp
  have run: "run e' c' cbs w2 = (Done (Returned res), w4)" if "start_step e' c' w2 = (Done (Returned res), w4)" for cbs res
    using that by (simp add: run_def)
  show ?thesis
  proof (cases q)
    case Inl
    with ev app keys run show ?thesis by (force simp: append_or_fail_def failure_def)
  next
    case (Inr rec)
    from do_append_log [OF app [unfolded Inr]] ev(2) db(1) obtain row where
      "audit_log (w_db w4) = audit_log (w_db w1) @ [row]" "al_final_status row = ''replayed''" by auto
    moreover have "start_step e' c' w2 = (Done (Returned ?r'), w4)" using ev(1) app Inr by (simp add: append_or_fail_def)
    ultimately show ?thesis using ev(2) app Inr keys run by fastforce
  qed
qed

definition demo_held :: db where
  "demo_held = empty_db\<lparr>idempotency_keys := [\<lparr>ik_id = 1, ik_tenant_id = ''acme'', ik_company_id = 1,
     ik_tool_name = ''post'', ik_idempotency_key = ''key'',
     ik_request_hash = json_text (PDict [(''company_id'', PInt 1), (''payload'', PDict (wc_request_payload demo_command))]),
     ik_state = IS_in_progress, ik_owner_request_id = ''r1'', ik_response_json = None, ik_expires_at = 100,
     ik_created_at = 0, ik_updated_at = 0\<rparr>], idempotency_seq := 1\<rparr>"

definition demo_applied :: applied_write where
  "demo_applied = \<lparr>aw_material_effects = [], aw_record_refs = [''account.move:7''], aw_artifact_markdown = None\<rparr>"

lemma demo_execute_succeeds:
  "\<exists>w1. execute_step demo_env (demo_context ''r1'') demo_prepared (Gives (Some demo_applied)) \<lparr>w_db = demo_held, w_tick = 0\<rparr>
    = (Done (Returned (applied_response demo_prepared demo_applied ''r1'' 1)), w1)"
proof -
  let ?r = "applied_response demo_prepared demo_applied ''r1'' 1"
  let ?m = "response_values ?r"
  have ok: "context_ok (demo_context ''r1'')"
    by (simp add: context_ok_def demo_context_def demo_command_def demo_tool_def mk_tool_def blank_def
        is_space_def request_id_of_def keys_def)
  have ser: "serialisable (PDict ?m)"
    unfolding serialisable_response by (simp add: applied_response_def demo_prepared_def demo_applied_def)
  have wf: "wf_val (PDict ?m)" by code_simp
  have map: "response_mapping_for_persistence demo_command ?r = Inr ?m"
    using ser by (simp add: response_mapping_for_persistence_def response_for_persistence_def demo_command_def
        model_dump_def del: serialisable.simps)
  obtain row0 where row0: "slot_row ''acme'' ''post'' ''key'' demo_held = Some row0"
    "ik_state row0 = IS_in_progress" "ik_owner_request_id row0 = ''r1''" "ik_company_id row0 = 1"
    by (auto simp: slot_row_def demo_held_def same_slot_def)
  have db: "idempotency_ok demo_held" "audit_ids_ok demo_held" "tenant_rows ''acme'' demo_held = []"
    by (simp_all add: idempotency_ok_def demo_held_def response_invariant_def audit_ids_ok_def tenant_rows_def
        empty_db_def del: json_text.simps)
  have "\<not> blank ''key''" by (simp add: blank_def is_space_def)
  have misc: "\<not> blank ''key''" "0 < wc_company_id demo_command" "wc_company_id demo_command = 1"
    "rs_status ?r \<noteq> Failed" "serialisable (PDict (pw_proposed_action demo_prepared))"
    "wf_val (PDict (pw_proposed_action demo_prepared))" "e_fault demo_env 0 = Commits"
    by (simp_all add: blank_def is_space_def demo_command_def applied_response_def demo_prepared_def
        demo_env_def keys_def)
  have "\<exists>w1. finish_success demo_env (demo_context ''r1'') (key_of (demo_context ''r1'')) demo_prepared demo_applied ?r
      \<lparr>w_db = demo_held, w_tick = 0\<rparr> = (Inr (), w1)"
    by (rule finish_success_total [where m = ?m and ?row0.0 = row0])
      (use ok db row0 map ser wf misc in \<open>simp_all del: serialisable.simps wf_val.simps\<close>)
  then obtain w1 where "finish_success demo_env (demo_context ''r1'') (key_of (demo_context ''r1'')) demo_prepared
      demo_applied ?r \<lparr>w_db = demo_held, w_tick = 0\<rparr> = (Inr (), w1)" by blast
  with misc(3) show ?thesis by (simp add: execute_step_def)
qed

theorem success_is_replayed_witness:
  "\<exists>w1 ev res w3. execute_step demo_env (demo_context ''r1'') demo_prepared (Gives (Some demo_applied))
      \<lparr>w_db = demo_held, w_tick = 0\<rparr> = (Done (Returned (applied_response demo_prepared demo_applied ''r1'' 1)), w1)
    \<and> run demo_env (demo_context ''r2'') demo_callbacks \<lparr>w_db = w_db w1, w_tick = 5\<rparr> = (Done (Returned res), w3)
    \<and> ev_final_status ev = ''replayed'' \<and> idempotency_keys (w_db w3) = idempotency_keys (w_db w1)
    \<and> (\<forall>rec w4. do_append demo_env ev \<lparr>w_db = w_db w1, w_tick = 6\<rparr> = (Inr rec, w4) \<longrightarrow>
          res = norm_response (applied_response demo_prepared demo_applied ''r1'' 1))"
proof -
  let ?r = "applied_response demo_prepared demo_applied ''r1'' 1"
  from demo_execute_succeeds obtain w1 where w1: "execute_step demo_env (demo_context ''r1'') demo_prepared
      (Gives (Some demo_applied)) \<lparr>w_db = demo_held, w_tick = 0\<rparr> = (Done (Returned ?r), w1)" by blast
  have keep: "response_for_persistence demo_command ?r = ?r"
    by (simp add: response_for_persistence_def demo_command_def)
  have wf: "wf_val (PDict m)" if "response_mapping_for_persistence demo_command ?r = Inr m" for m
  proof -
    have "m = response_values ?r"
      using that keep by (auto simp: response_mapping_for_persistence_def model_dump_def demo_command_def Let_def
          split: if_splits)
    moreover have "wf_val (PDict (response_values ?r))" by code_simp
    ultimately show ?thesis by simp
  qed
  have ok: "idempotency_ok demo_held"
    by (simp add: idempotency_ok_def demo_held_def response_invariant_def del: json_text.simps)
  obtain row0 where row0: "slot_row ''acme'' ''post'' ''key'' demo_held = Some row0" "ik_expires_at row0 = 100"
    "ik_request_hash row0 = json_text (PDict [(''company_id'', PInt 1), (''payload'', PDict (wc_request_payload demo_command))])"
    by (auto simp: slot_row_def demo_held_def same_slot_def simp del: json_text.simps)
  have hold: "slot_holder demo_held (slot_of_request (demo_context ''r1'')) = Some ''r1''"
    by (simp add: slot_holder_def slot_of_request_def slot_row_def demo_held_def same_slot_def del: json_text.simps)
  have hash: "request_hash (e_hash demo_env) (wc_company_id demo_command) (wc_request_payload demo_command)
      = Inr (ik_request_hash row0)"
    unfolding row0(3) by (simp add: request_hash_def canonical_json_def demo_env_def demo_hash_def demo_command_def
        del: json_text.simps)
  have misc: "rs_outcome ?r = Known" "cx_binding (demo_context ''r2'') = cx_binding (demo_context ''r1'')"
    "cx_snapshot (demo_context ''r2'') = cx_snapshot (demo_context ''r1'')"
    "\<not> wc_dry_run demo_command" "wc_idempotency_key demo_command = Some ''key''"
    "\<not> wc_compact_persistence demo_command" "e_fault demo_env 5 = Commits" "e_clock demo_env 10 < 100"
    "list_all (\<lambda>s. \<not> blank s) [request_id_of (demo_context ''r2''), ''acme'', ''post'', ''key'']"
    by (simp_all add: applied_response_def demo_context_def demo_command_def demo_env_def blank_def is_space_def
        request_id_of_def)
  have time: "e_clock demo_env (2 * w_tick \<lparr>w_db = w_db w1, w_tick = 5\<rparr>) < ik_expires_at row0"
    unfolding row0(2) by (simp add: demo_env_def)
  let ?w2 = "\<lparr>w_db = w_db w1, w_tick = 5\<rparr>"
  have "\<exists>ev res w3. ev_final_status ev = ''replayed'' \<and> (\<forall>cbs. run demo_env (demo_context ''r2'') cbs ?w2 = (Done (Returned res), w3))
    \<and> idempotency_keys (w_db w3) = idempotency_keys (w_db w1)
    \<and> (case do_append demo_env ev (?w2\<lparr>w_tick := Suc (w_tick ?w2)\<rparr>) of
         (Inr _, w4) \<Rightarrow> w3 = w4 \<and> res = norm_response (response_for_persistence (cx_command (demo_context ''r1'')) ?r)
           \<and> (\<exists>row. audit_log (w_db w3) = audit_log (w_db w1) @ [row] \<and> al_final_status row = ''replayed'')
       | (Inl _, w4) \<Rightarrow> w3 = w4 \<and> rs_outcome res = Not_attempted \<and> rs_status res = Failed)"
    by (rule success_is_replayed [OF w1 _ _ _ _ _ _ _ _ _ _ _ _ _ _ _ _ _ _ _ time])
      (use ok row0(1,2) hold hash misc wf demo_gate in \<open>simp_all del: json_text.simps wf_val.simps\<close>)
  then obtain ev res w3 where e: "ev_final_status ev = ''replayed''"
      "\<forall>cbs. run demo_env (demo_context ''r2'') cbs ?w2 = (Done (Returned res), w3)"
      "idempotency_keys (w_db w3) = idempotency_keys (w_db w1)"
    and c: "case do_append demo_env ev (?w2\<lparr>w_tick := Suc (w_tick ?w2)\<rparr>) of
         (Inr _, w4) \<Rightarrow> w3 = w4 \<and> res = norm_response (response_for_persistence (cx_command (demo_context ''r1'')) ?r)
           \<and> (\<exists>row. audit_log (w_db w3) = audit_log (w_db w1) @ [row] \<and> al_final_status row = ''replayed'')
       | (Inl _, w4) \<Rightarrow> w3 = w4 \<and> rs_outcome res = Not_attempted \<and> rs_status res = Failed"
    by (elim exE conjE) (rule that)
  have "res = norm_response ?r" if "do_append demo_env ev \<lparr>w_db = w_db w1, w_tick = 6\<rparr> = (Inr rec, w4)" for rec w4
    using c that by (simp add: keep)
  with w1 e show ?thesis by blast
qed

end
