(* ===== verification/WriteConcurrency.thy ===== *)
theory WriteConcurrency
  imports WriteSafety
begin

text \<open>
  Many write requests in one process. The event loop runs one stretch of one coroutine at a time and
  switches only at the awaits, so the requests interleave by whole stretches of
  \<open>WriteSafetyCoordinator.run\<close>. The step relation below takes any request through its next stretch
  with any callback result, in any order; what every reachable state satisfies holds for every
  schedule. Request identifiers are unique, as \<open>new_request_id\<close> makes them.
\<close>

section \<open>The system\<close>

text \<open>The store, the stage of every request that has started, and, for the proofs only, the requests
  whose mutation may have happened without a durable record of success.\<close>

record system =
  sy_world :: world
  sy_stage :: "nat \<Rightarrow> stage option"
  sy_uncertain :: "nat set"

definition set_stage :: "nat \<Rightarrow> stage \<times> world \<Rightarrow> system \<Rightarrow> system" where
  "set_stage i sw s = s\<lparr>sy_world := snd sw, sy_stage := (sy_stage s)(i \<mapsto> fst sw)\<rparr>"

definition uncertain_end :: "write_context \<Rightarrow> stage \<times> world \<Rightarrow> bool" where
  "uncertain_end c sw \<longleftrightarrow>
     (case fst sw of
        Done Cancelled \<Rightarrow> True
      | Done (Returned r) \<Rightarrow> rs_outcome r = Unknown
      | _ \<Rightarrow> False) \<and> \<not> slot_succeeded (w_db (snd sw)) c"

inductive system_step :: "env \<Rightarrow> (nat \<Rightarrow> write_context) \<Rightarrow> system \<Rightarrow> system \<Rightarrow> bool"
  for e :: env and cs :: "nat \<Rightarrow> write_context" where
  Start: "sy_stage s i = None \<Longrightarrow>
    system_step e cs s (set_stage i (start_step e (cs i) (sy_world s)) s)"
| Preview: "sy_stage s i = Some Previewing \<Longrightarrow>
    system_step e cs s (set_stage i (preview_step e (cs i) cb (sy_world s)) s)"
| Prepare: "sy_stage s i = Some Preparing \<Longrightarrow>
    system_step e cs s (set_stage i (prepare_step e (cs i) cb (sy_world s)) s)"
| Validate: "sy_stage s i = Some (Validating p) \<Longrightarrow>
    system_step e cs s (set_stage i (validate_step e (cs i) p vcb (sy_world s)) s)"
| Execute: "sy_stage s i = Some (Executing p) \<Longrightarrow> sw = execute_step e (cs i) p xcb (sy_world s) \<Longrightarrow>
    system_step e cs s ((set_stage i sw s)
      \<lparr>sy_uncertain := (if uncertain_end (cs i) sw then insert i (sy_uncertain s) else sy_uncertain s)\<rparr>)"

inductive reachable :: "env \<Rightarrow> (nat \<Rightarrow> write_context) \<Rightarrow> db \<Rightarrow> system \<Rightarrow> bool"
  for e :: env and cs :: "nat \<Rightarrow> write_context" and d0 :: db where
  Init: "reachable e cs d0 \<lparr>sy_world = \<lparr>w_db = d0, w_tick = n\<rparr>, sy_stage = (\<lambda>i. None), sy_uncertain = {}\<rparr>"
| Next: "reachable e cs d0 s \<Longrightarrow> system_step e cs s s' \<Longrightarrow> reachable e cs d0 s'"


definition holds_slot :: "stage option \<Rightarrow> bool" where
  "holds_slot st \<longleftrightarrow> (case st of
      Some Preparing \<Rightarrow> True | Some (Validating p) \<Rightarrow> True | Some (Executing p) \<Rightarrow> True | _ \<Rightarrow> False)"

section \<open>The invariant\<close>

text \<open>A request between its reservation and its end holds its slot; the slot of a request that ended
  uncertain is blocked.\<close>

definition system_ok :: "(nat \<Rightarrow> write_context) \<Rightarrow> system \<Rightarrow> bool" where
  "system_ok cs s \<longleftrightarrow> idempotency_ok (w_db (sy_world s))
     \<and> (\<forall>i. holds_slot (sy_stage s i) \<longrightarrow>
          slot_holder (w_db (sy_world s)) (slot_of_request (cs i)) = Some (request_id_of (cs i)))
     \<and> (\<forall>i \<in> sy_uncertain s. slot_blocked (w_db (sy_world s)) (cs i) \<and> (\<exists>res. sy_stage s i = Some (Done res)))"

definition distinct_requests :: "(nat \<Rightarrow> write_context) \<Rightarrow> bool" where
  "distinct_requests cs \<longleftrightarrow> inj (\<lambda>i. request_id_of (cs i))"

lemma own_ops_keep_holder:
  assumes "own_ops e c b w w'" "idempotency_ok (w_db w)" "rid \<noteq> request_id_of c"
    and "slot_holder (w_db w) s = Some rid"
  shows "slot_holder (w_db w') s = Some rid"
  using assms journal.run_holder [OF assms(2,4)] unfolding own_ops_def by fastforce

lemma own_ops_keep_unknown:
  "own_ops e c b w w' \<Longrightarrow> idempotency_ok (w_db w) \<Longrightarrow> slot_unknown (w_db w) s \<Longrightarrow> slot_unknown (w_db w') s"
  unfolding own_ops_def by (auto intro: journal.run_stuck)

lemma own_ops_keep_blocked:
  assumes "own_ops e c b w w'" "idempotency_ok (w_db w)" "request_id_of c' \<noteq> request_id_of c"
    and "slot_blocked (w_db w) c'"
  shows "slot_blocked (w_db w') c'"
  using assms(4) own_ops_keep_holder [OF assms(1,2,3), of "slot_of_request c'"]
    own_ops_keep_unknown [OF assms(1,2), of "slot_of_request c'"]
  unfolding slot_blocked_def by blast

text \<open>One request moves: the others keep what they have.\<close>

lemma set_stage_ok:
  assumes inv: "system_ok cs s" and "distinct_requests cs" and own: "own_ops e (cs i) b (sy_world s) w'"
    and "i \<notin> sy_uncertain s"
    and new: "holds_slot (Some st) \<Longrightarrow> slot_holder (w_db w') (slot_of_request (cs i)) = Some (request_id_of (cs i))"
  shows "system_ok cs (set_stage i (st, w') s)"
proof -
  have db: "idempotency_ok (w_db (sy_world s))" using inv by (simp add: system_ok_def)
  have neq: "request_id_of (cs j) \<noteq> request_id_of (cs i)" if "j \<noteq> i" for j
    using assms(2) that by (auto simp: distinct_requests_def dest: injD)
  show ?thesis
    unfolding system_ok_def set_stage_def
    using inv own_ops_ok [OF own db] new assms(4)
      own_ops_keep_holder [OF own db neq] own_ops_keep_blocked [OF own db neq]
    by (auto simp: system_ok_def)
qed

lemma step_ok:
  assumes "system_step e cs s s'" "system_ok cs s" "distinct_requests cs"
  shows "system_ok cs s'"
  using assms(1)
proof cases
  case (Start i)
  obtain st w' where st: "start_step e (cs i) (sy_world s) = (st, w')" by (rule prod.exhaust)
  have db: "idempotency_ok (w_db (sy_world s))" using assms(2) by (simp add: system_ok_def)
  have "slot_holder (w_db w') (slot_of_request (cs i)) = Some (request_id_of (cs i))" if "holds_slot (Some st)"
  proof -
    have "st = Preparing" using start_step_own [OF st] that by (auto simp: holds_slot_def)
    with start_step_preparing st have "begin_step e (cs i) (key_of (cs i)) (sy_world s) = (Preparing, w')" by blast
    from begin_step_preparing [OF this db] show ?thesis by (simp add: slot_of_request_def)
  qed
  moreover have "i \<notin> sy_uncertain s" using Start assms(2) by (auto simp: system_ok_def)
  ultimately show ?thesis
    using set_stage_ok [OF assms(2,3)] start_step_own [OF st] Start st by (metis fst_conv snd_conv)
next
  case (Preview i cb)
  obtain st w' where st: "preview_step e (cs i) cb (sy_world s) = (st, w')" by (rule prod.exhaust)
  moreover have "i \<notin> sy_uncertain s" using Preview assms(2) by (auto simp: system_ok_def)
  moreover have "\<not> holds_slot (Some st)" using preview_step_own [OF st] by (auto simp: holds_slot_def)
  ultimately show ?thesis
    using set_stage_ok [OF assms(2,3)] preview_step_own [OF st] Preview by metis
next
  case (Prepare i cb)
  obtain st w' where st: "prepare_step e (cs i) cb (sy_world s) = (st, w')" by (rule prod.exhaust)
  moreover have "i \<notin> sy_uncertain s" using Prepare assms(2) by (auto simp: system_ok_def)
  moreover have "slot_holder (w_db (sy_world s)) (slot_of_request (cs i)) = Some (request_id_of (cs i))"
    using Prepare assms(2) by (simp add: system_ok_def holds_slot_def)
  then have "holds_slot (Some st) \<Longrightarrow> slot_holder (w_db w') (slot_of_request (cs i)) = Some (request_id_of (cs i))"
    using prepare_step_own [OF st] by (auto simp: holds_slot_def)
  ultimately show ?thesis
    using set_stage_ok [OF assms(2,3)] prepare_step_own [OF st] Prepare by metis
next
  case (Validate i p cb)
  obtain st w' where st: "validate_step e (cs i) p cb (sy_world s) = (st, w')" by (rule prod.exhaust)
  moreover have "i \<notin> sy_uncertain s" using Validate assms(2) by (auto simp: system_ok_def)
  moreover have "slot_holder (w_db (sy_world s)) (slot_of_request (cs i)) = Some (request_id_of (cs i))"
    using Validate assms(2) by (simp add: system_ok_def holds_slot_def)
  then have "holds_slot (Some st) \<Longrightarrow> slot_holder (w_db w') (slot_of_request (cs i)) = Some (request_id_of (cs i))"
    using validate_step_own [OF st] by (auto simp: holds_slot_def)
  ultimately show ?thesis
    using set_stage_ok [OF assms(2,3)] validate_step_own [OF st] Validate by metis
next
  case (Execute i p sw cb)
  obtain st w' where st: "execute_step e (cs i) p cb (sy_world s) = (st, w')" by (rule prod.exhaust)
  have db: "idempotency_ok (w_db (sy_world s))" using assms(2) by (simp add: system_ok_def)
  have hold: "slot_holder (w_db (sy_world s)) (slot_of_request (cs i)) = Some (request_id_of (cs i))"
    using Execute assms(2) by (simp add: system_ok_def holds_slot_def)
  have "i \<notin> sy_uncertain s" using Execute assms(2) by (auto simp: system_ok_def)
  moreover obtain res where res: "st = Done res" using execute_step_own [OF st] by blast
  then have "\<not> holds_slot (Some st)" by (simp add: holds_slot_def)
  ultimately have base: "system_ok cs (set_stage i (st, w') s)"
    using set_stage_ok [OF assms(2,3) conjunct1 [OF execute_step_own [OF st]]] by blast
  have "slot_blocked (w_db w') (cs i)" if "uncertain_end (cs i) (st, w')"
    using execute_step_cases [OF st db hold] that
    by (auto simp: uncertain_end_def applied_response_def failure_def split: run_result.splits)
  with base Execute st res show ?thesis
    by (auto simp: system_ok_def set_stage_def)
qed

lemma reachable_ok:
  assumes "reachable e cs d0 s" "idempotency_ok d0" "distinct_requests cs"
  shows "system_ok cs s"
  using assms(1)
proof induction
  case (Init n)
  show ?case using assms(2) by (simp add: system_ok_def holds_slot_def)
next
  case (Next s s')
  with step_ok assms(3) show ?case by blast
qed

section \<open>A concrete schedule\<close>

text \<open>A granted start leaves the other slots and the numbering of the audit log in order.\<close>

lemma append_ids_ok: "append_in_transaction H now ev d = Inr (rec, d') \<Longrightarrow> audit_ids_ok d \<Longrightarrow> audit_ids_ok d'"
  by (drule append_effect) (auto simp: audit_ids_ok_def le_SucI)

lemma start_preparing_frame:
  assumes "start_step e c w = (Preparing, w')" "idempotency_ok (w_db w)" "audit_ids_ok (w_db w)"
  shows "audit_ids_ok (w_db w') \<and>
    (\<forall>t n k. (t, n, k) \<noteq> slot_of_request c \<longrightarrow> slot_row t n k (w_db w') = slot_row t n k (w_db w))"
proof -
  from start_step_preparing [OF assms(1)] have "begin_step e c (key_of c) w = (Preparing, w')" by blast
  then obtain ev dec where ev: "write_event c ''attempted'' None
            (Some [(''tool'', PStr (td_name (cx_definition c))),
                   (''risk_level'', PStr (risk_text (td_risk_level (cx_definition c))))]) [] = Inr ev"
    and b: "do_begin e ev (key_of c) (wc_request_payload (cx_command c)) w = (Inr dec, w')"
    by (auto simp: begin_step_def split: sum.splits prod.splits disposition.splits if_splits
        dest!: reject_own append_or_fail_own [OF _ write_event_ids(1)])
  from do_begin_journal [OF b] obtain f now now' where
    j: "journal_begin (e_hash e) f now now' ev (key_of c) (wc_request_payload (cx_command c)) (w_db w) = (Inr dec, w_db w')"
    by blast
  have "audit_ids_ok (w_db w')"
    using journal_begin_db [OF j] assms(3)
  proof (elim disjE exE conjE)
    fix co dec' assume "begin_in_transaction (e_hash e) now now' ev co (key_of c)
        (wc_request_payload (cx_command c)) (w_db w) = Inr (dec', w_db w')"
    then show ?thesis using assms(2)
    proof (cases rule: begin_cases)
      case (reserved d1 rec)
      have "audit_ids_ok d1" using reserve_frame [OF reserved(2)] assms(3) by (simp add: audit_ids_ok_def)
      with append_ids_ok [OF reserved(3)] show ?thesis by blast
    qed (use assms(3) in simp)
  qed simp_all
  moreover have "slot_row t n k (w_db w') = slot_row t n k (w_db w)" if "(t, n, k) \<noteq> slot_of_request c" for t n k
    using begin_slot [OF j assms(2), of t n k] write_event_ids(2,3) [OF ev] that by (auto simp: slot_of_request_def)
  ultimately show ?thesis by blast
qed

text \<open>Requests of different tenants.\<close>

definition demo_requests :: "nat \<Rightarrow> write_context" where
  "demo_requests i = (demo_context (replicate (Suc i) (CHR ''r'')))
     \<lparr>cx_binding := (cx_binding (demo_context [CHR ''r'']))\<lparr>bd_tenant_id := replicate (Suc i) (CHR ''a'')\<rparr>\<rparr>"

lemma demo_requests_sel [simp]:
  "request_id_of (demo_requests i) = replicate (Suc i) (CHR ''r'')"
  "slot_of_request (demo_requests i) = (replicate (Suc i) (CHR ''a''), ''post'', ''key'')"
  "cx_command (demo_requests i) = demo_command" "cx_definition (demo_requests i) = demo_tool"
  "bd_tenant_id (cx_binding (demo_requests i)) = replicate (Suc i) (CHR ''a'')"
  "cx_preflight_error (demo_requests i) = None"
  by (simp_all add: demo_requests_def request_id_of_def slot_of_request_def key_of_def demo_context_def
      demo_command_def demo_tool_def mk_tool_def)

lemma demo_requests_distinct: "distinct_requests demo_requests"
  unfolding distinct_requests_def inj_def demo_requests_sel
  by (metis length_replicate nat.inject)

lemma demo_requests_start:
  assumes "idempotency_ok (w_db w)" "audit_ids_ok (w_db w)"
    and "slot_row (replicate (Suc i) (CHR ''a'')) ''post'' ''key'' (w_db w) = None"
    and "tenant_rows (replicate (Suc i) (CHR ''a'')) (w_db w) = []"
  shows "\<exists>w'. start_step demo_env (demo_requests i) w = (Preparing, w')"
proof -
  have "context_ok (demo_requests i)"
    by (simp add: context_ok_def demo_requests_def demo_context_def demo_command_def demo_tool_def mk_tool_def
        blank_def is_space_def request_id_of_def keys_def)
  moreover have "gate_error (cx_binding (demo_requests i)) demo_tool (cx_snapshot (demo_requests i)) demo_command = None"
    by (simp add: gate_error_def demo_requests_def demo_tool_def mk_tool_def demo_context_def demo_command_def
        get_or_def reserved_write_keys_def keys_def)
  moreover have "\<not> blank ''key''" "\<not> wc_dry_run demo_command" "wc_idempotency_key demo_command = Some ''key''"
    "td_name demo_tool = ''post''" "e_fault demo_env (w_tick w) = Commits"
    by (simp_all add: blank_def is_space_def demo_command_def demo_tool_def mk_tool_def demo_env_def)
  ultimately show ?thesis
    using assms demo_gate(1)
    by (intro start_step_grants [where key = "''key''"]) (simp_all del: replicate.simps)
qed

lemma demo_two_started:
  "\<exists>s. reachable demo_env demo_requests empty_db s \<and> sy_stage s 0 = Some Preparing \<and> sy_stage s 1 = Some Preparing
    \<and> sy_uncertain s = {}"
proof -
  let ?s0 = "\<lparr>sy_world = \<lparr>w_db = empty_db, w_tick = 0\<rparr>, sy_stage = (\<lambda>i. None), sy_uncertain = {}\<rparr> :: system"
  have r0: "reachable demo_env demo_requests empty_db ?s0" by (rule Init)
  have "audit_ids_ok empty_db" by (simp add: audit_ids_ok_def empty_db_def)
  moreover have "slot_row t n k empty_db = None" "tenant_rows t empty_db = []" for t n k
    by (simp_all add: slot_row_def tenant_rows_def empty_db_def)
  ultimately obtain w1 where w1: "start_step demo_env (demo_requests 0) \<lparr>w_db = empty_db, w_tick = 0\<rparr> = (Preparing, w1)"
    using demo_requests_start [of "\<lparr>w_db = empty_db, w_tick = 0\<rparr>" 0] idempotency_ok_empty by auto
  let ?s1 = "set_stage 0 (Preparing, w1) ?s0"
  have r1: "reachable demo_env demo_requests empty_db ?s1"
    using Next [OF r0 Start [of ?s0 0]] w1 by simp
  have ok1: "idempotency_ok (w_db w1)"
    using own_ops_ok start_step_own [OF w1] idempotency_ok_empty by fastforce
  have frame: "audit_ids_ok (w_db w1)" "slot_row (replicate (Suc 1) (CHR ''a'')) ''post'' ''key'' (w_db w1) = None"
    using start_preparing_frame [OF w1] idempotency_ok_empty \<open>audit_ids_ok empty_db\<close> \<open>\<And>t n k. slot_row t n k empty_db = None\<close>
    by auto
  from start_step_preparing [OF w1] have "begin_step demo_env (demo_requests 0) (key_of (demo_requests 0))
      \<lparr>w_db = empty_db, w_tick = 0\<rparr> = (Preparing, w1)" by blast
  from begin_step_preparing [OF this] idempotency_ok_empty have
    "tenant_rows (replicate (Suc 1) (CHR ''a'')) (w_db w1) = []"
    by (auto simp: tenant_rows_def empty_db_def)
  with demo_requests_start [of w1 1] ok1 frame obtain w2 where
    w2: "start_step demo_env (demo_requests 1) w1 = (Preparing, w2)" by blast
  have "reachable demo_env demo_requests empty_db (set_stage 1 (Preparing, w2) ?s1)"
    using Next [OF r1 Start [of ?s1 1]] w2 by (simp add: set_stage_def)
  then show ?thesis
    by (intro exI [of _ "set_stage 1 (Preparing, w2) ?s1"]) (simp add: set_stage_def)
qed

lemma demo_uncertain:
  "\<exists>s. reachable demo_env demo_requests empty_db s \<and> 0 \<in> sy_uncertain s \<and> sy_stage s 1 = Some Preparing"
proof -
  from demo_two_started obtain s where s: "reachable demo_env demo_requests empty_db s"
    "sy_stage s 0 = Some Preparing" "sy_stage s 1 = Some Preparing" by blast
  have norm: "normalize_prepared (Some \<lparr>rp_proposed_action = Some [], rp_material_effects = Some [],
       rp_artifact_markdown = PNone, rp_needs_input = PBool False\<rparr>) = Inr demo_prepared"
    by (simp add: normalize_prepared_def is_bool_def bool_of_def mapping_items_def demo_prepared_def)
  have "serialisable (PDict (response_values (prepared_response demo_prepared rid co)))" for rid co
    unfolding serialisable_response by (simp add: prepared_response_def demo_prepared_def)
  then have p: "prepare_step demo_env c (cb_prepare demo_callbacks) w = (Validating demo_prepared, w)" for c w
    using norm by (simp add: prepare_step_def demo_callbacks_def model_dump_def demo_prepared_def Let_def
        del: serialisable.simps)
  let ?s1 = "set_stage 0 (Validating demo_prepared, sy_world s) s"
  have r1: "reachable demo_env demo_requests empty_db ?s1"
    using Next [OF s(1) Prepare [OF s(2), of demo_env demo_requests "cb_prepare demo_callbacks"]] p by simp
  let ?s2 = "set_stage 0 (Executing demo_prepared, sy_world s) ?s1"
  have st1: "sy_stage ?s1 0 = Some (Validating demo_prepared)" by (simp add: set_stage_def)
  have r2: "reachable demo_env demo_requests empty_db ?s2"
    using Next [OF r1 Validate [OF st1, of demo_env demo_requests "Gives ()"]]
    by (simp add: validate_step_def set_stage_def)
  have st2: "sy_stage ?s2 0 = Some (Executing demo_prepared)" by (simp add: set_stage_def)
  obtain st w' where x: "execute_step demo_env (demo_requests 0) demo_prepared Cancels (sy_world ?s2) = (st, w')"
    by (rule prod.exhaust)
  have ok: "system_ok demo_requests ?s2" by (rule reachable_ok [OF r2 idempotency_ok_empty demo_requests_distinct])
  have db: "idempotency_ok (w_db (sy_world ?s2))" using ok by (simp only: system_ok_def)
  have hold: "slot_holder (w_db (sy_world ?s2)) (slot_of_request (demo_requests 0)) = Some (request_id_of (demo_requests 0))"
    using ok st2 unfolding system_ok_def holds_slot_def by (metis option.case stage.case(4))
  have "st = Done Cancelled" "slot_blocked (w_db w') (demo_requests 0)"
    using execute_step_cases [OF x db hold] by auto
  moreover have "\<not> slot_succeeded d c" if "slot_blocked d c" for d c
    using that by (auto simp: slot_blocked_def slot_succeeded_def slot_holder_def slot_unknown_def slot_of_request_def
        split: option.splits if_splits)
  ultimately have "uncertain_end (demo_requests 0) (st, w')" by (simp add: uncertain_end_def)
  with Next [OF r2 Execute [OF st2, of "(st, w')" demo_env demo_requests Cancels]] x s(3) show ?thesis
    by (intro exI [of _ "(set_stage 0 (st, w') ?s2)\<lparr>sy_uncertain := insert 0 (sy_uncertain ?s2)\<rparr>"])
      (simp add: set_stage_def)
qed

section \<open>Properties\<close>

text \<open>C5 (mutual exclusion). In every reachable state of every schedule, two different requests
  between their reservation and their end have different slots: no two coroutines prepare, validate or
  execute the same tenant, tool and key at the same time.\<close>

theorem mutual_exclusion:
  assumes "reachable e cs d0 s" "idempotency_ok d0" "distinct_requests cs"
    and "holds_slot (sy_stage s i)" "holds_slot (sy_stage s j)" "i \<noteq> j"
  shows "slot_of_request (cs i) \<noteq> slot_of_request (cs j)"
proof
  assume same: "slot_of_request (cs i) = slot_of_request (cs j)"
  have hold: "slot_holder (w_db (sy_world s)) (slot_of_request (cs k)) = Some (request_id_of (cs k))"
    if "holds_slot (sy_stage s k)" for k
    using reachable_ok [OF assms(1,2,3)] that by (simp add: system_ok_def)
  have "request_id_of (cs i) = request_id_of (cs j)"
    using hold [OF assms(4)] hold [OF assms(5)] same by simp
  with assms(3,6) show False by (auto simp: distinct_requests_def dest: injD)
qed

theorem mutual_exclusion_witness:
  "\<exists>s. reachable demo_env demo_requests empty_db s \<and> holds_slot (sy_stage s 0) \<and> holds_slot (sy_stage s 1)
    \<and> slot_of_request (demo_requests 0) \<noteq> slot_of_request (demo_requests 1)"
proof -
  from demo_two_started obtain s where s: "reachable demo_env demo_requests empty_db s"
    "sy_stage s 0 = Some Preparing" "sy_stage s 1 = Some Preparing" by blast
  then have h: "holds_slot (sy_stage s 0)" "holds_slot (sy_stage s 1)" by (simp_all add: holds_slot_def)
  from mutual_exclusion [OF s(1) idempotency_ok_empty demo_requests_distinct h] s(1) h show ?thesis by force
qed

text \<open>No execution after an uncertain one. In every reachable state of every schedule, if a
  request's execution ended cancelled or unknown without a recorded success, no other request on its
  slot is between reservation and end, now or later: the mutation is not tried again.\<close>

theorem no_execution_after_uncertain:
  assumes "reachable e cs d0 s" "idempotency_ok d0" "distinct_requests cs"
    and "i \<in> sy_uncertain s" "holds_slot (sy_stage s j)"
  shows "slot_of_request (cs j) \<noteq> slot_of_request (cs i)"
proof
  assume same: "slot_of_request (cs j) = slot_of_request (cs i)"
  note ok = reachable_ok [OF assms(1,2,3)]
  then have "slot_holder (w_db (sy_world s)) (slot_of_request (cs j)) = Some (request_id_of (cs j))"
    "slot_blocked (w_db (sy_world s)) (cs i)" "\<exists>res. sy_stage s i = Some (Done res)"
    using assms(4,5) by (auto simp: system_ok_def)
  then have "request_id_of (cs i) = request_id_of (cs j)" "i \<noteq> j"
    using same holder_not_unknown [of "w_db (sy_world s)" "slot_of_request (cs i)"] assms(5)
    by (auto simp: slot_blocked_def holds_slot_def)
  with assms(3) show False by (auto simp: distinct_requests_def dest: injD)
qed

theorem no_execution_after_uncertain_witness:
  "\<exists>s. reachable demo_env demo_requests empty_db s \<and> 0 \<in> sy_uncertain s \<and> holds_slot (sy_stage s 1)
    \<and> slot_of_request (demo_requests 1) \<noteq> slot_of_request (demo_requests 0)"
proof -
  from demo_uncertain obtain s where s: "reachable demo_env demo_requests empty_db s" "0 \<in> sy_uncertain s"
    "sy_stage s 1 = Some Preparing" by blast
  then have h: "holds_slot (sy_stage s 1)" by (simp add: holds_slot_def)
  from no_execution_after_uncertain [OF s(1) idempotency_ok_empty demo_requests_distinct s(2) h] s(1,2) h
  show ?thesis by blast
qed

end
