(* ===== verification/AuthTables.thy ===== *)
theory AuthTables
  imports AuditLog
begin

text \<open>
  The tables of hosted connectors (\<open>erp_connections\<close> and the four \<open>oauth_\<close> tables of
  \<open>storage/migrations.py\<close>): inserts, updates and deletes with every constraint, foreign key and
  trigger of migrations 0003 and 0004. A violated one is \<open>IntegrityError\<close> and the statement changes
  nothing. The invariant \<open>authority_ok\<close> is what the tables and their users promise together.
\<close>

section \<open>State machines of the triggers\<close>

fun connector_transition :: "connector_status \<Rightarrow> connector_status \<Rightarrow> bool" where
  "connector_transition CS_pending s \<longleftrightarrow> s \<in> {CS_active, CS_expired, CS_revoked}"
| "connector_transition CS_active s \<longleftrightarrow> s = CS_revoked"
| "connector_transition CS_revoked s \<longleftrightarrow> False"
| "connector_transition CS_expired s \<longleftrightarrow> False"

fun session_transition :: "session_status \<Rightarrow> session_status \<Rightarrow> bool" where
  "session_transition SS_pending s \<longleftrightarrow> s \<in> {SS_authorized, SS_expired, SS_denied}"
| "session_transition SS_authorized s \<longleftrightarrow> s = SS_consumed"
| "session_transition SS_consumed s \<longleftrightarrow> False"
| "session_transition SS_expired s \<longleftrightarrow> False"
| "session_transition SS_denied s \<longleftrightarrow> False"

fun grant_transition :: "grant_status \<Rightarrow> grant_status \<Rightarrow> bool" where
  "grant_transition GS_active s \<longleftrightarrow> s = GS_revoked"
| "grant_transition GS_revoked s \<longleftrightarrow> False"

section \<open>Rows that belong together\<close>

definition is_connection :: "string \<Rightarrow> string \<Rightarrow> connection_row \<Rightarrow> bool" where
  "is_connection t i c \<longleftrightarrow> cn_tenant_id c = t \<and> cn_id c = i"

definition has_active_grant :: "string \<Rightarrow> string \<Rightarrow> grant_row list \<Rightarrow> bool" where
  "has_active_grant t i gs \<longleftrightarrow>
     (\<exists>g \<in> set gs. gr_connector_id g = i \<and> gr_tenant_id g = t \<and> gr_status g = GS_active)"

definition has_active_connection :: "string \<Rightarrow> string \<Rightarrow> connection_row list \<Rightarrow> bool" where
  "has_active_connection t i cs \<longleftrightarrow> (\<exists>c \<in> set cs. is_connection t i c \<and> cn_status c = CS_active)"

text \<open>The non-null values of a nullable UNIQUE column.\<close>

fun somes :: "'a option list \<Rightarrow> 'a list" where
  "somes [] = []"
| "somes (None # xs) = somes xs"
| "somes (Some x # xs) = x # somes xs"

lemma set_somes: "x \<in> set (somes xs) \<longleftrightarrow> Some x \<in> set xs"
  by (induction xs rule: somes.induct) auto

lemma somes_append: "somes (xs @ ys) = somes xs @ somes ys"
  by (induction xs rule: somes.induct) auto

lemma distinct_somesD:
  "distinct (somes (map f rs)) \<Longrightarrow> a \<in> set rs \<Longrightarrow> b \<in> set rs \<Longrightarrow> f a = Some x \<Longrightarrow> f b = Some x \<Longrightarrow>
    distinct rs \<Longrightarrow> a = b"
proof (induction rs)
  case (Cons r rs)
  show ?case
  proof (cases "f r")
    case None
    with Cons show ?thesis by auto
  next
    case (Some y)
    with Cons show ?thesis by (auto simp: set_somes image_iff)
  qed
qed simp

section \<open>Connections\<close>

definition connection_key :: "connection_row \<Rightarrow> string \<times> string" where
  "connection_key c = (cn_tenant_id c, cn_id c)"

definition unique_connections :: "connection_row list \<Rightarrow> bool" where
  "unique_connections cs \<longleftrightarrow> distinct (map connection_key cs)
     \<and> distinct (somes (map cn_enrollment_handle_hash cs))
     \<and> distinct (somes (map cn_consumed_enrollment_handle_hash cs))"

text \<open>The company selection is made, and the enrollment handle is used up.\<close>

definition selection_complete :: "connection_row \<Rightarrow> bool" where
  "selection_complete c \<longleftrightarrow> cn_allowed_company_ids_json c \<noteq> None \<and> cn_default_company_id c \<noteq> None
     \<and> cn_enrollment_handle_hash c = None \<and> cn_consumed_enrollment_handle_hash c \<noteq> None"

definition connection_check :: "connection_row \<Rightarrow> bool" where
  "connection_check c \<longleftrightarrow> cn_key_version c > 0
     \<and> (case cn_default_company_id c of None \<Rightarrow> True | Some n \<Rightarrow> n > 0)
     \<and> (cn_status c = CS_active \<longrightarrow> cn_allowed_company_ids_json c \<noteq> None
          \<and> cn_default_company_id c \<noteq> None \<and> cn_enrollment_handle_hash c = None)"

text \<open>\<open>INSERT ... ON CONFLICT (enrollment_handle_hash) DO NOTHING\<close>: the row count.\<close>

definition insert_connection :: "connection_row \<Rightarrow> nat tx" where
  "insert_connection c d =
    (if cn_status c = CS_active then Inl IntegrityError
     else if cn_enrollment_handle_hash c \<noteq> None
        \<and> cn_enrollment_handle_hash c \<in> cn_enrollment_handle_hash ` set (erp_connections d) then Inr (0, d)
     else if \<not> connection_check c \<or> \<not> unique_connections (erp_connections d @ [c]) then Inl IntegrityError
     else Inr (1, d\<lparr>erp_connections := erp_connections d @ [c]\<rparr>))"

definition connection_update_ok :: "grant_row list \<Rightarrow> connection_row \<Rightarrow> connection_row \<Rightarrow> bool" where
  "connection_update_ok gs old new \<longleftrightarrow> connection_check new
     \<and> (cn_status old \<noteq> cn_status new \<longrightarrow> connector_transition (cn_status old) (cn_status new))
     \<and> (cn_status new = CS_active \<longrightarrow> selection_complete new)
     \<and> (cn_status new = CS_active \<and> cn_status old \<noteq> CS_active \<longrightarrow>
          has_active_grant (cn_tenant_id new) (cn_id new) gs)"

definition update_connections ::
    "(connection_row \<Rightarrow> bool) \<Rightarrow> (connection_row \<Rightarrow> connection_row) \<Rightarrow> nat tx" where
  "update_connections P f d =
    (if (\<exists>c \<in> set (erp_connections d). P c \<and> \<not> connection_update_ok (oauth_grants d) c (f c))
        \<or> \<not> unique_connections (update_rows P f (erp_connections d))
     then Inl IntegrityError
     else Inr (count_rows P (erp_connections d),
               d\<lparr>erp_connections := update_rows P f (erp_connections d)\<rparr>))"

text \<open>A connection with grants cannot be deleted: the grants reference it.\<close>

definition delete_connections :: "(connection_row \<Rightarrow> bool) \<Rightarrow> unit tx" where
  "delete_connections P d =
    (if \<exists>c \<in> set (erp_connections d). P c \<and>
          (\<exists>g \<in> set (oauth_grants d). is_connection (gr_tenant_id g) (gr_connector_id g) c)
     then Inl IntegrityError
     else Inr ((), d\<lparr>erp_connections := filter (\<lambda>c. \<not> P c) (erp_connections d)\<rparr>))"

section \<open>Clients and sessions\<close>

definition insert_client :: "client_row \<Rightarrow> unit tx" where
  "insert_client c d =
    (if cl_client_id c \<in> cl_client_id ` set (oauth_clients d) then Inl IntegrityError
     else Inr ((), d\<lparr>oauth_clients := oauth_clients d @ [c]\<rparr>))"

definition update_clients :: "(client_row \<Rightarrow> bool) \<Rightarrow> (client_row \<Rightarrow> client_row) \<Rightarrow> unit tx" where
  "update_clients P f d = Inr ((), d\<lparr>oauth_clients := update_rows P f (oauth_clients d)\<rparr>)"

definition unique_sessions :: "session_row list \<Rightarrow> bool" where
  "unique_sessions ss \<longleftrightarrow> distinct (map se_state_hash ss)
     \<and> distinct (somes (map se_authorization_code_hash ss))"

definition insert_session :: "session_row \<Rightarrow> unit tx" where
  "insert_session s d =
    (if se_client_id s \<notin> cl_client_id ` set (oauth_clients d)
        \<or> \<not> unique_sessions (oauth_sessions d @ [s]) then Inl IntegrityError
     else Inr ((), d\<lparr>oauth_sessions := oauth_sessions d @ [s]\<rparr>))"

definition update_sessions :: "(session_row \<Rightarrow> bool) \<Rightarrow> (session_row \<Rightarrow> session_row) \<Rightarrow> nat tx" where
  "update_sessions P f d =
    (if (\<exists>s \<in> set (oauth_sessions d). P s \<and> se_status s \<noteq> se_status (f s)
            \<and> \<not> session_transition (se_status s) (se_status (f s)))
        \<or> \<not> unique_sessions (update_rows P f (oauth_sessions d))
     then Inl IntegrityError
     else Inr (count_rows P (oauth_sessions d),
               d\<lparr>oauth_sessions := update_rows P f (oauth_sessions d)\<rparr>))"

section \<open>Grants and tokens\<close>

definition insert_grant :: "grant_row \<Rightarrow> unit tx" where
  "insert_grant g d =
    (if gr_id g \<in> gr_id ` set (oauth_grants d)
        \<or> gr_client_id g \<notin> cl_client_id ` set (oauth_clients d)
        \<or> \<not> (\<exists>c \<in> set (erp_connections d). is_connection (gr_tenant_id g) (gr_connector_id g) c)
     then Inl IntegrityError
     else Inr ((), d\<lparr>oauth_grants := oauth_grants d @ [g]\<rparr>))"

definition grant_update_ok :: "connection_row list \<Rightarrow> grant_row \<Rightarrow> grant_row \<Rightarrow> bool" where
  "grant_update_ok cs old new \<longleftrightarrow> gr_scopes_json new = gr_scopes_json old
     \<and> (gr_status old \<noteq> gr_status new \<longrightarrow> grant_transition (gr_status old) (gr_status new)
          \<and> \<not> has_active_connection (gr_tenant_id old) (gr_connector_id old) cs)"

definition update_grants :: "(grant_row \<Rightarrow> bool) \<Rightarrow> (grant_row \<Rightarrow> grant_row) \<Rightarrow> nat tx" where
  "update_grants P f d =
    (if \<exists>g \<in> set (oauth_grants d). P g \<and> \<not> grant_update_ok (erp_connections d) g (f g)
     then Inl IntegrityError
     else Inr (count_rows P (oauth_grants d), d\<lparr>oauth_grants := update_rows P f (oauth_grants d)\<rparr>))"

text \<open>The scopes in a \<open>scopes_json\<close> column, \<open>None\<close> unless it is an array of text.\<close>

definition scope_list :: "string \<Rightarrow> string list option" where
  "scope_list j = (case parse_string_tuple j of Inl _ \<Rightarrow> None | Inr ss \<Rightarrow> Some ss)"

definition scopes_within :: "token_row \<Rightarrow> grant_row \<Rightarrow> bool" where
  "scopes_within t g \<longleftrightarrow>
     (case (scope_list (tk_scopes_json t), scope_list (gr_scopes_json g)) of
        (Some ts, Some gs) \<Rightarrow> ts \<noteq> [] \<and> set ts \<subseteq> set gs
      | _ \<Rightarrow> False)"

definition insert_token :: "token_row \<Rightarrow> unit tx" where
  "insert_token t d =
    (if tk_token_hash t \<in> tk_token_hash ` set (oauth_tokens d)
        \<or> \<not> (\<exists>g \<in> set (oauth_grants d). gr_id g = tk_grant_id t \<and> scopes_within t g)
     then Inl IntegrityError
     else Inr ((), d\<lparr>oauth_tokens := oauth_tokens d @ [t]\<rparr>))"

definition update_tokens :: "(token_row \<Rightarrow> bool) \<Rightarrow> (token_row \<Rightarrow> token_row) \<Rightarrow> nat tx" where
  "update_tokens P f d =
    (if \<exists>t \<in> set (oauth_tokens d). P t \<and> tk_scopes_json (f t) \<noteq> tk_scopes_json t then Inl IntegrityError
     else Inr (count_rows P (oauth_tokens d), d\<lparr>oauth_tokens := update_rows P f (oauth_tokens d)\<rparr>))"

section \<open>Identity facts of a request\<close>

record connector_authorization =
  ca_tenant_id :: string
  ca_connection_id :: string
  ca_authenticated_subject :: string
  ca_mcp_client :: string
  ca_permissions :: "string list"

end
