(* ===== verification/Connections.thy ===== *)
theory Connections
  imports AuthTables "HOL-Library.Product_Lexorder"
begin

text \<open>
  \<open>storage/connections.py\<close>: the encryption keyring and the repository of encrypted connections, with
  the Base64 and UTF-8 codecs it uses and the settings model of \<open>app/settings.py\<close> it fills. The
  authenticated cipher (AES-GCM) and the URL model are parameters.
\<close>

section \<open>Base64\<close>

definition b64_alphabet :: string where
  "b64_alphabet = ''ABCDEFGHIJKLMNOPQRSTUVWXYZabcdefghijklmnopqrstuvwxyz0123456789-_''"

definition b64_char :: "nat \<Rightarrow> char" where
  "b64_char n = b64_alphabet ! n"

fun index_of :: "char \<Rightarrow> string \<Rightarrow> nat \<Rightarrow> nat option" where
  "index_of c [] n = None"
| "index_of c (x # xs) n = (if x = c then Some n else index_of c xs (Suc n))"

text \<open>\<open>altchars\<close> only renames: the standard characters are read as well.\<close>

definition b64_val :: "char \<Rightarrow> nat option" where
  "b64_val c = (if c = CHR ''+'' then Some 62 else if c = CHR ''/'' then Some 63 else index_of c b64_alphabet 0)"

definition byte :: "nat \<Rightarrow> char" where "byte n = char_of n"

fun b64_encode :: "string \<Rightarrow> string" where
  "b64_encode [] = []"
| "b64_encode [a] = (let x = (of_char a :: nat) in
     [b64_char (x div 4), b64_char (x mod 4 * 16), CHR ''='', CHR ''=''])"
| "b64_encode [a, b] = (let x = (of_char a :: nat); y = (of_char b :: nat) in
     [b64_char (x div 4), b64_char (x mod 4 * 16 + y div 16), b64_char (y mod 16 * 4), CHR ''=''])"
| "b64_encode (a # b # c # rest) = (let x = (of_char a :: nat); y = (of_char b :: nat); z = (of_char c :: nat) in
     b64_char (x div 4) # b64_char (x mod 4 * 16 + y div 16) # b64_char (y mod 16 * 4 + z div 64)
       # b64_char (z mod 64) # b64_encode rest)"

text \<open>\<open>b64decode\<close> with \<open>validate=True\<close>.\<close>

fun b64_decode :: "string \<Rightarrow> string option" where
  "b64_decode [] = Some []"
| "b64_decode (p # q # r # s # rest) =
    (case (b64_val p, b64_val q) of
       (Some i, Some j) \<Rightarrow>
         if r = CHR ''='' then
           (if s = CHR ''='' \<and> rest = [] then Some [byte (i * 4 + j div 16)] else None)
         else (case b64_val r of
             None \<Rightarrow> None
           | Some k \<Rightarrow>
               if s = CHR ''='' then
                 (if rest = [] then Some [byte (i * 4 + j div 16), byte (j mod 16 * 16 + k div 4)] else None)
               else (case b64_val s of
                   None \<Rightarrow> None
                 | Some l \<Rightarrow> map_option (\<lambda>bs. byte (i * 4 + j div 16) # byte (j mod 16 * 16 + k div 4)
                       # byte (k mod 4 * 64 + l) # bs) (b64_decode rest)))
     | _ \<Rightarrow> None)"
| "b64_decode _ = None"

lemma b64_val_char: "n < 64 \<Longrightarrow> b64_val (b64_char n) = Some n \<and> b64_char n \<noteq> CHR ''=''"
proof -
  have "list_all (\<lambda>n. b64_val (b64_char n) = Some n \<and> b64_char n \<noteq> CHR ''='') [0..<64]" by code_simp
  then show "n < 64 \<Longrightarrow> ?thesis" by (simp add: list_all_iff)
qed

lemma byte_of_char [simp]: "byte (of_char c) = c"
  by (simp add: byte_def)

text \<open>What is shifted in below a multiple is shifted out again.\<close>

lemma shift_in: "k < m \<Longrightarrow> (n * m + k) div m = n" "k < m \<Longrightarrow> (n * m + k) mod m = k" for k m n :: nat
  by simp_all

lemma byte_high: "x div 4 * 4 + (x mod 4 * 16 + k) div 16 = x" if "k < 16" for x k :: nat
  using shift_in(1) [OF that, of "x mod 4"] by simp

lemma byte_mid: "(x mod 4 * 16 + y div 16) mod 16 * 16 + (y mod 16 * 4 + k) div 4 = y"
  if "k < 4" "y < 256" for x y k :: nat
proof -
  have "y div 16 < 16" using that(2) by simp
  then show ?thesis using shift_in(1) [OF that(1), of "y mod 16"] shift_in(2) [of "y div 16" 16 "x mod 4"] by simp
qed

lemma byte_low: "(y mod 16 * 4 + z div 64) mod 4 * 64 + z mod 64 = z" if "z < 256" for y z :: nat
proof -
  have "z div 64 < 4" using that by simp
  then show ?thesis using shift_in(2) [of "z div 64" 4 "y mod 16"] by simp
qed

lemma sextets:
  "(of_char c :: nat) div 4 < 64" "(x::nat) mod 4 * 16 + of_char c div 16 < 64"
  "(x::nat) mod 16 * 4 + of_char c div 64 < 64" "(x::nat) mod 64 < 64" "(x::nat) mod 4 * 16 < 64"
  "(x::nat) mod 16 * 4 < 64"
proof -
  have "(of_char c :: nat) < 256" by (rule of_char_less_256)
  then have "(of_char c :: nat) div 4 < 64" "(of_char c :: nat) div 16 < 16" "(of_char c :: nat) div 64 < 4"
    by linarith+
  moreover have "x mod 4 < 4" "x mod 16 < 16" by simp_all
  ultimately show "(of_char c :: nat) div 4 < 64" "x mod 4 * 16 + of_char c div 16 < 64"
    "x mod 16 * 4 + of_char c div 64 < 64" "x mod 64 < 64" "x mod 4 * 16 < 64" "x mod 16 * 4 < 64"
    by linarith+
qed

lemma b64_round_trip: "b64_decode (b64_encode s) = Some s"
proof (induction s rule: b64_encode.induct)
  case (2 a)
  then show ?case using byte_high [of 0 "of_char a"] by (simp add: b64_val_char sextets Let_def)
next
  case (3 a b)
  have "(of_char b :: nat) div 16 < 16" using of_char_less_256 [of b] by linarith
  then show ?case using byte_high [of "of_char b div 16" "of_char a"] byte_mid [of 0 "of_char b" "of_char a"] of_char_less_256 [of b]
    by (simp add: b64_val_char sextets Let_def)
next
  case (4 a b c rest)
  have "(of_char b :: nat) div 16 < 16" "(of_char c :: nat) div 64 < 4"
    using of_char_less_256 [of b] of_char_less_256 [of c] by linarith+
  then show ?case
    using 4 byte_high [of "of_char b div 16" "of_char a"] byte_mid [of "of_char c div 64" "of_char b" "of_char a"]
      byte_low [of "of_char c" "of_char b"] of_char_less_256 [of b] of_char_less_256 [of c]
    by (simp add: b64_val_char sextets Let_def)
qed simp

section \<open>UTF-8\<close>

definition continuation :: "char \<Rightarrow> bool" where
  "continuation c \<longleftrightarrow> 128 \<le> (of_char c :: nat) \<and> (of_char c :: nat) < 192"

definition between :: "nat \<Rightarrow> char \<Rightarrow> nat \<Rightarrow> bool" where
  "between lo c hi \<longleftrightarrow> lo \<le> (of_char c :: nat) \<and> (of_char c :: nat) \<le> hi"

text \<open>\<open>bytes.decode()\<close> raises unless the bytes are well-formed UTF-8.\<close>

fun utf8_ok :: "string \<Rightarrow> bool" where
  "utf8_ok [] = True"
| "utf8_ok [a] = between 0 a 127"
| "utf8_ok [a, b] = ((between 0 a 127 \<and> utf8_ok [b]) \<or> (between 194 a 223 \<and> continuation b))"
| "utf8_ok [a, b, c] = ((between 0 a 127 \<and> utf8_ok [b, c]) \<or> (between 194 a 223 \<and> continuation b \<and> utf8_ok [c])
     \<or> (continuation c \<and> ((between 224 a 224 \<and> between 160 b 191) \<or> (between 225 a 236 \<and> continuation b)
          \<or> (between 237 a 237 \<and> between 128 b 159) \<or> (between 238 a 239 \<and> continuation b))))"
| "utf8_ok (a # b # c # d # rest) = ((between 0 a 127 \<and> utf8_ok (b # c # d # rest))
     \<or> (between 194 a 223 \<and> continuation b \<and> utf8_ok (c # d # rest))
     \<or> (continuation c \<and> utf8_ok (d # rest)
          \<and> ((between 224 a 224 \<and> between 160 b 191) \<or> (between 225 a 236 \<and> continuation b)
           \<or> (between 237 a 237 \<and> between 128 b 159) \<or> (between 238 a 239 \<and> continuation b)))
     \<or> (continuation c \<and> continuation d \<and> utf8_ok rest
          \<and> ((between 240 a 240 \<and> between 144 b 191) \<or> (between 241 a 243 \<and> continuation b)
           \<or> (between 244 a 244 \<and> between 128 b 143))))"

section \<open>Keyring\<close>

record cipher =
  ae_encrypt :: "string \<Rightarrow> string \<Rightarrow> string \<Rightarrow> string \<Rightarrow> string"          \<comment> \<open>key, nonce, data, associated data\<close>
  ae_decrypt :: "string \<Rightarrow> string \<Rightarrow> string \<Rightarrow> string \<Rightarrow> string option"   \<comment> \<open>\<open>None\<close> is \<open>InvalidTag\<close>\<close>

record keyring =
  kr_active_version :: int
  kr_keys :: "(int \<times> string) list"

definition mk_keyring :: "int \<Rightarrow> (int \<times> string) list \<Rightarrow> keyring res" where
  "mk_keyring active ks =
    (if active \<le> 0 \<or> active \<notin> fst ` set ks then Inl ValueError
     else if list_ex (\<lambda>(v, k). v \<le> 0 \<or> length k \<noteq> 32) ks then Inl ValueError
     else Inr \<lparr>kr_active_version = active, kr_keys = ks\<rparr>)"

definition associated_data :: "string \<Rightarrow> string \<Rightarrow> int \<Rightarrow> string res" where
  "associated_data tenant connection version =
    canonical_json (PDict [(''connection_id'', PStr connection), (''key_version'', PInt version),
                           (''tenant_id'', PStr tenant)])"

definition encrypt ::
    "cipher \<Rightarrow> keyring \<Rightarrow> string \<Rightarrow> string \<Rightarrow> string \<Rightarrow> string \<Rightarrow> (string \<times> int) res" where
  "encrypt ae kr nonce tenant connection plaintext =
    ebind (associated_data tenant connection (kr_active_version kr)) (\<lambda>ad.
      case map_of (kr_keys kr) (kr_active_version kr) of
        None \<Rightarrow> Inl ValueError
      | Some key \<Rightarrow> Inr (b64_encode (nonce @ ae_encrypt ae key nonce plaintext ad), kr_active_version kr))"

definition decrypt :: "cipher \<Rightarrow> keyring \<Rightarrow> string \<Rightarrow> string \<Rightarrow> string \<Rightarrow> int \<Rightarrow> string res" where
  "decrypt ae kr tenant connection ciphertext version =
    (case map_of (kr_keys kr) version of
       None \<Rightarrow> Inl ConnectionDecryptionError
     | Some key \<Rightarrow>
        (case b64_decode ciphertext of
           None \<Rightarrow> Inl ConnectionDecryptionError
         | Some combined \<Rightarrow>
            if length combined < 29 then Inl ConnectionDecryptionError
            else (case associated_data tenant connection version of
                Inl _ \<Rightarrow> Inl ConnectionDecryptionError
              | Inr ad \<Rightarrow>
                 (case ae_decrypt ae key (take 12 combined) (drop 12 combined) ad of
                    None \<Rightarrow> Inl ConnectionDecryptionError
                  | Some plaintext \<Rightarrow>
                      if utf8_ok plaintext then Inr plaintext else Inl ConnectionDecryptionError))))"

section \<open>Settings\<close>

record odoo_settings =
  st_url :: string
  st_database :: string
  st_username :: string
  st_api_key :: string
  st_allowed_company_ids :: "int list"
  st_default_company_id :: int

text \<open>\<open>OdooConnectionSettings.model_validate\<close>; \<open>base_url\<close> is the URL model with the check that it is a
  plain HTTP(S) base address.\<close>

definition validate_settings :: "(string \<Rightarrow> string option) \<Rightarrow> odoo_settings \<Rightarrow> odoo_settings res" where
  "validate_settings base_url s =
    (case base_url (st_url s) of
       None \<Rightarrow> Inl ValueError
     | Some url \<Rightarrow>
        if blank (st_database s) \<or> blank (st_username s) \<or> blank (st_api_key s)
          \<or> st_allowed_company_ids s = [] \<or> list_ex (\<lambda>i. i \<le> 0) (st_allowed_company_ids s)
          \<or> \<not> distinct (st_allowed_company_ids s)
          \<or> st_default_company_id s \<le> 0 \<or> st_default_company_id s \<notin> set (st_allowed_company_ids s)
        then Inl ValueError
        else Inr (s\<lparr>st_url := url, st_database := py_strip (st_database s),
                    st_username := py_strip (st_username s)\<rparr>))"

section \<open>The repository\<close>

text \<open>\<open>json.loads\<close> of a company column: a list of integers, none of them a boolean.\<close>

definition int_item :: "pyval \<Rightarrow> int res" where
  "int_item v = (case v of PInt i \<Rightarrow> Inr i | _ \<Rightarrow> Inl ValueError)"

definition company_list :: "string option \<Rightarrow> int list res" where
  "company_list j =
    (case j of
       None \<Rightarrow> Inl ValueError
     | Some t \<Rightarrow> ebind (json_loads t) (\<lambda>v. case v of PList vs \<Rightarrow> emap int_item vs | _ \<Rightarrow> Inl ValueError))"

text \<open>Every failure of \<open>_resolve_row\<close> is the one decryption error.\<close>

definition resolve_row ::
    "cipher \<Rightarrow> (string \<Rightarrow> string option) \<Rightarrow> keyring option \<Rightarrow> connection_row \<Rightarrow> odoo_settings res" where
  "resolve_row ae base_url kr c =
    (case kr of
       None \<Rightarrow> Inl ConnectionDecryptionError
     | Some k \<Rightarrow>
        ebind (decrypt ae k (cn_tenant_id c) (cn_id c) (cn_encrypted_api_key c) (cn_key_version c)) (\<lambda>api_key.
        case (company_list (cn_allowed_company_ids_json c), cn_default_company_id c) of
          (Inr (i # ids), Some dflt) \<Rightarrow>
            (case validate_settings base_url \<lparr>st_url = cn_odoo_url c, st_database = cn_database_name c,
                    st_username = cn_username c, st_api_key = api_key, st_allowed_company_ids = i # ids,
                    st_default_company_id = dflt\<rparr> of
               Inl _ \<Rightarrow> Inl ConnectionDecryptionError
             | Inr s \<Rightarrow> Inr s)
        | _ \<Rightarrow> Inl ConnectionDecryptionError))"

definition resolve_authorized ::
    "cipher \<Rightarrow> (string \<Rightarrow> string option) \<Rightarrow> keyring option \<Rightarrow> connector_authorization \<Rightarrow> db
      \<Rightarrow> odoo_settings option res" where
  "resolve_authorized ae base_url kr a d =
    (case find_row (\<lambda>c. is_connection (ca_tenant_id a) (ca_connection_id a) c \<and> cn_status c = CS_active
            \<and> (\<exists>g \<in> set (oauth_grants d). is_connection (gr_tenant_id g) (gr_connector_id g) c
                 \<and> gr_status g = GS_active \<and> gr_client_id g = ca_mcp_client a)) (erp_connections d) of
       None \<Rightarrow> Inr None
     | Some c \<Rightarrow> (case resolve_row ae base_url kr c of Inl e \<Rightarrow> Inl e | Inr s \<Rightarrow> Inr (Some s)))"

definition rotation_event ::
    "string \<Rightarrow> string \<Rightarrow> string \<Rightarrow> connection_row \<Rightarrow> int \<Rightarrow> audit_event" where
  "rotation_event request_id subject client c version =
    \<lparr>ev_request_id = request_id, ev_tenant_id = cn_tenant_id c, ev_company_id = None,
     ev_tool_name = ''rotate_erp_connection_key'', ev_tool_version = ''1.0'', ev_module = ''core'',
     ev_authenticated_subject = subject, ev_mcp_client = client, ev_odoo_db_name = Some (cn_database_name c),
     ev_odoo_user = Some (cn_username c), ev_odoo_version = cn_detected_version c,
     ev_odoo_transport = cn_selected_transport c,
     ev_input_payload = [(''connection_id'', PStr (cn_id c))], ev_dry_run = False,
     ev_proposed_action = Some [(''key_version'', PInt version)],
     ev_actual_result = Some [(''connection_id'', PStr (cn_id c)), (''key_version'', PInt version)],
     ev_affected_odoo_records = [], ev_error_code = None, ev_error_message = None,
     ev_final_status = ''succeeded'', ev_created_at = None\<rparr>"

record rotation =
  ro_request_id :: string
  ro_subject :: string
  ro_client :: string
  ro_nonce :: string
  ro_now :: int        \<comment> \<open>the reading for the row\<close>
  ro_audit_now :: int  \<comment> \<open>the reading for the audit entry\<close>

definition rotate_body ::
    "(string \<Rightarrow> string) \<Rightarrow> cipher \<Rightarrow> keyring \<Rightarrow> rotation \<Rightarrow> string \<Rightarrow> string \<Rightarrow> bool tx" where
  "rotate_body H ae kr ro tenant connection d =
    (case find_row (is_connection tenant connection) (erp_connections d) of
       None \<Rightarrow> Inl ConnectionDecryptionError
     | Some c \<Rightarrow>
        if cn_key_version c = kr_active_version kr then Inr (False, d)
        else
          tbind (tlift (decrypt ae kr tenant connection (cn_encrypted_api_key c) (cn_key_version c))) (\<lambda>plaintext.
          tbind (tlift (encrypt ae kr (ro_nonce ro) tenant connection plaintext)) (\<lambda>(encrypted, version).
          tbind (update_connections
            (\<lambda>q. is_connection tenant connection q \<and> cn_key_version q = cn_key_version c)
            (\<lambda>q. q\<lparr>cn_encrypted_api_key := encrypted, cn_key_version := version, cn_updated_at := ro_now ro\<rparr>)) (\<lambda>n.
          if n \<noteq> 1 then tlift (Inl ConnectionDecryptionError)
          else tbind (append_in_transaction H (ro_audit_now ro)
              (rotation_event (ro_request_id ro) (ro_subject ro) (ro_client ro) c version)) (\<lambda>_.
            treturn True)))) d)"

definition rotate ::
    "(string \<Rightarrow> string) \<Rightarrow> cipher \<Rightarrow> keyring option \<Rightarrow> db_fault \<Rightarrow> rotation \<Rightarrow> string \<Rightarrow> string \<Rightarrow> db \<Rightarrow>
      bool res \<times> db" where
  "rotate H ae kr f ro tenant connection d =
    (if list_ex blank [tenant, connection, ro_request_id ro, ro_subject ro, ro_client ro] then (Inl ValueError, d)
     else (case kr of
         None \<Rightarrow> (Inl ConnectionDecryptionError, d)
       | Some k \<Rightarrow> transaction f (rotate_body H ae k ro tenant connection) d))"

text \<open>\<open>rotate_tenant\<close>: one transaction per stale row; the first exception ends the loop.\<close>

fun rotate_each ::
    "(string \<Rightarrow> string) \<Rightarrow> cipher \<Rightarrow> keyring option \<Rightarrow> (db_fault \<times> rotation) list \<Rightarrow> string \<Rightarrow> string list \<Rightarrow> nat \<Rightarrow> db
      \<Rightarrow> nat res \<times> db" where
  "rotate_each H ae kr (fr # frs) tenant (i # is) n d =
    (case rotate H ae kr (fst fr) (snd fr) tenant i d of
       (Inl e, d') \<Rightarrow> (Inl e, d')
     | (Inr b, d') \<Rightarrow> rotate_each H ae kr frs tenant is (if b then Suc n else n) d')"
| "rotate_each H ae kr frs tenant is n d = (Inr n, d)"

definition stale_ids :: "int \<Rightarrow> string \<Rightarrow> db \<Rightarrow> string list" where
  "stale_ids active tenant d =
    sort (map cn_id (filter (\<lambda>c. cn_tenant_id c = tenant \<and> cn_key_version c \<noteq> active) (erp_connections d)))"

text \<open>One fate, request id and nonce per row: \<open>draw n\<close> is what the n-th rotation gets.\<close>

definition rotate_tenant ::
    "(string \<Rightarrow> string) \<Rightarrow> cipher \<Rightarrow> keyring option \<Rightarrow> (nat \<Rightarrow> db_fault \<times> rotation) \<Rightarrow> string \<Rightarrow> string \<Rightarrow> string \<Rightarrow>
      db \<Rightarrow> nat res \<times> db" where
  "rotate_tenant H ae kr draw tenant subject client d =
    (if list_ex blank [tenant, subject, client] then (Inl ValueError, d)
     else (case kr of
         None \<Rightarrow> (Inl ConnectionDecryptionError, d)
       | Some k \<Rightarrow>
          (let ids = stale_ids (kr_active_version k) tenant d;
               turns = map (\<lambda>n. (fst (draw n), (snd (draw n))\<lparr>ro_subject := subject, ro_client := client\<rparr>))
                         [0..<length ids]
           in rotate_each H ae kr turns tenant ids 0 d)))"

definition verify_row ::
    "cipher \<Rightarrow> (string \<Rightarrow> string option) \<Rightarrow> keyring option \<Rightarrow> connection_row \<Rightarrow> unit res" where
  "verify_row ae base_url kr c =
    (case kr of
       None \<Rightarrow> Inl ConnectionDecryptionError
     | Some k \<Rightarrow>
        ebind (decrypt ae k (cn_tenant_id c) (cn_id c) (cn_encrypted_api_key c) (cn_key_version c)) (\<lambda>_.
        if cn_status c = CS_active then ebind (resolve_row ae base_url kr c) (\<lambda>_. Inr ()) else Inr ()))"

definition verify_all :: "cipher \<Rightarrow> (string \<Rightarrow> string option) \<Rightarrow> keyring option \<Rightarrow> db \<Rightarrow> unit res" where
  "verify_all ae base_url kr d =
    each_ok (verify_row ae base_url kr) (sort_key (\<lambda>c. (cn_tenant_id c, cn_id c)) (erp_connections d))"

definition save_connection :: "odoo_settings \<Rightarrow> unit res" where
  "save_connection s = Inl ValueError"

end
