(* ===== verification/SharedAuth.thy ===== *)
theory SharedAuth
  imports AuthTables Registry
begin

text \<open>
  \<open>SharedOAuthProvider\<close> of \<open>app/shared_auth.py\<close>: client registration, authorization sessions,
  connector activation and revocation, codes and tokens. Every operation is one transaction body
  (\<open>_body\<close>) and its call. The clock readings, the random values and the fates of the transactions are
  a \<open>turn\<close>, read in the order in which the code asks for them; nothing is assumed about them.
  \<open>urlsplit\<close>, the metadata model of the MCP package and the HTTP client are fields of the provider.
\<close>

section \<open>Data\<close>

record turn =
  tu_fault :: "nat \<Rightarrow> db_fault"
  tu_clock :: "nat \<Rightarrow> int"
  tu_random :: "nat \<Rightarrow> string"     \<comment> \<open>\<open>token_urlsafe\<close>, \<open>uuid4\<close> and new request ids\<close>

text \<open>What \<open>urlsplit\<close> gives for a redirect address.\<close>

record url_parts =
  up_scheme :: string
  up_netloc :: string
  up_path :: string
  up_fragment :: string
  up_username :: "string option"
  up_password :: "string option"
  up_hostname :: "string option"

record client_info =
  ci_client_id :: string
  ci_client_secret :: "string option"
  ci_redirect_uris :: "url_parts list option"
  ci_token_endpoint_auth_method :: "string option"
  ci_scope :: "string option"

record cimd_reply =
  cr_status :: int
  cr_chunks :: "string list"

record provider =
  pv_hash :: "string \<Rightarrow> string"
  pv_issuer_url :: string
  pv_resource_url :: string
  pv_valid_scopes :: "string list"
  pv_audited :: bool                                    \<comment> \<open>an audit repository was given\<close>
  pv_dump :: "client_info \<Rightarrow> string"                   \<comment> \<open>\<open>model_dump_json\<close> without the secret\<close>
  pv_validate :: "string \<Rightarrow> client_info option"        \<comment> \<open>\<open>model_validate_json\<close>\<close>
  pv_fetch :: "string \<Rightarrow> cimd_reply option"            \<comment> \<open>the policy and the HTTP exchange; \<open>None\<close> on an error\<close>

record authorization_params =
  ap_resource :: "string option"
  ap_scopes :: "string list option"
  ap_redirect_uri :: string
  ap_code_challenge :: string
  ap_state :: "string option"

record authorization_code =
  ac_code :: string
  ac_scopes :: "string list"
  ac_expires_at :: int
  ac_client_id :: string
  ac_code_challenge :: string
  ac_redirect_uri :: string
  ac_resource :: string
  ac_subject :: string

record token_view =
  tv_token :: string
  tv_client_id :: string
  tv_scopes :: "string list"
  tv_expires_at :: int
  tv_resource :: string
  tv_subject :: string

record access_token = token_view +
  tv_tenant_id :: string
  tv_permissions :: "string list"

record oauth_token =
  ot_access_token :: string
  ot_refresh_token :: string
  ot_expires_in :: int
  ot_scope :: string

record session_view =
  sv_client_id :: string
  sv_redirect_uri :: string
  sv_scopes :: "string list"
  sv_connector_id :: "string option"
  sv_discovered_company_ids :: "pyval list"
  sv_allowed_company_ids :: "pyval list"
  sv_default_company_id :: "int option"

definition authorization_ttl :: int where "authorization_ttl = minutes 10"
definition authorization_code_ttl :: int where "authorization_code_ttl = minutes 5"
definition access_token_ttl :: int where "access_token_ttl = hours 1"
definition refresh_token_ttl :: int where "refresh_token_ttl = days 30"
definition max_cimd_bytes :: nat where "max_cimd_bytes = 64 * 1024"

definition loopback_redirect_hosts :: "string list" where
  "loopback_redirect_hosts = [''localhost'', ''127.0.0.1'', ''::1'']"

text \<open>\<open>str(x)\<close> of a nullable text column.\<close>

definition py_str :: "string option \<Rightarrow> string" where
  "py_str s = (case s of None \<Rightarrow> ''None'' | Some t \<Rightarrow> t)"

section \<open>Clients\<close>

definition redirect_uri_is_safe :: "url_parts \<Rightarrow> bool" where
  "redirect_uri_is_safe u =
    (if up_fragment u \<noteq> [] \<or> up_username u \<noteq> None \<or> up_password u \<noteq> None then False
     else if up_scheme u = ''https'' then up_hostname u \<noteq> None
     else if up_scheme u = ''http'' then
       (case up_hostname u of None \<Rightarrow> False | Some h \<Rightarrow> h \<in> set loopback_redirect_hosts)
     else \<not> (CHR ''.'' \<notin> set (up_scheme u) \<or> up_netloc u \<noteq> [] \<or> up_path u = []))"

definition client_metadata_is_safe :: "client_info \<Rightarrow> bool" where
  "client_metadata_is_safe ci =
    (case ci_redirect_uris ci of
       None \<Rightarrow> False
     | Some us \<Rightarrow> us \<noteq> [] \<and> list_all redirect_uri_is_safe us
         \<and> ci_token_endpoint_auth_method ci \<in> {None, Some ''none''})"

text \<open>The body of a metadata document, \<open>None\<close> once it exceeds the bound.\<close>

fun read_chunks :: "string \<Rightarrow> string list \<Rightarrow> string option" where
  "read_chunks body [] = Some body"
| "read_chunks body (c # cs) =
    (if length (body @ c) > max_cimd_bytes then None else read_chunks (body @ c) cs)"

definition cimd_fetch :: "provider \<Rightarrow> string \<Rightarrow> client_info option" where
  "cimd_fetch p client_id =
    (case pv_fetch p client_id of
       None \<Rightarrow> None
     | Some reply \<Rightarrow>
        if cr_status reply \<noteq> 200 then None
        else (case read_chunks [] (cr_chunks reply) of
            None \<Rightarrow> None
          | Some body \<Rightarrow>
             (case json_loads body of
                Inr (PDict raw) \<Rightarrow>
                  if map_of raw ''client_id'' \<noteq> Some (PStr client_id) then None
                  else (case pv_validate p body of
                      None \<Rightarrow> None
                    | Some ci \<Rightarrow> if client_metadata_is_safe ci
                        then Some (ci\<lparr>ci_token_endpoint_auth_method := Some ''none''\<rparr>) else None)
              | _ \<Rightarrow> None)))"

definition upsert_client :: "client_row \<Rightarrow> unit tx" where
  "upsert_client c d =
    (if cl_client_id c \<in> cl_client_id ` set (oauth_clients d)
     then update_clients (\<lambda>q. cl_client_id q = cl_client_id c)
       (\<lambda>q. q\<lparr>cl_registration_method := Cimd, cl_metadata_json := cl_metadata_json c,
              cl_client_secret_hash := None, cl_metadata_expires_at := cl_metadata_expires_at c,
              cl_updated_at := cl_updated_at c\<rparr>) d
     else insert_client c d)"

text \<open>The second half of \<open>get_client\<close>: fetch the metadata document and cache it for an hour.\<close>

definition fetch_client :: "provider \<Rightarrow> db_fault \<Rightarrow> int \<Rightarrow> string \<Rightarrow> db \<Rightarrow> client_info option res \<times> db" where
  "fetch_client p f now client_id d =
    (if take 8 client_id \<noteq> ''https://'' then (Inr None, d)
     else (case cimd_fetch p client_id of
         None \<Rightarrow> (Inr None, d)
       | Some ci \<Rightarrow>
          (case transaction f (upsert_client
                \<lparr>cl_client_id = client_id, cl_registration_method = Cimd, cl_metadata_json = pv_dump p ci,
                 cl_client_secret_hash = None, cl_metadata_expires_at = Some (now + hours 1),
                 cl_created_at = now, cl_updated_at = now\<rparr>) d of
             (Inl e, d') \<Rightarrow> (Inl e, d')
           | (Inr _, d') \<Rightarrow> (Inr (Some ci), d'))))"

text \<open>A cached document that is not valid any more is expired on the spot.\<close>

definition get_invalidated :: "provider \<Rightarrow> turn \<Rightarrow> string \<Rightarrow> client_row \<Rightarrow> db \<Rightarrow> client_info option res \<times> db" where
  "get_invalidated p u client_id row d =
    (let now = tu_clock u 1 in
     case transaction (tu_fault u 0) (update_clients (\<lambda>c. cl_client_id c = client_id)
            (\<lambda>c. c\<lparr>cl_metadata_expires_at := Some now, cl_updated_at := now\<rparr>)) d of
       (Inl e, d') \<Rightarrow> (Inl e, d')
     | (Inr _, d') \<Rightarrow>
        if cl_registration_method row \<noteq> Cimd then (Inr None, d')
        else fetch_client p (tu_fault u 1) (tu_clock u 2) client_id d')"

definition get_client :: "provider \<Rightarrow> turn \<Rightarrow> string \<Rightarrow> db \<Rightarrow> client_info option res \<times> db" where
  "get_client p u client_id d =
    (case find_row (\<lambda>c. cl_client_id c = client_id) (oauth_clients d) of
       None \<Rightarrow> fetch_client p (tu_fault u 1) (tu_clock u 2) client_id d
     | Some row \<Rightarrow>
        (if case cl_metadata_expires_at row of None \<Rightarrow> True | Some x \<Rightarrow> tu_clock u 0 < x
         then (case pv_validate p (cl_metadata_json row) of
             Some ci \<Rightarrow>
               if client_metadata_is_safe ci then (Inr (Some ci), d)
               else get_invalidated p u client_id row d
           | None \<Rightarrow> get_invalidated p u client_id row d)
         else if cl_registration_method row \<noteq> Cimd then (Inr None, d)
         else fetch_client p (tu_fault u 1) (tu_clock u 2) client_id d))"

definition register_client :: "provider \<Rightarrow> turn \<Rightarrow> client_info \<Rightarrow> db \<Rightarrow> client_info res \<times> db" where
  "register_client p u ci d =
    (if ci_client_secret ci \<noteq> None \<or> ci_token_endpoint_auth_method ci \<noteq> Some ''none'' then
       (Inl (RegistrationError ''invalid_client_metadata''), d)
     else if \<not> client_metadata_is_safe ci then (Inl (RegistrationError ''invalid_redirect_uri''), d)
     else if \<not> set (py_split (case ci_scope ci of None \<Rightarrow> [] | Some s \<Rightarrow> s)) \<subseteq> set (pv_valid_scopes p) then
       (Inl (RegistrationError ''invalid_client_metadata''), d)
     else
       (let ci' = ci\<lparr>ci_scope := Some (join '' '' (sort (pv_valid_scopes p)))\<rparr>; now = tu_clock u 0
        in case transaction (tu_fault u 0) (insert_client
               \<lparr>cl_client_id = ci_client_id ci, cl_registration_method = Dcr, cl_metadata_json = pv_dump p ci',
                cl_client_secret_hash = None, cl_metadata_expires_at = None, cl_created_at = now,
                cl_updated_at = now\<rparr>) d of
             (Inl e, d') \<Rightarrow> (Inl e, d')
           | (Inr _, d') \<Rightarrow> (Inr ci', d')))"

section \<open>Authorization sessions\<close>

definition json_strings :: "string list \<Rightarrow> string res" where
  "json_strings ss = canonical_json (PList (map PStr ss))"

definition authorize :: "provider \<Rightarrow> turn \<Rightarrow> client_info \<Rightarrow> authorization_params \<Rightarrow> db \<Rightarrow> string res \<times> db" where
  "authorize p u ci params d =
    (let requested = (case ap_scopes params of None \<Rightarrow> [] | Some ss \<Rightarrow> ss);
         client_scopes = sort (py_split (case ci_scope ci of None \<Rightarrow> [] | Some s \<Rightarrow> s));
         session = tu_random u 0; now = tu_clock u 0
     in if ap_resource params \<noteq> Some (pv_resource_url p) then (Inl (AuthorizeError ''invalid_target''), d)
        else if requested = [] \<or> \<not> set requested \<subseteq> set client_scopes
            \<or> \<not> set client_scopes \<subseteq> set (pv_valid_scopes p) then (Inl (AuthorizeError ''invalid_scope''), d)
        else if length (ap_code_challenge params) < 43 then (Inl (AuthorizeError ''invalid_request''), d)
        else
          (case transaction (tu_fault u 0)
              (tbind (tlift (json_strings client_scopes)) (\<lambda>scopes. insert_session
                \<lparr>se_state_hash = pv_hash p session, se_client_id = ci_client_id ci, se_connector_id = None,
                 se_superseded_connector_id = None, se_redirect_uri = ap_redirect_uri params,
                 se_resource = pv_resource_url p, se_scopes_json = scopes,
                 se_code_challenge = ap_code_challenge params, se_client_state = ap_state params,
                 se_authorization_code_hash = None, se_status = SS_pending,
                 se_expires_at = now + authorization_ttl, se_consumed_at = None, se_created_at = now\<rparr>)) d of
             (Inl e, d') \<Rightarrow> (Inl e, d')
           | (Inr _, d') \<Rightarrow> (Inr (pv_issuer_url p @ ''/enroll?session='' @ session), d')))"

definition session_by_state :: "string \<Rightarrow> db \<Rightarrow> session_row option" where
  "session_by_state h d = find_row (\<lambda>s. se_state_hash s = h) (oauth_sessions d)"

definition bind_connector_body :: "provider \<Rightarrow> int \<Rightarrow> string \<Rightarrow> string \<Rightarrow> unit tx" where
  "bind_connector_body p now session connector_id =
    tbind (update_sessions
      (\<lambda>s. se_state_hash s = pv_hash p session \<and> se_status s = SS_pending \<and> se_connector_id s = None
           \<and> now < se_expires_at s)
      (\<lambda>s. s\<lparr>se_connector_id := Some connector_id\<rparr>)) (\<lambda>n d.
    if n \<noteq> 1 then
      (case session_by_state (pv_hash p session) d of
         None \<Rightarrow> Inl ValueError
       | Some s \<Rightarrow> if py_str (se_connector_id s) \<noteq> connector_id then Inl ValueError else Inr ((), d))
    else Inr ((), d))"

definition bind_connector :: "provider \<Rightarrow> turn \<Rightarrow> string \<Rightarrow> string \<Rightarrow> db \<Rightarrow> unit res \<times> db" where
  "bind_connector p u session connector_id =
    transaction (tu_fault u 0) (bind_connector_body p (tu_clock u 0) session connector_id)"

definition json_items :: "string option \<Rightarrow> pyval list res" where
  "json_items j = (case j of None \<Rightarrow> Inr []
     | Some t \<Rightarrow> ebind (json_loads t) (\<lambda>v. case v of PList vs \<Rightarrow> Inr vs | _ \<Rightarrow> Inl TypeError))"

definition session_summary :: "provider \<Rightarrow> turn \<Rightarrow> string \<Rightarrow> db \<Rightarrow> session_view res" where
  "session_summary p u session d =
    (case find_row (\<lambda>s. se_state_hash s = pv_hash p session \<and> se_status s = SS_pending
                      \<and> tu_clock u 0 < se_expires_at s) (oauth_sessions d) of
       None \<Rightarrow> Inl ValueError
     | Some s \<Rightarrow>
        (let c = (case se_connector_id s of None \<Rightarrow> None
                  | Some i \<Rightarrow> find_row (\<lambda>c. cn_id c = i) (erp_connections d))
         in ebind (parse_string_tuple (se_scopes_json s)) (\<lambda>scopes.
            ebind (json_items (map_option cn_discovered_company_ids_json c)) (\<lambda>found.
            ebind (json_items (Option.bind c cn_allowed_company_ids_json)) (\<lambda>allowed.
            Inr \<lparr>sv_client_id = se_client_id s, sv_redirect_uri = se_redirect_uri s, sv_scopes = scopes,
                 sv_connector_id = se_connector_id s, sv_discovered_company_ids = found,
                 sv_allowed_company_ids = allowed,
                 sv_default_company_id = Option.bind c cn_default_company_id\<rparr>)))))"

definition authorize_replacement_body ::
    "provider \<Rightarrow> int \<Rightarrow> string \<Rightarrow> connector_authorization \<Rightarrow> unit tx" where
  "authorize_replacement_body p now session a d =
    (if \<not> (\<exists>g \<in> set (oauth_grants d). \<exists>c \<in> set (erp_connections d).
            is_connection (gr_tenant_id g) (gr_connector_id g) c
          \<and> gr_connector_id g = ca_connection_id a \<and> gr_tenant_id g = ca_tenant_id a
          \<and> gr_status g = GS_active \<and> gr_client_id g = ca_mcp_client a \<and> cn_status c = CS_active)
     then Inl ValueError
     else tbind (update_sessions
            (\<lambda>s. se_state_hash s = pv_hash p session \<and> se_client_id s = ca_mcp_client a
               \<and> se_status s = SS_pending \<and> now < se_expires_at s)
            (\<lambda>s. s\<lparr>se_superseded_connector_id := Some (ca_connection_id a)\<rparr>))
          (\<lambda>n. if n \<noteq> 1 then tlift (Inl ValueError) else treturn ()) d)"

definition authorize_replacement ::
    "provider \<Rightarrow> turn \<Rightarrow> string \<Rightarrow> connector_authorization \<Rightarrow> db \<Rightarrow> unit res \<times> db" where
  "authorize_replacement p u session a =
    transaction (tu_fault u 0) (authorize_replacement_body p (tu_clock u 0) session a)"

section \<open>Activation and revocation\<close>

definition operation_event :: "string \<Rightarrow> string \<Rightarrow> string \<Rightarrow> string \<Rightarrow> string \<Rightarrow> audit_event" where
  "operation_event request_id tenant subject operation connector_id =
    \<lparr>ev_request_id = request_id, ev_tenant_id = tenant, ev_company_id = None, ev_tool_name = operation,
     ev_tool_version = ''1.0'', ev_module = ''core'', ev_authenticated_subject = subject,
     ev_mcp_client = ''shared-hosted'', ev_odoo_db_name = None, ev_odoo_user = None, ev_odoo_version = None,
     ev_odoo_transport = None, ev_input_payload = [(''connector_id'', PStr connector_id)],
     ev_dry_run = False, ev_proposed_action = None,
     ev_actual_result = Some [(''status'', PStr ''succeeded'')], ev_affected_odoo_records = [],
     ev_error_code = None, ev_error_message = None, ev_final_status = ''succeeded'', ev_created_at = None\<rparr>"

definition append_operation :: "provider \<Rightarrow> int \<Rightarrow> string \<Rightarrow> string \<Rightarrow> string \<Rightarrow> string \<Rightarrow> unit tx" where
  "append_operation p now request_id tenant operation connector_id =
    (if \<not> pv_audited p then treturn ()
     else tbind (append_in_transaction (pv_hash p) now
            (operation_event request_id tenant connector_id operation connector_id)) (\<lambda>_. treturn ()))"

definition revoke_tokens_of :: "int \<Rightarrow> string \<Rightarrow> nat tx" where
  "revoke_tokens_of now grant_id =
    update_tokens (\<lambda>t. tk_grant_id t = grant_id \<and> tk_revoked_at t = None) (\<lambda>t. t\<lparr>tk_revoked_at := Some now\<rparr>)"

fun for_each :: "('a \<Rightarrow> 'b tx) \<Rightarrow> 'a list \<Rightarrow> unit tx" where
  "for_each f [] = treturn ()"
| "for_each f (x # xs) = tbind (f x) (\<lambda>_. for_each f xs)"

definition revoke_connector_in_transaction :: "int \<Rightarrow> string \<Rightarrow> unit tx" where
  "revoke_connector_in_transaction now connector_id d =
    (let live = (\<lambda>g. gr_connector_id g = connector_id \<and> gr_status g = GS_active);
         grant_ids = map gr_id (filter live (oauth_grants d))
     in tbind (update_connections
          (\<lambda>c. cn_id c = connector_id \<and> cn_status c \<in> {CS_pending, CS_active})
          (\<lambda>c. c\<lparr>cn_status := CS_revoked, cn_revoked_at := Some now, cn_updated_at := now\<rparr>)) (\<lambda>_.
        tbind (update_grants live (\<lambda>g. g\<lparr>gr_status := GS_revoked, gr_revoked_at := Some now\<rparr>)) (\<lambda>_.
        for_each (revoke_tokens_of now) grant_ids)) d)"

definition supersede :: "provider \<Rightarrow> int \<Rightarrow> int \<Rightarrow> string \<Rightarrow> string option \<Rightarrow> unit tx" where
  "supersede p now audit_now request_id superseded d =
    (case superseded of
       None \<Rightarrow> Inr ((), d)
     | Some i \<Rightarrow>
        (let old = find_row (\<lambda>c. cn_id c = i) (erp_connections d)
         in tbind (revoke_connector_in_transaction now i) (\<lambda>_.
            case old of None \<Rightarrow> treturn ()
            | Some c \<Rightarrow> append_operation p audit_now request_id (cn_tenant_id c) ''revoke_connector'' i) d))"

text \<open>The session's connector, if the enrollment is complete and both are still valid.\<close>

definition pending_connector :: "int \<Rightarrow> session_row option \<Rightarrow> db \<Rightarrow> (session_row \<times> connection_row) res" where
  "pending_connector now s d =
    (case s of
       None \<Rightarrow> Inl ValueError
     | Some row \<Rightarrow>
        if se_status row \<noteq> SS_pending \<or> se_expires_at row \<le> now then Inl ValueError
        else (case se_connector_id row of
            None \<Rightarrow> Inl ValueError
          | Some i \<Rightarrow>
             (case find_row (\<lambda>c. cn_id c = i \<and> cn_status c = CS_pending
                         \<and> cn_allowed_company_ids_json c \<noteq> None \<and> cn_default_company_id c \<noteq> None)
                     (erp_connections d) of
                None \<Rightarrow> Inl ValueError
              | Some c \<Rightarrow>
                 (case cn_enrollment_expires_at c of
                    None \<Rightarrow> Inl ValueError
                  | Some x \<Rightarrow> if x \<le> now then Inl ValueError else Inr (row, c)))))"

definition activate_body :: "provider \<Rightarrow> turn \<Rightarrow> string \<Rightarrow> session_row tx" where
  "activate_body p u session d =
    (let now = tu_clock u 0; h = pv_hash p session; code = tu_random u 0 in
     tbind (tlift (pending_connector now (session_by_state h d) d)) (\<lambda>(row, c).
     tbind (insert_grant \<lparr>gr_id = tu_random u 1, gr_connector_id = cn_id c, gr_tenant_id = cn_tenant_id c,
        gr_client_id = se_client_id row, gr_resource = se_resource row, gr_scopes_json = se_scopes_json row,
        gr_status = GS_active, gr_created_at = now, gr_revoked_at = None\<rparr>) (\<lambda>_.
     tbind (update_connections
        (\<lambda>q. is_connection (cn_tenant_id c) (cn_id c) q \<and> cn_status q = CS_pending)
        (\<lambda>q. q\<lparr>cn_status := CS_active, cn_enrollment_handle_hash := None, cn_activated_at := Some now,
               cn_updated_at := now\<rparr>)) (\<lambda>_.
     tbind (append_operation p (tu_clock u 1) (tu_random u 2) (cn_tenant_id c) ''activate_connector'' (cn_id c)) (\<lambda>_.
     tbind (supersede p now (tu_clock u 2) (tu_random u 3) (se_superseded_connector_id row)) (\<lambda>_.
     tbind (update_sessions (\<lambda>s. se_state_hash s = h \<and> se_status s = SS_pending)
        (\<lambda>s. s\<lparr>se_authorization_code_hash := Some (pv_hash p code), se_status := SS_authorized\<rparr>)) (\<lambda>_.
     treturn row)))))) d)"

text \<open>The redirect the browser is sent to: its address, the code and the client's state.\<close>

definition activate_connector ::
    "provider \<Rightarrow> turn \<Rightarrow> string \<Rightarrow> bool \<Rightarrow> db \<Rightarrow> (string \<times> string \<times> string option) res \<times> db" where
  "activate_connector p u session consent d =
    (if \<not> consent then (Inl ValueError, d)
     else (case transaction (tu_fault u 0) (activate_body p u session) d of
         (Inl e, d') \<Rightarrow> (Inl e, d')
       | (Inr row, d') \<Rightarrow> (Inr (se_redirect_uri row, tu_random u 0, se_client_state row), d')))"

definition revoke_connector_body :: "provider \<Rightarrow> turn \<Rightarrow> connector_authorization \<Rightarrow> unit tx" where
  "revoke_connector_body p u a d =
    (if \<not> (\<exists>g \<in> set (oauth_grants d). gr_connector_id g = ca_connection_id a
           \<and> gr_tenant_id g = ca_tenant_id a \<and> gr_client_id g = ca_mcp_client a)
     then Inl ValueError
     else tbind (revoke_connector_in_transaction (tu_clock u 0) (ca_connection_id a)) (\<lambda>_.
          append_operation p (tu_clock u 1) (tu_random u 0) (ca_tenant_id a) ''revoke_connector''
            (ca_connection_id a)) d)"

definition revoke_connector :: "provider \<Rightarrow> turn \<Rightarrow> connector_authorization \<Rightarrow> db \<Rightarrow> unit res \<times> db" where
  "revoke_connector p u a = transaction (tu_fault u 0) (revoke_connector_body p u a)"

section \<open>Codes and tokens\<close>

definition load_authorization_code ::
    "provider \<Rightarrow> turn \<Rightarrow> string \<Rightarrow> string \<Rightarrow> db \<Rightarrow> authorization_code option res" where
  "load_authorization_code p u client_id code d =
    (case find_row (\<lambda>s. se_authorization_code_hash s = Some (pv_hash p code) \<and> se_client_id s = client_id
                      \<and> se_status s = SS_authorized) (oauth_sessions d) of
       None \<Rightarrow> Inr None
     | Some s \<Rightarrow>
        if se_expires_at s \<le> tu_clock u 0 then Inr None
        else ebind (parse_string_tuple (se_scopes_json s)) (\<lambda>scopes.
          Inr (Some \<lparr>ac_code = code, ac_scopes = scopes, ac_expires_at = tu_clock u 1 + authorization_code_ttl,
                     ac_client_id = client_id, ac_code_challenge = se_code_challenge s,
                     ac_redirect_uri = se_redirect_uri s, ac_resource = se_resource s,
                     ac_subject = py_str (se_connector_id s)\<rparr>)))"

definition issue_tokens :: "provider \<Rightarrow> int \<Rightarrow> string \<Rightarrow> string \<Rightarrow> string \<Rightarrow> string list \<Rightarrow> oauth_token tx" where
  "issue_tokens p now access refresh grant_id scopes =
    tbind (tlift (json_strings scopes)) (\<lambda>j.
    tbind (insert_token \<lparr>tk_token_hash = pv_hash p access, tk_grant_id = grant_id, tk_token_type = Access,
       tk_scopes_json = j, tk_expires_at = now + access_token_ttl, tk_rotated_at = None,
       tk_revoked_at = None, tk_created_at = now\<rparr>) (\<lambda>_.
    tbind (insert_token \<lparr>tk_token_hash = pv_hash p refresh, tk_grant_id = grant_id, tk_token_type = Refresh,
       tk_scopes_json = j, tk_expires_at = now + refresh_token_ttl, tk_rotated_at = None,
       tk_revoked_at = None, tk_created_at = now\<rparr>) (\<lambda>_.
    treturn \<lparr>ot_access_token = access, ot_refresh_token = refresh, ot_expires_in = 3600,
             ot_scope = join '' '' scopes\<rparr>)))"

definition exchange_code_body ::
    "provider \<Rightarrow> turn \<Rightarrow> string \<Rightarrow> authorization_code \<Rightarrow> oauth_token option tx" where
  "exchange_code_body p u client_id ac d =
    (let found = find_row (\<lambda>(s, g). se_authorization_code_hash s = Some (pv_hash p (ac_code ac))
             \<and> se_client_id s = client_id \<and> se_status s = SS_authorized
             \<and> se_connector_id s = Some (gr_connector_id g) \<and> gr_client_id g = se_client_id s
             \<and> gr_status g = GS_active)
           (List.product (oauth_sessions d) (oauth_grants d))
     in case found of
          None \<Rightarrow> Inr (None, d)
        | Some (s, g) \<Rightarrow>
            tbind (update_sessions (\<lambda>q. se_state_hash q = se_state_hash s \<and> se_status q = SS_authorized)
               (\<lambda>q. q\<lparr>se_status := SS_consumed, se_consumed_at := Some (tu_clock u 0)\<rparr>)) (\<lambda>_.
            tbind (issue_tokens p (tu_clock u 1) (tu_random u 0) (tu_random u 1) (gr_id g) (ac_scopes ac)) (\<lambda>tok.
            treturn (Some tok))) d)"

definition exchange_authorization_code ::
    "provider \<Rightarrow> turn \<Rightarrow> string \<Rightarrow> authorization_code \<Rightarrow> db \<Rightarrow> oauth_token res \<times> db" where
  "exchange_authorization_code p u client_id ac d =
    (case transaction (tu_fault u 0) (exchange_code_body p u client_id ac) d of
       (Inl e, d') \<Rightarrow> (Inl e, d')
     | (Inr None, d') \<Rightarrow> (Inl (TokenError ''invalid_grant''), d')
     | (Inr (Some tok), d') \<Rightarrow> (Inr tok, d'))"

text \<open>\<open>_token_row\<close>: a token with its grant, when both and the connector are live. A client that does
  not own it gets nothing.\<close>

definition token_row_of ::
    "provider \<Rightarrow> int \<Rightarrow> string \<Rightarrow> token_type \<Rightarrow> string option \<Rightarrow> db \<Rightarrow> (token_row \<times> grant_row) option" where
  "token_row_of p now token ty client_id d =
    (case find_row (\<lambda>(t, g). gr_id g = tk_grant_id t
             \<and> has_active_connection (gr_tenant_id g) (gr_connector_id g) (erp_connections d)
             \<and> tk_token_hash t = pv_hash p token \<and> tk_token_type t = ty \<and> tk_revoked_at t = None
             \<and> tk_rotated_at t = None \<and> now < tk_expires_at t \<and> gr_status g = GS_active)
           (List.product (oauth_tokens d) (oauth_grants d)) of
       None \<Rightarrow> None
     | Some (t, g) \<Rightarrow>
        (case client_id of
           None \<Rightarrow> Some (t, g)
         | Some c \<Rightarrow> if gr_client_id g \<noteq> c then None else Some (t, g)))"

definition load_refresh_token :: "provider \<Rightarrow> turn \<Rightarrow> string \<Rightarrow> string \<Rightarrow> db \<Rightarrow> token_view option res" where
  "load_refresh_token p u client_id token d =
    (case token_row_of p (tu_clock u 0) token Refresh (Some client_id) d of
       None \<Rightarrow> Inr None
     | Some (t, g) \<Rightarrow> ebind (parse_string_tuple (tk_scopes_json t)) (\<lambda>scopes.
         Inr (Some \<lparr>tv_token = token, tv_client_id = client_id, tv_scopes = scopes,
                    tv_expires_at = tk_expires_at t div 1000000, tv_resource = gr_resource g,
                    tv_subject = gr_connector_id g\<rparr>)))"

datatype refresh_outcome = Issued oauth_token | Invalid_grant | Invalid_scope

definition exchange_refresh_body ::
    "provider \<Rightarrow> turn \<Rightarrow> string \<Rightarrow> token_view \<Rightarrow> string list \<Rightarrow> refresh_outcome tx" where
  "exchange_refresh_body p u client_id rt requested d =
    (case token_row_of p (tu_clock u 0) (tv_token rt) Refresh (Some client_id) d of
       None \<Rightarrow> Inr (Invalid_grant, d)
     | Some (t, g) \<Rightarrow>
        (case parse_string_tuple (tk_scopes_json t) of
           Inl e \<Rightarrow> Inl e
         | Inr persisted \<Rightarrow>
            if \<not> set requested \<subseteq> set persisted then Inr (Invalid_scope, d)
            else (let now = tu_clock u 1 in
              tbind (update_tokens (\<lambda>q. tk_token_hash q = pv_hash p (tv_token rt))
                  (\<lambda>q. q\<lparr>tk_rotated_at := Some now\<rparr>)) (\<lambda>_.
              tbind (update_tokens (\<lambda>q. tk_grant_id q = tk_grant_id t \<and> tk_token_type q = Access
                                       \<and> tk_revoked_at q = None)
                  (\<lambda>q. q\<lparr>tk_revoked_at := Some now\<rparr>)) (\<lambda>_.
              tbind (issue_tokens p (tu_clock u 2) (tu_random u 0) (tu_random u 1) (tk_grant_id t) persisted)
                (\<lambda>tok. treturn (Issued tok)))) d)))"

definition exchange_refresh_token ::
    "provider \<Rightarrow> turn \<Rightarrow> string \<Rightarrow> token_view \<Rightarrow> string list \<Rightarrow> db \<Rightarrow> oauth_token res \<times> db" where
  "exchange_refresh_token p u client_id rt scopes d =
    (let requested = (if scopes = [] then tv_scopes rt else scopes) in
     if \<not> set requested \<subseteq> set (tv_scopes rt) then (Inl (TokenError ''invalid_scope''), d)
     else (case transaction (tu_fault u 0) (exchange_refresh_body p u client_id rt requested) d of
         (Inl e, d') \<Rightarrow> (Inl e, d')
       | (Inr Invalid_grant, d') \<Rightarrow> (Inl (TokenError ''invalid_grant''), d')
       | (Inr Invalid_scope, d') \<Rightarrow> (Inl (TokenError ''invalid_scope''), d')
       | (Inr (Issued tok), d') \<Rightarrow> (Inr tok, d')))"

definition load_access_token :: "provider \<Rightarrow> turn \<Rightarrow> string \<Rightarrow> db \<Rightarrow> access_token option res" where
  "load_access_token p u token d =
    (case token_row_of p (tu_clock u 0) token Access None d of
       None \<Rightarrow> Inr None
     | Some (t, g) \<Rightarrow> ebind (parse_string_tuple (tk_scopes_json t)) (\<lambda>scopes.
         Inr (Some \<lparr>tv_token = token, tv_client_id = gr_client_id g, tv_scopes = scopes,
                    tv_expires_at = tk_expires_at t div 1000000, tv_resource = gr_resource g,
                    tv_subject = gr_connector_id g, tv_tenant_id = gr_tenant_id g,
                    tv_permissions = scopes\<rparr>)))"

definition exchange_identity_assertion :: "string \<Rightarrow> oauth_token res" where
  "exchange_identity_assertion client_id = Inl (TokenError ''unsupported_grant_type'')"

definition revoke_token_body :: "provider \<Rightarrow> turn \<Rightarrow> string \<Rightarrow> unit tx" where
  "revoke_token_body p u token d =
    (case find_row (\<lambda>t. tk_token_hash t = pv_hash p token) (oauth_tokens d) of
       None \<Rightarrow> Inr ((), d)
     | Some t \<Rightarrow>
        (case find_row (\<lambda>g. gr_id g = tk_grant_id t) (oauth_grants d) of
           None \<Rightarrow> Inr ((), d)
         | Some g \<Rightarrow>
            tbind (revoke_connector_in_transaction (tu_clock u 0) (gr_connector_id g)) (\<lambda>_.
              append_operation p (tu_clock u 1) (tu_random u 0) (gr_tenant_id g) ''revoke_connector''
                (gr_connector_id g)) d))"

definition revoke_token :: "provider \<Rightarrow> turn \<Rightarrow> string \<Rightarrow> db \<Rightarrow> unit res \<times> db" where
  "revoke_token p u token = transaction (tu_fault u 0) (revoke_token_body p u token)"

text \<open>The revocation endpoint: the first reading loads an access token, the second a refresh token, the
  rest is the turn of \<open>revoke_connector\<close>.\<close>

definition later :: "nat \<Rightarrow> turn \<Rightarrow> turn" where
  "later n u = u\<lparr>tu_clock := (\<lambda>i. tu_clock u (i + n))\<rparr>"

definition revoke_raw_token :: "provider \<Rightarrow> turn \<Rightarrow> string \<Rightarrow> string \<Rightarrow> db \<Rightarrow> unit res \<times> db" where
  "revoke_raw_token p u client_id token d =
    (let row = (case token_row_of p (tu_clock u 0) token Access (Some client_id) d of
                  Some tg \<Rightarrow> Some tg
                | None \<Rightarrow> token_row_of p (tu_clock u 1) token Refresh (Some client_id) d)
     in case row of
          None \<Rightarrow> (Inr (), d)
        | Some (t, g) \<Rightarrow> revoke_connector p (later 2 u)
            \<lparr>ca_tenant_id = gr_tenant_id g, ca_connection_id = gr_connector_id g,
             ca_authenticated_subject = gr_connector_id g, ca_mcp_client = client_id, ca_permissions = []\<rparr> d)"

definition authorization_for_access_token ::
    "provider \<Rightarrow> turn \<Rightarrow> string \<Rightarrow> db \<Rightarrow> connector_authorization option res" where
  "authorization_for_access_token p u token d =
    (case token_row_of p (tu_clock u 0) token Access None d of
       None \<Rightarrow> Inr None
     | Some (t, g) \<Rightarrow> ebind (parse_string_tuple (tk_scopes_json t)) (\<lambda>scopes.
         Inr (Some \<lparr>ca_tenant_id = gr_tenant_id g, ca_connection_id = gr_connector_id g,
                    ca_authenticated_subject = gr_connector_id g, ca_mcp_client = gr_client_id g,
                    ca_permissions = filter (\<lambda>s. s \<in> set (pv_valid_scopes p)) scopes\<rparr>)))"

end
