(* ===== verification/Lifecycle.thy ===== *)
theory Lifecycle
  imports Connections SharedAuth
begin

text \<open>
  \<open>SharedConnectorLifecycle\<close> of \<open>app/shared_lifecycle.py\<close>: enrollment of a connector in two steps
  (prepare, commit), expiry and removal of pending ones, and the complete settings of an active one.
  What the awaited Odoo validation gave is an argument of the first step.
\<close>

record credentials =
  ec_url :: string
  ec_database :: string
  ec_username :: string
  ec_api_key :: string

record verified_enrollment =
  vf_version :: int
  vf_transport :: string
  vf_companies :: "(int \<times> string) list"

record prepared_enrollment =
  pe_enrollment_handle :: string
  pe_connector_id :: string
  pe_tenant_id :: string
  pe_expires_at :: int
  pe_companies :: "(int \<times> string) list"

record committed_enrollment =
  ce_connector_id :: string
  ce_tenant_id :: string
  ce_allowed_company_ids :: "int list"
  ce_default_company_id :: int

record lifecycle =
  lc_hash :: "string \<Rightarrow> string"
  lc_cipher :: cipher
  lc_keyring :: keyring
  lc_base_url :: "string \<Rightarrow> string option"

definition session_ttl :: int where "session_ttl = minutes 10"

text \<open>\<open>str.rstrip("/")\<close>; \<open>compare_digest\<close> of two texts refuses non-ASCII ones.\<close>

definition rstrip_slash :: "string \<Rightarrow> string" where
  "rstrip_slash s = rev (dropWhile (\<lambda>c. c = CHR ''/'') (rev s))"

definition ascii :: "string \<Rightarrow> bool" where
  "ascii s \<longleftrightarrow> list_all (\<lambda>c. (of_char c :: nat) < 128) s"

definition compare_digest :: "string \<Rightarrow> string \<Rightarrow> bool res" where
  "compare_digest a b = (if ascii a \<and> ascii b then Inr (a = b) else Inl TypeError)"

text \<open>\<open>_ids\<close> and \<open>_allowed_ids\<close>: a JSON list of positive integers.\<close>

definition positive_ids :: "string option \<Rightarrow> int list res" where
  "positive_ids j = ebind (company_list j) (\<lambda>ids. if list_all (\<lambda>i. i > 0) ids then Inr ids else Inl ValueError)"

definition is_expired :: "int \<Rightarrow> connection_row \<Rightarrow> bool" where
  "is_expired now c = (case cn_enrollment_expires_at c of None \<Rightarrow> True | Some x \<Rightarrow> x \<le> now)"

definition append_lifecycle :: "lifecycle \<Rightarrow> int \<Rightarrow> string \<Rightarrow> string \<Rightarrow> string \<Rightarrow> string \<Rightarrow> unit tx" where
  "append_lifecycle lc now request_id tenant operation connector =
    tbind (append_in_transaction (lc_hash lc) now (operation_event request_id tenant tenant operation connector))
      (\<lambda>_. treturn ())"

text \<open>A repeated \<open>prepare\<close> with the same handle: only for the very same request.\<close>

definition restore_prepared ::
    "lifecycle \<Rightarrow> int \<Rightarrow> connection_row \<Rightarrow> credentials \<Rightarrow> string \<Rightarrow> verified_enrollment \<Rightarrow> prepared_enrollment res" where
  "restore_prepared lc now c cr handle v =
    (if cn_status c \<noteq> CS_pending \<or> is_expired now c then Inl ValueError
     else ebind (decrypt (lc_cipher lc) (lc_keyring lc) (cn_tenant_id c) (cn_id c) (cn_encrypted_api_key c)
              (cn_key_version c)) (\<lambda>plaintext.
       if rstrip_slash (cn_odoo_url c) \<noteq> rstrip_slash (ec_url cr) \<or> cn_database_name c \<noteq> ec_database cr
          \<or> cn_username c \<noteq> ec_username cr then Inl ValueError
       else ebind (compare_digest plaintext (ec_api_key cr)) (\<lambda>same.
         if \<not> same \<or> py_str (cn_detected_version c) \<noteq> int_text (vf_version v)
            \<or> py_str (cn_selected_transport c) \<noteq> vf_transport v then Inl ValueError
         else ebind (positive_ids (Some (cn_discovered_company_ids_json c))) (\<lambda>ids.
           if ids \<noteq> map fst (vf_companies v) then Inl ValueError
           else case cn_enrollment_expires_at c of
               None \<Rightarrow> Inl ValueError
             | Some x \<Rightarrow> Inr \<lparr>pe_enrollment_handle = handle, pe_connector_id = cn_id c,
                  pe_tenant_id = cn_tenant_id c, pe_expires_at = x, pe_companies = vf_companies v\<rparr>))))"

definition by_handle :: "string \<Rightarrow> db \<Rightarrow> connection_row option" where
  "by_handle h d = find_row (\<lambda>c. cn_enrollment_handle_hash c = Some h) (erp_connections d)"

definition connector_tenant :: "string \<Rightarrow> string" where
  "connector_tenant connector_id = ''connector:'' @ connector_id"

text \<open>The row of a new connector.\<close>

definition new_connection ::
    "lifecycle \<Rightarrow> turn \<Rightarrow> credentials \<Rightarrow> string \<Rightarrow> verified_enrollment \<Rightarrow> connection_row res" where
  "new_connection lc u cr handle_hash v =
    (let connector = tu_random u 1; tenant = connector_tenant connector; now = tu_clock u 0 in
     ebind (encrypt (lc_cipher lc) (lc_keyring lc) (tu_random u 2) tenant connector (ec_api_key cr))
       (\<lambda>(encrypted, version).
     ebind (canonical_json (PList (map (PInt \<circ> fst) (vf_companies v)))) (\<lambda>discovered.
     Inr \<lparr>cn_id = connector, cn_tenant_id = tenant, cn_connection_label = ''Odoo connection'',
          cn_odoo_url = ec_url cr, cn_database_name = ec_database cr, cn_username = ec_username cr,
          cn_encrypted_api_key = encrypted, cn_discovered_company_ids_json = discovered,
          cn_allowed_company_ids_json = None, cn_default_company_id = None,
          cn_detected_version = Some (int_text (vf_version v)), cn_selected_transport = Some (vf_transport v),
          cn_key_version = version, cn_status = CS_pending, cn_enrollment_handle_hash = Some handle_hash,
          cn_consumed_enrollment_handle_hash = None, cn_enrollment_expires_at = Some (now + session_ttl),
          cn_activated_at = None, cn_revoked_at = None, cn_created_at = now, cn_updated_at = now\<rparr>)))"

definition prepare_body ::
    "lifecycle \<Rightarrow> turn \<Rightarrow> credentials \<Rightarrow> string \<Rightarrow> verified_enrollment \<Rightarrow> connection_row \<Rightarrow> prepared_enrollment tx" where
  "prepare_body lc u cr handle v c =
    tbind (insert_connection c) (\<lambda>n d.
      if n = 0 then
        (case by_handle (lc_hash lc handle) d of
           None \<Rightarrow> Inl RuntimeError
         | Some q \<Rightarrow> tlift (restore_prepared lc (tu_clock u 1) q cr handle v) d)
      else tbind (append_lifecycle lc (tu_clock u 1) (tu_random u 3) (cn_tenant_id c) ''prepare_enrollment'' (cn_id c))
        (\<lambda>_. treturn \<lparr>pe_enrollment_handle = handle, pe_connector_id = cn_id c, pe_tenant_id = cn_tenant_id c,
                    pe_expires_at = tu_clock u 0 + session_ttl, pe_companies = vf_companies v\<rparr>) d)"

definition prepare_enrollment ::
    "lifecycle \<Rightarrow> turn \<Rightarrow> credentials \<Rightarrow> string option \<Rightarrow> verified_enrollment res \<Rightarrow> db \<Rightarrow>
      prepared_enrollment res \<times> db" where
  "prepare_enrollment lc u cr given validated d =
    (let handle = (case given of None \<Rightarrow> tu_random u 0 | Some h \<Rightarrow> if h = [] then tu_random u 0 else h) in
     if length handle < 22 then (Inl ValueError, d)
     else (case validated of
         Inl e \<Rightarrow> (Inl e, d)
       | Inr v \<Rightarrow>
          (case by_handle (lc_hash lc handle) d of
             Some c \<Rightarrow> (restore_prepared lc (tu_clock u 0) c cr handle v, d)
           | None \<Rightarrow>
              (case new_connection lc u cr (lc_hash lc handle) v of
                 Inl e \<Rightarrow> (Inl e, d)
               | Inr c \<Rightarrow> transaction (tu_fault u 0) (prepare_body lc u cr handle v c) d))))"

text \<open>\<open>tuple(dict.fromkeys(xs))\<close>: first occurrences.\<close>

definition first_occurrences :: "'a list \<Rightarrow> 'a list" where
  "first_occurrences xs = rev (remdups (rev xs))"

definition same_handle :: "string \<Rightarrow> connection_row \<Rightarrow> bool" where
  "same_handle h c \<longleftrightarrow>
     cn_enrollment_handle_hash c = Some h \<or> cn_consumed_enrollment_handle_hash c = Some h"

definition commit_body ::
    "lifecycle \<Rightarrow> turn \<Rightarrow> string \<Rightarrow> int list \<Rightarrow> int \<Rightarrow> committed_enrollment tx" where
  "commit_body lc u handle selected dflt d =
    (let h = lc_hash lc handle in
     case find_row (same_handle h) (erp_connections d) of
       None \<Rightarrow> Inl ValueError
     | Some c \<Rightarrow>
        if cn_status c \<noteq> CS_pending \<or> is_expired (tu_clock u 0) c then Inl ValueError
        else
          tbind (tlift (positive_ids (Some (cn_discovered_company_ids_json c)))) (\<lambda>discovered.
          if \<not> set selected \<subseteq> set discovered then tlift (Inl ValueError)
          else
            tbind (if cn_consumed_enrollment_handle_hash c \<noteq> None then
                tlift (ebind (positive_ids (cn_allowed_company_ids_json c)) (\<lambda>prior.
                  if prior \<noteq> selected then Inl ValueError
                  else case cn_default_company_id c of
                      None \<Rightarrow> Inl TypeError
                    | Some n \<Rightarrow> if n \<noteq> dflt then Inl ValueError else Inr ()))
              else
                tbind (tlift (canonical_json (PList (map PInt selected)))) (\<lambda>allowed.
                tbind (update_connections
                  (\<lambda>q. is_connection (cn_tenant_id c) (cn_id c) q \<and> cn_status q = CS_pending)
                  (\<lambda>q. q\<lparr>cn_allowed_company_ids_json := Some allowed, cn_default_company_id := Some dflt,
                         cn_enrollment_handle_hash := None, cn_consumed_enrollment_handle_hash := Some h,
                         cn_updated_at := tu_clock u 1\<rparr>)) (\<lambda>_.
                append_lifecycle lc (tu_clock u 2) (tu_random u 0) (cn_tenant_id c) ''commit_enrollment'' (cn_id c))))
            (\<lambda>_. treturn \<lparr>ce_connector_id = cn_id c, ce_tenant_id = cn_tenant_id c,
                         ce_allowed_company_ids = selected, ce_default_company_id = dflt\<rparr>)) d)"

definition commit_enrollment ::
    "lifecycle \<Rightarrow> turn \<Rightarrow> string \<Rightarrow> int list \<Rightarrow> int \<Rightarrow> db \<Rightarrow> committed_enrollment res \<times> db" where
  "commit_enrollment lc u handle allowed dflt d =
    (let selected = first_occurrences allowed in
     if selected = [] \<or> list_ex (\<lambda>i. i \<le> 0) selected \<or> dflt \<notin> set selected then (Inl ValueError, d)
     else transaction (tu_fault u 0) (commit_body lc u handle selected dflt) d)"

definition expire_pending :: "turn \<Rightarrow> db \<Rightarrow> nat res \<times> db" where
  "expire_pending u =
    transaction (tu_fault u 0) (update_connections
      (\<lambda>c. cn_status c = CS_pending
         \<and> (case cn_enrollment_expires_at c of None \<Rightarrow> False | Some x \<Rightarrow> x \<le> tu_clock u 0))
      (\<lambda>c. c\<lparr>cn_status := CS_expired, cn_enrollment_handle_hash := None, cn_updated_at := tu_clock u 0\<rparr>))"

definition discard_pending :: "turn \<Rightarrow> string \<Rightarrow> string \<Rightarrow> db \<Rightarrow> unit res \<times> db" where
  "discard_pending u tenant connector =
    transaction (tu_fault u 0) (\<lambda>d. delete_connections
      (\<lambda>c. is_connection tenant connector c \<and> cn_status c = CS_pending
         \<and> \<not> (\<exists>g \<in> set (oauth_grants d). gr_tenant_id g = tenant \<and> gr_connector_id g = connector)) d)"

definition complete_settings :: "lifecycle \<Rightarrow> string \<Rightarrow> string \<Rightarrow> db \<Rightarrow> odoo_settings res" where
  "complete_settings lc tenant connector d =
    (case find_row (\<lambda>c. is_connection tenant connector c \<and> cn_status c = CS_active) (erp_connections d) of
       None \<Rightarrow> Inl ValueError
     | Some c \<Rightarrow>
        ebind (decrypt (lc_cipher lc) (lc_keyring lc) tenant connector (cn_encrypted_api_key c) (cn_key_version c))
          (\<lambda>secret.
        case (positive_ids (cn_allowed_company_ids_json c), cn_default_company_id c) of
          (Inr ids, Some dflt) \<Rightarrow>
            (case validate_settings (lc_base_url lc) \<lparr>st_url = cn_odoo_url c, st_database = cn_database_name c,
                    st_username = cn_username c, st_api_key = secret, st_allowed_company_ids = ids,
                    st_default_company_id = dflt\<rparr> of
               Inl _ \<Rightarrow> Inl ValueError
             | Inr s \<Rightarrow> Inr s)
        | _ \<Rightarrow> Inl ValueError))"

end
