(* ===== verification/AuthInvariant.thy ===== *)
theory AuthInvariant
  imports Lifecycle
begin

text \<open>
  The invariant of the connector tables and what each kind of statement sequence does to it. The
  lemmas are stated once per shape of change (a quiet update, an activation, a revocation, issuing
  tokens) and used by every operation that makes such a change.
\<close>

section \<open>The invariant\<close>

definition code_ok :: "session_row \<Rightarrow> bool" where
  "code_ok s \<longleftrightarrow> (se_authorization_code_hash s \<noteq> None) = (se_status s \<in> {SS_authorized, SS_consumed})"

definition token_ok :: "grant_row list \<Rightarrow> token_row \<Rightarrow> bool" where
  "token_ok gs t \<longleftrightarrow> (\<exists>g \<in> set gs. gr_id g = tk_grant_id t \<and> scopes_within t g
     \<and> (tk_revoked_at t = None \<longrightarrow> gr_status g = GS_active))"

text \<open>A consumed handle is not open any more.\<close>

definition handle_ok :: "connection_row \<Rightarrow> bool" where
  "handle_ok c \<longleftrightarrow> (cn_consumed_enrollment_handle_hash c \<noteq> None \<longrightarrow> cn_enrollment_handle_hash c = None)"

definition connection_ok :: "grant_row list \<Rightarrow> connection_row \<Rightarrow> bool" where
  "connection_ok gs c \<longleftrightarrow> handle_ok c \<and> (cn_status c = CS_active \<longrightarrow> selection_complete c)
     \<and> (cn_status c = CS_active) = has_active_grant (cn_tenant_id c) (cn_id c) gs"

definition grant_ok :: "connection_row list \<Rightarrow> grant_row \<Rightarrow> bool" where
  "grant_ok cs g \<longleftrightarrow> (gr_tenant_id g, gr_connector_id g) \<in> connection_key ` set cs"

definition authority_ok :: "db \<Rightarrow> bool" where
  "authority_ok d \<longleftrightarrow> unique_connections (erp_connections d) \<and> unique_sessions (oauth_sessions d)
     \<and> distinct (map gr_id (oauth_grants d)) \<and> distinct (map tk_token_hash (oauth_tokens d))
     \<and> (\<forall>c \<in> set (erp_connections d). connection_ok (oauth_grants d) c)
     \<and> (\<forall>g \<in> set (oauth_grants d). grant_ok (erp_connections d) g)
     \<and> (\<forall>t \<in> set (oauth_tokens d). token_ok (oauth_grants d) t)
     \<and> (\<forall>s \<in> set (oauth_sessions d). code_ok s)"

lemma authority_okI:
  assumes "unique_connections (erp_connections d)" "unique_sessions (oauth_sessions d)"
    and "distinct (map gr_id (oauth_grants d))" "distinct (map tk_token_hash (oauth_tokens d))"
    and "\<And>c. c \<in> set (erp_connections d) \<Longrightarrow> connection_ok (oauth_grants d) c"
    and "\<And>g. g \<in> set (oauth_grants d) \<Longrightarrow> grant_ok (erp_connections d) g"
    and "\<And>t. t \<in> set (oauth_tokens d) \<Longrightarrow> token_ok (oauth_grants d) t"
    and "\<And>s. s \<in> set (oauth_sessions d) \<Longrightarrow> code_ok s"
  shows "authority_ok d"
  using assms by (simp add: authority_ok_def)

lemma authority_okD:
  assumes "authority_ok d"
  shows "unique_connections (erp_connections d)" "unique_sessions (oauth_sessions d)"
    and "distinct (map gr_id (oauth_grants d))" "distinct (map tk_token_hash (oauth_tokens d))"
    and "c \<in> set (erp_connections d) \<Longrightarrow> connection_ok (oauth_grants d) c"
    and "g \<in> set (oauth_grants d) \<Longrightarrow> grant_ok (erp_connections d) g"
    and "t \<in> set (oauth_tokens d) \<Longrightarrow> token_ok (oauth_grants d) t"
    and "s \<in> set (oauth_sessions d) \<Longrightarrow> code_ok s"
  using assms by (auto simp: authority_ok_def)

text \<open>The tables the invariant is about; everything else may change freely.\<close>

definition auth_tables ::
    "db \<Rightarrow> connection_row list \<times> session_row list \<times> grant_row list \<times> token_row list" where
  "auth_tables d = (erp_connections d, oauth_sessions d, oauth_grants d, oauth_tokens d)"

lemma authority_ok_cong: "auth_tables d = auth_tables d' \<Longrightarrow> authority_ok d = authority_ok d'"
  by (simp add: auth_tables_def authority_ok_def)

lemma authority_ok_empty: "authority_ok empty_db"
  by (simp add: authority_ok_def empty_db_def unique_connections_def unique_sessions_def)

lemma append_auth_tables:
  assumes "append_in_transaction H now ev d = Inr (rec, d')"
  shows "auth_tables d' = auth_tables d \<and> oauth_clients d' = oauth_clients d"
  using append_effect [OF assms] by (auto simp: auth_tables_def)

lemma append_operation_tables:
  "append_operation p now rid t op i d = Inr (x, d') \<Longrightarrow>
    auth_tables d' = auth_tables d \<and> oauth_clients d' = oauth_clients d"
  by (auto simp: append_operation_def append_auth_tables split: if_splits)

lemma append_lifecycle_tables:
  "append_lifecycle lc now rid t op i d = Inr (x, d') \<Longrightarrow>
    auth_tables d' = auth_tables d \<and> oauth_clients d' = oauth_clients d"
  by (auto simp: append_lifecycle_def append_auth_tables)

section \<open>Keys\<close>

lemma key_eq: "connection_key a = connection_key b \<longleftrightarrow> is_connection (cn_tenant_id b) (cn_id b) a"
  by (auto simp: connection_key_def is_connection_def)

lemma is_connection_key: "is_connection t i c \<longleftrightarrow> connection_key c = (t, i)"
  by (auto simp: connection_key_def is_connection_def)

lemma unique_key: "unique_connections cs \<Longrightarrow> a \<in> set cs \<Longrightarrow> b \<in> set cs \<Longrightarrow>
    connection_key a = connection_key b \<Longrightarrow> a = b"
  by (auto simp: unique_connections_def distinct_map dest: inj_onD)

lemma map_update_rows: "(\<And>r. r \<in> set rs \<Longrightarrow> P r \<Longrightarrow> k (f r) = k r) \<Longrightarrow> map k (update_rows P f rs) = map k rs"
  by (auto simp: update_rows_def)

lemma keys_update_rows:
  assumes "\<And>r. r \<in> set rs \<Longrightarrow> P r \<Longrightarrow> k (f r) = k r"
  shows "k ` set (update_rows P f rs) = k ` set rs"
proof -
  have "map k (update_rows P f rs) = map k rs" by (rule map_update_rows) (rule assms)
  from arg_cong [OF this, of set] show ?thesis by simp
qed

lemma has_active_grant_append:
  "has_active_grant t i (gs @ [g]) \<longleftrightarrow> has_active_grant t i gs
     \<or> (gr_connector_id g = i \<and> gr_tenant_id g = t \<and> gr_status g = GS_active)"
  by (auto simp: has_active_grant_def)

lemma has_active_connection_simps:
  "has_active_connection t i [] \<longleftrightarrow> False"
  "has_active_connection t i (c # cs) \<longleftrightarrow>
     (is_connection t i c \<and> cn_status c = CS_active) \<or> has_active_connection t i cs"
  by (auto simp: has_active_connection_def)

lemma token_ok_mono: "token_ok gs t \<Longrightarrow> token_ok (gs @ [g]) t"
  by (auto simp: token_ok_def)

lemma grant_has_connection:
  assumes "authority_ok d" "has_active_grant t i (oauth_grants d)"
  shows "has_active_connection t i (erp_connections d)"
proof -
  from assms(2) obtain g where g: "g \<in> set (oauth_grants d)" "gr_tenant_id g = t" "gr_connector_id g = i"
    by (auto simp: has_active_grant_def)
  with authority_okD(6) [OF assms(1)] obtain c where c: "c \<in> set (erp_connections d)" "connection_key c = (t, i)"
    by (force simp: grant_ok_def)
  with authority_okD(5) [OF assms(1) c(1)] assms(2) show ?thesis
    by (auto simp: has_active_connection_def connection_ok_def is_connection_def connection_key_def)
qed

section \<open>Connections\<close>

lemma insert_connection_Inr:
  "insert_connection c d = Inr (n, d') \<Longrightarrow> (n = 0 \<and> d' = d) \<or>
    (n = 1 \<and> d' = d\<lparr>erp_connections := erp_connections d @ [c]\<rparr> \<and> cn_status c \<noteq> CS_active
      \<and> unique_connections (erp_connections d @ [c]))"
  by (auto simp: insert_connection_def split: if_splits)

lemma insert_connection_ok:
  assumes "insert_connection c d = Inr (n, d')" "authority_ok d" "handle_ok c"
  shows "authority_ok d'"
  using insert_connection_Inr [OF assms(1)]
proof (elim disjE conjE)
  assume d': "d' = d\<lparr>erp_connections := erp_connections d @ [c]\<rparr>" and na: "cn_status c \<noteq> CS_active"
    and u: "unique_connections (erp_connections d @ [c])"
  have new: "connection_key c \<notin> connection_key ` set (erp_connections d)"
    using u by (auto simp: unique_connections_def)
  have "\<not> has_active_grant (cn_tenant_id c) (cn_id c) (oauth_grants d)"
  proof
    assume "has_active_grant (cn_tenant_id c) (cn_id c) (oauth_grants d)"
    from grant_has_connection [OF assms(2) this] new show False
      by (auto simp: has_active_connection_def key_eq [symmetric] image_iff)
  qed
  with na assms(3) have "connection_ok (oauth_grants d) c" by (simp add: connection_ok_def)
  with authority_okD [OF assms(2)] u d' show ?thesis
    by (intro authority_okI) (auto simp: grant_ok_def)
qed (use assms in simp)

lemma update_connections_Inr:
  "update_connections P f d = Inr (n, d') \<longleftrightarrow>
    (\<forall>c \<in> set (erp_connections d). P c \<longrightarrow> connection_update_ok (oauth_grants d) c (f c))
    \<and> unique_connections (update_rows P f (erp_connections d)) \<and> n = count_rows P (erp_connections d)
    \<and> d' = d\<lparr>erp_connections := update_rows P f (erp_connections d)\<rparr>"
  by (auto simp: update_connections_def)

text \<open>An update that moves no connector into or out of the active state.\<close>

lemma quiet_update_ok:
  assumes upd: "update_connections P f d = Inr (n, d')" and ok: "authority_ok d"
    and quiet: "\<And>c. c \<in> set (erp_connections d) \<Longrightarrow> P c \<Longrightarrow> connection_key (f c) = connection_key c
      \<and> (cn_status (f c) = CS_active) = (cn_status c = CS_active) \<and> (handle_ok c \<longrightarrow> handle_ok (f c))"
  shows "authority_ok d'"
proof -
  from upd have d': "d' = d\<lparr>erp_connections := update_rows P f (erp_connections d)\<rparr>"
    and upd_ok: "\<forall>c \<in> set (erp_connections d). P c \<longrightarrow> connection_update_ok (oauth_grants d) c (f c)"
    and u: "unique_connections (update_rows P f (erp_connections d))"
    by (simp_all add: update_connections_Inr)
  have keys: "connection_key ` set (update_rows P f (erp_connections d)) = connection_key ` set (erp_connections d)"
    by (rule keys_update_rows) (use quiet in blast)
  have "connection_ok (oauth_grants d) c'" if in': "c' \<in> set (update_rows P f (erp_connections d))" for c'
  proof -
    from in' obtain c where c: "c \<in> set (erp_connections d)" "c' = (if P c then f c else c)"
      by (auto simp: set_update_rows)
    show ?thesis
    proof (cases "P c")
      case True
      with c quiet [of c] upd_ok authority_okD(5) [OF ok c(1)] show ?thesis
        by (auto simp: connection_ok_def connection_update_ok_def connection_key_def)
    next
      case False
      with c authority_okD(5) [OF ok c(1)] show ?thesis by simp
    qed
  qed
  with authority_okD [OF ok] u show ?thesis
    unfolding d' by (intro authority_okI) (auto simp: grant_ok_def keys)
qed

lemma delete_connections_ok:
  assumes "delete_connections P d = Inr (x, d')" "authority_ok d"
  shows "authority_ok d'"
proof -
  from assms(1) have d': "d' = d\<lparr>erp_connections := filter (\<lambda>c. \<not> P c) (erp_connections d)\<rparr>"
    and free: "\<And>c g. c \<in> set (erp_connections d) \<Longrightarrow> P c \<Longrightarrow> g \<in> set (oauth_grants d) \<Longrightarrow>
      \<not> is_connection (gr_tenant_id g) (gr_connector_id g) c"
    by (auto simp: delete_connections_def split: if_splits)
  have "grant_ok (filter (\<lambda>c. \<not> P c) (erp_connections d)) g" if "g \<in> set (oauth_grants d)" for g
    using authority_okD(6) [OF assms(2) that] free [OF _ _ that]
    by (fastforce simp: grant_ok_def is_connection_key image_iff)
  moreover have "distinct (somes (map k (filter Q cs)))" if "distinct (somes (map k cs))" for k Q and cs :: "connection_row list"
    using that
  proof (induction cs)
    case (Cons c cs)
    then show ?case by (cases "k c") (auto simp: set_somes)
  qed simp
  ultimately show ?thesis using authority_okD [OF assms(2)] unfolding d'
    by (intro authority_okI) (auto simp: unique_connections_def distinct_map_filter)
qed

section \<open>Sessions\<close>

lemma insert_session_ok:
  assumes "insert_session s d = Inr (x, d')" "authority_ok d" "code_ok s"
  shows "authority_ok d'"
  using assms authority_okD [OF assms(2)]
  by (intro authority_okI) (auto simp: insert_session_def split: if_splits)

lemma update_sessions_Inr:
  "update_sessions P f d = Inr (n, d') \<longleftrightarrow>
    (\<forall>s \<in> set (oauth_sessions d). P s \<longrightarrow> se_status s = se_status (f s) \<or> session_transition (se_status s) (se_status (f s)))
    \<and> unique_sessions (update_rows P f (oauth_sessions d)) \<and> n = count_rows P (oauth_sessions d)
    \<and> d' = d\<lparr>oauth_sessions := update_rows P f (oauth_sessions d)\<rparr>"
  by (auto simp: update_sessions_def)

lemma update_sessions_ok:
  assumes "update_sessions P f d = Inr (n, d')" "authority_ok d"
    and "\<And>s. s \<in> set (oauth_sessions d) \<Longrightarrow> P s \<Longrightarrow> code_ok (f s)"
  shows "authority_ok d'"
  using assms(1,3) authority_okD [OF assms(2)]
  by (intro authority_okI) (auto simp: update_sessions_Inr set_update_rows)

section \<open>Tokens\<close>

lemma insert_token_Inr:
  "insert_token t d = Inr (x, d') \<longleftrightarrow> tk_token_hash t \<notin> tk_token_hash ` set (oauth_tokens d)
    \<and> (\<exists>g \<in> set (oauth_grants d). gr_id g = tk_grant_id t \<and> scopes_within t g)
    \<and> d' = d\<lparr>oauth_tokens := oauth_tokens d @ [t]\<rparr>"
  by (auto simp: insert_token_def)

lemma unique_grant:
  "authority_ok d \<Longrightarrow> g \<in> set (oauth_grants d) \<Longrightarrow> g' \<in> set (oauth_grants d) \<Longrightarrow> gr_id g = gr_id g' \<Longrightarrow> g = g'"
  by (auto simp: authority_ok_def distinct_map dest: inj_onD)

lemma unique_token:
  "authority_ok d \<Longrightarrow> t \<in> set (oauth_tokens d) \<Longrightarrow> t' \<in> set (oauth_tokens d) \<Longrightarrow>
    tk_token_hash t = tk_token_hash t' \<Longrightarrow> t = t'"
  by (auto simp: authority_ok_def distinct_map dest: inj_onD)

lemma insert_token_ok:
  assumes "insert_token t d = Inr (x, d')" "authority_ok d"
    and "g \<in> set (oauth_grants d)" "gr_id g = tk_grant_id t" "gr_status g = GS_active"
  shows "authority_ok d'"
proof -
  from assms(1) obtain g' where "g' \<in> set (oauth_grants d)" "gr_id g' = tk_grant_id t" "scopes_within t g'"
    by (auto simp: insert_token_Inr)
  with unique_grant [OF assms(2,3)] assms(4,5) have "token_ok (oauth_grants d) t" by (auto simp: token_ok_def)
  with authority_okD [OF assms(2)] assms(1) show ?thesis
    by (intro authority_okI) (auto simp: insert_token_Inr)
qed

lemma update_tokens_Inr:
  "update_tokens P f d = Inr (n, d') \<longleftrightarrow>
    (\<forall>t \<in> set (oauth_tokens d). P t \<longrightarrow> tk_scopes_json (f t) = tk_scopes_json t)
    \<and> n = count_rows P (oauth_tokens d) \<and> d' = d\<lparr>oauth_tokens := update_rows P f (oauth_tokens d)\<rparr>"
  by (auto simp: update_tokens_def)

text \<open>An update that only ever withdraws tokens.\<close>

definition withdraws :: "(token_row \<Rightarrow> token_row) \<Rightarrow> bool" where
  "withdraws f \<longleftrightarrow> (\<forall>t. tk_token_hash (f t) = tk_token_hash t \<and> tk_grant_id (f t) = tk_grant_id t
     \<and> tk_scopes_json (f t) = tk_scopes_json t \<and> tk_token_type (f t) = tk_token_type t
     \<and> tk_expires_at (f t) = tk_expires_at t
     \<and> (tk_revoked_at (f t) = None \<longrightarrow> tk_revoked_at t = None)
     \<and> (tk_rotated_at (f t) = None \<longrightarrow> tk_rotated_at t = None))"

lemma withdraws_simps [simp]:
  "withdraws (\<lambda>t. t\<lparr>tk_revoked_at := Some now\<rparr>)" "withdraws (\<lambda>t. t\<lparr>tk_rotated_at := Some now\<rparr>)"
  by (simp_all add: withdraws_def)

lemma token_okI:
  "g \<in> set gs \<Longrightarrow> gr_id g = tk_grant_id t \<Longrightarrow> scopes_within t g \<Longrightarrow>
    (tk_revoked_at t = None \<Longrightarrow> gr_status g = GS_active) \<Longrightarrow> token_ok gs t"
  by (auto simp: token_ok_def)

lemma scopes_within_cong:
  "tk_scopes_json t' = tk_scopes_json t \<Longrightarrow> gr_scopes_json g' = gr_scopes_json g \<Longrightarrow>
    scopes_within t' g' = scopes_within t g"
  by (simp add: scopes_within_def)

lemma token_ok_withdrawn: "withdraws f \<Longrightarrow> token_ok gs t \<Longrightarrow> token_ok gs (f t)"
  by (auto simp: token_ok_def withdraws_def scopes_within_def)

lemma update_tokens_ok:
  assumes "update_tokens P f d = Inr (n, d')" "authority_ok d" "withdraws f"
  shows "authority_ok d'"
proof -
  have "map tk_token_hash (update_rows P f (oauth_tokens d)) = map tk_token_hash (oauth_tokens d)"
    using assms(3) by (intro map_update_rows) (simp add: withdraws_def)
  with assms(1) authority_okD [OF assms(2)] token_ok_withdrawn [OF assms(3)] show ?thesis
    by (intro authority_okI) (auto simp: update_tokens_Inr set_update_rows)
qed

lemma issue_tokens_Inr:
  assumes "issue_tokens p now a r gid scopes d = Inr (tok, d')"
  shows "\<exists>j. json_strings scopes = Inr j
    \<and> d' = d\<lparr>oauth_tokens := oauth_tokens d @
        [\<lparr>tk_token_hash = pv_hash p a, tk_grant_id = gid, tk_token_type = Access, tk_scopes_json = j,
          tk_expires_at = now + access_token_ttl, tk_rotated_at = None, tk_revoked_at = None, tk_created_at = now\<rparr>,
         \<lparr>tk_token_hash = pv_hash p r, tk_grant_id = gid, tk_token_type = Refresh, tk_scopes_json = j,
          tk_expires_at = now + refresh_token_ttl, tk_rotated_at = None, tk_revoked_at = None, tk_created_at = now\<rparr>]\<rparr>
    \<and> ot_access_token tok = a \<and> ot_refresh_token tok = r"
  using assms by (auto simp: issue_tokens_def insert_token_Inr simp del: canonical_json_Inr)

lemma issue_tokens_ok:
  assumes "issue_tokens p now a r gid scopes d = Inr (tok, d')" "authority_ok d"
    and "g \<in> set (oauth_grants d)" "gr_id g = gid" "gr_status g = GS_active"
  shows "authority_ok d'"
proof -
  from assms(1) obtain j d1 where
    1: "insert_token \<lparr>tk_token_hash = pv_hash p a, tk_grant_id = gid, tk_token_type = Access, tk_scopes_json = j,
          tk_expires_at = now + access_token_ttl, tk_rotated_at = None, tk_revoked_at = None, tk_created_at = now\<rparr> d
        = Inr ((), d1)"
    and 2: "insert_token \<lparr>tk_token_hash = pv_hash p r, tk_grant_id = gid, tk_token_type = Refresh, tk_scopes_json = j,
          tk_expires_at = now + refresh_token_ttl, tk_rotated_at = None, tk_revoked_at = None, tk_created_at = now\<rparr> d1
        = Inr ((), d')"
    by (auto simp: issue_tokens_def)
  have "authority_ok d1" by (rule insert_token_ok [OF 1 assms(2,3)]) (use assms(4,5) in simp_all)
  moreover have "oauth_grants d1 = oauth_grants d" using 1 by (auto simp: insert_token_Inr)
  ultimately show ?thesis using assms(3-5) by (auto intro: insert_token_ok [OF 2])
qed

section \<open>Activation\<close>

lemma insert_grant_Inr:
  "insert_grant g d = Inr (x, d') \<longleftrightarrow> gr_id g \<notin> gr_id ` set (oauth_grants d)
    \<and> gr_client_id g \<in> cl_client_id ` set (oauth_clients d)
    \<and> (\<exists>c \<in> set (erp_connections d). is_connection (gr_tenant_id g) (gr_connector_id g) c)
    \<and> d' = d\<lparr>oauth_grants := oauth_grants d @ [g]\<rparr>"
  by (auto simp: insert_grant_def)

text \<open>A grant and its connector become active together.\<close>

lemma activation_ok:
  assumes ins: "insert_grant g d = Inr (x, d1)" and act: "gr_status g = GS_active"
    and upd: "update_connections (\<lambda>q. is_connection (gr_tenant_id g) (gr_connector_id g) q \<and> cn_status q = CS_pending)
        f d1 = Inr (n, d2)"
    and f: "\<And>q. connection_key (f q) = connection_key q" "\<And>q. cn_status (f q) = CS_active"
    and ok: "authority_ok d"
    and c: "c \<in> set (erp_connections d)" "is_connection (gr_tenant_id g) (gr_connector_id g) c"
      "cn_status c = CS_pending"
  shows "authority_ok d2"
proof -
  let ?P = "\<lambda>q. is_connection (gr_tenant_id g) (gr_connector_id g) q \<and> cn_status q = CS_pending"
  let ?gs = "oauth_grants d @ [g]"
  from ins have d1: "d1 = d\<lparr>oauth_grants := ?gs\<rparr>" and new: "gr_id g \<notin> gr_id ` set (oauth_grants d)"
    by (auto simp: insert_grant_Inr)
  from upd d1 have d2: "d2 = d1\<lparr>erp_connections := update_rows ?P f (erp_connections d)\<rparr>"
    and sel: "\<And>q. q \<in> set (erp_connections d) \<Longrightarrow> ?P q \<Longrightarrow> connection_update_ok ?gs q (f q)"
    and u: "unique_connections (update_rows ?P f (erp_connections d))"
    by (simp_all add: update_connections_Inr)
  have keys: "connection_key ` set (update_rows ?P f (erp_connections d)) = connection_key ` set (erp_connections d)"
    by (rule keys_update_rows) (simp add: f(1))
  have conn: "connection_ok ?gs q'" if "q' \<in> set (update_rows ?P f (erp_connections d))" for q'
  proof -
    from that obtain q where q: "q \<in> set (erp_connections d)" "q' = (if ?P q then f q else q)"
      by (auto simp: set_update_rows)
    note old = authority_okD(5) [OF ok q(1)]
    show ?thesis
    proof (cases "is_connection (gr_tenant_id g) (gr_connector_id g) q")
      case True
      then have "connection_key q = connection_key c" using c(2) by (simp add: is_connection_key)
      then have "q = c" using unique_key [OF authority_okD(1) [OF ok] q(1) c(1)] by simp
      with True c(3) q have "q' = f c" "?P c" by simp_all
      with sel [OF c(1)] f(1) [of c] f(2) [of c] c(2) act show ?thesis
        by (auto simp: connection_ok_def connection_update_ok_def has_active_grant_append connection_key_def
            is_connection_def handle_ok_def selection_complete_def)
    next
      case False
      then have "q' = q" "\<not> (gr_connector_id g = cn_id q \<and> gr_tenant_id g = cn_tenant_id q)"
        using q by (auto simp: is_connection_def)
      with old show ?thesis by (auto simp: connection_ok_def has_active_grant_append)
    qed
  qed
  have "grant_ok (erp_connections d) g" using c by (auto simp: grant_ok_def is_connection_key image_iff) metis
  with authority_okD [OF ok] new u conn show ?thesis unfolding d2 d1
    by (intro authority_okI) (auto simp: grant_ok_def keys token_ok_mono)
qed

section \<open>Revocation\<close>

lemma revoke_tokens_of_Inr:
  "revoke_tokens_of now gid d = Inr (count_rows (\<lambda>t. tk_grant_id t = gid \<and> tk_revoked_at t = None) (oauth_tokens d),
    d\<lparr>oauth_tokens := update_rows (\<lambda>t. tk_grant_id t = gid \<and> tk_revoked_at t = None)
        (\<lambda>t. t\<lparr>tk_revoked_at := Some now\<rparr>) (oauth_tokens d)\<rparr>)"
  by (simp add: revoke_tokens_of_def update_tokens_def)

lemma for_each_revoke:
  "for_each (revoke_tokens_of now) ids d = Inr ((), d\<lparr>oauth_tokens :=
     update_rows (\<lambda>t. tk_grant_id t \<in> set ids \<and> tk_revoked_at t = None) (\<lambda>t. t\<lparr>tk_revoked_at := Some now\<rparr>)
       (oauth_tokens d)\<rparr>)"
proof (induction ids arbitrary: d)
  case Nil
  then show ?case by (simp add: update_rows_def treturn_def)
next
  case (Cons i ids)
  let ?f = "\<lambda>t. t\<lparr>tk_revoked_at := Some now\<rparr>"
  let ?ts = "update_rows (\<lambda>t. tk_grant_id t = i \<and> tk_revoked_at t = None) ?f (oauth_tokens d)"
  have "for_each (revoke_tokens_of now) (i # ids) d = for_each (revoke_tokens_of now) ids (d\<lparr>oauth_tokens := ?ts\<rparr>)"
    by (subst for_each.simps, subst tbind_def, subst revoke_tokens_of_Inr) (simp only: sum.case prod.case)
  also have "\<dots> = Inr ((), d\<lparr>oauth_tokens :=
      update_rows (\<lambda>t. tk_grant_id t \<in> set ids \<and> tk_revoked_at t = None) ?f ?ts\<rparr>)"
    using Cons.IH [of "d\<lparr>oauth_tokens := ?ts\<rparr>"] by simp
  also have "update_rows (\<lambda>t. tk_grant_id t \<in> set ids \<and> tk_revoked_at t = None) ?f ?ts
      = update_rows (\<lambda>t. tk_grant_id t \<in> set (i # ids) \<and> tk_revoked_at t = None) ?f (oauth_tokens d)"
    by (simp add: update_rows_def)
  finally show ?case .
qed

definition live_grant :: "string \<Rightarrow> grant_row \<Rightarrow> bool" where
  "live_grant i g \<longleftrightarrow> gr_connector_id g = i \<and> gr_status g = GS_active"

definition live_ids :: "string \<Rightarrow> db \<Rightarrow> string list" where
  "live_ids i d = map gr_id (filter (live_grant i) (oauth_grants d))"

definition live_connection :: "string \<Rightarrow> connection_row \<Rightarrow> bool" where
  "live_connection i c \<longleftrightarrow> cn_id c = i \<and> cn_status c \<in> {CS_pending, CS_active}"

definition revoked_db :: "int \<Rightarrow> string \<Rightarrow> db \<Rightarrow> db" where
  "revoked_db now i d = d\<lparr>
     erp_connections := update_rows (live_connection i)
       (\<lambda>c. c\<lparr>cn_status := CS_revoked, cn_revoked_at := Some now, cn_updated_at := now\<rparr>) (erp_connections d),
     oauth_grants := update_rows (live_grant i)
       (\<lambda>g. g\<lparr>gr_status := GS_revoked, gr_revoked_at := Some now\<rparr>) (oauth_grants d),
     oauth_tokens := update_rows (\<lambda>t. tk_grant_id t \<in> set (live_ids i d) \<and> tk_revoked_at t = None)
       (\<lambda>t. t\<lparr>tk_revoked_at := Some now\<rparr>) (oauth_tokens d)\<rparr>"

lemma revoke_effect:
  "revoke_connector_in_transaction now i d = Inr (x, d') \<Longrightarrow>
    d' = revoked_db now i d \<and> unique_connections (erp_connections d')"
  by (auto simp: revoke_connector_in_transaction_def update_connections_Inr update_grants_def for_each_revoke
      revoked_db_def live_grant_def [abs_def] live_ids_def live_connection_def [abs_def] Let_def split: if_splits)

text \<open>The triggers never stop a revocation: the connectors go first, then their grants may go.\<close>

lemma revoke_total:
  assumes "\<forall>c \<in> set (erp_connections d). connection_check c" "unique_connections (erp_connections d)"
  shows "revoke_connector_in_transaction now i d = Inr ((), revoked_db now i d)"
proof -
  let ?f = "\<lambda>c. c\<lparr>cn_status := CS_revoked, cn_revoked_at := Some now, cn_updated_at := now\<rparr>"
  let ?cs = "update_rows (live_connection i) ?f (erp_connections d)"
  have "map connection_key ?cs = map connection_key (erp_connections d)"
    "map cn_enrollment_handle_hash ?cs = map cn_enrollment_handle_hash (erp_connections d)"
    "map cn_consumed_enrollment_handle_hash ?cs = map cn_consumed_enrollment_handle_hash (erp_connections d)"
    by (simp_all add: update_rows_def connection_key_def)
  with assms(2) have u: "unique_connections ?cs" by (simp only: unique_connections_def)
  have step: "connection_update_ok gs c (?f c)" if "c \<in> set (erp_connections d)" "live_connection i c" for c gs
    using that assms(1) by (cases "cn_status c") (auto simp: connection_update_ok_def connection_check_def live_connection_def)
  have "\<not> has_active_connection t i (update_rows (live_connection i) ?f cs)" for t cs
    by (induction cs)
      (simp_all add: has_active_connection_simps update_rows_def is_connection_def live_connection_def)
  with u step show ?thesis
    by (auto simp: revoke_connector_in_transaction_def tbind_def update_connections_def update_grants_def
        for_each_revoke revoked_db_def live_grant_def [abs_def] live_ids_def live_connection_def [abs_def] Let_def
        grant_update_ok_def)
qed

lemma revoked_grants:
  "g' \<in> set (oauth_grants (revoked_db now i d)) \<longleftrightarrow>
    (\<exists>g \<in> set (oauth_grants d). g' = (if live_grant i g then g\<lparr>gr_status := GS_revoked, gr_revoked_at := Some now\<rparr> else g))"
  by (simp add: revoked_db_def set_update_rows)

lemma revoked_has_active_grant:
  "has_active_grant t j (oauth_grants (revoked_db now i d)) \<longleftrightarrow> j \<noteq> i \<and> has_active_grant t j (oauth_grants d)"
proof -
  have "has_active_grant t j (update_rows (live_grant i) (\<lambda>g. g\<lparr>gr_status := GS_revoked, gr_revoked_at := Some now\<rparr>) gs)
      \<longleftrightarrow> j \<noteq> i \<and> has_active_grant t j gs" for gs
    by (induction gs) (auto simp: has_active_grant_def update_rows_def live_grant_def)
  then show ?thesis by (simp add: revoked_db_def)
qed

lemma revoked_ok:
  assumes "authority_ok d" "unique_connections (erp_connections (revoked_db now i d))"
  shows "authority_ok (revoked_db now i d)"
proof -
  let ?d = "revoked_db now i d"
  have conn: "connection_ok (oauth_grants ?d) c'" if "c' \<in> set (erp_connections ?d)" for c'
  proof -
    from that obtain c where c: "c \<in> set (erp_connections d)" "c' = (if live_connection i c then
        c\<lparr>cn_status := CS_revoked, cn_revoked_at := Some now, cn_updated_at := now\<rparr> else c)"
      by (auto simp: revoked_db_def set_update_rows)
    have "cn_status c = CS_revoked \<or> cn_status c = CS_expired" if "cn_id c = i" "\<not> live_connection i c"
      using that by (cases "cn_status c") (auto simp: live_connection_def)
    with c authority_okD(5) [OF assms(1) c(1)] show ?thesis
      by (auto simp: connection_ok_def revoked_has_active_grant live_connection_def handle_ok_def)
  qed
  have keys: "connection_key ` set (erp_connections ?d) = connection_key ` set (erp_connections d)"
    unfolding revoked_db_def by (simp, rule keys_update_rows) (simp add: connection_key_def)
  have tok: "token_ok (oauth_grants ?d) t'" if "t' \<in> set (oauth_tokens ?d)" for t'
  proof -
    from that obtain t where t: "t \<in> set (oauth_tokens d)" "t' = (if tk_grant_id t \<in> set (live_ids i d)
        \<and> tk_revoked_at t = None then t\<lparr>tk_revoked_at := Some now\<rparr> else t)"
      by (auto simp: revoked_db_def set_update_rows)
    from authority_okD(7) [OF assms(1) t(1)] obtain g where g: "g \<in> set (oauth_grants d)"
      "gr_id g = tk_grant_id t" "scopes_within t g" "tk_revoked_at t = None \<longrightarrow> gr_status g = GS_active"
      by (auto simp: token_ok_def)
    let ?g = "if live_grant i g then g\<lparr>gr_status := GS_revoked, gr_revoked_at := Some now\<rparr> else g"
    have n1: "?g \<in> set (oauth_grants ?d)" using g(1) by (auto simp: revoked_grants)
    have n2: "tk_revoked_at t' = None \<longrightarrow> gr_status ?g = GS_active"
    proof (cases "live_grant i g")
      case True
      with g(1) have "gr_id g \<in> set (live_ids i d)" by (simp add: live_ids_def)
      with g(2) t(2) show ?thesis by (cases "tk_revoked_at t") auto
    next
      case False
      with g(4) t(2) show ?thesis by (auto split: if_splits)
    qed
    have n3: "scopes_within t' ?g"
      using g(3) scopes_within_cong [of t' t ?g g] t(2) by (simp split: if_splits)
    have n4: "gr_id ?g = tk_grant_id t'" using g(2) t(2) by simp
    show ?thesis by (rule token_okI [OF n1 n4 n3]) (rule n2 [rule_format])
  qed
  have grt: "grant_ok (erp_connections ?d) g'" if "g' \<in> set (oauth_grants ?d)" for g'
  proof -
    from that obtain g where "g \<in> set (oauth_grants d)" "gr_tenant_id g' = gr_tenant_id g"
      "gr_connector_id g' = gr_connector_id g" by (auto simp: revoked_grants split: if_splits)
    with authority_okD(6) [OF assms(1), of g] show ?thesis by (simp add: grant_ok_def keys)
  qed
  have same: "map gr_id (oauth_grants ?d) = map gr_id (oauth_grants d)"
    "map tk_token_hash (oauth_tokens ?d) = map tk_token_hash (oauth_tokens d)"
    "oauth_sessions ?d = oauth_sessions d"
    by (simp_all add: revoked_db_def update_rows_def)
  show ?thesis
    by (rule authority_okI)
      (simp_all only: same assms(2) conn tok grt authority_okD [OF assms(1)])
qed

lemma revoke_ok:
  assumes "revoke_connector_in_transaction now i d = Inr (x, d')" "authority_ok d"
  shows "authority_ok d'"
proof -
  from revoke_effect [OF assms(1)] have e: "d' = revoked_db now i d" and u: "unique_connections (erp_connections d')"
    by (rule conjunct1, rule conjunct2)
  show ?thesis using revoked_ok [OF assms(2), of now i] u unfolding e by simp
qed

end
