(* ===== verification/Authority.thy ===== *)
theory Authority
  imports AuthInvariant
begin

text \<open>
  The hosted connectors as one system: every operation of the provider, the lifecycle and the key
  rotation as a value, any sequence of them as a fold. Each operation keeps \<open>authority_ok\<close> and only
  moves rows forward (\<open>evolves\<close>): a terminal status, a used code, a withdrawn token stays what it is.
\<close>

section \<open>Stores that only move forward\<close>

text \<open>The contract between the operations of a store and its long-running properties.\<close>

locale one_way_store =
  fixes run :: "'op \<Rightarrow> 's \<Rightarrow> 's"
    and ok :: "'s \<Rightarrow> bool"
    and le :: "'s \<Rightarrow> 's \<Rightarrow> bool"
  assumes le_refl: "le s s"
    and le_trans: "le s t \<Longrightarrow> le t u \<Longrightarrow> le s u"
    and run_ok: "ok s \<Longrightarrow> ok (run op s)"
    and run_le: "le s (run op s)"
begin

lemma fold_ok: "ok s \<Longrightarrow> ok (fold run ops s)"
  by (induction ops arbitrary: s) (simp_all add: run_ok)

lemma fold_le: "le s (fold run ops s)"
proof (induction ops arbitrary: s)
  case Nil
  then show ?case by (simp add: le_refl)
next
  case (Cons op ops)
  from le_trans [OF run_le Cons.IH] show ?case by simp
qed

text \<open>What holds now and survives every forward move holds after any operations.\<close>

lemma forever:
  assumes "ok s" "P s" "\<And>t. ok t \<Longrightarrow> le s t \<Longrightarrow> P s \<Longrightarrow> P t"
  shows "P (fold run ops s)"
  using assms(3) [OF fold_ok [OF assms(1)] fold_le assms(2)] .

end

section \<open>Moving rows forward\<close>

definition rows_le :: "('r \<Rightarrow> 'r \<Rightarrow> bool) \<Rightarrow> 'r list \<Rightarrow> 'r list \<Rightarrow> bool" where
  "rows_le R xs ys \<longleftrightarrow> (\<forall>x \<in> set xs. \<exists>y \<in> set ys. R x y)"

lemma rows_le_refl: "(\<And>x. R x x) \<Longrightarrow> rows_le R xs xs"
  by (auto simp: rows_le_def)

lemma rows_le_append: "(\<And>x. R x x) \<Longrightarrow> rows_le R xs (xs @ ys)"
  by (auto simp: rows_le_def)

lemma rows_le_trans:
  "(\<And>x y z. R x y \<Longrightarrow> R y z \<Longrightarrow> R x z) \<Longrightarrow> rows_le R xs ys \<Longrightarrow> rows_le R ys zs \<Longrightarrow> rows_le R xs zs"
  unfolding rows_le_def by meson

lemma rows_le_update:
  "(\<And>x. R x x) \<Longrightarrow> (\<And>x. x \<in> set xs \<Longrightarrow> P x \<Longrightarrow> R x (f x)) \<Longrightarrow> rows_le R xs (update_rows P f xs)"
  unfolding rows_le_def by (rule ballI, rule_tac x = "if P x then f x else x" in bexI) (auto simp: set_update_rows)

lemma rows_leD: "rows_le R xs ys \<Longrightarrow> x \<in> set xs \<Longrightarrow> \<exists>y \<in> set ys. R x y"
  by (simp add: rows_le_def)

text \<open>A pending connector may be removed; any other keeps its key and follows its state machine.\<close>

fun connector_le :: "connector_status \<Rightarrow> connector_status \<Rightarrow> bool" where
  "connector_le CS_pending s \<longleftrightarrow> True"
| "connector_le CS_active s \<longleftrightarrow> s = CS_active \<or> s = CS_revoked"
| "connector_le CS_revoked s \<longleftrightarrow> s = CS_revoked"
| "connector_le CS_expired s \<longleftrightarrow> s = CS_expired"

definition connection_le :: "connection_row \<Rightarrow> connection_row \<Rightarrow> bool" where
  "connection_le a b \<longleftrightarrow> connection_key a = connection_key b \<and> connector_le (cn_status a) (cn_status b)"

fun session_status_le :: "session_status \<Rightarrow> session_status \<Rightarrow> bool" where
  "session_status_le SS_pending s \<longleftrightarrow> True"
| "session_status_le SS_authorized s \<longleftrightarrow> s = SS_authorized \<or> s = SS_consumed"
| "session_status_le SS_consumed s \<longleftrightarrow> s = SS_consumed"
| "session_status_le SS_expired s \<longleftrightarrow> s = SS_expired"
| "session_status_le SS_denied s \<longleftrightarrow> s = SS_denied"

definition session_le :: "session_row \<Rightarrow> session_row \<Rightarrow> bool" where
  "session_le a b \<longleftrightarrow> se_state_hash a = se_state_hash b \<and> se_client_id a = se_client_id b
     \<and> session_status_le (se_status a) (se_status b)
     \<and> (se_status a \<noteq> SS_pending \<longrightarrow> se_authorization_code_hash b = se_authorization_code_hash a)"

definition grant_le :: "grant_row \<Rightarrow> grant_row \<Rightarrow> bool" where
  "grant_le a b \<longleftrightarrow> gr_id a = gr_id b \<and> gr_connector_id a = gr_connector_id b \<and> gr_tenant_id a = gr_tenant_id b
     \<and> gr_client_id a = gr_client_id b \<and> gr_scopes_json a = gr_scopes_json b
     \<and> (gr_status a = GS_revoked \<longrightarrow> gr_status b = GS_revoked)"

definition token_le :: "token_row \<Rightarrow> token_row \<Rightarrow> bool" where
  "token_le a b \<longleftrightarrow> tk_token_hash a = tk_token_hash b \<and> tk_grant_id a = tk_grant_id b
     \<and> tk_scopes_json a = tk_scopes_json b \<and> tk_token_type a = tk_token_type b
     \<and> (tk_revoked_at b = None \<longrightarrow> tk_revoked_at a = None) \<and> (tk_rotated_at b = None \<longrightarrow> tk_rotated_at a = None)"

definition evolves :: "db \<Rightarrow> db \<Rightarrow> bool" where
  "evolves d d' \<longleftrightarrow>
     rows_le connection_le (filter (\<lambda>c. cn_status c \<noteq> CS_pending) (erp_connections d)) (erp_connections d')
     \<and> rows_le session_le (oauth_sessions d) (oauth_sessions d')
     \<and> rows_le grant_le (oauth_grants d) (oauth_grants d')
     \<and> rows_le token_le (oauth_tokens d) (oauth_tokens d')"

lemma status_orders [simp]: "connector_le a a" "session_status_le b b"
  by (cases a; simp) (cases b; simp)

lemma row_orders [simp]: "connection_le c c" "session_le s s" "grant_le g g" "token_le t t"
  by (simp_all add: connection_le_def session_le_def grant_le_def token_le_def)

lemma connector_le_trans: "connector_le a b \<Longrightarrow> connector_le b c \<Longrightarrow> connector_le a c"
  by (cases a; cases b) auto

lemma session_status_le_trans: "session_status_le a b \<Longrightarrow> session_status_le b c \<Longrightarrow> session_status_le a c"
  by (cases a; cases b) auto

lemma connection_le_trans: "connection_le a b \<Longrightarrow> connection_le b c \<Longrightarrow> connection_le a c"
  by (auto simp: connection_le_def intro: connector_le_trans)

lemma session_le_trans: "session_le a b \<Longrightarrow> session_le b c \<Longrightarrow> session_le a c"
  by (cases "se_status a"; auto simp: session_le_def intro: session_status_le_trans)

lemma grant_le_trans: "grant_le a b \<Longrightarrow> grant_le b c \<Longrightarrow> grant_le a c"
  by (auto simp: grant_le_def)

lemma token_le_trans: "token_le a b \<Longrightarrow> token_le b c \<Longrightarrow> token_le a c"
  by (auto simp: token_le_def)

lemma rows_le_transitive:
  "rows_le session_le ss ss' \<Longrightarrow> rows_le session_le ss' ss'' \<Longrightarrow> rows_le session_le ss ss''"
  "rows_le grant_le gs gs' \<Longrightarrow> rows_le grant_le gs' gs'' \<Longrightarrow> rows_le grant_le gs gs''"
  "rows_le token_le ts ts' \<Longrightarrow> rows_le token_le ts' ts'' \<Longrightarrow> rows_le token_le ts ts''"
  by (erule (1) rows_le_trans [rotated], erule (1) session_le_trans)
    (erule (1) rows_le_trans [rotated], erule (1) grant_le_trans,
     erule (1) rows_le_trans [rotated], erule (1) token_le_trans)

lemma evolves_refl [simp]: "evolves d d"
  by (auto simp: evolves_def rows_le_def intro: row_orders)

lemma evolves_trans:
  assumes "evolves a b" "evolves b c"
  shows "evolves a c"
proof -
  have "rows_le connection_le (filter (\<lambda>c. cn_status c \<noteq> CS_pending) (erp_connections a)) (erp_connections c)"
    unfolding rows_le_def
  proof
    fix x assume x: "x \<in> set (filter (\<lambda>c. cn_status c \<noteq> CS_pending) (erp_connections a))"
    with assms(1) obtain y where y: "y \<in> set (erp_connections b)" "connection_le x y"
      by (auto simp: evolves_def rows_le_def)
    from x y(2) have "cn_status y \<noteq> CS_pending" by (cases "cn_status x") (auto simp: connection_le_def)
    with assms(2) y obtain z where "z \<in> set (erp_connections c)" "connection_le y z"
      by (auto simp: evolves_def rows_le_def)
    with connection_le_trans [OF y(2)] show "\<exists>z \<in> set (erp_connections c). connection_le x z" by auto
  qed
  with assms show ?thesis
    unfolding evolves_def by (blast intro: rows_le_transitive)
qed

lemma evolves_tables: "auth_tables d' = auth_tables d \<Longrightarrow> evolves d d'"
  by (auto simp: evolves_def auth_tables_def rows_le_def intro: row_orders)

section \<open>Every statement moves forward\<close>

lemma evolves_insert_connection: "insert_connection c d = Inr (n, d') \<Longrightarrow> evolves d d'"
  by (drule insert_connection_Inr) (auto simp: evolves_def rows_le_def intro: row_orders)

lemma connector_transition_le: "connector_transition s s' \<Longrightarrow> connector_le s s'"
  by (cases s) auto

lemma evolves_update_connections:
  assumes "update_connections P f d = Inr (n, d')"
    and "\<And>c. c \<in> set (erp_connections d) \<Longrightarrow> P c \<Longrightarrow> connection_key (f c) = connection_key c"
  shows "evolves d d'"
proof -
  from assms(1) have d': "d' = d\<lparr>erp_connections := update_rows P f (erp_connections d)\<rparr>"
    and upd: "\<forall>c \<in> set (erp_connections d). P c \<longrightarrow> connection_update_ok (oauth_grants d) c (f c)"
    by (auto simp: update_connections_Inr)
  have "connection_le c (f c)" if "c \<in> set (erp_connections d)" "P c" for c
  proof -
    from upd that have "cn_status c \<noteq> cn_status (f c) \<longrightarrow> connector_transition (cn_status c) (cn_status (f c))"
      by (auto simp: connection_update_ok_def)
    with assms(2) [OF that] row_orders(1) [of c] connector_transition_le show ?thesis
      unfolding connection_le_def by metis
  qed
  then have "rows_le connection_le (erp_connections d) (update_rows P f (erp_connections d))"
    by (intro rows_le_update row_orders)
  then show ?thesis unfolding d' by (auto simp: evolves_def rows_le_def intro: row_orders)
qed

lemma evolves_delete_connections:
  assumes "delete_connections P d = Inr (x, d')" "\<And>c. P c \<Longrightarrow> cn_status c = CS_pending"
  shows "evolves d d'"
proof -
  from assms(1) have d': "d' = d\<lparr>erp_connections := filter (\<lambda>c. \<not> P c) (erp_connections d)\<rparr>"
    by (auto simp: delete_connections_def split: if_splits)
  have "rows_le connection_le (filter (\<lambda>c. cn_status c \<noteq> CS_pending) (erp_connections d))
      (filter (\<lambda>c. \<not> P c) (erp_connections d))"
    unfolding rows_le_def using assms(2) by (auto intro!: bexI [of _ c for c] row_orders)
  then show ?thesis unfolding d' by (simp add: evolves_def rows_le_refl)
qed

lemma evolves_insert_session: "insert_session s d = Inr (x, d') \<Longrightarrow> evolves d d'"
  by (auto simp: insert_session_def evolves_def rows_le_def split: if_splits intro: row_orders)

lemma session_transition_le: "session_transition s s' \<Longrightarrow> session_status_le s s'"
  by (cases s) auto

lemma evolves_update_sessions:
  assumes "update_sessions P f d = Inr (n, d')"
    and "\<And>s. se_state_hash (f s) = se_state_hash s \<and> se_client_id (f s) = se_client_id s"
    and "\<And>s. P s \<Longrightarrow> se_status s \<noteq> SS_pending \<Longrightarrow> se_authorization_code_hash (f s) = se_authorization_code_hash s"
  shows "evolves d d'"
proof -
  from assms(1) have d': "d' = d\<lparr>oauth_sessions := update_rows P f (oauth_sessions d)\<rparr>"
    and upd: "\<forall>s \<in> set (oauth_sessions d). P s \<longrightarrow> se_status s = se_status (f s)
        \<or> session_transition (se_status s) (se_status (f s))"
    by (auto simp: update_sessions_Inr)
  have "session_le s (f s)" if "s \<in> set (oauth_sessions d)" "P s" for s
  proof -
    have "session_status_le (se_status s) (se_status (f s))"
      using upd that session_transition_le by (metis status_orders(2))
    with assms(2) [of s] assms(3) [OF that(2)] show ?thesis by (auto simp: session_le_def)
  qed
  then have "rows_le session_le (oauth_sessions d) (update_rows P f (oauth_sessions d))"
    by (intro rows_le_update row_orders)
  then show ?thesis unfolding d' by (auto simp: evolves_def rows_le_def intro: row_orders)
qed

lemma evolves_insert_grant: "insert_grant g d = Inr (x, d') \<Longrightarrow> evolves d d'"
  by (auto simp: insert_grant_Inr evolves_def rows_le_def intro: row_orders)

lemma evolves_insert_token: "insert_token t d = Inr (x, d') \<Longrightarrow> evolves d d'"
  by (auto simp: insert_token_Inr evolves_def rows_le_def intro: row_orders)

lemma evolves_update_tokens:
  assumes "update_tokens P f d = Inr (n, d')" "withdraws f"
  shows "evolves d d'"
proof -
  have "rows_le token_le (oauth_tokens d) (update_rows P f (oauth_tokens d))"
    using assms(2) by (intro rows_le_update row_orders) (auto simp: token_le_def withdraws_def)
  with assms(1) show ?thesis by (auto simp: update_tokens_Inr evolves_def rows_le_def intro: row_orders)
qed

lemma evolves_issue_tokens: "issue_tokens p now a r gid scopes d = Inr (tok, d') \<Longrightarrow> evolves d d'"
  by (drule issue_tokens_Inr) (auto simp: evolves_def rows_le_def intro: row_orders)

section \<open>Every operation keeps the invariant and moves forward\<close>

definition forward :: "db \<Rightarrow> db \<Rightarrow> bool" where
  "forward d d' \<longleftrightarrow> (authority_ok d \<longrightarrow> authority_ok d') \<and> evolves d d'"

lemma forward_refl [simp]: "forward d d"
  by (simp add: forward_def)

lemma forward_trans: "forward a b \<Longrightarrow> forward b c \<Longrightarrow> forward a c"
  by (auto simp: forward_def intro: evolves_trans)

lemma forward_tables: "auth_tables d' = auth_tables d \<Longrightarrow> forward d d'"
  by (simp add: forward_def evolves_tables authority_ok_cong [of d' d])

lemma forward_transaction:
  assumes "\<And>x d'. body d = Inr (x, d') \<Longrightarrow> forward d d'"
  shows "forward d (snd (transaction f body d))"
  using transaction_invariant [of body d "forward d" f] assms by simp

lemma forward_case:
  assumes "\<And>x d'. body d = Inr (x, d') \<Longrightarrow> forward d d'"
  shows "forward d (snd (case transaction f body d of (Inl e, d') \<Rightarrow> (Inl e, d') | (Inr x, d') \<Rightarrow> (g x, d')))"
  using forward_transaction [of body d f] assms by (cases "transaction f body d") (auto split: sum.splits)

lemma forward_append: "append_in_transaction H now ev d = Inr (rec, d') \<Longrightarrow> forward d d'"
  by (rule forward_tables) (simp add: append_auth_tables)

lemma forward_append_operation: "append_operation p now rid t op i d = Inr (x, d') \<Longrightarrow> forward d d'"
  by (rule forward_tables) (simp add: append_operation_tables)

lemma forward_append_lifecycle: "append_lifecycle lc now rid t op i d = Inr (x, d') \<Longrightarrow> forward d d'"
  by (rule forward_tables) (simp add: append_lifecycle_tables)

lemma forward_insert_connection: "insert_connection c d = Inr (n, d') \<Longrightarrow> handle_ok c \<Longrightarrow> forward d d'"
  by (auto simp: forward_def intro: insert_connection_ok evolves_insert_connection)

lemma forward_quiet_update:
  assumes "update_connections P f d = Inr (n, d')"
    and "\<And>c. P c \<Longrightarrow> connection_key (f c) = connection_key c \<and> (cn_status (f c) = CS_active) = (cn_status c = CS_active)
      \<and> (handle_ok c \<longrightarrow> handle_ok (f c))"
  shows "forward d d'"
  using assms by (auto simp: forward_def intro: quiet_update_ok evolves_update_connections)

lemma forward_delete:
  "delete_connections P d = Inr (x, d') \<Longrightarrow> (\<And>c. P c \<Longrightarrow> cn_status c = CS_pending) \<Longrightarrow> forward d d'"
  by (auto simp: forward_def intro: delete_connections_ok evolves_delete_connections)

lemma forward_insert_session: "insert_session s d = Inr (x, d') \<Longrightarrow> code_ok s \<Longrightarrow> forward d d'"
  by (auto simp: forward_def intro: insert_session_ok evolves_insert_session)

lemma forward_update_sessions:
  assumes "update_sessions P f d = Inr (n, d')"
    and "\<And>s. se_state_hash (f s) = se_state_hash s \<and> se_client_id (f s) = se_client_id s"
    and "\<And>s. P s \<Longrightarrow> se_status s \<noteq> SS_pending \<Longrightarrow> se_authorization_code_hash (f s) = se_authorization_code_hash s"
    and "\<And>s. P s \<Longrightarrow> code_ok s \<Longrightarrow> code_ok (f s)"
  shows "forward d d'"
  unfolding forward_def
  using evolves_update_sessions [OF assms(1-3)] update_sessions_ok [OF assms(1)] assms(4) authority_okD(8) by blast

lemma forward_update_tokens: "update_tokens P f d = Inr (n, d') \<Longrightarrow> withdraws f \<Longrightarrow> forward d d'"
  by (auto simp: forward_def intro: update_tokens_ok evolves_update_tokens)

lemma forward_issue_tokens:
  assumes "issue_tokens p now a r gid scopes d = Inr (tok, d')"
    and "g \<in> set (oauth_grants d)" "gr_id g = gid" "gr_status g = GS_active"
  shows "forward d d'"
  using assms by (auto simp: forward_def intro: issue_tokens_ok evolves_issue_tokens)

lemma evolves_revoked_db:
  assumes "unique_connections (erp_connections (revoked_db now i d))"
  shows "evolves d (revoked_db now i d)"
proof -
  have "rows_le connection_le (erp_connections d) (erp_connections (revoked_db now i d))"
    unfolding revoked_db_def
    by (simp, intro rows_le_update row_orders) (auto simp: connection_le_def connection_key_def live_connection_def)
  moreover have "rows_le grant_le (oauth_grants d) (oauth_grants (revoked_db now i d))"
    unfolding revoked_db_def by (simp, intro rows_le_update row_orders) (auto simp: grant_le_def)
  moreover have "rows_le token_le (oauth_tokens d) (oauth_tokens (revoked_db now i d))"
    unfolding revoked_db_def by (simp, intro rows_le_update row_orders) (auto simp: token_le_def)
  moreover have "rows_le session_le (oauth_sessions d) (oauth_sessions (revoked_db now i d))"
    unfolding revoked_db_def by (simp add: rows_le_refl)
  ultimately show ?thesis by (simp add: evolves_def rows_le_def)
qed

lemma forward_revoke: "revoke_connector_in_transaction now i d = Inr (x, d') \<Longrightarrow> forward d d'"
  using revoke_effect [of now i d x d'] evolves_revoked_db [of now i d] revoke_ok [of now i d x d']
  by (auto simp: forward_def)

text \<open>Clients only: the tables of the invariant stay.\<close>

lemma client_tables:
  "insert_client c d = Inr (x, d') \<Longrightarrow> auth_tables d' = auth_tables d"
  "update_clients P f d = Inr (x, d') \<Longrightarrow> auth_tables d' = auth_tables d"
  "upsert_client c d = Inr (x, d') \<Longrightarrow> auth_tables d' = auth_tables d"
  by (auto simp: insert_client_def update_clients_def upsert_client_def auth_tables_def split: if_splits)

lemma forward_fetch_client: "forward d (snd (fetch_client p f now i d))"
  unfolding fetch_client_def
  by (auto split: option.splits prod.splits sum.splits simp: client_tables
      dest!: transaction_db intro!: forward_tables)

lemma forward_get_invalidated: "forward d (snd (get_invalidated p u i row d))"
proof -
  let ?r = "transaction (tu_fault u 0) (update_clients (\<lambda>c. cl_client_id c = i)
      (\<lambda>c. c\<lparr>cl_metadata_expires_at := Some (tu_clock u 1), cl_updated_at := tu_clock u 1\<rparr>)) d"
  have 1: "forward d (snd ?r)" by (rule forward_transaction, rule forward_tables, rule client_tables(2))
  have 2: "forward d (snd (fetch_client p (tu_fault u 1) (tu_clock u 2) i (snd ?r)))"
    by (rule forward_trans [OF 1 forward_fetch_client])
  show ?thesis
    by (cases ?r; cases "fst ?r") (use 1 2 in \<open>auto simp: get_invalidated_def Let_def\<close>)
qed

lemma forward_get_client: "forward d (snd (get_client p u i d))"
  by (auto simp: get_client_def forward_fetch_client forward_get_invalidated split: option.splits)

lemma forward_register: "forward d (snd (register_client p u ci d))"
  unfolding register_client_def Let_def
  by (simp split: if_split, intro impI forward_case, rule forward_tables, erule client_tables(1))

lemma forward_authorize: "forward d (snd (authorize p u ci ps d))"
  unfolding authorize_def Let_def
  by (simp split: if_split del: tx_simps, intro impI forward_case)
    (auto simp: code_ok_def intro: forward_insert_session)

lemma forward_bind: "bind_connector_body p now s i d = Inr (x, d') \<Longrightarrow> forward d d'"
proof -
  assume "bind_connector_body p now s i d = Inr (x, d')"
  then obtain n where "update_sessions
      (\<lambda>q. se_state_hash q = pv_hash p s \<and> se_status q = SS_pending \<and> se_connector_id q = None \<and> now < se_expires_at q)
      (\<lambda>q. q\<lparr>se_connector_id := Some i\<rparr>) d = Inr (n, d')"
    by (auto simp: bind_connector_body_def split: if_splits option.splits)
  then show ?thesis by (rule forward_update_sessions) (auto simp: code_ok_def)
qed

lemma forward_replace: "authorize_replacement_body p now s a d = Inr (x, d') \<Longrightarrow> forward d d'"
proof -
  assume "authorize_replacement_body p now s a d = Inr (x, d')"
  then obtain n where "update_sessions (\<lambda>q. se_state_hash q = pv_hash p s \<and> se_client_id q = ca_mcp_client a
               \<and> se_status q = SS_pending \<and> now < se_expires_at q)
            (\<lambda>q. q\<lparr>se_superseded_connector_id := Some (ca_connection_id a)\<rparr>) d = Inr (n, d')"
    by (auto simp: authorize_replacement_body_def split: if_splits)
  then show ?thesis by (rule forward_update_sessions) (auto simp: code_ok_def)
qed

lemma forward_supersede: "supersede p now an rid i d = Inr (x, d') \<Longrightarrow> forward d d'"
  by (auto simp: supersede_def Let_def split: option.splits
      intro: forward_revoke forward_append_operation forward_trans [OF forward_revoke forward_append_operation])

section \<open>Activation\<close>

lemma pending_connector_Inr:
  assumes "pending_connector now s d = Inr (row, c)"
  shows "s = Some row" "se_status row = SS_pending" "now < se_expires_at row" "se_connector_id row = Some (cn_id c)"
    "c \<in> set (erp_connections d)" "cn_status c = CS_pending"
    "cn_allowed_company_ids_json c \<noteq> None" "cn_default_company_id c \<noteq> None"
    "\<exists>x. cn_enrollment_expires_at c = Some x \<and> now < x"
proof -
  from assms obtain i where s: "s = Some row" "se_status row = SS_pending" "now < se_expires_at row"
    "se_connector_id row = Some i"
    and c: "find_row (\<lambda>c. cn_id c = i \<and> cn_status c = CS_pending \<and> cn_allowed_company_ids_json c \<noteq> None
         \<and> cn_default_company_id c \<noteq> None) (erp_connections d) = Some c"
    and x: "\<exists>x. cn_enrollment_expires_at c = Some x \<and> now < x"
    by (auto simp: pending_connector_def not_le split: option.splits if_splits)
  from find_row_Some [OF c] s x show "s = Some row" "se_status row = SS_pending" "now < se_expires_at row"
    "se_connector_id row = Some (cn_id c)" "c \<in> set (erp_connections d)" "cn_status c = CS_pending"
    "cn_allowed_company_ids_json c \<noteq> None" "cn_default_company_id c \<noteq> None"
    "\<exists>x. cn_enrollment_expires_at c = Some x \<and> now < x"
    by auto
qed

text \<open>The grant a session gives its connector, and the statements of an activation.\<close>

definition new_grant :: "turn \<Rightarrow> session_row \<Rightarrow> connection_row \<Rightarrow> grant_row" where
  "new_grant u row c = \<lparr>gr_id = tu_random u 1, gr_connector_id = cn_id c, gr_tenant_id = cn_tenant_id c,
     gr_client_id = se_client_id row, gr_resource = se_resource row, gr_scopes_json = se_scopes_json row,
     gr_status = GS_active, gr_created_at = tu_clock u 0, gr_revoked_at = None\<rparr>"

definition activated :: "int \<Rightarrow> connection_row \<Rightarrow> connection_row" where
  "activated now c = c\<lparr>cn_status := CS_active, cn_enrollment_handle_hash := None, cn_activated_at := Some now,
     cn_updated_at := now\<rparr>"

lemma activate_steps:
  assumes "activate_body p u session d = Inr (row, d')"
  shows "\<exists>c d1 n d2 d3 d4 m.
      pending_connector (tu_clock u 0) (session_by_state (pv_hash p session) d) d = Inr (row, c)
    \<and> insert_grant (new_grant u row c) d = Inr ((), d1)
    \<and> update_connections (\<lambda>q. is_connection (cn_tenant_id c) (cn_id c) q \<and> cn_status q = CS_pending)
        (activated (tu_clock u 0)) d1 = Inr (n, d2)
    \<and> append_operation p (tu_clock u 1) (tu_random u 2) (cn_tenant_id c) ''activate_connector'' (cn_id c) d2 = Inr ((), d3)
    \<and> supersede p (tu_clock u 0) (tu_clock u 2) (tu_random u 3) (se_superseded_connector_id row) d3 = Inr ((), d4)
    \<and> update_sessions (\<lambda>s. se_state_hash s = pv_hash p session \<and> se_status s = SS_pending)
        (\<lambda>s. s\<lparr>se_authorization_code_hash := Some (pv_hash p (tu_random u 0)), se_status := SS_authorized\<rparr>) d4 = Inr (m, d')"
proof -
  from assms obtain c where
    c: "pending_connector (tu_clock u 0) (session_by_state (pv_hash p session) d) d = Inr (row, c)"
    by (auto simp: activate_body_def Let_def)
  show ?thesis
    by (intro exI [of _ c])
      (use assms c in \<open>auto simp: activate_body_def Let_def new_grant_def activated_def [abs_def]\<close>)
qed

lemma forward_activation_pair:
  assumes "insert_grant g d = Inr (x, d1)" "gr_status g = GS_active"
    and "update_connections (\<lambda>q. is_connection (gr_tenant_id g) (gr_connector_id g) q \<and> cn_status q = CS_pending)
        (activated now) d1 = Inr (n, d2)"
    and "c \<in> set (erp_connections d)" "is_connection (gr_tenant_id g) (gr_connector_id g) c" "cn_status c = CS_pending"
  shows "forward d d2"
proof -
  have "connection_key (activated now q) = connection_key q" "cn_status (activated now q) = CS_active" for q
    by (simp_all add: activated_def connection_key_def)
  with activation_ok [OF assms(1,2,3)] assms(4-6) evolves_insert_grant [OF assms(1)]
    evolves_update_connections [OF assms(3)] show ?thesis
    unfolding forward_def by (blast intro: evolves_trans)
qed

lemma forward_authorized:
  assumes "update_sessions (\<lambda>s. se_state_hash s = h \<and> se_status s = SS_pending)
        (\<lambda>s. s\<lparr>se_authorization_code_hash := Some k, se_status := SS_authorized\<rparr>) d = Inr (m, d')"
  shows "forward d d'"
  by (rule forward_update_sessions [OF assms]) (auto simp: code_ok_def)

lemma forward_activate: "activate_body p u session d = Inr (row, d') \<Longrightarrow> forward d d'"
proof (drule activate_steps, elim exE conjE)
  fix c d1 n d2 d3 d4 m
  assume c: "pending_connector (tu_clock u 0) (session_by_state (pv_hash p session) d) d = Inr (row, c)"
    and 1: "insert_grant (new_grant u row c) d = Inr ((), d1)"
    and 2: "update_connections (\<lambda>q. is_connection (cn_tenant_id c) (cn_id c) q \<and> cn_status q = CS_pending)
        (activated (tu_clock u 0)) d1 = Inr (n, d2)"
    and 3: "append_operation p (tu_clock u 1) (tu_random u 2) (cn_tenant_id c) ''activate_connector'' (cn_id c) d2 = Inr ((), d3)"
    and 4: "supersede p (tu_clock u 0) (tu_clock u 2) (tu_random u 3) (se_superseded_connector_id row) d3 = Inr ((), d4)"
    and 5: "update_sessions (\<lambda>s. se_state_hash s = pv_hash p session \<and> se_status s = SS_pending)
        (\<lambda>s. s\<lparr>se_authorization_code_hash := Some (pv_hash p (tu_random u 0)), se_status := SS_authorized\<rparr>) d4 = Inr (m, d')"
  have "forward d d2"
    by (rule forward_activation_pair [OF 1, of _ n d2 c])
      (use 2 pending_connector_Inr [OF c] in \<open>simp_all add: new_grant_def is_connection_def\<close>)
  then show "forward d d'"
    using forward_append_operation [OF 3] forward_supersede [OF 4] forward_authorized [OF 5]
    by (blast intro: forward_trans)
qed

section \<open>Revocation and exchanges\<close>

lemma forward_revoke_body: "revoke_connector_body p u a d = Inr (x, d') \<Longrightarrow> forward d d'"
  by (auto simp: revoke_connector_body_def split: if_splits
      intro: forward_trans [OF forward_revoke forward_append_operation])

lemma forward_revoke_token: "revoke_token_body p u token d = Inr (x, d') \<Longrightarrow> forward d d'"
  by (auto simp: revoke_token_body_def split: option.splits
      intro: forward_trans [OF forward_revoke forward_append_operation])

lemma forward_revoke_raw: "forward d (snd (revoke_raw_token p u client token d))"
  by (auto simp: revoke_raw_token_def Let_def revoke_connector_def split: option.splits
      intro: forward_transaction forward_revoke_body)

text \<open>What an exchanged code came from.\<close>

lemma exchange_code_steps:
  assumes "exchange_code_body p u client ac d = Inr (Some tok, d')"
  shows "\<exists>s g n d1. s \<in> set (oauth_sessions d) \<and> g \<in> set (oauth_grants d)
    \<and> se_authorization_code_hash s = Some (pv_hash p (ac_code ac)) \<and> se_client_id s = client
    \<and> se_status s = SS_authorized \<and> se_connector_id s = Some (gr_connector_id g) \<and> gr_client_id g = client
    \<and> gr_status g = GS_active
    \<and> update_sessions (\<lambda>q. se_state_hash q = se_state_hash s \<and> se_status q = SS_authorized)
        (\<lambda>q. q\<lparr>se_status := SS_consumed, se_consumed_at := Some (tu_clock u 0)\<rparr>) d = Inr (n, d1)
    \<and> issue_tokens p (tu_clock u 1) (tu_random u 0) (tu_random u 1) (gr_id g) (ac_scopes ac) d1 = Inr (tok, d')"
proof -
  let ?P = "\<lambda>(s, g). se_authorization_code_hash s = Some (pv_hash p (ac_code ac)) \<and> se_client_id s = client
      \<and> se_status s = SS_authorized \<and> se_connector_id s = Some (gr_connector_id g) \<and> gr_client_id g = se_client_id s
      \<and> gr_status g = GS_active"
  from assms obtain s g where f: "find_row ?P (List.product (oauth_sessions d) (oauth_grants d)) = Some (s, g)"
    by (auto simp: exchange_code_body_def Let_def split: option.splits)
  show ?thesis
    by (intro exI [of _ s] exI [of _ g])
      (use assms f find_row_Some [OF f] in \<open>auto simp: exchange_code_body_def Let_def\<close>)
qed

lemma forward_consume:
  assumes "update_sessions (\<lambda>q. se_state_hash q = h \<and> se_status q = SS_authorized)
        (\<lambda>q. q\<lparr>se_status := SS_consumed, se_consumed_at := Some now\<rparr>) d = Inr (n, d')"
  shows "forward d d'"
  by (rule forward_update_sessions [OF assms]) (auto simp: code_ok_def)

lemma update_sessions_frame:
  "update_sessions P f d = Inr (n, d') \<Longrightarrow> oauth_grants d' = oauth_grants d \<and> oauth_tokens d' = oauth_tokens d
    \<and> erp_connections d' = erp_connections d"
  by (auto simp: update_sessions_Inr)

lemma forward_exchange_code: "exchange_code_body p u client ac d = Inr (r, d') \<Longrightarrow> forward d d'"
proof (cases r)
  case None
  then show "exchange_code_body p u client ac d = Inr (r, d') \<Longrightarrow> forward d d'"
    by (auto simp: exchange_code_body_def Let_def split: option.splits)
next
  case (Some tok)
  assume "exchange_code_body p u client ac d = Inr (r, d')"
  from exchange_code_steps [OF this [unfolded Some]] show "forward d d'"
  proof (elim exE conjE)
    fix s g n d1
    assume g: "g \<in> set (oauth_grants d)" "gr_status g = GS_active"
    and 1: "update_sessions (\<lambda>q. se_state_hash q = se_state_hash s \<and> se_status q = SS_authorized)
        (\<lambda>q. q\<lparr>se_status := SS_consumed, se_consumed_at := Some (tu_clock u 0)\<rparr>) d = Inr (n, d1)"
    and 2: "issue_tokens p (tu_clock u 1) (tu_random u 0) (tu_random u 1) (gr_id g) (ac_scopes ac) d1 = Inr (tok, d')"
    from g update_sessions_frame [OF 1] have "g \<in> set (oauth_grants d1)" by simp
    from forward_trans [OF forward_consume [OF 1] forward_issue_tokens [OF 2 this refl g(2)]]
    show "forward d d'" .
  qed
qed

text \<open>A token that loads: its row, its live grant and its live connector.\<close>

lemma token_row_Some:
  assumes "token_row_of p now token ty cl d = Some (t, g)"
  shows "t \<in> set (oauth_tokens d)" "g \<in> set (oauth_grants d)" "gr_id g = tk_grant_id t"
    "tk_token_hash t = pv_hash p token" "tk_token_type t = ty" "tk_revoked_at t = None" "tk_rotated_at t = None"
    "now < tk_expires_at t" "gr_status g = GS_active"
    "has_active_connection (gr_tenant_id g) (gr_connector_id g) (erp_connections d)"
    "cl \<noteq> None \<Longrightarrow> cl = Some (gr_client_id g)"
proof -
  from assms have "find_row (\<lambda>(t, g). gr_id g = tk_grant_id t
             \<and> has_active_connection (gr_tenant_id g) (gr_connector_id g) (erp_connections d)
             \<and> tk_token_hash t = pv_hash p token \<and> tk_token_type t = ty \<and> tk_revoked_at t = None
             \<and> tk_rotated_at t = None \<and> now < tk_expires_at t \<and> gr_status g = GS_active)
           (List.product (oauth_tokens d) (oauth_grants d)) = Some (t, g)"
    and cl: "cl \<noteq> None \<Longrightarrow> cl = Some (gr_client_id g)"
    by (auto simp: token_row_of_def split: option.splits if_splits)
  from find_row_Some [OF this(1)] cl show "t \<in> set (oauth_tokens d)" "g \<in> set (oauth_grants d)"
    "gr_id g = tk_grant_id t" "tk_token_hash t = pv_hash p token" "tk_token_type t = ty" "tk_revoked_at t = None"
    "tk_rotated_at t = None" "now < tk_expires_at t" "gr_status g = GS_active"
    "has_active_connection (gr_tenant_id g) (gr_connector_id g) (erp_connections d)"
    "cl \<noteq> None \<Longrightarrow> cl = Some (gr_client_id g)"
    by auto
qed

lemma exchange_refresh_steps:
  assumes "exchange_refresh_body p u client rt requested d = Inr (Issued tok, d')"
  shows "\<exists>t g persisted n1 d1 n2 d2. token_row_of p (tu_clock u 0) (tv_token rt) Refresh (Some client) d = Some (t, g)
    \<and> parse_string_tuple (tk_scopes_json t) = Inr persisted \<and> set requested \<subseteq> set persisted
    \<and> update_tokens (\<lambda>q. tk_token_hash q = pv_hash p (tv_token rt)) (\<lambda>q. q\<lparr>tk_rotated_at := Some (tu_clock u 1)\<rparr>) d
        = Inr (n1, d1)
    \<and> update_tokens (\<lambda>q. tk_grant_id q = tk_grant_id t \<and> tk_token_type q = Access \<and> tk_revoked_at q = None)
        (\<lambda>q. q\<lparr>tk_revoked_at := Some (tu_clock u 1)\<rparr>) d1 = Inr (n2, d2)
    \<and> issue_tokens p (tu_clock u 2) (tu_random u 0) (tu_random u 1) (tk_grant_id t) persisted d2 = Inr (tok, d')"
  using assms by (auto simp: exchange_refresh_body_def Let_def split: option.splits sum.splits if_splits)

lemma update_tokens_frame:
  "update_tokens P f d = Inr (n, d') \<Longrightarrow> oauth_grants d' = oauth_grants d \<and> erp_connections d' = erp_connections d
    \<and> oauth_sessions d' = oauth_sessions d"
  by (auto simp: update_tokens_Inr)

lemma forward_exchange_refresh: "exchange_refresh_body p u client rt requested d = Inr (r, d') \<Longrightarrow> forward d d'"
proof -
  assume ex: "exchange_refresh_body p u client rt requested d = Inr (r, d')"
  show "forward d d'"
  proof (cases r)
    case (Issued tok)
    from exchange_refresh_steps [OF ex [unfolded Issued]] obtain t g persisted n1 d1 n2 d2 where
      t: "token_row_of p (tu_clock u 0) (tv_token rt) Refresh (Some client) d = Some (t, g)"
      and 1: "update_tokens (\<lambda>q. tk_token_hash q = pv_hash p (tv_token rt)) (\<lambda>q. q\<lparr>tk_rotated_at := Some (tu_clock u 1)\<rparr>) d
        = Inr (n1, d1)"
      and 2: "update_tokens (\<lambda>q. tk_grant_id q = tk_grant_id t \<and> tk_token_type q = Access \<and> tk_revoked_at q = None)
        (\<lambda>q. q\<lparr>tk_revoked_at := Some (tu_clock u 1)\<rparr>) d1 = Inr (n2, d2)"
      and 3: "issue_tokens p (tu_clock u 2) (tu_random u 0) (tu_random u 1) (tk_grant_id t) persisted d2 = Inr (tok, d')"
      by blast
    note g = token_row_Some(2,3,9) [OF t]
    from g(1) update_tokens_frame [OF 1] update_tokens_frame [OF 2] have "g \<in> set (oauth_grants d2)" by simp
    from forward_issue_tokens [OF 3 this g(2,3)] forward_update_tokens [OF 1] forward_update_tokens [OF 2]
    show ?thesis by (blast intro: forward_trans withdraws_simps)
  qed (use ex in \<open>auto simp: exchange_refresh_body_def Let_def split: option.splits sum.splits if_splits\<close>)
qed

section \<open>Lifecycle and key rotation\<close>

lemma forward_prepare_body: "prepare_body lc u cr handle v c d = Inr (x, d') \<Longrightarrow> handle_ok c \<Longrightarrow> forward d d'"
  by (auto simp: prepare_body_def split: if_splits option.splits
      intro: forward_insert_connection forward_trans [OF forward_insert_connection forward_append_lifecycle])

lemma new_connection_handle: "new_connection lc u cr h v = Inr c \<Longrightarrow> handle_ok c"
  by (auto simp: new_connection_def Let_def handle_ok_def split: prod.splits)

lemma forward_prepare: "forward d (snd (prepare_enrollment lc u cr given v d))"
  by (auto simp: prepare_enrollment_def Let_def split: sum.splits option.splits
      intro: forward_transaction forward_prepare_body new_connection_handle)

text \<open>What a commit does: a repetition changes nothing, a first commit writes one row.\<close>

lemma commit_steps:
  assumes "commit_body lc u handle selected dflt d = Inr (ce, d')"
  shows "\<exists>c discovered. find_row (same_handle (lc_hash lc handle)) (erp_connections d) = Some c
    \<and> cn_status c = CS_pending \<and> \<not> is_expired (tu_clock u 0) c
    \<and> positive_ids (Some (cn_discovered_company_ids_json c)) = Inr discovered \<and> set selected \<subseteq> set discovered
    \<and> ce = \<lparr>ce_connector_id = cn_id c, ce_tenant_id = cn_tenant_id c, ce_allowed_company_ids = selected,
            ce_default_company_id = dflt\<rparr>
    \<and> (if cn_consumed_enrollment_handle_hash c \<noteq> None
       then positive_ids (cn_allowed_company_ids_json c) = Inr selected \<and> cn_default_company_id c = Some dflt \<and> d' = d
       else \<exists>allowed n d1. canonical_json (PList (map PInt selected)) = Inr allowed
         \<and> update_connections (\<lambda>q. is_connection (cn_tenant_id c) (cn_id c) q \<and> cn_status q = CS_pending)
             (\<lambda>q. q\<lparr>cn_allowed_company_ids_json := Some allowed, cn_default_company_id := Some dflt,
                    cn_enrollment_handle_hash := None,
                    cn_consumed_enrollment_handle_hash := Some (lc_hash lc handle),
                    cn_updated_at := tu_clock u 1\<rparr>) d = Inr (n, d1)
         \<and> append_lifecycle lc (tu_clock u 2) (tu_random u 0) (cn_tenant_id c) ''commit_enrollment'' (cn_id c) d1
             = Inr ((), d'))"
proof -
  from assms obtain c where c: "find_row (same_handle (lc_hash lc handle)) (erp_connections d) = Some c"
    by (auto simp: commit_body_def Let_def split: option.splits)
  have "cn_status c = CS_pending" "\<not> is_expired (tu_clock u 0) c"
    using assms c by (auto simp: commit_body_def Let_def split: if_splits)
  moreover from this assms c obtain discovered where
    "positive_ids (Some (cn_discovered_company_ids_json c)) = Inr discovered" "set selected \<subseteq> set discovered"
    by (auto simp: commit_body_def Let_def split: if_splits)
  ultimately show ?thesis using assms c
    by (intro exI [of _ c] exI [of _ discovered])
      (auto simp: commit_body_def Let_def simp del: canonical_json_Inr split: if_splits option.splits)
qed

lemma forward_commit: "commit_body lc u handle selected dflt d = Inr (ce, d') \<Longrightarrow> forward d d'"
proof (drule commit_steps, elim exE conjE)
  fix c discovered
  assume *: "if cn_consumed_enrollment_handle_hash c \<noteq> None
       then positive_ids (cn_allowed_company_ids_json c) = Inr selected \<and> cn_default_company_id c = Some dflt \<and> d' = d
       else \<exists>allowed n d1. canonical_json (PList (map PInt selected)) = Inr allowed
         \<and> update_connections (\<lambda>q. is_connection (cn_tenant_id c) (cn_id c) q \<and> cn_status q = CS_pending)
             (\<lambda>q. q\<lparr>cn_allowed_company_ids_json := Some allowed, cn_default_company_id := Some dflt,
                    cn_enrollment_handle_hash := None,
                    cn_consumed_enrollment_handle_hash := Some (lc_hash lc handle),
                    cn_updated_at := tu_clock u 1\<rparr>) d = Inr (n, d1)
         \<and> append_lifecycle lc (tu_clock u 2) (tu_random u 0) (cn_tenant_id c) ''commit_enrollment'' (cn_id c) d1
             = Inr ((), d')"
  show "forward d d'"
  proof (cases "cn_consumed_enrollment_handle_hash c")
    case None
    with * obtain allowed n d1 where
      1: "update_connections (\<lambda>q. is_connection (cn_tenant_id c) (cn_id c) q \<and> cn_status q = CS_pending)
             (\<lambda>q. q\<lparr>cn_allowed_company_ids_json := Some allowed, cn_default_company_id := Some dflt,
                    cn_enrollment_handle_hash := None,
                    cn_consumed_enrollment_handle_hash := Some (lc_hash lc handle),
                    cn_updated_at := tu_clock u 1\<rparr>) d = Inr (n, d1)"
      and 2: "append_lifecycle lc (tu_clock u 2) (tu_random u 0) (cn_tenant_id c) ''commit_enrollment'' (cn_id c) d1
             = Inr ((), d')" by auto
    have "forward d d1" by (rule forward_quiet_update [OF 1]) (simp add: connection_key_def handle_ok_def)
    then show ?thesis by (rule forward_trans) (rule forward_append_lifecycle [OF 2])
  qed (use * in simp)
qed

lemma forward_expire: "forward d (snd (expire_pending u d))"
  unfolding expire_pending_def
  by (rule forward_transaction, erule forward_quiet_update) (auto simp: connection_key_def handle_ok_def)

lemma forward_discard: "forward d (snd (discard_pending u t i d))"
  unfolding discard_pending_def by (rule forward_transaction, erule forward_delete) simp

lemma rotate_steps:
  assumes "rotate_body H ae kr ro t i d = Inr (True, d')"
  shows "\<exists>c plaintext encrypted version d1 rec. find_row (is_connection t i) (erp_connections d) = Some c
    \<and> cn_key_version c \<noteq> kr_active_version kr
    \<and> decrypt ae kr t i (cn_encrypted_api_key c) (cn_key_version c) = Inr plaintext
    \<and> encrypt ae kr (ro_nonce ro) t i plaintext = Inr (encrypted, version)
    \<and> update_connections (\<lambda>q. is_connection t i q \<and> cn_key_version q = cn_key_version c)
        (\<lambda>q. q\<lparr>cn_encrypted_api_key := encrypted, cn_key_version := version, cn_updated_at := ro_now ro\<rparr>) d = Inr (1, d1)
    \<and> append_in_transaction H (ro_audit_now ro) (rotation_event (ro_request_id ro) (ro_subject ro) (ro_client ro) c version)
        d1 = Inr (rec, d')"
proof -
  from assms obtain c where "find_row (is_connection t i) (erp_connections d) = Some c"
    by (auto simp: rotate_body_def split: option.splits)
  with assms show ?thesis
    by (intro exI [of _ c]) (auto simp: rotate_body_def split: if_splits)
qed

lemma forward_rotate: "forward d (snd (rotate H ae kr f ro t i d))"
proof -
  have "forward d d'" if "rotate_body H ae k ro t i d = Inr (b, d')" for b d' k
  proof (cases b)
    case False
    with that show ?thesis
      by (auto simp: rotate_body_def split: option.splits if_splits)
  next
    case True
    with that have "rotate_body H ae k ro t i d = Inr (True, d')" by simp
    from rotate_steps [OF this] show ?thesis
    proof (elim exE conjE)
      fix c encrypted version d1 rec
      assume 1: "update_connections (\<lambda>q. is_connection t i q \<and> cn_key_version q = cn_key_version c)
        (\<lambda>q. q\<lparr>cn_encrypted_api_key := encrypted, cn_key_version := version, cn_updated_at := ro_now ro\<rparr>) d = Inr (1, d1)"
        and 2: "append_in_transaction H (ro_audit_now ro)
          (rotation_event (ro_request_id ro) (ro_subject ro) (ro_client ro) c version) d1 = Inr (rec, d')"
      have "forward d d1" by (rule forward_quiet_update [OF 1]) (simp add: connection_key_def handle_ok_def)
      then show ?thesis by (rule forward_trans) (rule forward_append [OF 2])
    qed
  qed
  then show ?thesis by (auto simp: rotate_def split: option.splits intro: forward_transaction)
qed

section \<open>The system of operations\<close>

datatype auth_op =
    Get_client turn string
  | Register turn client_info
  | Authorize turn client_info authorization_params
  | Bind turn string string
  | Authorize_replacement turn string connector_authorization
  | Activate turn string bool
  | Revoke turn connector_authorization
  | Exchange_code turn string authorization_code
  | Exchange_refresh turn string token_view "string list"
  | Revoke_token turn string
  | Revoke_raw turn string string
  | Prepare turn credentials "string option" "verified_enrollment res"
  | Commit turn string "int list" int
  | Expire turn
  | Discard turn string string
  | Rotate cipher "keyring option" db_fault rotation string string

fun auth_run :: "provider \<Rightarrow> lifecycle \<Rightarrow> auth_op \<Rightarrow> db \<Rightarrow> db" where
  "auth_run p lc (Get_client u i) d = snd (get_client p u i d)"
| "auth_run p lc (Register u ci) d = snd (register_client p u ci d)"
| "auth_run p lc (Authorize u ci ps) d = snd (authorize p u ci ps d)"
| "auth_run p lc (Bind u s i) d = snd (bind_connector p u s i d)"
| "auth_run p lc (Authorize_replacement u s a) d = snd (authorize_replacement p u s a d)"
| "auth_run p lc (Activate u s consent) d = snd (activate_connector p u s consent d)"
| "auth_run p lc (Revoke u a) d = snd (revoke_connector p u a d)"
| "auth_run p lc (Exchange_code u cl ac) d = snd (exchange_authorization_code p u cl ac d)"
| "auth_run p lc (Exchange_refresh u cl rt scopes) d = snd (exchange_refresh_token p u cl rt scopes d)"
| "auth_run p lc (Revoke_token u tok) d = snd (revoke_token p u tok d)"
| "auth_run p lc (Revoke_raw u cl tok) d = snd (revoke_raw_token p u cl tok d)"
| "auth_run p lc (Prepare u cr h v) d = snd (prepare_enrollment lc u cr h v d)"
| "auth_run p lc (Commit u h allowed dflt) d = snd (commit_enrollment lc u h allowed dflt d)"
| "auth_run p lc (Expire u) d = snd (expire_pending u d)"
| "auth_run p lc (Discard u t i) d = snd (discard_pending u t i d)"
| "auth_run p lc (Rotate ae kr f ro t i) d = snd (rotate (lc_hash lc) ae kr f ro t i d)"

lemma forward_exchange_code_call: "forward d (snd (exchange_authorization_code p u cl ac d))"
  using forward_transaction [of "exchange_code_body p u cl ac" d "tu_fault u 0"] forward_exchange_code
  by (auto simp: exchange_authorization_code_def split: prod.splits sum.splits option.splits)

lemma forward_exchange_refresh_call: "forward d (snd (exchange_refresh_token p u cl rt scopes d))"
proof -
  have "forward d (snd (transaction (tu_fault u 0) (exchange_refresh_body p u cl rt requested) d))" for requested
    by (rule forward_transaction) (rule forward_exchange_refresh)
  then show ?thesis
    by (auto simp: exchange_refresh_token_def Let_def split: prod.splits sum.splits refresh_outcome.splits)
      (metis snd_conv)+
qed

lemma forward_activate_call: "forward d (snd (activate_connector p u s consent d))"
  unfolding activate_connector_def by (simp, intro impI forward_case) (rule forward_activate)

lemma forward_commit_call: "forward d (snd (commit_enrollment lc u h allowed dflt d))"
  unfolding commit_enrollment_def Let_def by (simp, intro impI forward_transaction) (rule forward_commit)

lemma forward_calls:
  "forward d (snd (bind_connector p u s i d))" "forward d (snd (authorize_replacement p u s a d))"
  "forward d (snd (revoke_connector p u a d))" "forward d (snd (revoke_token p u tok d))"
  unfolding bind_connector_def authorize_replacement_def revoke_connector_def revoke_token_def
  by (rule forward_transaction, erule forward_bind forward_replace forward_revoke_body forward_revoke_token)+

lemma auth_run_forward: "forward d (auth_run p lc op d)"
  by (cases op)
    (simp_all add: forward_get_client forward_register forward_authorize forward_activate_call forward_revoke_raw
      forward_exchange_code_call forward_exchange_refresh_call forward_prepare forward_commit_call forward_expire
      forward_discard forward_rotate forward_calls)

interpretation authority: one_way_store "auth_run p lc" authority_ok evolves for p lc
  by unfold_locales (auto simp: auth_run_forward [unfolded forward_def] intro: evolves_trans)

end
