(* ===== verification/AuthProps.thy ===== *)
theory AuthProps
  imports Authority
begin

text \<open>
  What the hosted authority promises, as properties of the operations of \<open>SharedAuth\<close>, \<open>Lifecycle\<close> and
  \<open>Connections\<close>, each with a concrete run at which its hypotheses hold.
\<close>

section \<open>A concrete system\<close>

text \<open>The cipher of the examples appends 16 bytes of the associated data.\<close>

definition demo_tag :: "string \<Rightarrow> string" where
  "demo_tag a = take 16 (a @ replicate 16 CHR '' '')"

definition demo_cipher :: cipher where
  "demo_cipher = \<lparr>ae_encrypt = (\<lambda>k n p a. p @ demo_tag a),
     ae_decrypt = (\<lambda>k n c a. if 16 \<le> length c \<and> drop (length c - 16) c = demo_tag a
        then Some (take (length c - 16) c) else None)\<rparr>"

definition demo_keyring :: keyring where
  "demo_keyring = \<lparr>kr_active_version = 1, kr_keys = [(1, replicate 32 CHR ''k'')]\<rparr>"

definition demo_lc :: lifecycle where
  "demo_lc = \<lparr>lc_hash = (\<lambda>s. s), lc_cipher = demo_cipher, lc_keyring = demo_keyring, lc_base_url = Some\<rparr>"

definition demo_client :: client_info where
  "demo_client = \<lparr>ci_client_id = ''client'', ci_client_secret = None,
     ci_redirect_uris = Some [\<lparr>up_scheme = ''https'', up_netloc = ''app'', up_path = ''/'', up_fragment = [],
        up_username = None, up_password = None, up_hostname = Some ''app''\<rparr>],
     ci_token_endpoint_auth_method = Some ''none'', ci_scope = Some ''read write''\<rparr>"

definition demo_provider :: provider where
  "demo_provider = \<lparr>pv_hash = (\<lambda>s. s), pv_issuer_url = ''https://mcp'', pv_resource_url = ''https://mcp/api'',
     pv_valid_scopes = [''read'', ''write''], pv_audited = False, pv_dump = (\<lambda>_. ''{}''),
     pv_validate = (\<lambda>_. Some demo_client), pv_fetch = (\<lambda>_. None)\<rparr>"

definition demo_turn :: "string \<Rightarrow> int \<Rightarrow> turn" where
  "demo_turn tag now = \<lparr>tu_fault = (\<lambda>_. Commits), tu_clock = (\<lambda>_. now),
     tu_random = (\<lambda>n. if n = 2 then replicate 12 CHR ''n'' else tag @ nat_text n)\<rparr>"

definition demo_params :: authorization_params where
  "demo_params = \<lparr>ap_resource = Some ''https://mcp/api'', ap_scopes = Some [''read''], ap_redirect_uri = ''https://app/'',
     ap_code_challenge = replicate 43 CHR ''c'', ap_state = Some ''st''\<rparr>"

definition demo_credentials :: credentials where
  "demo_credentials = \<lparr>ec_url = ''https://odoo/'', ec_database = ''db'', ec_username = ''user'', ec_api_key = ''secret''\<rparr>"

definition demo_verified :: verified_enrollment where
  "demo_verified = \<lparr>vf_version = 18, vf_transport = ''json_rpc'', vf_companies = [(1, ''A''), (2, ''B'')]\<rparr>"

definition demo_secret :: string where
  "demo_secret = (case encrypt demo_cipher demo_keyring (replicate 12 CHR ''n'') ''connector:k'' ''k'' ''secret'' of
     Inl _ \<Rightarrow> [] | Inr (e, v) \<Rightarrow> e)"

text \<open>A connector after its enrollment was committed, and a session bound to it.\<close>

definition demo_connection :: connection_row where
  "demo_connection = \<lparr>cn_id = ''k'', cn_tenant_id = ''connector:k'', cn_connection_label = ''Odoo connection'',
     cn_odoo_url = ''https://odoo/'', cn_database_name = ''db'', cn_username = ''user'',
     cn_encrypted_api_key = demo_secret, cn_discovered_company_ids_json = ''[1,2]'',
     cn_allowed_company_ids_json = Some ''[2,1]'', cn_default_company_id = Some 1, cn_detected_version = Some ''18'',
     cn_selected_transport = Some ''json_rpc'', cn_key_version = 1, cn_status = CS_pending,
     cn_enrollment_handle_hash = None, cn_consumed_enrollment_handle_hash = Some ''handle'',
     cn_enrollment_expires_at = Some 600000020, cn_activated_at = None, cn_revoked_at = None, cn_created_at = 20,
     cn_updated_at = 30\<rparr>"

definition demo_scopes :: string where
  "demo_scopes = json_text (PList [PStr ''read'', PStr ''write''])"

definition demo_session :: session_row where
  "demo_session = \<lparr>se_state_hash = ''s'', se_client_id = ''client'', se_connector_id = Some ''k'',
     se_superseded_connector_id = None, se_redirect_uri = ''https://app/'', se_resource = ''https://mcp/api'',
     se_scopes_json = demo_scopes, se_code_challenge = replicate 43 CHR ''c'', se_client_state = Some ''st'',
     se_authorization_code_hash = None, se_status = SS_pending, se_expires_at = 600000010, se_consumed_at = None,
     se_created_at = 10\<rparr>"

definition demo_pending :: db where
  "demo_pending = empty_db\<lparr>
     oauth_clients := [\<lparr>cl_client_id = ''client'', cl_registration_method = Dcr, cl_metadata_json = ''{}'',
        cl_client_secret_hash = None, cl_metadata_expires_at = None, cl_created_at = 5, cl_updated_at = 5\<rparr>],
     erp_connections := [demo_connection], oauth_sessions := [demo_session]\<rparr>"

definition demo_active :: "db" where
  "demo_active = auth_run demo_provider demo_lc (Activate (demo_turn ''a'' 50) ''s'' True) demo_pending"

definition demo_code :: authorization_code where
  "demo_code = \<lparr>ac_code = ''a0'', ac_scopes = [''read'', ''write''], ac_expires_at = 60, ac_client_id = ''client'',
     ac_code_challenge = replicate 43 CHR ''c'', ac_redirect_uri = ''https://app/'', ac_resource = ''https://mcp/api'',
     ac_subject = ''k''\<rparr>"

definition demo_tokens :: "oauth_token res \<times> db" where
  "demo_tokens = exchange_authorization_code demo_provider (demo_turn ''t'' 60) ''client'' demo_code demo_active"

lemma demo_pending_ok: "authority_ok demo_pending"
  by code_simp

section \<open>Consistency\<close>

lemma row_updated: "r \<in> set rs \<Longrightarrow> P r \<Longrightarrow> f r \<in> set (update_rows P f rs)"
  by (auto simp: update_rows_def)

lemma row_kept: "r \<in> set rs \<Longrightarrow> \<not> P r \<Longrightarrow> r \<in> set (update_rows P f rs)"
  by (auto simp: update_rows_def)

lemma live_token:
  assumes "authority_ok d" "t \<in> set (oauth_tokens d)" "tk_revoked_at t = None"
  shows "\<exists>g \<in> set (oauth_grants d). gr_id g = tk_grant_id t \<and> scopes_within t g \<and> gr_status g = GS_active
    \<and> has_active_connection (gr_tenant_id g) (gr_connector_id g) (erp_connections d)"
proof -
  from authority_okD(7) [OF assms(1,2)] assms(3) obtain g where g: "g \<in> set (oauth_grants d)"
    "gr_id g = tk_grant_id t" "scopes_within t g" "gr_status g = GS_active"
    by (auto simp: token_ok_def)
  then have "has_active_grant (gr_tenant_id g) (gr_connector_id g) (oauth_grants d)"
    by (auto simp: has_active_grant_def)
  from grant_has_connection [OF assms(1) this] g show ?thesis by blast
qed

text \<open>C14 (hosted authority stays consistent). Through any sequence of registrations, authorizations,
  enrollments, activations, exchanges, revocations, expiries, removals and key rotations, with any clock,
  random values and database failures: a connector is active exactly when it has an active grant, and
  then its company selection is made and its enrollment handle used up; every token that is not revoked
  belongs to an active grant of an active connector and carries no scope its grant does not have; keys,
  handles and codes stay unique.\<close>

theorem authority_is_consistent:
  assumes "authority_ok d0" "d = fold (auth_run p lc) ops d0"
  shows "(\<forall>c \<in> set (erp_connections d).
      (cn_status c = CS_active) = has_active_grant (cn_tenant_id c) (cn_id c) (oauth_grants d)
      \<and> (cn_status c = CS_active \<longrightarrow> selection_complete c))
    \<and> (\<forall>t \<in> set (oauth_tokens d). tk_revoked_at t = None \<longrightarrow>
      (\<exists>g \<in> set (oauth_grants d). gr_id g = tk_grant_id t \<and> scopes_within t g \<and> gr_status g = GS_active
        \<and> has_active_connection (gr_tenant_id g) (gr_connector_id g) (erp_connections d)))
    \<and> unique_connections (erp_connections d) \<and> unique_sessions (oauth_sessions d)"
proof (intro conjI)
  have ok: "authority_ok d" unfolding assms(2) by (rule authority.fold_ok [OF assms(1)])
  show "\<forall>c \<in> set (erp_connections d).
      (cn_status c = CS_active) = has_active_grant (cn_tenant_id c) (cn_id c) (oauth_grants d)
      \<and> (cn_status c = CS_active \<longrightarrow> selection_complete c)"
    using authority_okD(5) [OF ok] by (simp add: connection_ok_def)
  show "\<forall>t \<in> set (oauth_tokens d). tk_revoked_at t = None \<longrightarrow>
      (\<exists>g \<in> set (oauth_grants d). gr_id g = tk_grant_id t \<and> scopes_within t g \<and> gr_status g = GS_active
        \<and> has_active_connection (gr_tenant_id g) (gr_connector_id g) (erp_connections d))"
    using live_token [OF ok] by blast
  show "unique_connections (erp_connections d)" "unique_sessions (oauth_sessions d)"
    using authority_okD(1,2) [OF ok] by simp_all
qed

definition demo_used :: db where
  "demo_used = fold (auth_run demo_provider demo_lc)
     [Activate (demo_turn ''a'' 50) ''s'' True, Exchange_code (demo_turn ''t'' 60) ''client'' demo_code] demo_pending"

lemma demo_used_rows: "map tk_revoked_at (oauth_tokens demo_used) = [None, None]"
  "map cn_status (erp_connections demo_used) = [CS_active]"
  by code_simp+

theorem authority_is_consistent_witness:
  "list_all (\<lambda>c. cn_status c = CS_active \<longrightarrow> selection_complete c) (erp_connections demo_used)
    \<and> length (erp_connections demo_used) = 1"
  using authority_is_consistent [OF demo_pending_ok demo_used_def]
    arg_cong [OF demo_used_rows(2), of length] by (simp add: list_all_iff)

section \<open>Revocation\<close>

text \<open>A connector in a terminal status.\<close>

definition terminal :: "string \<Rightarrow> string \<Rightarrow> db \<Rightarrow> bool" where
  "terminal t i d \<longleftrightarrow> (\<exists>c \<in> set (erp_connections d). is_connection t i c \<and> cn_status c \<in> {CS_revoked, CS_expired})"

lemma terminal_evolves:
  assumes "evolves d d'" "terminal t i d"
  shows "terminal t i d'"
proof -
  from assms(2) obtain c where c: "c \<in> set (erp_connections d)" "is_connection t i c"
    "cn_status c \<in> {CS_revoked, CS_expired}" by (auto simp: terminal_def)
  then have "c \<in> set (filter (\<lambda>c. cn_status c \<noteq> CS_pending) (erp_connections d))" by auto
  with assms(1) obtain c' where "c' \<in> set (erp_connections d')" "connection_le c c'"
    unfolding evolves_def rows_le_def by blast
  with c show ?thesis
    by (auto simp: terminal_def connection_le_def is_connection_key)
qed

lemma terminal_dead:
  assumes "authority_ok d" "terminal t i d"
  shows "\<not> has_active_connection t i (erp_connections d)" "\<not> has_active_grant t i (oauth_grants d)"
proof -
  show *: "\<not> has_active_connection t i (erp_connections d)"
  proof
    assume "has_active_connection t i (erp_connections d)"
    then obtain a where a: "a \<in> set (erp_connections d)" "connection_key a = (t, i)" "cn_status a = CS_active"
      by (auto simp: has_active_connection_def is_connection_key)
    from assms(2) obtain c where "c \<in> set (erp_connections d)" "connection_key c = (t, i)" "cn_status c \<noteq> CS_active"
      by (auto simp: terminal_def is_connection_key)
    with unique_key [OF authority_okD(1) [OF assms(1)] a(1), of c] a show False by simp
  qed
  with grant_has_connection [OF assms(1)] show "\<not> has_active_grant t i (oauth_grants d)" by blast
qed

lemma terminal_after_revoke:
  assumes "revoke_connector_body p u a d = Inr (x, d')" "authority_ok d"
  shows "terminal (ca_tenant_id a) (ca_connection_id a) d'"
proof -
  from assms(1) obtain g d1 where g: "g \<in> set (oauth_grants d)" "gr_tenant_id g = ca_tenant_id a"
    "gr_connector_id g = ca_connection_id a"
    and 1: "revoke_connector_in_transaction (tu_clock u 0) (ca_connection_id a) d = Inr ((), d1)"
    and 2: "append_operation p (tu_clock u 1) (tu_random u 0) (ca_tenant_id a) ''revoke_connector''
            (ca_connection_id a) d1 = Inr (x, d')"
    by (auto simp: revoke_connector_body_def split: if_splits)
  from authority_okD(6) [OF assms(2) g(1)] g obtain c where c: "c \<in> set (erp_connections d)"
    "is_connection (ca_tenant_id a) (ca_connection_id a) c"
    by (auto simp: grant_ok_def is_connection_key)
  let ?c = "if live_connection (ca_connection_id a) c
      then c\<lparr>cn_status := CS_revoked, cn_revoked_at := Some (tu_clock u 0), cn_updated_at := tu_clock u 0\<rparr> else c"
  have "?c \<in> set (erp_connections d1)"
    using c(1) revoke_effect [OF 1] by (auto simp: revoked_db_def set_update_rows)
  moreover have "is_connection (ca_tenant_id a) (ca_connection_id a) ?c" using c(2) by (simp add: is_connection_def)
  moreover have "cn_status ?c \<in> {CS_revoked, CS_expired}"
    using c(2) by (cases "cn_status c") (auto simp: live_connection_def is_connection_def)
  ultimately have "terminal (ca_tenant_id a) (ca_connection_id a) d1" unfolding terminal_def by blast
  then show ?thesis using append_operation_tables [OF 2] by (simp add: terminal_def auth_tables_def)
qed

text \<open>C15 (a revoked connector is dead for good). After a revocation returned, whatever operations follow,
  the connector has no active row and no active grant, no access or refresh token of it ever loads, its
  settings are never resolved for a request and never completed.\<close>

theorem revocation_is_final:
  assumes "revoke_connector p u a d0 = (Inr (), d1)" "authority_ok d0" "d = fold (auth_run p' lc) ops d1"
    and "ca_tenant_id b = ca_tenant_id a" "ca_connection_id b = ca_connection_id a"
  shows "\<not> has_active_grant (ca_tenant_id a) (ca_connection_id a) (oauth_grants d)
    \<and> (\<forall>q now token ty cl t g. token_row_of q now token ty cl d = Some (t, g) \<longrightarrow>
        (gr_tenant_id g, gr_connector_id g) \<noteq> (ca_tenant_id a, ca_connection_id a))
    \<and> resolve_authorized ae base_url kr b d = Inr None
    \<and> complete_settings lc' (ca_tenant_id a) (ca_connection_id a) d = Inl ValueError"
proof (intro conjI allI impI)
  from assms(1) have body: "revoke_connector_body p u a d0 = Inr ((), d1)"
    by (simp add: revoke_connector_def transaction_Inr)
  have ok1: "authority_ok d1" using forward_revoke_body [OF body] assms(2) by (simp add: forward_def)
  have ok: "authority_ok d" unfolding assms(3) by (rule authority.fold_ok [OF ok1])
  have "terminal (ca_tenant_id a) (ca_connection_id a) d" unfolding assms(3)
    by (rule authority.forever [where P = "terminal (ca_tenant_id a) (ca_connection_id a)", OF ok1
          terminal_after_revoke [OF body assms(2)]]) (rule terminal_evolves)
  note dead = terminal_dead [OF ok this]
  show "\<not> has_active_grant (ca_tenant_id a) (ca_connection_id a) (oauth_grants d)" by (rule dead(2))
  show "(gr_tenant_id g, gr_connector_id g) \<noteq> (ca_tenant_id a, ca_connection_id a)"
    if "token_row_of q now token ty cl d = Some (t, g)" for q now token ty cl t g
    using token_row_Some(10) [OF that] dead(1) by auto
  have none: "find_row (\<lambda>c. is_connection (ca_tenant_id a) (ca_connection_id a) c \<and> cn_status c = CS_active \<and> Q c)
      (erp_connections d) = None" for Q
    using dead(1) by (auto simp: find_row_None has_active_connection_def)
  show "resolve_authorized ae base_url kr b d = Inr None"
    unfolding resolve_authorized_def assms(4,5) none by simp
  show "complete_settings lc' (ca_tenant_id a) (ca_connection_id a) d = Inl ValueError"
    using none [of "\<lambda>_. True"] by (simp add: complete_settings_def)
qed

definition demo_authorization :: connector_authorization where
  "demo_authorization = \<lparr>ca_tenant_id = ''connector:k'', ca_connection_id = ''k'', ca_authenticated_subject = ''k'',
     ca_mcp_client = ''client'', ca_permissions = [''read'']\<rparr>"

definition demo_revoked :: "unit res \<times> db" where
  "demo_revoked = revoke_connector demo_provider (demo_turn ''v'' 70) demo_authorization demo_used"

lemma demo_used_ok: "authority_ok demo_used"
  unfolding demo_used_def by (rule authority.fold_ok [OF demo_pending_ok])

lemma demo_revoked_Inr: "fst demo_revoked = Inr ()"
  by code_simp

theorem revocation_is_final_witness:
  "complete_settings demo_lc ''connector:k'' ''k'' (snd demo_revoked) = Inl ValueError"
proof -
  have r: "revoke_connector demo_provider (demo_turn ''v'' 70) demo_authorization demo_used = (Inr (), snd demo_revoked)"
    using demo_revoked_Inr by (simp add: demo_revoked_def prod_eq_iff)
  have f: "snd demo_revoked = fold (auth_run demo_provider demo_lc) [] (snd demo_revoked)" by simp
  from revocation_is_final [OF r demo_used_ok f refl refl, of demo_cipher Some None demo_lc] show ?thesis
    by (simp add: demo_authorization_def)
qed

section \<open>Codes\<close>

definition code_used :: "string \<Rightarrow> db \<Rightarrow> bool" where
  "code_used h d \<longleftrightarrow> (\<exists>s \<in> set (oauth_sessions d). se_authorization_code_hash s = Some h \<and> se_status s = SS_consumed)"

lemma code_used_evolves:
  assumes "evolves d d'" "code_used h d"
  shows "code_used h d'"
proof -
  from assms(2) obtain s where s: "s \<in> set (oauth_sessions d)" "se_authorization_code_hash s = Some h"
    "se_status s = SS_consumed" by (auto simp: code_used_def)
  with assms(1) obtain s' where "s' \<in> set (oauth_sessions d')" "session_le s s'"
    unfolding evolves_def rows_le_def by blast
  with s show ?thesis by (auto simp: code_used_def session_le_def)
qed

lemma unique_code:
  assumes "unique_sessions ss" "s \<in> set ss" "s' \<in> set ss" "se_authorization_code_hash s = Some h"
    "se_authorization_code_hash s' = Some h"
  shows "s = s'"
proof (rule distinct_somesD [OF _ assms(2,3)])
  show "distinct (somes (map se_authorization_code_hash ss))" "distinct ss"
    using assms(1) by (auto simp: unique_sessions_def distinct_map)
qed (use assms(4,5) in simp_all)

lemma code_used_refused:
  assumes "authority_ok d" "code_used h d" "s \<in> set (oauth_sessions d)" "se_authorization_code_hash s = Some h"
  shows "se_status s \<noteq> SS_authorized"
  using assms(2) unique_code [OF authority_okD(2) [OF assms(1)] assms(3) _ assms(4)] by (auto simp: code_used_def)

lemma code_used_after_exchange:
  assumes "exchange_code_body p u client ac d = Inr (Some tok, d')"
  shows "code_used (pv_hash p (ac_code ac)) d'"
  using exchange_code_steps [OF assms]
proof (elim exE conjE)
  fix s g n d1
  assume s: "s \<in> set (oauth_sessions d)" "se_authorization_code_hash s = Some (pv_hash p (ac_code ac))"
    "se_status s = SS_authorized"
    and 1: "update_sessions (\<lambda>q. se_state_hash q = se_state_hash s \<and> se_status q = SS_authorized)
        (\<lambda>q. q\<lparr>se_status := SS_consumed, se_consumed_at := Some (tu_clock u 0)\<rparr>) d = Inr (n, d1)"
    and 2: "issue_tokens p (tu_clock u 1) (tu_random u 0) (tu_random u 1) (gr_id g) (ac_scopes ac) d1 = Inr (tok, d')"
  have "s\<lparr>se_status := SS_consumed, se_consumed_at := Some (tu_clock u 0)\<rparr> \<in> set (oauth_sessions d1)"
    using 1 s by (auto simp: update_sessions_Inr set_update_rows)
  moreover have "oauth_sessions d' = oauth_sessions d1" using issue_tokens_Inr [OF 2] by auto
  ultimately show ?thesis using s(2) unfolding code_used_def
    by (intro bexI [of _ "s\<lparr>se_status := SS_consumed, se_consumed_at := Some (tu_clock u 0)\<rparr>"]) simp_all
qed

lemma exchange_Inr:
  "exchange_authorization_code p u client ac d = (Inr tok, d') \<longleftrightarrow>
    tu_fault u 0 = Commits \<and> exchange_code_body p u client ac d = Inr (Some tok, d')"
  by (cases "transaction (tu_fault u 0) (exchange_code_body p u client ac) d")
    (auto simp: exchange_authorization_code_def transaction_def split: sum.splits option.splits db_fault.splits)

text \<open>C16 (an authorization code works once). After a code was exchanged for tokens, whatever operations
  follow, the code does not load and no client exchanges it again: the answer is \<open>invalid_grant\<close> (or the
  exception of a failing transaction) and no token is issued.\<close>

theorem code_works_once:
  assumes "exchange_authorization_code p u client ac d0 = (Inr tok, d1)" "authority_ok d0"
    and "d = fold (auth_run p' lc) ops d1" "ac_code ac' = ac_code ac"
  shows "load_authorization_code p u' client' (ac_code ac) d = Inr None
    \<and> fst (exchange_authorization_code p u' client' ac' d) \<in> {Inl (TokenError ''invalid_grant''), Inl OperationalError}
    \<and> snd (exchange_authorization_code p u' client' ac' d) = d"
proof -
  let ?h = "pv_hash p (ac_code ac)"
  from assms(1) have body: "exchange_code_body p u client ac d0 = Inr (Some tok, d1)" by (simp add: exchange_Inr)
  have ok1: "authority_ok d1" using forward_exchange_code [OF body] assms(2) by (simp add: forward_def)
  have ok: "authority_ok d" unfolding assms(3) by (rule authority.fold_ok [OF ok1])
  have "code_used ?h d" unfolding assms(3)
    by (rule authority.forever [where P = "code_used ?h", OF ok1 code_used_after_exchange [OF body]])
      (rule code_used_evolves)
  note no = code_used_refused [OF ok this]
  have "exchange_code_body p u' client' ac' d = Inr (None, d)"
    unfolding exchange_code_body_def Let_def assms(4)
    using no by (auto simp: find_row_None split: option.splits dest!: find_row_Some)
  moreover have "load_authorization_code p u' client' (ac_code ac) d = Inr None"
    unfolding load_authorization_code_def using no by (auto split: option.splits dest!: find_row_Some)
  ultimately show ?thesis
    by (cases "tu_fault u' 0") (simp_all add: exchange_authorization_code_def transaction_def)
qed

lemma demo_tokens_Inr: "isl (fst demo_tokens) = False"
  by code_simp

lemma demo_active_ok: "authority_ok demo_active"
  unfolding demo_active_def using auth_run_forward demo_pending_ok forward_def by blast

theorem code_works_once_witness:
  "fst (exchange_authorization_code demo_provider (demo_turn ''x'' 65) ''client'' demo_code (snd demo_tokens))
    \<in> {Inl (TokenError ''invalid_grant''), Inl OperationalError}"
proof -
  obtain tok where "fst demo_tokens = Inr tok" using demo_tokens_Inr by (cases "fst demo_tokens") auto
  then have x: "exchange_authorization_code demo_provider (demo_turn ''t'' 60) ''client'' demo_code demo_active
      = (Inr tok, snd demo_tokens)" by (simp add: demo_tokens_def prod_eq_iff)
  have f: "snd demo_tokens = fold (auth_run demo_provider demo_lc) [] (snd demo_tokens)" by simp
  from code_works_once [OF x demo_active_ok f refl] show ?thesis by blast
qed

section \<open>Tokens\<close>

lemma find_row_unique:
  assumes "x \<in> set rs" "P x" "\<And>y. y \<in> set rs \<Longrightarrow> P y \<Longrightarrow> y = x"
  shows "find_row P rs = Some x"
proof (cases "find_row P rs")
  case None
  with assms(1,2) show ?thesis by (auto simp: find_row_None)
next
  case (Some y)
  with assms(3) find_row_Some [OF Some] show ?thesis by simp
qed

lemma token_row_intro:
  assumes ok: "authority_ok d" and t: "t \<in> set (oauth_tokens d)" "tk_token_hash t = pv_hash p token"
    "tk_token_type t = ty" "tk_revoked_at t = None" "tk_rotated_at t = None" "now < tk_expires_at t"
    and g: "g \<in> set (oauth_grants d)" "gr_id g = tk_grant_id t" "cl \<in> {None, Some (gr_client_id g)}"
  shows "token_row_of p now token ty cl d = Some (t, g)"
proof -
  from live_token [OF ok t(1,4)] unique_grant [OF ok g(1)] g(2) have live: "gr_status g = GS_active"
    "has_active_connection (gr_tenant_id g) (gr_connector_id g) (erp_connections d)" by auto
  let ?P = "\<lambda>(t, g). gr_id g = tk_grant_id t
             \<and> has_active_connection (gr_tenant_id g) (gr_connector_id g) (erp_connections d)
             \<and> tk_token_hash t = pv_hash p token \<and> tk_token_type t = ty \<and> tk_revoked_at t = None
             \<and> tk_rotated_at t = None \<and> now < tk_expires_at t \<and> gr_status g = GS_active"
  have "find_row ?P (List.product (oauth_tokens d) (oauth_grants d)) = Some (t, g)"
  proof (rule find_row_unique)
    show "(t, g) \<in> set (List.product (oauth_tokens d) (oauth_grants d))" using t g by simp
    show "?P (t, g)" using t g live by simp
    fix y assume y: "y \<in> set (List.product (oauth_tokens d) (oauth_grants d))" "?P y"
    obtain t' g' where tg: "y = (t', g')" by (cases y)
    with y(1) have m: "t' \<in> set (oauth_tokens d)" "g' \<in> set (oauth_grants d)" by simp_all
    from y(2) tg have k: "tk_token_hash t' = tk_token_hash t" "gr_id g' = tk_grant_id t'" using t(2) by simp_all
    from unique_token [OF ok m(1) t(1) k(1)] have "t' = t" .
    with unique_grant [OF ok m(2) g(1)] k(2) g(2) tg show "y = (t, g)" by simp
  qed
  with g(3) show ?thesis by (auto simp: token_row_of_def)
qed

text \<open>A token that was withdrawn stays withdrawn.\<close>

definition withdrawn :: "string \<Rightarrow> db \<Rightarrow> bool" where
  "withdrawn h d \<longleftrightarrow> (\<exists>t \<in> set (oauth_tokens d). tk_token_hash t = h \<and> (tk_revoked_at t \<noteq> None \<or> tk_rotated_at t \<noteq> None))"

lemma withdrawn_evolves:
  assumes "evolves d d'" "withdrawn h d"
  shows "withdrawn h d'"
proof -
  from assms(2) obtain t where t: "t \<in> set (oauth_tokens d)" "tk_token_hash t = h"
    "tk_revoked_at t \<noteq> None \<or> tk_rotated_at t \<noteq> None" by (auto simp: withdrawn_def)
  with assms(1) obtain t' where t': "t' \<in> set (oauth_tokens d')" "token_le t t'"
    unfolding evolves_def rows_le_def by blast
  then have "tk_token_hash t' = h" "tk_revoked_at t' \<noteq> None \<or> tk_rotated_at t' \<noteq> None"
    using t by (auto simp: token_le_def)
  with t'(1) show ?thesis unfolding withdrawn_def by blast
qed

lemma withdrawn_dead:
  assumes "authority_ok d" "withdrawn (pv_hash p token) d"
  shows "token_row_of p now token ty cl d = None"
proof (rule ccontr)
  assume "token_row_of p now token ty cl d \<noteq> None"
  then obtain t g where tg: "token_row_of p now token ty cl d = Some (t, g)" by auto
  note row = token_row_Some [OF this]
  from assms(2) obtain t' where "t' \<in> set (oauth_tokens d)" "tk_token_hash t' = pv_hash p token"
    "tk_revoked_at t' \<noteq> None \<or> tk_rotated_at t' \<noteq> None" by (auto simp: withdrawn_def)
  with unique_token [OF assms(1) row(1), of t'] row show False by auto
qed

lemma withdrawn_forever:
  assumes "authority_ok d" "withdrawn (pv_hash p token) d"
  shows "token_row_of p now token ty cl (fold (auth_run p' lc) ops d) = None"
proof (rule withdrawn_dead)
  show "authority_ok (fold (auth_run p' lc) ops d)" by (rule authority.fold_ok [OF assms(1)])
  show "withdrawn (pv_hash p token) (fold (auth_run p' lc) ops d)"
    by (rule authority.forever [where P = "withdrawn (pv_hash p token)", OF assms]) (rule withdrawn_evolves)
qed

lemma exchange_refresh_Inr:
  "exchange_refresh_token p u client rt scopes d = (Inr tok, d') \<Longrightarrow>
    exchange_refresh_body p u client rt (if scopes = [] then tv_scopes rt else scopes) d = Inr (Issued tok, d')"
  by (cases "transaction (tu_fault u 0) (exchange_refresh_body p u client rt
        (if scopes = [] then tv_scopes rt else scopes)) d")
    (auto simp: exchange_refresh_token_def Let_def transaction_def split: if_splits sum.splits refresh_outcome.splits
      db_fault.splits)

text \<open>Refreshing rotates. After a refresh token was exchanged: the old refresh token and every access
  token its grant had never load again, whatever operations follow; the two new tokens load at once, until
  they expire, for the same grant and with exactly the scopes the old token had, never more.\<close>

theorem refresh_rotates:
  assumes "exchange_refresh_token p u client rt scopes d0 = (Inr tok, d1)" "authority_ok d0"
  shows "\<exists>t g ss. token_row_of p (tu_clock u 0) (tv_token rt) Refresh (Some client) d0 = Some (t, g)
    \<and> scope_list (tk_scopes_json t) = Some ss \<and> set scopes \<subseteq> set ss
    \<and> (\<forall>now. now < tu_clock u 2 + access_token_ttl \<longrightarrow>
        (\<exists>a. token_row_of p now (ot_access_token tok) Access None d1 = Some (a, g) \<and> scope_list (tk_scopes_json a) = Some ss))
    \<and> (\<forall>now. now < tu_clock u 2 + refresh_token_ttl \<longrightarrow>
        (\<exists>r. token_row_of p now (ot_refresh_token tok) Refresh (Some client) d1 = Some (r, g)
          \<and> scope_list (tk_scopes_json r) = Some ss))
    \<and> (\<forall>p' lc ops now cl. token_row_of p now (tv_token rt) Refresh cl (fold (auth_run p' lc) ops d1) = None)
    \<and> (\<forall>a \<in> set (oauth_tokens d0). tk_grant_id a = gr_id g \<and> tk_token_type a = Access \<longrightarrow>
        (\<forall>p' lc ops now cl token. pv_hash p token = tk_token_hash a \<longrightarrow>
          token_row_of p now token Access cl (fold (auth_run p' lc) ops d1) = None))"
proof -
  let ?requested = "if scopes = [] then tv_scopes rt else scopes"
  from exchange_refresh_Inr [OF assms(1)]
  have body: "exchange_refresh_body p u client rt ?requested d0 = Inr (Issued tok, d1)" .
  have ok: "authority_ok d1" using forward_exchange_refresh [OF body] assms(2) by (simp add: forward_def)
  from exchange_refresh_steps [OF body] show ?thesis
  proof (elim exE conjE)
    fix t g persisted n1 e1 n2 e2
    assume t: "token_row_of p (tu_clock u 0) (tv_token rt) Refresh (Some client) d0 = Some (t, g)"
      and ss: "parse_string_tuple (tk_scopes_json t) = Inr persisted" "set ?requested \<subseteq> set persisted"
      and 1: "update_tokens (\<lambda>q. tk_token_hash q = pv_hash p (tv_token rt)) (\<lambda>q. q\<lparr>tk_rotated_at := Some (tu_clock u 1)\<rparr>) d0
        = Inr (n1, e1)"
      and 2: "update_tokens (\<lambda>q. tk_grant_id q = tk_grant_id t \<and> tk_token_type q = Access \<and> tk_revoked_at q = None)
        (\<lambda>q. q\<lparr>tk_revoked_at := Some (tu_clock u 1)\<rparr>) e1 = Inr (n2, e2)"
      and 3: "issue_tokens p (tu_clock u 2) (tu_random u 0) (tu_random u 1) (tk_grant_id t) persisted e2 = Inr (tok, d1)"
    note row = token_row_Some [OF t]
    from issue_tokens_Inr [OF 3] obtain j a r where j: "json_strings persisted = Inr j"
      and d1: "d1 = e2\<lparr>oauth_tokens := oauth_tokens e2 @ [a, r]\<rparr>"
      and new: "tk_token_hash a = pv_hash p (ot_access_token tok)" "tk_token_hash r = pv_hash p (ot_refresh_token tok)"
        "tk_grant_id a = tk_grant_id t" "tk_grant_id r = tk_grant_id t" "tk_token_type a = Access" "tk_token_type r = Refresh"
        "tk_scopes_json a = j" "tk_scopes_json r = j" "tk_expires_at a = tu_clock u 2 + access_token_ttl"
        "tk_expires_at r = tu_clock u 2 + refresh_token_ttl" "tk_revoked_at a = None" "tk_revoked_at r = None"
        "tk_rotated_at a = None" "tk_rotated_at r = None"
      by auto
    have g: "g \<in> set (oauth_grants d1)"
      using row(2) update_tokens_frame [OF 1] update_tokens_frame [OF 2] d1 by simp
    have list: "scope_list (tk_scopes_json t) = Some persisted" "scope_list j = Some persisted"
      using ss(1) j parse_string_tuple_text(2) [of persisted] by (auto simp: scope_list_def json_strings_def simp del: json_text.simps)
    have tokens: "a \<in> set (oauth_tokens d1)" "r \<in> set (oauth_tokens d1)" using d1 by simp_all
    have old: "withdrawn (pv_hash p (tv_token rt)) d1"
    proof -
      let ?t = "t\<lparr>tk_rotated_at := Some (tu_clock u 1)\<rparr>"
      have "?t \<in> set (oauth_tokens e1)"
        using 1 row_updated [OF row(1), of "\<lambda>q. tk_token_hash q = pv_hash p (tv_token rt)"
          "\<lambda>q. q\<lparr>tk_rotated_at := Some (tu_clock u 1)\<rparr>"] row(4) by (simp add: update_tokens_Inr)
      then have "?t \<in> set (oauth_tokens e2)"
        using 2 row(5) row_kept [of ?t "oauth_tokens e1" "\<lambda>q. tk_grant_id q = tk_grant_id t \<and> tk_token_type q = Access
          \<and> tk_revoked_at q = None"] by (simp add: update_tokens_Inr)
      then show ?thesis using row(4) unfolding withdrawn_def d1
        by (intro bexI [of _ "t\<lparr>tk_rotated_at := Some (tu_clock u 1)\<rparr>"]) simp_all
    qed
    have access: "withdrawn (tk_token_hash b) d1"
      if b: "b \<in> set (oauth_tokens d0)" "tk_grant_id b = gr_id g" "tk_token_type b = Access" for b
    proof -
      have "b \<noteq> t" using b(3) row(5) by auto
      then have "tk_token_hash b \<noteq> tk_token_hash t" using unique_token [OF assms(2) b(1) row(1)] by blast
      then have e1: "b \<in> set (oauth_tokens e1)"
        using 1 row_kept [OF b(1), of "\<lambda>q. tk_token_hash q = pv_hash p (tv_token rt)"] row(4)
        by (simp add: update_tokens_Inr)
      let ?P = "\<lambda>q. tk_grant_id q = tk_grant_id t \<and> tk_token_type q = Access \<and> tk_revoked_at q = None"
      let ?b = "if tk_revoked_at b = None then b\<lparr>tk_revoked_at := Some (tu_clock u 1)\<rparr> else b"
      have "?b \<in> set (oauth_tokens e2)"
        using 2 row_updated [OF e1, of ?P "\<lambda>q. q\<lparr>tk_revoked_at := Some (tu_clock u 1)\<rparr>"] row_kept [OF e1, of ?P] b(2,3) row(3)
        by (simp add: update_tokens_Inr)
      then have "?b \<in> set (oauth_tokens d1)" unfolding d1 by simp
      then show ?thesis unfolding withdrawn_def by (rule rev_bexI) simp
    qed
    have "token_row_of p now (ot_access_token tok) Access None d1 = Some (a, g)"
      if "now < tu_clock u 2 + access_token_ttl" for now
      by (rule token_row_intro [OF ok tokens(1)]) (use that new g row(3) in simp_all)
    moreover have "token_row_of p now (ot_refresh_token tok) Refresh (Some client) d1 = Some (r, g)"
      if "now < tu_clock u 2 + refresh_token_ttl" for now
      by (rule token_row_intro [OF ok tokens(2)]) (use that new g row(3,11) in simp_all)
    moreover have "set scopes \<subseteq> set persisted" using ss(2) by (auto split: if_splits)
    moreover have "token_row_of p now token Access cl (fold (auth_run p' lc) ops d1) = None"
      if "b \<in> set (oauth_tokens d0)" "tk_grant_id b = gr_id g" "tk_token_type b = Access"
        "pv_hash p token = tk_token_hash b" for b p' lc ops now cl token
      by (rule withdrawn_forever [OF ok]) (simp add: that(4) access [OF that(1-3)])
    ultimately show ?thesis
      using t list new(7,8) withdrawn_forever [OF ok old]
      by (intro exI [of _ t] exI [of _ g] exI [of _ persisted]) simp
  qed
qed

definition demo_refresh_view :: token_view where
  "demo_refresh_view = \<lparr>tv_token = ''t1'', tv_client_id = ''client'', tv_scopes = [''read'', ''write''],
     tv_expires_at = 2592000, tv_resource = ''https://mcp/api'', tv_subject = ''k''\<rparr>"

definition demo_refreshed :: "oauth_token res \<times> db" where
  "demo_refreshed = exchange_refresh_token demo_provider (demo_turn ''r'' 80) ''client'' demo_refresh_view [''read''] demo_used"

lemma demo_refreshed_Inr: "fst demo_refreshed = Inr \<lparr>ot_access_token = ''r0'', ot_refresh_token = ''r1'',
    ot_expires_in = 3600, ot_scope = ''read write''\<rparr>"
  by code_simp

theorem refresh_rotates_witness:
  "(\<exists>a g. token_row_of demo_provider 90 ''r0'' Access None (snd demo_refreshed) = Some (a, g))
    \<and> token_row_of demo_provider 90 ''t1'' Refresh None (snd demo_refreshed) = None"
proof -
  have x: "exchange_refresh_token demo_provider (demo_turn ''r'' 80) ''client'' demo_refresh_view [''read''] demo_used
      = (Inr \<lparr>ot_access_token = ''r0'', ot_refresh_token = ''r1'', ot_expires_in = 3600, ot_scope = ''read write''\<rparr>,
         snd demo_refreshed)"
    using demo_refreshed_Inr by (simp add: demo_refreshed_def prod_eq_iff)
  have late: "(90::int) < tu_clock (demo_turn ''r'' 80) 2 + access_token_ttl" by code_simp
  have v: "tv_token demo_refresh_view = ''t1''" by (simp add: demo_refresh_view_def)
  from refresh_rotates [OF x demo_used_ok] show ?thesis
  proof (elim exE conjE)
    fix t g ss
    assume a: "\<forall>now. now < tu_clock (demo_turn ''r'' 80) 2 + access_token_ttl \<longrightarrow>
        (\<exists>a. token_row_of demo_provider now (ot_access_token \<lparr>ot_access_token = ''r0'', ot_refresh_token = ''r1'',
            ot_expires_in = 3600, ot_scope = ''read write''\<rparr>) Access None (snd demo_refreshed) = Some (a, g)
          \<and> scope_list (tk_scopes_json a) = Some ss)"
      and b: "\<forall>p' lc ops now cl. token_row_of demo_provider now (tv_token demo_refresh_view) Refresh cl
        (fold (auth_run p' lc) ops (snd demo_refreshed)) = None"
    have f: "snd demo_refreshed = fold (auth_run demo_provider demo_lc) [] (snd demo_refreshed)" by simp
    have "token_row_of demo_provider 90 ''t1'' Refresh None (snd demo_refreshed) = None"
      using b [rule_format, of 90 None demo_provider demo_lc "[]"] v by simp
    moreover have "\<exists>a g. token_row_of demo_provider 90 ''r0'' Access None (snd demo_refreshed) = Some (a, g)"
      using a [rule_format, OF late] by auto
    ultimately show ?thesis by simp
  qed
qed

text \<open>C17 (a request gets what was granted, and no more). The identity the resource server derives from an
  access token rests on a stored row of that very token, an access token that is neither revoked nor rotated and
  has not expired at the time of the call; the row belongs to an active grant on an active connector with a
  complete company selection. Tenant, connector and client of the identity are those of the grant, and its
  permissions are exactly the scopes of the token that the tool registry knows, all of them scopes of the grant.\<close>

theorem token_authority_is_granted:
  assumes "authorization_for_access_token p u token d = Inr (Some a)" "authority_ok d"
  shows "\<exists>t \<in> set (oauth_tokens d). \<exists>g \<in> set (oauth_grants d). \<exists>c \<in> set (erp_connections d). \<exists>ts gs.
      tk_token_hash t = pv_hash p token \<and> tk_token_type t = Access \<and> tk_revoked_at t = None \<and> tk_rotated_at t = None
    \<and> tu_clock u 0 < tk_expires_at t \<and> tk_grant_id t = gr_id g
    \<and> gr_status g = GS_active \<and> gr_tenant_id g = ca_tenant_id a \<and> gr_connector_id g = ca_connection_id a
    \<and> gr_client_id g = ca_mcp_client a
    \<and> is_connection (ca_tenant_id a) (ca_connection_id a) c \<and> cn_status c = CS_active \<and> selection_complete c
    \<and> scope_list (tk_scopes_json t) = Some ts \<and> ca_permissions a = filter (\<lambda>s. s \<in> set (pv_valid_scopes p)) ts
    \<and> scope_list (gr_scopes_json g) = Some gs \<and> set ts \<subseteq> set gs"
proof -
  from assms(1) obtain t g ss where tg: "token_row_of p (tu_clock u 0) token Access None d = Some (t, g)"
    and ss: "parse_string_tuple (tk_scopes_json t) = Inr ss"
    and a: "ca_tenant_id a = gr_tenant_id g" "ca_connection_id a = gr_connector_id g" "ca_mcp_client a = gr_client_id g"
      "ca_permissions a = filter (\<lambda>s. s \<in> set (pv_valid_scopes p)) ss"
    by (auto simp: authorization_for_access_token_def split: option.splits)
  note row = token_row_Some [OF tg]
  from live_token [OF assms(2) row(1,6)] unique_grant [OF assms(2) row(2)] row(3) have "scopes_within t g" by auto
  then obtain gs where gs: "scope_list (gr_scopes_json g) = Some gs" "set ss \<subseteq> set gs"
    using ss by (auto simp: scopes_within_def scope_list_def split: option.splits sum.splits)
  have ts: "scope_list (tk_scopes_json t) = Some ss" using ss by (simp add: scope_list_def)
  from row(10) obtain c where c: "c \<in> set (erp_connections d)" "is_connection (gr_tenant_id g) (gr_connector_id g) c"
    "cn_status c = CS_active" by (auto simp: has_active_connection_def)
  with authority_okD(5) [OF assms(2) c(1)] have "selection_complete c" by (simp add: connection_ok_def)
  with c gs ts a row show ?thesis
    by (intro bexI [of _ t] bexI [of _ g] bexI [of _ c] exI [of _ ss] exI [of _ gs]) simp_all
qed

lemma demo_identity: "authorization_for_access_token demo_provider (demo_turn ''q'' 61) ''t0'' demo_used
    = Inr (Some (demo_authorization\<lparr>ca_permissions := [''read'', ''write'']\<rparr>))"
  by code_simp

theorem token_authority_is_granted_witness:
  "\<exists>t \<in> set (oauth_tokens demo_used). tk_token_hash t = pv_hash demo_provider ''t0'' \<and> tk_revoked_at t = None
    \<and> tu_clock (demo_turn ''q'' 61) 0 < tk_expires_at t"
  using token_authority_is_granted [OF demo_identity demo_used_ok] by blast

section \<open>Activation\<close>

lemma supersede_effect:
  assumes "supersede p now an rid (Some i) d = Inr (x, d')"
  shows "erp_connections d' = erp_connections (revoked_db now i d)" "oauth_grants d' = oauth_grants (revoked_db now i d)"
    "oauth_sessions d' = oauth_sessions d"
proof -
  from assms obtain d1 where 1: "revoke_connector_in_transaction now i d = Inr ((), d1)"
    and 2: "auth_tables d' = auth_tables d1"
    by (auto simp: supersede_def Let_def append_operation_tables split: option.splits)
  from revoke_effect [OF 1] 2
  show "erp_connections d' = erp_connections (revoked_db now i d)" "oauth_grants d' = oauth_grants (revoked_db now i d)"
    "oauth_sessions d' = oauth_sessions d" by (simp_all add: auth_tables_def revoked_db_def)
qed

lemma supersede_other:
  assumes "supersede p now an rid s d = Inr (x, d')" "s \<noteq> Some i"
  shows "g \<in> set (oauth_grants d) \<Longrightarrow> gr_connector_id g = i \<Longrightarrow> g \<in> set (oauth_grants d')"
proof (cases s)
  case None
  with assms show "g \<in> set (oauth_grants d) \<Longrightarrow> gr_connector_id g = i \<Longrightarrow> g \<in> set (oauth_grants d')"
    by (simp add: supersede_def)
next
  case (Some j)
  with assms(2) have "j \<noteq> i" by simp
  with supersede_effect(2) [OF assms(1) [unfolded Some]]
  show "g \<in> set (oauth_grants d) \<Longrightarrow> gr_connector_id g = i \<Longrightarrow> g \<in> set (oauth_grants d')"
    by (auto simp: revoked_db_def live_grant_def intro: row_kept)
qed

lemma revoked_db_no_active: "\<not> has_active_connection t i (erp_connections (revoked_db now i d))"
proof -
  have "\<not> has_active_connection t i (update_rows (live_connection i)
      (\<lambda>c. c\<lparr>cn_status := CS_revoked, cn_revoked_at := Some now, cn_updated_at := now\<rparr>) cs)" for cs
    by (induction cs)
      (simp_all add: has_active_connection_simps update_rows_def is_connection_def live_connection_def)
  then show ?thesis by (simp add: revoked_db_def)
qed

text \<open>Activation needs consent and a complete enrollment, and is atomic. Whatever happens to its
  transaction, an activation either leaves the database as it was and raises, or the user consented, the
  session was pending and in time, and its connector was pending, in time and had its companies selected;
  then the session is authorized under the code's hash, the connector has an active grant with exactly the
  session's client and scopes, and the connector it supersedes has no active row any more. The code is
  handed out only in that case.\<close>

theorem activation_is_guarded:
  assumes "activate_connector p u session consent d = (r, d')" "authority_ok d"
  shows "(d' = d \<and> isl r) \<or>
    (\<exists>s c. consent \<and> s \<in> set (oauth_sessions d) \<and> se_state_hash s = pv_hash p session \<and> se_status s = SS_pending
      \<and> tu_clock u 0 < se_expires_at s \<and> se_connector_id s = Some (cn_id c)
      \<and> c \<in> set (erp_connections d) \<and> cn_status c = CS_pending \<and> cn_allowed_company_ids_json c \<noteq> None
      \<and> cn_default_company_id c \<noteq> None \<and> (\<exists>x. cn_enrollment_expires_at c = Some x \<and> tu_clock u 0 < x)
      \<and> (\<exists>s' \<in> set (oauth_sessions d'). se_state_hash s' = se_state_hash s \<and> se_status s' = SS_authorized
          \<and> se_authorization_code_hash s' = Some (pv_hash p (tu_random u 0)))
      \<and> (se_superseded_connector_id s \<noteq> Some (cn_id c) \<longrightarrow>
          has_active_connection (cn_tenant_id c) (cn_id c) (erp_connections d')
          \<and> (\<exists>g \<in> set (oauth_grants d'). gr_tenant_id g = cn_tenant_id c \<and> gr_connector_id g = cn_id c
              \<and> gr_client_id g = se_client_id s \<and> gr_scopes_json g = se_scopes_json s \<and> gr_status g = GS_active))
      \<and> (\<forall>i t. se_superseded_connector_id s = Some i \<longrightarrow> \<not> has_active_connection t i (erp_connections d'))
      \<and> (r = Inr (se_redirect_uri s, tu_random u 0, se_client_state s) \<or> r = Inl OperationalError))"
proof (cases "d' = d \<and> isl r")
  case False
  have raise: "d' = d \<and> isl r" if "isl (activate_body p u session d) \<or> \<not> consent \<or> tu_fault u 0 = Rolls_back"
    using that assms(1) by (cases "activate_body p u session d")
      (auto simp: activate_connector_def transaction_def split: if_splits db_fault.splits)
  with False obtain row where consent and body: "activate_body p u session d = Inr (row, d')"
    and r: "r = Inr (se_redirect_uri row, tu_random u 0, se_client_state row) \<or> r = Inl OperationalError"
    using assms(1) by (cases "activate_body p u session d")
      (auto simp: activate_connector_def transaction_def split: if_splits db_fault.splits)
  have ok: "authority_ok d'" using forward_activate [OF body] assms(2) by (simp add: forward_def)
  from activate_steps [OF body] show ?thesis
  proof (elim exE conjE)
    fix c d1 n d2 d3 d4 m
    assume c: "pending_connector (tu_clock u 0) (session_by_state (pv_hash p session) d) d = Inr (row, c)"
      and 1: "insert_grant (new_grant u row c) d = Inr ((), d1)"
      and 2: "update_connections (\<lambda>q. is_connection (cn_tenant_id c) (cn_id c) q \<and> cn_status q = CS_pending)
        (activated (tu_clock u 0)) d1 = Inr (n, d2)"
      and 3: "append_operation p (tu_clock u 1) (tu_random u 2) (cn_tenant_id c) ''activate_connector'' (cn_id c) d2 = Inr ((), d3)"
      and 4: "supersede p (tu_clock u 0) (tu_clock u 2) (tu_random u 3) (se_superseded_connector_id row) d3 = Inr ((), d4)"
      and 5: "update_sessions (\<lambda>s. se_state_hash s = pv_hash p session \<and> se_status s = SS_pending)
        (\<lambda>s. s\<lparr>se_authorization_code_hash := Some (pv_hash p (tu_random u 0)), se_status := SS_authorized\<rparr>) d4 = Inr (m, d')"
    note pc = pending_connector_Inr [OF c]
    from pc(1) find_row_Some have s: "row \<in> set (oauth_sessions d)" "se_state_hash row = pv_hash p session"
      by (fastforce simp: session_by_state_def)+
    have same: "oauth_sessions d3 = oauth_sessions d" "oauth_grants d3 = oauth_grants d1"
      using 1 2 append_operation_tables [OF 3] by (auto simp: insert_grant_Inr update_connections_Inr auth_tables_def)
    have ss4: "oauth_sessions d4 = oauth_sessions d"
      using 4 same(1) supersede_effect(3) by (cases "se_superseded_connector_id row") (auto simp: supersede_def)
    have session: "\<exists>s' \<in> set (oauth_sessions d'). se_state_hash s' = se_state_hash row \<and> se_status s' = SS_authorized
          \<and> se_authorization_code_hash s' = Some (pv_hash p (tu_random u 0))"
    proof (rule bexI)
      let ?s = "row\<lparr>se_authorization_code_hash := Some (pv_hash p (tu_random u 0)), se_status := SS_authorized\<rparr>"
      show "?s \<in> set (oauth_sessions d')"
        using 5 row_updated [of row "oauth_sessions d4" "\<lambda>s. se_state_hash s = pv_hash p session \<and> se_status s = SS_pending"
          "\<lambda>s. s\<lparr>se_authorization_code_hash := Some (pv_hash p (tu_random u 0)), se_status := SS_authorized\<rparr>"]
          s pc(2) ss4 by (simp add: update_sessions_Inr)
    qed simp
    have grant: "new_grant u row c \<in> set (oauth_grants d')" if "se_superseded_connector_id row \<noteq> Some (cn_id c)"
      using supersede_other [OF 4 that, of "new_grant u row c"] 1 same(2) update_sessions_frame [OF 5]
      by (simp add: insert_grant_Inr new_grant_def)
    have dead: "\<not> has_active_connection t i (erp_connections d')" if "se_superseded_connector_id row = Some i" for i t
      using supersede_effect(1) [OF 4 [unfolded that]] update_sessions_frame [OF 5] by (simp add: revoked_db_no_active)
    have live: "has_active_connection (cn_tenant_id c) (cn_id c) (erp_connections d')
        \<and> (\<exists>g \<in> set (oauth_grants d'). gr_tenant_id g = cn_tenant_id c \<and> gr_connector_id g = cn_id c
            \<and> gr_client_id g = se_client_id row \<and> gr_scopes_json g = se_scopes_json row \<and> gr_status g = GS_active)"
      if "se_superseded_connector_id row \<noteq> Some (cn_id c)"
    proof -
      note g = grant [OF that]
      have "has_active_grant (cn_tenant_id c) (cn_id c) (oauth_grants d')"
        unfolding has_active_grant_def by (rule bexI [OF _ g]) (simp add: new_grant_def)
      from grant_has_connection [OF ok this] show ?thesis
        by (rule conjI) (rule bexI [OF _ g], simp add: new_grant_def)
    qed
    show ?thesis
      using \<open>consent\<close> s pc(2-9) session live dead r by (intro disjI2 exI [of _ row] exI [of _ c]) blast
  qed
qed simp

lemma demo_activation: "isl (fst (activate_connector demo_provider (demo_turn ''a'' 50) ''s'' True demo_pending)) = False"
  by code_simp

theorem activation_is_guarded_witness:
  "\<exists>s \<in> set (oauth_sessions (snd (activate_connector demo_provider (demo_turn ''a'' 50) ''s'' True demo_pending))).
     se_status s = SS_authorized"
  using activation_is_guarded [of demo_provider "demo_turn ''a'' 50" "''s''" True demo_pending, OF prod.collapse [symmetric]
    demo_pending_ok] demo_activation by blast

end
