(* ===== verification/ConnectionProps.thy ===== *)
theory ConnectionProps
  imports AuthProps
begin

text \<open>
  What enrollment and encrypted storage promise: handles are used once, a ciphertext belongs to one row,
  key rotation keeps the secret, and the settings of an activated connector are the enrolled ones.
\<close>

section \<open>Enrollment handles\<close>

lemma distinct_rows: "unique_connections cs \<Longrightarrow> distinct cs"
  by (auto simp: unique_connections_def distinct_map)

lemma unique_consumed:
  assumes "unique_connections cs" "a \<in> set cs" "b \<in> set cs"
    "cn_consumed_enrollment_handle_hash a = Some h" "cn_consumed_enrollment_handle_hash b = Some h"
  shows "a = b"
  by (rule distinct_somesD [of cn_consumed_enrollment_handle_hash, OF _ assms(2-5) distinct_rows [OF assms(1)]])
    (use assms(1) in \<open>simp add: unique_connections_def\<close>)

text \<open>An enrollment handle is consumed once. Once a connector has consumed a handle, any later commit
  of that handle changes nothing; it returns only if it names the same companies, and then it returns that
  connector and its stored selection. A second connector prepared with the same handle cannot consume it.\<close>

theorem handle_is_consumed_once:
  assumes "authority_ok d" "c \<in> set (erp_connections d)"
    and "cn_consumed_enrollment_handle_hash c = Some (lc_hash lc handle)"
    and "commit_enrollment lc u handle allowed dflt d = (r, d')"
  shows "d' = d \<and> (r = Inr ce \<longrightarrow> ce_connector_id ce = cn_id c \<and> ce_tenant_id ce = cn_tenant_id c
    \<and> positive_ids (cn_allowed_company_ids_json c) = Inr (ce_allowed_company_ids ce)
    \<and> cn_default_company_id c = Some (ce_default_company_id ce) \<and> cn_status c = CS_pending)"
proof -
  have u: "unique_connections (erp_connections d)" by (rule authority_okD(1) [OF assms(1)])
  have repeat: "e = d \<and> ce_connector_id x = cn_id c \<and> ce_tenant_id x = cn_tenant_id c
      \<and> positive_ids (cn_allowed_company_ids_json c) = Inr (ce_allowed_company_ids x)
      \<and> cn_default_company_id c = Some (ce_default_company_id x) \<and> cn_status c = CS_pending"
    if body: "commit_body lc u handle selected dflt d = Inr (x, e)" for selected x e
    using commit_steps [OF body]
  proof (elim exE conjE)
    fix q discovered
    assume q: "find_row (same_handle (lc_hash lc handle)) (erp_connections d) = Some q" "cn_status q = CS_pending"
      and x: "x = \<lparr>ce_connector_id = cn_id q, ce_tenant_id = cn_tenant_id q, ce_allowed_company_ids = selected,
            ce_default_company_id = dflt\<rparr>"
      and "if": "if cn_consumed_enrollment_handle_hash q \<noteq> None
       then positive_ids (cn_allowed_company_ids_json q) = Inr selected \<and> cn_default_company_id q = Some dflt \<and> e = d
       else \<exists>allowed n d1. canonical_json (PList (map PInt selected)) = Inr allowed
         \<and> update_connections (\<lambda>r. is_connection (cn_tenant_id q) (cn_id q) r \<and> cn_status r = CS_pending)
             (\<lambda>r. r\<lparr>cn_allowed_company_ids_json := Some allowed, cn_default_company_id := Some dflt,
                    cn_enrollment_handle_hash := None,
                    cn_consumed_enrollment_handle_hash := Some (lc_hash lc handle),
                    cn_updated_at := tu_clock u 1\<rparr>) d = Inr (n, d1)
         \<and> append_lifecycle lc (tu_clock u 2) (tu_random u 0) (cn_tenant_id q) ''commit_enrollment'' (cn_id q) d1
             = Inr ((), e)"
    from find_row_Some [OF q(1)] have qs: "q \<in> set (erp_connections d)"
      "cn_enrollment_handle_hash q = Some (lc_hash lc handle)
        \<or> cn_consumed_enrollment_handle_hash q = Some (lc_hash lc handle)" by (auto simp: same_handle_def)
    show ?thesis
    proof (cases "cn_consumed_enrollment_handle_hash q")
      case (Some h)
      with qs authority_okD(5) [OF assms(1) qs(1)] have "cn_consumed_enrollment_handle_hash q = Some (lc_hash lc handle)"
        by (auto simp: connection_ok_def handle_ok_def)
      with unique_consumed [OF u qs(1) assms(2) _ assms(3)] have "q = c" by blast
      with "if" Some x q(2) show ?thesis by simp
    next
      case None
      let ?P = "\<lambda>r. is_connection (cn_tenant_id q) (cn_id q) r \<and> cn_status r = CS_pending"
      from "if" None obtain allowed n d1 where upd: "update_connections ?P
             (\<lambda>r. r\<lparr>cn_allowed_company_ids_json := Some allowed, cn_default_company_id := Some dflt,
                    cn_enrollment_handle_hash := None,
                    cn_consumed_enrollment_handle_hash := Some (lc_hash lc handle),
                    cn_updated_at := tu_clock u 1\<rparr>) d = Inr (n, d1)" by auto
      let ?f = "\<lambda>r. r\<lparr>cn_allowed_company_ids_json := Some allowed, cn_default_company_id := Some dflt,
                    cn_enrollment_handle_hash := None,
                    cn_consumed_enrollment_handle_hash := Some (lc_hash lc handle),
                    cn_updated_at := tu_clock u 1\<rparr>"
      have "c \<noteq> q" using None assms(3) by auto
      then have "\<not> ?P c" using unique_key [OF u assms(2) qs(1)] by (auto simp: key_eq)
      then have 1: "c \<in> set (update_rows ?P ?f (erp_connections d))" by (intro row_kept assms(2))
      have 2: "?f q \<in> set (update_rows ?P ?f (erp_connections d))"
        by (intro row_updated qs(1)) (simp add: q(2) is_connection_def)
      have "unique_connections (update_rows ?P ?f (erp_connections d))" using upd by (simp add: update_connections_Inr)
      from unique_consumed [OF this 1 2 assms(3)] have "c = ?f q" by simp
      then have "connection_key c = connection_key q" by (simp add: connection_key_def)
      with unique_key [OF u assms(2) qs(1)] \<open>c \<noteq> q\<close> show ?thesis by simp
    qed
  qed
  show ?thesis
  proof (cases "first_occurrences allowed = [] \<or> list_ex (\<lambda>i. i \<le> 0) (first_occurrences allowed)
      \<or> dflt \<notin> set (first_occurrences allowed)")
    case True
    with assms(4) show ?thesis by (auto simp: commit_enrollment_def Let_def)
  next
    case False
    with assms(4) have "transaction (tu_fault u 0) (commit_body lc u handle (first_occurrences allowed) dflt) d = (r, d')"
      by (simp add: commit_enrollment_def Let_def)
    with repeat show ?thesis
      by (auto simp: transaction_def split: db_fault.splits sum.splits)
  qed
qed

definition demo_committed :: "committed_enrollment res" where
  "demo_committed = fst (commit_enrollment demo_lc (demo_turn ''f'' 35) ''handle'' [2, 1, 2] 1 demo_pending)"

lemma demo_committed_Inr: "demo_committed = Inr \<lparr>ce_connector_id = ''k'', ce_tenant_id = ''connector:k'',
    ce_allowed_company_ids = [2, 1], ce_default_company_id = 1\<rparr>"
  by code_simp

theorem handle_is_consumed_once_witness:
  "snd (commit_enrollment demo_lc (demo_turn ''f'' 35) ''handle'' [2, 1, 2] 1 demo_pending) = demo_pending
    \<and> positive_ids (cn_allowed_company_ids_json demo_connection) = Inr [2, 1]"
proof -
  have c: "demo_connection \<in> set (erp_connections demo_pending)" by (simp add: demo_pending_def)
  have h: "cn_consumed_enrollment_handle_hash demo_connection = Some (lc_hash demo_lc ''handle'')"
    by (simp add: demo_connection_def demo_lc_def)
  from handle_is_consumed_once [OF demo_pending_ok c h prod.collapse [symmetric], of "demo_turn ''f'' 35" "[2, 1, 2]" 1]
  show ?thesis using demo_committed_Inr unfolding demo_committed_def by fastforce
qed

section \<open>Ciphertexts\<close>

text \<open>What the code relies on: decryption accepts exactly what encryption gives for the same key, nonce and
  associated data, and adds a tag of 16 bytes.\<close>

definition cipher_law :: "cipher \<Rightarrow> bool" where
  "cipher_law ae \<longleftrightarrow> (\<forall>k n c a p. (ae_decrypt ae k n c a = Some p) = (c = ae_encrypt ae k n p a))
     \<and> (\<forall>k n p a. length (ae_encrypt ae k n p a) = length p + 16)"

lemma demo_cipher_law: "cipher_law demo_cipher"
proof -
  have t: "length (demo_tag a) = 16" for a by (simp add: demo_tag_def)
  have "(16 \<le> length c \<and> drop (length c - 16) c = demo_tag a \<and> take (length c - 16) c = p) = (c = p @ demo_tag a)" for c p a
    using t [of a] by (metis add_diff_cancel_right' append_eq_conv_conj append_take_drop_id length_append le_add2)
  moreover have "((if b then Some x else None) = Some p) \<longleftrightarrow> b \<and> x = p" for b x and p :: string by simp
  ultimately show ?thesis using t unfolding cipher_law_def demo_cipher_def cipher.simps
    by (auto simp only: length_append)
qed

lemma encrypt_Inr:
  "encrypt ae kr nonce t i p = Inr (ct, v) \<longleftrightarrow> v = kr_active_version kr
    \<and> (\<exists>ad key. associated_data t i v = Inr ad \<and> map_of (kr_keys kr) v = Some key
        \<and> ct = b64_encode (nonce @ ae_encrypt ae key nonce p ad))"
  by (auto simp: encrypt_def split: option.splits)

lemma decrypt_Inr:
  "decrypt ae kr t i ct v = Inr p \<longleftrightarrow> utf8_ok p \<and> (\<exists>key combined ad. map_of (kr_keys kr) v = Some key
    \<and> b64_decode ct = Some combined \<and> 29 \<le> length combined \<and> associated_data t i v = Inr ad
    \<and> ae_decrypt ae key (take 12 combined) (drop 12 combined) ad = Some p)"
  by (auto simp: decrypt_def not_less split: option.splits sum.splits)

lemma decrypt_nonempty:
  assumes "cipher_law ae" "decrypt ae kr t i ct v = Inr p"
  shows "p \<noteq> []"
proof
  assume "p = []"
  from assms obtain key combined ad where l: "29 \<le> length combined"
    and e: "drop 12 combined = ae_encrypt ae key (take 12 combined) p ad"
    by (auto simp: decrypt_Inr cipher_law_def)
  from assms(1) have "length (ae_encrypt ae key (take 12 combined) p ad) = length p + 16"
    by (simp add: cipher_law_def)
  then have "length combined - 12 = 16" using arg_cong [OF e, of length] \<open>p = []\<close> by simp
  with l show False by simp
qed

lemma decrypt_encrypted:
  assumes "cipher_law ae" "encrypt ae kr nonce t i p = Inr (ct, v)" "length nonce = 12" "p \<noteq> []" "utf8_ok p"
  shows "decrypt ae kr t i ct v = Inr p"
  using assms by (cases p) (auto simp: encrypt_Inr decrypt_Inr b64_round_trip cipher_law_def)

lemma associated_data_total: "\<exists>ad. associated_data t i v = Inr ad"
  by (simp add: associated_data_def canonical_json_def)

lemma associated_data_inject:
  assumes "associated_data t i v = Inr ad" "associated_data t' i' v' = Inr ad"
  shows "t = t' \<and> i = i' \<and> v = v'"
proof -
  let ?d = "\<lambda>t i v. PDict [(''connection_id'', PStr i), (''key_version'', PInt v), (''tenant_id'', PStr t)]"
  have w: "serialisable (?d t i v)" "wf_val (?d t i v)" for t i v by (simp_all add: keys_def)
  have "json_text (?d t i v) = json_text (?d t' i' v')"
    using assms by (simp add: associated_data_def del: json_text.simps)
  then have "norm_val (?d t i v) = norm_val (?d t' i' v')"
    using norm_eq_iff_text_eq [OF w w] by (simp del: json_text.simps)
  moreover have "norm_val (?d t i v) = ?d t i v" for t i v by code_simp
  ultimately show ?thesis by simp
qed

text \<open>C18 (a ciphertext belongs to its row). What \<open>encrypt\<close> wrote for a tenant, a connector and the active
  key version decrypts there to the same text, under any keyring that still has that key. Copied to another
  tenant, another connector or another version it decrypts to nothing, unless the cipher gives one ciphertext for the
  associated data of these two rows, which are different texts, under their keys and this nonce.\<close>

theorem ciphertext_belongs_to_row:
  assumes "cipher_law ae" "encrypt ae kr nonce t i p = Inr (ct, v)" "length nonce = 12" "p \<noteq> []" "utf8_ok p"
  shows "(map_of (kr_keys kr') v = map_of (kr_keys kr) v \<longrightarrow> decrypt ae kr' t i ct v = Inr p)
    \<and> (decrypt ae kr' t' i' ct v' = Inr p' \<longrightarrow> (t', i', v') = (t, i, v)
        \<or> (\<exists>key key' a a'. map_of (kr_keys kr) v = Some key \<and> map_of (kr_keys kr') v' = Some key'
            \<and> associated_data t i v = Inr a \<and> associated_data t' i' v' = Inr a' \<and> a \<noteq> a'
            \<and> ae_encrypt ae key nonce p a = ae_encrypt ae key' nonce p' a'))"
proof (intro conjI impI)
  assume "map_of (kr_keys kr') v = map_of (kr_keys kr) v"
  with decrypt_encrypted [OF assms] show "decrypt ae kr' t i ct v = Inr p" by (simp add: decrypt_def)
next
  assume d: "decrypt ae kr' t' i' ct v' = Inr p'"
  from assms(2) obtain ad key where e: "associated_data t i v = Inr ad"
    "ct = b64_encode (nonce @ ae_encrypt ae key nonce p ad)" "map_of (kr_keys kr) v = Some key" by (auto simp: encrypt_Inr)
  from d e(2) assms(1,3) obtain key' ad' where d': "associated_data t' i' v' = Inr ad'"
    "ae_encrypt ae key nonce p ad = ae_encrypt ae key' nonce p' ad'" "map_of (kr_keys kr') v' = Some key'"
    by (auto simp: decrypt_Inr b64_round_trip cipher_law_def)
  show "(t', i', v') = (t, i, v) \<or> (\<exists>key key' a a'. map_of (kr_keys kr) v = Some key \<and> map_of (kr_keys kr') v' = Some key'
            \<and> associated_data t i v = Inr a \<and> associated_data t' i' v' = Inr a' \<and> a \<noteq> a'
            \<and> ae_encrypt ae key nonce p a = ae_encrypt ae key' nonce p' a')"
  proof (cases "ad = ad'")
    case True
    with associated_data_inject [OF e(1)] d'(1) show ?thesis by simp
  qed (use d' e in blast)
qed

lemma demo_encrypt: "encrypt demo_cipher demo_keyring (replicate 12 CHR ''n'') ''connector:k'' ''k'' ''secret''
    = Inr (demo_secret, 1)"
  by code_simp

theorem ciphertext_belongs_to_row_witness:
  "decrypt demo_cipher demo_keyring ''connector:k'' ''k'' demo_secret 1 = Inr ''secret''"
proof -
  have u: "utf8_ok ''secret''" by code_simp
  show ?thesis
    using ciphertext_belongs_to_row [OF demo_cipher_law demo_encrypt _ _ u, of demo_keyring] by simp
qed

end
