(* ===== verification/Decimals.thy ===== *)
theory Decimals
  imports Complex_Main ErrorCodes
begin

text \<open>
  The \<open>decimal.Decimal\<close> values of the accounting code, under the default context of the standard
  library (28 digits, \<open>ROUND_HALF_EVEN\<close>): the arithmetic the workflows use, comparison by value, the text
  of a value, and the rounding to a currency increment. A value is a coefficient and an exponent of ten.
  Zero has one sign here: a negative zero compares and sorts as zero, and only its text differs. Infinite
  values and NaN are refused by the schemas before they reach a workflow. The lemmas say when an operation
  is exact.
\<close>

section \<open>Failures of a workflow\<close>

datatype wf_error =
    Mcp odoo_error          \<comment> \<open>the public error\<close>
  | Arithmetic_error        \<comment> \<open>\<open>InvalidOperation\<close>, \<open>DivisionByZero\<close>\<close>
  | Validation_error        \<comment> \<open>a pydantic model refuses its values\<close>
  | Key_error
  | Assertion_error

type_synonym 'a wf = "wf_error + 'a"

section \<open>Values\<close>

datatype decimal = Dec (coeff: int) (expo: int)

definition prec :: nat where "prec = 28"

text \<open>The number of digits of a magnitude.\<close>

function ndigits :: "int \<Rightarrow> nat" where
  "ndigits n = (if n < 10 then 1 else Suc (ndigits (n div 10)))"
  by pat_completeness auto
termination by (relation "measure nat") auto

declare ndigits.simps [simp del]

definition half_even :: "int \<Rightarrow> int \<Rightarrow> int" where
  "half_even c p =
    (let q = c div p; r = c mod p in if 2 * r < p \<or> (2 * r = p \<and> even q) then q else q + 1)"

definition half_up :: "int \<Rightarrow> int \<Rightarrow> int" where
  "half_up c p = sgn c * ((2 * \<bar>c\<bar> + p) div (2 * p))"

text \<open>The coefficient of a value at an exponent not above its own.\<close>

definition scale :: "decimal \<Rightarrow> int \<Rightarrow> int" where
  "scale d m = coeff d * 10 ^ nat (expo d - m)"

text \<open>Rounding a result to the context.\<close>

definition dfix :: "decimal \<Rightarrow> decimal" where
  "dfix d =
    (let n = ndigits \<bar>coeff d\<bar> in
     if n \<le> prec then d
     else (let k = n - prec; c = half_even (coeff d) (10 ^ k) in
       if ndigits \<bar>c\<bar> \<le> prec then Dec c (expo d + int k) else Dec (sgn c * (\<bar>c\<bar> div 10)) (expo d + int k + 1)))"

definition dzero :: decimal where "dzero = Dec 0 0"
definition dunit :: decimal where "dunit = Dec 1 0"

definition dadd :: "decimal \<Rightarrow> decimal \<Rightarrow> decimal" where
  "dadd a b = (let m = min (expo a) (expo b) in dfix (Dec (scale a m + scale b m) m))"

definition dsub :: "decimal \<Rightarrow> decimal \<Rightarrow> decimal" where
  "dsub a b = (let m = min (expo a) (expo b) in dfix (Dec (scale a m - scale b m) m))"

definition dneg :: "decimal \<Rightarrow> decimal" where
  "dneg a = dfix (Dec (- coeff a) (expo a))"

definition dabs :: "decimal \<Rightarrow> decimal" where
  "dabs a = dfix (Dec \<bar>coeff a\<bar> (expo a))"

definition dmul :: "decimal \<Rightarrow> decimal \<Rightarrow> decimal" where
  "dmul a b = dfix (Dec (coeff a * coeff b) (expo a + expo b))"

text \<open>Trailing zeros of an exact quotient go, up to the ideal exponent.\<close>

fun strip_zeros :: "nat \<Rightarrow> int \<Rightarrow> int \<times> nat" where
  "strip_zeros 0 q = (q, 0)"
| "strip_zeros (Suc k) q =
    (if q mod 10 = 0 then (let (q', s) = strip_zeros k (q div 10) in (q', Suc s)) else (q, 0))"

definition ddiv :: "decimal \<Rightarrow> decimal \<Rightarrow> decimal wf" where
  "ddiv a b =
    (if coeff b = 0 then Inl Arithmetic_error
     else if coeff a = 0 then Inr (Dec 0 (expo a - expo b))
     else
       (let x = \<bar>coeff a\<bar>; y = \<bar>coeff b\<bar>; sign = sgn (coeff a) * sgn (coeff b);
            shift = int (ndigits y) - int (ndigits x) + int prec + 1;
            e = expo a - expo b - shift;
            n = (if shift \<ge> 0 then x * 10 ^ nat shift else x);
            d = (if shift \<ge> 0 then y else y * 10 ^ nat (- shift));
            q = n div d
        in if n mod d \<noteq> 0 then Inr (dfix (Dec (sign * (if q mod 5 = 0 then q + 1 else q)) e))
           else (let (q', s) = strip_zeros (nat shift) q in Inr (dfix (Dec (sign * q') (e + int s))))))"

text \<open>\<open>quantize(Decimal("1"), rounding=ROUND_HALF_UP)\<close>: more than 28 digits is \<open>InvalidOperation\<close>.\<close>

definition quantize_one :: "decimal \<Rightarrow> decimal wf" where
  "quantize_one d =
    (let q = (if expo d \<ge> 0 then scale d 0 else half_up (coeff d) (10 ^ nat (- expo d))) in
     if ndigits \<bar>q\<bar> > prec then Inl Arithmetic_error else Inr (Dec q 0))"

text \<open>\<open>_rounded(value, increment)\<close> of the workflows.\<close>

definition rounded :: "decimal \<Rightarrow> decimal \<Rightarrow> decimal wf" where
  "rounded v increment = ebind (ddiv v increment) (\<lambda>u. ebind (quantize_one u) (\<lambda>q. Inr (dmul q increment)))"

definition dsum :: "decimal list \<Rightarrow> decimal" where
  "dsum xs = foldl dadd dzero xs"

text \<open>Comparisons are by value and exact.\<close>

definition dcmp :: "decimal \<Rightarrow> decimal \<Rightarrow> int" where
  "dcmp a b = (let m = min (expo a) (expo b) in scale a m - scale b m)"

definition deq :: "decimal \<Rightarrow> decimal \<Rightarrow> bool" where "deq a b \<longleftrightarrow> dcmp a b = 0"
definition dless :: "decimal \<Rightarrow> decimal \<Rightarrow> bool" where "dless a b \<longleftrightarrow> dcmp a b < 0"

text \<open>\<open>str(value)\<close>.\<close>

definition dec_text :: "decimal \<Rightarrow> string" where
  "dec_text d =
    (let ds = nat_text (nat \<bar>coeff d\<bar>); n = int (length ds); left = expo d + n;
         dot = (if expo d \<le> 0 \<and> left > -6 then left else 1);
         body = (if dot \<le> 0 then ''0.'' @ replicate (nat (- dot)) (CHR ''0'') @ ds
                 else if dot \<ge> n then ds @ replicate (nat (dot - n)) (CHR ''0'')
                 else take (nat dot) ds @ ''.'' @ drop (nat dot) ds);
         ex = (if left = dot then []
               else ''E'' @ (if left - dot \<ge> 0 then ''+'' else []) @ int_text (left - dot))
     in (if coeff d < 0 then ''-'' else []) @ body @ ex)"

section \<open>Values as rational numbers\<close>

definition dec_val :: "decimal \<Rightarrow> rat" where
  "dec_val d = of_int (coeff d) * 10 powi (expo d)"

lemma scale_val: "m \<le> expo d \<Longrightarrow> of_int (scale d m) = dec_val d * 10 powi (- m)"
proof -
  assume "m \<le> expo d"
  then have "(10 :: rat) ^ nat (expo d - m) = 10 powi (expo d + - m)" by (simp add: power_int_def)
  also have "\<dots> = 10 powi expo d * 10 powi (- m)" by (rule power_int_add) simp
  finally show ?thesis by (simp add: scale_def dec_val_def)
qed

lemma dec_val_at: "dec_val (Dec c m) = of_int c * 10 powi m"
  by (simp add: dec_val_def)

lemma val_scale:
  assumes "m \<le> expo d"
  shows "of_int (scale d m) * 10 powi m = dec_val d"
  by (simp add: scale_val [OF assms] power_int_minus)

lemma powi_pos: "(0 :: rat) < 10 powi m"
  by (simp add: power_int_def)

lemma dcmp_val: "of_int (dcmp a b) = (dec_val a - dec_val b) * 10 powi (- min (expo a) (expo b))"
  by (simp add: dcmp_def Let_def scale_val left_diff_distrib)

lemma deq_val: "deq a b \<longleftrightarrow> dec_val a = dec_val b"
proof -
  have "dcmp a b = 0 \<longleftrightarrow> (of_int (dcmp a b) :: rat) = 0" by simp
  then show ?thesis unfolding deq_def dcmp_val using powi_pos [of "- min (expo a) (expo b)"] by auto
qed

lemma dless_val: "dless a b \<longleftrightarrow> dec_val a < dec_val b"
proof -
  have "dcmp a b < 0 \<longleftrightarrow> (of_int (dcmp a b) :: rat) < 0" by simp
  then show ?thesis unfolding dless_def dcmp_val using powi_pos [of "- min (expo a) (expo b)"]
    by (auto simp: mult_less_0_iff)
qed

lemma dec_val_zero [simp]: "dec_val dzero = 0" by (simp add: dec_val_def dzero_def)

lemma dec_val_eq_0: "dec_val d = 0 \<longleftrightarrow> coeff d = 0"
  using powi_pos [of "expo d"] by (simp add: dec_val_def)

section \<open>When an operation is exact\<close>

lemma ndigits_le: "0 \<le> n \<Longrightarrow> ndigits n \<le> Suc k \<longleftrightarrow> n < 10 ^ Suc k"
proof (induction k arbitrary: n)
  case 0
  then show ?case by (subst ndigits.simps) (auto simp: ndigits.simps [of "n div 10"])
next
  case (Suc k)
  show ?case
  proof (cases "n < 10")
    case True
    have "(10 :: int) ^ 1 \<le> 10 ^ Suc (Suc k)" by (rule power_increasing) simp_all
    with True show ?thesis by (subst ndigits.simps) (auto simp del: power_Suc)
  next
    case False
    with Suc.prems have "0 \<le> n div 10" by simp
    have "n div 10 < X \<longleftrightarrow> n < 10 * X" for X :: int by presburger
    then have "n div 10 < 10 ^ Suc k \<longleftrightarrow> n < 10 ^ Suc (Suc k)" by simp
    with Suc.IH [OF \<open>0 \<le> n div 10\<close>] False show ?thesis by (subst ndigits.simps) simp
  qed
qed

text \<open>Evaluation takes the digits off in large groups.\<close>

lemma ndigits_group: "10 ^ k \<le> n \<Longrightarrow> ndigits n = k + ndigits (n div 10 ^ k)"
proof (induction k arbitrary: n)
  case (Suc k)
  have "(10 :: int) ^ 1 \<le> 10 ^ Suc k" by (rule power_increasing) simp_all
  from order_trans [OF this Suc.prems] have "\<not> n < 10" by (simp only: power_one_right not_less)
  moreover have "10 ^ k \<le> n div 10"
    using zdiv_mono1 [OF Suc.prems, of 10] by simp
  ultimately show ?case using Suc.IH [of "n div 10"]
    by (subst ndigits.simps) (simp add: zdiv_zmult2_eq)
qed simp

lemma ndigits_code [code]:
  "ndigits n =
    (if 10000000000000000 \<le> n then 16 + ndigits (n div 10000000000000000)
     else if 100000000 \<le> n then 8 + ndigits (n div 100000000)
     else if 10000 \<le> n then 4 + ndigits (n div 10000)
     else if 100 \<le> n then 2 + ndigits (n div 100)
     else if 10 \<le> n then 2 else 1)"
proof -
  have "10 \<le> n \<Longrightarrow> n < 100 \<Longrightarrow> ndigits n = 2" "n < 10 \<Longrightarrow> ndigits n = 1"
    by (subst ndigits.simps, simp add: ndigits.simps [of "n div 10"])+
  then show ?thesis
    using ndigits_group [of 16 n] ndigits_group [of 8 n] ndigits_group [of 4 n] ndigits_group [of 2 n] by auto
qed

lemma ndigits_prec: "ndigits \<bar>c\<bar> \<le> prec \<longleftrightarrow> \<bar>c\<bar> < 10 ^ 28"
  using ndigits_le [of "\<bar>c\<bar>" 27] by (simp add: prec_def)

text \<open>Evaluation compares with the bound instead of counting digits.\<close>

lemma dfix_code [code]:
  "dfix d =
    (if \<bar>coeff d\<bar> < 10000000000000000000000000000 then d
     else (let k = ndigits \<bar>coeff d\<bar> - prec; c = half_even (coeff d) (10 ^ k) in
       if \<bar>c\<bar> < 10000000000000000000000000000 then Dec c (expo d + int k)
       else Dec (sgn c * (\<bar>c\<bar> div 10)) (expo d + int k + 1)))"
  by (simp add: dfix_def ndigits_prec Let_def)

lemma dfix_exact: "\<bar>coeff d\<bar> < 10 ^ 28 \<Longrightarrow> dfix d = d"
  by (simp add: dfix_def ndigits_prec)

text \<open>A value on the grid of \<open>10 ^ - p\<close> with less than 28 digits there.\<close>

definition on_grid :: "nat \<Rightarrow> decimal \<Rightarrow> bool" where
  "on_grid p d \<longleftrightarrow> - int p \<le> expo d"

lemma grid_coeff:
  assumes "- int p \<le> m" "\<bar>of_int c * 10 powi m\<bar> * 10 ^ p < (10 :: rat) ^ 28"
  shows "\<bar>c\<bar> < 10 ^ 28"
proof -
  have one: "(1 :: rat) \<le> 10 powi (m + int p)" using assms(1) by (simp add: power_int_def)
  have "\<bar>of_int c\<bar> * (1 :: rat) \<le> \<bar>of_int c\<bar> * 10 powi (m + int p)"
    by (rule mult_left_mono [OF one]) simp
  also have "\<dots> = \<bar>of_int c * 10 powi m\<bar> * 10 ^ p"
    using powi_pos [of m] by (simp add: abs_mult power_int_add)
  also note assms(2)
  finally have "of_int \<bar>c\<bar> < (of_int (10 ^ 28) :: rat)" by simp
  then show ?thesis by (simp only: of_int_less_iff)
qed

lemma dfix_grid:
  assumes "- int p \<le> m" "\<bar>of_int c * 10 powi m\<bar> * 10 ^ p < (10 :: rat) ^ 28"
  shows "dfix (Dec c m) = Dec c m"
  by (rule dfix_exact) (use grid_coeff [OF assms] in \<open>simp only: decimal.sel\<close>)

lemma dadd_exact:
  assumes "on_grid p a" "on_grid p b" "\<bar>dec_val a + dec_val b\<bar> * 10 ^ p < 10 ^ 28"
  shows "dec_val (dadd a b) = dec_val a + dec_val b" "on_grid p (dadd a b)"
proof -
  let ?m = "min (expo a) (expo b)" and ?c = "scale a (min (expo a) (expo b)) + scale b (min (expo a) (expo b))"
  have m: "- int p \<le> ?m" using assms(1,2) by (simp add: on_grid_def)
  have v: "of_int ?c * 10 powi ?m = dec_val a + dec_val b"
    using val_scale [of ?m a] val_scale [of ?m b] by (simp add: distrib_right)
  have "dadd a b = Dec ?c ?m"
    unfolding dadd_def Let_def by (rule dfix_grid [OF m]) (use v assms(3) in simp)
  with m v show "dec_val (dadd a b) = dec_val a + dec_val b" "on_grid p (dadd a b)"
    by (simp_all add: dec_val_at on_grid_def)
qed

lemma dsub_exact:
  assumes "on_grid p a" "on_grid p b" "\<bar>dec_val a - dec_val b\<bar> * 10 ^ p < 10 ^ 28"
  shows "dec_val (dsub a b) = dec_val a - dec_val b" "on_grid p (dsub a b)"
proof -
  let ?m = "min (expo a) (expo b)" and ?c = "scale a (min (expo a) (expo b)) - scale b (min (expo a) (expo b))"
  have m: "- int p \<le> ?m" using assms(1,2) by (simp add: on_grid_def)
  have v: "of_int ?c * 10 powi ?m = dec_val a - dec_val b"
    using val_scale [of ?m a] val_scale [of ?m b] by (simp add: left_diff_distrib)
  have "dsub a b = Dec ?c ?m"
    unfolding dsub_def Let_def by (rule dfix_grid [OF m]) (use v assms(3) in simp)
  with m v show "dec_val (dsub a b) = dec_val a - dec_val b" "on_grid p (dsub a b)"
    by (simp_all add: dec_val_at on_grid_def)
qed

lemma dneg_exact:
  assumes "on_grid p a" "\<bar>dec_val a\<bar> * 10 ^ p < 10 ^ 28"
  shows "dec_val (dneg a) = - dec_val a" "on_grid p (dneg a)"
proof -
  have "dneg a = Dec (- coeff a) (expo a)"
    unfolding dneg_def by (rule dfix_grid [of p]) (use assms in \<open>simp_all add: on_grid_def dec_val_def\<close>)
  with assms(1) show "dec_val (dneg a) = - dec_val a" "on_grid p (dneg a)"
    by (simp_all add: dec_val_def on_grid_def)
qed

lemma foldl_dadd_exact:
  assumes "on_grid p s" "list_all (on_grid p) xs"
    "(\<bar>dec_val s\<bar> + (\<Sum>x\<leftarrow>xs. \<bar>dec_val x\<bar>)) * 10 ^ p < 10 ^ 28"
  shows "dec_val (foldl dadd s xs) = dec_val s + (\<Sum>x\<leftarrow>xs. dec_val x) \<and> on_grid p (foldl dadd s xs)"
  using assms
proof (induction xs arbitrary: s)
  case (Cons x xs)
  let ?r = "\<Sum>x\<leftarrow>xs. \<bar>dec_val x\<bar>"
  have r: "0 \<le> ?r" by (rule sum_list_nonneg) auto
  have bound: "(\<bar>dec_val s\<bar> + (\<bar>dec_val x\<bar> + ?r)) * 10 ^ p < 10 ^ 28" using Cons.prems(3) by simp
  have t: "\<bar>dec_val s + dec_val x\<bar> \<le> \<bar>dec_val s\<bar> + \<bar>dec_val x\<bar>" by simp
  have le: "\<bar>dec_val s + dec_val x\<bar> + ?r \<le> \<bar>dec_val s\<bar> + (\<bar>dec_val x\<bar> + ?r)" using t by linarith
  have step: "(\<bar>dec_val s + dec_val x\<bar> + ?r) * 10 ^ p < 10 ^ 28"
    by (rule le_less_trans [OF mult_right_mono [OF le] bound]) simp
  have "\<bar>dec_val s + dec_val x\<bar> * 10 ^ p < 10 ^ 28"
    by (rule le_less_trans [OF mult_right_mono step]) (use r in simp_all)
  then have a: "dec_val (dadd s x) = dec_val s + dec_val x" "on_grid p (dadd s x)"
    using dadd_exact [of p s x] Cons.prems by simp_all
  with Cons.IH [of "dadd s x"] Cons.prems step show ?case by (simp add: add.assoc)
qed simp

lemma dsum_exact:
  assumes "list_all (on_grid p) xs" "(\<Sum>x\<leftarrow>xs. \<bar>dec_val x\<bar>) * 10 ^ p < 10 ^ 28"
  shows "dec_val (dsum xs) = (\<Sum>x\<leftarrow>xs. dec_val x)" "on_grid p (dsum xs)"
  using foldl_dadd_exact [of p dzero xs] assms
  by (simp_all add: dsum_def on_grid_def dzero_def dec_val_def)

section \<open>Rounding is symmetric\<close>

text \<open>The exact negation of a value; \<open>dneg\<close> also rounds to the context.\<close>

definition mirror :: "decimal \<Rightarrow> decimal" where
  "mirror d = Dec (- coeff d) (expo d)"

lemma mirror_sel [simp]: "coeff (mirror d) = - coeff d" "expo (mirror d) = expo d"
  by (simp_all add: mirror_def)

lemma dec_val_mirror [simp]: "dec_val (mirror d) = - dec_val d"
  by (simp add: dec_val_def)

lemma mirror_mirror [simp]: "mirror (mirror d) = d"
  by (simp add: mirror_def)

lemma half_up_minus: "half_up (- c) p = - half_up c p"
  by (simp add: half_up_def)

lemma half_even_minus:
  assumes "0 < p"
  shows "half_even (- c) p = - half_even c p"
proof (cases "c mod p = 0")
  case True
  then have "(- c) mod p = 0" "(- c) div p = - (c div p)"
    using assms zmod_zminus1_eq_if [of c p] zdiv_zminus1_eq_if [of p c] by simp_all
  with True assms show ?thesis by (simp add: half_even_def)
next
  case False
  then have "(- c) mod p = p - c mod p" "(- c) div p = - (c div p) - 1"
    using assms zmod_zminus1_eq_if [of c p] zdiv_zminus1_eq_if [of p c] by simp_all
  with False show ?thesis by (auto simp: half_even_def Let_def)
qed

lemma dfix_mirror: "dfix (mirror d) = mirror (dfix d)"
  by (simp add: dfix_def Let_def half_even_minus) (simp add: mirror_def)

lemma map_sum_if: "map_sum f g (if c then x else y) = (if c then map_sum f g x else map_sum f g y)"
  by simp

lemma dfix_neg: "dfix (Dec (- c) e) = mirror (dfix (Dec c e))"
  using dfix_mirror [of "Dec c e"] by (simp add: mirror_def)

lemma ddiv_mirror: "ddiv (mirror a) b = map_sum id mirror (ddiv a b)"
proof (cases "coeff b = 0")
  case True
  then show ?thesis by (simp only: ddiv_def simp_thms if_True map_sum.simps id_apply)
next
  case False
  define sign where "sign = sgn (coeff a) * sgn (coeff b)"
  have s: "sgn (coeff (mirror a)) * sgn (coeff b) = - sign" by (simp add: sign_def sgn_minus)
  from False show ?thesis
    unfolding ddiv_def s sign_def [symmetric]
    by (simp only: mirror_sel abs_minus_cancel neg_equal_0_iff_equal if_False Let_def mult_minus_left dfix_neg
        split_def map_sum_if map_sum.simps id_apply mirror_def decimal.sel minus_zero cong: if_cong)
qed

lemma quantize_mirror: "quantize_one (mirror d) = map_sum id mirror (quantize_one d)"
  by (simp add: quantize_one_def Let_def scale_def half_up_minus mirror_def)

lemma dmul_mirror: "dmul (mirror a) b = mirror (dmul a b)"
  using dfix_mirror [of "Dec (coeff a * coeff b) (expo a + expo b)"] by (simp add: dmul_def mirror_def)

lemma rounded_mirror: "rounded (mirror v) i = map_sum id mirror (rounded v i)"
proof (cases "ddiv v i")
  case (Inr u)
  then show ?thesis
    by (cases "quantize_one u") (simp_all add: rounded_def ddiv_mirror quantize_mirror dmul_mirror)
qed (simp add: rounded_def ddiv_mirror)

lemma dneg_mirror: "\<bar>coeff a\<bar> < 10 ^ 28 \<Longrightarrow> dneg a = mirror a"
  by (simp add: dneg_def mirror_def dfix_exact)

end
