(* ===== verification/Paging.thy ===== *)
theory Paging
  imports Decimals Connections
begin

text \<open>
  The two sides of pagination. Towards Odoo, a workflow drains the pages of an adapter call: one turn of
  such a loop asks for a page and checks it, and \<open>drain\<close> repeats the turn until there is no next cursor.
  The loop of the code may in principle run forever, so \<open>drain\<close> is a partial function: \<open>None\<close> is a run
  that does not end. Two locales say when it ends. Towards the client, a report is cut into pages by an
  offset that travels in an opaque cursor.
\<close>

section \<open>Pages of the adapter\<close>

record 'a page =
  pg_items :: "'a list"
  pg_next :: "string option"

text \<open>The limits of \<open>PageRequest\<close>.\<close>

definition page_request :: "nat \<Rightarrow> string option \<Rightarrow> unit wf" where
  "page_request limit cursor =
    (if limit < 1 \<or> limit > 500 then Inl Validation_error
     else case cursor of None \<Rightarrow> Inr () | Some c \<Rightarrow> if length c > 128 then Inl Validation_error else Inr ())"

text \<open>What the adapter answers to the n-th request of a loop; the answers need not be consistent.\<close>

type_synonym 'a source = "nat \<Rightarrow> nat \<Rightarrow> string option \<Rightarrow> 'a page wf"

definition ask :: "'a source \<Rightarrow> nat \<Rightarrow> nat \<Rightarrow> string option \<Rightarrow> 'a page wf" where
  "ask src n limit cursor = ebind (page_request limit cursor) (\<lambda>_. src n limit cursor)"

lemma ask_Inr: "ask src n limit cursor = Inr p \<longleftrightarrow> page_request limit cursor = Inr () \<and> src n limit cursor = Inr p"
  by (simp add: ask_def)

partial_function (option) drain ::
    "(nat \<Rightarrow> string option \<Rightarrow> 's \<Rightarrow> ('s \<times> string option) wf) \<Rightarrow> nat \<Rightarrow> string option \<Rightarrow> 's \<Rightarrow> 's wf option" where
  "drain turn n cursor s =
    (case turn n cursor s of
       Inl e \<Rightarrow> Some (Inl e)
     | Inr (s', None) \<Rightarrow> Some (Inr s')
     | Inr (s', Some c) \<Rightarrow> drain turn (Suc n) (Some c) s')"

text \<open>Calls that may not end are composed in the obvious way.\<close>

definition obind :: "'a wf option \<Rightarrow> ('a \<Rightarrow> 'b wf option) \<Rightarrow> 'b wf option" where
  "obind m f = (case m of None \<Rightarrow> None | Some (Inl e) \<Rightarrow> Some (Inl e) | Some (Inr x) \<Rightarrow> f x)"

abbreviation (input) olift :: "'a wf \<Rightarrow> 'a wf option" where "olift \<equiv> Some"

lemma obind_simps [simp]:
  "obind None f = None"
  "obind (Some (Inl e)) f = Some (Inl e)"
  "obind (Some (Inr x)) f = f x"
  by (simp_all add: obind_def)

lemma obind_Some_Inr: "obind m f = Some (Inr y) \<longleftrightarrow> (\<exists>x. m = Some (Inr x) \<and> f x = Some (Inr y))"
  by (cases m) (auto simp: obind_def split: sum.splits)

text \<open>What a run that ends is made of.\<close>

named_theorems ends

lemma obind_ends [ends]: "m \<noteq> None \<Longrightarrow> (\<And>x. m = Some (Inr x) \<Longrightarrow> f x \<noteq> None) \<Longrightarrow> obind m f \<noteq> None"
  by (cases m) (auto simp: obind_def split: sum.splits)

lemma if_ends [ends]: "(c \<Longrightarrow> m \<noteq> None) \<Longrightarrow> (\<not> c \<Longrightarrow> k \<noteq> None) \<Longrightarrow> (if c then m else k) \<noteq> None"
  by simp

lemma case_option_ends [ends]: "m \<noteq> None \<Longrightarrow> (\<And>x. f x \<noteq> None) \<Longrightarrow> case_option m f z \<noteq> None"
  by (cases z) simp_all

lemma Some_ends [ends]: "Some x \<noteq> None"
  by simp

subsection \<open>Loops that end\<close>

text \<open>A measure that falls with every turn, under an invariant of the loop.\<close>

locale falling_loop =
  fixes turn :: "nat \<Rightarrow> string option \<Rightarrow> 's \<Rightarrow> ('s \<times> string option) wf"
    and ok :: "string option \<Rightarrow> 's \<Rightarrow> bool"
    and mu :: "string option \<Rightarrow> 's \<Rightarrow> nat"
  assumes ok_turn: "ok c s \<Longrightarrow> turn n c s = Inr (s', Some c') \<Longrightarrow> ok (Some c') s'"
    and mu_turn: "ok c s \<Longrightarrow> turn n c s = Inr (s', Some c') \<Longrightarrow> mu (Some c') s' < mu c s"
begin

lemma drain_ends: "ok c s \<Longrightarrow> drain turn n c s \<noteq> None"
proof (induction "mu c s" arbitrary: n c s rule: less_induct)
  case less
  show ?case
  proof (cases "\<exists>s' c'. turn n c s = Inr (s', Some c')")
    case True
    then obtain s' c' where t: "turn n c s = Inr (s', Some c')" by blast
    from less.hyps [OF mu_turn [OF less.prems t] ok_turn [OF less.prems t], of "Suc n"]
    show ?thesis by (subst drain.simps) (simp add: t)
  next
    case False
    then show ?thesis by (subst drain.simps) (auto split: sum.splits prod.splits option.splits)
  qed
qed

end

text \<open>Every page with a successor brings an item, and there is a limit on the items.\<close>

locale growing_loop =
  fixes turn :: "nat \<Rightarrow> string option \<Rightarrow> 's \<Rightarrow> ('s \<times> string option) wf"
    and items :: "'s \<Rightarrow> nat"
    and bound :: nat
  assumes grows: "turn n c s = Inr (s', Some c') \<Longrightarrow> items s < items s' \<and> items s' \<le> bound"
begin

sublocale falls: falling_loop turn "\<lambda>_ _. True" "\<lambda>_ s. Suc bound - items s"
proof
  fix n c s s' c'
  assume "turn n c s = Inr (s', Some c')"
  with grows [OF this] show "Suc bound - items s' < Suc bound - items s" by linarith
qed simp

lemma drain_ends: "drain turn n c s \<noteq> None"
  by (rule falls.drain_ends) simp

end

text \<open>Every cursor that is followed is new, and the adapter is asked with admissible cursors only.\<close>

definition cursors :: "string set" where "cursors = {c. length c \<le> 128}"

lemma finite_cursors: "finite cursors"
  using finite_lists_length_le [of "UNIV :: char set" 128] by (simp add: cursors_def)

locale fresh_loop =
  fixes turn :: "nat \<Rightarrow> string option \<Rightarrow> 's \<Rightarrow> ('s \<times> string option) wf"
    and seen :: "'s \<Rightarrow> string set"
  assumes admissible: "turn n c s = Inr (s', Some c') \<Longrightarrow> set_option c \<subseteq> cursors"
    and fresh: "turn n c s = Inr (s', Some c') \<Longrightarrow> c' \<notin> seen s \<and> seen s' = insert c' (seen s)"
begin

definition mu :: "string option \<Rightarrow> 's \<Rightarrow> nat" where
  "mu c s = 2 * card (cursors - seen s) + (if set_option c \<subseteq> cursors then 1 else 0)"

sublocale falls: falling_loop turn "\<lambda>_ _. True" mu
proof
  fix n c s s' c'
  assume t: "turn n c s = Inr (s', Some c')"
  note f = fresh [OF t]
  show "mu (Some c') s' < mu c s"
  proof (cases "c' \<in> cursors")
    case True
    with f have "cursors - seen s' = (cursors - seen s) - {c'}" "c' \<in> cursors - seen s" by auto
    then have "card (cursors - seen s') < card (cursors - seen s)"
      using finite_cursors by (metis card_Diff1_less finite_Diff)
    with admissible [OF t] show ?thesis by (simp add: mu_def)
  next
    case False
    with f have "cursors - seen s' = cursors - seen s" by auto
    with False admissible [OF t] show ?thesis by (simp add: mu_def)
  qed
qed simp

lemma drain_ends: "drain turn n c s \<noteq> None"
  by (rule falls.drain_ends) simp

end

text \<open>Reasoning about a run: what holds of a state and is kept by the turns holds at the end.\<close>

lemma drain_induct:
  assumes "drain turn n c s = Some y"
    "\<And>n c s e. turn n c s = Inl e \<Longrightarrow> P c s (Inl e)"
    "\<And>n c s r. turn n c s = Inr (r, None) \<Longrightarrow> P c s (Inr r)"
    "\<And>n c s s' c' y. turn n c s = Inr (s', Some c') \<Longrightarrow> P (Some c') s' y \<Longrightarrow> P c s y"
  shows "P c s y"
proof -
  have "turn = turn \<longrightarrow> P c s y"
  proof (rule drain.raw_induct [where P = "\<lambda>t n c s y. t = turn \<longrightarrow> P c s y", OF _ assms(1)])
    fix f t n c s y
    assume ih: "\<And>t n c s y. f t n c s = Some y \<Longrightarrow> t = turn \<longrightarrow> P c s y"
      and step: "(case t n c s of Inl e \<Rightarrow> Some (Inl e) | Inr (s', None) \<Rightarrow> Some (Inr s')
        | Inr (s', Some c) \<Rightarrow> f t (Suc n) (Some c) s') = Some y"
    show "t = turn \<longrightarrow> P c s y"
    proof
      assume t: "t = turn"
      show "P c s y"
      proof (cases "turn n c s")
        case (Inl e)
        with step t assms(2) [OF Inl] show ?thesis by simp
      next
        case (Inr q)
        obtain s' nx where q: "q = (s', nx)" by (cases q)
        show ?thesis
        proof (cases nx)
          case None
          with step t Inr q assms(3) [of n c s s'] show ?thesis by simp
        next
          case (Some c')
          with step t Inr q ih [of turn "Suc n" "Some c'" s' y] have "P (Some c') s' y" by simp
          with assms(4) [of n c s s' c'] Inr q Some show ?thesis by simp
        qed
      qed
    qed
  qed
  then show ?thesis by simp
qed

lemma drain_invariant:
  fixes s :: 's
  assumes "drain turn n c s = Some (Inr r)" "I c s"
    "\<And>n c s r. I c s \<Longrightarrow> turn n c s = Inr (r, None) \<Longrightarrow> Q r"
    "\<And>n c s s' c'. I c s \<Longrightarrow> turn n c s = Inr (s', Some c') \<Longrightarrow> I (Some c') s'"
  shows "Q r"
proof -
  have "I c s \<longrightarrow> (\<forall>r'. (Inr r :: 's wf) = Inr r' \<longrightarrow> Q r')"
  proof (rule drain_induct [OF assms(1), where P = "\<lambda>c s y. I c s \<longrightarrow> (\<forall>r'. y = Inr r' \<longrightarrow> Q r')"])
  qed (use assms(3,4) in \<open>blast+\<close>)
  with assms(2) show ?thesis by blast
qed

text \<open>A loop that never meets an error or a last page does not end.\<close>

lemma drain_forever:
  assumes "P c s" "\<And>n c s. P c s \<Longrightarrow> \<exists>s' c'. turn n c s = Inr (s', Some c') \<and> P (Some c') s'"
  shows "drain turn n c s = None"
proof (cases "drain turn n c s")
  case (Some y)
  have stuck: False if "P c s" "turn n c s = Inl e \<or> turn n c s = Inr (r, None)" for n c s e r
    using assms(2) [OF that(1), of n] that(2) by auto
  have "\<not> P c s"
  proof (rule drain_induct [OF Some, where P = "\<lambda>c s y. \<not> P c s"])
    fix n c s s' c'
    assume t: "turn n c s = Inr (s', Some c')" "\<not> P (Some c') s'"
    show "\<not> P c s"
    proof
      assume "P c s"
      from assms(2) [OF this, of n] t show False by auto
    qed
  qed (use stuck in blast)+
  with assms(1) show ?thesis by blast
qed

section \<open>Pages towards the client\<close>

subsection \<open>Cursor texts\<close>

text \<open>\<open>str.split(sep)\<close> and \<open>str.split(sep, 1)\<close> for a one-character separator.\<close>

fun split_on :: "char \<Rightarrow> string \<Rightarrow> string list" where
  "split_on s [] = [[]]"
| "split_on s (c # cs) =
    (if c = s then [] # split_on s cs
     else (case split_on s cs of [] \<Rightarrow> [[c]] | w # ws \<Rightarrow> (c # w) # ws))"

definition split_once :: "char \<Rightarrow> string \<Rightarrow> (string \<times> string) option" where
  "split_once s t =
    (let a = takeWhile (\<lambda>c. c \<noteq> s) t; b = dropWhile (\<lambda>c. c \<noteq> s) t in
     case b of [] \<Rightarrow> None | _ # rest \<Rightarrow> Some (a, rest))"

text \<open>\<open>int(text)\<close>: blanks around, a sign, digits, single underscores between digits.\<close>

fun numeral_ok :: "bool \<Rightarrow> string \<Rightarrow> bool" where
  "numeral_ok after_digit [] = after_digit"
| "numeral_ok after_digit (c # cs) =
    (if is_digit c then numeral_ok True cs
     else c = CHR ''_'' \<and> after_digit \<and> numeral_ok False cs)"

definition py_int :: "string \<Rightarrow> int option" where
  "py_int t =
    (let s = py_strip t;
         (neg, ds) = (case s of c # cs \<Rightarrow> if c = CHR ''-'' then (True, cs) else if c = CHR ''+'' then (False, cs)
                          else (False, s) | [] \<Rightarrow> (False, []));
         n = int (digits_val 0 (filter is_digit ds))
     in if numeral_ok False ds then Some (if neg then - n else n) else None)"

text \<open>\<open>cursor + "=" * (-len(cursor) % 4)\<close> decoded, and its inverse.\<close>

definition open_cursor :: "string \<Rightarrow> string option" where
  "open_cursor c =
    (case b64_decode (c @ replicate (nat ((- int (length c)) mod 4)) (CHR ''='')) of
       None \<Rightarrow> None
     | Some t \<Rightarrow> if utf8_ok t then Some t else None)"

definition rstrip_pad :: "string \<Rightarrow> string" where
  "rstrip_pad t = rev (dropWhile (\<lambda>c. c = CHR ''='') (rev t))"

definition seal_cursor :: "string \<Rightarrow> string" where
  "seal_cursor t = rstrip_pad (b64_encode t)"

definition invalid_cursor :: "string \<Rightarrow> wf_error" where
  "invalid_cursor hint = Mcp (mk_error INVALID_INPUT ''The pagination cursor is invalid.'' hint)"

text \<open>\<open>_cursor_offset\<close> and \<open>_next_cursor\<close>.\<close>

definition cursor_offset :: "string \<Rightarrow> string option \<Rightarrow> nat wf" where
  "cursor_offset hint cursor =
    (case cursor of
       None \<Rightarrow> Inr 0
     | Some c \<Rightarrow>
        (case open_cursor c of
           None \<Rightarrow> Inl (invalid_cursor hint)
         | Some t \<Rightarrow>
            (case split_once (CHR '':'') t of
               None \<Rightarrow> Inl (invalid_cursor hint)
             | Some (version, raw) \<Rightarrow>
                (case py_int raw of
                   None \<Rightarrow> Inl (invalid_cursor hint)
                 | Some n \<Rightarrow>
                    if version \<noteq> ''v1'' \<or> n \<le> 0 then Inl (invalid_cursor hint) else Inr (nat n)))))"

definition next_cursor :: "nat \<Rightarrow> string" where
  "next_cursor offset = seal_cursor (''v1:'' @ nat_text offset)"

subsection \<open>Cutting a report\<close>

text \<open>\<open>offset > len(items)\<close> is an error; the page, and the cursor of the next one when rows are left.\<close>

definition cut :: "(nat \<Rightarrow> string) \<Rightarrow> wf_error \<Rightarrow> 'a list \<Rightarrow> nat \<Rightarrow> nat \<Rightarrow> ('a list \<times> string option) wf" where
  "cut cursor_of outside items limit offset =
    (if offset > length items then Inl outside
     else (let selected = take limit (drop offset items); following = offset + length selected in
       Inr (selected, if following < length items then Some (cursor_of following) else None)))"

section \<open>Cursors come back\<close>

lemma b64_char_plain: "n < 64 \<Longrightarrow> b64_char n \<noteq> CHR ''=''"
  using b64_val_char [of n] by (auto simp: b64_val_def b64_alphabet_def)

lemma b64_encode_shape:
  "\<exists>body k. b64_encode t = body @ replicate k (CHR ''='') \<and> k \<le> 2 \<and> (length body + k) mod 4 = 0
    \<and> list_all (\<lambda>c. c \<noteq> CHR ''='') body"
proof (induction t rule: b64_encode.induct)
  case 1
  show ?case by (rule exI [of _ "[]"]) auto
next
  case (2 a)
  have "b64_char (of_char a div 4) \<noteq> CHR ''=''" "b64_char (of_char a mod 4 * 16) \<noteq> CHR ''=''"
    by (rule b64_char_plain; simp add: sextets)+
  then show ?case
    by (intro exI [of _ "[b64_char (of_char a div 4), b64_char (of_char a mod 4 * 16)]"] exI [of _ 2])
      (simp add: numeral_2_eq_2 Let_def)
next
  case (3 a b)
  have "b64_char (of_char a div 4) \<noteq> CHR ''=''" "b64_char (of_char a mod 4 * 16 + of_char b div 16) \<noteq> CHR ''=''"
    "b64_char (of_char b mod 16 * 4) \<noteq> CHR ''=''"
    by (rule b64_char_plain; simp add: sextets)+
  then show ?case
    by (intro exI [of _ "[b64_char (of_char a div 4), b64_char (of_char a mod 4 * 16 + of_char b div 16),
        b64_char (of_char b mod 16 * 4)]"] exI [of _ 1]) (simp add: Let_def)
next
  case (4 a b c rest)
  from 4 [OF refl refl refl] obtain body k where ih: "b64_encode rest = body @ replicate k (CHR ''='')" "k \<le> 2"
    "(length body + k) mod 4 = 0" "list_all (\<lambda>c. c \<noteq> CHR ''='') body"
    by (elim exE conjE) (rule that)
  have "b64_char (of_char a div 4) \<noteq> CHR ''=''" "b64_char (of_char a mod 4 * 16 + of_char b div 16) \<noteq> CHR ''=''"
    "b64_char (of_char b mod 16 * 4 + of_char c div 64) \<noteq> CHR ''=''" "b64_char (of_char c mod 64) \<noteq> CHR ''=''"
    by (rule b64_char_plain; simp add: sextets)+
  moreover have "(length body + 4 + k) mod 4 = 0" using ih(3) by presburger
  ultimately show ?case using ih
    by (intro exI [of _ "b64_char (of_char a div 4) # b64_char (of_char a mod 4 * 16 + of_char b div 16)
        # b64_char (of_char b mod 16 * 4 + of_char c div 64) # b64_char (of_char c mod 64) # body"] exI [of _ k])
      (simp add: Let_def add.assoc)
qed

lemma dropWhile_none: "list_all (\<lambda>x. \<not> P x) xs \<Longrightarrow> dropWhile P xs = xs"
  by (cases xs) auto

lemma rstrip_pad_body:
  assumes "list_all (\<lambda>c. c \<noteq> CHR ''='') body"
  shows "rstrip_pad (body @ replicate k (CHR ''='')) = body"
proof -
  have "dropWhile (\<lambda>c. c = CHR ''='') (replicate k (CHR ''='') @ ys) = dropWhile (\<lambda>c. c = CHR ''='') ys" for ys
    by (induction k) auto
  moreover have "dropWhile (\<lambda>c. c = CHR ''='') (rev body) = rev body"
    by (rule dropWhile_none) (use assms in \<open>simp add: list_all_iff\<close>)
  ultimately show ?thesis by (simp add: rstrip_pad_def)
qed

lemma open_seal:
  assumes "utf8_ok t"
  shows "open_cursor (seal_cursor t) = Some t"
proof -
  obtain body k where e: "b64_encode t = body @ replicate k (CHR ''='')" "k \<le> 2"
    "(length body + k) mod 4 = 0" "list_all (\<lambda>c. c \<noteq> CHR ''='') body"
    using b64_encode_shape [of t] by (elim exE conjE) (rule that)
  have "(- int (length body)) mod 4 = int k" using e(2,3) by presburger
  then show ?thesis using assms b64_round_trip [of t] e
    by (simp add: open_cursor_def seal_cursor_def rstrip_pad_body)
qed

lemma utf8_ascii: "list_all (\<lambda>c. between 0 c 127) t \<Longrightarrow> utf8_ok t"
  by (induction t rule: utf8_ok.induct) simp_all

lemma is_digit_plain:
  assumes "is_digit c"
  shows "between 0 c 127" "\<not> is_space c" "c \<noteq> CHR '':''" "c \<noteq> CHR ''-''" "c \<noteq> CHR ''+''"
  using assms by (auto simp: is_digit_def is_space_def between_def Let_def)

lemma numeral_digits: "list_all is_digit ds \<Longrightarrow> numeral_ok b ds \<longleftrightarrow> b \<or> ds \<noteq> []"
  by (induction ds arbitrary: b) auto

lemma strip_digits:
  assumes "list_all is_digit ds"
  shows "py_strip ds = ds"
proof -
  have "list_all (\<lambda>c. \<not> is_space c) ds" using assms by (auto simp: list_all_iff is_digit_plain)
  moreover from this have "list_all (\<lambda>c. \<not> is_space c) (rev ds)" by (simp add: list_all_iff)
  ultimately show ?thesis by (simp add: py_strip_def dropWhile_none)
qed

lemma py_int_nat_text: "py_int (nat_text n) = Some (int n)"
proof -
  have d: "list_all is_digit (nat_text n)" by (rule nat_text_digits)
  obtain c cs where c: "nat_text n = c # cs" using nat_text_not_Nil [of n] by (cases "nat_text n") auto
  from d have f: "filter is_digit (nat_text n) = nat_text n" by (simp add: list_all_iff)
  have "c \<noteq> CHR ''-''" "c \<noteq> CHR ''+''" using d c is_digit_plain [of c] by simp_all
  with d c f nat_text_val [of n] show ?thesis
    by (simp add: py_int_def strip_digits numeral_digits Let_def)
qed

lemma cursor_offset_next: "0 < n \<Longrightarrow> cursor_offset hint (Some (next_cursor n)) = Inr n"
proof -
  assume n: "0 < n"
  have d: "list_all is_digit (nat_text n)" by (rule nat_text_digits)
  then have "list_all (\<lambda>c. between 0 c 127) (nat_text n)" by (auto simp: list_all_iff is_digit_plain)
  then have "utf8_ok (''v1:'' @ nat_text n)" by (intro utf8_ascii) (simp add: between_def)
  with n show ?thesis
    by (simp add: cursor_offset_def next_cursor_def open_seal split_once_def py_int_nat_text)
qed

lemma cursor_offset_first: "cursor_offset hint None = Inr 0"
  by (simp add: cursor_offset_def)

subsection \<open>Following the cursors\<close>

text \<open>A client that follows the cursors from the first page, for at most the given number of pages.\<close>

fun walk :: "nat \<Rightarrow> (string option \<Rightarrow> ('a list \<times> string option) wf) \<Rightarrow> string option \<Rightarrow> 'a list wf option" where
  "walk 0 page c = None"
| "walk (Suc k) page c =
    (case page c of
       Inl e \<Rightarrow> Some (Inl e)
     | Inr (xs, None) \<Rightarrow> Some (Inr xs)
     | Inr (xs, Some c') \<Rightarrow> obind (walk k page (Some c')) (\<lambda>ys. Some (Inr (xs @ ys))))"

text \<open>What a report promises of its cursors, and what the client gets from it: every row once, in order.\<close>

locale cursor_codec =
  fixes cursor_of :: "nat \<Rightarrow> string"
    and offset_of :: "string option \<Rightarrow> nat wf"
  assumes first: "offset_of None = Inr 0"
    and again: "0 < n \<Longrightarrow> offset_of (Some (cursor_of n)) = Inr n"
begin

lemma walk_from:
  assumes "offset_of c = Inr offset" "offset \<le> length items" "0 < limit" "length items - offset < k"
  shows "walk k (\<lambda>c. ebind (offset_of c) (cut cursor_of outside items limit)) c = Some (Inr (drop offset items))"
  using assms
proof (induction k arbitrary: c offset)
  case (Suc k)
  let ?sel = "take limit (drop offset items)" and ?page = "\<lambda>c. ebind (offset_of c) (cut cursor_of outside items limit)"
  have page: "?page c = Inr (?sel, if offset + length ?sel < length items then Some (cursor_of (offset + length ?sel)) else None)"
    using Suc.prems by (simp add: cut_def Let_def)
  show ?case
  proof (cases "offset + length ?sel < length items")
    case True
    then have l: "length ?sel = limit" by auto
    with True Suc.prems Suc.IH [of "Some (cursor_of (offset + limit))" "offset + limit"] again [of "offset + limit"]
    have "walk k ?page (Some (cursor_of (offset + limit))) = Some (Inr (drop (offset + limit) items))" by simp
    moreover have "?sel @ drop (offset + limit) items = drop offset items"
      using append_take_drop_id [of limit "drop offset items"] by (simp add: add.commute)
    ultimately show ?thesis using True unfolding walk.simps page l by simp
  next
    case False
    with Suc.prems have "?sel = drop offset items" by simp
    with False show ?thesis unfolding walk.simps page by simp
  qed
qed simp

lemma walk_all:
  "0 < limit \<Longrightarrow> walk (Suc (length items)) (\<lambda>c. ebind (offset_of c) (cut cursor_of outside items limit)) None
    = Some (Inr items)"
  using walk_from [OF first, of items limit "Suc (length items)" outside] by simp

end

interpretation offsets: cursor_codec next_cursor "cursor_offset hint" for hint
  by unfold_locales (simp_all add: cursor_offset_next cursor_offset_first)

end
