(* ===== verification/AccountingTypes.thy ===== *)
theory AccountingTypes
  imports Paging Clock
begin

text \<open>
  The typed values that cross the boundary between the accounting workflows and the Odoo adapter
  (\<open>adapters/accounting.py\<close>), the adapter itself as a record of what it answers, the request models of
  \<open>mcp/schemas.py\<close> with their validators, and the calendar of those values. A date is a day number
  (day 0 is 1970-01-01). The adapter is a parameter: its n-th answer in a loop may be anything.
\<close>

section \<open>Dates\<close>

definition leap :: "int \<Rightarrow> bool" where
  "leap y \<longleftrightarrow> y mod 4 = 0 \<and> (y mod 100 \<noteq> 0 \<or> y mod 400 = 0)"

definition month_days :: "int \<Rightarrow> int \<Rightarrow> int" where
  "month_days y m = (if m = 2 then if leap y then 29 else 28 else if m \<in> {4, 6, 9, 11} then 30 else 31)"

definition date_of :: "int \<Rightarrow> int \<Rightarrow> int \<Rightarrow> int" where
  "date_of y0 m d =
    (let y = (if m \<le> 2 then y0 - 1 else y0); era = y div 400; yoe = y mod 400;
         doy = (153 * (if m > 2 then m - 3 else m + 9) + 2) div 5 + d - 1;
         doe = yoe * 365 + yoe div 4 - yoe div 100 + doy
     in era * 146097 + doe - 719468)"

definition isoformat :: "int \<Rightarrow> string" where
  "isoformat day =
    (let (y, m, d) = civil_from_days day
     in padded 4 (nat y) @ ''-'' @ padded 2 (nat m) @ ''-'' @ padded 2 (nat d))"

section \<open>Values of the adapter\<close>

datatype filter_value = FV_str string | FV_bool bool | FV_date int | FV_id int | FV_ids "int list" | FV_strs "string list"

record filter_clause =
  fc_field :: string
  fc_operator :: string
  fc_value :: filter_value

definition clause :: "string \<Rightarrow> string \<Rightarrow> filter_value \<Rightarrow> filter_clause" where
  "clause f oper v = \<lparr>fc_field = f, fc_operator = oper, fc_value = v\<rparr>"

record date_period =
  dp_start :: int
  dp_end :: int

definition mk_period :: "int \<Rightarrow> int \<Rightarrow> date_period wf" where
  "mk_period s e = (if e < s then Inl Validation_error else Inr \<lparr>dp_start = s, dp_end = e\<rparr>)"

record related =
  rr_id :: int
  rr_name :: string

record currency =
  cy_id :: int
  cy_name :: string
  cy_rounding :: decimal

record currency_rate =
  ra_id :: int
  ra_effective_date :: int
  ra_currency_id :: int
  ra_company_id :: "int option"
  ra_company_rate :: decimal
  ra_inverse_company_rate :: decimal

record account_move =
  am_id :: int
  am_name :: string
  am_move_type :: string
  am_state :: string
  am_date :: int
  am_invoice_date :: "int option"
  am_invoice_date_due :: "int option"
  am_partner :: "related option"
  am_journal :: related
  am_company_id :: int
  am_currency :: related
  am_amount_total :: decimal
  am_amount_residual :: decimal
  am_amount_residual_company :: "decimal option"
  am_payment_state :: "string option"
  am_reference :: "string option"

record move_line =
  ml_id :: int
  ml_move :: related
  ml_move_state :: string
  ml_account :: related
  ml_journal :: related
  ml_partner :: "related option"
  ml_company_id :: int
  ml_currency :: "related option"
  ml_date :: int
  ml_maturity_date :: "int option"
  ml_label :: "string option"
  ml_debit :: decimal
  ml_credit :: decimal
  ml_balance :: decimal
  ml_amount_currency :: decimal
  ml_residual :: decimal
  ml_residual_currency :: decimal
  ml_reconciled :: bool
  ml_analytic_distribution :: "(string \<times> decimal) list"

record partial_reconciliation =
  pa_id :: int
  pa_debit_move_line :: related
  pa_credit_move_line :: related
  pa_amount :: decimal
  pa_debit_amount_currency :: decimal
  pa_credit_amount_currency :: decimal
  pa_max_date :: int

record journal =
  jo_id :: int
  jo_name :: string
  jo_code :: string
  jo_journal_type :: string
  jo_company_id :: int
  jo_currency :: "related option"

record statement_line =
  sl_id :: int
  sl_date :: int
  sl_payment_reference :: "string option"
  sl_amount :: decimal
  sl_amount_currency :: "decimal option"
  sl_foreign_currency :: "related option"
  sl_partner :: "related option"
  sl_journal :: related
  sl_company_id :: int
  sl_reconciled :: bool
  sl_move :: "related option"

record account =
  ao_id :: int
  ao_code :: string
  ao_name :: string
  ao_account_type :: string
  ao_company_ids :: "int list"
  ao_currency :: "related option"
  ao_reconcile :: bool

record partner =
  pt_id :: int
  pt_name :: string
  pt_company_id :: "int option"
  pt_customer_rank :: int
  pt_supplier_rank :: int

record journal_entry_line =
  jl_id :: int
  jl_account :: related
  jl_partner :: "related option"
  jl_description :: "string option"
  jl_debit :: decimal
  jl_credit :: decimal
  jl_analytic_distribution :: "(string \<times> decimal) list"

record journal_entry =
  je_id :: int
  je_name :: string
  je_move_type :: string
  je_state :: string
  je_date :: int
  je_journal :: related
  je_company_id :: int
  je_currency :: related
  je_reference :: "string option"
  je_lines :: "journal_entry_line list"

record company =
  co_id :: int
  co_name :: string
  co_currency :: "related option"
  co_root_id :: "int option"

record payment_term =
  tm_id :: int
  tm_name :: string
  tm_company_id :: "int option"

record product =
  pr_product_id :: int
  pr_product_name :: string
  pr_default_code :: "string option"
  pr_product_company_id :: "int option"
  pr_list_price :: decimal
  pr_currency :: "related option"

record currency_rate_page =
  rg_company_currency :: related
  rg_root_company_id :: int
  rg_items :: "currency_rate list"
  rg_next :: "string option"

section \<open>Invoices and payments\<close>

record invoice_tax =
  tx_id :: int
  tx_name :: string
  tx_amount :: decimal

record invoice_line_effect =
  il_id :: int
  il_description :: string
  il_quantity :: decimal
  il_unit_price :: decimal
  il_subtotal :: decimal
  il_total :: decimal
  il_taxes :: "invoice_tax list"
  il_analytic_distribution :: "(string \<times> decimal) list"

record invoice_validation_line =
  iv_id :: int
  iv_display_type :: "string option"
  iv_account :: "related option"
  iv_debit :: decimal
  iv_credit :: decimal
  iv_balance :: decimal
  iv_currency :: "related option"
  iv_amount_currency :: decimal
  iv_tax_line :: "related option"
  iv_subtotal :: decimal
  iv_total :: decimal

record payment_schedule_line =
  sc_due_date :: int
  sc_amount :: decimal

record invoice_effect =
  ie_id :: int
  ie_name :: string
  ie_move_type :: string
  ie_state :: string
  ie_company_id :: int
  ie_partner :: related
  ie_invoice_date :: int
  ie_due_date :: "int option"
  ie_journal :: related
  ie_fiscal_position :: "related option"
  ie_currency :: related
  ie_payment_term :: "related option"
  ie_amount_untaxed :: decimal
  ie_amount_tax :: decimal
  ie_amount_total :: decimal
  ie_amount_residual :: decimal
  ie_payment_state :: "string option"
  ie_taxes :: "invoice_tax list"
  ie_lines :: "invoice_line_effect list"
  ie_payment_schedule :: "payment_schedule_line list"
  ie_validation_lines :: "invoice_validation_line list"

record invoice_draft_line =
  id_description :: string
  id_quantity :: decimal
  id_unit_price :: decimal
  id_account_id :: int
  id_product_id :: "int option"
  id_analytic_account_id :: "int option"

record invoice_draft =
  df_company_id :: int
  df_move_type :: string
  df_partner_id :: int
  df_invoice_date :: int
  df_lines :: "invoice_draft_line list"
  df_currency_id :: "int option"
  df_payment_term_id :: "int option"
  df_analytic_account_id :: "int option"
  df_vendor_reference :: "string option"

record journal_entry_draft_line =
  ed_account_id :: int
  ed_partner_id :: "int option"
  ed_description :: "string option"
  ed_debit :: decimal
  ed_credit :: decimal
  ed_analytic_account_id :: "int option"

record journal_entry_draft =
  jd_company_id :: int
  jd_journal_id :: int
  jd_entry_date :: int
  jd_reference :: "string option"
  jd_lines :: "journal_entry_draft_line list"

record payment_route =
  ro_journal :: related
  ro_payment_method_line :: related
  ro_payment_method_code :: "string option"
  ro_payment_type :: string
  ro_external_effect_status :: string

record payment_preview_request =
  pq_invoice_id :: int
  pq_company_id :: int
  pq_payment_date :: int
  pq_amount :: decimal

record payment_preview =
  pp_invoice_id :: int
  pp_company_id :: int
  pp_payment_date :: int
  pp_amount :: decimal
  pp_currency :: related
  pp_payment_type :: string
  pp_partner_type :: string
  pp_can_edit_wizard :: bool
  pp_routes :: "payment_route list"
  pp_default_journal_id :: "int option"
  pp_default_payment_method_line_id :: "int option"

record payment_registration =
  pg_invoice_id :: int
  pg_company_id :: int
  pg_payment_date :: int
  pg_amount :: decimal
  pg_journal_id :: int
  pg_payment_method_line_id :: int
  pg_payment_method_code :: "string option"
  pg_external_effect_status :: string

section \<open>The adapter\<close>

text \<open>Each field gives the answer of one adapter method: its arguments, then the number of the request in
  the loop that makes it, the page limit and the cursor. Of an analytic account only the identifier is read.\<close>

record adapter =
  ad_journals :: "int \<Rightarrow> journal source"
  ad_statement_lines :: "int \<Rightarrow> date_period \<Rightarrow> int option \<Rightarrow> statement_line source"
  ad_move_lines :: "int \<Rightarrow> filter_clause list \<Rightarrow> move_line source"
  ad_moves :: "int \<Rightarrow> filter_clause list \<Rightarrow> account_move source"
  ad_partials :: "int \<Rightarrow> filter_clause list \<Rightarrow> partial_reconciliation source"
  ad_accounts :: "int \<Rightarrow> filter_clause list \<Rightarrow> account source"
  ad_partners :: "int \<Rightarrow> filter_clause list \<Rightarrow> partner source"
  ad_products :: "int \<Rightarrow> filter_clause list \<Rightarrow> product source"
  ad_analytics :: "int \<Rightarrow> filter_clause list \<Rightarrow> int source"
  ad_terms :: "int \<Rightarrow> payment_term source"
  ad_currencies :: "int \<Rightarrow> int list \<Rightarrow> currency source"
  ad_rates :: "int \<Rightarrow> int \<Rightarrow> int \<Rightarrow> nat \<Rightarrow> nat \<Rightarrow> string option \<Rightarrow> currency_rate_page wf"
  ad_companies :: "company list wf"
  ad_entry :: "int \<Rightarrow> int \<Rightarrow> journal_entry wf"
  ad_create_entry :: "journal_entry_draft \<Rightarrow> journal_entry wf"
  ad_post_entry :: "int \<Rightarrow> int \<Rightarrow> journal_entry wf"
  ad_effect :: "int \<Rightarrow> int \<Rightarrow> invoice_effect wf"
  ad_create_invoice :: "invoice_draft \<Rightarrow> invoice_effect wf"
  ad_payment_preview :: "payment_preview_request \<Rightarrow> payment_preview wf"

section \<open>Loops over the adapter\<close>

text \<open>What a loop has drained so far.\<close>

record 'a drained =
  dr_result :: "'a list"
  dr_seen_ids :: "int list"
  dr_seen_cursors :: "string list"

definition nothing_yet :: "'a drained" where
  "nothing_yet = \<lparr>dr_result = [], dr_seen_ids = [], dr_seen_cursors = []\<rparr>"

fun efold :: "('a \<Rightarrow> 's \<Rightarrow> 'e + 's) \<Rightarrow> 'a list \<Rightarrow> 's \<Rightarrow> 'e + 's" where
  "efold f [] s = Inr s"
| "efold f (x # xs) s = ebind (f x s) (efold f xs)"

text \<open>The strict loops of bank reconciliation and the cashbook: a page has a size limit, every item is
  checked and its identifier new, the records are limited in number, and no cursor comes twice.\<close>

record 'a strict_loop =
  lo_source :: "'a source"
  lo_ident :: "'a \<Rightarrow> int"
  lo_accept :: "'a \<Rightarrow> bool"
  lo_keep :: "'a \<Rightarrow> bool"
  lo_oversized :: wf_error
  lo_inconsistent :: wf_error
  lo_unbounded :: wf_error
  lo_bad_page :: wf_error

definition source_page_size :: nat where "source_page_size = 100"
definition max_source_records :: nat where "max_source_records = 100000"

definition strict_item :: "'a strict_loop \<Rightarrow> 'a \<Rightarrow> 'a drained \<Rightarrow> 'a drained wf" where
  "strict_item l x s =
    (if \<not> lo_accept l x \<or> lo_ident l x \<in> set (dr_seen_ids s) then Inl (lo_inconsistent l)
     else Inr (s\<lparr>dr_seen_ids := lo_ident l x # dr_seen_ids s,
                dr_result := (if lo_keep l x then dr_result s @ [x] else dr_result s)\<rparr>))"

definition strict_turn ::
    "'a strict_loop \<Rightarrow> nat \<Rightarrow> string option \<Rightarrow> 'a drained \<Rightarrow> ('a drained \<times> string option) wf" where
  "strict_turn l n cursor s =
    ebind (ask (lo_source l) n source_page_size cursor) (\<lambda>page.
    if length (pg_items page) > source_page_size then Inl (lo_oversized l)
    else ebind (efold (strict_item l) (pg_items page) s) (\<lambda>s'.
    if length (dr_result s') > max_source_records then Inl (lo_unbounded l)
    else case pg_next page of
        None \<Rightarrow> Inr (s', None)
      | Some c \<Rightarrow>
          if c \<in> set (dr_seen_cursors s') then Inl (lo_bad_page l)
          else Inr (s'\<lparr>dr_seen_cursors := c # dr_seen_cursors s'\<rparr>, Some c)))"

definition strict_drain :: "'a strict_loop \<Rightarrow> 'a list wf option" where
  "strict_drain l = obind (drain (strict_turn l) 0 None nothing_yet) (\<lambda>s. Some (Inr (dr_result s)))"

lemma strict_item_Inr:
  "strict_item l x s = Inr s' \<longleftrightarrow> lo_accept l x \<and> lo_ident l x \<notin> set (dr_seen_ids s)
    \<and> s' = s\<lparr>dr_seen_ids := lo_ident l x # dr_seen_ids s,
             dr_result := (if lo_keep l x then dr_result s @ [x] else dr_result s)\<rparr>"
  by (auto simp: strict_item_def)

lemma strict_items_cursors: "efold (strict_item l) xs s = Inr s' \<Longrightarrow> dr_seen_cursors s' = dr_seen_cursors s"
  by (induction xs arbitrary: s) (auto simp: strict_item_Inr)

lemma page_request_Inr: "page_request limit c = Inr () \<Longrightarrow> set_option c \<subseteq> cursors"
  by (auto simp: page_request_def cursors_def split: if_splits option.splits)

interpretation strict: fresh_loop "strict_turn l" "\<lambda>s. set (dr_seen_cursors s)" for l
proof
  fix n c c' and s s' :: "'a drained"
  assume "strict_turn l n c s = Inr (s', Some c')"
  then show "set_option c \<subseteq> cursors" "c' \<notin> set (dr_seen_cursors s) \<and> set (dr_seen_cursors s') = insert c' (set (dr_seen_cursors s))"
    by (auto simp: strict_turn_def ask_Inr dest!: page_request_Inr strict_items_cursors split: if_splits option.splits)
qed

lemma strict_drain_ends [ends]: "strict_drain l \<noteq> None"
  unfolding strict_drain_def by (rule obind_ends [OF strict.drain_ends]) simp

text \<open>What a strict loop delivers: accepted, kept, with distinct identifiers, in bounded number.\<close>

definition strict_ok :: "'a strict_loop \<Rightarrow> 'a drained \<Rightarrow> bool" where
  "strict_ok l s \<longleftrightarrow> list_all (\<lambda>x. lo_accept l x \<and> lo_keep l x) (dr_result s)
    \<and> distinct (map (lo_ident l) (dr_result s)) \<and> lo_ident l ` set (dr_result s) \<subseteq> set (dr_seen_ids s)"

lemma strict_item_ok: "strict_item l x s = Inr s' \<Longrightarrow> strict_ok l s \<Longrightarrow> strict_ok l s'"
  by (cases "lo_keep l x") (auto simp: strict_item_Inr strict_ok_def)

lemma strict_items_ok: "efold (strict_item l) xs s = Inr s' \<Longrightarrow> strict_ok l s \<Longrightarrow> strict_ok l s'"
proof (induction xs arbitrary: s)
  case (Cons x xs)
  from Cons.prems(1) obtain s1 where "strict_item l x s = Inr s1" "efold (strict_item l) xs s1 = Inr s'" by auto
  from Cons.IH [OF this(2)] strict_item_ok [OF this(1) Cons.prems(2)] show ?case by simp
qed simp

lemma strict_drain_Inr:
  assumes "strict_drain l = Some (Inr xs)"
  shows "(\<forall>x \<in> set xs. lo_accept l x \<and> lo_keep l x) \<and> distinct (map (lo_ident l) xs) \<and> length xs \<le> max_source_records"
proof -
  from assms obtain s where d: "drain (strict_turn l) 0 None nothing_yet = Some (Inr s)" and xs: "xs = dr_result s"
    by (auto simp: strict_drain_def obind_Some_Inr)
  have "strict_ok l s \<and> length (dr_result s) \<le> max_source_records"
  proof (rule drain_invariant [OF d, where I = "\<lambda>_. strict_ok l"])
    show "strict_ok l nothing_yet" by (simp add: strict_ok_def nothing_yet_def)
  next
    fix n c s r
    assume "strict_ok l s" "strict_turn l n c s = Inr (r, None)"
    then show "strict_ok l r \<and> length (dr_result r) \<le> max_source_records"
      by (auto simp: strict_turn_def dest: strict_items_ok split: if_splits option.splits)
  next
    fix n c s s' c'
    assume "strict_ok l s" "strict_turn l n c s = Inr (s', Some c')"
    then obtain q where "strict_ok l q" "s' = q\<lparr>dr_seen_cursors := c' # dr_seen_cursors q\<rparr>"
      by (auto simp: strict_turn_def dest: strict_items_ok split: if_splits option.splits)
    then show "strict_ok l s'" by (simp add: strict_ok_def)
  qed
  with xs show ?thesis by (simp add: strict_ok_def list_all_iff)
qed

section \<open>Loops of one page\<close>

text \<open>A source that answers with one page.\<close>

definition one_page :: "'a list \<Rightarrow> 'a source" where
  "one_page xs = (\<lambda>n limit cursor. Inr \<lparr>pg_items = xs, pg_next = None\<rparr>)"

text \<open>An adapter without records.\<close>

definition empty_adapter :: adapter where
  "empty_adapter = \<lparr>ad_journals = (\<lambda>_. one_page []), ad_statement_lines = (\<lambda>_ _ _. one_page []),
     ad_move_lines = (\<lambda>_ _. one_page []), ad_moves = (\<lambda>_ _. one_page []), ad_partials = (\<lambda>_ _. one_page []),
     ad_accounts = (\<lambda>_ _. one_page []), ad_partners = (\<lambda>_ _. one_page []), ad_products = (\<lambda>_ _. one_page []),
     ad_analytics = (\<lambda>_ _. one_page []), ad_terms = (\<lambda>_. one_page []), ad_currencies = (\<lambda>_ _. one_page []),
     ad_rates = (\<lambda>_ _ _ _ _ _. Inl Key_error), ad_companies = Inr [], ad_entry = (\<lambda>_ _. Inl Key_error),
     ad_create_entry = (\<lambda>_. Inl Key_error), ad_post_entry = (\<lambda>_ _. Inl Key_error), ad_effect = (\<lambda>_ _. Inl Key_error),
     ad_create_invoice = (\<lambda>_. Inl Key_error), ad_payment_preview = (\<lambda>_. Inl Key_error)\<rparr>"

lemma strict_items_all:
  assumes "list_all (lo_accept l) xs" "distinct (map (lo_ident l) xs)" "set (dr_seen_ids s) \<inter> lo_ident l ` set xs = {}"
  shows "\<exists>s'. efold (strict_item l) xs s = Inr s' \<and> dr_result s' = dr_result s @ filter (lo_keep l) xs"
  using assms
proof (induction xs arbitrary: s)
  case (Cons x xs)
  let ?s = "s\<lparr>dr_seen_ids := lo_ident l x # dr_seen_ids s, dr_result := (if lo_keep l x then dr_result s @ [x] else dr_result s)\<rparr>"
  have step: "strict_item l x s = Inr ?s" using Cons.prems unfolding strict_item_Inr by auto
  have "\<exists>s'. efold (strict_item l) xs ?s = Inr s' \<and> dr_result s' = dr_result ?s @ filter (lo_keep l) xs"
    by (rule Cons.IH) (use Cons.prems in auto)
  with step show ?case by auto
qed simp

lemma strict_one_page:
  assumes "lo_source l = one_page xs" "length xs \<le> 100" "list_all (lo_accept l) xs" "distinct (map (lo_ident l) xs)"
  shows "strict_drain l = Some (Inr (filter (lo_keep l) xs))"
proof -
  obtain s where s: "efold (strict_item l) xs nothing_yet = Inr s" "dr_result s = filter (lo_keep l) xs"
    using strict_items_all [OF assms(3,4), of nothing_yet] by (auto simp: nothing_yet_def)
  have "length (filter (lo_keep l) xs) \<le> max_source_records"
    by (rule le_trans [OF length_filter_le]) (use assms(2) in \<open>simp add: max_source_records_def\<close>)
  with s assms(1,2) have "strict_turn l 0 None nothing_yet = Inr (s, None)"
    by (simp add: strict_turn_def ask_def page_request_def source_page_size_def one_page_def)
  then have "drain (strict_turn l) 0 None nothing_yet = Some (Inr s)" by (subst drain.simps) simp
  with s show ?thesis by (simp add: strict_drain_def)
qed

end
