(* ===== verification/Reconcile.thy ===== *)
theory Reconcile
  imports AccountingTypes
begin

text \<open>
  Bank reconciliation proposals (\<open>workflows/accounting/reconcile_bank.py\<close>): the loops that read the
  statement lines, the candidates, the journals and the currencies, the score of a candidate, the decision
  for each statement line, and the two reports built from the decisions. Nothing here writes to Odoo.
\<close>

section \<open>Reading the sources\<close>

definition rb_source_error :: "string \<Rightarrow> wf_error" where
  "rb_source_error message = Mcp (mk_error ODOO_API_ERROR message
     ''Check Odoo compatibility and accounting access, then retry.'')"

definition statement_loop :: "adapter \<Rightarrow> int \<Rightarrow> date_period \<Rightarrow> int option \<Rightarrow> statement_line strict_loop" where
  "statement_loop ad company period jid =
    \<lparr>lo_source = ad_statement_lines ad company period jid, lo_ident = sl_id,
     lo_accept = (\<lambda>x. sl_company_id x = company \<and> dp_start period \<le> sl_date x \<and> sl_date x \<le> dp_end period
        \<and> (jid = None \<or> jid = Some (rr_id (sl_journal x)))),
     lo_keep = (\<lambda>_. True),
     lo_oversized = rb_source_error ''Odoo returned an oversized bank statement page.'',
     lo_inconsistent = rb_source_error ''Odoo returned inconsistent bank statement data.'',
     lo_unbounded = rb_source_error ''The reconciliation input exceeds the safe processing bound.'',
     lo_bad_page = rb_source_error ''Odoo returned an invalid bank statement page.''\<rparr>"

definition candidate_filters :: "filter_clause list" where
  "candidate_filters = [clause ''move_id.state'' ''='' (FV_str ''posted''), clause ''reconciled'' ''='' (FV_bool False)]"

definition candidate_loop :: "adapter \<Rightarrow> int \<Rightarrow> move_line strict_loop" where
  "candidate_loop ad company =
    \<lparr>lo_source = ad_move_lines ad company candidate_filters, lo_ident = ml_id,
     lo_accept = (\<lambda>x. ml_company_id x = company), lo_keep = (\<lambda>x. \<not> ml_reconciled x),
     lo_oversized = rb_source_error ''Odoo returned an oversized reconciliation candidate page.'',
     lo_inconsistent = rb_source_error ''Odoo returned inconsistent reconciliation candidate data.'',
     lo_unbounded = rb_source_error ''The reconciliation candidates exceed the safe processing bound.'',
     lo_bad_page = rb_source_error ''Odoo returned an invalid reconciliation candidate page.''\<rparr>"

text \<open>The dictionary of journals is the list of its values: the identifiers are distinct.\<close>

definition journal_loop :: "adapter \<Rightarrow> int \<Rightarrow> journal strict_loop" where
  "journal_loop ad company =
    \<lparr>lo_source = ad_journals ad company, lo_ident = jo_id,
     lo_accept = (\<lambda>x. jo_company_id x = company), lo_keep = (\<lambda>_. True),
     lo_oversized = rb_source_error ''Odoo returned an oversized reconciliation journal page.'',
     lo_inconsistent = rb_source_error ''Odoo returned inconsistent reconciliation journal data.'',
     lo_unbounded = rb_source_error ''The reconciliation journals exceed the safe processing bound.'',
     lo_bad_page = rb_source_error ''Odoo returned an invalid reconciliation journal page.''\<rparr>"

definition find_journal :: "journal list \<Rightarrow> int \<Rightarrow> journal option" where
  "find_journal js i = find_row (\<lambda>j. jo_id j = i) js"

definition find_currency :: "currency list \<Rightarrow> int \<Rightarrow> currency option" where
  "find_currency cs i = find_row (\<lambda>c. cy_id c = i) cs"

definition max_source_currencies :: nat where "max_source_currencies = 500"

text \<open>\<open>ids\<close> is the set of requested identifiers.\<close>

definition rb_currencies :: "adapter \<Rightarrow> int \<Rightarrow> int list \<Rightarrow> currency list wf" where
  "rb_currencies ad company ids =
    (let requested = sort (remdups ids) in
     if requested = [] \<or> length requested > max_source_currencies
     then Inl (rb_source_error ''Odoo returned an invalid reconciliation currency set.'')
     else ebind (ask (ad_currencies ad company requested) 0 max_source_currencies None) (\<lambda>page.
       if pg_next page \<noteq> None \<or> length (pg_items page) \<noteq> length requested
       then Inl (rb_source_error ''Odoo returned incomplete reconciliation currency data.'')
       else if set (map cy_id (pg_items page)) \<noteq> set requested \<or> \<not> distinct (map cy_id (pg_items page))
       then Inl (rb_source_error ''Odoo returned inconsistent reconciliation currency data.'')
       else Inr (pg_items page)))"

definition bank_or_cash :: "journal \<Rightarrow> bool" where
  "bank_or_cash j \<longleftrightarrow> jo_journal_type j \<in> {''bank'', ''cash''}"

text \<open>The currencies a report needs: the company's and those of its bank and cash journals.\<close>

definition wanted_currencies :: "related \<Rightarrow> journal list \<Rightarrow> int list" where
  "wanted_currencies company_currency js =
    rr_id company_currency # map rr_id (List.map_filter jo_currency (filter bank_or_cash js))"

section \<open>Candidates\<close>

definition reference_text :: "string option \<Rightarrow> string" where
  "reference_text v = casefold (join '' '' (py_split (case v of None \<Rightarrow> [] | Some t \<Rightarrow> t)))"

definition round_currency_amount :: "decimal \<Rightarrow> currency \<Rightarrow> decimal wf" where
  "round_currency_amount v c = rounded v (cy_rounding c)"

record candidate =
  cd_line :: move_line
  cd_score :: decimal
  cd_components :: "(string \<times> decimal) list"

definition same_related :: "related option \<Rightarrow> related option \<Rightarrow> bool" where
  "same_related a b = (case (a, b) of (Some x, Some y) \<Rightarrow> rr_id x = rr_id y | _ \<Rightarrow> False)"

definition effective_currency :: "journal \<Rightarrow> related \<Rightarrow> related" where
  "effective_currency j company_currency = (case jo_currency j of None \<Rightarrow> company_currency | Some c \<Rightarrow> c)"

definition date_proximity :: "int \<Rightarrow> decimal wf" where
  "date_proximity gap =
    (if gap \<le> 30 then ddiv (dmul (Dec 10 (-2)) (Dec (30 - gap) 0)) (Dec 30 0) else Inr (Dec 0 0))"

definition score_components :: "statement_line \<Rightarrow> move_line \<Rightarrow> (string \<times> decimal) list wf" where
  "score_components st ml =
    (let sref = reference_text (sl_payment_reference st); lref = reference_text (ml_label ml) in
     ebind (date_proximity \<bar>sl_date st - ml_date ml\<bar>) (\<lambda>near.
     Inr [(''amount'', Dec 55 (-2)),
          (''partner'', if same_related (sl_partner st) (ml_partner ml) then Dec 20 (-2) else Dec 0 0),
          (''reference'', if sref \<noteq> [] \<and> sref = lref then Dec 15 (-2) else Dec 0 0),
          (''date_proximity'', near)]))"

definition candidate_of ::
    "statement_line \<Rightarrow> move_line \<Rightarrow> journal \<Rightarrow> related \<Rightarrow> currency \<Rightarrow> candidate option wf" where
  "candidate_of st ml j company_currency effective =
    (let ec = effective_currency j company_currency in
     if (case sl_foreign_currency st of None \<Rightarrow> False | Some f \<Rightarrow> rr_id f \<noteq> rr_id ec) then Inr None
     else if (case ml_currency ml of None \<Rightarrow> True | Some c \<Rightarrow> rr_id c \<noteq> rr_id ec) then Inr None
     else
       (let amount = (if jo_currency j = None then ml_residual ml else ml_residual_currency ml) in
        ebind (round_currency_amount (sl_amount st) effective) (\<lambda>a.
        ebind (round_currency_amount (dneg amount) effective) (\<lambda>b.
        if ml_reconciled ml \<or> \<not> deq a b then Inr None
        else if (case sl_move st of None \<Rightarrow> False | Some m \<Rightarrow> rr_id m = rr_id (ml_move ml)) then Inr None
        else ebind (score_components st ml) (\<lambda>cs.
          Inr (Some \<lparr>cd_line = ml, cd_score = dsum (map snd cs), cd_components = cs\<rparr>))))))"

section \<open>Decisions\<close>

datatype unmatched_reason =
    No_eligible_candidate
  | Below_confidence_threshold
  | Ambiguous_best_match
  | Candidate_conflict

record decision =
  dn_statement :: statement_line
  dn_candidate :: "candidate option"
  dn_best_score :: "decimal option"
  dn_reason :: "unmatched_reason option"

text \<open>The candidates by rounded amount, in buckets; the keys are decimals, equal by value.\<close>

fun put_bucket :: "('k \<Rightarrow> bool) \<Rightarrow> 'k \<Rightarrow> 'v \<Rightarrow> ('k \<times> 'v list) list \<Rightarrow> ('k \<times> 'v list) list" where
  "put_bucket same k v [] = [(k, [v])]"
| "put_bucket same k v ((k', vs) # d) =
    (if same k' then (k', vs @ [v]) # d else (k', vs) # put_bucket same k v d)"

definition bucket :: "('k \<Rightarrow> bool) \<Rightarrow> ('k \<times> 'v list) list \<Rightarrow> 'v list" where
  "bucket same d = (case find_row (\<lambda>(k, _). same k) d of None \<Rightarrow> [] | Some (_, vs) \<Rightarrow> vs)"

record buckets =
  bk_company :: "(decimal \<times> move_line list) list"
  bk_currency :: "((int \<times> decimal) \<times> move_line list) list"

definition same_key :: "int \<Rightarrow> decimal \<Rightarrow> int \<times> decimal \<Rightarrow> bool" where
  "same_key i d k \<longleftrightarrow> fst k = i \<and> deq (snd k) d"

definition put_candidate :: "currency list \<Rightarrow> related \<Rightarrow> currency \<Rightarrow> move_line \<Rightarrow> buckets \<Rightarrow> buckets wf" where
  "put_candidate cs company_currency company_value ml b =
    (case ml_currency ml of
       None \<Rightarrow> Inr b
     | Some c \<Rightarrow>
        (case find_currency cs (rr_id c) of
           None \<Rightarrow> Inr b
         | Some line_currency \<Rightarrow>
            ebind (if rr_id c = rr_id company_currency
                   then ebind (round_currency_amount (ml_residual ml) company_value) (\<lambda>k.
                     Inr (b\<lparr>bk_company := put_bucket (\<lambda>k'. deq k' k) k ml (bk_company b)\<rparr>))
                   else Inr b) (\<lambda>b'.
            ebind (round_currency_amount (ml_residual_currency ml) line_currency) (\<lambda>k.
              Inr (b'\<lparr>bk_currency := put_bucket (same_key (rr_id c) k) (rr_id c, k) ml (bk_currency b')\<rparr>)))))"

definition eligible ::
    "buckets \<Rightarrow> currency list \<Rightarrow> currency \<Rightarrow> statement_line \<Rightarrow> journal \<Rightarrow> (currency \<times> move_line list) wf" where
  "eligible b cs company_value st j =
    (case jo_currency j of
       None \<Rightarrow>
         ebind (round_currency_amount (dneg (sl_amount st)) company_value) (\<lambda>k.
           Inr (company_value, bucket (\<lambda>k'. deq k' k) (bk_company b)))
     | Some c \<Rightarrow>
        (case find_currency cs (rr_id c) of
           None \<Rightarrow> Inl Key_error
         | Some effective \<Rightarrow>
             ebind (round_currency_amount (dneg (sl_amount st)) effective) (\<lambda>k.
               Inr (effective, bucket (same_key (rr_id c) k) (bk_currency b)))))"

text \<open>The best score, and whether it is unique and high enough.\<close>

definition best_choice :: "statement_line \<Rightarrow> decimal \<Rightarrow> candidate list \<Rightarrow> decision" where
  "best_choice st threshold found =
    (let scored = sort_key (\<lambda>c. (- dec_val (cd_score c), ml_id (cd_line c))) found in
     case scored of
       [] \<Rightarrow> \<lparr>dn_statement = st, dn_candidate = None, dn_best_score = None, dn_reason = Some No_eligible_candidate\<rparr>
     | c # _ \<Rightarrow>
        (let best = filter (\<lambda>x. deq (cd_score x) (cd_score c)) scored in
         if length best > 1 then
           \<lparr>dn_statement = st, dn_candidate = None, dn_best_score = Some (cd_score c),
            dn_reason = Some Ambiguous_best_match\<rparr>
         else if dless (cd_score c) threshold then
           \<lparr>dn_statement = st, dn_candidate = None, dn_best_score = Some (cd_score c),
            dn_reason = Some Below_confidence_threshold\<rparr>
         else \<lparr>dn_statement = st, dn_candidate = Some c, dn_best_score = Some (cd_score c), dn_reason = None\<rparr>))"

definition decide ::
    "buckets \<Rightarrow> decimal \<Rightarrow> journal list \<Rightarrow> related \<Rightarrow> currency list \<Rightarrow> currency \<Rightarrow> statement_line \<Rightarrow> decision wf" where
  "decide b threshold js company_currency cs company_value st =
    (case find_journal js (rr_id (sl_journal st)) of
       None \<Rightarrow> Inl (rb_source_error ''Odoo returned an unavailable statement journal.'')
     | Some j \<Rightarrow>
        if \<not> bank_or_cash j then Inl (rb_source_error ''Odoo returned an unavailable statement journal.'')
        else ebind (eligible b cs company_value st j) (\<lambda>(effective, lines).
          ebind (emap (\<lambda>ml. candidate_of st ml j company_currency effective) lines) (\<lambda>found.
          Inr (best_choice st threshold (somes found)))))"

definition chosen_count :: "decision list \<Rightarrow> int \<Rightarrow> nat" where
  "chosen_count ds i = length (filter (\<lambda>d. case dn_candidate d of None \<Rightarrow> False | Some c \<Rightarrow> ml_id (cd_line c) = i) ds)"

definition settle_conflicts :: "decision list \<Rightarrow> decision list" where
  "settle_conflicts ds =
    map (\<lambda>d. case dn_candidate d of
          None \<Rightarrow> d
        | Some c \<Rightarrow> if chosen_count ds (ml_id (cd_line c)) > 1
                   then d\<lparr>dn_candidate := None, dn_reason := Some Candidate_conflict\<rparr> else d) ds"

definition decisions ::
    "statement_line list \<Rightarrow> move_line list \<Rightarrow> decimal \<Rightarrow> journal list \<Rightarrow> related \<Rightarrow> currency list \<Rightarrow> decision list wf" where
  "decisions statements candidates threshold js company_currency cs =
    (case find_currency cs (rr_id company_currency) of
       None \<Rightarrow> Inl Key_error
     | Some company_value \<Rightarrow>
        ebind (efold (put_candidate cs company_currency company_value) candidates \<lparr>bk_company = [], bk_currency = []\<rparr>)
          (\<lambda>b. ebind (emap (decide b threshold js company_currency cs company_value) statements) (\<lambda>ds.
            Inr (settle_conflicts ds))))"

section \<open>The reports\<close>

record unmatched_item =
  ui_statement_line_id :: int
  ui_date :: int
  ui_amount :: decimal
  ui_currency_id :: int
  ui_currency_name :: string
  ui_partner_id :: "int option"
  ui_partner_name :: "string option"
  ui_reference :: "string option"
  ui_best_rejected_score :: "decimal option"
  ui_reason_code :: unmatched_reason

definition unmatched_of :: "decision \<Rightarrow> journal \<Rightarrow> related \<Rightarrow> unmatched_item wf" where
  "unmatched_of d j company_currency =
    (case dn_reason d of
       None \<Rightarrow> Inl Assertion_error
     | Some reason \<Rightarrow>
        (let st = dn_statement d; ec = effective_currency j company_currency in
         Inr \<lparr>ui_statement_line_id = sl_id st, ui_date = sl_date st, ui_amount = sl_amount st,
              ui_currency_id = rr_id ec, ui_currency_name = rr_name ec,
              ui_partner_id = map_option rr_id (sl_partner st), ui_partner_name = map_option rr_name (sl_partner st),
              ui_reference = sl_payment_reference st, ui_best_rejected_score = dn_best_score d,
              ui_reason_code = reason\<rparr>))"

record reconciliation_match =
  rm_statement_line_id :: int
  rm_move_line_id :: int
  rm_amount :: decimal
  rm_currency_id :: int
  rm_currency_name :: string
  rm_confidence :: decimal
  rm_score_components :: "(string \<times> decimal) list"

definition match_of :: "related \<Rightarrow> decision \<Rightarrow> reconciliation_match option" where
  "match_of ec d =
    (case dn_candidate d of
       None \<Rightarrow> None
     | Some c \<Rightarrow> Some \<lparr>rm_statement_line_id = sl_id (dn_statement d), rm_move_line_id = ml_id (cd_line c),
         rm_amount = sl_amount (dn_statement d), rm_currency_id = rr_id ec, rm_currency_name = rr_name ec,
         rm_confidence = cd_score c, rm_score_components = cd_components c\<rparr>)"

record reconciliation_summary =
  rs_statement_line_count :: nat
  rs_matched_count :: nat
  rs_unmatched_count :: nat
  rs_currency_id :: int
  rs_currency_name :: string
  rs_matched_amount :: decimal
  rs_unmatched_amount :: decimal

fun reason_text :: "unmatched_reason \<Rightarrow> string" where
  "reason_text No_eligible_candidate = ''no_eligible_candidate''"
| "reason_text Below_confidence_threshold = ''below_confidence_threshold''"
| "reason_text Ambiguous_best_match = ''ambiguous_best_match''"
| "reason_text Candidate_conflict = ''candidate_conflict''"

text \<open>\<open>_markdown\<close>: backslashes and bars are escaped, line ends become blanks.\<close>

definition markdown :: "string \<Rightarrow> string" where
  "markdown t = concat (map (\<lambda>c. if c = CHR 0x5C then [CHR 0x5C, CHR 0x5C] else if c = CHR ''|'' then [CHR 0x5C, CHR ''|'']
      else if c = CHR 0x0D \<or> c = CHR 0x0A then '' '' else [c]) t)"

definition newline :: string where "newline = [CHR 0x0A]"

record reconciliation_input =
  ri_company_id :: int
  ri_period :: string
  ri_bank_journal_id :: int
  ri_statement_line_ids :: "int list"
  ri_threshold :: decimal

definition score_text :: "decimal option \<Rightarrow> string" where
  "score_text v = (case v of None \<Rightarrow> [] | Some d \<Rightarrow> dec_text d)"

definition proposal_artifact ::
    "reconciliation_input \<Rightarrow> string \<Rightarrow> reconciliation_match list \<Rightarrow> unmatched_item list \<Rightarrow> reconciliation_summary \<Rightarrow>
      string \<Rightarrow> string" where
  "proposal_artifact r company_name matches unmatched summary request_id =
    join newline
     ([''# Bank Reconciliation Proposal'', [],
       ''- Period: '' @ ri_period r,
       ''- Journal ID: '' @ int_text (ri_bank_journal_id r),
       ''- Company: '' @ markdown company_name @ '' ('' @ int_text (ri_company_id r) @ '')'',
       ''- Audit reference: `'' @ request_id @ ''`'',
       ''- Statement lines reviewed: '' @ nat_text (rs_statement_line_count summary), [],
       ''## Proposed Matches'', [],
       ''| Statement line | Move line | Amount | Confidence |'', ''|---:|---:|---:|---:|'']
      @ map (\<lambda>m. ''| '' @ int_text (rm_statement_line_id m) @ '' | '' @ int_text (rm_move_line_id m) @ '' | ''
          @ dec_text (rm_amount m) @ '' | '' @ dec_text (rm_confidence m) @ '' |'') matches
      @ [[], ''## Unmatched Lines'', [], ''| Statement line | Amount | Reason | Best score |'', ''|---:|---:|---|---:|'']
      @ map (\<lambda>u. ''| '' @ int_text (ui_statement_line_id u) @ '' | '' @ dec_text (ui_amount u) @ '' | ''
          @ reason_text (ui_reason_code u) @ '' | '' @ score_text (ui_best_rejected_score u) @ '' |'') unmatched
      @ [[], ''## Risk Flags'', [],
         ''- Proposal only; no Odoo reconciliation state is changed.'',
         ''- Ambiguous, conflicting, and below-threshold candidates remain unmatched.'', [],
         ''## Approval Checklist'', [],
         ''- Verify each amount, partner, reference, date, and confidence score in Odoo.'',
         ''- Complete any final reconciliation directly through an authorized Odoo workflow.'', [],
         ''Totals: matched '' @ nat_text (rs_matched_count summary) @ '' ('' @ dec_text (rs_matched_amount summary) @ ''); ''
           @ ''unmatched '' @ nat_text (rs_unmatched_count summary) @ '' ('' @ dec_text (rs_unmatched_amount summary) @ '').''])"

text \<open>\<open>"YYYY-MM"\<close> as its first and last day; the request model has checked the text.\<close>

definition period_of :: "string \<Rightarrow> date_period wf" where
  "period_of t =
    (case split_once (CHR ''-'') t of
       None \<Rightarrow> Inl Validation_error
     | Some (ys, ms) \<Rightarrow>
        (case (py_int ys, py_int ms) of
           (Some y, Some m) \<Rightarrow>
             if y < 1 \<or> y > 9999 \<or> m < 1 \<or> m > 12 then Inl Validation_error
             else mk_period (date_of y m 1) (date_of y m (month_days y m))
         | _ \<Rightarrow> Inl Validation_error))"

record reconciliation_proposal =
  rp_company_id :: int
  rp_period :: string
  rp_bank_journal_id :: int
  rp_matches :: "reconciliation_match list"
  rp_unmatched :: "unmatched_item list"
  rp_summary :: reconciliation_summary
  rp_risk_flags :: "string list"
  rp_artifact_markdown :: string

definition build_proposal ::
    "reconciliation_input \<Rightarrow> related \<Rightarrow> string \<Rightarrow> string \<Rightarrow> journal \<Rightarrow> statement_line list \<Rightarrow> decision list \<Rightarrow>
      reconciliation_proposal wf" where
  "build_proposal r company_currency company_name request_id j selected ds =
    (let ec = effective_currency j company_currency; matches = List.map_filter (match_of ec) ds in
     ebind (emap (\<lambda>d. unmatched_of d j company_currency) (filter (\<lambda>d. dn_candidate d = None) ds)) (\<lambda>unmatched.
     let summary = \<lparr>rs_statement_line_count = length selected, rs_matched_count = length matches,
           rs_unmatched_count = length unmatched, rs_currency_id = rr_id ec, rs_currency_name = rr_name ec,
           rs_matched_amount = dsum (map (sl_amount \<circ> dn_statement) (filter (\<lambda>d. dn_candidate d \<noteq> None) ds)),
           rs_unmatched_amount = dsum (map ui_amount unmatched)\<rparr>
     in Inr \<lparr>rp_company_id = ri_company_id r, rp_period = ri_period r, rp_bank_journal_id = ri_bank_journal_id r,
          rp_matches = matches, rp_unmatched = unmatched, rp_summary = summary,
          rp_risk_flags = [''proposal_only'', ''no_final_reconciliation'']
             @ (if unmatched = [] then [] else [''manual_review_required'']),
          rp_artifact_markdown = proposal_artifact r company_name matches unmatched summary request_id\<rparr>))"

definition build_reconciliation_proposal ::
    "adapter \<Rightarrow> reconciliation_input \<Rightarrow> related \<Rightarrow> string \<Rightarrow> string \<Rightarrow> reconciliation_proposal wf option" where
  "build_reconciliation_proposal ad r company_currency company_name request_id =
    obind (olift (period_of (ri_period r))) (\<lambda>period.
    obind (strict_drain (statement_loop ad (ri_company_id r) period (Some (ri_bank_journal_id r)))) (\<lambda>statements.
    obind (strict_drain (journal_loop ad (ri_company_id r))) (\<lambda>js.
    case find_journal js (ri_bank_journal_id r) of
      None \<Rightarrow> Some (Inl (Mcp (mk_error JOURNAL_NOT_FOUND ''The requested bank journal is unavailable.''
                ''Use a cash or bank journal available to the authorized company.'')))
    | Some j \<Rightarrow>
       if \<not> bank_or_cash j
       then Some (Inl (Mcp (mk_error JOURNAL_NOT_FOUND ''The requested bank journal is unavailable.''
                ''Use a cash or bank journal available to the authorized company.'')))
       else obind (olift (rb_currencies ad (ri_company_id r) (wanted_currencies company_currency js))) (\<lambda>cs.
         if \<not> set (ri_statement_line_ids r) \<subseteq> set (map sl_id statements)
         then Some (Inl (Mcp (mk_error STATEMENT_LINE_NOT_FOUND
                ''One or more requested bank statement lines are unavailable.''
                ''Use unreconciled statement line IDs from the selected period and journal.'')))
         else (let selected = List.map_filter (\<lambda>i. find_row (\<lambda>s. sl_id s = i) statements) (ri_statement_line_ids r) in
           if list_ex sl_reconciled selected
           then Some (Inl (Mcp (mk_error ODOO_STATE_CONFLICT ''One or more bank statement lines are already reconciled.''
                  ''Refresh the statement lines and submit only unreconciled records.'')))
           else obind (strict_drain (candidate_loop ad (ri_company_id r))) (\<lambda>candidates.
             obind (olift (decisions selected candidates (ri_threshold r) js company_currency cs)) (\<lambda>ds.
             olift (build_proposal r company_currency company_name request_id j selected ds))))))))"

section \<open>The report of unmatched lines\<close>

record unmatched_input =
  un_company_id :: int
  un_limit :: nat
  un_cursor :: "string option"
  un_period_start :: int
  un_period_end :: int
  un_journal_id :: "int option"
  un_threshold :: decimal

record unmatched_summary =
  us_statement_line_count :: nat
  us_unmatched_count :: nat
  us_no_candidate_count :: nat
  us_below_threshold_count :: nat
  us_ambiguous_count :: nat
  us_conflict_count :: nat

record unmatched_response =
  ur_request_id :: string
  ur_company_id :: int
  ur_period_start :: int
  ur_period_end :: int
  ur_items :: "unmatched_item list"
  ur_next_cursor :: "string option"
  ur_summary :: unmatched_summary
  ur_artifact_markdown :: string

definition count_reason :: "unmatched_reason \<Rightarrow> unmatched_item list \<Rightarrow> nat" where
  "count_reason r us = length (filter (\<lambda>u. ui_reason_code u = r) us)"

definition unmatched_artifact ::
    "unmatched_input \<Rightarrow> string \<Rightarrow> string \<Rightarrow> nat \<Rightarrow> unmatched_item list \<Rightarrow> string option \<Rightarrow> unmatched_summary \<Rightarrow> string" where
  "unmatched_artifact r company_name request_id offset items nx summary =
    (let first = (if items = [] then 0 else offset + 1); final = (if items = [] then 0 else offset + length items) in
     join newline
      ([''# Unmatched Bank Statement Lines'', [],
        ''- Period: '' @ isoformat (un_period_start r) @ '' to '' @ isoformat (un_period_end r),
        ''- Company: '' @ markdown company_name @ '' ('' @ int_text (un_company_id r) @ '')'',
        ''- Audit reference: `'' @ request_id @ ''`'',
        ''- Page rows: '' @ nat_text first @ ''-'' @ nat_text final @ '' of '' @ nat_text (us_unmatched_count summary),
        if nx \<noteq> None then ''- Continuation: more rows are available through `next_cursor`'' else ''- Continuation: complete'',
        [], ''| Date | Statement line | Amount | Reference | Reason | Best score |'', ''|---|---:|---:|---|---|---:|'']
       @ map (\<lambda>u. ''| '' @ isoformat (ui_date u) @ '' | '' @ int_text (ui_statement_line_id u) @ '' | ''
           @ dec_text (ui_amount u) @ '' | '' @ markdown (case ui_reference u of None \<Rightarrow> [] | Some t \<Rightarrow> t) @ '' | ''
           @ reason_text (ui_reason_code u) @ '' | '' @ score_text (ui_best_rejected_score u) @ '' |'') items
       @ [[], ''Whole-report totals: reviewed '' @ nat_text (us_statement_line_count summary) @ ''; ''
             @ ''unmatched '' @ nat_text (us_unmatched_count summary) @ ''.'']))"

definition report_unmatched ::
    "unmatched_input \<Rightarrow> string \<Rightarrow> string \<Rightarrow> nat \<Rightarrow> unmatched_item list \<Rightarrow> unmatched_response wf" where
  "report_unmatched r company_name request_id reviewed found =
    (let all_items = sort_key (\<lambda>u. (ui_date u, ui_statement_line_id u)) found;
         summary = \<lparr>us_statement_line_count = reviewed, us_unmatched_count = length all_items,
           us_no_candidate_count = count_reason No_eligible_candidate all_items,
           us_below_threshold_count = count_reason Below_confidence_threshold all_items,
           us_ambiguous_count = count_reason Ambiguous_best_match all_items,
           us_conflict_count = count_reason Candidate_conflict all_items\<rparr>
     in ebind (cursor_offset ''Restart the unmatched-line report without a cursor.'' (un_cursor r)) (\<lambda>offset.
        ebind (cut next_cursor (Mcp (mk_error INVALID_INPUT ''The pagination cursor is outside this unmatched-line report.''
            ''Restart the report without a cursor.'')) all_items (un_limit r) offset) (\<lambda>(items, nx).
        Inr \<lparr>ur_request_id = request_id, ur_company_id = un_company_id r, ur_period_start = un_period_start r,
             ur_period_end = un_period_end r, ur_items = items, ur_next_cursor = nx, ur_summary = summary,
             ur_artifact_markdown = unmatched_artifact r company_name request_id offset items nx summary\<rparr>)))"

definition unmatched_items :: "journal list \<Rightarrow> related \<Rightarrow> decision list \<Rightarrow> unmatched_item list wf" where
  "unmatched_items js company_currency ds =
    emap (\<lambda>d. case find_journal js (rr_id (sl_journal (dn_statement d))) of
         None \<Rightarrow> Inl Key_error
       | Some j \<Rightarrow> unmatched_of d j company_currency) (filter (\<lambda>d. dn_candidate d = None) ds)"

definition flag_unmatched_statement_lines ::
    "adapter \<Rightarrow> unmatched_input \<Rightarrow> related \<Rightarrow> string \<Rightarrow> string \<Rightarrow> unmatched_response wf option" where
  "flag_unmatched_statement_lines ad r company_currency company_name request_id =
    obind (olift (mk_period (un_period_start r) (un_period_end r))) (\<lambda>period.
    obind (strict_drain (statement_loop ad (un_company_id r) period (un_journal_id r))) (\<lambda>drained.
    let statements = filter (Not \<circ> sl_reconciled) drained in
    obind (strict_drain (journal_loop ad (un_company_id r))) (\<lambda>js.
    obind (olift (rb_currencies ad (un_company_id r) (wanted_currencies company_currency js))) (\<lambda>cs.
    obind (strict_drain (candidate_loop ad (un_company_id r))) (\<lambda>candidates.
    obind (olift (decisions statements candidates (un_threshold r) js company_currency cs)) (\<lambda>ds.
    obind (olift (unmatched_items js company_currency ds)) (\<lambda>found.
    olift (report_unmatched r company_name request_id (length statements) found))))))))"

end
