(* ===== verification/ReconcileProps.thy ===== *)
theory ReconcileProps
  imports Reconcile
begin

text \<open>
  What bank reconciliation promises: the search by buckets of rounded amounts finds what a scan of all
  candidates finds, a score stays within its bounds, a proposal matches a move line at most once and only
  when its candidate is the unique best one above the threshold, and the workflows end.
\<close>

section \<open>Buckets\<close>

lemma bucket_put_same: "same k \<Longrightarrow> bucket same (put_bucket same k v d) = bucket same d @ [v]"
  by (induction d) (auto simp: bucket_def split: prod.splits option.splits)

lemma bucket_put_other:
  "(\<And>x. same x \<Longrightarrow> \<not> same' x) \<Longrightarrow> \<not> same' k \<Longrightarrow> bucket same' (put_bucket same k v d) = bucket same' d"
  by (induction d) (auto simp: bucket_def)

lemma bucket_put:
  assumes "same k" "\<not> same' k \<Longrightarrow> (\<And>x. same x \<Longrightarrow> \<not> same' x)" "same' k \<Longrightarrow> same' = same"
  shows "bucket same' (put_bucket same k v d) = bucket same' d @ (if same' k then [v] else [])"
  using assms bucket_put_same [of same k v d] bucket_put_other [of same same' k v d] by auto

lemma bucket_put_deq:
  "bucket (\<lambda>k'. deq k' q) (put_bucket (\<lambda>k'. deq k' k) k v d)
    = bucket (\<lambda>k'. deq k' q) d @ (if deq k q then [v] else [])"
  by (rule bucket_put) (auto simp: deq_val fun_eq_iff)

lemma bucket_put_key:
  "bucket (same_key i q) (put_bucket (same_key j k) (j, k) v d)
    = bucket (same_key i q) d @ (if j = i \<and> deq k q then [v] else [])"
  by (subst bucket_put) (auto simp: same_key_def deq_val fun_eq_iff)

text \<open>The lines of a bucket: those whose rounded residual equals the key.\<close>

definition in_company :: "currency list \<Rightarrow> related \<Rightarrow> currency \<Rightarrow> decimal \<Rightarrow> move_line \<Rightarrow> bool" where
  "in_company cs cc cv q ml \<longleftrightarrow> (\<exists>c k. ml_currency ml = Some c \<and> rr_id c = rr_id cc \<and> find_currency cs (rr_id c) \<noteq> None
     \<and> round_currency_amount (ml_residual ml) cv = Inr k \<and> deq k q)"

definition in_currency :: "currency list \<Rightarrow> int \<Rightarrow> decimal \<Rightarrow> move_line \<Rightarrow> bool" where
  "in_currency cs i q ml \<longleftrightarrow> (\<exists>c lc k. ml_currency ml = Some c \<and> rr_id c = i \<and> find_currency cs i = Some lc
     \<and> round_currency_amount (ml_residual_currency ml) lc = Inr k \<and> deq k q)"

text \<open>Every amount that a later step rounds has been rounded here.\<close>

definition line_rounds :: "currency list \<Rightarrow> related \<Rightarrow> currency \<Rightarrow> move_line \<Rightarrow> bool" where
  "line_rounds cs cc cv ml \<longleftrightarrow> (\<forall>c lc. ml_currency ml = Some c \<longrightarrow> find_currency cs (rr_id c) = Some lc \<longrightarrow>
     (rr_id c = rr_id cc \<longrightarrow> (\<exists>k. round_currency_amount (ml_residual ml) cv = Inr k))
     \<and> (\<exists>k. round_currency_amount (ml_residual_currency ml) lc = Inr k))"

lemma put_candidate_Inr:
  assumes "put_candidate cs cc cv ml b = Inr b'"
  shows "bucket (\<lambda>k'. deq k' q) (bk_company b')
      = bucket (\<lambda>k'. deq k' q) (bk_company b) @ (if in_company cs cc cv q ml then [ml] else [])"
    and "bucket (same_key i q) (bk_currency b')
      = bucket (same_key i q) (bk_currency b) @ (if in_currency cs i q ml then [ml] else [])"
    and "line_rounds cs cc cv ml"
  using assms
  by (auto simp: put_candidate_def in_company_def in_currency_def line_rounds_def bucket_put_deq bucket_put_key
      split: option.splits if_splits)

lemma filled_buckets:
  assumes "efold (put_candidate cs cc cv) mls b = Inr b'"
  shows "bucket (\<lambda>k'. deq k' q) (bk_company b') = bucket (\<lambda>k'. deq k' q) (bk_company b) @ filter (in_company cs cc cv q) mls
    \<and> bucket (same_key i q) (bk_currency b') = bucket (same_key i q) (bk_currency b) @ filter (in_currency cs i q) mls
    \<and> list_all (line_rounds cs cc cv) mls"
  using assms
proof (induction mls arbitrary: b)
  case (Cons ml mls)
  then obtain b1 where s: "put_candidate cs cc cv ml b = Inr b1" "efold (put_candidate cs cc cv) mls b1 = Inr b'" by auto
  from Cons.IH [OF s(2)] put_candidate_Inr [OF s(1)] show ?case by simp
qed simp

section \<open>The scan of all candidates\<close>

text \<open>The reference: every candidate is tried against every statement line.\<close>

definition scan_decide ::
    "move_line list \<Rightarrow> decimal \<Rightarrow> journal list \<Rightarrow> related \<Rightarrow> currency list \<Rightarrow> statement_line \<Rightarrow> decision wf" where
  "scan_decide candidates threshold js company_currency cs st =
    (case find_journal js (rr_id (sl_journal st)) of
       None \<Rightarrow> Inl (rb_source_error ''Odoo returned an unavailable statement journal.'')
     | Some j \<Rightarrow>
        if \<not> bank_or_cash j then Inl (rb_source_error ''Odoo returned an unavailable statement journal.'')
        else (case find_currency cs (rr_id (effective_currency j company_currency)) of
            None \<Rightarrow> Inl Key_error
          | Some effective \<Rightarrow>
              ebind (emap (\<lambda>ml. candidate_of st ml j company_currency effective) candidates) (\<lambda>found.
              Inr (best_choice st threshold (somes found)))))"

definition scan_decisions ::
    "statement_line list \<Rightarrow> move_line list \<Rightarrow> decimal \<Rightarrow> journal list \<Rightarrow> related \<Rightarrow> currency list \<Rightarrow> decision list wf" where
  "scan_decisions statements candidates threshold js company_currency cs =
    (if find_currency cs (rr_id company_currency) = None then Inl Key_error
     else ebind (emap (scan_decide candidates threshold js company_currency cs) statements) (\<lambda>ds. Inr (settle_conflicts ds)))"

text \<open>Amounts of at most 28 digits: their negation is exact.\<close>

definition short :: "decimal \<Rightarrow> bool" where "short d \<longleftrightarrow> \<bar>coeff d\<bar> < 10 ^ 28"

lemma round_neg: "short v \<Longrightarrow> round_currency_amount (dneg v) c = map_sum id mirror (round_currency_amount v c)"
  by (simp add: short_def round_currency_amount_def dneg_mirror rounded_mirror)

lemma map_sum_Inr: "map_sum id mirror x = Inr k \<longleftrightarrow> x = Inr (mirror k)"
  by (cases x) (auto simp: mirror_def)

lemma deq_mirror: "deq (mirror a) (mirror b) \<longleftrightarrow> deq b a"
  by (auto simp: deq_val)

lemma emap_filter:
  "\<forall>x \<in> set xs. \<not> P x \<longrightarrow> f x = Inr None \<Longrightarrow> emap f (filter P xs) = Inr ys
    \<Longrightarrow> \<exists>zs. emap f xs = Inr zs \<and> somes zs = somes ys"
proof (induction xs arbitrary: ys)
  case (Cons x xs)
  show ?case
  proof (cases "P x")
    case True
    with Cons.prems(2) obtain y ys' where y: "f x = Inr y" "emap f (filter P xs) = Inr ys'" "ys = y # ys'" by auto
    with Cons.IH [of ys'] Cons.prems(1) obtain zs where "emap f xs = Inr zs"
      "somes zs = somes ys'" by auto
    with y show ?thesis by (cases y) auto
  next
    case False
    with Cons obtain zs where "emap f xs = Inr zs" "somes zs = somes ys" by auto
    with False Cons.prems(1) show ?thesis by auto
  qed
qed simp

text \<open>The amount a statement line is compared with.\<close>

definition open_amount :: "journal \<Rightarrow> move_line \<Rightarrow> decimal" where
  "open_amount j ml = (if jo_currency j = None then ml_residual ml else ml_residual_currency ml)"

lemma candidate_not_equal:
  assumes "short (sl_amount st)" "short (open_amount j ml)"
    "round_currency_amount (dneg (sl_amount st)) eff = Inr k" "round_currency_amount (open_amount j ml) eff = Inr r"
    "\<not> deq r k"
  shows "candidate_of st ml j cc eff = Inr None"
proof -
  have "round_currency_amount (sl_amount st) eff = Inr (mirror k)"
    using assms(3) by (simp add: round_neg [OF assms(1)] map_sum_Inr)
  moreover have "round_currency_amount (dneg (open_amount j ml)) eff = Inr (mirror r)"
    by (simp add: round_neg [OF assms(2)] assms(4))
  ultimately show ?thesis using assms(5)
    by (auto simp: candidate_of_def Let_def open_amount_def deq_mirror split: option.splits)
qed

lemma candidate_other_currency:
  "(case ml_currency ml of None \<Rightarrow> True | Some c \<Rightarrow> rr_id c \<noteq> rr_id (effective_currency j cc))
    \<Longrightarrow> candidate_of st ml j cc eff = Inr None"
  by (simp add: candidate_of_def Let_def)

lemma outside_company:
  assumes "short (sl_amount st)" "short (ml_residual ml)" "jo_currency j = None"
    "find_currency cs (rr_id cc) = Some cv" "round_currency_amount (dneg (sl_amount st)) cv = Inr k"
    "line_rounds cs cc cv ml" "\<not> in_company cs cc cv k ml"
  shows "candidate_of st ml j cc cv = Inr None"
proof (cases "case ml_currency ml of None \<Rightarrow> True | Some c \<Rightarrow> rr_id c \<noteq> rr_id (effective_currency j cc)")
  case False
  then obtain c where c: "ml_currency ml = Some c" "rr_id c = rr_id cc"
    using assms(3) by (auto simp: effective_currency_def split: option.splits)
  with assms(4,6) obtain r where r: "round_currency_amount (ml_residual ml) cv = Inr r"
    by (auto simp: line_rounds_def)
  with assms(4,7) c have "\<not> deq r k" by (auto simp: in_company_def)
  with candidate_not_equal [of st j ml cv k r] assms r show ?thesis by (simp add: open_amount_def)
qed (rule candidate_other_currency)

lemma outside_currency:
  assumes "short (sl_amount st)" "short (ml_residual_currency ml)" "jo_currency j = Some jc"
    "find_currency cs (rr_id jc) = Some eff" "round_currency_amount (dneg (sl_amount st)) eff = Inr k"
    "line_rounds cs cc cv ml" "\<not> in_currency cs (rr_id jc) k ml"
  shows "candidate_of st ml j cc eff = Inr None"
proof (cases "case ml_currency ml of None \<Rightarrow> True | Some c \<Rightarrow> rr_id c \<noteq> rr_id (effective_currency j cc)")
  case False
  then obtain c where c: "ml_currency ml = Some c" "rr_id c = rr_id jc"
    using assms(3) by (auto simp: effective_currency_def split: option.splits)
  with assms(4,6) obtain r where r: "round_currency_amount (ml_residual_currency ml) eff = Inr r"
    by (auto simp: line_rounds_def)
  with assms(4,7) c have "\<not> deq r k" by (auto simp: in_currency_def)
  with candidate_not_equal [of st j ml eff k r] assms r show ?thesis by (simp add: open_amount_def)
qed (rule candidate_other_currency)

lemma decide_scans:
  assumes "efold (put_candidate cs cc cv) mls \<lparr>bk_company = [], bk_currency = []\<rparr> = Inr b"
    "find_currency cs (rr_id cc) = Some cv" "short (sl_amount st)"
    "\<forall>ml \<in> set mls. short (ml_residual ml) \<and> short (ml_residual_currency ml)"
    "decide b threshold js cc cs cv st = Inr d"
  shows "scan_decide mls threshold js cc cs st = Inr d"
proof -
  from assms(5) obtain j eff lines found where j: "find_journal js (rr_id (sl_journal st)) = Some j" "bank_or_cash j"
    and el: "eligible b cs cv st j = Inr (eff, lines)"
    and f: "emap (\<lambda>ml. candidate_of st ml j cc eff) lines = Inr found"
    and d: "d = best_choice st threshold (somes found)"
    by (auto simp: decide_def split: option.splits if_splits)
  have "\<exists>P. find_currency cs (rr_id (effective_currency j cc)) = Some eff \<and> lines = filter P mls
      \<and> (\<forall>ml \<in> set mls. \<not> P ml \<longrightarrow> candidate_of st ml j cc eff = Inr None)"
  proof (cases "jo_currency j")
    case None
    with el obtain k where k: "round_currency_amount (dneg (sl_amount st)) cv = Inr k" "eff = cv"
      "lines = bucket (\<lambda>k'. deq k' k) (bk_company b)" by (auto simp: eligible_def)
    note fill = filled_buckets [OF assms(1), of k 0]
    from fill k have "lines = filter (in_company cs cc cv k) mls" by (simp add: bucket_def)
    moreover have "candidate_of st ml j cc eff = Inr None" if "ml \<in> set mls" "\<not> in_company cs cc cv k ml" for ml
      using outside_company [OF assms(3) _ None assms(2) k(1), of ml] fill assms(4) that k(2) by (auto simp: list_all_iff)
    ultimately show ?thesis using None assms(2) k(2) by (intro exI [of _ "in_company cs cc cv k"])
        (simp add: effective_currency_def)
  next
    case (Some jc)
    with el obtain k where k: "find_currency cs (rr_id jc) = Some eff"
      "round_currency_amount (dneg (sl_amount st)) eff = Inr k"
      "lines = bucket (same_key (rr_id jc) k) (bk_currency b)" by (auto simp: eligible_def split: option.splits)
    note fill = filled_buckets [OF assms(1), of k "rr_id jc"]
    from fill k have "lines = filter (in_currency cs (rr_id jc) k) mls" by (simp add: bucket_def)
    moreover have "candidate_of st ml j cc eff = Inr None" if "ml \<in> set mls" "\<not> in_currency cs (rr_id jc) k ml" for ml
      using outside_currency [OF assms(3) _ Some k(1,2), of ml cc cv] fill assms(4) that by (auto simp: list_all_iff)
    ultimately show ?thesis using Some k(1) by (intro exI [of _ "in_currency cs (rr_id jc) k"])
        (simp add: effective_currency_def)
  qed
  then obtain P where P: "find_currency cs (rr_id (effective_currency j cc)) = Some eff" "lines = filter P mls"
    "\<forall>ml \<in> set mls. \<not> P ml \<longrightarrow> candidate_of st ml j cc eff = Inr None" by (elim exE conjE)
  from emap_filter [OF P(3)] f P(2) obtain zs where "emap (\<lambda>ml. candidate_of st ml j cc eff) mls = Inr zs"
    "somes zs = somes found" by blast
  with j P(1) d show ?thesis by (simp add: scan_decide_def)
qed

lemma scans:
  assumes "\<forall>st \<in> set statements. short (sl_amount st)"
    "\<forall>ml \<in> set candidates. short (ml_residual ml) \<and> short (ml_residual_currency ml)"
    "decisions statements candidates threshold js cc cs = Inr ds"
  shows "scan_decisions statements candidates threshold js cc cs = Inr ds"
proof -
  from assms(3) obtain cv b raw where c: "find_currency cs (rr_id cc) = Some cv"
    "efold (put_candidate cs cc cv) candidates \<lparr>bk_company = [], bk_currency = []\<rparr> = Inr b"
    "emap (decide b threshold js cc cs cv) statements = Inr raw" "ds = settle_conflicts raw"
    by (auto simp: decisions_def split: option.splits)
  have "emap (scan_decide candidates threshold js cc cs) statements = Inr raw"
    using c(3) decide_scans [OF c(2,1) _ assms(2)] assms(1)
    unfolding emap_Inr by (auto elim!: list.rel_mono_strong)
  with c(1,4) show ?thesis by (simp add: scan_decisions_def)
qed

text \<open>When every amount can be rounded to every currency read, the two searches agree in every outcome.\<close>

definition roundable :: "currency list \<Rightarrow> decimal \<Rightarrow> bool" where
  "roundable cs v \<longleftrightarrow> list_all (\<lambda>c. \<not> isl (round_currency_amount v c)) cs"

lemma roundableD: "roundable cs v \<Longrightarrow> find_currency cs i = Some c \<Longrightarrow> \<exists>k. round_currency_amount v c = Inr k"
  by (auto simp: roundable_def list_all_iff find_currency_def dest!: find_row_Some split: sum.splits)
    (metis Inl_Inr_False isl_def sum.exhaust)

lemma put_candidate_total:
  assumes "roundable cs (ml_residual ml)" "roundable cs (ml_residual_currency ml)" "find_currency cs (rr_id cc) = Some cv"
  shows "\<exists>b'. put_candidate cs cc cv ml b = Inr b'"
  using roundableD [OF assms(1) assms(3)] roundableD [OF assms(2)]
  by (fastforce simp: put_candidate_def split: option.splits)

lemma fill_total:
  assumes "\<forall>ml \<in> set mls. roundable cs (ml_residual ml) \<and> roundable cs (ml_residual_currency ml)"
    "find_currency cs (rr_id cc) = Some cv"
  shows "\<exists>b'. efold (put_candidate cs cc cv) mls b = Inr b'"
  using assms(1)
proof (induction mls arbitrary: b)
  case (Cons ml mls)
  then obtain b1 where "put_candidate cs cc cv ml b = Inr b1" using put_candidate_total [OF _ _ assms(2)] by force
  with Cons show ?case by simp
qed simp

lemma emap_skips:
  "\<forall>x \<in> set xs. \<not> P x \<longrightarrow> f x = Inr None \<Longrightarrow> map_sum id somes (emap f (filter P xs)) = map_sum id somes (emap f xs)"
proof (induction xs)
  case (Cons x xs)
  have IH: "map_sum id somes (emap f (filter P xs)) = map_sum id somes (emap f xs)"
    by (rule Cons.IH) (use Cons.prems in simp)
  show ?case
  proof (cases "f x")
    case (Inr y)
    with Cons.prems IH show ?thesis
      by (cases y; cases "emap f (filter P xs)"; cases "emap f xs") auto
  qed (use Cons.prems in auto)
qed simp

lemma decide_found: "ebind m (\<lambda>found. Inr (best_choice st t (somes found))) = map_sum id (best_choice st t) (map_sum id somes m)"
  by (cases m) simp_all

lemma skipped_decision:
  assumes "lines = filter P mls" "\<forall>ml \<in> set mls. \<not> P ml \<longrightarrow> candidate_of st ml j cc eff = Inr None"
  shows "ebind (emap (\<lambda>ml. candidate_of st ml j cc eff) lines) (\<lambda>found. Inr (best_choice st t (somes found)))
    = ebind (emap (\<lambda>ml. candidate_of st ml j cc eff) mls) (\<lambda>found. Inr (best_choice st t (somes found)))"
  unfolding decide_found assms(1) using emap_skips [OF assms(2)] by simp

lemma round_neg_total: "short v \<Longrightarrow> round_currency_amount v c = Inr k \<Longrightarrow> round_currency_amount (dneg v) c = Inr (mirror k)"
  by (simp add: round_neg)

lemma decide_equals_scan:
  assumes fill: "efold (put_candidate cs cc cv) mls \<lparr>bk_company = [], bk_currency = []\<rparr> = Inr b"
    and cv: "find_currency cs (rr_id cc) = Some cv" and st: "short (sl_amount st)" "roundable cs (sl_amount st)"
    and mls: "\<forall>ml \<in> set mls. short (ml_residual ml) \<and> short (ml_residual_currency ml)"
  shows "decide b t js cc cs cv st = scan_decide mls t js cc cs st"
proof (cases "find_journal js (rr_id (sl_journal st))")
  case None
  then show ?thesis by (simp add: decide_def scan_decide_def)
next
  case j: (Some j)
  show ?thesis
  proof (cases "jo_currency j")
    case None
    from roundableD [OF st(2) cv] round_neg_total [OF st(1)] obtain k where
      k: "round_currency_amount (dneg (sl_amount st)) cv = Inr k" by blast
    note full = filled_buckets [OF fill, of k 0]
    have "bucket (\<lambda>k'. deq k' k) (bk_company b) = filter (in_company cs cc cv k) mls" using full by (simp add: bucket_def)
    moreover have "candidate_of st ml j cc cv = Inr None" if "ml \<in> set mls" "\<not> in_company cs cc cv k ml" for ml
      using outside_company [OF st(1) _ None cv k, of ml] full mls that by (auto simp: list_all_iff)
    ultimately show ?thesis using j None cv k skipped_decision [of _ "in_company cs cc cv k" mls st j cc cv t]
      by (simp add: decide_def scan_decide_def eligible_def effective_currency_def)
  next
    case (Some jc)
    show ?thesis
    proof (cases "find_currency cs (rr_id jc)")
      case None
      with j Some show ?thesis by (simp add: decide_def scan_decide_def eligible_def effective_currency_def)
    next
      case eff: (Some eff)
      from roundableD [OF st(2) eff] round_neg_total [OF st(1)] obtain k where
        k: "round_currency_amount (dneg (sl_amount st)) eff = Inr k" by blast
      note full = filled_buckets [OF fill, of k "rr_id jc"]
      have "bucket (same_key (rr_id jc) k) (bk_currency b) = filter (in_currency cs (rr_id jc) k) mls"
        using full by (simp add: bucket_def)
      moreover have "candidate_of st ml j cc eff = Inr None" if "ml \<in> set mls" "\<not> in_currency cs (rr_id jc) k ml" for ml
        using outside_currency [OF st(1) _ Some eff k, of ml cc cv] full mls that by (auto simp: list_all_iff)
      ultimately show ?thesis using j Some eff k skipped_decision [of _ "in_currency cs (rr_id jc) k" mls st j cc eff t]
        by (simp add: decide_def scan_decide_def eligible_def effective_currency_def)
    qed
  qed
qed

lemma emap_cong_list: "list_all (\<lambda>x. f x = g x) xs \<Longrightarrow> emap f xs = emap g xs"
  by (induction xs) simp_all

text \<open>C20 (the buckets lose nothing). For amounts of at most 28 digits that can be rounded to every currency read, the
  search by buckets of rounded amounts equals the scan of all candidates in every outcome: the same decisions, and
  the same error for the same input. Without the condition on rounding, whatever the buckets decide, the scan
  decides.\<close>

theorem buckets_equal_scan:
  assumes "\<forall>st \<in> set statements. short (sl_amount st)"
    "\<forall>ml \<in> set candidates. short (ml_residual ml) \<and> short (ml_residual_currency ml)"
  shows "((\<forall>st \<in> set statements. roundable cs (sl_amount st))
        \<and> (\<forall>ml \<in> set candidates. roundable cs (ml_residual ml) \<and> roundable cs (ml_residual_currency ml)) \<longrightarrow>
      decisions statements candidates threshold js cc cs = scan_decisions statements candidates threshold js cc cs)
    \<and> (decisions statements candidates threshold js cc cs = Inr ds \<longrightarrow>
      scan_decisions statements candidates threshold js cc cs = Inr ds)"
proof (intro conjI impI scans [OF assms]; (elim conjE)?)
  assume st: "\<forall>st \<in> set statements. roundable cs (sl_amount st)"
    and ml: "\<forall>ml \<in> set candidates. roundable cs (ml_residual ml) \<and> roundable cs (ml_residual_currency ml)"
  show "decisions statements candidates threshold js cc cs = scan_decisions statements candidates threshold js cc cs"
  proof (cases "find_currency cs (rr_id cc)")
    case None
    then show ?thesis by (simp add: decisions_def scan_decisions_def)
  next
    case (Some cv)
    from fill_total [OF ml Some] obtain b where
      b: "efold (put_candidate cs cc cv) candidates \<lparr>bk_company = [], bk_currency = []\<rparr> = Inr b" by blast
    have "emap (decide b threshold js cc cs cv) statements = emap (scan_decide candidates threshold js cc cs) statements"
      by (rule emap_cong_list) (use decide_equals_scan [OF b Some _ _ assms(2)] assms(1) st in \<open>auto simp: list_all_iff\<close>)
    with b Some show ?thesis by (simp add: decisions_def scan_decisions_def)
  qed
qed

section \<open>What a decision says\<close>

lemma candidate_of_Some:
  assumes "candidate_of st ml j cc eff = Inr (Some c)"
  shows "cd_line c = ml" "\<not> ml_reconciled ml"
    "\<exists>lc. ml_currency ml = Some lc \<and> rr_id lc = rr_id (effective_currency j cc)"
    "\<exists>a b. round_currency_amount (sl_amount st) eff = Inr a \<and> round_currency_amount (dneg (open_amount j ml)) eff = Inr b \<and> deq a b"
    "score_components st ml = Inr (cd_components c)" "cd_score c = dsum (map snd (cd_components c))"
  using assms by (auto simp: candidate_of_def Let_def open_amount_def split: if_splits option.splits)

text \<open>A chosen candidate is above the threshold and scores more than every other one.\<close>

lemma best_choice_Some:
  assumes "dn_candidate (best_choice st threshold found) = Some c"
  shows "c \<in> set found" "\<not> dless (cd_score c) threshold"
    "x \<in> set found \<Longrightarrow> x = c \<or> dless (cd_score x) (cd_score c)"
    "dn_statement (best_choice st threshold found) = st" "dn_best_score (best_choice st threshold found) = Some (cd_score c)"
    "dn_reason (best_choice st threshold found) = None"
proof -
  define scored where "scored = sort_key (\<lambda>c. (- dec_val (cd_score c), ml_id (cd_line c))) found"
  from assms obtain rest where sc: "scored = c # rest"
    and one: "length (filter (\<lambda>x. deq (cd_score x) (cd_score c)) scored) \<le> 1" and th: "\<not> dless (cd_score c) threshold"
    by (auto simp: best_choice_def Let_def scored_def [symmetric] split: list.splits if_splits)
  have set: "set scored = set found" by (simp add: scored_def)
  show "c \<in> set found" using sc set by auto
  show "\<not> dless (cd_score c) threshold" by (rule th)
  show "x = c \<or> dless (cd_score x) (cd_score c)" if "x \<in> set found"
  proof (cases "x = c")
    case False
    with that sc set have x: "x \<in> set rest" by auto
    have "sorted (map (\<lambda>c. (- dec_val (cd_score c), ml_id (cd_line c))) scored)" by (simp add: scored_def)
    with sc x have "dec_val (cd_score x) \<le> dec_val (cd_score c)" by (auto simp: less_eq_prod_def)
    moreover have "dec_val (cd_score x) \<noteq> dec_val (cd_score c)"
    proof
      assume "dec_val (cd_score x) = dec_val (cd_score c)"
      with x have "x \<in> set (filter (\<lambda>x. deq (cd_score x) (cd_score c)) rest)" by (simp add: deq_val)
      with one sc show False by (auto simp: deq_val)
    qed
    ultimately show ?thesis by (simp add: dless_val)
  qed simp
  show "dn_statement (best_choice st threshold found) = st" "dn_best_score (best_choice st threshold found) = Some (cd_score c)"
    "dn_reason (best_choice st threshold found) = None"
    using assms by (auto simp: best_choice_def Let_def split: list.splits if_splits)
qed

lemma best_choice_None:
  "dn_candidate (best_choice st threshold found) = None \<Longrightarrow> \<exists>r. dn_reason (best_choice st threshold found) = Some r"
  by (auto simp: best_choice_def Let_def split: list.splits if_splits)

lemma best_choice_statement: "dn_statement (best_choice st threshold found) = st"
  by (auto simp: best_choice_def Let_def split: list.splits)

subsection \<open>Conflicts\<close>

definition chosen_line :: "decision \<Rightarrow> int option" where
  "chosen_line d = map_option (ml_id \<circ> cd_line) (dn_candidate d)"

lemma chosen_count_somes: "chosen_count ds i = length (filter ((=) i) (somes (map chosen_line ds)))"
  by (induction ds) (auto simp: chosen_count_def chosen_line_def split: option.splits)

lemma distinct_if_single: "\<forall>x \<in> set zs. length (filter ((=) x) zs) \<le> 1 \<Longrightarrow> distinct zs"
proof (induction zs)
  case (Cons z zs)
  have "length (filter ((=) x) zs) \<le> 1" if "x \<in> set zs" for x
    using Cons.prems that by (auto split: if_splits dest!: bspec [of _ _ x])
  moreover have "z \<notin> set zs"
    using Cons.prems by (auto simp: filter_empty_conv)
  ultimately show ?case using Cons.IH by simp
qed simp

lemma settled_lines:
  "somes (map chosen_line (settle_conflicts ds))
    = filter (\<lambda>i. length (filter ((=) i) (somes (map chosen_line ds))) \<le> 1) (somes (map chosen_line ds))"
proof -
  have "somes (map chosen_line (map (\<lambda>d. case dn_candidate d of None \<Rightarrow> d
        | Some c \<Rightarrow> if n (ml_id (cd_line c)) > 1 then d\<lparr>dn_candidate := None, dn_reason := Some Candidate_conflict\<rparr> else d) xs))
      = filter (\<lambda>i. n i \<le> 1) (somes (map chosen_line xs))" for n :: "int \<Rightarrow> nat" and xs
    by (induction xs) (auto simp: chosen_line_def split: option.splits)
  then show ?thesis by (simp add: settle_conflicts_def chosen_count_somes)
qed

lemma filter_conj_le: "length (filter P (filter Q ys)) \<le> length (filter P ys)"
  by (induction ys) auto

lemma settled_distinct: "distinct (somes (map chosen_line (settle_conflicts ds)))"
proof (rule distinct_if_single, rule ballI)
  fix x
  let ?ys = "somes (map chosen_line ds)"
  let ?Q = "\<lambda>i. length (filter ((=) i) ?ys) \<le> 1"
  assume "x \<in> set (somes (map chosen_line (settle_conflicts ds)))"
  then have "?Q x" by (simp add: settled_lines)
  moreover have "length (filter ((=) x) (filter ?Q ?ys)) \<le> length (filter ((=) x) ?ys)"
    by (rule filter_conj_le)
  ultimately show "length (filter ((=) x) (somes (map chosen_line (settle_conflicts ds)))) \<le> 1"
    by (simp add: settled_lines)
qed

lemma settle_keeps:
  assumes "d \<in> set (settle_conflicts raw)" "dn_candidate d = Some c"
  shows "d \<in> set raw"
  using assms by (auto simp: settle_conflicts_def split: option.splits if_splits)

lemma settle_statements: "map dn_statement (settle_conflicts raw) = map dn_statement raw"
  by (auto simp: settle_conflicts_def split: option.splits)

lemma settle_reason:
  "\<forall>d \<in> set raw. dn_candidate d = None \<longrightarrow> dn_reason d \<noteq> None \<Longrightarrow>
    d \<in> set (settle_conflicts raw) \<Longrightarrow> dn_candidate d = None \<Longrightarrow> dn_reason d \<noteq> None"
  by (auto simp: settle_conflicts_def split: option.splits if_splits)

section \<open>What a proposal says\<close>

text \<open>The amounts are opposite after rounding, in the currency of the journal.\<close>

definition opposite :: "related \<Rightarrow> journal \<Rightarrow> currency \<Rightarrow> statement_line \<Rightarrow> move_line \<Rightarrow> bool" where
  "opposite cc j eff st ml \<longleftrightarrow>
    (\<exists>lc. ml_currency ml = Some lc \<and> rr_id lc = rr_id (effective_currency j cc))
    \<and> (\<exists>a b. round_currency_amount (sl_amount st) eff = Inr a
         \<and> round_currency_amount (dneg (open_amount j ml)) eff = Inr b \<and> dec_val a = dec_val b)"

text \<open>The unique best candidate of a statement line: it reaches the threshold and beats every other one.\<close>

definition best_candidate ::
    "decimal \<Rightarrow> related \<Rightarrow> journal list \<Rightarrow> currency list \<Rightarrow> move_line list \<Rightarrow> statement_line \<Rightarrow> candidate \<Rightarrow> bool" where
  "best_candidate threshold cc js cs candidates st c \<longleftrightarrow>
    (\<exists>j eff. find_journal js (rr_id (sl_journal st)) = Some j
       \<and> find_currency cs (rr_id (effective_currency j cc)) = Some eff
       \<and> (\<exists>ml \<in> set candidates. candidate_of st ml j cc eff = Inr (Some c))
       \<and> cd_line c \<in> set candidates \<and> opposite cc j eff st (cd_line c) \<and> \<not> dless (cd_score c) threshold
       \<and> (\<forall>ml' \<in> set candidates. \<forall>c'. candidate_of st ml' j cc eff = Inr (Some c') \<longrightarrow>
            c' = c \<or> dless (cd_score c') (cd_score c)))"

text \<open>A match: the statement line and the best candidate it joins.\<close>

definition justified ::
    "reconciliation_input \<Rightarrow> related \<Rightarrow> journal list \<Rightarrow> currency list \<Rightarrow> statement_line list \<Rightarrow> move_line list \<Rightarrow>
      reconciliation_match \<Rightarrow> bool" where
  "justified r cc js cs selected candidates m \<longleftrightarrow>
    (\<exists>st \<in> set selected. \<exists>c. best_candidate (ri_threshold r) cc js cs candidates st c
       \<and> rm_statement_line_id m = sl_id st \<and> rm_move_line_id m = ml_id (cd_line c) \<and> rm_amount m = sl_amount st
       \<and> rm_confidence m = cd_score c \<and> rm_score_components m = cd_components c)"

text \<open>How many of the statement lines want a move line as their best candidate.\<close>

definition wanted_by ::
    "decimal \<Rightarrow> related \<Rightarrow> journal list \<Rightarrow> currency list \<Rightarrow> move_line list \<Rightarrow> statement_line list \<Rightarrow> int \<Rightarrow> nat" where
  "wanted_by threshold cc js cs candidates selected i =
    length (filter (\<lambda>st. \<exists>c. best_candidate threshold cc js cs candidates st c \<and> ml_id (cd_line c) = i) selected)"

lemma emap_member: "emap f xs = Inr ys \<Longrightarrow> y \<in> set ys \<Longrightarrow> \<exists>x \<in> set xs. f x = Inr y"
  by (induction xs arbitrary: ys) auto

lemma emap_member': "emap f xs = Inr ys \<Longrightarrow> x \<in> set xs \<Longrightarrow> \<exists>y \<in> set ys. f x = Inr y"
  by (induction xs arbitrary: ys) auto

lemma best_choice_complete:
  assumes "distinct found" "c \<in> set found" "\<not> dless (cd_score c) threshold"
    "\<forall>x \<in> set found. x = c \<or> dless (cd_score x) (cd_score c)"
  shows "dn_candidate (best_choice st threshold found) = Some c"
proof -
  define scored where "scored = sort_key (\<lambda>c. (- dec_val (cd_score c), ml_id (cd_line c))) found"
  have set: "set scored = set found" and d: "distinct scored" using assms(1) by (simp_all add: scored_def)
  with assms(2) obtain h rest where sc: "scored = h # rest" by (cases scored) auto
  have "h = c"
  proof (rule ccontr)
    assume "h \<noteq> c"
    with sc set assms(2,4) have h: "dec_val (cd_score h) < dec_val (cd_score c)" and c: "c \<in> set rest"
      by (auto simp: dless_val)
    have "sorted (map (\<lambda>c. (- dec_val (cd_score c), ml_id (cd_line c))) scored)" by (simp add: scored_def)
    with sc c have "dec_val (cd_score c) \<le> dec_val (cd_score h)" by (auto simp: less_eq_prod_def)
    with h show False by simp
  qed
  have one: "filter (\<lambda>x. deq (cd_score x) (cd_score c)) scored = [c]"
  proof -
    have "filter (\<lambda>x. deq (cd_score x) (cd_score c)) rest = []"
      using assms(4) d sc set \<open>h = c\<close> by (auto simp: filter_empty_conv deq_val dless_val)
    then show ?thesis by (simp add: sc \<open>h = c\<close> deq_val)
  qed
  then show ?thesis using assms(3) by (simp add: best_choice_def scored_def [symmetric] sc \<open>h = c\<close> one [unfolded sc \<open>h = c\<close>])
qed

lemma found_candidates:
  assumes "emap (\<lambda>ml. candidate_of st ml j cc eff) mls = Inr found" "distinct mls"
  shows "distinct (map cd_line (somes found)) \<and> cd_line ` set (somes found) \<subseteq> set mls"
  using assms
proof (induction mls arbitrary: found)
  case (Cons ml mls)
  then obtain x xs where x: "candidate_of st ml j cc eff = Inr x" "found = x # xs"
    "emap (\<lambda>ml. candidate_of st ml j cc eff) mls = Inr xs" by auto
  note IH = Cons.IH [OF x(3)]
  show ?case
  proof (cases x)
    case None
    with IH Cons.prems(2) show ?thesis by (auto simp: x(2))
  next
    case (Some c)
    have "cd_line c = ml" by (rule candidate_of_Some(1) [OF x(1) [unfolded Some]])
    with IH Cons.prems(2) Some show ?thesis by (auto simp: x(2))
  qed
qed simp

text \<open>A decision of the scan names a candidate exactly when it is the unique best one.\<close>

lemma scan_decide_best:
  assumes "scan_decide candidates threshold js cc cs st = Inr d" "distinct candidates"
  shows "dn_candidate d = Some c \<longleftrightarrow> best_candidate threshold cc js cs candidates st c"
    and "dn_statement d = st"
proof -
  from assms(1) obtain j eff found where j: "find_journal js (rr_id (sl_journal st)) = Some j"
    and eff: "find_currency cs (rr_id (effective_currency j cc)) = Some eff"
    and f: "emap (\<lambda>ml. candidate_of st ml j cc eff) candidates = Inr found"
    and d: "d = best_choice st threshold (somes found)"
    by (auto simp: scan_decide_def split: option.splits if_splits)
  show "dn_statement d = st" by (simp add: d best_choice_statement)
  have mem: "x \<in> set (somes found) \<longleftrightarrow> (\<exists>ml \<in> set candidates. candidate_of st ml j cc eff = Inr (Some x))" for x
    using emap_member [OF f, of "Some x"] emap_member' [OF f] by (fastforce simp: set_somes)
  have line: "cd_line x \<in> set candidates \<and> opposite cc j eff st (cd_line x)" if x: "x \<in> set (somes found)" for x
  proof -
    from x mem obtain ml where ml: "ml \<in> set candidates" "candidate_of st ml j cc eff = Inr (Some x)" by blast
    from candidate_of_Some [OF ml(2)] ml(1) show ?thesis by (auto simp: opposite_def deq_val)
  qed
  show "dn_candidate d = Some c \<longleftrightarrow> best_candidate threshold cc js cs candidates st c"
  proof
    assume "dn_candidate d = Some c"
    note best = best_choice_Some [OF this [unfolded d]]
    from best(1,2) best(3) [unfolded mem] line [OF best(1)] mem [of c] show "best_candidate threshold cc js cs candidates st c"
      unfolding best_candidate_def by (intro exI [of _ j] exI [of _ eff] conjI j eff) auto
  next
    assume "best_candidate threshold cc js cs candidates st c"
    with j eff have c: "\<exists>ml \<in> set candidates. candidate_of st ml j cc eff = Inr (Some c)" "\<not> dless (cd_score c) threshold"
      "\<forall>ml' \<in> set candidates. \<forall>c'. candidate_of st ml' j cc eff = Inr (Some c') \<longrightarrow> c' = c \<or> dless (cd_score c') (cd_score c)"
      unfolding best_candidate_def by simp_all
    from c(1) have "c \<in> set (somes found)" unfolding mem .
    moreover have "\<forall>x \<in> set (somes found). x = c \<or> dless (cd_score x) (cd_score c)" using c(3) mem by blast
    moreover note c(2)
    moreover have "distinct (somes found)" using found_candidates [OF f assms(2)] by (simp add: distinct_map)
    ultimately show "dn_candidate d = Some c" unfolding d by (intro best_choice_complete)
  qed
qed

lemma chosen_count_wanted:
  assumes "emap (scan_decide candidates threshold js cc cs) selected = Inr raw" "distinct candidates"
  shows "chosen_count raw i = wanted_by threshold cc js cs candidates selected i"
  using assms(1)
proof (induction selected arbitrary: raw)
  case (Cons st selected)
  then obtain d ds where d: "scan_decide candidates threshold js cc cs st = Inr d" "raw = d # ds"
    "emap (scan_decide candidates threshold js cc cs) selected = Inr ds" by auto
  have "(case dn_candidate d of None \<Rightarrow> False | Some c \<Rightarrow> ml_id (cd_line c) = i)
      \<longleftrightarrow> (\<exists>c. best_candidate threshold cc js cs candidates st c \<and> ml_id (cd_line c) = i)"
    by (simp add: scan_decide_best(1) [OF d(1) assms(2), symmetric] split: option.split)
  with Cons.IH [OF d(3)] d(2) show ?case by (simp add: chosen_count_def wanted_by_def)
qed (simp add: chosen_count_def wanted_by_def)

text \<open>The matches of a scan: a statement line with its best candidate, wanted by no other line.\<close>

lemma scan_matches:
  assumes "scan_decisions selected candidates (ri_threshold r) js cc cs = Inr ds" "distinct candidates"
  defines "best \<equiv> best_candidate (ri_threshold r) cc js cs candidates"
    and "wanted \<equiv> wanted_by (ri_threshold r) cc js cs candidates selected"
  shows "m \<in> set (List.map_filter (match_of ec) ds) \<longleftrightarrow>
    (\<exists>st \<in> set selected. \<exists>c. best st c \<and> wanted (ml_id (cd_line c)) \<le> 1
      \<and> m = \<lparr>rm_statement_line_id = sl_id st, rm_move_line_id = ml_id (cd_line c), rm_amount = sl_amount st,
           rm_currency_id = rr_id ec, rm_currency_name = rr_name ec, rm_confidence = cd_score c,
           rm_score_components = cd_components c\<rparr>)"
  (is "_ \<longleftrightarrow> (\<exists>st \<in> _. \<exists>c. _ \<and> _ \<and> ?is st c)")
proof -
  from assms(1) obtain raw where raw: "emap (scan_decide candidates (ri_threshold r) js cc cs) selected = Inr raw"
    "ds = settle_conflicts raw" by (auto simp: scan_decisions_def split: if_splits)
  note count = chosen_count_wanted [OF raw(1) assms(2), folded wanted_def]
  have settled: "(\<exists>d \<in> set ds. P (dn_statement d) (dn_candidate d)) \<longleftrightarrow>
      (\<exists>d \<in> set raw. \<exists>c. dn_candidate d = Some c \<and> chosen_count raw (ml_id (cd_line c)) \<le> 1 \<and> P (dn_statement d) (Some c))"
    if "\<And>st. \<not> P st None" for P
    using that unfolding raw(2) settle_conflicts_def by (fastforce split: option.splits if_splits)
  have "m \<in> set (List.map_filter (match_of ec) ds) \<longleftrightarrow> (\<exists>d \<in> set ds. \<exists>c. dn_candidate d = Some c
      \<and> m = \<lparr>rm_statement_line_id = sl_id (dn_statement d), rm_move_line_id = ml_id (cd_line c),
           rm_amount = sl_amount (dn_statement d), rm_currency_id = rr_id ec, rm_currency_name = rr_name ec,
           rm_confidence = cd_score c, rm_score_components = cd_components c\<rparr>)"
    by (auto simp: List.map_filter_def match_of_def image_iff split: option.splits)
  also have "\<dots> \<longleftrightarrow> (\<exists>d \<in> set raw. \<exists>c. dn_candidate d = Some c \<and> wanted (ml_id (cd_line c)) \<le> 1
      \<and> m = \<lparr>rm_statement_line_id = sl_id (dn_statement d), rm_move_line_id = ml_id (cd_line c),
           rm_amount = sl_amount (dn_statement d), rm_currency_id = rr_id ec, rm_currency_name = rr_name ec,
           rm_confidence = cd_score c, rm_score_components = cd_components c\<rparr>)"
    by (subst settled [where P = "\<lambda>st x. \<exists>c. x = Some c \<and> m = \<lparr>rm_statement_line_id = sl_id st,
           rm_move_line_id = ml_id (cd_line c), rm_amount = sl_amount st, rm_currency_id = rr_id ec,
           rm_currency_name = rr_name ec, rm_confidence = cd_score c, rm_score_components = cd_components c\<rparr>"])
      (simp_all add: count)
  also have "\<dots> \<longleftrightarrow> (\<exists>st \<in> set selected. \<exists>c. best st c \<and> wanted (ml_id (cd_line c)) \<le> 1
      \<and> m = \<lparr>rm_statement_line_id = sl_id st, rm_move_line_id = ml_id (cd_line c), rm_amount = sl_amount st,
           rm_currency_id = rr_id ec, rm_currency_name = rr_name ec, rm_confidence = cd_score c,
           rm_score_components = cd_components c\<rparr>)"
  proof
    assume "\<exists>d \<in> set raw. \<exists>c. dn_candidate d = Some c \<and> wanted (ml_id (cd_line c)) \<le> 1 \<and> ?is (dn_statement d) c"
    then obtain d c where d: "d \<in> set raw" "dn_candidate d = Some c" "wanted (ml_id (cd_line c)) \<le> 1" "?is (dn_statement d) c" by blast
    from emap_member [OF raw(1) d(1)] obtain st where st: "st \<in> set selected"
      "scan_decide candidates (ri_threshold r) js cc cs st = Inr d" by blast
    with d scan_decide_best [OF st(2) assms(2)] show "\<exists>st \<in> set selected. \<exists>c. best st c \<and> wanted (ml_id (cd_line c)) \<le> 1 \<and> ?is st c"
      unfolding best_def by (intro bexI [of _ st] exI [of _ c]) simp_all
  next
    assume "\<exists>st \<in> set selected. \<exists>c. best st c \<and> wanted (ml_id (cd_line c)) \<le> 1 \<and> ?is st c"
    then obtain st c where st: "st \<in> set selected" "best st c" "wanted (ml_id (cd_line c)) \<le> 1" "?is st c" by blast
    from emap_member' [OF raw(1) st(1)] obtain d where d: "d \<in> set raw"
      "scan_decide candidates (ri_threshold r) js cc cs st = Inr d" by blast
    with st scan_decide_best [OF d(2) assms(2)] show "\<exists>d \<in> set raw. \<exists>c. dn_candidate d = Some c
        \<and> wanted (ml_id (cd_line c)) \<le> 1 \<and> ?is (dn_statement d) c"
      unfolding best_def by (intro bexI [of _ d] exI [of _ c]) simp_all
  qed
  finally show ?thesis .
qed

lemma matched_lines: "map rm_move_line_id (List.map_filter (match_of ec) ds) = somes (map chosen_line ds)"
  by (induction ds) (auto simp: map_filter_simps match_of_def chosen_line_def split: option.splits)

lemma build_proposal_Inr:
  assumes "build_proposal r cc name rid j selected ds = Inr p"
  shows "rp_matches p = List.map_filter (match_of (effective_currency j cc)) ds"
    and "emap (\<lambda>d. unmatched_of d j cc) (filter (\<lambda>d. dn_candidate d = None) ds) = Inr (rp_unmatched p)"
    and "rs_matched_count (rp_summary p) = length (rp_matches p)" "rs_unmatched_count (rp_summary p) = length (rp_unmatched p)"
    and "rs_statement_line_count (rp_summary p) = length selected"
  using assms by (auto simp: build_proposal_def Let_def)

text \<open>The steps of a successful call.\<close>

lemma proposal_steps:
  assumes "build_reconciliation_proposal ad r cc name rid = Some (Inr p)"
  shows "\<exists>period statements js j cs candidates selected ds.
    period_of (ri_period r) = Inr period
    \<and> strict_drain (statement_loop ad (ri_company_id r) period (Some (ri_bank_journal_id r))) = Some (Inr statements)
    \<and> strict_drain (journal_loop ad (ri_company_id r)) = Some (Inr js)
    \<and> find_journal js (ri_bank_journal_id r) = Some j \<and> bank_or_cash j
    \<and> rb_currencies ad (ri_company_id r) (wanted_currencies cc js) = Inr cs
    \<and> set (ri_statement_line_ids r) \<subseteq> set (map sl_id statements)
    \<and> selected = List.map_filter (\<lambda>i. find_row (\<lambda>s. sl_id s = i) statements) (ri_statement_line_ids r)
    \<and> \<not> list_ex sl_reconciled selected
    \<and> strict_drain (candidate_loop ad (ri_company_id r)) = Some (Inr candidates)
    \<and> decisions selected candidates (ri_threshold r) js cc cs = Inr ds
    \<and> build_proposal r cc name rid j selected ds = Inr p"
proof -
  note d = build_reconciliation_proposal_def
  from assms obtain period where 1: "period_of (ri_period r) = Inr period"
    by (cases "period_of (ri_period r)") (auto simp: d)
  from assms 1 obtain statements where 2:
    "strict_drain (statement_loop ad (ri_company_id r) period (Some (ri_bank_journal_id r))) = Some (Inr statements)"
    by (auto simp: d obind_Some_Inr)
  from assms 1 2 obtain js where 3: "strict_drain (journal_loop ad (ri_company_id r)) = Some (Inr js)"
    by (auto simp: d obind_Some_Inr)
  from assms 1 2 3 obtain j where 4: "find_journal js (ri_bank_journal_id r) = Some j" "bank_or_cash j"
    by (auto simp: d split: option.splits if_splits)
  from assms 1 2 3 4 obtain cs where 5: "rb_currencies ad (ri_company_id r) (wanted_currencies cc js) = Inr cs"
    by (cases "rb_currencies ad (ri_company_id r) (wanted_currencies cc js)") (auto simp: d)
  from assms 1 2 3 4 5 have 6: "set (ri_statement_line_ids r) \<subseteq> set (map sl_id statements)"
    by (auto simp: d split: if_splits)
  define selected where "selected = List.map_filter (\<lambda>i. find_row (\<lambda>s. sl_id s = i) statements) (ri_statement_line_ids r)"
  from assms 1 2 3 4 5 6 have 7: "\<not> list_ex sl_reconciled selected"
    by (auto simp: d selected_def [symmetric] split: if_splits)
  from assms 1 2 3 4 5 6 7 obtain candidates where 8: "strict_drain (candidate_loop ad (ri_company_id r)) = Some (Inr candidates)"
    by (auto simp: d selected_def [symmetric] obind_Some_Inr)
  from assms 1 2 3 4 5 6 7 8 obtain ds where 9: "decisions selected candidates (ri_threshold r) js cc cs = Inr ds"
    "build_proposal r cc name rid j selected ds = Inr p"
    by (auto simp: d selected_def [symmetric] obind_Some_Inr)
  from 1 2 3 4 5 6 7 8 9 show ?thesis unfolding selected_def by blast
qed

lemma selected_ids:
  "set ids \<subseteq> set (map sl_id statements) \<Longrightarrow>
    map sl_id (List.map_filter (\<lambda>i. find_row (\<lambda>s. sl_id s = i) statements) ids) = ids"
  by (induction ids) (auto simp: map_filter_simps find_row_None dest!: find_row_Some split: option.splits)

lemma selected_member:
  "st \<in> set (List.map_filter (\<lambda>i. find_row (\<lambda>s. sl_id s = i) statements) ids) \<Longrightarrow> st \<in> set statements"
  by (auto simp: List.map_filter_def dest: find_row_Some)

lemma decide_shape:
  assumes "decide b t js cc cs cv st = Inr d"
  shows "dn_statement d = st" "dn_candidate d = None \<Longrightarrow> dn_reason d \<noteq> None"
  using assms best_choice_None by (auto simp: decide_def best_choice_statement split: option.splits if_splits)

lemma decisions_shape:
  assumes "decisions statements candidates t js cc cs = Inr ds"
  shows "map dn_statement ds = statements"
    and "distinct (somes (map chosen_line ds))"
    and "d \<in> set ds \<Longrightarrow> dn_candidate d = None \<Longrightarrow> dn_reason d \<noteq> None"
proof -
  from assms obtain cv b raw where raw: "emap (decide b t js cc cs cv) statements = Inr raw" "ds = settle_conflicts raw"
    by (auto simp: decisions_def split: option.splits)
  have "map dn_statement raw = statements" using raw(1)
    by (induction statements arbitrary: raw) (auto simp: decide_shape)
  with raw(2) show "map dn_statement ds = statements" by (simp add: settle_statements)
  show "distinct (somes (map chosen_line ds))" unfolding raw(2) by (rule settled_distinct)
  have "\<forall>d \<in> set raw. dn_candidate d = None \<longrightarrow> dn_reason d \<noteq> None"
    using emap_member [OF raw(1)] decide_shape(2) by blast
  then show "d \<in> set ds \<Longrightarrow> dn_candidate d = None \<Longrightarrow> dn_reason d \<noteq> None"
    unfolding raw(2) by (rule settle_reason)
qed

text \<open>The matches of a scan of all candidates.\<close>

lemma scan_justifies:
  assumes scan: "scan_decisions selected candidates (ri_threshold r) js cc cs = Inr ds" and d: "distinct candidates"
    and same: "inj_on sl_id (set selected)"
    and matches: "matches = List.map_filter (match_of (effective_currency j cc)) ds"
  shows "list_all (justified r cc js cs selected candidates) matches"
    "list_all (\<lambda>st. sl_id st \<in> rm_statement_line_id ` set matches \<longleftrightarrow>
        (\<exists>c. best_candidate (ri_threshold r) cc js cs candidates st c
           \<and> wanted_by (ri_threshold r) cc js cs candidates selected (ml_id (cd_line c)) = 1)) selected"
proof -
  note ms = scan_matches [OF scan d, where ec = "effective_currency j cc", folded matches]
  have one: "wanted_by t cc js cs candidates selected (ml_id (cd_line c)) \<le> 1
      \<longleftrightarrow> wanted_by t cc js cs candidates selected (ml_id (cd_line c)) = 1"
    if "st \<in> set selected" "best_candidate t cc js cs candidates st c" for t st c
    using that by (auto simp: wanted_by_def le_Suc_eq filter_empty_conv)
  have "justified r cc js cs selected candidates m" if "m \<in> set matches" for m
  proof -
    from that obtain st c where "st \<in> set selected" "best_candidate (ri_threshold r) cc js cs candidates st c"
      "m = \<lparr>rm_statement_line_id = sl_id st, rm_move_line_id = ml_id (cd_line c), rm_amount = sl_amount st,
         rm_currency_id = rr_id (effective_currency j cc), rm_currency_name = rr_name (effective_currency j cc),
         rm_confidence = cd_score c, rm_score_components = cd_components c\<rparr>" unfolding ms by blast
    then show ?thesis unfolding justified_def by (intro bexI [of _ st] exI [of _ c]) simp_all
  qed
  then show "list_all (justified r cc js cs selected candidates) matches" by (simp add: list_all_iff)
  have "sl_id st \<in> rm_statement_line_id ` set matches \<longleftrightarrow>
      (\<exists>c. best_candidate (ri_threshold r) cc js cs candidates st c
         \<and> wanted_by (ri_threshold r) cc js cs candidates selected (ml_id (cd_line c)) = 1)" if st: "st \<in> set selected" for st
  proof -
    have "sl_id st \<in> rm_statement_line_id ` set matches \<longleftrightarrow>
        (\<exists>st' \<in> set selected. \<exists>c. sl_id st' = sl_id st \<and> best_candidate (ri_threshold r) cc js cs candidates st' c
           \<and> wanted_by (ri_threshold r) cc js cs candidates selected (ml_id (cd_line c)) \<le> 1)"
      by (auto simp: image_iff Bex_def ms) (metis reconciliation_match.select_convs(1))+
    also have "\<dots> \<longleftrightarrow> (\<exists>c. best_candidate (ri_threshold r) cc js cs candidates st c
         \<and> wanted_by (ri_threshold r) cc js cs candidates selected (ml_id (cd_line c)) = 1)"
      using inj_onD [OF same _ _ st] st one by blast
    finally show ?thesis .
  qed
  then show "list_all (\<lambda>st. sl_id st \<in> rm_statement_line_id ` set matches \<longleftrightarrow>
        (\<exists>c. best_candidate (ri_threshold r) cc js cs candidates st c
           \<and> wanted_by (ri_threshold r) cc js cs candidates selected (ml_id (cd_line c)) = 1)) selected"
    by (simp add: list_all_iff)
qed

text \<open>C19 (a proposed match is justified). A proposal names a move line at most once. Its statement lines are the requested
  ones among those the adapter delivers for the company, journal and period, none reconciled; its candidates are the
  unreconciled move lines the adapter delivers for the company. When the amounts have at most 28 digits, every match
  joins a statement line to its unique best candidate: opposite in amount after rounding, in the same currency, with
  a confidence that reaches the threshold and exceeds that of every other candidate. And no match is missed: a
  requested line is matched exactly when it has such a candidate and no other requested line wants the same one.\<close>

theorem proposal_matches_are_justified:
  assumes "build_reconciliation_proposal ad r cc name rid = Some (Inr p)"
  shows "\<exists>period statements js cs candidates selected. period_of (ri_period r) = Inr period
    \<and> strict_drain (statement_loop ad (ri_company_id r) period (Some (ri_bank_journal_id r))) = Some (Inr statements)
    \<and> strict_drain (journal_loop ad (ri_company_id r)) = Some (Inr js)
    \<and> rb_currencies ad (ri_company_id r) (wanted_currencies cc js) = Inr cs
    \<and> strict_drain (candidate_loop ad (ri_company_id r)) = Some (Inr candidates)
    \<and> map sl_id selected = ri_statement_line_ids r \<and> set selected \<subseteq> set statements
    \<and> list_all (\<lambda>st. sl_company_id st = ri_company_id r \<and> dp_start period \<le> sl_date st \<and> sl_date st \<le> dp_end period
         \<and> ri_bank_journal_id r = rr_id (sl_journal st) \<and> \<not> sl_reconciled st) selected
    \<and> list_all (\<lambda>ml. ml_company_id ml = ri_company_id r \<and> \<not> ml_reconciled ml) candidates
    \<and> distinct (map rm_move_line_id (rp_matches p))
    \<and> (list_all (\<lambda>st. short (sl_amount st)) selected
         \<and> list_all (\<lambda>ml. short (ml_residual ml) \<and> short (ml_residual_currency ml)) candidates \<longrightarrow>
       list_all (justified r cc js cs selected candidates) (rp_matches p)
       \<and> list_all (\<lambda>st. sl_id st \<in> rm_statement_line_id ` set (rp_matches p) \<longleftrightarrow>
            (\<exists>c. best_candidate (ri_threshold r) cc js cs candidates st c
               \<and> wanted_by (ri_threshold r) cc js cs candidates selected (ml_id (cd_line c)) = 1)) selected)"
proof -
  from proposal_steps [OF assms] obtain period statements js j cs candidates selected ds where s:
    "period_of (ri_period r) = Inr period"
    "strict_drain (statement_loop ad (ri_company_id r) period (Some (ri_bank_journal_id r))) = Some (Inr statements)"
    "strict_drain (journal_loop ad (ri_company_id r)) = Some (Inr js)"
    "rb_currencies ad (ri_company_id r) (wanted_currencies cc js) = Inr cs"
    "strict_drain (candidate_loop ad (ri_company_id r)) = Some (Inr candidates)"
    and sel: "set (ri_statement_line_ids r) \<subseteq> set (map sl_id statements)"
    "selected = List.map_filter (\<lambda>i. find_row (\<lambda>s. sl_id s = i) statements) (ri_statement_line_ids r)"
    "\<not> list_ex sl_reconciled selected"
    and d: "decisions selected candidates (ri_threshold r) js cc cs = Inr ds"
    "build_proposal r cc name rid j selected ds = Inr p" by (elim exE conjE)
  note build = build_proposal_Inr [OF d(2)]
  have ids: "map sl_id selected = ri_statement_line_ids r" using selected_ids [OF sel(1)] sel(2) by simp
  have sub: "set selected \<subseteq> set statements" using selected_member sel(2) by blast
  have scope: "list_all (\<lambda>st. sl_company_id st = ri_company_id r \<and> dp_start period \<le> sl_date st
      \<and> sl_date st \<le> dp_end period \<and> ri_bank_journal_id r = rr_id (sl_journal st) \<and> \<not> sl_reconciled st) selected"
    using strict_drain_Inr [OF s(2)] sub sel(3) by (auto simp: list_all_iff list_ex_iff statement_loop_def)
  note cand = strict_drain_Inr [OF s(5)]
  have lines: "list_all (\<lambda>ml. ml_company_id ml = ri_company_id r \<and> \<not> ml_reconciled ml) candidates"
    using cand by (auto simp: list_all_iff candidate_loop_def)
  have once: "distinct (map rm_move_line_id (rp_matches p))"
    unfolding build(1) matched_lines by (rule decisions_shape(2) [OF d(1)])
  have same: "inj_on sl_id (set selected)"
    using strict_drain_Inr [OF s(2)] sub by (auto simp: statement_loop_def distinct_map intro: inj_on_subset)
  have "list_all (justified r cc js cs selected candidates) (rp_matches p)
      \<and> list_all (\<lambda>st. sl_id st \<in> rm_statement_line_id ` set (rp_matches p) \<longleftrightarrow>
            (\<exists>c. best_candidate (ri_threshold r) cc js cs candidates st c
               \<and> wanted_by (ri_threshold r) cc js cs candidates selected (ml_id (cd_line c)) = 1)) selected"
    if "list_all (\<lambda>st. short (sl_amount st)) selected"
      "list_all (\<lambda>ml. short (ml_residual ml) \<and> short (ml_residual_currency ml)) candidates"
  proof -
    have scan: "scan_decisions selected candidates (ri_threshold r) js cc cs = Inr ds"
      by (rule scans [OF _ _ d(1)]) (use that in \<open>simp_all add: list_all_iff\<close>)
    have "distinct candidates" using cand by (simp add: distinct_map)
    from scan_justifies [OF scan this same build(1)] show ?thesis by (rule conjI)
  qed
  with s ids sub scope lines once show ?thesis by blast
qed

lemma unmatched_of_Inr: "unmatched_of d j cc = Inr u \<Longrightarrow> ui_statement_line_id u = sl_id (dn_statement d)
    \<and> ui_amount u = sl_amount (dn_statement d) \<and> dn_reason d = Some (ui_reason_code u)"
  by (auto simp: unmatched_of_def Let_def split: option.splits)

lemma unmatched_ids:
  "emap (\<lambda>d. unmatched_of d j cc) ds = Inr us \<Longrightarrow>
    map ui_statement_line_id us = map (sl_id \<circ> dn_statement) ds"
  by (induction ds arbitrary: us) (auto dest!: unmatched_of_Inr)

lemma matched_ids:
  "map rm_statement_line_id (List.map_filter (match_of ec) ds)
    = map (sl_id \<circ> dn_statement) (filter (\<lambda>d. dn_candidate d \<noteq> None) ds)"
  by (induction ds) (auto simp: map_filter_simps match_of_def split: option.splits)

lemma mset_split: "mset (map f (filter P xs)) + mset (map f (filter (\<lambda>x. \<not> P x) xs)) = mset (map f xs)"
  by (induction xs) auto

text \<open>Every requested line is answered once. The statement lines of the matches and of the unmatched items are
  together exactly the requested ones, the summary counts them, and review is asked for when a line is unmatched.\<close>

theorem proposal_accounts_for_request:
  assumes "build_reconciliation_proposal ad r cc name rid = Some (Inr p)"
  shows "mset (map rm_statement_line_id (rp_matches p) @ map ui_statement_line_id (rp_unmatched p)) = mset (ri_statement_line_ids r)
    \<and> rs_matched_count (rp_summary p) + rs_unmatched_count (rp_summary p) = length (ri_statement_line_ids r)
    \<and> (''manual_review_required'' \<in> set (rp_risk_flags p)) = (rp_unmatched p \<noteq> [])"
proof -
  from proposal_steps [OF assms] obtain period statements js j cs candidates selected ds where s:
    "set (ri_statement_line_ids r) \<subseteq> set (map sl_id statements)"
    "selected = List.map_filter (\<lambda>i. find_row (\<lambda>s. sl_id s = i) statements) (ri_statement_line_ids r)"
    "decisions selected candidates (ri_threshold r) js cc cs = Inr ds"
    "build_proposal r cc name rid j selected ds = Inr p" by (elim exE conjE)
  note build = build_proposal_Inr [OF s(4)]
  have ids: "map (sl_id \<circ> dn_statement) ds = ri_statement_line_ids r"
    using decisions_shape(1) [OF s(3)] selected_ids [OF s(1)] s(2) by (metis map_map)
  have m: "mset (map rm_statement_line_id (rp_matches p)) + mset (map ui_statement_line_id (rp_unmatched p))
      = mset (ri_statement_line_ids r)"
    unfolding build(1) matched_ids unmatched_ids [OF build(2)] ids [symmetric]
    using mset_split [of "sl_id \<circ> dn_statement" "\<lambda>d. dn_candidate d \<noteq> None" ds] by simp
  then have "length (rp_matches p) + length (rp_unmatched p) = length (ri_statement_line_ids r)"
    by (metis length_map size_mset size_union)
  with m build(3,4) s(4) show ?thesis by (auto simp: build_proposal_def Let_def)
qed

section \<open>Scores\<close>

text \<open>The score as a function of what agrees and of the days between.\<close>

definition score_with :: "bool \<Rightarrow> bool \<Rightarrow> decimal \<Rightarrow> decimal" where
  "score_with by_partner by_reference near =
    dsum [Dec 55 (-2), if by_partner then Dec 20 (-2) else Dec 0 0, if by_reference then Dec 15 (-2) else Dec 0 0, near]"

definition score_fine :: "int \<Rightarrow> bool \<Rightarrow> bool \<Rightarrow> decimal \<Rightarrow> bool" where
  "score_fine gap by_partner by_reference near \<longleftrightarrow>
    (let s = score_with by_partner by_reference near in
     \<not> dless s (Dec 55 (-2)) \<and> \<not> dless (Dec 1 0) s
     \<and> (dless s (Dec 85 (-2)) \<longleftrightarrow> \<not> (by_partner \<and> (by_reference \<or> gap = 0))))"

text \<open>The proximity of every distance in days.\<close>

definition near_table :: "(int \<times> decimal) list" where
  "near_table =
    [(0, Dec 10 (-2)), (1, Dec 9666666666666666666666666667 (-29)), (2, Dec 9333333333333333333333333333 (-29)),
     (3, Dec 9 (-2)), (4, Dec 8666666666666666666666666667 (-29)), (5, Dec 8333333333333333333333333333 (-29)),
     (6, Dec 8 (-2)), (7, Dec 7666666666666666666666666667 (-29)), (8, Dec 7333333333333333333333333333 (-29)),
     (9, Dec 7 (-2)), (10, Dec 6666666666666666666666666667 (-29)), (11, Dec 6333333333333333333333333333 (-29)),
     (12, Dec 6 (-2)), (13, Dec 5666666666666666666666666667 (-29)), (14, Dec 5333333333333333333333333333 (-29)),
     (15, Dec 5 (-2)), (16, Dec 4666666666666666666666666667 (-29)), (17, Dec 4333333333333333333333333333 (-29)),
     (18, Dec 4 (-2)), (19, Dec 3666666666666666666666666667 (-29)), (20, Dec 3333333333333333333333333333 (-29)),
     (21, Dec 3 (-2)), (22, Dec 2666666666666666666666666667 (-29)), (23, Dec 2333333333333333333333333333 (-29)),
     (24, Dec 2 (-2)), (25, Dec 1666666666666666666666666667 (-29)), (26, Dec 1333333333333333333333333333 (-29)),
     (27, Dec 1 (-2)), (28, Dec 6666666666666666666666666667 (-30)), (29, Dec 3333333333333333333333333333 (-30)),
     (30, Dec 0 (-2)), (31, Dec 0 0)]"

lemma near_table_right: "list_all (\<lambda>(gap, d). date_proximity gap = Inr d) near_table"
  by code_simp

lemma scores_fine:
  "list_all (\<lambda>(gap, d). score_fine gap False False d) near_table"
  "list_all (\<lambda>(gap, d). score_fine gap False True d) near_table"
  "list_all (\<lambda>(gap, d). score_fine gap True False d) near_table"
  "list_all (\<lambda>(gap, d). score_fine gap True True d) near_table"
  by code_simp+

lemma near_table_complete: "map fst near_table = [0..31]"
  by code_simp

lemma score_fine_all:
  assumes "date_proximity gap = Inr d" "0 \<le> gap"
  shows "score_fine gap p q d"
proof -
  define g where "g = (if gap \<le> 30 then gap else 31)"
  have g: "g \<in> set [0..31]" "date_proximity g = Inr d" "g = 0 \<longleftrightarrow> gap = 0"
    using assms by (auto simp: g_def date_proximity_def)
  from g(1) obtain d' where d': "(g, d') \<in> set near_table"
    unfolding near_table_complete [symmetric] by auto
  with near_table_right g(2) have "d' = d" by (auto simp: list_all_iff)
  with d' scores_fine have "score_fine g p q d" by (cases p; cases q) (auto simp: list_all_iff)
  with g(3) show ?thesis by (simp add: score_fine_def)
qed

definition same_reference :: "statement_line \<Rightarrow> move_line \<Rightarrow> bool" where
  "same_reference st ml \<longleftrightarrow> reference_text (sl_payment_reference st) \<noteq> []
    \<and> reference_text (sl_payment_reference st) = reference_text (ml_label ml)"

text \<open>C21 (what a score means). A score lies between 0.55 and 1. It reaches the default threshold 0.85 exactly when
  the partner agrees and, besides, the reference agrees or the dates are the same day.\<close>

theorem score_meaning:
  assumes "candidate_of st ml j cc eff = Inr (Some c)"
  shows "\<not> dless (cd_score c) (Dec 55 (-2)) \<and> \<not> dless (Dec 1 0) (cd_score c)
    \<and> (\<not> dless (cd_score c) (Dec 85 (-2)) \<longleftrightarrow>
         same_related (sl_partner st) (ml_partner ml) \<and> (same_reference st ml \<or> sl_date st = ml_date ml))"
proof -
  from candidate_of_Some(5) [OF assms] obtain d where d: "date_proximity \<bar>sl_date st - ml_date ml\<bar> = Inr d"
    and cs: "cd_components c = [(''amount'', Dec 55 (-2)),
          (''partner'', if same_related (sl_partner st) (ml_partner ml) then Dec 20 (-2) else Dec 0 0),
          (''reference'', if same_reference st ml then Dec 15 (-2) else Dec 0 0), (''date_proximity'', d)]"
    by (auto simp: score_components_def Let_def same_reference_def)
  have "cd_score c = score_with (same_related (sl_partner st) (ml_partner ml)) (same_reference st ml) d"
    unfolding candidate_of_Some(6) [OF assms] cs by (simp add: score_with_def)
  with score_fine_all [OF d, of "same_related (sl_partner st) (ml_partner ml)" "same_reference st ml"]
  show ?thesis by (auto simp: score_fine_def Let_def)
qed

end
