(* ===== verification/ReconcileDemo.thy ===== *)
theory ReconcileDemo
  imports ReconcileProps
begin

text \<open>
  The theorems on bank reconciliation applied to a small adapter: one bank journal, one statement line, one open
  receivable of the opposite amount.
\<close>

section \<open>An example\<close>

definition demo_euro :: currency where
  "demo_euro = \<lparr>cy_id = 1, cy_name = ''EUR'', cy_rounding = Dec 1 (-2)\<rparr>"

definition demo_eur :: related where "demo_eur = \<lparr>rr_id = 1, rr_name = ''EUR''\<rparr>"

definition demo_bank :: journal where
  "demo_bank = \<lparr>jo_id = 7, jo_name = ''Bank'', jo_code = ''BNK'', jo_journal_type = ''bank'', jo_company_id = 1,
     jo_currency = None\<rparr>"

definition demo_statement :: "int \<Rightarrow> decimal \<Rightarrow> statement_line" where
  "demo_statement i amount = \<lparr>sl_id = i, sl_date = 19999, sl_payment_reference = Some ''Invoice 12'', sl_amount = amount,
     sl_amount_currency = None, sl_foreign_currency = None, sl_partner = Some \<lparr>rr_id = 3, rr_name = ''Ada''\<rparr>,
     sl_journal = \<lparr>rr_id = 7, rr_name = ''Bank''\<rparr>, sl_company_id = 1, sl_reconciled = False, sl_move = None\<rparr>"

definition demo_line :: "int \<Rightarrow> decimal \<Rightarrow> move_line" where
  "demo_line i amount = \<lparr>ml_id = i, ml_move = \<lparr>rr_id = 90, rr_name = ''M''\<rparr>, ml_move_state = ''posted'',
     ml_account = \<lparr>rr_id = 40, rr_name = ''Receivable''\<rparr>, ml_journal = \<lparr>rr_id = 8, rr_name = ''Sales''\<rparr>,
     ml_partner = Some \<lparr>rr_id = 3, rr_name = ''Ada''\<rparr>, ml_company_id = 1, ml_currency = Some demo_eur,
     ml_date = 19900, ml_maturity_date = None, ml_label = Some ''invoice  12'', ml_debit = Dec 0 0, ml_credit = Dec 0 0,
     ml_balance = Dec 0 0, ml_amount_currency = Dec 0 0, ml_residual = amount, ml_residual_currency = amount,
     ml_reconciled = False, ml_analytic_distribution = []\<rparr>"

text \<open>An adapter that answers every loop with one page.\<close>

definition demo_adapter :: adapter where
  "demo_adapter = empty_adapter\<lparr>ad_journals := (\<lambda>c. one_page [demo_bank]),
     ad_statement_lines := (\<lambda>c p j. one_page [demo_statement 5 (Dec 100 0)]),
     ad_move_lines := (\<lambda>c f. one_page [demo_line 21 (Dec (-100) 0)]),
     ad_currencies := (\<lambda>c ids. one_page [demo_euro])\<rparr>"

definition demo_request :: reconciliation_input where
  "demo_request = \<lparr>ri_company_id = 1, ri_period = ''2024-10'', ri_bank_journal_id = 7, ri_statement_line_ids = [5],
     ri_threshold = Dec 85 (-2)\<rparr>"

section \<open>The run on the example\<close>

definition demo_candidate :: candidate where
  "demo_candidate = \<lparr>cd_line = demo_line 21 (Dec (-100) 0), cd_score = Dec 90 (-2),
     cd_components = [(''amount'', Dec 55 (-2)), (''partner'', Dec 20 (-2)), (''reference'', Dec 15 (-2)),
       (''date_proximity'', Dec 0 0)]\<rparr>"

definition demo_decision :: decision where
  "demo_decision = \<lparr>dn_statement = demo_statement 5 (Dec 100 0), dn_candidate = Some demo_candidate,
     dn_best_score = Some (Dec 90 (-2)), dn_reason = None\<rparr>"

lemma demo_decisions:
  "decisions [demo_statement 5 (Dec 100 0)] [demo_line 21 (Dec (-100) 0)] (Dec 85 (-2)) [demo_bank] demo_eur [demo_euro]
    = Inr [demo_decision]"
  by code_simp

lemma demo_candidate_of:
  "candidate_of (demo_statement 5 (Dec 100 0)) (demo_line 21 (Dec (-100) 0)) demo_bank demo_eur demo_euro = Inr (Some demo_candidate)"
  by code_simp

lemma demo_period: "period_of ''2024-10'' = Inr \<lparr>dp_start = 19997, dp_end = 20027\<rparr>"
  by code_simp

lemma demo_drains:
  "strict_drain (statement_loop demo_adapter 1 \<lparr>dp_start = 19997, dp_end = 20027\<rparr> (Some 7)) = Some (Inr [demo_statement 5 (Dec 100 0)])"
  "strict_drain (journal_loop demo_adapter 1) = Some (Inr [demo_bank])"
  "strict_drain (candidate_loop demo_adapter 1) = Some (Inr [demo_line 21 (Dec (-100) 0)])"
  using strict_one_page [of "statement_loop demo_adapter 1 \<lparr>dp_start = 19997, dp_end = 20027\<rparr> (Some 7)" "[demo_statement 5 (Dec 100 0)]"]
    strict_one_page [of "journal_loop demo_adapter 1" "[demo_bank]"]
    strict_one_page [of "candidate_loop demo_adapter 1" "[demo_line 21 (Dec (-100) 0)]"]
  by (simp_all add: statement_loop_def journal_loop_def candidate_loop_def demo_adapter_def demo_statement_def
      demo_bank_def demo_line_def)

lemma demo_currencies: "rb_currencies demo_adapter 1 (wanted_currencies demo_eur [demo_bank]) = Inr [demo_euro]"
  by code_simp

definition demo_proposal :: reconciliation_proposal where
  "demo_proposal = projr (build_proposal demo_request demo_eur ''Co'' ''r'' demo_bank [demo_statement 5 (Dec 100 0)] [demo_decision])"

lemma demo_built:
  "build_proposal demo_request demo_eur ''Co'' ''r'' demo_bank [demo_statement 5 (Dec 100 0)] [demo_decision] = Inr demo_proposal"
  by (simp add: demo_proposal_def build_proposal_def demo_decision_def Let_def)

lemma demo_matches: "map rm_statement_line_id (rp_matches demo_proposal) = [5]" "map rm_move_line_id (rp_matches demo_proposal) = [21]"
  by (simp_all add: demo_proposal_def build_proposal_def demo_decision_def Let_def match_of_def List.map_filter_def
      demo_candidate_def demo_statement_def demo_line_def)

lemma demo_run:
  "build_reconciliation_proposal demo_adapter demo_request demo_eur ''Co'' ''r'' = Some (Inr demo_proposal)"
proof -
  have bank: "find_journal [demo_bank] 7 = Some demo_bank" "bank_or_cash demo_bank"
    by (simp_all add: find_journal_def demo_bank_def bank_or_cash_def)
  have sel: "List.map_filter (\<lambda>i. find_row (\<lambda>s. sl_id s = i) [demo_statement 5 (Dec 100 0)]) [5] = [demo_statement 5 (Dec 100 0)]"
    "\<not> sl_reconciled (demo_statement 5 (Dec 100 0))" "sl_id (demo_statement 5 (Dec 100 0)) = 5"
    by (simp_all add: List.map_filter_def demo_statement_def)
  have req: "ri_company_id demo_request = 1" "ri_period demo_request = ''2024-10''" "ri_bank_journal_id demo_request = 7"
    "ri_statement_line_ids demo_request = [5]" "ri_threshold demo_request = Dec 85 (-2)"
    by (simp_all add: demo_request_def)
  show ?thesis
    unfolding build_reconciliation_proposal_def req demo_period obind_simps demo_drains bank option.case
      demo_currencies Let_def sel
    by (simp add: bank sel demo_drains demo_decisions demo_built)
qed

section \<open>Witnesses\<close>

lemma demo_short: "\<forall>st \<in> set [demo_statement 5 (Dec 100 0)]. short (sl_amount st)"
  "\<forall>ml \<in> set [demo_line 21 (Dec (-100) 0)]. short (ml_residual ml) \<and> short (ml_residual_currency ml)"
  by (simp_all add: short_def demo_statement_def demo_line_def)

lemma demo_roundable: "roundable [demo_euro] (Dec 100 0)" "roundable [demo_euro] (Dec (-100) 0)"
  by code_simp+

lemma buckets_equal_scan_witness:
  "decisions [demo_statement 5 (Dec 100 0)] [demo_line 21 (Dec (-100) 0)] (Dec 85 (-2)) [demo_bank] demo_eur [demo_euro]
    = scan_decisions [demo_statement 5 (Dec 100 0)] [demo_line 21 (Dec (-100) 0)] (Dec 85 (-2)) [demo_bank] demo_eur [demo_euro]"
  by (rule buckets_equal_scan [OF demo_short, THEN conjunct1, THEN mp])
    (use demo_roundable in \<open>simp add: demo_statement_def demo_line_def\<close>)

lemma proposal_matches_are_justified_witness:
  "build_reconciliation_proposal demo_adapter demo_request demo_eur ''Co'' ''r'' = Some (Inr demo_proposal)
    \<and> map rm_move_line_id (rp_matches demo_proposal) = [21]
    \<and> list_all (justified demo_request demo_eur [demo_bank] [demo_euro] [demo_statement 5 (Dec 100 0)] [demo_line 21 (Dec (-100) 0)])
        (rp_matches demo_proposal)"
proof -
  have req: "ri_company_id demo_request = 1" "ri_period demo_request = ''2024-10''" "ri_bank_journal_id demo_request = 7"
    "ri_statement_line_ids demo_request = [5]" by (simp_all add: demo_request_def)
  have sel: "selected = [demo_statement 5 (Dec 100 0)]"
    if "map sl_id selected = [5]" "set selected \<subseteq> set [demo_statement 5 (Dec 100 0)]" for selected
    using that by (cases selected) auto
  from proposal_matches_are_justified [OF demo_run, unfolded req] obtain period statements js cs candidates selected where
    e: "period_of ''2024-10'' = Inr period" "strict_drain (statement_loop demo_adapter 1 period (Some 7)) = Some (Inr statements)"
      "strict_drain (journal_loop demo_adapter 1) = Some (Inr js)"
      "rb_currencies demo_adapter 1 (wanted_currencies demo_eur js) = Inr cs"
      "strict_drain (candidate_loop demo_adapter 1) = Some (Inr candidates)"
    and m: "map sl_id selected = [5]" "set selected \<subseteq> set statements"
    and j: "list_all (\<lambda>st. short (sl_amount st)) selected
       \<and> list_all (\<lambda>ml. short (ml_residual ml) \<and> short (ml_residual_currency ml)) candidates \<longrightarrow>
       list_all (justified demo_request demo_eur js cs selected candidates) (rp_matches demo_proposal)
       \<and> list_all (\<lambda>st. sl_id st \<in> rm_statement_line_id ` set (rp_matches demo_proposal) \<longleftrightarrow>
            (\<exists>c. best_candidate (ri_threshold demo_request) demo_eur js cs candidates st c
               \<and> wanted_by (ri_threshold demo_request) demo_eur js cs candidates selected (ml_id (cd_line c)) = 1)) selected"
    by (elim exE conjE) (rule that)
  from e(1) have period: "period = \<lparr>dp_start = 19997, dp_end = 20027\<rparr>" by (simp add: demo_period)
  from e(2) have st: "statements = [demo_statement 5 (Dec 100 0)]" unfolding period demo_drains by simp
  from e(3) have js: "js = [demo_bank]" by (simp add: demo_drains)
  from e(4,5) have cs: "cs = [demo_euro]" "candidates = [demo_line 21 (Dec (-100) 0)]"
    by (simp_all add: js demo_drains demo_currencies)
  note selected = sel [OF m [unfolded st]]
  from j have "list_all (justified demo_request demo_eur [demo_bank] [demo_euro] [demo_statement 5 (Dec 100 0)]
      [demo_line 21 (Dec (-100) 0)]) (rp_matches demo_proposal)"
    unfolding selected cs js by (rule mp [THEN conjunct1]) (use demo_short in \<open>simp add: list_all_iff\<close>)
  with demo_run demo_matches show ?thesis by simp
qed

lemma proposal_accounts_for_request_witness:
  "build_reconciliation_proposal demo_adapter demo_request demo_eur ''Co'' ''r'' = Some (Inr demo_proposal)
    \<and> mset (map rm_statement_line_id (rp_matches demo_proposal) @ map ui_statement_line_id (rp_unmatched demo_proposal)) = {#5#}"
  using demo_run proposal_accounts_for_request [OF demo_run] by (simp add: demo_request_def)

lemma score_meaning_witness:
  "\<not> dless (Dec 90 (-2)) (Dec 85 (-2)) \<and> same_reference (demo_statement 5 (Dec 100 0)) (demo_line 21 (Dec (-100) 0))"
proof -
  have "\<not> dless (cd_score demo_candidate) (Dec 85 (-2))" by code_simp
  with score_meaning [OF demo_candidate_of] show ?thesis
    by (simp add: demo_candidate_def) (simp add: demo_statement_def demo_line_def)
qed

end
