(* ===== verification/Reports.thy ===== *)
theory Reports
  imports Reconcile
begin

text \<open>
  The shared part of the accounting reports (\<open>workflows/accounting/reports.py\<close>) and the trial balance: the
  loops that read move lines, partial reconciliations, accounts and analytic accounts, the rounding and the
  analytic share of a line, the cut into pages. These loops check an identifier against the earlier pages
  only, so a record that comes twice in one page is kept twice.
\<close>

section \<open>Reading\<close>

definition invalid_report_response :: wf_error where
  "invalid_report_response = Mcp (mk_error ODOO_API_ERROR ''Odoo returned invalid accounting report data.''
     ''Check Odoo data integrity and record access, then retry.'')"

definition beyond_bound :: wf_error where
  "beyond_bound = Mcp (mk_error ODOO_API_ERROR ''The accounting report exceeds the safe processing bound.''
     ''Narrow the report filters or period and retry.'')"

text \<open>\<open>_bounded\<close>.\<close>

definition bounded :: "nat \<Rightarrow> unit wf" where
  "bounded n = (if n > max_source_records then Inl beyond_bound else Inr ())"

text \<open>The loop over analytic accounts keeps the set of the identifiers, the others the list of the records.\<close>

record 'a report_loop =
  lp_source :: "'a source"
  lp_ident :: "'a \<Rightarrow> int"
  lp_accept :: "'a \<Rightarrow> bool"
  lp_as_set :: bool

definition loop_count :: "'a report_loop \<Rightarrow> 'a drained \<Rightarrow> nat" where
  "loop_count l s = (if lp_as_set l then card (set (dr_seen_ids s)) else length (dr_result s))"

definition visit :: "string option \<Rightarrow> 'a drained \<Rightarrow> 'a drained wf" where
  "visit cursor s =
    (case cursor of
       None \<Rightarrow> Inr s
     | Some c \<Rightarrow> if c \<in> set (dr_seen_cursors s) then Inl invalid_report_response
                else Inr (s\<lparr>dr_seen_cursors := c # dr_seen_cursors s\<rparr>))"

definition report_turn ::
    "'a report_loop \<Rightarrow> nat \<Rightarrow> string option \<Rightarrow> 'a drained \<Rightarrow> ('a drained \<times> string option) wf" where
  "report_turn l n cursor s =
    ebind (visit cursor s) (\<lambda>s.
    ebind (ask (lp_source l) n source_page_size cursor) (\<lambda>page.
    if pg_next page \<noteq> None \<and> pg_items page = [] then Inl invalid_report_response
    else if list_ex (\<lambda>x. \<not> lp_accept l x \<or> lp_ident l x \<in> set (dr_seen_ids s)) (pg_items page)
    then Inl invalid_report_response
    else (let s' = s\<lparr>dr_seen_ids := dr_seen_ids s @ map (lp_ident l) (pg_items page), dr_result := dr_result s @ pg_items page\<rparr>
      in ebind (bounded (loop_count l s')) (\<lambda>_. Inr (s', pg_next page)))))"

definition report_drain :: "'a report_loop \<Rightarrow> 'a drained \<Rightarrow> 'a drained wf option" where
  "report_drain l s = drain (report_turn l) 0 None s"

definition lines_loop :: "adapter \<Rightarrow> int \<Rightarrow> filter_clause list \<Rightarrow> move_line report_loop" where
  "lines_loop ad company filters = \<lparr>lp_source = ad_move_lines ad company filters, lp_ident = ml_id,
     lp_accept = (\<lambda>_. True), lp_as_set = False\<rparr>"

definition partials_loop :: "adapter \<Rightarrow> int \<Rightarrow> filter_clause list \<Rightarrow> partial_reconciliation report_loop" where
  "partials_loop ad company filters = \<lparr>lp_source = ad_partials ad company filters, lp_ident = pa_id,
     lp_accept = (\<lambda>_. True), lp_as_set = False\<rparr>"

definition accounts_loop :: "adapter \<Rightarrow> int \<Rightarrow> int list \<Rightarrow> account report_loop" where
  "accounts_loop ad company chunk = \<lparr>lp_source = ad_accounts ad company [clause ''id'' ''in'' (FV_ids chunk)],
     lp_ident = ao_id, lp_accept = (\<lambda>_. True), lp_as_set = False\<rparr>"

text \<open>Of an analytic account only the identifier is read.\<close>

definition analytics_loop :: "adapter \<Rightarrow> int \<Rightarrow> int list \<Rightarrow> int report_loop" where
  "analytics_loop ad company chunk = \<lparr>lp_source = ad_analytics ad company [clause ''id'' ''in'' (FV_ids chunk)],
     lp_ident = (\<lambda>i. i), lp_accept = (\<lambda>i. i \<in> set chunk), lp_as_set = True\<rparr>"

definition move_lines :: "adapter \<Rightarrow> int \<Rightarrow> filter_clause list \<Rightarrow> move_line list wf option" where
  "move_lines ad company filters =
    obind (report_drain (lines_loop ad company filters) nothing_yet) (\<lambda>s. Some (Inr (dr_result s)))"

definition partials :: "adapter \<Rightarrow> int \<Rightarrow> filter_clause list \<Rightarrow> partial_reconciliation list wf option" where
  "partials ad company filters =
    obind (report_drain (partials_loop ad company filters) nothing_yet) (\<lambda>s. Some (Inr (dr_result s)))"

text \<open>The slices of \<open>_SOURCE_PAGE_SIZE\<close> identifiers.\<close>

function chunks :: "nat \<Rightarrow> 'a list \<Rightarrow> 'a list list" where
  "chunks n xs = (if xs = [] \<or> n = 0 then [] else take n xs # chunks n (drop n xs))"
  by pat_completeness auto
termination by (relation "measure (length \<circ> snd)") auto

declare chunks.simps [simp del]

text \<open>A loop per slice; the records and identifiers are kept from slice to slice, the cursors are not.\<close>

fun drain_chunks :: "(int list \<Rightarrow> 'a report_loop) \<Rightarrow> int list list \<Rightarrow> 'a drained \<Rightarrow> 'a drained wf option" where
  "drain_chunks loop [] s = Some (Inr s)"
| "drain_chunks loop (ids # rest) s =
    obind (report_drain (loop ids) (s\<lparr>dr_seen_cursors := []\<rparr>)) (drain_chunks loop rest)"

definition accounts :: "adapter \<Rightarrow> int \<Rightarrow> int list \<Rightarrow> account list wf option" where
  "accounts ad company ids =
    (if ids = [] then Some (Inr [])
     else obind (drain_chunks (accounts_loop ad company) (chunks source_page_size ids) nothing_yet)
       (\<lambda>s. Some (Inr (dr_result s))))"

definition validate_analytic_accounts :: "adapter \<Rightarrow> int \<Rightarrow> int list \<Rightarrow> unit wf option" where
  "validate_analytic_accounts ad company ids =
    (if ids = [] then Some (Inr ())
     else obind (drain_chunks (analytics_loop ad company) (chunks source_page_size ids) nothing_yet) (\<lambda>s.
       if set (dr_seen_ids s) \<noteq> set ids
       then Some (Inl (Mcp (mk_error INVALID_INPUT ''One or more analytic accounts are unavailable.''
              ''Use exact analytic account IDs from the authorized company.'')))
       else Some (Inr ())))"

definition currency_rounding :: "adapter \<Rightarrow> int \<Rightarrow> int \<Rightarrow> decimal wf" where
  "currency_rounding ad company i =
    ebind (ask (ad_currencies ad company [i]) 0 1 None) (\<lambda>page.
    case pg_items page of
      [c] \<Rightarrow> if cy_id c \<noteq> i \<or> pg_next page \<noteq> None then Inl invalid_report_response else Inr (cy_rounding c)
    | _ \<Rightarrow> Inl invalid_report_response)"

section \<open>The analytic share of a line\<close>

definition hundred :: decimal where "hundred = Dec 100 0"

definition key_idents :: "string \<Rightarrow> int list wf" where
  "key_idents key = emap (\<lambda>w. case py_int w of None \<Rightarrow> Inl invalid_report_response | Some i \<Rightarrow> Inr i) (split_on (CHR '','') key)"

text \<open>One entry of the distribution: the total and the selected percentage so far.\<close>

definition add_share ::
    "int list \<Rightarrow> string \<times> decimal \<Rightarrow> decimal \<times> decimal \<Rightarrow> (decimal \<times> decimal) wf" where
  "add_share requested entry acc =
    (case (entry, acc) of ((key, percentage), (selected, tot)) \<Rightarrow>
     ebind (key_idents key) (\<lambda>ids.
     if ids = [] \<or> list_ex (\<lambda>i. i \<le> 0) ids then Inl invalid_report_response
     else if dless percentage dzero \<or> dless hundred percentage then Inl invalid_report_response
     else Inr (if set ids \<inter> set requested \<noteq> {} then dadd selected percentage else selected, dadd tot percentage)))"

definition analytic_factor :: "(string \<times> decimal) list \<Rightarrow> int list \<Rightarrow> decimal wf" where
  "analytic_factor distribution requested =
    (if requested = [] then Inr dunit
     else ebind (efold (add_share requested) distribution (dzero, dzero)) (\<lambda>(selected, tot).
       if dless hundred tot \<or> dless hundred selected then Inl invalid_report_response
       else ddiv selected hundred))"

section \<open>The pages of a report\<close>

definition report_offset :: "string option \<Rightarrow> nat wf" where
  "report_offset = cursor_offset ''Restart the report without a cursor.''"

definition outside_report :: wf_error where
  "outside_report = Mcp (mk_error INVALID_INPUT ''The pagination cursor is outside this report.''
     ''Restart the report without a cursor.'')"

definition report_page :: "'a list \<Rightarrow> nat \<Rightarrow> string option \<Rightarrow> ('a list \<times> string option) wf" where
  "report_page items limit cursor = ebind (report_offset cursor) (cut next_cursor outside_report items limit)"

text \<open>The lines on the page and its continuation that every report shows.\<close>

definition page_lines :: "nat \<Rightarrow> nat \<Rightarrow> nat \<Rightarrow> bool \<Rightarrow> string list" where
  "page_lines offset k n continued =
    [''- Page rows: '' @ nat_text (if k > 0 then offset + 1 else 0) @ ''-''
       @ nat_text (if k > 0 then offset + k else 0) @ '' of '' @ nat_text n,
     if continued then ''- Continuation: more rows are available through `next_cursor`'' else ''- Continuation: complete'']"

record 'r read_input =
  rd_company_id :: int
  rd_limit :: nat
  rd_cursor :: "string option"
  rd_args :: 'r

record ('d, 'i, 's) report =
  rt_request_id :: string
  rt_company_id :: int
  rt_dates :: 'd
  rt_items :: "'i list"
  rt_next_cursor :: "string option"
  rt_summary :: 's
  rt_artifact_markdown :: string

text \<open>The end of every report: the page of the rows and the text about it.\<close>

definition respond ::
    "'r read_input \<Rightarrow> string \<Rightarrow> 'd \<Rightarrow> (nat \<Rightarrow> 'i list \<Rightarrow> bool \<Rightarrow> string) \<Rightarrow> 's \<Rightarrow> 'i list \<Rightarrow>
      ('d, 'i, 's) report wf" where
  "respond r request_id dates artifact summary all_items =
    ebind (report_offset (rd_cursor r)) (\<lambda>offset.
    ebind (report_page all_items (rd_limit r) (rd_cursor r)) (\<lambda>(selected, nx).
    Inr \<lparr>rt_request_id = request_id, rt_company_id = rd_company_id r, rt_dates = dates, rt_items = selected, rt_next_cursor = nx,
         rt_summary = summary, rt_artifact_markdown = artifact offset selected (nx \<noteq> None)\<rparr>))"

section \<open>Trial balance\<close>

record trial_args =
  tr_period_start :: int
  tr_period_end :: int
  tr_account_ids :: "int list"

record trial_item =
  ti_account_id :: int
  ti_code :: string
  ti_name :: string
  ti_opening_balance :: decimal
  ti_period_debit :: decimal
  ti_period_credit :: decimal
  ti_closing_balance :: decimal

record trial_summary =
  ts_account_count :: nat
  ts_opening_balance :: decimal
  ts_period_debit :: decimal
  ts_period_credit :: decimal
  ts_closing_balance :: decimal

definition trial_filters :: "trial_args \<Rightarrow> filter_clause list" where
  "trial_filters a =
    [clause ''move_id.state'' ''='' (FV_str ''posted''), clause ''date'' ''<='' (FV_date (tr_period_end a)),
     clause ''account_id'' ''!='' (FV_bool False)]
    @ (if tr_account_ids a \<noteq> [] then [clause ''account_id'' ''in'' (FV_ids (tr_account_ids a))] else [])"

text \<open>The last account with the identifier, as in a dictionary.\<close>

definition account_by_id :: "account list \<Rightarrow> int \<Rightarrow> account option" where
  "account_by_id xs i = find_row (\<lambda>a. ao_id a = i) (rev xs)"

record totals =
  to_opening :: decimal
  to_debit :: decimal
  to_credit :: decimal

definition post_line :: "int \<Rightarrow> move_line \<Rightarrow> (int \<Rightarrow> totals) \<Rightarrow> int \<Rightarrow> totals" where
  "post_line start ml v =
    (let i = rr_id (ml_account ml); t = v i in
     v(i := if ml_date ml < start then t\<lparr>to_opening := dadd (to_opening t) (ml_balance ml)\<rparr>
            else t\<lparr>to_debit := dadd (to_debit t) (ml_debit ml), to_credit := dadd (to_credit t) (ml_credit ml)\<rparr>))"

definition no_totals :: totals where
  "no_totals = \<lparr>to_opening = dzero, to_debit = dzero, to_credit = dzero\<rparr>"

definition trial_item_of :: "account \<Rightarrow> totals \<Rightarrow> int \<Rightarrow> trial_item" where
  "trial_item_of a t i =
    \<lparr>ti_account_id = i, ti_code = ao_code a, ti_name = ao_name a, ti_opening_balance = to_opening t,
     ti_period_debit = to_debit t, ti_period_credit = to_credit t,
     ti_closing_balance = dsub (dadd (to_opening t) (to_debit t)) (to_credit t)\<rparr>"

definition trial_items :: "trial_args \<Rightarrow> move_line list \<Rightarrow> account list \<Rightarrow> int list \<Rightarrow> trial_item list" where
  "trial_items a lines accs ids =
    (let v = fold (post_line (tr_period_start a)) lines (\<lambda>_. no_totals) in
     sort_key (\<lambda>x. (casefold (ti_code x), ti_account_id x))
       (List.map_filter (\<lambda>i. map_option (\<lambda>acc. trial_item_of acc (v i) i) (account_by_id accs i)) ids))"

definition trial_summary_of :: "trial_item list \<Rightarrow> trial_summary" where
  "trial_summary_of xs =
    \<lparr>ts_account_count = length xs, ts_opening_balance = dsum (map ti_opening_balance xs),
     ts_period_debit = dsum (map ti_period_debit xs), ts_period_credit = dsum (map ti_period_credit xs),
     ts_closing_balance = dsum (map ti_closing_balance xs)\<rparr>"

definition trial_artifact ::
    "trial_args read_input \<Rightarrow> string \<Rightarrow> string \<Rightarrow> trial_summary \<Rightarrow> nat \<Rightarrow> trial_item list \<Rightarrow> bool \<Rightarrow> string" where
  "trial_artifact r company_name request_id summary offset items continued =
    join newline
     ([''# Trial Balance'', [],
       ''- Period: '' @ isoformat (tr_period_start (rd_args r)) @ '' to '' @ isoformat (tr_period_end (rd_args r)),
       ''- Company: '' @ markdown company_name @ '' ('' @ int_text (rd_company_id r) @ '')'',
       ''- Audit reference: `'' @ request_id @ ''`'']
      @ page_lines offset (length items) (ts_account_count summary) continued
      @ [[], ''| Code | Account | Opening | Debit | Credit | Closing |'', ''|---|---|---:|---:|---:|---:|'']
      @ map (\<lambda>x. ''| '' @ markdown (ti_code x) @ '' | '' @ markdown (ti_name x) @ '' | ''
          @ dec_text (ti_opening_balance x) @ '' | '' @ dec_text (ti_period_debit x) @ '' | ''
          @ dec_text (ti_period_credit x) @ '' | '' @ dec_text (ti_closing_balance x) @ '' |'') items
      @ [[], ''Whole-report totals: opening '' @ dec_text (ts_opening_balance summary) @ ''; debit ''
            @ dec_text (ts_period_debit summary) @ ''; credit '' @ dec_text (ts_period_credit summary)
            @ ''; closing '' @ dec_text (ts_closing_balance summary) @ ''.''])"

definition trial_unreconciled :: "trial_args \<Rightarrow> trial_summary \<Rightarrow> bool" where
  "trial_unreconciled a s \<longleftrightarrow> tr_account_ids a = []
    \<and> (\<not> deq (ts_opening_balance s) dzero \<or> \<not> deq (ts_period_debit s) (ts_period_credit s)
       \<or> \<not> deq (ts_closing_balance s) dzero)"

definition trial_report ::
    "trial_args read_input \<Rightarrow> string \<Rightarrow> string \<Rightarrow> move_line list \<Rightarrow> int list \<Rightarrow> account list \<Rightarrow>
      (date_period, trial_item, trial_summary) report wf" where
  "trial_report r company_name request_id lines ids accs =
    (if set ids \<noteq> set (map ao_id accs)
     then Inl (Mcp (mk_error ACCOUNT_NOT_FOUND ''One or more requested accounts are unavailable.''
            ''Use account IDs available to the authorized company and retry.''))
     else (let all_items = trial_items (rd_args r) lines accs ids; summary = trial_summary_of all_items in
       if trial_unreconciled (rd_args r) summary
       then Inl (Mcp (mk_error ODOO_API_ERROR ''The full-company trial balance did not reconcile.''
              ''Check Odoo record access and accounting data, then retry.''))
       else respond r request_id \<lparr>dp_start = tr_period_start (rd_args r), dp_end = tr_period_end (rd_args r)\<rparr>
         (trial_artifact r company_name request_id summary) summary all_items))"

definition trial_account_ids :: "trial_args \<Rightarrow> move_line list \<Rightarrow> int list" where
  "trial_account_ids a lines = sort (remdups (tr_account_ids a @ map (rr_id \<circ> ml_account) lines))"

definition get_trial_balance ::
    "adapter \<Rightarrow> trial_args read_input \<Rightarrow> string \<Rightarrow> string \<Rightarrow> (date_period, trial_item, trial_summary) report wf option" where
  "get_trial_balance ad r company_name request_id =
    obind (move_lines ad (rd_company_id r) (trial_filters (rd_args r))) (\<lambda>lines.
    obind (accounts ad (rd_company_id r) (trial_account_ids (rd_args r) lines)) (\<lambda>accs.
    Some (trial_report r company_name request_id lines (trial_account_ids (rd_args r) lines) accs)))"

end
