(* ===== verification/ReportLoops.thy ===== *)
theory ReportLoops
  imports Reports
begin

text \<open>
  The loops of the reports end: every page that is continued brings a record, and the records are bounded.
  What they deliver: the accepted records of the pages, in order and in bounded number.
\<close>

section \<open>The loops end\<close>

lemma visit_Inr: "visit c s = Inr s' \<Longrightarrow> dr_result s' = dr_result s \<and> dr_seen_ids s' = dr_seen_ids s"
  by (auto simp: visit_def split: option.splits if_splits)

lemma bounded_Inr: "bounded n = Inr u \<longleftrightarrow> n \<le> max_source_records"
  by (simp add: bounded_def)

lemma report_turn_Inr:
  assumes "report_turn l n c s = Inr (s', nx)"
  obtains xs where "dr_result s' = dr_result s @ xs" "dr_seen_ids s' = dr_seen_ids s @ map (lp_ident l) xs"
    "list_all (\<lambda>x. lp_accept l x \<and> lp_ident l x \<notin> set (dr_seen_ids s)) xs" "loop_count l s' \<le> max_source_records"
    "nx \<noteq> None \<Longrightarrow> xs \<noteq> []" "\<exists>m c. lp_source l m source_page_size c = Inr \<lparr>pg_items = xs, pg_next = nx\<rparr>"
proof -
  from assms obtain s1 page where v: "visit c s = Inr s1" and a: "ask (lp_source l) n source_page_size c = Inr page"
    and g: "\<not> (pg_next page \<noteq> None \<and> pg_items page = [])"
      "\<not> list_ex (\<lambda>x. \<not> lp_accept l x \<or> lp_ident l x \<in> set (dr_seen_ids s1)) (pg_items page)"
    and s': "s' = s1\<lparr>dr_seen_ids := dr_seen_ids s1 @ map (lp_ident l) (pg_items page), dr_result := dr_result s1 @ pg_items page\<rparr>"
    and b: "loop_count l s' \<le> max_source_records" and nx: "nx = pg_next page"
    by (auto simp: report_turn_def bounded_Inr Let_def split: if_splits)
  from a have src: "lp_source l n source_page_size c = Inr \<lparr>pg_items = pg_items page, pg_next = nx\<rparr>"
    by (simp add: ask_Inr nx)
  show ?thesis
    by (rule that [of "pg_items page"])
      (use s' visit_Inr [OF v] g nx b src in \<open>auto simp: list_ex_iff list_all_iff\<close>)
qed

lemma count_grows:
  assumes "report_turn l n c s = Inr (s', Some c')"
  shows "loop_count l s < loop_count l s' \<and> loop_count l s' \<le> max_source_records"
proof -
  from report_turn_Inr [OF assms] obtain xs where
    r: "dr_result s' = dr_result s @ xs" "dr_seen_ids s' = dr_seen_ids s @ map (lp_ident l) xs"
    and new: "list_all (\<lambda>x. lp_accept l x \<and> lp_ident l x \<notin> set (dr_seen_ids s)) xs"
    and b: "loop_count l s' \<le> max_source_records" and ne: "xs \<noteq> []" by auto
  from ne new obtain x where "x \<in> set xs" "lp_ident l x \<notin> set (dr_seen_ids s)" by (cases xs) auto
  with r(2) have "set (dr_seen_ids s) \<subset> set (dr_seen_ids s')" by auto
  then have "card (set (dr_seen_ids s)) < card (set (dr_seen_ids s'))" by (simp add: psubset_card_mono)
  with r ne b show ?thesis by (simp add: loop_count_def)
qed

interpretation growing: growing_loop "report_turn l" "loop_count l" max_source_records for l
  by unfold_locales (rule count_grows)

lemma report_drain_ends [ends]: "report_drain l s \<noteq> None"
  unfolding report_drain_def by (rule growing.drain_ends)

lemma move_lines_ends [ends]: "move_lines ad company filters \<noteq> None"
  unfolding move_lines_def by (intro ends)

lemma partials_ends [ends]: "partials ad company filters \<noteq> None"
  unfolding partials_def by (intro ends)

lemma drain_chunks_ends [ends]: "drain_chunks loop ids s \<noteq> None"
proof (induction ids arbitrary: s)
  case (Cons i ids)
  show ?case unfolding drain_chunks.simps by (intro ends Cons.IH)
qed (simp add: ends)

lemma accounts_ends [ends]: "accounts ad company ids \<noteq> None"
  unfolding accounts_def by (intro ends)

lemma validate_analytic_accounts_ends [ends]: "validate_analytic_accounts ad company ids \<noteq> None"
  unfolding validate_analytic_accounts_def by (intro ends)

lemma get_trial_balance_ends: "get_trial_balance ad r name rid \<noteq> None"
  unfolding get_trial_balance_def by (intro ends)

section \<open>What they deliver\<close>

definition loop_ok :: "'a report_loop \<Rightarrow> 'a drained \<Rightarrow> bool" where
  "loop_ok l s \<longleftrightarrow> list_all (lp_accept l) (dr_result s) \<and> set (dr_seen_ids s) = lp_ident l ` set (dr_result s)"

lemma report_drain_Inr:
  assumes "report_drain l s = Some (Inr r)" "loop_ok l s"
  shows "loop_ok l r \<and> loop_count l r \<le> max_source_records"
proof -
  have step: "loop_ok l s' \<and> loop_count l s' \<le> max_source_records"
    if ok: "loop_ok l s" and t: "report_turn l n c s = Inr (s', nx)" for n c s s' nx
  proof -
    from report_turn_Inr [OF t] obtain xs where
      r: "dr_result s' = dr_result s @ xs" "dr_seen_ids s' = dr_seen_ids s @ map (lp_ident l) xs"
      and new: "list_all (\<lambda>x. lp_accept l x \<and> lp_ident l x \<notin> set (dr_seen_ids s)) xs"
      and b: "loop_count l s' \<le> max_source_records" by auto
    from new have "list_all (lp_accept l) xs" by (simp add: list_all_iff)
    with r ok b show ?thesis by (auto simp: loop_ok_def)
  qed
  show ?thesis
    by (rule drain_invariant [OF assms(1) [unfolded report_drain_def], where I = "\<lambda>_. loop_ok l"])
      (use assms(2) step in auto)
qed

lemma move_lines_bounded:
  assumes "move_lines ad company filters = Some (Inr xs)"
  shows "length xs \<le> max_source_records"
proof -
  from assms obtain s where "report_drain (lines_loop ad company filters) nothing_yet = Some (Inr s)" "xs = dr_result s"
    by (auto simp: move_lines_def obind_Some_Inr)
  with report_drain_Inr [OF this(1)] show ?thesis
    by (simp add: loop_ok_def nothing_yet_def loop_count_def lines_loop_def)
qed

section \<open>Loops of one page\<close>

lemma report_one_page:
  assumes "lp_source l = one_page xs" "list_all (lp_accept l) xs" "length xs \<le> max_source_records"
    "set (dr_seen_ids s) \<inter> lp_ident l ` set xs = {}" "dr_result s = []" "dr_seen_ids s = []"
  shows "report_drain l s = Some (Inr (s\<lparr>dr_seen_ids := map (lp_ident l) xs, dr_result := xs\<rparr>))"
proof -
  let ?s = "s\<lparr>dr_seen_ids := map (lp_ident l) xs, dr_result := xs\<rparr>"
  have "card (lp_ident l ` set xs) \<le> max_source_records"
    by (rule le_trans [OF card_image_le [OF finite_set]]) (rule le_trans [OF card_length assms(3)])
  then have "bounded (loop_count l ?s) = Inr ()"
    using assms(3) by (simp add: bounded_Inr loop_count_def)
  moreover have "\<not> list_ex (\<lambda>x. \<not> lp_accept l x \<or> lp_ident l x \<in> set (dr_seen_ids s)) xs"
    using assms(2,6) by (auto simp: list_ex_iff list_all_iff)
  ultimately have "report_turn l 0 None s = Inr (?s, None)"
    using assms(1,5,6) by (simp add: report_turn_def visit_def ask_def page_request_def source_page_size_def one_page_def Let_def)
  then show ?thesis unfolding report_drain_def by (subst drain.simps) simp
qed

end
