(* ===== verification/Amounts.thy ===== *)
theory Amounts
  imports Decimals
begin

text \<open>
  Sums of money that stay exact. \<open>fits p b d\<close>: the value has at most p decimals and is at most b units of
  the last of them. As long as the bounds stay below \<open>10 ^ 28\<close>, sums, differences and negations of such values
  are the sums, differences and negations of the rationals.
\<close>

section \<open>Bounded values\<close>

definition fits :: "nat \<Rightarrow> nat \<Rightarrow> decimal \<Rightarrow> bool" where
  "fits p b d \<longleftrightarrow> on_grid p d \<and> \<bar>dec_val d\<bar> * 10 ^ p \<le> of_nat b"

definition room :: nat where "room = 10 ^ 28"

lemma below_room: "b < room \<Longrightarrow> of_nat b < (10 :: rat) ^ 28"
  using of_nat_less_iff [of b room, where ?'a = rat] by (simp add: room_def)

lemma fits_zero [simp]: "fits p b dzero"
  by (simp add: fits_def on_grid_def) (simp add: dzero_def)

lemma fits_mono: "fits p b d \<Longrightarrow> b \<le> c \<Longrightarrow> fits p c d"
  by (auto simp: fits_def intro: order_trans)

lemma fits_add:
  assumes "fits p a x" "fits p b y" "a + b < room"
  shows "dec_val (dadd x y) = dec_val x + dec_val y" "fits p (a + b) (dadd x y)"
proof -
  have "\<bar>dec_val x + dec_val y\<bar> * 10 ^ p \<le> \<bar>dec_val x\<bar> * 10 ^ p + \<bar>dec_val y\<bar> * 10 ^ p"
    by (simp add: abs_triangle_ineq flip: distrib_right)
  also have "\<dots> \<le> of_nat (a + b)" using assms(1,2) by (simp add: fits_def)
  finally have le: "\<bar>dec_val x + dec_val y\<bar> * 10 ^ p \<le> of_nat (a + b)" .
  note e = dadd_exact [of p x y, OF _ _ le_less_trans [OF le below_room [OF assms(3)]]]
  show "dec_val (dadd x y) = dec_val x + dec_val y" by (rule e(1)) (use assms in \<open>simp_all add: fits_def\<close>)
  with e(2) le assms show "fits p (a + b) (dadd x y)" by (simp add: fits_def)
qed

lemma fits_sub:
  assumes "fits p a x" "fits p b y" "a + b < room"
  shows "dec_val (dsub x y) = dec_val x - dec_val y" "fits p (a + b) (dsub x y)"
proof -
  have "\<bar>dec_val x - dec_val y\<bar> * 10 ^ p \<le> \<bar>dec_val x\<bar> * 10 ^ p + \<bar>dec_val y\<bar> * 10 ^ p"
    by (simp add: abs_triangle_ineq4 flip: distrib_right)
  also have "\<dots> \<le> of_nat (a + b)" using assms(1,2) by (simp add: fits_def)
  finally have le: "\<bar>dec_val x - dec_val y\<bar> * 10 ^ p \<le> of_nat (a + b)" .
  note e = dsub_exact [of p x y, OF _ _ le_less_trans [OF le below_room [OF assms(3)]]]
  show "dec_val (dsub x y) = dec_val x - dec_val y" by (rule e(1)) (use assms in \<open>simp_all add: fits_def\<close>)
  with e(2) le assms show "fits p (a + b) (dsub x y)" by (simp add: fits_def)
qed

lemma fits_neg:
  assumes "fits p a x" "a < room"
  shows "dec_val (dneg x) = - dec_val x" "fits p a (dneg x)"
proof -
  have le: "\<bar>dec_val x\<bar> * 10 ^ p < 10 ^ 28"
    by (rule le_less_trans [OF _ below_room [OF assms(2)]]) (use assms(1) in \<open>simp add: fits_def\<close>)
  show "dec_val (dneg x) = - dec_val x" "fits p a (dneg x)"
    using dneg_exact [OF _ le] assms by (simp_all add: fits_def)
qed

lemma fits_foldl:
  assumes "fits p a s" "list_all (\<lambda>x. fits p (b x) (g x)) xs" "a + (\<Sum>x\<leftarrow>xs. b x) < room"
  shows "dec_val (foldl dadd s (map g xs)) = dec_val s + (\<Sum>x\<leftarrow>xs. dec_val (g x))
    \<and> fits p (a + (\<Sum>x\<leftarrow>xs. b x)) (foldl dadd s (map g xs))"
  using assms
proof (induction xs arbitrary: a s)
  case (Cons x xs)
  have "a + b x < room" using Cons.prems(3) by simp
  from fits_add [OF Cons.prems(1) _ this, of "g x"] Cons.prems Cons.IH [of "a + b x" "dadd s (g x)"]
  show ?case by (simp add: add.assoc)
qed simp

lemma fits_sum:
  assumes "list_all (\<lambda>x. fits p (b x) (g x)) xs" "(\<Sum>x\<leftarrow>xs. b x) < room"
  shows "dec_val (dsum (map g xs)) = (\<Sum>x\<leftarrow>xs. dec_val (g x))" "fits p (\<Sum>x\<leftarrow>xs. b x) (dsum (map g xs))"
  using fits_foldl [of p 0 dzero b g xs] assms by (simp_all add: dsum_def)

section \<open>Sums by key\<close>

lemma sum_list_filter: "(\<Sum>x\<leftarrow>filter P xs. f x) = (\<Sum>x\<leftarrow>xs. if P x then f x else (0 :: 'a :: comm_monoid_add))"
  by (induction xs) simp_all

lemma sum_list_pick_none: "k \<notin> set ks \<Longrightarrow> (\<Sum>i\<leftarrow>ks. if k = i then v else (0 :: 'a :: comm_monoid_add)) = 0"
  by (induction ks) simp_all

lemma sum_list_pick:
  "distinct ks \<Longrightarrow> k \<in> set ks \<Longrightarrow> (\<Sum>i\<leftarrow>ks. if k = i then v else (0 :: 'a :: comm_monoid_add)) = v"
  by (induction ks) (auto simp: sum_list_pick_none)

lemma sum_by_key:
  assumes "distinct ks" "list_all (\<lambda>x. key x \<in> set ks) xs"
  shows "(\<Sum>i\<leftarrow>ks. \<Sum>x\<leftarrow>filter (\<lambda>x. key x = i) xs. f x) = (\<Sum>x\<leftarrow>xs. f x :: 'a :: comm_monoid_add)"
  using assms(2)
proof (induction xs)
  case (Cons x xs)
  have "(\<Sum>i\<leftarrow>ks. \<Sum>x\<leftarrow>filter (\<lambda>x. key x = i) (x # xs). f x)
      = (\<Sum>i\<leftarrow>ks. (if key x = i then f x else 0) + (\<Sum>x\<leftarrow>filter (\<lambda>x. key x = i) xs. f x))"
    by (intro arg_cong [of _ _ sum_list] map_cong) auto
  also have "\<dots> = f x + (\<Sum>x\<leftarrow>xs. f x)"
    using Cons sum_list_pick [OF assms(1), of "key x" "f x"] by (simp add: sum_list_addf)
  finally show ?case by simp
qed (simp add: sum_list_0)

lemma filter_filter_and: "filter P (filter Q xs) = filter (\<lambda>x. P x \<and> Q x) xs"
  by (simp add: conj_commute)

end
