(* ===== verification/TrialProps.thy ===== *)
theory TrialProps
  imports ReportLoops Amounts
begin

text \<open>
  The trial balance against the ledger it reports: every row is the sum of the lines of its account, and an
  unrestricted report is returned only when the ledger balances.
\<close>

section \<open>The totals\<close>

lemma post_lines:
  "fold (post_line start) lines v i =
    (let mine = filter (\<lambda>l. rr_id (ml_account l) = i) lines;
         before = filter (\<lambda>l. ml_date l < start) mine; during = filter (\<lambda>l. \<not> ml_date l < start) mine
     in \<lparr>to_opening = foldl dadd (to_opening (v i)) (map ml_balance before),
         to_debit = foldl dadd (to_debit (v i)) (map ml_debit during),
         to_credit = foldl dadd (to_credit (v i)) (map ml_credit during)\<rparr>)"
proof (induction lines arbitrary: v)
  case (Cons l lines)
  show ?case unfolding fold_simps comp_def Cons.IH by (simp add: post_line_def Let_def)
qed simp

text \<open>The ledger in exact arithmetic.\<close>

record ledger_row =
  lr_opening :: rat
  lr_debit :: rat
  lr_credit :: rat
  lr_closing :: rat

definition lines_of :: "move_line list \<Rightarrow> int \<Rightarrow> move_line list" where
  "lines_of lines i = filter (\<lambda>l. rr_id (ml_account l) = i) lines"

definition opening_sum :: "int \<Rightarrow> move_line list \<Rightarrow> rat" where
  "opening_sum start lines = (\<Sum>l\<leftarrow>lines. if ml_date l < start then dec_val (ml_balance l) else 0)"

definition debit_sum :: "int \<Rightarrow> move_line list \<Rightarrow> rat" where
  "debit_sum start lines = (\<Sum>l\<leftarrow>lines. if ml_date l < start then 0 else dec_val (ml_debit l))"

definition credit_sum :: "int \<Rightarrow> move_line list \<Rightarrow> rat" where
  "credit_sum start lines = (\<Sum>l\<leftarrow>lines. if ml_date l < start then 0 else dec_val (ml_credit l))"

definition ledger_of :: "int \<Rightarrow> move_line list \<Rightarrow> ledger_row" where
  "ledger_of start lines =
    \<lparr>lr_opening = opening_sum start lines, lr_debit = debit_sum start lines, lr_credit = credit_sum start lines,
     lr_closing = opening_sum start lines + debit_sum start lines - credit_sum start lines\<rparr>"

definition row_of :: "trial_item \<Rightarrow> ledger_row" where
  "row_of x =
    \<lparr>lr_opening = dec_val (ti_opening_balance x), lr_debit = dec_val (ti_period_debit x),
     lr_credit = dec_val (ti_period_credit x), lr_closing = dec_val (ti_closing_balance x)\<rparr>"

text \<open>Amounts with p decimals and at most 22 digits.\<close>

definition amount_unit :: nat where "amount_unit = 10 ^ 22"

definition plain_line :: "nat \<Rightarrow> move_line \<Rightarrow> bool" where
  "plain_line p l \<longleftrightarrow> fits p amount_unit (ml_balance l) \<and> fits p amount_unit (ml_debit l) \<and> fits p amount_unit (ml_credit l)"

lemma sum_const: "(\<Sum>x\<leftarrow>xs. c) = length xs * (c :: nat)"
  by (induction xs) simp_all

lemma plain_sum:
  assumes "list_all (\<lambda>l. fits p amount_unit (g l)) xs" "length xs \<le> max_source_records"
  shows "dec_val (dsum (map g xs)) = (\<Sum>x\<leftarrow>xs. dec_val (g x))" "fits p (length xs * amount_unit) (dsum (map g xs))"
proof -
  have "(\<Sum>x\<leftarrow>xs. amount_unit) < room"
    using mult_right_mono [OF assms(2), of amount_unit] by (simp add: sum_const max_source_records_def amount_unit_def room_def)
  from fits_sum [OF assms(1) this]
  show "dec_val (dsum (map g xs)) = (\<Sum>x\<leftarrow>xs. dec_val (g x))" "fits p (length xs * amount_unit) (dsum (map g xs))"
    by (simp_all only: sum_const)
qed

text \<open>The row of one account.\<close>

lemma trial_item_exact:
  fixes a :: account and i start :: int
  assumes "list_all (plain_line p) lines" "length lines \<le> max_source_records"
  defines "x \<equiv> trial_item_of a (fold (post_line start) lines (\<lambda>_. no_totals) i) i"
    and "n \<equiv> length (lines_of lines i) * amount_unit"
  shows "row_of x = ledger_of start (lines_of lines i)"
    "fits p n (ti_opening_balance x)" "fits p n (ti_period_debit x)" "fits p n (ti_period_credit x)"
    "fits p (3 * n) (ti_closing_balance x)"
proof -
  let ?before = "filter (\<lambda>l. ml_date l < start) (lines_of lines i)"
    and ?during = "filter (\<lambda>l. \<not> ml_date l < start) (lines_of lines i)"
  have len: "length (lines_of lines i) \<le> max_source_records"
    unfolding lines_of_def by (rule le_trans [OF length_filter_le assms(2)])
  have lb: "length ?before \<le> max_source_records" "length ?during \<le> max_source_records"
    using len by (meson le_trans length_filter_le)+
  have ub: "length ?before * amount_unit \<le> n" "length ?during * amount_unit \<le> n"
    unfolding n_def by (rule mult_right_mono; simp)+
  have pl: "list_all (\<lambda>l. fits p amount_unit (ml_balance l)) ?before" "list_all (\<lambda>l. fits p amount_unit (ml_debit l)) ?during"
    "list_all (\<lambda>l. fits p amount_unit (ml_credit l)) ?during"
    using assms(1) by (auto simp: list_all_iff plain_line_def lines_of_def)
  note s = plain_sum [OF pl(1) lb(1)] plain_sum [OF pl(2) lb(2)] plain_sum [OF pl(3) lb(2)]
  have x: "ti_opening_balance x = dsum (map ml_balance ?before)" "ti_period_debit x = dsum (map ml_debit ?during)"
    "ti_period_credit x = dsum (map ml_credit ?during)"
    "ti_closing_balance x = dsub (dadd (ti_opening_balance x) (ti_period_debit x)) (ti_period_credit x)"
    by (simp_all add: x_def trial_item_of_def post_lines Let_def lines_of_def no_totals_def dsum_def)
  show f: "fits p n (ti_opening_balance x)" "fits p n (ti_period_debit x)" "fits p n (ti_period_credit x)"
    unfolding x(1-3) by (rule fits_mono [OF s(2) ub(1)] fits_mono [OF s(4) ub(2)] fits_mono [OF s(6) ub(2)])+
  have room: "n + n + n < room"
    using mult_right_mono [OF len, of amount_unit] by (simp add: n_def max_source_records_def amount_unit_def room_def)
  note c = fits_sub [OF fits_add(2) [OF f(1,2)] f(3)] fits_add(1) [OF f(1,2)]
  have "fits p (n + n + n) (ti_closing_balance x)" unfolding x(4) by (rule c(2)) (use room in simp_all)
  then show "fits p (3 * n) (ti_closing_balance x)" by (simp add: numeral_3_eq_3 add.assoc)
  have cl: "dec_val (ti_closing_balance x)
      = dec_val (ti_opening_balance x) + dec_val (ti_period_debit x) - dec_val (ti_period_credit x)"
    unfolding x(4) using c(1,3) room by simp
  have v: "dec_val (ti_opening_balance x) = opening_sum start (lines_of lines i)"
    "dec_val (ti_period_debit x) = debit_sum start (lines_of lines i)"
    "dec_val (ti_period_credit x) = credit_sum start (lines_of lines i)"
    unfolding x(1-3) s(1,3,5) sum_list_filter opening_sum_def debit_sum_def credit_sum_def
    by (intro arg_cong [of _ _ sum_list] map_cong; simp)+
  show "row_of x = ledger_of start (lines_of lines i)" by (simp add: row_of_def ledger_of_def cl v)
qed

section \<open>The report\<close>

lemma trial_ids:
  "distinct (trial_account_ids a lines)" "list_all (\<lambda>l. rr_id (ml_account l) \<in> set (trial_account_ids a lines)) lines"
  by (auto simp: trial_account_ids_def list_all_iff)

lemma account_found: "i \<in> set (map ao_id accs) \<Longrightarrow> \<exists>a. account_by_id accs i = Some a \<and> ao_id a = i"
  by (cases "account_by_id accs i") (auto simp: account_by_id_def find_row_None dest: find_row_Some)

lemma map_filter_all: "list_all (\<lambda>i. f i \<noteq> None) xs \<Longrightarrow> List.map_filter f xs = map (the \<circ> f) xs"
  by (induction xs) (auto simp: List.map_filter_simps)

text \<open>The rows before they are sorted.\<close>

lemma trial_rows:
  assumes "set ids = set (map ao_id accs)"
  shows "mset (trial_items a lines accs ids) = mset (map (\<lambda>i. trial_item_of (the (account_by_id accs i))
      (fold (post_line (tr_period_start a)) lines (\<lambda>_. no_totals) i) i) ids)"
proof -
  have "list_all (\<lambda>i. account_by_id accs i \<noteq> None) ids"
    using account_found [of _ accs] unfolding assms [symmetric] by (fastforce simp: list_all_iff)
  then have "List.map_filter (\<lambda>i. map_option (\<lambda>acc. trial_item_of acc
      (fold (post_line (tr_period_start a)) lines (\<lambda>_. no_totals) i) i) (account_by_id accs i)) ids
    = map (\<lambda>i. trial_item_of (the (account_by_id accs i)) (fold (post_line (tr_period_start a)) lines (\<lambda>_. no_totals) i) i) ids"
    by (subst map_filter_all) (auto simp: list_all_iff comp_def option.map_sel)
  then show ?thesis by (simp add: trial_items_def Let_def)
qed

lemma mset_sum_list: "mset xs = mset ys \<Longrightarrow> sum_list (map f xs) = (sum_list (map f ys) :: 'a :: comm_monoid_add)"
  by (metis mset_map sum_mset_sum_list)

lemma mset_list_all: "mset xs = mset ys \<Longrightarrow> list_all P xs = list_all P ys"
  by (metis list_all_iff mset_eq_setD)

lemma respond_Inr:
  assumes "respond r rid dates artifact summary items = Inr rep"
  obtains offset where "report_offset (rd_cursor r) = Inr offset" "offset \<le> length items"
    "rt_items rep = take (rd_limit r) (drop offset items)" "rt_summary rep = summary" "rt_dates rep = dates"
    "rt_next_cursor rep = (if offset + rd_limit r < length items then Some (next_cursor (offset + rd_limit r)) else None)"
proof -
  from assms obtain offset where o: "report_offset (rd_cursor r) = Inr offset" "offset \<le> length items"
    and rep: "rt_items rep = take (rd_limit r) (drop offset items)" "rt_summary rep = summary" "rt_dates rep = dates"
      "rt_next_cursor rep = (if offset + length (take (rd_limit r) (drop offset items)) < length items
         then Some (next_cursor (offset + length (take (rd_limit r) (drop offset items)))) else None)"
    by (auto simp: respond_def report_page_def cut_def Let_def split: if_splits)
  show ?thesis
    by (rule that [OF o rep(1-3)]) (use o(2) rep(4) in \<open>auto simp: min_def\<close>)
qed

lemma lines_of_sum:
  assumes "distinct ids" "list_all (\<lambda>l. rr_id (ml_account l) \<in> set ids) lines"
  shows "(\<Sum>i\<leftarrow>ids. \<Sum>l\<leftarrow>lines_of lines i. f l) = (\<Sum>l\<leftarrow>lines. f l :: 'a :: comm_monoid_add)"
  unfolding lines_of_def by (rule sum_by_key [OF assms])

text \<open>Sums of a column over all rows.\<close>

lemma column_sum:
  assumes ids: "distinct ids" "list_all (\<lambda>l. rr_id (ml_account l) \<in> set ids) lines"
    and rows: "mset (map ti_account_id items) = mset ids" and len: "length lines \<le> max_source_records"
    and fit: "list_all (\<lambda>x. fits p (3 * (length (lines_of lines (ti_account_id x)) * amount_unit)) (g x)) items"
    and val: "list_all (\<lambda>x. dec_val (g x) = (\<Sum>l\<leftarrow>lines_of lines (ti_account_id x). f l)) items"
  shows "dec_val (dsum (map g items)) = (\<Sum>l\<leftarrow>lines. f l)"
proof -
  let ?b = "\<lambda>i. 3 * (length (lines_of lines i) * amount_unit)"
  have l: "(\<Sum>x\<leftarrow>xs. 1) = length xs" for xs :: "move_line list" by (induction xs) simp_all
  have "(\<Sum>x\<leftarrow>items. ?b (ti_account_id x)) = (\<Sum>i\<leftarrow>ids. ?b i)"
    using mset_sum_list [OF rows, of ?b] by (simp add: comp_def)
  also have "\<dots> = (\<Sum>i\<leftarrow>ids. length (lines_of lines i)) * (3 * amount_unit)"
    by (simp only: mult.left_commute [of "3 :: nat"] sum_list_mult_const)
  also have "(\<Sum>i\<leftarrow>ids. length (lines_of lines i)) = length lines"
    using lines_of_sum [OF ids, of "\<lambda>_. 1 :: nat"] unfolding l .
  also have "length lines * (3 * amount_unit) < room"
    using mult_right_mono [OF len, of amount_unit] by (simp add: max_source_records_def amount_unit_def room_def)
  finally have "dec_val (dsum (map g items)) = (\<Sum>x\<leftarrow>items. dec_val (g x))"
    by (rule fits_sum(1) [OF fit])
  also have "\<dots> = (\<Sum>x\<leftarrow>items. \<Sum>l\<leftarrow>lines_of lines (ti_account_id x). f l)"
    using val by (intro arg_cong [of _ _ sum_list] map_cong) (auto simp: list_all_iff)
  also have "\<dots> = (\<Sum>i\<leftarrow>ids. \<Sum>l\<leftarrow>lines_of lines i. f l)"
    using mset_sum_list [OF rows, of "\<lambda>i. \<Sum>l\<leftarrow>lines_of lines i. f l"] by (simp add: comp_def)
  also have "\<dots> = (\<Sum>l\<leftarrow>lines. f l)" by (rule lines_of_sum [OF ids])
  finally show ?thesis .
qed

definition summary_row :: "trial_summary \<Rightarrow> ledger_row" where
  "summary_row s =
    \<lparr>lr_opening = dec_val (ts_opening_balance s), lr_debit = dec_val (ts_period_debit s),
     lr_credit = dec_val (ts_period_credit s), lr_closing = dec_val (ts_closing_balance s)\<rparr>"

text \<open>All rows and the summary of a report over lines in bounded number.\<close>

lemma trial_items_exact:
  assumes ids: "set (trial_account_ids a lines) = set (map ao_id accs)"
    and plain: "list_all (plain_line p) lines" and len: "length lines \<le> max_source_records"
  defines "items \<equiv> trial_items a lines accs (trial_account_ids a lines)"
  shows "mset (map ti_account_id items) = mset (trial_account_ids a lines)"
    "list_all (\<lambda>x. row_of x = ledger_of (tr_period_start a) (lines_of lines (ti_account_id x))) items"
    "summary_row (trial_summary_of items) = ledger_of (tr_period_start a) lines"
proof -
  define start where "start = tr_period_start a"
  define n where "n = (\<lambda>x :: trial_item. length (lines_of lines (ti_account_id x)) * amount_unit)"
  note rows = trial_rows [OF ids, of a lines, folded items_def start_def]
  show m: "mset (map ti_account_id items) = mset (trial_account_ids a lines)"
    using arg_cong [OF rows, of "image_mset ti_account_id"] by (simp add: trial_item_of_def comp_def image_mset.compositionality)
  have one: "row_of x = ledger_of start (lines_of lines (ti_account_id x)) \<and> fits p (n x) (ti_opening_balance x)
      \<and> fits p (n x) (ti_period_debit x) \<and> fits p (n x) (ti_period_credit x) \<and> fits p (3 * n x) (ti_closing_balance x)"
    if "x = trial_item_of acc (fold (post_line start) lines (\<lambda>_. no_totals) i) i" for x acc i
  proof -
    have "ti_account_id x = i" by (simp add: that trial_item_of_def)
    then show ?thesis
      using trial_item_exact [OF plain len, where a = acc and start = start and i = i] unfolding n_def that by simp
  qed
  have all: "list_all (\<lambda>x. row_of x = ledger_of start (lines_of lines (ti_account_id x)) \<and> fits p (n x) (ti_opening_balance x)
      \<and> fits p (n x) (ti_period_debit x) \<and> fits p (n x) (ti_period_credit x) \<and> fits p (3 * n x) (ti_closing_balance x)) items"
    unfolding mset_list_all [OF rows] by (auto simp: list_all_iff intro!: one [simplified])
  then show "list_all (\<lambda>x. row_of x = ledger_of (tr_period_start a) (lines_of lines (ti_account_id x))) items"
    by (simp add: list_all_iff start_def)
  have three: "fits p (n x) d \<Longrightarrow> fits p (3 * n x) d" for x d by (erule fits_mono) linarith
  note sum = column_sum [OF trial_ids m len, folded n_def]
  have o: "dec_val (dsum (map ti_opening_balance items)) = opening_sum start lines"
    unfolding opening_sum_def
    by (rule sum) (use all three in \<open>auto simp: list_all_iff row_of_def ledger_of_def opening_sum_def n_def\<close>)
  have d: "dec_val (dsum (map ti_period_debit items)) = debit_sum start lines"
    unfolding debit_sum_def
    by (rule sum) (use all three in \<open>auto simp: list_all_iff row_of_def ledger_of_def debit_sum_def n_def\<close>)
  have c: "dec_val (dsum (map ti_period_credit items)) = credit_sum start lines"
    unfolding credit_sum_def
    by (rule sum) (use all three in \<open>auto simp: list_all_iff row_of_def ledger_of_def credit_sum_def n_def\<close>)
  let ?f = "\<lambda>l. (if ml_date l < start then dec_val (ml_balance l) else 0)
    + (if ml_date l < start then 0 else dec_val (ml_debit l)) - (if ml_date l < start then 0 else dec_val (ml_credit l))"
  have split: "(\<Sum>l\<leftarrow>ls. ?f l) = opening_sum start ls + debit_sum start ls - credit_sum start ls" for ls
    by (simp add: sum_list_subtractf sum_list_addf opening_sum_def debit_sum_def credit_sum_def)
  have e: "dec_val (dsum (map ti_closing_balance items)) = opening_sum start lines + debit_sum start lines - credit_sum start lines"
    unfolding split [symmetric] by (rule sum) (use all in \<open>auto simp: list_all_iff row_of_def ledger_of_def split n_def\<close>)
  show "summary_row (trial_summary_of items) = ledger_of (tr_period_start a) lines"
    using o d c e by (simp add: summary_row_def trial_summary_of_def ledger_of_def start_def)
qed

text \<open>C22 (the trial balance is the ledger). The rows of the whole report have each account once, with the exact
  opening, debit, credit and closing sums of its lines, the summary has the sums over all lines, and the page is the
  requested section of these rows, when amounts have p decimals and at most 22 digits. Without an account filter the
  report is returned only if the ledger is balanced before and within the period.\<close>

theorem trial_balance_refines_ledger:
  assumes "get_trial_balance ad r name rid = Some (Inr rep)"
  shows "\<exists>lines items offset. move_lines ad (rd_company_id r) (trial_filters (rd_args r)) = Some (Inr lines)
    \<and> report_offset (rd_cursor r) = Inr offset \<and> rt_items rep = take (rd_limit r) (drop offset items)
    \<and> (list_all (plain_line p) lines \<longrightarrow>
         mset (map ti_account_id items) = mset (trial_account_ids (rd_args r) lines)
       \<and> list_all (\<lambda>x. row_of x = ledger_of (tr_period_start (rd_args r)) (lines_of lines (ti_account_id x))) items
       \<and> summary_row (rt_summary rep) = ledger_of (tr_period_start (rd_args r)) lines
       \<and> (tr_account_ids (rd_args r) = [] \<longrightarrow> opening_sum (tr_period_start (rd_args r)) lines = 0
           \<and> debit_sum (tr_period_start (rd_args r)) lines = credit_sum (tr_period_start (rd_args r)) lines))"
proof -
  from assms obtain lines accs where lines: "move_lines ad (rd_company_id r) (trial_filters (rd_args r)) = Some (Inr lines)"
    and report: "trial_report r name rid lines (trial_account_ids (rd_args r) lines) accs = Inr rep"
    by (auto simp: get_trial_balance_def obind_Some_Inr)
  define items where "items = trial_items (rd_args r) lines accs (trial_account_ids (rd_args r) lines)"
  from report have ids: "set (trial_account_ids (rd_args r) lines) = set (map ao_id accs)"
    and ok: "\<not> trial_unreconciled (rd_args r) (trial_summary_of items)"
    and resp: "respond r rid \<lparr>dp_start = tr_period_start (rd_args r), dp_end = tr_period_end (rd_args r)\<rparr>
      (trial_artifact r name rid (trial_summary_of items)) (trial_summary_of items) items = Inr rep"
    by (simp_all add: trial_report_def Let_def items_def split: if_splits)
  from respond_Inr [OF resp] obtain offset where page: "report_offset (rd_cursor r) = Inr offset"
    "rt_items rep = take (rd_limit r) (drop offset items)" "rt_summary rep = trial_summary_of items" .
  have "opening_sum (tr_period_start (rd_args r)) lines = 0
      \<and> debit_sum (tr_period_start (rd_args r)) lines = credit_sum (tr_period_start (rd_args r)) lines"
    if "summary_row (trial_summary_of items) = ledger_of (tr_period_start (rd_args r)) lines" "tr_account_ids (rd_args r) = []"
    using ok that by (simp add: trial_unreconciled_def deq_val summary_row_def ledger_of_def)
  note balanced = this and exact = trial_items_exact [OF ids _ move_lines_bounded [OF lines], folded items_def]
  show ?thesis
  proof (rule exI [of _ lines], rule exI [of _ items], rule exI [of _ offset], intro conjI impI)
    assume plain: "list_all (plain_line p) lines"
    show "mset (map ti_account_id items) = mset (trial_account_ids (rd_args r) lines)"
      "list_all (\<lambda>x. row_of x = ledger_of (tr_period_start (rd_args r)) (lines_of lines (ti_account_id x))) items"
      "summary_row (rt_summary rep) = ledger_of (tr_period_start (rd_args r)) lines"
      using exact [OF plain] page(3) by simp_all
    assume "tr_account_ids (rd_args r) = []"
    with balanced exact(3) [OF plain] show "opening_sum (tr_period_start (rd_args r)) lines = 0"
      "debit_sum (tr_period_start (rd_args r)) lines = credit_sum (tr_period_start (rd_args r)) lines" by simp_all
  qed (use lines page in simp_all)
qed

end
