(* ===== verification/Statements.thy ===== *)
theory Statements
  imports ReportLoops
begin

text \<open>
  The profit and loss statement and the balance sheet of \<open>workflows/accounting/reports.py\<close>: the source lines
  are validated and must balance at the rounding of the company currency, the accounts are grouped by type,
  and a balance sheet without an analytic filter is returned only when it balances.
\<close>

section \<open>Account groups\<close>

datatype pnl_group = G_income | G_expense
datatype balance_group = G_asset | G_liability | G_equity

definition income_types :: "string list" where "income_types = [''income'', ''income_other'']"

definition expense_types :: "string list" where
  "expense_types = [''expense'', ''expense_depreciation'', ''expense_direct_cost'']"

definition starts_with :: "string \<Rightarrow> string \<Rightarrow> bool" where
  "starts_with p t \<longleftrightarrow> take (length p) t = p"

definition pnl_group_of :: "string \<Rightarrow> pnl_group option wf" where
  "pnl_group_of ty =
    (if ty \<in> set income_types then Inr (Some G_income)
     else if ty \<in> set expense_types then Inr (Some G_expense)
     else if starts_with ''asset_'' ty \<or> starts_with ''liability_'' ty
        \<or> ty \<in> {''equity'', ''equity_unaffected'', ''off_balance''} then Inr None
     else Inl invalid_report_response)"

definition balance_group_of :: "string \<Rightarrow> balance_group option wf" where
  "balance_group_of ty =
    (if starts_with ''asset_'' ty then Inr (Some G_asset)
     else if starts_with ''liability_'' ty then Inr (Some G_liability)
     else if ty \<in> {''equity'', ''equity_unaffected''} then Inr (Some G_equity)
     else if ty \<in> set income_types \<or> ty \<in> set expense_types \<or> ty = ''off_balance'' then Inr None
     else Inl invalid_report_response)"

fun pnl_text :: "pnl_group \<Rightarrow> string" where
  "pnl_text G_income = ''income''"
| "pnl_text G_expense = ''expense''"

fun balance_text :: "balance_group \<Rightarrow> string" where
  "balance_text G_asset = ''asset''"
| "balance_text G_liability = ''liability''"
| "balance_text G_equity = ''equity''"

text \<open>\<open>group_order\<close>.\<close>

fun pnl_rank :: "pnl_group \<Rightarrow> nat" where
  "pnl_rank G_income = 0"
| "pnl_rank G_expense = 1"

fun balance_rank :: "balance_group \<Rightarrow> nat" where
  "balance_rank G_asset = 0"
| "balance_rank G_liability = 1"
| "balance_rank G_equity = 2"

section \<open>The source lines\<close>

text \<open>\<open>any(\<dots>)\<close> over the lines stops at the first line that is wrong; rounding may fail before.\<close>

fun validate_line_amounts :: "move_line list \<Rightarrow> decimal \<Rightarrow> unit wf" where
  "validate_line_amounts [] rounding = Inr ()"
| "validate_line_amounts (l # ls) rounding =
    ebind (rounded (dadd (dsub (ml_balance l) (ml_debit l)) (ml_credit l)) rounding) (\<lambda>d.
    if \<not> deq d dzero then Inl invalid_report_response else validate_line_amounts ls rounding)"

definition validate_statement_lines :: "move_line list \<Rightarrow> int option \<Rightarrow> int \<Rightarrow> unit wf" where
  "validate_statement_lines lines start final =
    (if list_ex (\<lambda>l. ml_move_state l \<noteq> ''posted'' \<or> ml_date l > final \<or> (case start of None \<Rightarrow> False | Some s \<Rightarrow> ml_date l < s)) lines
     then Inl invalid_report_response else Inr ())"

definition validate_source ::
    "move_line list \<Rightarrow> int option \<Rightarrow> int \<Rightarrow> decimal \<Rightarrow> string \<Rightarrow> unit wf" where
  "validate_source lines start final rounding message =
    ebind (validate_statement_lines lines start final) (\<lambda>_.
    ebind (validate_line_amounts lines rounding) (\<lambda>_.
    ebind (rounded (dsum (map ml_balance lines)) rounding) (\<lambda>d.
    if \<not> deq d dzero
    then Inl (Mcp (mk_error ODOO_API_ERROR message ''Check Odoo record access and accounting data, then retry.''))
    else Inr ())))"

definition line_accounts :: "move_line list \<Rightarrow> int list" where
  "line_accounts lines = sort (remdups (map (rr_id \<circ> ml_account) lines))"

text \<open>\<open>_account_map\<close>: exactly one account for every identifier.\<close>

definition account_map :: "account list \<Rightarrow> int list \<Rightarrow> account list wf" where
  "account_map accs ids =
    (if list_ex (\<lambda>a. ao_id a \<notin> set ids) accs \<or> \<not> distinct (map ao_id accs) \<or> set (map ao_id accs) \<noteq> set ids
     then Inl invalid_report_response else Inr accs)"

definition account_in :: "account list \<Rightarrow> int \<Rightarrow> account wf" where
  "account_in accs i = (case find_row (\<lambda>a. ao_id a = i) accs of None \<Rightarrow> Inl Key_error | Some a \<Rightarrow> Inr a)"

definition source_accounts :: "adapter \<Rightarrow> int \<Rightarrow> move_line list \<Rightarrow> account list wf option" where
  "source_accounts ad company lines =
    obind (accounts ad company (line_accounts lines)) (\<lambda>accs. olift (account_map accs (line_accounts lines)))"

section \<open>Profit and loss\<close>

record pnl_args =
  pl_period_start :: int
  pl_period_end :: int
  pl_analytic_account_ids :: "int list"

record pnl_item =
  pi_account_id :: int
  pi_code :: string
  pi_name :: string
  pi_account_type :: string
  pi_group :: pnl_group
  pi_debit :: decimal
  pi_credit :: decimal
  pi_signed_balance :: decimal

record pnl_summary =
  ps_account_count :: nat
  ps_income_debit :: decimal
  ps_income_credit :: decimal
  ps_income_balance :: decimal
  ps_expense_debit :: decimal
  ps_expense_credit :: decimal
  ps_expense_balance :: decimal
  ps_net_profit :: decimal

text \<open>The dictionary of the values, in insertion order.\<close>

type_synonym pnl_values = "(int \<times> pnl_group \<times> decimal \<times> decimal) list"

fun put_pnl :: "int \<Rightarrow> pnl_group \<Rightarrow> decimal \<Rightarrow> decimal \<Rightarrow> pnl_values \<Rightarrow> pnl_values" where
  "put_pnl i g d c [] = [(i, g, dadd dzero d, dadd dzero c)]"
| "put_pnl i g d c ((i', g', d', c') # v) =
    (if i' = i then (i', g, dadd d' d, dadd c' c) # v else (i', g', d', c') # put_pnl i g d c v)"

definition post_pnl :: "account list \<Rightarrow> int list \<Rightarrow> move_line \<Rightarrow> pnl_values \<Rightarrow> pnl_values wf" where
  "post_pnl accs requested l v =
    ebind (account_in accs (rr_id (ml_account l))) (\<lambda>a.
    ebind (pnl_group_of (ao_account_type a)) (\<lambda>group.
    case group of
      None \<Rightarrow> Inr v
    | Some g \<Rightarrow>
       ebind (analytic_factor (ml_analytic_distribution l) requested) (\<lambda>factor.
       if deq factor dzero then Inr v
       else Inr (put_pnl (rr_id (ml_account l)) g (dmul (ml_debit l) factor) (dmul (ml_credit l) factor) v))))"

definition pnl_item_of :: "account list \<Rightarrow> decimal \<Rightarrow> int \<times> pnl_group \<times> decimal \<times> decimal \<Rightarrow> pnl_item wf" where
  "pnl_item_of accs rounding entry =
    (case entry of (i, g, d, c) \<Rightarrow>
     ebind (account_in accs i) (\<lambda>a.
     ebind (rounded d rounding) (\<lambda>debit.
     ebind (rounded c rounding) (\<lambda>credit.
     Inr \<lparr>pi_account_id = i, pi_code = ao_code a, pi_name = ao_name a, pi_account_type = ao_account_type a,
          pi_group = g, pi_debit = debit, pi_credit = credit,
          pi_signed_balance = (if g = G_income then dsub credit debit else dsub debit credit)\<rparr>))))"

definition pnl_summary_of :: "pnl_item list \<Rightarrow> pnl_summary" where
  "pnl_summary_of xs =
    (let income = filter (\<lambda>x. pi_group x = G_income) xs; expense = filter (\<lambda>x. pi_group x = G_expense) xs;
         ib = dsum (map pi_signed_balance income); eb = dsum (map pi_signed_balance expense)
     in \<lparr>ps_account_count = length xs, ps_income_debit = dsum (map pi_debit income),
         ps_income_credit = dsum (map pi_credit income), ps_income_balance = ib,
         ps_expense_debit = dsum (map pi_debit expense), ps_expense_credit = dsum (map pi_credit expense),
         ps_expense_balance = eb, ps_net_profit = dsub ib eb\<rparr>)"

definition pnl_artifact ::
    "pnl_args read_input \<Rightarrow> string \<Rightarrow> string \<Rightarrow> pnl_summary \<Rightarrow> nat \<Rightarrow> pnl_item list \<Rightarrow> bool \<Rightarrow> string" where
  "pnl_artifact r company_name request_id summary offset items continued =
    join newline
     ([''# Profit and Loss'', [],
       ''- Period: '' @ isoformat (pl_period_start (rd_args r)) @ '' to '' @ isoformat (pl_period_end (rd_args r)),
       ''- Company: '' @ markdown company_name @ '' ('' @ int_text (rd_company_id r) @ '')'',
       ''- Audit reference: `'' @ request_id @ ''`'']
      @ page_lines offset (length items) (ps_account_count summary) continued
      @ [[], ''| Group | Code | Account | Type | Debit | Credit | Signed balance |'', ''|---|---|---|---|---:|---:|---:|'']
      @ map (\<lambda>x. ''| '' @ pnl_text (pi_group x) @ '' | '' @ markdown (pi_code x) @ '' | '' @ markdown (pi_name x) @ '' | ''
          @ markdown (pi_account_type x) @ '' | '' @ dec_text (pi_debit x) @ '' | '' @ dec_text (pi_credit x) @ '' | ''
          @ dec_text (pi_signed_balance x) @ '' |'') items
      @ [[], ''Whole-report totals: income '' @ dec_text (ps_income_balance summary) @ ''; expenses ''
            @ dec_text (ps_expense_balance summary) @ ''; net profit or loss '' @ dec_text (ps_net_profit summary) @ ''.''])"

definition pnl_report ::
    "pnl_args read_input \<Rightarrow> string \<Rightarrow> string \<Rightarrow> decimal \<Rightarrow> move_line list \<Rightarrow> account list \<Rightarrow>
      (date_period, pnl_item, pnl_summary) report wf" where
  "pnl_report r company_name request_id rounding lines accs =
    ebind (efold (post_pnl accs (pl_analytic_account_ids (rd_args r))) lines []) (\<lambda>v.
    ebind (emap (pnl_item_of accs rounding) v) (\<lambda>found.
    let all_items = sort_key (\<lambda>x. (pnl_rank (pi_group x), casefold (pi_code x), pi_account_id x)) found;
        summary = pnl_summary_of all_items
    in respond r request_id \<lparr>dp_start = pl_period_start (rd_args r), dp_end = pl_period_end (rd_args r)\<rparr>
         (pnl_artifact r company_name request_id summary) summary all_items))"

definition get_profit_and_loss ::
    "adapter \<Rightarrow> pnl_args read_input \<Rightarrow> int \<Rightarrow> string \<Rightarrow> string \<Rightarrow> (date_period, pnl_item, pnl_summary) report wf option" where
  "get_profit_and_loss ad r company_currency_id company_name request_id =
    (let a = rd_args r; company = rd_company_id r in
     obind (validate_analytic_accounts ad company (pl_analytic_account_ids a)) (\<lambda>_.
     obind (olift (currency_rounding ad company company_currency_id)) (\<lambda>rounding.
     obind (move_lines ad company
        [clause ''move_id.state'' ''='' (FV_str ''posted''), clause ''date'' ''>='' (FV_date (pl_period_start a)),
         clause ''date'' ''<='' (FV_date (pl_period_end a)), clause ''account_id'' ''!='' (FV_bool False)]) (\<lambda>lines.
     obind (olift (validate_source lines (Some (pl_period_start a)) (pl_period_end a) rounding
        ''The full-company profit and loss source did not reconcile.'')) (\<lambda>_.
     obind (source_accounts ad company lines) (\<lambda>accs.
     olift (pnl_report r company_name request_id rounding lines accs)))))))"

section \<open>Balance sheet\<close>

record balance_args =
  ba_as_of_date :: int
  ba_analytic_account_ids :: "int list"

record balance_item =
  bi_account_id :: int
  bi_code :: string
  bi_name :: string
  bi_account_type :: string
  bi_group :: balance_group
  bi_signed_balance :: decimal

record balance_summary =
  bs_account_count :: nat
  bs_total_assets :: decimal
  bs_total_liabilities :: decimal
  bs_equity_account_balance :: decimal
  bs_unclosed_earnings :: decimal
  bs_total_equity :: decimal
  bs_balancing_difference :: decimal
  bs_is_balanced :: bool

fun put_balance :: "int \<Rightarrow> decimal \<Rightarrow> (int \<times> decimal) list \<Rightarrow> (int \<times> decimal) list" where
  "put_balance i d [] = [(i, dadd dzero d)]"
| "put_balance i d ((i', d') # v) = (if i' = i then (i', dadd d' d) # v else (i', d') # put_balance i d v)"

definition post_balance :: "int list \<Rightarrow> move_line \<Rightarrow> (int \<times> decimal) list \<Rightarrow> (int \<times> decimal) list wf" where
  "post_balance requested l v =
    ebind (analytic_factor (ml_analytic_distribution l) requested) (\<lambda>factor.
    Inr (if deq factor dzero then v else put_balance (rr_id (ml_account l)) (dmul (ml_balance l) factor) v))"

text \<open>One account: a row of the report, or a part of the unclosed earnings.\<close>

definition sheet_account ::
    "account list \<Rightarrow> decimal \<Rightarrow> int \<times> decimal \<Rightarrow> balance_item list \<times> decimal \<Rightarrow> (balance_item list \<times> decimal) wf" where
  "sheet_account accs rounding entry acc =
    (case (entry, acc) of ((i, raw), (items, unclosed)) \<Rightarrow>
     ebind (account_in accs i) (\<lambda>a.
     ebind (rounded raw rounding) (\<lambda>balance.
     ebind (balance_group_of (ao_account_type a)) (\<lambda>group.
     case group of
       None \<Rightarrow> Inr (items,
          if ao_account_type a \<in> set income_types then dadd unclosed (dneg balance)
          else if ao_account_type a \<in> set expense_types then dsub unclosed balance else unclosed)
     | Some g \<Rightarrow> Inr (items @ [\<lparr>bi_account_id = i, bi_code = ao_code a, bi_name = ao_name a,
          bi_account_type = ao_account_type a, bi_group = g,
          bi_signed_balance = (if g = G_asset then balance else dneg balance)\<rparr>], unclosed)))))"

definition group_total :: "balance_group \<Rightarrow> balance_item list \<Rightarrow> decimal" where
  "group_total g xs = dsum (map bi_signed_balance (filter (\<lambda>x. bi_group x = g) xs))"

definition balance_summary_of :: "balance_item list \<Rightarrow> decimal \<Rightarrow> decimal \<Rightarrow> balance_summary wf" where
  "balance_summary_of xs raw_unclosed rounding =
    (let assets = group_total G_asset xs; liabilities = group_total G_liability xs; equity = group_total G_equity xs in
     ebind (rounded raw_unclosed rounding) (\<lambda>unclosed.
     ebind (rounded (dsub (dsub assets liabilities) (dadd equity unclosed)) rounding) (\<lambda>difference.
     Inr \<lparr>bs_account_count = length xs, bs_total_assets = assets, bs_total_liabilities = liabilities,
          bs_equity_account_balance = equity, bs_unclosed_earnings = unclosed, bs_total_equity = dadd equity unclosed,
          bs_balancing_difference = difference, bs_is_balanced = deq difference dzero\<rparr>)))"

definition balance_artifact ::
    "balance_args read_input \<Rightarrow> string \<Rightarrow> string \<Rightarrow> balance_summary \<Rightarrow> nat \<Rightarrow> balance_item list \<Rightarrow> bool \<Rightarrow> string" where
  "balance_artifact r company_name request_id summary offset items continued =
    join newline
     ([''# Balance Sheet'', [],
       ''- As of: '' @ isoformat (ba_as_of_date (rd_args r)),
       ''- Company: '' @ markdown company_name @ '' ('' @ int_text (rd_company_id r) @ '')'',
       ''- Audit reference: `'' @ request_id @ ''`'']
      @ page_lines offset (length items) (bs_account_count summary) continued
      @ [[], ''| Group | Code | Account | Type | Signed balance |'', ''|---|---|---|---|---:|'']
      @ map (\<lambda>x. ''| '' @ balance_text (bi_group x) @ '' | '' @ markdown (bi_code x) @ '' | '' @ markdown (bi_name x)
          @ '' | '' @ markdown (bi_account_type x) @ '' | '' @ dec_text (bi_signed_balance x) @ '' |'') items
      @ [[], ''Whole-report totals: assets '' @ dec_text (bs_total_assets summary) @ ''; liabilities ''
            @ dec_text (bs_total_liabilities summary) @ ''; equity '' @ dec_text (bs_total_equity summary)
            @ '' (including unclosed earnings '' @ dec_text (bs_unclosed_earnings summary) @ '').'',
         ''Balancing check: '' @ (if bs_is_balanced summary then ''balanced''
            else ''difference '' @ dec_text (bs_balancing_difference summary)) @ ''.''])"

definition balance_report ::
    "balance_args read_input \<Rightarrow> string \<Rightarrow> string \<Rightarrow> decimal \<Rightarrow> move_line list \<Rightarrow> account list \<Rightarrow>
      (int, balance_item, balance_summary) report wf" where
  "balance_report r company_name request_id rounding lines accs =
    ebind (efold (post_balance (ba_analytic_account_ids (rd_args r))) lines []) (\<lambda>v.
    ebind (efold (sheet_account accs rounding) v ([], dzero)) (\<lambda>(found, raw_unclosed).
    let all_items = sort_key (\<lambda>x. (balance_rank (bi_group x), casefold (bi_code x), bi_account_id x)) found
    in ebind (balance_summary_of all_items raw_unclosed rounding) (\<lambda>summary.
       if ba_analytic_account_ids (rd_args r) = [] \<and> \<not> bs_is_balanced summary
       then Inl (Mcp (mk_error ODOO_API_ERROR ''The full-company balance sheet did not reconcile.''
              ''Check Odoo account classifications and accounting data, then retry.''))
       else respond r request_id (ba_as_of_date (rd_args r)) (balance_artifact r company_name request_id summary)
              summary all_items)))"

definition get_balance_sheet ::
    "adapter \<Rightarrow> balance_args read_input \<Rightarrow> int \<Rightarrow> string \<Rightarrow> string \<Rightarrow> (int, balance_item, balance_summary) report wf option" where
  "get_balance_sheet ad r company_currency_id company_name request_id =
    (let a = rd_args r; company = rd_company_id r in
     obind (validate_analytic_accounts ad company (ba_analytic_account_ids a)) (\<lambda>_.
     obind (olift (currency_rounding ad company company_currency_id)) (\<lambda>rounding.
     obind (move_lines ad company
        [clause ''move_id.state'' ''='' (FV_str ''posted''), clause ''date'' ''<='' (FV_date (ba_as_of_date a)),
         clause ''account_id'' ''!='' (FV_bool False)]) (\<lambda>lines.
     obind (olift (validate_source lines None (ba_as_of_date a) rounding
        ''The full-company balance sheet source did not reconcile.'')) (\<lambda>_.
     obind (source_accounts ad company lines) (\<lambda>accs.
     olift (balance_report r company_name request_id rounding lines accs)))))))"

section \<open>Both statements end\<close>

lemma source_accounts_ends [ends]: "source_accounts ad company lines \<noteq> None"
  unfolding source_accounts_def by (intro ends)

lemma get_profit_and_loss_ends: "get_profit_and_loss ad r i name rid \<noteq> None"
  unfolding get_profit_and_loss_def Let_def by (intro ends)

lemma get_balance_sheet_ends: "get_balance_sheet ad r i name rid \<noteq> None"
  unfolding get_balance_sheet_def Let_def by (intro ends)

end
