(* ===== verification/Rounding.thy ===== *)
theory Rounding
  imports Amounts
begin

text \<open>
  What the rounding to a currency increment means. A value that is rounded to zero is smaller than half the
  increment, although the quotient is itself rounded to 28 digits before; and a rounded value with room to
  spare is an integer multiple of the increment.
\<close>

section \<open>Rounding to the context\<close>

lemma ndigits_Suc: "\<exists>j. ndigits c = Suc j"
  by (subst ndigits.simps) simp

lemma ndigits_range:
  assumes "0 < c"
  shows "10 ^ (ndigits c - 1) \<le> c" "c < 10 ^ ndigits c"
proof -
  obtain j where j: "ndigits c = Suc j" using ndigits_Suc by blast
  from ndigits_le [of c j] assms j show "c < 10 ^ ndigits c" by simp
  show "10 ^ (ndigits c - 1) \<le> c"
  proof (cases j)
    case 0
    with j assms show ?thesis by simp
  next
    case (Suc i)
    with ndigits_le [of c i] assms j show ?thesis by simp
  qed
qed

lemma le_div_iff_int: "0 < p \<Longrightarrow> a \<le> c div p \<longleftrightarrow> a * p \<le> (c :: int)"
proof
  assume p: "0 < p" and "a \<le> c div p"
  then have "a * p \<le> c div p * p" by simp
  also have "\<dots> \<le> c" using p div_mult_mod_eq [of c p] pos_mod_sign [of p c] by linarith
  finally show "a * p \<le> c" .
next
  assume p: "0 < p" and "a * p \<le> c"
  then have "a * p div p \<le> c div p" using p by (simp only: zdiv_mono1)
  moreover have "a * p div p = a" using p by simp
  ultimately show "a \<le> c div p" by simp
qed

lemma half_even_near:
  "c div p \<le> half_even c p" "half_even c p \<le> c div p + 1"
  by (simp_all add: half_even_def Let_def)

lemma dfix_shape:
  assumes "10 ^ 28 \<le> c"
  obtains k c' where "1 \<le> k" "dec_val (dfix (Dec c e)) = of_int c' * 10 powi (e + int k)" "c div 10 ^ k \<le> c'"
    "10 ^ 27 \<le> c div 10 ^ k" "0 < coeff (dfix (Dec c e))"
    "c' \<le> c div 10 ^ k + 1"
proof -
  have c: "0 < c" by (rule less_le_trans [OF _ assms]) simp
  then have abs: "\<bar>c\<bar> = c" by simp
  have n: "\<not> ndigits c \<le> prec" using ndigits_prec [of c] assms unfolding abs by simp
  define k where "k = ndigits c - 28"
  have k: "ndigits c = 28 + k" "1 \<le> k" "ndigits c - prec = k" using n by (simp_all add: k_def prec_def)
  define c' where "c' = half_even c (10 ^ k)"
  have r: "(10 :: int) ^ (27 + k) \<le> c" "c < 10 ^ (28 + k)" using ndigits_range [OF c] unfolding k(1) by simp_all
  have lo: "10 ^ 27 \<le> c div 10 ^ k" using r(1) by (simp only: le_div_iff_int zero_less_power power_add zero_less_numeral)
  have "\<not> 10 ^ 28 \<le> c div 10 ^ k"
    using r(2) by (simp only: le_div_iff_int zero_less_power power_add zero_less_numeral not_le)
  then have hi: "c' \<le> 10 ^ 28" and le: "c div 10 ^ k \<le> c'" and near: "c' \<le> c div 10 ^ k + 1"
    using half_even_near [of c "10 ^ k"] by (simp_all add: c'_def)
  have pos: "0 < c'" using lo le by simp
  have long: "dfix (Dec c e) = (if ndigits \<bar>c'\<bar> \<le> prec then Dec c' (e + int k)
      else Dec (sgn c' * (\<bar>c'\<bar> div 10)) (e + int k + 1))"
    using n by (simp only: dfix_def decimal.sel abs Let_def k(3) c'_def [symmetric] if_False)
  show ?thesis
  proof (cases "c' < 10 ^ 28")
    case True
    have d: "dfix (Dec c e) = Dec c' (e + int k)"
      using n True pos ndigits_prec [of c'] by (simp only: long if_True if_False abs_of_pos)
    show ?thesis by (rule that [OF k(2) _ le lo _ near]) (use d pos in \<open>simp_all add: dec_val_def\<close>)
  next
    case False
    with hi have top: "c' = 10 ^ 28" by simp
    have d: "dfix (Dec c e) = Dec (10 ^ 27) (e + int k + 1)"
      using ndigits_prec [of c'] top by (simp add: long)
    have "dec_val (dfix (Dec c e)) = of_int c' * 10 powi (e + int k)"
      unfolding d top by (simp add: dec_val_def power_int_add)
    then show ?thesis by (rule that [OF k(2) _ le lo _ near]) (simp add: d)
  qed
qed

lemma dfix_pos: "0 < c \<Longrightarrow> 0 < coeff (dfix (Dec c e))"
proof (cases "c < 10 ^ 28")
  case True
  then show "0 < c \<Longrightarrow> ?thesis" using dfix_exact [of "Dec c e"] by simp
next
  case False
  then have "10 ^ 28 \<le> c" by simp
  then show ?thesis by (rule dfix_shape)
qed

lemma powi_neg_Suc: "(10 :: rat) powi (- int (Suc j)) = 1 / 10 ^ Suc j"
  by (simp only: power_int_minus power_int_of_nat inverse_eq_divide)

text \<open>A half is a short number, so rounding to the context does not cross it.\<close>

lemma half_at:
  assumes "1 \<le> 2 * of_int c * (10 :: rat) powi (- int (Suc j))"
  shows "5 * 10 ^ j \<le> c"
proof -
  have "(10 :: rat) ^ Suc j \<le> 2 * of_int c"
    using assms unfolding powi_neg_Suc by (simp add: field_simps)
  then have "of_int (10 ^ Suc j) \<le> (of_int (2 * c) :: rat)" by simp
  then show ?thesis by (simp only: of_int_le_iff) simp
qed

lemma at_half:
  assumes "5 * 10 ^ j \<le> c"
  shows "1 \<le> 2 * of_int c * (10 :: rat) powi (- int (Suc j))"
proof -
  have "10 ^ Suc j \<le> 2 * c" using assms by simp
  then have "(of_int (10 ^ Suc j) :: rat) \<le> of_int (2 * c)" by (simp only: of_int_le_iff)
  then show ?thesis unfolding powi_neg_Suc by (simp add: field_simps)
qed

lemma large_enough:
  assumes "0 < c" "0 \<le> e"
  shows "1 \<le> 2 * of_int c * (10 :: rat) powi e"
proof -
  have "(1 :: rat) \<le> 10 powi e" using assms(2) by (simp add: power_int_def)
  moreover have "(1 :: rat) \<le> of_int c" using assms(1) by simp
  ultimately have "1 * 1 \<le> of_int c * (10 :: rat) powi e" by (intro mult_mono) simp_all
  then show ?thesis by simp
qed

lemma dfix_half:
  assumes "0 < c" "1 \<le> 2 * dec_val (Dec c e)"
  shows "1 \<le> 2 * dec_val (dfix (Dec c e))"
proof (cases "c < 10 ^ 28")
  case True
  with assms show ?thesis using dfix_exact [of "Dec c e"] by simp
next
  case False
  then have "10 ^ 28 \<le> c" by simp
  then obtain k c' where s: "dec_val (dfix (Dec c e)) = of_int c' * 10 powi (e + int k)" "c div 10 ^ k \<le> c'"
    "10 ^ 27 \<le> c div 10 ^ k" by (rule dfix_shape)
  have pos: "0 < c'" using s(2,3) by simp
  show ?thesis
  proof (cases "0 \<le> e + int k")
    case True
    from large_enough [OF pos True] s(1) show ?thesis by (simp add: mult.assoc)
  next
    case False
    then obtain j where j: "e + int k = - int (Suc j)"
      by (metis add.inverse_inverse not_le zero_less_imp_eq_int neg_0_less_iff_less Suc_pred)
    then have "- int (Suc (j + k)) = e" by simp
    with assms(2) have "5 * 10 ^ (j + k) \<le> c" by (intro half_at) (simp add: dec_val_def mult.assoc)
    then have "5 * 10 ^ j \<le> c div 10 ^ k" by (simp add: le_div_iff_int power_add)
    with s(2) at_half [of j c'] s(1) j show ?thesis by (simp add: mult.assoc)
  qed
qed

section \<open>Division\<close>

lemma strip_zeros_val: "strip_zeros k q = (q', s) \<Longrightarrow> q' * 10 ^ s = q"
proof (induction k arbitrary: q q' s)
  case (Suc k)
  show ?case
  proof (cases "q mod 10 = 0")
    case True
    obtain p r where p: "strip_zeros k (q div 10) = (p, r)" by (cases "strip_zeros k (q div 10)")
    with Suc.prems True have "q' = p" "s = Suc r" by simp_all
    moreover from Suc.IH [OF p] True have "p * 10 ^ r * 10 = q" by presburger
    ultimately show ?thesis by (simp add: mult.assoc mult.commute)
  qed (use Suc.prems in simp)
qed simp

lemma half_up_to: "1 \<le> 2 * dec_val (Dec q e) \<Longrightarrow> q \<le> q' \<Longrightarrow> 1 \<le> 2 * dec_val (Dec q' e)"
  using mult_right_mono [of "of_int q :: rat" "of_int q'" "10 powi e"] powi_pos [of e]
  by (auto simp: dec_val_def intro: order_trans)

lemma dec_val_pos: "0 < dec_val d \<longleftrightarrow> 0 < coeff d"
  by (simp only: dec_val_def zero_less_mult_iff powi_pos less_not_sym [OF powi_pos] of_int_0_less_iff simp_thms)

lemma over_le: "0 < (d :: rat) \<Longrightarrow> 1 \<le> 2 * x * (1 / d) \<longleftrightarrow> d \<le> 2 * x" "0 < d \<Longrightarrow> c \<le> 2 * (x / d) \<longleftrightarrow> c * d \<le> 2 * x"
  by (simp_all add: field_simps)

lemma half_floor:
  fixes e :: int
  assumes "0 < d" "1 \<le> n div d" "1 \<le> 2 * (of_int n / of_int d) * (10 :: rat) powi e"
  shows "1 \<le> 2 * dec_val (Dec (n div d) e)"
proof (cases "0 \<le> e")
  case True
  with large_enough [of "n div d" e] assms(2) show ?thesis by (simp add: dec_val_def mult.assoc)
next
  case False
  then obtain j where j: "e = - int (Suc j)"
    by (metis add.inverse_inverse not_le zero_less_imp_eq_int neg_0_less_iff_less Suc_pred)
  have "(10 :: rat) ^ Suc j \<le> 2 * (of_int n / of_int d)"
    using assms(3) unfolding j powi_neg_Suc by (subst (asm) over_le) simp_all
  then have "10 ^ Suc j * of_int d \<le> 2 * (of_int n :: rat)" using assms(1) by (subst (asm) over_le) simp_all
  then have "of_int (10 ^ Suc j * d) \<le> (of_int (2 * n) :: rat)" by simp
  then have "10 ^ Suc j * d \<le> 2 * n" by (simp only: of_int_le_iff)
  then have "5 * 10 ^ j * d \<le> n" by (simp add: mult.commute mult.left_commute)
  then have "5 * 10 ^ j \<le> n div d" using assms(1) by (simp add: le_div_iff_int)
  from at_half [OF this] show ?thesis unfolding j by (simp add: dec_val_def mult.assoc)
qed

lemma ddiv_half:
  assumes "0 < coeff a" "0 < coeff b" "ddiv a b = Inr u" "dec_val b \<le> 2 * dec_val a"
  shows "1 \<le> 2 * dec_val u \<and> 0 < coeff u"
proof -
  define x y where "x = coeff a" and "y = coeff b"
  have xy: "0 < x" "0 < y" "sgn x = 1" "sgn y = 1" "\<bar>x\<bar> = x" "\<bar>y\<bar> = y" "x \<noteq> 0" "y \<noteq> 0"
    using assms(1,2) by (simp_all add: x_def y_def)
  define shift where "shift = int (ndigits y) - int (ndigits x) + int prec + 1"
  define e where "e = expo a - expo b - shift"
  define n d where "n = x * 10 ^ nat shift" and "d = y * 10 ^ nat (- shift)"
  have if_nd: "(if shift \<ge> 0 then x * 10 ^ nat shift else x) = n" "(if shift \<ge> 0 then y else y * 10 ^ nat (- shift)) = d"
    by (simp_all add: n_def d_def)
  have d: "0 < d" using xy by (simp add: d_def)
  have "d < 10 ^ ndigits y * 10 ^ nat (- shift)" using ndigits_range(2) [OF xy(2)] by (simp add: d_def)
  also have "\<dots> = (10 :: int) ^ (ndigits y + nat (- shift))" by (simp add: power_add)
  also have "\<dots> \<le> 10 ^ (ndigits x - 1 + nat shift)"
    using ndigits_Suc [of x] by (intro power_increasing) (auto simp: shift_def prec_def)
  also have "\<dots> \<le> n" using ndigits_range(1) [OF xy(1)] by (simp add: n_def power_add)
  finally have q: "1 \<le> n div d" using d by (simp add: le_div_iff_int)
  have ratio: "of_int n / of_int d * (10 :: rat) powi e = dec_val a / dec_val b"
  proof -
    have p: "(10 :: rat) ^ nat shift / 10 ^ nat (- shift) = 10 powi shift"
      by (cases "0 \<le> shift") (simp_all add: power_int_def inverse_eq_divide power_divide)
    have "of_int n / of_int d * (10 :: rat) powi e
        = of_int x / of_int y * ((10 ^ nat shift / 10 ^ nat (- shift)) * 10 powi e)"
      by (simp add: n_def d_def)
    also have "\<dots> = of_int x / of_int y * 10 powi (expo a - expo b)"
      unfolding p by (simp add: e_def flip: power_int_add)
    finally show ?thesis by (simp add: dec_val_def x_def y_def power_int_diff)
  qed
  have "0 < dec_val b" using assms(2) powi_pos [of "expo b"] by (simp add: dec_val_def)
  with assms(4) have "1 \<le> 2 * (dec_val a / dec_val b)" by (simp add: field_simps)
  then have half: "1 \<le> 2 * dec_val (Dec (n div d) e)"
    by (intro half_floor [OF d q]) (simp add: ratio [symmetric] mult.assoc)
  have u: "ddiv a b = (if n mod d \<noteq> 0 then Inr (dfix (Dec (1 * (if n div d mod 5 = 0 then n div d + 1 else n div d)) e))
      else (let (q', s) = strip_zeros (nat shift) (n div d) in Inr (dfix (Dec (1 * q') (e + int s)))))"
    unfolding ddiv_def x_def [symmetric] y_def [symmetric] using xy
    by (simp only: if_False Let_def shift_def [symmetric] e_def [symmetric] if_nd mult_1)
  show ?thesis
  proof (cases "n mod d = 0")
    case False
    define c where "c = (if n div d mod 5 = 0 then n div d + 1 else n div d)"
    have c: "n div d \<le> c" by (simp add: c_def)
    then have "0 < c" using q by simp
    with half_up_to [OF half c] dfix_half [of c e] dfix_pos [of c e] assms(3) False show ?thesis
      unfolding u by (auto simp: c_def)
  next
    case True
    obtain q' s where s: "strip_zeros (nat shift) (n div d) = (q', s)" by (cases "strip_zeros (nat shift) (n div d)")
    note v = strip_zeros_val [OF s]
    have "0 < q'" using v q by (metis less_le_trans zero_less_one zero_less_mult_pos2 zero_less_power zero_less_numeral)
    moreover have "dec_val (Dec q' (e + int s)) = dec_val (Dec (n div d) e)"
      unfolding v [symmetric] by (simp add: dec_val_def power_int_add)
    ultimately show ?thesis
      using half dfix_half [of q' "e + int s"] dfix_pos [of q' "e + int s"] assms(3) True s unfolding u by simp
  qed
qed

section \<open>Rounding to an increment\<close>

lemma quantize_half:
  assumes "0 < coeff u" "1 \<le> 2 * dec_val u" "quantize_one u = Inr q"
  shows "0 < coeff q \<and> expo q = 0"
proof (cases "0 \<le> expo u")
  case True
  with assms show ?thesis by (auto simp: quantize_one_def scale_def Let_def split: if_splits)
next
  case False
  then obtain j where j: "expo u = - int (Suc j)"
    by (metis add.inverse_inverse not_le zero_less_imp_eq_int neg_0_less_iff_less Suc_pred)
  have "5 * 10 ^ j \<le> coeff u" using assms(2) by (intro half_at) (simp add: dec_val_def j mult.assoc)
  then have "1 \<le> (2 * coeff u + 10 ^ Suc j) div (2 * 10 ^ Suc j)" by (simp add: le_div_iff_int)
  moreover have "nat (- expo u) = Suc j" by (simp add: j)
  ultimately show ?thesis using assms(1,3) False
    by (auto simp: quantize_one_def half_up_def Let_def simp del: power_Suc split: if_splits)
qed

lemma rounded_pos:
  assumes "rounded v i = Inr d" "0 < coeff i" "0 < coeff v" "dec_val i \<le> 2 * dec_val v"
  shows "0 < coeff d"
proof -
  from assms(1) obtain u q where u: "ddiv v i = Inr u" "quantize_one u = Inr q" "d = dmul q i"
    by (auto simp: rounded_def)
  from ddiv_half [OF assms(3,2) u(1) assms(4)] quantize_half [OF _ _ u(2)] have "0 < coeff q" by blast
  with assms(2) u(3) show ?thesis by (simp add: dmul_def dfix_pos)
qed

text \<open>What is rounded to zero is smaller than half the increment.\<close>

lemma rounded_zero:
  assumes "rounded v i = Inr d" "0 < coeff i" "deq d dzero"
  shows "2 * \<bar>dec_val v\<bar> < dec_val i"
proof (rule ccontr)
  assume big: "\<not> 2 * \<bar>dec_val v\<bar> < dec_val i"
  have i: "0 < dec_val i" using assms(2) powi_pos [of "expo i"] by (simp add: dec_val_def)
  have zero: "coeff d = 0" using assms(3) by (simp add: deq_val dec_val_eq_0)
  have "0 < coeff v \<or> 0 < coeff (mirror v)" using big i dec_val_eq_0 [of v] by (cases "coeff v = 0") auto
  then show False
  proof
    assume "0 < coeff v"
    moreover from this have "0 < dec_val v" by (simp only: dec_val_pos)
    ultimately show False using rounded_pos [OF assms(1,2)] big zero by simp
  next
    assume m: "0 < coeff (mirror v)"
    then have "0 < dec_val (mirror v)" by (simp only: dec_val_pos)
    moreover have "rounded (mirror v) i = Inr (mirror d)" using assms(1) by (simp add: rounded_mirror)
    ultimately show False using rounded_pos [OF _ assms(2) m] big zero by simp
  qed
qed

text \<open>A rounded value with room to spare is a multiple of the increment.\<close>

definition multiple_of :: "decimal \<Rightarrow> decimal \<Rightarrow> bool" where
  "multiple_of i d \<longleftrightarrow> (\<exists>k. dec_val d = of_int k * dec_val i)"

lemma fits_dfix:
  assumes "0 < c" "fits p b (dfix (Dec c e))" "b < room" "- int p \<le> e"
  shows "dfix (Dec c e) = Dec c e"
proof (cases "c < 10 ^ 28")
  case True
  with assms(1) show ?thesis by (intro dfix_exact) simp
next
  case False
  then have "10 ^ 28 \<le> c" by simp
  then obtain k c' where s: "1 \<le> k" "dec_val (dfix (Dec c e)) = of_int c' * 10 powi (e + int k)" "c div 10 ^ k \<le> c'"
    "10 ^ 27 \<le> c div 10 ^ k" by (rule dfix_shape)
  have "of_int (10 ^ 27) \<le> (of_int c' :: rat)" using s(3,4) by (simp only: of_int_le_iff)
  moreover have "(10 :: rat) powi 1 \<le> 10 powi (e + int k + int p)" using assms(4) s(1) by (intro power_int_increasing) simp_all
  ultimately have "(10 :: rat) ^ 27 * 10 \<le> of_int c' * 10 powi (e + int k + int p)" by (intro mult_mono) simp_all
  also have "\<dots> = dec_val (dfix (Dec c e)) * 10 ^ p" by (simp add: s(2) power_int_add)
  also have "\<dots> \<le> \<bar>dec_val (dfix (Dec c e))\<bar> * 10 ^ p" by (intro mult_right_mono) simp_all
  also have "\<dots> \<le> of_nat b" using assms(2) by (simp add: fits_def)
  also have "\<dots> < 10 ^ 28" by (rule below_room [OF assms(3)])
  finally show ?thesis by simp
qed

lemma rounded_multiple:
  assumes "rounded v i = Inr d" "0 < coeff i" "fits p b d" "b < room" "on_grid p i"
  shows "multiple_of i d"
proof -
  from assms(1) obtain u q where q: "quantize_one u = Inr q" "d = dmul q i" by (auto simp: rounded_def)
  then have e: "expo q = 0" by (auto simp: quantize_one_def Let_def split: if_splits)
  define c where "c = coeff q * coeff i"
  have d: "d = dfix (Dec c (expo i))" using q(2) e by (simp add: dmul_def c_def)
  have g: "- int p \<le> expo i" using assms(5) by (simp add: on_grid_def)
  have exact: "d = Dec c (expo i)"
  proof (cases "c = 0 \<or> 0 < c")
    case True
    with fits_dfix [of c p b "expo i"] assms(3,4) g d dfix_exact [of "Dec 0 (expo i)"] show ?thesis by auto
  next
    case False
    then have neg: "0 < - c" by simp
    have "fits p b (mirror d)" using assms(3) by (simp add: fits_def on_grid_def)
    then have "dfix (Dec (- c) (expo i)) = Dec (- c) (expo i)"
      by (intro fits_dfix [OF neg _ assms(4) g]) (simp add: d dfix_neg)
    then have "mirror (dfix (Dec c (expo i))) = mirror (Dec c (expo i))" by (simp add: dfix_neg) (simp add: mirror_def)
    with d show ?thesis by (metis mirror_mirror)
  qed
  have "dec_val d = of_int (coeff q) * dec_val i" unfolding exact by (simp add: c_def dec_val_def)
  then show ?thesis unfolding multiple_of_def by blast
qed

lemma multiple_zero: "multiple_of i dzero"
  by (auto simp: multiple_of_def intro: exI [of _ 0])

text \<open>A multiple below half the increment is zero.\<close>

lemma multiple_small:
  assumes "multiple_of i d" "2 * \<bar>dec_val d\<bar> < dec_val i"
  shows "dec_val d = 0"
proof -
  from assms(1) obtain k where k: "dec_val d = of_int k * dec_val i" by (auto simp: multiple_of_def)
  have i: "0 < dec_val i" using assms(2) by (meson abs_ge_zero le_less_trans mult_nonneg_nonneg zero_le_numeral)
  have "(2 * of_int \<bar>k\<bar>) * dec_val i < 1 * dec_val i" using assms(2) i by (simp add: k abs_mult)
  then have "2 * of_int \<bar>k\<bar> < (1 :: rat)" using i by (simp only: mult_less_cancel_right_pos)
  then have "k = 0" by linarith
  with k show ?thesis by simp
qed

end
