(* ===== verification/ExactRounding.thy ===== *)
theory ExactRounding
  imports Rounding
begin

text \<open>
  Multiples of the increment are rounded to themselves, so two totals in whole increments that are equal after
  rounding are equal.
\<close>

lemma mult_powi: "(10 :: rat) powi a * 10 powi b = 10 powi (a + b)"
  by (simp add: power_int_add)

text \<open>Trailing zeros beyond 28 digits go without loss.\<close>

lemma dfix_zeros:
  assumes "0 \<le> k" "k < 10 ^ 28"
  shows "dec_val (dfix (Dec (k * 10 ^ m) e)) = dec_val (Dec (k * 10 ^ m) e)"
proof (cases "k * 10 ^ m < 10 ^ 28")
  case True
  with assms(1) dfix_exact [of "Dec (k * 10 ^ m) e"] show ?thesis by simp
next
  case False
  define c where "c = k * 10 ^ m"
  have c: "10 ^ 28 \<le> c" "0 < c" "\<bar>c\<bar> = c" using False less_le_trans [of 0 "10 ^ 28" c] by (simp_all add: c_def)
  have "k * 10 ^ m < 10 ^ 28 * 10 ^ m" using assms(2) by (rule mult_strict_right_mono) simp
  then have "c < 10 ^ Suc (27 + m)" by (simp add: c_def power_add)
  then have "ndigits c \<le> Suc (27 + m)" using ndigits_le [of c "27 + m"] c(2) by simp
  moreover have n: "\<not> ndigits c \<le> prec" using ndigits_prec [of c] c by simp
  ultimately obtain i where i: "ndigits c - prec = i" "i \<le> m" by (simp add: prec_def)
  have "10 ^ m = 10 ^ i * (10 :: int) ^ (m - i)" using i(2) by (simp flip: power_add)
  then have dv: "c = 10 ^ i * (k * 10 ^ (m - i))" by (simp add: c_def)
  then have h: "half_even c (10 ^ i) = k * 10 ^ (m - i)" by (simp add: half_even_def)
  have "ndigits c = 28 + i" using n i(1) by (simp add: prec_def)
  with ndigits_range(2) [OF c(2)] have "c < 10 ^ 28 * 10 ^ i" by (simp add: power_add)
  then have "k * 10 ^ (m - i) < 10 ^ 28" unfolding dv by simp
  then have "ndigits \<bar>k * 10 ^ (m - i)\<bar> \<le> prec" using ndigits_prec [of "k * 10 ^ (m - i)"] assms(1) by simp
  then have "dfix (Dec c e) = Dec (k * 10 ^ (m - i)) (e + int i)"
    using n by (simp only: dfix_def decimal.sel c(3) Let_def i(1) h if_True if_False)
  then show ?thesis unfolding c_def [symmetric] by (simp add: dec_val_def dv power_int_add)
qed

lemma ddiv_multiple:
  assumes "0 < coeff a" "0 < coeff b" "dec_val a = of_int k * dec_val b" "k < 10 ^ 28"
  shows "\<exists>u. ddiv a b = Inr u \<and> dec_val u = of_int k"
proof -
  define x y where "x = coeff a" and "y = coeff b"
  have xy: "0 < x" "0 < y" "sgn x = 1" "sgn y = 1" "\<bar>x\<bar> = x" "\<bar>y\<bar> = y" "x \<noteq> 0" "y \<noteq> 0"
    using assms(1,2) by (simp_all add: x_def y_def)
  define shift where "shift = int (ndigits y) - int (ndigits x) + int prec + 1"
  define e where "e = expo a - expo b - shift"
  define n d where "n = x * 10 ^ nat shift" and "d = y * 10 ^ nat (- shift)"
  have if_nd: "(if shift \<ge> 0 then x * 10 ^ nat shift else x) = n" "(if shift \<ge> 0 then y else y * 10 ^ nat (- shift)) = d"
    by (simp_all add: n_def d_def)
  have d: "0 < d" using xy by (simp add: d_def)
  have "10 ^ 28 * d < 10 ^ 28 * (10 ^ ndigits y * 10 ^ nat (- shift))" using ndigits_range(2) [OF xy(2)] by (simp add: d_def)
  also have "\<dots> = (10 :: int) ^ (28 + ndigits y + nat (- shift))" by (simp only: power_add mult.assoc)
  also have "\<dots> \<le> 10 ^ (ndigits x - 1 + nat shift)"
    using ndigits_Suc [of x] by (intro power_increasing) (auto simp: shift_def prec_def)
  also have "\<dots> \<le> n" using ndigits_range(1) [OF xy(1)] by (simp add: n_def power_add)
  finally have q: "10 ^ 28 * d < n" .
  have p: "(10 :: rat) ^ nat shift / 10 ^ nat (- shift) = 10 powi shift"
    by (cases "0 \<le> shift") (simp_all add: power_int_def inverse_eq_divide power_divide)
  have "dec_val a = of_int k * dec_val b" by (rule assms(3))
  then have "of_int x * 10 powi expo a = of_int k * (of_int y * (10 :: rat) powi expo b)" by (simp add: dec_val_def x_def y_def)
  then have "of_int x * 10 powi expo a * (10 powi (- expo b) * 10 powi (- shift) * 10 powi shift)
      = of_int k * of_int y * ((10 :: rat) powi expo b * 10 powi (- expo b)) * (10 powi (- shift) * 10 powi shift)" by simp
  then have "of_int x * (10 powi shift) * 10 powi e = of_int k * of_int (y :: int) * (1 :: rat)"
    unfolding mult_powi by (simp add: e_def mult_powi mult.assoc algebra_simps)
  then have nd: "of_int n / of_int d * (10 :: rat) powi e = of_int k"
    using xy unfolding p [symmetric] by (simp add: n_def d_def field_simps)
  have neg: "e < 0"
  proof (rule ccontr)
    assume "\<not> e < 0"
    then have one: "(1 :: rat) \<le> 10 powi e" by (simp add: power_int_def)
    have "(of_int (10 ^ 28 * d) :: rat) < of_int n" using q by (simp only: of_int_less_iff)
    then have "(10 :: rat) ^ 28 < of_int n / of_int d" using d by (simp add: field_simps)
    also have "\<dots> = of_int n / of_int d * 1" by simp
    also have "\<dots> \<le> of_int n / of_int d * 10 powi e"
      by (rule mult_left_mono [OF one]) (use xy d in \<open>simp add: n_def\<close>)
    finally have "(10 :: rat) ^ 28 < of_int k" unfolding nd .
    then have "(of_int (10 ^ 28) :: rat) < of_int k" by simp
    with assms(4) show False by (simp only: of_int_less_iff)
  qed
  then obtain j where j: "e = - int j" by (metis int_cases2 neg_0_less_iff_less of_nat_less_0_iff linorder_not_less minus_minus zero_le_imp_eq_int)
  have "(of_int n :: rat) = of_int (k * 10 ^ j * d)"
    using nd d unfolding j power_int_minus power_int_of_nat by (simp add: field_simps)
  then have n: "n = k * 10 ^ j * d" by (simp only: of_int_eq_iff)
  have qd: "n div d = k * 10 ^ j" "n mod d = 0" unfolding n using d by simp_all
  obtain q' s where s: "strip_zeros (nat shift) (n div d) = (q', s)" by (cases "strip_zeros (nat shift) (n div d)")
  have u: "ddiv a b = Inr (dfix (Dec q' (e + int s)))"
    unfolding ddiv_def x_def [symmetric] y_def [symmetric] using xy
    by (simp only: if_False Let_def shift_def [symmetric] e_def [symmetric] if_nd mult_1 qd(2) s simp_thms prod.case)
  have v: "q' * 10 ^ s = k * 10 ^ j" using strip_zeros_val [OF s] qd(1) by simp
  have k: "0 < k"
  proof (rule ccontr)
    assume "\<not> 0 < k"
    then have "k * 10 ^ j \<le> 0" by (intro mult_nonpos_nonneg) simp_all
    moreover have "0 < n" using q d by (meson less_trans mult_pos_pos zero_less_numeral zero_less_power)
    ultimately show False unfolding n using d by (meson leD mult_nonpos_nonneg less_imp_le)
  qed
  have "dec_val (dfix (Dec q' (e + int s))) = dec_val (Dec q' (e + int s))"
  proof (cases "s \<le> j")
    case True
    then have "(10 :: int) ^ j = 10 ^ (j - s) * 10 ^ s" by (simp flip: power_add)
    with v have "q' * 10 ^ s = (k * 10 ^ (j - s)) * 10 ^ s" by simp
    then have "q' = k * 10 ^ (j - s)" by simp
    with dfix_zeros [of k] k assms(4) show ?thesis by simp
  next
    case False
    then have "(10 :: int) ^ s = 10 ^ (s - j) * 10 ^ j" by (simp flip: power_add)
    with v have "(q' * 10 ^ (s - j)) * 10 ^ j = k * 10 ^ j" by simp
    then have qk: "q' * 10 ^ (s - j) = k" by simp
    have q0: "0 \<le> q'" using k qk by (metis less_le zero_less_mult_pos2 zero_less_numeral zero_less_power)
    have "q' * 1 \<le> q' * 10 ^ (s - j)" by (rule mult_left_mono) (use q0 in simp_all)
    with qk assms(4) dfix_exact [of "Dec q' (e + int s)"] q0 show ?thesis by simp
  qed
  also have "\<dots> = of_int (q' * 10 ^ s) * 10 powi e" by (simp add: dec_val_def power_int_add)
  also have "\<dots> = of_int k" unfolding v j power_int_minus power_int_of_nat by simp
  finally show ?thesis using u by simp
qed

lemma quantize_integer:
  assumes "dec_val u = of_int k" "\<bar>k\<bar> < 10 ^ 28"
  shows "quantize_one u = Inr (Dec k 0)"
proof -
  define q where "q = (if expo u \<ge> 0 then scale u 0 else half_up (coeff u) (10 ^ nat (- expo u)))"
  have "q = k"
  proof (cases "0 \<le> expo u")
    case True
    have "of_int (scale u 0) = (of_int k :: rat)" using scale_val [OF True] assms(1) by simp
    with True show ?thesis by (simp add: q_def)
  next
    case False
    then obtain j where j: "expo u = - int j" by (metis int_cases2 neg_0_le_iff_le of_nat_0_le_iff minus_minus nle_le)
    have "(of_int (coeff u) :: rat) = of_int (k * 10 ^ j)"
      using assms(1) by (simp add: dec_val_def j power_int_minus power_int_of_nat field_simps)
    then have c: "coeff u = k * 10 ^ j" by (simp only: of_int_eq_iff)
    have "half_up (k * 10 ^ j) (10 ^ j) = k"
    proof -
      have "(2 * (\<bar>k\<bar> * 10 ^ j) + 10 ^ j) div (2 * 10 ^ j) = ((2 * \<bar>k\<bar> + 1) * 10 ^ j) div (2 * 10 ^ j)"
        by (simp add: algebra_simps)
      also have "\<dots> = (2 * \<bar>k\<bar> + 1) div 2" by (rule div_mult_mult2) simp
      also have "\<dots> = \<bar>k\<bar>" by simp
      finally show ?thesis by (simp add: half_up_def abs_mult sgn_mult sgn_mult_abs)
    qed
    with False c show ?thesis by (simp add: q_def j)
  qed
  with assms(2) show ?thesis
    using ndigits_prec [of k] by (simp add: quantize_one_def Let_def q_def [symmetric])
qed

lemma rounded_positive:
  assumes "0 < coeff v" "0 < coeff i" "dec_val v = of_int k * dec_val i" "k < 10 ^ 28" "\<bar>k * coeff i\<bar> < 10 ^ 28"
  shows "rounded v i = Inr (Dec (k * coeff i) (expo i))"
proof -
  have "0 < dec_val v" "0 < dec_val i" using assms(1,2) by (simp_all add: dec_val_pos)
  then have k: "0 < k" using assms(3) by (simp add: zero_less_mult_iff)
  from ddiv_multiple [OF assms(1-4)] obtain u where u: "ddiv v i = Inr u" "dec_val u = of_int k" by blast
  from quantize_integer [OF u(2)] k assms(4) have "quantize_one u = Inr (Dec k 0)" by simp
  moreover have "dmul (Dec k 0) i = Dec (k * coeff i) (expo i)"
    using assms(5) dfix_exact [of "Dec (k * coeff i) (expo i)"] by (simp add: dmul_def)
  ultimately show ?thesis by (simp add: rounded_def u(1))
qed

text \<open>A multiple of the increment with room to spare is rounded to itself.\<close>

lemma rounded_same:
  assumes "rounded v i = Inr d" "0 < coeff i" "multiple_of i v" "fits p b v" "b < room" "on_grid p i"
  shows "dec_val d = dec_val v"
proof -
  from assms(3) obtain k where k: "dec_val v = of_int k * dec_val i" by (auto simp: multiple_of_def)
  have g: "- int p \<le> expo i" using assms(6) by (simp add: on_grid_def)
  have "\<bar>of_int (k * coeff i) * 10 powi expo i\<bar> * 10 ^ p < (10 :: rat) ^ 28"
    using le_less_trans [OF _ below_room [OF assms(5)]] assms(4) k by (simp add: fits_def dec_val_def mult.assoc)
  then have c: "\<bar>k * coeff i\<bar> < 10 ^ 28" by (rule grid_coeff [OF g])
  have kk: "\<bar>k\<bar> < 10 ^ 28"
  proof -
    have "\<bar>k\<bar> * 1 \<le> \<bar>k\<bar> * coeff i" by (rule mult_left_mono) (use assms(2) in simp_all)
    also have "\<dots> = \<bar>k * coeff i\<bar>" using assms(2) by (simp add: abs_mult)
    finally show ?thesis using c by simp
  qed
  consider "0 < coeff v" | "coeff v = 0" | "coeff v < 0" by linarith
  then show ?thesis
  proof cases
    case 1
    from rounded_positive [OF this assms(2) k _ c] kk assms(1) k show ?thesis by (simp add: dec_val_def)
  next
    case 2
    with assms(1,2) have "coeff d = 0"
      by (auto simp: rounded_def ddiv_def quantize_one_def scale_def half_up_def dmul_def dfix_exact Let_def split: if_splits)
    with 2 show ?thesis by (simp add: dec_val_def)
  next
    case 3
    then have m: "0 < coeff (mirror v)" by simp
    have "dec_val (mirror v) = of_int (- k) * dec_val i" using k by simp
    from rounded_positive [OF m assms(2) this] kk c have "rounded (mirror v) i = Inr (Dec (- k * coeff i) (expo i))" by simp
    moreover have "rounded (mirror v) i = Inr (mirror d)" using assms(1) by (simp add: rounded_mirror)
    ultimately have "mirror d = Dec (- k * coeff i) (expo i)" by simp
    then have "dec_val (mirror d) = dec_val (Dec (- k * coeff i) (expo i))" by (rule arg_cong)
    with k show ?thesis by (simp add: dec_val_def)
  qed
qed

end
