(* ===== verification/WholeAmounts.thy ===== *)
theory WholeAmounts
  imports TrialProps ExactRounding
begin

text \<open>
  Sums of amounts in whole increments of a currency: with at most 22 digits and at most 100000 of them they are
  exact, and rounding them to the increment does not change them.
\<close>

section \<open>Balance\<close>

text \<open>Amounts in whole increments, with p decimals and at most 22 digits.\<close>

definition whole_amount :: "nat \<Rightarrow> decimal \<Rightarrow> decimal \<Rightarrow> bool" where
  "whole_amount p increment d \<longleftrightarrow> fits p amount_unit d \<and> multiple_of increment d"

definition plain_increment :: "nat \<Rightarrow> decimal \<Rightarrow> bool" where
  "plain_increment p increment \<longleftrightarrow> 0 < coeff increment \<and> on_grid p increment"

lemma multiple_of_sum:
  assumes "list_all (\<lambda>x. \<exists>k. dec_val (g x) = of_int k * v) xs"
  shows "\<exists>k. (\<Sum>x\<leftarrow>xs. dec_val (g x)) = of_int k * v"
  using assms
proof (induction xs)
  case Nil
  show ?case by (rule exI [of _ 0]) simp
next
  case (Cons x xs)
  then obtain k m where "dec_val (g x) = of_int k * v" "(\<Sum>x\<leftarrow>xs. dec_val (g x)) = of_int m * v" by auto
  then show ?case by (intro exI [of _ "k + m"]) (simp add: distrib_right)
qed

lemma whole_sum:
  assumes "list_all (\<lambda>x. whole_amount p i (g x)) xs" "length xs \<le> max_source_records" "plain_increment p i"
    "rounded (dsum (map g xs)) i = Inr d"
  shows "dec_val d = (\<Sum>x\<leftarrow>xs. dec_val (g x))"
proof -
  from assms(1) have f: "list_all (\<lambda>x. fits p amount_unit (g x)) xs"
    and m: "list_all (\<lambda>x. \<exists>k. dec_val (g x) = of_int k * dec_val i) xs"
    by (auto simp: list_all_iff whole_amount_def multiple_of_def)
  note s = plain_sum [OF f assms(2)]
  from multiple_of_sum [OF m] s(1) have "multiple_of i (dsum (map g xs))" by (simp add: multiple_of_def)
  moreover have "length xs * amount_unit < room"
    using mult_right_mono [OF assms(2), of amount_unit] by (simp add: max_source_records_def amount_unit_def room_def)
  ultimately have "dec_val d = dec_val (dsum (map g xs))"
    using rounded_same [OF assms(4) _ _ s(2)] assms(3) by (simp add: plain_increment_def)
  with s(1) show ?thesis by simp
qed

lemma whole_balance:
  assumes "list_all (\<lambda>x. whole_amount p i (g x) \<and> whole_amount p i (h x)) xs" "length xs \<le> max_source_records"
    "plain_increment p i" "rounded (dsum (map g xs)) i = Inr d" "rounded (dsum (map h xs)) i = Inr c" "deq d c"
  shows "(\<Sum>x\<leftarrow>xs. dec_val (g x)) = (\<Sum>x\<leftarrow>xs. dec_val (h x))"
  using whole_sum [OF _ assms(2,3,4)] whole_sum [OF _ assms(2,3,5)] assms(1,6) by (auto simp: list_all_iff deq_val)

end
