(* ===== verification/StatementProps.thy ===== *)
theory StatementProps
  imports Statements WholeAmounts
begin

text \<open>
  The accounting equation of a balance sheet in exact arithmetic: the rows and the totals of the report are the
  sums of the posted lines by account and by kind of account, and the assets equal the liabilities and the equity.
\<close>

section \<open>The balances by account\<close>

lemma dfix_expo: "expo d \<le> expo (dfix d)"
  by (simp add: dfix_def Let_def)

lemma rounded_grid:
  assumes "rounded v i = Inr d" "on_grid p i"
  shows "on_grid p d"
proof -
  from assms(1) obtain u q where q: "quantize_one u = Inr q" "d = dmul q i" by (auto simp: rounded_def)
  then have "expo q = 0" by (auto simp: quantize_one_def Let_def split: if_splits)
  with q(2) dfix_expo [of "Dec (coeff q * coeff i) (expo q + expo i)"] assms(2) show ?thesis
    by (simp add: dmul_def on_grid_def)
qed

lemma map_of_put_balance:
  "map_of (put_balance i d v) = (map_of v)(i \<mapsto> dadd (case map_of v i of None \<Rightarrow> dzero | Some d' \<Rightarrow> d') d)"
  by (induction i d v rule: put_balance.induct) (auto simp: fun_eq_iff)

lemma put_balance_keys: "fst ` set (put_balance i d v) = insert i (fst ` set v)"
  by (induction i d v rule: put_balance.induct) auto

lemma put_balance_distinct: "distinct (map fst v) \<Longrightarrow> distinct (map fst (put_balance i d v))"
proof (induction i d v rule: put_balance.induct)
  case (2 i d i' d' v)
  then show ?case using put_balance_keys [of i d v] by auto
qed simp

definition put_line :: "move_line \<Rightarrow> (int \<times> decimal) list \<Rightarrow> (int \<times> decimal) list" where
  "put_line l v = put_balance (rr_id (ml_account l)) (dmul (ml_balance l) dunit) v"

lemma post_all: "efold (post_balance []) lines v = Inr (fold put_line lines v)"
proof (induction lines arbitrary: v)
  case (Cons l lines)
  have "\<not> deq dunit dzero" by code_simp
  then show ?case using Cons by (simp add: post_balance_def analytic_factor_def put_line_def)
qed simp

lemma put_lines_keys: "fst ` set (fold put_line lines v) = fst ` set v \<union> (rr_id \<circ> ml_account) ` set lines"
  by (induction lines arbitrary: v) (simp_all add: put_line_def put_balance_keys)

lemma put_lines_distinct: "distinct (map fst v) \<Longrightarrow> distinct (map fst (fold put_line lines v))"
  by (induction lines arbitrary: v) (simp_all add: put_line_def put_balance_distinct)

lemma put_lines_value:
  "map_of (fold put_line lines v) i =
    (if lines_of lines i = [] then map_of v i
     else Some (foldl dadd (case map_of v i of None \<Rightarrow> dzero | Some d \<Rightarrow> d)
       (map (\<lambda>l. dmul (ml_balance l) dunit) (lines_of lines i))))"
  by (induction lines arbitrary: v) (auto simp: put_line_def map_of_put_balance lines_of_def)

lemma whole_unit: "fits p amount_unit d \<Longrightarrow> dmul d dunit = d"
proof -
  assume f: "fits p amount_unit d"
  have "amount_unit < room" by (simp add: amount_unit_def room_def)
  from below_room [OF this] f have "\<bar>of_int (coeff d) * 10 powi expo d\<bar> * 10 ^ p < (10 :: rat) ^ 28"
    by (simp add: fits_def dec_val_def)
  from dfix_grid [OF _ this] f show ?thesis by (simp add: dmul_def dunit_def fits_def on_grid_def)
qed

text \<open>The balance of an account before it is rounded.\<close>

lemma account_balances:
  assumes "list_all (\<lambda>l. whole_amount p increment (ml_balance l)) lines"
  defines "v \<equiv> fold put_line lines []"
  shows "mset (map fst v) = mset (line_accounts lines)"
    "list_all (\<lambda>(i, raw). raw = dsum (map ml_balance (lines_of lines i))) v"
proof -
  have d: "distinct (map fst v)" unfolding v_def by (rule put_lines_distinct) simp
  have "set (map fst v) = set (line_accounts lines)"
    using put_lines_keys [of lines "[]"] by (simp add: v_def line_accounts_def)
  with d show "mset (map fst v) = mset (line_accounts lines)"
    by (intro iffD1 [OF set_eq_iff_mset_eq_distinct]) (simp_all add: line_accounts_def)
  show "list_all (\<lambda>(i, raw). raw = dsum (map ml_balance (lines_of lines i))) v"
  proof (unfold list_all_iff, intro ballI, unfold split_beta)
    fix x
    assume "x \<in> set v"
    moreover obtain i raw where x: "x = (i, raw)" by (cases x)
    ultimately have "map_of v i = Some raw" using d by simp
    then have "raw = foldl dadd dzero (map (\<lambda>l. dmul (ml_balance l) dunit) (lines_of lines i))"
      unfolding v_def put_lines_value by (simp split: if_splits)
    also have "map (\<lambda>l. dmul (ml_balance l) dunit) (lines_of lines i) = map ml_balance (lines_of lines i)"
      using assms(1) whole_unit [of p] by (auto simp: list_all_iff lines_of_def whole_amount_def)
    finally show "snd x = dsum (map ml_balance (lines_of lines (fst x)))" by (simp add: dsum_def x)
  qed
qed

section \<open>The books\<close>

text \<open>The sum of the lines on accounts of the types P.\<close>

definition books :: "account list \<Rightarrow> (string \<Rightarrow> bool) \<Rightarrow> move_line list \<Rightarrow> rat" where
  "books accs P lines =
    (\<Sum>l\<leftarrow>lines. case account_in accs (rr_id (ml_account l)) of Inl _ \<Rightarrow> 0
      | Inr a \<Rightarrow> if P (ao_account_type a) then dec_val (ml_balance l) else 0)"

definition in_group :: "balance_group \<Rightarrow> string \<Rightarrow> bool" where
  "in_group g ty \<longleftrightarrow> balance_group_of ty = Inr (Some g)"

definition earning :: "string \<Rightarrow> bool" where
  "earning ty \<longleftrightarrow> ty \<in> set income_types \<or> ty \<in> set expense_types"

definition of_type :: "account list \<Rightarrow> (string \<Rightarrow> bool) \<Rightarrow> int \<Rightarrow> bool" where
  "of_type accs P i \<longleftrightarrow> (case account_in accs i of Inl _ \<Rightarrow> False | Inr a \<Rightarrow> P (ao_account_type a))"

definition shown :: "string \<Rightarrow> bool" where
  "shown ty \<longleftrightarrow> in_group G_asset ty \<or> in_group G_liability ty \<or> in_group G_equity ty"

definition account_sum :: "move_line list \<Rightarrow> int \<Rightarrow> rat" where
  "account_sum lines i = (\<Sum>l\<leftarrow>lines_of lines i. dec_val (ml_balance l))"

lemma books_by_account:
  "books accs P lines = (\<Sum>i\<leftarrow>line_accounts lines. if of_type accs P i then account_sum lines i else 0)"
proof -
  let ?h = "\<lambda>l. case account_in accs (rr_id (ml_account l)) of Inl _ \<Rightarrow> 0
      | Inr a \<Rightarrow> if P (ao_account_type a) then dec_val (ml_balance l) else 0"
  have d: "distinct (line_accounts lines)" "list_all (\<lambda>l. rr_id (ml_account l) \<in> set (line_accounts lines)) lines"
    by (auto simp: line_accounts_def list_all_iff)
  have one: "(\<Sum>l\<leftarrow>lines_of lines i. ?h l) = (if of_type accs P i then account_sum lines i else 0)" for i
  proof -
    have "(\<Sum>l\<leftarrow>lines_of lines i. ?h l) = (\<Sum>l\<leftarrow>lines_of lines i. if of_type accs P i then dec_val (ml_balance l) else 0)"
      by (intro arg_cong [of _ _ sum_list] map_cong) (auto simp: lines_of_def of_type_def split: sum.splits)
    then show ?thesis by (simp add: account_sum_def sum_list_0)
  qed
  show ?thesis unfolding books_def lines_of_sum [OF d, of ?h, symmetric] one ..
qed

text \<open>The row of a shown account: its balance, as a positive amount when it is a liability or equity in credit.\<close>

definition exact_row :: "account list \<Rightarrow> move_line list \<Rightarrow> balance_item \<Rightarrow> bool" where
  "exact_row accs lines x \<longleftrightarrow>
    (case account_in accs (bi_account_id x) of Inl _ \<Rightarrow> False
     | Inr a \<Rightarrow> bi_code x = ao_code a \<and> bi_name x = ao_name a \<and> bi_account_type x = ao_account_type a
        \<and> in_group (bi_group x) (ao_account_type a))
    \<and> dec_val (bi_signed_balance x)
        = (if bi_group x = G_asset then account_sum lines (bi_account_id x) else - account_sum lines (bi_account_id x))"

section \<open>The accounts of the sheet\<close>

text \<open>An entry of the balances that is exact.\<close>

definition account_bound :: "move_line list \<Rightarrow> int \<Rightarrow> nat" where
  "account_bound lines i = length (lines_of lines i) * amount_unit"

lemma rounded_balance:
  assumes whole: "list_all (\<lambda>l. whole_amount p increment (ml_balance l)) lines" "length lines \<le> max_source_records"
    and inc: "plain_increment p increment" and r: "rounded (dsum (map ml_balance (lines_of lines i))) increment = Inr d"
  shows "dec_val d = account_sum lines i" "fits p (account_bound lines i) d" "dec_val (dneg d) = - account_sum lines i"
    "fits p (account_bound lines i) (dneg d)"
proof -
  have w: "list_all (\<lambda>l. whole_amount p increment (ml_balance l)) (lines_of lines i)" and l: "length (lines_of lines i) \<le> max_source_records"
    using whole by (auto simp: lines_of_def list_all_iff intro: le_trans [OF length_filter_le])
  show v: "dec_val d = account_sum lines i"
    using whole_sum [OF w l inc r] by (simp add: account_sum_def)
  have "list_all (\<lambda>l. fits p amount_unit (ml_balance l)) (lines_of lines i)"
    using w by (simp add: list_all_iff whole_amount_def)
  note s = plain_sum [OF this l]
  have "on_grid p d" by (rule rounded_grid [OF r]) (use inc in \<open>simp add: plain_increment_def\<close>)
  then show f: "fits p (account_bound lines i) d"
    using s v by (simp add: fits_def account_bound_def account_sum_def)
  have "account_bound lines i < room"
    using mult_right_mono [OF l, of amount_unit] by (simp add: account_bound_def max_source_records_def amount_unit_def room_def)
  from fits_neg [OF f this] v show "dec_val (dneg d) = - account_sum lines i" "fits p (account_bound lines i) (dneg d)"
    by simp_all
qed

definition exact_fit :: "nat \<Rightarrow> account list \<Rightarrow> move_line list \<Rightarrow> balance_item \<Rightarrow> bool" where
  "exact_fit p accs lines x \<longleftrightarrow> exact_row accs lines x \<and> fits p (account_bound lines (bi_account_id x)) (bi_signed_balance x)"

definition earnings :: "account list \<Rightarrow> move_line list \<Rightarrow> int \<Rightarrow> rat" where
  "earnings accs lines i = (if of_type accs earning i then account_sum lines i else 0)"

lemma earning_group: "earning ty \<Longrightarrow> balance_group_of ty = Inr None"
  by (auto simp: earning_def income_types_def expense_types_def balance_group_of_def starts_with_def)

lemma shown_group: "shown ty \<longleftrightarrow> (\<exists>g. balance_group_of ty = Inr (Some g))"
  unfolding shown_def in_group_def by (metis balance_group.exhaust)

lemma sheet_account_exact:
  assumes step: "sheet_account accs increment (i, dsum (map ml_balance (lines_of lines i))) (items, u) = Inr (items', u')"
    and whole: "list_all (\<lambda>l. whole_amount p increment (ml_balance l)) lines" "length lines \<le> max_source_records"
    and inc: "plain_increment p increment" and u: "fits p b u" "b + account_bound lines i < room"
  shows "\<exists>new. items' = items @ new \<and> map bi_account_id new = filter (of_type accs shown) [i]
      \<and> list_all (exact_fit p accs lines) new"
    "dec_val u' = dec_val u - earnings accs lines i" "fits p (b + account_bound lines i) u'"
proof -
  from step obtain a bal group where a: "account_in accs i = Inr a"
    and r: "rounded (dsum (map ml_balance (lines_of lines i))) increment = Inr bal"
    and g: "balance_group_of (ao_account_type a) = Inr group"
    by (auto simp: sheet_account_def)
  note bal = rounded_balance [OF whole inc r]
  show "\<exists>new. items' = items @ new \<and> map bi_account_id new = filter (of_type accs shown) [i]
      \<and> list_all (exact_fit p accs lines) new"
  proof (cases group)
    case None
    with step a r g have "items' = items" by (simp add: sheet_account_def)
    with None a g show ?thesis by (intro exI [of _ "[]"]) (simp add: of_type_def shown_group)
  next
    case (Some k)
    define x where "x = \<lparr>bi_account_id = i, bi_code = ao_code a, bi_name = ao_name a, bi_account_type = ao_account_type a,
       bi_group = k, bi_signed_balance = (if k = G_asset then bal else dneg bal)\<rparr>"
    have "items' = items @ [x]" using step a r g Some by (simp add: sheet_account_def x_def)
    moreover have "exact_fit p accs lines x"
      using a g Some bal by (simp add: exact_fit_def exact_row_def x_def in_group_def)
    ultimately show ?thesis
      using a g Some by (intro exI [of _ "[x]"]) (simp add: of_type_def shown_group x_def)
  qed
  have same: "u' = u \<and> \<not> earning (ao_account_type a) \<or>
    (u' = dadd u (dneg bal) \<or> u' = dsub u bal) \<and> earning (ao_account_type a)"
    using step a r g earning_group [of "ao_account_type a"] by (cases group) (auto simp: sheet_account_def earning_def split: if_splits)
  show "dec_val u' = dec_val u - earnings accs lines i" "fits p (b + account_bound lines i) u'"
    using same fits_add [OF u(1) bal(4) u(2)] fits_sub [OF u(1) bal(2) u(2)] fits_mono [OF u(1), of "b + account_bound lines i"]
      bal(1,3) a by (auto simp: earnings_def of_type_def)
qed

lemma sheet_accounts_exact:
  assumes "efold (sheet_account accs increment) v (items, u) = Inr (items', u')"
    and "list_all (\<lambda>(i, raw). raw = dsum (map ml_balance (lines_of lines i))) v"
    and whole: "list_all (\<lambda>l. whole_amount p increment (ml_balance l)) lines" "length lines \<le> max_source_records"
    and inc: "plain_increment p increment"
    and "fits p b u" "b + (\<Sum>i\<leftarrow>map fst v. account_bound lines i) < room"
  shows "\<exists>new. items' = items @ new \<and> map bi_account_id new = filter (of_type accs shown) (map fst v)
      \<and> list_all (exact_fit p accs lines) new
      \<and> dec_val u' = dec_val u - (\<Sum>i\<leftarrow>map fst v. earnings accs lines i)
      \<and> fits p (b + (\<Sum>i\<leftarrow>map fst v. account_bound lines i)) u'"
  using assms(1,2,6,7)
proof (induction v arbitrary: items u b)
  case (Cons entry v)
  obtain i where entry: "entry = (i, dsum (map ml_balance (lines_of lines i)))" using Cons.prems(2) by (cases entry) simp
  from Cons.prems(1) obtain items1 u1 where
    s: "sheet_account accs increment (i, dsum (map ml_balance (lines_of lines i))) (items, u) = Inr (items1, u1)"
      "efold (sheet_account accs increment) v (items1, u1) = Inr (items', u')"
    by (auto simp: entry simp del: split_paired_Ex)
  have b: "b + account_bound lines i < room" "b + account_bound lines i + (\<Sum>i\<leftarrow>map fst v. account_bound lines i) < room"
    using Cons.prems(4) by (simp_all add: entry)
  note one = sheet_account_exact [OF s(1) whole inc Cons.prems(3) b(1)]
  have rest: "list_all (\<lambda>(i, raw). raw = dsum (map ml_balance (lines_of lines i))) v" using Cons.prems(2) by simp
  from Cons.IH [OF s(2) rest one(3) b(2)] one(1,2) obtain new new' where
    n: "items' = items @ new @ new'" "map bi_account_id new = filter (of_type accs shown) [i]"
      "map bi_account_id new' = filter (of_type accs shown) (map fst v)" "list_all (exact_fit p accs lines) (new @ new')"
      "dec_val u' = dec_val u - earnings accs lines i - (\<Sum>i\<leftarrow>map fst v. earnings accs lines i)"
      "fits p (b + account_bound lines i + (\<Sum>i\<leftarrow>map fst v. account_bound lines i)) u'"
    by auto
  have "map bi_account_id (new @ new') = filter (of_type accs shown) (map fst (entry # v))"
    using n(2,3) by (simp add: entry split: if_splits)
  with n show ?case by (intro exI [of _ "new @ new'"]) (simp add: entry diff_diff_eq add.assoc)
qed simp

section \<open>The totals\<close>

lemma account_bounds:
  assumes "length lines \<le> max_source_records"
  shows "(\<Sum>i\<leftarrow>line_accounts lines. account_bound lines i) \<le> max_source_records * amount_unit"
proof -
  have d: "distinct (line_accounts lines)" "list_all (\<lambda>l. rr_id (ml_account l) \<in> set (line_accounts lines)) lines"
    by (auto simp: line_accounts_def list_all_iff)
  have "(\<Sum>i\<leftarrow>line_accounts lines. account_bound lines i) = (\<Sum>i\<leftarrow>line_accounts lines. length (lines_of lines i)) * amount_unit"
    by (simp only: account_bound_def sum_list_mult_const)
  also have "(\<Sum>i\<leftarrow>line_accounts lines. length (lines_of lines i)) = length lines"
    using lines_of_sum [OF d, of "\<lambda>_. 1 :: nat"] by (simp add: sum_const)
  finally show ?thesis using assms by (simp add: mult_right_mono)
qed

text \<open>The sum over the rows of a group.\<close>

lemma group_total_books:
  assumes rows: "list_all (exact_fit p accs lines) items"
    and ids: "mset (map bi_account_id items) = mset (filter (of_type accs shown) (line_accounts lines))"
    and len: "length lines \<le> max_source_records"
  shows "dec_val (group_total g items) = (if g = G_asset then books accs (in_group g) lines else - books accs (in_group g) lines)"
    "fits p (max_source_records * amount_unit) (group_total g items)"
proof -
  let ?b = "account_bound lines" and ?xs = "filter (\<lambda>x. bi_group x = g) items"
  have "(\<Sum>x\<leftarrow>?xs. ?b (bi_account_id x)) \<le> (\<Sum>x\<leftarrow>items. ?b (bi_account_id x))"
    unfolding sum_list_filter by (rule sum_list_mono) simp
  also have "\<dots> = (\<Sum>i\<leftarrow>filter (of_type accs shown) (line_accounts lines). ?b i)"
    using mset_sum_list [OF ids, of ?b] by (simp add: comp_def)
  also have "\<dots> \<le> (\<Sum>i\<leftarrow>line_accounts lines. ?b i)"
    unfolding sum_list_filter by (rule sum_list_mono) simp
  also note account_bounds [OF len]
  finally have le: "(\<Sum>x\<leftarrow>?xs. ?b (bi_account_id x)) \<le> max_source_records * amount_unit" .
  then have room: "(\<Sum>x\<leftarrow>?xs. ?b (bi_account_id x)) < room"
    by (rule le_less_trans) (simp add: max_source_records_def amount_unit_def room_def)
  have "list_all (\<lambda>x. fits p (?b (bi_account_id x)) (bi_signed_balance x)) ?xs"
    using rows by (simp add: list_all_iff exact_fit_def)
  note s = fits_sum [OF this room]
  show "fits p (max_source_records * amount_unit) (group_total g items)"
    unfolding group_total_def by (rule fits_mono [OF s(2) le])
  let ?f = "\<lambda>i. if of_type accs (in_group g) i then (if g = G_asset then account_sum lines i else - account_sum lines i) else 0"
  have "dec_val (group_total g items) = (\<Sum>x\<leftarrow>items. if bi_group x = g then dec_val (bi_signed_balance x) else 0)"
    unfolding group_total_def s(1) sum_list_filter ..
  also have "\<dots> = (\<Sum>x\<leftarrow>items. ?f (bi_account_id x))"
    using rows by (intro arg_cong [of _ _ sum_list] map_cong)
      (auto simp: list_all_iff exact_fit_def exact_row_def of_type_def in_group_def split: sum.splits)
  also have "\<dots> = (\<Sum>i\<leftarrow>filter (of_type accs shown) (line_accounts lines). ?f i)"
    using mset_sum_list [OF ids, of ?f] by (simp add: comp_def)
  also have "\<dots> = (\<Sum>i\<leftarrow>line_accounts lines. ?f i)"
    unfolding sum_list_filter
    by (intro arg_cong [of _ _ sum_list] map_cong) (auto simp: of_type_def shown_group in_group_def split: sum.splits)
  also have "\<dots> = (\<Sum>i\<leftarrow>line_accounts lines. (if g = G_asset then 1 else - 1) * (if of_type accs (in_group g) i then account_sum lines i else 0))"
    by (intro arg_cong [of _ _ sum_list] map_cong) auto
  also have "\<dots> = (if g = G_asset then 1 else - 1) * books accs (in_group g) lines"
    by (simp only: books_by_account sum_list_const_mult)
  finally show "dec_val (group_total g items) = (if g = G_asset then books accs (in_group g) lines else - books accs (in_group g) lines)"
    by simp
qed

lemma books_multiple:
  assumes "list_all (\<lambda>l. whole_amount p increment (ml_balance l)) lines"
  shows "\<exists>k. books accs P lines = of_int k * dec_val increment"
  using assms
proof (induction lines)
  case Nil
  show ?case by (rule exI [of _ 0]) (simp add: books_def)
next
  case (Cons l lines)
  then obtain k m where k: "books accs P lines = of_int k * dec_val increment" "dec_val (ml_balance l) = of_int m * dec_val increment"
    by (auto simp: whole_amount_def multiple_of_def)
  have "books accs P (l # lines) = books accs P lines \<or> books accs P (l # lines) = dec_val (ml_balance l) + books accs P lines"
    by (auto simp: books_def split: sum.splits)
  with k have "books accs P (l # lines) = of_int k * dec_val increment \<or> books accs P (l # lines) = of_int (m + k) * dec_val increment"
    by (simp add: distrib_right)
  then show ?case by blast
qed

lemma balance_summary_Inr:
  assumes "balance_summary_of xs raw i = Inr s"
  obtains unclosed difference where "rounded raw i = Inr unclosed"
    "rounded (dsub (dsub (group_total G_asset xs) (group_total G_liability xs)) (dadd (group_total G_equity xs) unclosed)) i
      = Inr difference"
    "bs_total_assets s = group_total G_asset xs" "bs_total_liabilities s = group_total G_liability xs"
    "bs_equity_account_balance s = group_total G_equity xs" "bs_unclosed_earnings s = unclosed"
    "bs_total_equity s = dadd (group_total G_equity xs) unclosed" "bs_is_balanced s = deq difference dzero"
  using assms by (auto simp: balance_summary_of_def Let_def)

text \<open>The equation: the difference is a multiple of the increment that is rounded to zero.\<close>

lemma sheet_totals:
  assumes s: "balance_summary_of items raw increment = Inr s" and balanced: "bs_is_balanced s"
    and rows: "list_all (exact_fit p accs lines) items"
    and ids: "mset (map bi_account_id items) = mset (filter (of_type accs shown) (line_accounts lines))"
    and raw: "dec_val raw = - books accs earning lines" "fits p (max_source_records * amount_unit) raw"
    and whole: "list_all (\<lambda>l. whole_amount p increment (ml_balance l)) lines" "length lines \<le> max_source_records"
    and inc: "plain_increment p increment"
  shows "dec_val (bs_total_assets s) = books accs (in_group G_asset) lines"
    "dec_val (bs_total_liabilities s) = - books accs (in_group G_liability) lines"
    "dec_val (bs_equity_account_balance s) = - books accs (in_group G_equity) lines"
    "dec_val (bs_unclosed_earnings s) = - books accs earning lines"
    "dec_val (bs_total_equity s) = dec_val (bs_equity_account_balance s) + dec_val (bs_unclosed_earnings s)"
    "dec_val (bs_total_assets s) = dec_val (bs_total_liabilities s) + dec_val (bs_total_equity s)"
proof -
  from balance_summary_Inr [OF s] obtain unclosed difference where u: "rounded raw increment = Inr unclosed"
    and d: "rounded (dsub (dsub (group_total G_asset items) (group_total G_liability items)) (dadd (group_total G_equity items) unclosed))
        increment = Inr difference"
    and f: "bs_total_assets s = group_total G_asset items" "bs_total_liabilities s = group_total G_liability items"
      "bs_equity_account_balance s = group_total G_equity items" "bs_unclosed_earnings s = unclosed"
      "bs_total_equity s = dadd (group_total G_equity items) unclosed" "bs_is_balanced s = deq difference dzero" .
  let ?n = "max_source_records * amount_unit"
  have n: "(?n + ?n) + (?n + ?n) < room" "?n + ?n < room" "?n < room"
    by (simp_all add: max_source_records_def amount_unit_def room_def)
  have i: "0 < coeff increment" "on_grid p increment" using inc by (simp_all add: plain_increment_def)
  note g = group_total_books [OF rows ids whole(2)] and m = books_multiple [OF whole(1), of accs]
  obtain a l q k where k: "books accs (in_group G_asset) lines = of_int a * dec_val increment"
    "books accs (in_group G_liability) lines = of_int l * dec_val increment"
    "books accs (in_group G_equity) lines = of_int q * dec_val increment" "books accs earning lines = of_int k * dec_val increment"
    using m by metis
  have "dec_val raw = of_int (- k) * dec_val increment" using raw(1) k(4) by simp
  then have "multiple_of increment raw" unfolding multiple_of_def by blast
  from rounded_same [OF u i(1) this raw(2) n(3) i(2)] raw(1) have unclosed: "dec_val unclosed = - books accs earning lines" by simp
  have fu: "fits p ?n unclosed"
    using raw unclosed rounded_grid [OF u i(2)] by (simp add: fits_def)
  note e = fits_add [OF g(2) [of G_equity] fu n(2)]
  note al = fits_sub [OF g(2) [of G_asset] g(2) [of G_liability] n(2)]
  note all = fits_sub [OF al(2) e(2) n(1)]
  have val: "dec_val (dsub (dsub (group_total G_asset items) (group_total G_liability items)) (dadd (group_total G_equity items) unclosed))
      = of_int (a + l + q + k) * dec_val increment"
    unfolding all(1) al(1) e(1) unclosed g(1) k by (simp add: distrib_right)
  then have "multiple_of increment
      (dsub (dsub (group_total G_asset items) (group_total G_liability items)) (dadd (group_total G_equity items) unclosed))"
    unfolding multiple_of_def by blast
  from multiple_small [OF this rounded_zero [OF d i(1)]] balanced f(6)
  have zero: "dec_val (group_total G_asset items) - dec_val (group_total G_liability items) - dec_val (dadd (group_total G_equity items) unclosed) = 0"
    unfolding all(1) al(1) by simp
  show "dec_val (bs_total_assets s) = books accs (in_group G_asset) lines"
    "dec_val (bs_total_liabilities s) = - books accs (in_group G_liability) lines"
    "dec_val (bs_equity_account_balance s) = - books accs (in_group G_equity) lines"
    "dec_val (bs_unclosed_earnings s) = - books accs earning lines"
    "dec_val (bs_total_equity s) = dec_val (bs_equity_account_balance s) + dec_val (bs_unclosed_earnings s)"
    "dec_val (bs_total_assets s) = dec_val (bs_total_liabilities s) + dec_val (bs_total_equity s)"
    unfolding f unclosed e(1) using g(1) zero e(1) unclosed by simp_all
qed

text \<open>The rows of the whole report, in the order of the groups, codes and identifiers.\<close>

definition sheet_rows :: "account list \<Rightarrow> move_line list \<Rightarrow> balance_item list \<Rightarrow> bool" where
  "sheet_rows accs lines items \<longleftrightarrow>
    sorted (map (\<lambda>x. (balance_rank (bi_group x), casefold (bi_code x), bi_account_id x)) items)
    \<and> mset (map bi_account_id items) = mset (filter (of_type accs shown) (line_accounts lines))
    \<and> list_all (exact_row accs lines) items"

text \<open>The sheet over lines in whole increments.\<close>

lemma sheet_exact:
  assumes found: "efold (sheet_account accs increment) (fold put_line lines []) ([], dzero) = Inr (found, raw)"
    and items: "items = sort_key (\<lambda>x. (balance_rank (bi_group x), casefold (bi_code x), bi_account_id x)) found"
    and s: "balance_summary_of items raw increment = Inr s" "bs_is_balanced s"
    and len: "length lines \<le> max_source_records" and pi: "plain_increment p increment"
    and w: "list_all (\<lambda>l. whole_amount p increment (ml_balance l)) lines"
  shows "sheet_rows accs lines items
       \<and> dec_val (bs_total_assets s) = books accs (in_group G_asset) lines
       \<and> dec_val (bs_total_liabilities s) = - books accs (in_group G_liability) lines
       \<and> dec_val (bs_equity_account_balance s) = - books accs (in_group G_equity) lines
       \<and> dec_val (bs_unclosed_earnings s) = - books accs earning lines
       \<and> dec_val (bs_total_equity s) = dec_val (bs_equity_account_balance s) + dec_val (bs_unclosed_earnings s)
       \<and> dec_val (bs_total_assets s) = dec_val (bs_total_liabilities s) + dec_val (bs_total_equity s)"
proof -
  define v where "v = fold put_line lines []"
  note b = account_balances [OF w, folded v_def]
  have sum: "(\<Sum>i\<leftarrow>map fst v. f i) = (\<Sum>i\<leftarrow>line_accounts lines. f i)" for f :: "int \<Rightarrow> 'b :: comm_monoid_add"
    using mset_sum_list [OF b(1), of f] .
  note bounds = account_bounds [OF len]
  have room: "0 + (\<Sum>i\<leftarrow>map fst v. account_bound lines i) < room"
    unfolding sum using bounds by (simp add: max_source_records_def amount_unit_def room_def)
  from sheet_accounts_exact [OF found [folded v_def] b(2) w len pi fits_zero room]
  have n: "map bi_account_id found = filter (of_type accs shown) (map fst v)" "list_all (exact_fit p accs lines) found"
    "dec_val raw = - (\<Sum>i\<leftarrow>map fst v. earnings accs lines i)" "fits p (\<Sum>i\<leftarrow>map fst v. account_bound lines i) raw"
    by auto
  have ids: "mset (map bi_account_id items) = mset (filter (of_type accs shown) (line_accounts lines))"
    using b(1) n(1) by (simp add: items) (metis mset_filter mset_map)
  have rows: "list_all (exact_fit p accs lines) items" using n(2) by (simp add: items list_all_iff)
  have raw: "dec_val raw = - books accs earning lines" "fits p (max_source_records * amount_unit) raw"
    using n(3) fits_mono [OF n(4)] bounds unfolding sum by (simp_all add: books_by_account earnings_def [abs_def])
  have "sheet_rows accs lines items"
    using ids rows unfolding sheet_rows_def by (simp add: list_all_iff exact_fit_def) (simp add: items sorted_sort_key)
  with sheet_totals [OF s rows ids raw w len pi] show ?thesis by simp
qed

text \<open>C23 (the accounting equation). A balance sheet without an analytic filter reports the posted lines up to the day that
  the adapter lists, on the accounts it lists for them. When the balances of these lines are in whole increments
  of the company currency, have p decimals and at most 22 digits, then the page is a part of the sheet with
  one row for every asset, liability and equity account of the lines, in order, each the exact sum of the lines
  of its account; the totals are the exact sums of the lines on accounts of these kinds, the unclosed earnings
  those on income and expense accounts, and the assets equal the liabilities and the equity exactly.\<close>

theorem accounting_equation:
  assumes "get_balance_sheet ad r cid name rid = Some (Inr rep)" "ba_analytic_account_ids (rd_args r) = []"
  shows "\<exists>increment lines accs. currency_rounding ad (rd_company_id r) cid = Inr increment
    \<and> move_lines ad (rd_company_id r)
        [clause ''move_id.state'' ''='' (FV_str ''posted''), clause ''date'' ''<='' (FV_date (ba_as_of_date (rd_args r))),
         clause ''account_id'' ''!='' (FV_bool False)] = Some (Inr lines)
    \<and> source_accounts ad (rd_company_id r) lines = Some (Inr accs)
    \<and> (plain_increment p increment \<and> list_all (\<lambda>l. whole_amount p increment (ml_balance l)) lines \<longrightarrow>
         (\<exists>items offset. sheet_rows accs lines items \<and> report_offset (rd_cursor r) = Inr offset
            \<and> rt_items rep = take (rd_limit r) (drop offset items) \<and> bs_account_count (rt_summary rep) = length items)
       \<and> dec_val (bs_total_assets (rt_summary rep)) = books accs (in_group G_asset) lines
       \<and> dec_val (bs_total_liabilities (rt_summary rep)) = - books accs (in_group G_liability) lines
       \<and> dec_val (bs_equity_account_balance (rt_summary rep)) = - books accs (in_group G_equity) lines
       \<and> dec_val (bs_unclosed_earnings (rt_summary rep)) = - books accs earning lines
       \<and> dec_val (bs_total_equity (rt_summary rep))
           = dec_val (bs_equity_account_balance (rt_summary rep)) + dec_val (bs_unclosed_earnings (rt_summary rep))
       \<and> dec_val (bs_total_assets (rt_summary rep))
           = dec_val (bs_total_liabilities (rt_summary rep)) + dec_val (bs_total_equity (rt_summary rep)))"
proof -
  from assms(1) obtain increment lines accs where inc: "currency_rounding ad (rd_company_id r) cid = Inr increment"
    and lines: "move_lines ad (rd_company_id r)
        [clause ''move_id.state'' ''='' (FV_str ''posted''), clause ''date'' ''<='' (FV_date (ba_as_of_date (rd_args r))),
         clause ''account_id'' ''!='' (FV_bool False)] = Some (Inr lines)"
    and accs: "source_accounts ad (rd_company_id r) lines = Some (Inr accs)"
    and rep: "balance_report r name rid increment lines accs = Inr rep"
    by (auto simp: get_balance_sheet_def Let_def obind_Some_Inr)
  note len = move_lines_bounded [OF lines]
  define v where "v = fold put_line lines []"
  from rep obtain found raw where found: "efold (sheet_account accs increment) v ([], dzero) = Inr (found, raw)"
    by (auto simp: balance_report_def assms(2) Let_def post_all v_def)
  define items where "items = sort_key (\<lambda>x. (balance_rank (bi_group x), casefold (bi_code x), bi_account_id x)) found"
  from rep obtain s where s: "balance_summary_of items raw increment = Inr s" and ok: "bs_is_balanced s"
    and resp: "respond r rid (ba_as_of_date (rd_args r)) (balance_artifact r name rid s) s items = Inr rep"
    by (auto simp: balance_report_def assms(2) Let_def post_all v_def [symmetric] found items_def [symmetric] split: if_splits)
  from respond_Inr [OF resp] obtain offset where page: "report_offset (rd_cursor r) = Inr offset"
    "rt_items rep = take (rd_limit r) (drop offset items)" "rt_summary rep = s" .
  have count: "bs_account_count s = length items" using s by (auto simp: balance_summary_of_def Let_def)
  note exact = sheet_exact [OF found [unfolded v_def] items_def s ok len]
  from inc lines accs page count exact show ?thesis by blast
qed

end
