(* ===== verification/Aging.thy ===== *)
theory Aging
  imports ReportLoops
begin

text \<open>
  The aged receivables and payables of \<open>workflows/accounting/reports.py\<close>: the residual of a line as of a date
  (its present residual with the later reconciliations undone), grouped by partner into buckets by the days
  overdue.
\<close>

record aging_args =
  ag_as_of_date :: int
  ag_partner_ids :: "int list"

record aging_buckets =
  bu_not_yet_due :: decimal
  bu_days_1_30 :: decimal
  bu_days_31_60 :: decimal
  bu_days_61_90 :: decimal
  bu_days_90_plus :: decimal

record aging_item =
  gi_partner_id :: int
  gi_partner_name :: string
  gi_residual_total :: decimal
  gi_buckets :: aging_buckets
  gi_oldest_due_date :: int

record aging_summary =
  gs_partner_count :: nat
  gs_residual_total :: decimal
  gs_buckets :: aging_buckets

definition empty_buckets :: aging_buckets where
  "empty_buckets = \<lparr>bu_not_yet_due = dzero, bu_days_1_30 = dzero, bu_days_31_60 = dzero, bu_days_61_90 = dzero,
     bu_days_90_plus = dzero\<rparr>"

datatype bucket_name = Not_yet_due | Days_1_30 | Days_31_60 | Days_61_90 | Days_90_plus

text \<open>\<open>_bucket\<close>.\<close>

definition bucket_of :: "int \<Rightarrow> int \<Rightarrow> bucket_name" where
  "bucket_of due_date as_of_date =
    (let overdue = as_of_date - due_date in
     if overdue \<le> 0 then Not_yet_due
     else if overdue \<le> 30 then Days_1_30
     else if overdue \<le> 60 then Days_31_60
     else if overdue \<le> 90 then Days_61_90
     else Days_90_plus)"

fun get_bucket :: "bucket_name \<Rightarrow> aging_buckets \<Rightarrow> decimal" where
  "get_bucket Not_yet_due b = bu_not_yet_due b"
| "get_bucket Days_1_30 b = bu_days_1_30 b"
| "get_bucket Days_31_60 b = bu_days_31_60 b"
| "get_bucket Days_61_90 b = bu_days_61_90 b"
| "get_bucket Days_90_plus b = bu_days_90_plus b"

fun add_bucket :: "bucket_name \<Rightarrow> decimal \<Rightarrow> aging_buckets \<Rightarrow> aging_buckets" where
  "add_bucket Not_yet_due d b = b\<lparr>bu_not_yet_due := dadd (bu_not_yet_due b) d\<rparr>"
| "add_bucket Days_1_30 d b = b\<lparr>bu_days_1_30 := dadd (bu_days_1_30 b) d\<rparr>"
| "add_bucket Days_31_60 d b = b\<lparr>bu_days_31_60 := dadd (bu_days_31_60 b) d\<rparr>"
| "add_bucket Days_61_90 d b = b\<lparr>bu_days_61_90 := dadd (bu_days_61_90 b) d\<rparr>"
| "add_bucket Days_90_plus d b = b\<lparr>bu_days_90_plus := dadd (bu_days_90_plus b) d\<rparr>"

section \<open>Residuals as of a date\<close>

text \<open>The dictionary of residuals; the last of several lines with one identifier counts.\<close>

definition present_residuals :: "move_line list \<Rightarrow> int \<Rightarrow> decimal option" where
  "present_residuals lines = fold (\<lambda>l m. m(ml_id l \<mapsto> ml_residual l)) lines (\<lambda>_. None)"

definition undo_partial :: "partial_reconciliation \<Rightarrow> (int \<Rightarrow> decimal option) \<Rightarrow> int \<Rightarrow> decimal option" where
  "undo_partial q m =
    (let d = rr_id (pa_debit_move_line q); c = rr_id (pa_credit_move_line q);
         m' = (case m d of None \<Rightarrow> m | Some x \<Rightarrow> m(d \<mapsto> dadd x (pa_amount q)))
     in case m' c of None \<Rightarrow> m' | Some x \<Rightarrow> m'(c \<mapsto> dsub x (pa_amount q)))"

definition residuals_as_of :: "move_line list \<Rightarrow> partial_reconciliation list \<Rightarrow> int \<Rightarrow> decimal option" where
  "residuals_as_of lines ps = fold undo_partial ps (present_residuals lines)"

section \<open>Partners\<close>

text \<open>\<open>_AgingAccumulator\<close>; the dictionary of the partners in insertion order.\<close>

record aging_accumulator =
  gc_name :: string
  gc_total :: decimal
  gc_buckets :: aging_buckets
  gc_oldest :: int

type_synonym aging_groups = "(int \<times> aging_accumulator) list"

definition due_date :: "move_line \<Rightarrow> int" where
  "due_date l = (case ml_maturity_date l of None \<Rightarrow> ml_date l | Some d \<Rightarrow> d)"

definition age_into :: "int \<Rightarrow> int \<Rightarrow> decimal \<Rightarrow> aging_accumulator \<Rightarrow> aging_accumulator" where
  "age_into as_of due residual a =
    a\<lparr>gc_total := dadd (gc_total a) residual,
      gc_buckets := add_bucket (bucket_of due as_of) residual (gc_buckets a),
      gc_oldest := min (gc_oldest a) due\<rparr>"

definition inconsistent_partner :: wf_error where
  "inconsistent_partner = Mcp (mk_error ODOO_API_ERROR ''Odoo returned inconsistent partner data.''
     ''Check Odoo data integrity and retry.'')"

fun age_partner :: "int \<Rightarrow> related \<Rightarrow> int \<Rightarrow> decimal \<Rightarrow> aging_groups \<Rightarrow> aging_groups wf" where
  "age_partner as_of partner due residual [] =
     Inr [(rr_id partner, age_into as_of due residual
       \<lparr>gc_name = rr_name partner, gc_total = dzero, gc_buckets = empty_buckets, gc_oldest = due\<rparr>)]"
| "age_partner as_of partner due residual ((i, a) # g) =
     (if i = rr_id partner then
        if gc_name a \<noteq> rr_name partner then Inl inconsistent_partner
        else Inr ((i, age_into as_of due residual a) # g)
      else ebind (age_partner as_of partner due residual g) (\<lambda>g'. Inr ((i, a) # g')))"

definition age_line ::
    "int \<Rightarrow> (int \<Rightarrow> decimal option) \<Rightarrow> move_line \<Rightarrow> aging_groups \<Rightarrow> aging_groups wf" where
  "age_line as_of residuals l g =
    (case residuals (ml_id l) of
       None \<Rightarrow> Inl Key_error
     | Some residual \<Rightarrow>
        if deq residual dzero then Inr g
        else (case ml_partner l of
            None \<Rightarrow> Inl (Mcp (mk_error ODOO_API_ERROR ''Odoo returned an unassigned aging line.''
                   ''Assign a partner to the receivable or payable line and retry.''))
          | Some partner \<Rightarrow> age_partner as_of partner (due_date l) residual g))"

definition aging_item_of :: "int \<times> aging_accumulator \<Rightarrow> aging_item" where
  "aging_item_of q =
    \<lparr>gi_partner_id = fst q, gi_partner_name = gc_name (snd q), gi_residual_total = gc_total (snd q),
     gi_buckets = gc_buckets (snd q), gi_oldest_due_date = gc_oldest (snd q)\<rparr>"

definition add_buckets :: "aging_item \<Rightarrow> aging_buckets \<Rightarrow> aging_buckets" where
  "add_buckets x b =
    \<lparr>bu_not_yet_due = dadd (bu_not_yet_due b) (bu_not_yet_due (gi_buckets x)),
     bu_days_1_30 = dadd (bu_days_1_30 b) (bu_days_1_30 (gi_buckets x)),
     bu_days_31_60 = dadd (bu_days_31_60 b) (bu_days_31_60 (gi_buckets x)),
     bu_days_61_90 = dadd (bu_days_61_90 b) (bu_days_61_90 (gi_buckets x)),
     bu_days_90_plus = dadd (bu_days_90_plus b) (bu_days_90_plus (gi_buckets x))\<rparr>"

definition aging_summary_of :: "aging_item list \<Rightarrow> aging_summary" where
  "aging_summary_of xs =
    \<lparr>gs_partner_count = length xs, gs_residual_total = dsum (map gi_residual_total xs),
     gs_buckets = fold add_buckets xs empty_buckets\<rparr>"

section \<open>The report\<close>

definition aging_artifact ::
    "string \<Rightarrow> aging_args read_input \<Rightarrow> string \<Rightarrow> string \<Rightarrow> aging_summary \<Rightarrow> nat \<Rightarrow> aging_item list \<Rightarrow> bool \<Rightarrow> string" where
  "aging_artifact title r company_name request_id summary offset items continued =
    join newline
     ([''# '' @ title, [],
       ''- As of: '' @ isoformat (ag_as_of_date (rd_args r)),
       ''- Company: '' @ markdown company_name @ '' ('' @ int_text (rd_company_id r) @ '')'',
       ''- Audit reference: `'' @ request_id @ ''`'']
      @ page_lines offset (length items) (gs_partner_count summary) continued
      @ [[], ''| Partner | Total | Not yet due | 1-30 | 31-60 | 61-90 | 90+ | Oldest due |'',
         ''|---|---:|---:|---:|---:|---:|---:|---|'']
      @ map (\<lambda>x. ''| '' @ markdown (gi_partner_name x) @ '' | '' @ dec_text (gi_residual_total x) @ '' | ''
          @ dec_text (bu_not_yet_due (gi_buckets x)) @ '' | '' @ dec_text (bu_days_1_30 (gi_buckets x)) @ '' | ''
          @ dec_text (bu_days_31_60 (gi_buckets x)) @ '' | '' @ dec_text (bu_days_61_90 (gi_buckets x)) @ '' | ''
          @ dec_text (bu_days_90_plus (gi_buckets x)) @ '' | '' @ isoformat (gi_oldest_due_date x) @ '' |'') items
      @ [[], ''Whole-report total residual: '' @ dec_text (gs_residual_total summary) @ ''.''])"

definition aging_filters :: "aging_args \<Rightarrow> bool \<Rightarrow> filter_clause list" where
  "aging_filters a payable =
    [clause ''move_id.state'' ''='' (FV_str ''posted''), clause ''date'' ''<='' (FV_date (ag_as_of_date a)),
     clause ''account_id.account_type'' ''='' (FV_str (if payable then ''liability_payable'' else ''asset_receivable''))]
    @ (if ag_partner_ids a \<noteq> [] then [clause ''partner_id'' ''in'' (FV_ids (ag_partner_ids a))] else [])"

definition aging_items :: "int \<Rightarrow> move_line list \<Rightarrow> partial_reconciliation list \<Rightarrow> aging_item list wf" where
  "aging_items as_of lines ps =
    ebind (efold (age_line as_of (residuals_as_of lines ps)) lines []) (\<lambda>grouped.
    Inr (sort_key (\<lambda>x. (casefold (gi_partner_name x), gi_partner_id x)) (map aging_item_of grouped)))"

definition get_aged_balance ::
    "adapter \<Rightarrow> aging_args read_input \<Rightarrow> string \<Rightarrow> string \<Rightarrow> bool \<Rightarrow> (int, aging_item, aging_summary) report wf option" where
  "get_aged_balance ad r company_name request_id payable =
    (let a = rd_args r; company = rd_company_id r in
     obind (move_lines ad company (aging_filters a payable)) (\<lambda>lines.
     obind (partials ad company [clause ''max_date'' ''>'' (FV_date (ag_as_of_date a))]) (\<lambda>ps.
     obind (olift (aging_items (ag_as_of_date a) lines ps)) (\<lambda>all_items.
     let summary = aging_summary_of all_items in
     olift (respond r request_id (ag_as_of_date a)
       (aging_artifact (if payable then ''Aged Payables'' else ''Aged Receivables'') r company_name request_id summary)
       summary all_items)))))"

lemma get_aged_balance_ends: "get_aged_balance ad r name rid payable \<noteq> None"
  unfolding get_aged_balance_def Let_def by (intro ends)

end
