(* ===== verification/AgingProps.thy ===== *)
theory AgingProps
  imports Aging TrialProps
begin

text \<open>
  The aged balance against its specification: a partner's bucket is the sum of the residuals, as of the date,
  of the partner's lines that are due in the bucket.
\<close>

section \<open>One line\<close>

definition partner_of :: "move_line \<Rightarrow> int option" where
  "partner_of l = map_option rr_id (ml_partner l)"

lemma get_add_bucket: "get_bucket b (add_bucket b' d k) = (if b = b' then dadd (get_bucket b k) d else get_bucket b k)"
  by (cases b; cases b') simp_all

lemma get_empty_bucket [simp]: "get_bucket b empty_buckets = dzero"
  by (cases b) (simp_all add: empty_buckets_def)

definition new_partner :: "related \<Rightarrow> int \<Rightarrow> aging_accumulator" where
  "new_partner partner due = \<lparr>gc_name = rr_name partner, gc_total = dzero, gc_buckets = empty_buckets, gc_oldest = due\<rparr>"

lemma age_partner_keys:
  assumes "age_partner as_of partner due residual g = Inr g'" "distinct (map fst g)"
  shows "distinct (map fst g') \<and> set (map fst g') = insert (rr_id partner) (set (map fst g))"
  using assms
proof (induction g arbitrary: g')
  case (Cons q g)
  obtain i a where q: "q = (i, a)" by (cases q)
  show ?case
  proof (cases "i = rr_id partner")
    case True
    with Cons.prems q show ?thesis by (auto split: if_splits)
  next
    case False
    with Cons.prems q obtain h where "age_partner as_of partner due residual g = Inr h" "g' = (i, a) # h" by auto
    with Cons.IH [OF this(1)] Cons.prems(2) q False show ?thesis by auto
  qed
qed simp

lemma age_partner_lookup:
  assumes "age_partner as_of partner due residual g = Inr g'"
  shows "map_of g' = (map_of g)(rr_id partner \<mapsto> age_into as_of due residual
    (case map_of g (rr_id partner) of None \<Rightarrow> new_partner partner due | Some a \<Rightarrow> a))"
  using assms
proof (induction g arbitrary: g')
  case (Cons q g)
  obtain i a where q: "q = (i, a)" by (cases q)
  show ?case
  proof (cases "i = rr_id partner")
    case True
    with Cons.prems q show ?thesis by (auto split: if_splits)
  next
    case False
    with Cons.prems q obtain h where "age_partner as_of partner due residual g = Inr h" "g' = (i, a) # h" by auto
    with Cons.IH [OF this(1)] q False show ?thesis by (auto simp: fun_upd_twist)
  qed
qed (simp add: new_partner_def)

section \<open>The specification\<close>

text \<open>Sums and numbers over the lines of a partner.\<close>

definition owed :: "(move_line \<Rightarrow> rat) \<Rightarrow> (move_line \<Rightarrow> bool) \<Rightarrow> int \<Rightarrow> move_line list \<Rightarrow> rat" where
  "owed v P i lines = (\<Sum>l\<leftarrow>lines. if partner_of l = Some i \<and> P l then v l else 0)"

definition line_count :: "int \<Rightarrow> move_line list \<Rightarrow> nat" where
  "line_count i lines = length (filter (\<lambda>l. partner_of l = Some i) lines)"

definition in_bucket :: "int \<Rightarrow> bucket_name \<Rightarrow> move_line \<Rightarrow> bool" where
  "in_bucket as_of b l \<longleftrightarrow> bucket_of (due_date l) as_of = b"

definition exact_acc ::
    "nat \<Rightarrow> int \<Rightarrow> (move_line \<Rightarrow> rat) \<Rightarrow> move_line list \<Rightarrow> int \<Rightarrow> aging_accumulator \<Rightarrow> bool" where
  "exact_acc p as_of v lines i a \<longleftrightarrow>
    dec_val (gc_total a) = owed v (\<lambda>_. True) i lines \<and> fits p (line_count i lines * amount_unit) (gc_total a)
    \<and> (\<forall>b. dec_val (get_bucket b (gc_buckets a)) = owed v (in_bucket as_of b) i lines
         \<and> fits p (line_count i lines * amount_unit) (get_bucket b (gc_buckets a)))"

lemma owed_step: "owed v P i (lines @ [l]) = owed v P i lines + (if partner_of l = Some i \<and> P l then v l else 0)"
  by (simp add: owed_def)

lemma line_count_step: "line_count i (lines @ [l]) = line_count i lines + (if partner_of l = Some i then 1 else 0)"
  by (simp add: line_count_def)

lemma line_count_le: "line_count i lines \<le> length lines"
  by (simp add: line_count_def)

lemma unit_room: "n \<le> max_source_records \<Longrightarrow> n * amount_unit < room"
  using mult_right_mono [of n max_source_records amount_unit] by (simp add: max_source_records_def amount_unit_def room_def)

lemma exact_age_into:
  assumes "exact_acc p as_of v lines i a" "partner_of l = Some i" "v l = dec_val residual"
    "fits p amount_unit residual" "length lines < max_source_records"
  shows "exact_acc p as_of v (lines @ [l]) i (age_into as_of (due_date l) residual a)"
proof -
  let ?n = "line_count i lines * amount_unit"
  have "Suc (line_count i lines) * amount_unit < room"
    by (rule unit_room) (use line_count_le [of i lines] assms(5) in simp)
  then have n: "?n + amount_unit < room" by simp
  have count: "line_count i (lines @ [l]) * amount_unit = ?n + amount_unit" using assms(2) by (simp add: line_count_step)
  have add: "dec_val (dadd x residual) = dec_val x + v l \<and> fits p (?n + amount_unit) (dadd x residual)"
    if "fits p ?n x" for x using fits_add [OF that assms(4) n] assms(3) by simp
  have keep: "fits p (?n + amount_unit) x" if "fits p ?n x" for x by (rule fits_mono [OF that]) simp
  show ?thesis
    unfolding exact_acc_def count owed_step
    using assms(1,2) add keep by (auto simp: exact_acc_def age_into_def get_add_bucket in_bucket_def)
qed

text \<open>What the groups say of the lines read so far.\<close>

definition aged_so_far ::
    "nat \<Rightarrow> int \<Rightarrow> (move_line \<Rightarrow> rat) \<Rightarrow> move_line list \<Rightarrow> aging_groups \<Rightarrow> bool" where
  "aged_so_far p as_of v lines g \<longleftrightarrow> distinct (map fst g)
    \<and> (\<forall>i a. map_of g i = Some a \<longrightarrow> exact_acc p as_of v lines i a)
    \<and> (\<forall>l \<in> set lines. v l \<noteq> 0 \<longrightarrow> (\<exists>i \<in> set (map fst g). partner_of l = Some i))"

lemma owed_none: "\<forall>l \<in> set lines. partner_of l = Some i \<longrightarrow> v l = 0 \<Longrightarrow> owed v P i lines = 0"
  unfolding owed_def by (induction lines) auto

lemma exact_new:
  assumes "aged_so_far p as_of v lines g" "map_of g i = None"
  shows "exact_acc p as_of v lines i (new_partner partner due)"
proof -
  have "i \<notin> set (map fst g)" using assms(2) by (simp add: map_of_eq_None_iff)
  then have "\<forall>l \<in> set lines. partner_of l = Some i \<longrightarrow> v l = 0"
    using assms(1) unfolding aged_so_far_def by (metis option.inject)
  from owed_none [OF this] show ?thesis by (simp add: exact_acc_def new_partner_def)
qed

lemma exact_other:
  assumes "exact_acc p as_of v lines j a" "partner_of l \<noteq> Some j \<or> v l = 0"
  shows "exact_acc p as_of v (lines @ [l]) j a"
proof -
  have "fits p (line_count j (lines @ [l]) * amount_unit) x" if "fits p (line_count j lines * amount_unit) x" for x
    by (rule fits_mono [OF that]) (simp add: line_count_step)
  with assms show ?thesis by (auto simp: exact_acc_def owed_step)
qed

lemma age_line_step:
  assumes step: "age_line as_of res l g = Inr g'" and inv: "aged_so_far p as_of v lines g"
    and v: "v l = dec_val (the (res (ml_id l)))" and fit: "fits p amount_unit (the (res (ml_id l)))"
    and len: "length lines < max_source_records"
  shows "aged_so_far p as_of v (lines @ [l]) g'"
proof -
  from step obtain residual where r: "res (ml_id l) = Some residual" by (auto simp: age_line_def split: option.splits)
  show ?thesis
  proof (cases "deq residual dzero")
    case True
    with step r have "g' = g" by (simp add: age_line_def)
    moreover have "v l = 0" using True r v by (simp add: deq_val)
    ultimately show ?thesis using inv by (auto simp: aged_so_far_def intro: exact_other)
  next
    case False
    with step r obtain partner where p: "ml_partner l = Some partner"
      and g': "age_partner as_of partner (due_date l) residual g = Inr g'"
      by (auto simp: age_line_def split: option.splits)
    define i where "i = rr_id partner"
    have pid: "partner_of l = Some i" by (simp add: partner_of_def p i_def)
    have d: "distinct (map fst g)" using inv by (simp add: aged_so_far_def)
    note keys = age_partner_keys [OF g' d, folded i_def] and look = age_partner_lookup [OF g', folded i_def]
    let ?old = "case map_of g i of None \<Rightarrow> new_partner partner (due_date l) | Some a \<Rightarrow> a"
    have "exact_acc p as_of v lines i ?old"
      using exact_new [OF inv, of i partner "due_date l"] inv by (auto simp: aged_so_far_def split: option.splits)
    then have new: "exact_acc p as_of v (lines @ [l]) i (age_into as_of (due_date l) residual ?old)"
      by (rule exact_age_into) (use pid v r fit len in simp_all)
    have other: "exact_acc p as_of v (lines @ [l]) j a" if "j \<noteq> i" "map_of g j = Some a" for j a
      by (rule exact_other) (use inv that pid in \<open>auto simp: aged_so_far_def\<close>)
    show ?thesis
      unfolding aged_so_far_def
    proof (intro conjI allI impI ballI)
      show "distinct (map fst g')" using keys by simp
    next
      fix j a
      assume "map_of g' j = Some a"
      then show "exact_acc p as_of v (lines @ [l]) j a"
        using new other by (cases "j = i") (simp_all add: look)
    next
      fix k
      assume "k \<in> set (lines @ [l])" "v k \<noteq> 0"
      then show "\<exists>j \<in> set (map fst g'). partner_of k = Some j"
        using keys inv pid by (auto simp: aged_so_far_def)
    qed
  qed
qed

lemma aged_all:
  assumes "efold (age_line as_of res) lines g = Inr g'" "aged_so_far p as_of v before g"
    "list_all (\<lambda>l. v l = dec_val (the (res (ml_id l))) \<and> fits p amount_unit (the (res (ml_id l)))) lines"
    "length before + length lines \<le> max_source_records"
  shows "aged_so_far p as_of v (before @ lines) g'"
  using assms
proof (induction lines arbitrary: before g)
  case (Cons l lines)
  from Cons.prems(1) obtain g1 where g1: "age_line as_of res l g = Inr g1" "efold (age_line as_of res) lines g1 = Inr g'"
    by auto
  have "aged_so_far p as_of v (before @ [l]) g1"
    by (rule age_line_step [OF g1(1) Cons.prems(2)]) (use Cons.prems(3,4) in simp_all)
  from Cons.IH [OF g1(2) this] Cons.prems(3,4) show ?case by simp
qed simp

section \<open>Residuals as of the date\<close>

definition debited :: "int \<Rightarrow> partial_reconciliation list \<Rightarrow> rat" where
  "debited i ps = (\<Sum>q\<leftarrow>ps. if rr_id (pa_debit_move_line q) = i then dec_val (pa_amount q) else 0)"

definition credited :: "int \<Rightarrow> partial_reconciliation list \<Rightarrow> rat" where
  "credited i ps = (\<Sum>q\<leftarrow>ps. if rr_id (pa_credit_move_line q) = i then dec_val (pa_amount q) else 0)"

text \<open>The residual of a line before the later reconciliations.\<close>

definition residual_then :: "partial_reconciliation list \<Rightarrow> move_line \<Rightarrow> rat" where
  "residual_then ps l = dec_val (ml_residual l) + debited (ml_id l) ps - credited (ml_id l) ps"

text \<open>The same with any amounts for the two sides: a residual in another currency is undone alike.\<close>

definition side_sum :: "(partial_reconciliation \<Rightarrow> related) \<Rightarrow> (partial_reconciliation \<Rightarrow> decimal) \<Rightarrow> int \<Rightarrow>
    partial_reconciliation list \<Rightarrow> rat" where
  "side_sum side amount i ps = (\<Sum>q\<leftarrow>ps. if rr_id (side q) = i then dec_val (amount q) else 0)"

definition undo_amounts :: "(partial_reconciliation \<Rightarrow> decimal) \<Rightarrow> (partial_reconciliation \<Rightarrow> decimal) \<Rightarrow>
    partial_reconciliation \<Rightarrow> (int \<Rightarrow> decimal option) \<Rightarrow> int \<Rightarrow> decimal option" where
  "undo_amounts da ca q m =
    (let d = rr_id (pa_debit_move_line q); c = rr_id (pa_credit_move_line q);
         m' = (case m d of None \<Rightarrow> m | Some x \<Rightarrow> m(d \<mapsto> dadd x (da q)))
     in case m' c of None \<Rightarrow> m' | Some x \<Rightarrow> m'(c \<mapsto> dsub x (ca q)))"

lemma undo_amounts_at:
  assumes "m i = Some x" "fits p n x" "fits p amount_unit (da q)" "fits p amount_unit (ca q)" "n + 2 * amount_unit < room"
  shows "\<exists>y. undo_amounts da ca q m i = Some y \<and> fits p (n + 2 * amount_unit) y
    \<and> dec_val y = dec_val x + side_sum pa_debit_move_line da i [q] - side_sum pa_credit_move_line ca i [q]"
proof -
  define y where "y = (if rr_id (pa_debit_move_line q) = i then dadd x (da q) else x)"
  have y: "fits p (n + amount_unit) y" "dec_val y = dec_val x + side_sum pa_debit_move_line da i [q]"
    using fits_add [OF assms(2,3)] fits_mono [OF assms(2), of "n + amount_unit"] assms(5)
    by (auto simp: y_def side_sum_def)
  define z where "z = (if rr_id (pa_credit_move_line q) = i then dsub y (ca q) else y)"
  have z: "fits p (n + 2 * amount_unit) z" "dec_val z = dec_val y - side_sum pa_credit_move_line ca i [q]"
    using fits_sub [OF y(1) assms(4)] fits_mono [OF y(1), of "n + 2 * amount_unit"] assms(5)
    by (auto simp: z_def side_sum_def add.assoc mult_2)
  have "undo_amounts da ca q m i = Some z"
    using assms(1) by (auto simp: undo_amounts_def Let_def y_def z_def split: option.splits)
  with y z show ?thesis by auto
qed

lemma undo_all_at:
  assumes "m i = Some x" "fits p n x" "list_all (\<lambda>q. fits p amount_unit (da q) \<and> fits p amount_unit (ca q)) ps"
    "n + length ps * (2 * amount_unit) < room"
  shows "\<exists>y. fold (undo_amounts da ca) ps m i = Some y \<and> fits p (n + length ps * (2 * amount_unit)) y
    \<and> dec_val y = dec_val x + side_sum pa_debit_move_line da i ps - side_sum pa_credit_move_line ca i ps"
  using assms
proof (induction ps arbitrary: m x n)
  case (Cons q ps)
  have "\<exists>y. undo_amounts da ca q m i = Some y \<and> fits p (n + 2 * amount_unit) y
      \<and> dec_val y = dec_val x + side_sum pa_debit_move_line da i [q] - side_sum pa_credit_move_line ca i [q]"
    by (rule undo_amounts_at [where x = x]) (use Cons.prems in simp_all)
  then obtain y where y: "undo_amounts da ca q m i = Some y" "fits p (n + 2 * amount_unit) y"
    "dec_val y = dec_val x + side_sum pa_debit_move_line da i [q] - side_sum pa_credit_move_line ca i [q]" by (elim exE conjE)
  from Cons.IH [where m = "undo_amounts da ca q m" and x = y and n = "n + 2 * amount_unit", OF y(1,2)] Cons.prems(3,4)
  obtain z where "fold (undo_amounts da ca) ps (undo_amounts da ca q m) i = Some z"
    "fits p (n + length (q # ps) * (2 * amount_unit)) z"
    "dec_val z = dec_val y + side_sum pa_debit_move_line da i ps - side_sum pa_credit_move_line ca i ps"
    by (auto simp: add.assoc)
  with y(3) show ?case by (simp add: side_sum_def)
qed (simp add: side_sum_def)

lemma residual_map_at:
  assumes "distinct (map ml_id lines)" "l \<in> set lines"
  shows "fold (\<lambda>l m. m(ml_id l \<mapsto> f l)) lines m (ml_id l) = Some (f l)"
proof -
  have other: "fold (\<lambda>l m. m(ml_id l \<mapsto> f l)) ls m i = m i" if "i \<notin> ml_id ` set ls" for ls m i
    using that by (induction ls arbitrary: m) auto
  show ?thesis using assms by (induction lines arbitrary: m) (auto simp: other)
qed

lemma undone_exact:
  assumes "distinct (map ml_id lines)" "l \<in> set lines" "fits p amount_unit (f l)"
    "list_all (\<lambda>q. fits p amount_unit (da q) \<and> fits p amount_unit (ca q)) ps" "length ps \<le> max_source_records"
  defines "m \<equiv> fold (\<lambda>l m. m(ml_id l \<mapsto> f l)) lines (\<lambda>_. None)"
  shows "dec_val (the (fold (undo_amounts da ca) ps m (ml_id l)))
      = dec_val (f l) + side_sum pa_debit_move_line da (ml_id l) ps - side_sum pa_credit_move_line ca (ml_id l) ps"
    "on_grid p (the (fold (undo_amounts da ca) ps m (ml_id l)))"
proof -
  have "amount_unit + length ps * (2 * amount_unit) < room"
    using mult_right_mono [OF assms(5), of "2 * amount_unit"] by (simp add: max_source_records_def amount_unit_def room_def)
  from undo_all_at [where m = m and i = "ml_id l" and da = da and ca = ca, OF _ assms(3,4) this]
    residual_map_at [where f = f, OF assms(1,2)]
  show "dec_val (the (fold (undo_amounts da ca) ps m (ml_id l)))
      = dec_val (f l) + side_sum pa_debit_move_line da (ml_id l) ps - side_sum pa_credit_move_line ca (ml_id l) ps"
    "on_grid p (the (fold (undo_amounts da ca) ps m (ml_id l)))"
    by (auto simp: m_def fits_def)
qed

lemma residuals_exact:
  assumes "distinct (map ml_id lines)" "l \<in> set lines" "fits p amount_unit (ml_residual l)"
    "list_all (\<lambda>q. fits p amount_unit (pa_amount q)) ps" "length ps \<le> max_source_records"
  shows "dec_val (the (residuals_as_of lines ps (ml_id l))) = residual_then ps l"
    "on_grid p (the (residuals_as_of lines ps (ml_id l)))"
proof -
  have "undo_partial = undo_amounts pa_amount pa_amount" by (intro ext) (simp add: undo_partial_def undo_amounts_def)
  with undone_exact [where da = pa_amount and ca = pa_amount and f = ml_residual, OF assms(1-3) _ assms(5)] assms(4)
  show "dec_val (the (residuals_as_of lines ps (ml_id l))) = residual_then ps l"
    "on_grid p (the (residuals_as_of lines ps (ml_id l)))"
    by (simp_all add: residuals_as_of_def present_residuals_def residual_then_def debited_def credited_def side_sum_def)
qed

section \<open>The report\<close>

lemma get_add_buckets:
  "get_bucket b (fold add_buckets xs k) = foldl dadd (get_bucket b k) (map (\<lambda>x. get_bucket b (gi_buckets x)) xs)"
proof (induction xs arbitrary: k)
  case (Cons x xs)
  have "get_bucket b (add_buckets x k) = dadd (get_bucket b k) (get_bucket b (gi_buckets x))"
    by (cases b) (simp_all add: add_buckets_def)
  with Cons.IH [of "add_buckets x k"] show ?case by simp
qed simp

lemma owed_total:
  assumes "distinct ids" "\<forall>l \<in> set lines. v l \<noteq> 0 \<longrightarrow> (\<exists>i \<in> set ids. partner_of l = Some i)"
  shows "(\<Sum>i\<leftarrow>ids. owed v P i lines) = (\<Sum>l\<leftarrow>lines. if P l then v l else 0)"
  using assms(2)
proof (induction lines)
  case (Cons l lines)
  have "(\<Sum>i\<leftarrow>ids. if partner_of l = Some i \<and> P l then v l else 0) = (if P l then v l else 0)"
  proof (cases "v l = 0")
    case False
    with Cons.prems obtain j where j: "j \<in> set ids" "partner_of l = Some j" by auto
    then show ?thesis
      using sum_list_pick [OF assms(1) j(1), of "v l"] by (cases "P l") (simp_all add: sum_list_0)
  qed (simp add: sum_list_0 cong: if_cong)
  with Cons.IH Cons.prems show ?case by (simp add: owed_def sum_list_addf)
qed (simp add: owed_def sum_list_0)

lemma line_count_total: "distinct ids \<Longrightarrow> (\<Sum>i\<leftarrow>ids. line_count i lines) \<le> length lines"
proof (induction lines)
  case (Cons l lines)
  have "(\<Sum>i\<leftarrow>ids. if partner_of l = Some i then 1 else (0 :: nat)) \<le> 1"
  proof (cases "partner_of l")
    case (Some j)
    have "(\<Sum>i\<leftarrow>ids. if j = i then 1 else (0 :: nat)) = (if j \<in> set ids then 1 else 0)"
      by (cases "j \<in> set ids") (simp_all only: sum_list_pick [OF Cons.prems] sum_list_pick_none if_True if_False simp_thms)
    with Some show ?thesis by simp
  qed (simp add: sum_list_0)
  moreover have "line_count i (l # lines) = (if partner_of l = Some i then 1 else 0) + line_count i lines" for i
    by (simp add: line_count_def)
  ultimately show ?case using Cons by (simp add: sum_list_addf)
qed (simp add: line_count_def sum_list_0)

text \<open>A column of the report summed over all rows.\<close>

lemma aged_column:
  assumes "distinct (map gi_partner_id items)" "length lines \<le> max_source_records"
    "\<forall>l \<in> set lines. v l \<noteq> 0 \<longrightarrow> (\<exists>i \<in> set (map gi_partner_id items). partner_of l = Some i)"
    "list_all (\<lambda>x. fits p (line_count (gi_partner_id x) lines * amount_unit) (g x)) items"
    "list_all (\<lambda>x. dec_val (g x) = owed v P (gi_partner_id x) lines) items"
  shows "dec_val (dsum (map g items)) = (\<Sum>l\<leftarrow>lines. if P l then v l else 0)"
proof -
  have "(\<Sum>x\<leftarrow>items. line_count (gi_partner_id x) lines * amount_unit)
      = (\<Sum>i\<leftarrow>map gi_partner_id items. line_count i lines) * amount_unit"
    by (simp add: sum_list_mult_const comp_def)
  also have "\<dots> < room"
    by (rule unit_room) (rule le_trans [OF line_count_total [OF assms(1)] assms(2)])
  finally have "dec_val (dsum (map g items)) = (\<Sum>x\<leftarrow>items. dec_val (g x))" by (rule fits_sum(1) [OF assms(4)])
  also have "\<dots> = (\<Sum>i\<leftarrow>map gi_partner_id items. owed v P i lines)"
    using assms(5) by (simp add: comp_def list_all_iff cong: map_cong)
  also have "\<dots> = (\<Sum>l\<leftarrow>lines. if P l then v l else 0)" by (rule owed_total [OF assms(1,3)])
  finally show ?thesis .
qed

lemma aging_items_exact:
  assumes "aging_items as_of lines ps = Inr items" "length lines \<le> max_source_records"
    "list_all (\<lambda>l. v l = dec_val (the (residuals_as_of lines ps (ml_id l)))
      \<and> fits p amount_unit (the (residuals_as_of lines ps (ml_id l)))) lines"
  shows "distinct (map gi_partner_id items)"
    "list_all (\<lambda>x. dec_val (gi_residual_total x) = owed v (\<lambda>_. True) (gi_partner_id x) lines
      \<and> (\<forall>b. dec_val (get_bucket b (gi_buckets x)) = owed v (in_bucket as_of b) (gi_partner_id x) lines)) items"
    "dec_val (gs_residual_total (aging_summary_of items)) = (\<Sum>l\<leftarrow>lines. v l)"
    "dec_val (get_bucket b (gs_buckets (aging_summary_of items))) = (\<Sum>l\<leftarrow>lines. if in_bucket as_of b l then v l else 0)"
proof -
  from assms(1) obtain g where g: "efold (age_line as_of (residuals_as_of lines ps)) lines [] = Inr g"
    and items: "items = sort_key (\<lambda>x. (casefold (gi_partner_name x), gi_partner_id x)) (map aging_item_of g)"
    by (auto simp: aging_items_def)
  have "aged_so_far p as_of v [] []" by (simp add: aged_so_far_def)
  from aged_all [OF g this assms(3)] assms(2) have inv: "aged_so_far p as_of v lines g" by simp
  have m: "mset items = mset (map aging_item_of g)" by (simp add: items)
  have "image_mset gi_partner_id (mset items) = mset (map fst g)"
    unfolding m by (simp add: aging_item_of_def image_mset.compositionality comp_def)
  then have ids: "mset (map gi_partner_id items) = mset (map fst g)" by simp
  with inv show d: "distinct (map gi_partner_id items)" by (metis aged_so_far_def mset_eq_imp_distinct_iff)
  have "exact_acc p as_of v lines i a" if "(i, a) \<in> set g" for i a
    using inv that by (auto simp: aged_so_far_def)
  then have "list_all (\<lambda>x. exact_acc p as_of v lines (gi_partner_id x)
      \<lparr>gc_name = [], gc_total = gi_residual_total x, gc_buckets = gi_buckets x, gc_oldest = 0\<rparr>) items"
    unfolding mset_list_all [OF m] by (auto simp: list_all_iff aging_item_of_def exact_acc_def)
  then have all: "list_all (\<lambda>x. dec_val (gi_residual_total x) = owed v (\<lambda>_. True) (gi_partner_id x) lines
      \<and> fits p (line_count (gi_partner_id x) lines * amount_unit) (gi_residual_total x)
      \<and> (\<forall>b. dec_val (get_bucket b (gi_buckets x)) = owed v (in_bucket as_of b) (gi_partner_id x) lines
        \<and> fits p (line_count (gi_partner_id x) lines * amount_unit) (get_bucket b (gi_buckets x)))) items"
    by (simp add: list_all_iff exact_acc_def)
  then show "list_all (\<lambda>x. dec_val (gi_residual_total x) = owed v (\<lambda>_. True) (gi_partner_id x) lines
      \<and> (\<forall>b. dec_val (get_bucket b (gi_buckets x)) = owed v (in_bucket as_of b) (gi_partner_id x) lines)) items"
    by (simp add: list_all_iff)
  have listed: "\<forall>l \<in> set lines. v l \<noteq> 0 \<longrightarrow> (\<exists>i \<in> set (map gi_partner_id items). partner_of l = Some i)"
    using inv mset_eq_setD [OF ids] by (simp add: aged_so_far_def)
  note col = aged_column [OF d assms(2) listed]
  have "dec_val (dsum (map gi_residual_total items)) = (\<Sum>l\<leftarrow>lines. if True then v l else 0)"
    by (rule col [where p = p]) (use all in \<open>simp_all add: list_all_iff\<close>)
  then show "dec_val (gs_residual_total (aging_summary_of items)) = (\<Sum>l\<leftarrow>lines. v l)" by (simp add: aging_summary_of_def)
  have "dec_val (dsum (map (\<lambda>x. get_bucket b (gi_buckets x)) items)) = (\<Sum>l\<leftarrow>lines. if in_bucket as_of b l then v l else 0)"
    by (rule col [where p = p]) (use all in \<open>simp_all add: list_all_iff\<close>)
  then show "dec_val (get_bucket b (gs_buckets (aging_summary_of items))) = (\<Sum>l\<leftarrow>lines. if in_bucket as_of b l then v l else 0)"
    by (simp add: aging_summary_of_def get_add_buckets dsum_def)
qed

text \<open>The lines and partials of a report with p decimals and at most 22 digits, now and at the date.\<close>

definition plain_aging :: "nat \<Rightarrow> move_line list \<Rightarrow> partial_reconciliation list \<Rightarrow> bool" where
  "plain_aging p lines ps \<longleftrightarrow> distinct (map ml_id lines) \<and> length ps \<le> max_source_records
    \<and> list_all (\<lambda>q. fits p amount_unit (pa_amount q)) ps
    \<and> list_all (\<lambda>l. fits p amount_unit (ml_residual l) \<and> \<bar>residual_then ps l\<bar> * 10 ^ p \<le> of_nat amount_unit) lines"

lemma plain_aging_residuals:
  "plain_aging p lines ps \<Longrightarrow> list_all (\<lambda>l. residual_then ps l = dec_val (the (residuals_as_of lines ps (ml_id l)))
      \<and> fits p amount_unit (the (residuals_as_of lines ps (ml_id l)))) lines"
  using residuals_exact [of lines _ p ps] by (auto simp: plain_aging_def list_all_iff fits_def)

text \<open>C24 (the aged balance is what was open on the date). The residual of a line on the date is its present residual
  with the later reconciliations undone. A partner's bucket holds exactly the residuals of the partner's lines
  due in it, the total of the partner all of them, each partner is one row, and the summary covers all lines.\<close>

theorem aged_balance_is_exact:
  assumes "get_aged_balance ad r name rid payable = Some (Inr rep)"
  shows "\<exists>lines ps items offset. move_lines ad (rd_company_id r) (aging_filters (rd_args r) payable) = Some (Inr lines)
    \<and> partials ad (rd_company_id r) [clause ''max_date'' ''>'' (FV_date (ag_as_of_date (rd_args r)))] = Some (Inr ps)
    \<and> report_offset (rd_cursor r) = Inr offset \<and> rt_items rep = take (rd_limit r) (drop offset items)
    \<and> (plain_aging p lines ps \<longrightarrow> distinct (map gi_partner_id items)
       \<and> list_all (\<lambda>x. dec_val (gi_residual_total x) = owed (residual_then ps) (\<lambda>_. True) (gi_partner_id x) lines
           \<and> (\<forall>b. dec_val (get_bucket b (gi_buckets x))
                = owed (residual_then ps) (in_bucket (ag_as_of_date (rd_args r)) b) (gi_partner_id x) lines)) items
       \<and> dec_val (gs_residual_total (rt_summary rep)) = (\<Sum>l\<leftarrow>lines. residual_then ps l)
       \<and> (\<forall>b. dec_val (get_bucket b (gs_buckets (rt_summary rep)))
            = (\<Sum>l\<leftarrow>lines. if in_bucket (ag_as_of_date (rd_args r)) b l then residual_then ps l else 0)))"
proof -
  from assms obtain lines ps items where lines: "move_lines ad (rd_company_id r) (aging_filters (rd_args r) payable) = Some (Inr lines)"
    and ps: "partials ad (rd_company_id r) [clause ''max_date'' ''>'' (FV_date (ag_as_of_date (rd_args r)))] = Some (Inr ps)"
    and items: "aging_items (ag_as_of_date (rd_args r)) lines ps = Inr items"
    and resp: "respond r rid (ag_as_of_date (rd_args r)) (aging_artifact (if payable then ''Aged Payables'' else ''Aged Receivables'') r
       name rid (aging_summary_of items)) (aging_summary_of items) items = Inr rep"
    by (auto simp: get_aged_balance_def Let_def obind_Some_Inr)
  from respond_Inr [OF resp] obtain offset where page: "report_offset (rd_cursor r) = Inr offset"
    "rt_items rep = take (rd_limit r) (drop offset items)" "rt_summary rep = aging_summary_of items" .
  note exact = aging_items_exact [OF items move_lines_bounded [OF lines] plain_aging_residuals]
  show ?thesis
    by (rule exI [of _ lines], rule exI [of _ ps], rule exI [of _ items], rule exI [of _ offset])
      (use lines ps page exact in simp)
qed

end
