(* ===== verification/Cashbook.thy ===== *)
theory Cashbook
  imports TrialProps
begin

text \<open>
  The cashbook (\<open>workflows/accounting/cashbook.py\<close>): the posted lines of the cash and bank journals up to
  the end of the period, each with a balance that equals its debit less its credit, the opening balance
  before the period, the rows within it, and the closing balance.
\<close>

section \<open>Reading\<close>

definition cb_source_error :: "string \<Rightarrow> wf_error" where
  "cb_source_error message = Mcp (mk_error ODOO_API_ERROR message
     ''Check Odoo record access and accounting data, then retry.'')"

definition cash_journal_loop :: "adapter \<Rightarrow> int \<Rightarrow> journal strict_loop" where
  "cash_journal_loop ad company =
    \<lparr>lo_source = ad_journals ad company, lo_ident = jo_id,
     lo_accept = (\<lambda>x. jo_company_id x = company), lo_keep = (\<lambda>_. True),
     lo_oversized = cb_source_error ''Odoo returned an oversized cashbook journal page.'',
     lo_inconsistent = cb_source_error ''Odoo returned inconsistent cashbook journal data.'',
     lo_unbounded = cb_source_error ''The cashbook exceeds the safe processing bound.'',
     lo_bad_page = cb_source_error ''Odoo returned an invalid cashbook journal page.''\<rparr>"

definition consistent_line :: "int \<Rightarrow> move_line \<Rightarrow> bool" where
  "consistent_line company x \<longleftrightarrow> ml_company_id x = company \<and> \<not> dless (ml_debit x) dzero
    \<and> \<not> dless (ml_credit x) dzero \<and> deq (ml_balance x) (dsub (ml_debit x) (ml_credit x))"

definition cash_line_loop :: "adapter \<Rightarrow> int \<Rightarrow> filter_clause list \<Rightarrow> move_line strict_loop" where
  "cash_line_loop ad company filters =
    \<lparr>lo_source = ad_move_lines ad company filters, lo_ident = ml_id,
     lo_accept = consistent_line company, lo_keep = (\<lambda>_. True),
     lo_oversized = cb_source_error ''Odoo returned an oversized cashbook line page.'',
     lo_inconsistent = cb_source_error ''Odoo returned inconsistent cashbook line data.'',
     lo_unbounded = cb_source_error ''The cashbook exceeds the safe processing bound.'',
     lo_bad_page = cb_source_error ''Odoo returned an invalid cashbook line page.''\<rparr>"

section \<open>The report\<close>

record cashbook_args =
  ca_period_start :: int
  ca_period_end :: int
  ca_journal_ids :: "int list"
  ca_partner_ids :: "int list"

record cashbook_item =
  ci_line_id :: int
  ci_move_id :: int
  ci_journal_id :: int
  ci_journal_name :: string
  ci_date :: int
  ci_partner_id :: "int option"
  ci_partner_name :: "string option"
  ci_reference :: "string option"
  ci_currency_id :: "int option"
  ci_currency_name :: string
  ci_debit :: decimal
  ci_credit :: decimal
  ci_amount :: decimal

record cashbook_summary =
  cs_transaction_count :: nat
  cs_opening_balance :: decimal
  cs_total_debit :: decimal
  cs_total_credit :: decimal
  cs_closing_balance :: decimal

definition cash_filters :: "cashbook_args \<Rightarrow> int list \<Rightarrow> filter_clause list" where
  "cash_filters a journal_ids =
    [clause ''move_id.state'' ''='' (FV_str ''posted''), clause ''date'' ''<='' (FV_date (ca_period_end a)),
     clause ''journal_id'' ''in'' (FV_ids journal_ids), clause ''account_id.account_type'' ''='' (FV_str ''asset_cash'')]
    @ (if ca_partner_ids a \<noteq> [] then [clause ''partner_id'' ''in'' (FV_ids (ca_partner_ids a))] else [])"

definition wanted_line :: "cashbook_args \<Rightarrow> int list \<Rightarrow> move_line \<Rightarrow> bool" where
  "wanted_line a journal_ids l \<longleftrightarrow> rr_id (ml_journal l) \<in> set journal_ids \<and> ml_date l \<le> ca_period_end a
    \<and> (ca_partner_ids a = [] \<or> (case ml_partner l of None \<Rightarrow> False | Some q \<Rightarrow> rr_id q \<in> set (ca_partner_ids a)))"

definition cashbook_item_of :: "journal list \<Rightarrow> move_line \<Rightarrow> cashbook_item wf" where
  "cashbook_item_of journals l =
    (case find_journal journals (rr_id (ml_journal l)) of
       None \<Rightarrow> Inl Key_error
     | Some j \<Rightarrow> Inr \<lparr>ci_line_id = ml_id l, ci_move_id = rr_id (ml_move l), ci_journal_id = rr_id (ml_journal l),
         ci_journal_name = jo_name j, ci_date = ml_date l, ci_partner_id = map_option rr_id (ml_partner l),
         ci_partner_name = map_option rr_name (ml_partner l), ci_reference = ml_label l, ci_currency_id = None,
         ci_currency_name = ''Company currency'', ci_debit = ml_debit l, ci_credit = ml_credit l,
         ci_amount = ml_balance l\<rparr>)"

definition cashbook_items :: "cashbook_args \<Rightarrow> journal list \<Rightarrow> move_line list \<Rightarrow> cashbook_item list wf" where
  "cashbook_items a journals filtered =
    ebind (emap (cashbook_item_of journals) (filter (\<lambda>l. ca_period_start a \<le> ml_date l) filtered)) (\<lambda>found.
    Inr (sort_key (\<lambda>x. (ci_date x, ci_move_id x, ci_line_id x)) found))"

definition cashbook_summary_of :: "decimal \<Rightarrow> cashbook_item list \<Rightarrow> cashbook_summary" where
  "cashbook_summary_of opening xs =
    (let debit = dsum (map ci_debit xs); credit = dsum (map ci_credit xs) in
     \<lparr>cs_transaction_count = length xs, cs_opening_balance = opening, cs_total_debit = debit, cs_total_credit = credit,
      cs_closing_balance = dsub (dadd opening debit) credit\<rparr>)"

definition or_empty :: "string option \<Rightarrow> string" where
  "or_empty v = (case v of None \<Rightarrow> [] | Some t \<Rightarrow> t)"

definition cashbook_artifact ::
    "cashbook_args read_input \<Rightarrow> string \<Rightarrow> string \<Rightarrow> cashbook_summary \<Rightarrow> nat \<Rightarrow> cashbook_item list \<Rightarrow> bool \<Rightarrow> string" where
  "cashbook_artifact r company_name request_id summary offset items continued =
    join newline
     ([''# Cashbook'', [],
       ''- Period: '' @ isoformat (ca_period_start (rd_args r)) @ '' to '' @ isoformat (ca_period_end (rd_args r)),
       ''- Company: '' @ markdown company_name @ '' ('' @ int_text (rd_company_id r) @ '')'',
       ''- Audit reference: `'' @ request_id @ ''`'']
      @ page_lines offset (length items) (cs_transaction_count summary) continued
      @ [[], ''| Date | Journal | Reference | Partner | Debit | Credit | Amount |'', ''|---|---|---|---|---:|---:|---:|'']
      @ map (\<lambda>x. ''| '' @ isoformat (ci_date x) @ '' | '' @ markdown (ci_journal_name x) @ '' | ''
          @ markdown (or_empty (ci_reference x)) @ '' | '' @ markdown (or_empty (ci_partner_name x)) @ '' | ''
          @ dec_text (ci_debit x) @ '' | '' @ dec_text (ci_credit x) @ '' | '' @ dec_text (ci_amount x) @ '' |'') items
      @ [[], ''Whole-report totals: opening '' @ dec_text (cs_opening_balance summary) @ ''; debit ''
            @ dec_text (cs_total_debit summary) @ ''; credit '' @ dec_text (cs_total_credit summary)
            @ ''; closing '' @ dec_text (cs_closing_balance summary) @ ''.''])"

definition cashbook_report ::
    "cashbook_args read_input \<Rightarrow> string \<Rightarrow> string \<Rightarrow> journal list \<Rightarrow> int list \<Rightarrow> move_line list \<Rightarrow>
      (date_period, cashbook_item, cashbook_summary) report wf" where
  "cashbook_report r company_name request_id journals journal_ids lines =
    (let a = rd_args r; filtered = filter (wanted_line a journal_ids) lines;
         opening = dsum (map ml_balance (filter (\<lambda>l. ml_date l < ca_period_start a) filtered))
     in ebind (cashbook_items a journals filtered) (\<lambda>all_items.
        let summary = cashbook_summary_of opening all_items in
        ebind (cursor_offset ''Restart the cashbook without a cursor.'' (rd_cursor r)) (\<lambda>offset.
        ebind (cut next_cursor (Mcp (mk_error INVALID_INPUT ''The pagination cursor is outside this cashbook.''
            ''Restart the cashbook without a cursor.'')) all_items (rd_limit r) offset) (\<lambda>(items, nx).
        Inr \<lparr>rt_request_id = request_id, rt_company_id = rd_company_id r,
             rt_dates = \<lparr>dp_start = ca_period_start a, dp_end = ca_period_end a\<rparr>, rt_items = items, rt_next_cursor = nx,
             rt_summary = summary,
             rt_artifact_markdown = cashbook_artifact r company_name request_id summary offset items (nx \<noteq> None)\<rparr>))))"

definition cash_journals :: "journal list \<Rightarrow> journal list" where
  "cash_journals js = filter bank_or_cash js"

definition cash_journal_ids :: "cashbook_args \<Rightarrow> journal list \<Rightarrow> int list wf" where
  "cash_journal_ids a js =
    (if ca_journal_ids a = [] then Inr (sort (map jo_id (cash_journals js)))
     else if \<not> set (ca_journal_ids a) \<subseteq> set (map jo_id (cash_journals js))
     then Inl (Mcp (mk_error JOURNAL_NOT_FOUND ''One or more requested cash or bank journals are unavailable.''
            ''Use cash or bank journal IDs available to the authorized company.''))
     else Inr (ca_journal_ids a))"

definition get_cashbook ::
    "adapter \<Rightarrow> cashbook_args read_input \<Rightarrow> string \<Rightarrow> string \<Rightarrow> (date_period, cashbook_item, cashbook_summary) report wf option" where
  "get_cashbook ad r company_name request_id =
    obind (strict_drain (cash_journal_loop ad (rd_company_id r))) (\<lambda>js.
    obind (olift (cash_journal_ids (rd_args r) js)) (\<lambda>journal_ids.
    obind (if journal_ids = [] then Some (Inr [])
           else strict_drain (cash_line_loop ad (rd_company_id r) (cash_filters (rd_args r) journal_ids))) (\<lambda>lines.
    olift (cashbook_report r company_name request_id (cash_journals js) journal_ids lines))))"

lemma get_cashbook_ends: "get_cashbook ad r name rid \<noteq> None"
  unfolding get_cashbook_def by (intro ends)

section \<open>The balances\<close>











end
