(* ===== verification/CurrencyRates.thy ===== *)
theory CurrencyRates
  imports Cashbook
begin

text \<open>
  The currency-rate history (\<open>workflows/accounting/currency_rates.py\<close>): the rates up to the end of the
  period, one rate per day (a rate of the root company before a shared one, then the highest identifier), the
  rate in force at the start, and a cursor that is bound to the request.
\<close>

record rate_args =
  rq_currency_id :: int
  rq_period_start :: int
  rq_period_end :: int

definition invalid_rate_data :: wf_error where
  "invalid_rate_data = Mcp (mk_error ODOO_API_ERROR ''Odoo returned invalid currency-rate history data.''
     ''Check Odoo currency-rate integrity and record access, then retry.'')"

section \<open>The cursor\<close>

definition rate_cursor_parts :: "rate_args read_input \<Rightarrow> string list" where
  "rate_cursor_parts r =
    [''v1'', int_text (rd_company_id r), int_text (rq_currency_id (rd_args r)), isoformat (rq_period_start (rd_args r)),
     isoformat (rq_period_end (rd_args r))]"

text \<open>\<open>_cursor\<close> and \<open>_offset\<close>.\<close>

definition rate_cursor :: "rate_args read_input \<Rightarrow> nat \<Rightarrow> string" where
  "rate_cursor r offset = seal_cursor (join '':'' (rate_cursor_parts r @ [nat_text offset]))"

definition foreign_rate_cursor :: wf_error where
  "foreign_rate_cursor = Mcp (mk_error INVALID_INPUT ''The pagination cursor does not match this history request.''
     ''Restart the history request without a cursor.'')"

definition rate_offset :: "rate_args read_input \<Rightarrow> string option \<Rightarrow> nat wf" where
  "rate_offset r cursor =
    (case cursor of
       None \<Rightarrow> Inr 0
     | Some c \<Rightarrow>
        (case open_cursor c of
           None \<Rightarrow> Inl (invalid_cursor ''Restart the history request without a cursor.'')
         | Some t \<Rightarrow>
            (case split_on (CHR '':'') t of
               [version, company, currency, start, final, offset] \<Rightarrow>
                 (case py_int offset of
                    None \<Rightarrow> Inl (invalid_cursor ''Restart the history request without a cursor.'')
                  | Some n \<Rightarrow>
                     if [version, company, currency, start, final] \<noteq> rate_cursor_parts r \<or> n \<le> 0
                     then Inl foreign_rate_cursor else Inr (nat n))
             | _ \<Rightarrow> Inl (invalid_cursor ''Restart the history request without a cursor.''))))"

section \<open>Reading\<close>

definition rate_page_size :: nat where "rate_page_size = 500"

definition rates_turn ::
    "adapter \<Rightarrow> rate_args read_input \<Rightarrow> company \<Rightarrow> nat \<Rightarrow> string option \<Rightarrow> currency_rate drained \<Rightarrow>
      (currency_rate drained \<times> string option) wf" where
  "rates_turn ad r company n cursor s =
    ebind (page_request rate_page_size cursor) (\<lambda>_.
    ebind (ad_rates ad (rd_company_id r) (rq_currency_id (rd_args r)) (rq_period_end (rd_args r)) n rate_page_size cursor) (\<lambda>page.
    if (case co_currency company of None \<Rightarrow> True | Some c \<Rightarrow> rr_id (rg_company_currency page) \<noteq> rr_id c)
       \<or> co_root_id company \<noteq> Some (rg_root_company_id page)
       \<or> (rg_next page \<noteq> None \<and> rg_items page = [])
       \<or> list_ex (\<lambda>x. ra_id x \<in> set (dr_seen_ids s)) (rg_items page)
    then Inl invalid_rate_data
    else (let s' = s\<lparr>dr_seen_ids := dr_seen_ids s @ map ra_id (rg_items page), dr_result := dr_result s @ rg_items page\<rparr> in
      if length (dr_result s') > max_source_records then Inl invalid_rate_data
      else case rg_next page of
          None \<Rightarrow> Inr (s', None)
        | Some c \<Rightarrow> if c \<in> set (dr_seen_cursors s') then Inl invalid_rate_data
                   else Inr (s'\<lparr>dr_seen_cursors := c # dr_seen_cursors s'\<rparr>, Some c))))"

definition rates :: "adapter \<Rightarrow> rate_args read_input \<Rightarrow> company \<Rightarrow> currency_rate list wf option" where
  "rates ad r company = obind (drain (rates_turn ad r company) 0 None nothing_yet) (\<lambda>s. Some (Inr (dr_result s)))"

interpretation rate_pages: growing_loop "rates_turn ad r company" "\<lambda>s. length (dr_result s)" max_source_records for ad r company
  by unfold_locales (auto simp: rates_turn_def Let_def split: if_splits option.splits)

lemma rates_ends [ends]: "rates ad r company \<noteq> None"
  unfolding rates_def by (intro ends rate_pages.drain_ends)

section \<open>The history\<close>

datatype rate_scope = Company_scope | Shared_scope | Identity_scope

record rate_item =
  ri_source_rate_id :: "int option"
  ri_source_scope :: rate_scope
  ri_effective_date :: int
  ri_units_per_company_unit :: decimal
  ri_company_units_per_unit :: decimal

text \<open>\<open>_point\<close>.\<close>

definition rate_point :: "int \<Rightarrow> currency_rate \<Rightarrow> rate_item wf" where
  "rate_point base_id x =
    (if ra_company_id x \<notin> {None, Some base_id} then Inl invalid_rate_data
     else Inr \<lparr>ri_source_rate_id = Some (ra_id x),
       ri_source_scope = (if ra_company_id x = Some base_id then Company_scope else Shared_scope),
       ri_effective_date = ra_effective_date x, ri_units_per_company_unit = ra_company_rate x,
       ri_company_units_per_unit = ra_inverse_company_rate x\<rparr>)"

definition rate_rank :: "int \<Rightarrow> currency_rate \<Rightarrow> bool \<times> int" where
  "rate_rank base_id x = (ra_company_id x = Some base_id, ra_id x)"

text \<open>The dictionary of the best rate per day.\<close>

fun put_rate :: "int \<Rightarrow> currency_rate \<Rightarrow> currency_rate list \<Rightarrow> currency_rate list" where
  "put_rate base_id x [] = [x]"
| "put_rate base_id x (y # ys) =
    (if ra_effective_date y = ra_effective_date x
     then (if rate_rank base_id x > rate_rank base_id y then x else y) # ys
     else y # put_rate base_id x ys)"

definition best_rates :: "int \<Rightarrow> currency_rate list \<Rightarrow> currency_rate list" where
  "best_rates base_id raw = sort_key (\<lambda>x. (- ra_effective_date x, - ra_id x)) (fold (put_rate base_id) raw [])"

datatype history_status = History_available | History_missing | Company_currency_identity

record history_summary =
  hs_history_status :: history_status
  hs_returned_count :: nat
  hs_has_more :: bool

record rate_history =
  rh_request_id :: string
  rh_company_id :: int
  rh_company_currency :: related
  rh_requested_currency :: related
  rh_dates :: date_period
  rh_effective_at_start :: "rate_item option"
  rh_items :: "rate_item list"
  rh_next_cursor :: "string option"
  rh_summary :: history_summary
  rh_artifact_markdown :: string

fun scope_text :: "rate_scope \<Rightarrow> string" where
  "scope_text Company_scope = ''company''"
| "scope_text Shared_scope = ''shared''"
| "scope_text Identity_scope = ''identity''"

fun history_text :: "history_status \<Rightarrow> string" where
  "history_text History_available = ''available''"
| "history_text History_missing = ''missing''"
| "history_text Company_currency_identity = ''company_currency_identity''"

definition rate_row :: "rate_item \<Rightarrow> string" where
  "rate_row x =
    ''| '' @ isoformat (ri_effective_date x) @ '' | '' @ scope_text (ri_source_scope x) @ '' | ''
    @ (case ri_source_rate_id x of None \<Rightarrow> [] | Some i \<Rightarrow> int_text i) @ '' | ''
    @ dec_text (ri_units_per_company_unit x) @ '' | '' @ dec_text (ri_company_units_per_unit x) @ '' |''"

definition rate_artifact ::
    "rate_args read_input \<Rightarrow> company \<Rightarrow> related \<Rightarrow> related \<Rightarrow> rate_item option \<Rightarrow> rate_item list \<Rightarrow> history_summary \<Rightarrow>
      string \<Rightarrow> string" where
  "rate_artifact r company company_currency requested effective items summary request_id =
    join newline
     ([''# Currency Rate History'', [],
       ''- Company: '' @ co_name company @ '' ('' @ int_text (co_id company) @ '')'',
       ''- Company currency: '' @ rr_name company_currency @ '' ('' @ int_text (rr_id company_currency) @ '')'',
       ''- Requested currency: '' @ rr_name requested @ '' ('' @ int_text (rr_id requested) @ '')'',
       ''- Period: '' @ isoformat (rq_period_start (rd_args r)) @ '' to '' @ isoformat (rq_period_end (rd_args r)),
       ''- History status: '' @ history_text (hs_history_status summary),
       ''- Audit reference: `'' @ request_id @ ''`'', [],
       ''| Effective date | Scope | Source rate ID | Currency units per company unit | Company units per currency unit |'',
       ''|---|---|---:|---:|---:|'']
      @ (case effective of None \<Rightarrow> [] | Some x \<Rightarrow> [rate_row x])
      @ map rate_row items) @ newline"

definition identity_rate :: "int \<Rightarrow> rate_item" where
  "identity_rate start = \<lparr>ri_source_rate_id = None, ri_source_scope = Identity_scope, ri_effective_date = start,
     ri_units_per_company_unit = dunit, ri_company_units_per_unit = dunit\<rparr>"

text \<open>The rate in force at the start and the rates of the period, newest first.\<close>

definition rate_points ::
    "int \<Rightarrow> int \<Rightarrow> int \<Rightarrow> currency_rate list \<Rightarrow> (rate_item option \<times> rate_item list) wf" where
  "rate_points base_id start final raw =
    (let ordered = best_rates base_id raw in
     ebind (case find_row (\<lambda>x. ra_effective_date x \<le> start) ordered of
              None \<Rightarrow> Inr None
            | Some x \<Rightarrow> ebind (rate_point base_id x) (\<lambda>q. Inr (Some q))) (\<lambda>effective.
     ebind (emap (rate_point base_id) (filter (\<lambda>x. start \<le> ra_effective_date x \<and> ra_effective_date x \<le> final) ordered)) (\<lambda>items.
     Inr (effective, items))))"

definition history_report ::
    "rate_args read_input \<Rightarrow> company \<Rightarrow> related \<Rightarrow> related \<Rightarrow> string \<Rightarrow> nat \<Rightarrow> history_status \<Rightarrow> rate_item option \<Rightarrow>
      rate_item list \<Rightarrow> rate_history wf" where
  "history_report r company company_currency requested request_id offset status effective all_items =
    ebind (cut (rate_cursor r) (Mcp (mk_error INVALID_INPUT ''The pagination cursor is outside this history.''
        ''Restart the history request without a cursor.'')) all_items (rd_limit r) offset) (\<lambda>(items, nx).
    let summary = \<lparr>hs_history_status = status, hs_returned_count = length items, hs_has_more = nx \<noteq> None\<rparr> in
    Inr \<lparr>rh_request_id = request_id, rh_company_id = rd_company_id r, rh_company_currency = company_currency,
         rh_requested_currency = requested,
         rh_dates = \<lparr>dp_start = rq_period_start (rd_args r), dp_end = rq_period_end (rd_args r)\<rparr>,
         rh_effective_at_start = effective, rh_items = items, rh_next_cursor = nx, rh_summary = summary,
         rh_artifact_markdown = rate_artifact r company company_currency requested effective items summary request_id\<rparr>)"

definition requested_currency :: "adapter \<Rightarrow> int \<Rightarrow> int \<Rightarrow> currency wf" where
  "requested_currency ad company i =
    ebind (ask (ad_currencies ad company [i]) 0 1 None) (\<lambda>page.
    case find_row (\<lambda>c. length (pg_items page) = 1 \<and> cy_id c = i \<and> pg_next page = None) (pg_items page) of
      None \<Rightarrow> Inl (Mcp (mk_error INVALID_INPUT ''The requested currency is unavailable.''
                ''Use an exact currency ID visible to the authorized company.''))
    | Some c \<Rightarrow> Inr c)"

definition other_history ::
    "adapter \<Rightarrow> rate_args read_input \<Rightarrow> company \<Rightarrow> related \<Rightarrow> int \<Rightarrow> related \<Rightarrow> string \<Rightarrow> nat \<Rightarrow> rate_history wf option" where
  "other_history ad r company base base_id requested request_id offset =
    obind (rates ad r company) (\<lambda>raw.
    obind (olift (rate_points base_id (rq_period_start (rd_args r)) (rq_period_end (rd_args r)) raw)) (\<lambda>(effective, all_items).
    olift (history_report r company base requested request_id offset
       (if effective \<noteq> None then History_available else History_missing) effective all_items)))"

definition get_currency_rate_history ::
    "adapter \<Rightarrow> rate_args read_input \<Rightarrow> company \<Rightarrow> string \<Rightarrow> rate_history wf option" where
  "get_currency_rate_history ad r company request_id =
    (case (co_currency company, co_root_id company) of
       (Some base, Some base_id) \<Rightarrow>
          obind (olift (requested_currency ad (rd_company_id r) (rq_currency_id (rd_args r)))) (\<lambda>c.
          if rq_currency_id (rd_args r) = rr_id base \<and> cy_name c \<noteq> rr_name base then Some (Inl invalid_rate_data)
          else obind (olift (rate_offset r (rd_cursor r))) (\<lambda>offset.
            if rq_currency_id (rd_args r) = rr_id base
            then olift (history_report r company base \<lparr>rr_id = cy_id c, rr_name = cy_name c\<rparr> request_id offset
                   Company_currency_identity (Some (identity_rate (rq_period_start (rd_args r)))) [])
            else other_history ad r company base base_id \<lparr>rr_id = cy_id c, rr_name = cy_name c\<rparr> request_id offset))
     | _ \<Rightarrow> Some (Inl invalid_rate_data))"

lemma get_currency_rate_history_ends: "get_currency_rate_history ad r company rid \<noteq> None"
proof -
  have "other_history ad r company base base_id requested rid offset \<noteq> None" for base base_id requested offset
    unfolding other_history_def split_def by (intro ends)
  note other = this
  show ?thesis
    by (cases "co_currency company"; cases "co_root_id company";
        simp only: get_currency_rate_history_def prod.case option.case; intro ends other)
qed

section \<open>The best rate of a day\<close>

definition best_of_day :: "int \<Rightarrow> currency_rate list \<Rightarrow> currency_rate \<Rightarrow> bool" where
  "best_of_day base_id raw x \<longleftrightarrow> x \<in> set raw
    \<and> (\<forall>y \<in> set raw. ra_effective_date y = ra_effective_date x \<longrightarrow> rate_rank base_id y \<le> rate_rank base_id x)"

definition best_so_far :: "int \<Rightarrow> currency_rate list \<Rightarrow> currency_rate list \<Rightarrow> bool" where
  "best_so_far base_id raw best \<longleftrightarrow> distinct (map ra_effective_date best) \<and> (\<forall>x \<in> set best. best_of_day base_id raw x)
    \<and> ra_effective_date ` set best = ra_effective_date ` set raw"

lemma put_rate_dates: "ra_effective_date ` set (put_rate base_id x best) = insert (ra_effective_date x) (ra_effective_date ` set best)"
  by (induction base_id x best rule: put_rate.induct) auto

lemma put_rate_distinct: "distinct (map ra_effective_date best) \<Longrightarrow> distinct (map ra_effective_date (put_rate base_id x best))"
  using put_rate_dates by (induction base_id x best rule: put_rate.induct) (auto simp flip: set_map)

text \<open>Who is in the dictionary after a rate was put.\<close>

lemma put_rate_member:
  assumes "distinct (map ra_effective_date best)" "z \<in> set (put_rate base_id x best)"
  shows "(z \<in> set best \<and> (ra_effective_date z = ra_effective_date x \<longrightarrow> rate_rank base_id x \<le> rate_rank base_id z))
    \<or> (z = x \<and> (\<forall>y \<in> set best. ra_effective_date y = ra_effective_date x \<longrightarrow> rate_rank base_id y \<le> rate_rank base_id x))"
  using assms
proof (induction best)
  case (Cons y best)
  have other: "ra_effective_date w \<noteq> ra_effective_date y" if "w \<in> set best" for w
  proof -
    have "ra_effective_date w \<in> set (map ra_effective_date best)" using that by simp
    with Cons.prems(1) show ?thesis by (metis distinct.simps(2) list.simps(9))
  qed
  show ?case
  proof (cases "ra_effective_date y = ra_effective_date x")
    case True
    with Cons.prems(2) have "z = (if rate_rank base_id x > rate_rank base_id y then x else y) \<or> z \<in> set best" by auto
    then show ?thesis using True other by (auto split: if_splits)
  next
    case False
    with Cons.prems have "z = y \<or> z \<in> set (put_rate base_id x best)" by auto
    then show ?thesis using Cons.IH Cons.prems(1) False by auto
  qed
qed simp

lemma put_rate_best:
  assumes "best_so_far base_id raw best"
  shows "best_so_far base_id (raw @ [x]) (put_rate base_id x best)"
  unfolding best_so_far_def
proof (intro conjI ballI)
  have d: "distinct (map ra_effective_date best)" and b: "\<forall>z \<in> set best. best_of_day base_id raw z"
    and dates: "ra_effective_date ` set best = ra_effective_date ` set raw" using assms by (simp_all add: best_so_far_def)
  show "distinct (map ra_effective_date (put_rate base_id x best))" by (rule put_rate_distinct [OF d])
  show "ra_effective_date ` set (put_rate base_id x best) = ra_effective_date ` set (raw @ [x])"
    by (simp add: put_rate_dates dates)
  fix z
  assume "z \<in> set (put_rate base_id x best)"
  from put_rate_member [OF d this] show "best_of_day base_id (raw @ [x]) z"
  proof
    assume "z \<in> set best \<and> (ra_effective_date z = ra_effective_date x \<longrightarrow> rate_rank base_id x \<le> rate_rank base_id z)"
    with b show ?thesis by (auto simp: best_of_day_def)
  next
    assume z: "z = x \<and> (\<forall>y \<in> set best. ra_effective_date y = ra_effective_date x \<longrightarrow> rate_rank base_id y \<le> rate_rank base_id x)"
    have "rate_rank base_id w \<le> rate_rank base_id x" if w: "w \<in> set raw" "ra_effective_date w = ra_effective_date x" for w
    proof -
      from w(1) dates obtain y where y: "y \<in> set best" "ra_effective_date y = ra_effective_date w"
        by (metis (no_types, lifting) image_iff)
      with b w have "rate_rank base_id w \<le> rate_rank base_id y" by (auto simp: best_of_day_def)
      also have "\<dots> \<le> rate_rank base_id x" using z y w(2) by auto
      finally show ?thesis .
    qed
    with z show ?thesis by (auto simp: best_of_day_def)
  qed
qed

lemma best_fold: "best_so_far base_id before best \<Longrightarrow> best_so_far base_id (before @ raw) (fold (put_rate base_id) raw best)"
proof (induction raw arbitrary: before best)
  case (Cons x raw)
  from Cons.IH [OF put_rate_best [OF Cons.prems, of x]] show ?case by simp
qed simp

lemma best_rates_spec:
  "best_so_far base_id raw (best_rates base_id raw)" "sorted_wrt (\<lambda>x y. ra_effective_date x > ra_effective_date y) (best_rates base_id raw)"
proof -
  have b: "best_so_far base_id raw (fold (put_rate base_id) raw [])"
    using best_fold [of base_id "[]" "[]" raw] by (simp add: best_so_far_def)
  have m: "mset (map ra_effective_date (best_rates base_id raw)) = mset (map ra_effective_date (fold (put_rate base_id) raw []))"
    by (simp add: best_rates_def)
  have d: "distinct (map ra_effective_date (best_rates base_id raw))"
    using b mset_eq_imp_distinct_iff [OF m] by (simp add: best_so_far_def)
  with b show "best_so_far base_id raw (best_rates base_id raw)"
    by (simp add: best_so_far_def) (simp add: best_rates_def)
  have "sorted (map (\<lambda>x. (- ra_effective_date x, - ra_id x)) (best_rates base_id raw))"
    by (simp add: best_rates_def)
  then have "sorted_wrt (\<lambda>x y. (- ra_effective_date x, - ra_id x) \<le> (- ra_effective_date y, - ra_id y)) (best_rates base_id raw)"
    by (simp add: sorted_map)
  moreover have "sorted_wrt (\<lambda>x y. ra_effective_date x \<noteq> ra_effective_date y) (best_rates base_id raw)"
    using d by (simp add: distinct_conv_nth sorted_wrt_iff_nth_less)
  ultimately show "sorted_wrt (\<lambda>x y. ra_effective_date x > ra_effective_date y) (best_rates base_id raw)"
    by (simp add: sorted_wrt_iff_nth_less less_eq_prod_def) (metis less_le)
qed

lemma find_row_first:
  assumes "find_row P xs = Some x"
  obtains ys zs where "xs = ys @ x # zs" "P x" "\<forall>y \<in> set ys. \<not> P y"
  using assms
proof (induction xs arbitrary: thesis)
  case (Cons y xs)
  show ?case
  proof (cases "P y")
    case True
    with Cons.prems show ?thesis by (metis append_Nil empty_iff empty_set find_row.simps(2) option.inject)
  next
    case False
    with Cons.prems(2) have "find_row P xs = Some x" by simp
    from Cons.IH [OF _ this] obtain ys zs where "xs = ys @ x # zs" "P x" "\<forall>y \<in> set ys. \<not> P y" by blast
    with False Cons.prems(1) [of "y # ys" zs] show ?thesis by simp
  qed
qed simp

text \<open>The rate in force on a day: the best rate of the latest day on or before it.\<close>

definition in_force :: "int \<Rightarrow> currency_rate list \<Rightarrow> int \<Rightarrow> currency_rate \<Rightarrow> bool" where
  "in_force base_id raw day x \<longleftrightarrow> best_of_day base_id raw x \<and> ra_effective_date x \<le> day
    \<and> (\<forall>y \<in> set raw. ra_effective_date y \<le> day \<longrightarrow> ra_effective_date y \<le> ra_effective_date x)"

lemma in_force_first:
  assumes "find_row (\<lambda>x. ra_effective_date x \<le> day) (best_rates base_id raw) = Some x"
  shows "in_force base_id raw day x"
proof -
  note spec = best_rates_spec [where base_id = base_id and raw = raw]
  from find_row_first [OF assms] obtain ys zs where s: "best_rates base_id raw = ys @ x # zs" "ra_effective_date x \<le> day"
    "\<forall>y \<in> set ys. \<not> ra_effective_date y \<le> day" by blast
  have "best_of_day base_id raw x" using spec(1) s(1) by (auto simp: best_so_far_def)
  moreover have "ra_effective_date y \<le> ra_effective_date x" if y: "y \<in> set raw" "ra_effective_date y \<le> day" for y
  proof -
    have "ra_effective_date y \<in> ra_effective_date ` set (best_rates base_id raw)" using y(1) spec(1) by (simp add: best_so_far_def)
    then obtain w where w: "w \<in> set (best_rates base_id raw)" "ra_effective_date w = ra_effective_date y" by auto
    with s y(2) have "w = x \<or> w \<in> set zs" by auto
    with spec(2) s(1) w(2) show ?thesis by (auto simp: sorted_wrt_append)
  qed
  ultimately show ?thesis using s(2) by (simp add: in_force_def)
qed

lemma in_force_none:
  assumes "find_row (\<lambda>x. ra_effective_date x \<le> day) (best_rates base_id raw) = None"
  shows "list_all (\<lambda>y. day < ra_effective_date y) raw"
proof -
  have "ra_effective_date ` set raw = ra_effective_date ` set (best_rates base_id raw)"
    using best_rates_spec(1) [where base_id = base_id and raw = raw] by (simp add: best_so_far_def)
  with assms show ?thesis by (force simp: find_row_None list_all_iff not_le)
qed

text \<open>C26 (a rate history has the best rate of each day). The items of a history are, newest first, one rate for each
  day of the period that has rates: a rate of the root company before a shared one, then the one with the
  highest identifier. The rate given for the start is the one in force then, and it is missing only if Odoo
  delivered no rate up to the start.\<close>

theorem rate_history_is_best:
  assumes "get_currency_rate_history ad r company rid = Some (Inr h)" "co_currency company = Some base"
    "co_root_id company = Some base_id" "rq_currency_id (rd_args r) \<noteq> rr_id base"
  shows "\<exists>raw days items offset. rates ad r company = Some (Inr raw) \<and> rate_offset r (rd_cursor r) = Inr offset
    \<and> rh_items h = take (rd_limit r) (drop offset items) \<and> emap (rate_point base_id) days = Inr items
    \<and> sorted_wrt (\<lambda>x y. ra_effective_date x > ra_effective_date y) days \<and> list_all (best_of_day base_id raw) days
    \<and> ra_effective_date ` set days = {d \<in> ra_effective_date ` set raw. rq_period_start (rd_args r) \<le> d \<and> d \<le> rq_period_end (rd_args r)}
    \<and> (case rh_effective_at_start h of
         None \<Rightarrow> list_all (\<lambda>y. rq_period_start (rd_args r) < ra_effective_date y) raw
       | Some e \<Rightarrow> \<exists>x. in_force base_id raw (rq_period_start (rd_args r)) x \<and> rate_point base_id x = Inr e)"
proof -
  define a where "a = rd_args r"
  from assms obtain raw requested offset effective items status where raw: "rates ad r company = Some (Inr raw)"
    and o: "rate_offset r (rd_cursor r) = Inr offset"
    and points: "rate_points base_id (rq_period_start a) (rq_period_end a) raw = Inr (effective, items)"
    and rep: "history_report r company base requested rid offset status effective items = Inr h"
    by (auto simp: get_currency_rate_history_def other_history_def obind_Some_Inr a_def split: if_splits)
  define days where "days = filter (\<lambda>x. rq_period_start a \<le> ra_effective_date x \<and> ra_effective_date x \<le> rq_period_end a) (best_rates base_id raw)"
  from points have days: "emap (rate_point base_id) days = Inr items"
    and eff: "(case find_row (\<lambda>x. ra_effective_date x \<le> rq_period_start a) (best_rates base_id raw) of
              None \<Rightarrow> Inr None | Some x \<Rightarrow> ebind (rate_point base_id x) (\<lambda>q. Inr (Some q))) = Inr effective"
    by (auto simp: rate_points_def Let_def days_def)
  from rep have h: "rh_items h = take (rd_limit r) (drop offset items)" "rh_effective_at_start h = effective"
    by (auto simp: history_report_def cut_def Let_def split: if_splits)
  note spec = best_rates_spec [where base_id = base_id and raw = raw]
  have s: "sorted_wrt (\<lambda>x y. ra_effective_date x > ra_effective_date y) days"
    unfolding days_def by (rule sorted_wrt_filter [OF spec(2)])
  have best: "list_all (best_of_day base_id raw) days" using spec(1) by (simp add: days_def best_so_far_def list_all_iff)
  have dates: "ra_effective_date ` set days = {d \<in> ra_effective_date ` set raw. rq_period_start a \<le> d \<and> d \<le> rq_period_end a}"
  proof -
    have "ra_effective_date ` set raw = ra_effective_date ` set (best_rates base_id raw)" using spec(1) by (simp add: best_so_far_def)
    then show ?thesis by (auto simp: days_def)
  qed
  have e: "case effective of None \<Rightarrow> list_all (\<lambda>y. rq_period_start a < ra_effective_date y) raw
       | Some e \<Rightarrow> \<exists>x. in_force base_id raw (rq_period_start a) x \<and> rate_point base_id x = Inr e"
  proof (cases "find_row (\<lambda>x. ra_effective_date x \<le> rq_period_start a) (best_rates base_id raw)")
    case None
    with eff in_force_none [OF None] show ?thesis by auto
  next
    case (Some x)
    with eff in_force_first [OF Some] show ?thesis by (auto intro: exI [of _ x])
  qed
  show ?thesis
    by (rule exI [of _ raw], rule exI [of _ days], rule exI [of _ items], rule exI [of _ offset])
      (use raw o h days s best dates e [unfolded a_def] in \<open>simp add: a_def\<close>)
qed

end
