(* ===== verification/CursorParts.thy ===== *)
theory CursorParts
  imports CurrencyRates
begin

text \<open>
  Cursors made of several parts with colons between them: the parts come back, so a cursor of one request is
  recognised, and refused, by every other request of the rate history.
\<close>

definition plain_part :: "string \<Rightarrow> bool" where
  "plain_part w \<longleftrightarrow> list_all (\<lambda>c. between 0 c 127 \<and> c \<noteq> CHR '':'') w"

lemma plain_append [simp]: "plain_part (u @ w) \<longleftrightarrow> plain_part u \<and> plain_part w"
  by (simp add: plain_part_def)

lemma plain_Cons [simp]: "plain_part (c # w) \<longleftrightarrow> between 0 c 127 \<and> c \<noteq> CHR '':'' \<and> plain_part w"
  by (auto simp: plain_part_def)

lemma plain_Nil [simp]: "plain_part []"
  by (simp add: plain_part_def)

lemma plain_nat_text [simp]: "plain_part (nat_text n)"
  using nat_text_digits [of n] by (auto simp: plain_part_def list_all_iff is_digit_plain)

lemma plain_int_text [simp]: "plain_part (int_text i)"
  by (simp add: int_text_def between_def)

lemma plain_zeros: "plain_part (replicate k (CHR ''0''))"
  by (induction k) (simp_all add: between_def)

lemma plain_padded [simp]: "plain_part (padded w n)"
  unfolding padded_def plain_append using plain_zeros by simp

lemma plain_isoformat [simp]: "plain_part (isoformat day)"
  by (simp add: isoformat_def between_def split: prod.splits)

lemma split_on_plain: "plain_part w \<Longrightarrow> split_on (CHR '':'') w = [w]"
  by (induction w) (auto simp: plain_part_def)

lemma split_on_nonempty: "split_on s t \<noteq> []"
  by (induction t) (auto split: list.splits)

lemma split_on_append: "plain_part w \<Longrightarrow> split_on (CHR '':'') (w @ CHR '':'' # t) = w # split_on (CHR '':'') t"
  by (induction w) (auto simp: plain_part_def)

lemma split_join: "list_all plain_part ps \<Longrightarrow> ps \<noteq> [] \<Longrightarrow> split_on (CHR '':'') (join '':'' ps) = ps"
proof (induction ps rule: induct_list012)
  case (3 x y zs)
  then show ?case using split_on_append [of x] by simp
qed (simp_all add: split_on_plain)

lemma ascii_plain: "plain_part w \<Longrightarrow> list_all (\<lambda>c. between 0 c 127) w"
  by (simp add: plain_part_def list_all_iff)

lemma ascii_join: "list_all plain_part ps \<Longrightarrow> list_all (\<lambda>c. between 0 c 127) (join '':'' ps)"
proof (induction ps rule: induct_list012)
  case (3 x y zs)
  have "between 0 (CHR '':'') 127" by (simp add: between_def)
  with 3 show ?case by (simp add: ascii_plain)
qed (simp_all add: ascii_plain)

text \<open>The parts of a cursor come back.\<close>

lemma open_parts:
  assumes "list_all plain_part ps" "ps \<noteq> []"
  shows "\<exists>t. open_cursor (seal_cursor (join '':'' ps)) = Some t \<and> split_on (CHR '':'') t = ps"
  using open_seal [OF utf8_ascii [OF ascii_join [OF assms(1)]]] split_join [OF assms] by blast

section \<open>Cursors of the rate history\<close>

lemma plain_rate_parts: "list_all plain_part (rate_cursor_parts r @ [nat_text n])"
  by (simp add: rate_cursor_parts_def between_def)

text \<open>A rate cursor belongs to its request. A cursor that a history hands out is accepted exactly by requests for
  the same company, currency and period, where it gives back its offset; every other request refuses it.\<close>

theorem rate_cursor_is_bound:
  "rate_offset r (Some (rate_cursor r' n)) =
    (if rate_cursor_parts r = rate_cursor_parts r' \<and> 0 < n then Inr n else Inl foreign_rate_cursor)"
proof -
  obtain t where t: "open_cursor (rate_cursor r' n) = Some t" "split_on (CHR '':'') t = rate_cursor_parts r' @ [nat_text n]"
    using open_parts [OF plain_rate_parts] unfolding rate_cursor_def by blast
  obtain v c y s f where p: "rate_cursor_parts r' = [v, c, y, s, f]" by (simp add: rate_cursor_parts_def)
  show ?thesis using t(1) t(2) [unfolded p] by (auto simp: rate_offset_def py_int_nat_text p)
qed

interpretation rate_cursors: cursor_codec "rate_cursor r" "rate_offset r" for r
  by unfold_locales (simp_all add: rate_cursor_is_bound, simp add: rate_offset_def)

end
