(* ===== verification/ReportPages.thy ===== *)
theory ReportPages
  imports TrialProps Statements Aging CurrencyRates
begin

text \<open>
  What a client gets from the accounting workflows: every call comes to an end, whatever the adapter answers, and
  a client that follows the cursors of a report gets every row of it once.
\<close>

section \<open>The calls end\<close>

lemma build_reconciliation_proposal_ends: "build_reconciliation_proposal ad r c name rid \<noteq> None"
  unfolding build_reconciliation_proposal_def Let_def by (intro ends)

lemma flag_unmatched_ends: "flag_unmatched_statement_lines ad r c name rid \<noteq> None"
  unfolding flag_unmatched_statement_lines_def Let_def by (intro ends)

text \<open>C27 (the reports come to an end). Reconciliation, the reports, the cashbook and the rate history return a result
  or an error for every adapter, also one whose pages are inconsistent, repeat their cursors or never stop.\<close>

theorem reports_end:
  "build_reconciliation_proposal ad a1 currency name rid \<noteq> None \<and> flag_unmatched_statement_lines ad a2 currency name rid \<noteq> None
    \<and> get_trial_balance ad a3 name rid \<noteq> None \<and> get_profit_and_loss ad a4 cid name rid \<noteq> None
    \<and> get_balance_sheet ad a5 cid name rid \<noteq> None \<and> get_aged_balance ad a6 name rid payable \<noteq> None
    \<and> get_cashbook ad a7 name rid \<noteq> None \<and> get_currency_rate_history ad a8 company rid \<noteq> None"
  by (intro conjI build_reconciliation_proposal_ends flag_unmatched_ends get_trial_balance_ends get_profit_and_loss_ends
    get_balance_sheet_ends get_aged_balance_ends get_cashbook_ends get_currency_rate_history_ends)

section \<open>Following the cursors\<close>

text \<open>The rows and the continuation of one call; the calls end, so there is a value.\<close>

definition fetch :: "(string option \<Rightarrow> ('d, 'i, 's) report wf option) \<Rightarrow> string option \<Rightarrow> ('i list \<times> string option) wf" where
  "fetch call cursor = ebind (the (call cursor)) (\<lambda>rep. Inr (rt_items rep, rt_next_cursor rep))"

lemma respond_page:
  "ebind (respond r rid dates artifact summary items) (\<lambda>rep. Inr (rt_items rep, rt_next_cursor rep))
    = ebind (report_offset (rd_cursor r)) (cut next_cursor outside_report items (rd_limit r))"
  by (cases "report_offset (rd_cursor r)"; cases "cut next_cursor outside_report items (rd_limit r) (projr (report_offset (rd_cursor r)))")
    (auto simp: respond_def report_page_def)

lemma walk_respond:
  assumes "0 < rd_limit r" "\<And>c. call c = Some (respond (r\<lparr>rd_cursor := c\<rparr>) rid dates (artifact c) summary items)"
  shows "walk (Suc (length items)) (fetch call) None = Some (Inr items)"
proof -
  have "fetch call = (\<lambda>c. ebind (report_offset c) (cut next_cursor outside_report items (rd_limit r)))"
    by (rule ext) (simp add: fetch_def assms(2) respond_page)
  then show ?thesis
    using offsets.walk_all [OF assms(1), where items = items] by (simp add: report_offset_def)
qed

text \<open>C28 (every row is delivered). A client that follows the cursors of a trial balance that can be had, on unchanged
  books, gets every row of it: one for each account that the request names or a line is on, as many as the
  summary says.\<close>

theorem every_row_is_delivered:
  assumes "get_trial_balance ad (r\<lparr>rd_cursor := None\<rparr>) name rid = Some (Inr rep)" "0 < rd_limit r"
  shows "\<exists>lines items. move_lines ad (rd_company_id r) (trial_filters (rd_args r)) = Some (Inr lines)
    \<and> walk (Suc (length items)) (fetch (\<lambda>c. get_trial_balance ad (r\<lparr>rd_cursor := c\<rparr>) name rid)) None = Some (Inr items)
    \<and> mset (map ti_account_id items) = mset (trial_account_ids (rd_args r) lines)
    \<and> length items = ts_account_count (rt_summary rep)"
proof -
  let ?a = "rd_args r"
  from assms(1) obtain lines accs where lines: "move_lines ad (rd_company_id r) (trial_filters ?a) = Some (Inr lines)"
    and accs: "accounts ad (rd_company_id r) (trial_account_ids ?a lines) = Some (Inr accs)"
    and report: "trial_report (r\<lparr>rd_cursor := None\<rparr>) name rid lines (trial_account_ids ?a lines) accs = Inr rep"
    by (auto simp: get_trial_balance_def obind_Some_Inr)
  define items where "items = trial_items ?a lines accs (trial_account_ids ?a lines)"
  from report have ids: "set (trial_account_ids ?a lines) = set (map ao_id accs)"
    and ok: "\<not> trial_unreconciled ?a (trial_summary_of items)"
    and resp: "respond (r\<lparr>rd_cursor := None\<rparr>) rid \<lparr>dp_start = tr_period_start ?a, dp_end = tr_period_end ?a\<rparr>
      (trial_artifact (r\<lparr>rd_cursor := None\<rparr>) name rid (trial_summary_of items)) (trial_summary_of items) items = Inr rep"
    by (simp_all add: trial_report_def Let_def items_def split: if_splits)
  have "get_trial_balance ad (r\<lparr>rd_cursor := c\<rparr>) name rid
      = Some (respond (r\<lparr>rd_cursor := c\<rparr>) rid \<lparr>dp_start = tr_period_start ?a, dp_end = tr_period_end ?a\<rparr>
        (trial_artifact (r\<lparr>rd_cursor := c\<rparr>) name rid (trial_summary_of items)) (trial_summary_of items) items)" for c
    using ids ok by (simp add: get_trial_balance_def lines accs trial_report_def items_def Let_def)
  from walk_respond [OF assms(2) this]
  have walk: "walk (Suc (length items)) (fetch (\<lambda>c. get_trial_balance ad (r\<lparr>rd_cursor := c\<rparr>) name rid)) None = Some (Inr items)" .
  have count: "length items = ts_account_count (rt_summary rep)"
    using respond_Inr [OF resp] by (metis trial_summary_of_def trial_summary.select_convs(1))
  have "mset (map ti_account_id items) = mset (trial_account_ids ?a lines)"
    using arg_cong [OF trial_rows [OF ids], where f = "image_mset ti_account_id"]
    by (simp add: items_def trial_item_of_def multiset.map_comp comp_def)
  with lines walk count show ?thesis by blast
qed

end
