(* ===== verification/ReportDemo.thy ===== *)
theory ReportDemo
  imports StatementProps AgingProps ReportPages
begin

text \<open>
  The theorems on the reports applied to small books: a bank account and a payable account, one entry before the
  period and one within it; and a currency with two rates.
\<close>

section \<open>The books\<close>

definition books_line :: "int \<Rightarrow> int \<Rightarrow> int \<Rightarrow> decimal \<Rightarrow> decimal \<Rightarrow> decimal \<Rightarrow> move_line" where
  "books_line i account day debit credit balance = \<lparr>ml_id = i, ml_move = \<lparr>rr_id = 90, rr_name = ''M''\<rparr>, ml_move_state = ''posted'',
     ml_account = \<lparr>rr_id = account, rr_name = ''A''\<rparr>, ml_journal = \<lparr>rr_id = 7, rr_name = ''Bank''\<rparr>,
     ml_partner = Some \<lparr>rr_id = 3, rr_name = ''Ada''\<rparr>, ml_company_id = 1, ml_currency = Some \<lparr>rr_id = 1, rr_name = ''EUR''\<rparr>,
     ml_date = day, ml_maturity_date = None, ml_label = None, ml_debit = debit, ml_credit = credit,
     ml_balance = balance, ml_amount_currency = balance, ml_residual = balance, ml_residual_currency = balance,
     ml_reconciled = False, ml_analytic_distribution = []\<rparr>"

definition books_lines :: "move_line list" where
  "books_lines =
    [books_line 1 10 19990 (Dec 4000 (-2)) (Dec 0 0) (Dec 4000 (-2)), books_line 2 20 19990 (Dec 0 0) (Dec 4000 (-2)) (Dec (-4000) (-2)),
     books_line 3 10 20005 (Dec 6050 (-2)) (Dec 0 0) (Dec 6050 (-2)), books_line 4 20 20005 (Dec 0 0) (Dec 6050 (-2)) (Dec (-6050) (-2))]"

definition books_account :: "int \<Rightarrow> string \<Rightarrow> account" where
  "books_account i kind = \<lparr>ao_id = i, ao_code = ''C'', ao_name = ''N'', ao_account_type = kind, ao_company_ids = [1],
     ao_currency = None, ao_reconcile = False\<rparr>"

definition books_accounts :: "account list" where
  "books_accounts = [books_account 10 ''asset_cash'', books_account 20 ''liability_payable'']"

definition books_euro :: currency where
  "books_euro = \<lparr>cy_id = 1, cy_name = ''EUR'', cy_rounding = Dec 1 (-2)\<rparr>"

definition books_bank :: journal where
  "books_bank = \<lparr>jo_id = 7, jo_name = ''Bank'', jo_code = ''BNK'', jo_journal_type = ''bank'', jo_company_id = 1,
     jo_currency = None\<rparr>"

definition books_partial :: partial_reconciliation where
  "books_partial = \<lparr>pa_id = 1, pa_debit_move_line = \<lparr>rr_id = 99, rr_name = ''X''\<rparr>,
     pa_credit_move_line = \<lparr>rr_id = 2, rr_name = ''L''\<rparr>, pa_amount = Dec 1000 (-2), pa_debit_amount_currency = Dec 1000 (-2),
     pa_credit_amount_currency = Dec 1000 (-2), pa_max_date = 20040\<rparr>"

definition books_adapter :: adapter where
  "books_adapter = empty_adapter\<lparr>ad_journals := (\<lambda>c. one_page [books_bank]), ad_move_lines := (\<lambda>c f. one_page books_lines),
     ad_accounts := (\<lambda>c f. one_page books_accounts), ad_partials := (\<lambda>c f. one_page [books_partial]),
     ad_currencies := (\<lambda>c ids. one_page [books_euro])\<rparr>"

definition ask_for :: "'r \<Rightarrow> 'r read_input" where
  "ask_for a = \<lparr>rd_company_id = 1, rd_limit = 100, rd_cursor = None, rd_args = a\<rparr>"

lemma ask_for_simps [simp]:
  "rd_company_id (ask_for a) = 1" "rd_limit (ask_for a) = 100" "rd_cursor (ask_for a) = None" "rd_args (ask_for a) = a"
  by (simp_all add: ask_for_def)

lemma books_move_lines: "move_lines books_adapter c f = Some (Inr books_lines)"
  using report_one_page [of "lines_loop books_adapter c f" books_lines nothing_yet]
  by (simp add: move_lines_def lines_loop_def books_adapter_def nothing_yet_def max_source_records_def list_all_iff)
    (simp add: books_lines_def)

lemma books_partials: "partials books_adapter c f = Some (Inr [books_partial])"
  using report_one_page [of "partials_loop books_adapter c f" "[books_partial]" nothing_yet]
  by (simp add: partials_def partials_loop_def books_adapter_def nothing_yet_def max_source_records_def)

lemma books_source_accounts: "accounts books_adapter c [10, 20] = Some (Inr books_accounts)"
proof -
  have c: "chunks source_page_size [10, 20] = [[10, 20 :: int]]"
    by (simp add: chunks.simps [where xs = "_ # _"] chunks.simps [where xs = "[]"] source_page_size_def)
  show ?thesis
    using report_one_page [of "accounts_loop books_adapter c [10, 20]" books_accounts nothing_yet]
    by (simp add: accounts_def c accounts_loop_def books_adapter_def nothing_yet_def max_source_records_def list_all_iff)
      (simp add: books_accounts_def)
qed

lemma books_currency: "currency_rounding books_adapter c 1 = Inr (Dec 1 (-2))"
  by (simp add: currency_rounding_def ask_def page_request_def books_adapter_def one_page_def books_euro_def)

lemma books_plain: "list_all (plain_line 2) books_lines"
  by (simp add: books_lines_def plain_line_def books_line_def fits_def on_grid_def dec_val_def amount_unit_def power_int_def
      power_divide)

lemma respond_whole:
  assumes "rd_cursor r = None" "length items \<le> rd_limit r"
  shows "\<exists>rep. respond r rid dates art summary items = Inr rep \<and> rt_items rep = items \<and> rt_summary rep = summary"
  using assms by (auto simp: respond_def report_page_def report_offset_def cursor_offset_def cut_def Let_def)

lemma respond_first:
  assumes "rd_cursor r = None"
  shows "\<exists>rep. respond r rid dates art summary items = Inr rep"
  using assms by (auto simp: respond_def report_page_def report_offset_def cursor_offset_def cut_def Let_def)

section \<open>Trial balance\<close>

definition books_period :: trial_args where
  "books_period = \<lparr>tr_period_start = 20000, tr_period_end = 20030, tr_account_ids = []\<rparr>"

lemma books_trial: "\<exists>rep. get_trial_balance books_adapter (ask_for books_period) ''Co'' ''r'' = Some (Inr rep)"
proof -
  have ids: "trial_account_ids books_period books_lines = [10, 20]" by code_simp
  have ok: "set [10, 20] = set (map ao_id books_accounts)" by code_simp
  have v: "fold (post_line 20000) books_lines (\<lambda>_. no_totals) 10
      = \<lparr>to_opening = Dec 4000 (-2), to_debit = Dec 6050 (-2), to_credit = Dec 0 0\<rparr>"
    "fold (post_line 20000) books_lines (\<lambda>_. no_totals) 20
      = \<lparr>to_opening = Dec (-4000) (-2), to_debit = Dec 0 0, to_credit = Dec 6050 (-2)\<rparr>"
    unfolding post_lines by code_simp+
  have i: "account_by_id books_accounts 10 = Some (books_account 10 ''asset_cash'')"
    "account_by_id books_accounts 20 = Some (books_account 20 ''liability_payable'')" by code_simp+
  have items: "trial_items books_period books_lines books_accounts [10, 20] =
     [trial_item_of (books_account 10 ''asset_cash'') \<lparr>to_opening = Dec 4000 (-2), to_debit = Dec 6050 (-2), to_credit = Dec 0 0\<rparr> 10,
      trial_item_of (books_account 20 ''liability_payable'') \<lparr>to_opening = Dec (-4000) (-2), to_debit = Dec 0 0, to_credit = Dec 6050 (-2)\<rparr> 20]"
    by (simp add: trial_items_def books_period_def v i List.map_filter_def trial_item_of_def books_account_def)
  have b: "\<not> trial_unreconciled books_period (trial_summary_of (trial_items books_period books_lines books_accounts [10, 20]))"
    unfolding items by code_simp
  let ?items = "trial_items books_period books_lines books_accounts [10, 20]"
  obtain rep where rep: "respond (ask_for books_period) ''r'' \<lparr>dp_start = tr_period_start books_period, dp_end = tr_period_end books_period\<rparr>
      (trial_artifact (ask_for books_period) ''Co'' ''r'' (trial_summary_of ?items)) (trial_summary_of ?items) ?items = Inr rep"
    by (rule exE [OF respond_first [OF ask_for_simps(3)]])
  show ?thesis
    by (simp only: get_trial_balance_def books_move_lines ids books_source_accounts trial_report_def ok b Let_def ask_for_simps
        obind_simps rep if_False if_True simp_thms) simp
qed

lemma trial_balance_refines_ledger_witness:
  "\<exists>rep. get_trial_balance books_adapter (ask_for books_period) ''Co'' ''r'' = Some (Inr rep)
    \<and> summary_row (rt_summary rep) = ledger_of 20000 books_lines \<and> opening_sum 20000 books_lines = 0"
proof -
  from books_trial obtain rep where rep: "get_trial_balance books_adapter (ask_for books_period) ''Co'' ''r'' = Some (Inr rep)" ..
  from trial_balance_refines_ledger [OF rep, of 2] books_plain rep show ?thesis
    by (auto simp: books_move_lines books_period_def)
qed

lemma every_row_is_delivered_witness:
  "\<exists>items. walk (Suc (length items)) (fetch (\<lambda>c. get_trial_balance books_adapter ((ask_for books_period)\<lparr>rd_cursor := c\<rparr>) ''Co'' ''r''))
      None = Some (Inr items) \<and> mset (map ti_account_id items) = {#10, 20#}"
proof -
  have same: "(ask_for books_period)\<lparr>rd_cursor := None\<rparr> = ask_for books_period" by (simp add: ask_for_def)
  from books_trial obtain rep where
    rep: "get_trial_balance books_adapter ((ask_for books_period)\<lparr>rd_cursor := None\<rparr>) ''Co'' ''r'' = Some (Inr rep)"
    unfolding same by blast
  have ids: "trial_account_ids books_period books_lines = [10, 20]" by code_simp
  from every_row_is_delivered [OF rep] ids show ?thesis by (auto simp: books_move_lines)
qed

section \<open>Balance sheet\<close>

definition books_day :: balance_args where
  "books_day = \<lparr>ba_as_of_date = 20030, ba_analytic_account_ids = []\<rparr>"

definition books_items :: "balance_item list" where
  "books_items = [\<lparr>bi_account_id = 10, bi_code = ''C'', bi_name = ''N'', bi_account_type = ''asset_cash'',
      bi_group = G_asset, bi_signed_balance = Dec 10050 (-2)\<rparr>,
    \<lparr>bi_account_id = 20, bi_code = ''C'', bi_name = ''N'', bi_account_type = ''liability_payable'',
      bi_group = G_liability, bi_signed_balance = Dec 10050 (-2)\<rparr>]"

definition books_summary :: balance_summary where
  "books_summary = \<lparr>bs_account_count = 2, bs_total_assets = Dec 10050 (-2), bs_total_liabilities = Dec 10050 (-2),
     bs_equity_account_balance = Dec 0 0, bs_unclosed_earnings = Dec 0 (-2), bs_total_equity = Dec 0 (-2),
     bs_balancing_difference = Dec 0 (-2), bs_is_balanced = True\<rparr>"

lemma books_sheet_accounts: "source_accounts books_adapter 1 books_lines = Some (Inr books_accounts)"
proof -
  have ids: "line_accounts books_lines = [10, 20]" by code_simp
  show ?thesis by (simp add: source_accounts_def ids books_source_accounts) code_simp
qed

lemma books_sheet:
  "\<exists>rep. get_balance_sheet books_adapter (ask_for books_day) 1 ''Co'' ''r'' = Some (Inr rep)
    \<and> rt_items rep = books_items \<and> rt_summary rep = books_summary"
proof -
  have source: "validate_source books_lines None 20030 (Dec 1 (-2)) t = Inr ()" for t
    by code_simp
  have posted: "efold (post_balance []) books_lines [] = Inr [(10, Dec 10050 (-2)), (20, Dec (-10050) (-2))]" by code_simp
  have found: "efold (sheet_account books_accounts (Dec 1 (-2))) [(10, Dec 10050 (-2)), (20, Dec (-10050) (-2))] ([], dzero)
    = Inr (books_items, dzero)" by code_simp
  have order: "sort_key (\<lambda>x. (balance_rank (bi_group x), casefold (bi_code x), bi_account_id x)) books_items = books_items"
    by (simp add: books_items_def)
  have s: "balance_summary_of books_items dzero (Dec 1 (-2)) = Inr books_summary" by code_simp
  have few: "length books_items \<le> rd_limit (ask_for books_day)" by (simp add: books_items_def)
  obtain rep where rep: "respond (ask_for books_day) ''r'' (20030 :: int)
      (balance_artifact (ask_for books_day) ''Co'' ''r'' books_summary) books_summary books_items = Inr rep"
    "rt_items rep = books_items" "rt_summary rep = books_summary"
    using respond_whole [OF ask_for_simps(3) few, where rid = "''r''" and dates = "20030 :: int"
        and art = "balance_artifact (ask_for books_day) ''Co'' ''r'' books_summary" and summary = books_summary]
    by (elim exE conjE) (rule that)
  have fields: "ba_as_of_date books_day = 20030" "ba_analytic_account_ids books_day = []" by (simp_all add: books_day_def)
  have balanced: "bs_is_balanced books_summary" by (simp add: books_summary_def)
  have "balance_report (ask_for books_day) ''Co'' ''r'' (Dec 1 (-2)) books_lines books_accounts = Inr rep"
    by (simp only: balance_report_def ask_for_simps fields posted found order s Let_def rep(1) ebind_simps prod.case balanced
        if_False simp_thms)
  then show ?thesis
    using rep by (simp add: get_balance_sheet_def validate_analytic_accounts_def fields books_currency books_move_lines source books_sheet_accounts)
qed

lemma accounting_equation_witness:
  "\<exists>rep. get_balance_sheet books_adapter (ask_for books_day) 1 ''Co'' ''r'' = Some (Inr rep)
    \<and> dec_val (bs_total_assets (rt_summary rep)) = books books_accounts (in_group G_asset) books_lines
    \<and> books books_accounts (in_group G_asset) books_lines = 10050 / 100
    \<and> dec_val (bs_total_assets (rt_summary rep)) = dec_val (bs_total_liabilities (rt_summary rep)) + dec_val (bs_total_equity (rt_summary rep))"
proof -
  from books_sheet obtain rep where rep: "get_balance_sheet books_adapter (ask_for books_day) 1 ''Co'' ''r'' = Some (Inr rep)" by blast
  have whole: "plain_increment 2 (Dec 1 (-2))" "list_all (\<lambda>l. whole_amount 2 (Dec 1 (-2)) (ml_balance l)) books_lines"
  proof -
    have k: "multiple_of (Dec 1 (-2)) (Dec c (-2))" for c
      unfolding multiple_of_def by (rule exI [of _ c]) (simp add: dec_val_def)
    show "list_all (\<lambda>l. whole_amount 2 (Dec 1 (-2)) (ml_balance l)) books_lines"
      using books_plain by (simp add: books_lines_def books_line_def plain_line_def whole_amount_def k)
  qed (simp add: plain_increment_def on_grid_def)
  have sum: "books books_accounts (in_group G_asset) books_lines = 10050 / 100"
    by (simp add: books_def books_lines_def books_line_def books_accounts_def books_account_def account_in_def in_group_def
        balance_group_of_def starts_with_def dec_val_def power_int_def power_divide income_types_def expense_types_def)
  have day: "ba_analytic_account_ids (rd_args (ask_for books_day)) = []" by (simp add: books_day_def)
  from books_sheet_accounts accounting_equation [OF rep day, of 2] whole show ?thesis
    by (auto simp: books_currency books_move_lines rep sum)
qed

section \<open>Aged payables\<close>

definition books_age :: aging_args where
  "books_age = \<lparr>ag_as_of_date = 20030, ag_partner_ids = []\<rparr>"

definition books_aged :: aging_item where
  "books_aged = \<lparr>gi_partner_id = 3, gi_partner_name = ''Ada'', gi_residual_total = Dec (-1000) (-2),
     gi_buckets = \<lparr>bu_not_yet_due = Dec 0 0, bu_days_1_30 = Dec 0 (-2), bu_days_31_60 = Dec (-1000) (-2), bu_days_61_90 = Dec 0 0,
       bu_days_90_plus = Dec 0 0\<rparr>, gi_oldest_due_date = 19990\<rparr>"

lemma books_aging: "\<exists>rep. get_aged_balance books_adapter (ask_for books_age) ''Co'' ''r'' True = Some (Inr rep)"
proof -
  have items: "aging_items 20030 books_lines [books_partial] = Inr [books_aged]" by code_simp
  have day: "ag_as_of_date books_age = 20030" by (simp add: books_age_def)
  obtain rep where rep: "respond (ask_for books_age) ''r'' (20030 :: int)
      (aging_artifact ''Aged Payables'' (ask_for books_age) ''Co'' ''r'' (aging_summary_of [books_aged]))
      (aging_summary_of [books_aged]) [books_aged] = Inr rep"
    by (rule exE [OF respond_first [OF ask_for_simps(3)]])
  show ?thesis
    by (simp add: get_aged_balance_def books_move_lines books_partials items day rep Let_def)
qed

lemma books_plain_aging: "plain_aging 2 books_lines [books_partial]"
  by (simp add: plain_aging_def books_lines_def books_line_def books_partial_def max_source_records_def fits_def on_grid_def
      dec_val_def amount_unit_def power_int_def power_divide residual_then_def debited_def credited_def)

lemma aged_balance_is_exact_witness:
  "\<exists>rep. get_aged_balance books_adapter (ask_for books_age) ''Co'' ''r'' True = Some (Inr rep)
    \<and> dec_val (gs_residual_total (rt_summary rep)) = (\<Sum>l\<leftarrow>books_lines. residual_then [books_partial] l)"
proof -
  from books_aging obtain rep where rep: "get_aged_balance books_adapter (ask_for books_age) ''Co'' ''r'' True = Some (Inr rep)" ..
  from aged_balance_is_exact [OF rep, of 2] books_plain_aging rep show ?thesis
    by (auto simp: books_move_lines books_partials)
qed

section \<open>Cashbook\<close>





section \<open>Rate history\<close>

definition books_rate :: "int \<Rightarrow> int \<Rightarrow> int option \<Rightarrow> currency_rate" where
  "books_rate i day company = \<lparr>ra_id = i, ra_effective_date = day, ra_currency_id = 2, ra_company_id = company,
     ra_company_rate = Dec 11 (-1), ra_inverse_company_rate = Dec 91 (-2)\<rparr>"

definition books_rates :: "currency_rate list" where
  "books_rates = [books_rate 1 19990 None, books_rate 2 20005 None, books_rate 3 20005 (Some 1)]"

definition rates_adapter :: adapter where
  "rates_adapter = empty_adapter\<lparr>ad_currencies := (\<lambda>c ids. one_page [\<lparr>cy_id = 2, cy_name = ''USD'', cy_rounding = Dec 1 (-2)\<rparr>]),
     ad_rates := (\<lambda>c i day n limit cursor. Inr \<lparr>rg_company_currency = \<lparr>rr_id = 1, rr_name = ''EUR''\<rparr>, rg_root_company_id = 1,
        rg_items = books_rates, rg_next = None\<rparr>)\<rparr>"

definition books_company :: company where
  "books_company = \<lparr>co_id = 1, co_name = ''Co'', co_currency = Some \<lparr>rr_id = 1, rr_name = ''EUR''\<rparr>, co_root_id = Some 1\<rparr>"

definition books_history :: rate_args where
  "books_history = \<lparr>rq_currency_id = 2, rq_period_start = 20000, rq_period_end = 20030\<rparr>"

lemma rates_read: "rates rates_adapter (ask_for books_history) books_company = Some (Inr books_rates)"
  unfolding rates_def
  by (subst drain.simps)
    (simp add: rates_turn_def page_request_def rate_page_size_def rates_adapter_def books_company_def nothing_yet_def
      books_rates_def max_source_records_def Let_def)

lemma books_rate_history:
  "\<exists>h. get_currency_rate_history rates_adapter (ask_for books_history) books_company ''r'' = Some (Inr h)
    \<and> map ri_source_rate_id (rh_items h) = [Some 3]"
proof -
  have c: "requested_currency rates_adapter 1 2 = Inr \<lparr>cy_id = 2, cy_name = ''USD'', cy_rounding = Dec 1 (-2)\<rparr>"
    by (simp add: requested_currency_def ask_def page_request_def rates_adapter_def one_page_def)
  have p: "rate_points 1 20000 20030 books_rates = Inr (Some \<lparr>ri_source_rate_id = Some 1, ri_source_scope = Shared_scope,
       ri_effective_date = 19990, ri_units_per_company_unit = Dec 11 (-1), ri_company_units_per_unit = Dec 91 (-2)\<rparr>,
     [\<lparr>ri_source_rate_id = Some 3, ri_source_scope = Company_scope,
       ri_effective_date = 20005, ri_units_per_company_unit = Dec 11 (-1), ri_company_units_per_unit = Dec 91 (-2)\<rparr>])"
    by code_simp
  show ?thesis
    by (simp add: get_currency_rate_history_def books_company_def books_history_def c p rate_offset_def history_report_def cut_def
        Let_def other_history_def rates_read [unfolded books_company_def books_history_def])
qed

lemma rate_history_is_best_witness:
  "\<exists>h. get_currency_rate_history rates_adapter (ask_for books_history) books_company ''r'' = Some (Inr h)
    \<and> (case rh_effective_at_start h of None \<Rightarrow> False | Some e \<Rightarrow> \<exists>x. in_force 1 books_rates 20000 x \<and> rate_point 1 x = Inr e)"
proof -
  from books_rate_history obtain h where h: "get_currency_rate_history rates_adapter (ask_for books_history) books_company ''r'' = Some (Inr h)" by blast
  have late: "\<not> list_all (\<lambda>y. 20000 < ra_effective_date y) books_rates" by (simp add: books_rates_def books_rate_def)
  have fields: "co_currency books_company = Some \<lparr>rr_id = 1, rr_name = ''EUR''\<rparr>" "co_root_id books_company = Some 1"
    "rq_currency_id books_history \<noteq> 1" "rq_period_start books_history = 20000"
    by (simp_all add: books_company_def books_history_def)
  from rate_history_is_best [OF h fields(1,2)] fields have "case rh_effective_at_start h of
         None \<Rightarrow> list_all (\<lambda>y. 20000 < ra_effective_date y) books_rates
       | Some e \<Rightarrow> \<exists>x. in_force 1 books_rates 20000 x \<and> rate_point 1 x = Inr e"
    by (auto simp: rates_read simp del: split_paired_Ex cong: option.case_cong)
  with h late show ?thesis by (cases "rh_effective_at_start h") auto
qed

end
