(* ===== verification/Journals.thy ===== *)
theory Journals
  imports CursorParts WriteModel
begin

text \<open>
  Journal entries (\<open>workflows/accounting/journals.py\<close>): the listing with its two kinds of cursors, the
  preparation of a draft and of a posting, and what their execution reports. The loops over moves and journals
  do not look at cursors and accept empty pages, so they may go on for ever.
\<close>

section \<open>Loops without checks\<close>

definition bare_turn ::
    "'a source \<Rightarrow> nat \<Rightarrow> nat \<Rightarrow> wf_error \<Rightarrow> nat \<Rightarrow> string option \<Rightarrow> 'a list \<Rightarrow> ('a list \<times> string option) wf" where
  "bare_turn src limit bound too_many n cursor found =
    ebind (ask src n limit cursor) (\<lambda>page.
    let found' = found @ pg_items page in
    if length found' > bound then Inl too_many else Inr (found', pg_next page))"

definition bare_drain :: "'a source \<Rightarrow> nat \<Rightarrow> nat \<Rightarrow> wf_error \<Rightarrow> 'a list wf option" where
  "bare_drain src limit bound too_many = drain (bare_turn src limit bound too_many) 0 None []"

section \<open>Cursors of the listing\<close>

definition encode_cursor :: "string \<Rightarrow> int list \<Rightarrow> string" where
  "encode_cursor kind values = seal_cursor (join '':'' ([''v1'', kind] @ map int_text values))"

definition bad_listing_cursor :: wf_error where
  "bad_listing_cursor = invalid_cursor ''Restart the journal listing without a cursor.''"

definition decode_cursor :: "string option \<Rightarrow> (string \<times> int list) wf" where
  "decode_cursor cursor =
    (case cursor of
       None \<Rightarrow> Inr (''entries'', [0])
     | Some c \<Rightarrow>
        (case open_cursor c of
           None \<Rightarrow> Inl bad_listing_cursor
         | Some t \<Rightarrow>
            (let parts = split_on (CHR '':'') t in
             case those (map py_int (drop 2 parts)) of
               None \<Rightarrow> Inl bad_listing_cursor
             | Some values \<Rightarrow>
                if length parts < 3 \<or> parts ! 0 \<noteq> ''v1'' \<or> parts ! 1 \<notin> {''entries'', ''lines''}
                  \<or> list_ex (\<lambda>v. v < 0) values \<or> (parts ! 1 = ''entries'' \<and> length values \<noteq> 1)
                  \<or> (parts ! 1 = ''lines'' \<and> (length values \<noteq> 2 \<or> values ! 0 \<le> 0 \<or> values ! 1 \<le> 0))
                then Inl bad_listing_cursor
                else Inr (parts ! 1, values))))"

section \<open>Items\<close>

definition bad_distribution :: wf_error where
  "bad_distribution = Mcp (mk_error ODOO_API_ERROR ''Odoo returned an invalid analytic distribution.''
     ''Check the journal entry analytic data and retry.'')"

definition positive_ident :: "string \<Rightarrow> int wf" where
  "positive_ident w = (case py_int w of None \<Rightarrow> Inl bad_distribution | Some i \<Rightarrow> if i \<le> 0 then Inl bad_distribution else Inr i)"

definition analytic_ids :: "(string \<times> decimal) list \<Rightarrow> int list wf" where
  "analytic_ids distribution =
    ebind (emap (\<lambda>(key, _). emap positive_ident (split_on (CHR '','') key)) distribution) (\<lambda>ids.
    Inr (sort (remdups (concat ids))))"

record entry_line_item =
  ei_line_id :: int
  ei_account_id :: int
  ei_account_name :: string
  ei_partner_id :: "int option"
  ei_partner_name :: "string option"
  ei_description :: "string option"
  ei_debit :: decimal
  ei_credit :: decimal
  ei_analytic_ids :: "int list"

record entry_item =
  en_move_id :: int
  en_name :: string
  en_date :: int
  en_journal_id :: int
  en_journal_name :: string
  en_state :: string
  en_reference :: "string option"
  en_currency_id :: int
  en_currency_name :: string
  en_total_debit :: decimal
  en_total_credit :: decimal
  en_lines :: "entry_line_item list"
  en_lines_truncated :: bool
  en_lines_cursor :: "string option"

definition line_page_size :: nat where "line_page_size = 100"

definition line_item :: "journal_entry_line \<Rightarrow> entry_line_item wf" where
  "line_item l =
    ebind (analytic_ids (jl_analytic_distribution l)) (\<lambda>ids.
    Inr \<lparr>ei_line_id = jl_id l, ei_account_id = rr_id (jl_account l), ei_account_name = rr_name (jl_account l),
      ei_partner_id = map_option rr_id (jl_partner l), ei_partner_name = map_option rr_name (jl_partner l),
      ei_description = jl_description l, ei_debit = jl_debit l, ei_credit = jl_credit l, ei_analytic_ids = ids\<rparr>)"

text \<open>The state of an item is one of two literals; another state fails the validation of the item.\<close>

definition item_of_entry :: "journal_entry \<Rightarrow> nat \<Rightarrow> entry_item wf" where
  "item_of_entry entry offset =
    (let lines = take line_page_size (drop offset (je_lines entry)); following = offset + length lines;
         more_lines = following < length (je_lines entry) in
     ebind (emap line_item lines) (\<lambda>items.
     if je_state entry \<notin> {''draft'', ''posted''} then Inl Validation_error
     else Inr \<lparr>en_move_id = je_id entry, en_name = je_name entry, en_date = je_date entry,
       en_journal_id = rr_id (je_journal entry), en_journal_name = rr_name (je_journal entry), en_state = je_state entry,
       en_reference = je_reference entry, en_currency_id = rr_id (je_currency entry),
       en_currency_name = rr_name (je_currency entry), en_total_debit = dsum (map jl_debit (je_lines entry)),
       en_total_credit = dsum (map jl_credit (je_lines entry)), en_lines = items, en_lines_truncated = more_lines,
       en_lines_cursor = (if more_lines then Some (encode_cursor ''lines'' [je_id entry, int following]) else None)\<rparr>))"

section \<open>The listing\<close>

record entries_args =
  ea_period_start :: int
  ea_period_end :: int
  ea_journal_ids :: "int list"
  ea_states :: "string list"

record entries_summary =
  es_entry_count :: nat
  es_draft_count :: nat
  es_posted_count :: nat

definition entries_filters :: "entries_args \<Rightarrow> filter_clause list" where
  "entries_filters a =
    [clause ''move_type'' ''='' (FV_str ''entry''), clause ''date'' ''>='' (FV_date (ea_period_start a)),
     clause ''date'' ''<='' (FV_date (ea_period_end a))]
    @ (if ea_journal_ids a \<noteq> [] then [clause ''journal_id'' ''in'' (FV_ids (ea_journal_ids a))] else [])
    @ [clause ''state'' ''in'' (FV_strs (if ea_states a \<noteq> [] then ea_states a else [''draft'', ''posted'']))]"

definition moves_page_size :: nat where "moves_page_size = 500"

definition listed_moves :: "adapter \<Rightarrow> entries_args read_input \<Rightarrow> account_move list wf option" where
  "listed_moves ad r =
    obind (bare_drain (ad_moves ad (rd_company_id r) (entries_filters (rd_args r))) moves_page_size max_source_records
       (Mcp (mk_error ODOO_API_ERROR ''The journal listing exceeds the safe processing bound.''
          ''Narrow the period or filters and retry.''))) (\<lambda>moves.
    Some (Inr (sort_key (\<lambda>m. (am_date m, am_id m)) moves)))"

definition entries_artifact ::
    "entries_args read_input \<Rightarrow> string \<Rightarrow> entry_item list \<Rightarrow> entries_summary \<Rightarrow> string \<Rightarrow> string" where
  "entries_artifact r company_name items summary request_id =
    (let bar = concat \<circ> map (\<lambda>c. if c = CHR ''|'' then [CHR 0x5C, CHR ''|''] else [c]);
         line = map (\<lambda>c. if c \<in> {CHR 0x0A, CHR 0x0D} then CHR '' '' else c) in
     join newline
      ([''# Journal Entries'', [],
        ''- Period: '' @ isoformat (ea_period_start (rd_args r)) @ '' to '' @ isoformat (ea_period_end (rd_args r)),
        ''- Company: '' @ line (bar company_name) @ '' ('' @ int_text (rd_company_id r) @ '')'',
        ''- Audit reference: `'' @ request_id @ ''`'',
        ''- Whole-report entries: '' @ nat_text (es_entry_count summary), [],
        ''| Date | Entry | Journal | State | Debit | Credit |'', ''|---|---|---|---|---:|---:|'']
       @ map (\<lambda>x. ''| '' @ isoformat (en_date x) @ '' | '' @ bar (en_name x) @ '' | '' @ bar (en_journal_name x) @ '' | ''
           @ en_state x @ '' | '' @ dec_text (en_total_debit x) @ '' | '' @ dec_text (en_total_credit x) @ '' |'') items))"

definition outside_listing :: "string \<Rightarrow> wf_error" where
  "outside_listing message = Mcp (mk_error INVALID_INPUT message ''Restart the journal listing without a cursor.'')"

text \<open>A cursor of lines gives one more page of the lines of one entry of the listing.\<close>

definition more_lines_of ::
    "adapter \<Rightarrow> int \<Rightarrow> account_move list \<Rightarrow> int list \<Rightarrow> (entry_item list \<times> string option) wf" where
  "more_lines_of ad company moves values =
    (if values ! 0 \<notin> set (map am_id moves)
     then Inl (outside_listing ''The line cursor is outside this journal listing.'')
     else ebind (ad_entry ad company (values ! 0)) (\<lambda>entry.
       if nat (values ! 1) \<ge> length (je_lines entry)
       then Inl (outside_listing ''The line cursor is outside this journal entry.'')
       else ebind (item_of_entry entry (nat (values ! 1))) (\<lambda>item. Inr ([item], None))))"

definition entries_page ::
    "adapter \<Rightarrow> entries_args read_input \<Rightarrow> account_move list \<Rightarrow> int list \<Rightarrow> (entry_item list \<times> string option) wf" where
  "entries_page ad r moves values =
    ebind (cut (\<lambda>n. encode_cursor ''entries'' [int n])
        (outside_listing ''The pagination cursor is outside this journal listing.'') moves (rd_limit r) (nat (values ! 0)))
      (\<lambda>(selected, nx).
    ebind (emap (\<lambda>m. ad_entry ad (rd_company_id r) (am_id m)) selected) (\<lambda>entries.
    ebind (emap (\<lambda>e. item_of_entry e 0) entries) (\<lambda>items. Inr (items, nx))))"

definition list_journal_entries ::
    "adapter \<Rightarrow> entries_args read_input \<Rightarrow> string \<Rightarrow> string \<Rightarrow> (date_period, entry_item, entries_summary) report wf option" where
  "list_journal_entries ad r company_name request_id =
    obind (listed_moves ad r) (\<lambda>moves.
    let summary = \<lparr>es_entry_count = length moves, es_draft_count = length (filter (\<lambda>m. am_state m = ''draft'') moves),
          es_posted_count = length (filter (\<lambda>m. am_state m = ''posted'') moves)\<rparr> in
    obind (olift (decode_cursor (rd_cursor r))) (\<lambda>(kind, values).
    obind (olift (if kind = ''lines'' then more_lines_of ad (rd_company_id r) moves values
                  else entries_page ad r moves values)) (\<lambda>(items, nx).
    Some (Inr \<lparr>rt_request_id = request_id, rt_company_id = rd_company_id r,
       rt_dates = \<lparr>dp_start = ea_period_start (rd_args r), dp_end = ea_period_end (rd_args r)\<rparr>,
       rt_items = items, rt_next_cursor = nx, rt_summary = summary,
       rt_artifact_markdown = entries_artifact r company_name items summary request_id\<rparr>))))"

end
