(* ===== verification/JournalWrites.thy ===== *)
theory JournalWrites
  imports Journals
begin

text \<open>
  The two writes on journal entries (\<open>workflows/accounting/journals.py\<close>): a draft is prepared from a request
  whose journal, accounts, partners and analytic accounts are available and whose totals agree at the
  precision of the company currency; the posting of an existing draft is prepared with findings.
\<close>

section \<open>Requests\<close>

record entry_request_line =
  rl_account_id :: int
  rl_partner_id :: "int option"
  rl_description :: "string option"
  rl_debit :: decimal
  rl_credit :: decimal
  rl_analytic_account_id :: "int option"

record entry_request =
  er_company_id :: int
  er_journal_id :: int
  er_entry_date :: int
  er_reference :: "string option"
  er_lines :: "entry_request_line list"

record post_request =
  po_company_id :: int
  po_move_id :: int

section \<open>The company currency\<close>

definition company_rounding :: "adapter \<Rightarrow> int \<Rightarrow> (related \<times> decimal) wf" where
  "company_rounding ad company_id =
    ebind (ad_companies ad) (\<lambda>companies.
    case find_row (\<lambda>c. co_id c = company_id) companies of
      None \<Rightarrow> Inl (Mcp (mk_error ODOO_API_ERROR ''Odoo returned incomplete company currency data.''
                ''Configure the company currency and retry.''))
    | Some company \<Rightarrow>
       (case co_currency company of
          None \<Rightarrow> Inl (Mcp (mk_error ODOO_API_ERROR ''Odoo returned incomplete company currency data.''
                    ''Configure the company currency and retry.''))
        | Some currency \<Rightarrow>
           ebind (ask (ad_currencies ad company_id [rr_id currency]) 0 1 None) (\<lambda>page.
           case pg_items page of
             [c] \<Rightarrow>
               if cy_id c \<noteq> rr_id currency
               then Inl (Mcp (mk_error ODOO_API_ERROR ''Odoo returned incomplete currency precision data.''
                      ''Correct the company currency and retry.''))
               else Inr (currency, cy_rounding c)
           | _ \<Rightarrow> Inl (Mcp (mk_error ODOO_API_ERROR ''Odoo returned incomplete currency precision data.''
                      ''Correct the company currency and retry.'')))))"

section \<open>JSON forms\<close>

definition json_opt_int :: "int option \<Rightarrow> pyval" where
  "json_opt_int v = (case v of None \<Rightarrow> PNone | Some i \<Rightarrow> PInt i)"

definition json_opt_str :: "string option \<Rightarrow> pyval" where
  "json_opt_str v = (case v of None \<Rightarrow> PNone | Some t \<Rightarrow> PStr t)"

definition json_related :: "related \<Rightarrow> pyval" where
  "json_related x = PDict [(''id'', PInt (rr_id x)), (''name'', PStr (rr_name x))]"

definition json_opt_related :: "related option \<Rightarrow> pyval" where
  "json_opt_related v = (case v of None \<Rightarrow> PNone | Some x \<Rightarrow> json_related x)"

definition json_decimal :: "decimal \<Rightarrow> pyval" where
  "json_decimal d = PStr (dec_text d)"

definition json_draft_line :: "journal_entry_draft_line \<Rightarrow> pyval" where
  "json_draft_line l = PDict
    [(''account_id'', PInt (ed_account_id l)), (''partner_id'', json_opt_int (ed_partner_id l)),
     (''description'', json_opt_str (ed_description l)), (''debit'', json_decimal (ed_debit l)),
     (''credit'', json_decimal (ed_credit l)), (''analytic_account_id'', json_opt_int (ed_analytic_account_id l))]"

definition json_draft :: "journal_entry_draft \<Rightarrow> pyval" where
  "json_draft d = PDict
    [(''company_id'', PInt (jd_company_id d)), (''journal_id'', PInt (jd_journal_id d)),
     (''entry_date'', PStr (isoformat (jd_entry_date d))), (''reference'', json_opt_str (jd_reference d)),
     (''lines'', PList (map json_draft_line (jd_lines d)))]"

definition json_journal :: "journal \<Rightarrow> pyval" where
  "json_journal j = PDict
    [(''id'', PInt (jo_id j)), (''name'', PStr (jo_name j)), (''code'', PStr (jo_code j)),
     (''journal_type'', PStr (jo_journal_type j)), (''company_id'', PInt (jo_company_id j)),
     (''currency'', json_opt_related (jo_currency j))]"

definition json_line_item :: "entry_line_item \<Rightarrow> pyval" where
  "json_line_item x = PDict
    [(''line_id'', PInt (ei_line_id x)), (''account_id'', PInt (ei_account_id x)),
     (''account_name'', PStr (ei_account_name x)), (''partner_id'', json_opt_int (ei_partner_id x)),
     (''partner_name'', json_opt_str (ei_partner_name x)), (''description'', json_opt_str (ei_description x)),
     (''debit'', json_decimal (ei_debit x)), (''credit'', json_decimal (ei_credit x)),
     (''analytic_ids'', PList (map PInt (ei_analytic_ids x)))]"

text \<open>\<open>_entry_effect\<close>: the item with all lines, as a mapping.\<close>

definition json_entry_item :: "entry_item \<Rightarrow> pymap" where
  "json_entry_item x =
    [(''move_id'', PInt (en_move_id x)), (''name'', PStr (en_name x)), (''date'', PStr (isoformat (en_date x))),
     (''journal_id'', PInt (en_journal_id x)), (''journal_name'', PStr (en_journal_name x)),
     (''state'', PStr (en_state x)), (''reference'', json_opt_str (en_reference x)),
     (''currency_id'', PInt (en_currency_id x)), (''currency_name'', PStr (en_currency_name x)),
     (''total_debit'', json_decimal (en_total_debit x)), (''total_credit'', json_decimal (en_total_credit x)),
     (''lines'', PList (map json_line_item (en_lines x))), (''lines_truncated'', PBool (en_lines_truncated x)),
     (''lines_cursor'', json_opt_str (en_lines_cursor x))]"

definition entry_effect :: "journal_entry \<Rightarrow> pymap wf" where
  "entry_effect entry =
    ebind (item_of_entry entry 0) (\<lambda>item.
    ebind (emap line_item (je_lines entry)) (\<lambda>lines.
    Inr (json_entry_item (item\<lparr>en_lines := lines, en_lines_truncated := False, en_lines_cursor := None\<rparr>))))"

section \<open>The draft\<close>

text \<open>\<open>JournalEntryDraft(\<dots>)\<close> validates its fields.\<close>

definition draft_line_ok :: "journal_entry_draft_line \<Rightarrow> bool" where
  "draft_line_ok l \<longleftrightarrow> 0 < ed_account_id l \<and> (case ed_partner_id l of None \<Rightarrow> True | Some i \<Rightarrow> 0 < i)
    \<and> \<not> dless (ed_debit l) dzero \<and> \<not> dless (ed_credit l) dzero
    \<and> (case ed_analytic_account_id l of None \<Rightarrow> True | Some i \<Rightarrow> 0 < i)"

definition mk_entry_draft :: "journal_entry_draft \<Rightarrow> journal_entry_draft wf" where
  "mk_entry_draft d =
    (if 0 < jd_company_id d \<and> 0 < jd_journal_id d \<and> 2 \<le> length (jd_lines d) \<and> length (jd_lines d) \<le> 500
        \<and> list_all draft_line_ok (jd_lines d)
     then Inr d else Inl Validation_error)"

text \<open>\<open>x.strip() if x else None\<close>.\<close>

definition stripped :: "string option \<Rightarrow> string option" where
  "stripped v = (case v of None \<Rightarrow> None | Some t \<Rightarrow> if t = [] then None else Some (py_strip t))"

definition draft_of_request :: "entry_request \<Rightarrow> journal_entry_draft" where
  "draft_of_request r =
    \<lparr>jd_company_id = er_company_id r, jd_journal_id = er_journal_id r, jd_entry_date = er_entry_date r,
     jd_reference = stripped (er_reference r),
     jd_lines = map (\<lambda>l. \<lparr>ed_account_id = rl_account_id l, ed_partner_id = rl_partner_id l,
        ed_description = stripped (rl_description l), ed_debit = rl_debit l, ed_credit = rl_credit l,
        ed_analytic_account_id = rl_analytic_account_id l\<rparr>) (er_lines r)\<rparr>"

text \<open>One page with all identifiers, and the set that comes back is compared.\<close>

definition all_present :: "(filter_clause list \<Rightarrow> 'a source) \<Rightarrow> ('a \<Rightarrow> int) \<Rightarrow> wf_error \<Rightarrow> int list \<Rightarrow> unit wf" where
  "all_present src ident missing ids =
    ebind (ask (src [clause ''id'' ''in'' (FV_ids ids)]) 0 (length ids) None) (\<lambda>page.
    if set (map ident (pg_items page)) \<noteq> set ids then Inl missing else Inr ())"

definition nonzero_ids :: "int option list \<Rightarrow> int list" where
  "nonzero_ids vs = sort (remdups (filter (\<lambda>i. i \<noteq> 0) (List.map_filter id vs)))"

definition request_references :: "adapter \<Rightarrow> entry_request \<Rightarrow> unit wf" where
  "request_references ad r =
    (let company = er_company_id r; account_ids = sort (remdups (map rl_account_id (er_lines r)));
         partner_ids = nonzero_ids (map rl_partner_id (er_lines r));
         analytic_ids = nonzero_ids (map rl_analytic_account_id (er_lines r)) in
     ebind (all_present (ad_accounts ad company) ao_id (Mcp (mk_error ACCOUNT_NOT_FOUND
        ''One or more journal accounts are unavailable.'' ''Use exact account IDs from the authorized company.'')) account_ids) (\<lambda>_.
     ebind (if partner_ids = [] then Inr () else all_present (ad_partners ad company) pt_id (Mcp (mk_error INVALID_INPUT
        ''One or more journal partners are unavailable.'' ''Use exact partner IDs from the authorized company.'')) partner_ids) (\<lambda>_.
     if analytic_ids = [] then Inr () else all_present (ad_analytics ad company) (\<lambda>i. i) (Mcp (mk_error INVALID_INPUT
        ''One or more analytic accounts are unavailable.''
        ''Use exact analytic account IDs from the authorized company.'')) analytic_ids)))"

definition journals_page_size :: nat where "journals_page_size = 500"

definition max_journals :: nat where "max_journals = 10000"

definition too_many_journals :: wf_error where
  "too_many_journals = Mcp (mk_error ODOO_API_ERROR ''The journal selection exceeds the safe processing bound.''
     ''Reduce accessible journals or contact the service operator.'')"

definition entry_draft_write ::
    "entry_request \<Rightarrow> journal \<Rightarrow> related \<Rightarrow> decimal \<Rightarrow> (journal_entry_draft \<times> prepared_write) wf" where
  "entry_draft_write r j currency increment =
    (let debit = dsum (map rl_debit (er_lines r)); credit = dsum (map rl_credit (er_lines r)) in
     ebind (rounded debit increment) (\<lambda>d.
     ebind (rounded credit increment) (\<lambda>c.
     if \<not> deq d c
     then Inl (Mcp (mk_error JOURNAL_ENTRY_UNBALANCED ''The journal entry is not balanced at company-currency precision.''
            ''Make total debits equal total credits and retry.''))
     else ebind (mk_entry_draft (draft_of_request r)) (\<lambda>draft.
       Inr (draft,
         \<lparr>pw_proposed_action = [(''action'', PStr ''create_draft_manual_journal_entry''), (''posts_entry'', PBool False)],
          pw_material_effects = [(''draft'', json_draft draft), (''journal'', json_journal j),
            (''currency'', json_related currency), (''total_debit'', json_decimal debit),
            (''total_credit'', json_decimal credit), (''currency_rounding'', json_decimal increment),
            (''balanced'', PBool True)],
          pw_artifact_markdown = None, pw_needs_input = False\<rparr>)))))"

definition prepare_journal_entry_draft ::
    "adapter \<Rightarrow> entry_request \<Rightarrow> (journal_entry_draft \<times> prepared_write) wf option" where
  "prepare_journal_entry_draft ad r =
    obind (bare_drain (ad_journals ad (er_company_id r)) journals_page_size max_journals too_many_journals) (\<lambda>js.
    case find_row (\<lambda>j. jo_id j = er_journal_id r) js of
      None \<Rightarrow> Some (Inl (Mcp (mk_error JOURNAL_NOT_FOUND ''The requested journal is unavailable.''
                ''Use an exact journal ID from the authorized company.'')))
    | Some j \<Rightarrow>
        obind (olift (request_references ad r)) (\<lambda>_.
        obind (olift (company_rounding ad (er_company_id r))) (\<lambda>(currency, increment).
        olift (entry_draft_write r j currency increment))))"

definition move_ref :: "int \<Rightarrow> string" where
  "move_ref i = ''account.move:'' @ int_text i"

definition execute_journal_entry_draft :: "adapter \<Rightarrow> journal_entry_draft \<Rightarrow> applied_write wf" where
  "execute_journal_entry_draft ad draft =
    ebind (ad_create_entry ad draft) (\<lambda>entry.
    ebind (entry_effect entry) (\<lambda>effect.
    Inr \<lparr>aw_material_effects = effect, aw_record_refs = [move_ref (je_id entry)], aw_artifact_markdown = None\<rparr>))"

section \<open>The posting\<close>

definition bad_line_amount :: "journal_entry_line \<Rightarrow> bool" where
  "bad_line_amount l \<longleftrightarrow> dless (jl_debit l) dzero \<or> dless (jl_credit l) dzero
    \<or> (dless dzero (jl_debit l) = dless dzero (jl_credit l))"

definition invalid_entry_response :: "string \<Rightarrow> wf_error" where
  "invalid_entry_response hint = Mcp (mk_error ODOO_API_ERROR ''Odoo returned an invalid journal entry response.'' hint)"

definition post_findings :: "journal_entry \<Rightarrow> decimal \<Rightarrow> string list wf" where
  "post_findings entry increment =
    ebind (rounded (dsum (map jl_debit (je_lines entry))) increment) (\<lambda>d.
    ebind (rounded (dsum (map jl_credit (je_lines entry))) increment) (\<lambda>c.
    Inr ((if length (je_lines entry) < 2 then [''TOO_FEW_LINES''] else [])
      @ (if list_ex bad_line_amount (je_lines entry) then [''LINE_AMOUNT_INVALID''] else [])
      @ (if \<not> deq d c then [''JOURNAL_ENTRY_UNBALANCED''] else []))))"

definition prepare_journal_entry_post :: "adapter \<Rightarrow> post_request \<Rightarrow> (journal_entry \<times> prepared_write) wf" where
  "prepare_journal_entry_post ad r =
    ebind (ad_entry ad (po_company_id r) (po_move_id r)) (\<lambda>entry.
    if je_id entry \<noteq> po_move_id r
    then Inl (invalid_entry_response ''Retry the request or contact the Odoo administrator.'')
    else if je_move_type entry \<noteq> ''entry'' \<or> je_state entry \<noteq> ''draft''
    then Inl (Mcp (mk_error JOURNAL_ENTRY_NOT_DRAFT ''The journal entry is not an eligible draft manual entry.''
           ''Use an existing draft manual journal entry from the authorized company.''))
    else ebind (company_rounding ad (po_company_id r)) (\<lambda>(_, increment).
      ebind (post_findings entry increment) (\<lambda>findings.
      ebind (entry_effect entry) (\<lambda>effect.
      Inr (entry,
        \<lparr>pw_proposed_action = [(''action'', PStr ''post_existing_draft_manual_entry''), (''move_id'', PInt (je_id entry))],
         pw_material_effects = [(''entry'', PDict effect), (''blocking_findings'', PList (map PStr findings))],
         pw_artifact_markdown = None, pw_needs_input = (findings \<noteq> [])\<rparr>)))))"

definition execute_journal_entry_post :: "adapter \<Rightarrow> int \<Rightarrow> int \<Rightarrow> applied_write wf" where
  "execute_journal_entry_post ad company move_id =
    ebind (ad_post_entry ad company move_id) (\<lambda>entry.
    if je_id entry \<noteq> move_id
    then Inl (invalid_entry_response ''Verify the journal entry in Odoo before retrying.'')
    else ebind (entry_effect entry) (\<lambda>effect.
      Inr \<lparr>aw_material_effects = effect, aw_record_refs = [move_ref (je_id entry)], aw_artifact_markdown = None\<rparr>))"

end
