(* ===== verification/JournalProps.thy ===== *)
theory JournalProps
  imports JournalWrites WholeAmounts
begin

text \<open>
  What the journal workflows promise: a prepared draft and a posting without findings balance exactly when
  their amounts are in whole increments of the company currency; other amounts balance up to the rounding that
  the code applies.
\<close>

text \<open>C29 (a prepared journal entry balances). A draft is prepared only with at least two lines, every account of which
  Odoo confirmed, and it asks for exactly the lines of the request; when the amounts are in whole increments
  of the company currency, the debits of the draft equal its credits exactly.\<close>

theorem prepared_entry_balances:
  assumes "prepare_journal_entry_draft ad r = Some (Inr (draft, prepared))"
  shows "draft = draft_of_request r \<and> 2 \<le> length (jd_lines draft) \<and> \<not> pw_needs_input prepared
    \<and> (\<exists>page. ad_accounts ad (er_company_id r) [clause ''id'' ''in'' (FV_ids (sort (remdups (map ed_account_id (jd_lines draft)))))]
          0 (length (remdups (map ed_account_id (jd_lines draft)))) None = Inr page
        \<and> set (map ao_id (pg_items page)) = set (map ed_account_id (jd_lines draft)))
    \<and> (\<exists>currency increment. company_rounding ad (er_company_id r) = Inr (currency, increment)
        \<and> (plain_increment p increment
            \<and> list_all (\<lambda>l. whole_amount p increment (ed_debit l) \<and> whole_amount p increment (ed_credit l)) (jd_lines draft) \<longrightarrow>
           (\<Sum>l\<leftarrow>jd_lines draft. dec_val (ed_debit l)) = (\<Sum>l\<leftarrow>jd_lines draft. dec_val (ed_credit l))))"
proof -
  from assms obtain j currency increment where refs: "request_references ad r = Inr ()"
    and inc: "company_rounding ad (er_company_id r) = Inr (currency, increment)"
    and w: "entry_draft_write r j currency increment = Inr (draft, prepared)"
    by (auto simp: prepare_journal_entry_draft_def obind_Some_Inr split: option.splits)
  from w obtain d c where b: "rounded (dsum (map rl_debit (er_lines r))) increment = Inr d"
    "rounded (dsum (map rl_credit (er_lines r))) increment = Inr c" "deq d c"
    and m: "mk_entry_draft (draft_of_request r) = Inr draft" and n: "\<not> pw_needs_input prepared"
    by (auto simp: entry_draft_write_def Let_def split: if_splits)
  from m have draft: "draft = draft_of_request r" and len: "2 \<le> length (jd_lines draft)" "length (jd_lines draft) \<le> 500"
    by (auto simp: mk_entry_draft_def split: if_splits)
  have acc: "map ed_account_id (jd_lines draft) = map rl_account_id (er_lines r)"
    and amounts: "map ed_debit (jd_lines draft) = map rl_debit (er_lines r)"
      "map ed_credit (jd_lines draft) = map rl_credit (er_lines r)"
    by (simp_all add: draft draft_of_request_def)
  from refs obtain page where page: "ad_accounts ad (er_company_id r)
      [clause ''id'' ''in'' (FV_ids (sort (remdups (map rl_account_id (er_lines r)))))]
      0 (length (remdups (map rl_account_id (er_lines r)))) None = Inr page"
    "set (map ao_id (pg_items page)) = set (map rl_account_id (er_lines r))"
    by (auto simp: request_references_def Let_def all_present_def ask_Inr split: if_splits)
  have "(\<Sum>l\<leftarrow>jd_lines draft. dec_val (ed_debit l)) = (\<Sum>l\<leftarrow>jd_lines draft. dec_val (ed_credit l))"
    if "plain_increment p increment"
      "list_all (\<lambda>l. whole_amount p increment (ed_debit l) \<and> whole_amount p increment (ed_credit l)) (jd_lines draft)"
    by (rule whole_balance [OF that(2) _ that(1) b [folded amounts]]) (use len(2) in \<open>simp add: max_source_records_def\<close>)
  with page draft len(1) n inc show ?thesis unfolding acc by blast
qed

text \<open>C30 (a posting without findings is sound). When the posting of an entry is prepared and asks for no input, the entry
  is the requested one, a draft, and manual, has at least two lines, each on exactly one side and with no
  negative amount, and when the amounts are in whole increments its debits equal its credits exactly.\<close>

theorem clear_posting_is_sound:
  assumes "prepare_journal_entry_post ad r = Inr (entry, prepared)" "\<not> pw_needs_input prepared"
  shows "je_id entry = po_move_id r \<and> je_move_type entry = ''entry'' \<and> je_state entry = ''draft'' \<and> 2 \<le> length (je_lines entry)
    \<and> list_all (\<lambda>l. 0 \<le> dec_val (jl_debit l) \<and> 0 \<le> dec_val (jl_credit l)
        \<and> (dec_val (jl_debit l) = 0 \<longleftrightarrow> dec_val (jl_credit l) \<noteq> 0)) (je_lines entry)
    \<and> (\<exists>currency increment. company_rounding ad (po_company_id r) = Inr (currency, increment)
        \<and> (plain_increment p increment \<and> length (je_lines entry) \<le> max_source_records
            \<and> list_all (\<lambda>l. whole_amount p increment (jl_debit l) \<and> whole_amount p increment (jl_credit l)) (je_lines entry) \<longrightarrow>
           (\<Sum>l\<leftarrow>je_lines entry. dec_val (jl_debit l)) = (\<Sum>l\<leftarrow>je_lines entry. dec_val (jl_credit l))))"
proof -
  from assms(1) obtain currency increment findings where e: "je_id entry = po_move_id r" "je_move_type entry = ''entry''"
    "je_state entry = ''draft''" and inc: "company_rounding ad (po_company_id r) = Inr (currency, increment)"
    and f: "post_findings entry increment = Inr findings" and n: "pw_needs_input prepared = (findings \<noteq> [])"
    by (auto simp: prepare_journal_entry_post_def split: if_splits)
  from f n assms(2) obtain d c where b: "rounded (dsum (map jl_debit (je_lines entry))) increment = Inr d"
    "rounded (dsum (map jl_credit (je_lines entry))) increment = Inr c" "deq d c"
    and len: "2 \<le> length (je_lines entry)" and good: "\<not> list_ex bad_line_amount (je_lines entry)"
    by (auto simp: post_findings_def split: if_splits)
  from good have sides: "list_all (\<lambda>l. 0 \<le> dec_val (jl_debit l) \<and> 0 \<le> dec_val (jl_credit l)
        \<and> (dec_val (jl_debit l) = 0 \<longleftrightarrow> dec_val (jl_credit l) \<noteq> 0)) (je_lines entry)"
    by (fastforce simp: list_ex_iff list_all_iff bad_line_amount_def dless_val)
  have "(\<Sum>l\<leftarrow>je_lines entry. dec_val (jl_debit l)) = (\<Sum>l\<leftarrow>je_lines entry. dec_val (jl_credit l))"
    if "plain_increment p increment" "length (je_lines entry) \<le> max_source_records"
      "list_all (\<lambda>l. whole_amount p increment (jl_debit l) \<and> whole_amount p increment (jl_credit l)) (je_lines entry)"
    by (rule whole_balance [OF that(3,2,1) b])
  with e len sides inc show ?thesis by blast
qed

end
