(* ===== verification/JournalPages.thy ===== *)
theory JournalPages
  imports JournalProps
begin

text \<open>
  The pages of the journal listing: its cursors come back, the lines of a long entry are delivered whole, and the
  listing ends when every continued page brings an entry, but not for every adapter.
\<close>

section \<open>Cursors\<close>

lemma plain_text_parts: "list_all plain_part ([''v1'', kind] @ map int_text vs) \<longleftrightarrow> plain_part kind"
  by (induction vs) (simp_all add: between_def)

lemma py_int_int_text: "0 \<le> i \<Longrightarrow> py_int (int_text i) = Some i"
  using py_int_nat_text [of "nat i"] by (simp add: int_text_def)

lemma those_int_text: "list_all (\<lambda>i. 0 \<le> i) vs \<Longrightarrow> those (map (py_int \<circ> int_text) vs) = Some vs"
  by (induction vs) (simp_all add: py_int_int_text)

lemma decode_encode:
  assumes "(kind = ''entries'' \<and> (\<exists>n. vs = [n] \<and> 0 \<le> n)) \<or> (kind = ''lines'' \<and> (\<exists>i n. vs = [i, n] \<and> 0 < i \<and> 0 < n))"
  shows "decode_cursor (Some (encode_cursor kind vs)) = Inr (kind, vs)"
proof -
  have "plain_part kind" using assms by (auto simp: between_def)
  then obtain t where t: "open_cursor (encode_cursor kind vs) = Some t"
    "split_on (CHR '':'') t = [''v1'', kind] @ map int_text vs"
    using open_parts [of "[''v1'', kind] @ map int_text vs"] plain_text_parts unfolding encode_cursor_def by blast
  have "list_all (\<lambda>i. 0 \<le> i) vs" using assms by auto
  with those_int_text have "those (map py_int (drop 2 (split_on (CHR '':'') t))) = Some vs" by (simp add: t(2))
  with assms t show ?thesis by (auto simp: decode_cursor_def Let_def)
qed

text \<open>Sections of a list behind cursors.\<close>

lemma walk_sections:
  assumes "\<And>n. n < length items \<or> n = 0 \<Longrightarrow> page (if n = 0 then None else Some (cursor_of n))
      = Inr (take limit (drop n items), if n + limit < length items then Some (cursor_of (n + limit)) else None)"
    "0 < limit"
  shows "walk (Suc (length items)) page None = Some (Inr items)"
proof -
  have "walk k page (if n = 0 then None else Some (cursor_of n)) = Some (Inr (drop n items))"
    if "n < length items \<or> n = 0" "length items - n < k" for k n
    using that
  proof (induction k arbitrary: n)
    case (Suc k)
    note page = assms(1) [OF Suc.prems(1)]
    show ?case
    proof (cases "n + limit < length items")
      case True
      with Suc.prems assms(2) have "walk k page (Some (cursor_of (n + limit))) = Some (Inr (drop (n + limit) items))"
        using Suc.IH [of "n + limit"] by simp
      moreover have "take limit (drop n items) @ drop (n + limit) items = drop n items"
        using append_take_drop_id [of limit "drop n items"] by (simp add: add.commute)
      ultimately show ?thesis using True unfolding walk.simps page by simp
    next
      case False
      then show ?thesis unfolding walk.simps page by simp
    qed
  qed simp
  from this [of 0 "Suc (length items)"] show ?thesis by (simp del: walk.simps)
qed

section \<open>Long entries\<close>

text \<open>The first page of lines is the item of the entry, the others are asked for with its cursors.\<close>

definition line_pages ::
    "adapter \<Rightarrow> entries_args read_input \<Rightarrow> string \<Rightarrow> string \<Rightarrow> entry_item \<Rightarrow> string option \<Rightarrow>
      (entry_line_item list \<times> string option) wf" where
  "line_pages ad r name rid item cursor =
    (case cursor of
       None \<Rightarrow> Inr (en_lines item, en_lines_cursor item)
     | Some c \<Rightarrow>
         ebind (the (list_journal_entries ad (r\<lparr>rd_cursor := Some c\<rparr>) name rid)) (\<lambda>rep.
         Inr (concat (map en_lines (rt_items rep)),
           (case rt_items rep of [x] \<Rightarrow> en_lines_cursor x | _ \<Rightarrow> None))))"

lemma emap_take: "emap f xs = Inr ys \<Longrightarrow> emap f (take n xs) = Inr (take n ys)"
  by (induction xs arbitrary: ys n) (auto simp: take_Cons split: nat.splits)

lemma emap_drop: "emap f xs = Inr ys \<Longrightarrow> emap f (drop n xs) = Inr (drop n ys)"
  by (induction xs arbitrary: ys n) (auto simp: drop_Cons split: nat.splits)

lemma item_section:
  assumes "item_of_entry entry 0 = Inr item" "emap line_item (je_lines entry) = Inr lines" "n < length lines \<or> n = 0"
  shows "\<exists>x. item_of_entry entry n = Inr x \<and> en_lines x = take line_page_size (drop n lines)
    \<and> en_lines_cursor x = (if n + line_page_size < length lines
         then Some (encode_cursor ''lines'' [je_id entry, int (n + line_page_size)]) else None)"
proof -
  let ?ls = "take line_page_size (drop n (je_lines entry))"
  have e: "emap line_item ?ls = Inr (take line_page_size (drop n lines))"
    by (rule emap_take [OF emap_drop [OF assms(2)]])
  have s: "je_state entry \<in> {''draft'', ''posted''}"
    using assms(1) by (auto simp: item_of_entry_def Let_def split: if_splits)
  have len: "length (je_lines entry) = length lines" using emap_length [OF assms(2)] by simp
  have m: "(n + length ?ls < length (je_lines entry)) = (n + line_page_size < length lines)"
    using assms(3) len by auto
  have k: "n + line_page_size < length lines \<Longrightarrow> n + length ?ls = n + line_page_size" using len by simp
  show ?thesis using s m k by (auto simp: item_of_entry_def Let_def e)
qed

text \<open>C31 (a long entry is delivered whole). A client that follows the line cursors of an entry of the listing gets all
  its lines, in order and once, however many they are.\<close>

theorem long_entry_is_delivered:
  assumes "listed_moves ad r = Some (Inr moves)" "je_id entry \<in> set (map am_id moves)" "0 < je_id entry"
    "ad_entry ad (rd_company_id r) (je_id entry) = Inr entry" "item_of_entry entry 0 = Inr item"
    "emap line_item (je_lines entry) = Inr lines"
  shows "walk (Suc (length lines)) (line_pages ad r name rid item) None = Some (Inr lines)"
proof (rule walk_sections [where limit = line_page_size and cursor_of = "\<lambda>n. encode_cursor ''lines'' [je_id entry, int n]"])
  fix n
  assume n: "n < length lines \<or> n = 0"
  note sec = item_section [OF assms(5,6) n]
  show "line_pages ad r name rid item (if n = 0 then None else Some (encode_cursor ''lines'' [je_id entry, int n]))
      = Inr (take line_page_size (drop n lines),
         if n + line_page_size < length lines then Some (encode_cursor ''lines'' [je_id entry, int (n + line_page_size)]) else None)"
  proof (cases "n = 0")
    case True
    with sec assms(5) show ?thesis by (auto simp: line_pages_def)
  next
    case False
    with n have len: "n < length (je_lines entry)" using emap_length [OF assms(6)] by simp
    from sec obtain x where x: "item_of_entry entry n = Inr x" "en_lines x = take line_page_size (drop n lines)"
      "en_lines_cursor x = (if n + line_page_size < length lines
         then Some (encode_cursor ''lines'' [je_id entry, int (n + line_page_size)]) else None)" by blast
    have c: "decode_cursor (Some (encode_cursor ''lines'' [je_id entry, int n])) = Inr (''lines'', [je_id entry, int n])"
      using False assms(3) by (intro decode_encode) simp
    have moves: "listed_moves ad (r\<lparr>rd_cursor := c\<rparr>) = Some (Inr moves)" for c
      using assms(1) by (simp add: listed_moves_def)
    have more: "more_lines_of ad (rd_company_id r) moves [je_id entry, int n] = Inr ([x], None)"
      using assms(2,4) len x(1) by (simp add: more_lines_of_def)
    show ?thesis using False x(2,3) by (simp add: line_pages_def list_journal_entries_def moves c more Let_def)
  qed
qed (simp add: line_page_size_def)

section \<open>Does the listing end\<close>

text \<open>A source whose continued pages bring an item.\<close>

definition progresses :: "'a source \<Rightarrow> bool" where
  "progresses src \<longleftrightarrow> (\<forall>n limit cursor page. src n limit cursor = Inr page \<longrightarrow> pg_next page \<noteq> None \<longrightarrow> pg_items page \<noteq> [])"

lemma bare_ends: "progresses src \<Longrightarrow> bare_drain src limit bound too_many \<noteq> None"
proof -
  assume p: "progresses src"
  have "growing_loop (bare_turn src limit bound too_many) length bound"
    using p by unfold_locales (auto simp: bare_turn_def Let_def ask_Inr progresses_def split: if_splits)
  then show ?thesis unfolding bare_drain_def by (rule growing_loop.drain_ends)
qed

text \<open>When every continued page of moves, and of
  journals, brings an item, the listing of entries and the preparation of a draft come to an end, with a
  result or an error.\<close>

theorem journal_calls_end:
  assumes "progresses (ad_moves ad (rd_company_id r) (entries_filters (rd_args r)))" "progresses (ad_journals ad (er_company_id q))"
  shows "list_journal_entries ad r name rid \<noteq> None \<and> prepare_journal_entry_draft ad q \<noteq> None"
proof
  have "listed_moves ad r \<noteq> None"
    unfolding listed_moves_def by (intro ends bare_ends assms)
  then show "list_journal_entries ad r name rid \<noteq> None"
    unfolding list_journal_entries_def Let_def split_def by (intro ends)
  show "prepare_journal_entry_draft ad q \<noteq> None"
    unfolding prepare_journal_entry_draft_def split_def by (intro ends bare_ends assms)
qed

text \<open>Empty pages that are continued for ever keep both calls from returning: neither loop looks at them.\<close>

definition endless :: "'a source" where
  "endless n limit cursor = Inr \<lparr>pg_items = [], pg_next = Some ''again''\<rparr>"

lemma bare_forever: "0 < limit \<Longrightarrow> limit \<le> 500 \<Longrightarrow> bare_drain endless limit bound too_many = None"
  unfolding bare_drain_def
  by (rule drain_forever [where P = "\<lambda>c s. s = [] \<and> (c = None \<or> c = Some ''again'')"])
    (auto simp: bare_turn_def ask_def page_request_def endless_def)

lemma journal_calls_may_run_forever:
  assumes "ad_moves ad (rd_company_id r) (entries_filters (rd_args r)) = endless" "ad_journals ad (er_company_id q) = endless"
  shows "list_journal_entries ad r name rid = None \<and> prepare_journal_entry_draft ad q = None"
  using assms
  by (simp add: bare_forever list_journal_entries_def listed_moves_def prepare_journal_entry_draft_def moves_page_size_def
      journals_page_size_def obind_def)

end
