(* ===== verification/JournalDemo.thy ===== *)
theory JournalDemo
  imports JournalPages
begin

text \<open>The theorems on journal entries applied to one small entry.\<close>

definition demo_entry :: journal_entry where
  "demo_entry = \<lparr>je_id = 5, je_name = ''E'', je_move_type = ''entry'', je_state = ''draft'', je_date = 20000,
     je_journal = \<lparr>rr_id = 7, rr_name = ''Misc''\<rparr>, je_company_id = 1, je_currency = \<lparr>rr_id = 1, rr_name = ''EUR''\<rparr>,
     je_reference = None,
     je_lines = [\<lparr>jl_id = 1, jl_account = \<lparr>rr_id = 10, rr_name = ''A''\<rparr>, jl_partner = None, jl_description = None,
         jl_debit = Dec 1250 (-2), jl_credit = Dec 0 0, jl_analytic_distribution = [(''4'', Dec 100 0)]\<rparr>,
       \<lparr>jl_id = 2, jl_account = \<lparr>rr_id = 20, rr_name = ''B''\<rparr>, jl_partner = None, jl_description = None,
         jl_debit = Dec 0 0, jl_credit = Dec 125 (-1), jl_analytic_distribution = []\<rparr>]\<rparr>"

definition demo_move :: account_move where
  "demo_move = \<lparr>am_id = 5, am_name = ''E'', am_move_type = ''entry'', am_state = ''draft'', am_date = 20000,
     am_invoice_date = None, am_invoice_date_due = None, am_partner = None, am_journal = \<lparr>rr_id = 7, rr_name = ''Misc''\<rparr>,
     am_company_id = 1, am_currency = \<lparr>rr_id = 1, rr_name = ''EUR''\<rparr>, am_amount_total = Dec 0 0, am_amount_residual = Dec 0 0,
     am_amount_residual_company = None, am_payment_state = None, am_reference = None\<rparr>"

definition demo_account :: "int \<Rightarrow> account" where
  "demo_account i = \<lparr>ao_id = i, ao_code = ''C'', ao_name = ''N'', ao_account_type = ''expense'', ao_company_ids = [1],
     ao_currency = None, ao_reconcile = False\<rparr>"

definition demo_journals :: adapter where
  "demo_journals = empty_adapter\<lparr>ad_journals := (\<lambda>c. one_page [\<lparr>jo_id = 7, jo_name = ''Misc'', jo_code = ''M'',
        jo_journal_type = ''general'', jo_company_id = 1, jo_currency = None\<rparr>]),
     ad_moves := (\<lambda>c f. one_page [demo_move]), ad_accounts := (\<lambda>c f. one_page [demo_account 10, demo_account 20]),
     ad_currencies := (\<lambda>c ids. one_page [\<lparr>cy_id = 1, cy_name = ''EUR'', cy_rounding = Dec 1 (-2)\<rparr>]),
     ad_companies := Inr [\<lparr>co_id = 1, co_name = ''Co'', co_currency = Some \<lparr>rr_id = 1, rr_name = ''EUR''\<rparr>, co_root_id = Some 1\<rparr>],
     ad_entry := (\<lambda>c i. Inr demo_entry)\<rparr>"

definition demo_entry_request :: entry_request where
  "demo_entry_request = \<lparr>er_company_id = 1, er_journal_id = 7, er_entry_date = 20000, er_reference = Some '' ref '',
     er_lines = [\<lparr>rl_account_id = 10, rl_partner_id = None, rl_description = None, rl_debit = Dec 1250 (-2), rl_credit = Dec 0 0,
         rl_analytic_account_id = None\<rparr>,
       \<lparr>rl_account_id = 20, rl_partner_id = None, rl_description = None, rl_debit = Dec 0 0, rl_credit = Dec 125 (-1),
         rl_analytic_account_id = None\<rparr>]\<rparr>"

lemma demo_rounding: "company_rounding demo_journals 1 = Inr (\<lparr>rr_id = 1, rr_name = ''EUR''\<rparr>, Dec 1 (-2))"
  by (simp add: company_rounding_def demo_journals_def ask_def page_request_def one_page_def)

lemma demo_whole: "whole_amount 2 (Dec 1 (-2)) (Dec 1250 (-2))" "whole_amount 2 (Dec 1 (-2)) (Dec 125 (-1))"
  "whole_amount 2 (Dec 1 (-2)) (Dec 0 0)" "plain_increment 2 (Dec 1 (-2))"
proof -
  show "whole_amount 2 (Dec 1 (-2)) (Dec 1250 (-2))"
    by (simp add: whole_amount_def multiple_of_def fits_def on_grid_def dec_val_def amount_unit_def power_int_def power_divide)
  show "whole_amount 2 (Dec 1 (-2)) (Dec 125 (-1))"
    by (simp add: whole_amount_def multiple_of_def fits_def on_grid_def dec_val_def amount_unit_def power_int_def power_divide)
  show "whole_amount 2 (Dec 1 (-2)) (Dec 0 0)" "plain_increment 2 (Dec 1 (-2))"
    by (simp_all add: whole_amount_def plain_increment_def multiple_of_def fits_def on_grid_def dec_val_def)
qed

lemma demo_bare:
  "length xs \<le> bound \<Longrightarrow> 0 < limit \<Longrightarrow> limit \<le> 500 \<Longrightarrow> bare_drain (one_page xs) limit bound e = Some (Inr xs)"
  unfolding bare_drain_def by (subst drain.simps) (simp add: bare_turn_def ask_def page_request_def one_page_def Let_def)

lemma demo_prepared:
  "\<exists>prepared. prepare_journal_entry_draft demo_journals demo_entry_request = Some (Inr (draft_of_request demo_entry_request, prepared))"
proof -
  have req: "er_company_id demo_entry_request = 1" "er_journal_id demo_entry_request = 7" by (simp_all add: demo_entry_request_def)
  have js: "bare_drain (ad_journals demo_journals 1) journals_page_size max_journals too_many_journals
    = Some (Inr [\<lparr>jo_id = 7, jo_name = ''Misc'', jo_code = ''M'', jo_journal_type = ''general'', jo_company_id = 1, jo_currency = None\<rparr>])"
    by (simp add: demo_journals_def demo_bare journals_page_size_def max_journals_def)
  have refs: "request_references demo_journals demo_entry_request = Inr ()" by code_simp
  have d: "rounded (dsum (map rl_debit (er_lines demo_entry_request))) (Dec 1 (-2)) = Inr (Dec 1250 (-2))"
    "rounded (dsum (map rl_credit (er_lines demo_entry_request))) (Dec 1 (-2)) = Inr (Dec 1250 (-2))" by code_simp+
  have m: "mk_entry_draft (draft_of_request demo_entry_request) = Inr (draft_of_request demo_entry_request)" by code_simp
  show ?thesis
    by (simp add: prepare_journal_entry_draft_def req js refs demo_rounding entry_draft_write_def d m Let_def deq_val)
qed

lemma prepared_entry_balances_witness:
  "\<exists>draft prepared. prepare_journal_entry_draft demo_journals demo_entry_request = Some (Inr (draft, prepared))
    \<and> (\<Sum>l\<leftarrow>jd_lines draft. dec_val (ed_debit l)) = (\<Sum>l\<leftarrow>jd_lines draft. dec_val (ed_credit l))"
proof -
  from demo_prepared obtain prepared where
    p: "prepare_journal_entry_draft demo_journals demo_entry_request = Some (Inr (draft_of_request demo_entry_request, prepared))" ..
  have w: "list_all (\<lambda>l. whole_amount 2 (Dec 1 (-2)) (ed_debit l) \<and> whole_amount 2 (Dec 1 (-2)) (ed_credit l))
      (jd_lines (draft_of_request demo_entry_request))"
    by (simp add: draft_of_request_def demo_entry_request_def demo_whole)
  have c: "er_company_id demo_entry_request = 1" by (simp add: demo_entry_request_def)
  from prepared_entry_balances [OF p, of 2] p w demo_whole(4) show ?thesis by (auto simp: c demo_rounding)
qed

definition demo_post :: post_request where "demo_post = \<lparr>po_company_id = 1, po_move_id = 5\<rparr>"

lemma demo_posted: "\<exists>prepared. prepare_journal_entry_post demo_journals demo_post = Inr (demo_entry, prepared) \<and> \<not> pw_needs_input prepared"
proof -
  have e: "ad_entry demo_journals 1 5 = Inr demo_entry" by (simp add: demo_journals_def)
  have f: "post_findings demo_entry (Dec 1 (-2)) = Inr []" by code_simp
  obtain effect where x: "entry_effect demo_entry = Inr effect"
  proof -
    have i: "positive_ident ''4'' = Inr 4" by code_simp
    then have "\<exists>effect. entry_effect demo_entry = Inr effect"
      by (simp add: entry_effect_def item_of_entry_def demo_entry_def Let_def line_page_size_def line_item_def analytic_ids_def)
    then show thesis using that by blast
  qed
  show ?thesis
    by (simp add: prepare_journal_entry_post_def demo_post_def e demo_rounding f x) (simp add: demo_entry_def)
qed

lemma clear_posting_is_sound_witness:
  "\<exists>prepared. prepare_journal_entry_post demo_journals demo_post = Inr (demo_entry, prepared) \<and> \<not> pw_needs_input prepared
    \<and> (\<Sum>l\<leftarrow>je_lines demo_entry. dec_val (jl_debit l)) = (\<Sum>l\<leftarrow>je_lines demo_entry. dec_val (jl_credit l))"
proof -
  from demo_posted obtain prepared where p: "prepare_journal_entry_post demo_journals demo_post = Inr (demo_entry, prepared)"
    "\<not> pw_needs_input prepared" by blast
  have w: "list_all (\<lambda>l. whole_amount 2 (Dec 1 (-2)) (jl_debit l) \<and> whole_amount 2 (Dec 1 (-2)) (jl_credit l)) (je_lines demo_entry)"
    "length (je_lines demo_entry) \<le> max_source_records"
    by (simp_all add: demo_entry_def demo_whole max_source_records_def)
  from clear_posting_is_sound [OF p, of 2] p w demo_whole(4) show ?thesis by (auto simp: demo_post_def demo_rounding)
qed

definition demo_listing :: "entries_args read_input" where
  "demo_listing = \<lparr>rd_company_id = 1, rd_limit = 100, rd_cursor = None,
     rd_args = \<lparr>ea_period_start = 19990, ea_period_end = 20030, ea_journal_ids = [], ea_states = []\<rparr>\<rparr>"

lemma long_entry_is_delivered_witness:
  "\<exists>item lines. walk 3 (line_pages demo_journals demo_listing ''Co'' ''r'' item) None = Some (Inr lines) \<and> length lines = 2"
proof -
  have moves: "listed_moves demo_journals demo_listing = Some (Inr [demo_move])"
    by (simp add: listed_moves_def demo_journals_def demo_bare moves_page_size_def max_source_records_def)
  have e: "ad_entry demo_journals (rd_company_id demo_listing) (je_id demo_entry) = Inr demo_entry" "je_id demo_entry = 5"
    by (simp_all add: demo_journals_def demo_entry_def)
  have i: "positive_ident ''4'' = Inr 4" by code_simp
  obtain item where item: "item_of_entry demo_entry 0 = Inr item"
    using i by (simp add: item_of_entry_def demo_entry_def Let_def line_page_size_def line_item_def analytic_ids_def)
  obtain lines where lines: "emap line_item (je_lines demo_entry) = Inr lines"
    using i by (simp add: demo_entry_def line_item_def analytic_ids_def)
  have len: "length lines = 2" using emap_length [OF lines] by (simp add: demo_entry_def)
  have "walk (Suc (length lines)) (line_pages demo_journals demo_listing ''Co'' ''r'' item) None = Some (Inr lines)"
    by (rule long_entry_is_delivered [OF moves _ _ e(1) item lines]) (simp_all add: e(2) demo_move_def)
  with len show ?thesis by (auto simp: numeral_3_eq_3 simp del: walk.simps)
qed

lemma journal_calls_end_witness:
  "list_journal_entries demo_journals demo_listing ''Co'' ''r'' \<noteq> None
    \<and> prepare_journal_entry_draft demo_journals demo_entry_request \<noteq> None"
  by (rule journal_calls_end) (simp_all add: progresses_def demo_journals_def one_page_def)

end
