(* ===== verification/Invoicing.thy ===== *)
theory Invoicing
  imports Aging JournalWrites
begin

text \<open>
  The open invoices and bills of \<open>workflows/accounting/invoicing.py\<close>: posted documents up to a date with their
  residuals as of the date, in the company currency and in the currency of the document. The loop over
  documents refuses a cursor that comes twice, the loops over lines and reconciliations only one that comes
  twice in a row.
\<close>

section \<open>Reading\<close>

definition invalid_input :: "string \<Rightarrow> string \<Rightarrow> wf_error" where
  "invalid_input message remediation = Mcp (mk_error INVALID_INPUT message remediation)"

definition too_many_documents :: wf_error where
  "too_many_documents = Mcp (mk_error ODOO_API_ERROR ''The invoice listing exceeds the safe processing bound.''
     ''Narrow the requested date or partner selection.'')"

definition incompatible :: "string \<Rightarrow> wf_error" where
  "incompatible message = Mcp (mk_error ODOO_API_ERROR message ''Check Odoo compatibility and retry.'')"

text \<open>\<open>repeated\<close> looks at the cursor of this page, the earlier ones and the next one.\<close>

definition document_turn ::
    "'a source \<Rightarrow> (string option \<Rightarrow> string list \<Rightarrow> string \<Rightarrow> bool) \<Rightarrow> wf_error \<Rightarrow> nat \<Rightarrow> string option \<Rightarrow> 'a drained \<Rightarrow>
      ('a drained \<times> string option) wf" where
  "document_turn src repeated bad_page n cursor s =
    ebind (ask src n source_page_size cursor) (\<lambda>page.
    let s' = s\<lparr>dr_result := dr_result s @ pg_items page\<rparr> in
    if length (dr_result s') > max_source_records then Inl too_many_documents
    else case pg_next page of
        None \<Rightarrow> Inr (s', None)
      | Some c \<Rightarrow> if repeated cursor (dr_seen_cursors s') c then Inl bad_page
                 else Inr (s'\<lparr>dr_seen_cursors := c # dr_seen_cursors s'\<rparr>, Some c))"

definition seen_before :: "string option \<Rightarrow> string list \<Rightarrow> string \<Rightarrow> bool" where
  "seen_before cursor seen c \<longleftrightarrow> c \<in> set seen"

definition same_again :: "string option \<Rightarrow> string list \<Rightarrow> string \<Rightarrow> bool" where
  "same_again cursor seen c \<longleftrightarrow> cursor = Some c"

definition all_moves :: "adapter \<Rightarrow> int \<Rightarrow> filter_clause list \<Rightarrow> account_move list wf option" where
  "all_moves ad company filters =
    obind (drain (document_turn (ad_moves ad company filters) seen_before (incompatible ''Odoo returned an invalid invoice page.''))
       0 None nothing_yet) (\<lambda>s. Some (Inr (dr_result s)))"

definition all_move_lines :: "adapter \<Rightarrow> int \<Rightarrow> filter_clause list \<Rightarrow> move_line list wf option" where
  "all_move_lines ad company filters =
    obind (drain (document_turn (ad_move_lines ad company filters) same_again
       (incompatible ''Odoo returned an invalid invoice-line page.'')) 0 None nothing_yet) (\<lambda>s. Some (Inr (dr_result s)))"

definition all_partials :: "adapter \<Rightarrow> int \<Rightarrow> filter_clause list \<Rightarrow> partial_reconciliation list wf option" where
  "all_partials ad company filters =
    obind (drain (document_turn (ad_partials ad company filters) same_again
       (incompatible ''Odoo returned an invalid reconciliation page.'')) 0 None nothing_yet) (\<lambda>s. Some (Inr (dr_result s)))"

text \<open>\<open>_cursor_offset\<close>: exactly one colon.\<close>

definition document_offset :: "string option \<Rightarrow> nat wf" where
  "document_offset cursor =
    (case cursor of
       None \<Rightarrow> Inr 0
     | Some c \<Rightarrow>
        (case open_cursor c of
           None \<Rightarrow> Inl (invalid_cursor ''Restart without a cursor.'')
         | Some t \<Rightarrow>
            (case split_on (CHR '':'') t of
               [version, raw] \<Rightarrow>
                 (case py_int raw of
                    None \<Rightarrow> Inl (invalid_cursor ''Restart without a cursor.'')
                  | Some i \<Rightarrow> if version \<noteq> ''v1'' \<or> i \<le> 0 then Inl (invalid_cursor ''Restart without a cursor.'')
                             else Inr (nat i))
             | _ \<Rightarrow> Inl (invalid_cursor ''Restart without a cursor.''))))"

section \<open>Residuals as of the date\<close>

text \<open>The residual per line in the currency of the document; the amounts of the two sides may differ.\<close>

definition currency_residuals :: "move_line list \<Rightarrow> int \<Rightarrow> decimal option" where
  "currency_residuals lines = fold (\<lambda>l m. m(ml_id l \<mapsto> ml_residual_currency l)) lines (\<lambda>_. None)"

definition undo_currency :: "partial_reconciliation \<Rightarrow> (int \<Rightarrow> decimal option) \<Rightarrow> int \<Rightarrow> decimal option" where
  "undo_currency q m =
    (let d = rr_id (pa_debit_move_line q); c = rr_id (pa_credit_move_line q);
         m' = (case m d of None \<Rightarrow> m | Some x \<Rightarrow> m(d \<mapsto> dadd x (pa_debit_amount_currency q)))
     in case m' c of None \<Rightarrow> m' | Some x \<Rightarrow> m'(c \<mapsto> dsub x (pa_credit_amount_currency q)))"

definition currency_residuals_as_of :: "move_line list \<Rightarrow> partial_reconciliation list \<Rightarrow> int \<Rightarrow> decimal option" where
  "currency_residuals_as_of lines ps = fold undo_currency ps (currency_residuals lines)"

text \<open>The sums per document: company currency and document currency.\<close>

definition post_residual ::
    "int set \<Rightarrow> (int \<Rightarrow> decimal option) \<Rightarrow> (int \<Rightarrow> decimal option) \<Rightarrow> move_line \<Rightarrow> (int \<Rightarrow> decimal) \<times> (int \<Rightarrow> decimal) \<Rightarrow>
      ((int \<Rightarrow> decimal) \<times> (int \<Rightarrow> decimal)) wf" where
  "post_residual move_ids company currency l acc =
    (case acc of (by_company, by_currency) \<Rightarrow>
     let m = rr_id (ml_move l) in
     if m \<notin> move_ids then Inl (incompatible ''Odoo returned an invoice line outside the requested documents.'')
     else case (company (ml_id l), currency (ml_id l)) of
         (Some x, Some y) \<Rightarrow> Inr (by_company(m := dadd (by_company m) x), by_currency(m := dadd (by_currency m) y))
       | _ \<Rightarrow> Inl Key_error)"

section \<open>Documents\<close>

record open_args =
  oa_as_of_date :: int
  oa_partner_ids :: "int list"
  oa_overdue_only :: bool

record open_document =
  od_move_id :: int
  od_partner_id :: int
  od_partner_name :: string
  od_number :: string
  od_invoice_date :: int
  od_due_date :: "int option"
  od_currency_id :: int
  od_currency_name :: string
  od_amount_total :: decimal
  od_residual_currency :: decimal
  od_residual_company :: decimal
  od_payment_state :: string
  od_overdue_days :: int

record currency_total =
  ct_currency_id :: int
  ct_currency_name :: string
  ct_residual :: decimal

record open_summary =
  op_document_count :: nat
  op_currency_totals :: "currency_total list"
  op_company_residual :: decimal

definition days_overdue :: "int \<Rightarrow> int option \<Rightarrow> int" where
  "days_overdue as_of due = (case due of None \<Rightarrow> 0 | Some d \<Rightarrow> max (as_of - d) 0)"

text \<open>One document: an error, nothing, or a row.\<close>

definition open_document_of ::
    "open_args \<Rightarrow> string \<Rightarrow> (int \<Rightarrow> decimal) \<Rightarrow> (int \<Rightarrow> decimal) \<Rightarrow> account_move \<Rightarrow> open_document option wf" where
  "open_document_of a move_type by_company by_currency m =
    (case am_invoice_date m of
       None \<Rightarrow> Inl (incompatible ''Odoo returned inconsistent invoice data.'')
     | Some invoice_date \<Rightarrow>
        if am_state m \<noteq> ''posted'' \<or> am_move_type m \<noteq> move_type
        then Inl (incompatible ''Odoo returned inconsistent invoice data.'')
        else (case am_partner m of
           None \<Rightarrow> Inl (Mcp (mk_error ODOO_API_ERROR ''Odoo returned an invoice without a partner.''
                     ''Correct the invoice and retry.''))
         | Some partner \<Rightarrow>
            (let company_residual = dabs (by_company (am_id m)); record_residual = dabs (by_currency (am_id m));
                 overdue = days_overdue (oa_as_of_date a) (am_invoice_date_due m) in
             if deq company_residual dzero \<and> deq record_residual dzero then Inr None
             else if oa_overdue_only a \<and> overdue = 0 then Inr None
             else Inr (Some \<lparr>od_move_id = am_id m, od_partner_id = rr_id partner, od_partner_name = rr_name partner,
               od_number = am_name m, od_invoice_date = invoice_date, od_due_date = am_invoice_date_due m,
               od_currency_id = rr_id (am_currency m), od_currency_name = rr_name (am_currency m),
               od_amount_total = am_amount_total m, od_residual_currency = record_residual,
               od_residual_company = company_residual,
               od_payment_state = (if \<not> dless record_residual (dabs (am_amount_total m)) then ''not_paid'' else ''partial''),
               od_overdue_days = overdue\<rparr>))))"

text \<open>\<open>date.max\<close> is 9999-12-31.\<close>

definition latest_day :: int where "latest_day = 2932896"

definition open_documents ::
    "open_args \<Rightarrow> string \<Rightarrow> account_move list \<Rightarrow> move_line list \<Rightarrow> partial_reconciliation list \<Rightarrow> open_document list wf" where
  "open_documents a move_type moves lines ps =
    ebind (efold (post_residual (set (map am_id moves)) (residuals_as_of lines ps) (currency_residuals_as_of lines ps)) lines
       (\<lambda>_. dzero, \<lambda>_. dzero)) (\<lambda>(by_company, by_currency).
    ebind (emap (open_document_of a move_type by_company by_currency) moves) (\<lambda>found.
    Inr (sort_key (\<lambda>x. (case od_due_date x of None \<Rightarrow> latest_day | Some d \<Rightarrow> d, od_move_id x)) (List.map_filter id found))))"

text \<open>The totals per currency, by identifier and name.\<close>

fun put_total :: "open_document \<Rightarrow> currency_total list \<Rightarrow> currency_total list" where
  "put_total x [] = [\<lparr>ct_currency_id = od_currency_id x, ct_currency_name = od_currency_name x,
     ct_residual = dadd dzero (od_residual_currency x)\<rparr>]"
| "put_total x (t # ts) =
    (if ct_currency_id t = od_currency_id x \<and> ct_currency_name t = od_currency_name x
     then t\<lparr>ct_residual := dadd (ct_residual t) (od_residual_currency x)\<rparr> # ts else t # put_total x ts)"

definition open_summary_of :: "open_document list \<Rightarrow> open_summary" where
  "open_summary_of items =
    \<lparr>op_document_count = length items,
     op_currency_totals = sort_key (\<lambda>t. (ct_currency_id t, ct_currency_name t)) (fold put_total items []),
     op_company_residual = dsum (map od_residual_company items)\<rparr>"

definition open_artifact ::
    "bool \<Rightarrow> open_args read_input \<Rightarrow> string \<Rightarrow> string \<Rightarrow> open_summary \<Rightarrow> open_document list \<Rightarrow> string" where
  "open_artifact bills r company_name request_id summary items =
    join newline
     ([''# '' @ (if bills then ''Open Supplier Bills'' else ''Open Customer Invoices''), [],
       ''- Company: '' @ company_name @ '' ('' @ int_text (rd_company_id r) @ '')'',
       ''- As of: '' @ isoformat (oa_as_of_date (rd_args r)),
       ''- Audit reference: `'' @ request_id @ ''`'', [],
       ''| ID | Number | Partner | Due | Residual | Currency | Overdue days |'', ''|---:|---|---|---|---:|---|---:|'']
      @ map (\<lambda>x. ''| '' @ int_text (od_move_id x) @ '' | '' @ od_number x @ '' | '' @ od_partner_name x @ '' | ''
          @ (case od_due_date x of None \<Rightarrow> [] | Some d \<Rightarrow> isoformat d) @ '' | '' @ dec_text (od_residual_currency x) @ '' | ''
          @ od_currency_name x @ '' | '' @ int_text (od_overdue_days x) @ '' |'') items
      @ [[], ''Whole-report documents: '' @ nat_text (op_document_count summary) @ ''.''])"

definition document_filters :: "open_args \<Rightarrow> string \<Rightarrow> filter_clause list" where
  "document_filters a move_type =
    [clause ''state'' ''='' (FV_str ''posted''), clause ''move_type'' ''='' (FV_str move_type),
     clause ''invoice_date'' ''<='' (FV_date (oa_as_of_date a))]
    @ (if oa_partner_ids a \<noteq> [] then [clause ''partner_id'' ''in'' (FV_ids (oa_partner_ids a))] else [])"

definition document_page ::
    "bool \<Rightarrow> open_args read_input \<Rightarrow> string \<Rightarrow> string \<Rightarrow> open_document list \<Rightarrow> (int, open_document, open_summary) report wf" where
  "document_page bills r company_name request_id items =
    (let summary = open_summary_of items in
     ebind (document_offset (rd_cursor r)) (\<lambda>offset.
     ebind (cut next_cursor (invalid_input ''The pagination cursor is outside this report.'' ''Restart without a cursor.'')
        items (rd_limit r) offset) (\<lambda>(selected, nx).
     Inr \<lparr>rt_request_id = request_id, rt_company_id = rd_company_id r, rt_dates = oa_as_of_date (rd_args r),
          rt_items = selected, rt_next_cursor = nx, rt_summary = summary,
          rt_artifact_markdown = open_artifact bills r company_name request_id summary selected\<rparr>)))"

definition list_open_documents ::
    "adapter \<Rightarrow> open_args read_input \<Rightarrow> bool \<Rightarrow> string \<Rightarrow> string \<Rightarrow> (int, open_document, open_summary) report wf option" where
  "list_open_documents ad r bills company_name request_id =
    (let a = rd_args r; company = rd_company_id r; move_type = (if bills then ''in_invoice'' else ''out_invoice'');
         account_type = (if bills then ''liability_payable'' else ''asset_receivable'') in
     obind (all_moves ad company (document_filters a move_type)) (\<lambda>moves.
     obind (if moves = [] then Some (Inr [])
            else all_move_lines ad company [clause ''move_id'' ''in'' (FV_ids (map am_id moves)),
              clause ''account_id.account_type'' ''='' (FV_str account_type)]) (\<lambda>lines.
     obind (all_partials ad company [clause ''max_date'' ''>'' (FV_date (oa_as_of_date a))]) (\<lambda>ps.
     obind (olift (open_documents a move_type moves lines ps)) (\<lambda>items.
     olift (document_page bills r company_name request_id items))))))"

end
