(* ===== verification/InvoiceWrites.thy ===== *)
theory InvoiceWrites
  imports Invoicing Statements
begin

text \<open>
  The writes on invoices and bills (\<open>workflows/accounting/invoicing.py\<close>): a draft whose references are
  available, the findings of a validation, the preparation of a credit note, and the choice of the route of a
  payment.
\<close>

section \<open>Requests\<close>

record invoice_request_line =
  vl_description :: string
  vl_quantity :: decimal
  vl_unit_price :: decimal
  vl_account_id :: int
  vl_product_id :: "int option"
  vl_analytic_account_id :: "int option"

record invoice_request =
  iq_company_id :: int
  iq_partner_id :: int
  iq_invoice_date :: int
  iq_lines :: "invoice_request_line list"
  iq_currency_id :: "int option"
  iq_payment_term_id :: "int option"
  iq_analytic_account_id :: "int option"
  iq_vendor_reference :: "string option"

record validate_request =
  va_invoice_id :: int
  va_company_id :: int

record credit_request =
  cn_company_id :: int
  cn_original_move_id :: int
  cn_credit_date :: int
  cn_reason :: string

record payment_request =
  py_invoice_id :: int
  py_company_id :: int
  py_payment_date :: int
  py_amount :: "decimal option"
  py_journal_id :: "int option"
  py_method_line_id :: "int option"

section \<open>The references of a draft\<close>

definition one_partner :: "adapter \<Rightarrow> int \<Rightarrow> int \<Rightarrow> bool \<Rightarrow> partner wf" where
  "one_partner ad company partner_id supplier =
    ebind (ask (ad_partners ad company [clause ''id'' ''='' (FV_id partner_id)]) 0 2 None) (\<lambda>page.
    case pg_items page of
      [p] \<Rightarrow>
        if (supplier \<and> pt_supplier_rank p \<le> 0) \<or> (\<not> supplier \<and> pt_customer_rank p \<le> 0)
        then Inl (invalid_input ''The partner does not have the required accounting role.''
               ''Use a customer for invoices or supplier for bills.'')
        else Inr p
    | _ \<Rightarrow> Inl (invalid_input ''The partner is unavailable.'' ''Use an exact authorized partner ID.''))"

definition invoice_line_ok :: "invoice_draft_line \<Rightarrow> bool" where
  "invoice_line_ok l \<longleftrightarrow> dless dzero (id_quantity l) \<and> \<not> dless (id_unit_price l) dzero \<and> 0 < id_account_id l
    \<and> (case id_product_id l of None \<Rightarrow> True | Some i \<Rightarrow> 0 < i)
    \<and> (case id_analytic_account_id l of None \<Rightarrow> True | Some i \<Rightarrow> 0 < i)"

text \<open>\<open>InvoiceDraft(\<dots>)\<close> validates its fields.\<close>

definition positive_option :: "int option \<Rightarrow> bool" where
  "positive_option v \<longleftrightarrow> (case v of None \<Rightarrow> True | Some i \<Rightarrow> 0 < i)"

definition mk_invoice_draft :: "invoice_draft \<Rightarrow> invoice_draft wf" where
  "mk_invoice_draft d =
    (if 0 < df_company_id d \<and> df_move_type d \<in> {''out_invoice'', ''in_invoice''} \<and> 0 < df_partner_id d
        \<and> df_lines d \<noteq> [] \<and> length (df_lines d) \<le> 500 \<and> list_all invoice_line_ok (df_lines d)
        \<and> positive_option (df_currency_id d) \<and> positive_option (df_payment_term_id d)
        \<and> positive_option (df_analytic_account_id d)
     then Inr d else Inl Validation_error)"

definition invoice_of_request :: "invoice_request \<Rightarrow> bool \<Rightarrow> invoice_draft" where
  "invoice_of_request r supplier =
    \<lparr>df_company_id = iq_company_id r, df_move_type = (if supplier then ''in_invoice'' else ''out_invoice''),
     df_partner_id = iq_partner_id r, df_invoice_date = iq_invoice_date r,
     df_lines = map (\<lambda>l. \<lparr>id_description = py_strip (vl_description l), id_quantity = vl_quantity l,
        id_unit_price = vl_unit_price l, id_account_id = vl_account_id l, id_product_id = vl_product_id l,
        id_analytic_account_id = vl_analytic_account_id l\<rparr>) (iq_lines r),
     df_currency_id = iq_currency_id r, df_payment_term_id = iq_payment_term_id r,
     df_analytic_account_id = iq_analytic_account_id r, df_vendor_reference = stripped (iq_vendor_reference r)\<rparr>"

definition analytic_references :: "invoice_request \<Rightarrow> int list" where
  "analytic_references r =
    sort (remdups (List.map_filter id (iq_analytic_account_id r # map vl_analytic_account_id (iq_lines r))))"

definition applicable_accounts :: "adapter \<Rightarrow> int \<Rightarrow> bool \<Rightarrow> int list \<Rightarrow> unit wf" where
  "applicable_accounts ad company supplier ids =
    ebind (ask (ad_accounts ad company [clause ''id'' ''in'' (FV_ids ids)]) 0 (length ids) None) (\<lambda>page.
    if set (map ao_id (pg_items page)) \<noteq> set ids
      \<or> list_ex (\<lambda>a. \<not> starts_with (if supplier then ''expense'' else ''income'') (ao_account_type a)) (pg_items page)
    then Inl (invalid_input ''An invoice account is invalid.'' ''Use an applicable exact account ID.'') else Inr ())"

definition requested_terms :: "adapter \<Rightarrow> int \<Rightarrow> int option \<Rightarrow> unit wf" where
  "requested_terms ad company term_id =
    (case term_id of
       None \<Rightarrow> Inr ()
     | Some i \<Rightarrow> ebind (ask (ad_terms ad company) 0 500 None) (\<lambda>page.
         if i \<notin> set (map tm_id (pg_items page))
         then Inl (invalid_input ''The payment term is unavailable.'' ''Use an exact payment-term ID.'') else Inr ()))"

definition invoice_currency :: "adapter \<Rightarrow> int \<Rightarrow> int option \<Rightarrow> unit wf" where
  "invoice_currency ad company currency_id =
    (case currency_id of
       None \<Rightarrow> Inr ()
     | Some i \<Rightarrow> ebind (ask (ad_currencies ad company [i]) 0 1 None) (\<lambda>page.
         if length (pg_items page) \<noteq> 1
         then Inl (invalid_input ''The currency is unavailable.'' ''Use an exact currency ID.'') else Inr ()))"

definition validate_draft_references :: "adapter \<Rightarrow> invoice_request \<Rightarrow> bool \<Rightarrow> invoice_draft wf" where
  "validate_draft_references ad r supplier =
    (let company = iq_company_id r; product_ids = nonzero_ids (map vl_product_id (iq_lines r));
         account_ids = sort (remdups (map vl_account_id (iq_lines r))); analytics = analytic_references r in
     ebind (one_partner ad company (iq_partner_id r) supplier) (\<lambda>_.
     ebind (if product_ids = [] then Inr () else all_present (ad_products ad company) pr_product_id
        (invalid_input ''A product is unavailable.'' ''Use exact authorized product IDs.'') product_ids) (\<lambda>_.
     ebind (applicable_accounts ad company supplier account_ids) (\<lambda>_.
     ebind (if analytics = [] then Inr () else all_present (ad_analytics ad company) (\<lambda>i. i)
        (invalid_input ''An analytic account is unavailable.'' ''Use an exact analytic ID.'') analytics) (\<lambda>_.
     ebind (invoice_currency ad company (iq_currency_id r)) (\<lambda>_.
     ebind (requested_terms ad company (iq_payment_term_id r)) (\<lambda>_.
     mk_invoice_draft (invoice_of_request r supplier))))))))"

section \<open>JSON forms\<close>

text \<open>\<open>exclude_none\<close> leaves out the fields that are not set, at every level.\<close>

definition without_none :: "pymap \<Rightarrow> pymap" where
  "without_none d = filter (\<lambda>(_, v). v \<noteq> PNone) d"

definition json_invoice_line :: "invoice_draft_line \<Rightarrow> pyval" where
  "json_invoice_line l = PDict (without_none
    [(''description'', PStr (id_description l)), (''quantity'', json_decimal (id_quantity l)),
     (''unit_price'', json_decimal (id_unit_price l)), (''account_id'', PInt (id_account_id l)),
     (''product_id'', json_opt_int (id_product_id l)), (''analytic_account_id'', json_opt_int (id_analytic_account_id l))])"

definition json_invoice :: "invoice_draft \<Rightarrow> pyval" where
  "json_invoice d = PDict (without_none
    [(''company_id'', PInt (df_company_id d)), (''move_type'', PStr (df_move_type d)), (''partner_id'', PInt (df_partner_id d)),
     (''invoice_date'', PStr (isoformat (df_invoice_date d))), (''lines'', PList (map json_invoice_line (df_lines d))),
     (''currency_id'', json_opt_int (df_currency_id d)), (''payment_term_id'', json_opt_int (df_payment_term_id d)),
     (''analytic_account_id'', json_opt_int (df_analytic_account_id d)), (''vendor_reference'', json_opt_str (df_vendor_reference d))])"

definition json_tax :: "invoice_tax \<Rightarrow> pyval" where
  "json_tax t = PDict [(''id'', PInt (tx_id t)), (''name'', PStr (tx_name t)), (''amount'', json_decimal (tx_amount t))]"

definition json_effect_line :: "invoice_line_effect \<Rightarrow> pyval" where
  "json_effect_line l = PDict
    [(''id'', PInt (il_id l)), (''description'', PStr (il_description l)), (''quantity'', json_decimal (il_quantity l)),
     (''unit_price'', json_decimal (il_unit_price l)), (''subtotal'', json_decimal (il_subtotal l)),
     (''total'', json_decimal (il_total l)), (''taxes'', PList (map json_tax (il_taxes l))),
     (''analytic_distribution'', PDict (map (\<lambda>(k, d). (k, json_decimal d)) (il_analytic_distribution l)))]"

definition json_schedule :: "payment_schedule_line \<Rightarrow> pyval" where
  "json_schedule s = PDict [(''due_date'', PStr (isoformat (sc_due_date s))), (''amount'', json_decimal (sc_amount s))]"

definition json_opt_date :: "int option \<Rightarrow> pyval" where
  "json_opt_date v = (case v of None \<Rightarrow> PNone | Some d \<Rightarrow> PStr (isoformat d))"

text \<open>\<open>_effect\<close>: all fields but the validation lines.\<close>

definition invoice_effect_map :: "invoice_effect \<Rightarrow> pymap" where
  "invoice_effect_map e =
    [(''id'', PInt (ie_id e)), (''name'', PStr (ie_name e)), (''move_type'', PStr (ie_move_type e)),
     (''state'', PStr (ie_state e)), (''company_id'', PInt (ie_company_id e)), (''partner'', json_related (ie_partner e)),
     (''invoice_date'', PStr (isoformat (ie_invoice_date e))), (''due_date'', json_opt_date (ie_due_date e)),
     (''journal'', json_related (ie_journal e)), (''fiscal_position'', json_opt_related (ie_fiscal_position e)),
     (''currency'', json_related (ie_currency e)), (''payment_term'', json_opt_related (ie_payment_term e)),
     (''amount_untaxed'', json_decimal (ie_amount_untaxed e)), (''amount_tax'', json_decimal (ie_amount_tax e)),
     (''amount_total'', json_decimal (ie_amount_total e)), (''amount_residual'', json_decimal (ie_amount_residual e)),
     (''payment_state'', json_opt_str (ie_payment_state e)), (''taxes'', PList (map json_tax (ie_taxes e))),
     (''lines'', PList (map json_effect_line (ie_lines e))),
     (''payment_schedule'', PList (map json_schedule (ie_payment_schedule e)))]"

section \<open>A draft\<close>

definition deferred_invoice_fields :: "string list" where
  "deferred_invoice_fields = [''journal_id'', ''fiscal_position_id'', ''currency_id'', ''taxes'', ''total'']"

definition prepare_invoice_draft ::
    "adapter \<Rightarrow> invoice_request \<Rightarrow> bool \<Rightarrow> (invoice_draft \<times> prepared_write) wf" where
  "prepare_invoice_draft ad r supplier =
    ebind (validate_draft_references ad r supplier) (\<lambda>draft.
    let subtotals = map (\<lambda>l. dmul (id_quantity l) (id_unit_price l)) (df_lines draft);
        known = [(''calculation_status'', PStr ''deferred_to_execution''), (''proposed_draft'', json_invoice draft),
            (''input_subtotals'', PList (map json_decimal subtotals)),
            (''input_subtotal_total'', json_decimal (dsum subtotals))]
          @ (case df_currency_id draft of None \<Rightarrow> [] | Some i \<Rightarrow> [(''requested_currency_id'', PInt i)])
    in Inr (draft,
      \<lparr>pw_proposed_action = [(''action'', PStr (if supplier then ''create_draft_supplier_bill'' else ''create_draft_customer_invoice'')),
          (''posts_document'', PBool False)],
       pw_material_effects = [(''known_effects'', PDict known),
          (''deferred_fields'', PList (map PStr deferred_invoice_fields))],
       pw_artifact_markdown = Some (join newline
         [''# Proposed '' @ (if supplier then ''Supplier Bill'' else ''Customer Invoice''), [],
          ''Input subtotal only; Odoo calculation is deferred to explicit draft creation.'',
          ''Input subtotal total: '' @ dec_text (dsum subtotals),
          ''Deferred fields: '' @ join '', '' deferred_invoice_fields]),
       pw_needs_input = False\<rparr>))"

definition execute_invoice_draft :: "adapter \<Rightarrow> invoice_draft \<Rightarrow> applied_write wf" where
  "execute_invoice_draft ad draft =
    ebind (ad_create_invoice ad draft) (\<lambda>effect.
    Inr \<lparr>aw_material_effects = invoice_effect_map effect, aw_record_refs = [move_ref (ie_id effect)], aw_artifact_markdown = None\<rparr>)"

section \<open>A validation\<close>

text \<open>\<open>or\<close> and \<open>any\<close> over tests that may fail: the first true one decides.\<close>

definition or_else :: "bool wf \<Rightarrow> bool wf \<Rightarrow> bool wf" where
  "or_else m k = ebind m (\<lambda>b. if b then Inr True else k)"

fun any_of :: "('a \<Rightarrow> bool wf) \<Rightarrow> 'a list \<Rightarrow> bool wf" where
  "any_of f [] = Inr False"
| "any_of f (x # xs) = or_else (f x) (any_of f xs)"

definition differs :: "decimal \<Rightarrow> decimal \<Rightarrow> decimal \<Rightarrow> bool wf" where
  "differs increment a b = ebind (rounded a increment) (\<lambda>x. ebind (rounded b increment) (\<lambda>y. Inr (\<not> deq x y)))"

definition not_rounded_zero :: "decimal \<Rightarrow> decimal \<Rightarrow> bool wf" where
  "not_rounded_zero increment a = ebind (rounded a increment) (\<lambda>x. Inr (\<not> deq x dzero))"

definition postable_lines :: "invoice_effect \<Rightarrow> invoice_validation_line list" where
  "postable_lines e = filter (\<lambda>l. iv_display_type l \<notin> {Some ''line_section'', Some ''line_note''}) (ie_validation_lines e)"

definition product_lines :: "invoice_effect \<Rightarrow> invoice_validation_line list" where
  "product_lines e = filter (\<lambda>l. iv_display_type l \<in> {None, Some ''product''}) (ie_validation_lines e)"

definition unbalanced :: "decimal \<Rightarrow> invoice_validation_line list \<Rightarrow> bool wf" where
  "unbalanced increment ls =
    or_else (differs increment (dsum (map iv_debit ls)) (dsum (map iv_credit ls)))
    (or_else (not_rounded_zero increment (dsum (map iv_balance ls)))
      (any_of (\<lambda>l. differs increment (dsub (iv_debit l) (iv_credit l)) (iv_balance l)) ls))"

definition foreign_line :: "invoice_effect \<Rightarrow> invoice_validation_line \<Rightarrow> bool" where
  "foreign_line e l \<longleftrightarrow> \<not> deq (iv_amount_currency l) dzero
    \<and> (case iv_currency l of None \<Rightarrow> True | Some c \<Rightarrow> rr_id c \<noteq> rr_id (ie_currency e))"

definition finding :: "string \<Rightarrow> bool \<Rightarrow> string list" where
  "finding name found = (if found then [name] else [])"

text \<open>The increments of the company currency and of the currency of the document.\<close>

definition validation_findings :: "invoice_effect \<Rightarrow> decimal \<Rightarrow> decimal \<Rightarrow> string list wf" where
  "validation_findings e company document =
    (let ls = postable_lines e; ps = product_lines e in
     ebind (unbalanced company ls) (\<lambda>b.
     ebind (or_else (differs document (dsum (map (dabs \<circ> iv_subtotal) ps)) (dabs (ie_amount_untaxed e)))
        (differs document (dsum (map (dabs \<circ> iv_total) ps)) (dabs (ie_amount_total e)))) (\<lambda>t.
     ebind (differs document (dadd (dabs (ie_amount_untaxed e)) (dabs (ie_amount_tax e))) (dabs (ie_amount_total e))) (\<lambda>x.
     Inr (finding ''NO_POSTABLE_LINES'' (ls = []) @ finding ''LINE_ACCOUNT_MISSING'' (list_ex (\<lambda>l. iv_account l = None) ls)
       @ finding ''ENTRY_UNBALANCED'' b @ finding ''CURRENCY_INCONSISTENT'' (list_ex (foreign_line e) ls)
       @ finding ''TOTAL_ARITHMETIC_MISMATCH'' t @ finding ''TAX_ARITHMETIC_MISMATCH'' x)))))"

definition last_currency :: "currency list \<Rightarrow> int \<Rightarrow> currency option" where
  "last_currency cs i = find_row (\<lambda>c. cy_id c = i) (rev cs)"

definition validation_increments :: "adapter \<Rightarrow> int \<Rightarrow> invoice_effect \<Rightarrow> (decimal \<times> decimal) wf" where
  "validation_increments ad company_id e =
    ebind (ad_companies ad) (\<lambda>companies.
    case find_row (\<lambda>c. co_id c = company_id) companies of
      None \<Rightarrow> Inl (Mcp (mk_error ODOO_API_ERROR ''Odoo returned incomplete company currency data.''
                ''Correct the authorized company currency and retry.''))
    | Some company \<Rightarrow>
       (case co_currency company of
          None \<Rightarrow> Inl (Mcp (mk_error ODOO_API_ERROR ''Odoo returned incomplete company currency data.''
                    ''Correct the authorized company currency and retry.''))
        | Some currency \<Rightarrow>
           (let ids = (if rr_id currency = rr_id (ie_currency e) then [rr_id currency]
                       else [rr_id currency, rr_id (ie_currency e)]) in
            ebind (ask (ad_currencies ad company_id ids) 0 (length ids) None) (\<lambda>page.
            case (set (map cy_id (pg_items page)) = set ids, last_currency (pg_items page) (rr_id currency),
                last_currency (pg_items page) (rr_id (ie_currency e))) of
              (True, Some c, Some d) \<Rightarrow> Inr (cy_rounding c, cy_rounding d)
            | _ \<Rightarrow> Inl (Mcp (mk_error ODOO_API_ERROR ''Odoo returned incomplete currency precision data.''
                      ''Correct the configured currencies and retry.''))))))"

definition prepare_validation :: "adapter \<Rightarrow> validate_request \<Rightarrow> (invoice_effect \<times> prepared_write) wf" where
  "prepare_validation ad r =
    ebind (ad_effect ad (va_company_id r) (va_invoice_id r)) (\<lambda>e.
    if ie_state e \<noteq> ''draft'' \<or> ie_move_type e \<notin> {''out_invoice'', ''in_invoice'', ''out_refund'', ''in_refund''}
    then Inl (Mcp (mk_error ODOO_STATE_CONFLICT ''The document is not an eligible draft invoice, bill, or credit note.''
           ''Refresh the document and submit an eligible draft.''))
    else ebind (validation_increments ad (va_company_id r) e) (\<lambda>(company, document).
      ebind (validation_findings e company document) (\<lambda>findings.
      Inr (e,
        \<lparr>pw_proposed_action = [(''action'', PStr ''post_existing_draft''), (''invoice_id'', PInt (ie_id e))],
         pw_material_effects = [(''invoice'', PDict (invoice_effect_map e)),
           (''blocking_validation_findings'', PList (map PStr findings)),
           (''validation_status'', PStr (if findings \<noteq> [] then ''blocked'' else ''locally_clear_with_deferred_checks'')),
           (''deferred_checks'', PList [PStr ''odoo_posting_constraints''])],
         pw_artifact_markdown = None, pw_needs_input = (findings \<noteq> [])\<rparr>))))"

section \<open>A credit note\<close>

definition prepare_credit_note :: "adapter \<Rightarrow> credit_request \<Rightarrow> (invoice_effect \<times> prepared_write) wf" where
  "prepare_credit_note ad r =
    ebind (ad_effect ad (cn_company_id r) (cn_original_move_id r)) (\<lambda>e.
    if ie_state e \<noteq> ''posted'' \<or> ie_move_type e \<notin> {''out_invoice'', ''in_invoice''}
    then Inl (Mcp (mk_error ODOO_STATE_CONFLICT ''The original document is not an eligible posted invoice or bill.''
           ''Use one posted customer invoice or supplier bill.''))
    else Inr (e,
      \<lparr>pw_proposed_action = [(''action'', PStr ''create_linked_draft_credit_note''), (''original_move_id'', PInt (ie_id e)),
         (''posts_document'', PBool False)],
       pw_material_effects = [(''original'', PDict (invoice_effect_map e)), (''reason'', PStr (py_strip (cn_reason r)))],
       pw_artifact_markdown = None, pw_needs_input = False\<rparr>))"

section \<open>A payment\<close>

definition json_route :: "payment_route \<Rightarrow> pyval" where
  "json_route x = PDict
    [(''journal'', json_related (ro_journal x)), (''payment_method_line'', json_related (ro_payment_method_line x)),
     (''payment_method_code'', json_opt_str (ro_payment_method_code x)), (''payment_type'', PStr (ro_payment_type x)),
     (''external_effect_status'', PStr (ro_external_effect_status x))]"

text \<open>The amount that is paid: the requested one unless it is missing or zero, else the residual.\<close>

definition payment_amount :: "payment_request \<Rightarrow> invoice_effect \<Rightarrow> decimal wf" where
  "payment_amount r e =
    (let amount = (case py_amount r of None \<Rightarrow> ie_amount_residual e
                     | Some d \<Rightarrow> if deq d dzero then ie_amount_residual e else d) in
     if \<not> dless dzero amount \<or> dless (ie_amount_residual e) amount
     then Inl (invalid_input ''The payment amount is invalid.'' ''Use a positive amount within residual.'') else Inr amount)"

definition route_fits :: "payment_request \<Rightarrow> payment_route \<Rightarrow> bool" where
  "route_fits r x \<longleftrightarrow> py_journal_id r \<in> {None, Some (rr_id (ro_journal x))}
    \<and> py_method_line_id r \<in> {None, Some (rr_id (ro_payment_method_line x))}"

definition default_route :: "payment_preview \<Rightarrow> payment_route option" where
  "default_route p = find_row (\<lambda>x. Some (rr_id (ro_journal x)) = pp_default_journal_id p
     \<and> Some (rr_id (ro_payment_method_line x)) = pp_default_payment_method_line_id p) (pp_routes p)"

definition mk_preview_request :: "payment_preview_request \<Rightarrow> payment_preview_request wf" where
  "mk_preview_request q =
    (if 0 < pq_invoice_id q \<and> 0 < pq_company_id q \<and> dless dzero (pq_amount q) then Inr q else Inl Validation_error)"

definition mk_registration :: "payment_registration \<Rightarrow> payment_registration wf" where
  "mk_registration q =
    (if 0 < pg_invoice_id q \<and> 0 < pg_company_id q \<and> dless dzero (pg_amount q) \<and> 0 < pg_journal_id q
        \<and> 0 < pg_payment_method_line_id q \<and> pg_external_effect_status q \<in> {''not_initiated_by_odoo'', ''unknown''}
     then Inr q else Inl Validation_error)"

text \<open>Several routes, or none: the choice is handed back.\<close>

definition route_question :: "invoice_effect \<Rightarrow> payment_preview \<Rightarrow> prepared_write" where
  "route_question e p =
    \<lparr>pw_proposed_action = [(''action'', PStr ''register_payment''), (''invoice_id'', PInt (ie_id e))],
     pw_material_effects = [(''reason_code'', PStr ''PAYMENT_ROUTE_SELECTION_REQUIRED''),
       (''valid_choices'', PList (map json_route (pp_routes p))), (''preparation_state'', PStr ''odoo_transient_created''),
       (''amount'', json_decimal (pp_amount p)), (''currency'', json_related (pp_currency p)),
       (''default_journal'', json_opt_related (map_option ro_journal (default_route p))),
       (''default_payment_method_line'', json_opt_related (map_option ro_payment_method_line (default_route p))),
       (''expected_invoice_state'', PStr ''unknown_until_execution''),
       (''external_effect_status'', PStr (case default_route p of None \<Rightarrow> ''unknown'' | Some x \<Rightarrow> ro_external_effect_status x))],
     pw_artifact_markdown = None, pw_needs_input = True\<rparr>"

definition route_effects :: "invoice_effect \<Rightarrow> payment_preview \<Rightarrow> payment_route \<Rightarrow> prepared_write" where
  "route_effects e p x =
    \<lparr>pw_proposed_action = [(''action'', PStr ''register_payment''), (''invoice_id'', PInt (ie_id e))],
     pw_material_effects = [(''amount'', json_decimal (pp_amount p)), (''currency'', json_related (pp_currency p)),
       (''selected_route'', json_route x), (''preparation_state'', PStr ''odoo_transient_created''),
       (''expected_invoice_state'', PStr ''unknown_until_execution''),
       (''external_effect_status'', PStr (ro_external_effect_status x))],
     pw_artifact_markdown = None, pw_needs_input = False\<rparr>"

definition prepare_payment ::
    "adapter \<Rightarrow> payment_request \<Rightarrow> (invoice_effect \<times> payment_registration option \<times> prepared_write) wf" where
  "prepare_payment ad r =
    ebind (ad_effect ad (py_company_id r) (py_invoice_id r)) (\<lambda>e.
    if ie_state e \<noteq> ''posted'' \<or> ie_move_type e \<notin> {''out_invoice'', ''in_invoice''}
    then Inl (Mcp (mk_error ODOO_STATE_CONFLICT ''The document is not an eligible posted invoice or bill.''
           ''Use a posted invoice or bill with a residual amount.''))
    else ebind (payment_amount r e) (\<lambda>amount.
      ebind (mk_preview_request \<lparr>pq_invoice_id = py_invoice_id r, pq_company_id = py_company_id r,
         pq_payment_date = py_payment_date r, pq_amount = amount\<rparr>) (\<lambda>q.
      ebind (ad_payment_preview ad q) (\<lambda>p.
      case filter (route_fits r) (pp_routes p) of
        [x] \<Rightarrow>
          ebind (mk_registration \<lparr>pg_invoice_id = ie_id e, pg_company_id = py_company_id r, pg_payment_date = py_payment_date r,
             pg_amount = pp_amount p, pg_journal_id = rr_id (ro_journal x),
             pg_payment_method_line_id = rr_id (ro_payment_method_line x), pg_payment_method_code = ro_payment_method_code x,
             pg_external_effect_status = ro_external_effect_status x\<rparr>) (\<lambda>g.
          Inr (e, Some g, route_effects e p x))
      | _ \<Rightarrow> Inr (e, None, route_question e p)))))"

end
