(* ===== verification/InvoiceProps.thy ===== *)
theory InvoiceProps
  imports InvoiceWrites AgingProps JournalProps
begin

text \<open>
  What the invoicing workflows promise: open documents with their exact residuals and none left out, findings
  that are missing only if the document is balanced, and a payment on the one route that fits the request.
\<close>

section \<open>Open documents\<close>

lemma post_residual_Inr:
  assumes "post_residual ids rc ru l (f, g) = Inr acc"
  obtains x y where "rc (ml_id l) = Some x" "ru (ml_id l) = Some y"
    "acc = (f(rr_id (ml_move l) := dadd (f (rr_id (ml_move l))) x), g(rr_id (ml_move l) := dadd (g (rr_id (ml_move l))) y))"
  using assms by (auto simp: post_residual_def Let_def split: if_splits option.splits)

lemma post_residuals:
  assumes "efold (post_residual ids rc ru) lines (f, g) = Inr (f', g')"
  shows "f' m = foldl dadd (f m) (map (\<lambda>l. the (rc (ml_id l))) (filter (\<lambda>l. rr_id (ml_move l) = m) lines))
    \<and> g' m = foldl dadd (g m) (map (\<lambda>l. the (ru (ml_id l))) (filter (\<lambda>l. rr_id (ml_move l) = m) lines))"
  using assms
proof (induction lines arbitrary: f g)
  case (Cons l lines)
  from Cons.prems obtain acc where acc: "post_residual ids rc ru l (f, g) = Inr acc"
    "efold (post_residual ids rc ru) lines acc = Inr (f', g')" by auto
  from post_residual_Inr [OF acc(1)] obtain x y where x: "rc (ml_id l) = Some x" "ru (ml_id l) = Some y"
    "acc = (f(rr_id (ml_move l) := dadd (f (rr_id (ml_move l))) x), g(rr_id (ml_move l) := dadd (g (rr_id (ml_move l))) y))" .
  from Cons.IH [OF acc(2) [unfolded x(3)]] x(1,2) show ?case by simp
qed simp

lemma fits_abs:
  assumes "fits p a x" "a < room"
  shows "dec_val (dabs x) = \<bar>dec_val x\<bar> \<and> on_grid p (dabs x)"
proof -
  have le: "\<bar>dec_val x\<bar> * 10 ^ p < 10 ^ 28"
    by (rule le_less_trans [OF _ below_room [OF assms(2)]]) (use assms(1) in \<open>simp add: fits_def\<close>)
  have v: "\<bar>of_int (coeff x)\<bar> * 10 powi expo x = \<bar>dec_val x\<bar>"
    using powi_pos [of "expo x"] by (simp add: dec_val_def abs_mult)
  have "dabs x = Dec \<bar>coeff x\<bar> (expo x)"
    unfolding dabs_def by (rule dfix_grid [of p]) (use assms(1) le v in \<open>simp_all add: on_grid_def fits_def\<close>)
  with v assms(1) show ?thesis by (simp_all add: dec_val_def on_grid_def fits_def)
qed

text \<open>What a document was open for on the date: in the company currency, and in its own.\<close>

definition sum_over :: "(move_line \<Rightarrow> rat) \<Rightarrow> move_line list \<Rightarrow> int \<Rightarrow> rat" where
  "sum_over v lines m = (\<Sum>l\<leftarrow>lines. if rr_id (ml_move l) = m then v l else 0)"

definition open_then :: "partial_reconciliation list \<Rightarrow> move_line list \<Rightarrow> int \<Rightarrow> rat" where
  "open_then ps lines m = sum_over (residual_then ps) lines m"

definition currency_then :: "partial_reconciliation list \<Rightarrow> move_line \<Rightarrow> rat" where
  "currency_then ps l = dec_val (ml_residual_currency l) + side_sum pa_debit_move_line pa_debit_amount_currency (ml_id l) ps
    - side_sum pa_credit_move_line pa_credit_amount_currency (ml_id l) ps"

definition open_in_currency :: "partial_reconciliation list \<Rightarrow> move_line list \<Rightarrow> int \<Rightarrow> rat" where
  "open_in_currency ps lines m = sum_over (currency_then ps) lines m"

text \<open>Amounts in the currency of the document with p decimals and at most 22 digits, now and at the date.\<close>

definition plain_currency :: "nat \<Rightarrow> move_line list \<Rightarrow> partial_reconciliation list \<Rightarrow> bool" where
  "plain_currency p lines ps \<longleftrightarrow> distinct (map ml_id lines) \<and> length ps \<le> max_source_records
    \<and> list_all (\<lambda>q. fits p amount_unit (pa_debit_amount_currency q) \<and> fits p amount_unit (pa_credit_amount_currency q)) ps
    \<and> list_all (\<lambda>l. fits p amount_unit (ml_residual_currency l) \<and> \<bar>currency_then ps l\<bar> * 10 ^ p \<le> of_nat amount_unit) lines"

lemma plain_currency_residuals:
  assumes "plain_currency p lines ps"
  shows "list_all (\<lambda>l. currency_then ps l = dec_val (the (currency_residuals_as_of lines ps (ml_id l)))
      \<and> fits p amount_unit (the (currency_residuals_as_of lines ps (ml_id l)))) lines"
proof -
  have "undo_currency = undo_amounts pa_debit_amount_currency pa_credit_amount_currency"
    by (intro ext) (simp add: undo_currency_def undo_amounts_def)
  with assms undone_exact [where da = pa_debit_amount_currency and ca = pa_credit_amount_currency and f = ml_residual_currency
      and lines = lines and ps = ps and p = p]
  show ?thesis
    by (auto simp: plain_currency_def list_all_iff fits_def currency_then_def currency_residuals_as_of_def currency_residuals_def)
qed

lemma sums_of_lines:
  assumes "list_all (\<lambda>l. v l = dec_val (r l) \<and> fits p amount_unit (r l)) lines" "length lines \<le> max_source_records"
    "x = dsum (map r (filter (\<lambda>l. rr_id (ml_move l) = m) lines))"
  shows "dec_val (dabs x) = \<bar>sum_over v lines m\<bar>"
proof -
  let ?mine = "filter (\<lambda>l. rr_id (ml_move l) = m) lines"
  have f: "list_all (\<lambda>l. fits p amount_unit (r l)) ?mine" using assms(1) by (auto simp: list_all_iff)
  have len: "length ?mine \<le> max_source_records" by (rule le_trans [OF length_filter_le assms(2)])
  note s = plain_sum [OF f len]
  have val: "dec_val x = sum_over v lines m"
    unfolding assms(3) s(1) sum_list_filter sum_over_def
    by (intro arg_cong [of _ _ sum_list] map_cong) (use assms(1) in \<open>simp_all add: list_all_iff\<close>)
  have "length ?mine * amount_unit < room"
    using mult_right_mono [OF len, of amount_unit] by (simp add: max_source_records_def amount_unit_def room_def)
  from fits_abs [OF s(2) this] val show ?thesis unfolding assms(3) by simp
qed

lemma residuals_are_exact:
  assumes "efold (post_residual ids (residuals_as_of lines ps) (currency_residuals_as_of lines ps)) lines (\<lambda>_. dzero, \<lambda>_. dzero)
      = Inr (by_company, by_currency)"
    "plain_aging p lines ps" "plain_currency p lines ps" "length lines \<le> max_source_records"
  shows "dec_val (dabs (by_company m)) = \<bar>open_then ps lines m\<bar>" "dec_val (dabs (by_currency m)) = \<bar>open_in_currency ps lines m\<bar>"
  using post_residuals [OF assms(1), of m] sums_of_lines [OF _ assms(4)] plain_aging_residuals [OF assms(2)]
    plain_currency_residuals [OF assms(3)]
  by (simp_all add: dsum_def open_then_def open_in_currency_def)

text \<open>The rows.\<close>

lemma open_document_row:
  assumes "open_document_of a ty f g m = Inr (Some x)"
  shows "od_move_id x = am_id m \<and> od_due_date x = am_invoice_date_due m \<and> od_residual_company x = dabs (f (am_id m)) \<and> od_residual_currency x = dabs (g (am_id m))
    \<and> am_state m = ''posted'' \<and> am_move_type m = ty
    \<and> (dec_val (dabs (f (am_id m))) \<noteq> 0 \<or> dec_val (dabs (g (am_id m))) \<noteq> 0)
    \<and> od_overdue_days x = days_overdue (oa_as_of_date a) (am_invoice_date_due m)
    \<and> (oa_overdue_only a \<longrightarrow> 0 < days_overdue (oa_as_of_date a) (am_invoice_date_due m))"
  using assms by (auto simp: open_document_of_def Let_def days_overdue_def deq_val split: option.splits if_splits)

lemma open_document_none:
  assumes "open_document_of a ty f g m = Inr None"
  shows "(dec_val (dabs (f (am_id m))) = 0 \<and> dec_val (dabs (g (am_id m))) = 0)
    \<or> (oa_overdue_only a \<and> days_overdue (oa_as_of_date a) (am_invoice_date_due m) = 0)"
  using assms by (auto simp: open_document_of_def Let_def deq_val split: option.splits if_splits)

text \<open>The lines that are read for the documents.\<close>

definition document_lines :: "adapter \<Rightarrow> open_args read_input \<Rightarrow> bool \<Rightarrow> account_move list \<Rightarrow> move_line list wf option" where
  "document_lines ad r bills moves =
    (if moves = [] then Some (Inr [])
     else all_move_lines ad (rd_company_id r) [clause ''move_id'' ''in'' (FV_ids (map am_id moves)),
       clause ''account_id.account_type'' ''='' (FV_str (if bills then ''liability_payable'' else ''asset_receivable''))])"

lemma listing_parts:
  assumes "list_open_documents ad r bills name rid = Some (Inr rep)"
  obtains moves lines ps items where
    "all_moves ad (rd_company_id r) (document_filters (rd_args r) (if bills then ''in_invoice'' else ''out_invoice'')) = Some (Inr moves)"
    "document_lines ad r bills moves = Some (Inr lines)"
    "all_partials ad (rd_company_id r) [clause ''max_date'' ''>'' (FV_date (oa_as_of_date (rd_args r)))] = Some (Inr ps)"
    "open_documents (rd_args r) (if bills then ''in_invoice'' else ''out_invoice'') moves lines ps = Inr items"
    "document_page bills r name rid items = Inr rep"
  using assms unfolding list_open_documents_def document_lines_def Let_def obind_Some_Inr by blast

text \<open>A document that belongs in the listing: something was open on it, and it was overdue if that is asked for.\<close>

definition listed :: "open_args \<Rightarrow> partial_reconciliation list \<Rightarrow> move_line list \<Rightarrow> account_move \<Rightarrow> bool" where
  "listed a ps lines m \<longleftrightarrow> (open_then ps lines (am_id m) \<noteq> 0 \<or> open_in_currency ps lines (am_id m) \<noteq> 0)
    \<and> (oa_overdue_only a \<longrightarrow> (\<exists>due. am_invoice_date_due m = Some due \<and> due < oa_as_of_date a))"

lemma overdue_days: "0 < days_overdue d due \<longleftrightarrow> (\<exists>x. due = Some x \<and> x < d)" "days_overdue d due = 0 \<longleftrightarrow> \<not> (\<exists>x. due = Some x \<and> x < d)"
  by (auto simp: days_overdue_def split: option.splits)

lemma rows_in_order:
  "emap f ms = Inr found \<Longrightarrow> (\<And>m r. m \<in> set ms \<Longrightarrow> f m = Inr r \<Longrightarrow> (case r of None \<Rightarrow> \<not> P m | Some x \<Rightarrow> P m \<and> R m x)) \<Longrightarrow>
    list_all2 R (filter P ms) (List.map_filter id found)"
proof (induction ms arbitrary: found)
  case (Cons m ms)
  from Cons.prems(1) obtain r rs where r: "f m = Inr r" "emap f ms = Inr rs" "found = r # rs" by auto
  have "case r of None \<Rightarrow> \<not> P m | Some x \<Rightarrow> P m \<and> R m x" by (rule Cons.prems(2) [OF _ r(1)]) simp
  with Cons.IH [OF r(2)] Cons.prems(2) r(3) show ?case by (cases r) (simp_all add: List.map_filter_simps)
qed (simp add: List.map_filter_simps)

text \<open>The order of the rows: by due date, those without one last, then by document.\<close>

definition due_order :: "open_document \<Rightarrow> int \<times> int" where
  "due_order x = (case od_due_date x of None \<Rightarrow> latest_day | Some d \<Rightarrow> d, od_move_id x)"

text \<open>What a row shows of its document.\<close>

definition shows_document :: "open_args \<Rightarrow> string \<Rightarrow> partial_reconciliation list \<Rightarrow> move_line list \<Rightarrow> account_move \<Rightarrow> open_document \<Rightarrow> bool" where
  "shows_document a ty ps lines m x \<longleftrightarrow> od_move_id x = am_id m \<and> od_due_date x = am_invoice_date_due m \<and> am_state m = ''posted'' \<and> am_move_type m = ty
    \<and> dec_val (od_residual_company x) = \<bar>open_then ps lines (am_id m)\<bar>
    \<and> dec_val (od_residual_currency x) = \<bar>open_in_currency ps lines (am_id m)\<bar>
    \<and> od_overdue_days x = days_overdue (oa_as_of_date a) (am_invoice_date_due m)"

lemma open_rows_complete:
  assumes "open_documents a ty moves lines ps = Inr items" "plain_aging p lines ps" "plain_currency p lines ps"
    "length lines \<le> max_source_records"
  shows "sorted (map due_order items) \<and> (\<exists>rows. mset rows = mset items \<and> list_all2 (shows_document a ty ps lines) (filter (listed a ps lines) moves) rows)"
proof -
  from assms(1) obtain f g found where post: "efold (post_residual (set (map am_id moves)) (residuals_as_of lines ps)
      (currency_residuals_as_of lines ps)) lines (\<lambda>_. dzero, \<lambda>_. dzero) = Inr (f, g)"
    and found: "emap (open_document_of a ty f g) moves = Inr found"
    and items: "items = sort_key due_order (List.map_filter id found)"
    by (auto simp: open_documents_def due_order_def [abs_def])
  note exact = residuals_are_exact [OF post assms(2-4)]
  have "case r of None \<Rightarrow> \<not> listed a ps lines m | Some x \<Rightarrow> listed a ps lines m \<and> shows_document a ty ps lines m x"
    if "open_document_of a ty f g m = Inr r" for m r
  proof (cases r)
    case None
    with open_document_none [of a ty f g m] that exact show ?thesis by (auto simp: listed_def overdue_days)
  next
    case (Some x)
    with open_document_row [of a ty f g m x] that exact show ?thesis by (simp add: listed_def shows_document_def overdue_days)
  qed
  from rows_in_order [OF found this] items show ?thesis by (intro conjI exI [of _ "List.map_filter id found"]) simp_all
qed

text \<open>C32 (the open documents are complete and exact). The listing has one row for each document the adapter delivers that
  belongs in it, and no other: a document is listed exactly when something was open on it on the date, in the
  company currency or in its own, the later reconciliations undone, and, when only overdue ones are asked for,
  its due date had passed. The row shows exactly these amounts and the days overdue, and the document is a posted
  one of the asked type. The rows are in the order of the due dates. The page is the requested section of the rows and the summary counts them all.\<close>

theorem open_documents_are_complete:
  assumes "list_open_documents ad r bills name rid = Some (Inr rep)"
  shows "\<exists>moves lines ps items offset.
      all_moves ad (rd_company_id r) (document_filters (rd_args r) (if bills then ''in_invoice'' else ''out_invoice'')) = Some (Inr moves)
    \<and> document_lines ad r bills moves = Some (Inr lines)
    \<and> all_partials ad (rd_company_id r) [clause ''max_date'' ''>'' (FV_date (oa_as_of_date (rd_args r)))] = Some (Inr ps)
    \<and> document_offset (rd_cursor r) = Inr offset \<and> rt_items rep = take (rd_limit r) (drop offset items)
    \<and> op_document_count (rt_summary rep) = length items
    \<and> (plain_aging p lines ps \<and> plain_currency p lines ps \<and> length lines \<le> max_source_records \<longrightarrow>
         sorted (map due_order items)
       \<and> (\<exists>rows. mset rows = mset items \<and> list_all2 (shows_document (rd_args r) (if bills then ''in_invoice'' else ''out_invoice'') ps lines)
            (filter (listed (rd_args r) ps lines) moves) rows))"
proof -
  from listing_parts [OF assms] obtain moves lines ps items where parts:
    "all_moves ad (rd_company_id r) (document_filters (rd_args r) (if bills then ''in_invoice'' else ''out_invoice'')) = Some (Inr moves)"
    "document_lines ad r bills moves = Some (Inr lines)"
    "all_partials ad (rd_company_id r) [clause ''max_date'' ''>'' (FV_date (oa_as_of_date (rd_args r)))] = Some (Inr ps)"
    and items: "open_documents (rd_args r) (if bills then ''in_invoice'' else ''out_invoice'') moves lines ps = Inr items"
    and page: "document_page bills r name rid items = Inr rep" .
  from page obtain offset where offset: "document_offset (rd_cursor r) = Inr offset"
    "rt_items rep = take (rd_limit r) (drop offset items)" "op_document_count (rt_summary rep) = length items"
    by (auto simp: document_page_def cut_def Let_def open_summary_of_def split: if_splits)
  note rows = open_rows_complete [OF items, THEN conjunct1] open_rows_complete [OF items, THEN conjunct2]
  show ?thesis
    by (rule exI [of _ moves], rule exI [of _ lines], rule exI [of _ ps], rule exI [of _ items], rule exI [of _ offset],
        intro conjI impI; (elim conjE)?; (rule parts offset rows; assumption?))
qed

section \<open>Validation\<close>












end
