(* ===== verification/PaymentAdapter.thy ===== *)
theory PaymentAdapter
  imports InvoiceWrites Policy
begin

text \<open>
  The payment preview of the Odoo adapter, \<open>get_payment_registration_preview\<close> of
  \<open>adapters/odoo/accounting.py\<close>: it opens one transient registration wizard of Odoo for the document, one
  for each journal and one for each further method of payment, and collects the routes whose wizard asks for the
  same amount in the same currency. The wizards are a parameter: what Odoo answers to the creation and the
  reading of one, as the single row that came back.
\<close>

section \<open>The row of a wizard\<close>

text \<open>The fields of a row. The outer None is a value of the wrong type, the inner None is false or missing.\<close>

record wizard_row =
  wz_available_journal_ids :: "int list option"
  wz_journal :: "related option option"
  wz_available_method_ids :: "int list option"
  wz_method :: "related option option"
  wz_method_code :: "string option option"
  wz_amount :: "decimal option"
  wz_currency :: "related option option"
  wz_payment_date :: "int option"
  wz_payment_type :: "string option"
  wz_partner_type :: "string option"
  wz_company :: "related option option"
  wz_can_edit_wizard :: "bool option"

type_synonym wizards = "payment_preview_request \<Rightarrow> int option \<Rightarrow> int option \<Rightarrow> wizard_row wf"

definition invalid_accounting_response :: wf_error where
  "invalid_accounting_response = Mcp (mk_error ODOO_API_ERROR ''Odoo returned an invalid accounting response.''
     ''Check Odoo compatibility and retry.'')"

definition read_value :: "'a option \<Rightarrow> 'a wf" where
  "read_value v = (case v of None \<Rightarrow> Inl invalid_accounting_response | Some x \<Rightarrow> Inr x)"

text \<open>\<open>_optional_relation\<close> and \<open>_relation\<close>.\<close>

definition optional_relation :: "related option option \<Rightarrow> related option wf" where
  "optional_relation v =
    ebind (read_value v) (\<lambda>x. if (case x of None \<Rightarrow> False | Some y \<Rightarrow> rr_id y \<le> 0) then Inl invalid_accounting_response else Inr x)"

definition relation_of :: "related option option \<Rightarrow> related wf" where
  "relation_of v = ebind (optional_relation v) read_value"

definition positive_id_list :: "nat \<Rightarrow> int list option \<Rightarrow> int list wf" where
  "positive_id_list maximum v =
    ebind (read_value v) (\<lambda>ids.
    if length ids > maximum \<or> list_ex (\<lambda>i. i \<le> 0) ids \<or> \<not> distinct ids then Inl invalid_accounting_response else Inr ids)"

definition max_payment_journals :: nat where "max_payment_journals = 50"
definition max_payment_methods :: nat where "max_payment_methods = 100"
definition max_payment_transients :: nat where "max_payment_transients = 200"

definition wizard_allowed :: "string \<Rightarrow> unit wf" where
  "wizard_allowed action = map_sum Mcp id (ensure_accounting_action_allowed ''account.payment.register'' action)"

definition payment_wizard_row :: "wizards \<Rightarrow> payment_preview_request \<Rightarrow> int option \<Rightarrow> int option \<Rightarrow> wizard_row wf" where
  "payment_wizard_row wizard q journal_id method_id =
    ebind (wizard_allowed ''create_preview_transient'') (\<lambda>_.
    ebind (wizard_allowed ''read_preview_transient'') (\<lambda>_.
    ebind (wizard q journal_id method_id) (\<lambda>row.
    ebind (relation_of (wz_company row)) (\<lambda>company.
    ebind (read_value (wz_payment_date row)) (\<lambda>day.
    ebind (read_value (wz_amount row)) (\<lambda>amount.
    if rr_id company \<noteq> pq_company_id q \<or> day \<noteq> pq_payment_date q \<or> \<not> dless dzero amount
    then Inl invalid_accounting_response else Inr row))))))"

type_synonym row_signature = "string \<times> string \<times> int \<times> bool \<times> int list"

definition payment_row_signature :: "wizard_row \<Rightarrow> row_signature wf" where
  "payment_row_signature row =
    ebind (read_value (wz_payment_type row)) (\<lambda>ty.
    ebind (read_value (wz_partner_type row)) (\<lambda>partner.
    ebind (relation_of (wz_company row)) (\<lambda>company.
    ebind (read_value (wz_can_edit_wizard row)) (\<lambda>edit.
    ebind (positive_id_list max_payment_journals (wz_available_journal_ids row)) (\<lambda>journals.
    Inr (ty, partner, rr_id company, edit, journals))))))"

definition payment_value_signature :: "wizard_row \<Rightarrow> (decimal \<times> related) wf" where
  "payment_value_signature row =
    ebind (read_value (wz_amount row)) (\<lambda>amount. ebind (relation_of (wz_currency row)) (\<lambda>currency. Inr (amount, currency)))"

definition same_value :: "decimal \<times> related \<Rightarrow> decimal \<times> related \<Rightarrow> bool" where
  "same_value v w \<longleftrightarrow> deq (fst v) (fst w) \<and> snd v = snd w"

definition payment_route_of :: "wizard_row \<Rightarrow> int \<Rightarrow> int \<Rightarrow> payment_route wf" where
  "payment_route_of row journal_id method_id =
    ebind (relation_of (wz_journal row)) (\<lambda>journal.
    ebind (relation_of (wz_method row)) (\<lambda>way.
    if rr_id journal \<noteq> journal_id \<or> rr_id way \<noteq> method_id then Inl invalid_accounting_response
    else ebind (read_value (wz_method_code row)) (\<lambda>code.
      ebind (read_value (wz_payment_type row)) (\<lambda>ty.
      Inr \<lparr>ro_journal = journal, ro_payment_method_line = way, ro_payment_method_code = code, ro_payment_type = ty,
           ro_external_effect_status = (if code = Some ''manual'' then ''not_initiated_by_odoo'' else ''unknown'')\<rparr>))))"

section \<open>The routes\<close>

text \<open>The routes found so far, with the number of wizards opened.\<close>

type_synonym route_state = "payment_route list \<times> nat"

definition method_route ::
    "wizards \<Rightarrow> payment_preview_request \<Rightarrow> row_signature \<Rightarrow> decimal \<times> related \<Rightarrow> int \<Rightarrow> wizard_row \<Rightarrow> related option \<Rightarrow>
      int \<Rightarrow> route_state \<Rightarrow> route_state wf" where
  "method_route wizard q sig val journal_id journal_row selected method_id st =
    (case st of (routes, n) \<Rightarrow>
     if map_option rr_id selected = Some method_id
     then ebind (payment_route_of journal_row journal_id method_id) (\<lambda>x. Inr (routes @ [x], n))
     else if Suc n > max_payment_transients then Inl invalid_accounting_response
     else ebind (payment_wizard_row wizard q (Some journal_id) (Some method_id)) (\<lambda>row.
       ebind (payment_row_signature row) (\<lambda>s.
       if s \<noteq> sig then Inl invalid_accounting_response
       else ebind (payment_value_signature row) (\<lambda>v.
         if \<not> same_value v val then Inr (routes, Suc n)
         else ebind (payment_route_of row journal_id method_id) (\<lambda>x. Inr (routes @ [x], Suc n))))))"

definition journal_routes ::
    "wizards \<Rightarrow> payment_preview_request \<Rightarrow> row_signature \<Rightarrow> decimal \<times> related \<Rightarrow> int \<Rightarrow> route_state \<Rightarrow> route_state wf" where
  "journal_routes wizard q sig val journal_id st =
    (case st of (routes, n) \<Rightarrow>
     if Suc n > max_payment_transients then Inl invalid_accounting_response
     else ebind (payment_wizard_row wizard q (Some journal_id) None) (\<lambda>row.
       ebind (payment_row_signature row) (\<lambda>s.
       ebind (relation_of (wz_journal row)) (\<lambda>journal.
       if s \<noteq> sig \<or> rr_id journal \<noteq> journal_id then Inl invalid_accounting_response
       else ebind (payment_value_signature row) (\<lambda>v.
         if \<not> same_value v val then Inr (routes, Suc n)
         else ebind (positive_id_list max_payment_methods (wz_available_method_ids row)) (\<lambda>method_ids.
           ebind (optional_relation (wz_method row)) (\<lambda>selected.
           if (case selected of None \<Rightarrow> False | Some m \<Rightarrow> rr_id m \<notin> set method_ids) then Inl invalid_accounting_response
           else efold (method_route wizard q sig val journal_id row selected) method_ids (routes, Suc n))))))))"

definition route_ids :: "payment_route \<Rightarrow> int \<times> int" where
  "route_ids x = (rr_id (ro_journal x), rr_id (ro_payment_method_line x))"

section \<open>The preview\<close>

definition payment_type_of :: "invoice_effect \<Rightarrow> string" where
  "payment_type_of e = (if ie_move_type e = ''out_invoice'' then ''inbound'' else ''outbound'')"

definition partner_type_of :: "invoice_effect \<Rightarrow> string" where
  "partner_type_of e = (if ie_move_type e = ''out_invoice'' then ''customer'' else ''supplier'')"

text \<open>The routes and the default of the first wizard.\<close>

definition preview_routes ::
    "wizards \<Rightarrow> payment_preview_request \<Rightarrow> wizard_row \<Rightarrow> (payment_route list \<times> related option \<times> related option) wf" where
  "preview_routes wizard q row =
    ebind (payment_row_signature row) (\<lambda>sig.
    ebind (payment_value_signature row) (\<lambda>val.
    ebind (positive_id_list max_payment_journals (wz_available_journal_ids row)) (\<lambda>journal_ids.
    ebind (optional_relation (wz_journal row)) (\<lambda>journal.
    ebind (optional_relation (wz_method row)) (\<lambda>way.
    if (journal = None) \<noteq> (way = None) \<or> (case journal of None \<Rightarrow> False | Some j \<Rightarrow> rr_id j \<notin> set journal_ids)
    then Inl invalid_accounting_response
    else ebind (efold (journal_routes wizard q sig val) journal_ids ([], 1)) (\<lambda>(routes, n).
      if \<not> distinct (map route_ids routes)
         \<or> (case (journal, way) of (Some j, Some m) \<Rightarrow> (rr_id j, rr_id m) \<notin> set (map route_ids routes) | _ \<Rightarrow> False)
      then Inl invalid_accounting_response else Inr (routes, journal, way)))))))"

definition get_payment_registration_preview ::
    "(int \<Rightarrow> int \<Rightarrow> invoice_effect wf) \<Rightarrow> wizards \<Rightarrow> payment_preview_request \<Rightarrow> payment_preview wf" where
  "get_payment_registration_preview effect wizard q =
    ebind (effect (pq_company_id q) (pq_invoice_id q)) (\<lambda>invoice.
    if ie_state invoice \<noteq> ''posted'' \<or> ie_move_type invoice \<notin> {''out_invoice'', ''in_invoice''}
      \<or> dless (ie_amount_residual invoice) (pq_amount q)
    then Inl (invalid_input ''The invoice is not eligible for payment registration.''
           ''Use a posted invoice or bill and an amount within its residual.'')
    else ebind (payment_wizard_row wizard q None None) (\<lambda>row.
      ebind (preview_routes wizard q row) (\<lambda>(routes, journal, way).
      ebind (relation_of (wz_currency row)) (\<lambda>currency.
      ebind (read_value (wz_amount row)) (\<lambda>amount.
      ebind (read_value (wz_payment_type row)) (\<lambda>ty.
      ebind (read_value (wz_partner_type row)) (\<lambda>partner.
      if rr_id currency \<noteq> rr_id (ie_currency invoice) \<or> dless (ie_amount_residual invoice) amount
        \<or> ty \<noteq> payment_type_of invoice \<or> partner \<noteq> partner_type_of invoice
      then Inl invalid_accounting_response
      else ebind (read_value (wz_payment_date row)) (\<lambda>day.
        ebind (read_value (wz_can_edit_wizard row)) (\<lambda>edit.
        Inr \<lparr>pp_invoice_id = pq_invoice_id q, pp_company_id = pq_company_id q, pp_payment_date = day, pp_amount = amount,
             pp_currency = currency, pp_payment_type = ty, pp_partner_type = partner, pp_can_edit_wizard = edit,
             pp_routes = routes, pp_default_journal_id = map_option rr_id journal,
             pp_default_payment_method_line_id = map_option rr_id way\<rparr>)))))))))"

section \<open>The amount of a preview\<close>

lemma read_value_Inr: "read_value v = Inr x \<longleftrightarrow> v = Some x"
  by (simp add: read_value_def split: option.splits)

lemma payment_wizard_row_Inr:
  assumes "payment_wizard_row wizard q j m = Inr row"
  obtains amount where "wizard q j m = Inr row" "wz_amount row = Some amount" "0 < dec_val amount"
    "wz_payment_date row = Some (pq_payment_date q)"
  using assms by (auto simp: payment_wizard_row_def read_value_Inr dless_val split: if_splits)

lemma preview_amount:
  assumes "get_payment_registration_preview effect wizard q = Inr p" "effect (pq_company_id q) (pq_invoice_id q) = Inr e"
  shows "0 < dec_val (pp_amount p)" "dec_val (pp_amount p) \<le> dec_val (ie_amount_residual e)"
    "rr_id (pp_currency p) = rr_id (ie_currency e)" "distinct (map route_ids (pp_routes p))"
proof -
  from assms obtain row routes journal way amount where row: "payment_wizard_row wizard q None None = Inr row"
    and routes: "preview_routes wizard q row = Inr (routes, journal, way)" "pp_routes p = routes"
    and amount: "wz_amount row = Some amount" "pp_amount p = amount" "\<not> dless (ie_amount_residual e) amount"
    and currency: "rr_id (pp_currency p) = rr_id (ie_currency e)"
    by (auto simp: get_payment_registration_preview_def read_value_Inr split: if_splits)
  from payment_wizard_row_Inr [OF row] amount(1,2) show "0 < dec_val (pp_amount p)" by auto
  show "dec_val (pp_amount p) \<le> dec_val (ie_amount_residual e)" using amount(2,3) by (simp add: dless_val)
  show "rr_id (pp_currency p) = rr_id (ie_currency e)" by (rule currency)
  show "distinct (map route_ids (pp_routes p))"
    using routes by (auto simp: preview_routes_def split: if_splits)
qed

end
