(* ===== verification/PaymentProps.thy ===== *)
theory PaymentProps
  imports InvoiceProps PaymentAdapter
begin

text \<open>
  Payments: a registration is prepared on the one route that fits the request, for a positive amount within the
  residual of the document when the Odoo adapter previews it; in every other case the choices are handed back.
\<close>

definition chosen_registration :: "payment_request \<Rightarrow> invoice_effect \<Rightarrow> payment_preview \<Rightarrow> payment_route \<Rightarrow> payment_registration" where
  "chosen_registration r e p x = \<lparr>pg_invoice_id = ie_id e, pg_company_id = py_company_id r, pg_payment_date = py_payment_date r,
    pg_amount = pp_amount p, pg_journal_id = rr_id (ro_journal x),
    pg_payment_method_line_id = rr_id (ro_payment_method_line x), pg_payment_method_code = ro_payment_method_code x,
    pg_external_effect_status = ro_external_effect_status x\<rparr>"

definition payment_tail ::
    "payment_request \<Rightarrow> invoice_effect \<Rightarrow> payment_preview \<Rightarrow> (invoice_effect \<times> payment_registration option \<times> prepared_write) wf" where
  "payment_tail r e p =
    (case filter (route_fits r) (pp_routes p) of
        [x] \<Rightarrow> ebind (mk_registration (chosen_registration r e p x)) (\<lambda>g. Inr (e, Some g, route_effects e p x))
      | _ \<Rightarrow> Inr (e, None, route_question e p))"

lemma payment_tail_document: "payment_tail r e' p = Inr (e, registration, prepared) \<Longrightarrow> e' = e"
  by (cases "filter (route_fits r) (pp_routes p)"; cases "tl (filter (route_fits r) (pp_routes p))")
    (auto simp: payment_tail_def)

lemma payment_steps:
  assumes "prepare_payment ad r = Inr (e, registration, prepared)"
  obtains amount p where "ad_effect ad (py_company_id r) (py_invoice_id r) = Inr e" "ie_state e = ''posted''" "ie_move_type e \<in> {''out_invoice'', ''in_invoice''}"
    "payment_amount r e = Inr amount"
    "ad_payment_preview ad \<lparr>pq_invoice_id = py_invoice_id r, pq_company_id = py_company_id r,
       pq_payment_date = py_payment_date r, pq_amount = amount\<rparr> = Inr p"
    "payment_tail r e p = Inr (e, registration, prepared)"
proof -
  note steps = assms [unfolded prepare_payment_def chosen_registration_def [symmetric] payment_tail_def [symmetric] ebind_eq_Inr]
  then obtain e' where e': "ad_effect ad (py_company_id r) (py_invoice_id r) = Inr e'" "ie_state e' = ''posted''"
      "ie_move_type e' \<in> {''out_invoice'', ''in_invoice''}"
    and rest: "\<exists>amount q p. payment_amount r e' = Inr amount \<and> mk_preview_request \<lparr>pq_invoice_id = py_invoice_id r,
        pq_company_id = py_company_id r, pq_payment_date = py_payment_date r, pq_amount = amount\<rparr> = Inr q
      \<and> ad_payment_preview ad q = Inr p \<and> payment_tail r e' p = Inr (e, registration, prepared)"
    by (auto split: if_splits)
  from rest obtain amount p where r: "payment_amount r e' = Inr amount" "payment_tail r e' p = Inr (e, registration, prepared)"
    and p: "ad_payment_preview ad \<lparr>pq_invoice_id = py_invoice_id r, pq_company_id = py_company_id r,
       pq_payment_date = py_payment_date r, pq_amount = amount\<rparr> = Inr p"
    by (auto simp: mk_preview_request_def split: if_splits)
  from payment_tail_document [OF r(2)] have "e' = e" .
  with e' r p show thesis by (blast intro: that)
qed

lemma payment_document_of:
  "prepare_payment ad r = Inr (e, registration, prepared) \<Longrightarrow> ad_effect ad (py_company_id r) (py_invoice_id r) = Inr e"
  by (erule payment_steps)

text \<open>C34 (a payment takes the one fitting route). A payment is prepared only for a posted invoice or bill, and Odoo is
  asked for a preview of the requested amount, or else of the residual, which is positive and within the residual.
  If exactly one route offered by Odoo fits the journal and the method of the request, the registration is for
  that route and the amount of the preview; otherwise nothing is registered and the choice is handed back. With
  the preview of the Odoo adapter, whatever its wizards answer, the registered amount is positive and within the
  residual too.\<close>

theorem payment_takes_fitting_route:
  assumes "prepare_payment ad r = Inr (e, registration, prepared)"
  shows "ie_state e = ''posted'' \<and> ie_move_type e \<in> {''out_invoice'', ''in_invoice''}
    \<and> (\<exists>amount p. ad_payment_preview ad \<lparr>pq_invoice_id = py_invoice_id r, pq_company_id = py_company_id r,
           pq_payment_date = py_payment_date r, pq_amount = amount\<rparr> = Inr p
      \<and> 0 < dec_val amount \<and> dec_val amount \<le> dec_val (ie_amount_residual e)
      \<and> (case py_amount r of None \<Rightarrow> amount = ie_amount_residual e
           | Some d \<Rightarrow> amount = d \<or> (dec_val d = 0 \<and> amount = ie_amount_residual e))
      \<and> (case registration of
           None \<Rightarrow> pw_needs_input prepared \<and> length (filter (route_fits r) (pp_routes p)) \<noteq> 1
         | Some g \<Rightarrow> \<not> pw_needs_input prepared \<and> pg_invoice_id g = ie_id e \<and> pg_amount g = pp_amount p
             \<and> (\<exists>x. filter (route_fits r) (pp_routes p) = [x] \<and> pg_journal_id g = rr_id (ro_journal x)
                \<and> pg_payment_method_line_id g = rr_id (ro_payment_method_line x)
                \<and> py_journal_id r \<in> {None, Some (pg_journal_id g)}
                \<and> py_method_line_id r \<in> {None, Some (pg_payment_method_line_id g)})
             \<and> (\<forall>wizard. ad_payment_preview ad = get_payment_registration_preview (ad_effect ad) wizard \<longrightarrow>
                  0 < dec_val (pg_amount g) \<and> dec_val (pg_amount g) \<le> dec_val (ie_amount_residual e)
                \<and> rr_id (pp_currency p) = rr_id (ie_currency e))))"
proof -
  define preview where "preview amount = \<lparr>pq_invoice_id = py_invoice_id r, pq_company_id = py_company_id r,
    pq_payment_date = py_payment_date r, pq_amount = amount\<rparr>" for amount
  from payment_steps [OF assms] obtain amount p where effect: "ad_effect ad (py_company_id r) (py_invoice_id r) = Inr e" and
    posted: "ie_state e = ''posted''" "ie_move_type e \<in> {''out_invoice'', ''in_invoice''}"
    and amount: "payment_amount r e = Inr amount" and p: "ad_payment_preview ad (preview amount) = Inr p"
    and tail: "payment_tail r e p = Inr (e, registration, prepared)"
    unfolding preview_def .
  have bounds: "0 < dec_val amount" "dec_val amount \<le> dec_val (ie_amount_residual e)"
    "case py_amount r of None \<Rightarrow> amount = ie_amount_residual e
       | Some d \<Rightarrow> amount = d \<or> (dec_val d = 0 \<and> amount = ie_amount_residual e)"
    using amount by (auto simp: payment_amount_def Let_def dless_val deq_val split: if_splits option.splits)
  have within: "0 < dec_val (pp_amount p) \<and> dec_val (pp_amount p) \<le> dec_val (ie_amount_residual e)
      \<and> rr_id (pp_currency p) = rr_id (ie_currency e)"
    if "ad_payment_preview ad = get_payment_registration_preview (ad_effect ad) wizard" for wizard
    using preview_amount [OF p [unfolded that]] effect by (simp add: preview_def)
  have "case registration of
           None \<Rightarrow> pw_needs_input prepared \<and> length (filter (route_fits r) (pp_routes p)) \<noteq> 1
         | Some g \<Rightarrow> \<not> pw_needs_input prepared \<and> pg_invoice_id g = ie_id e \<and> pg_amount g = pp_amount p
             \<and> (\<exists>x. filter (route_fits r) (pp_routes p) = [x] \<and> pg_journal_id g = rr_id (ro_journal x)
                \<and> pg_payment_method_line_id g = rr_id (ro_payment_method_line x)
                \<and> py_journal_id r \<in> {None, Some (pg_journal_id g)}
                \<and> py_method_line_id r \<in> {None, Some (pg_payment_method_line_id g)})
             \<and> (\<forall>wizard. ad_payment_preview ad = get_payment_registration_preview (ad_effect ad) wizard \<longrightarrow>
                  0 < dec_val (pg_amount g) \<and> dec_val (pg_amount g) \<le> dec_val (ie_amount_residual e)
                \<and> rr_id (pp_currency p) = rr_id (ie_currency e))"
  proof (cases "\<exists>x. filter (route_fits r) (pp_routes p) = [x]")
    case True
    then obtain x where x: "filter (route_fits r) (pp_routes p) = [x]" ..
    with tail have g: "registration = Some (chosen_registration r e p x)" "prepared = route_effects e p x"
      by (auto simp: payment_tail_def mk_registration_def split: if_splits)
    have "x \<in> set (filter (route_fits r) (pp_routes p))" by (simp add: x)
    then have "route_fits r x" by simp
    with x g within show ?thesis by (auto simp: chosen_registration_def route_effects_def route_fits_def)
  next
    case False
    with tail have "registration = None" "prepared = route_question e p" by (auto simp: payment_tail_def split: list.splits)
    with False show ?thesis by (auto simp: route_question_def length_Suc_conv)
  qed
  with posted bounds p show ?thesis unfolding preview_def by blast
qed

end
