(* ===== verification/InvoiceDemo.thy ===== *)
theory InvoiceDemo
  imports PaymentProps JournalDemo
begin

text \<open>The theorems on invoices applied to small documents: an open invoice, a draft, a payment.\<close>

section \<open>Open documents\<close>

definition demo_invoice :: account_move where
  "demo_invoice = demo_move\<lparr>am_id := 90, am_name := ''INV'', am_move_type := ''out_invoice'', am_state := ''posted'',
     am_invoice_date := Some 19990, am_invoice_date_due := Some 20010, am_partner := Some \<lparr>rr_id = 3, rr_name = ''Ada''\<rparr>,
     am_amount_total := Dec 7050 (-2)\<rparr>"

definition demo_open_line :: move_line where
  "demo_open_line = \<lparr>ml_id = 1, ml_move = \<lparr>rr_id = 90, rr_name = ''INV''\<rparr>, ml_move_state = ''posted'',
     ml_account = \<lparr>rr_id = 10, rr_name = ''A''\<rparr>, ml_journal = \<lparr>rr_id = 7, rr_name = ''Sales''\<rparr>,
     ml_partner = Some \<lparr>rr_id = 3, rr_name = ''Ada''\<rparr>, ml_company_id = 1, ml_currency = Some \<lparr>rr_id = 1, rr_name = ''EUR''\<rparr>,
     ml_date = 19990, ml_maturity_date = None, ml_label = None, ml_debit = Dec 7050 (-2), ml_credit = Dec 0 0,
     ml_balance = Dec 7050 (-2), ml_amount_currency = Dec 7050 (-2), ml_residual = Dec 6050 (-2),
     ml_residual_currency = Dec 6050 (-2), ml_reconciled = False, ml_analytic_distribution = []\<rparr>"

definition demo_late_partial :: partial_reconciliation where
  "demo_late_partial = \<lparr>pa_id = 1, pa_debit_move_line = \<lparr>rr_id = 1, rr_name = ''L''\<rparr>,
     pa_credit_move_line = \<lparr>rr_id = 99, rr_name = ''X''\<rparr>, pa_amount = Dec 1000 (-2), pa_debit_amount_currency = Dec 1000 (-2),
     pa_credit_amount_currency = Dec 1000 (-2), pa_max_date = 20040\<rparr>"

definition demo_documents :: adapter where
  "demo_documents = empty_adapter\<lparr>ad_moves := (\<lambda>c f. one_page [demo_invoice]),
     ad_move_lines := (\<lambda>c f. one_page [demo_open_line]), ad_partials := (\<lambda>c f. one_page [demo_late_partial])\<rparr>"

definition demo_open_request :: "open_args read_input" where
  "demo_open_request = \<lparr>rd_company_id = 1, rd_limit = 100, rd_cursor = None,
     rd_args = \<lparr>oa_as_of_date = 20030, oa_partner_ids = [], oa_overdue_only = True\<rparr>\<rparr>"

lemma document_one_page:
  "length xs \<le> max_source_records \<Longrightarrow>
    drain (document_turn (one_page xs) repeated e) 0 None nothing_yet
      = Some (Inr (nothing_yet\<lparr>dr_result := xs\<rparr>))"
  by (subst drain.simps)
    (simp add: document_turn_def ask_def page_request_def one_page_def Let_def nothing_yet_def source_page_size_def)

lemma demo_loops:
  "all_moves demo_documents c f = Some (Inr [demo_invoice])" "all_move_lines demo_documents c f = Some (Inr [demo_open_line])"
  "all_partials demo_documents c f = Some (Inr [demo_late_partial])"
  by (simp_all add: all_moves_def all_move_lines_def all_partials_def demo_documents_def document_one_page max_source_records_def)

definition demo_row :: open_document where
  "demo_row = \<lparr>od_move_id = 90, od_partner_id = 3, od_partner_name = ''Ada'', od_number = ''INV'', od_invoice_date = 19990,
     od_due_date = Some 20010, od_currency_id = 1, od_currency_name = ''EUR'', od_amount_total = Dec 7050 (-2),
     od_residual_currency = Dec 7050 (-2), od_residual_company = Dec 7050 (-2), od_payment_state = ''not_paid'',
     od_overdue_days = 20\<rparr>"

lemma demo_residual:
  "dadd (Dec 0 0) (Dec 7050 (-2)) = Dec 7050 (-2)" "dadd (Dec 6050 (-2)) (Dec 1000 (-2)) = Dec 7050 (-2)"
  "dabs (Dec 7050 (-2)) = Dec 7050 (-2)"
  by code_simp+

lemma demo_open_documents:
  "open_documents (rd_args demo_open_request) ''out_invoice'' [demo_invoice] [demo_open_line] [demo_late_partial] = Inr [demo_row]"
proof -
  have r: "residuals_as_of [demo_open_line] [demo_late_partial] 1 = Some (Dec 7050 (-2))"
    "currency_residuals_as_of [demo_open_line] [demo_late_partial] 1 = Some (Dec 7050 (-2))" by code_simp+
  have t: "am_id demo_invoice = 90" "ml_id demo_open_line = 1" "rr_id (ml_move demo_open_line) = 90"
    by (simp_all add: demo_invoice_def demo_open_line_def)
  have row: "open_document_of (rd_args demo_open_request) ''out_invoice'' ((\<lambda>_. dzero)(90 := Dec 7050 (-2)))
      ((\<lambda>_. dzero)(90 := Dec 7050 (-2))) demo_invoice = Inr (Some demo_row)"
    by (simp add: open_document_of_def demo_invoice_def demo_move_def demo_open_request_def demo_residual deq_val dless_val
        dec_val_def dzero_def days_overdue_def demo_row_def Let_def)
  have a: "post_residual {90} (residuals_as_of [demo_open_line] [demo_late_partial])
      (currency_residuals_as_of [demo_open_line] [demo_late_partial]) demo_open_line (\<lambda>_. dzero, \<lambda>_. dzero)
    = Inr ((\<lambda>_. dzero)(90 := Dec 7050 (-2)), (\<lambda>_. dzero)(90 := Dec 7050 (-2)))"
    by (simp add: post_residual_def t r dzero_def demo_residual)
  show ?thesis by (simp add: open_documents_def t a row List.map_filter_def)
qed

lemma open_documents_are_complete_witness:
  "\<exists>rep items x. list_open_documents demo_documents demo_open_request False ''Co'' ''r'' = Some (Inr rep)
    \<and> rt_items rep = take 100 items \<and> op_document_count (rt_summary rep) = 1 \<and> items = [x]
    \<and> shows_document (rd_args demo_open_request) ''out_invoice'' [demo_late_partial] [demo_open_line] demo_invoice x"
proof -
  have c: "rd_cursor demo_open_request = None" "rd_limit demo_open_request = 100" by (simp_all add: demo_open_request_def)
  have o0: "document_offset None = Inr 0" by (simp add: document_offset_def)
  have "\<exists>rep. document_page False demo_open_request ''Co'' ''r'' [demo_row] = Inr rep"
    by (simp add: document_page_def Let_def c o0 cut_def)
  then obtain rep where rep: "list_open_documents demo_documents demo_open_request False ''Co'' ''r'' = Some (Inr rep)"
    by (auto simp: list_open_documents_def demo_loops demo_open_documents Let_def)
  have p: "plain_aging 2 [demo_open_line] [demo_late_partial]" "plain_currency 2 [demo_open_line] [demo_late_partial]"
    "length [demo_open_line] \<le> max_source_records"
    by (simp_all add: plain_aging_def plain_currency_def currency_then_def side_sum_def demo_open_line_def demo_late_partial_def
      fits_def on_grid_def dec_val_def amount_unit_def power_int_def power_divide residual_then_def debited_def credited_def
      max_source_records_def)
  have l: "document_lines demo_documents demo_open_request False [demo_invoice] = Some (Inr [demo_open_line])"
    by (simp add: document_lines_def demo_loops)
  have m: "am_id demo_invoice = 90" by (simp add: demo_invoice_def)
  have "open_then [demo_late_partial] [demo_open_line] 90 \<noteq> 0"
    by (simp add: open_then_def sum_over_def residual_then_def debited_def credited_def demo_open_line_def demo_late_partial_def
      dec_val_def power_int_def power_divide)
  then have listed: "listed (rd_args demo_open_request) [demo_late_partial] [demo_open_line] demo_invoice"
    by (simp add: listed_def m) (simp add: demo_open_request_def demo_invoice_def)
  from open_documents_are_complete [OF rep, of 2] obtain items rows where
    "rt_items rep = take 100 items" "op_document_count (rt_summary rep) = length items" "mset rows = mset items"
    "list_all2 (shows_document (rd_args demo_open_request) ''out_invoice'' [demo_late_partial] [demo_open_line])
       (filter (listed (rd_args demo_open_request) [demo_late_partial] [demo_open_line]) [demo_invoice]) rows"
    using p by (auto simp: demo_loops l c o0)
  with rep listed show ?thesis by (auto simp: list_all2_Cons1)
qed

section \<open>A draft that is validated\<close>

definition demo_posting_line :: "int \<Rightarrow> string option \<Rightarrow> decimal \<Rightarrow> decimal \<Rightarrow> decimal \<Rightarrow> invoice_validation_line" where
  "demo_posting_line i kind debit credit balance = \<lparr>iv_id = i, iv_display_type = kind, iv_account = Some \<lparr>rr_id = 10, rr_name = ''A''\<rparr>,
     iv_debit = debit, iv_credit = credit, iv_balance = balance, iv_currency = Some \<lparr>rr_id = 1, rr_name = ''EUR''\<rparr>,
     iv_amount_currency = balance, iv_tax_line = None, iv_subtotal = credit, iv_total = credit\<rparr>"

definition demo_draft_invoice :: invoice_effect where
  "demo_draft_invoice = \<lparr>ie_id = 90, ie_name = ''/'', ie_move_type = ''out_invoice'', ie_state = ''draft'', ie_company_id = 1,
     ie_partner = \<lparr>rr_id = 3, rr_name = ''Ada''\<rparr>, ie_invoice_date = 20000, ie_due_date = None,
     ie_journal = \<lparr>rr_id = 7, rr_name = ''Sales''\<rparr>, ie_fiscal_position = None, ie_currency = \<lparr>rr_id = 1, rr_name = ''EUR''\<rparr>,
     ie_payment_term = None, ie_amount_untaxed = Dec 1250 (-2), ie_amount_tax = Dec 0 0, ie_amount_total = Dec 125 (-1),
     ie_amount_residual = Dec 1250 (-2), ie_payment_state = None, ie_taxes = [], ie_lines = [], ie_payment_schedule = [],
     ie_validation_lines = [demo_posting_line 1 (Some ''payment_term'') (Dec 1250 (-2)) (Dec 0 0) (Dec 1250 (-2)),
       demo_posting_line 2 (Some ''product'') (Dec 0 0) (Dec 125 (-1)) (Dec (-1250) (-2))]\<rparr>"





section \<open>A payment\<close>

definition demo_posted_invoice :: invoice_effect where
  "demo_posted_invoice = demo_draft_invoice\<lparr>ie_state := ''posted''\<rparr>"

text \<open>Odoo offers two bank journals with the manual method, and proposes the first one.\<close>

definition demo_wizard :: wizards where
  "demo_wizard q journal method = Inr \<lparr>wz_available_journal_ids = Some [7, 17],
     wz_journal = Some (Some \<lparr>rr_id = (case journal of None \<Rightarrow> 7 | Some j \<Rightarrow> j), rr_name = ''Bank''\<rparr>),
     wz_available_method_ids = Some [8, 18],
     wz_method = Some (Some \<lparr>rr_id = (case method of None \<Rightarrow> 8 | Some m \<Rightarrow> m), rr_name = ''Manual''\<rparr>),
     wz_method_code = Some (Some ''manual''), wz_amount = Some (pq_amount q),
     wz_currency = Some (Some \<lparr>rr_id = 1, rr_name = ''EUR''\<rparr>), wz_payment_date = Some (pq_payment_date q),
     wz_payment_type = Some ''inbound'', wz_partner_type = Some ''customer'',
     wz_company = Some (Some \<lparr>rr_id = 1, rr_name = ''Co''\<rparr>), wz_can_edit_wizard = Some True\<rparr>"

definition demo_payments :: adapter where
  "demo_payments = empty_adapter\<lparr>ad_effect := (\<lambda>c i. Inr demo_posted_invoice),
     ad_payment_preview := get_payment_registration_preview (\<lambda>c i. Inr demo_posted_invoice) demo_wizard\<rparr>"

definition demo_payment :: payment_request where
  "demo_payment = \<lparr>py_invoice_id = 90, py_company_id = 1, py_payment_date = 20001, py_amount = Some (Dec 500 (-2)),
     py_journal_id = Some 17, py_method_line_id = Some 18\<rparr>"

lemma demo_payment_prepared:
  "\<exists>g prepared. prepare_payment demo_payments demo_payment = Inr (demo_posted_invoice, Some g, prepared)"
proof -
  have "(case prepare_payment demo_payments demo_payment of Inr (_, Some _, _) \<Rightarrow> True | _ \<Rightarrow> False)" by code_simp
  moreover have "ad_effect demo_payments (py_company_id demo_payment) (py_invoice_id demo_payment) = Inr demo_posted_invoice"
    by (simp add: demo_payments_def)
  ultimately show ?thesis
    by (auto split: sum.splits option.splits dest!: payment_document_of)
qed

lemma payment_takes_fitting_route_witness:
  "\<exists>g prepared. prepare_payment demo_payments demo_payment = Inr (demo_posted_invoice, Some g, prepared)
    \<and> pg_journal_id g = 17 \<and> pg_payment_method_line_id g = 18
    \<and> 0 < dec_val (pg_amount g) \<and> dec_val (pg_amount g) \<le> dec_val (ie_amount_residual demo_posted_invoice)"
proof -
  from demo_payment_prepared obtain g prepared where
    p: "prepare_payment demo_payments demo_payment = Inr (demo_posted_invoice, Some g, prepared)" by blast
  have "py_journal_id demo_payment = Some 17" "py_method_line_id demo_payment = Some 18" by (simp_all add: demo_payment_def)
  moreover have "ad_payment_preview demo_payments = get_payment_registration_preview (ad_effect demo_payments) demo_wizard"
    by (simp add: demo_payments_def)
  ultimately show ?thesis using payment_takes_fitting_route [OF p] p by auto
qed

end
