(* ===== verification/PayrollTypes.thy ===== *)
theory PayrollTypes
  imports Reports
begin

text \<open>
  The typed values of payroll (\<open>adapters/payroll.py\<close>) with the validators of the pydantic models, and what the
  Odoo adapter answers to the payroll reads, as a parameter. A date is a day number; a \<open>write_date\<close> is only ever
  written out, so it is held as its \<open>isoformat()\<close> text.
\<close>

section \<open>Periods\<close>

record payroll_period =
  hp_start :: int
  hp_end :: int

definition period_ok :: "int \<Rightarrow> int \<Rightarrow> bool" where
  "period_ok s e \<longleftrightarrow> s \<le> e \<and> e - s \<le> 365"

definition mk_payroll_period :: "int \<Rightarrow> int \<Rightarrow> payroll_period wf" where
  "mk_payroll_period s e = (if period_ok s e then Inr \<lparr>hp_start = s, hp_end = e\<rparr> else Inl Validation_error)"

text \<open>The last day of a discovery window: five years later, the 28th for the 29th of February, and never after
  9999-12-31.\<close>

definition window_limit :: "int \<Rightarrow> int" where
  "window_limit s =
    (let (y, m, d) = civil_from_days s in
     if y > 9994 then 2932896
     else date_of (y + 5) m (if d > month_days (y + 5) m then 28 else d))"

definition mk_discovery_window :: "int \<Rightarrow> int \<Rightarrow> payroll_period wf" where
  "mk_discovery_window s e =
    (if e < s \<or> e > window_limit s then Inl Validation_error else Inr \<lparr>hp_start = s, hp_end = e\<rparr>)"

section \<open>Records\<close>

record payslip =
  sl_id :: int
  sl_name :: string
  sl_reference :: string
  sl_employee :: related
  sl_date_from :: int
  sl_date_to :: int
  sl_state :: string
  sl_source_state :: string
  sl_company_id :: int
  sl_contract_segment :: related
  sl_contract_source :: string
  sl_structure :: related
  sl_batch :: "related option"
  sl_credit_note :: bool
  sl_currency :: related
  sl_write_date :: string

record payslip_line =
  hl_id :: int
  hl_payslip :: related
  hl_salary_rule :: related
  hl_employee :: related
  hl_contract_segment :: related
  hl_contract_source :: string
  hl_name :: string
  hl_code :: string
  hl_category :: related
  hl_sequence :: int
  hl_quantity :: decimal
  hl_rate :: decimal
  hl_amount :: decimal
  hl_total :: decimal
  hl_currency :: related
  hl_write_date :: string

record payroll_batch =
  hb_id :: int
  hb_name :: string
  hb_date_start :: int
  hb_date_end :: int
  hb_state :: string
  hb_source_state :: string
  hb_company_id :: int
  hb_write_date :: string

record payroll_employee =
  he_id :: int
  he_name :: string
  he_active :: bool
  he_company_id :: int
  he_write_date :: string

record contract_segment =
  hc_source_model :: string
  hc_id :: int
  hc_employee :: related
  hc_company_id :: int
  hc_active :: bool
  hc_source_status :: string
  hc_revision_date :: "int option"
  hc_effective_start :: int
  hc_effective_end :: int
  hc_wage :: decimal
  hc_currency :: related
  hc_structure_type :: "related option"
  hc_resource_calendar :: "related option"
  hc_department :: "related option"
  hc_job :: "related option"
  hc_contract_type :: "related option"
  hc_write_date :: string

record work_entry =
  hn_id :: int
  hn_employee :: related
  hn_company_id :: int
  hn_contract_segment :: "related option"
  hn_contract_source :: "string option"
  hn_date_start :: int
  hn_date_end :: int
  hn_duration :: decimal
  hn_type :: related
  hn_code :: string
  hn_state :: string
  hn_conflict :: bool
  hn_write_date :: string

section \<open>Filters\<close>

text \<open>\<open>_validate_ids\<close>, and the limits on the lengths.\<close>

definition ids_ok :: "int list \<Rightarrow> bool" where
  "ids_ok ids \<longleftrightarrow> list_all (\<lambda>i. 0 < i) ids \<and> distinct ids"

record payslip_filters =
  fs_payslip_ids :: "int list"
  fs_batch_id :: "int option"
  fs_period :: "payroll_period option"
  fs_window :: "payroll_period option"
  fs_employee_ids :: "int list"
  fs_states :: "string list"

definition payroll_states :: "string list" where
  "payroll_states = [''draft'', ''waiting'', ''done'', ''paid'', ''cancelled'']"

definition mk_payslip_filters :: "payslip_filters \<Rightarrow> payslip_filters wf" where
  "mk_payslip_filters f =
    (if ids_ok (fs_payslip_ids f) \<and> length (fs_payslip_ids f) \<le> 200
        \<and> ids_ok (fs_employee_ids f) \<and> length (fs_employee_ids f) \<le> 100
        \<and> (case fs_batch_id f of None \<Rightarrow> True | Some i \<Rightarrow> 0 < i)
        \<and> \<not> (fs_period f \<noteq> None \<and> fs_window f \<noteq> None)
        \<and> \<not> (fs_payslip_ids f = [] \<and> fs_batch_id f = None \<and> fs_period f = None \<and> fs_window f = None)
        \<and> set (fs_states f) \<subseteq> set payroll_states \<and> distinct (fs_states f)
     then Inr f else Inl Validation_error)"

definition any_payslips :: payslip_filters where
  "any_payslips = \<lparr>fs_payslip_ids = [], fs_batch_id = None, fs_period = None, fs_window = None, fs_employee_ids = [], fs_states = []\<rparr>"

text \<open>\<open>PayslipChildFilters\<close>: the payslips whose children are read.\<close>

definition mk_child_filters :: "int list \<Rightarrow> int list wf" where
  "mk_child_filters ids = (if ids \<noteq> [] \<and> ids_ok ids \<and> length ids \<le> 200 then Inr ids else Inl Validation_error)"

record contract_filters =
  fc_employee_ids :: "int list"
  fc_period :: payroll_period

definition mk_contract_filters :: "contract_filters \<Rightarrow> contract_filters wf" where
  "mk_contract_filters f =
    (if fc_employee_ids f \<noteq> [] \<and> ids_ok (fc_employee_ids f) \<and> length (fc_employee_ids f) \<le> 100
     then Inr f else Inl Validation_error)"

record entry_filters = contract_filters +
  fe_states :: "string list"

definition entry_states :: "string list" where
  "entry_states = [''draft'', ''conflict'', ''validated'', ''cancelled'']"

definition mk_entry_filters :: "entry_filters \<Rightarrow> entry_filters wf" where
  "mk_entry_filters f =
    (if fc_employee_ids f \<noteq> [] \<and> ids_ok (fc_employee_ids f) \<and> length (fc_employee_ids f) \<le> 100
        \<and> set (fe_states f) \<subseteq> set entry_states \<and> distinct (fe_states f)
     then Inr f else Inl Validation_error)"

section \<open>Pages\<close>

record 'a payroll_page =
  hg_items :: "'a list"
  hg_total_count :: int
  hg_next_cursor :: "string option"

definition payroll_page_request :: "nat \<Rightarrow> string option \<Rightarrow> unit wf" where
  "payroll_page_request limit cursor =
    (if limit < 1 \<or> limit > 200 then Inl Validation_error
     else case cursor of None \<Rightarrow> Inr () | Some c \<Rightarrow> if length c > 128 then Inl Validation_error else Inr ())"

text \<open>What the adapter answers to the n-th request of a loop; the answers need not be consistent.\<close>

type_synonym 'a payroll_source = "nat \<Rightarrow> nat \<Rightarrow> string option \<Rightarrow> 'a payroll_page wf"

record payroll_adapter =
  hr_companies :: "company list wf"
  hr_batches :: "int \<Rightarrow> int list \<Rightarrow> payroll_batch payroll_source"
  hr_payslips :: "int \<Rightarrow> payslip_filters \<Rightarrow> payslip payroll_source"
  hr_lines :: "int \<Rightarrow> int list \<Rightarrow> payslip_line payroll_source"
  hr_employees :: "int \<Rightarrow> int list \<Rightarrow> payroll_employee payroll_source"
  hr_segments :: "int \<Rightarrow> contract_filters \<Rightarrow> contract_segment payroll_source"
  hr_work_entries :: "int \<Rightarrow> entry_filters \<Rightarrow> work_entry payroll_source"

end
