(* ===== verification/PayrollEvidence.thy ===== *)
theory PayrollEvidence
  imports PayrollTypes
begin

text \<open>
  Reading payroll evidence (\<open>workflows/payroll/evidence.py\<close>): the loop over the pages of an adapter call, which
  checks the announced total, the identifiers and the cursors; the consistency checks on what was read; and the
  pages towards the client, whose cursor carries a fingerprint of the request and of the records.
\<close>

section \<open>Errors\<close>

definition invalid_payroll :: wf_error where
  "invalid_payroll = Mcp (mk_error PAYROLL_SOURCE_INCONSISTENT ''Odoo returned inconsistent Payroll source data.''
     ''Check the requested company, relationships, and Payroll records, then retry.'')"

definition malformed_payroll :: wf_error where
  "malformed_payroll = Mcp (mk_error ODOO_API_ERROR ''Odoo returned invalid or incomplete Payroll data.''
     ''Check Odoo Payroll compatibility, data integrity, and access, then retry.'')"

definition payroll_too_large :: wf_error where
  "payroll_too_large = Mcp (mk_error PAYROLL_RESULT_TOO_LARGE ''The Payroll result exceeds the safe processing bound.''
     ''Narrow the Payroll period or identifiers and retry.'')"

section \<open>Collecting pages\<close>

definition payroll_page_size :: nat where "payroll_page_size = 200"
definition max_batches :: nat where "max_batches = 5000"
definition max_payslips :: nat where "max_payslips = 5000"
definition max_lines :: nat where "max_lines = 100000"
definition max_employees :: nat where "max_employees = 5000"
definition max_segments :: nat where "max_segments = 20000"
definition max_work_entries :: nat where "max_work_entries = 100000"

record 'a collected =
  cd_items :: "'a list"
  cd_seen_ids :: "int list"
  cd_seen_cursors :: "string list"
  cd_expected :: "int option"

definition collect_item :: "('a \<Rightarrow> int) \<Rightarrow> nat \<Rightarrow> int \<Rightarrow> 'a \<Rightarrow> 'a collected \<Rightarrow> 'a collected wf" where
  "collect_item ident cap expected x s =
    (if ident x \<le> 0 \<or> ident x \<in> set (cd_seen_ids s) then Inl malformed_payroll
     else (let s' = s\<lparr>cd_seen_ids := ident x # cd_seen_ids s, cd_items := cd_items s @ [x]\<rparr> in
       if length (cd_items s') > cap \<or> int (length (cd_items s')) > expected then Inl malformed_payroll else Inr s'))"

definition announced :: "nat \<Rightarrow> int \<Rightarrow> int option \<Rightarrow> int wf" where
  "announced cap n expected =
    (case expected of
       None \<Rightarrow> if n > int cap then Inl payroll_too_large else Inr n
     | Some e \<Rightarrow> if n \<noteq> e then Inl malformed_payroll else Inr e)"

definition collect_turn ::
    "'a payroll_source \<Rightarrow> ('a \<Rightarrow> int) \<Rightarrow> nat \<Rightarrow> nat \<Rightarrow> string option \<Rightarrow> 'a collected \<Rightarrow> ('a collected \<times> string option) wf" where
  "collect_turn src ident cap n cursor s =
    ebind (payroll_page_request payroll_page_size cursor) (\<lambda>_.
    ebind (src n payroll_page_size cursor) (\<lambda>page.
    if hg_total_count page < 0 then Inl malformed_payroll
    else if length (hg_items page) > payroll_page_size
      \<or> (case hg_next_cursor page of None \<Rightarrow> False | Some c \<Rightarrow> length c > 128) then Inl malformed_payroll
    else ebind (announced cap (hg_total_count page) (cd_expected s)) (\<lambda>expected.
    if hg_next_cursor page \<noteq> None \<and> hg_items page = [] then Inl malformed_payroll
    else ebind (efold (collect_item ident cap expected) (hg_items page) (s\<lparr>cd_expected := Some expected\<rparr>)) (\<lambda>s'.
    case hg_next_cursor page of
      None \<Rightarrow> if int (length (cd_items s')) \<noteq> expected then Inl malformed_payroll else Inr (s', None)
    | Some c \<Rightarrow> if c \<in> set (cd_seen_cursors s') then Inl malformed_payroll
               else Inr (s'\<lparr>cd_seen_cursors := c # cd_seen_cursors s'\<rparr>, Some c)))))"

definition nothing_collected :: "'a collected" where
  "nothing_collected = \<lparr>cd_items = [], cd_seen_ids = [], cd_seen_cursors = [], cd_expected = None\<rparr>"

definition collect_pages :: "'a payroll_source \<Rightarrow> ('a \<Rightarrow> int) \<Rightarrow> nat \<Rightarrow> 'a list wf option" where
  "collect_pages src ident cap =
    obind (drain (collect_turn src ident cap) 0 None nothing_collected) (\<lambda>s. Some (Inr (cd_items s)))"

section \<open>Names of references\<close>

text \<open>A dictionary from model and identifier to the name; a second name for the same record is refused.\<close>

type_synonym names = "string \<times> int \<Rightarrow> string option"

definition register :: "wf_error \<Rightarrow> string \<times> int \<times> string \<Rightarrow> names \<Rightarrow> names wf" where
  "register e entry names =
    (case entry of (model, i, name) \<Rightarrow>
      if names (model, i) \<notin> {None, Some name} then Inl e else Inr (names((model, i) \<mapsto> name)))"

definition named :: "string \<Rightarrow> related \<Rightarrow> string \<times> int \<times> string" where
  "named model r = (model, rr_id r, rr_name r)"

definition opt_named :: "string \<Rightarrow> related option \<Rightarrow> (string \<times> int \<times> string) list" where
  "opt_named model r = (case r of None \<Rightarrow> [] | Some x \<Rightarrow> [named model x])"

definition payslip_references :: "payslip \<Rightarrow> (string \<times> int \<times> string) list" where
  "payslip_references p =
    [named ''hr.employee'' (sl_employee p), named (sl_contract_source p) (sl_contract_segment p),
     named ''hr.payroll.structure'' (sl_structure p), named ''res.currency'' (sl_currency p)]
    @ opt_named ''hr.payslip.run'' (sl_batch p)"

definition validate_payslip_references :: "payslip list \<Rightarrow> unit wf" where
  "validate_payslip_references ps =
    ebind (efold (register invalid_payroll) (concat (map payslip_references ps)) (\<lambda>_. None)) (\<lambda>_. Inr ())"

section \<open>What is read\<close>

definition all_batches :: "payroll_adapter \<Rightarrow> int \<Rightarrow> int list \<Rightarrow> payroll_batch list wf option" where
  "all_batches ad company ids =
    obind (collect_pages (hr_batches ad company ids) hb_id max_batches) (\<lambda>bs.
    obind (olift (efold (register invalid_payroll) (map (\<lambda>b. ([], hb_id b, hb_name b)) bs) (\<lambda>_. None))) (\<lambda>_.
    Some (Inr bs)))"

definition all_payslips :: "payroll_adapter \<Rightarrow> int \<Rightarrow> payslip_filters \<Rightarrow> payslip list wf option" where
  "all_payslips ad company filters =
    obind (collect_pages (hr_payslips ad company filters) sl_id max_payslips) (\<lambda>ps.
    obind (olift (validate_payslip_references ps)) (\<lambda>_. Some (Inr ps)))"

text \<open>The children of payslips, a loop per slice of 200 payslips; an identifier comes once over all slices.\<close>

fun gather :: "(int list \<Rightarrow> 'a payroll_source) \<Rightarrow> ('a \<Rightarrow> int) \<Rightarrow> nat \<Rightarrow> int list list \<Rightarrow> 'a list \<Rightarrow> 'a list wf option" where
  "gather src ident cap [] rs = Some (Inr rs)"
| "gather src ident cap (ids # rest) rs =
    obind (olift (mk_child_filters ids)) (\<lambda>ids.
    obind (collect_pages (src ids) ident (cap - length rs)) (\<lambda>rows.
    if list_ex (\<lambda>x. ident x \<in> set (map ident rs)) rows then Some (Inl malformed_payroll)
    else if length (rs @ rows) > cap then Some (Inl payroll_too_large)
    else gather src ident cap rest (rs @ rows)))"

definition all_lines :: "payroll_adapter \<Rightarrow> int \<Rightarrow> int list \<Rightarrow> payslip_line list wf option" where
  "all_lines ad company payslip_ids =
    gather (hr_lines ad company) hl_id max_lines (chunks payroll_page_size payslip_ids) []"

definition all_employees :: "payroll_adapter \<Rightarrow> int \<Rightarrow> int list \<Rightarrow> payroll_employee list wf option" where
  "all_employees ad company ids = collect_pages (hr_employees ad company ids) he_id max_employees"

definition all_segments :: "payroll_adapter \<Rightarrow> int \<Rightarrow> contract_filters \<Rightarrow> contract_segment list wf option" where
  "all_segments ad company filters = collect_pages (hr_segments ad company filters) hc_id max_segments"

definition all_work_entries :: "payroll_adapter \<Rightarrow> int \<Rightarrow> entry_filters \<Rightarrow> work_entry list wf option" where
  "all_work_entries ad company filters = collect_pages (hr_work_entries ad company filters) hn_id max_work_entries"

section \<open>Scopes of payslips\<close>

definition payslip_ok :: "int \<Rightarrow> int option \<Rightarrow> payroll_period option \<Rightarrow> payslip \<Rightarrow> bool" where
  "payslip_ok company batch_id period p \<longleftrightarrow> sl_company_id p = company
    \<and> (case batch_id of None \<Rightarrow> True | Some b \<Rightarrow> map_option rr_id (sl_batch p) = Some b)
    \<and> (case period of None \<Rightarrow> True | Some x \<Rightarrow> sl_date_from p = hp_start x \<and> sl_date_to p = hp_end x)"

definition validate_payslip :: "int \<Rightarrow> int option \<Rightarrow> payroll_period option \<Rightarrow> payslip \<Rightarrow> unit wf" where
  "validate_payslip company batch_id period p =
    (if payslip_ok company batch_id period p then Inr () else Inl invalid_payroll)"

definition exact_batch :: "payroll_adapter \<Rightarrow> int \<Rightarrow> int \<Rightarrow> payroll_batch wf option" where
  "exact_batch ad company batch_id =
    (if batch_id \<le> 0 then Some (Inl Validation_error)
     else obind (all_batches ad company [batch_id]) (\<lambda>bs.
      case bs of
        [] \<Rightarrow> Some (Inl (Mcp (mk_error PAYROLL_BATCH_NOT_FOUND ''The requested Payroll batch was not found.''
               ''Use an exact batch ID from the authorized company.'')))
      | [b] \<Rightarrow> if hb_id b \<noteq> batch_id \<or> hb_company_id b \<noteq> company then Some (Inl invalid_payroll) else Some (Inr b)
      | _ \<Rightarrow> Some (Inl invalid_payroll)))"

text \<open>\<open>sort(key=(date_from, date_to, id), reverse=True)\<close>: a stable sort by the opposite order.\<close>

definition newest_first :: "payslip list \<Rightarrow> payslip list" where
  "newest_first ps = sort_key (\<lambda>p. (- sl_date_from p, - sl_date_to p, - sl_id p)) ps"

definition batch_members :: "payroll_adapter \<Rightarrow> int \<Rightarrow> payroll_batch \<Rightarrow> payslip list wf option" where
  "batch_members ad company b =
    obind (olift (mk_payslip_filters (any_payslips\<lparr>fs_batch_id := Some (hb_id b), fs_states := payroll_states\<rparr>))) (\<lambda>f.
    obind (all_payslips ad company f) (\<lambda>ps.
    obind (olift (each_ok (\<lambda>p. ebind (validate_payslip company (Some (hb_id b)) None p) (\<lambda>_.
       if sl_date_from p < hb_date_start b \<or> sl_date_to p > hb_date_end b then Inl invalid_payroll else Inr ())) ps)) (\<lambda>_.
    Some (Inr (newest_first ps)))))"

definition period_payslips :: "payroll_adapter \<Rightarrow> int \<Rightarrow> payroll_period \<Rightarrow> payslip list wf option" where
  "period_payslips ad company period =
    obind (olift (mk_payslip_filters (any_payslips\<lparr>fs_period := Some period, fs_states := payroll_states\<rparr>))) (\<lambda>f.
    obind (all_payslips ad company f) (\<lambda>ps.
    if ps = [] then Some (Inl (Mcp (mk_error PAYROLL_PERIOD_NOT_FOUND ''The requested Payroll period was not found.''
        ''Use an exact period observed in the authorized company.'')))
    else obind (olift (each_ok (validate_payslip company None (Some period)) ps)) (\<lambda>_.
    Some (Inr (newest_first ps)))))"

end
