(* ===== verification/PayrollReads.thy ===== *)
theory PayrollReads
  imports PayrollEvidence
begin

text \<open>
  The lists of payroll evidence (\<open>workflows/payroll/evidence.py\<close>): the checks of salary lines, the observed
  totals, references to the records, pages with a bound cursor, and the reads \<open>list_payroll_periods\<close>,
  \<open>get_payroll_batch\<close>, \<open>list_payslips\<close> and \<open>list_salary_rules\<close>.
\<close>

section \<open>Rows by key\<close>

text \<open>A dictionary of lists (\<open>defaultdict(list)\<close>), and one of sums (\<open>defaultdict(Decimal)\<close>).\<close>

definition put_row :: "('l \<Rightarrow> 'k) \<Rightarrow> 'l \<Rightarrow> ('k \<times> 'l list) list \<Rightarrow> ('k \<times> 'l list) list" where
  "put_row key l d = dict_put (key l) ((case map_of d (key l) of None \<Rightarrow> [] | Some rs \<Rightarrow> rs) @ [l]) d"

definition rows_by :: "('l \<Rightarrow> 'k) \<Rightarrow> 'l list \<Rightarrow> ('k \<times> 'l list) list" where
  "rows_by key ls = fold (put_row key) ls []"

definition add_total :: "('l \<Rightarrow> 'k) \<Rightarrow> ('l \<Rightarrow> decimal) \<Rightarrow> 'l \<Rightarrow> ('k \<Rightarrow> decimal) \<Rightarrow> 'k \<Rightarrow> decimal" where
  "add_total key amount l m = m(key l := dadd (m (key l)) (amount l))"

definition totals_by :: "('l \<Rightarrow> 'k) \<Rightarrow> ('l \<Rightarrow> decimal) \<Rightarrow> 'l list \<Rightarrow> 'k \<Rightarrow> decimal" where
  "totals_by key amount ls = fold (add_total key amount) ls (\<lambda>_. dzero)"

text \<open>The last row of every key, in the order in which the keys came up.\<close>

definition last_rows :: "('l \<Rightarrow> 'k) \<Rightarrow> 'l list \<Rightarrow> ('k \<times> 'l) list" where
  "last_rows key ls = fold (\<lambda>l. dict_put (key l) l) ls []"

text \<open>\<open>sorted(set(ids))\<close>.\<close>

definition sorted_set :: "'a :: linorder list \<Rightarrow> 'a list" where
  "sorted_set xs = sort (remdups xs)"

section \<open>References\<close>

record source_ref =
  rf_model :: string
  rf_ids :: "int list"

definition source_refs :: "(string \<times> int list) list \<Rightarrow> source_ref list" where
  "source_refs d =
    List.map_filter (\<lambda>(model, ids). if ids = [] then None else Some \<lparr>rf_model = model, rf_ids = sorted_set ids\<rparr>)
      (sort_key fst d)"

section \<open>Salary lines\<close>

definition line_fits :: "(int \<Rightarrow> payslip option) \<Rightarrow> payslip_line \<Rightarrow> bool" where
  "line_fits parents l \<longleftrightarrow>
    (case parents (rr_id (hl_payslip l)) of
       None \<Rightarrow> False
     | Some p \<Rightarrow> hl_employee l = sl_employee p \<and> hl_contract_segment l = sl_contract_segment p
         \<and> hl_contract_source l = sl_contract_source p \<and> hl_currency l = sl_currency p)"

definition validate_lines :: "payslip_line list \<Rightarrow> (int \<Rightarrow> payslip option) \<Rightarrow> unit wf" where
  "validate_lines ls parents = each_ok (\<lambda>l. if line_fits parents l then Inr () else Inl invalid_payroll) ls"

text \<open>The parents: a dictionary from the identifier to the payslip.\<close>

definition parents_of :: "payslip list \<Rightarrow> int \<Rightarrow> payslip option" where
  "parents_of ps = fold (\<lambda>p m. m(sl_id p \<mapsto> p)) ps (\<lambda>_. None)"

text \<open>What belongs to a rule, a category, a currency must not change from line to line.\<close>

type_synonym rule_data = "string \<times> string \<times> related \<times> int"

record line_metadata =
  lm_rules :: "int \<Rightarrow> rule_data option"
  lm_categories :: "int \<Rightarrow> string option"
  lm_currencies :: "int \<Rightarrow> string option"

definition rule_data_of :: "payslip_line \<Rightarrow> rule_data" where
  "rule_data_of l = (rr_name (hl_salary_rule l), hl_code l, hl_category l, hl_sequence l)"

definition note_metadata :: "payslip_line \<Rightarrow> line_metadata \<Rightarrow> line_metadata wf" where
  "note_metadata l m =
    (let r = rr_id (hl_salary_rule l); c = rr_id (hl_category l); u = rr_id (hl_currency l) in
     if lm_rules m r \<notin> {None, Some (rule_data_of l)} \<or> lm_categories m c \<notin> {None, Some (rr_name (hl_category l))}
       \<or> lm_currencies m u \<notin> {None, Some (rr_name (hl_currency l))} then Inl invalid_payroll
     else Inr (m\<lparr>lm_rules := (lm_rules m)(r \<mapsto> rule_data_of l),
        lm_categories := (lm_categories m)(c \<mapsto> rr_name (hl_category l)),
        lm_currencies := (lm_currencies m)(u \<mapsto> rr_name (hl_currency l))\<rparr>))"

definition no_metadata :: line_metadata where
  "no_metadata = \<lparr>lm_rules = (\<lambda>_. None), lm_categories = (\<lambda>_. None), lm_currencies = (\<lambda>_. None)\<rparr>"

definition validate_line_metadata :: "payslip_line list \<Rightarrow> unit wf" where
  "validate_line_metadata ls = ebind (efold note_metadata ls no_metadata) (\<lambda>_. Inr ())"

section \<open>Observed totals\<close>

record rule_total =
  ru_currency :: related
  ru_salary_rule :: related
  ru_code :: string
  ru_total :: decimal

record category_total =
  yc_currency :: related
  yc_category :: related
  yc_total :: decimal

definition rule_key :: "payslip_line \<Rightarrow> int \<times> int" where
  "rule_key l = (rr_id (hl_currency l), rr_id (hl_salary_rule l))"

definition category_key :: "payslip_line \<Rightarrow> int \<times> int" where
  "category_key l = (rr_id (hl_currency l), rr_id (hl_category l))"

definition observed_totals :: "payslip_line list \<Rightarrow> (rule_total list \<times> category_total list) wf" where
  "observed_totals ls =
    ebind (validate_line_metadata ls) (\<lambda>_.
    Inr (sort_key (\<lambda>t. (rr_id (ru_currency t), casefold (ru_code t), rr_id (ru_salary_rule t)))
           (map (\<lambda>(k, l). \<lparr>ru_currency = hl_currency l, ru_salary_rule = hl_salary_rule l, ru_code = hl_code l,
              ru_total = totals_by rule_key hl_total ls k\<rparr>) (last_rows rule_key ls)),
         sort_key (\<lambda>t. (rr_id (yc_currency t), casefold (rr_name (yc_category t)), rr_id (yc_category t)))
           (map (\<lambda>(k, l). \<lparr>yc_currency = hl_currency l, yc_category = hl_category l,
              yc_total = totals_by category_key hl_total ls k\<rparr>) (last_rows category_key ls))))"

section \<open>Pages with a bound cursor\<close>

text \<open>The anchors: model, identifier and write date of every record, sorted.\<close>

type_synonym anchor = "string \<times> int \<times> string"

definition json_anchors :: "anchor list \<Rightarrow> pyval" where
  "json_anchors as = PList (map (\<lambda>(model, i, w). PList [PStr model, PInt i, PStr w]) as)"

definition payroll_fingerprint :: "(string \<Rightarrow> string) \<Rightarrow> pyval \<Rightarrow> anchor list \<Rightarrow> string" where
  "payroll_fingerprint H binding as = take 20 (H (json_text (PDict [(''binding'', binding), (''anchors'', json_anchors as)])))"

definition bad_payroll_cursor :: "string \<Rightarrow> wf_error" where
  "bad_payroll_cursor message = Mcp (mk_error INVALID_INPUT message ''Restart the Payroll request without a cursor.'')"

definition payroll_offset :: "string \<Rightarrow> string option \<Rightarrow> nat wf" where
  "payroll_offset fp cursor =
    (case cursor of
       None \<Rightarrow> Inr 0
     | Some c \<Rightarrow>
        (case open_cursor c of
           None \<Rightarrow> Inl (bad_payroll_cursor ''The Payroll pagination cursor is invalid.'')
         | Some t \<Rightarrow>
            (case split_on (CHR '':'') t of
               [version, bound, raw] \<Rightarrow>
                 (case py_int raw of
                    None \<Rightarrow> Inl (bad_payroll_cursor ''The Payroll pagination cursor is invalid.'')
                  | Some n \<Rightarrow> if version \<noteq> ''v1'' \<or> bound \<noteq> fp \<or> n \<le> 0
                      then Inl (bad_payroll_cursor ''The Payroll pagination cursor does not match this request.'')
                      else Inr (nat n))
             | _ \<Rightarrow> Inl (bad_payroll_cursor ''The Payroll pagination cursor is invalid.''))))"

definition payroll_cursor :: "string \<Rightarrow> nat \<Rightarrow> string" where
  "payroll_cursor fp n = seal_cursor (''v1:'' @ fp @ '':'' @ nat_text n)"

definition paginate ::
    "(string \<Rightarrow> string) \<Rightarrow> 'a list \<Rightarrow> nat \<Rightarrow> string option \<Rightarrow> pyval \<Rightarrow> anchor list \<Rightarrow> ('a list \<times> string option) wf" where
  "paginate H items limit cursor binding as =
    (let fp = payroll_fingerprint H binding as in
     ebind (payroll_offset fp cursor)
       (cut (payroll_cursor fp) (bad_payroll_cursor ''The Payroll pagination cursor is outside this result.'') items limit))"

section \<open>Compact payslips and counts\<close>

record compact_payslip =
  cp_payslip_id :: int
  cp_reference :: string
  cp_employee :: related
  cp_period_start :: int
  cp_period_end :: int
  cp_state :: string
  cp_batch :: "related option"
  cp_contract_source :: string
  cp_contract :: related
  cp_structure :: related
  cp_credit_note :: bool
  cp_currency :: related

definition compact :: "payslip \<Rightarrow> compact_payslip" where
  "compact p = \<lparr>cp_payslip_id = sl_id p, cp_reference = sl_reference p, cp_employee = sl_employee p,
     cp_period_start = sl_date_from p, cp_period_end = sl_date_to p, cp_state = sl_state p, cp_batch = sl_batch p,
     cp_contract_source = sl_contract_source p, cp_contract = sl_contract_segment p, cp_structure = sl_structure p,
     cp_credit_note = sl_credit_note p, cp_currency = sl_currency p\<rparr>"

definition state_counts :: "payslip list \<Rightarrow> (string \<times> nat) list" where
  "state_counts ps =
    filter (\<lambda>(_, n). n \<noteq> 0) (map (\<lambda>s. (s, length (filter (\<lambda>p. sl_state p = s) ps))) payroll_states)"

definition default_states :: "string list" where "default_states = [''waiting'', ''done'', ''paid'']"

definition or_default :: "string list \<Rightarrow> string list" where
  "or_default states = (if states = [] then default_states else states)"

section \<open>Responses\<close>

record ('i, 's) payroll_list =
  yl_request_id :: string
  yl_company_id :: int
  yl_observed_at :: int
  yl_source_refs :: "source_ref list"
  yl_limitations :: "string list"
  yl_items :: "'i list"
  yl_next_cursor :: "string option"
  yl_summary :: 's

text \<open>What every list request has, and the part of it that binds a cursor.\<close>

record 'r payroll_request =
  yq_company :: int
  yq_limit :: nat
  yq_cursor :: "string option"
  yq_args :: 'r

definition json_states :: "string list \<Rightarrow> pyval" where "json_states states = PList (map PStr states)"
definition json_date :: "int option \<Rightarrow> pyval" where
  "json_date d = (case d of None \<Rightarrow> PNone | Some x \<Rightarrow> PStr (isoformat x))"
definition json_ident :: "int option \<Rightarrow> pyval" where
  "json_ident i = (case i of None \<Rightarrow> PNone | Some x \<Rightarrow> PInt x)"

definition bind_request :: "'r payroll_request \<Rightarrow> pymap \<Rightarrow> pyval" where
  "bind_request r kvs = PDict ([(''company_id'', PInt (yq_company r)), (''limit'', PInt (int (yq_limit r)))] @ kvs)"

definition payroll_list_of ::
    "(string \<Rightarrow> string) \<Rightarrow> 'r payroll_request \<Rightarrow> string \<Rightarrow> int \<Rightarrow> pyval \<Rightarrow> anchor list \<Rightarrow> source_ref list \<Rightarrow> 'i list \<Rightarrow>
      ('i list \<Rightarrow> bool \<Rightarrow> 's) \<Rightarrow> ('i, 's) payroll_list wf" where
  "payroll_list_of H r request_id now binding as refs items summary =
    ebind (paginate H items (yq_limit r) (yq_cursor r) binding as) (\<lambda>(selected, nx).
    Inr \<lparr>yl_request_id = request_id, yl_company_id = yq_company r, yl_observed_at = now, yl_source_refs = refs,
         yl_limitations = [], yl_items = selected, yl_next_cursor = nx, yl_summary = summary selected (nx \<noteq> None)\<rparr>)"

definition payslip_anchors :: "payslip list \<Rightarrow> anchor list" where
  "payslip_anchors ps = map (\<lambda>p. (''hr.payslip'', sl_id p, sl_write_date p)) ps"

definition line_anchors :: "payslip_line list \<Rightarrow> anchor list" where
  "line_anchors ls = map (\<lambda>l. (''hr.payslip.line'', hl_id l, hl_write_date l)) ls"

definition batch_anchors :: "payroll_batch option \<Rightarrow> anchor list" where
  "batch_anchors b = (case b of None \<Rightarrow> [] | Some x \<Rightarrow> [(''hr.payslip.run'', hb_id x, hb_write_date x)])"

section \<open>Periods\<close>

record periods_args =
  pd_window_start :: int
  pd_window_end :: int
  pd_states :: "string list"

record period_item =
  pt_period_start :: int
  pt_period_end :: int
  pt_observed :: nat
  pt_active :: nat
  pt_batch_ids :: "int list"
  pt_currencies :: "related list"
  pt_state_counts :: "(string \<times> nat) list"

record periods_summary =
  px_period_count :: nat
  px_returned_count :: nat
  px_active :: nat
  px_has_more :: bool

text \<open>\<open>{identifier: name}\<close> sorted: the name of the last row of every identifier.\<close>

definition currencies_of :: "related list \<Rightarrow> related list" where
  "currencies_of rs = map (\<lambda>(i, r). \<lparr>rr_id = i, rr_name = rr_name r\<rparr>) (sort_key fst (last_rows rr_id rs))"

definition period_item_of :: "(int \<times> int) \<times> payslip list \<Rightarrow> period_item" where
  "period_item_of g =
    (case g of ((s, e), rows) \<Rightarrow>
     let active = filter (\<lambda>p. sl_state p \<noteq> ''cancelled'') rows in
     \<lparr>pt_period_start = s, pt_period_end = e, pt_observed = length rows, pt_active = length active,
      pt_batch_ids = sorted_set (List.map_filter (\<lambda>p. map_option rr_id (sl_batch p)) active),
      pt_currencies = currencies_of (map sl_currency active), pt_state_counts = state_counts rows\<rparr>)"

definition period_items :: "payslip list \<Rightarrow> period_item list" where
  "period_items ps =
    sort_key (\<lambda>t. (- pt_period_start t, - pt_period_end t))
      (map period_item_of (rows_by (\<lambda>p. (sl_date_from p, sl_date_to p)) ps))"

definition in_window :: "periods_args \<Rightarrow> string list \<Rightarrow> payslip \<Rightarrow> unit wf" where
  "in_window a states p =
    (if sl_date_from p < pd_window_start a \<or> sl_date_to p > pd_window_end a \<or> sl_state p \<notin> set states
     then Inl invalid_payroll else Inr ())"

definition list_payroll_periods ::
    "(string \<Rightarrow> string) \<Rightarrow> payroll_adapter \<Rightarrow> periods_args payroll_request \<Rightarrow> string \<Rightarrow> int \<Rightarrow>
      (period_item, periods_summary) payroll_list wf option" where
  "list_payroll_periods H ad r request_id now =
    (let a = yq_args r; states = or_default (pd_states a) in
     obind (olift (mk_discovery_window (pd_window_start a) (pd_window_end a))) (\<lambda>w.
     obind (olift (mk_payslip_filters (any_payslips\<lparr>fs_window := Some w, fs_states := states\<rparr>))) (\<lambda>f.
     obind (all_payslips ad (yq_company r) f) (\<lambda>ps.
     obind (olift (each_ok (\<lambda>p. ebind (validate_payslip (yq_company r) None None p) (\<lambda>_. in_window a states p)) ps)) (\<lambda>_.
     let items = period_items ps in
     olift (payroll_list_of H r request_id now
       (bind_request r [(''window_start'', PStr (isoformat (pd_window_start a))), (''window_end'', PStr (isoformat (pd_window_end a))),
          (''states'', json_states (pd_states a))])
       (sort (payslip_anchors ps)) (source_refs [(''hr.payslip'', map sl_id ps)]) items
       (\<lambda>selected more. \<lparr>px_period_count = length items, px_returned_count = length selected,
          px_active = sum_list (map pt_active items), px_has_more = more\<rparr>)))))))"

section \<open>A batch\<close>

record batch_args =
  pb_batch_id :: int
  pb_states :: "string list"

record batch_summary =
  pz_batch :: payroll_batch
  pz_active :: nat
  pz_returned_count :: nat
  pz_employee_count :: nat
  pz_state_counts :: "(string \<times> nat) list"
  pz_rule_totals :: "rule_total list"
  pz_category_totals :: "category_total list"
  pz_has_more :: bool

definition lines_of_payslips :: "payroll_adapter \<Rightarrow> int \<Rightarrow> payslip list \<Rightarrow> payslip_line list wf option" where
  "lines_of_payslips ad company ps = (if ps = [] then Some (Inr []) else all_lines ad company (map sl_id ps))"

definition get_payroll_batch ::
    "(string \<Rightarrow> string) \<Rightarrow> payroll_adapter \<Rightarrow> batch_args payroll_request \<Rightarrow> string \<Rightarrow> int \<Rightarrow>
      (compact_payslip, batch_summary) payroll_list wf option" where
  "get_payroll_batch H ad r request_id now =
    (let a = yq_args r; company = yq_company r; states = or_default (pb_states a) in
     obind (exact_batch ad company (pb_batch_id a)) (\<lambda>b.
     obind (batch_members ad company b) (\<lambda>members.
     let selected_members = filter (\<lambda>p. sl_state p \<in> set states) members;
         included = filter (\<lambda>p. sl_state p \<noteq> ''cancelled'') selected_members in
     obind (lines_of_payslips ad company included) (\<lambda>ls.
     obind (olift (validate_lines ls (parents_of included))) (\<lambda>_.
     obind (olift (observed_totals ls)) (\<lambda>(rules, categories).
     olift (payroll_list_of H r request_id now
       (bind_request r [(''batch_id'', PInt (pb_batch_id a)), (''states'', json_states (pb_states a))])
       (sort (batch_anchors (Some b) @ payslip_anchors members @ line_anchors ls))
       (source_refs [(''hr.payslip.run'', [hb_id b]), (''hr.payslip'', map sl_id selected_members), (''hr.payslip.line'', map hl_id ls)])
       (map compact selected_members)
       (\<lambda>selected more. \<lparr>pz_batch = b, pz_active = length included, pz_returned_count = length selected,
          pz_employee_count = card (set (map (rr_id \<circ> sl_employee) included)), pz_state_counts = state_counts included,
          pz_rule_totals = rules, pz_category_totals = categories, pz_has_more = more\<rparr>))))))))"

section \<open>Payslips and salary rules of a scope\<close>

record scope_args =
  pi_batch_id :: "int option"
  pi_period_start :: "int option"
  pi_period_end :: "int option"
  pi_employee_ids :: "int list"
  pi_states :: "string list"

definition scope_period :: "scope_args \<Rightarrow> payroll_period option wf" where
  "scope_period a =
    (case (pi_period_start a, pi_period_end a) of
       (Some s, Some e) \<Rightarrow> ebind (mk_payroll_period s e) (\<lambda>p. Inr (Some p))
     | _ \<Rightarrow> Inr None)"

definition in_period :: "payroll_period \<Rightarrow> payslip list \<Rightarrow> payslip \<Rightarrow> bool" where
  "in_period p rows x \<longleftrightarrow> sl_id x \<in> set (map sl_id rows) \<and> sl_date_from x = hp_start p \<and> sl_date_to x = hp_end p"

definition payslip_scope ::
    "payroll_adapter \<Rightarrow> int \<Rightarrow> scope_args \<Rightarrow> (payslip list \<times> payroll_batch option) wf option" where
  "payslip_scope ad company a =
    obind (olift (scope_period a)) (\<lambda>period.
    obind (case pi_batch_id a of
        None \<Rightarrow>
          (case period of
             None \<Rightarrow> Some (Inl Assertion_error)
           | Some p \<Rightarrow> obind (period_payslips ad company p) (\<lambda>rows. Some (Inr (rows, None))))
      | Some i \<Rightarrow>
          obind (exact_batch ad company i) (\<lambda>b.
          obind (batch_members ad company b) (\<lambda>members.
          case period of
            None \<Rightarrow> Some (Inr (members, Some b))
          | Some p \<Rightarrow> obind (period_payslips ad company p) (\<lambda>rows. Some (Inr (filter (in_period p rows) members, Some b))))))
     (\<lambda>(base, b).
    obind (olift (each_ok (validate_payslip company (pi_batch_id a) period) base)) (\<lambda>_. Some (Inr (base, b)))))"

definition wanted_payslip :: "scope_args \<Rightarrow> payslip \<Rightarrow> bool" where
  "wanted_payslip a p \<longleftrightarrow> sl_state p \<in> set (or_default (pi_states a))
    \<and> (pi_employee_ids a = [] \<or> rr_id (sl_employee p) \<in> set (pi_employee_ids a))"

definition scope_binding :: "scope_args payroll_request \<Rightarrow> pyval" where
  "scope_binding r =
    (let a = yq_args r in bind_request r
      [(''batch_id'', json_ident (pi_batch_id a)), (''period_start'', json_date (pi_period_start a)),
       (''period_end'', json_date (pi_period_end a)), (''employee_ids'', PList (map PInt (pi_employee_ids a))),
       (''states'', json_states (pi_states a))])"

definition batch_ref :: "payroll_batch option \<Rightarrow> (string \<times> int list) list" where
  "batch_ref b = (case b of None \<Rightarrow> [] | Some x \<Rightarrow> [(''hr.payslip.run'', [hb_id x])])"

record payslips_summary =
  pu_payslip_count :: nat
  pu_returned_count :: nat
  pu_state_counts :: "(string \<times> nat) list"
  pu_has_more :: bool

definition list_payslips ::
    "(string \<Rightarrow> string) \<Rightarrow> payroll_adapter \<Rightarrow> scope_args payroll_request \<Rightarrow> string \<Rightarrow> int \<Rightarrow>
      (compact_payslip, payslips_summary) payroll_list wf option" where
  "list_payslips H ad r request_id now =
    obind (payslip_scope ad (yq_company r) (yq_args r)) (\<lambda>(base, b).
    let chosen = newest_first (filter (wanted_payslip (yq_args r)) base) in
    olift (payroll_list_of H r request_id now (scope_binding r) (sort (payslip_anchors base @ batch_anchors b))
      (source_refs ((''hr.payslip'', map sl_id chosen) # batch_ref b)) (map compact chosen)
      (\<lambda>selected more. \<lparr>pu_payslip_count = length chosen, pu_returned_count = length selected,
         pu_state_counts = state_counts chosen, pu_has_more = more\<rparr>)))"

record rule_snapshot =
  rx_salary_rule :: related
  rx_code :: string
  rx_category :: related
  rx_sequence :: int
  rx_affected :: nat
  rx_currencies :: "related list"

record rules_summary =
  ry_rule_count :: nat
  ry_returned_count :: nat
  ry_affected :: nat
  ry_has_more :: bool

definition rule_snapshot_of :: "int \<times> payslip_line list \<Rightarrow> rule_snapshot" where
  "rule_snapshot_of g =
    (let rows = snd g; sample = hd rows in
     \<lparr>rx_salary_rule = hl_salary_rule sample, rx_code = hl_code sample, rx_category = hl_category sample,
      rx_sequence = hl_sequence sample, rx_affected = card (set (map (rr_id \<circ> hl_payslip) rows)),
      rx_currencies = currencies_of (map hl_currency rows)\<rparr>)"

definition list_salary_rules ::
    "(string \<Rightarrow> string) \<Rightarrow> payroll_adapter \<Rightarrow> scope_args payroll_request \<Rightarrow> string \<Rightarrow> int \<Rightarrow>
      (rule_snapshot, rules_summary) payroll_list wf option" where
  "list_salary_rules H ad r request_id now =
    obind (payslip_scope ad (yq_company r) (yq_args r)) (\<lambda>(base, b).
    let ps = filter (wanted_payslip (yq_args r)) base in
    obind (lines_of_payslips ad (yq_company r) ps) (\<lambda>ls.
    obind (olift (validate_lines ls (parents_of ps))) (\<lambda>_.
    obind (olift (validate_line_metadata ls)) (\<lambda>_.
    let items = sort_key (\<lambda>t. (rx_sequence t, rr_id (rx_salary_rule t)))
          (map rule_snapshot_of (rows_by (rr_id \<circ> hl_salary_rule) ls)) in
    olift (payroll_list_of H r request_id now (scope_binding r)
      (sort (payslip_anchors base @ line_anchors ls @ batch_anchors b))
      (source_refs ([(''hr.payslip'', map sl_id ps), (''hr.payslip.line'', map hl_id ls)] @ batch_ref b)) items
      (\<lambda>selected more. \<lparr>ry_rule_count = length items, ry_returned_count = length selected,
         ry_affected = card (set (map (rr_id \<circ> hl_payslip) ls)), ry_has_more = more\<rparr>))))))"

end
