(* ===== verification/PayrollPages.thy ===== *)
theory PayrollPages
  imports PayrollReads
begin

text \<open>
  The loop over the pages of a payroll read is total, and accepts exactly the sequences of pages that are
  consistent: one announced total, new identifiers, new cursors, no empty page before the end.
\<close>

section \<open>One page\<close>

definition short_cursor :: "string option \<Rightarrow> bool" where
  "short_cursor c \<longleftrightarrow> (case c of None \<Rightarrow> True | Some t \<Rightarrow> length t \<le> 128)"

definition absorb :: "('a \<Rightarrow> int) \<Rightarrow> 'a collected \<Rightarrow> 'a payroll_page \<Rightarrow> 'a collected" where
  "absorb ident s p =
    (let s' = s\<lparr>cd_expected := Some (hg_total_count p), cd_seen_ids := rev (map ident (hg_items p)) @ cd_seen_ids s,
           cd_items := cd_items s @ hg_items p\<rparr>
     in case hg_next_cursor p of None \<Rightarrow> s' | Some c \<Rightarrow> s'\<lparr>cd_seen_cursors := c # cd_seen_cursors s\<rparr>)"

lemma absorb_simps [simp]:
  "cd_items (absorb ident s p) = cd_items s @ hg_items p"
  "cd_seen_ids (absorb ident s p) = rev (map ident (hg_items p)) @ cd_seen_ids s"
  "cd_seen_cursors (absorb ident s p) = (case hg_next_cursor p of None \<Rightarrow> [] | Some c \<Rightarrow> [c]) @ cd_seen_cursors s"
  "cd_expected (absorb ident s p) = Some (hg_total_count p)"
  by (simp_all add: absorb_def Let_def split: option.splits)

definition page_fits :: "('a \<Rightarrow> int) \<Rightarrow> nat \<Rightarrow> 'a collected \<Rightarrow> 'a payroll_page \<Rightarrow> bool" where
  "page_fits ident cap s p \<longleftrightarrow> 0 \<le> hg_total_count p \<and> length (hg_items p) \<le> payroll_page_size \<and> short_cursor (hg_next_cursor p)
    \<and> (case cd_expected s of None \<Rightarrow> hg_total_count p \<le> int cap | Some e \<Rightarrow> hg_total_count p = e)
    \<and> list_all (\<lambda>x. 0 < ident x) (hg_items p) \<and> distinct (map ident (hg_items p))
    \<and> set (map ident (hg_items p)) \<inter> set (cd_seen_ids s) = {}
    \<and> (hg_items p = [] \<or> length (cd_items s @ hg_items p) \<le> cap \<and> int (length (cd_items s @ hg_items p)) \<le> hg_total_count p)
    \<and> (case hg_next_cursor p of None \<Rightarrow> int (length (cd_items s @ hg_items p)) = hg_total_count p
       | Some c \<Rightarrow> hg_items p \<noteq> [] \<and> c \<notin> set (cd_seen_cursors s))"

lemma collect_item_Inr:
  "collect_item ident cap e x s = Inr s' \<longleftrightarrow> 0 < ident x \<and> ident x \<notin> set (cd_seen_ids s)
    \<and> Suc (length (cd_items s)) \<le> cap \<and> int (Suc (length (cd_items s))) \<le> e
    \<and> s' = s\<lparr>cd_seen_ids := ident x # cd_seen_ids s, cd_items := cd_items s @ [x]\<rparr>"
  by (auto simp: collect_item_def Let_def)

lemma collect_items_Inr:
  "efold (collect_item ident cap e) xs s = Inr s' \<longleftrightarrow> list_all (\<lambda>x. 0 < ident x) xs \<and> distinct (map ident xs)
    \<and> set (map ident xs) \<inter> set (cd_seen_ids s) = {}
    \<and> (xs = [] \<or> length (cd_items s @ xs) \<le> cap \<and> int (length (cd_items s @ xs)) \<le> e)
    \<and> s' = s\<lparr>cd_seen_ids := rev (map ident xs) @ cd_seen_ids s, cd_items := cd_items s @ xs\<rparr>"
proof (induction xs arbitrary: s)
  case (Cons x xs)
  show ?case by (auto simp: collect_item_Inr Cons.IH)
qed auto

lemma collect_turn_Inr:
  "collect_turn src ident cap n c s = Inr (s', nx) \<longleftrightarrow> short_cursor c
    \<and> (\<exists>p. src n payroll_page_size c = Inr p \<and> page_fits ident cap s p \<and> s' = absorb ident s p \<and> nx = hg_next_cursor p)"
proof -
  have req: "payroll_page_request payroll_page_size c = Inr () \<longleftrightarrow> short_cursor c"
    by (auto simp: payroll_page_request_def payroll_page_size_def short_cursor_def split: option.splits)
  have ann: "announced cap n e = Inr k \<longleftrightarrow> k = n \<and> (case e of None \<Rightarrow> n \<le> int cap | Some i \<Rightarrow> n = i)" for n e k
    by (auto simp: announced_def split: option.splits)
  show ?thesis
  proof (cases "src n payroll_page_size c")
    case (Inr p)
    show ?thesis
    proof (cases "hg_next_cursor p")
      case None
      show ?thesis
        by (simp add: collect_turn_def Inr None req ann collect_items_Inr page_fits_def absorb_def short_cursor_def Let_def cong: conj_cong)
          auto
    next
      case (Some c')
      show ?thesis
        by (simp add: collect_turn_def Inr Some req ann collect_items_Inr page_fits_def absorb_def short_cursor_def Let_def cong: conj_cong)
          auto
    qed
  qed (simp add: collect_turn_def)
qed

section \<open>The loop ends\<close>

interpretation collecting: growing_loop "collect_turn src ident cap" "length \<circ> cd_items" cap for src ident cap
  by unfold_locales (auto simp: collect_turn_Inr page_fits_def split: option.splits)

lemma collect_pages_ends [ends]: "collect_pages src ident cap \<noteq> None"
  unfolding collect_pages_def by (intro ends collecting.drain_ends)

lemma gather_ends [ends]: "gather src ident cap chs rs \<noteq> None"
  by (induction chs arbitrary: rs) (simp, simp only: gather.simps, intro ends)

section \<open>Sequences of pages\<close>

fun chain :: "'a payroll_source \<Rightarrow> nat \<Rightarrow> string option \<Rightarrow> 'a payroll_page list \<Rightarrow> bool" where
  "chain src n c [] = False"
| "chain src n c (p # ps) =
    (src n payroll_page_size c = Inr p \<and>
     (case hg_next_cursor p of None \<Rightarrow> ps = [] | Some c' \<Rightarrow> chain src (Suc n) (Some c') ps))"

fun fitting :: "('a \<Rightarrow> int) \<Rightarrow> nat \<Rightarrow> 'a collected \<Rightarrow> 'a payroll_page list \<Rightarrow> bool" where
  "fitting ident cap s [] = True"
| "fitting ident cap s (p # ps) = (page_fits ident cap s p \<and> fitting ident cap (absorb ident s p) ps)"

lemma drain_step:
  "drain turn n c s = Some (Inr r) \<longleftrightarrow> turn n c s = Inr (r, None)
    \<or> (\<exists>s' c'. turn n c s = Inr (s', Some c') \<and> drain turn (Suc n) (Some c') s' = Some (Inr r))"
  by (subst drain.simps) (auto split: sum.splits prod.splits option.splits)

lemma fitting_drains:
  assumes "chain src n c ps" "fitting ident cap s ps" "short_cursor c"
  shows "drain (collect_turn src ident cap) n c s = Some (Inr (foldl (absorb ident) s ps))"
  using assms
proof (induction ps arbitrary: n c s)
  case (Cons p ps)
  show ?case
  proof (cases "hg_next_cursor p")
    case None
    with Cons.prems show ?thesis by (subst drain_step) (auto simp: collect_turn_Inr)
  next
    case (Some c')
    with Cons.prems Cons.IH [of "Suc n" "Some c'" "absorb ident s p"]
    have "drain (collect_turn src ident cap) (Suc n) (Some c') (absorb ident s p) = Some (Inr (foldl (absorb ident) (absorb ident s p) ps))"
      by (simp add: page_fits_def)
    with Some Cons.prems show ?thesis by (subst drain_step) (auto simp: collect_turn_Inr)
  qed
qed simp

lemma drained_chain:
  assumes "drain (collect_turn src ident cap) n c s = Some (Inr r)"
  shows "\<exists>ps. chain src n c ps \<and> fitting ident cap s ps \<and> r = foldl (absorb ident) s ps"
  using assms
proof (induction "Suc cap - length (cd_items s)" arbitrary: n c s rule: less_induct)
  case less
  from less.prems [THEN drain_step [THEN iffD1]] consider
      (last) "collect_turn src ident cap n c s = Inr (r, None)"
    | (more) s' c' where "collect_turn src ident cap n c s = Inr (s', Some c')"
        "drain (collect_turn src ident cap) (Suc n) (Some c') s' = Some (Inr r)" by blast
  then show ?case
  proof cases
    case last
    then obtain p where "src n payroll_page_size c = Inr p" "page_fits ident cap s p" "r = absorb ident s p" "hg_next_cursor p = None"
      by (auto simp: collect_turn_Inr)
    then show ?thesis by (intro exI [of _ "[p]"]) simp
  next
    case more
    then obtain p where p: "src n payroll_page_size c = Inr p" "page_fits ident cap s p" "s' = absorb ident s p" "hg_next_cursor p = Some c'"
      by (auto simp: collect_turn_Inr)
    from collecting.grows [OF more(1)] have "Suc cap - length (cd_items s') < Suc cap - length (cd_items s)" by auto
    from less.hyps [OF this more(2)] obtain ps where
      "chain src (Suc n) (Some c') ps" "fitting ident cap s' ps" "r = foldl (absorb ident) s' ps" by blast
    with p show ?thesis by (intro exI [of _ "p # ps"]) simp
  qed
qed

text \<open>In closed form: what it means for all pages together.\<close>

definition page_cursors :: "'a payroll_page list \<Rightarrow> string list" where
  "page_cursors ps = List.map_filter hg_next_cursor ps"

definition page_items :: "'a payroll_page list \<Rightarrow> 'a list" where
  "page_items ps = concat (map hg_items ps)"

definition consistent_pages :: "('a \<Rightarrow> int) \<Rightarrow> nat \<Rightarrow> 'a payroll_page list \<Rightarrow> bool" where
  "consistent_pages ident cap ps \<longleftrightarrow>
    list_all (\<lambda>p. hg_total_count p = int (length (page_items ps)) \<and> length (hg_items p) \<le> payroll_page_size
      \<and> short_cursor (hg_next_cursor p) \<and> (hg_next_cursor p = None \<or> hg_items p \<noteq> [])) ps
    \<and> length (page_items ps) \<le> cap \<and> list_all (\<lambda>x. 0 < ident x) (page_items ps)
    \<and> distinct (map ident (page_items ps)) \<and> distinct (page_cursors ps)"

lemma page_lists [simp]:
  "page_items [] = []" "page_items (p # ps) = hg_items p @ page_items ps"
  "page_cursors [] = []"
  "page_cursors (p # ps) = (case hg_next_cursor p of None \<Rightarrow> [] | Some c \<Rightarrow> [c]) @ page_cursors ps"
  by (simp_all add: page_items_def page_cursors_def List.map_filter_simps split: option.splits)

lemma foldl_absorb_items: "cd_items (foldl (absorb ident) s ps) = cd_items s @ page_items ps"
  by (induction ps arbitrary: s) simp_all

text \<open>The conditions on the pages that are still to come, from a state of the loop.\<close>

definition closes :: "('a \<Rightarrow> int) \<Rightarrow> nat \<Rightarrow> 'a collected \<Rightarrow> 'a payroll_page list \<Rightarrow> bool" where
  "closes ident cap s ps \<longleftrightarrow>
    list_all (\<lambda>p. hg_total_count p = int (length (cd_items s @ page_items ps)) \<and> length (hg_items p) \<le> payroll_page_size
      \<and> short_cursor (hg_next_cursor p) \<and> (hg_next_cursor p = None \<or> hg_items p \<noteq> [])) ps
    \<and> (case cd_expected s of None \<Rightarrow> True | Some e \<Rightarrow> e = int (length (cd_items s @ page_items ps)))
    \<and> length (cd_items s @ page_items ps) \<le> cap \<and> list_all (\<lambda>x. 0 < ident x) (page_items ps)
    \<and> distinct (map ident (page_items ps)) \<and> set (map ident (page_items ps)) \<inter> set (cd_seen_ids s) = {}
    \<and> distinct (page_cursors ps) \<and> set (page_cursors ps) \<inter> set (cd_seen_cursors s) = {}"

lemma fitting_closes:
  assumes "chain src n c ps" "case cd_expected s of None \<Rightarrow> cd_items s = [] | Some e \<Rightarrow> e \<le> int cap"
  shows "fitting ident cap s ps \<longleftrightarrow> closes ident cap s ps"
  using assms
proof (induction ps arbitrary: n c s)
  case (Cons p ps)
  show ?case
  proof (cases "hg_next_cursor p")
    case None
    with Cons.prems have "ps = []" by simp
    with None Cons.prems(2) show ?thesis
      by (cases "cd_expected s") (auto simp: page_fits_def closes_def)
  next
    case (Some c')
    let ?s = "absorb ident s p"
    have ps: "ps \<noteq> []" "chain src (Suc n) (Some c') ps" using Cons.prems(1) Some by (cases ps; simp)+
    have "fitting ident cap ?s ps \<longleftrightarrow> closes ident cap ?s ps" if "hg_total_count p \<le> int cap"
      using that by (intro Cons.IH [OF ps(2)]) simp
    moreover have "page_fits ident cap s p \<Longrightarrow> hg_total_count p \<le> int cap" "closes ident cap s (p # ps) \<Longrightarrow> hg_total_count p \<le> int cap"
      using Cons.prems(2) by (auto simp: page_fits_def closes_def split: option.splits)
    moreover have "page_fits ident cap s p \<and> closes ident cap ?s ps \<longleftrightarrow> closes ident cap s (p # ps)"
      using Some Cons.prems(2) by (cases "cd_expected s") (auto simp: page_fits_def closes_def list_all_iff)
    ultimately show ?thesis by (simp add: conj_commute) blast
  qed
qed simp

text \<open>C35 (a payroll read is whole). Every loop over the pages of a payroll read ends, whatever the adapter answers; and it
  returns records exactly when the pages that follow each other by their cursors are consistent: they announce
  the same total, which is the number of the records and within the limit, all identifiers are positive and
  different, no cursor comes twice, and every page but the last brings records. The result is all their records
  in order.\<close>

theorem payroll_read_is_whole:
  "collect_pages src ident cap \<noteq> None
    \<and> (collect_pages src ident cap = Some (Inr items)
      \<longleftrightarrow> (\<exists>ps. chain src 0 None ps \<and> consistent_pages ident cap ps \<and> items = page_items ps))"
proof (intro conjI)
  show "collect_pages src ident cap \<noteq> None" by (rule collect_pages_ends)
  have closed: "fitting ident cap nothing_collected ps \<longleftrightarrow> consistent_pages ident cap ps" if "chain src 0 None ps" for ps
    using fitting_closes [OF that, of nothing_collected cap ident] by (simp add: closes_def consistent_pages_def nothing_collected_def)
  have "collect_pages src ident cap = Some (Inr items)
      \<longleftrightarrow> (\<exists>r. drain (collect_turn src ident cap) 0 None nothing_collected = Some (Inr r) \<and> items = cd_items r)"
    by (auto simp: collect_pages_def obind_Some_Inr)
  also have "\<dots> \<longleftrightarrow> (\<exists>ps. chain src 0 None ps \<and> fitting ident cap nothing_collected ps \<and> items = page_items ps)"
  proof
    assume "\<exists>r. drain (collect_turn src ident cap) 0 None nothing_collected = Some (Inr r) \<and> items = cd_items r"
    then obtain r where r: "drain (collect_turn src ident cap) 0 None nothing_collected = Some (Inr r)" "items = cd_items r" by blast
    from drained_chain [OF r(1)] r(2) show "\<exists>ps. chain src 0 None ps \<and> fitting ident cap nothing_collected ps \<and> items = page_items ps"
      by (auto simp: foldl_absorb_items nothing_collected_def)
  next
    assume "\<exists>ps. chain src 0 None ps \<and> fitting ident cap nothing_collected ps \<and> items = page_items ps"
    then obtain ps where ps: "chain src 0 None ps" "fitting ident cap nothing_collected ps" "items = page_items ps" by blast
    from fitting_drains [OF ps(1,2)] ps(3)
    show "\<exists>r. drain (collect_turn src ident cap) 0 None nothing_collected = Some (Inr r) \<and> items = cd_items r"
      by (auto simp: short_cursor_def foldl_absorb_items nothing_collected_def)
  qed
  also have "\<dots> \<longleftrightarrow> (\<exists>ps. chain src 0 None ps \<and> consistent_pages ident cap ps \<and> items = page_items ps)"
    using closed by blast
  finally show "collect_pages src ident cap = Some (Inr items)
      \<longleftrightarrow> (\<exists>ps. chain src 0 None ps \<and> consistent_pages ident cap ps \<and> items = page_items ps)" .
qed

end
