(* ===== verification/PayrollCursors.thy ===== *)
theory PayrollCursors
  imports PayrollPages CursorParts
begin

text \<open>
  The cursors of the payroll lists are bound to the request and to the records they were cut from: the
  fingerprint in them is part of the digest of both. The digest is a parameter; of a digest only is used that
  it is written without colons, in ASCII (hexadecimal digits).
\<close>

definition plain_digest :: "(string \<Rightarrow> string) \<Rightarrow> bool" where
  "plain_digest H \<longleftrightarrow> (\<forall>t. plain_part (H t))"

lemma plain_take: "plain_part w \<Longrightarrow> plain_part (take n w)"
  by (auto simp: plain_part_def list_all_iff dest: in_set_takeD)

lemma plain_fingerprint: "plain_digest H \<Longrightarrow> plain_part (payroll_fingerprint H b as)"
  by (simp add: payroll_fingerprint_def plain_digest_def plain_take)

lemma payroll_offset_cursor:
  assumes "plain_part fp" "0 < n"
  shows "payroll_offset fp' (Some (payroll_cursor fp n)) = (if fp' = fp then Inr n
    else Inl (bad_payroll_cursor ''The Payroll pagination cursor does not match this request.''))"
proof -
  have "list_all plain_part [''v1'', fp, nat_text n]" using assms(1) by (simp add: between_def)
  from open_parts [OF this] obtain t where "open_cursor (payroll_cursor fp n) = Some t" "split_on (CHR '':'') t = [''v1'', fp, nat_text n]"
    by (auto simp: payroll_cursor_def)
  with assms(2) show ?thesis by (simp add: payroll_offset_def py_int_nat_text)
qed

lemma payroll_codec: "plain_part fp \<Longrightarrow> cursor_codec (payroll_cursor fp) (payroll_offset fp)"
  by unfold_locales (simp add: payroll_offset_def, simp add: payroll_offset_cursor)

text \<open>A page with a following cursor: where it starts, and what the cursor is.\<close>

lemma cut_Inr:
  "cut cursor_of e items limit offset = Inr (page, nx) \<longleftrightarrow> offset \<le> length items \<and> page = take limit (drop offset items)
    \<and> nx = (if offset + length page < length items then Some (cursor_of (offset + length page)) else None)"
proof (cases "length items < offset")
  case False
  have "offset \<le> length items" using False by simp
  then show ?thesis unfolding cut_def Let_def if_not_P [OF False] by (simp only: sum.inject prod.inject simp_thms) auto
qed (simp add: cut_def)

lemma paginate_Inr:
  "paginate H items limit cursor b as = Inr (page, nx) \<longleftrightarrow>
    (\<exists>offset. payroll_offset (payroll_fingerprint H b as) cursor = Inr offset \<and> offset \<le> length items
      \<and> page = take limit (drop offset items)
      \<and> nx = (if offset + length page < length items then Some (payroll_cursor (payroll_fingerprint H b as) (offset + length page)) else None))"
  by (simp only: paginate_def Let_def ebind_eq_Inr cut_Inr)

lemma payroll_list_Inr:
  "payroll_list_of H r rid now b as refs items summary = Inr rep \<longleftrightarrow>
    (\<exists>page nx. paginate H items (yq_limit r) (yq_cursor r) b as = Inr (page, nx)
      \<and> rep = \<lparr>yl_request_id = rid, yl_company_id = yq_company r, yl_observed_at = now, yl_source_refs = refs,
         yl_limitations = [], yl_items = page, yl_next_cursor = nx, yl_summary = summary page (nx \<noteq> None)\<rparr>)"
  by (auto simp: payroll_list_of_def)

section \<open>What the text of a fingerprint holds\<close>

definition bound_text :: "pyval \<Rightarrow> anchor list \<Rightarrow> string" where
  "bound_text b as = json_text (PDict [(''binding'', b), (''anchors'', json_anchors as)])"

lemma anchors_normal: "norm_val (json_anchors as) = json_anchors as"
  by (induction as) (auto simp: json_anchors_def)

lemma anchors_inject: "json_anchors as = json_anchors as' \<longleftrightarrow> as = as'"
proof
  have "inj (\<lambda>(model, i, w). PList [PStr model, PInt i, PStr w])" by (auto simp: inj_def)
  then show "json_anchors as = json_anchors as' \<Longrightarrow> as = as'" by (auto simp: json_anchors_def inj_map_eq_map)
qed simp

definition plain_val :: "pyval \<Rightarrow> bool" where
  "plain_val v \<longleftrightarrow> serialisable v \<and> wf_val v"

lemma plain_anchors: "plain_val (json_anchors as)"
  by (auto simp: plain_val_def json_anchors_def list_all_iff)

lemma bound_text_inject:
  assumes "plain_val b" "plain_val b'" "bound_text b as = bound_text b' as'"
  shows "norm_val b = norm_val b' \<and> as = as'"
proof -
  let ?v = "\<lambda>b as. PDict [(''binding'', b), (''anchors'', json_anchors as)]"
  have "norm_val (?v b as) = norm_val (?v b' as')"
    using assms plain_anchors [of as] plain_anchors [of as'] norm_eq_iff_text_eq [of "?v b as" "?v b' as'"]
    by (simp add: bound_text_def plain_val_def keys_def)
  then have "map_of (sort_dict [(''binding'', norm_val b), (''anchors'', json_anchors as)])
      = map_of (sort_dict [(''binding'', norm_val b'), (''anchors'', json_anchors as')])"
    by (simp add: anchors_normal)
  then have "map_of [(''binding'', norm_val b), (''anchors'', json_anchors as)] k
      = map_of [(''binding'', norm_val b'), (''anchors'', json_anchors as')] k" for k
    by (simp add: map_of_sort_dict keys_def)
  from this [of "''binding''"] this [of "''anchors''"] show ?thesis by (simp add: anchors_inject)
qed

section \<open>Lists of payslips\<close>

lemma plain_scope_binding: "plain_val (scope_binding r)"
  by (auto simp: plain_val_def scope_binding_def bind_request_def json_ident_def json_date_def json_states_def Let_def keys_def
      list_all_iff split: option.splits)

lemma normal_scope: "norm_val (json_ident i) = json_ident i" "norm_val (json_date d) = json_date d"
  "norm_val (json_states ss) = json_states ss" "norm_val (PList (map PInt is)) = PList (map PInt is)"
  by (simp_all add: json_ident_def json_date_def json_states_def split: option.splits)

lemma scope_binding_inject:
  assumes "norm_val (scope_binding r) = norm_val (scope_binding r')"
  shows "scope_binding r = scope_binding r'"
proof -
  let ?kvs = "\<lambda>r. [(''company_id'', PInt (yq_company r)), (''limit'', PInt (int (yq_limit r))),
    (''batch_id'', json_ident (pi_batch_id (yq_args r))), (''period_start'', json_date (pi_period_start (yq_args r))),
    (''period_end'', json_date (pi_period_end (yq_args r))), (''employee_ids'', PList (map PInt (pi_employee_ids (yq_args r)))),
    (''states'', json_states (pi_states (yq_args r)))]"
  have b: "scope_binding r = PDict (?kvs r)" for r by (simp add: scope_binding_def bind_request_def Let_def)
  have n: "norm_val (scope_binding r) = PDict (sort_dict (?kvs r))" for r by (simp add: b normal_scope o_def)
  have srt: "map_of (sort_dict (?kvs r)) = map_of (?kvs r)" for r by (rule map_of_sort_dict) (simp add: keys_def)
  have eq: "map_of (sort_dict (?kvs r)) = map_of (sort_dict (?kvs r'))" using assms unfolding n by simp
  have mm: "map_of (?kvs r) = map_of (?kvs r')" by (rule trans [OF srt [THEN sym] trans [OF eq srt]])
  have m: "map_of (?kvs r) k = map_of (?kvs r') k" for k by (simp only: mm)
  from m [of "''company_id''"] m [of "''limit''"] m [of "''batch_id''"] m [of "''period_start''"] m [of "''period_end''"]
    m [of "''employee_ids''"] m [of "''states''"]
  show ?thesis by (simp add: b)
qed

definition payslip_rows :: "scope_args \<Rightarrow> payslip list \<Rightarrow> compact_payslip list" where
  "payslip_rows a base = map compact (newest_first (filter (wanted_payslip a) base))"

definition scope_anchors :: "payslip list \<Rightarrow> payroll_batch option \<Rightarrow> anchor list" where
  "scope_anchors base b = sort (payslip_anchors base @ batch_anchors b)"

lemma list_payslips_Inr:
  assumes "list_payslips H ad r rid now = Some (Inr rep)"
  obtains base b offset where "payslip_scope ad (yq_company r) (yq_args r) = Some (Inr (base, b))"
    "payroll_offset (payroll_fingerprint H (scope_binding r) (scope_anchors base b)) (yq_cursor r) = Inr offset"
    "offset \<le> length (payslip_rows (yq_args r) base)" "yl_items rep = take (yq_limit r) (drop offset (payslip_rows (yq_args r) base))"
    "yl_next_cursor rep = (if offset + length (yl_items rep) < length (payslip_rows (yq_args r) base)
       then Some (payroll_cursor (payroll_fingerprint H (scope_binding r) (scope_anchors base b)) (offset + length (yl_items rep))) else None)"
proof -
  from assms obtain base b where s: "payslip_scope ad (yq_company r) (yq_args r) = Some (Inr (base, b))"
    and p: "payroll_list_of H r rid now (scope_binding r) (scope_anchors base b)
      (source_refs ((''hr.payslip'', map sl_id (newest_first (filter (wanted_payslip (yq_args r)) base))) # batch_ref b))
      (payslip_rows (yq_args r) base)
      (\<lambda>selected more. \<lparr>pu_payslip_count = length (newest_first (filter (wanted_payslip (yq_args r)) base)),
         pu_returned_count = length selected, pu_state_counts = state_counts (newest_first (filter (wanted_payslip (yq_args r)) base)),
         pu_has_more = more\<rparr>) = Inr rep"
    unfolding list_payslips_def obind_Some_Inr Let_def payslip_rows_def scope_anchors_def by auto
  from p [unfolded payroll_list_Inr] have l: "paginate H (payslip_rows (yq_args r) base) (yq_limit r) (yq_cursor r) (scope_binding r)
      (scope_anchors base b) = Inr (yl_items rep, yl_next_cursor rep)" by auto
  obtain offset where
    "payroll_offset (payroll_fingerprint H (scope_binding r) (scope_anchors base b)) (yq_cursor r) = Inr offset"
    "offset \<le> length (payslip_rows (yq_args r) base)" "yl_items rep = take (yq_limit r) (drop offset (payslip_rows (yq_args r) base))"
    "yl_next_cursor rep = (if offset + length (yl_items rep) < length (payslip_rows (yq_args r) base)
       then Some (payroll_cursor (payroll_fingerprint H (scope_binding r) (scope_anchors base b)) (offset + length (yl_items rep))) else None)"
    using l [unfolded paginate_Inr] by blast
  with s show thesis by (rule that)
qed

definition collide :: "(string \<Rightarrow> string) \<Rightarrow> string \<Rightarrow> string \<Rightarrow> bool" where
  "collide H t t' \<longleftrightarrow> t \<noteq> t' \<and> take 20 (H t) = take 20 (H t')"

lemma fingerprint_is_bound:
  assumes "payroll_fingerprint H b as = payroll_fingerprint H b' as'" "plain_val b" "plain_val b'"
  shows "norm_val b = norm_val b' \<and> as = as' \<or> collide H (bound_text b as) (bound_text b' as')"
  using assms bound_text_inject [of b b' as as'] by (auto simp: payroll_fingerprint_def bound_text_def collide_def)

text \<open>C36 (a payroll cursor belongs to its request and its records). When a listing of payslips accepts the cursor that
  another listing handed out, it goes on exactly where that one stopped; and both have the same request, but for
  the cursor, and saw the same payslips and batch with the same write dates, unless the digests of these two
  different texts begin with the same twenty digits.\<close>

theorem payroll_cursor_is_bound:
  assumes "plain_digest H" "list_payslips H ad r rid now = Some (Inr rep)" "yl_next_cursor rep = Some c"
    "list_payslips H ad' r' rid' now' = Some (Inr rep')" "yq_cursor r' = Some c" "0 < yq_limit r"
  shows "\<exists>base b base' b' offset.
      payslip_scope ad (yq_company r) (yq_args r) = Some (Inr (base, b))
    \<and> payslip_scope ad' (yq_company r') (yq_args r') = Some (Inr (base', b'))
    \<and> yl_items rep = take (yq_limit r) (drop offset (payslip_rows (yq_args r) base))
    \<and> yl_items rep' = take (yq_limit r') (drop (offset + length (yl_items rep)) (payslip_rows (yq_args r') base'))
    \<and> ((scope_binding r' = scope_binding r \<and> scope_anchors base' b' = scope_anchors base b)
       \<or> collide H (bound_text (scope_binding r') (scope_anchors base' b')) (bound_text (scope_binding r) (scope_anchors base b)))"
proof -
  from assms(2) obtain base b offset where first: "payslip_scope ad (yq_company r) (yq_args r) = Some (Inr (base, b))"
    "payroll_offset (payroll_fingerprint H (scope_binding r) (scope_anchors base b)) (yq_cursor r) = Inr offset"
    "offset \<le> length (payslip_rows (yq_args r) base)" "yl_items rep = take (yq_limit r) (drop offset (payslip_rows (yq_args r) base))"
    "yl_next_cursor rep = (if offset + length (yl_items rep) < length (payslip_rows (yq_args r) base)
       then Some (payroll_cursor (payroll_fingerprint H (scope_binding r) (scope_anchors base b)) (offset + length (yl_items rep))) else None)"
    by (rule list_payslips_Inr)
  from assms(4) obtain base' b' offset' where second: "payslip_scope ad' (yq_company r') (yq_args r') = Some (Inr (base', b'))"
    "payroll_offset (payroll_fingerprint H (scope_binding r') (scope_anchors base' b')) (yq_cursor r') = Inr offset'"
    "yl_items rep' = take (yq_limit r') (drop offset' (payslip_rows (yq_args r') base'))"
    by (rule list_payslips_Inr)
  let ?fp = "payroll_fingerprint H (scope_binding r) (scope_anchors base b)" and ?n = "offset + length (yl_items rep)"
  let ?fp' = "payroll_fingerprint H (scope_binding r') (scope_anchors base' b')"
  from first(5) assms(3) have c: "c = payroll_cursor ?fp ?n" "?n < length (payslip_rows (yq_args r) base)" by (auto split: if_splits)
  have pos: "0 < ?n" using c(2) first(4) assms(6) by (cases "offset = 0") simp_all
  from second(2) assms(5) payroll_offset_cursor [OF plain_fingerprint [OF assms(1)] pos, of ?fp'] c(1)
  have same: "?fp' = ?fp" "offset' = ?n" by (auto split: if_splits)
  from fingerprint_is_bound [OF same(1) plain_scope_binding plain_scope_binding] scope_binding_inject
  have "(scope_binding r' = scope_binding r \<and> scope_anchors base' b' = scope_anchors base b)
       \<or> collide H (bound_text (scope_binding r') (scope_anchors base' b')) (bound_text (scope_binding r) (scope_anchors base b))" by blast
  with first(1,4) second(1,3) same(2) show ?thesis by blast
qed

end
