(* ===== verification/PayrollSnapshot.thy ===== *)
theory PayrollSnapshot
  imports PayrollCursors
begin

text \<open>
  A payroll period as \<open>workflows/payroll/analysis.py\<close> sees it: the selected payslips with their lines, contract
  segments and work entries, read and checked by \<open>_load_snapshot\<close>; and the arithmetic of a comparison.
\<close>

section \<open>Errors\<close>

definition inconsistent_payroll :: wf_error where
  "inconsistent_payroll = Mcp (mk_error PAYROLL_SOURCE_INCONSISTENT ''Odoo returned inconsistent Payroll source data.''
     ''Check the requested company, identities, relationships, and Payroll records, then retry.'')"

definition analysis_too_large :: wf_error where
  "analysis_too_large = Mcp (mk_error PAYROLL_RESULT_TOO_LARGE ''The Payroll analysis exceeds the safe processing bound.''
     ''Narrow the Payroll periods or employee identifiers and retry.'')"

section \<open>Snapshots\<close>

record pay_snapshot =
  sp_period :: payroll_period
  sp_payslips :: "payslip list"
  sp_lines :: "payslip_line list"
  sp_segments :: "contract_segment list"
  sp_entries :: "work_entry list"

text \<open>\<open>_validate_segments\<close>: in the order of employee, start and identifier.\<close>

definition segment_ok :: "int \<Rightarrow> (int \<Rightarrow> string option) \<Rightarrow> payroll_period \<Rightarrow> contract_segment \<Rightarrow> bool" where
  "segment_ok company employees period g \<longleftrightarrow> hc_company_id g = company
    \<and> employees (rr_id (hc_employee g)) = Some (rr_name (hc_employee g))
    \<and> hp_start period \<le> hc_effective_start g \<and> hc_effective_end g \<le> hp_end period
    \<and> hc_effective_start g \<le> hc_effective_end g"

definition segment_references :: "contract_segment \<Rightarrow> (string \<times> int \<times> string) list" where
  "segment_references g =
    named ''res.currency'' (hc_currency g) # opt_named ''hr.payroll.structure.type'' (hc_structure_type g)
    @ opt_named ''resource.calendar'' (hc_resource_calendar g) @ opt_named ''hr.department'' (hc_department g)
    @ opt_named ''hr.job'' (hc_job g) @ opt_named ''hr.contract.type'' (hc_contract_type g)"

definition check_segment ::
    "int \<Rightarrow> (int \<Rightarrow> string option) \<Rightarrow> payroll_period \<Rightarrow> contract_segment \<Rightarrow> (int \<Rightarrow> contract_segment option) \<times> names \<Rightarrow>
      ((int \<Rightarrow> contract_segment option) \<times> names) wf" where
  "check_segment company employees period g s =
    (case s of (previous, names) \<Rightarrow>
     if \<not> segment_ok company employees period g then Inl inconsistent_payroll
     else if (case previous (rr_id (hc_employee g)) of None \<Rightarrow> False | Some p \<Rightarrow> hc_effective_end p \<ge> hc_effective_start g)
     then Inl inconsistent_payroll
     else ebind (efold (register inconsistent_payroll) (segment_references g) names) (\<lambda>names'.
       Inr (previous(rr_id (hc_employee g) \<mapsto> g), names')))"

definition validate_segments ::
    "int \<Rightarrow> (int \<Rightarrow> string option) \<Rightarrow> payroll_period \<Rightarrow> contract_segment list \<Rightarrow> unit wf" where
  "validate_segments company employees period gs =
    ebind (efold (check_segment company employees period)
        (sort_key (\<lambda>g. (rr_id (hc_employee g), hc_effective_start g, hc_id g)) gs) (\<lambda>_. None, \<lambda>_. None)) (\<lambda>_. Inr ())"

text \<open>\<open>_validate_work_entries\<close>.\<close>

definition segment_at :: "contract_segment list \<Rightarrow> string \<Rightarrow> int \<Rightarrow> contract_segment option" where
  "segment_at gs model i = find_row (\<lambda>g. hc_source_model g = model \<and> hc_id g = i) (rev gs)"

definition entry_ok ::
    "int \<Rightarrow> (int \<Rightarrow> string option) \<Rightarrow> payroll_period \<Rightarrow> contract_segment list \<Rightarrow> work_entry \<Rightarrow> bool" where
  "entry_ok company employees period gs w \<longleftrightarrow> hn_company_id w = company
    \<and> employees (rr_id (hn_employee w)) = Some (rr_name (hn_employee w))
    \<and> hp_start period \<le> hn_date_start w \<and> hn_date_end w \<le> hp_end period \<and> hn_date_start w \<le> hn_date_end w
    \<and> \<not> dless (hn_duration w) dzero \<and> hn_state w \<noteq> ''cancelled''
    \<and> (case (hn_contract_segment w, hn_contract_source w) of
         (None, None) \<Rightarrow> True
       | (Some s, Some model) \<Rightarrow>
          (case segment_at gs model (rr_id s) of
             None \<Rightarrow> False
           | Some g \<Rightarrow> rr_id (hc_employee g) = rr_id (hn_employee w) \<and> hc_effective_start g \<le> hn_date_start w
               \<and> hn_date_end w \<le> hc_effective_end g)
       | _ \<Rightarrow> False)"

definition check_entry ::
    "int \<Rightarrow> (int \<Rightarrow> string option) \<Rightarrow> payroll_period \<Rightarrow> contract_segment list \<Rightarrow> work_entry \<Rightarrow> names \<Rightarrow> names wf" where
  "check_entry company employees period gs w names =
    (if entry_ok company employees period gs w then register inconsistent_payroll (named [] (hn_type w)) names
     else Inl inconsistent_payroll)"

definition validate_work_entries ::
    "int \<Rightarrow> (int \<Rightarrow> string option) \<Rightarrow> payroll_period \<Rightarrow> contract_segment list \<Rightarrow> work_entry list \<Rightarrow> unit wf" where
  "validate_work_entries company employees period gs ws =
    ebind (efold (check_entry company employees period gs) ws (\<lambda>_. None)) (\<lambda>_. Inr ())"

text \<open>\<open>_load_snapshot\<close>.\<close>

definition chosen_payslip :: "int list \<Rightarrow> string list \<Rightarrow> payslip \<Rightarrow> bool" where
  "chosen_payslip employee_ids states p \<longleftrightarrow> sl_state p \<in> set states \<and> sl_state p \<noteq> ''cancelled''
    \<and> (employee_ids = [] \<or> rr_id (sl_employee p) \<in> set employee_ids)"

definition people_and_currencies :: "payslip list \<Rightarrow> names wf" where
  "people_and_currencies ps =
    efold (register inconsistent_payroll)
      (concat (map (\<lambda>p. [named ''hr.employee'' (sl_employee p), named ''res.currency'' (sl_currency p)]) ps)) (\<lambda>_. None)"

definition load_context ::
    "payroll_adapter \<Rightarrow> int \<Rightarrow> payroll_period \<Rightarrow> (int \<Rightarrow> string option) \<Rightarrow> int list \<Rightarrow>
      (contract_segment list \<times> work_entry list) wf option" where
  "load_context ad company period employees ids =
    obind (olift (mk_contract_filters \<lparr>fc_employee_ids = ids, fc_period = period\<rparr>)) (\<lambda>f.
    obind (all_segments ad company f) (\<lambda>gs.
    obind (olift (validate_segments company employees period gs)) (\<lambda>_.
    obind (olift (mk_entry_filters \<lparr>fc_employee_ids = ids, fc_period = period, fe_states = [''draft'', ''conflict'', ''validated'']\<rparr>)) (\<lambda>e.
    obind (all_work_entries ad company e) (\<lambda>ws.
    obind (olift (validate_work_entries company employees period gs ws)) (\<lambda>_. Some (Inr (gs, ws))))))))"

definition load_snapshot ::
    "payroll_adapter \<Rightarrow> int \<Rightarrow> payroll_period \<Rightarrow> int list \<Rightarrow> string list \<Rightarrow> bool \<Rightarrow> pay_snapshot wf option" where
  "load_snapshot ad company period employee_ids states include_context =
    obind (olift (mk_payroll_period (hp_start period) (hp_end period))) (\<lambda>period.
    obind (period_payslips ad company period) (\<lambda>all.
    let selected = filter (chosen_payslip employee_ids states) all in
    obind (olift (people_and_currencies selected)) (\<lambda>names.
    obind (lines_of_payslips ad company selected) (\<lambda>ls.
    obind (olift (validate_lines ls (parents_of selected))) (\<lambda>_.
    obind (olift (validate_line_metadata ls)) (\<lambda>_.
    let ids = sorted_set (map (rr_id \<circ> sl_employee) selected) in
    obind (if include_context \<and> ids \<noteq> [] then load_context ad company period (\<lambda>i. names (''hr.employee'', i)) ids
           else Some (Inr ([], []))) (\<lambda>(gs, ws).
    Some (Inr \<lparr>sp_period = period, sp_payslips = selected, sp_lines = ls, sp_segments = gs, sp_entries = ws\<rparr>))))))))"

text \<open>\<open>_enforce_combined_caps\<close>.\<close>

definition enforce_caps :: "pay_snapshot list \<Rightarrow> unit wf" where
  "enforce_caps ss =
    (if sum_list (map (length \<circ> sp_payslips) ss) > max_payslips \<or> sum_list (map (length \<circ> sp_lines) ss) > max_lines
        \<or> sum_list (map (length \<circ> sp_segments) ss) > max_segments \<or> sum_list (map (length \<circ> sp_entries) ss) > max_work_entries
     then Inl analysis_too_large else Inr ())"

section \<open>Arithmetic of a comparison\<close>

text \<open>\<open>quantize(Decimal("0.0001"), rounding=ROUND_HALF_EVEN)\<close>.\<close>

definition four_places :: "decimal \<Rightarrow> decimal wf" where
  "four_places d =
    (let q = (if expo d \<ge> -4 then scale d (-4) else half_even (coeff d) (10 ^ nat (-4 - expo d))) in
     if ndigits \<bar>q\<bar> > prec then Inl Arithmetic_error else Inr (Dec q (-4)))"

definition raw_percentage :: "decimal \<Rightarrow> decimal \<Rightarrow> decimal wf" where
  "raw_percentage baseline target = ebind (ddiv (dsub target baseline) (dabs baseline)) (\<lambda>x. Inr (dmul x hundred))"

definition percentage :: "decimal \<Rightarrow> decimal \<Rightarrow> decimal option wf" where
  "percentage baseline target =
    (if deq baseline dzero then Inr None
     else ebind (raw_percentage baseline target) (\<lambda>x. ebind (four_places x) (\<lambda>y. Inr (Some y))))"

definition change_kind :: "decimal \<Rightarrow> decimal \<Rightarrow> string" where
  "change_kind baseline target =
    (if deq baseline target then ''unchanged'' else if deq baseline dzero then ''added''
     else if deq target dzero then ''removed'' else if dless baseline target then ''increased'' else ''decreased'')"

record comparison =
  dm_baseline :: decimal
  dm_target :: decimal
  dm_absolute_delta :: decimal
  dm_percentage_delta :: "decimal option"
  dm_change :: string

definition compare_decimals :: "decimal \<Rightarrow> decimal \<Rightarrow> comparison wf" where
  "compare_decimals baseline target =
    ebind (percentage baseline target) (\<lambda>p.
    Inr \<lparr>dm_baseline = baseline, dm_target = target, dm_absolute_delta = dsub target baseline, dm_percentage_delta = p,
         dm_change = change_kind baseline target\<rparr>)"

record count_comparison =
  dn_baseline :: nat
  dn_target :: nat
  dn_absolute_delta :: int
  dn_percentage_delta :: "decimal option"
  dn_change :: string

definition compare_counts :: "nat \<Rightarrow> nat \<Rightarrow> count_comparison wf" where
  "compare_counts baseline target =
    ebind (compare_decimals (Dec (int baseline) 0) (Dec (int target) 0)) (\<lambda>c.
    Inr \<lparr>dn_baseline = baseline, dn_target = target, dn_absolute_delta = int target - int baseline,
         dn_percentage_delta = dm_percentage_delta c, dn_change = dm_change c\<rparr>)"

section \<open>Names across snapshots\<close>

text \<open>\<open>_employee_names\<close>, and two dictionaries merged with \<open>{**a, **b}\<close>.\<close>

definition employee_names :: "pay_snapshot \<Rightarrow> (int \<times> string) list" where
  "employee_names s = fold (\<lambda>p. dict_put (rr_id (sl_employee p)) (rr_name (sl_employee p))) (sp_payslips s) []"

definition all_names :: "pay_snapshot \<Rightarrow> pay_snapshot \<Rightarrow> (int \<times> string) list" where
  "all_names a b = dict_update (employee_names a) (employee_names b)"

definition name_of :: "(int \<times> string) list \<Rightarrow> int \<Rightarrow> related wf" where
  "name_of names i = (case map_of names i of None \<Rightarrow> Inl Key_error | Some n \<Rightarrow> Inr \<lparr>rr_id = i, rr_name = n\<rparr>)"

definition snapshot_references :: "pay_snapshot \<Rightarrow> (string \<times> int \<times> string) list" where
  "snapshot_references s =
    concat (map (\<lambda>p. [named ''hr.employee'' (sl_employee p), named ''res.currency'' (sl_currency p),
         named (sl_contract_source p) (sl_contract_segment p), named ''hr.payroll.structure'' (sl_structure p)]
       @ opt_named ''hr.payslip.run'' (sl_batch p)) (sp_payslips s))
    @ concat (map (\<lambda>l. [named ''hr.salary.rule'' (hl_salary_rule l), named ''hr.salary.rule.category'' (hl_category l),
         named ''res.currency'' (hl_currency l)]) (sp_lines s))
    @ concat (map (\<lambda>g. [named ''hr.employee'' (hc_employee g), named ''res.currency'' (hc_currency g)]) (sp_segments s))
    @ concat (map (\<lambda>w. [named ''hr.employee'' (hn_employee w), named ''hr.work.entry.type'' (hn_type w)]) (sp_entries s))"

definition note_rule ::
    "payslip_line \<Rightarrow> (int \<times> string \<Rightarrow> (string \<times> related) option) \<Rightarrow> (int \<times> string \<Rightarrow> (string \<times> related) option) wf" where
  "note_rule l m =
    (let k = (rr_id (hl_salary_rule l), hl_code l); v = (rr_name (hl_salary_rule l), hl_category l) in
     if m k \<notin> {None, Some v} then Inl inconsistent_payroll else Inr (m(k \<mapsto> v)))"

definition validate_cross_metadata :: "pay_snapshot list \<Rightarrow> unit wf" where
  "validate_cross_metadata ss =
    ebind (efold note_rule (concat (map sp_lines ss)) (\<lambda>_. None)) (\<lambda>_.
    ebind (efold (register inconsistent_payroll) (concat (map snapshot_references ss)) (\<lambda>_. None)) (\<lambda>_. Inr ()))"

end
