(* ===== verification/PayrollCompare.thy ===== *)
theory PayrollCompare
  imports PayrollSnapshot
begin

text \<open>
  The comparison of two payroll periods (\<open>workflows/payroll/analysis.py\<close>): changes of salary lines, totals per
  payslip, rule and category, recognised rules, contract facts and work-entry hours. Every total is the sum of
  the lines of a key, and a row is built for every key of either period.
\<close>

section \<open>Line aggregates\<close>

type_synonym line_key = "int \<times> int \<times> string"

definition aggregate_key :: "payslip_line \<Rightarrow> line_key" where
  "aggregate_key l = (rr_id (hl_employee l), rr_id (hl_salary_rule l), hl_code l)"

record line_aggregate =
  la_employee :: related
  la_currency :: related
  la_salary_rule :: related
  la_category :: related
  la_code :: string
  la_total :: decimal
  la_lines :: "payslip_line list"

definition note_currency :: "payslip_line \<Rightarrow> (int \<Rightarrow> int option) \<Rightarrow> (int \<Rightarrow> int option) wf" where
  "note_currency l m =
    (let i = rr_id (hl_employee l); u = rr_id (hl_currency l) in
     if m i \<notin> {None, Some u} then Inl inconsistent_payroll else Inr (m(i \<mapsto> u)))"

definition same_line_data :: "payslip_line \<Rightarrow> payslip_line \<Rightarrow> bool" where
  "same_line_data sample l \<longleftrightarrow> rr_id (hl_currency l) = rr_id (hl_currency sample)
    \<and> rr_name (hl_salary_rule l) = rr_name (hl_salary_rule sample) \<and> hl_category l = hl_category sample"

definition sum_of :: "payslip_line list \<Rightarrow> decimal" where
  "sum_of ls = dsum (map hl_total ls)"

definition aggregate_of :: "line_key \<times> payslip_line list \<Rightarrow> (line_key \<times> line_aggregate) wf" where
  "aggregate_of g =
    (case g of (k, rows) \<Rightarrow> let sample = hd rows in
     if \<not> list_all (same_line_data sample) rows then Inl inconsistent_payroll
     else Inr (k, \<lparr>la_employee = hl_employee sample, la_currency = hl_currency sample, la_salary_rule = hl_salary_rule sample,
        la_category = hl_category sample, la_code = hl_code sample, la_total = sum_of rows, la_lines = rows\<rparr>))"

definition line_aggregates :: "pay_snapshot \<Rightarrow> (line_key \<times> line_aggregate) list wf" where
  "line_aggregates s =
    ebind (efold note_currency (sp_lines s) (\<lambda>_. None)) (\<lambda>_. emap aggregate_of (rows_by aggregate_key (sp_lines s)))"

text \<open>The references of rows of lines.\<close>

definition line_refs :: "payslip_line list \<Rightarrow> source_ref list" where
  "line_refs ls = source_refs [(''hr.payslip.line'', map hl_id ls), (''hr.payslip'', map (rr_id \<circ> hl_payslip) ls)]"

definition aggregate_lines :: "line_aggregate option \<Rightarrow> payslip_line list" where
  "aggregate_lines a = (case a of None \<Rightarrow> [] | Some x \<Rightarrow> la_lines x)"

section \<open>Changes of lines\<close>

record line_change =
  xc_employee :: related
  xc_currency :: "related option"
  xc_salary_rule :: related
  xc_code :: string
  xc_category :: related
  xc_baseline_total :: "decimal option"
  xc_target_total :: "decimal option"
  xc_absolute_delta :: "decimal option"
  xc_percentage_delta :: "decimal option"
  xc_change :: string
  xc_source_refs :: "source_ref list"
  xc_limitations :: "string list"

definition same_total :: "decimal option \<Rightarrow> decimal option \<Rightarrow> bool" where
  "same_total a b = (case (a, b) of (Some x, Some y) \<Rightarrow> deq x y | (None, None) \<Rightarrow> True | _ \<Rightarrow> False)"

text \<open>\<open>total or Decimal("0")\<close>.\<close>

definition or_zero :: "decimal option \<Rightarrow> decimal" where
  "or_zero a = (case a of None \<Rightarrow> dzero | Some x \<Rightarrow> if deq x dzero then dzero else x)"

definition currency_differs :: "line_aggregate option \<Rightarrow> line_aggregate option \<Rightarrow> bool" where
  "currency_differs a b =
    (case (a, b) of (Some x, Some y) \<Rightarrow> rr_id (la_currency x) \<noteq> rr_id (la_currency y) | _ \<Rightarrow> False)"

definition line_change_of :: "line_aggregate option \<Rightarrow> line_aggregate option \<Rightarrow> line_change option wf" where
  "line_change_of before after =
    (case (case after of None \<Rightarrow> before | Some x \<Rightarrow> Some x) of
       None \<Rightarrow> Inl Assertion_error
     | Some sample \<Rightarrow>
        (let b = map_option la_total before; a = map_option la_total after;
             base = or_zero b; target = or_zero a; refs = line_refs (aggregate_lines before @ aggregate_lines after) in
         if same_total b a then Inr None
         else if currency_differs before after
         then Inr (Some \<lparr>xc_employee = la_employee sample, xc_currency = None, xc_salary_rule = la_salary_rule sample,
             xc_code = la_code sample, xc_category = la_category sample, xc_baseline_total = b, xc_target_total = a,
             xc_absolute_delta = None, xc_percentage_delta = None, xc_change = ''unavailable'', xc_source_refs = refs,
             xc_limitations = [''currency_change_prevents_amount_comparison'']\<rparr>)
         else if (before = None \<and> deq target dzero) \<or> (after = None \<and> deq base dzero) then Inr None
         else ebind (compare_decimals base target) (\<lambda>c.
           Inr (Some \<lparr>xc_employee = la_employee sample, xc_currency = Some (la_currency sample),
             xc_salary_rule = la_salary_rule sample, xc_code = la_code sample, xc_category = la_category sample,
             xc_baseline_total = b, xc_target_total = a, xc_absolute_delta = Some (dm_absolute_delta c),
             xc_percentage_delta = dm_percentage_delta c, xc_change = dm_change c, xc_source_refs = refs,
             xc_limitations = []\<rparr>))))"

text \<open>\<open>sorted(set(a) | set(b))\<close>.\<close>

definition union_keys :: "('k :: linorder \<times> 'v) list \<Rightarrow> ('k \<times> 'v) list \<Rightarrow> 'k list" where
  "union_keys a b = sorted_set (keys a @ keys b)"

definition line_changes :: "pay_snapshot \<Rightarrow> pay_snapshot \<Rightarrow> line_change list wf" where
  "line_changes baseline target =
    ebind (line_aggregates baseline) (\<lambda>base. ebind (line_aggregates target) (\<lambda>tgt.
    let common = set (keys (employee_names baseline)) \<inter> set (keys (employee_names target)) in
    ebind (emap (\<lambda>k. line_change_of (map_of base k) (map_of tgt k))
        (filter (\<lambda>k. fst k \<in> common) (union_keys base tgt))) (\<lambda>found.
    Inr (List.map_filter id found))))"

section \<open>Totals per payslip\<close>

record payslip_total =
  xp_employee :: related
  xp_currency :: related
  xp_baseline_payslip_ids :: "int list"
  xp_target_payslip_ids :: "int list"
  xp_observed :: comparison
  xp_source_refs :: "source_ref list"

definition person_key :: "payslip_line \<Rightarrow> int \<times> int" where
  "person_key l = (rr_id (hl_employee l), rr_id (hl_currency l))"

definition slip_key :: "payslip \<Rightarrow> int \<times> int" where
  "slip_key p = (rr_id (sl_employee p), rr_id (sl_currency p))"

definition person_keys :: "pay_snapshot \<Rightarrow> (int \<times> int) list" where
  "person_keys s = map person_key (sp_lines s) @ map slip_key (sp_payslips s)"

definition person_lines :: "pay_snapshot \<Rightarrow> int \<times> int \<Rightarrow> payslip_line list" where
  "person_lines s k = filter (\<lambda>l. person_key l = k) (sp_lines s)"

definition person_payslips :: "pay_snapshot \<Rightarrow> int \<times> int \<Rightarrow> int list" where
  "person_payslips s k =
    map (rr_id \<circ> hl_payslip) (person_lines s k) @ map sl_id (filter (\<lambda>p. slip_key p = k) (sp_payslips s))"

definition currency_names :: "pay_snapshot list \<Rightarrow> (int \<times> string) list" where
  "currency_names ss =
    fold (\<lambda>p. dict_put (rr_id (sl_currency p)) (rr_name (sl_currency p))) (concat (map sp_payslips ss)) []"

definition payslip_totals :: "pay_snapshot \<Rightarrow> pay_snapshot \<Rightarrow> payslip_total list wf" where
  "payslip_totals baseline target =
    emap (\<lambda>k. ebind (name_of (all_names baseline target) (fst k)) (\<lambda>who.
       ebind (name_of (currency_names [baseline, target]) (snd k)) (\<lambda>currency.
       ebind (compare_decimals (totals_by person_key hl_total (sp_lines baseline) k) (totals_by person_key hl_total (sp_lines target) k)) (\<lambda>c.
       Inr \<lparr>xp_employee = who, xp_currency = currency, xp_baseline_payslip_ids = sorted_set (person_payslips baseline k),
         xp_target_payslip_ids = sorted_set (person_payslips target k), xp_observed = c,
         xp_source_refs = source_refs [(''hr.payslip'', person_payslips baseline k @ person_payslips target k),
           (''hr.payslip.line'', map hl_id (person_lines baseline k @ person_lines target k))]\<rparr>))))
     (sorted_set (person_keys baseline @ person_keys target))"

section \<open>Totals per rule and per category\<close>

definition full_rule_key :: "payslip_line \<Rightarrow> int \<times> int \<times> string \<times> int" where
  "full_rule_key l = (rr_id (hl_currency l), rr_id (hl_salary_rule l), hl_code l, rr_id (hl_category l))"

text \<open>What both share: the rows of a key in the two periods, the sample (of the target when it has the key), the
  comparison of the sums and the references.\<close>

definition rows_at :: "('k \<times> 'l list) list \<Rightarrow> 'k \<Rightarrow> 'l list" where
  "rows_at d k = (case map_of d k of None \<Rightarrow> [] | Some rs \<Rightarrow> rs)"

definition sample_of :: "'l list \<Rightarrow> 'l list \<Rightarrow> 'l" where
  "sample_of before after = (if after = [] then hd before else hd after)"

definition compare_rows :: "payslip_line list \<Rightarrow> payslip_line list \<Rightarrow> comparison wf" where
  "compare_rows before after = compare_decimals (sum_of before) (sum_of after)"

record rule_comparison =
  xr_currency :: related
  xr_salary_rule :: related
  xr_code :: string
  xr_category :: related
  xr_total :: comparison
  xr_source_refs :: "source_ref list"

definition rule_comparison_of :: "payslip_line list \<Rightarrow> payslip_line list \<Rightarrow> rule_comparison wf" where
  "rule_comparison_of before after =
    (let sample = sample_of before after in
     ebind (compare_rows before after) (\<lambda>c.
     Inr \<lparr>xr_currency = hl_currency sample, xr_salary_rule = hl_salary_rule sample, xr_code = hl_code sample,
          xr_category = hl_category sample, xr_total = c, xr_source_refs = line_refs (before @ after)\<rparr>))"

definition rule_totals :: "pay_snapshot \<Rightarrow> pay_snapshot \<Rightarrow> rule_comparison list wf" where
  "rule_totals baseline target =
    (let base = rows_by full_rule_key (sp_lines baseline); tgt = rows_by full_rule_key (sp_lines target) in
     emap (\<lambda>k. rule_comparison_of (rows_at base k) (rows_at tgt k)) (union_keys base tgt))"

record category_comparison =
  xg_currency :: related
  xg_category :: related
  xg_total :: comparison
  xg_source_refs :: "source_ref list"

definition category_comparison_of :: "payslip_line list \<Rightarrow> payslip_line list \<Rightarrow> category_comparison wf" where
  "category_comparison_of before after =
    (let sample = sample_of before after in
     ebind (compare_rows before after) (\<lambda>c.
     Inr \<lparr>xg_currency = hl_currency sample, xg_category = hl_category sample, xg_total = c,
          xg_source_refs = line_refs (before @ after)\<rparr>))"

definition category_totals :: "pay_snapshot \<Rightarrow> pay_snapshot \<Rightarrow> category_comparison list wf" where
  "category_totals baseline target =
    (let base = rows_by category_key (sp_lines baseline); tgt = rows_by category_key (sp_lines target) in
     emap (\<lambda>k. category_comparison_of (rows_at base k) (rows_at tgt k)) (union_keys base tgt))"

section \<open>Recognised rules\<close>

record recognized_total =
  xn_currency :: related
  xn_total :: decimal
  xn_source_refs :: "source_ref list"

datatype recognized = Recognized "recognized_total list" | Unrecognized string

definition recognized_value :: "payslip_line list \<Rightarrow> string \<Rightarrow> recognized" where
  "recognized_value ls code =
    (let selected = filter (\<lambda>l. hl_code l = code) ls in
     if selected = [] then Unrecognized ''exact_rule_code_missing''
     else if card (set (map (rr_id \<circ> hl_salary_rule) selected)) \<noteq> 1 then Unrecognized ''exact_rule_code_duplicate''
     else Recognized (map (\<lambda>(k, rows). \<lparr>xn_currency = hl_currency (hd rows), xn_total = sum_of rows, xn_source_refs = line_refs rows\<rparr>)
       (sort_key fst (rows_by (rr_id \<circ> hl_currency) selected))))"

definition recognized_comparisons :: "pay_snapshot \<Rightarrow> pay_snapshot \<Rightarrow> (string \<times> recognized \<times> recognized) list" where
  "recognized_comparisons baseline target =
    map (\<lambda>code. (code, recognized_value (sp_lines baseline) code, recognized_value (sp_lines target) code))
      [''BASIC'', ''GROSS'', ''NET'']"

section \<open>Contract facts\<close>

definition joined :: "string list \<Rightarrow> string option" where
  "joined vs = (if vs = [] then None else Some (join '';'' vs))"

definition render_related :: "related option \<Rightarrow> string" where
  "render_related r = (case r of None \<Rightarrow> ''None'' | Some x \<Rightarrow> int_text (rr_id x) @ '':'' @ rr_name x)"

definition segment_order :: "contract_segment list \<Rightarrow> contract_segment list" where
  "segment_order gs = sort_key (\<lambda>g. (hc_effective_start g, hc_id g)) gs"

definition segment_facts :: "contract_segment list \<Rightarrow> (string \<times> string option) list" where
  "segment_facts gs =
    (let rows = segment_order gs in
     [(''source_segments'', joined (map (\<lambda>g. hc_source_model g @ '':'' @ int_text (hc_id g) @ '':''
         @ (case hc_revision_date g of None \<Rightarrow> ''unavailable'' | Some d \<Rightarrow> isoformat d)) rows)),
      (''effective_dates'', joined (map (\<lambda>g. isoformat (hc_effective_start g) @ ''..'' @ isoformat (hc_effective_end g)) rows)),
      (''active'', joined (map (\<lambda>g. if hc_active g then ''true'' else ''false'') rows)),
      (''source_status'', joined (map hc_source_status rows)),
      (''wage'', joined (map (dec_text \<circ> hc_wage) rows)),
      (''currency'', joined (map (\<lambda>g. render_related (Some (hc_currency g))) rows)),
      (''structure_type'', joined (map (render_related \<circ> hc_structure_type) rows)),
      (''working_schedule'', joined (map (render_related \<circ> hc_resource_calendar) rows)),
      (''department'', joined (map (render_related \<circ> hc_department) rows)),
      (''job'', joined (map (render_related \<circ> hc_job) rows)),
      (''contract_type'', joined (map (render_related \<circ> hc_contract_type) rows))])"

definition coverage :: "payroll_period \<Rightarrow> contract_segment list \<Rightarrow> (int \<times> int) list" where
  "coverage p gs = map (\<lambda>g. (hc_effective_start g - hp_start p, hp_end p - hc_effective_end g)) (segment_order gs)"

record fact_change =
  xf_fact :: string
  xf_baseline_value :: "string option"
  xf_target_value :: "string option"
  xf_source_refs :: "source_ref list"

record contract_change = fact_change +
  xf_employee :: related

definition segment_refs :: "contract_segment list \<Rightarrow> source_ref list" where
  "segment_refs gs = source_refs (map (\<lambda>(m, rows). (m, map hc_id rows)) (rows_by hc_source_model gs))"

definition fact_changes ::
    "pay_snapshot \<Rightarrow> pay_snapshot \<Rightarrow> (int \<times> string) list \<Rightarrow> int \<Rightarrow> contract_segment list \<Rightarrow> contract_segment list \<Rightarrow> contract_change list wf" where
  "fact_changes baseline target names i before after =
    (let b = segment_facts before; a = segment_facts after;
         moved = (map_of b ''source_segments'' = map_of a ''source_segments''
           \<and> coverage (sp_period baseline) before = coverage (sp_period target) after) in
     emap (\<lambda>(fact, v). ebind (name_of names i) (\<lambda>who.
         Inr \<lparr>xf_fact = fact, xf_baseline_value = v, xf_target_value = the (map_of a fact),
           xf_source_refs = segment_refs (before @ after), xf_employee = who\<rparr>))
       (filter (\<lambda>(fact, v). \<not> (fact = ''effective_dates'' \<and> moved) \<and> v \<noteq> the (map_of a fact)) b))"

definition contract_changes :: "pay_snapshot \<Rightarrow> pay_snapshot \<Rightarrow> contract_change list wf" where
  "contract_changes baseline target =
    (let base = rows_by (rr_id \<circ> hc_employee) (sp_segments baseline); tgt = rows_by (rr_id \<circ> hc_employee) (sp_segments target) in
     ebind (emap (\<lambda>i. fact_changes baseline target (all_names baseline target) i (rows_at base i) (rows_at tgt i))
        (union_keys base tgt)) (\<lambda>found. Inr (concat found)))"

section \<open>Hours of work entries\<close>

record hours_comparison =
  xh_employee :: related
  xh_type :: related
  xh_code :: string
  xh_hours :: comparison
  xh_conflict_count :: nat
  xh_source_refs :: "source_ref list"

definition entry_key :: "work_entry \<Rightarrow> int \<times> int \<times> string" where
  "entry_key w = (rr_id (hn_employee w), rr_id (hn_type w), hn_code w)"

definition in_conflict :: "work_entry \<Rightarrow> bool" where
  "in_conflict w \<longleftrightarrow> hn_conflict w \<or> hn_state w = ''conflict''"

definition hours_of :: "work_entry list \<Rightarrow> decimal" where
  "hours_of ws = dsum (map hn_duration ws)"

definition hours_comparison_of ::
    "(int \<times> string) list \<Rightarrow> int \<times> int \<times> string \<Rightarrow> work_entry list \<Rightarrow> work_entry list \<Rightarrow> hours_comparison wf" where
  "hours_comparison_of names k before after =
    (case k of (who, _, code) \<Rightarrow>
     ebind (name_of names who) (\<lambda>employee.
     ebind (compare_decimals (hours_of before) (hours_of after)) (\<lambda>c.
     Inr \<lparr>xh_employee = employee, xh_type = hn_type (sample_of before after), xh_code = code, xh_hours = c,
          xh_conflict_count = length (filter in_conflict after),
          xh_source_refs = source_refs [(''hr.work.entry'', map hn_id (before @ after))]\<rparr>)))"

definition work_entry_hours :: "pay_snapshot \<Rightarrow> pay_snapshot \<Rightarrow> hours_comparison list wf" where
  "work_entry_hours baseline target =
    (let base = rows_by entry_key (sp_entries baseline); tgt = rows_by entry_key (sp_entries target) in
     emap (\<lambda>k. hours_comparison_of (all_names baseline target) k (rows_at base k) (rows_at tgt k)) (union_keys base tgt))"

end
