(* ===== verification/PayrollFindings.thy ===== *)
theory PayrollFindings
  imports PayrollCompare
begin

text \<open>
  The findings on two payroll periods (\<open>workflows/payroll/analysis.py\<close>): who is new or missing, contracts and
  lines that changed, deviations above a threshold, conflicting work entries, and totals that are unlike the
  history of the employee by the modified z-score; then the two workflows that report them.
\<close>

section \<open>References\<close>

definition snapshot_models :: "payslip list \<Rightarrow> payslip_line list \<Rightarrow> work_entry list \<Rightarrow> contract_segment list \<Rightarrow> (string \<times> int list) list" where
  "snapshot_models ps ls ws gs =
    [(''hr.payslip'', map sl_id ps), (''hr.payslip.line'', map hl_id ls), (''hr.work.entry'', map hn_id ws)]
    @ map (\<lambda>(m, rows). (m, map hc_id rows)) (rows_by hc_source_model gs)"

definition snapshot_refs :: "pay_snapshot \<Rightarrow> source_ref list" where
  "snapshot_refs s = source_refs (snapshot_models (sp_payslips s) (sp_lines s) (sp_entries s) (sp_segments s))"

definition employee_refs :: "pay_snapshot \<Rightarrow> int \<Rightarrow> source_ref list" where
  "employee_refs s i =
    (let ps = filter (\<lambda>p. rr_id (sl_employee p) = i) (sp_payslips s) in
     source_refs (snapshot_models ps (filter (\<lambda>l. rr_id (hl_payslip l) \<in> set (map sl_id ps)) (sp_lines s))
       (filter (\<lambda>w. rr_id (hn_employee w) = i) (sp_entries s)) (filter (\<lambda>g. rr_id (hc_employee g) = i) (sp_segments s))))"

text \<open>\<open>_merge_source_refs\<close>: the identifiers of all groups per model.\<close>

definition merge_refs :: "source_ref list list \<Rightarrow> source_ref list" where
  "merge_refs groups = source_refs (map (\<lambda>(m, rs). (m, concat (map rf_ids rs))) (rows_by rf_model (concat groups)))"

section \<open>Findings\<close>

record finding_row =
  fi_code :: string
  fi_severity :: string
  fi_employee :: "related option"
  fi_baseline_period :: "payroll_period option"
  fi_target_period :: payroll_period
  fi_currency :: "related option"
  fi_salary_rule :: "related option"
  fi_line_code :: "string option"
  fi_baseline_value :: "string option"
  fi_target_value :: "string option"
  fi_absolute_delta :: "decimal option"
  fi_percentage_delta :: "decimal option"
  fi_observed_delta :: "decimal option"
  fi_calculation :: string
  fi_rule :: string
  fi_threshold :: "decimal option"
  fi_threshold_profile :: "string option"
  fi_source_refs :: "source_ref list"
  fi_evidence :: "fact_change list"
  fi_limitations :: "string list"

text \<open>\<open>_finding\<close> with the defaults; the optional fields are updated.\<close>

definition plain_finding ::
    "string \<Rightarrow> string \<Rightarrow> payroll_period option \<Rightarrow> payroll_period \<Rightarrow> string \<Rightarrow> string \<Rightarrow> source_ref list \<Rightarrow> finding_row" where
  "plain_finding code severity baseline target calculation rule refs =
    \<lparr>fi_code = code, fi_severity = severity, fi_employee = None, fi_baseline_period = baseline, fi_target_period = target,
     fi_currency = None, fi_salary_rule = None, fi_line_code = None, fi_baseline_value = None, fi_target_value = None,
     fi_absolute_delta = None, fi_percentage_delta = None, fi_observed_delta = None, fi_calculation = calculation,
     fi_rule = rule, fi_threshold = None, fi_threshold_profile = None, fi_source_refs = refs, fi_evidence = [],
     fi_limitations = []\<rparr>"

definition fact_of :: "string \<Rightarrow> string option \<Rightarrow> string option \<Rightarrow> source_ref list \<Rightarrow> fact_change" where
  "fact_of name b a refs = \<lparr>xf_fact = name, xf_baseline_value = b, xf_target_value = a, xf_source_refs = refs\<rparr>"

text \<open>The values of a finding and the one fact that carries them.\<close>

definition with_values :: "string \<Rightarrow> string option \<Rightarrow> string option \<Rightarrow> finding_row \<Rightarrow> finding_row" where
  "with_values name b a f = f\<lparr>fi_baseline_value := b, fi_target_value := a, fi_evidence := [fact_of name b a (fi_source_refs f)]\<rparr>"

definition person :: "(int \<times> string) list \<Rightarrow> int \<Rightarrow> related" where
  "person names i = \<lparr>rr_id = i, rr_name = the (map_of names i)\<rparr>"

subsection \<open>Who is new, who is missing\<close>

definition set_minus :: "(int \<times> string) list \<Rightarrow> (int \<times> string) list \<Rightarrow> int list" where
  "set_minus a b = sorted_set (filter (\<lambda>i. i \<notin> set (keys b)) (keys a))"

definition set_common :: "(int \<times> string) list \<Rightarrow> (int \<times> string) list \<Rightarrow> int list" where
  "set_common a b = sorted_set (filter (\<lambda>i. i \<in> set (keys b)) (keys a))"

definition new_employee :: "pay_snapshot \<Rightarrow> pay_snapshot \<Rightarrow> int \<Rightarrow> finding_row" where
  "new_employee b t i =
    (with_values ''employee_set_membership'' (Some ''absent'') (Some ''present'')
      (plain_finding ''new_employee'' ''info'' (Some (sp_period b)) (sp_period t)
        ''target employee IDs minus baseline employee IDs'' ''Exact employee-ID set difference; no hire inference.''
        (employee_refs t i)))\<lparr>fi_employee := Some (person (employee_names t) i),
      fi_limitations := [''employee_presence_does_not_prove_hire'']\<rparr>"

definition missing_employee :: "pay_snapshot \<Rightarrow> pay_snapshot \<Rightarrow> int \<Rightarrow> finding_row" where
  "missing_employee b t i =
    (with_values ''employee_set_membership'' (Some ''present'') (Some ''absent'')
      (plain_finding ''missing_employee'' ''review'' (Some (sp_period b)) (sp_period t)
        ''baseline employee IDs minus target employee IDs'' ''Exact employee-ID set difference; no termination inference.''
        (employee_refs b i)))\<lparr>fi_employee := Some (person (employee_names b) i),
      fi_limitations := [''employee_absence_does_not_prove_termination'']\<rparr>"

definition count_finding :: "pay_snapshot \<Rightarrow> pay_snapshot \<Rightarrow> finding_row list" where
  "count_finding b t =
    (let m = length (employee_names b); n = length (employee_names t) in
     if m = n then []
     else [(with_values ''employee_count'' (Some (nat_text m)) (Some (nat_text n))
        (plain_finding ''employee_count_change'' ''info'' (Some (sp_period b)) (sp_period t)
          ''target headcount minus baseline headcount'' ''Any non-zero exact employee-count delta.''
          (merge_refs [snapshot_refs b, snapshot_refs t])))\<lparr>fi_absolute_delta := Some (Dec (int n - int m) 0)\<rparr>])"

subsection \<open>Contracts, lines, currencies\<close>

definition contract_finding :: "pay_snapshot \<Rightarrow> pay_snapshot \<Rightarrow> int \<times> contract_change list \<Rightarrow> finding_row" where
  "contract_finding b t g =
    (let changes = snd g in
     (plain_finding ''contract_change'' ''review'' (Some (sp_period b)) (sp_period t)
        ''exact normalized contract facts compared field by field'' ''Any exact contract fact change.''
        (merge_refs (map xf_source_refs changes)))
      \<lparr>fi_employee := Some (xf_employee (hd changes)), fi_evidence := map fact_change.truncate changes,
       fi_limitations := [''contract_change_does_not_establish_payroll_causality'']\<rparr>)"

definition nonzero_total :: "decimal option \<Rightarrow> bool" where
  "nonzero_total d \<longleftrightarrow> (case d of None \<Rightarrow> False | Some x \<Rightarrow> \<not> deq x dzero)"

definition line_finding :: "pay_snapshot \<Rightarrow> pay_snapshot \<Rightarrow> line_change \<Rightarrow> finding_row option" where
  "line_finding b t c =
    (let code = (if xc_baseline_total c = None \<and> nonzero_total (xc_target_total c) then Some ''rule_line_added''
           else if xc_target_total c = None \<and> nonzero_total (xc_baseline_total c) then Some ''rule_line_removed'' else None) in
     map_option (\<lambda>code.
       (with_values ''salary_rule_line_total'' (map_option dec_text (xc_baseline_total c)) (map_option dec_text (xc_target_total c))
         (plain_finding code ''review'' (Some (sp_period b)) (sp_period t)
           ''exact salary-rule ID and code presence comparison''
           ''A non-zero exact rule line exists in only one comparable period.'' (xc_source_refs c)))
        \<lparr>fi_employee := Some (xc_employee c), fi_currency := xc_currency c, fi_salary_rule := Some (xc_salary_rule c),
         fi_line_code := Some (xc_code c), fi_absolute_delta := xc_absolute_delta c\<rparr>) code)"

definition currencies_paid :: "pay_snapshot \<Rightarrow> int \<Rightarrow> int list" where
  "currencies_paid s i = sorted_set (map (rr_id \<circ> sl_currency) (filter (\<lambda>p. rr_id (sl_employee p) = i) (sp_payslips s)))"

definition currency_text :: "(int \<times> string) list \<Rightarrow> int list \<Rightarrow> string" where
  "currency_text names ids = join '','' (map (\<lambda>i. int_text i @ '':'' @ the (map_of names i)) ids)"

definition currency_finding :: "pay_snapshot \<Rightarrow> pay_snapshot \<Rightarrow> int \<Rightarrow> finding_row option" where
  "currency_finding b t i =
    (let names = currency_names [b, t]; x = currencies_paid b i; y = currencies_paid t i in
     if set x = set y then None
     else Some ((with_values ''currency'' (Some (currency_text names x)) (Some (currency_text names y))
        (plain_finding ''currency_change'' ''review'' (Some (sp_period b)) (sp_period t)
          ''exact Odoo currency-ID set comparison''
          ''Currency changes are reported without conversion or amount comparison.''
          (merge_refs [employee_refs b i, employee_refs t i])))
       \<lparr>fi_employee := Some (person (employee_names t) i),
        fi_limitations := [''currency_change_prevents_amount_comparison'']\<rparr>))"

definition base_findings :: "pay_snapshot \<Rightarrow> pay_snapshot \<Rightarrow> line_change list \<Rightarrow> contract_change list \<Rightarrow> finding_row list" where
  "base_findings b t lines contracts =
    (let before = employee_names b; after = employee_names t in
     map (new_employee b t) (set_minus after before) @ map (missing_employee b t) (set_minus before after)
     @ count_finding b t
     @ map (contract_finding b t) (sort_key fst (rows_by (rr_id \<circ> xf_employee) contracts))
     @ List.map_filter (line_finding b t) lines
     @ List.map_filter (currency_finding b t) (set_common before after))"

subsection \<open>Deviations above the threshold\<close>

definition threshold_of :: "string \<Rightarrow> decimal" where
  "threshold_of profile = (if profile = ''strict'' then Dec 5 0 else if profile = ''relaxed'' then Dec 20 0 else Dec 10 0)"

text \<open>The percentage of a deviation when it reaches the threshold.\<close>

definition deviation :: "decimal \<Rightarrow> decimal \<Rightarrow> decimal \<Rightarrow> decimal option wf" where
  "deviation threshold baseline target =
    (if deq baseline dzero then Inr None
     else ebind (raw_percentage baseline target) (\<lambda>raw.
       if dless (dabs raw) threshold then Inr None else ebind (four_places raw) (\<lambda>p. Inr (Some p))))"

definition money_finding :: "pay_snapshot \<Rightarrow> pay_snapshot \<Rightarrow> string \<Rightarrow> line_change \<Rightarrow> finding_row option wf" where
  "money_finding b t profile c =
    (case (xc_baseline_total c, xc_target_total c) of
       (Some x, Some y) \<Rightarrow>
         ebind (if deq x dzero then Inr None
           else ebind (raw_percentage x y) (\<lambda>raw.
             if xc_currency c = None \<or> dless (dabs raw) (threshold_of profile) then Inr None
             else ebind (four_places raw) (\<lambda>p. Inr (Some p)))) (\<lambda>found.
         Inr (map_option (\<lambda>p.
           (with_values ''salary_rule_line_total'' (Some (dec_text x)) (Some (dec_text y))
             (plain_finding ''monetary_deviation'' ''review'' (Some (sp_period b)) (sp_period t)
               ''(target - baseline) / abs(baseline) * 100''
               ''Same-currency absolute percentage change meets the selected threshold.'' (xc_source_refs c)))
            \<lparr>fi_employee := Some (xc_employee c), fi_currency := xc_currency c, fi_salary_rule := Some (xc_salary_rule c),
             fi_line_code := Some (xc_code c), fi_absolute_delta := xc_absolute_delta c, fi_percentage_delta := Some p,
             fi_observed_delta := Some (dabs p), fi_threshold := Some (threshold_of profile),
             fi_threshold_profile := Some profile\<rparr>) found))
     | _ \<Rightarrow> Inr None)"

definition hours_finding :: "pay_snapshot \<Rightarrow> pay_snapshot \<Rightarrow> string \<Rightarrow> hours_comparison \<Rightarrow> finding_row option wf" where
  "hours_finding b t profile h =
    (let x = dm_baseline (xh_hours h); y = dm_target (xh_hours h) in
     ebind (deviation (threshold_of profile) x y) (\<lambda>found.
     Inr (map_option (\<lambda>p.
       (with_values ''work_entry_hours'' (Some (dec_text x)) (Some (dec_text y))
         (plain_finding ''hours_deviation'' ''review'' (Some (sp_period b)) (sp_period t)
           ''(target hours - baseline hours) / abs(baseline hours) * 100''
           ''Absolute work-entry-hour percentage change meets the selected threshold.'' (xh_source_refs h)))
        \<lparr>fi_employee := Some (xh_employee h), fi_line_code := Some (xh_code h),
         fi_absolute_delta := Some (dm_absolute_delta (xh_hours h)), fi_percentage_delta := Some p,
         fi_observed_delta := Some (dabs p), fi_threshold := Some (threshold_of profile),
         fi_threshold_profile := Some profile, fi_limitations := [''work_entries_do_not_prove_physical_attendance'']\<rparr>) found)))"

definition threshold_findings ::
    "pay_snapshot \<Rightarrow> pay_snapshot \<Rightarrow> line_change list \<Rightarrow> hours_comparison list \<Rightarrow> string \<Rightarrow> finding_row list wf" where
  "threshold_findings b t lines worked profile =
    ebind (emap (money_finding b t profile) lines) (\<lambda>xs. ebind (emap (hours_finding b t profile) worked) (\<lambda>ys.
    Inr (List.map_filter id xs @ List.map_filter id ys)))"

subsection \<open>Conflicting work entries\<close>

definition conflict_finding :: "pay_snapshot option \<Rightarrow> pay_snapshot \<Rightarrow> int \<times> work_entry list \<Rightarrow> finding_row wf" where
  "conflict_finding b t g =
    (case g of (i, rows) \<Rightarrow>
     let zero = (case b of None \<Rightarrow> None | Some _ \<Rightarrow> Some ''0''); n = Dec (int (length (filter in_conflict rows))) 0 in
     ebind (name_of (employee_names t) i) (\<lambda>who.
     Inr ((with_values ''work_entry_conflict_count'' zero (Some (nat_text (length (filter in_conflict rows))))
        (plain_finding ''work_entry_conflict'' ''critical'' (map_option sp_period b) (sp_period t)
          ''count of target work entries marked conflict''
          ''Any target work-entry conflict is critical review evidence.'' (source_refs [(''hr.work.entry'', map hn_id rows)])))
       \<lparr>fi_employee := Some who, fi_absolute_delta := map_option (\<lambda>_. n) b, fi_observed_delta := Some n,
        fi_limitations := [''work_entries_do_not_prove_physical_attendance'']\<rparr>)))"

definition conflict_findings :: "pay_snapshot option \<Rightarrow> pay_snapshot \<Rightarrow> finding_row list wf" where
  "conflict_findings b t =
    emap (conflict_finding b t)
      (sort_key fst (rows_by (rr_id \<circ> hn_employee) (filter in_conflict (sp_entries t))))"

subsection \<open>Deviations from the history\<close>

text \<open>\<open>sorted\<close> by value is stable, with the smaller value before the larger one.\<close>

fun insert_value :: "decimal \<Rightarrow> decimal list \<Rightarrow> decimal list" where
  "insert_value x [] = [x]"
| "insert_value x (y # ys) = (if dless y x then y # insert_value x ys else x # y # ys)"

definition sort_values :: "decimal list \<Rightarrow> decimal list" where
  "sort_values xs = foldr insert_value xs []"

definition median :: "decimal list \<Rightarrow> decimal wf" where
  "median values =
    (let xs = sort_values values; m = length xs div 2 in
     if odd (length xs) then Inr (xs ! m) else ddiv (dadd (xs ! (m - 1)) (xs ! m)) (Dec 2 0))"

definition score_factor :: decimal where "score_factor = Dec 6745 (-4)"
definition score_threshold :: decimal where "score_threshold = Dec 35 (-1)"

datatype statistic = Limited string | Quiet | Deviating finding_row

definition comparable :: "line_key \<Rightarrow> line_aggregate \<Rightarrow> (line_key \<times> line_aggregate) list list \<Rightarrow> line_aggregate list" where
  "comparable k a histories =
    filter (\<lambda>h. rr_id (la_currency h) = rr_id (la_currency a)) (List.map_filter (\<lambda>d. map_of d k) histories)"

definition statistic_of ::
    "pay_snapshot \<Rightarrow> pay_snapshot \<Rightarrow> (line_key \<times> line_aggregate) list list \<Rightarrow> line_key \<times> line_aggregate \<Rightarrow> statistic wf" where
  "statistic_of b t histories entry =
    (case entry of (k, a) \<Rightarrow>
     let past = comparable k a histories; totals = map la_total past;
         refs = foldl (\<lambda>rs h. merge_refs [rs, line_refs (la_lines h)]) (line_refs (la_lines a)) past in
     if length totals < 6 then Inr (Limited ''statistical_method_unavailable_insufficient_history'')
     else ebind (median totals) (\<lambda>mid.
       ebind (median (map (\<lambda>v. dabs (dsub v mid)) totals)) (\<lambda>mad.
       if deq mad dzero then Inr (Limited ''statistical_method_unavailable_zero_mad'')
       else ebind (ddiv (dmul score_factor (dsub (la_total a) mid)) mad) (\<lambda>score.
         if dless (dabs score) score_threshold then Inr Quiet
         else ebind (four_places score) (\<lambda>shown.
           Inr (Deviating ((with_values ''historical_rule_total'' (Some (dec_text mid)) (Some (dec_text (la_total a)))
             (plain_finding ''statistical_deviation'' ''review'' (Some (sp_period b)) (sp_period t)
               ''0.6745 * (target - history median) / history MAD''
               ''At least six comparable history values and absolute modified z-score >= 3.5.'' refs))
             \<lparr>fi_employee := Some (la_employee a), fi_currency := Some (la_currency a), fi_salary_rule := Some (la_salary_rule a),
              fi_line_code := Some (la_code a), fi_absolute_delta := Some (dsub (la_total a) mid),
              fi_observed_delta := Some (dabs shown), fi_threshold := Some score_threshold,
              fi_limitations := [''statistical_baseline_uses_request_history_only'']\<rparr>)))))))"

definition statistic_finding :: "statistic \<Rightarrow> finding_row option" where
  "statistic_finding s = (case s of Deviating f \<Rightarrow> Some f | _ \<Rightarrow> None)"

definition statistic_limit :: "statistic \<Rightarrow> string option" where
  "statistic_limit s = (case s of Limited m \<Rightarrow> Some m | _ \<Rightarrow> None)"

definition statistical_findings ::
    "pay_snapshot \<Rightarrow> pay_snapshot \<Rightarrow> pay_snapshot list \<Rightarrow> (finding_row list \<times> string list) wf" where
  "statistical_findings b t histories =
    ebind (line_aggregates t) (\<lambda>values. ebind (emap line_aggregates histories) (\<lambda>past.
    ebind (emap (statistic_of b t past) (sort_key fst values)) (\<lambda>found.
    Inr (List.map_filter statistic_finding found,
      sorted_set (List.map_filter statistic_limit found
        @ (if histories = [] then [''statistical_method_unavailable_insufficient_history''] else []))))))"

end
