(* ===== verification/PayrollAnalysis.thy ===== *)
theory PayrollAnalysis
  imports PayrollFindings
begin

text \<open>
  The payroll workflows \<open>compare_payroll_periods\<close> and \<open>detect_payroll_anomalies\<close> of
  \<open>workflows/payroll/analysis.py\<close>, with the review they render.
\<close>

section \<open>Requests\<close>

record compare_request =
  qr_company_id :: int
  qr_baseline_period :: payroll_period
  qr_target_period :: payroll_period
  qr_employee_ids :: "int list"
  qr_states :: "string list"

record anomaly_request = compare_request +
  qr_history_periods :: "payroll_period list"
  qr_threshold_profile :: string

text \<open>\<open>_comparison_snapshots\<close>.\<close>

definition comparison_snapshots :: "payroll_adapter \<Rightarrow> 'a compare_request_scheme \<Rightarrow> (pay_snapshot \<times> pay_snapshot) wf option" where
  "comparison_snapshots ad r =
    obind (load_snapshot ad (qr_company_id r) (qr_baseline_period r) (qr_employee_ids r) (qr_states r) True) (\<lambda>b.
    obind (load_snapshot ad (qr_company_id r) (qr_target_period r) (qr_employee_ids r) (qr_states r) True) (\<lambda>t.
    obind (olift (enforce_caps [b, t])) (\<lambda>_. obind (olift (validate_cross_metadata [b, t])) (\<lambda>_. Some (Inr (b, t))))))"

section \<open>What both report\<close>

record employee_sets =
  es_new :: "related list"
  es_missing :: "related list"
  es_common :: "related list"

definition employee_sets_of :: "pay_snapshot \<Rightarrow> pay_snapshot \<Rightarrow> employee_sets" where
  "employee_sets_of b t =
    (let before = employee_names b; after = employee_names t in
     \<lparr>es_new = map (person after) (set_minus after before), es_missing = map (person before) (set_minus before after),
      es_common = map (person after) (set_common before after)\<rparr>)"

definition uncovered :: "pay_snapshot \<Rightarrow> bool" where
  "uncovered s \<longleftrightarrow> list_ex (\<lambda>i. i \<notin> set (map (rr_id \<circ> hc_employee) (sp_segments s))) (keys (employee_names s))"

definition limitations_of :: "pay_snapshot \<Rightarrow> pay_snapshot \<Rightarrow> string list \<Rightarrow> string list" where
  "limitations_of b t states =
    sorted_set ([''employer_cost_not_authoritatively_available'', ''work_entries_do_not_prove_physical_attendance'']
      @ (if ''cancelled'' \<in> set states then [''cancelled_payslips_excluded_from_comparison''] else [])
      @ (if uncovered b \<or> uncovered t then [''contract_evidence_unavailable_for_some_employees''] else []))"

definition changed_ids :: "line_change list \<Rightarrow> contract_change list \<Rightarrow> hours_comparison list \<Rightarrow> employee_sets \<Rightarrow> int list" where
  "changed_ids lines contracts worked sets =
    sorted_set (map (rr_id \<circ> xc_employee) lines @ map (rr_id \<circ> xf_employee) contracts
      @ map (rr_id \<circ> xh_employee) (filter (\<lambda>h. dm_change (xh_hours h) \<noteq> ''unchanged'') worked)
      @ map rr_id (es_new sets) @ map rr_id (es_missing sets))"

section \<open>The comparison\<close>

record comparison_report =
  cx_request_id :: string
  cx_company_id :: int
  cx_observed_at :: int
  cx_source_refs :: "source_ref list"
  cx_limitations :: "string list"
  cx_baseline_period :: payroll_period
  cx_target_period :: payroll_period
  cx_headcount :: count_comparison
  cx_employee_changes :: employee_sets
  cx_payslip_totals :: "payslip_total list"
  cx_rule_totals :: "rule_comparison list"
  cx_category_totals :: "category_comparison list"
  cx_recognized :: "(string \<times> recognized \<times> recognized) list"
  cx_contract_changes :: "contract_change list"
  cx_work_entry_hours :: "hours_comparison list"
  cx_changed_employees :: "related list"
  cx_findings :: "finding_row list"

definition comparison_report_of ::
    "'a compare_request_scheme \<Rightarrow> string \<Rightarrow> int \<Rightarrow> pay_snapshot \<Rightarrow> pay_snapshot \<Rightarrow> comparison_report wf" where
  "comparison_report_of r request_id now b t =
    ebind (line_changes b t) (\<lambda>lines.
    ebind (contract_changes b t) (\<lambda>contracts.
    ebind (work_entry_hours b t) (\<lambda>worked.
    let sets = employee_sets_of b t in
    ebind (compare_counts (length (employee_names b)) (length (employee_names t))) (\<lambda>headcount.
    ebind (payslip_totals b t) (\<lambda>slips.
    ebind (rule_totals b t) (\<lambda>rules.
    ebind (category_totals b t) (\<lambda>categories.
    ebind (emap (name_of (all_names b t)) (changed_ids lines contracts worked sets)) (\<lambda>changed.
    Inr \<lparr>cx_request_id = request_id, cx_company_id = qr_company_id r, cx_observed_at = now,
      cx_source_refs = merge_refs [snapshot_refs b, snapshot_refs t], cx_limitations = limitations_of b t (qr_states r),
      cx_baseline_period = qr_baseline_period r, cx_target_period = qr_target_period r, cx_headcount = headcount,
      cx_employee_changes = sets, cx_payslip_totals = slips, cx_rule_totals = rules, cx_category_totals = categories,
      cx_recognized = recognized_comparisons b t, cx_contract_changes = contracts, cx_work_entry_hours = worked,
      cx_changed_employees = changed, cx_findings = base_findings b t lines contracts\<rparr>))))))))"

definition compare_payroll_periods ::
    "payroll_adapter \<Rightarrow> compare_request \<Rightarrow> string \<Rightarrow> int \<Rightarrow> comparison_report wf option" where
  "compare_payroll_periods ad r request_id now =
    obind (comparison_snapshots ad r) (\<lambda>(b, t). olift (comparison_report_of r request_id now b t))"

section \<open>The anomalies\<close>

text \<open>The histories are read oldest first, and the limits are enforced after every one.\<close>

fun load_histories ::
    "payroll_adapter \<Rightarrow> 'a compare_request_scheme \<Rightarrow> pay_snapshot list \<Rightarrow> payroll_period list \<Rightarrow> pay_snapshot list \<Rightarrow> pay_snapshot list wf option" where
  "load_histories ad r both [] hs = Some (Inr hs)"
| "load_histories ad r both (p # ps) hs =
    obind (load_snapshot ad (qr_company_id r) p (qr_employee_ids r) (qr_states r) False) (\<lambda>h.
    obind (olift (enforce_caps (hs @ [h] @ both))) (\<lambda>_. load_histories ad r both ps (hs @ [h])))"

definition finding_order :: "finding_row \<Rightarrow> string \<times> int \<times> int \<times> string" where
  "finding_order f =
    (fi_code f, (case fi_employee f of None \<Rightarrow> -1 | Some e \<Rightarrow> rr_id e),
     (case fi_salary_rule f of None \<Rightarrow> -1 | Some s \<Rightarrow> rr_id s), (case fi_line_code f of None \<Rightarrow> [] | Some c \<Rightarrow> c))"

text \<open>\<open>_render_anomalies\<close>. The em dash and the arrow are written as their bytes.\<close>

definition markdown_text :: "string \<Rightarrow> string" where
  "markdown_text t = map (\<lambda>c. if c = CHR 0x60 then CHR 0x27 else if c = CHR 0x0D \<or> c = CHR 0x0A then CHR '' '' else c) t"

definition em_dash :: string where "em_dash = [CHR 0xE2, CHR 0x80, CHR 0x94]"
definition arrow :: string where "arrow = [CHR 0xE2, CHR 0x86, CHR 0x92]"

definition ticked :: "string \<Rightarrow> string" where "ticked t = [CHR 0x60] @ t @ [CHR 0x60]"

definition or_else_rows :: "string list \<Rightarrow> string \<Rightarrow> string list" where
  "or_else_rows rows none = (if rows = [] then [none] else rows)"

definition optional_text :: "string option \<Rightarrow> string" where
  "optional_text v = (case v of None \<Rightarrow> ''None'' | Some t \<Rightarrow> t)"

definition render_fact :: "fact_change \<Rightarrow> string" where
  "render_fact v = ''  - '' @ ticked (markdown_text (xf_fact v)) @ '': '' @ ticked (markdown_text (optional_text (xf_baseline_value v)))
     @ '' '' @ arrow @ '' '' @ ticked (markdown_text (optional_text (xf_target_value v)))"

definition render_period :: "payroll_period \<Rightarrow> string" where
  "render_period p = ticked (isoformat (hp_start p)) @ '' to '' @ ticked (isoformat (hp_end p))"

definition render_ref :: "source_ref \<Rightarrow> string" where
  "render_ref s = ticked (rf_model s) @ '': '' @ join '', '' (map (ticked \<circ> int_text) (rf_ids s))"

definition render_anomaly :: "finding_row \<Rightarrow> string list" where
  "render_anomaly f =
    [''### '' @ ticked (fi_code f) @ '' '' @ em_dash @ '' ''
       @ (case fi_employee f of None \<Rightarrow> ''company scope''
          | Some e \<Rightarrow> ''employee '' @ ticked (int_text (rr_id e)) @ '' ('' @ markdown_text (rr_name e) @ '')''), [],
     ''- Severity: '' @ ticked (fi_severity f), ''- Calculation: '' @ markdown_text (fi_calculation f),
     ''- Rule: '' @ markdown_text (fi_rule f),
     (case fi_threshold f of None \<Rightarrow> ''- Threshold: not applicable'' | Some d \<Rightarrow> ''- Threshold: '' @ ticked (dec_text d)),
     (case fi_observed_delta f of None \<Rightarrow> ''- Observed delta: unavailable'' | Some d \<Rightarrow> ''- Observed delta: '' @ ticked (dec_text d)),
     ''- Evidence:'']
    @ or_else_rows (map render_fact (fi_evidence f)) ''  - No additional evidence item.''
    @ [''- Correlations:'', ''  - None reported.'', ''- Limitations:'']
    @ or_else_rows (map (\<lambda>v. ''  - '' @ ticked (markdown_text v)) (fi_limitations f)) ''  - None specific to this finding.''
    @ [[]]"

definition render_anomalies :: "anomaly_request \<Rightarrow> finding_row list \<Rightarrow> string list \<Rightarrow> source_ref list \<Rightarrow> string" where
  "render_anomalies r fs limits refs =
    (let evidence = or_else_rows (map (\<lambda>s. ''- '' @ render_ref s) refs) ''- No eligible source record.'' in
     join newline
      ([''# Payroll Anomaly Review'', [], ''Baseline: '' @ render_period (qr_baseline_period r),
        ''Target: '' @ render_period (qr_target_period r), ''Threshold profile: '' @ ticked (qr_threshold_profile r), [],
        ''## Summary'', [], ''Findings: '' @ nat_text (length fs), [], ''## Critical Findings'', []]
       @ or_else_rows (map (\<lambda>f. ''- '' @ ticked (fi_code f)) (filter (\<lambda>f. fi_severity f = ''critical'') fs))
           ''- No critical finding was observed.''
       @ [[], ''## Employee-Level Anomalies'', []]
       @ (if fs = [] then [''- No finding was observed under the selected rules.''] else [])
       @ concat (map render_anomaly fs)
       @ [''## Evidence'', []] @ evidence @ [[], ''## Calculations and Rules'', []]
       @ or_else_rows (map (\<lambda>f. ''- '' @ ticked (fi_code f) @ '': '' @ markdown_text (fi_calculation f) @ ''; '' @ markdown_text (fi_rule f)) fs)
           ''- No calculation produced a finding.''
       @ [[], ''## Limitations'', []] @ or_else_rows (map (\<lambda>v. ''- '' @ ticked (markdown_text v)) limits) ''- None.''
       @ [[], ''## Recommended Human Review Actions'', [],
          ''- Review each source-linked finding in Odoo before taking any action.'',
          ''- Resolve work-entry conflicts and missing evidence in Odoo where applicable.'',
          ''- Treat correlations as non-causal until verified by an authorized reviewer.'', [],
          ''## Supporting Source References'', []] @ evidence))"

record anomaly_report =
  ax_request_id :: string
  ax_company_id :: int
  ax_observed_at :: int
  ax_source_refs :: "source_ref list"
  ax_limitations :: "string list"
  ax_baseline_period :: payroll_period
  ax_target_period :: payroll_period
  ax_threshold_profile :: string
  ax_evaluated_employee_count :: nat
  ax_statistical_period_count :: nat
  ax_findings :: "finding_row list"
  ax_rendered_markdown :: string

definition anomaly_findings ::
    "pay_snapshot \<Rightarrow> pay_snapshot \<Rightarrow> pay_snapshot list \<Rightarrow> string \<Rightarrow> (finding_row list \<times> string list) wf" where
  "anomaly_findings b t histories profile =
    ebind (line_changes b t) (\<lambda>lines.
    ebind (contract_changes b t) (\<lambda>contracts.
    ebind (work_entry_hours b t) (\<lambda>worked.
    ebind (threshold_findings b t lines worked profile) (\<lambda>deviations.
    ebind (conflict_findings (Some b) t) (\<lambda>conflicts.
    ebind (statistical_findings b t histories) (\<lambda>(statistical, limits).
    Inr (sort_key finding_order (base_findings b t lines contracts @ deviations @ conflicts @ statistical), limits)))))))"

definition anomaly_report_of ::
    "anomaly_request \<Rightarrow> string \<Rightarrow> int \<Rightarrow> pay_snapshot \<Rightarrow> pay_snapshot \<Rightarrow> pay_snapshot list \<Rightarrow> anomaly_report wf" where
  "anomaly_report_of r request_id now b t histories =
    ebind (anomaly_findings b t histories (qr_threshold_profile r)) (\<lambda>(fs, statistical_limits).
    let refs = merge_refs (map snapshot_refs (histories @ [b, t]));
        limits = sorted_set (limitations_of b t (qr_states r) @ statistical_limits) in
    Inr \<lparr>ax_request_id = request_id, ax_company_id = qr_company_id r, ax_observed_at = now, ax_source_refs = refs,
      ax_limitations = limits, ax_baseline_period = qr_baseline_period r, ax_target_period = qr_target_period r,
      ax_threshold_profile = qr_threshold_profile r,
      ax_evaluated_employee_count = card (set (keys (employee_names b)) \<union> set (keys (employee_names t))),
      ax_statistical_period_count = length histories, ax_findings = fs,
      ax_rendered_markdown = render_anomalies r fs limits refs\<rparr>)"

definition detect_payroll_anomalies ::
    "payroll_adapter \<Rightarrow> anomaly_request \<Rightarrow> string \<Rightarrow> int \<Rightarrow> anomaly_report wf option" where
  "detect_payroll_anomalies ad r request_id now =
    obind (comparison_snapshots ad r) (\<lambda>(b, t).
    obind (load_histories ad r [b, t] (sort_key (\<lambda>p. (hp_start p, hp_end p)) (qr_history_periods r)) []) (\<lambda>histories.
    obind (olift (validate_cross_metadata (histories @ [b, t]))) (\<lambda>_.
    olift (anomaly_report_of r request_id now b t histories))))"

end
