(* ===== verification/PayrollTotals.thy ===== *)
theory PayrollTotals
  imports PayrollAnalysis
begin

text \<open>
  What the totals of a comparison mean: rows are built for exactly the keys of the lines, each total is the exact
  sum of its lines, and the views by payslip, by rule and by category add up to the same amounts per currency.
\<close>

section \<open>Rows by key\<close>

lemma map_of_rows_by:
  "map_of (rows_by key ls) k = (if filter (\<lambda>l. key l = k) ls = [] then None else Some (filter (\<lambda>l. key l = k) ls))"
proof (induction ls rule: rev_induct)
  case (snoc l ls)
  have "rows_by key (ls @ [l]) = put_row key l (rows_by key ls)" by (simp add: rows_by_def)
  with snoc show ?case by (cases "k = key l") (auto simp: put_row_def)
qed (simp add: rows_by_def)

lemma rows_at_by [simp]: "rows_at (rows_by key ls) k = filter (\<lambda>l. key l = k) ls"
  by (simp add: rows_at_def map_of_rows_by)

lemma keys_rows_by: "set (keys (rows_by key ls)) = key ` set ls"
proof (induction ls rule: rev_induct)
  case (snoc l ls)
  have "rows_by key (ls @ [l]) = put_row key l (rows_by key ls)" by (simp add: rows_by_def)
  with snoc show ?case by (simp add: put_row_def keys_dict_put)
qed (simp add: rows_by_def keys_def)

lemma distinct_rows_by: "distinct (keys (rows_by key ls))"
proof (induction ls rule: rev_induct)
  case (snoc l ls)
  have "rows_by key (ls @ [l]) = put_row key l (rows_by key ls)" by (simp add: rows_by_def)
  with snoc show ?case by (simp add: put_row_def distinct_dict_put)
qed (simp add: rows_by_def keys_def)

lemma totals_by_sum: "totals_by key amount ls k = dsum (map amount (filter (\<lambda>l. key l = k) ls))"
proof (induction ls rule: rev_induct)
  case (snoc l ls)
  have "totals_by key amount (ls @ [l]) = add_total key amount l (totals_by key amount ls)" by (simp add: totals_by_def)
  with snoc show ?case by (cases "k = key l") (simp_all add: add_total_def dsum_def)
qed (simp add: totals_by_def dsum_def)

lemma set_sorted_set [simp]: "set (sorted_set xs) = set xs"
  by (simp add: sorted_set_def)

lemma distinct_sorted_set [simp]: "distinct (sorted_set xs)"
  by (simp add: sorted_set_def)

lemma sorted_set_cong: "set xs = set ys \<Longrightarrow> sorted_set xs = sorted_set ys"
  unfolding sorted_set_def by (metis sorted_list_of_set_sort_remdups)

lemma union_keys_rows: "union_keys (rows_by key xs) (rows_by key ys) = sorted_set (map key (xs @ ys))"
  unfolding union_keys_def by (rule sorted_set_cong) (simp add: keys_rows_by image_Un)

section \<open>Exact sums\<close>

definition plain_pay :: "nat \<Rightarrow> pay_snapshot \<Rightarrow> bool" where
  "plain_pay p s \<longleftrightarrow> list_all (\<lambda>l. fits p amount_unit (hl_total l)) (sp_lines s)"

text \<open>What the lines with a property pay, and what they pay in a currency.\<close>

definition paid :: "(payslip_line \<Rightarrow> bool) \<Rightarrow> pay_snapshot \<Rightarrow> rat" where
  "paid P s = (\<Sum>l\<leftarrow>sp_lines s. if P l then dec_val (hl_total l) else 0)"

lemma sum_of_exact:
  assumes "plain_pay p s" "length (sp_lines s) \<le> max_lines"
  shows "dec_val (sum_of (filter P (sp_lines s))) = paid P s"
proof -
  have "length (filter P (sp_lines s)) \<le> max_source_records"
    by (rule order_trans [OF length_filter_le]) (use assms(2) in \<open>simp add: max_lines_def max_source_records_def\<close>)
  moreover have "list_all (\<lambda>l. fits p amount_unit (hl_total l)) (filter P (sp_lines s))"
    using assms(1) by (simp add: plain_pay_def list_all_iff)
  ultimately have "dec_val (dsum (map hl_total (filter P (sp_lines s)))) = (\<Sum>l\<leftarrow>filter P (sp_lines s). dec_val (hl_total l))"
    by (intro plain_sum(1))
  then show ?thesis by (simp add: sum_of_def paid_def sum_list_filter)
qed

lemma compare_decimals_Inr:
  "compare_decimals x y = Inr c \<Longrightarrow> dm_baseline c = x \<and> dm_target c = y \<and> dm_absolute_delta c = dsub y x \<and> dm_change c = change_kind x y"
  by (auto simp: compare_decimals_def)

text \<open>A view: rows with a currency and a comparison. Summed over the keys, the lines of a currency are all there.\<close>

lemma paid_by_key:
  fixes key :: "payslip_line \<Rightarrow> 'k"
  assumes "distinct ks" "key ` set (sp_lines s) \<subseteq> set ks" "\<And>l. currency_of (key l) = rr_id (hl_currency l)"
  shows "(\<Sum>k\<leftarrow>ks. if currency_of k = u then paid (\<lambda>l. key l = k) s else 0) = paid (\<lambda>l. rr_id (hl_currency l) = u) s"
proof -
  let ?f = "\<lambda>l. if rr_id (hl_currency l) = u then dec_val (hl_total l) else 0"
  have "(if currency_of k = u then paid (\<lambda>l. key l = k) s else 0) = (\<Sum>l\<leftarrow>filter (\<lambda>l. key l = k) (sp_lines s). ?f l)" for k
  proof (cases "currency_of k = u")
    case True
    then show ?thesis unfolding paid_def sum_list_filter
      by (auto intro!: arg_cong [of _ _ sum_list] map_cong simp: assms(3) [symmetric])
  next
    case False
    then have "(\<Sum>l\<leftarrow>filter (\<lambda>l. key l = k) (sp_lines s). ?f l) = (\<Sum>l\<leftarrow>filter (\<lambda>l. key l = k) (sp_lines s). 0)"
      by (intro arg_cong [of _ _ sum_list] map_cong) (auto simp: assms(3) [symmetric])
    with False show ?thesis by (simp add: sum_list_0)
  qed
  moreover have "list_all (\<lambda>l. key l \<in> set ks) (sp_lines s)" using assms(2) by (auto simp: list_all_iff)
  ultimately show ?thesis using sum_by_key [OF assms(1), of key "sp_lines s" ?f] by (simp add: paid_def)
qed

text \<open>The amount a view shows for a currency.\<close>

definition view :: "('r \<Rightarrow> related) \<Rightarrow> ('r \<Rightarrow> comparison) \<Rightarrow> (comparison \<Rightarrow> decimal) \<Rightarrow> 'r list \<Rightarrow> int \<Rightarrow> rat" where
  "view currency cmp side rows u = (\<Sum>x\<leftarrow>rows. if rr_id (currency x) = u then dec_val (side (cmp x)) else 0)"

lemma view_exact:
  fixes key :: "payslip_line \<Rightarrow> 'k"
  assumes "emap row ks = Inr rows" "distinct ks" "key ` set (sp_lines s) \<subseteq> set ks" "\<And>l. currency_of (key l) = rr_id (hl_currency l)"
    "\<And>k x. k \<in> set ks \<Longrightarrow> row k = Inr x \<Longrightarrow> rr_id (currency x) = currency_of k \<and> dec_val (side (cmp x)) = paid (\<lambda>l. key l = k) s"
  shows "view currency cmp side rows u = paid (\<lambda>l. rr_id (hl_currency l) = u) s"
proof -
  have "map (\<lambda>x. if rr_id (currency x) = u then dec_val (side (cmp x)) else 0) rows
      = map (\<lambda>k. if currency_of k = u then paid (\<lambda>l. key l = k) s else 0) ks"
    using assms(1,5)
  proof (induction ks arbitrary: rows)
    case (Cons k ks)
    from Cons.prems(1) obtain x xs where x: "row k = Inr x" "emap row ks = Inr xs" "rows = x # xs" by auto
    from Cons.prems(2) [OF _ x(1)] have "rr_id (currency x) = currency_of k" "dec_val (side (cmp x)) = paid (\<lambda>l. key l = k) s" by simp_all
    with x(3) Cons.IH [OF x(2)] Cons.prems(2) show ?case by simp
  qed simp
  then show ?thesis unfolding view_def by (simp add: paid_by_key [OF assms(2,3,4)])
qed

section \<open>The three views of a comparison\<close>

lemma sample_key:
  "k \<in> key ` set (bs @ ts) \<Longrightarrow> key (sample_of (filter (\<lambda>l. key l = k) bs) (filter (\<lambda>l. key l = k) ts)) = k"
proof -
  assume "k \<in> key ` set (bs @ ts)"
  then have "filter (\<lambda>l. key l = k) (bs @ ts) \<noteq> []" by (auto simp: filter_empty_conv)
  then show ?thesis by (auto simp: sample_of_def dest!: hd_in_set)
qed

lemma rule_view:
  assumes "rule_totals b t = Inr rows" "plain_pay p b" "plain_pay p t" "length (sp_lines b) \<le> max_lines" "length (sp_lines t) \<le> max_lines"
  shows "view xr_currency xr_total dm_baseline rows u = paid (\<lambda>l. rr_id (hl_currency l) = u) b
    \<and> view xr_currency xr_total dm_target rows u = paid (\<lambda>l. rr_id (hl_currency l) = u) t"
proof -
  let ?ks = "sorted_set (map full_rule_key (sp_lines b @ sp_lines t))"
  let ?row = "\<lambda>k. rule_comparison_of (filter (\<lambda>l. full_rule_key l = k) (sp_lines b)) (filter (\<lambda>l. full_rule_key l = k) (sp_lines t))"
  have rows: "emap ?row ?ks = Inr rows" using assms(1) by (simp add: rule_totals_def union_keys_rows)
  have cur: "fst (full_rule_key l) = rr_id (hl_currency l)" for l by (simp add: full_rule_key_def)
  have row: "rr_id (xr_currency x) = fst k \<and> dec_val (dm_baseline (xr_total x)) = paid (\<lambda>l. full_rule_key l = k) b
      \<and> dec_val (dm_target (xr_total x)) = paid (\<lambda>l. full_rule_key l = k) t" if k: "k \<in> set ?ks" "?row k = Inr x" for k x
  proof -
    let ?l = "sample_of (filter (\<lambda>l. full_rule_key l = k) (sp_lines b)) (filter (\<lambda>l. full_rule_key l = k) (sp_lines t))"
    have "full_rule_key ?l = k" using k(1) by (intro sample_key) auto
    then have "rr_id (hl_currency ?l) = fst k" using cur [of ?l] by simp
    with k(2) compare_decimals_Inr sum_of_exact [OF assms(2,4)] sum_of_exact [OF assms(3,5)] show ?thesis
      by (auto simp: rule_comparison_of_def compare_rows_def Let_def)
  qed
  have keys: "full_rule_key ` set (sp_lines b) \<subseteq> set ?ks" "full_rule_key ` set (sp_lines t) \<subseteq> set ?ks" by auto
  show ?thesis
    by (intro conjI view_exact [OF rows distinct_sorted_set keys(1) cur] view_exact [OF rows distinct_sorted_set keys(2) cur])
      (use row in blast)+
qed

lemma category_view:
  assumes "category_totals b t = Inr rows" "plain_pay p b" "plain_pay p t" "length (sp_lines b) \<le> max_lines" "length (sp_lines t) \<le> max_lines"
  shows "view xg_currency xg_total dm_baseline rows u = paid (\<lambda>l. rr_id (hl_currency l) = u) b
    \<and> view xg_currency xg_total dm_target rows u = paid (\<lambda>l. rr_id (hl_currency l) = u) t"
proof -
  let ?ks = "sorted_set (map category_key (sp_lines b @ sp_lines t))"
  let ?row = "\<lambda>k. category_comparison_of (filter (\<lambda>l. category_key l = k) (sp_lines b)) (filter (\<lambda>l. category_key l = k) (sp_lines t))"
  have rows: "emap ?row ?ks = Inr rows" using assms(1) by (simp add: category_totals_def union_keys_rows)
  have cur: "fst (category_key l) = rr_id (hl_currency l)" for l by (simp add: category_key_def)
  have row: "rr_id (xg_currency x) = fst k \<and> dec_val (dm_baseline (xg_total x)) = paid (\<lambda>l. category_key l = k) b
      \<and> dec_val (dm_target (xg_total x)) = paid (\<lambda>l. category_key l = k) t" if k: "k \<in> set ?ks" "?row k = Inr x" for k x
  proof -
    let ?l = "sample_of (filter (\<lambda>l. category_key l = k) (sp_lines b)) (filter (\<lambda>l. category_key l = k) (sp_lines t))"
    have "category_key ?l = k" using k(1) by (intro sample_key) auto
    then have "rr_id (hl_currency ?l) = fst k" using cur [of ?l] by simp
    with k(2) compare_decimals_Inr sum_of_exact [OF assms(2,4)] sum_of_exact [OF assms(3,5)] show ?thesis
      by (auto simp: category_comparison_of_def compare_rows_def Let_def)
  qed
  have keys: "category_key ` set (sp_lines b) \<subseteq> set ?ks" "category_key ` set (sp_lines t) \<subseteq> set ?ks" by auto
  show ?thesis
    by (intro conjI view_exact [OF rows distinct_sorted_set keys(1) cur] view_exact [OF rows distinct_sorted_set keys(2) cur])
      (use row in blast)+
qed

lemma payslip_view:
  assumes "payslip_totals b t = Inr rows" "plain_pay p b" "plain_pay p t" "length (sp_lines b) \<le> max_lines" "length (sp_lines t) \<le> max_lines"
  shows "view xp_currency xp_observed dm_baseline rows u = paid (\<lambda>l. rr_id (hl_currency l) = u) b
    \<and> view xp_currency xp_observed dm_target rows u = paid (\<lambda>l. rr_id (hl_currency l) = u) t"
proof -
  let ?ks = "sorted_set (person_keys b @ person_keys t)"
  note rows = assms(1) [unfolded payslip_totals_def]
  have sums: "dec_val (totals_by person_key hl_total (sp_lines b) k) = paid (\<lambda>l. person_key l = k) b"
    "dec_val (totals_by person_key hl_total (sp_lines t) k) = paid (\<lambda>l. person_key l = k) t" for k
    using sum_of_exact [OF assms(2,4)] sum_of_exact [OF assms(3,5)] by (simp_all add: totals_by_sum sum_of_def)
  have name: "name_of d i = Inr r \<Longrightarrow> rr_id r = i" for d i r by (auto simp: name_of_def split: option.splits)
  have keys: "person_key ` set (sp_lines b) \<subseteq> set ?ks" "person_key ` set (sp_lines t) \<subseteq> set ?ks" by (auto simp: person_keys_def)
  have cur: "snd (person_key l) = rr_id (hl_currency l)" for l by (simp add: person_key_def)
  show ?thesis
    by (intro conjI view_exact [OF rows distinct_sorted_set keys(1) cur] view_exact [OF rows distinct_sorted_set keys(2) cur])
      (auto dest!: compare_decimals_Inr dest: name simp: sums)
qed

lemma comparison_bounds:
  "comparison_snapshots ad r = Some (Inr (b, t)) \<Longrightarrow> length (sp_lines b) \<le> max_lines \<and> length (sp_lines t) \<le> max_lines"
  by (auto simp: comparison_snapshots_def obind_Some_Inr enforce_caps_def split: if_splits)

text \<open>C37 (the views of a payroll comparison agree). In a comparison of two periods, the totals per payslip, per salary rule
  and per category add up to the same amount in every currency and for either period, namely to what the lines
  of that period pay in that currency: nothing is lost and nothing is counted twice.\<close>

theorem payroll_views_agree:
  assumes "compare_payroll_periods ad r rid now = Some (Inr rep)" "comparison_snapshots ad r = Some (Inr (b, t))"
    "plain_pay p b" "plain_pay p t"
  shows "view xp_currency xp_observed dm_baseline (cx_payslip_totals rep) u = paid (\<lambda>l. rr_id (hl_currency l) = u) b
    \<and> view xr_currency xr_total dm_baseline (cx_rule_totals rep) u = paid (\<lambda>l. rr_id (hl_currency l) = u) b
    \<and> view xg_currency xg_total dm_baseline (cx_category_totals rep) u = paid (\<lambda>l. rr_id (hl_currency l) = u) b
    \<and> view xp_currency xp_observed dm_target (cx_payslip_totals rep) u = paid (\<lambda>l. rr_id (hl_currency l) = u) t
    \<and> view xr_currency xr_total dm_target (cx_rule_totals rep) u = paid (\<lambda>l. rr_id (hl_currency l) = u) t
    \<and> view xg_currency xg_total dm_target (cx_category_totals rep) u = paid (\<lambda>l. rr_id (hl_currency l) = u) t"
proof -
  from assms(1,2) have parts: "payslip_totals b t = Inr (cx_payslip_totals rep)" "rule_totals b t = Inr (cx_rule_totals rep)"
    "category_totals b t = Inr (cx_category_totals rep)"
    by (auto simp: compare_payroll_periods_def comparison_report_of_def Let_def)
  from comparison_bounds [OF assms(2)] payslip_view [OF parts(1) assms(3,4)] rule_view [OF parts(2) assms(3,4)]
    category_view [OF parts(3) assms(3,4)]
  show ?thesis by blast
qed

section \<open>Changes of lines\<close>




















end
