(* ===== verification/PayrollRequests.thy ===== *)
theory PayrollRequests
  imports PayrollAnalysis
begin

text \<open>
  The requests of the payroll reads as \<open>mcp/payroll_schemas.py\<close> accepts them, and what acceptance is good for: the
  filters, periods and page requests that the workflows build from an accepted request are within the limits of
  the adapter's models, so a listing answers with a page or with a public error.
\<close>

section \<open>What the schemas accept\<close>

text \<open>\<open>PayrollListInput\<close>, and the states: an empty choice is the default, and none comes twice.\<close>

definition list_input_ok :: "'r payroll_request \<Rightarrow> bool" where
  "list_input_ok r \<longleftrightarrow> 0 < yq_company r \<and> 1 \<le> yq_limit r \<and> yq_limit r \<le> 200
    \<and> (case yq_cursor r of None \<Rightarrow> True | Some c \<Rightarrow> length c \<le> 128)"

definition states_ok :: "string list \<Rightarrow> bool" where
  "states_ok states \<longleftrightarrow> set states \<subseteq> set payroll_states \<and> distinct states"

definition accept :: "bool \<Rightarrow> 'r \<Rightarrow> 'r wf" where
  "accept ok r = (if ok then Inr r else Inl Validation_error)"

definition mk_periods_request :: "periods_args payroll_request \<Rightarrow> periods_args payroll_request wf" where
  "mk_periods_request r =
    (let a = yq_args r; states = or_default (pd_states a) in
     ebind (mk_discovery_window (pd_window_start a) (pd_window_end a)) (\<lambda>_.
     accept (list_input_ok r \<and> states_ok states) (r\<lparr>yq_args := a\<lparr>pd_states := states\<rparr>\<rparr>)))"

definition mk_batch_request :: "batch_args payroll_request \<Rightarrow> batch_args payroll_request wf" where
  "mk_batch_request r =
    (let a = yq_args r; states = or_default (pb_states a) in
     accept (list_input_ok r \<and> 0 < pb_batch_id a \<and> states_ok states) (r\<lparr>yq_args := a\<lparr>pb_states := states\<rparr>\<rparr>))"

definition scope_args_ok :: "scope_args \<Rightarrow> bool" where
  "scope_args_ok a \<longleftrightarrow> (case pi_batch_id a of None \<Rightarrow> True | Some i \<Rightarrow> 0 < i)
    \<and> length (pi_employee_ids a) \<le> 100 \<and> ids_ok (pi_employee_ids a) \<and> states_ok (or_default (pi_states a))
    \<and> (case (pi_period_start a, pi_period_end a) of
         (Some s, Some e) \<Rightarrow> period_ok s e | (None, None) \<Rightarrow> True | _ \<Rightarrow> False)"

definition with_default :: "scope_args payroll_request \<Rightarrow> scope_args payroll_request" where
  "with_default r = r\<lparr>yq_args := (yq_args r)\<lparr>pi_states := or_default (pi_states (yq_args r))\<rparr>\<rparr>"

text \<open>\<open>ListPayslipsInput\<close> wants a batch, a period or both, \<open>ListSalaryRulesInput\<close> exactly one of them.\<close>

definition mk_payslips_request :: "scope_args payroll_request \<Rightarrow> scope_args payroll_request wf" where
  "mk_payslips_request r =
    accept (list_input_ok r \<and> scope_args_ok (yq_args r)
      \<and> \<not> (pi_batch_id (yq_args r) = None \<and> pi_period_start (yq_args r) = None)) (with_default r)"

definition mk_rules_request :: "scope_args payroll_request \<Rightarrow> scope_args payroll_request wf" where
  "mk_rules_request r =
    accept (list_input_ok r \<and> scope_args_ok (yq_args r)
      \<and> (pi_batch_id (yq_args r) = None) \<noteq> (pi_period_start (yq_args r) = None)) (with_default r)"

text \<open>\<open>ComparePayrollPeriodsInput\<close> and \<open>DetectPayrollAnomaliesInput\<close>.\<close>

definition range_ok :: "payroll_period \<Rightarrow> bool" where
  "range_ok p \<longleftrightarrow> period_ok (hp_start p) (hp_end p)"

definition compare_ok :: "'a compare_request_scheme \<Rightarrow> bool" where
  "compare_ok r \<longleftrightarrow> 0 < qr_company_id r \<and> range_ok (qr_baseline_period r) \<and> range_ok (qr_target_period r)
    \<and> hp_end (qr_baseline_period r) < hp_start (qr_target_period r)
    \<and> length (qr_employee_ids r) \<le> 100 \<and> ids_ok (qr_employee_ids r) \<and> states_ok (or_default (qr_states r))"

definition mk_compare_request :: "compare_request \<Rightarrow> compare_request wf" where
  "mk_compare_request r = accept (compare_ok r) (r\<lparr>qr_states := or_default (qr_states r)\<rparr>)"

fun apart :: "(int \<times> int) list \<Rightarrow> bool" where
  "apart (p # q # rest) = (snd p < fst q \<and> apart (q # rest))"
| "apart _ = True"

definition history_ok :: "payroll_period \<Rightarrow> payroll_period list \<Rightarrow> bool" where
  "history_ok baseline ps \<longleftrightarrow>
    (let ranges = sort (map (\<lambda>p. (hp_start p, hp_end p)) ps) in
     distinct ranges \<and> list_all (\<lambda>r. snd r < hp_start baseline) ranges \<and> apart ranges)"

definition threshold_profiles :: "string list" where
  "threshold_profiles = [''strict'', ''standard'', ''relaxed'']"

definition mk_anomaly_request :: "anomaly_request \<Rightarrow> anomaly_request wf" where
  "mk_anomaly_request r =
    accept (compare_ok r \<and> length (qr_history_periods r) \<le> 12 \<and> list_all range_ok (qr_history_periods r)
      \<and> qr_threshold_profile r \<in> set threshold_profiles \<and> history_ok (qr_baseline_period r) (qr_history_periods r))
      (r\<lparr>qr_states := or_default (qr_states r)\<rparr>)"

section \<open>Public errors\<close>

text \<open>A result or a public error; for a run, that it ends as well.\<close>

definition public :: "'a wf \<Rightarrow> bool" where
  "public r \<longleftrightarrow> (case r of Inl (Mcp _) \<Rightarrow> True | Inl _ \<Rightarrow> False | Inr _ \<Rightarrow> True)"

definition answered :: "'a wf option \<Rightarrow> bool" where
  "answered m \<longleftrightarrow> (case m of None \<Rightarrow> False | Some r \<Rightarrow> public r)"

named_theorems public_intros

lemma public_simps [simp]: "public (Inr x)" "public (Inl (Mcp e))"
  by (simp_all add: public_def)

lemma public_ebind [public_intros]: "public m \<Longrightarrow> (\<And>x. m = Inr x \<Longrightarrow> public (f x)) \<Longrightarrow> public (ebind m f)"
  by (cases m) (simp_all add: public_def)

lemma public_if [public_intros]: "(c \<Longrightarrow> public a) \<Longrightarrow> (\<not> c \<Longrightarrow> public b) \<Longrightarrow> public (if c then a else b)"
  by simp

lemma public_each [public_intros]: "(\<And>x. x \<in> set xs \<Longrightarrow> public (f x)) \<Longrightarrow> public (each_ok f xs)"
  by (induction xs) (auto intro!: public_ebind)

lemma public_efold [public_intros]: "(\<And>x s. public (f x s)) \<Longrightarrow> public (efold f xs s)"
  by (induction xs arbitrary: s) (auto intro!: public_ebind)

lemma answered_Some [simp]: "answered (Some r) = public r"
  by (simp add: answered_def)

lemma answered_obind [public_intros]: "answered m \<Longrightarrow> (\<And>x. m = Some (Inr x) \<Longrightarrow> answered (f x)) \<Longrightarrow> answered (obind m f)"
  by (cases m) (auto simp: answered_def public_def obind_def split: sum.splits)

lemma answered_if [public_intros]: "(c \<Longrightarrow> answered a) \<Longrightarrow> (\<not> c \<Longrightarrow> answered b) \<Longrightarrow> answered (if c then a else b)"
  by simp

lemma public_errors [simp]:
  "public (Inl invalid_payroll)" "public (Inl malformed_payroll)" "public (Inl payroll_too_large)"
  "public (Inl (bad_payroll_cursor m))"
  by (simp_all add: invalid_payroll_def malformed_payroll_def payroll_too_large_def bad_payroll_cursor_def)

text \<open>What the lists check on the way raises public errors only.\<close>

lemma public_register [public_intros]: "public (Inl e) \<Longrightarrow> public (register e x names)"
  by (cases x) (auto simp: register_def public_def split: wf_error.splits)

lemma public_checks [public_intros]:
  "public (validate_payslip_references ps)" "public (validate_payslip company i period p)" "public (validate_lines ls parents)"
  "public (in_window a states p)"
  by (auto simp: validate_payslip_references_def validate_payslip_def validate_lines_def in_window_def intro!: public_intros)

lemma public_metadata [public_intros]: "public (validate_line_metadata ls)"
proof -
  have "public (note_metadata l m)" for l m by (simp add: note_metadata_def Let_def)
  then show ?thesis by (auto simp: validate_line_metadata_def intro!: public_intros)
qed

lemma public_totals [public_intros]: "public (observed_totals ls)"
  unfolding observed_totals_def by (intro public_intros) simp

lemma public_offset: "public (payroll_offset fp cursor)"
  by (auto simp: payroll_offset_def split: option.splits list.splits)

lemma public_list [public_intros]: "public (payroll_list_of H r rid now binding as refs items summary)"
  unfolding payroll_list_of_def paginate_def Let_def
  by (intro public_intros public_offset) (auto simp: cut_def Let_def split: prod.splits)

section \<open>Reading\<close>

text \<open>An adapter that raises public errors only.\<close>

definition public_source :: "'a payroll_source \<Rightarrow> bool" where
  "public_source src \<longleftrightarrow> (\<forall>n l c. public (src n l c))"

definition public_adapter :: "payroll_adapter \<Rightarrow> bool" where
  "public_adapter ad \<longleftrightarrow> (\<forall>company ids. public_source (hr_batches ad company ids) \<and> public_source (hr_lines ad company ids))
    \<and> (\<forall>company filters. public_source (hr_payslips ad company filters))"

lemma public_turn:
  assumes "public_source src" "short_cursor c"
  shows "public (collect_turn src ident cap n c s)"
proof -
  have req: "payroll_page_request payroll_page_size c = Inr ()"
    using assms(2) by (auto simp: payroll_page_request_def payroll_page_size_def short_cursor_def split: option.splits)
  have one: "public (collect_item ident cap e x t)" for e x t by (simp add: collect_item_def Let_def)
  have ann: "public (announced cap k e)" for k e by (simp add: announced_def split: option.splits)
  show ?thesis unfolding collect_turn_def req using assms(1)
    by (auto simp: public_source_def ann intro!: public_intros one split: option.splits)
qed

lemma answered_pages [public_intros]:
  assumes "public_source src"
  shows "answered (collect_pages src ident cap)"
proof -
  have loop: "public y" if "drain (collect_turn src ident cap) n c s = Some y" "short_cursor c" for n c s y
  proof -
    have "short_cursor c \<longrightarrow> public y"
    proof (rule drain_induct [OF that(1), where P = "\<lambda>c s y. short_cursor c \<longrightarrow> public y"])
      show "short_cursor c \<longrightarrow> public (Inl e)" if "collect_turn src ident cap n c s = Inl e" for n c s e
        using public_turn [OF assms, of c ident cap n s] that by (auto simp: public_def)
      show "short_cursor c \<longrightarrow> public y" if "collect_turn src ident cap n c s = Inr (s', Some c')" "short_cursor (Some c') \<longrightarrow> public y"
        for n c s s' c' y using that by (auto simp: collect_turn_Inr page_fits_def)
    qed simp
    with that(2) show ?thesis by simp
  qed
  obtain y where "drain (collect_turn src ident cap) 0 None nothing_collected = Some y"
    using collecting.drain_ends by blast
  with loop [OF this] show ?thesis
    by (cases y) (auto simp: collect_pages_def short_cursor_def public_def)
qed

lemma pages_idents:
  assumes "collect_pages src ident cap = Some (Inr xs)"
  shows "ids_ok (map ident xs)"
proof -
  from assms obtain r where r: "drain (collect_turn src ident cap) 0 None nothing_collected = Some (Inr r)" "xs = cd_items r"
    by (auto simp: collect_pages_def obind_Some_Inr)
  let ?I = "\<lambda>s. ids_ok (map ident (cd_items s)) \<and> set (cd_seen_ids s) = ident ` set (cd_items s)"
  have step: "?I (absorb ident s p)" if "?I s" "page_fits ident cap s p" for s p
    using that by (auto simp: page_fits_def ids_ok_def list_all_iff)
  have "?I r"
    by (rule drain_invariant [OF r(1), where I = "\<lambda>_. ?I"])
      (use step in \<open>auto simp: collect_turn_Inr nothing_collected_def ids_ok_def\<close>)
  with r(2) show ?thesis by simp
qed

text \<open>The slices of payslips are within the limit of the filter.\<close>

lemma chunks_ok:
  "ids_ok xs \<Longrightarrow> ch \<in> set (chunks 200 xs) \<Longrightarrow> mk_child_filters ch = Inr ch"
proof (induction "200 :: nat" xs rule: chunks.induct)
  case (1 xs)
  have sub: "ids_ok (take 200 xs)" "ids_ok (drop 200 xs)" using 1(2)
    by (auto simp: ids_ok_def list_all_iff dest: in_set_takeD in_set_dropD)
  show ?case
  proof (cases "xs = []")
    case False
    with 1(3) have "ch = take 200 xs \<or> ch \<in> set (chunks 200 (drop 200 xs))" by (simp add: chunks.simps [of _ xs])
    then show ?thesis
    proof
      assume "ch = take 200 xs"
      with False sub(1) show ?thesis by (simp add: mk_child_filters_def)
    qed (use 1(1) [OF _ sub(2)] False in simp)
  qed (use 1(3) in \<open>simp add: chunks.simps\<close>)
qed

lemma answered_gather:
  assumes "\<And>ids. public_source (src ids)" "\<And>ch. ch \<in> set chs \<Longrightarrow> mk_child_filters ch = Inr ch"
  shows "answered (gather src ident cap chs rs)"
  using assms(2)
proof (induction chs arbitrary: rs)
  case (Cons ch chs)
  show ?case unfolding gather.simps
    by (intro public_intros answered_pages assms(1) Cons.IH) (simp_all add: Cons.prems)
qed simp

lemma answered_lines:
  assumes "public_adapter ad" "ids_ok (map sl_id ps)"
  shows "answered (lines_of_payslips ad company ps)"
  using assms chunks_ok [OF assms(2)]
  by (auto simp: lines_of_payslips_def all_lines_def payroll_page_size_def public_adapter_def intro!: answered_gather)

lemma answered_payslips [public_intros]:
  assumes "public_adapter ad"
  shows "answered (all_payslips ad company f)"
  unfolding all_payslips_def using assms by (intro public_intros) (simp_all add: public_adapter_def public_intros)

lemma payslips_idents: "all_payslips ad company f = Some (Inr ps) \<Longrightarrow> ids_ok (map sl_id ps)"
  by (auto simp: all_payslips_def obind_Some_Inr dest: pages_idents)

lemma newest_idents: "ids_ok (map sl_id (newest_first ps)) = ids_ok (map sl_id ps)"
proof -
  have "mset (map sl_id (newest_first ps)) = mset (map sl_id ps)" by (simp add: newest_first_def)
  then have "distinct (map sl_id (newest_first ps)) = distinct (map sl_id ps)" by (rule mset_eq_imp_distinct_iff)
  then show ?thesis by (simp add: ids_ok_def list_all_iff newest_first_def)
qed

lemma filter_idents: "ids_ok (map sl_id ps) \<Longrightarrow> ids_ok (map sl_id (filter P ps))"
  by (auto simp: ids_ok_def list_all_iff distinct_map intro: inj_on_subset)

lemma states_default [simp]: "or_default (or_default states) = or_default states"
  by (simp add: or_default_def default_states_def)

lemma all_states_ok: "states_ok payroll_states"
  by (simp add: states_ok_def payroll_states_def)

lemma answered_batch:
  assumes "public_adapter ad" "0 < i"
  shows "answered (exact_batch ad company i)"
proof -
  have reg: "public (efold (register invalid_payroll) xs m)" for xs m by (intro public_intros public_errors)
  have "answered (all_batches ad company [i])" using assms(1) unfolding all_batches_def
    by (intro public_intros) (simp_all add: public_adapter_def reg)
  then show ?thesis unfolding exact_batch_def using assms(2)
    by (auto intro!: public_intros split: list.splits)
qed

lemma batch_ident: "exact_batch ad company i = Some (Inr b) \<Longrightarrow> hb_id b = i"
proof -
  assume "exact_batch ad company i = Some (Inr b)"
  then have b: "exact_batch ad company i = Some (Inr b)" .
  then have i: "\<not> i \<le> 0" by (auto simp: exact_batch_def)
  with b obtain bs where bs: "all_batches ad company [i] = Some (Inr bs)" by (auto simp: exact_batch_def obind_Some_Inr)
  show ?thesis using b i
    by (cases bs; cases "tl bs") (simp_all add: exact_batch_def bs split: if_splits)
qed

lemma answered_members:
  assumes "public_adapter ad" "0 < hb_id b"
  shows "answered (batch_members ad company b)"
proof -
  have f: "mk_payslip_filters (any_payslips\<lparr>fs_batch_id := Some (hb_id b), fs_states := payroll_states\<rparr>)
      = Inr (any_payslips\<lparr>fs_batch_id := Some (hb_id b), fs_states := payroll_states\<rparr>)"
    using assms(2) all_states_ok by (simp add: mk_payslip_filters_def any_payslips_def ids_ok_def states_ok_def)
  show ?thesis unfolding batch_members_def f
    by (intro public_intros assms(1)) (auto intro!: public_intros)
qed

lemma members_idents: "batch_members ad company b = Some (Inr ps) \<Longrightarrow> ids_ok (map sl_id ps)"
  by (auto simp: batch_members_def obind_Some_Inr newest_idents dest: payslips_idents)

lemma answered_period:
  assumes "public_adapter ad"
  shows "answered (period_payslips ad company p)"
proof -
  have f: "mk_payslip_filters (any_payslips\<lparr>fs_period := Some p, fs_states := payroll_states\<rparr>)
      = Inr (any_payslips\<lparr>fs_period := Some p, fs_states := payroll_states\<rparr>)"
    using all_states_ok by (simp add: mk_payslip_filters_def any_payslips_def ids_ok_def states_ok_def)
  show ?thesis unfolding period_payslips_def f
    by (intro public_intros assms) (auto intro!: public_intros)
qed

lemma period_idents: "period_payslips ad company p = Some (Inr ps) \<Longrightarrow> ids_ok (map sl_id ps)"
  by (auto simp: period_payslips_def obind_Some_Inr newest_idents dest: payslips_idents split: if_splits)

lemma answered_scope:
  assumes "public_adapter ad" "scope_args_ok a" "\<not> (pi_batch_id a = None \<and> pi_period_start a = None)"
  shows "answered (payslip_scope ad company a)"
proof -
  have dates: "case (pi_period_start a, pi_period_end a) of (Some s, Some e) \<Rightarrow> period_ok s e | (None, None) \<Rightarrow> True | _ \<Rightarrow> False"
    using assms(2) by (simp only: scope_args_ok_def)
  have period: "\<exists>p. scope_period a = Inr p \<and> (p = None \<longleftrightarrow> pi_period_start a = None)"
  proof (cases "pi_period_start a")
    case None
    then show ?thesis by (simp add: scope_period_def)
  next
    case (Some s)
    with dates obtain e where e: "pi_period_end a = Some e" "period_ok s e" by (cases "pi_period_end a") simp_all
    then show ?thesis by (simp add: scope_period_def Some mk_payroll_period_def)
  qed
  then obtain p where pp: "scope_period a = Inr p \<and> (p = None \<longleftrightarrow> pi_period_start a = None)" ..
  note p = pp [THEN conjunct1] pp [THEN conjunct2]
  have "0 < i" if "pi_batch_id a = Some i" for i using assms(2) that by (simp add: scope_args_ok_def)
  note i = this
  have each: "answered (obind (olift (each_ok (validate_payslip company j q) ps)) (\<lambda>_. Some (Inr x)))" for j q ps and x :: "payslip list \<times> payroll_batch option"
    by (intro answered_obind) (auto intro!: public_intros)
  have rest: "answered (obind (batch_members ad company x) (\<lambda>ms. case q of None \<Rightarrow> Some (Inr (ms, Some x))
      | Some p \<Rightarrow> obind (period_payslips ad company p) (\<lambda>rows. Some (Inr (filter (in_period p rows) ms, Some x)))))"
    if "pi_batch_id a = Some j" "exact_batch ad company j = Some (Inr x)" for j x q
  proof (rule answered_obind)
    show "answered (batch_members ad company x)"
      using answered_members [OF assms(1)] i [OF that(1)] batch_ident [OF that(2)] by simp
  qed (cases q; auto intro!: answered_obind answered_period assms(1))
  show ?thesis unfolding payslip_scope_def p obind_simps
  proof (rule answered_obind, goal_cases)
    case 1
    show ?case
    proof (cases "pi_batch_id a")
      case None
      with assms(3) p(2) obtain q where "p = Some q" by auto
      with None show ?thesis by (auto intro!: answered_obind answered_period assms(1))
    next
      case (Some j)
      show ?thesis unfolding Some option.case
        by (rule answered_obind [OF answered_batch [OF assms(1) i [OF Some]] rest [OF Some]])
    qed
  next
    case (2 x)
    show ?case by (cases x) (simp add: each)
  qed
qed

lemma scope_idents: "payslip_scope ad company a = Some (Inr (ps, b)) \<Longrightarrow> ids_ok (map sl_id ps)"
proof -
  assume s: "payslip_scope ad company a = Some (Inr (ps, b))"
  then obtain p where p: "scope_period a = Inr p" by (auto simp: payslip_scope_def obind_Some_Inr)
  show ?thesis
  proof (cases "pi_batch_id a")
    case None
    with s p show ?thesis by (cases p) (auto simp: payslip_scope_def obind_Some_Inr dest: period_idents)
  next
    case (Some i)
    with s p obtain x ms where m: "batch_members ad company x = Some (Inr ms)" and "ps = ms \<or> (\<exists>P. ps = filter P ms)"
      by (cases p) (auto simp: payslip_scope_def obind_Some_Inr)
    with members_idents [OF m] filter_idents show ?thesis by blast
  qed
qed

section \<open>Accepted requests are answered\<close>

lemma scope_args_default: "scope_args_ok (a\<lparr>pi_states := or_default (pi_states a)\<rparr>) = scope_args_ok a"
  by (simp add: scope_args_ok_def)

lemma periods_answered:
  assumes "public_adapter ad" "mk_periods_request q = Inr r"
  shows "answered (list_payroll_periods H ad r rid now)"
proof -
  let ?a = "yq_args r"
  from assms(2) have ok: "states_ok (pd_states ?a)" "or_default (pd_states ?a) = pd_states ?a"
    by (auto simp: mk_periods_request_def accept_def Let_def split: if_splits)
  from assms(2) obtain w where w: "mk_discovery_window (pd_window_start ?a) (pd_window_end ?a) = Inr w"
    by (auto simp: mk_periods_request_def accept_def Let_def split: if_splits)
  have f: "mk_payslip_filters (any_payslips\<lparr>fs_window := Some w, fs_states := pd_states ?a\<rparr>)
      = Inr (any_payslips\<lparr>fs_window := Some w, fs_states := pd_states ?a\<rparr>)"
    using ok(1) by (simp add: mk_payslip_filters_def any_payslips_def ids_ok_def states_ok_def)
  show ?thesis unfolding list_payroll_periods_def Let_def ok(2) w obind_simps f
    by (intro public_intros assms(1)) (auto intro!: public_intros)
qed

lemma batch_answered:
  assumes "public_adapter ad" "mk_batch_request q = Inr r"
  shows "answered (get_payroll_batch H ad r rid now)"
proof -
  have i: "0 < pb_batch_id (yq_args r)"
    using assms(2) by (auto simp: mk_batch_request_def accept_def Let_def split: if_splits)
  show ?thesis unfolding get_payroll_batch_def Let_def
    by (auto intro!: public_intros answered_batch answered_members answered_lines filter_idents assms(1) i
        dest: batch_ident members_idents simp: i)
qed

lemma payslips_answered:
  assumes "public_adapter ad" "mk_payslips_request q = Inr r"
  shows "answered (list_payslips H ad r rid now)"
proof -
  from assms(2) have ok: "scope_args_ok (yq_args r)" "\<not> (pi_batch_id (yq_args r) = None \<and> pi_period_start (yq_args r) = None)"
    by (auto simp: mk_payslips_request_def accept_def with_default_def scope_args_default split: if_splits)
  show ?thesis unfolding list_payslips_def Let_def
    by (auto intro!: public_intros answered_scope [OF assms(1) ok])
qed

lemma rules_answered:
  assumes "public_adapter ad" "mk_rules_request q = Inr r"
  shows "answered (list_salary_rules H ad r rid now)"
proof -
  from assms(2) have ok: "scope_args_ok (yq_args r)" "\<not> (pi_batch_id (yq_args r) = None \<and> pi_period_start (yq_args r) = None)"
    by (auto simp: mk_rules_request_def accept_def with_default_def scope_args_default split: if_splits)
  show ?thesis unfolding list_salary_rules_def Let_def
    by (auto intro!: public_intros answered_scope [OF assms(1) ok] answered_lines assms(1) filter_idents dest: scope_idents)
qed

text \<open>C39 (accepted payroll requests are answered). When the adapter raises public errors only, every listing of payroll whose
  request the schema accepts ends with a page or with a public error: no model the workflow builds on the way
  refuses its values, no assertion fails and no loop runs on.\<close>

theorem accepted_requests_are_answered:
  assumes "public_adapter ad"
  shows "(mk_periods_request p = Inr p' \<longrightarrow> answered (list_payroll_periods H ad p' rid now))
    \<and> (mk_batch_request b = Inr b' \<longrightarrow> answered (get_payroll_batch H ad b' rid now))
    \<and> (mk_payslips_request s = Inr s' \<longrightarrow> answered (list_payslips H ad s' rid now))
    \<and> (mk_rules_request s = Inr s' \<longrightarrow> answered (list_salary_rules H ad s' rid now))"
  using periods_answered [OF assms] batch_answered [OF assms] payslips_answered [OF assms] rules_answered [OF assms] by blast

text \<open>A comparison without chosen employees may select more than the contract filter takes: it is refused by the
  model, which is not a public error.\<close>

lemma many_employees_are_refused: "100 < length ids \<Longrightarrow> load_context ad company period employees ids = Some (Inl Validation_error)"
  by (simp add: load_context_def mk_contract_filters_def)

end
