(* ===== verification/PayrollDemo.thy ===== *)
theory PayrollDemo
  imports PayrollTotals PayrollRequests
begin

text \<open>The theorems on payroll applied to two payslips of one employee in two periods.\<close>

section \<open>An adapter with two payslips\<close>

definition single_page :: "'a list \<Rightarrow> 'a payroll_source" where
  "single_page xs n limit cursor = Inr \<lparr>hg_items = xs, hg_total_count = int (length xs), hg_next_cursor = None\<rparr>"

lemma collect_none: "collect_pages (single_page []) ident cap = Some (Inr [])"
  unfolding collect_pages_def nothing_collected_def
  by (subst drain.simps)
    (simp add: collect_turn_def single_page_def payroll_page_request_def payroll_page_size_def announced_def)

lemma collect_one:
  assumes "0 < ident x" "0 < cap"
  shows "collect_pages (single_page [x]) ident cap = Some (Inr [x])"
  unfolding collect_pages_def nothing_collected_def
  by (subst drain.simps)
    (use assms in \<open>simp add: collect_turn_def single_page_def payroll_page_request_def payroll_page_size_def announced_def collect_item_def Let_def\<close>)

lemma collect_two:
  assumes "0 < ident x" "0 < ident y" "ident x \<noteq> ident y" "1 < cap"
  shows "collect_pages (single_page [x, y]) ident cap = Some (Inr [x, y])"
  unfolding collect_pages_def nothing_collected_def
  by (subst drain.simps)
    (use assms in \<open>simp add: collect_turn_def single_page_def payroll_page_request_def payroll_page_size_def announced_def collect_item_def Let_def\<close>)

definition demo_euro :: related where "demo_euro = \<lparr>rr_id = 1, rr_name = ''EUR''\<rparr>"
definition demo_person :: related where "demo_person = \<lparr>rr_id = 3, rr_name = ''Ada''\<rparr>"
definition demo_contract :: related where "demo_contract = \<lparr>rr_id = 4, rr_name = ''C''\<rparr>"

definition demo_slip :: "int \<Rightarrow> int \<Rightarrow> payslip" where
  "demo_slip i start = \<lparr>sl_id = i, sl_name = ''S'', sl_reference = ''R'', sl_employee = demo_person, sl_date_from = start,
     sl_date_to = start + 29, sl_state = ''done'', sl_source_state = ''done'', sl_company_id = 1,
     sl_contract_segment = demo_contract, sl_contract_source = ''hr.version'', sl_structure = \<lparr>rr_id = 5, rr_name = ''T''\<rparr>,
     sl_batch = None, sl_credit_note = False, sl_currency = demo_euro, sl_write_date = ''w''\<rparr>"

definition demo_line :: "int \<Rightarrow> decimal \<Rightarrow> payslip_line" where
  "demo_line i amount = \<lparr>hl_id = i, hl_payslip = \<lparr>rr_id = i, rr_name = ''S''\<rparr>, hl_salary_rule = \<lparr>rr_id = 6, rr_name = ''Basic''\<rparr>,
     hl_employee = demo_person, hl_contract_segment = demo_contract, hl_contract_source = ''hr.version'', hl_name = ''L'',
     hl_code = ''BASIC'', hl_category = \<lparr>rr_id = 7, rr_name = ''Base''\<rparr>, hl_sequence = 1, hl_quantity = Dec 1 0,
     hl_rate = Dec 100 0, hl_amount = amount, hl_total = amount, hl_currency = demo_euro, hl_write_date = ''w''\<rparr>"

definition demo_period :: "int \<Rightarrow> payroll_period" where
  "demo_period start = \<lparr>hp_start = start, hp_end = start + 29\<rparr>"

definition demo_amount :: "int \<Rightarrow> decimal" where
  "demo_amount i = (if i = 1 then Dec 10000 (-2) else Dec 12050 (-2))"

text \<open>Payslip 1 starts on day 20000 and pays 100.00, payslip 2 starts on day 20030 and pays 120.50; both are in the
  answer to a request without period.\<close>

definition demo_payroll :: payroll_adapter where
  "demo_payroll = \<lparr>hr_companies = Inr [], hr_batches = (\<lambda>c ids. single_page []),
     hr_payslips = (\<lambda>c f. case fs_period f of
        None \<Rightarrow> single_page []
      | Some p \<Rightarrow> single_page (if hp_start p = 20000 then [demo_slip 1 20000]
          else if hp_start p = 20030 then [demo_slip 2 20030] else [demo_slip 8 20060, demo_slip 9 20060])),
     hr_lines = (\<lambda>c ids. single_page (map (\<lambda>i. demo_line i (demo_amount i)) ids)),
     hr_employees = (\<lambda>c ids. single_page []), hr_segments = (\<lambda>c f. single_page []),
     hr_work_entries = (\<lambda>c f. single_page [])\<rparr>"

section \<open>The comparison\<close>

definition demo_snapshot :: "int \<Rightarrow> int \<Rightarrow> pay_snapshot" where
  "demo_snapshot i start = \<lparr>sp_period = demo_period start, sp_payslips = [demo_slip i start],
     sp_lines = [demo_line i (demo_amount i)], sp_segments = [], sp_entries = []\<rparr>"

definition demo_compare :: compare_request where
  "demo_compare = \<lparr>qr_company_id = 1, qr_baseline_period = demo_period 20000, qr_target_period = demo_period 20030,
     qr_employee_ids = [], qr_states = [''done'']\<rparr>"

text \<open>What the two payslips are read from; an adapter may answer differently elsewhere.\<close>

definition pays_like_demo :: "payroll_adapter \<Rightarrow> bool" where
  "pays_like_demo ad \<longleftrightarrow> hr_payslips ad = hr_payslips demo_payroll \<and> hr_lines ad = hr_lines demo_payroll"

lemma demo_period_payslips:
  assumes "pays_like_demo ad" "i = 1 \<and> start = 20000 \<or> i = 2 \<and> start = 20030"
  shows "period_payslips ad 1 (demo_period start) = Some (Inr [demo_slip i start])"
proof -
  have f: "mk_payslip_filters (any_payslips\<lparr>fs_period := Some (demo_period start), fs_states := payroll_states\<rparr>)
      = Inr (any_payslips\<lparr>fs_period := Some (demo_period start), fs_states := payroll_states\<rparr>)"
    by (simp add: mk_payslip_filters_def any_payslips_def ids_ok_def payroll_states_def)
  have src: "hr_payslips ad 1 (any_payslips\<lparr>fs_period := Some (demo_period start), fs_states := payroll_states\<rparr>)
      = single_page [demo_slip i start]"
    using assms by (auto simp: pays_like_demo_def demo_payroll_def demo_period_def)
  have one: "collect_pages (single_page [demo_slip i start]) sl_id max_payslips = Some (Inr [demo_slip i start])"
    by (rule collect_one) (use assms(2) in \<open>auto simp: demo_slip_def max_payslips_def\<close>)
  have refs: "validate_payslip_references [demo_slip i start] = Inr ()"
    by (simp add: validate_payslip_references_def payslip_references_def demo_slip_def named_def opt_named_def register_def
      demo_person_def demo_contract_def demo_euro_def)
  show ?thesis
    by (simp add: period_payslips_def f all_payslips_def src one refs newest_first_def validate_payslip_def payslip_ok_def)
      (simp add: demo_slip_def demo_period_def)
qed

lemma demo_lines:
  assumes "pays_like_demo ad" "0 < i"
  shows "lines_of_payslips ad 1 [demo_slip i start] = Some (Inr [demo_line i (demo_amount i)])"
proof -
  have "collect_pages (single_page [demo_line i (demo_amount i)]) hl_id (max_lines - 0) = Some (Inr [demo_line i (demo_amount i)])"
    by (rule collect_one) (use assms(2) in \<open>simp_all add: demo_line_def max_lines_def\<close>)
  moreover have "sl_id (demo_slip i start) = i" by (simp add: demo_slip_def)
  moreover have "hr_lines ad = (\<lambda>c ids. single_page (map (\<lambda>i. demo_line i (demo_amount i)) ids))"
    using assms(1) by (simp add: pays_like_demo_def demo_payroll_def)
  ultimately show ?thesis using assms(2)
    by (simp add: lines_of_payslips_def all_lines_def chunks.simps payroll_page_size_def mk_child_filters_def ids_ok_def max_lines_def)
qed

lemma demo_loaded_with:
  assumes "pays_like_demo ad" "i = 1 \<and> start = 20000 \<or> i = 2 \<and> start = 20030"
    "\<And>e. e 3 = Some ''Ada'' \<Longrightarrow> load_context ad 1 (demo_period start) e [3] = Some (Inr (gs, ws))"
  shows "load_snapshot ad 1 (demo_period start) [] [''done''] True
    = Some (Inr \<lparr>sp_period = demo_period start, sp_payslips = [demo_slip i start], sp_lines = [demo_line i (demo_amount i)],
        sp_segments = gs, sp_entries = ws\<rparr>)"
proof -
  let ?p = "demo_slip i start" and ?l = "demo_line i (demo_amount i)"
  have per: "mk_payroll_period (hp_start (demo_period start)) (hp_end (demo_period start)) = Inr (demo_period start)"
    by (simp add: mk_payroll_period_def period_ok_def demo_period_def)
  have chosen: "chosen_payslip [] [''done''] ?p" by (simp add: chosen_payslip_def demo_slip_def)
  have i: "0 < i" using assms(2) by auto
  have vl: "validate_lines [?l] (parents_of [?p]) = Inr ()"
    by (simp add: validate_lines_def line_fits_def parents_of_def demo_line_def demo_slip_def)
  have vm: "validate_line_metadata [?l] = Inr ()"
    by (simp add: validate_line_metadata_def note_metadata_def no_metadata_def Let_def)
  obtain names where names: "people_and_currencies [?p] = Inr names" and ada: "names (''hr.employee'', 3) = Some ''Ada''"
    by (simp add: people_and_currencies_def named_def register_def demo_slip_def demo_person_def demo_euro_def)
  have ids: "sorted_set (map (rr_id \<circ> sl_employee) [?p]) = [3]" by (simp add: sorted_set_def demo_slip_def demo_person_def)
  show ?thesis
    by (simp add: load_snapshot_def per demo_period_payslips [OF assms(1,2)] chosen names demo_lines [OF assms(1) i] vl vm Let_def
      ids [unfolded list.map comp_apply] assms(3) ada)
qed

lemma demo_loaded:
  assumes "i = 1 \<and> start = 20000 \<or> i = 2 \<and> start = 20030"
  shows "load_snapshot demo_payroll 1 (demo_period start) [] [''done''] True = Some (Inr (demo_snapshot i start))"
proof -
  have "load_context demo_payroll 1 (demo_period start) e [3] = Some (Inr ([], []))" for e
    by (simp add: load_context_def mk_contract_filters_def mk_entry_filters_def ids_ok_def entry_states_def all_segments_def
      all_work_entries_def demo_payroll_def collect_none validate_segments_def validate_work_entries_def)
  then show ?thesis
    unfolding demo_snapshot_def by (intro demo_loaded_with assms) (simp_all add: pays_like_demo_def)
qed

lemma demo_both: "comparison_snapshots demo_payroll demo_compare = Some (Inr (demo_snapshot 1 20000, demo_snapshot 2 20030))"
proof -
  have caps: "enforce_caps [demo_snapshot 1 20000, demo_snapshot 2 20030] = Inr ()"
    by (simp add: enforce_caps_def demo_snapshot_def max_payslips_def max_lines_def)
  have cross: "validate_cross_metadata [demo_snapshot 1 20000, demo_snapshot 2 20030] = Inr ()"
    by (simp add: validate_cross_metadata_def demo_snapshot_def note_rule_def snapshot_references_def demo_line_def demo_slip_def
      named_def opt_named_def register_def demo_person_def demo_contract_def demo_euro_def Let_def)
  show ?thesis
    by (simp add: comparison_snapshots_def demo_compare_def demo_loaded caps cross)
qed

lemma demo_plain: "plain_pay 2 (demo_snapshot 1 20000)" "plain_pay 2 (demo_snapshot 2 20030)"
  by (simp_all add: plain_pay_def demo_snapshot_def demo_line_def demo_amount_def fits_def on_grid_def dec_val_def amount_unit_def power_int_def power_divide)


definition finishes :: "'a wf \<Rightarrow> bool" where
  "finishes r \<longleftrightarrow> (case r of Inl _ \<Rightarrow> False | Inr _ \<Rightarrow> True)"

lemma finishesD: "finishes r \<Longrightarrow> \<exists>x. r = Inr x"
  by (simp add: finishes_def split: sum.splits)

lemma demo_parts:
  "finishes (payslip_totals (demo_snapshot 1 20000) (demo_snapshot 2 20030))"
  "finishes (rule_totals (demo_snapshot 1 20000) (demo_snapshot 2 20030))"
  "finishes (category_totals (demo_snapshot 1 20000) (demo_snapshot 2 20030))"
  "length (employee_names (demo_snapshot 1 20000)) = 1" "length (employee_names (demo_snapshot 2 20030)) = 1"
  "finishes (compare_counts 1 1)"
  by code_simp+

lemma demo_changed:
  "case (line_changes (demo_snapshot 1 20000) (demo_snapshot 2 20030), contract_changes (demo_snapshot 1 20000) (demo_snapshot 2 20030),
      work_entry_hours (demo_snapshot 1 20000) (demo_snapshot 2 20030)) of
     (Inr ls, Inr cs, Inr ws) \<Rightarrow> finishes (emap (name_of (all_names (demo_snapshot 1 20000) (demo_snapshot 2 20030)))
       (changed_ids ls cs ws (employee_sets_of (demo_snapshot 1 20000) (demo_snapshot 2 20030))))
   | _ \<Rightarrow> False"
  by code_simp

lemma demo_report:
  "\<exists>rep. compare_payroll_periods demo_payroll demo_compare ''r'' 0 = Some (Inr rep)"
proof -
  from demo_parts(1-3,6) [THEN finishesD] obtain w x y z where p:
    "payslip_totals (demo_snapshot 1 20000) (demo_snapshot 2 20030) = Inr w"
    "rule_totals (demo_snapshot 1 20000) (demo_snapshot 2 20030) = Inr x"
    "category_totals (demo_snapshot 1 20000) (demo_snapshot 2 20030) = Inr y" "compare_counts 1 1 = Inr z" by blast
  from demo_changed obtain ls cs ws who where q: "line_changes (demo_snapshot 1 20000) (demo_snapshot 2 20030) = Inr ls"
    "contract_changes (demo_snapshot 1 20000) (demo_snapshot 2 20030) = Inr cs"
    "work_entry_hours (demo_snapshot 1 20000) (demo_snapshot 2 20030) = Inr ws"
    "emap (name_of (all_names (demo_snapshot 1 20000) (demo_snapshot 2 20030)))
       (changed_ids ls cs ws (employee_sets_of (demo_snapshot 1 20000) (demo_snapshot 2 20030))) = Inr who"
    by (auto simp: finishes_def split: sum.splits)
  show ?thesis by (simp add: compare_payroll_periods_def demo_both comparison_report_of_def p q Let_def demo_parts(4,5) del: One_nat_def)
qed

lemma payroll_views_agree_witness:
  "\<exists>rep. compare_payroll_periods demo_payroll demo_compare ''r'' 0 = Some (Inr rep)
    \<and> view xp_currency xp_observed dm_target (cx_payslip_totals rep) 1 = 120.5
    \<and> view xr_currency xr_total dm_target (cx_rule_totals rep) 1 = 120.5"
proof -
  from demo_report obtain rep where rep: "compare_payroll_periods demo_payroll demo_compare ''r'' 0 = Some (Inr rep)" ..
  have "paid (\<lambda>l. rr_id (hl_currency l) = 1) (demo_snapshot 2 20030) = 120.5"
    by (simp add: paid_def demo_snapshot_def demo_line_def demo_euro_def demo_amount_def dec_val_def power_int_def power_divide)
  with payroll_views_agree [OF rep demo_both demo_plain, of 1] rep show ?thesis by auto
qed


section \<open>A cursor\<close>

definition demo_digest :: "string \<Rightarrow> string" where "demo_digest t = ''0123456789abcdef0123456789abcdef''"

definition demo_slips :: "string option \<Rightarrow> scope_args payroll_request" where
  "demo_slips cursor = \<lparr>yq_company = 1, yq_limit = 1, yq_cursor = cursor,
     yq_args = \<lparr>pi_batch_id = None, pi_period_start = Some 20060, pi_period_end = Some 20089, pi_employee_ids = [], pi_states = []\<rparr>\<rparr>"

lemma plain_demo_digest: "plain_digest demo_digest"
  by (simp add: plain_digest_def demo_digest_def plain_part_def between_def)

lemma demo_two_payslips: "period_payslips demo_payroll 1 (demo_period 20060) = Some (Inr [demo_slip 9 20060, demo_slip 8 20060])"
proof -
  have f: "mk_payslip_filters (any_payslips\<lparr>fs_period := Some (demo_period 20060), fs_states := payroll_states\<rparr>)
      = Inr (any_payslips\<lparr>fs_period := Some (demo_period 20060), fs_states := payroll_states\<rparr>)"
    by (simp add: mk_payslip_filters_def any_payslips_def ids_ok_def payroll_states_def)
  have src: "hr_payslips demo_payroll 1 (any_payslips\<lparr>fs_period := Some (demo_period 20060), fs_states := payroll_states\<rparr>)
      = single_page [demo_slip 8 20060, demo_slip 9 20060]"
    by (simp add: demo_payroll_def demo_period_def)
  have two: "collect_pages (single_page [demo_slip 8 20060, demo_slip 9 20060]) sl_id max_payslips
      = Some (Inr [demo_slip 8 20060, demo_slip 9 20060])"
    by (rule collect_two) (simp_all add: demo_slip_def max_payslips_def)
  have refs: "validate_payslip_references [demo_slip 8 20060, demo_slip 9 20060] = Inr ()"
    by (simp add: validate_payslip_references_def payslip_references_def demo_slip_def named_def opt_named_def register_def
      demo_person_def demo_contract_def demo_euro_def)
  have ok: "validate_payslip 1 None (Some (demo_period 20060)) (demo_slip i 20060) = Inr ()" for i
    by (simp add: validate_payslip_def payslip_ok_def demo_slip_def demo_period_def)
  have order: "newest_first [demo_slip 8 20060, demo_slip 9 20060] = [demo_slip 9 20060, demo_slip 8 20060]"
    by (simp add: newest_first_def demo_slip_def)
  show ?thesis by (simp add: period_payslips_def f all_payslips_def src two refs ok order)
qed

lemma demo_scope: "payslip_scope demo_payroll 1 (yq_args (demo_slips c)) = Some (Inr ([demo_slip 9 20060, demo_slip 8 20060], None))"
proof -
  have p: "scope_period (yq_args (demo_slips c)) = Inr (Some (demo_period 20060))"
    by (simp add: scope_period_def demo_slips_def mk_payroll_period_def period_ok_def demo_period_def)
  have ok: "validate_payslip 1 None (Some (demo_period 20060)) (demo_slip i 20060) = Inr ()" for i
    by (simp add: validate_payslip_def payslip_ok_def demo_slip_def demo_period_def)
  have b: "pi_batch_id (yq_args (demo_slips c)) = None" by (simp add: demo_slips_def)
  show ?thesis by (simp add: payslip_scope_def p b demo_two_payslips ok)
qed

lemma demo_rows: "wanted_payslip (yq_args (demo_slips c)) (demo_slip i 20060)"
  "newest_first [demo_slip 9 20060, demo_slip 8 20060] = [demo_slip 9 20060, demo_slip 8 20060]"
  by (simp_all add: wanted_payslip_def or_default_def default_states_def demo_slips_def demo_slip_def newest_first_def)

definition demo_cursor :: string where "demo_cursor = payroll_cursor (take 20 (demo_digest [])) 1"

lemma demo_listed:
  assumes "c = None \<or> c = Some demo_cursor"
  shows "\<exists>rep. list_payslips demo_digest demo_payroll (demo_slips c) ''r'' 0 = Some (Inr rep)
    \<and> yl_items rep = [compact (demo_slip (if c = None then 9 else 8) 20060)]
    \<and> yl_next_cursor rep = (if c = None then Some demo_cursor else None)"
proof -
  have fp: "payroll_fingerprint demo_digest b as = take 20 (demo_digest [])" for b as
    by (simp only: payroll_fingerprint_def demo_digest_def)
  have plain: "plain_part (take 20 (demo_digest []))" by (simp add: demo_digest_def plain_part_def between_def)
  have q: "yq_company (demo_slips c) = 1" "yq_limit (demo_slips c) = 1" "yq_cursor (demo_slips c) = c" by (simp_all add: demo_slips_def)
  have off: "payroll_offset (take 20 (demo_digest [])) c = Inr (if c = None then 0 else 1)"
    using assms payroll_offset_cursor [OF plain, of 1] by (auto simp: payroll_offset_def demo_cursor_def)
  have page: "paginate demo_digest (map compact [demo_slip 9 20060, demo_slip 8 20060]) 1 c b as
      = Inr ([compact (demo_slip (if c = None then 9 else 8) 20060)], if c = None then Some demo_cursor else None)" for b as
    unfolding paginate_Inr fp off by (auto simp: demo_cursor_def)
  have listed: "payroll_list_of demo_digest (demo_slips c) ''r'' 0 b as refs (map compact [demo_slip 9 20060, demo_slip 8 20060]) summary
      = Inr \<lparr>yl_request_id = ''r'', yl_company_id = 1, yl_observed_at = 0, yl_source_refs = refs, yl_limitations = [],
         yl_items = [compact (demo_slip (if c = None then 9 else 8) 20060)],
         yl_next_cursor = (if c = None then Some demo_cursor else None),
         yl_summary = summary [compact (demo_slip (if c = None then 9 else 8) 20060)] (c = None)\<rparr>" for b as refs and summary :: "_ \<Rightarrow> bool \<Rightarrow> payslips_summary"
    unfolding payroll_list_of_def q page by (cases c) simp_all
  show ?thesis
    unfolding list_payslips_def q demo_scope by (simp add: Let_def demo_rows listed [simplified])
qed

lemma payroll_cursor_is_bound_witness:
  "\<exists>rep rep' offset. list_payslips demo_digest demo_payroll (demo_slips None) ''r'' 0 = Some (Inr rep)
    \<and> list_payslips demo_digest demo_payroll (demo_slips (yl_next_cursor rep)) ''r'' 0 = Some (Inr rep')
    \<and> yl_next_cursor rep \<noteq> None
    \<and> yl_items rep' = take 1 (drop (offset + length (yl_items rep)) (payslip_rows (yq_args (demo_slips None)) [demo_slip 9 20060, demo_slip 8 20060]))"
proof -
  from demo_listed [of None] obtain rep where rep: "list_payslips demo_digest demo_payroll (demo_slips None) ''r'' 0 = Some (Inr rep)"
    "yl_next_cursor rep = Some demo_cursor" by auto
  from demo_listed [of "Some demo_cursor"] obtain rep' where
    rep': "list_payslips demo_digest demo_payroll (demo_slips (Some demo_cursor)) ''r'' 0 = Some (Inr rep')" by auto
  have q: "yq_company (demo_slips c) = 1" "yq_limit (demo_slips c) = 1" "yq_cursor (demo_slips c) = c"
    "yq_args (demo_slips c) = yq_args (demo_slips None)" for c by (simp_all add: demo_slips_def)
  have l: "0 < yq_limit (demo_slips None)" by (simp add: q)
  obtain base b base' b' offset where
    s: "payslip_scope demo_payroll (yq_company (demo_slips (Some demo_cursor))) (yq_args (demo_slips (Some demo_cursor))) = Some (Inr (base', b'))"
    "yl_items rep' = take (yq_limit (demo_slips (Some demo_cursor)))
      (drop (offset + length (yl_items rep)) (payslip_rows (yq_args (demo_slips (Some demo_cursor))) base'))"
    using payroll_cursor_is_bound [OF plain_demo_digest rep rep' q(3) l] by blast
  have "base' = [demo_slip 9 20060, demo_slip 8 20060]" using s(1) by (simp add: q(1) demo_scope)
  with s(2) rep rep' show ?thesis by (auto simp: q(2) q(4) [of "Some demo_cursor"] simp del: take_Suc_Cons)
qed

section \<open>An accepted request\<close>

lemma accepted_requests_are_answered_witness:
  "answered (list_payslips demo_digest demo_payroll (with_default (demo_slips None)) ''r'' 0)"
proof -
  have ad: "public_adapter demo_payroll"
    by (simp add: public_adapter_def public_source_def demo_payroll_def single_page_def split: option.splits)
  have "mk_payslips_request (demo_slips None) = Inr (with_default (demo_slips None))"
    by (simp add: mk_payslips_request_def accept_def list_input_ok_def scope_args_ok_def demo_slips_def period_ok_def ids_ok_def
      or_default_def default_states_def states_ok_def payroll_states_def)
  with accepted_requests_are_answered [OF ad] show ?thesis by blast
qed

end
