(* ===== verification/PayrollDetails.thy ===== *)
theory PayrollDetails
  imports PayrollRequests
begin

text \<open>
  The remaining reads of \<open>workflows/payroll/evidence.py\<close>: one payslip with its lines, worked days and inputs, the
  contract of an employee in a period, and the summary of work entries per employee, type, code and state.
\<close>

section \<open>Records\<close>

record worked_day =
  hw_id :: int
  hw_payslip :: related
  hw_contract_segment :: related
  hw_contract_source :: string
  hw_type :: related
  hw_name :: string
  hw_code :: string
  hw_days :: decimal
  hw_hours :: decimal
  hw_amount :: decimal
  hw_currency :: related
  hw_write_date :: string

record payslip_input =
  hi_id :: int
  hi_name :: string
  hi_payslip :: related
  hi_sequence :: int
  hi_type :: related
  hi_code :: string
  hi_amount :: decimal
  hi_contract_segment :: related
  hi_contract_source :: string
  hi_write_date :: string

record input_type =
  ht_id :: int
  ht_name :: string
  ht_code :: string
  ht_structure_ids :: "int list"
  ht_active :: bool
  ht_is_quantity :: bool
  ht_available :: bool
  ht_write_date :: string

text \<open>What the adapter answers to the reads of worked days, inputs and input types.\<close>

record detail_adapter = payroll_adapter +
  hr_worked_days :: "int \<Rightarrow> int list \<Rightarrow> worked_day payroll_source"
  hr_inputs :: "int \<Rightarrow> int list \<Rightarrow> payslip_input payroll_source"
  hr_input_types :: "int \<Rightarrow> int \<Rightarrow> int list \<Rightarrow> input_type payroll_source"

definition mk_type_filters :: "int \<Rightarrow> int list \<Rightarrow> unit wf" where
  "mk_type_filters structure ids =
    (if 0 < structure \<and> ids_ok ids \<and> length ids \<le> 200 then Inr () else Inl Validation_error)"

section \<open>One payslip\<close>

definition line_limit :: nat where "line_limit = 500"
definition worked_day_limit :: nat where "worked_day_limit = 200"
definition input_limit :: nat where "input_limit = 200"
definition max_input_types :: nat where "max_input_types = 5000"

definition exact_lines :: "payroll_adapter \<Rightarrow> int \<Rightarrow> int list \<Rightarrow> nat \<Rightarrow> payslip_line list wf option" where
  "exact_lines ad company ids cap = gather (hr_lines ad company) hl_id cap (chunks payroll_page_size ids) []"

definition all_worked_days :: "detail_adapter \<Rightarrow> int \<Rightarrow> int list \<Rightarrow> nat \<Rightarrow> worked_day list wf option" where
  "all_worked_days ad company ids cap = gather (hr_worked_days ad company) hw_id cap (chunks payroll_page_size ids) []"

definition all_inputs :: "detail_adapter \<Rightarrow> int \<Rightarrow> int list \<Rightarrow> nat \<Rightarrow> payslip_input list wf option" where
  "all_inputs ad company ids cap = gather (hr_inputs ad company) hi_id cap (chunks payroll_page_size ids) []"

definition all_input_types :: "detail_adapter \<Rightarrow> int \<Rightarrow> int \<Rightarrow> int list \<Rightarrow> input_type list wf option" where
  "all_input_types ad company structure ids =
    obind (olift (mk_type_filters structure ids)) (\<lambda>_.
    collect_pages (hr_input_types ad company structure ids) ht_id max_input_types)"

definition exact_payslip :: "payroll_adapter \<Rightarrow> int \<Rightarrow> int \<Rightarrow> payslip wf option" where
  "exact_payslip ad company i =
    obind (olift (mk_payslip_filters (any_payslips\<lparr>fs_payslip_ids := [i]\<rparr>))) (\<lambda>f.
    obind (all_payslips ad company f) (\<lambda>ps.
    case ps of
      [] \<Rightarrow> Some (Inl (Mcp (mk_error PAYSLIP_NOT_FOUND ''The requested payslip was not found.''
             ''Use an exact payslip ID from the authorized company.'')))
    | [p] \<Rightarrow> if sl_id p \<noteq> i then Some (Inl invalid_payroll)
             else obind (olift (validate_payslip company None None p)) (\<lambda>_. Some (Inr p))
    | _ \<Rightarrow> Some (Inl invalid_payroll)))"

definition worked_day_fits :: "(int \<Rightarrow> payslip option) \<Rightarrow> worked_day \<Rightarrow> bool" where
  "worked_day_fits parents w \<longleftrightarrow>
    (case parents (rr_id (hw_payslip w)) of
       None \<Rightarrow> False
     | Some p \<Rightarrow> hw_contract_segment w = sl_contract_segment p \<and> hw_contract_source w = sl_contract_source p
         \<and> hw_currency w = sl_currency p)"

definition validate_worked_days :: "worked_day list \<Rightarrow> (int \<Rightarrow> payslip option) \<Rightarrow> unit wf" where
  "validate_worked_days ws parents = each_ok (\<lambda>w. if worked_day_fits parents w then Inr () else Inl invalid_payroll) ws"

definition input_fits :: "(int \<Rightarrow> payslip option) \<Rightarrow> payslip_input \<Rightarrow> bool" where
  "input_fits parents x \<longleftrightarrow>
    (case parents (rr_id (hi_payslip x)) of
       None \<Rightarrow> False
     | Some p \<Rightarrow> hi_contract_segment x = sl_contract_segment p \<and> hi_contract_source x = sl_contract_source p)"

definition validate_inputs :: "payslip_input list \<Rightarrow> (int \<Rightarrow> payslip option) \<Rightarrow> unit wf" where
  "validate_inputs xs parents = each_ok (\<lambda>x. if input_fits parents x then Inr () else Inl invalid_payroll) xs"

record salary_item =
  is_source_line_id :: int
  is_salary_rule :: related
  is_category :: related
  is_name :: string
  is_code :: string
  is_sequence :: int
  is_quantity :: decimal
  is_rate :: decimal
  is_amount :: decimal
  is_total :: decimal
  is_currency :: related

definition salary_item_of :: "payslip_line \<Rightarrow> salary_item" where
  "salary_item_of l =
    \<lparr>is_source_line_id = hl_id l, is_salary_rule = hl_salary_rule l, is_category = hl_category l, is_name = hl_name l,
     is_code = hl_code l, is_sequence = hl_sequence l, is_quantity = hl_quantity l, is_rate = hl_rate l,
     is_amount = hl_amount l, is_total = hl_total l, is_currency = hl_currency l\<rparr>"

record worked_day_item =
  iw_source_line_id :: int
  iw_contract_source :: string
  iw_contract :: related
  iw_work_entry_type :: related
  iw_name :: string
  iw_code :: string
  iw_days :: decimal
  iw_hours :: decimal

definition worked_day_item_of :: "worked_day \<Rightarrow> worked_day_item" where
  "worked_day_item_of w =
    \<lparr>iw_source_line_id = hw_id w, iw_contract_source = hw_contract_source w, iw_contract = hw_contract_segment w,
     iw_work_entry_type = hw_type w, iw_name = hw_name w, iw_code = hw_code w, iw_days = hw_days w, iw_hours = hw_hours w\<rparr>"

record input_item =
  ii_source_input_id :: int
  ii_type :: related
  ii_contract_source :: string
  ii_contract :: related
  ii_name :: string
  ii_code :: string
  ii_amount :: "decimal option"
  ii_quantity :: "decimal option"
  ii_currency :: related
  ii_sequence :: int

definition input_item_of :: "payslip \<Rightarrow> input_type list \<Rightarrow> payslip_input \<Rightarrow> input_item wf" where
  "input_item_of p types x =
    (case find_row (\<lambda>t. ht_id t = rr_id (hi_type x)) types of
       None \<Rightarrow> Inl Key_error
     | Some t \<Rightarrow>
        if ht_name t \<noteq> rr_name (hi_type x) \<or> ht_code t \<noteq> hi_code x then Inl invalid_payroll
        else Inr \<lparr>ii_source_input_id = hi_id x, ii_type = \<lparr>rr_id = ht_id t, rr_name = ht_name t\<rparr>,
          ii_contract_source = hi_contract_source x, ii_contract = hi_contract_segment x, ii_name = hi_name x,
          ii_code = hi_code x, ii_amount = (if ht_is_quantity t then None else Some (hi_amount x)),
          ii_quantity = (if ht_is_quantity t then Some (hi_amount x) else None), ii_currency = sl_currency p,
          ii_sequence = hi_sequence x\<rparr>)"

record payslip_report =
  ps_request_id :: string
  ps_company_id :: int
  ps_observed_at :: int
  ps_source_refs :: "source_ref list"
  ps_limitations :: "string list"
  ps_payslip :: compact_payslip
  ps_salary_lines :: "salary_item list"
  ps_worked_days :: "worked_day_item list"
  ps_inputs :: "input_item list"

definition get_payslip :: "detail_adapter \<Rightarrow> int \<Rightarrow> int \<Rightarrow> string \<Rightarrow> int \<Rightarrow> payslip_report wf option" where
  "get_payslip ad company i request_id now =
    (let base = payroll_adapter.truncate ad in
     obind (exact_payslip base company i) (\<lambda>p.
     obind (exact_lines base company [sl_id p] line_limit) (\<lambda>ls.
     obind (all_worked_days ad company [sl_id p] worked_day_limit) (\<lambda>ws.
     obind (all_inputs ad company [sl_id p] input_limit) (\<lambda>xs.
     if length ls > line_limit \<or> length ws > worked_day_limit \<or> length xs > input_limit then Some (Inl payroll_too_large)
     else obind (olift (validate_lines ls (parents_of [p]))) (\<lambda>_.
     obind (olift (validate_worked_days ws (parents_of [p]))) (\<lambda>_.
     obind (olift (validate_inputs xs (parents_of [p]))) (\<lambda>_.
     obind (olift (validate_line_metadata ls)) (\<lambda>_.
     let ids = sorted_set (map (rr_id \<circ> hi_type) xs) in
     obind (if ids = [] then Some (Inr []) else all_input_types ad company (rr_id (sl_structure p)) ids) (\<lambda>types.
     if set (map ht_id types) \<noteq> set ids then Some (Inl invalid_payroll)
     else obind (olift (emap (input_item_of p types) (sort_key (\<lambda>x. (hi_sequence x, hi_id x)) xs))) (\<lambda>inputs.
     Some (Inr \<lparr>ps_request_id = request_id, ps_company_id = company, ps_observed_at = now,
       ps_source_refs = source_refs [(''hr.payslip'', [sl_id p]), (''hr.payslip.line'', map hl_id ls),
          (''hr.payslip.worked_days'', map hw_id ws), (''hr.payslip.input'', map hi_id xs), (''hr.payslip.input.type'', map ht_id types)],
       ps_limitations = [], ps_payslip = compact p,
       ps_salary_lines = map salary_item_of (sort_key (\<lambda>l. (hl_sequence l, hl_id l)) ls),
       ps_worked_days = map worked_day_item_of (sort_key hw_id ws), ps_inputs = inputs\<rparr>))))))))))))"

section \<open>The contract of an employee\<close>

record segment_item =
  gi_source_model :: string
  gi_source_id :: int
  gi_effective_start :: int
  gi_effective_end :: int
  gi_revision_date :: "int option"
  gi_active :: bool
  gi_source_status :: string
  gi_wage :: decimal
  gi_currency :: related
  gi_structure_type :: "related option"
  gi_working_schedule :: "related option"
  gi_department :: "related option"
  gi_job :: "related option"
  gi_contract_type :: "related option"

definition segment_item_of :: "contract_segment \<Rightarrow> segment_item" where
  "segment_item_of g =
    \<lparr>gi_source_model = hc_source_model g, gi_source_id = hc_id g, gi_effective_start = hc_effective_start g,
     gi_effective_end = hc_effective_end g, gi_revision_date = hc_revision_date g, gi_active = hc_active g,
     gi_source_status = hc_source_status g, gi_wage = hc_wage g, gi_currency = hc_currency g,
     gi_structure_type = hc_structure_type g, gi_working_schedule = hc_resource_calendar g, gi_department = hc_department g,
     gi_job = hc_job g, gi_contract_type = hc_contract_type g\<rparr>"

record employee_context =
  ec_request_id :: string
  ec_company_id :: int
  ec_observed_at :: int
  ec_source_refs :: "source_ref list"
  ec_limitations :: "string list"
  ec_employee_id :: int
  ec_name :: string
  ec_active :: bool
  ec_segments :: "segment_item list"

text \<open>The segments in order must be inside the period and may not overlap.\<close>

definition check_context_segment ::
    "int \<Rightarrow> payroll_employee \<Rightarrow> payroll_period \<Rightarrow> contract_segment \<Rightarrow> int option \<Rightarrow> int option wf" where
  "check_context_segment company e p g previous =
    (if hc_company_id g \<noteq> company \<or> rr_id (hc_employee g) \<noteq> he_id e \<or> rr_name (hc_employee g) \<noteq> he_name e
        \<or> hc_effective_start g < hp_start p \<or> hc_effective_end g > hp_end p \<or> hc_effective_end g < hc_effective_start g
        \<or> (case previous of None \<Rightarrow> False | Some d \<Rightarrow> d \<ge> hc_effective_start g)
     then Inl invalid_payroll else Inr (Some (hc_effective_end g)))"

definition exact_employee_of :: "int \<Rightarrow> int \<Rightarrow> payroll_employee list \<Rightarrow> payroll_employee wf" where
  "exact_employee_of company i es =
    (case es of
       [] \<Rightarrow> Inl (Mcp (mk_error EMPLOYEE_NOT_FOUND ''The requested Payroll employee was not found.''
              ''Use an exact employee ID from the authorized company.''))
     | [e] \<Rightarrow> if he_id e \<noteq> i \<or> he_company_id e \<noteq> company then Inl invalid_payroll else Inr e
     | _ \<Rightarrow> Inl invalid_payroll)"

definition get_employee_payroll_context ::
    "payroll_adapter \<Rightarrow> int \<Rightarrow> int \<Rightarrow> int \<Rightarrow> int \<Rightarrow> string \<Rightarrow> int \<Rightarrow> employee_context wf option" where
  "get_employee_payroll_context ad company i period_start period_end request_id now =
    obind (all_employees ad company [i]) (\<lambda>es.
    obind (olift (exact_employee_of company i es)) (\<lambda>e.
    obind (olift (mk_payroll_period period_start period_end)) (\<lambda>p.
    obind (olift (mk_contract_filters \<lparr>fc_employee_ids = [i], fc_period = p\<rparr>)) (\<lambda>f.
    obind (all_segments ad company f) (\<lambda>gs.
    if gs = [] then Some (Inl (Mcp (mk_error CONTRACT_DATA_MISSING ''Required Payroll contract evidence is unavailable.''
        ''Create or correct the applicable contract evidence in Odoo, then retry.'')))
    else obind (olift (efold (check_context_segment company e p) (segment_order gs) None)) (\<lambda>_.
    Some (Inr \<lparr>ec_request_id = request_id, ec_company_id = company, ec_observed_at = now,
      ec_source_refs = source_refs ((''hr.employee'', [he_id e]) # map (\<lambda>(m, rows). (m, map hc_id rows)) (rows_by hc_source_model (segment_order gs))),
      ec_limitations = (if list_ex (\<lambda>g. hc_source_status g = ''unavailable'') gs then [''contract_source_status_unavailable''] else []),
      ec_employee_id = he_id e, ec_name = he_name e, ec_active = he_active e,
      ec_segments = map segment_item_of (segment_order gs)\<rparr>)))))))"

section \<open>Work entries\<close>

record attendance_args =
  tt_period_start :: int
  tt_period_end :: int
  tt_employee_ids :: "int list"
  tt_states :: "string list"

definition default_entry_states :: "string list" where
  "default_entry_states = [''draft'', ''conflict'', ''validated'']"

definition mk_attendance_request :: "attendance_args payroll_request \<Rightarrow> attendance_args payroll_request wf" where
  "mk_attendance_request r =
    (let a = yq_args r; states = (if tt_states a = [] then default_entry_states else tt_states a) in
     accept (list_input_ok r \<and> period_ok (tt_period_start a) (tt_period_end a) \<and> tt_employee_ids a \<noteq> []
       \<and> length (tt_employee_ids a) \<le> 100 \<and> ids_ok (tt_employee_ids a) \<and> set states \<subseteq> set entry_states \<and> distinct states)
      (r\<lparr>yq_args := a\<lparr>tt_states := states\<rparr>\<rparr>))"

record attendance_item =
  ta_employee :: related
  ta_type :: related
  ta_code :: string
  ta_state :: string
  ta_entry_count :: nat
  ta_hours :: decimal
  ta_earliest :: int
  ta_latest :: int
  ta_conflict_count :: nat

record attendance_summary =
  ts_employee_count :: nat
  ts_with_entries :: nat
  ts_entry_count :: nat
  ts_returned_count :: nat
  ts_hours :: decimal
  ts_conflict_count :: nat
  ts_has_more :: bool

definition requested_employees :: "int \<Rightarrow> int list \<Rightarrow> payroll_employee list \<Rightarrow> unit wf" where
  "requested_employees company ids es =
    (if set (map he_id es) \<noteq> set ids
     then (if list_ex (\<lambda>e. he_company_id e \<noteq> company \<or> he_id e \<notin> set ids) es then Inl invalid_payroll
       else Inl (Mcp (mk_error EMPLOYEE_NOT_FOUND ''A requested Payroll employee was not found.''
         ''Use exact employee IDs from the authorized company.'')))
     else if list_ex (\<lambda>e. he_company_id e \<noteq> company) es then Inl invalid_payroll else Inr ())"

definition employee_at :: "payroll_employee list \<Rightarrow> int \<Rightarrow> payroll_employee option" where
  "employee_at es i = find_row (\<lambda>e. he_id e = i) es"

definition attended_in :: "contract_segment list \<Rightarrow> int \<Rightarrow> payroll_employee \<Rightarrow> work_entry \<Rightarrow> bool" where
  "attended_in gs company e w \<longleftrightarrow>
    (case hn_contract_segment w of
       None \<Rightarrow> hn_contract_source w = None \<and> gs = []
     | Some s \<Rightarrow>
        (case find_row (\<lambda>g. hc_id g = rr_id s) gs of
           None \<Rightarrow> False
         | Some g \<Rightarrow> hn_contract_source w = Some (hc_source_model g) \<and> rr_id (hc_employee g) = rr_id (hn_employee w)
             \<and> rr_name (hc_employee g) = he_name e \<and> hc_company_id g = company
             \<and> hc_effective_start g \<le> hn_date_start w \<and> hn_date_end w \<le> hc_effective_end g))"

definition attendance_ok ::
    "int \<Rightarrow> attendance_args \<Rightarrow> payroll_employee list \<Rightarrow> contract_segment list \<Rightarrow> work_entry \<Rightarrow> bool" where
  "attendance_ok company a es gs w \<longleftrightarrow>
    (case employee_at es (rr_id (hn_employee w)) of
       None \<Rightarrow> False
     | Some e \<Rightarrow> hn_company_id w = company \<and> tt_period_start a \<le> hn_date_end w \<and> hn_date_start w \<le> tt_period_end a
         \<and> (tt_states a = [] \<or> hn_state w \<in> set (tt_states a)) \<and> \<not> dless (hn_duration w) dzero
         \<and> he_name e = rr_name (hn_employee w) \<and> attended_in gs company e w)"

definition check_attendance ::
    "int \<Rightarrow> attendance_args \<Rightarrow> payroll_employee list \<Rightarrow> contract_segment list \<Rightarrow> work_entry \<Rightarrow> names \<Rightarrow> names wf" where
  "check_attendance company a es gs w names =
    (if attendance_ok company a es gs w then register invalid_payroll (named [] (hn_type w)) names
     else Inl invalid_payroll)"

definition attendance_key :: "work_entry \<Rightarrow> int \<times> int \<times> string \<times> string" where
  "attendance_key w = (rr_id (hn_employee w), rr_id (hn_type w), hn_code w, hn_state w)"

definition attendance_item_of :: "payroll_employee list \<Rightarrow> work_entry list \<Rightarrow> attendance_item wf" where
  "attendance_item_of es rows =
    (let sample = hd rows in
     case employee_at es (rr_id (hn_employee sample)) of
       None \<Rightarrow> Inl Key_error
     | Some e \<Rightarrow> Inr \<lparr>ta_employee = \<lparr>rr_id = he_id e, rr_name = he_name e\<rparr>, ta_type = hn_type sample, ta_code = hn_code sample,
         ta_state = hn_state sample, ta_entry_count = length rows, ta_hours = hours_of rows,
         ta_earliest = fold min (map hn_date_start (tl rows)) (hn_date_start sample),
         ta_latest = fold max (map hn_date_end (tl rows)) (hn_date_end sample),
         ta_conflict_count = length (filter hn_conflict rows)\<rparr>)"

definition attendance_items :: "payroll_employee list \<Rightarrow> work_entry list \<Rightarrow> attendance_item list wf" where
  "attendance_items es ws =
    ebind (emap (attendance_item_of es \<circ> snd) (rows_by attendance_key ws)) (\<lambda>found.
    Inr (sort_key (\<lambda>t. (rr_id (ta_employee t), rr_id (ta_type t), casefold (ta_code t), ta_state t)) found))"

definition attendance_binding :: "attendance_args payroll_request \<Rightarrow> pyval" where
  "attendance_binding r =
    (let a = yq_args r in bind_request r
      [(''period_start'', PStr (isoformat (tt_period_start a))), (''period_end'', PStr (isoformat (tt_period_end a))),
       (''employee_ids'', PList (map PInt (tt_employee_ids a))), (''states'', json_states (tt_states a))])"

definition attendance_anchors :: "payroll_employee list \<Rightarrow> work_entry list \<Rightarrow> contract_segment list \<Rightarrow> anchor list" where
  "attendance_anchors es ws gs =
    sort (map (\<lambda>e. (''hr.employee'', he_id e, he_write_date e)) es @ map (\<lambda>w. (''hr.work.entry'', hn_id w, hn_write_date w)) ws
      @ map (\<lambda>g. (hc_source_model g, hc_id g, hc_write_date g)) gs)"

definition get_attendance_summary ::
    "(string \<Rightarrow> string) \<Rightarrow> payroll_adapter \<Rightarrow> attendance_args payroll_request \<Rightarrow> string \<Rightarrow> int \<Rightarrow>
      (attendance_item, attendance_summary) payroll_list wf option" where
  "get_attendance_summary H ad r request_id now =
    (let a = yq_args r; company = yq_company r in
     obind (all_employees ad company (tt_employee_ids a)) (\<lambda>es.
     obind (olift (requested_employees company (tt_employee_ids a) es)) (\<lambda>_.
     obind (olift (mk_payroll_period (tt_period_start a) (tt_period_end a))) (\<lambda>p.
     obind (olift (mk_entry_filters \<lparr>fc_employee_ids = tt_employee_ids a, fc_period = p, fe_states = tt_states a\<rparr>)) (\<lambda>f.
     obind (all_work_entries ad company f) (\<lambda>ws.
     obind (if list_ex (\<lambda>w. hn_contract_segment w \<noteq> None) ws
       then obind (olift (mk_contract_filters \<lparr>fc_employee_ids = tt_employee_ids a, fc_period = p\<rparr>)) (all_segments ad company)
       else Some (Inr [])) (\<lambda>gs.
     if \<not> distinct (map hc_id gs) then Some (Inl malformed_payroll)
     else obind (olift (efold (check_attendance company a es gs) ws (\<lambda>_. None))) (\<lambda>_.
     obind (olift (attendance_items es ws)) (\<lambda>items.
     olift (ebind (payroll_list_of H r request_id now (attendance_binding r) (attendance_anchors es ws gs)
       (source_refs ([(''hr.employee'', map he_id es), (''hr.work.entry'', map hn_id ws)]
          @ map (\<lambda>(m, rows). (m, map hc_id rows)) (rows_by hc_source_model gs)))
       items
       (\<lambda>selected more. \<lparr>ts_employee_count = length es, ts_with_entries = card (set (map (rr_id \<circ> hn_employee) ws)),
          ts_entry_count = length ws, ts_returned_count = length selected, ts_hours = hours_of ws,
          ts_conflict_count = length (filter hn_conflict ws), ts_has_more = more\<rparr>))
      (\<lambda>page. Inr (page\<lparr>yl_limitations := [''work_entries_do_not_prove_physical_attendance'']\<rparr>))))))))))))"

end
