(* ===== verification/PayrollReview.thy ===== *)
theory PayrollReview
  imports PayrollDetails
begin

text \<open>
  The other workflows of \<open>workflows/payroll/analysis.py\<close>: the change of one employee between two periods, the approval
  pack of a period with the document it renders, and the explanation of a payslip.
\<close>

section \<open>The change of one employee\<close>

definition change_fact :: "line_change \<Rightarrow> fact_change" where
  "change_fact c =
    fact_of (''salary_rule:'' @ int_text (rr_id (xc_salary_rule c)) @ '':'' @ xc_code c)
      (map_option dec_text (xc_baseline_total c)) (map_option dec_text (xc_target_total c)) (xc_source_refs c)"

definition hours_fact :: "hours_comparison \<Rightarrow> fact_change" where
  "hours_fact h =
    fact_of (''work_entry_hours:'' @ int_text (rr_id (xh_type h)) @ '':'' @ xh_code h)
      (Some (dec_text (dm_baseline (xh_hours h)))) (Some (dec_text (dm_target (xh_hours h)))) (xh_source_refs h)"

record change_request =
  ch_company_id :: int
  ch_employee_id :: int
  ch_baseline_period :: payroll_period
  ch_target_period :: payroll_period

record change_report =
  cr_request_id :: string
  cr_company_id :: int
  cr_observed_at :: int
  cr_source_refs :: "source_ref list"
  cr_limitations :: "string list"
  cr_employee :: related
  cr_baseline_period :: payroll_period
  cr_target_period :: payroll_period
  cr_baseline_payslips :: "compact_payslip list"
  cr_target_payslips :: "compact_payslip list"
  cr_line_changes :: "line_change list"
  cr_contract_changes :: "contract_change list"
  cr_work_entry_hours :: "hours_comparison list"
  cr_demonstrated :: "fact_change list"
  cr_correlations :: "fact_change list"
  cr_unresolved_causes :: "string list"
  cr_findings :: "finding_row list"

definition same_person :: "payroll_employee \<Rightarrow> payslip \<Rightarrow> bool" where
  "same_person e p \<longleftrightarrow> rr_id (sl_employee p) = he_id e \<and> rr_name (sl_employee p) = he_name e"

text \<open>\<open>_exact_employee\<close>, as for the context but with the errors of this module.\<close>

definition analysed_employee :: "int \<Rightarrow> int \<Rightarrow> payroll_employee list \<Rightarrow> payroll_employee wf" where
  "analysed_employee company i es =
    (case es of
       [] \<Rightarrow> Inl (Mcp (mk_error EMPLOYEE_NOT_FOUND ''The requested Payroll employee was not found.''
              ''Use an exact employee ID from the authorized company.''))
     | [e] \<Rightarrow> if he_id e \<noteq> i \<or> he_company_id e \<noteq> company then Inl inconsistent_payroll else Inr e
     | _ \<Rightarrow> Inl inconsistent_payroll)"

definition comparable_employee :: "payroll_employee \<Rightarrow> pay_snapshot \<Rightarrow> pay_snapshot \<Rightarrow> unit wf" where
  "comparable_employee e b t =
    (if \<not> list_all (same_person e) (sp_payslips b @ sp_payslips t) then Inl inconsistent_payroll
     else if sp_payslips b = [] \<and> sp_payslips t = []
     then Inl (Mcp (mk_error INSUFFICIENT_COMPARISON_DATA ''The requested employee has no comparable Payroll evidence.''
       ''Select exact periods containing an eligible payslip for the employee.''))
     else if (sp_payslips b \<noteq> [] \<and> sp_segments b = []) \<or> (sp_payslips t \<noteq> [] \<and> sp_segments t = [])
     then Inl (Mcp (mk_error CONTRACT_DATA_MISSING ''Required Payroll contract evidence is unavailable.''
       ''Create or correct the applicable contract evidence in Odoo, then retry.''))
     else Inr ())"

definition change_report_of ::
    "change_request \<Rightarrow> string \<Rightarrow> int \<Rightarrow> payroll_employee \<Rightarrow> pay_snapshot \<Rightarrow> pay_snapshot \<Rightarrow> change_report wf" where
  "change_report_of r request_id now e b t =
    ebind (line_changes b t) (\<lambda>lines.
    ebind (contract_changes b t) (\<lambda>contracts.
    ebind (work_entry_hours b t) (\<lambda>all.
    let worked = filter (\<lambda>h. dm_change (xh_hours h) \<noteq> ''unchanged'' \<or> xh_conflict_count h \<noteq> 0) all in
    Inr \<lparr>cr_request_id = request_id, cr_company_id = ch_company_id r, cr_observed_at = now,
      cr_source_refs = merge_refs [snapshot_refs b, snapshot_refs t, source_refs [(''hr.employee'', [he_id e])]],
      cr_limitations = sorted_set (limitations_of b t default_states @ [''demonstrated_changes_do_not_establish_payroll_causality'']),
      cr_employee = \<lparr>rr_id = he_id e, rr_name = he_name e\<rparr>, cr_baseline_period = ch_baseline_period r,
      cr_target_period = ch_target_period r, cr_baseline_payslips = map compact (sp_payslips b),
      cr_target_payslips = map compact (sp_payslips t), cr_line_changes = lines, cr_contract_changes = contracts,
      cr_work_entry_hours = worked,
      cr_demonstrated = map change_fact lines @ map fact_change.truncate (filter (\<lambda>c. xf_fact c = ''wage'') contracts) @ map hours_fact worked,
      cr_correlations = map fact_change.truncate (filter (\<lambda>c. xf_fact c \<noteq> ''wage'') contracts),
      cr_unresolved_causes = [''Odoo'' @ [CHR 0x27] @ ''s allowed evidence does not expose authoritative causal links between facts and calculated lines.''],
      cr_findings = base_findings b t lines contracts\<rparr>)))"

definition analyze_employee_payroll_change ::
    "payroll_adapter \<Rightarrow> change_request \<Rightarrow> string \<Rightarrow> int \<Rightarrow> change_report wf option" where
  "analyze_employee_payroll_change ad r request_id now =
    (let company = ch_company_id r; i = ch_employee_id r in
     obind (all_employees ad company [i]) (\<lambda>es.
     obind (olift (analysed_employee company i es)) (\<lambda>e.
     obind (load_snapshot ad company (ch_baseline_period r) [i] default_states True) (\<lambda>b.
     obind (load_snapshot ad company (ch_target_period r) [i] default_states True) (\<lambda>t.
     obind (olift (comparable_employee e b t)) (\<lambda>_.
     obind (olift (enforce_caps [b, t])) (\<lambda>_.
     obind (olift (validate_cross_metadata [b, t])) (\<lambda>_.
     olift (change_report_of r request_id now e b t)))))))))"

section \<open>The approval pack\<close>

record pack_request =
  kq_company_id :: int
  kq_target_period :: payroll_period
  kq_baseline_period :: "payroll_period option"
  kq_employee_ids :: "int list"
  kq_states :: "string list"
  kq_threshold_profile :: string

text \<open>\<open>PayrollApprovalPackVariance\<close>: all fields of an available variance, or none.\<close>

record variance =
  kv_baseline_period :: payroll_period
  kv_headcount :: count_comparison
  kv_employee_changes :: employee_sets
  kv_payslip_totals :: "payslip_total list"
  kv_rule_totals :: "rule_comparison list"
  kv_category_totals :: "category_comparison list"
  kv_recognized :: "(string \<times> recognized \<times> recognized) list"
  kv_changed_employees :: "related list"

definition pack_variance :: "pay_snapshot option \<Rightarrow> pay_snapshot \<Rightarrow> variance option wf" where
  "pack_variance baseline t =
    (case baseline of
       None \<Rightarrow> Inr None
     | Some b \<Rightarrow>
        ebind (line_changes b t) (\<lambda>lines.
        ebind (contract_changes b t) (\<lambda>contracts.
        ebind (work_entry_hours b t) (\<lambda>worked.
        let sets = employee_sets_of b t in
        ebind (emap (name_of (all_names b t)) (changed_ids lines contracts worked sets)) (\<lambda>changed.
        ebind (compare_counts (length (employee_names b)) (length (employee_names t))) (\<lambda>headcount.
        ebind (payslip_totals b t) (\<lambda>slips.
        ebind (rule_totals b t) (\<lambda>rules.
        ebind (category_totals b t) (\<lambda>categories.
        Inr (Some \<lparr>kv_baseline_period = sp_period b, kv_headcount = headcount, kv_employee_changes = sets,
          kv_payslip_totals = slips, kv_rule_totals = rules, kv_category_totals = categories,
          kv_recognized = recognized_comparisons b t, kv_changed_employees = changed\<rparr>))))))))))"

definition pack_findings :: "pay_snapshot option \<Rightarrow> pay_snapshot \<Rightarrow> string \<Rightarrow> finding_row list wf" where
  "pack_findings baseline t profile =
    ebind (conflict_findings baseline t) (\<lambda>conflicts.
    ebind (case baseline of
        None \<Rightarrow> Inr []
      | Some b \<Rightarrow>
          ebind (line_changes b t) (\<lambda>lines.
          ebind (contract_changes b t) (\<lambda>contracts.
          ebind (work_entry_hours b t) (\<lambda>worked.
          ebind (threshold_findings b t lines worked profile) (\<lambda>deviations.
          Inr (base_findings b t lines contracts @ deviations)))))) (\<lambda>others.
    Inr (sort_key finding_order (conflicts @ others))))"

definition recognized_target :: "pay_snapshot \<Rightarrow> (string \<times> recognized) list" where
  "recognized_target t = map (\<lambda>code. (code, recognized_value (sp_lines t) code)) [''GROSS'', ''NET'']"

definition pack_limitations :: "pay_snapshot option \<Rightarrow> pay_snapshot \<Rightarrow> (string \<times> recognized) list \<Rightarrow> string list \<Rightarrow> string list" where
  "pack_limitations baseline t recognized states =
    sorted_set (limitations_of (case baseline of None \<Rightarrow> t | Some b \<Rightarrow> b) t states
      @ List.map_filter (\<lambda>(code, v). case v of
           Recognized _ \<Rightarrow> None
         | Unrecognized reason \<Rightarrow> Some (''recognized_'' @ casefold code @ ''_unavailable_'' @ reason)) recognized)"

definition pack_issues :: "finding_row list \<Rightarrow> (string \<times> recognized) list \<Rightarrow> string list" where
  "pack_issues fs recognized =
    map (\<lambda>f. case fi_employee f of
        None \<Rightarrow> ''Source-linked finding '' @ fi_code f @ '' for company scope remains subject to human review.''
      | Some e \<Rightarrow> ''Source-linked finding '' @ fi_code f @ '' for employee '' @ int_text (rr_id e)
          @ '' remains subject to human review.'') fs
    @ List.map_filter (\<lambda>(code, v). case v of
        Recognized _ \<Rightarrow> None
      | Unrecognized reason \<Rightarrow> Some (''Recognized '' @ code @ '' total is unavailable: '' @ reason @ ''.'')) recognized
    @ [''Employer cost is unavailable because the supported source contract has no authoritative aggregate.'']"

definition pack_actions :: "finding_row list \<Rightarrow> source_ref list \<Rightarrow> (string \<times> source_ref list) list" where
  "pack_actions fs refs =
    map (\<lambda>f. (''Review the source-linked '' @ fi_code f @ '' finding in Odoo before making any payroll decision.'', fi_source_refs f)) fs
    @ [(''Review the source-linked totals, availability statements, and limitations in Odoo with an authorized payroll reviewer.'', refs)]"

subsection \<open>The document\<close>

definition render_recognized :: "recognized \<Rightarrow> string" where
  "render_recognized v =
    (case v of
       Unrecognized reason \<Rightarrow> ''unavailable ('' @ ticked reason @ '')''
     | Recognized values \<Rightarrow> join '', '' (map (\<lambda>x. ''currency '' @ ticked (int_text (rr_id (xn_currency x))) @ '' = ''
         @ ticked (dec_text (xn_total x))) values))"

definition render_optional :: "string option \<Rightarrow> string" where
  "render_optional v = (case v of None \<Rightarrow> ''not applicable'' | Some t \<Rightarrow> ticked (markdown_text t))"

definition refs_or_none :: "source_ref list \<Rightarrow> string" where
  "refs_or_none refs = (if refs = [] then ''none'' else join '', '' (map render_ref refs))"

definition render_numbered :: "related option \<Rightarrow> string" where
  "render_numbered r =
    (case r of None \<Rightarrow> ''not applicable'' | Some x \<Rightarrow> ticked (int_text (rr_id x)) @ '' ('' @ markdown_text (rr_name x) @ '')'')"

definition render_pack_fact :: "fact_change \<Rightarrow> string" where
  "render_pack_fact v = ''  - '' @ ticked (markdown_text (xf_fact v)) @ '': '' @ render_optional (xf_baseline_value v) @ '' to ''
     @ render_optional (xf_target_value v) @ ''; sources '' @ refs_or_none (xf_source_refs v)"

definition render_pack_finding :: "finding_row \<Rightarrow> string list" where
  "render_pack_finding f =
    [''### '' @ ticked (fi_code f) @ '' '' @ em_dash @ '' ''
       @ (case fi_employee f of None \<Rightarrow> ''company scope''
          | Some e \<Rightarrow> ''employee '' @ ticked (int_text (rr_id e)) @ '' ('' @ markdown_text (rr_name e) @ '')''), [],
     ''- Severity: '' @ ticked (fi_severity f),
     ''- Baseline period: '' @ (case fi_baseline_period f of None \<Rightarrow> ''not requested'' | Some p \<Rightarrow> render_period p),
     ''- Target period: '' @ render_period (fi_target_period f),
     ''- Currency: '' @ render_numbered (fi_currency f), ''- Salary rule: '' @ render_numbered (fi_salary_rule f),
     ''- Rule code: '' @ render_optional (fi_line_code f), ''- Baseline value: '' @ render_optional (fi_baseline_value f),
     ''- Target value: '' @ render_optional (fi_target_value f),
     ''- Absolute delta: '' @ render_optional (map_option dec_text (fi_absolute_delta f)),
     ''- Percentage delta: '' @ render_optional (map_option dec_text (fi_percentage_delta f)),
     ''- Observed delta: '' @ render_optional (map_option dec_text (fi_observed_delta f)),
     ''- Threshold: '' @ render_optional (map_option dec_text (fi_threshold f)),
     ''- Threshold profile: '' @ render_optional (fi_threshold_profile f),
     ''- Calculation: '' @ markdown_text (fi_calculation f), ''- Rule: '' @ markdown_text (fi_rule f), ''- Source references:'']
    @ or_else_rows (map (\<lambda>s. ''  - '' @ render_ref s) (fi_source_refs f)) ''  - None.''
    @ [''- Evidence:''] @ or_else_rows (map render_pack_fact (fi_evidence f)) ''  - None.''
    @ [''- Correlations:'', ''  - None.'', ''- Finding limitations:'']
    @ or_else_rows (map (\<lambda>v. ''  - '' @ ticked (markdown_text v)) (fi_limitations f)) ''  - None.''
    @ [[]]"

definition ids_or_none :: "related list \<Rightarrow> string" where
  "ids_or_none rs = (if rs = [] then ''none'' else join '', '' (map (\<lambda>x. ticked (int_text (rr_id x))) rs))"

definition render_comparison :: "comparison \<Rightarrow> string" where
  "render_comparison c = ''baseline '' @ ticked (dec_text (dm_baseline c)) @ '', target '' @ ticked (dec_text (dm_target c))
     @ '', delta '' @ ticked (dec_text (dm_absolute_delta c))"

definition render_variance :: "variance option \<Rightarrow> string list" where
  "render_variance variance =
    (case variance of
       None \<Rightarrow> [''- Status: '' @ ticked ''not_requested'']
     | Some v \<Rightarrow> [''- Status: '' @ ticked ''available'']
        @ map (\<lambda>x. ''- Employee '' @ ticked (int_text (rr_id (xp_employee x))) @ '' / currency ''
            @ ticked (int_text (rr_id (xp_currency x))) @ '' observed lines: '' @ render_comparison (xp_observed x)) (kv_payslip_totals v)
        @ map (\<lambda>x. ''- Rule '' @ ticked (int_text (rr_id (xr_salary_rule x))) @ '' / '' @ ticked (markdown_text (xr_code x))
            @ '' / currency '' @ ticked (int_text (rr_id (xr_currency x))) @ '': '' @ render_comparison (xr_total x)) (kv_rule_totals v)
        @ map (\<lambda>x. ''- Category '' @ ticked (int_text (rr_id (xg_category x))) @ '' / currency ''
            @ ticked (int_text (rr_id (xg_currency x))) @ '' '' @ render_comparison (xg_total x)) (kv_category_totals v)
        @ map (\<lambda>(code, b, t). ''- Recognized '' @ ticked code @ '': baseline '' @ render_recognized b @ ''; target ''
            @ render_recognized t) (kv_recognized v))"

definition render_headcount :: "variance option \<Rightarrow> string list" where
  "render_headcount variance =
    (case variance of
       None \<Rightarrow> [''- Status: '' @ ticked ''not_requested'']
     | Some v \<Rightarrow>
        [''- Baseline headcount: '' @ ticked (nat_text (dn_baseline (kv_headcount v))),
         ''- Target headcount: '' @ ticked (nat_text (dn_target (kv_headcount v))),
         ''- Absolute delta: '' @ ticked (int_text (dn_absolute_delta (kv_headcount v))),
         ''- Joiners: '' @ ids_or_none (es_new (kv_employee_changes v)),
         ''- Leavers: '' @ ids_or_none (es_missing (kv_employee_changes v)),
         ''- Changed employees: '' @ ids_or_none (kv_changed_employees v)])"

definition render_target :: "string \<times> recognized \<Rightarrow> string list" where
  "render_target x =
    (case x of (code, v) \<Rightarrow>
     case v of
       Unrecognized reason \<Rightarrow> [''- '' @ ticked code @ '': unavailable ('' @ ticked reason @ '')'']
     | Recognized values \<Rightarrow> map (\<lambda>y. ''- '' @ ticked code @ '' / currency '' @ ticked (int_text (rr_id (xn_currency y))) @ '': ''
         @ ticked (dec_text (xn_total y))) values)"

definition no_employer_cost :: string where
  "no_employer_cost = ''No authoritative employer-cost aggregate is in the supported source contract.''"

definition sign_off_checklist :: "string list" where
  "sign_off_checklist =
    [''Verify the company, target period, filters, and source references in Odoo.'',
     ''Review currency-partitioned totals and gross/net availability in Odoo.'',
     ''Review every anomaly, exception, unresolved issue, and limitation.'',
     ''Complete any corrective work in Odoo before a separately authorized payroll action.'']"

record approval_pack =
  ap_request_id :: string
  ap_company_id :: int
  ap_observed_at :: int
  ap_source_refs :: "source_ref list"
  ap_limitations :: "string list"
  ap_company :: related
  ap_target_period :: payroll_period
  ap_threshold_profile :: string
  ap_headcount :: nat
  ap_rule_totals :: "rule_total list"
  ap_category_totals :: "category_total list"
  ap_recognized :: "(string \<times> recognized) list"
  ap_variance :: "variance option"
  ap_anomalies :: "finding_row list"
  ap_exceptions :: "finding_row list"
  ap_unresolved_issues :: "string list"
  ap_actions :: "(string \<times> source_ref list) list"
  ap_rendered_markdown :: string

definition render_rule_total :: "rule_total \<Rightarrow> string" where
  "render_rule_total x = ''- Rule '' @ ticked (int_text (rr_id (ru_salary_rule x))) @ '' ('' @ markdown_text (rr_name (ru_salary_rule x))
     @ '') / '' @ ticked (markdown_text (ru_code x)) @ '' / currency '' @ ticked (int_text (rr_id (ru_currency x)))
     @ '' ('' @ markdown_text (rr_name (ru_currency x)) @ ''): '' @ ticked (dec_text (ru_total x))"

definition render_category_total :: "category_total \<Rightarrow> string" where
  "render_category_total x = ''- Category '' @ ticked (int_text (rr_id (yc_category x))) @ '' ('' @ markdown_text (rr_name (yc_category x))
     @ '') / currency '' @ ticked (int_text (rr_id (yc_currency x))) @ '' ('' @ markdown_text (rr_name (yc_currency x)) @ ''): ''
     @ ticked (dec_text (yc_total x))"

definition render_exception :: "finding_row \<Rightarrow> string" where
  "render_exception f = ''- '' @ ticked (fi_code f) @ '' / '' @ ticked (fi_severity f) @ '' / ''
     @ (case fi_employee f of None \<Rightarrow> ''company scope'' | Some e \<Rightarrow> ''employee '' @ ticked (int_text (rr_id e)))
     @ ''; see the complete source-linked finding in **Anomalies**.''"

definition render_approval_pack :: "pack_request \<Rightarrow> approval_pack \<Rightarrow> string" where
  "render_approval_pack r k =
    join newline
      ([''# Payroll Approval Pack'', [], ''## Period'', [],
        ''- Company: '' @ ticked (int_text (rr_id (ap_company k))) @ '' ('' @ markdown_text (rr_name (ap_company k)) @ '')'',
        ''- Target: '' @ render_period (kq_target_period r),
        ''- Baseline: '' @ (case kq_baseline_period r of None \<Rightarrow> ''not requested'' | Some p \<Rightarrow> render_period p),
        ''- Threshold profile: '' @ ticked (kq_threshold_profile r), [], ''## Executive Summary'', [],
        ''- Target headcount: '' @ ticked (nat_text (ap_headcount k)), ''- Anomalies: '' @ ticked (nat_text (length (ap_anomalies k))),
        ''- Exceptions: '' @ ticked (nat_text (length (ap_exceptions k))),
        ''- Variance status: '' @ ticked (if ap_variance k = None then ''not_requested'' else ''available''), [],
        ''## Headcount Movement'', []]
       @ render_headcount (ap_variance k)
       @ [[], ''## Odoo Rule/Category Totals'', []]
       @ or_else_rows (map render_rule_total (ap_rule_totals k)) ''- No eligible rule total.''
       @ or_else_rows (map render_category_total (ap_category_totals k)) ''- No eligible category total.''
       @ [[], ''## Recognized Gross/Net Availability'', []] @ concat (map render_target (ap_recognized k))
       @ [''- Employer cost: unavailable ('' @ markdown_text no_employer_cost @ '')'', [], ''## Variance Analysis'', []]
       @ render_variance (ap_variance k) @ [[], ''## Anomalies'', []]
       @ (if ap_anomalies k = [] then [''- No anomaly was observed under the selected rules.''] else [])
       @ concat (map render_pack_finding (ap_anomalies k)) @ [[], ''## Exceptions'', []]
       @ or_else_rows (map render_exception (ap_exceptions k)) ''- No critical exception was observed.''
       @ [[], ''## Evidence'', []] @ or_else_rows (map (\<lambda>s. ''- '' @ render_ref s) (ap_source_refs k)) ''- No source record.''
       @ [[], ''## Limitations'', []] @ or_else_rows (map (\<lambda>v. ''- '' @ ticked (markdown_text v)) (ap_limitations k)) ''- None.''
       @ [[], ''## Unresolved Issues'', []] @ or_else_rows (map (\<lambda>v. ''- '' @ markdown_text v) (ap_unresolved_issues k)) ''- None.''
       @ [[], ''## Recommended Human Review Actions'', []]
       @ map (\<lambda>(a, refs). ''- '' @ markdown_text a @ '' Sources: '' @ refs_or_none refs) (ap_actions k)
       @ [[], ''## Sign-Off Checklist'', []] @ map (\<lambda>v. ''- [ ] '' @ markdown_text v) sign_off_checklist)"

definition pack_company :: "int \<Rightarrow> company list \<Rightarrow> related wf" where
  "pack_company i cs =
    (case filter (\<lambda>c. co_id c = i) cs of [c] \<Rightarrow> Inr \<lparr>rr_id = co_id c, rr_name = co_name c\<rparr> | _ \<Rightarrow> Inl inconsistent_payroll)"

definition approval_pack_of ::
    "pack_request \<Rightarrow> string \<Rightarrow> int \<Rightarrow> related \<Rightarrow> pay_snapshot option \<Rightarrow> pay_snapshot \<Rightarrow> approval_pack wf" where
  "approval_pack_of r request_id now company baseline t =
    ebind (observed_totals (sp_lines t)) (\<lambda>(rules, categories).
    ebind (pack_variance baseline t) (\<lambda>variance.
    ebind (pack_findings baseline t (kq_threshold_profile r)) (\<lambda>anomalies.
    let recognized = recognized_target t;
        refs = merge_refs (source_refs [(''res.company'', [rr_id company])]
          # map snapshot_refs ((case baseline of None \<Rightarrow> [] | Some b \<Rightarrow> [b]) @ [t]));
        k = \<lparr>ap_request_id = request_id, ap_company_id = kq_company_id r, ap_observed_at = now, ap_source_refs = refs,
          ap_limitations = pack_limitations baseline t recognized (kq_states r), ap_company = company,
          ap_target_period = kq_target_period r, ap_threshold_profile = kq_threshold_profile r,
          ap_headcount = length (employee_names t), ap_rule_totals = rules, ap_category_totals = categories,
          ap_recognized = recognized, ap_variance = variance, ap_anomalies = anomalies,
          ap_exceptions = filter (\<lambda>f. fi_severity f = ''critical'') anomalies,
          ap_unresolved_issues = pack_issues anomalies recognized, ap_actions = pack_actions anomalies refs,
          ap_rendered_markdown = []\<rparr>
    in Inr (k\<lparr>ap_rendered_markdown := render_approval_pack r k\<rparr>))))"

definition prepare_payroll_approval_pack ::
    "payroll_adapter \<Rightarrow> pack_request \<Rightarrow> string \<Rightarrow> int \<Rightarrow> approval_pack wf option" where
  "prepare_payroll_approval_pack ad r request_id now =
    obind (olift (hr_companies ad)) (\<lambda>cs.
    obind (olift (pack_company (kq_company_id r) cs)) (\<lambda>company.
    obind (case kq_baseline_period r of
        None \<Rightarrow> Some (Inr None)
      | Some p \<Rightarrow> obind (load_snapshot ad (kq_company_id r) p (kq_employee_ids r) (kq_states r) True) (\<lambda>b. Some (Inr (Some b))))
     (\<lambda>baseline.
    obind (load_snapshot ad (kq_company_id r) (kq_target_period r) (kq_employee_ids r) (kq_states r) True) (\<lambda>t.
    let both = (case baseline of None \<Rightarrow> [] | Some b \<Rightarrow> [b]) @ [t] in
    obind (olift (enforce_caps both)) (\<lambda>_.
    obind (olift (validate_cross_metadata both)) (\<lambda>_.
    olift (approval_pack_of r request_id now company baseline t)))))))"

section \<open>The explanation of a payslip\<close>

definition recognized_items :: "salary_item list \<Rightarrow> string \<Rightarrow> recognized" where
  "recognized_items items code =
    (let selected = filter (\<lambda>l. is_code l = code) items in
     if selected = [] then Unrecognized ''exact_rule_code_missing''
     else if card (set (map (rr_id \<circ> is_salary_rule) selected)) \<noteq> 1 then Unrecognized ''exact_rule_code_duplicate''
     else Recognized (map (\<lambda>(k, rows). \<lparr>xn_currency = is_currency (hd rows), xn_total = dsum (map is_total rows),
         xn_source_refs = source_refs [(''hr.payslip.line'', map is_source_line_id rows)]\<rparr>)
       (sort_key fst (rows_by (rr_id \<circ> is_currency) selected))))"

definition recognized_explanation :: "salary_item list \<Rightarrow> (string \<times> recognized) list" where
  "recognized_explanation items = map (\<lambda>code. (code, recognized_items items code)) [''BASIC'', ''GROSS'', ''NET'']"

record line_group =
  lg_category :: related
  lg_currency :: related
  lg_observed_total :: decimal
  lg_lines :: "salary_item list"

definition line_group_of :: "int \<times> salary_item list \<Rightarrow> line_group wf" where
  "line_group_of g =
    (case g of (i, rows) \<Rightarrow> let sample = hd rows in
     if \<not> list_all (\<lambda>l. rr_name (is_category l) = rr_name (is_category sample) \<and> is_currency l = is_currency sample) rows
     then Inl inconsistent_payroll
     else Inr \<lparr>lg_category = \<lparr>rr_id = i, rr_name = rr_name (is_category sample)\<rparr>, lg_currency = is_currency sample,
       lg_observed_total = dsum (map is_total rows), lg_lines = rows\<rparr>)"

definition line_groups :: "salary_item list \<Rightarrow> line_group list wf" where
  "line_groups items = emap line_group_of (sort_key fst (rows_by (rr_id \<circ> is_category) items))"

record line_arithmetic =
  ar_source_line_id :: int
  ar_quantity :: decimal
  ar_rate :: decimal
  ar_amount :: decimal
  ar_total :: decimal

definition line_arithmetic_of :: "salary_item \<Rightarrow> line_arithmetic" where
  "line_arithmetic_of l = \<lparr>ar_source_line_id = is_source_line_id l, ar_quantity = is_quantity l, ar_rate = is_rate l,
     ar_amount = is_amount l, ar_total = is_total l\<rparr>"

record explanation =
  en_request_id :: string
  en_company_id :: int
  en_observed_at :: int
  en_source_refs :: "source_ref list"
  en_limitations :: "string list"
  en_payslip :: compact_payslip
  en_line_groups :: "line_group list"
  en_line_arithmetic :: "line_arithmetic list"
  en_worked_days :: "worked_day_item list"
  en_inputs :: "input_item list"
  en_segments :: "segment_item list"
  en_recognized :: "(string \<times> recognized) list"
  en_missing :: "string list"

definition missing_evidence :: "(string \<times> recognized) list \<Rightarrow> contract_segment list \<Rightarrow> worked_day_item list \<Rightarrow> string list" where
  "missing_evidence recognized gs ws =
    List.map_filter (\<lambda>(code, v). case v of Recognized _ \<Rightarrow> None
      | Unrecognized _ \<Rightarrow> Some (''recognized_'' @ casefold code @ ''_unavailable'')) recognized
    @ (if gs = [] then [''contract_context_unavailable''] else [])
    @ (if ws = [] then [''worked_day_evidence_unavailable''] else [])"

definition explanation_of :: "payslip_report \<Rightarrow> contract_segment list \<Rightarrow> line_group list \<Rightarrow> explanation" where
  "explanation_of d gs groups =
    (let recognized = recognized_explanation (ps_salary_lines d); missing = missing_evidence recognized gs (ps_worked_days d) in
     \<lparr>en_request_id = ps_request_id d, en_company_id = ps_company_id d, en_observed_at = ps_observed_at d,
      en_source_refs = merge_refs [ps_source_refs d, segment_refs gs],
      en_limitations = sorted_set ([''employer_cost_not_authoritatively_available'', ''payroll_rule_logic_not_evaluated_locally'',
          ''work_entries_do_not_prove_physical_attendance''] @ missing
        @ (if list_ex (\<lambda>g. hc_source_status g = ''unavailable'') gs then [''contract_source_status_unavailable''] else [])),
      en_payslip = ps_payslip d, en_line_groups = groups, en_line_arithmetic = map line_arithmetic_of (ps_salary_lines d),
      en_worked_days = ps_worked_days d, en_inputs = ps_inputs d, en_segments = map segment_item_of gs,
      en_recognized = recognized, en_missing = sort missing\<rparr>)"

definition explain_payslip :: "detail_adapter \<Rightarrow> int \<Rightarrow> int \<Rightarrow> string \<Rightarrow> int \<Rightarrow> explanation wf option" where
  "explain_payslip ad company i request_id now =
    obind (get_payslip ad company i request_id now) (\<lambda>d.
    let p = ps_payslip d; who = cp_employee p in
    obind (olift (mk_payroll_period (cp_period_start p) (cp_period_end p))) (\<lambda>period.
    obind (olift (mk_contract_filters \<lparr>fc_employee_ids = [rr_id who], fc_period = period\<rparr>)) (\<lambda>f.
    obind (all_segments (payroll_adapter.truncate ad) company f) (\<lambda>gs.
    obind (olift (validate_segments company [rr_id who \<mapsto> rr_name who] period gs)) (\<lambda>_.
    if gs \<noteq> [] \<and> \<not> list_ex (\<lambda>g. hc_source_model g = cp_contract_source p \<and> hc_id g = rr_id (cp_contract p)) gs
    then Some (Inl inconsistent_payroll)
    else obind (olift (line_groups (ps_salary_lines d))) (\<lambda>groups.
    Some (Inr (explanation_of d gs groups))))))))"

end
