(* ===== verification/PayrollReviewProps.thy ===== *)
theory PayrollReviewProps
  imports PayrollReview PayrollTotals
begin

text \<open>
  The exceptions of an approval pack are exactly the employees with conflicting work entries: the conflict findings
  are the only critical ones, and sorting the findings keeps them in the order of the employees.
\<close>

lemma rows_by_map: "rows_by key ls = map (\<lambda>k. (k, filter (\<lambda>l. key l = k) ls)) (keys (rows_by key ls))"
proof -
  have "r = (fst r, filter (\<lambda>l. key l = fst r) ls)" if "r \<in> set (rows_by key ls)" for r
  proof -
    have "map_of (rows_by key ls) (fst r) = Some (snd r)"
      using that distinct_rows_by [of key ls] by (simp add: keys_def map_of_eq_Some_iff)
    then show ?thesis by (cases r) (simp add: map_of_rows_by split: if_splits)
  qed
  then have "map (\<lambda>r. (fst r, filter (\<lambda>l. key l = fst r) ls)) (rows_by key ls) = rows_by key ls"
    by (intro map_idI) simp
  then show ?thesis by (simp add: keys_def o_def)
qed

lemma sorted_rows: "sort_key fst (rows_by key ls) = map (\<lambda>k. (k, filter (\<lambda>l. key l = k) ls)) (sorted_set (map key ls))"
proof -
  have "sort (keys (rows_by key ls)) = sorted_set (map key ls)"
    using distinct_rows_by [of key ls] sorted_set_cong [of "keys (rows_by key ls)" "map key ls"]
    by (simp add: keys_rows_by sorted_set_def distinct_remdups_id)
  then show ?thesis
    by (subst rows_by_map) (simp add: sort_key_map o_def)
qed

text \<open>What a conflict finding says, and that no other finding is critical.\<close>

definition conflict_row :: "finding_row \<Rightarrow> string \<times> int option \<times> string option" where
  "conflict_row f = (fi_code f, map_option rr_id (fi_employee f), fi_target_value f)"

definition conflicts_of :: "pay_snapshot \<Rightarrow> int \<Rightarrow> nat" where
  "conflicts_of t i = length (filter (\<lambda>w. in_conflict w \<and> rr_id (hn_employee w) = i) (sp_entries t))"

definition conflicting :: "pay_snapshot \<Rightarrow> int list" where
  "conflicting t = sorted_set (map (rr_id \<circ> hn_employee) (filter in_conflict (sp_entries t)))"

lemma conflict_finding_fields:
  assumes "conflict_finding b t (i, rows) = Inr f"
  shows "fi_severity f = ''critical'' \<and> fi_code f = ''work_entry_conflict'' \<and> map_option rr_id (fi_employee f) = Some i
    \<and> fi_target_value f = Some (nat_text (length (filter in_conflict rows))) \<and> fi_salary_rule f = None \<and> fi_line_code f = None
    \<and> fi_baseline_value f = (case b of None \<Rightarrow> None | Some _ \<Rightarrow> Some ''0'')"
  using assms by (auto simp: conflict_finding_def with_values_def plain_finding_def name_of_def Let_def split: option.splits)

lemma conflict_rows:
  assumes "conflict_findings b t = Inr fs"
  shows "map conflict_row fs = map (\<lambda>i. (''work_entry_conflict'', Some i, Some (nat_text (conflicts_of t i)))) (conflicting t)"
    "list_all (\<lambda>f. fi_severity f = ''critical'') fs" "map finding_order fs = map (\<lambda>i. (''work_entry_conflict'', i, -1, [])) (conflicting t)"
proof -
  let ?row = "\<lambda>i. (i, filter (\<lambda>w. (rr_id \<circ> hn_employee) w = i) (filter in_conflict (sp_entries t)))"
  have all: "list_all2 (\<lambda>i f. conflict_finding b t (?row i) = Inr f) (conflicting t) fs"
    using assms by (simp add: conflict_findings_def sorted_rows emap_Inr list_all2_map1 conflicting_def)
  have n: "length (filter in_conflict (snd (?row i))) = conflicts_of t i" for i
    by (auto simp: conflicts_of_def intro!: arg_cong [where f = length] filter_cong)
  have one: "conflict_row f = (''work_entry_conflict'', Some i, Some (nat_text (conflicts_of t i)))
      \<and> fi_severity f = ''critical'' \<and> finding_order f = (''work_entry_conflict'', i, -1, [])"
    if "conflict_finding b t (?row i) = Inr f" for i f
  proof -
    note f = conflict_finding_fields [OF that]
    then obtain e where "fi_employee f = Some e" "rr_id e = i" by auto
    with f n [of i] show ?thesis by (simp add: conflict_row_def finding_order_def)
  qed
  show "map conflict_row fs = map (\<lambda>i. (''work_entry_conflict'', Some i, Some (nat_text (conflicts_of t i)))) (conflicting t)"
    using all by (induction rule: list_all2_induct) (simp_all add: one)
  show "list_all (\<lambda>f. fi_severity f = ''critical'') fs"
    using all by (induction rule: list_all2_induct) (simp_all add: one)
  show "map finding_order fs = map (\<lambda>i. (''work_entry_conflict'', i, -1, [])) (conflicting t)"
    using all by (induction rule: list_all2_induct) (simp_all add: one)
qed

lemma base_not_critical: "list_all (\<lambda>f. fi_severity f \<noteq> ''critical'') (base_findings b t lines contracts)"
  by (auto simp: base_findings_def list_all_iff new_employee_def missing_employee_def count_finding_def contract_finding_def
    line_finding_def currency_finding_def with_values_def plain_finding_def Let_def List.map_filter_def split: if_splits)

lemma threshold_not_critical:
  assumes "threshold_findings b t lines worked profile = Inr fs"
  shows "list_all (\<lambda>f. fi_severity f \<noteq> ''critical'') fs"
proof -
  have money: "fi_severity f = ''review''" if "money_finding b t profile c = Inr (Some f)" for c f
    using that by (auto simp: money_finding_def with_values_def plain_finding_def split: option.splits)
  have worked: "fi_severity f = ''review''" if "hours_finding b t profile h = Inr (Some f)" for h f
    using that by (auto simp: hours_finding_def with_values_def plain_finding_def Let_def)
  from assms obtain xs ys where xy: "emap (money_finding b t profile) lines = Inr xs" "emap (hours_finding b t profile) worked = Inr ys"
    "fs = List.map_filter id xs @ List.map_filter id ys" by (auto simp: threshold_findings_def)
  have "fi_severity f = ''review''" if "Some f \<in> set xs" for f
    using xy(1) that money by (auto simp: emap_Inr list_all2_conv_all_nth in_set_conv_nth)
  moreover have "fi_severity f = ''review''" if "Some f \<in> set ys" for f
    using xy(2) that worked by (auto simp: emap_Inr list_all2_conv_all_nth in_set_conv_nth)
  ultimately show ?thesis by (fastforce simp: xy(3) list_all_iff List.map_filter_def)
qed

lemma pack_exceptions:
  assumes "pack_findings b t profile = Inr fs"
  shows "map conflict_row (filter (\<lambda>f. fi_severity f = ''critical'') fs)
    = map (\<lambda>i. (''work_entry_conflict'', Some i, Some (nat_text (conflicts_of t i)))) (conflicting t)"
proof -
  have "\<exists>cs others. conflict_findings b t = Inr cs \<and> fs = sort_key finding_order (cs @ others)
    \<and> list_all (\<lambda>f. fi_severity f \<noteq> ''critical'') others"
  proof (cases b)
    case None
    with assms show ?thesis by (intro exI [of _ "projr (conflict_findings b t)"] exI [of _ "[]"]) (auto simp: pack_findings_def)
  next
    case (Some x)
    with assms obtain cs lines contracts deviations worked where "conflict_findings b t = Inr cs"
      "threshold_findings x t lines worked profile = Inr deviations"
      "fs = sort_key finding_order (cs @ base_findings x t lines contracts @ deviations)"
      by (auto simp: pack_findings_def)
    with threshold_not_critical base_not_critical show ?thesis
      by (intro exI [of _ cs] exI [of _ "base_findings x t lines contracts @ deviations"]) auto
  qed
  then obtain cs others where c: "conflict_findings b t = Inr cs" and fs: "fs = sort_key finding_order (cs @ others)"
    and oth: "list_all (\<lambda>f. fi_severity f \<noteq> ''critical'') others" by blast
  then have none: "filter (\<lambda>f. fi_severity f = ''critical'') others = []" by (simp add: filter_empty_conv list_all_iff)
  have all: "filter (\<lambda>f. fi_severity f = ''critical'') cs = cs" using conflict_rows(2) [OF c] by (simp add: filter_id_conv list_all_iff)
  have "sorted (map finding_order cs)"
    unfolding conflict_rows(3) [OF c] conflicting_def sorted_set_def by (auto simp: sorted_wrt_map intro!: sorted_wrt_mono_rel [OF _ sorted_sort])
  then have "filter (\<lambda>f. fi_severity f = ''critical'') fs = cs"
    unfolding fs filter_sort by (simp add: none all sort_key_id_if_sorted)
  with conflict_rows(1) [OF c] show ?thesis by simp
qed

lemma pack_parts:
  assumes "approval_pack_of r rid now company b t = Inr k"
  shows "\<exists>fs. pack_findings b t (kq_threshold_profile r) = Inr fs \<and> ap_exceptions k = filter (\<lambda>f. fi_severity f = ''critical'') fs"
proof -
  obtain x where x: "observed_totals (sp_lines t) = Inr x"
    using assms by (cases "observed_totals (sp_lines t)") (simp_all add: approval_pack_of_def)
  obtain v where v: "pack_variance b t = Inr v"
    using assms by (cases "pack_variance b t") (simp_all add: approval_pack_of_def x split: prod.splits)
  obtain fs where fs: "pack_findings b t (kq_threshold_profile r) = Inr fs"
    using assms by (cases "pack_findings b t (kq_threshold_profile r)") (simp_all add: approval_pack_of_def x v split: prod.splits)
  obtain q z where q: "x = (q, z)" by (cases x)
  note k = assms [unfolded approval_pack_of_def x v fs q ebind_simps prod.case Let_def sum.inject]
  have "ap_exceptions k = filter (\<lambda>f. fi_severity f = ''critical'') fs"
    by (subst k [symmetric]) simp
  with fs show ?thesis by blast
qed

text \<open>C40 (no conflicting work entry is hidden). The exceptions of an approval pack are exactly one conflict per employee with
  conflicting work entries in the target period, in the order of the employees, with the number of these
  entries; with a baseline or without, and whatever the other findings are.\<close>

theorem exceptions_are_the_conflicts:
  assumes "prepare_payroll_approval_pack ad r rid now = Some (Inr k)"
  shows "\<exists>t. load_snapshot ad (kq_company_id r) (kq_target_period r) (kq_employee_ids r) (kq_states r) True = Some (Inr t)
    \<and> map conflict_row (ap_exceptions k)
      = map (\<lambda>i. (''work_entry_conflict'', Some i, Some (nat_text (conflicts_of t i)))) (conflicting t)"
proof -
  note steps = assms [unfolded prepare_payroll_approval_pack_def obind_Some_Inr Let_def]
  from steps obtain company b t where t: "load_snapshot ad (kq_company_id r) (kq_target_period r) (kq_employee_ids r) (kq_states r) True = Some (Inr t)"
    and k: "approval_pack_of r rid now company b t = Inr k"
    by (elim exE conjE) simp
  from pack_parts [OF k] obtain fs where fs: "pack_findings b t (kq_threshold_profile r) = Inr fs"
    and e: "ap_exceptions k = filter (\<lambda>f. fi_severity f = ''critical'') fs" by blast
  from pack_exceptions [OF fs] t show ?thesis unfolding e by blast
qed

text \<open>A conflict finding gives 0 as the value of the baseline whatever its entries are.\<close>

lemma conflict_baseline_is_zero:
  assumes "conflict_findings (Some b) t = Inr fs"
  shows "list_all (\<lambda>f. fi_baseline_value f = Some ''0'') fs"
proof -
  have "list_all2 (\<lambda>g f. conflict_finding (Some b) t g = Inr f)
      (sort_key fst (rows_by (rr_id \<circ> hn_employee) (filter in_conflict (sp_entries t)))) fs"
    using assms by (simp add: conflict_findings_def emap_Inr)
  then show ?thesis
    by (induction rule: list_all2_induct) (auto dest!: conflict_finding_fields)
qed

end
