(* ===== verification/PayrollReviewDemo.thy ===== *)
theory PayrollReviewDemo
  imports PayrollReviewProps PayrollDemo
begin

text \<open>The theorem on approval packs applied to a period with one conflicting work entry.\<close>

definition demo_work_entry :: work_entry where
  "demo_work_entry = \<lparr>hn_id = 5, hn_employee = demo_person, hn_company_id = 1, hn_contract_segment = None, hn_contract_source = None,
     hn_date_start = 20031, hn_date_end = 20031, hn_duration = Dec 8 0, hn_type = \<lparr>rr_id = 2, rr_name = ''Work''\<rparr>,
     hn_code = ''W'', hn_state = ''conflict'', hn_conflict = True, hn_write_date = ''w''\<rparr>"

definition demo_conflict :: payroll_adapter where
  "demo_conflict = demo_payroll\<lparr>
     hr_companies := Inr [\<lparr>co_id = 1, co_name = ''Co'', co_currency = None, co_root_id = None\<rparr>],
     hr_work_entries := (\<lambda>c f. single_page [demo_work_entry])\<rparr>"

definition demo_pack :: pack_request where
  "demo_pack = \<lparr>kq_company_id = 1, kq_target_period = demo_period 20030, kq_baseline_period = None, kq_employee_ids = [],
     kq_states = [''done''], kq_threshold_profile = ''standard''\<rparr>"

definition demo_target :: pay_snapshot where
  "demo_target = \<lparr>sp_period = demo_period 20030, sp_payslips = [demo_slip 2 20030], sp_lines = [demo_line 2 (demo_amount 2)],
     sp_segments = [], sp_entries = [demo_work_entry]\<rparr>"

lemma demo_target_loaded: "load_snapshot demo_conflict 1 (demo_period 20030) [] [''done''] True = Some (Inr demo_target)"
proof -
  have one: "collect_pages (single_page [demo_work_entry]) hn_id max_work_entries = Some (Inr [demo_work_entry])"
    by (rule collect_one) (simp_all add: demo_work_entry_def max_work_entries_def)
  have "load_context demo_conflict 1 (demo_period 20030) e [3] = Some (Inr ([], [demo_work_entry]))" if "e 3 = Some ''Ada''" for e
  proof -
    have ok: "validate_work_entries 1 e (demo_period 20030) [] [demo_work_entry] = Inr ()" using that
      by (simp add: validate_work_entries_def check_entry_def entry_ok_def register_def named_def demo_work_entry_def demo_period_def
        demo_person_def dless_val dec_val_def dzero_def)
    have src: "hr_segments demo_conflict = (\<lambda>c f. single_page [])" "hr_work_entries demo_conflict = (\<lambda>c f. single_page [demo_work_entry])"
      by (simp_all add: demo_conflict_def demo_payroll_def)
    show ?thesis
      by (simp add: load_context_def mk_contract_filters_def mk_entry_filters_def ids_ok_def entry_states_def all_segments_def
        all_work_entries_def src collect_none one validate_segments_def ok)
  qed
  then show ?thesis
    unfolding demo_target_def by (intro demo_loaded_with) (simp_all add: pays_like_demo_def demo_conflict_def)
qed

lemma demo_pack_made: "\<exists>k. prepare_payroll_approval_pack demo_conflict demo_pack ''r'' 0 = Some (Inr k)"
proof -
  have c: "pack_company 1 [\<lparr>co_id = 1, co_name = ''Co'', co_currency = None, co_root_id = None\<rparr>] = Inr \<lparr>rr_id = 1, rr_name = ''Co''\<rparr>"
    by (simp add: pack_company_def)
  have caps: "enforce_caps [demo_target] = Inr ()"
    by (simp add: enforce_caps_def demo_target_def max_payslips_def max_lines_def max_work_entries_def)
  have cross: "validate_cross_metadata [demo_target] = Inr ()"
    by (simp add: validate_cross_metadata_def demo_target_def note_rule_def snapshot_references_def demo_line_def demo_slip_def
      demo_work_entry_def named_def opt_named_def register_def demo_person_def demo_contract_def demo_euro_def Let_def)
  have "finishes (observed_totals (sp_lines demo_target))" "finishes (pack_findings None demo_target ''standard'')" by code_simp+
  then obtain x fs where p: "observed_totals (sp_lines demo_target) = Inr x" "pack_findings None demo_target ''standard'' = Inr fs"
    by (auto dest!: finishesD)
  have "\<exists>k. approval_pack_of demo_pack ''r'' 0 \<lparr>rr_id = 1, rr_name = ''Co''\<rparr> None demo_target = Inr k"
    by (cases x) (simp add: approval_pack_of_def p demo_pack_def pack_variance_def Let_def)
  then obtain k where k: "approval_pack_of demo_pack ''r'' 0 \<lparr>rr_id = 1, rr_name = ''Co''\<rparr> None demo_target = Inr k" ..
  have q: "hr_companies demo_conflict = Inr [\<lparr>co_id = 1, co_name = ''Co'', co_currency = None, co_root_id = None\<rparr>]"
    "kq_company_id demo_pack = 1" "kq_baseline_period demo_pack = None" "kq_target_period demo_pack = demo_period 20030"
    "kq_employee_ids demo_pack = []" "kq_states demo_pack = [''done'']" by (simp_all add: demo_conflict_def demo_pack_def)
  show ?thesis
    by (intro exI [of _ k]) (simp add: prepare_payroll_approval_pack_def q c demo_target_loaded caps cross k)
qed

lemma exceptions_are_the_conflicts_witness:
  "\<exists>k. prepare_payroll_approval_pack demo_conflict demo_pack ''r'' 0 = Some (Inr k)
    \<and> map conflict_row (ap_exceptions k) = [(''work_entry_conflict'', Some 3, Some (nat_text 1))]"
proof -
  from demo_pack_made obtain k where k: "prepare_payroll_approval_pack demo_conflict demo_pack ''r'' 0 = Some (Inr k)" ..
  have q: "kq_company_id demo_pack = 1" "kq_target_period demo_pack = demo_period 20030"
    "kq_employee_ids demo_pack = []" "kq_states demo_pack = [''done'']" by (simp_all add: demo_pack_def)
  have c: "conflicting demo_target = [3]" "conflicts_of demo_target 3 = 1"
    by (simp_all add: conflicting_def conflicts_of_def sorted_set_def demo_target_def demo_work_entry_def in_conflict_def demo_person_def)
  from exceptions_are_the_conflicts [OF k] have "map conflict_row (ap_exceptions k)
      = map (\<lambda>i. (''work_entry_conflict'', Some i, Some (nat_text (conflicts_of demo_target i)))) (conflicting demo_target)"
    by (auto simp: q demo_target_loaded)
  with k c show ?thesis by auto
qed

end
