(* ===== verification/Spec2Isabelle.thy ===== *)
theory Spec2Isabelle
  imports Prelude Json ErrorCodes Registry Policy Clock Database AuditLog Repositories Execution WriteModel
    WriteSafety WriteConcurrency AuthTables Connections SharedAuth Lifecycle AuthInvariant Authority AuthProps
    ConnectionProps Decimals Paging AccountingTypes Reconcile ReconcileProps ReconcileDemo
    Reports ReportLoops Amounts TrialProps Statements Rounding ExactRounding WholeAmounts StatementProps Aging AgingProps Cashbook
    CurrencyRates CursorParts ReportPages ReportDemo
    Journals JournalWrites JournalProps JournalPages JournalDemo Invoicing InvoiceWrites InvoiceProps PaymentAdapter PaymentProps
    InvoiceDemo
    PayrollTypes PayrollEvidence PayrollReads PayrollPages PayrollCursors PayrollSnapshot PayrollCompare PayrollFindings
    PayrollAnalysis PayrollTotals PayrollRequests PayrollDemo PayrollDetails PayrollReview
    PayrollReviewProps PayrollReviewDemo
begin

text \<open>
  Verification of the Odoo MCP server.

  The program is a server that gives a language model guarded access to one company's books and payroll in Odoo.
  Tools are registered with what they may do; reads run as workflows over an adapter to Odoo and answer in
  pages; writes pass through one coordinator that checks authority, prepares, asks, executes at most once and
  records everything; hosted users bind their Odoo credentials through OAuth. All sources are named relative to
  \<open>src/src/odoo_mcp\<close>.

  This theory imports the whole development. It states nothing itself; every property stands in the theory of
  its component under its number.
\<close>

section \<open>Parts and theories\<close>

text \<open>
  \<^bold>\<open>Vocabulary.\<close> \<open>Prelude\<close> (exceptions as sums, \<open>ebind\<close>, \<open>emap\<close>, \<open>each_ok\<close>, text and dictionaries), \<open>Json\<close>
  (\<open>storage/json_support.py\<close>: values, the canonical text with its reader, redaction), \<open>ErrorCodes\<close>
  (\<open>mcp/error_codes.py\<close>), \<open>Clock\<close> (instants and their text).

  \<^bold>\<open>Storage.\<close> \<open>Database\<close> (tables as lists of records, transactions that roll back), \<open>AuditLog\<close>
  (\<open>storage/audit.py\<close>: the hash chain), \<open>Repositories\<close> (\<open>storage/repositories.py\<close>), \<open>Execution\<close>
  (\<open>storage/execution.py\<close>, \<open>storage/proposals.py\<close>, \<open>storage/reporting.py\<close>: several tables in one transaction).

  \<^bold>\<open>Guarded writes.\<close> \<open>Registry\<close> (\<open>mcp/registry.py\<close>), \<open>Policy\<close> (\<open>adapters/odoo/policy.py\<close>,
  \<open>workflows/core/capabilities.py\<close>), \<open>WriteModel\<close> and \<open>WriteSafety\<close> (\<open>policy/write_safety.py\<close>: the coordinator, in
  steps between its awaits), \<open>WriteConcurrency\<close> (any number of such requests interleaved, as an inductive step
  relation with reachable states).

  \<^bold>\<open>Hosted authority.\<close> \<open>AuthTables\<close>, \<open>Connections\<close> (\<open>storage/connections.py\<close>: encryption bound to its row),
  \<open>SharedAuth\<close> (\<open>app/shared_auth.py\<close>: the OAuth provider), \<open>Lifecycle\<close> (\<open>app/shared_lifecycle.py\<close>), \<open>AuthInvariant\<close>,
  \<open>Authority\<close> (all of them as one system of operations), \<open>AuthProps\<close>, \<open>ConnectionProps\<close>.

  \<^bold>\<open>Money and pages.\<close> \<open>Decimals\<close> (the \<open>decimal\<close> module at 28 digits), \<open>Paging\<close> (the loop over the pages of an
  adapter and the cut of a result into pages; its locales are the three reasons why such a loop ends and the law of
  cursors), \<open>AccountingTypes\<close> (\<open>adapters/accounting.py\<close>: the records, and the adapter as a parameter), \<open>Amounts\<close>,
  \<open>Rounding\<close>, \<open>ExactRounding\<close>, \<open>WholeAmounts\<close> (when sums and roundings are exact), \<open>CursorParts\<close>.

  \<^bold>\<open>Accounting.\<close> \<open>Reconcile\<close>, \<open>ReconcileProps\<close> (\<open>workflows/accounting/reconcile_bank.py\<close>); \<open>Reports\<close>, \<open>ReportLoops\<close>,
  \<open>TrialProps\<close>, \<open>Statements\<close>, \<open>StatementProps\<close>, \<open>Aging\<close>, \<open>AgingProps\<close>, \<open>ReportPages\<close> (\<open>workflows/accounting/reports.py\<close>);
  \<open>Cashbook\<close> (\<open>cashbook.py\<close>); \<open>CurrencyRates\<close> (\<open>currency_rates.py\<close>); \<open>Journals\<close>, \<open>JournalWrites\<close>, \<open>JournalProps\<close>,
  \<open>JournalPages\<close> (\<open>journals.py\<close>); \<open>Invoicing\<close>, \<open>InvoiceWrites\<close>, \<open>InvoiceProps\<close>, \<open>PaymentProps\<close> (\<open>invoicing.py\<close>);
  \<open>PaymentAdapter\<close> (the payment preview of \<open>adapters/odoo/accounting.py\<close>).

  \<^bold>\<open>Payroll.\<close> \<open>PayrollTypes\<close> (\<open>adapters/payroll.py\<close>), \<open>PayrollEvidence\<close>, \<open>PayrollReads\<close>, \<open>PayrollPages\<close>,
  \<open>PayrollCursors\<close>, \<open>PayrollDetails\<close> (\<open>workflows/payroll/evidence.py\<close>), \<open>PayrollSnapshot\<close>, \<open>PayrollCompare\<close>,
  \<open>PayrollFindings\<close>, \<open>PayrollAnalysis\<close>, \<open>PayrollTotals\<close>, \<open>PayrollReview\<close>, \<open>PayrollReviewProps\<close>
  (\<open>workflows/payroll/analysis.py\<close>), \<open>PayrollRequests\<close> (\<open>mcp/payroll_schemas.py\<close>).

  The theories named \<open>Demo\<close> apply the theorems to small concrete inputs.
\<close>

section \<open>How the code is rendered\<close>

text \<open>
  A class is a record whose fields carry a prefix of two letters (\<open>sl_\<close> a payslip, \<open>ml_\<close> a move line, \<open>ik_\<close> an
  idempotency row), a \<open>Literal\<close> or an enumeration is a datatype or a checked string, a function is a definition
  with the name it has in the code (without the underscore). An exception is the left of a sum: \<open>odoo_error\<close> for
  the errors of the protocol, \<open>wf_error\<close> for workflows, where \<open>Mcp\<close> is a public error and the other
  constructors are Python exceptions that escape. A pydantic model with validators is a record with a
  function \<open>mk_\<close>, which refuses what the validators refuse. A call that may not return is an option.

  A transaction is a function on the database that either commits its result or leaves the database as it was. The
  coordinator is a composition of steps; an oracle argument supplies what the adapter callbacks, the clock and the
  failures of a step are, so that every theorem holds for all of them.

  The interfaces are locales, interpreted on the definitions of the model: the loops and cursors of \<open>Paging\<close>, the
  hashed entries of the log, the slots of the execution journal, states that only move forward, the store of the hosted
  authority under any operation.

  A loop over pages is \<open>drain\<close>, a partial function; that it returns is proved and not assumed, by the law of one of
  the locales: a measure that falls, records that are counted against a limit, or the cursors that were seen. The
  limits (pages of 100, 200 or 500 records; 100,000 accounting records; 5,000 payslips and 100,000 lines) are those
  of the code. Two loops of the code have no such reason, and \<open>JournalPages\<close> shows the run that does not end.
\<close>

section \<open>What the lemmas show\<close>

text \<open>
  For guarded writes: execution only behind all gates, a response that tells the truth, no repetition after an
  uncertain outcome, one owner of a slot under any interleaving, atomic journals. For the log: each append keeps
  the chain, and two verified chains with the same last hash hold the same entries, unless the digest collides. For the
  hosted authority: an invariant over all sequences of operations, codes and tokens that work once or not at all
  after revocation, ciphertexts that open only in their row. For accounting: the trial balance refines an abstract
  ledger, the rows and totals of the balance sheet are the sums of the posted lines and satisfy its equation, aged
  balances, open documents and the cashbook are the exact sums of their specifications, proposals are the justified
  matches and none is missed, drafts balance, payments fit one route and stay within the residual. For payroll:
  a read is whole or refused, a cursor belongs to its request and records, the three views of a comparison
  agree, line changes are complete, accepted requests are answered, conflicts are never hidden.

  Sums are exact where the amounts fit: \<open>fits p b d\<close> says that an amount has at most p places and is smaller than
  b, and \<open>amount_unit\<close> is small enough for 100,000 records to add up within 28 digits. Outside of that the
  definitions still round as the code does, but the theorems are silent. Where the code compares amounts after
  rounding them to the currency, an equality is exact for amounts in whole increments (\<open>whole_amount\<close>) and holds only
  up to the rounding for others.
\<close>

section \<open>Parameters\<close>

text \<open>
  Not under the repository, and arguments of the definitions: the digest (theorems are stated up to a collision of two
  given texts, and for cursors with the fact that digests are written in plain characters), the cipher (a pair of functions;
  where a theorem needs it, with the documented law of AES-GCM that only the same key and associated data open a text),
  randomness, the clock, SQLite's transactions, and the answers of the Odoo adapter, which need not be
  consistent from page to page.
\<close>

section \<open>Choices\<close>

text \<open>
  Instants are microseconds and dates are day numbers, with their text by \<open>isoformat\<close>; a \<open>write_date\<close> is held as
  its text. Strings are lists of bytes; \<open>strip\<close>, \<open>casefold\<close> and lengths are those of ASCII text. A decimal has
  an unbounded exponent, and negative zero is zero. Coercions that pydantic performs in its lax mode count as
  refusals. Dictionaries whose order shows are lists of pairs, the others are maps.
\<close>

section \<open>Not modelled\<close>

text \<open>
  The transports and readers of \<open>adapters/odoo\<close> (requests over the network and the parsing of what Odoo answers), but
  for the payment preview, the
  HTTP shells, settings and start-up of \<open>app\<close>, the registration of tools in \<open>mcp/server.py\<close> and \<open>mcp/payroll.py\<close>
  with their rate limits, and the live scripts consist of input and output around the modelled functions. The
  payroll writes (\<open>workflows/payroll/writes.py\<close>) and the storage service (files, backup, restore) are left out. Of
  \<open>storage/migrations.py\<close> the tables are modelled, not the migration of old files; of the request schemas the
  ones of payroll listings and comparisons, while those of accounting are the records of the workflow theories.
\<close>

end
